(* ===== verification/Lili_Prelude.thy ===== *)
theory Lili_Prelude
  imports Main "HOL-Library.Word" "HOL-Library.List_Lexorder"
    "HOL-Library.Product_Lexorder" "HOL-Library.Char_ord"
begin

text \<open>
  Shared vocabulary of the development: Rust strings as lists of Unicode scalar values with
  their UTF-8 byte view, the character classes of \<^verbatim>\<open>char\<close> and \<^verbatim>\<open>str\<close> the sources call, saturating
  machine arithmetic, results as sums, and \<^verbatim>\<open>BTreeMap\<close> as a key-sorted association list. The
  locales at the end state the two container contracts the components share: a finite map and a
  bounded first-in first-out history.
\<close>

named_theorems lili_defs \<open>definitions unfolded when a concrete run is evaluated\<close>
named_theorems inv_intros \<open>preservation lemmas of component invariants\<close>

section \<open>Machine integers\<close>

text \<open>
  Unsigned 64-bit values that the sources combine only by saturating operations and comparisons
  are natural numbers with the saturation written out.
\<close>

definition u64_max :: nat where
  "u64_max = 18446744073709551615"

definition i64_max :: int where
  "i64_max = 9223372036854775807"

definition i64_min :: int where
  "i64_min = - 9223372036854775808"

definition sat_add :: "nat \<Rightarrow> nat \<Rightarrow> nat" where
  "sat_add a b = min (a + b) u64_max"

definition abs_diff :: "nat \<Rightarrow> nat \<Rightarrow> nat" where
  "abs_diff a b = (if a < b then b - a else a - b)"

definition sat_add_i64 :: "int \<Rightarrow> int \<Rightarrow> int" where
  "sat_add_i64 a b = max i64_min (min i64_max (a + b))"

definition sat_sub_i64 :: "int \<Rightarrow> int \<Rightarrow> int" where
  "sat_sub_i64 a b = max i64_min (min i64_max (a - b))"

text \<open>\<^verbatim>\<open>i64::try_from(x).unwrap_or(i64::MAX)\<close> for an unsigned \<^verbatim>\<open>x\<close>, and its converse.\<close>

definition i64_of_u64 :: "nat \<Rightarrow> int" where
  "i64_of_u64 x = (if int x \<le> i64_max then int x else i64_max)"

definition u64_of_i64 :: "int \<Rightarrow> nat" where
  "u64_of_i64 x = (if 0 \<le> x then nat x else u64_max)"

lemma sat_add_le_max [simp]: "sat_add a b \<le> u64_max"
  by (simp add: sat_add_def)

lemma sat_add_ge_left: "a \<le> u64_max \<Longrightarrow> a \<le> sat_add a b"
  by (simp add: sat_add_def)

lemma sat_add_ge_right: "b \<le> u64_max \<Longrightarrow> b \<le> sat_add a b"
  by (simp add: sat_add_def)

lemma sat_add_mono: "a \<le> b \<Longrightarrow> sat_add a c \<le> sat_add b c"
  by (simp add: sat_add_def)

lemma sat_add_exact: "a + b \<le> u64_max \<Longrightarrow> sat_add a b = a + b"
  by (simp add: sat_add_def)

lemma sat_add_Suc_exact: "a < u64_max \<Longrightarrow> sat_add a 1 = Suc a"
  by (simp add: sat_add_def)

section \<open>Results\<close>

text \<open>\<^verbatim>\<open>Result<T, E>\<close> is the sum \<open>'e + 'a\<close> with the error on the left; \<open>rbind\<close> is the \<^verbatim>\<open>?\<close> operator.\<close>

fun rbind :: "'e + 'a \<Rightarrow> ('a \<Rightarrow> 'e + 'b) \<Rightarrow> 'e + 'b" where
  "rbind (Inl e) f = Inl e"
| "rbind (Inr x) f = f x"

definition ok_or :: "'e \<Rightarrow> 'a option \<Rightarrow> 'e + 'a" where
  "ok_or e v = (case v of None \<Rightarrow> Inl e | Some x \<Rightarrow> Inr x)"

definition check :: "bool \<Rightarrow> 'e \<Rightarrow> 'e + unit" where
  "check b e = (if b then Inr () else Inl e)"

fun map_err :: "('e \<Rightarrow> 'f) \<Rightarrow> 'e + 'a \<Rightarrow> 'f + 'a" where
  "map_err f (Inl e) = Inl (f e)"
| "map_err f (Inr x) = Inr x"

fun result_ok :: "'e + 'a \<Rightarrow> 'a option" where
  "result_ok (Inl e) = None"
| "result_ok (Inr x) = Some x"

fun is_ok :: "'e + 'a \<Rightarrow> bool" where
  "is_ok (Inl e) = False"
| "is_ok (Inr x) = True"

lemma rbind_Inr_iff: "rbind r f = Inr y \<longleftrightarrow> (\<exists>x. r = Inr x \<and> f x = Inr y)"
  by (cases r) auto

lemma rbind_Inl_iff: "rbind r f = Inl e \<longleftrightarrow> r = Inl e \<or> (\<exists>x. r = Inr x \<and> f x = Inl e)"
  by (cases r) auto

lemma check_Inr_iff [simp]: "check b e = Inr u \<longleftrightarrow> b"
  by (simp add: check_def)

lemma check_Inl_iff [simp]: "check b e = Inl e' \<longleftrightarrow> \<not> b \<and> e' = e"
  by (auto simp: check_def)

lemma ok_or_Inr_iff [simp]: "ok_or e v = Inr x \<longleftrightarrow> v = Some x"
  by (auto simp: ok_or_def split: option.splits)

lemma ok_or_Inl_iff [simp]: "ok_or e v = Inl e' \<longleftrightarrow> v = None \<and> e' = e"
  by (auto simp: ok_or_def split: option.splits)

lemma map_err_Inr_iff [simp]: "map_err f r = Inr x \<longleftrightarrow> r = Inr x"
  by (cases r) auto

lemma map_err_Inl_iff: "map_err f r = Inl e \<longleftrightarrow> (\<exists>d. r = Inl d \<and> e = f d)"
  by (cases r) auto

lemma result_ok_Some_iff [simp]: "result_ok r = Some x \<longleftrightarrow> r = Inr x"
  by (cases r) auto

lemma is_ok_iff: "is_ok r \<longleftrightarrow> (\<exists>x. r = Inr x)"
  by (cases r) auto

section \<open>Strings\<close>

type_synonym uchar = nat
type_synonym rstr = "uchar list"
type_synonym byte = "8 word"

text \<open>\<open>lit\<close> reads an ASCII literal as a Rust string.\<close>

definition lit :: "string \<Rightarrow> rstr" where
  "lit s = map of_char s"

definition utf8_width :: "uchar \<Rightarrow> nat" where
  "utf8_width c = (if c < 128 then 1 else if c < 2048 then 2 else if c < 65536 then 3 else 4)"

definition utf8_code :: "uchar \<Rightarrow> nat list" where
  "utf8_code c =
     (if c < 128 then [c]
      else if c < 2048 then [192 + c div 64, 128 + c mod 64]
      else if c < 65536 then [224 + c div 4096, 128 + (c div 64) mod 64, 128 + c mod 64]
      else [240 + c div 262144, 128 + (c div 4096) mod 64, 128 + (c div 64) mod 64,
            128 + c mod 64])"

definition utf8_bytes :: "rstr \<Rightarrow> byte list" where
  "utf8_bytes s = map of_nat (concat (map utf8_code s))"

text \<open>\<^verbatim>\<open>str::len\<close> counts UTF-8 bytes; \<^verbatim>\<open>chars().count()\<close> is the length of the list.\<close>

definition byte_len :: "rstr \<Rightarrow> nat" where
  "byte_len s = sum_list (map utf8_width s)"

lemma length_utf8_code: "length (utf8_code c) = utf8_width c"
  by (simp add: utf8_code_def utf8_width_def)

lemma length_utf8_bytes: "length (utf8_bytes s) = byte_len s"
  by (induction s) (auto simp: utf8_bytes_def byte_len_def length_utf8_code)

lemma byte_len_simps [simp]:
  "byte_len [] = 0"
  "byte_len (c # s) = utf8_width c + byte_len s"
  "byte_len (s @ t) = byte_len s + byte_len t"
  by (simp_all add: byte_len_def)

lemma utf8_width_bounds: "1 \<le> utf8_width c" "utf8_width c \<le> 4"
  by (simp_all add: utf8_width_def)

lemma length_le_byte_len: "length s \<le> byte_len s"
  by (induction s) (auto simp: utf8_width_def)

lemma byte_len_le: "byte_len s \<le> 4 * length s"
proof (induction s)
  case (Cons c s)
  then show ?case using utf8_width_bounds(2) [of c] by simp
qed simp

lemma byte_len_0_iff [simp]: "byte_len s = 0 \<longleftrightarrow> s = []"
  using length_le_byte_len [of s] by (cases s) auto

lemma byte_len_ascii: "\<forall>c \<in> set s. c < 128 \<Longrightarrow> byte_len s = length s"
  by (induction s) (auto simp: utf8_width_def)

subsection \<open>Character classes\<close>

text \<open>\<^verbatim>\<open>char::is_control\<close> is the Unicode category Cc; \<^verbatim>\<open>char::is_whitespace\<close> the White\_Space property.\<close>

definition is_control :: "uchar \<Rightarrow> bool" where
  "is_control c \<longleftrightarrow> c < 32 \<or> (127 \<le> c \<and> c \<le> 159)"

definition is_whitespace :: "uchar \<Rightarrow> bool" where
  "is_whitespace c \<longleftrightarrow> (9 \<le> c \<and> c \<le> 13) \<or> c = 32 \<or> c = 133 \<or> c = 160 \<or> c = 5760
     \<or> (8192 \<le> c \<and> c \<le> 8202) \<or> c = 8232 \<or> c = 8233 \<or> c = 8239 \<or> c = 8287 \<or> c = 12288"

definition ascii_lower :: "uchar \<Rightarrow> uchar" where
  "ascii_lower c = (if 65 \<le> c \<and> c \<le> 90 then c + 32 else c)"

definition is_ascii_alphabetic :: "byte \<Rightarrow> bool" where
  "is_ascii_alphabetic b = (let n = unat b in (65 \<le> n \<and> n \<le> 90) \<or> (97 \<le> n \<and> n \<le> 122))"

definition is_ascii_digit :: "byte \<Rightarrow> bool" where
  "is_ascii_digit b = (let n = unat b in 48 \<le> n \<and> n \<le> 57)"

definition is_ascii_alphanumeric :: "byte \<Rightarrow> bool" where
  "is_ascii_alphanumeric b \<longleftrightarrow> is_ascii_alphabetic b \<or> is_ascii_digit b"

definition is_ascii_hexdigit :: "byte \<Rightarrow> bool" where
  "is_ascii_hexdigit b = (let n = unat b in
     (48 \<le> n \<and> n \<le> 57) \<or> (65 \<le> n \<and> n \<le> 70) \<or> (97 \<le> n \<and> n \<le> 102))"

text \<open>The byte class shared by pet, asset and action identifiers: alphanumeric or one of \<^verbatim>\<open>- _ .\<close>\<close>

definition is_identifier_byte :: "byte \<Rightarrow> bool" where
  "is_identifier_byte b \<longleftrightarrow> is_ascii_alphanumeric b \<or> unat b = 45 \<or> unat b = 95 \<or> unat b = 46"

definition has_control :: "rstr \<Rightarrow> bool" where
  "has_control s = list_ex is_control s"

lemma has_control_iff: "has_control s \<longleftrightarrow> (\<exists>c \<in> set s. is_control c)"
  by (simp add: has_control_def list_ex_iff)

lemma has_control_append [simp]: "has_control (s @ t) \<longleftrightarrow> has_control s \<or> has_control t"
  by (simp add: has_control_def)

subsection \<open>Splitting, joining and searching\<close>

fun split_on :: "(uchar \<Rightarrow> bool) \<Rightarrow> rstr \<Rightarrow> rstr list" where
  "split_on p [] = [[]]"
| "split_on p (c # s) =
     (if p c then [] # split_on p s
      else (case split_on p s of [] \<Rightarrow> [[c]] | w # ws \<Rightarrow> (c # w) # ws))"

definition split_whitespace :: "rstr \<Rightarrow> rstr list" where
  "split_whitespace s = filter (\<lambda>w. w \<noteq> []) (split_on is_whitespace s)"

fun join :: "rstr \<Rightarrow> rstr list \<Rightarrow> rstr" where
  "join sep [] = []"
| "join sep [w] = w"
| "join sep (w # v # ws) = w @ sep @ join sep (v # ws)"

definition trim :: "rstr \<Rightarrow> rstr" where
  "trim s = rev (dropWhile is_whitespace (rev (dropWhile is_whitespace s)))"

definition to_ascii_lowercase :: "rstr \<Rightarrow> rstr" where
  "to_ascii_lowercase s = map ascii_lower s"

fun str_contains :: "rstr \<Rightarrow> rstr \<Rightarrow> bool" where
  "str_contains [] m = (m = [])"
| "str_contains (c # s) m = (take (length m) (c # s) = m \<or> str_contains s m)"

text \<open>
  \<^verbatim>\<open>str::lines\<close>: pieces ended by a line feed, a carriage return right before it dropped; a last
  piece without a line feed is kept as it is, an empty one is not produced.
\<close>

definition strip_cr :: "rstr \<Rightarrow> rstr" where
  "strip_cr s = (if s \<noteq> [] \<and> last s = 13 then butlast s else s)"

definition str_lines :: "rstr \<Rightarrow> rstr list" where
  "str_lines s = (let ps = split_on (\<lambda>c. c = 10) s in
     map strip_cr (butlast ps) @ (if last ps = [] then [] else [last ps]))"

lemma split_on_nonempty [simp]: "split_on p s \<noteq> []"
  by (induction s) (auto split: list.splits)

lemma split_on_chars: "w \<in> set (split_on p s) \<Longrightarrow> c \<in> set w \<Longrightarrow> c \<in> set s \<and> \<not> p c"
proof (induction s arbitrary: w)
  case Nil
  then show ?case by simp
next
  case (Cons d s)
  show ?case
  proof (cases "p d")
    case True
    with Cons show ?thesis by auto
  next
    case False
    obtain v vs where vs: "split_on p s = v # vs"
      by (metis list.exhaust split_on_nonempty)
    from Cons.IH [of v] Cons.IH [of w] Cons.prems False vs show ?thesis by auto
  qed
qed

lemma split_whitespace_words:
  assumes "w \<in> set (split_whitespace s)"
  shows "w \<noteq> []" and "c \<in> set w \<Longrightarrow> c \<in> set s \<and> \<not> is_whitespace c"
  using assms by (auto simp: split_whitespace_def dest: split_on_chars)

lemma split_on_sep_append: "p c \<Longrightarrow> split_on p (s @ c # t) = split_on p s @ split_on p t"
  by (induction s) (auto split: list.splits)

lemma split_whitespace_sep:
  "is_whitespace c \<Longrightarrow> split_whitespace (s @ c # t) = split_whitespace s @ split_whitespace t"
  by (simp add: split_whitespace_def split_on_sep_append)

lemma split_whitespace_Nil [simp]: "split_whitespace [] = []"
  by (simp add: split_whitespace_def)

lemma split_whitespace_join_lines:
  "split_whitespace (join [32] ls) = concat (map split_whitespace ls)"
proof (induction "[32::nat]" ls rule: join.induct)
  case (3 w v ws)
  have "is_whitespace 32" by (simp add: is_whitespace_def)
  with split_whitespace_sep [of 32 w "join [32] (v # ws)"] 3 show ?case by simp
qed simp_all

lemma set_join: "set (join sep ws) \<subseteq> set sep \<union> (\<Union>w \<in> set ws. set w)"
  by (induction sep ws rule: join.induct) auto

lemma split_on_no_sep: "\<forall>c \<in> set s. \<not> p c \<Longrightarrow> split_on p s = [s]"
  by (induction s) auto

lemma split_on_append:
  "\<forall>c \<in> set s. \<not> p c \<Longrightarrow> split_on p (s @ t) =
     (case split_on p t of [] \<Rightarrow> [s] | w # ws \<Rightarrow> (s @ w) # ws)"
proof (induction s)
  case Nil
  obtain w ws where "split_on p t = w # ws"
    by (metis list.exhaust split_on_nonempty)
  then show ?case by simp
next
  case (Cons c s)
  obtain w ws where "split_on p t = w # ws"
    by (metis list.exhaust split_on_nonempty)
  with Cons show ?case by simp
qed

text \<open>Joining words by one space and splitting again is the identity: collapsed text is a normal form.\<close>

lemma split_on_join:
  assumes "\<forall>w \<in> set ws. w \<noteq> [] \<and> (\<forall>c \<in> set w. \<not> is_whitespace c)" and "ws \<noteq> []"
  shows "split_on is_whitespace (join [32] ws) = ws"
  using assms
proof (induction "[32::nat]" ws rule: join.induct)
  case (3 w v ws)
  then have IH: "split_on is_whitespace (join [32] (v # ws)) = v # ws"
    by simp
  have "split_on is_whitespace ([32] @ join [32] (v # ws)) = [] # v # ws"
    using IH by (simp add: is_whitespace_def)
  moreover have "\<forall>c \<in> set w. \<not> is_whitespace c" using 3 by simp
  ultimately show ?case by (simp add: split_on_append)
qed (auto simp: split_on_no_sep)

lemma split_whitespace_join:
  assumes "\<forall>w \<in> set ws. w \<noteq> [] \<and> (\<forall>c \<in> set w. \<not> is_whitespace c)"
  shows "split_whitespace (join [32] ws) = ws"
proof (cases "ws = []")
  case False
  have "filter (\<lambda>w. w \<noteq> []) ws = ws"
    using assms by (simp add: filter_id_conv)
  with split_on_join [OF assms False] show ?thesis
    by (simp add: split_whitespace_def)
qed (simp add: split_whitespace_def)

lemma trim_no_outer:
  assumes "s \<noteq> []" "\<not> is_whitespace (hd s)" "\<not> is_whitespace (last s)"
  shows "trim s = s"
proof -
  have "dropWhile is_whitespace s = s"
    using assms by (cases s) auto
  moreover have "dropWhile is_whitespace (rev s) = rev s"
    using assms by (cases s rule: rev_cases) auto
  ultimately show ?thesis by (simp add: trim_def)
qed

lemma set_trim: "set (trim s) \<subseteq> set s"
proof
  fix c
  assume "c \<in> set (trim s)"
  then have "c \<in> set (rev (dropWhile is_whitespace s))"
    by (metis set_dropWhileD set_rev trim_def)
  then show "c \<in> set s" by (auto dest: set_dropWhileD)
qed

lemma length_trim: "length (trim s) \<le> length s"
proof -
  have "length (trim s) \<le> length (dropWhile is_whitespace s)"
    unfolding trim_def by (metis length_dropWhile_le length_rev)
  then show ?thesis using length_dropWhile_le le_trans by blast
qed

lemma trim_ends:
  assumes "trim s \<noteq> []"
  shows "\<not> is_whitespace (hd (trim s))" and "\<not> is_whitespace (last (trim s))"
proof -
  let ?d = "dropWhile is_whitespace (rev (dropWhile is_whitespace s))"
  have d: "?d \<noteq> []" using assms by (simp add: trim_def)
  then have "\<not> is_whitespace (hd ?d)" by (rule hd_dropWhile)
  then show "\<not> is_whitespace (last (trim s))" by (simp add: trim_def last_rev)
  obtain pre where pre: "rev (dropWhile is_whitespace s) = pre @ ?d"
    by (metis takeWhile_dropWhile_id)
  then have "dropWhile is_whitespace s = rev ?d @ rev pre"
    by (metis rev_append rev_rev_ident)
  then obtain x xs where x: "rev ?d = x # xs" and xs: "dropWhile is_whitespace s = x # xs @ rev pre"
    using d by (metis append_Cons list.exhaust rev_is_Nil_conv)
  from xs have "\<not> is_whitespace x"
    by (metis hd_dropWhile list.distinct(1) list.sel(1))
  with x show "\<not> is_whitespace (hd (trim s))" by (simp add: trim_def)
qed

lemma trim_trim [simp]: "trim (trim s) = trim s"
proof (cases "trim s = []")
  case True
  then show ?thesis by (simp only: True) (simp add: trim_def)
next
  case False
  with trim_ends [OF False] show ?thesis by (intro trim_no_outer)
qed

subsection \<open>Byte order and hexadecimal digits\<close>

text \<open>\<^verbatim>\<open>to_be_bytes\<close> of an unsigned integer of \<open>n\<close> bytes.\<close>

definition be_bytes :: "nat \<Rightarrow> nat \<Rightarrow> byte list" where
  "be_bytes n x = map (\<lambda>i. of_nat (x div 256 ^ i)) (rev [0..<n])"

lemma length_be_bytes [simp]: "length (be_bytes n x) = n"
  by (simp add: be_bytes_def)

definition hex_digit :: "nat \<Rightarrow> uchar" where
  "hex_digit n = (if n < 10 then 48 + n else 87 + n)"

text \<open>The \<^verbatim>\<open>"{byte:02x}"\<close> formatting loop shared by every digest and key of the sources.\<close>

definition hex_of_bytes :: "byte list \<Rightarrow> rstr" where
  "hex_of_bytes bs = concat (map (\<lambda>b. [hex_digit (unat b div 16), hex_digit (unat b mod 16)]) bs)"

lemma length_hex_of_bytes [simp]: "length (hex_of_bytes bs) = 2 * length bs"
  by (induction bs) (auto simp: hex_of_bytes_def)

lemma hex_digit_range: "n < 16 \<Longrightarrow> (48 \<le> hex_digit n \<and> hex_digit n \<le> 57) \<or> (97 \<le> hex_digit n \<and> hex_digit n \<le> 102)"
  by (auto simp: hex_digit_def)

lemma unat_byte_lt: "unat (b :: byte) < 256"
  using unsigned_less [of b] by simp

lemma set_hex_of_bytes:
  assumes "c \<in> set (hex_of_bytes bs)"
  shows "(48 \<le> c \<and> c \<le> 57) \<or> (97 \<le> c \<and> c \<le> 102)"
proof -
  from assms obtain b where "b \<in> set bs"
    and c: "c = hex_digit (unat b div 16) \<or> c = hex_digit (unat b mod 16)"
    by (auto simp: hex_of_bytes_def)
  have "unat b div 16 < 16" "unat b mod 16 < 16"
    using unat_byte_lt [of b] by auto
  with c show ?thesis using hex_digit_range by blast
qed

lemma byte_len_hex [simp]: "byte_len (hex_of_bytes bs) = 2 * length bs"
proof -
  have "\<forall>c \<in> set (hex_of_bytes bs). c < 128"
    using set_hex_of_bytes by fastforce
  then show ?thesis by (simp add: byte_len_ascii)
qed

lemma hex_no_control: "\<not> has_control (hex_of_bytes bs)"
proof -
  have "\<not> is_control c" if "c \<in> set (hex_of_bytes bs)" for c
    using set_hex_of_bytes [OF that] by (auto simp: is_control_def)
  then show ?thesis by (auto simp: has_control_iff)
qed

text \<open>
  Length-delimited concatenation: every digest and signature of the sources hashes
  \<^verbatim>\<open>(field.len() as u64).to_be_bytes()\<close> and then the field, field after field.
\<close>

definition delimited :: "byte list list \<Rightarrow> byte list" where
  "delimited fs = concat (map (\<lambda>f. be_bytes 8 (length f) @ f) fs)"

lemma delimited_simps [simp]:
  "delimited [] = []"
  "delimited (f # fs) = be_bytes 8 (length f) @ f @ delimited fs"
  by (simp_all add: delimited_def)

lemma be_bytes_Suc: "be_bytes (Suc n) x = of_nat (x div 256 ^ n) # be_bytes n x"
  by (simp add: be_bytes_def)

lemma be_bytes_inject:
  assumes "be_bytes n x = be_bytes n y"
  shows "x mod 256 ^ n = y mod 256 ^ n"
  using assms
proof (induction n)
  case (Suc n)
  have "(of_nat (x div 256 ^ n) :: byte) = of_nat (y div 256 ^ n)"
    using Suc.prems by (simp add: be_bytes_Suc)
  then have "unat (of_nat (x div 256 ^ n) :: byte) = unat (of_nat (y div 256 ^ n) :: byte)"
    by simp
  then have hi: "x div 256 ^ n mod 256 = y div 256 ^ n mod 256"
    by (simp add: unat_of_nat)
  have lo: "x mod 256 ^ n = y mod 256 ^ n"
    using Suc by (simp add: be_bytes_Suc)
  have "z mod 256 ^ Suc n = 256 ^ n * (z div 256 ^ n mod 256) + z mod 256 ^ n" for z :: nat
    using mod_mult2_eq [of z "256 ^ n" 256] by (simp add: mult.commute)
  with hi lo show ?case by simp
qed simp

lemma delimited_inject:
  assumes "delimited fs = delimited gs" "length fs = length gs"
    and "\<forall>f \<in> set fs \<union> set gs. length f < 2 ^ 64"
  shows "fs = gs"
  using assms(2,1,3)
proof (induction fs gs rule: list_induct2)
  case (Cons f fs g gs)
  have be: "be_bytes 8 (length f) = be_bytes 8 (length g)"
    and rest: "f @ delimited fs = g @ delimited gs"
    using Cons.prems(1) by (simp_all add: append_eq_append_conv)
  have "length f < 256 ^ 8" "length g < 256 ^ 8"
    using Cons.prems(2) by simp_all
  with be_bytes_inject [OF be] have "length f = length g" by simp
  with rest have "f = g" "delimited fs = delimited gs"
    by (simp_all add: append_eq_append_conv)
  with Cons show ?case by simp
qed simp

text \<open>\<^verbatim>\<open>to_string\<close> of an unsigned integer.\<close>

fun decimal :: "nat \<Rightarrow> rstr" where
  "decimal n = (if n < 10 then [48 + n] else decimal (n div 10) @ [48 + n mod 10])"

declare decimal.simps [simp del]

lemma decimal_value: "foldl (\<lambda>a d. 10 * a + (d - 48)) 0 (decimal n) = n"
proof (induction n rule: decimal.induct)
  case (1 n)
  then show ?case by (cases "n < 10") (simp_all add: decimal.simps [of n])
qed

lemma decimal_inject: "decimal m = decimal n \<Longrightarrow> m = n"
  by (metis decimal_value)

lemma decimal_ascii: "c \<in> set (decimal n) \<Longrightarrow> 48 \<le> c \<and> c \<le> 57"
proof (induction n rule: decimal.induct)
  case (1 n)
  then show ?case by (cases "n < 10") (auto simp: decimal.simps [of n])
qed

text \<open>UTF-8 is injective on Unicode scalar values.\<close>

definition valid_text :: "rstr \<Rightarrow> bool" where
  "valid_text s \<longleftrightarrow> (\<forall>c \<in> set s. c < 1114112)"

lemma of_nat_byte_inject:
  assumes "a < 256" "b < 256"
  shows "(of_nat a :: byte) = of_nat b \<longleftrightarrow> a = b"
proof
  assume "(of_nat a :: byte) = of_nat b"
  then have "unat (of_nat a :: byte) = unat (of_nat b :: byte)" by simp
  with assms show "a = b" by (simp add: unat_of_nat)
qed simp

lemma div_mod_eqI: "(a :: nat) div n = b div n \<Longrightarrow> a mod n = b mod n \<Longrightarrow> a = b"
  by (metis div_mult_mod_eq)

lemma utf8_code_bytes: "c < 1114112 \<Longrightarrow> b \<in> set (utf8_code c) \<Longrightarrow> b < 256"
  by (auto simp: utf8_code_def split: if_splits)

lemma utf8_code_inject:
  assumes "c < 1114112" "d < 1114112" "utf8_code c @ x = utf8_code d @ y"
  shows "c = d \<and> x = y"
proof -
  have b: "c < 2048 \<Longrightarrow> c div 64 < 32" "d < 2048 \<Longrightarrow> d div 64 < 32"
    "c < 65536 \<Longrightarrow> c div 4096 < 16" "d < 65536 \<Longrightarrow> d div 4096 < 16" by auto
  have q: "c div 4096 = (c div 64) div 64" "d div 4096 = (d div 64) div 64"
    "c div 262144 = ((c div 64) div 64) div 64" "d div 262144 = ((d div 64) div 64) div 64"
    by (simp_all add: div_mult2_eq [symmetric])
  have w: "utf8_width c = utf8_width d"
    using assms(3) b by (simp add: utf8_code_def utf8_width_def split: if_splits)
  consider "c < 128" "d < 128" | "128 \<le> c" "c < 2048" "128 \<le> d" "d < 2048"
    | "2048 \<le> c" "c < 65536" "2048 \<le> d" "d < 65536" | "65536 \<le> c" "65536 \<le> d"
    using w by (auto simp: utf8_width_def split: if_splits)
  then show ?thesis
  proof cases
    case 1
    with assms(3) show ?thesis by (simp add: utf8_code_def)
  next
    case 2
    with assms(3) show ?thesis by (auto simp: utf8_code_def intro: div_mod_eqI)
  next
    case 3
    with assms(3) show ?thesis unfolding utf8_code_def q
      by (auto intro!: div_mod_eqI [of c 64 d] div_mod_eqI [of "c div 64" 64 "d div 64"])
  next
    case 4
    with assms(3) show ?thesis unfolding utf8_code_def q
      by (auto intro!: div_mod_eqI [of c 64 d] div_mod_eqI [of "c div 64" 64 "d div 64"]
          div_mod_eqI [of "c div 64 div 64" 64 "d div 64 div 64"])
  qed
qed

lemma utf8_bytes_inject:
  assumes "valid_text s" "valid_text t" "utf8_bytes s = utf8_bytes t"
  shows "s = t"
proof -
  have bytes: "\<forall>b \<in> set (concat (map utf8_code u)). b < 256" if "valid_text u" for u
    using that utf8_code_bytes by (auto simp: valid_text_def)
  have "inj_on (of_nat :: nat \<Rightarrow> byte) {b. b < 256}"
    by (rule inj_onI) (simp add: of_nat_byte_inject)
  then have "concat (map utf8_code s) = concat (map utf8_code t)"
    using assms(3) bytes [OF assms(1)] bytes [OF assms(2)] unfolding utf8_bytes_def
    by (intro map_inj_on [of of_nat]) (auto intro: inj_on_subset)
  with assms(1,2) show ?thesis
  proof (induction s arbitrary: t)
    case Nil
    then show ?case by (cases t) (auto simp: utf8_code_def split: if_splits)
  next
    case (Cons c s)
    then obtain d u where t: "t = d # u"
      by (cases t) (auto simp: utf8_code_def split: if_splits)
    have "c = d \<and> concat (map utf8_code s) = concat (map utf8_code u)"
      using Cons.prems by (intro utf8_code_inject) (auto simp: t valid_text_def)
    with Cons show ?case by (simp add: t valid_text_def)
  qed
qed

section \<open>Ordered maps\<close>

text \<open>
  \<^verbatim>\<open>BTreeMap\<close> is an association list in strictly ascending key order: \<open>map_of\<close> is \<^verbatim>\<open>get\<close>, the list
  itself is the iteration order, \<open>bt_insert\<close> is \<^verbatim>\<open>insert\<close> (replacing the value of a present key).
\<close>

type_synonym ('k, 'v) btree = "('k \<times> 'v) list"

fun bt_insert :: "'k::linorder \<Rightarrow> 'v \<Rightarrow> ('k, 'v) btree \<Rightarrow> ('k, 'v) btree" where
  "bt_insert k v [] = [(k, v)]"
| "bt_insert k v ((k', v') # m) =
     (if k < k' then (k, v) # (k', v') # m
      else if k = k' then (k, v) # m
      else (k', v') # bt_insert k v m)"

definition bt_wf :: "('k::linorder, 'v) btree \<Rightarrow> bool" where
  "bt_wf m \<longleftrightarrow> sorted_wrt (<) (map fst m)"

definition bt_values :: "('k, 'v) btree \<Rightarrow> 'v list" where
  "bt_values m = map snd m"

definition bt_retain :: "('v \<Rightarrow> bool) \<Rightarrow> ('k, 'v) btree \<Rightarrow> ('k, 'v) btree" where
  "bt_retain p m = filter (\<lambda>(k, v). p v) m"

definition bt_map_values :: "('v \<Rightarrow> 'w) \<Rightarrow> ('k, 'v) btree \<Rightarrow> ('k, 'w) btree" where
  "bt_map_values f m = map (\<lambda>(k, v). (k, f v)) m"

lemma bt_wf_Nil [simp]: "bt_wf []"
  by (simp add: bt_wf_def)

lemma bt_wf_Cons: "bt_wf ((k, v) # m) \<longleftrightarrow> (\<forall>k' \<in> fst ` set m. k < k') \<and> bt_wf m"
  by (auto simp: bt_wf_def)

lemma bt_wf_distinct: "bt_wf m \<Longrightarrow> distinct (map fst m)"
  unfolding bt_wf_def using strict_sorted_iff by blast

lemma keys_bt_insert [simp]: "fst ` set (bt_insert k v m) = insert k (fst ` set m)"
  by (induction k v m rule: bt_insert.induct) auto

lemma bt_wf_insert [simp, intro]: "bt_wf m \<Longrightarrow> bt_wf (bt_insert k v m)"
  by (induction k v m rule: bt_insert.induct) (auto simp: bt_wf_Cons)

lemma map_of_bt_insert [simp]: "map_of (bt_insert k v m) = (map_of m)(k \<mapsto> v)"
  by (induction k v m rule: bt_insert.induct) (auto simp: fun_eq_iff)

lemma map_of_bt_wf: "bt_wf m \<Longrightarrow> map_of m k = Some v \<longleftrightarrow> (k, v) \<in> set m"
  using bt_wf_distinct by (auto dest: map_of_SomeD)

lemma set_bt_insert:
  assumes "bt_wf m"
  shows "set (bt_insert k v m) = insert (k, v) {e \<in> set m. fst e \<noteq> k}"
proof -
  have "e \<in> set (bt_insert k v m) \<longleftrightarrow> e = (k, v) \<or> e \<in> set m \<and> fst e \<noteq> k" for e
    using map_of_bt_wf [of "bt_insert k v m" "fst e" "snd e"]
      map_of_bt_wf [of m "fst e" "snd e"] assms
    by (cases e) (auto split: if_splits)
  then show ?thesis by blast
qed

lemma set_bt_insert_subset: "set (bt_insert k v m) \<subseteq> insert (k, v) (set m)"
  by (induction k v m rule: bt_insert.induct) auto

lemma bt_wf_filter [simp, intro]: "bt_wf m \<Longrightarrow> bt_wf (filter p m)"
  unfolding bt_wf_def by (induction m) auto

lemma bt_wf_retain [simp, intro]: "bt_wf m \<Longrightarrow> bt_wf (bt_retain p m)"
  by (simp add: bt_retain_def)

lemma set_bt_retain: "e \<in> set (bt_retain p m) \<longleftrightarrow> e \<in> set m \<and> p (snd e)"
  by (cases e) (auto simp: bt_retain_def)

lemma bt_wf_map_values [simp]: "bt_wf (bt_map_values f m) = bt_wf m"
proof -
  have "map fst (bt_map_values f m) = map fst m"
    by (auto simp: bt_map_values_def)
  then show ?thesis by (simp add: bt_wf_def)
qed

lemma set_bt_map_values: "e \<in> set (bt_map_values f m) \<longleftrightarrow> (\<exists>v. (fst e, v) \<in> set m \<and> snd e = f v)"
  by (cases e) (force simp: bt_map_values_def)

lemma map_of_bt_map_values [simp]: "map_of (bt_map_values f m) k = map_option f (map_of m k)"
  unfolding bt_map_values_def by (induction m) auto

lemma map_of_retain:
  assumes "bt_wf m"
  shows "map_of (bt_retain p m) k =
    (case map_of m k of None \<Rightarrow> None | Some v \<Rightarrow> if p v then Some v else None)"
proof -
  have w: "bt_wf (bt_retain p m)" using assms by (rule bt_wf_retain)
  have iff: "map_of (bt_retain p m) k = Some v \<longleftrightarrow> map_of m k = Some v \<and> p v" for v
    by (simp add: map_of_bt_wf [OF w] map_of_bt_wf [OF assms] set_bt_retain)
  show ?thesis
  proof (cases "map_of m k")
    case None
    then have "map_of (bt_retain p m) k = None"
      using iff by (metis not_None_eq option.distinct(1))
    with None show ?thesis by simp
  next
    case (Some v)
    show ?thesis
    proof (cases "p v")
      case True
      with Some iff [of v] show ?thesis by simp
    next
      case False
      then have "map_of (bt_retain p m) k = None"
        using iff Some by (metis not_None_eq option.inject)
      with Some False show ?thesis by simp
    qed
  qed
qed

lemma length_bt_insert_present:
  "bt_wf m \<Longrightarrow> k \<in> fst ` set m \<Longrightarrow> length (bt_insert k v m) = length m"
  by (induction k v m rule: bt_insert.induct) (auto simp: bt_wf_Cons)

text \<open>\<^verbatim>\<open>remove\<close> by key.\<close>

definition bt_remove :: "'k \<Rightarrow> ('k, 'v) btree \<Rightarrow> ('k, 'v) btree" where
  "bt_remove k m = filter (\<lambda>(k', v). k' \<noteq> k) m"

lemma bt_wf_remove [simp, intro]: "bt_wf m \<Longrightarrow> bt_wf (bt_remove k m)"
  by (simp add: bt_remove_def)

lemma keys_bt_remove [simp]: "fst ` set (bt_remove k m) = fst ` set m - {k}"
  by (force simp: bt_remove_def)

lemma map_of_bt_remove [simp]: "map_of (bt_remove k m) = (map_of m)(k := None)"
  unfolding bt_remove_def by (induction m) (auto simp: fun_eq_iff)

section \<open>Container contracts\<close>

text \<open>
  \<open>keyed_store\<close>: what a client may assume of a map it only reads by key and updates by key. The
  client lemma is what a loop of insertions leaves behind.
\<close>

locale keyed_store =
  fixes get :: "'m \<Rightarrow> 'k \<Rightarrow> 'v option"
    and put :: "'k \<Rightarrow> 'v \<Rightarrow> 'm \<Rightarrow> 'm"
    and wf :: "'m \<Rightarrow> bool"
  assumes get_put: "wf m \<Longrightarrow> get (put k v m) = (get m)(k \<mapsto> v)"
    and wf_put: "wf m \<Longrightarrow> wf (put k v m)"
begin

lemma wf_put_all: "wf m \<Longrightarrow> wf (fold (\<lambda>(k, v). put k v) kvs m)"
  by (induction kvs arbitrary: m) (auto simp: wf_put)

lemma get_put_all:
  "wf m \<Longrightarrow> get (fold (\<lambda>(k, v). put k v) kvs m) = get m ++ map_of (rev kvs)"
  by (induction kvs arbitrary: m) (auto simp: get_put wf_put map_add_upd_left)

end

interpretation bt_store: keyed_store map_of bt_insert bt_wf
  by unfold_locales auto

text \<open>
  \<open>bounded_history\<close>: a first-in first-out memory of at most \<open>cap\<close> distinct entries with a membership
  test. The client lemma says that a fresh entry is forgotten only after \<open>cap\<close> later fresh ones.
\<close>

locale bounded_history =
  fixes push :: "'a \<Rightarrow> 'h \<Rightarrow> 'h"
    and order :: "'h \<Rightarrow> 'a list"
    and mem :: "'h \<Rightarrow> 'a \<Rightarrow> bool"
    and wf :: "'h \<Rightarrow> bool"
    and cap :: nat
  assumes cap_pos: "0 < cap"
    and mem_order: "wf h \<Longrightarrow> mem h x \<longleftrightarrow> x \<in> set (order h)"
    and order_distinct: "wf h \<Longrightarrow> distinct (order h)"
    and order_bound: "wf h \<Longrightarrow> length (order h) \<le> cap"
    and wf_push: "wf h \<Longrightarrow> wf (push x h)"
    and order_push: "wf h \<Longrightarrow> \<not> mem h x \<Longrightarrow>
          order (push x h) = drop (Suc (length (order h)) - cap) (order h @ [x])"
begin

lemma wf_push_all: "wf h \<Longrightarrow> wf (fold push xs h)"
  by (induction xs arbitrary: h) (auto simp: wf_push)

lemma order_push_all:
  assumes "wf h" "distinct xs" "set xs \<inter> set (order h) = {}"
  shows "order (fold push xs h) = drop (length (order h) + length xs - cap) (order h @ xs)"
  using assms
proof (induction xs arbitrary: h)
  case Nil
  then show ?case using order_bound [of h] by simp
next
  case (Cons x xs)
  let ?n = "Suc (length (order h)) - cap"
  have o: "order (push x h) = drop ?n (order h @ [x])"
    using Cons.prems by (intro order_push) (auto simp: mem_order)
  have "set (order (push x h)) \<subseteq> insert x (set (order h))"
    unfolding o using set_drop_subset by fastforce
  then have "order (fold push xs (push x h)) =
      drop (length (order (push x h)) + length xs - cap) (order (push x h) @ xs)"
    using Cons.prems by (intro Cons.IH wf_push) auto
  also have "\<dots> = drop (length (order h) + length (x # xs) - cap) (order h @ x # xs)"
    using order_bound [of h] Cons.prems(1) cap_pos unfolding o
    by (cases "length (order h) < cap") auto
  finally show ?case by simp
qed

lemma remembered:
  assumes "wf h" "\<not> mem h x" "distinct (x # xs)" "set xs \<inter> set (order h) = {}" "length xs < cap"
  shows "mem (fold push xs (push x h)) x"
proof -
  have "fold push xs (push x h) = fold push (x # xs) h" by simp
  moreover have "order (fold push (x # xs) h)
      = drop (length (order h) + length (x # xs) - cap) (order h @ x # xs)"
    using assms by (intro order_push_all) (auto simp: mem_order)
  moreover have "length (order h) + length (x # xs) - cap \<le> length (order h)"
    using assms(5) by simp
  ultimately show ?thesis
    using assms(1) by (simp add: mem_order wf_push wf_push_all)
qed

end

text \<open>
  \<open>invariant_system\<close>: a step relation with an inductive invariant. The client lemma lifts the
  invariant to every state reachable from an initial one.
\<close>

locale invariant_system =
  fixes init :: "'s \<Rightarrow> bool"
    and step :: "'s \<Rightarrow> 's \<Rightarrow> bool"
    and inv :: "'s \<Rightarrow> bool"
  assumes inv_init: "init s \<Longrightarrow> inv s"
    and inv_step: "inv s \<Longrightarrow> step s t \<Longrightarrow> inv t"
begin

lemma inv_steps: "step\<^sup>*\<^sup>* s t \<Longrightarrow> inv s \<Longrightarrow> inv t"
  by (induction rule: rtranclp_induct) (auto intro: inv_step)

lemma inv_reachable: "init s \<Longrightarrow> step\<^sup>*\<^sup>* s t \<Longrightarrow> inv t"
  by (blast intro: inv_steps inv_init)

end

end
