(* ===== verification/Lili_Core.thy ===== *)
theory Lili_Core
  imports Lili_Prelude
begin

text \<open>
  The crate \<^verbatim>\<open>lili-core\<close>: pet identifiers, the presentation types shared with the user interface,
  the appearance contract with its validation, and the diagnostics privacy policy.
\<close>

section \<open>Pet identifiers and presentation types\<close>

datatype pet_id = PetId (pet_id_str: rstr)

definition pet_id_parse :: "rstr \<Rightarrow> pet_id option" where
  "pet_id_parse v =
     (if v \<noteq> [] \<and> byte_len v \<le> 128 \<and> list_all is_identifier_byte (utf8_bytes v)
      then Some (PetId v) else None)"

datatype pet_lifecycle_state =
  LifeIdle | LifeActivityReminder | LifeReview | LifeFailed | LifeWaiting

definition pet_lifecycle_as_str :: "pet_lifecycle_state \<Rightarrow> rstr" where
  "pet_lifecycle_as_str s = (case s of
     LifeIdle \<Rightarrow> lit ''idle''
   | LifeActivityReminder \<Rightarrow> lit ''activity-reminder''
   | LifeReview \<Rightarrow> lit ''review''
   | LifeFailed \<Rightarrow> lit ''failed''
   | LifeWaiting \<Rightarrow> lit ''waiting'')"

datatype pet_notification_kind = PetAttention | PetCompletion | PetFailure

definition pet_notification_kind_as_str :: "pet_notification_kind \<Rightarrow> rstr" where
  "pet_notification_kind_as_str k = (case k of
     PetAttention \<Rightarrow> lit ''attention''
   | PetCompletion \<Rightarrow> lit ''completion''
   | PetFailure \<Rightarrow> lit ''failure'')"

record pet_notification_presentation =
  pnp_title :: "rstr option"
  pnp_activation_id :: rstr
  pnp_kind :: pet_notification_kind
  pnp_project_label :: "rstr option"
  pnp_summary :: rstr
  pnp_summary_truncated :: bool
  pnp_summary_redacted :: bool
  pnp_occurred_at_ms :: nat
  pnp_unread :: bool

datatype pet_action_feedback_kind = FeedbackSuccess | FeedbackFailure | FeedbackBusy

definition pet_action_feedback_kind_as_str :: "pet_action_feedback_kind \<Rightarrow> rstr" where
  "pet_action_feedback_kind_as_str k = (case k of
     FeedbackSuccess \<Rightarrow> lit ''success''
   | FeedbackFailure \<Rightarrow> lit ''failure''
   | FeedbackBusy \<Rightarrow> lit ''busy'')"

record pet_action_feedback =
  paf_action_id :: rstr
  paf_kind :: pet_action_feedback_kind
  paf_message :: rstr
  paf_occurred_at_ms :: nat

record pet_presentation_state =
  pps_revision :: nat
  pps_lifecycle :: pet_lifecycle_state
  pps_pet_asset_id :: "rstr option"
  pps_pet_label :: rstr
  pps_unread_notification_count :: nat
  pps_notifications :: "pet_notification_presentation list"
  pps_action_feedback :: "pet_action_feedback option"
  pps_reduced_motion :: bool

section \<open>Appearance contract\<close>

definition max_appearance_pets :: nat where
  "max_appearance_pets = 64"

definition max_appearance_display_name_bytes :: nat where
  "max_appearance_display_name_bytes = 128"

definition max_appearance_asset_id_bytes :: nat where
  "max_appearance_asset_id_bytes = 256"

record appearance_pet_view =
  apv_id :: pet_id
  apv_display_name :: rstr
  apv_asset_id :: rstr

record appearance_view =
  av_pets :: "appearance_pet_view list"
  av_selected_pet_id :: "pet_id option"

datatype appearance_contract_error =
    TooManyPets
  | InvalidPetId
  | InvalidDisplayName
  | InvalidAssetId
  | DuplicatePetId
  | DuplicateAssetId
  | SelectedPetUnavailable

definition valid_asset_id :: "rstr \<Rightarrow> bool" where
  "valid_asset_id v \<longleftrightarrow> v \<noteq> [] \<and> byte_len v \<le> max_appearance_asset_id_bytes
     \<and> list_all is_identifier_byte (utf8_bytes v)"

text \<open>The body of the loop of \<^verbatim>\<open>AppearanceView::validate\<close>; the two \<^verbatim>\<open>HashSet\<close>s are carried along.\<close>

fun validate_pets :: "appearance_pet_view list \<Rightarrow> pet_id set \<Rightarrow> rstr set
    \<Rightarrow> appearance_contract_error + pet_id set" where
  "validate_pets [] ids assets = Inr ids"
| "validate_pets (p # ps) ids assets =
     (if pet_id_parse (pet_id_str (apv_id p)) = None then Inl InvalidPetId
      else if apv_display_name p = []
          \<or> max_appearance_display_name_bytes < byte_len (apv_display_name p)
          \<or> has_control (apv_display_name p) then Inl InvalidDisplayName
      else if \<not> valid_asset_id (apv_asset_id p) then Inl InvalidAssetId
      else if apv_id p \<in> ids then Inl DuplicatePetId
      else if apv_asset_id p \<in> assets then Inl DuplicateAssetId
      else validate_pets ps (insert (apv_id p) ids) (insert (apv_asset_id p) assets))"

definition appearance_validate :: "appearance_view \<Rightarrow> appearance_contract_error + unit" where
  "appearance_validate v =
     (if max_appearance_pets < length (av_pets v) then Inl TooManyPets
      else rbind (validate_pets (av_pets v) {} {}) (\<lambda>ids.
        case av_selected_pet_id v of
          None \<Rightarrow> Inr ()
        | Some s \<Rightarrow> if s \<notin> ids then Inl SelectedPetUnavailable else Inr ()))"

definition appearance_selection_validate :: "pet_id \<Rightarrow> appearance_contract_error + unit" where
  "appearance_selection_validate p =
     ok_or InvalidPetId (map_option (\<lambda>_. ()) (pet_id_parse (pet_id_str p)))"

text \<open>The contract the validation decides, stated on the whole view at once.\<close>

definition well_formed_pet :: "appearance_pet_view \<Rightarrow> bool" where
  "well_formed_pet p \<longleftrightarrow> pet_id_parse (pet_id_str (apv_id p)) \<noteq> None
     \<and> apv_display_name p \<noteq> []
     \<and> byte_len (apv_display_name p) \<le> max_appearance_display_name_bytes
     \<and> \<not> has_control (apv_display_name p)
     \<and> valid_asset_id (apv_asset_id p)"

definition well_formed_appearance :: "appearance_view \<Rightarrow> bool" where
  "well_formed_appearance v \<longleftrightarrow> length (av_pets v) \<le> max_appearance_pets
     \<and> list_all well_formed_pet (av_pets v)
     \<and> distinct (map apv_id (av_pets v))
     \<and> distinct (map apv_asset_id (av_pets v))
     \<and> (case av_selected_pet_id v of None \<Rightarrow> True | Some s \<Rightarrow> s \<in> set (map apv_id (av_pets v)))"

lemma validate_pets_Inr_iff:
  "validate_pets ps ids assets = Inr out \<longleftrightarrow>
     list_all well_formed_pet ps \<and> distinct (map apv_id ps) \<and> distinct (map apv_asset_id ps)
     \<and> set (map apv_id ps) \<inter> ids = {} \<and> set (map apv_asset_id ps) \<inter> assets = {}
     \<and> out = ids \<union> set (map apv_id ps)"
proof (induction ps arbitrary: ids assets)
  case Nil
  then show ?case by auto
next
  case (Cons p ps)
  show ?case
    by (auto simp: Cons.IH well_formed_pet_def not_le split: if_splits)
qed

lemma pet_id_parse_Some: "pet_id_parse v = Some p \<Longrightarrow> pet_id_str p = v"
  by (auto simp: pet_id_parse_def split: if_splits)

lemma appearance_selection_ok:
  "appearance_selection_validate p = Inr () \<longleftrightarrow> pet_id_parse (pet_id_str p) = Some p"
  by (cases p) (auto simp: appearance_selection_validate_def pet_id_parse_def)

text \<open>
  \<^verbatim>\<open>AppearanceView::validate\<close> accepts a view exactly when it has at most 64 pets, every pet has
  a parseable identifier, a non-empty display name of at most 128 bytes without control characters
  and a valid asset identifier, no identifier and no asset identifier occurs twice, and the
  selected pet, if there is one, is among the pets.
\<close>

theorem appearance_validate_iff:
  "appearance_validate v = Inr () \<longleftrightarrow> well_formed_appearance v"
  by (auto simp: appearance_validate_def well_formed_appearance_def rbind_Inr_iff
      validate_pets_Inr_iff split: option.splits)

section \<open>Diagnostics privacy\<close>

definition diagnostics_excluded_fields :: "rstr list" where
  "diagnostics_excluded_fields = map lit [''raw_prompt'', ''assistant_message'', ''command'',
     ''approval_arguments'', ''credential'', ''mac_secret'', ''inherited_environment_value'']"

definition diagnostics_retained_fields :: "rstr list" where
  "diagnostics_retained_fields = map lit [''component'', ''operation'', ''outcome'', ''error_code'',
     ''counter'', ''duration_ms'', ''event_id'', ''action_id'']"

record diagnostic_privacy_record =
  dpr_schema_version :: nat
  dpr_content_policy :: rstr
  dpr_excluded_fields :: "rstr list"
  dpr_retained_fields :: "rstr list"

definition diagnostic_privacy :: diagnostic_privacy_record where
  "diagnostic_privacy = \<lparr>dpr_schema_version = 1, dpr_content_policy = lit ''metadata_only'',
     dpr_excluded_fields = diagnostics_excluded_fields,
     dpr_retained_fields = diagnostics_retained_fields\<rparr>"

datatype 'a redacted = Redacted 'a

definition redacted_display :: "'a redacted \<Rightarrow> rstr" where
  "redacted_display r = lit ''[redacted]''"

lemma diagnostics_fields_disjoint:
  "set (dpr_excluded_fields diagnostic_privacy) \<inter> set (dpr_retained_fields diagnostic_privacy) = {}"
  by (simp add: diagnostic_privacy_def diagnostics_excluded_fields_def
      diagnostics_retained_fields_def lit_def)

end
