(* ===== verification/Session_Types.thy ===== *)
theory Session_Types
  imports Lili_Core
begin

text \<open>
  \<^verbatim>\<open>lili-session/src/types.rs\<close>: the bounded identities generated by one macro, the versioned provider
  input, the display-safe values, the normalized session event with its validation, and the
  enumerations of the session state machine.
\<close>

section \<open>Bounded identities\<close>

definition session_schema_version :: nat where
  "session_schema_version = 1"

definition max_id_bytes :: nat where
  "max_id_bytes = 256"

definition max_project_label_chars :: nat where
  "max_project_label_chars = 128"

definition max_summary_chars :: nat where
  "max_summary_chars = 320"

definition max_source_discriminator_chars :: nat where
  "max_source_discriminator_chars = 256"

text \<open>
  The macro \<^verbatim>\<open>bounded_identity!\<close> generates five distinct newtypes over \<^verbatim>\<open>String\<close> with the same code;
  they are one type with a phantom tag.
\<close>

datatype 'k ident = Ident (ident_str: rstr)

datatype provider_tag = ProviderTag
datatype session_tag = SessionTag
datatype turn_tag = TurnTag
datatype event_tag = EventTag
datatype notification_tag = NotificationTag

type_synonym provider_id = "provider_tag ident"
type_synonym session_id = "session_tag ident"
type_synonym turn_id = "turn_tag ident"
type_synonym event_id = "event_tag ident"
type_synonym notification_id = "notification_tag ident"

text \<open>The derived \<^verbatim>\<open>Ord\<close> of a newtype over \<^verbatim>\<open>String\<close>: UTF-8 byte order is scalar-value order.\<close>

instantiation ident :: (type) linorder
begin

definition less_eq_ident :: "'a ident \<Rightarrow> 'a ident \<Rightarrow> bool" where
  "less_eq_ident a b \<longleftrightarrow> ident_str a \<le> ident_str b"

definition less_ident :: "'a ident \<Rightarrow> 'a ident \<Rightarrow> bool" where
  "less_ident a b \<longleftrightarrow> ident_str a < ident_str b"

instance
  by standard (auto simp: less_eq_ident_def less_ident_def ident.expand)

end

lemma ident_order_simps [simp]:
  "Ident a \<le> Ident b \<longleftrightarrow> a \<le> b"
  "Ident a < Ident b \<longleftrightarrow> a < b"
  by (simp_all add: less_eq_ident_def less_ident_def)

datatype identity_error = IdentityError rstr

definition ident_parse :: "rstr \<Rightarrow> rstr \<Rightarrow> identity_error + 'k ident" where
  "ident_parse label v =
     (if v = [] \<or> max_id_bytes < byte_len v \<or> has_control v
      then Inl (IdentityError label) else Inr (Ident v))"

definition provider_id_parse :: "rstr \<Rightarrow> identity_error + provider_id" where
  "provider_id_parse v = ident_parse (lit ''provider identity'') v"

definition session_id_parse :: "rstr \<Rightarrow> identity_error + session_id" where
  "session_id_parse v = ident_parse (lit ''session identity'') v"

definition turn_id_parse :: "rstr \<Rightarrow> identity_error + turn_id" where
  "turn_id_parse v = ident_parse (lit ''turn identity'') v"

definition event_id_parse :: "rstr \<Rightarrow> identity_error + event_id" where
  "event_id_parse v = ident_parse (lit ''event identity'') v"

definition notification_id_parse :: "rstr \<Rightarrow> identity_error + notification_id" where
  "notification_id_parse v = ident_parse (lit ''notification identity'') v"

lemmas id_parse_defs = provider_id_parse_def session_id_parse_def turn_id_parse_def
  event_id_parse_def notification_id_parse_def

text \<open>The well-formedness every parsed identity has.\<close>

definition ident_ok :: "'k ident \<Rightarrow> bool" where
  "ident_ok i \<longleftrightarrow> ident_str i \<noteq> [] \<and> byte_len (ident_str i) \<le> max_id_bytes \<and> \<not> has_control (ident_str i)"

lemma ident_parse_Inr_iff: "ident_parse l v = Inr i \<longleftrightarrow> i = Ident v \<and> ident_ok i"
  by (auto simp: ident_parse_def ident_ok_def not_le)

lemma ident_parse_str: "ident_ok i \<Longrightarrow> ident_parse l (ident_str i) = Inr i"
  by (cases i) (auto simp: ident_parse_def ident_ok_def)

section \<open>Provider input\<close>

record capabilities =
  cap_reports_active :: bool
  cap_reports_attention :: bool
  cap_reports_completion :: bool
  cap_reports_failure :: bool
  cap_reports_resolution :: bool
  cap_reports_session_end :: bool

type_synonym provider_capabilities_input = capabilities
type_synonym source_capabilities = capabilities

text \<open>\<^verbatim>\<open>From<ProviderCapabilitiesInputV1> for SourceCapabilities\<close> copies the six flags.\<close>

definition source_capabilities_from :: "provider_capabilities_input \<Rightarrow> source_capabilities" where
  "source_capabilities_from i = \<lparr>
     cap_reports_active = cap_reports_active i,
     cap_reports_attention = cap_reports_attention i,
     cap_reports_completion = cap_reports_completion i,
     cap_reports_failure = cap_reports_failure i,
     cap_reports_resolution = cap_reports_resolution i,
     cap_reports_session_end = cap_reports_session_end i\<rparr>"

definition no_capabilities :: capabilities where
  "no_capabilities = \<lparr>cap_reports_active = False, cap_reports_attention = False,
     cap_reports_completion = False, cap_reports_failure = False,
     cap_reports_resolution = False, cap_reports_session_end = False\<rparr>"

record provider_project_input =
  ppi_label :: "rstr option"

record provider_input =
  pi_version :: nat
  pi_provider :: "rstr option"
  pi_event_type :: "rstr option"
  pi_event_id :: "rstr option"
  pi_session_id :: "rstr option"
  pi_turn_id :: "rstr option"
  pi_occurred_at_ms :: "nat option"
  pi_project :: "provider_project_input option"
  pi_summary :: "rstr option"
  pi_capabilities :: provider_capabilities_input
  pi_source_discriminator :: "rstr option"

section \<open>Display-safe values\<close>

datatype display_value_error = DisplayValueError rstr

record display_project =
  dp_label :: rstr

definition display_project_parse :: "rstr \<Rightarrow> display_value_error + display_project" where
  "display_project_parse label =
     (if label = [] \<or> max_project_label_chars < length label \<or> has_control label
      then Inl (DisplayValueError (lit ''project label'')) else Inr \<lparr>dp_label = label\<rparr>)"

record display_summary =
  ds_text :: rstr
  ds_truncated :: bool
  ds_redacted :: bool

definition is_summary_control :: "uchar \<Rightarrow> bool" where
  "is_summary_control c \<longleftrightarrow> is_control c \<and> c \<noteq> 10 \<and> c \<noteq> 9"

definition display_summary_parse ::
  "rstr \<Rightarrow> bool \<Rightarrow> bool \<Rightarrow> display_value_error + display_summary" where
  "display_summary_parse text truncated redacted =
     (if text = [] \<or> max_summary_chars < length text \<or> list_ex is_summary_control text
      then Inl (DisplayValueError (lit ''summary''))
      else Inr \<lparr>ds_text = text, ds_truncated = truncated, ds_redacted = redacted\<rparr>)"

definition display_project_ok :: "display_project \<Rightarrow> bool" where
  "display_project_ok p \<longleftrightarrow> dp_label p \<noteq> [] \<and> length (dp_label p) \<le> max_project_label_chars
     \<and> \<not> has_control (dp_label p)"

definition display_summary_ok :: "display_summary \<Rightarrow> bool" where
  "display_summary_ok d \<longleftrightarrow> ds_text d \<noteq> [] \<and> length (ds_text d) \<le> max_summary_chars
     \<and> \<not> list_ex is_summary_control (ds_text d)"

lemma display_project_parse_Inr_iff:
  "display_project_parse l = Inr p \<longleftrightarrow> dp_label p = l \<and> display_project_ok p"
  by (cases p) (auto simp: display_project_parse_def display_project_ok_def not_le)

lemma display_summary_parse_Inr_iff:
  "display_summary_parse t a b = Inr d \<longleftrightarrow>
     ds_text d = t \<and> ds_truncated d = a \<and> ds_redacted d = b \<and> display_summary_ok d"
  by (cases d) (auto simp: display_summary_parse_def display_summary_ok_def not_le)

section \<open>Normalized events\<close>

datatype session_event_kind =
    SessionStarted
  | TurnStarted
  | AttentionRequired
  | AttentionResolved
  | TurnCompleted
  | TurnFailed
  | SessionEnded

record session_event =
  ev_version :: nat
  ev_event_id :: event_id
  ev_provider :: provider_id
  ev_type :: session_event_kind
  ev_session_id :: session_id
  ev_turn_id :: "turn_id option"
  ev_occurred_at_ms :: nat
  ev_project :: "display_project option"
  ev_summary :: "display_summary option"
  ev_capabilities :: source_capabilities
  ev_source_discriminator :: rstr

datatype event_validation_error =
    EvUnsupportedVersion
  | EvMissingTurn
  | EvInvalidProject
  | EvInvalidSummary
  | EvInvalidSource

definition source_discriminator_ok :: "rstr \<Rightarrow> bool" where
  "source_discriminator_ok s \<longleftrightarrow>
     s \<noteq> [] \<and> length s \<le> max_source_discriminator_chars \<and> \<not> has_control s"

definition event_validate :: "session_event \<Rightarrow> event_validation_error + unit" where
  "event_validate e =
     (if ev_version e \<noteq> session_schema_version then Inl EvUnsupportedVersion
      else if ev_type e \<notin> {SessionStarted, SessionEnded} \<and> ev_turn_id e = None
        then Inl EvMissingTurn
      else rbind (case ev_project e of None \<Rightarrow> Inr ()
             | Some p \<Rightarrow> (case display_project_parse (dp_label p) of
                 Inl _ \<Rightarrow> Inl EvInvalidProject | Inr _ \<Rightarrow> Inr ())) (\<lambda>_.
           rbind (case ev_summary e of None \<Rightarrow> Inr ()
             | Some d \<Rightarrow> (case display_summary_parse (ds_text d) (ds_truncated d) (ds_redacted d) of
                 Inl _ \<Rightarrow> Inl EvInvalidSummary | Inr _ \<Rightarrow> Inr ())) (\<lambda>_.
           if \<not> source_discriminator_ok (ev_source_discriminator e)
           then Inl EvInvalidSource else Inr ())))"

text \<open>What a validated event satisfies.\<close>

definition event_ok :: "session_event \<Rightarrow> bool" where
  "event_ok e \<longleftrightarrow> ev_version e = session_schema_version
     \<and> (ev_type e \<in> {SessionStarted, SessionEnded} \<or> ev_turn_id e \<noteq> None)
     \<and> pred_option display_project_ok (ev_project e)
     \<and> pred_option display_summary_ok (ev_summary e)
     \<and> source_discriminator_ok (ev_source_discriminator e)"

lemma display_project_parse_ok: "display_project_parse (dp_label p) = Inr q \<longleftrightarrow> q = p \<and> display_project_ok p"
  by (cases p; cases q) (auto simp: display_project_parse_Inr_iff)

lemma display_summary_parse_ok:
  "display_summary_parse (ds_text d) (ds_truncated d) (ds_redacted d) = Inr q
     \<longleftrightarrow> q = d \<and> display_summary_ok d"
  by (cases d; cases q) (auto simp: display_summary_parse_Inr_iff)

lemma project_check_iff:
  "(case display_project_parse (dp_label p) of Inl _ \<Rightarrow> Inl e | Inr _ \<Rightarrow> Inr ()) = Inr ()
     \<longleftrightarrow> display_project_ok p"
  by (auto simp: display_project_parse_def display_project_ok_def not_le)

lemma summary_check_iff:
  "(case display_summary_parse (ds_text d) (ds_truncated d) (ds_redacted d) of
      Inl _ \<Rightarrow> Inl e | Inr _ \<Rightarrow> Inr ()) = Inr () \<longleftrightarrow> display_summary_ok d"
  by (auto simp: display_summary_parse_def display_summary_ok_def not_le)

lemma event_validate_iff: "event_validate e = Inr () \<longleftrightarrow> event_ok e"
  by (auto simp: event_validate_def event_ok_def rbind_Inr_iff project_check_iff
      summary_check_iff split: option.splits)

lemma event_ok_turn:
  "event_ok e \<Longrightarrow> ev_type e \<noteq> SessionStarted \<Longrightarrow> ev_type e \<noteq> SessionEnded \<Longrightarrow> \<exists>t. ev_turn_id e = Some t"
  by (auto simp: event_ok_def)

section \<open>State enumerations\<close>

datatype notification_kind = Attention | Completion | Failure

datatype notification_state = Unread | Acknowledged | Resolved

datatype session_phase =
  PhaseIdle | PhaseActive | PhaseAttention | PhaseCompleted | PhaseFailed | PhaseEnded

datatype presentation_state =
  PresIdle | PresActivityReminder | PresReview | PresFailed | PresWaiting

text \<open>The derived \<^verbatim>\<open>Ord\<close> of \<^verbatim>\<open>PresentationState\<close> is the declaration order.\<close>

fun presentation_rank :: "presentation_state \<Rightarrow> nat" where
  "presentation_rank PresIdle = 0"
| "presentation_rank PresActivityReminder = 1"
| "presentation_rank PresReview = 2"
| "presentation_rank PresFailed = 3"
| "presentation_rank PresWaiting = 4"

lemma presentation_rank_inject: "presentation_rank a = presentation_rank b \<Longrightarrow> a = b"
  by (cases a; cases b) simp_all

instantiation presentation_state :: linorder
begin

definition less_eq_presentation_state :: "presentation_state \<Rightarrow> presentation_state \<Rightarrow> bool" where
  "less_eq_presentation_state a b \<longleftrightarrow> presentation_rank a \<le> presentation_rank b"

definition less_presentation_state :: "presentation_state \<Rightarrow> presentation_state \<Rightarrow> bool" where
  "less_presentation_state a b \<longleftrightarrow> presentation_rank a < presentation_rank b"

instance
  by standard (auto simp: less_eq_presentation_state_def less_presentation_state_def
      presentation_rank_inject)

end

record session_summary =
  ss_provider :: provider_id
  ss_id :: session_id
  ss_current_turn_id :: "turn_id option"
  ss_phase :: session_phase
  ss_project :: "display_project option"
  ss_updated_at_ms :: nat

end
