(* ===== verification/Normalization.thy ===== *)
theory Normalization
  imports Session_Types
begin

text \<open>
  \<^verbatim>\<open>lili-session/src/normalization.rs\<close>: from an untrusted provider payload to a normalized event.
  JSON decoding (\<^verbatim>\<open>serde_json\<close>) and SHA-256 (\<^verbatim>\<open>sha2\<close>) are third-party code: the decoder and the hash
  are arguments of the definitions that use them.
\<close>

section \<open>Definitions\<close>

datatype normalization_error =
    PayloadTooLarge
  | MalformedJson
  | UnsupportedVersion nat
  | MissingField rstr
  | InvalidField rstr
  | UnsupportedEventType

definition max_provider_payload_bytes :: nat where
  "max_provider_payload_bytes = 65536"

definition required :: "rstr option \<Rightarrow> rstr \<Rightarrow> normalization_error + rstr" where
  "required v field = (case v of
     Some s \<Rightarrow> if trim s \<noteq> [] then Inr s else Inl (MissingField field)
   | None \<Rightarrow> Inl (MissingField field))"

definition parse_provider :: "rstr \<Rightarrow> normalization_error + provider_id" where
  "parse_provider v = map_err (\<lambda>_. InvalidField (lit ''provider identity''))
     (provider_id_parse (to_ascii_lowercase (trim v)))"

definition parse_session :: "rstr \<Rightarrow> normalization_error + session_id" where
  "parse_session v = map_err (\<lambda>_. InvalidField (lit ''session identity'')) (session_id_parse (trim v))"

definition parse_turn :: "rstr \<Rightarrow> normalization_error + turn_id" where
  "parse_turn v = map_err (\<lambda>_. InvalidField (lit ''turn identity'')) (turn_id_parse (trim v))"

definition parse_event_type :: "rstr \<Rightarrow> normalization_error + session_event_kind" where
  "parse_event_type v =
     (let n = map (\<lambda>c. if c = 45 then 95 else c) (to_ascii_lowercase (trim v)) in
      if n = lit ''session_started'' \<or> n = lit ''session_start'' then Inr SessionStarted
      else if n = lit ''turn_started'' \<or> n = lit ''prompt_started'' \<or> n = lit ''active''
        then Inr TurnStarted
      else if n = lit ''attention_required'' \<or> n = lit ''permission_requested''
        then Inr AttentionRequired
      else if n = lit ''attention_resolved'' then Inr AttentionResolved
      else if n = lit ''turn_completed'' \<or> n = lit ''agent_turn_complete'' then Inr TurnCompleted
      else if n = lit ''turn_failed'' then Inr TurnFailed
      else if n = lit ''session_ended'' \<or> n = lit ''session_end'' then Inr SessionEnded
      else Inl UnsupportedEventType)"

definition is_turn_scoped :: "session_event_kind \<Rightarrow> bool" where
  "is_turn_scoped k \<longleftrightarrow> k \<notin> {SessionStarted, SessionEnded}"

definition collapse_whitespace :: "rstr \<Rightarrow> rstr" where
  "collapse_whitespace v = join [32] (split_whitespace v)"

text \<open>The truncation keeps \<open>limit - 1\<close> characters and appends an ellipsis (U+2026).\<close>

definition truncate_chars :: "rstr \<Rightarrow> nat \<Rightarrow> rstr \<times> bool" where
  "truncate_chars v limit =
     (if length v \<le> limit then (v, False) else (take (limit - 1) v @ [8230], True))"

definition normalize_project :: "provider_project_input \<Rightarrow> display_project option" where
  "normalize_project i = (case ppi_label i of None \<Rightarrow> None | Some label \<Rightarrow>
     (case find (\<lambda>w. w \<noteq> []) (rev (split_on (\<lambda>c. c = 47 \<or> c = 92) (trim label))) of
        None \<Rightarrow> None
      | Some basename \<Rightarrow>
          result_ok (display_project_parse
            (fst (truncate_chars (collapse_whitespace basename) max_project_label_chars)))))"

definition sensitive_markers :: "rstr list" where
  "sensitive_markers = map lit [''authorization:'', ''api_key'', ''api-key'', ''token='',
     ''password='', ''command:'', ''approval arguments'', ''prompt:'', ''user:'']"

definition sensitive_line :: "rstr \<Rightarrow> bool" where
  "sensitive_line l = list_ex (str_contains (to_ascii_lowercase (trim l))) sensitive_markers"

definition redact_summary :: "rstr \<Rightarrow> rstr \<times> bool" where
  "redact_summary s =
     (join [32] (map (\<lambda>l. if sensitive_line l then lit ''[redacted]'' else l) (str_lines s)),
      list_ex sensitive_line (str_lines s))"

definition normalize_summary :: "rstr \<Rightarrow> display_summary option" where
  "normalize_summary s =
     (let (r, redacted) = redact_summary s; c = collapse_whitespace r in
      if c = [] then None
      else (let (t, truncated) = truncate_chars c max_summary_chars in
        result_ok (display_summary_parse t truncated redacted)))"

definition normalize_source_discriminator :: "rstr option \<Rightarrow> normalization_error + rstr" where
  "normalize_source_discriminator source =
     (let s = collapse_whitespace (case source of None \<Rightarrow> lit ''default'' | Some v \<Rightarrow> v) in
      if s = [] \<or> max_source_discriminator_chars < length s \<or> has_control s
      then Inl (InvalidField (lit ''source discriminator'')) else Inr s)"

definition event_type_name :: "session_event_kind \<Rightarrow> rstr" where
  "event_type_name k = (case k of
     SessionStarted \<Rightarrow> lit ''session_started''
   | TurnStarted \<Rightarrow> lit ''turn_started''
   | AttentionRequired \<Rightarrow> lit ''attention_required''
   | AttentionResolved \<Rightarrow> lit ''attention_resolved''
   | TurnCompleted \<Rightarrow> lit ''turn_completed''
   | TurnFailed \<Rightarrow> lit ''turn_failed''
   | SessionEnded \<Rightarrow> lit ''session_ended'')"

text \<open>
  The fallback identity hashes six length-delimited fields. \<^verbatim>\<open>EventId::parse(..).expect(..)\<close> would
  panic on an oversized identity: \<open>None\<close> is that panic.
\<close>

definition fallback_fields ::
  "provider_id \<Rightarrow> session_event_kind \<Rightarrow> session_id \<Rightarrow> turn_id option \<Rightarrow> nat \<Rightarrow> rstr \<Rightarrow> rstr list" where
  "fallback_fields p k s t at src = [ident_str p, event_type_name k, ident_str s,
     (case t of None \<Rightarrow> [] | Some t \<Rightarrow> ident_str t), decimal at, src]"

definition fallback_event_id :: "(byte list \<Rightarrow> byte list) \<Rightarrow> provider_id \<Rightarrow> session_event_kind
    \<Rightarrow> session_id \<Rightarrow> turn_id option \<Rightarrow> nat \<Rightarrow> rstr \<Rightarrow> event_id option" where
  "fallback_event_id sha p k s t at src =
     result_ok (event_id_parse (lit ''fallback-'' @
       hex_of_bytes (sha (delimited (map utf8_bytes (fallback_fields p k s t at src))))))"

text \<open>\<open>None\<close> is the panic of \<open>fallback_event_id\<close>; every returned error is \<open>Some (Inl _)\<close>.\<close>

definition normalize_provider_input :: "(byte list \<Rightarrow> byte list) \<Rightarrow> provider_input
    \<Rightarrow> (normalization_error + session_event) option" where
  "normalize_provider_input sha i =
     (if pi_version i \<noteq> session_schema_version then Some (Inl (UnsupportedVersion (pi_version i)))
      else case rbind (required (pi_provider i) (lit ''provider'')) parse_provider of
        Inl e \<Rightarrow> Some (Inl e)
      | Inr provider \<Rightarrow>
      case rbind (required (pi_event_type i) (lit ''event type'')) parse_event_type of
        Inl e \<Rightarrow> Some (Inl e)
      | Inr kind \<Rightarrow>
      case rbind (required (pi_session_id i) (lit ''session identity'')) parse_session of
        Inl e \<Rightarrow> Some (Inl e)
      | Inr session \<Rightarrow>
      case (case pi_turn_id i of None \<Rightarrow> Inr None | Some t \<Rightarrow> rbind (parse_turn t) (\<lambda>t. Inr (Some t))) of
        Inl e \<Rightarrow> Some (Inl e)
      | Inr turn \<Rightarrow>
      if is_turn_scoped kind \<and> turn = None then Some (Inl (MissingField (lit ''turn identity'')))
      else case pi_occurred_at_ms i of
        None \<Rightarrow> Some (Inl (MissingField (lit ''occurrence time'')))
      | Some at \<Rightarrow>
      case normalize_source_discriminator (pi_source_discriminator i) of
        Inl e \<Rightarrow> Some (Inl e)
      | Inr src \<Rightarrow>
      let event = \<lambda>eid. \<lparr>ev_version = session_schema_version, ev_event_id = eid,
            ev_provider = provider, ev_type = kind, ev_session_id = session, ev_turn_id = turn,
            ev_occurred_at_ms = at,
            ev_project = Option.bind (pi_project i) normalize_project,
            ev_summary = Option.bind (pi_summary i) normalize_summary,
            ev_capabilities = source_capabilities_from (pi_capabilities i),
            ev_source_discriminator = src\<rparr> in
      case pi_event_id i of
        Some raw \<Rightarrow> (case event_id_parse (trim raw) of
            Inl _ \<Rightarrow> Some (Inl (InvalidField (lit ''event identity'')))
          | Inr eid \<Rightarrow> Some (Inr (event eid)))
      | None \<Rightarrow> map_option (\<lambda>eid. Inr (event eid))
                  (fallback_event_id sha provider kind session turn at src))"

definition normalize_json :: "(byte list \<Rightarrow> byte list) \<Rightarrow> (byte list \<Rightarrow> provider_input option)
    \<Rightarrow> byte list \<Rightarrow> (normalization_error + session_event) option" where
  "normalize_json sha from_slice payload =
     (if max_provider_payload_bytes < length payload then Some (Inl PayloadTooLarge)
      else case from_slice payload of
        None \<Rightarrow> Some (Inl MalformedJson)
      | Some i \<Rightarrow> normalize_provider_input sha i)"

section \<open>Text normalization\<close>

lemma collapse_whitespace_idem [simp]: "collapse_whitespace (collapse_whitespace v) = collapse_whitespace v"
proof -
  have "split_whitespace (join [32] (split_whitespace v)) = split_whitespace v"
    by (rule split_whitespace_join) (auto dest: split_whitespace_words)
  then show ?thesis by (simp add: collapse_whitespace_def)
qed

lemma truncate_chars_length: "0 < limit \<Longrightarrow> length (fst (truncate_chars v limit)) \<le> limit"
  by (simp add: truncate_chars_def)

lemma truncate_chars_flag: "snd (truncate_chars v limit) \<longleftrightarrow> limit < length v"
  by (auto simp: truncate_chars_def)

lemma truncate_chars_id: "\<not> snd (truncate_chars v limit) \<Longrightarrow> fst (truncate_chars v limit) = v"
  by (auto simp: truncate_chars_def split: if_splits)

lemma normalize_project_ok: "normalize_project i = Some p \<Longrightarrow> display_project_ok p"
  by (auto simp: normalize_project_def display_project_parse_Inr_iff split: option.splits)

lemma normalize_summary_ok: "normalize_summary s = Some d \<Longrightarrow> display_summary_ok d"
  by (auto simp: normalize_summary_def Let_def display_summary_parse_Inr_iff
      split: prod.splits if_splits)

lemma normalize_source_ok:
  "normalize_source_discriminator s = Inr d \<Longrightarrow> source_discriminator_ok d"
  by (auto simp: normalize_source_discriminator_def source_discriminator_ok_def Let_def
      split: if_splits)

lemma fallback_event_id_total:
  assumes "length (sha (delimited (map utf8_bytes (fallback_fields p k s t at src)))) = 32"
  shows "\<exists>eid. fallback_event_id sha p k s t at src = Some eid \<and> ident_ok eid"
proof -
  have "\<not> has_control (lit ''fallback-'')" and "byte_len (lit ''fallback-'') = 9"
    by (simp_all add: lit_def has_control_def is_control_def byte_len_def utf8_width_def)
  moreover have "lit ''fallback-'' \<noteq> []" by (simp add: lit_def)
  ultimately have "ident_ok (Ident (lit ''fallback-'' @ hex_of_bytes
      (sha (delimited (map utf8_bytes (fallback_fields p k s t at src))))) :: event_id)"
    using assms by (simp add: ident_ok_def max_id_bytes_def hex_no_control)
  then show ?thesis
    by (simp add: fallback_event_id_def event_id_parse_def ident_parse_Inr_iff)
qed

section \<open>Normalization establishes the event invariant\<close>

definition event_idents_ok :: "session_event \<Rightarrow> bool" where
  "event_idents_ok e \<longleftrightarrow> ident_ok (ev_event_id e) \<and> ident_ok (ev_provider e)
     \<and> ident_ok (ev_session_id e) \<and> pred_option ident_ok (ev_turn_id e)"

lemma required_Inr: "required v f = Inr s \<Longrightarrow> v = Some s \<and> trim s \<noteq> []"
  by (auto simp: required_def split: option.splits if_splits)

lemma parse_ident_ok:
  "parse_provider v = Inr p \<Longrightarrow> ident_ok p"
  "parse_session v = Inr s \<Longrightarrow> ident_ok s"
  "parse_turn v = Inr t \<Longrightarrow> ident_ok t"
  by (auto simp: parse_provider_def parse_session_def parse_turn_def id_parse_defs ident_parse_Inr_iff)

lemma normalize_input_total:
  assumes sha: "\<forall>m. length (sha m) = 32"
  shows "\<exists>r. normalize_provider_input sha i = Some r"
proof -
  have f: "\<exists>eid. fallback_event_id sha p k s t at src = Some eid" for p k s t at src
    using fallback_event_id_total [of sha p k s t at src] sha by blast
  show ?thesis
    unfolding normalize_provider_input_def
    by (auto simp: Let_def f split: sum.splits option.splits)
qed

lemma normalize_input_ok:
  assumes sha: "\<forall>m. length (sha m) = 32"
    and ok: "normalize_provider_input sha i = Some (Inr e)"
  shows "event_ok e \<and> event_idents_ok e"
proof -
  have f: "ident_ok eid" if "fallback_event_id sha p k s t at src = Some eid" for p k s t at src eid
    using fallback_event_id_total [of sha p k s t at src] sha that by auto
  have p: "pred_option display_project_ok (Option.bind (pi_project i) normalize_project)"
    by (cases "pi_project i"; cases "Option.bind (pi_project i) normalize_project")
      (auto dest: normalize_project_ok)
  have d: "pred_option display_summary_ok (Option.bind (pi_summary i) normalize_summary)"
    by (cases "pi_summary i"; cases "Option.bind (pi_summary i) normalize_summary")
      (auto dest: normalize_summary_ok)
  show ?thesis
    using ok p d
    by (auto simp: normalize_provider_input_def event_ok_def event_idents_ok_def Let_def
        is_turn_scoped_def rbind_Inr_iff ident_parse_Inr_iff id_parse_defs
        split: sum.splits option.splits if_splits
        dest: parse_ident_ok normalize_source_ok f)
qed

text \<open>
  For every payload and every decoder, normalization returns (the \<^verbatim>\<open>expect\<close> on the fallback
  identity never fires when the hash is 32 bytes long), and an accepted event passes
  \<^verbatim>\<open>NormalizedSessionEvent::validate\<close> and carries only identities their parsers accept.
\<close>

theorem normalize_json_sound:
  assumes "\<forall>m. length (sha m) = 32"
  shows "\<exists>r. normalize_json sha from_slice payload = Some r
    \<and> (case r of Inl _ \<Rightarrow> True | Inr e \<Rightarrow> event_validate e = Inr () \<and> event_idents_ok e)"
proof (cases "max_provider_payload_bytes < length payload \<or> from_slice payload = None")
  case True
  then show ?thesis by (auto simp: normalize_json_def)
next
  case False
  then obtain i where i: "normalize_json sha from_slice payload = normalize_provider_input sha i"
    by (auto simp: normalize_json_def)
  obtain r where r: "normalize_provider_input sha i = Some r"
    using normalize_input_total [OF assms] by blast
  with normalize_input_ok [OF assms, of i] show ?thesis
    by (auto simp: i event_validate_iff split: sum.splits)
qed

definition sample_input :: provider_input where
  "sample_input = \<lparr>pi_version = 1, pi_provider = Some (lit ''Codex''),
     pi_event_type = Some (lit ''agent-turn-complete''), pi_event_id = None,
     pi_session_id = Some (lit '' session-1 ''), pi_turn_id = Some (lit ''turn-1''),
     pi_occurred_at_ms = Some 42, pi_project = None, pi_summary = None,
     pi_capabilities = no_capabilities, pi_source_discriminator = None\<rparr>"

theorem normalize_json_sound_witness:
  "(\<forall>m. length ((\<lambda>_. replicate 32 7 :: byte list) m) = 32) \<and>
   (\<exists>r. normalize_json (\<lambda>_. replicate 32 7) (\<lambda>_. Some sample_input) [1, 2, 3] = Some r
      \<and> (case r of Inl _ \<Rightarrow> True | Inr e \<Rightarrow> event_validate e = Inr () \<and> event_idents_ok e))"
proof -
  have h: "\<forall>m. length ((\<lambda>_. replicate 32 7 :: byte list) m) = 32" by simp
  show ?thesis using h normalize_json_sound [OF h, of "\<lambda>_. Some sample_input" "[1, 2, 3]"] by blast
qed

section \<open>Redaction\<close>

text \<open>The words of one line that may reach the summary.\<close>

definition displayed_words :: "rstr \<Rightarrow> rstr list" where
  "displayed_words l = (if sensitive_line l then [lit ''[redacted]''] else split_whitespace l)"

lemma split_whitespace_redacted: "split_whitespace (lit ''[redacted]'') = [lit ''[redacted]'']"
  by (simp add: lit_def split_whitespace_def is_whitespace_def)

lemma redact_summary_words:
  "split_whitespace (fst (redact_summary s)) = concat (map displayed_words (str_lines s))"
  by (simp add: redact_summary_def split_whitespace_join_lines displayed_words_def [abs_def]
      if_distrib split_whitespace_redacted comp_def cong: if_cong)

text \<open>
  Redaction is complete: the text of a normalized summary is the words of the lines without a
  sensitive marker, with one placeholder for each line that has one, truncated to 320 characters;
  the redaction flag is set exactly when some line has a marker and the truncation flag exactly
  when text was cut.
\<close>

theorem normalize_summary_redacts:
  assumes "normalize_summary s = Some d"
  shows "ds_text d = fst (truncate_chars (join [32] (concat (map displayed_words (str_lines s)))) 320)
    \<and> ds_redacted d = list_ex sensitive_line (str_lines s)
    \<and> ds_truncated d = (320 < length (join [32] (concat (map displayed_words (str_lines s)))))"
proof -
  have "collapse_whitespace (fst (redact_summary s)) = join [32] (concat (map displayed_words (str_lines s)))"
    by (simp add: collapse_whitespace_def redact_summary_words)
  moreover have "snd (redact_summary s) = list_ex sensitive_line (str_lines s)"
    by (simp add: redact_summary_def)
  ultimately show ?thesis
    using assms truncate_chars_flag
    by (auto simp: normalize_summary_def Let_def case_prod_beta display_summary_parse_Inr_iff
        max_summary_chars_def split: if_splits)
qed

definition sample_summary :: rstr where
  "sample_summary = lit ''done'' @ [10] @ lit ''Token=hunter2'' @ [13, 10] @ lit ''  ok''"

definition sample_redacted :: display_summary where
  "sample_redacted = \<lparr>ds_text = lit ''done [redacted] ok'', ds_truncated = False, ds_redacted = True\<rparr>"

theorem normalize_summary_redacts_witness:
  "normalize_summary sample_summary = Some sample_redacted \<and>
   ds_redacted sample_redacted = list_ex sensitive_line (str_lines sample_summary)"
proof -
  have h: "normalize_summary sample_summary = Some sample_redacted"
    by (simp add: normalize_summary_def sample_summary_def sample_redacted_def redact_summary_def
        str_lines_def strip_cr_def sensitive_line_def sensitive_markers_def lit_def trim_def
        to_ascii_lowercase_def ascii_lower_def is_whitespace_def collapse_whitespace_def
        split_whitespace_def truncate_chars_def max_summary_chars_def display_summary_parse_def
        is_summary_control_def is_control_def Let_def)
  show ?thesis using h normalize_summary_redacts [OF h] by blast
qed

section \<open>The fallback identity is field-delimited\<close>

lemma event_type_name_inject: "event_type_name k = event_type_name k' \<Longrightarrow> k = k'"
  by (cases k; cases k') (simp_all add: event_type_name_def lit_def)

text \<open>The strings an event carries are Rust strings and far below 2 to the 64 bytes.\<close>

definition small_text :: "rstr \<Rightarrow> bool" where
  "small_text s \<longleftrightarrow> valid_text s \<and> byte_len s < 2 ^ 64"

text \<open>
  The hashed bytes of the fallback event identity determine all six fields, so two events get
  the same fallback identity only if they agree on provider, type, session, turn, time and source,
  or the hash collides.
\<close>

theorem fallback_preimage_injective:
  assumes "delimited (map utf8_bytes (fallback_fields p k s t at src))
         = delimited (map utf8_bytes (fallback_fields p' k' s' t' at' src'))"
    and "list_all small_text (fallback_fields p k s t at src)"
    and "list_all small_text (fallback_fields p' k' s' t' at' src')"
    and "pred_option ident_ok t" and "pred_option ident_ok t'"
  shows "(p, k, s, t, at, src) = (p', k', s', t', at', src')"
proof -
  let ?f = "fallback_fields p k s t at src" and ?g = "fallback_fields p' k' s' t' at' src'"
  have "map utf8_bytes ?f = map utf8_bytes ?g"
    using assms(1)
  proof (rule delimited_inject)
    show "\<forall>b \<in> set (map utf8_bytes ?f) \<union> set (map utf8_bytes ?g). length b < 2 ^ 64"
      using assms(2,3) by (auto simp: list_all_iff small_text_def length_utf8_bytes)
  qed (simp add: fallback_fields_def)
  then have "?f = ?g"
  proof (rule map_inj_on)
    show "inj_on utf8_bytes (set ?f \<union> set ?g)"
      using assms(2,3) by (auto simp: inj_on_def list_all_iff small_text_def intro: utf8_bytes_inject)
  qed
  then have "ident_str p = ident_str p'" "event_type_name k = event_type_name k'"
    "ident_str s = ident_str s'" "decimal at = decimal at'" "src = src'"
    and t: "(case t of None \<Rightarrow> [] | Some t \<Rightarrow> ident_str t) = (case t' of None \<Rightarrow> [] | Some t \<Rightarrow> ident_str t)"
    by (simp_all add: fallback_fields_def)
  moreover have "t = t'"
    using t assms(4,5) by (auto simp: ident_ok_def ident.expand split: option.splits)
  ultimately show ?thesis
    by (auto simp: ident.expand dest: decimal_inject event_type_name_inject)
qed

theorem fallback_preimage_injective_witness:
  "(Ident (lit ''codex'') :: provider_id, TurnStarted, Ident (lit ''s1'') :: session_id,
     Some (Ident (lit ''t1'') :: turn_id), 7 :: nat, lit ''default'')
   = (Ident (lit ''codex''), TurnStarted, Ident (lit ''s1''), Some (Ident (lit ''t1'')), 7, lit ''default'')"
proof (rule fallback_preimage_injective)
  let ?f = "fallback_fields (Ident (lit ''codex'')) TurnStarted (Ident (lit ''s1''))
              (Some (Ident (lit ''t1''))) 7 (lit ''default'')"
  show "delimited (map utf8_bytes ?f) = delimited (map utf8_bytes ?f)" by (rule refl)
  show small: "list_all small_text ?f"
    by (simp add: fallback_fields_def small_text_def valid_text_def lit_def event_type_name_def
        decimal.simps utf8_width_def)
  show "list_all small_text ?f" by (rule small)
  show ok: "pred_option ident_ok (Some (Ident (lit ''t1'') :: turn_id))"
    by (simp add: ident_ok_def lit_def utf8_width_def max_id_bytes_def has_control_def is_control_def)
  show "pred_option ident_ok (Some (Ident (lit ''t1'') :: turn_id))" by (rule ok)
qed

end
