(* ===== verification/Reducer_Model.thy ===== *)
theory Reducer_Model
  imports Normalization
begin

text \<open>
  \<^verbatim>\<open>lili-session/src/reducer.rs\<close>: the session state machine. One record per Rust struct, one definition
  per method, in the order of the file. A panic (\<^verbatim>\<open>expect\<close>) is the value \<open>None\<close> of an optional result.
  SHA-256 is the argument \<open>sha\<close>.
\<close>

section \<open>State\<close>

text \<open>
  \<^verbatim>\<open>Notification.incarnation\<close> is an \<^verbatim>\<open>Arc<()>\<close> compared by address only: it is a number here, and the
  reducer carries the address the next \<^verbatim>\<open>Arc::new\<close> returns (\<open>rd_alloc\<close>, no field of the source).
\<close>

record notification =
  n_incarnation :: nat
  n_title :: "rstr option"
  n_id :: notification_id
  n_provider :: provider_id
  n_event_id :: event_id
  n_session_id :: session_id
  n_turn_id :: "turn_id option"
  n_kind :: notification_kind
  n_state :: notification_state
  n_occurred_at_ms :: nat
  n_project :: "display_project option"
  n_summary :: "display_summary option"

text \<open>The check of \<^verbatim>\<open>deserialize_notification_title\<close>.\<close>

definition title_ok :: "rstr \<Rightarrow> bool" where
  "title_ok t \<longleftrightarrow> t \<noteq> [] \<and> length t \<le> 256 \<and> \<not> has_control t"

definition deserialize_notification_title :: "rstr option \<Rightarrow> rstr + rstr option" where
  "deserialize_notification_title t =
     (if (case t of None \<Rightarrow> False | Some s \<Rightarrow> \<not> title_ok s)
      then Inl (lit ''invalid notification title'') else Inr t)"

definition max_recent_event_ids :: nat where "max_recent_event_ids = 4096"
definition max_persisted_sessions :: nat where "max_persisted_sessions = 128"
definition max_persisted_retired_turns :: nat where "max_persisted_retired_turns = 16"
definition default_minimum_dwell_ms :: nat where "default_minimum_dwell_ms = 750"
definition default_activity_reminder_duration_ms :: nat where
  "default_activity_reminder_duration_ms = 5000"

datatype reduction_outcome = Applied nat | Duplicate | IgnoredStale

record presentation_tracker =
  pt_state :: presentation_state
  pt_since_ms :: nat

record turn_record =
  tr_phase :: session_phase
  tr_updated_at_ms :: nat
  tr_last_event_id :: event_id

record session_record =
  sr_provider :: provider_id
  sr_id :: session_id
  sr_current_turn_id :: "turn_id option"
  sr_turns :: "(turn_id, turn_record) btree"
  sr_retired_turn_ids :: "turn_id list"
  sr_project :: "display_project option"
  sr_updated_at_ms :: nat
  sr_last_event_id :: event_id
  sr_ended :: bool

type_synonym session_key = "provider_id \<times> session_id"
type_synonym event_key = "provider_id \<times> event_id"

record reducer =
  rd_revision :: nat
  rd_sessions :: "(session_key, session_record) btree"
  rd_notifications :: "(notification_id, notification) btree"
  rd_recent_event_ids :: "event_key list"
  rd_recent_event_set :: "event_key set"
  rd_presentation :: presentation_tracker
  rd_minimum_dwell_ms :: nat
  rd_activity_reminder_until_ms :: nat
  rd_alloc :: nat

record persisted_turn =
  ptn_id :: turn_id
  ptn_phase :: session_phase
  ptn_updated_at_ms :: nat
  ptn_last_event_id :: event_id

record persisted_session =
  ps_provider :: provider_id
  ps_id :: session_id
  ps_current_turn_id :: "turn_id option"
  ps_current_turn :: "persisted_turn option"
  ps_retired_turn_ids :: "turn_id list"
  ps_project :: "display_project option"
  ps_updated_at_ms :: nat
  ps_last_event_id :: event_id
  ps_ended :: bool

record reducer_state =
  rs_revision :: nat
  rs_sessions :: "persisted_session list"
  rs_notifications :: "notification list"

record session_view_snapshot =
  svs_revision :: nat
  svs_presentation :: presentation_state
  svs_sessions :: "session_summary list"
  svs_notifications :: "notification list"

datatype reducer_restore_error =
    TooManySessions
  | TooManyRetiredTurns
  | DuplicateSession
  | DuplicateNotification
  | DuplicateRetiredTurn
  | RetiredCurrentTurn
  | DuplicateSessionNotification
  | NotificationWithoutSession
  | InvalidCurrentTurn
  | InvalidNotificationState

record transition =
  tn_changed :: bool
  tn_notification :: "notification_kind option"
  tn_resolve_attention :: bool

definition no_transition :: transition where
  "no_transition = \<lparr>tn_changed = False, tn_notification = None, tn_resolve_attention = False\<rparr>"

definition initial_reducer :: reducer where
  "initial_reducer = \<lparr>rd_revision = 0, rd_sessions = [], rd_notifications = [],
     rd_recent_event_ids = [], rd_recent_event_set = {},
     rd_presentation = \<lparr>pt_state = PresIdle, pt_since_ms = 0\<rparr>,
     rd_minimum_dwell_ms = default_minimum_dwell_ms, rd_activity_reminder_until_ms = 0,
     rd_alloc = 0\<rparr>"

definition with_minimum_dwell_ms :: "nat \<Rightarrow> reducer" where
  "with_minimum_dwell_ms d = initial_reducer\<lparr>rd_minimum_dwell_ms := d\<rparr>"

section \<open>Orders and keys\<close>

definition event_order :: "session_event \<Rightarrow> nat \<times> event_id" where
  "event_order e = (ev_occurred_at_ms e, ev_event_id e)"

definition session_order :: "session_record \<Rightarrow> nat \<times> event_id" where
  "session_order s = (sr_updated_at_ms s, sr_last_event_id s)"

definition turn_order :: "turn_record \<Rightarrow> nat \<times> event_id" where
  "turn_order t = (tr_updated_at_ms t, tr_last_event_id t)"

definition event_session_key :: "session_event \<Rightarrow> session_key" where
  "event_session_key e = (ev_provider e, ev_session_id e)"

definition event_id_key :: "session_event \<Rightarrow> event_key" where
  "event_id_key e = (ev_provider e, ev_event_id e)"

definition notification_session_key :: "notification \<Rightarrow> session_key" where
  "notification_session_key n = (n_provider n, n_session_id n)"

definition notification_id :: "(byte list \<Rightarrow> byte list) \<Rightarrow> provider_id \<Rightarrow> event_id
    \<Rightarrow> notification_id option" where
  "notification_id sha p e = result_ok (notification_id_parse (lit ''notification-'' @
     hex_of_bytes (sha (delimited [utf8_bytes (ident_str p), utf8_bytes (ident_str e)]))))"

definition notification_priority :: "notification \<Rightarrow> nat" where
  "notification_priority n =
     (if n_kind n = Attention \<and> n_state n \<noteq> Resolved then 3
      else if n_kind n = Failure \<and> n_state n = Unread then 2
      else if n_kind n = Completion \<and> n_state n = Unread then 1
      else 0)"

definition notification_order :: "notification \<Rightarrow> nat \<times> nat \<times> notification_id" where
  "notification_order n = (notification_priority n, n_occurred_at_ms n, n_id n)"

section \<open>Session records\<close>

definition new_session :: "session_event \<Rightarrow> session_record" where
  "new_session e = \<lparr>sr_provider = ev_provider e, sr_id = ev_session_id e,
     sr_current_turn_id = None, sr_turns = [], sr_retired_turn_ids = [],
     sr_project = ev_project e, sr_updated_at_ms = ev_occurred_at_ms e,
     sr_last_event_id = ev_event_id e, sr_ended = False\<rparr>"

definition current_turn :: "session_record \<Rightarrow> turn_record option" where
  "current_turn s = Option.bind (sr_current_turn_id s) (map_of (sr_turns s))"

definition session_phase_of :: "session_record \<Rightarrow> session_phase" where
  "session_phase_of s =
     (if sr_ended s then PhaseEnded
      else case current_turn s of None \<Rightarrow> PhaseIdle | Some t \<Rightarrow> tr_phase t)"

definition session_summary_of :: "session_record \<Rightarrow> session_summary" where
  "session_summary_of s = \<lparr>ss_provider = sr_provider s, ss_id = sr_id s,
     ss_current_turn_id = sr_current_turn_id s, ss_phase = session_phase_of s,
     ss_project = sr_project s, ss_updated_at_ms = sr_updated_at_ms s\<rparr>"

definition next_turn_phase :: "turn_record option \<Rightarrow> session_event \<Rightarrow> session_phase option" where
  "next_turn_phase previous e =
     (if (case previous of None \<Rightarrow> False | Some p \<Rightarrow>
            event_order e \<le> turn_order p
            \<or> (tr_phase p \<in> {PhaseCompleted, PhaseFailed}
               \<and> ev_type e \<notin> {TurnCompleted, TurnFailed}))
      then None
      else case ev_type e of
          TurnStarted \<Rightarrow> Some PhaseActive
        | AttentionRequired \<Rightarrow> Some PhaseAttention
        | AttentionResolved \<Rightarrow> Some PhaseActive
        | TurnCompleted \<Rightarrow> Some PhaseCompleted
        | TurnFailed \<Rightarrow> Some PhaseFailed
        | _ \<Rightarrow> None)"

definition update_session_after_turn :: "session_record \<Rightarrow> session_event \<Rightarrow> turn_id \<Rightarrow> session_record" where
  "update_session_after_turn s e t =
     (let current_order = Option.bind (sr_current_turn_id s) (\<lambda>c.
            map_option (\<lambda>r. (tr_updated_at_ms r, tr_last_event_id r, c)) (map_of (sr_turns s) c));
          incoming = (ev_occurred_at_ms e, ev_event_id e, t);
          s1 = (if (case current_order of None \<Rightarrow> True | Some c \<Rightarrow> c \<le> incoming)
                then s\<lparr>sr_current_turn_id := Some t\<rparr> else s)
      in if sr_updated_at_ms s1 \<le> ev_occurred_at_ms e
         then s1\<lparr>sr_updated_at_ms := ev_occurred_at_ms e, sr_last_event_id := ev_event_id e,
                 sr_project := (if ev_project e \<noteq> None then ev_project e else sr_project s1)\<rparr>
         else s1)"

definition remember_retired_turn :: "session_record \<Rightarrow> turn_id \<Rightarrow> session_record" where
  "remember_retired_turn s t =
     (let ids = remove1 t (sr_retired_turn_ids s) @ [t]
      in s\<lparr>sr_retired_turn_ids := drop (length ids - max_persisted_retired_turns) ids\<rparr>)"

section \<open>Presentation\<close>

definition desired_presentation :: "reducer \<Rightarrow> nat \<Rightarrow> presentation_state" where
  "desired_presentation r now =
     (let ns = bt_values (rd_notifications r) in
      if list_ex (\<lambda>n. n_kind n = Attention \<and> n_state n \<noteq> Resolved) ns then PresWaiting
      else if list_ex (\<lambda>n. n_kind n = Failure \<and> n_state n = Unread) ns then PresFailed
      else if list_ex (\<lambda>n. n_kind n = Completion \<and> n_state n = Unread) ns then PresReview
      else if now < rd_activity_reminder_until_ms r then PresActivityReminder
      else PresIdle)"

definition set_presentation :: "presentation_state \<Rightarrow> nat \<Rightarrow> reducer \<Rightarrow> reducer" where
  "set_presentation s now r = r\<lparr>rd_presentation := \<lparr>pt_state = s, pt_since_ms = now\<rparr>\<rparr>"

definition refresh_presentation :: "reducer \<Rightarrow> nat \<Rightarrow> reducer \<times> bool" where
  "refresh_presentation r now =
     (let desired = desired_presentation r now; current = pt_state (rd_presentation r);
          expired = (current = PresActivityReminder \<and> desired = PresIdle
                     \<and> rd_activity_reminder_until_ms r \<le> now);
          can_interrupt = (current < desired \<or> desired = PresActivityReminder \<or> expired);
          dwell_elapsed = (rd_minimum_dwell_ms r \<le> now - pt_since_ms (rd_presentation r))
      in if desired = current then (r, False)
         else if \<not> can_interrupt \<and> \<not> dwell_elapsed then (r, False)
         else (set_presentation desired now r, True))"

section \<open>Events\<close>

text \<open>\<^verbatim>\<open>remember_event\<close>: a present key moves to the back; the oldest keys beyond 4096 are forgotten.\<close>

definition remember_event :: "event_key \<Rightarrow> reducer \<Rightarrow> reducer" where
  "remember_event k r =
     (let ids = (if k \<in> rd_recent_event_set r
                 then filter (\<lambda>x. x \<noteq> k) (rd_recent_event_ids r)
                 else rd_recent_event_ids r) @ [k];
          expired = take (length ids - max_recent_event_ids) ids
      in r\<lparr>rd_recent_event_ids := drop (length ids - max_recent_event_ids) ids,
           rd_recent_event_set := insert k (rd_recent_event_set r) - set expired\<rparr>)"

definition is_duplicate_in_current_lifecycle :: "reducer \<Rightarrow> session_event \<Rightarrow> bool" where
  "is_duplicate_in_current_lifecycle r e =
     (if event_id_key e \<notin> rd_recent_event_set r then False
      else let session = map_of (rd_sessions r) (event_session_key e) in
        case ev_type e of
          SessionStarted \<Rightarrow> (case session of None \<Rightarrow> False | Some s \<Rightarrow> \<not> sr_ended s)
        | SessionEnded \<Rightarrow> (case session of None \<Rightarrow> False | Some s \<Rightarrow> sr_ended s)
        | _ \<Rightarrow> True)"

definition put_session :: "session_key \<Rightarrow> session_record \<Rightarrow> reducer \<Rightarrow> reducer" where
  "put_session k s r = r\<lparr>rd_sessions := bt_insert k s (rd_sessions r)\<rparr>"

definition apply_session_started :: "reducer \<Rightarrow> session_event \<Rightarrow> reducer \<times> transition" where
  "apply_session_started r e =
     (let k = event_session_key e; changed = no_transition\<lparr>tn_changed := True\<rparr> in
      case map_of (rd_sessions r) k of
        Some s \<Rightarrow>
          if event_order e \<le> session_order s \<or> \<not> sr_ended s then (r, no_transition)
          else (put_session k (s\<lparr>sr_ended := False, sr_current_turn_id := None,
                  sr_updated_at_ms := ev_occurred_at_ms e, sr_last_event_id := ev_event_id e,
                  sr_project := (if ev_project e \<noteq> None then ev_project e else sr_project s)\<rparr>) r,
                changed)
      | None \<Rightarrow> (put_session k (new_session e) r, changed))"

definition apply_session_ended :: "reducer \<Rightarrow> session_event \<Rightarrow> reducer \<times> transition" where
  "apply_session_ended r e =
     (let k = event_session_key e;
          changed = no_transition\<lparr>tn_changed := True, tn_resolve_attention := True\<rparr> in
      case map_of (rd_sessions r) k of
        Some s \<Rightarrow>
          if event_order e \<le> session_order s \<or> sr_ended s then (r, no_transition)
          else (put_session k (s\<lparr>sr_ended := True, sr_updated_at_ms := ev_occurred_at_ms e,
                  sr_last_event_id := ev_event_id e\<rparr>) r, changed)
      | None \<Rightarrow> (put_session k ((new_session e)\<lparr>sr_ended := True\<rparr>) r, changed))"

text \<open>\<^verbatim>\<open>unreachable!\<close> for turn events: \<open>None\<close>.\<close>

definition apply_session_event :: "reducer \<Rightarrow> session_event \<Rightarrow> (reducer \<times> transition) option" where
  "apply_session_event r e = (case ev_type e of
     SessionStarted \<Rightarrow> Some (apply_session_started r e)
   | SessionEnded \<Rightarrow> Some (apply_session_ended r e)
   | _ \<Rightarrow> None)"

definition turn_transition :: "session_event \<Rightarrow> transition" where
  "turn_transition e = \<lparr>tn_changed = True,
     tn_notification = (case ev_type e of
         AttentionRequired \<Rightarrow> Some Attention
       | TurnCompleted \<Rightarrow> Some Completion
       | TurnFailed \<Rightarrow> Some Failure
       | _ \<Rightarrow> None),
     tn_resolve_attention = (ev_type e \<in> {AttentionResolved, TurnCompleted, TurnFailed})\<rparr>"

text \<open>The session part of \<^verbatim>\<open>apply_turn_event\<close>: \<open>None\<close> when the event is stale.\<close>

definition advance_session :: "session_record \<Rightarrow> session_event \<Rightarrow> turn_id \<Rightarrow> session_record option" where
  "advance_session s e t =
     (let previous = map_of (sr_turns s) t;
          starts_new_turn = (previous = None \<and>
            (case sr_current_turn_id s of None \<Rightarrow> False | Some c \<Rightarrow> c \<noteq> t)) in
      if starts_new_turn \<and> t \<in> set (sr_retired_turn_ids s) then None
      else if previous = None \<and> ev_event_id e \<noteq> sr_last_event_id s
              \<and> event_order e \<le> session_order s then None
      else case next_turn_phase previous e of
        None \<Rightarrow> None
      | Some phase \<Rightarrow>
          let s1 = (case sr_current_turn_id s of
                      Some c \<Rightarrow> if starts_new_turn then remember_retired_turn s c else s
                    | None \<Rightarrow> s);
              s2 = s1\<lparr>sr_turns := bt_insert t \<lparr>tr_phase = phase,
                        tr_updated_at_ms = ev_occurred_at_ms e,
                        tr_last_event_id = ev_event_id e\<rparr> (sr_turns s1), sr_ended := False\<rparr>
          in Some (update_session_after_turn s2 e t))"

definition apply_turn_event :: "reducer \<Rightarrow> session_event \<Rightarrow> (reducer \<times> transition) option" where
  "apply_turn_event r e = (case ev_turn_id e of None \<Rightarrow> None | Some t \<Rightarrow>
     (let k = event_session_key e;
          r1 = (if map_of (rd_sessions r) k = None then put_session k (new_session e) r else r);
          s = (case map_of (rd_sessions r) k of None \<Rightarrow> new_session e | Some s \<Rightarrow> s) in
      Some (case advance_session s e t of
          None \<Rightarrow> (r1, no_transition)
        | Some s' \<Rightarrow> (put_session k s' r1, turn_transition e))))"

definition new_notification :: "nat \<Rightarrow> notification_id \<Rightarrow> session_event \<Rightarrow> notification_kind \<Rightarrow> notification" where
  "new_notification addr i e kind = \<lparr>n_incarnation = addr, n_title = None, n_id = i,
     n_provider = ev_provider e, n_event_id = ev_event_id e, n_session_id = ev_session_id e,
     n_turn_id = ev_turn_id e, n_kind = kind, n_state = Unread,
     n_occurred_at_ms = ev_occurred_at_ms e, n_project = ev_project e, n_summary = ev_summary e\<rparr>"

definition insert_notification :: "(byte list \<Rightarrow> byte list) \<Rightarrow> reducer \<Rightarrow> session_event
    \<Rightarrow> notification_kind \<Rightarrow> (reducer \<times> bool) option" where
  "insert_notification sha r e kind =
     (if list_ex (\<lambda>n. notification_session_key n = event_session_key e
            \<and> event_order e \<le> (n_occurred_at_ms n, n_event_id n)) (bt_values (rd_notifications r))
      then Some (r, False)
      else let kept = bt_retain (\<lambda>n. notification_session_key n \<noteq> event_session_key e)
                        (rd_notifications r);
               replaced = (length kept \<noteq> length (rd_notifications r)) in
        case notification_id sha (ev_provider e) (ev_event_id e) of
          None \<Rightarrow> None
        | Some i \<Rightarrow>
            (case map_of kept i of
               Some _ \<Rightarrow> Some (r\<lparr>rd_notifications := kept\<rparr>, replaced)
             | None \<Rightarrow> Some (r\<lparr>rd_notifications :=
                   bt_insert i (new_notification (rd_alloc r) i e kind) kept,
                   rd_alloc := Suc (rd_alloc r)\<rparr>, replaced)))"

definition resolve_attention_notifications :: "session_key \<Rightarrow> turn_id option \<Rightarrow> reducer \<Rightarrow> reducer" where
  "resolve_attention_notifications k turn r =
     r\<lparr>rd_notifications := bt_map_values (\<lambda>n.
        if notification_session_key n = k \<and> (case turn of None \<Rightarrow> True | Some t \<Rightarrow> n_turn_id n = Some t)
           \<and> n_kind n = Attention then n\<lparr>n_state := Resolved\<rparr> else n) (rd_notifications r)\<rparr>"

definition bump_revision :: "reducer \<Rightarrow> reducer" where
  "bump_revision r = r\<lparr>rd_revision := sat_add (rd_revision r) 1\<rparr>"

definition starts_activity_reminder :: "session_event_kind \<Rightarrow> bool" where
  "starts_activity_reminder k \<longleftrightarrow> k \<in> {SessionStarted, TurnStarted, AttentionResolved}"

definition extend_activity_reminder :: "session_event \<Rightarrow> nat \<Rightarrow> reducer \<Rightarrow> reducer" where
  "extend_activity_reminder e at r =
     (if starts_activity_reminder (ev_type e)
      then r\<lparr>rd_activity_reminder_until_ms := max (rd_activity_reminder_until_ms r)
               (sat_add at default_activity_reminder_duration_ms)\<rparr>
      else r)"

text \<open>A replaced card must not leave its old presentation waiting for another event.\<close>

definition show_replacement :: "nat \<Rightarrow> reducer \<times> bool \<Rightarrow> reducer" where
  "show_replacement at = (\<lambda>(r, replaced).
     if replaced \<and> desired_presentation r at \<noteq> pt_state (rd_presentation r)
     then set_presentation (desired_presentation r at) at r else r)"

definition finish_transition :: "(byte list \<Rightarrow> byte list) \<Rightarrow> reducer \<Rightarrow> session_event \<Rightarrow> nat
    \<Rightarrow> transition \<Rightarrow> reducer option" where
  "finish_transition sha r e at tr =
     (let r1 = extend_activity_reminder e at r;
          r2 = (if tn_resolve_attention tr
                then resolve_attention_notifications (event_session_key e) (ev_turn_id e) r1 else r1) in
      map_option (\<lambda>r3. bump_revision (fst (refresh_presentation r3 at)))
        (case tn_notification tr of
           None \<Rightarrow> Some r2
         | Some kind \<Rightarrow> map_option (show_replacement at) (insert_notification sha r2 e kind)))"

text \<open>The dispatch of \<^verbatim>\<open>reduce_at\<close> on the event kind.\<close>

definition apply_event :: "reducer \<Rightarrow> session_event \<Rightarrow> (reducer \<times> transition) option" where
  "apply_event r e =
     (if ev_type e \<in> {SessionStarted, SessionEnded} then apply_session_event r e
      else apply_turn_event r e)"

definition reduce_at :: "(byte list \<Rightarrow> byte list) \<Rightarrow> reducer \<Rightarrow> session_event \<Rightarrow> nat
    \<Rightarrow> (reducer \<times> reduction_outcome) option" where
  "reduce_at sha r e at =
     (if is_duplicate_in_current_lifecycle r e then Some (r, Duplicate)
      else case apply_event (remember_event (event_id_key e) r) e of
          None \<Rightarrow> None
        | Some (r2, tr) \<Rightarrow>
            if \<not> tn_changed tr then Some (r2, IgnoredStale)
            else map_option (\<lambda>r3. (r3, Applied (rd_revision r3))) (finish_transition sha r2 e at tr))"

definition reduce :: "(byte list \<Rightarrow> byte list) \<Rightarrow> reducer \<Rightarrow> session_event
    \<Rightarrow> (reducer \<times> reduction_outcome) option" where
  "reduce sha r e = reduce_at sha r e (ev_occurred_at_ms e)"

definition restart_activity_reminder :: "reducer \<Rightarrow> nat \<Rightarrow> reducer" where
  "restart_activity_reminder r started =
     fst (refresh_presentation (r\<lparr>rd_activity_reminder_until_ms :=
       sat_add started default_activity_reminder_duration_ms\<rparr>) started)"

definition acknowledge_notification :: "reducer \<Rightarrow> notification_id \<Rightarrow> nat \<Rightarrow> reducer \<times> reduction_outcome" where
  "acknowledge_notification r i now = (case map_of (rd_notifications r) i of
     None \<Rightarrow> (r, IgnoredStale)
   | Some n \<Rightarrow>
       if n_state n \<noteq> Unread then (r, IgnoredStale)
       else let r1 = r\<lparr>rd_notifications :=
                       bt_insert i (n\<lparr>n_state := Acknowledged\<rparr>) (rd_notifications r)\<rparr>;
                r2 = bump_revision (show_replacement now (r1, True))
            in (r2, Applied (rd_revision r2)))"

definition advance_presentation :: "reducer \<Rightarrow> nat \<Rightarrow> reducer \<times> reduction_outcome" where
  "advance_presentation r now =
     (let (r1, changed) = refresh_presentation r now in
      if \<not> changed then (r1, IgnoredStale)
      else let r2 = bump_revision r1 in (r2, Applied (rd_revision r2)))"

definition update_notification_title :: "reducer \<Rightarrow> notification \<Rightarrow> rstr \<Rightarrow> reducer \<times> bool" where
  "update_notification_title r original title = (case map_of (rd_notifications r) (n_id original) of
     None \<Rightarrow> (r, False)
   | Some n \<Rightarrow>
       if n_state n \<noteq> Unread \<or> n_incarnation n \<noteq> n_incarnation original
          \<or> n_provider n \<noteq> n_provider original \<or> n_session_id n \<noteq> n_session_id original
          \<or> n_event_id n \<noteq> n_event_id original \<or> n_title n = Some title \<or> \<not> title_ok title
       then (r, False)
       else (bump_revision (r\<lparr>rd_notifications :=
               bt_insert (n_id original) (n\<lparr>n_title := Some title\<rparr>) (rd_notifications r)\<rparr>), True))"

section \<open>Persistence\<close>

definition unread_priorities :: "notification list \<Rightarrow> (session_key, nat) btree" where
  "unread_priorities ns = fold (\<lambda>n m.
     let k = notification_session_key n; p = notification_priority n in
     bt_insert k (case map_of m k of None \<Rightarrow> p | Some c \<Rightarrow> max c p) m)
     (filter (\<lambda>n. n_state n = Unread) ns) []"

definition session_persistence_priority ::
  "session_record \<Rightarrow> (session_key, nat) btree \<Rightarrow> nat \<times> nat" where
  "session_persistence_priority s m =
     (case map_of m (sr_provider s, sr_id s) of None \<Rightarrow> 0 | Some p \<Rightarrow> p,
      case session_phase_of s of PhaseAttention \<Rightarrow> 2 | PhaseActive \<Rightarrow> 1 | _ \<Rightarrow> 0)"

text \<open>
  The comparator of the two stable sorts, as a key in ascending order: the reversed comparisons
  negate their component.
\<close>

definition session_sort_key ::
  "(session_key, nat) btree \<Rightarrow> session_record \<Rightarrow> int \<times> int \<times> int \<times> provider_id \<times> session_id" where
  "session_sort_key m s = (let (a, b) = session_persistence_priority s m in
     (- int a, - int b, - int (sr_updated_at_ms s), sr_provider s, sr_id s))"

definition notification_sort_key :: "notification \<Rightarrow> int \<times> int \<times> notification_id" where
  "notification_sort_key n =
     (- int (notification_priority n), - int (n_occurred_at_ms n), n_id n)"

definition persisted_from_record :: "session_record \<Rightarrow> persisted_session" where
  "persisted_from_record s =
     (let turn = Option.bind (sr_current_turn_id s) (\<lambda>c. map_option (\<lambda>t.
           \<lparr>ptn_id = c, ptn_phase = tr_phase t, ptn_updated_at_ms = tr_updated_at_ms t,
            ptn_last_event_id = tr_last_event_id t\<rparr>) (map_of (sr_turns s) c)) in
      \<lparr>ps_provider = sr_provider s, ps_id = sr_id s,
       ps_current_turn_id = map_option ptn_id turn, ps_current_turn = turn,
       ps_retired_turn_ids = sr_retired_turn_ids s, ps_project = sr_project s,
       ps_updated_at_ms = sr_updated_at_ms s, ps_last_event_id = sr_last_event_id s,
       ps_ended = sr_ended s\<rparr>)"

definition persisted_key :: "persisted_session \<Rightarrow> session_key" where
  "persisted_key p = (ps_provider p, ps_id p)"

definition persisted_sessions :: "reducer \<Rightarrow> persisted_session list" where
  "persisted_sessions r = map persisted_from_record (take max_persisted_sessions
     (sort_key (session_sort_key (unread_priorities (bt_values (rd_notifications r))))
       (bt_values (rd_sessions r))))"

text \<open>One notification per session, the greatest in \<open>notification_order\<close>.\<close>

definition select_notifications :: "notification list \<Rightarrow> (session_key, notification) btree" where
  "select_notifications ns = fold (\<lambda>n m.
     let k = notification_session_key n in
     case map_of m k of
       None \<Rightarrow> bt_insert k n m
     | Some c \<Rightarrow> if notification_order c < notification_order n then bt_insert k n m else m) ns []"

definition persistent_state :: "reducer \<Rightarrow> reducer_state" where
  "persistent_state r =
     (let sessions = persisted_sessions r;
          keys = set (map persisted_key sessions);
          candidates = filter (\<lambda>n. n_state n = Unread \<and> notification_session_key n \<in> keys)
                         (bt_values (rd_notifications r)) in
      \<lparr>rs_revision = rd_revision r, rs_sessions = sessions,
       rs_notifications = sort_key notification_sort_key (bt_values (select_notifications candidates))\<rparr>)"

fun restore_retired :: "turn_id option \<Rightarrow> turn_id list \<Rightarrow> turn_id list
    \<Rightarrow> reducer_restore_error + turn_id list" where
  "restore_retired current [] acc = Inr acc"
| "restore_retired current (t # ts) acc =
     (if current = Some t then Inl RetiredCurrentTurn
      else if t \<in> set acc then Inl DuplicateRetiredTurn
      else restore_retired current ts (acc @ [t]))"

definition into_record :: "persisted_session \<Rightarrow> reducer_restore_error + session_record" where
  "into_record p =
     (let turns = (case ps_current_turn p of None \<Rightarrow> [] | Some t \<Rightarrow>
            bt_insert (ptn_id t) \<lparr>tr_phase = ptn_phase t, tr_updated_at_ms = ptn_updated_at_ms t,
              tr_last_event_id = ptn_last_event_id t\<rparr> []) in
      if max_persisted_retired_turns < length (ps_retired_turn_ids p) then Inl TooManyRetiredTurns
      else rbind (restore_retired (ps_current_turn_id p) (ps_retired_turn_ids p) []) (\<lambda>retired.
        if (case ps_current_turn_id p of None \<Rightarrow> False | Some c \<Rightarrow> map_of turns c = None)
        then Inl InvalidCurrentTurn
        else Inr \<lparr>sr_provider = ps_provider p, sr_id = ps_id p,
               sr_current_turn_id = ps_current_turn_id p, sr_turns = turns,
               sr_retired_turn_ids = retired, sr_project = ps_project p,
               sr_updated_at_ms = ps_updated_at_ms p, sr_last_event_id = ps_last_event_id p,
               sr_ended = ps_ended p\<rparr>))"

fun restore_sessions :: "persisted_session list \<Rightarrow> (session_key, session_record) btree
    \<Rightarrow> reducer_restore_error + (session_key, session_record) btree" where
  "restore_sessions [] m = Inr m"
| "restore_sessions (p # ps) m =
     rbind (into_record p) (\<lambda>s.
       let k = (sr_provider s, sr_id s) in
       if map_of m k \<noteq> None then Inl DuplicateSession
       else restore_sessions ps (bt_insert k s m))"

fun restore_notifications :: "(session_key, session_record) btree \<Rightarrow> notification list
    \<Rightarrow> session_key set \<Rightarrow> (notification_id, notification) btree
    \<Rightarrow> reducer_restore_error + (notification_id, notification) btree" where
  "restore_notifications sessions [] seen m = Inr m"
| "restore_notifications sessions (n # ns) seen m =
     (let k = notification_session_key n in
      if n_state n \<noteq> Unread then Inl InvalidNotificationState
      else if map_of sessions k = None then Inl NotificationWithoutSession
      else if k \<in> seen then Inl DuplicateSessionNotification
      else if map_of m (n_id n) \<noteq> None then Inl DuplicateNotification
      else restore_notifications sessions ns (insert k seen) (bt_insert (n_id n) n m))"

text \<open>
  Restored notifications keep their \<^verbatim>\<open>Arc\<close> (a cloned state shares it); \<open>rd_alloc\<close> is any address
  above them.
\<close>

definition from_persistent_state :: "reducer_state \<Rightarrow> reducer_restore_error + reducer" where
  "from_persistent_state st =
     (if max_persisted_sessions < length (rs_sessions st) then Inl TooManySessions
      else rbind (restore_sessions (rs_sessions st) []) (\<lambda>sessions.
        rbind (restore_notifications sessions (rs_notifications st) {} []) (\<lambda>ns.
          let r = initial_reducer\<lparr>rd_revision := rs_revision st, rd_sessions := sessions,
                    rd_notifications := ns,
                    rd_alloc := Suc (foldr max (map n_incarnation (rs_notifications st)) 0)\<rparr>
          in Inr (r\<lparr>rd_presentation := \<lparr>pt_state = desired_presentation r 0, pt_since_ms = 0\<rparr>\<rparr>))))"

definition snapshot :: "reducer \<Rightarrow> session_view_snapshot" where
  "snapshot r = \<lparr>svs_revision = rd_revision r, svs_presentation = pt_state (rd_presentation r),
     svs_sessions = sort_key (\<lambda>s. (- int (ss_updated_at_ms s), ss_provider s, ss_id s))
       (map session_summary_of (bt_values (rd_sessions r))),
     svs_notifications = sort_key notification_sort_key (bt_values (rd_notifications r))\<rparr>"

end
