(* ===== verification/Reducer_Invariants.thy ===== *)
theory Reducer_Invariants
  imports Reducer_Model
begin

text \<open>
  The well-formedness invariant of the session reducer, its preservation by every operation, and
  the step relation of a running reducer.
\<close>

section \<open>Well-formedness\<close>

definition session_wf :: "session_record \<Rightarrow> bool" where
  "session_wf s \<longleftrightarrow> bt_wf (sr_turns s)
     \<and> distinct (sr_retired_turn_ids s)
     \<and> length (sr_retired_turn_ids s) \<le> max_persisted_retired_turns
     \<and> (\<forall>c. sr_current_turn_id s = Some c \<longrightarrow> map_of (sr_turns s) c \<noteq> None)"

definition session_key_of :: "session_record \<Rightarrow> session_key" where
  "session_key_of s = (sr_provider s, sr_id s)"

definition sessions_wf :: "(session_key, session_record) btree \<Rightarrow> bool" where
  "sessions_wf m \<longleftrightarrow> bt_wf m \<and> (\<forall>(k, s) \<in> set m. k = session_key_of s \<and> session_wf s)"

definition notifications_wf ::
  "session_key set \<Rightarrow> nat \<Rightarrow> (notification_id, notification) btree \<Rightarrow> bool" where
  "notifications_wf keys alloc m \<longleftrightarrow> bt_wf m
     \<and> (\<forall>(i, n) \<in> set m. i = n_id n \<and> notification_session_key n \<in> keys \<and> n_incarnation n < alloc)
     \<and> inj_on (notification_session_key \<circ> snd) (set m)
     \<and> inj_on (n_incarnation \<circ> snd) (set m)"

definition recent_wf :: "event_key list \<Rightarrow> event_key set \<Rightarrow> bool" where
  "recent_wf ids s \<longleftrightarrow> distinct ids \<and> s = set ids \<and> length ids \<le> max_recent_event_ids"

definition reducer_wf :: "reducer \<Rightarrow> bool" where
  "reducer_wf r \<longleftrightarrow> sessions_wf (rd_sessions r)
     \<and> notifications_wf (fst ` set (rd_sessions r)) (rd_alloc r) (rd_notifications r)
     \<and> recent_wf (rd_recent_event_ids r) (rd_recent_event_set r)"

lemma initial_reducer_wf [simp]: "reducer_wf initial_reducer"
  by (simp add: reducer_wf_def initial_reducer_def sessions_wf_def notifications_wf_def recent_wf_def)

lemma sessions_wf_lookup:
  assumes "sessions_wf m" "map_of m k = Some s"
  shows "session_wf s" and "session_key_of s = k"
  using assms map_of_SomeD by (fastforce simp: sessions_wf_def)+

lemma sessions_wf_insert:
  "sessions_wf m \<Longrightarrow> session_wf s \<Longrightarrow> session_key_of s = k \<Longrightarrow> sessions_wf (bt_insert k s m)"
  using set_bt_insert_subset [of k s m] by (fastforce simp: sessions_wf_def)

lemma notifications_wf_keys:
  "notifications_wf keys alloc m \<Longrightarrow> keys \<subseteq> keys' \<Longrightarrow> alloc \<le> alloc' \<Longrightarrow> notifications_wf keys' alloc' m"
  by (fastforce simp: notifications_wf_def)

lemma notifications_wf_retain:
  "notifications_wf keys alloc m \<Longrightarrow> notifications_wf keys alloc (bt_retain p m)"
proof -
  have sub: "set (bt_retain p m) \<subseteq> set m" by (auto simp: bt_retain_def)
  then show "notifications_wf keys alloc m \<Longrightarrow> notifications_wf keys alloc (bt_retain p m)"
    by (auto simp: notifications_wf_def intro: inj_on_subset)
qed

text \<open>A value update that keeps identity, session and address keeps the invariant.\<close>

lemma notifications_wf_map_values:
  assumes "notifications_wf keys alloc m"
    and f: "\<And>n. n_id (f n) = n_id n" "\<And>n. notification_session_key (f n) = notification_session_key n"
      "\<And>n. n_incarnation (f n) = n_incarnation n"
  shows "notifications_wf keys alloc (bt_map_values f m)"
proof -
  have img: "set (bt_map_values f m) = (\<lambda>(k, n). (k, f n)) ` set m"
    by (auto simp: bt_map_values_def)
  have "inj_on (g \<circ> snd) (set (bt_map_values f m))"
    if "inj_on (g \<circ> snd) (set m)" "\<And>n. g (f n) = g n" for g :: "notification \<Rightarrow> 'b"
  proof (rule inj_onI)
    fix x y
    assume "x \<in> set (bt_map_values f m)" "y \<in> set (bt_map_values f m)" "(g \<circ> snd) x = (g \<circ> snd) y"
    then show "x = y"
      using inj_onD [OF that(1)] unfolding img by (force simp: that(2))
  qed
  note inj = this
  show ?thesis
    unfolding notifications_wf_def
  proof (intro conjI)
    show "bt_wf (bt_map_values f m)" using assms by (simp add: notifications_wf_def)
    show "\<forall>(i, n) \<in> set (bt_map_values f m).
        i = n_id n \<and> notification_session_key n \<in> keys \<and> n_incarnation n < alloc"
      using assms(1) by (auto simp: notifications_wf_def img f)
    show "inj_on (notification_session_key \<circ> snd) (set (bt_map_values f m))"
      using assms(1) by (intro inj) (simp_all add: notifications_wf_def f)
    show "inj_on (n_incarnation \<circ> snd) (set (bt_map_values f m))"
      using assms(1) by (intro inj) (simp_all add: notifications_wf_def f)
  qed
qed

lemma map_values_update:
  assumes "bt_wf m" "map_of m k = Some v"
  shows "bt_insert k (f v) m = map (\<lambda>(k', v'). (k', if k' = k then f v' else v')) m"
  using assms
proof (induction m)
  case (Cons e m)
  obtain k1 v1 where e: "e = (k1, v1)" by (cases e)
  have tail: "map (\<lambda>(k', v'). (k', if k' = k then f v' else v')) m = m" if "k1 = k"
    using Cons.prems that by (intro map_idI) (force simp: e bt_wf_Cons)
  show ?case
  proof (cases "k1 = k")
    case True
    with Cons.prems tail show ?thesis by (simp add: e)
  next
    case False
    with Cons.prems have m: "map_of m k = Some v" by (simp add: e)
    then have "k \<in> fst ` set m" by (metis domI dom_map_of_conv_image_fst)
    with Cons.prems(1) have "k1 < k" by (auto simp: e bt_wf_Cons)
    note m this
    with Cons False show ?thesis by (auto simp: e bt_wf_Cons)
  qed
qed simp

lemma notifications_wf_update:
  assumes wf: "notifications_wf keys alloc m" and n: "map_of m i = Some n"
    and f: "\<And>n. n_id (f n) = n_id n" "\<And>n. notification_session_key (f n) = notification_session_key n"
      "\<And>n. n_incarnation (f n) = n_incarnation n"
  shows "notifications_wf keys alloc (bt_insert i (f n) m)"
proof -
  let ?g = "\<lambda>v. if n_id v = i then f v else v"
  have bt: "bt_wf m" and ids: "\<forall>(j, v) \<in> set m. j = n_id v"
    using wf by (auto simp: notifications_wf_def)
  have "bt_insert i (f n) m = bt_map_values ?g m"
    unfolding map_values_update [OF bt n] bt_map_values_def using ids by (intro map_cong) auto
  moreover have "notifications_wf keys alloc (bt_map_values ?g m)"
    by (rule notifications_wf_map_values [OF wf]) (auto simp: f)
  ultimately show ?thesis by simp
qed

section \<open>Preservation, operation by operation\<close>

lemma new_session_wf [simp]: "session_wf (new_session e)" "session_key_of (new_session e) = event_session_key e"
  by (simp_all add: session_wf_def new_session_def session_key_of_def event_session_key_def)

lemma remember_retired_wf: "session_wf s \<Longrightarrow> session_wf (remember_retired_turn s t)"
  by (simp add: session_wf_def remember_retired_turn_def Let_def distinct_drop del: drop_append)

lemma remember_retired_frame [simp]:
  "sr_turns (remember_retired_turn s t) = sr_turns s"
  "sr_current_turn_id (remember_retired_turn s t) = sr_current_turn_id s"
  "session_key_of (remember_retired_turn s t) = session_key_of s"
  "sr_updated_at_ms (remember_retired_turn s t) = sr_updated_at_ms s"
  "sr_last_event_id (remember_retired_turn s t) = sr_last_event_id s"
  by (simp_all add: remember_retired_turn_def session_key_of_def Let_def)

lemma update_session_frame [simp]:
  "sr_turns (update_session_after_turn s e t) = sr_turns s"
  "sr_retired_turn_ids (update_session_after_turn s e t) = sr_retired_turn_ids s"
  "session_key_of (update_session_after_turn s e t) = session_key_of s"
  "sr_ended (update_session_after_turn s e t) = sr_ended s"
  by (simp_all add: update_session_after_turn_def session_key_of_def Let_def)

lemma update_session_current:
  "sr_current_turn_id (update_session_after_turn s e t) \<in> {Some t, sr_current_turn_id s}"
  by (simp add: update_session_after_turn_def Let_def)

lemma update_session_wf:
  assumes "session_wf s" "map_of (sr_turns s) t \<noteq> None"
  shows "session_wf (update_session_after_turn s e t)"
  using assms update_session_current [of s e t] by (auto simp: session_wf_def)

lemma advance_session_wf:
  assumes "session_wf s" "advance_session s e t = Some s'"
  shows "session_wf s'" and "session_key_of s' = session_key_of s"
proof -
  let ?new = "map_of (sr_turns s) t = None
    \<and> (case sr_current_turn_id s of None \<Rightarrow> False | Some c \<Rightarrow> c \<noteq> t)"
  define s1 where "s1 = (case sr_current_turn_id s of
      Some c \<Rightarrow> if ?new then remember_retired_turn s c else s | None \<Rightarrow> s)"
  obtain p where s': "s' = update_session_after_turn (s1\<lparr>sr_turns := bt_insert t \<lparr>tr_phase = p,
      tr_updated_at_ms = ev_occurred_at_ms e, tr_last_event_id = ev_event_id e\<rparr> (sr_turns s1),
      sr_ended := False\<rparr>) e t"
    using assms(2) by (auto simp: advance_session_def Let_def s1_def split: if_splits option.splits)
  have s1: "session_wf s1" "session_key_of s1 = session_key_of s"
    using assms(1) by (auto simp: s1_def remember_retired_wf split: option.splits)
  then have "session_wf (s1\<lparr>sr_turns := bt_insert t \<lparr>tr_phase = p,
      tr_updated_at_ms = ev_occurred_at_ms e, tr_last_event_id = ev_event_id e\<rparr> (sr_turns s1),
      sr_ended := False\<rparr>)"
    by (auto simp: session_wf_def)
  then show "session_wf s'" unfolding s' by (rule update_session_wf) simp
  show "session_key_of s' = session_key_of s"
    unfolding s' update_session_frame using s1(2) by (simp add: session_key_of_def)
qed

lemma put_session_wf:
  assumes "reducer_wf r" "session_wf s" "session_key_of s = k"
  shows "reducer_wf (put_session k s r)"
  using assms by (auto simp: reducer_wf_def put_session_def sessions_wf_insert
      intro: notifications_wf_keys)

lemma reducer_wf_lookup:
  "reducer_wf r \<Longrightarrow> map_of (rd_sessions r) k = Some s \<Longrightarrow> session_wf s \<and> session_key_of s = k"
  by (auto simp: reducer_wf_def dest: sessions_wf_lookup)

lemma apply_session_started_wf: "reducer_wf r \<Longrightarrow> reducer_wf (fst (apply_session_started r e))"
proof (cases "map_of (rd_sessions r) (event_session_key e)")
  case (Some s)
  assume wf: "reducer_wf r"
  with Some have "session_wf s" "session_key_of s = event_session_key e"
    by (auto dest: reducer_wf_lookup)
  with wf Some show ?thesis
    by (auto simp: apply_session_started_def Let_def session_wf_def session_key_of_def
        intro!: put_session_wf)
qed (simp add: apply_session_started_def Let_def put_session_wf)

lemma apply_session_ended_wf: "reducer_wf r \<Longrightarrow> reducer_wf (fst (apply_session_ended r e))"
proof (cases "map_of (rd_sessions r) (event_session_key e)")
  case None
  assume wf: "reducer_wf r"
  have "session_wf ((new_session e)\<lparr>sr_ended := True\<rparr>)"
    "session_key_of ((new_session e)\<lparr>sr_ended := True\<rparr>) = event_session_key e"
    using new_session_wf [of e] by (simp_all add: session_wf_def session_key_of_def)
  with wf None show ?thesis
    by (simp add: apply_session_ended_def Let_def put_session_wf)
next
  case (Some s)
  assume wf: "reducer_wf r"
  with Some have "session_wf s" "session_key_of s = event_session_key e"
    by (auto dest: reducer_wf_lookup)
  with wf Some show ?thesis
    by (auto simp: apply_session_ended_def Let_def session_wf_def session_key_of_def
        intro!: put_session_wf)
qed

lemma apply_session_event_wf:
  "reducer_wf r \<Longrightarrow> apply_session_event r e = Some (r', tr) \<Longrightarrow> reducer_wf r'"
  using apply_session_started_wf [of r e] apply_session_ended_wf [of r e]
  by (auto simp: apply_session_event_def split: session_event_kind.splits)

lemma apply_turn_event_wf:
  assumes "reducer_wf r" "apply_turn_event r e = Some (r', tr)"
  shows "reducer_wf r'"
proof -
  let ?k = "event_session_key e"
  obtain t where t: "ev_turn_id e = Some t"
    using assms(2) by (auto simp: apply_turn_event_def split: option.splits)
  define r1 where "r1 = (if map_of (rd_sessions r) ?k = None then put_session ?k (new_session e) r else r)"
  define s where "s = (case map_of (rd_sessions r) ?k of None \<Rightarrow> new_session e | Some s \<Rightarrow> s)"
  have s: "session_wf s" "session_key_of s = ?k"
    using assms(1) by (auto simp: s_def split: option.splits dest: reducer_wf_lookup)
  have r1: "reducer_wf r1"
    using assms(1) by (simp add: r1_def put_session_wf)
  have "r' = r1 \<or> (\<exists>s'. advance_session s e t = Some s' \<and> r' = put_session ?k s' r1)"
    using assms(2) by (auto simp: apply_turn_event_def t r1_def s_def Let_def split: option.splits)
  then show ?thesis
    using r1 s advance_session_wf [of s e t] by (auto intro!: put_session_wf)
qed

text \<open>The session of a changed event is present afterwards.\<close>

lemma apply_event_session_present:
  assumes "apply_event r e = Some (r', tr)"
    and "tn_changed tr"
  shows "event_session_key e \<in> fst ` set (rd_sessions r')"
  using assms
  by (auto simp: apply_event_def apply_session_event_def apply_session_started_def
      apply_session_ended_def apply_turn_event_def put_session_def no_transition_def Let_def
      split: session_event_kind.splits option.splits if_splits)

lemma notifications_wf_add:
  assumes kept: "notifications_wf keys alloc m" and set: "set m' = insert (i, x) (set m)"
    and bt: "bt_wf m'"
    and n: "notification_session_key x = k" "n_id x = i" "n_incarnation x = alloc"
    and k: "k \<in> keys" "\<forall>v \<in> set m. (notification_session_key \<circ> snd) v \<noteq> k"
    and fresh: "\<forall>v \<in> set m. (n_incarnation \<circ> snd) v < alloc"
  shows "notifications_wf keys (Suc alloc) m'"
  unfolding notifications_wf_def
proof (intro conjI)
  show "\<forall>(j, v) \<in> set m'. j = n_id v \<and> notification_session_key v \<in> keys \<and> n_incarnation v < Suc alloc"
    using kept n k(1) unfolding set by (force simp: notifications_wf_def less_Suc_eq)
  show "inj_on (notification_session_key \<circ> snd) (set m')"
    using kept n(1) k(2) unfolding set by (auto simp: notifications_wf_def)
  show "inj_on (n_incarnation \<circ> snd) (set m')"
    using kept n(3) fresh unfolding set by (auto simp: notifications_wf_def)
qed (rule bt)

lemma insert_notification_wf:
  assumes "reducer_wf r" "event_session_key e \<in> fst ` set (rd_sessions r)"
    and "insert_notification sha r e kind = Some (r', b)"
  shows "reducer_wf r'"
proof -
  let ?kept = "bt_retain (\<lambda>n. notification_session_key n \<noteq> event_session_key e) (rd_notifications r)"
  let ?keys = "fst ` set (rd_sessions r)"
  have kept: "notifications_wf ?keys (rd_alloc r) ?kept"
    using assms(1) by (simp add: reducer_wf_def notifications_wf_retain)
  have ins: "notifications_wf ?keys (Suc (rd_alloc r))
      (bt_insert i (new_notification (rd_alloc r) i e kind) ?kept)"
    if "map_of ?kept i = None" for i
  proof -
    let ?n = "new_notification (rd_alloc r) i e kind"
    have set: "set (bt_insert i ?n ?kept) = insert (i, ?n) (set ?kept)"
      using set_bt_insert [of ?kept i ?n] kept that
      by (auto simp: notifications_wf_def map_of_eq_None_iff)
    have n: "notification_session_key ?n = event_session_key e" "n_id ?n = i"
      "n_incarnation ?n = rd_alloc r"
      by (simp_all add: new_notification_def notification_session_key_def event_session_key_def)
    have "\<forall>v \<in> set ?kept. (notification_session_key \<circ> snd) v \<noteq> event_session_key e"
      by (auto simp: set_bt_retain)
    moreover have "\<forall>v \<in> set ?kept. (n_incarnation \<circ> snd) v < rd_alloc r"
      using kept by (auto simp: notifications_wf_def)
    moreover have "bt_wf (bt_insert i ?n ?kept)"
      using kept by (simp add: notifications_wf_def)
    ultimately show ?thesis
      using notifications_wf_add [OF kept set _ n] assms(2) by blast
  qed
  show ?thesis
    using assms kept ins
    by (auto simp: insert_notification_def Let_def reducer_wf_def split: if_splits option.splits)
qed

lemma wf_frames:
  "reducer_wf (set_presentation p t r) = reducer_wf r"
  "reducer_wf (bump_revision r) = reducer_wf r"
  "reducer_wf (extend_activity_reminder e t r) = reducer_wf r"
  "reducer_wf (r\<lparr>rd_activity_reminder_until_ms := u\<rparr>) = reducer_wf r"
  "reducer_wf (r\<lparr>rd_presentation := p'\<rparr>) = reducer_wf r"
  "reducer_wf (fst (refresh_presentation r t)) = reducer_wf r"
  "reducer_wf (show_replacement t (r, b)) = reducer_wf r"
  by (simp_all add: reducer_wf_def set_presentation_def bump_revision_def
      extend_activity_reminder_def refresh_presentation_def show_replacement_def Let_def)

lemma resolve_attention_wf: "reducer_wf r \<Longrightarrow> reducer_wf (resolve_attention_notifications k t r)"
  by (auto simp: reducer_wf_def resolve_attention_notifications_def notification_session_key_def
      intro!: notifications_wf_map_values)

lemma remember_event_wf: "reducer_wf r \<Longrightarrow> reducer_wf (remember_event k r)"
proof -
  assume wf: "reducer_wf r"
  let ?ids = "(if k \<in> rd_recent_event_set r then filter (\<lambda>x. x \<noteq> k) (rd_recent_event_ids r)
                 else rd_recent_event_ids r) @ [k]"
  let ?n = "length ?ids - max_recent_event_ids"
  have d: "distinct ?ids" and s: "set ?ids = insert k (rd_recent_event_set r)"
    using wf by (auto simp: reducer_wf_def recent_wf_def)
  have cut: "set xs - set (take n xs) = set (drop n xs)" if "distinct xs" for xs :: "event_key list" and n
    using that by (metis Diff_cancel Un_Diff Un_commute append_take_drop_id distinct_append
        Diff_triv Int_commute set_append sup_bot.right_neutral)
  have "insert k (rd_recent_event_set r) - set (take ?n ?ids) = set (drop ?n ?ids)"
    using cut [OF d, of ?n] s by simp
  then have "recent_wf (rd_recent_event_ids (remember_event k r)) (rd_recent_event_set (remember_event k r))"
    using d unfolding remember_event_def Let_def recent_wf_def
    by (simp add: distinct_drop del: drop_append take_append)
  with wf show ?thesis by (simp add: reducer_wf_def remember_event_def Let_def)
qed

lemma remember_event_frame [simp]:
  "rd_sessions (remember_event k r) = rd_sessions r"
  "rd_notifications (remember_event k r) = rd_notifications r"
  "rd_presentation (remember_event k r) = rd_presentation r"
  "rd_revision (remember_event k r) = rd_revision r"
  "rd_activity_reminder_until_ms (remember_event k r) = rd_activity_reminder_until_ms r"
  "rd_minimum_dwell_ms (remember_event k r) = rd_minimum_dwell_ms r"
  "rd_alloc (remember_event k r) = rd_alloc r"
  by (simp_all add: remember_event_def Let_def)

lemma sessions_frames [simp]:
  "rd_sessions (extend_activity_reminder e t r) = rd_sessions r"
  "rd_sessions (resolve_attention_notifications k u r) = rd_sessions r"
  "rd_sessions (bump_revision r) = rd_sessions r"
  "rd_sessions (set_presentation p t r) = rd_sessions r"
  "rd_sessions (fst (refresh_presentation r t)) = rd_sessions r"
  "rd_sessions (show_replacement t (r, b)) = rd_sessions r"
  by (simp_all add: extend_activity_reminder_def resolve_attention_notifications_def
      bump_revision_def set_presentation_def refresh_presentation_def show_replacement_def Let_def)

lemma notifications_frames [simp]:
  "rd_notifications (extend_activity_reminder e t r) = rd_notifications r"
  "rd_notifications (bump_revision r) = rd_notifications r"
  "rd_notifications (set_presentation p t r) = rd_notifications r"
  "rd_notifications (fst (refresh_presentation r t)) = rd_notifications r"
  "rd_notifications (show_replacement t (r, b)) = rd_notifications r"
  "rd_notifications (put_session k s r) = rd_notifications r"
  by (simp_all add: extend_activity_reminder_def put_session_def
      bump_revision_def set_presentation_def refresh_presentation_def show_replacement_def Let_def)

lemma insert_notification_sessions:
  "insert_notification sha r e kind = Some (r', b) \<Longrightarrow> rd_sessions r' = rd_sessions r"
  by (auto simp: insert_notification_def Let_def split: if_splits option.splits)

lemma finish_transition_sessions:
  "finish_transition sha r e at tr = Some r' \<Longrightarrow> rd_sessions r' = rd_sessions r"
  by (auto simp: finish_transition_def Let_def dest!: insert_notification_sessions
      split: option.splits if_splits)

lemma finish_transition_wf:
  assumes wf: "reducer_wf r" and k: "event_session_key e \<in> fst ` set (rd_sessions r)"
    and fin: "finish_transition sha r e at tr = Some r'"
  shows "reducer_wf r'"
proof -
  define r2 where "r2 = (if tn_resolve_attention tr
    then resolve_attention_notifications (event_session_key e) (ev_turn_id e) (extend_activity_reminder e at r)
    else extend_activity_reminder e at r)"
  have r2: "reducer_wf r2" "rd_sessions r2 = rd_sessions r"
    using wf by (simp_all add: r2_def resolve_attention_wf wf_frames)
  from fin obtain r3 where r3: "r' = bump_revision (fst (refresh_presentation r3 at))"
    and src: "(case tn_notification tr of None \<Rightarrow> Some r2
       | Some kind \<Rightarrow> map_option (show_replacement at) (insert_notification sha r2 e kind)) = Some r3"
    unfolding finish_transition_def Let_def r2_def [symmetric] map_option_eq_Some by blast
  have "reducer_wf r3"
  proof (cases "tn_notification tr")
    case None
    with src r2 show ?thesis by simp
  next
    case (Some kind)
    with src obtain r4 b where "insert_notification sha r2 e kind = Some (r4, b)"
      "r3 = show_replacement at (r4, b)" by auto
    with insert_notification_wf r2 k show ?thesis by (simp add: wf_frames)
  qed
  then show ?thesis by (simp add: r3 wf_frames)
qed

lemma reduce_at_cases:
  assumes "reduce_at sha r e at = Some (r', out)"
  obtains (duplicate) "is_duplicate_in_current_lifecycle r e" "r' = r" "out = Duplicate"
  | (stale) tr where "\<not> is_duplicate_in_current_lifecycle r e"
      "apply_event (remember_event (event_id_key e) r) e = Some (r', tr)" "\<not> tn_changed tr"
      "out = IgnoredStale"
  | (applied) r2 tr where "\<not> is_duplicate_in_current_lifecycle r e"
      "apply_event (remember_event (event_id_key e) r) e = Some (r2, tr)" "tn_changed tr"
      "finish_transition sha r2 e at tr = Some r'" "out = Applied (rd_revision r')"
proof (cases "is_duplicate_in_current_lifecycle r e")
  case True
  with assms have "r' = r" "out = Duplicate" by (simp_all add: reduce_at_def)
  with duplicate True show ?thesis by blast
next
  case False
  with assms(1) obtain r2 tr where step: "apply_event (remember_event (event_id_key e) r) e = Some (r2, tr)"
    by (cases "apply_event (remember_event (event_id_key e) r) e") (auto simp: reduce_at_def)
  show ?thesis
  proof (cases "tn_changed tr")
    case True
    with assms(1) False step have "finish_transition sha r2 e at tr = Some r'" "out = Applied (rd_revision r')"
      by (auto simp: reduce_at_def)
    with applied False step True show ?thesis by blast
  next
    case False2: False
    with assms(1) False step have "r2 = r'" "out = IgnoredStale" by (simp_all add: reduce_at_def)
    with stale False step False2 show ?thesis by blast
  qed
qed

lemma apply_event_wf:
  "reducer_wf r \<Longrightarrow> apply_event r e = Some (r', tr) \<Longrightarrow> reducer_wf r'"
  unfolding apply_event_def using apply_session_event_wf apply_turn_event_wf by metis

lemma reduce_at_wf [inv_intros]:
  assumes wf: "reducer_wf r" and step: "reduce_at sha r e at = Some (r', out)"
  shows "reducer_wf r'"
  using step
proof (cases rule: reduce_at_cases)
  case duplicate
  with wf show ?thesis by simp
next
  case stale
  with wf show ?thesis by (blast intro: apply_event_wf remember_event_wf)
next
  case applied
  with wf show ?thesis
    by (blast intro: apply_event_wf remember_event_wf finish_transition_wf apply_event_session_present)
qed

lemma acknowledge_notification_wf [inv_intros]:
  assumes "reducer_wf r"
  shows "reducer_wf (fst (acknowledge_notification r i now))"
proof -
  have "reducer_wf (r\<lparr>rd_notifications := bt_insert i (n\<lparr>n_state := Acknowledged\<rparr>) (rd_notifications r)\<rparr>)"
    if "map_of (rd_notifications r) i = Some n" for n
    using assms that
      notifications_wf_update [of _ _ _ _ _ "\<lambda>n. n\<lparr>n_state := Acknowledged\<rparr>"]
    by (simp add: reducer_wf_def notification_session_key_def)
  with assms show ?thesis
    by (auto simp: acknowledge_notification_def Let_def wf_frames split: option.splits)
qed

lemma advance_presentation_wf [inv_intros]:
  "reducer_wf r \<Longrightarrow> reducer_wf (fst (advance_presentation r now))"
  by (cases "refresh_presentation r now")
    (use wf_frames(6) [of r now] in \<open>simp add: advance_presentation_def Let_def wf_frames\<close>)

lemma restart_activity_reminder_wf [inv_intros]:
  "reducer_wf r \<Longrightarrow> reducer_wf (restart_activity_reminder r t)"
  by (simp add: restart_activity_reminder_def wf_frames)

lemma update_notification_title_wf [inv_intros]:
  assumes "reducer_wf r"
  shows "reducer_wf (fst (update_notification_title r original title))"
proof -
  have "reducer_wf (r\<lparr>rd_notifications := bt_insert i (n\<lparr>n_title := Some title\<rparr>) (rd_notifications r)\<rparr>)"
    if "map_of (rd_notifications r) i = Some n" for n i
    using assms that
      notifications_wf_update [of _ _ _ _ _ "\<lambda>n. n\<lparr>n_title := Some title\<rparr>"]
    by (simp add: reducer_wf_def notification_session_key_def)
  with assms show ?thesis
    by (auto simp: update_notification_title_def wf_frames split: option.splits)
qed

section \<open>Restoring establishes the invariant\<close>

lemma restore_retired_Inr:
  "restore_retired c ts acc = Inr out \<Longrightarrow> distinct acc \<Longrightarrow> out = acc @ ts \<and> distinct (acc @ ts) \<and> (\<forall>t \<in> set ts. c \<noteq> Some t)"
proof (induction ts arbitrary: acc)
  case (Cons t ts)
  then have "restore_retired c ts (acc @ [t]) = Inr out" "t \<notin> set acc" "c \<noteq> Some t"
    by (auto split: if_splits)
  with Cons.IH [of "acc @ [t]"] Cons.prems show ?case by auto
qed simp

lemma into_record_wf: "into_record p = Inr s \<Longrightarrow> session_wf s \<and> session_key_of s = persisted_key p"
  by (auto simp: into_record_def Let_def rbind_Inr_iff session_wf_def session_key_of_def
      persisted_key_def not_less bt_wf_Cons split: option.splits if_splits dest: restore_retired_Inr)

lemma restore_sessions_wf:
  "restore_sessions ps m = Inr out \<Longrightarrow> sessions_wf m \<Longrightarrow> sessions_wf out"
proof (induction ps arbitrary: m)
  case (Cons p ps)
  then obtain s where s: "into_record p = Inr s"
    and rest: "restore_sessions ps (bt_insert (session_key_of s) s m) = Inr out"
    by (auto simp: rbind_Inr_iff Let_def session_key_of_def split: if_splits)
  have "sessions_wf (bt_insert (session_key_of s) s m)"
    using Cons.prems(2) into_record_wf [OF s] by (intro sessions_wf_insert) auto
  with rest show ?case by (rule Cons.IH)
qed simp

definition restored_wf :: "(session_key, session_record) btree \<Rightarrow> session_key set
    \<Rightarrow> (notification_id, notification) btree \<Rightarrow> bool" where
  "restored_wf sessions seen m \<longleftrightarrow> bt_wf m
     \<and> (\<forall>(i, n) \<in> set m. i = n_id n \<and> notification_session_key n \<in> seen)
     \<and> inj_on (notification_session_key \<circ> snd) (set m)
     \<and> seen \<subseteq> fst ` set sessions"

lemma restore_notifications_wf:
  assumes "restore_notifications sessions ns seen m = Inr out" "restored_wf sessions seen m"
  shows "\<exists>seen'. restored_wf sessions seen' out \<and> snd ` set out = set ns \<union> snd ` set m"
  using assms
proof (induction ns arbitrary: seen m)
  case Nil
  then show ?case by auto
next
  case (Cons n ns)
  let ?k = "notification_session_key n" and ?m = "bt_insert (n_id n) n m"
  have n: "?k \<in> fst ` set sessions" "?k \<notin> seen" "map_of m (n_id n) = None"
    and rest: "restore_notifications sessions ns (insert ?k seen) ?m = Inr out"
    using Cons.prems(1)
    by (auto simp: Let_def split: if_splits) (metis domI dom_map_of_conv_image_fst)
  have bt: "bt_wf m" using Cons.prems(2) by (simp add: restored_wf_def)
  have "n_id n \<notin> fst ` set m" using n(3) by (simp add: map_of_eq_None_iff)
  then have "{x \<in> set m. fst x \<noteq> n_id n} = set m" by force
  then have set: "set ?m = insert (n_id n, n) (set m)" by (simp add: set_bt_insert [OF bt])
  have "restored_wf sessions (insert ?k seen) ?m"
    unfolding restored_wf_def
  proof (intro conjI)
    show "bt_wf ?m" by (simp add: bt)
    show "\<forall>(i, v) \<in> set ?m. i = n_id v \<and> notification_session_key v \<in> insert ?k seen"
      using Cons.prems(2) unfolding set restored_wf_def by auto
    have "?k \<notin> (notification_session_key \<circ> snd) ` set m"
      using Cons.prems(2) n(2) unfolding restored_wf_def by auto
    then show "inj_on (notification_session_key \<circ> snd) (set ?m)"
      using Cons.prems(2) unfolding set inj_on_insert restored_wf_def by auto
    show "insert ?k seen \<subseteq> fst ` set sessions"
      using Cons.prems(2) n(1) unfolding restored_wf_def by simp
  qed
  from Cons.IH [OF rest this] show ?case by (auto simp: set)
qed

lemma foldr_max_bound: "x \<in> set xs \<Longrightarrow> x < Suc (foldr max xs (0 :: nat))"
  by (induction xs) auto

text \<open>
  A state read back from disk is accepted with the invariant, for distinct addresses (each
  deserialized notification allocates its own \<^verbatim>\<open>Arc\<close>).
\<close>

lemma from_persistent_state_wf:
  assumes "from_persistent_state st = Inr r" "distinct (map n_incarnation (rs_notifications st))"
  shows "reducer_wf r"
proof -
  obtain sessions ns where s: "restore_sessions (rs_sessions st) [] = Inr sessions"
    and n: "restore_notifications sessions (rs_notifications st) {} [] = Inr ns"
    and r: "rd_sessions r = sessions" "rd_notifications r = ns" "rd_recent_event_ids r = []"
      "rd_recent_event_set r = {}"
      "rd_alloc r = Suc (foldr max (map n_incarnation (rs_notifications st)) 0)"
    using assms(1)
    by (auto simp: from_persistent_state_def rbind_Inr_iff Let_def initial_reducer_def split: if_splits)
  have swf: "sessions_wf sessions"
    using restore_sessions_wf [OF s] by (simp add: sessions_wf_def)
  obtain seen where w: "restored_wf sessions seen ns" and vals: "snd ` set ns = set (rs_notifications st)"
    using restore_notifications_wf [OF n] by (auto simp: restored_wf_def)
  have "inj_on n_incarnation (snd ` set ns)"
    using assms(2) by (simp add: vals distinct_map)
  moreover have "inj_on snd (set ns)"
    using w unfolding restored_wf_def inj_on_def by fastforce
  ultimately have "inj_on (n_incarnation \<circ> snd) (set ns)"
    by (rule comp_inj_on [rotated])
  moreover have "n_incarnation x < rd_alloc r" if "(i, x) \<in> set ns" for i x
  proof -
    have "x \<in> set (rs_notifications st)" using that vals by force
    then show ?thesis using foldr_max_bound [of "n_incarnation x"] by (simp add: r)
  qed
  ultimately have "notifications_wf (fst ` set sessions) (rd_alloc r) ns"
    using w unfolding restored_wf_def notifications_wf_def by auto
  with swf show ?thesis by (simp add: reducer_wf_def r recent_wf_def)
qed

section \<open>A running reducer\<close>

text \<open>The calls \<^verbatim>\<open>AppState\<close> and the ingestion actor make on a reducer, as a step relation.\<close>

inductive reducer_step :: "(byte list \<Rightarrow> byte list) \<Rightarrow> reducer \<Rightarrow> reducer \<Rightarrow> bool"
  for sha :: "byte list \<Rightarrow> byte list" where
  step_reduce: "reduce_at sha r e at = Some (r', out) \<Longrightarrow> reducer_step sha r r'"
| step_acknowledge: "reducer_step sha r (fst (acknowledge_notification r i now))"
| step_advance: "reducer_step sha r (fst (advance_presentation r now))"
| step_restart: "reducer_step sha r (restart_activity_reminder r now)"
| step_title: "reducer_step sha r (fst (update_notification_title r original title))"

definition reducer_init :: "reducer \<Rightarrow> bool" where
  "reducer_init r \<longleftrightarrow> (\<exists>d. r = with_minimum_dwell_ms d)
     \<or> (\<exists>st. distinct (map n_incarnation (rs_notifications st)) \<and> from_persistent_state st = Inr r)"

lemma reducer_step_wf: "reducer_step sha r r' \<Longrightarrow> reducer_wf r \<Longrightarrow> reducer_wf r'"
  by (induction rule: reducer_step.induct) (auto intro: inv_intros)

lemma reducer_init_wf: "reducer_init r \<Longrightarrow> reducer_wf r"
  using initial_reducer_wf
  by (auto simp: reducer_init_def with_minimum_dwell_ms_def reducer_wf_def
      intro: from_persistent_state_wf [unfolded reducer_wf_def, THEN conjunct1]
        from_persistent_state_wf [unfolded reducer_wf_def, THEN conjunct2, THEN conjunct1]
        from_persistent_state_wf [unfolded reducer_wf_def, THEN conjunct2, THEN conjunct2])

interpretation running_reducer: invariant_system reducer_init "reducer_step sha" reducer_wf
  for sha
  by unfold_locales (auto intro: reducer_init_wf reducer_step_wf)

end
