(* ===== verification/Reducer_Properties.thy ===== *)
theory Reducer_Properties
  imports Reducer_Invariants
begin

text \<open>
  What the session reducer promises its callers: it never panics on validated events, a redelivered
  event changes nothing, a terminal turn stays terminal, the presentation follows the notifications,
  and what it persists can be read back.
\<close>

section \<open>Sample inputs\<close>

definition sample_event :: "session_event_kind \<Rightarrow> string \<Rightarrow> string \<Rightarrow> nat \<Rightarrow> session_event" where
  "sample_event kind turn eid at = \<lparr>ev_version = 1, ev_event_id = Ident (lit eid),
     ev_provider = Ident (lit ''codex''), ev_type = kind, ev_session_id = Ident (lit ''s''),
     ev_turn_id = Some (Ident (lit turn)), ev_occurred_at_ms = at, ev_project = None,
     ev_summary = None, ev_capabilities = no_capabilities,
     ev_source_discriminator = lit ''default''\<rparr>"

definition sample_sha :: "byte list \<Rightarrow> byte list" where
  "sample_sha bs = replicate 32 0"

fun reduce_all :: "(byte list \<Rightarrow> byte list) \<Rightarrow> session_event list \<Rightarrow> reducer \<Rightarrow> reducer option" where
  "reduce_all sha [] r = Some r"
| "reduce_all sha (e # es) r = (case reduce sha r e of None \<Rightarrow> None | Some (r', out) \<Rightarrow> reduce_all sha es r')"

section \<open>No panic\<close>

lemma notification_id_total:
  assumes "\<And>bs. length (sha bs) = 32"
  shows "\<exists>i. notification_id sha p e = Some i"
proof -
  have "\<not> has_control (lit ''notification-'')" and "byte_len (lit ''notification-'') = 13"
    by (simp_all add: lit_def has_control_def is_control_def byte_len_def utf8_width_def)
  moreover have "lit ''notification-'' \<noteq> []" by (simp add: lit_def)
  ultimately have "ident_ok (Ident (lit ''notification-'' @ hex_of_bytes
      (sha (delimited [utf8_bytes (ident_str p), utf8_bytes (ident_str e)]))) :: notification_id)"
    using assms by (simp add: ident_ok_def max_id_bytes_def hex_no_control)
  then show ?thesis
    by (simp add: notification_id_def notification_id_parse_def ident_parse_def ident_ok_def not_le)
qed

lemma insert_notification_total:
  assumes "\<And>bs. length (sha bs) = 32"
  shows "insert_notification sha r e kind \<noteq> None"
  using notification_id_total [of sha "ev_provider e" "ev_event_id e"] assms
  by (auto simp: insert_notification_def Let_def split: option.splits)

lemma finish_transition_total:
  assumes "\<And>bs. length (sha bs) = 32"
  shows "finish_transition sha r e at tr \<noteq> None"
  using insert_notification_total [of sha] assms
  by (auto simp: finish_transition_def Let_def split: option.splits)

lemma apply_event_total: "event_ok e \<Longrightarrow> apply_event r e \<noteq> None"
  using event_ok_turn [of e]
  by (cases "ev_type e")
    (auto simp: apply_event_def apply_session_event_def apply_turn_event_def Let_def)

lemma reduce_at_defined:
  assumes "event_ok e" "\<And>bs. length (sha bs) = 32"
  shows "\<exists>r' out. reduce_at sha r e at = Some (r', out)"
proof (cases "apply_event (remember_event (event_id_key e) r) e")
  case None
  with apply_event_total [OF assms(1)] show ?thesis by blast
next
  case (Some p)
  then show ?thesis
    using finish_transition_total [of sha, OF assms(2)] by (cases p) (auto simp: reduce_at_def)
qed

lemma sample_event_ok [simp]: "event_ok (sample_event kind turn eid at)"
  by (simp add: event_ok_def sample_event_def session_schema_version_def source_discriminator_ok_def
      max_source_discriminator_chars_def lit_def has_control_def is_control_def)

lemma sample_sha_length [simp]: "length (sample_sha bs) = 32"
  by (simp add: sample_sha_def)

definition sample_card :: notification_id where
  "sample_card = Ident (lit ''notification-'' @ hex_of_bytes (replicate 32 0))"

lemma sample_notification_id [simp]: "notification_id sample_sha p e = Some sample_card"
  using notification_id_total [of sample_sha p e]
  by (auto simp: notification_id_def notification_id_parse_def ident_parse_def sample_sha_def
      sample_card_def split: if_splits)

text \<open>The definitions a concrete run evaluates.\<close>

lemmas run_defs = reduce_at_def reduce_def apply_event_def is_duplicate_in_current_lifecycle_def
  remember_event_def apply_session_event_def apply_session_started_def apply_session_ended_def
  apply_turn_event_def advance_session_def next_turn_phase_def update_session_after_turn_def
  remember_retired_turn_def put_session_def new_session_def turn_transition_def no_transition_def
  finish_transition_def extend_activity_reminder_def starts_activity_reminder_def
  resolve_attention_notifications_def insert_notification_def new_notification_def
  show_replacement_def refresh_presentation_def desired_presentation_def set_presentation_def
  bump_revision_def initial_reducer_def event_order_def turn_order_def session_order_def
  event_session_key_def event_id_key_def notification_session_key_def bt_values_def bt_retain_def
  bt_map_values_def max_recent_event_ids_def max_persisted_retired_turns_def
  default_minimum_dwell_ms_def default_activity_reminder_duration_ms_def sat_add_def u64_max_def
  sample_event_def lit_def less_eq_presentation_state_def less_presentation_state_def

text \<open>
  Reducing a validated event never panics: neither \<^verbatim>\<open>unreachable!\<close> of the session handler nor the
  two \<^verbatim>\<open>expect\<close> calls (the turn identity of a turn event, the derived notification identity) can
  fire, whatever the state of the reducer, when the digest has 32 bytes.
\<close>

theorem reduce_at_total:
  assumes "event_validate e = Inr ()" "\<And>bs. length (sha bs) = 32"
  shows "\<exists>r' out. reduce_at sha r e at = Some (r', out)"
  using assms by (auto simp: event_validate_iff intro: reduce_at_defined)

theorem reduce_at_total_witness:
  "\<exists>r' out. reduce_at sample_sha initial_reducer (sample_event TurnFailed ''t1'' ''e1'' 5) 7 = Some (r', out)"
  by (rule reduce_at_total) (simp_all add: event_validate_iff)

section \<open>The invariant\<close>

text \<open>
  C4. Every reducer reachable from a fresh or restored one is well formed, whatever events,
  acknowledgements, clock ticks and title updates it handles: keys match the records they index,
  the current turn of a session is recorded, at most 16 distinct turns are remembered as retired,
  every notification belongs to a known session and no session has two, and the memory of recent
  events lists at most 4096 distinct keys and agrees with its index set.
\<close>

theorem reachable_reducer_wf:
  assumes "reducer_init r" "(reducer_step sha)\<^sup>*\<^sup>* r r'"
  shows "reducer_wf r'"
  using assms by (rule running_reducer.inv_reachable)

theorem reachable_reducer_wf_witness:
  "reducer_wf (restart_activity_reminder (with_minimum_dwell_ms 750) 3)"
  by (rule reachable_reducer_wf [of "with_minimum_dwell_ms 750" sample_sha])
    (auto simp: reducer_init_def intro: step_restart)

section \<open>Redelivery\<close>

text \<open>An event that was just remembered is the newest entry, and remembering it again is no change.\<close>

definition newest_event :: "reducer \<Rightarrow> event_key \<Rightarrow> bool" where
  "newest_event r k \<longleftrightarrow> (\<exists>ids. rd_recent_event_ids r = ids @ [k])"

lemma drop_keeps_last:
  "0 < m \<Longrightarrow> drop (length (xs @ [x]) - m) (xs @ [x]) = drop (length (xs @ [x]) - m) xs @ [x]"
  by simp

lemma newest_remembered: "newest_event (remember_event k r) k"
proof -
  define ids where "ids = (if k \<in> rd_recent_event_set r
    then filter (\<lambda>x. x \<noteq> k) (rd_recent_event_ids r) else rd_recent_event_ids r)"
  have "rd_recent_event_ids (remember_event k r)
      = drop (length (ids @ [k]) - max_recent_event_ids) (ids @ [k])"
    unfolding remember_event_def Let_def ids_def [symmetric] by (cases r) (simp only: reducer.simps)
  also have "\<dots> = drop (length (ids @ [k]) - max_recent_event_ids) ids @ [k]"
    by (rule drop_keeps_last) (simp add: max_recent_event_ids_def)
  finally show ?thesis unfolding newest_event_def by (rule exI)
qed

lemma newest_in_set:
  assumes "reducer_wf r" "newest_event r k"
  shows "k \<in> rd_recent_event_set r"
proof -
  have "rd_recent_event_set r = set (rd_recent_event_ids r)"
    using assms(1) by (simp add: reducer_wf_def recent_wf_def)
  with assms(2) show ?thesis unfolding newest_event_def by force
qed

lemma remember_newest:
  assumes wf: "reducer_wf r" and new: "newest_event r k"
  shows "remember_event k r = r"
proof -
  obtain ids where ids: "rd_recent_event_ids r = ids @ [k]" using new by (auto simp: newest_event_def)
  have d: "distinct (ids @ [k])" "rd_recent_event_set r = set (ids @ [k])"
    "length (ids @ [k]) \<le> max_recent_event_ids"
    using wf by (simp_all add: reducer_wf_def recent_wf_def ids)
  then have "filter (\<lambda>x. x \<noteq> k) ids = ids" by (auto simp: filter_id_conv)
  with d show ?thesis by (auto simp: remember_event_def Let_def ids)
qed

lemma recent_frames [simp]:
  "rd_recent_event_ids (extend_activity_reminder e t r) = rd_recent_event_ids r"
  "rd_recent_event_ids (resolve_attention_notifications k u r) = rd_recent_event_ids r"
  "rd_recent_event_ids (bump_revision r) = rd_recent_event_ids r"
  "rd_recent_event_ids (set_presentation p t r) = rd_recent_event_ids r"
  "rd_recent_event_ids (fst (refresh_presentation r t)) = rd_recent_event_ids r"
  "rd_recent_event_ids (show_replacement t (r, b)) = rd_recent_event_ids r"
  "rd_recent_event_ids (put_session k' s r) = rd_recent_event_ids r"
  by (simp_all add: extend_activity_reminder_def resolve_attention_notifications_def put_session_def
      bump_revision_def set_presentation_def refresh_presentation_def show_replacement_def Let_def)

lemma insert_notification_recent:
  "insert_notification sha r e kind = Some (r', b) \<Longrightarrow> rd_recent_event_ids r' = rd_recent_event_ids r"
  by (auto simp: insert_notification_def Let_def split: if_splits option.splits)

lemma finish_transition_recent:
  "finish_transition sha r e at tr = Some r' \<Longrightarrow> rd_recent_event_ids r' = rd_recent_event_ids r"
  by (auto simp: finish_transition_def Let_def dest!: insert_notification_recent
      split: option.splits if_splits)

lemma apply_event_recent:
  "apply_event r e = Some (r', tr) \<Longrightarrow> rd_recent_event_ids r' = rd_recent_event_ids r"
  by (auto simp: apply_event_def apply_session_event_def apply_session_started_def
      apply_session_ended_def apply_turn_event_def Let_def
      split: if_splits option.splits session_event_kind.splits)

lemma reduce_at_newest:
  assumes "reduce_at sha r e at = Some (r', out)" "out \<noteq> Duplicate"
  shows "newest_event r' (event_id_key e)"
  using assms(1)
proof (cases rule: reduce_at_cases)
  case duplicate
  with assms(2) show ?thesis by simp
next
  case stale
  then show ?thesis using newest_remembered apply_event_recent by (simp add: newest_event_def)
next
  case applied
  then show ?thesis
    using newest_remembered apply_event_recent finish_transition_recent by (simp add: newest_event_def)
qed

text \<open>What a session event leaves of its session: the next delivery is a duplicate or stale.\<close>

lemma apply_session_event_again:
  assumes "apply_session_event r e = Some (r', tr)"
  shows "\<exists>s. map_of (rd_sessions r') (event_session_key e) = Some s
    \<and> (sr_ended s = (ev_type e = SessionEnded)
       \<or> (r' = r \<and> \<not> tn_changed tr \<and> event_order e \<le> session_order s))"
  using assms
  by (auto simp: apply_session_event_def apply_session_started_def apply_session_ended_def
      put_session_def no_transition_def new_session_def Let_def
      split: if_splits option.splits session_event_kind.splits)

text \<open>
  C3. Delivery is idempotent: handing the same event to the reducer a second time, at any later
  clock, leaves the state exactly as the first delivery left it and is reported as a duplicate or
  stale, never as applied.
\<close>

theorem redelivery_changes_nothing:
  assumes "reducer_wf r" "reduce_at sha r e at = Some (r1, out1)"
    and "reduce_at sha r1 e at' = Some (r2, out2)"
  shows "r2 = r1 \<and> (out2 = Duplicate \<or> out2 = IgnoredStale)"
proof (cases "is_duplicate_in_current_lifecycle r1 e")
  case True
  with assms(3) show ?thesis by (simp add: reduce_at_def)
next
  case False
  have wf1: "reducer_wf r1" using reduce_at_wf assms(1,2) by blast
  have "out1 \<noteq> Duplicate"
    using assms(2) False by (cases rule: reduce_at_cases) auto
  then have new: "newest_event r1 (event_id_key e)" using reduce_at_newest assms(2) by blast
  then have mem: "event_id_key e \<in> rd_recent_event_set r1" using wf1 by (rule newest_in_set [rotated])
  have kind: "ev_type e \<in> {SessionStarted, SessionEnded}"
    using False mem by (cases "ev_type e") (auto simp: is_duplicate_in_current_lifecycle_def)
  obtain rr tr where step: "apply_session_event (remember_event (event_id_key e) r) e = Some (rr, tr)"
    and r1: "(r1 = rr \<and> \<not> tn_changed tr) \<or> (tn_changed tr \<and> rd_sessions r1 = rd_sessions rr)"
    using assms(2) \<open>out1 \<noteq> Duplicate\<close> kind
    by (cases rule: reduce_at_cases) (auto simp: apply_event_def dest: finish_transition_sessions)
  from apply_session_event_again [OF step] obtain s where
    s: "map_of (rd_sessions r1) (event_session_key e) = Some s"
    and c: "sr_ended s = (ev_type e = SessionEnded) \<or> event_order e \<le> session_order s"
    using r1 by auto
  have "sr_ended s \<noteq> (ev_type e = SessionEnded)"
    using False mem kind s by (auto simp: is_duplicate_in_current_lifecycle_def)
  with c have "apply_event r1 e = Some (r1, no_transition)"
    using kind s by (auto simp: apply_event_def apply_session_event_def apply_session_started_def
        apply_session_ended_def)
  then show ?thesis
    using assms(3) False by (simp add: reduce_at_def remember_newest [OF wf1 new] no_transition_def)
qed

theorem redelivery_changes_nothing_witness:
  "\<exists>r1 out1 r2 out2. reduce_at sample_sha initial_reducer (sample_event TurnFailed ''t1'' ''e1'' 5) 6 = Some (r1, out1)
     \<and> reduce_at sample_sha r1 (sample_event TurnFailed ''t1'' ''e1'' 5) 9 = Some (r2, out2)
     \<and> r2 = r1 \<and> (out2 = Duplicate \<or> out2 = IgnoredStale)"
proof -
  let ?e = "sample_event TurnFailed ''t1'' ''e1'' 5"
  obtain r1 out1 where 1: "reduce_at sample_sha initial_reducer ?e 6 = Some (r1, out1)"
    using reduce_at_defined [of ?e sample_sha initial_reducer 6] by auto
  obtain r2 out2 where 2: "reduce_at sample_sha r1 ?e 9 = Some (r2, out2)"
    using reduce_at_defined [of ?e sample_sha r1 9] by auto
  have "r2 = r1 \<and> (out2 = Duplicate \<or> out2 = IgnoredStale)"
    by (rule redelivery_changes_nothing [OF initial_reducer_wf 1 2])
  with 1 2 show ?thesis by blast
qed

section \<open>Turns only move forward\<close>

definition turn_of :: "reducer \<Rightarrow> session_key \<Rightarrow> turn_id \<Rightarrow> turn_record option" where
  "turn_of r k t = Option.bind (map_of (rd_sessions r) k) (\<lambda>s. map_of (sr_turns s) t)"

definition terminal_phase :: "session_phase \<Rightarrow> bool" where
  "terminal_phase p \<longleftrightarrow> p \<in> {PhaseCompleted, PhaseFailed}"

definition turn_advances :: "turn_record \<Rightarrow> turn_record \<Rightarrow> bool" where
  "turn_advances p q \<longleftrightarrow> turn_order p \<le> turn_order q \<and> (terminal_phase (tr_phase p) \<longrightarrow> terminal_phase (tr_phase q))"

lemma turn_advances_refl [simp]: "turn_advances p p"
  by (simp add: turn_advances_def)

lemma turn_advances_trans: "turn_advances p q \<Longrightarrow> turn_advances q u \<Longrightarrow> turn_advances p u"
  by (auto simp: turn_advances_def)

lemma next_turn_phase_advances:
  assumes "next_turn_phase (Some p) e = Some ph"
  shows "turn_advances p \<lparr>tr_phase = ph, tr_updated_at_ms = ev_occurred_at_ms e, tr_last_event_id = ev_event_id e\<rparr>"
proof -
  have "\<not> event_order e \<le> turn_order p"
    using assms by (auto simp: next_turn_phase_def)
  then have "turn_order p \<le> event_order e" by (metis linear)
  moreover have "terminal_phase (tr_phase p) \<longrightarrow> terminal_phase ph"
    using assms by (auto simp: next_turn_phase_def terminal_phase_def split: if_splits)
  ultimately show ?thesis
    by (simp add: turn_advances_def turn_order_def event_order_def)
qed

lemma advance_session_turns:
  assumes "advance_session s e t = Some s'"
  obtains ph where "next_turn_phase (map_of (sr_turns s) t) e = Some ph"
    "map_of (sr_turns s') = (map_of (sr_turns s))(t \<mapsto> \<lparr>tr_phase = ph,
       tr_updated_at_ms = ev_occurred_at_ms e, tr_last_event_id = ev_event_id e\<rparr>)"
proof -
  obtain ph where ph: "next_turn_phase (map_of (sr_turns s) t) e = Some ph"
    using assms by (auto simp: advance_session_def Let_def split: if_splits option.splits)
  moreover have "map_of (sr_turns s') = (map_of (sr_turns s))(t \<mapsto> \<lparr>tr_phase = ph,
       tr_updated_at_ms = ev_occurred_at_ms e, tr_last_event_id = ev_event_id e\<rparr>)"
    using assms ph by (auto simp: advance_session_def Let_def split: if_splits option.splits)
  ultimately show ?thesis using that by blast
qed

definition turns_advance :: "reducer \<Rightarrow> reducer \<Rightarrow> bool" where
  "turns_advance r r' \<longleftrightarrow> (\<forall>k t p. turn_of r k t = Some p \<longrightarrow> (\<exists>q. turn_of r' k t = Some q \<and> turn_advances p q))"

lemma turns_advance_refl: "rd_sessions r' = rd_sessions r \<Longrightarrow> turns_advance r r'"
  by (auto simp: turns_advance_def turn_of_def)

lemma turns_advance_same [simp]: "turns_advance r r"
  by (simp add: turns_advance_refl)

lemma turns_advance_trans: "turns_advance r q \<Longrightarrow> turns_advance q u \<Longrightarrow> turns_advance r u"
  unfolding turns_advance_def by (meson turn_advances_trans)

lemma turns_advance_put:
  assumes "\<And>s t p. map_of (rd_sessions r) k = Some s \<Longrightarrow> map_of (sr_turns s) t = Some p
    \<Longrightarrow> \<exists>q. map_of (sr_turns s') t = Some q \<and> turn_advances p q"
  shows "turns_advance r (put_session k s' r)"
  using assms by (auto simp: turns_advance_def turn_of_def put_session_def bind_eq_Some_conv)

lemma apply_session_event_turns:
  "apply_session_event r e = Some (r', tr) \<Longrightarrow> turns_advance r r'"
  by (auto simp: apply_session_event_def apply_session_started_def apply_session_ended_def Let_def
      split: session_event_kind.splits option.splits if_splits
      intro!: turns_advance_put)

lemma apply_turn_event_turns:
  assumes "apply_turn_event r e = Some (r', tr)"
  shows "turns_advance r r'"
proof -
  let ?k = "event_session_key e"
  obtain t where t: "ev_turn_id e = Some t"
    using assms by (auto simp: apply_turn_event_def split: option.splits)
  define r1 where "r1 = (if map_of (rd_sessions r) ?k = None then put_session ?k (new_session e) r else r)"
  define s where "s = (case map_of (rd_sessions r) ?k of None \<Rightarrow> new_session e | Some s \<Rightarrow> s)"
  have r1: "turns_advance r r1"
    by (auto simp: r1_def intro: turns_advance_put turns_advance_refl)
  have s: "map_of (rd_sessions r1) ?k = Some s"
    by (auto simp: r1_def s_def put_session_def)
  have "r' = r1 \<or> (\<exists>s'. advance_session s e t = Some s' \<and> r' = put_session ?k s' r1)"
    using assms by (auto simp: apply_turn_event_def t r1_def s_def Let_def split: option.splits)
  moreover have "turns_advance r1 (put_session ?k s' r1)" if "advance_session s e t = Some s'" for s'
    using that
  proof (rule advance_session_turns)
    fix ph
    assume ph: "next_turn_phase (map_of (sr_turns s) t) e = Some ph"
      and m: "map_of (sr_turns s') = (map_of (sr_turns s))(t \<mapsto> \<lparr>tr_phase = ph,
       tr_updated_at_ms = ev_occurred_at_ms e, tr_last_event_id = ev_event_id e\<rparr>)"
    show ?thesis
    proof (rule turns_advance_put)
      fix s0 u p
      assume "map_of (rd_sessions r1) ?k = Some s0" "map_of (sr_turns s0) u = Some p"
      with s have "map_of (sr_turns s) u = Some p" by simp
      with ph show "\<exists>q. map_of (sr_turns s') u = Some q \<and> turn_advances p q"
        unfolding m by (cases "u = t") (auto dest: next_turn_phase_advances)
    qed
  qed
  ultimately show ?thesis using r1 turns_advance_trans turns_advance_refl by blast
qed

lemma reduce_at_turns:
  assumes "reduce_at sha r e at = Some (r', out)"
  shows "turns_advance r r'"
proof -
  have step: "turns_advance r r2" if "apply_event (remember_event (event_id_key e) r) e = Some (r2, tr)" for r2 tr
  proof -
    have "turns_advance (remember_event (event_id_key e) r) r2"
      using that apply_session_event_turns apply_turn_event_turns unfolding apply_event_def by metis
    then show ?thesis by (simp add: turns_advance_def turn_of_def)
  qed
  show ?thesis
    using assms
  proof (cases rule: reduce_at_cases)
    case duplicate
    then show ?thesis by (simp add: turns_advance_refl)
  next
    case stale
    then show ?thesis by (blast intro: step)
  next
    case applied
    then show ?thesis
      by (blast intro: step turns_advance_trans turns_advance_refl finish_transition_sessions)
  qed
qed

lemma ui_step_sessions:
  "rd_sessions (fst (acknowledge_notification r i now)) = rd_sessions r"
  "rd_sessions (fst (advance_presentation r now)) = rd_sessions r"
  "rd_sessions (restart_activity_reminder r now) = rd_sessions r"
  "rd_sessions (fst (update_notification_title r original title)) = rd_sessions r"
proof -
  show "rd_sessions (fst (advance_presentation r now)) = rd_sessions r"
    using sessions_frames(5) [of r now]
    by (cases "refresh_presentation r now") (simp add: advance_presentation_def Let_def)
qed (auto simp: acknowledge_notification_def restart_activity_reminder_def
      update_notification_title_def Let_def split: option.splits)

lemma reducer_step_turns: "reducer_step sha r r' \<Longrightarrow> turns_advance r r'"
  by (induction rule: reducer_step.induct)
    (auto intro: reduce_at_turns turns_advance_refl ui_step_sessions)

text \<open>
  C1. A turn the reducer knows is never forgotten, its timestamp never moves back, and once it is
  completed or failed it stays completed or failed: no late start, attention request or attention
  resolution revives it, over any sequence of events, acknowledgements and clock ticks.
\<close>

theorem terminal_turn_stays_terminal:
  assumes "(reducer_step sha)\<^sup>*\<^sup>* r r'" "turn_of r k t = Some p"
  shows "\<exists>q. turn_of r' k t = Some q \<and> turn_order p \<le> turn_order q
           \<and> (tr_phase p \<in> {PhaseCompleted, PhaseFailed} \<longrightarrow> tr_phase q \<in> {PhaseCompleted, PhaseFailed})"
proof -
  have "turns_advance r r'"
    using assms(1)
    by (induction rule: rtranclp_induct)
      (auto intro: turns_advance_refl turns_advance_trans reducer_step_turns)
  with assms(2) show ?thesis
    unfolding turns_advance_def turn_advances_def terminal_phase_def by blast
qed

theorem terminal_turn_stays_terminal_witness:
  "\<exists>r1 r2 out1 out2 p q. reduce_at sample_sha initial_reducer (sample_event TurnFailed ''t1'' ''e1'' 5) 6 = Some (r1, out1)
     \<and> reduce_at sample_sha r1 (sample_event TurnStarted ''t1'' ''e2'' 8) 9 = Some (r2, out2)
     \<and> turn_of r1 (Ident (lit ''codex''), Ident (lit ''s'')) (Ident (lit ''t1'')) = Some p
     \<and> turn_of r2 (Ident (lit ''codex''), Ident (lit ''s'')) (Ident (lit ''t1'')) = Some q
     \<and> tr_phase p = PhaseFailed \<and> tr_phase q \<in> {PhaseCompleted, PhaseFailed}"
proof -
  let ?e = "sample_event TurnFailed ''t1'' ''e1'' 5" and ?f = "sample_event TurnStarted ''t1'' ''e2'' 8"
  let ?k = "(Ident (lit ''codex''), Ident (lit ''s'')) :: session_key" and ?t = "Ident (lit ''t1'') :: turn_id"
  obtain r1 out1 where 1: "reduce_at sample_sha initial_reducer ?e 6 = Some (r1, out1)"
    using reduce_at_defined [of ?e sample_sha initial_reducer 6] by auto
  obtain r2 out2 where 2: "reduce_at sample_sha r1 ?f 9 = Some (r2, out2)"
    using reduce_at_defined [of ?f sample_sha r1 9] by auto
  have p: "\<exists>p. turn_of r1 ?k ?t = Some p \<and> tr_phase p = PhaseFailed"
    using 1 by (auto simp: run_defs turn_of_def)
  then obtain p where p: "turn_of r1 ?k ?t = Some p" "tr_phase p = PhaseFailed" by blast
  have "(reducer_step sample_sha)\<^sup>*\<^sup>* r1 r2" using 2 by (blast intro: step_reduce)
  from terminal_turn_stays_terminal [OF this p(1)] p 1 2 show ?thesis by auto
qed

section \<open>Presentation\<close>

text \<open>What one notification asks the pet to show.\<close>

definition notification_presentation :: "notification \<Rightarrow> presentation_state" where
  "notification_presentation n = (case n_kind n of
     Attention \<Rightarrow> if n_state n = Resolved then PresIdle else PresWaiting
   | Failure \<Rightarrow> if n_state n = Unread then PresFailed else PresIdle
   | Completion \<Rightarrow> if n_state n = Unread then PresReview else PresIdle)"

definition idle_presentation :: "reducer \<Rightarrow> nat \<Rightarrow> presentation_state" where
  "idle_presentation r now =
     (if now < rd_activity_reminder_until_ms r then PresActivityReminder else PresIdle)"

lemma pres_order [simp]:
  "(a :: presentation_state) \<le> b \<longleftrightarrow> presentation_rank a \<le> presentation_rank b"
  "(a :: presentation_state) < b \<longleftrightarrow> presentation_rank a < presentation_rank b"
  by (simp_all add: less_eq_presentation_state_def less_presentation_state_def)

lemma notification_presentation_iff:
  "notification_presentation n = PresWaiting \<longleftrightarrow> n_kind n = Attention \<and> n_state n \<noteq> Resolved"
  "notification_presentation n = PresFailed \<longleftrightarrow> n_kind n = Failure \<and> n_state n = Unread"
  "notification_presentation n = PresReview \<longleftrightarrow> n_kind n = Completion \<and> n_state n = Unread"
  by (auto simp: notification_presentation_def split: notification_kind.splits)

lemma notification_presentation_range [simp]:
  "notification_presentation n \<noteq> PresActivityReminder"
  by (auto simp: notification_presentation_def split: notification_kind.splits)

text \<open>
  The cascade of scans in \<^verbatim>\<open>desired_presentation\<close> computes the most urgent presentation any
  notification asks for, in the order idle, activity reminder, review, failed, waiting, and falls
  back to the activity reminder or idle when no notification asks for anything.
\<close>

theorem desired_presentation_is_Max:
  "desired_presentation r now
     = Max (insert (idle_presentation r now) (notification_presentation ` set (bt_values (rd_notifications r))))"
proof (rule Max_eqI [symmetric])
  let ?ns = "set (bt_values (rd_notifications r))"
  let ?S = "insert (idle_presentation r now) (notification_presentation ` ?ns)"
  show "finite ?S" by simp
  have w: "p \<in> notification_presentation ` ?ns
      \<longleftrightarrow> list_ex (\<lambda>n. notification_presentation n = p) (bt_values (rd_notifications r))" for p
    by (auto simp: list_ex_iff)
  have d: "desired_presentation r now =
      (if PresWaiting \<in> notification_presentation ` ?ns then PresWaiting
       else if PresFailed \<in> notification_presentation ` ?ns then PresFailed
       else if PresReview \<in> notification_presentation ` ?ns then PresReview
       else idle_presentation r now)"
    unfolding desired_presentation_def Let_def idle_presentation_def w notification_presentation_iff
    by (rule refl)
  then show "desired_presentation r now \<in> ?S" by auto
  show "p \<le> desired_presentation r now" if "p \<in> ?S" for p
  proof (cases "p = idle_presentation r now")
    case True
    then show ?thesis by (auto simp: d idle_presentation_def)
  next
    case False
    with that have mem: "p \<in> notification_presentation ` ?ns" by simp
    then have "p \<noteq> PresActivityReminder" by auto
    with mem show ?thesis by (cases p) (simp_all add: d idle_presentation_def)
  qed
qed

lemma desired_frames [simp]:
  "desired_presentation (set_presentation p t r) now = desired_presentation r now"
  "desired_presentation (bump_revision r) now = desired_presentation r now"
  "desired_presentation (r\<lparr>rd_presentation := p'\<rparr>) now = desired_presentation r now"
  by (simp_all add: desired_presentation_def set_presentation_def bump_revision_def Let_def)

definition presentation_settled :: "reducer \<Rightarrow> nat \<Rightarrow> bool" where
  "presentation_settled r now \<longleftrightarrow>
     (let shown = pt_state (rd_presentation r); desired = desired_presentation r now in
      shown = desired
      \<or> (desired < shown \<and> now - pt_since_ms (rd_presentation r) < rd_minimum_dwell_ms r))"

lemma refresh_settles: "presentation_settled (fst (refresh_presentation r now)) now"
proof -
  have "\<not> a < b \<Longrightarrow> b \<noteq> a \<Longrightarrow> b < a" for a b :: presentation_state by (meson linorder_neqE)
  note lin = this
  show ?thesis
    using lin [of "pt_state (rd_presentation r)" "desired_presentation r now"]
    by (auto simp: presentation_settled_def refresh_presentation_def Let_def set_presentation_def
        simp del: pres_order)
qed

lemma settled_bump [simp]: "presentation_settled (bump_revision r) now = presentation_settled r now"
  by (simp add: presentation_settled_def) (simp add: bump_revision_def)

text \<open>
  After an applied event the pet shows the presentation its notifications ask for, at the
  reduction clock, or a more urgent one that has not been visible for the minimum dwell time yet:
  nothing more urgent ever waits.
\<close>

theorem applied_event_settles_presentation:
  assumes "reduce_at sha r e at = Some (r', Applied n)"
  shows "pt_state (rd_presentation r') = desired_presentation r' at
         \<or> (desired_presentation r' at < pt_state (rd_presentation r')
            \<and> at - pt_since_ms (rd_presentation r') < rd_minimum_dwell_ms r')"
  using assms
proof (cases rule: reduce_at_cases)
  case (applied r2 tr)
  then obtain r3 where "r' = bump_revision (fst (refresh_presentation r3 at))"
    unfolding finish_transition_def Let_def map_option_eq_Some by blast
  then have "presentation_settled r' at" by (simp add: refresh_settles)
  then show ?thesis by (simp add: presentation_settled_def Let_def)
qed simp_all

theorem applied_event_settles_presentation_witness:
  "\<exists>r'. reduce_at sample_sha initial_reducer (sample_event TurnFailed ''t1'' ''e1'' 5) 6 = Some (r', Applied 1)
     \<and> (pt_state (rd_presentation r') = desired_presentation r' 6
         \<or> (desired_presentation r' 6 < pt_state (rd_presentation r')
            \<and> 6 - pt_since_ms (rd_presentation r') < rd_minimum_dwell_ms r'))"
proof -
  have "\<exists>r'. reduce_at sample_sha initial_reducer (sample_event TurnFailed ''t1'' ''e1'' 5) 6 = Some (r', Applied 1)"
    by (simp add: run_defs)
  then obtain r' where r': "reduce_at sample_sha initial_reducer
      (sample_event TurnFailed ''t1'' ''e1'' 5) 6 = Some (r', Applied 1)" by blast
  from applied_event_settles_presentation [OF r'] r' show ?thesis by blast
qed

text \<open>
  Once the minimum dwell time has passed, one tick of \<^verbatim>\<open>advance_presentation\<close> shows exactly
  what the notifications ask for, and reports \<^verbatim>\<open>Applied\<close> with the next revision precisely when that
  changed what is shown.
\<close>

theorem advance_presentation_catches_up:
  assumes "rd_minimum_dwell_ms r \<le> now - pt_since_ms (rd_presentation r)"
  shows "pt_state (rd_presentation (fst (advance_presentation r now))) = desired_presentation r now
    \<and> snd (advance_presentation r now) =
           (if pt_state (rd_presentation r) = desired_presentation r now then IgnoredStale
            else Applied (sat_add (rd_revision r) 1))"
  using assms
  by (auto simp: advance_presentation_def refresh_presentation_def set_presentation_def
      bump_revision_def Let_def simp del: pres_order)

theorem advance_presentation_catches_up_witness:
  "pt_state (rd_presentation (fst (advance_presentation (with_minimum_dwell_ms 3) 3)))
     = desired_presentation (with_minimum_dwell_ms 3) 3"
  using advance_presentation_catches_up [of "with_minimum_dwell_ms 3" 3]
  by (simp add: with_minimum_dwell_ms_def initial_reducer_def)

section \<open>What an outcome tells the caller\<close>

lemma revision_frames [simp]:
  "rd_revision (extend_activity_reminder e t r) = rd_revision r"
  "rd_revision (resolve_attention_notifications k u r) = rd_revision r"
  "rd_revision (set_presentation p t r) = rd_revision r"
  "rd_revision (fst (refresh_presentation r t)) = rd_revision r"
  "rd_revision (show_replacement t (r, b)) = rd_revision r"
  "rd_revision (put_session k' s r) = rd_revision r"
  "rd_revision (bump_revision r) = sat_add (rd_revision r) 1"
  by (simp_all add: extend_activity_reminder_def resolve_attention_notifications_def put_session_def
      bump_revision_def set_presentation_def refresh_presentation_def show_replacement_def Let_def)

lemma insert_notification_revision:
  "insert_notification sha r e kind = Some (r', b) \<Longrightarrow> rd_revision r' = rd_revision r"
  by (auto simp: insert_notification_def Let_def split: if_splits option.splits)

lemma finish_transition_revision:
  "finish_transition sha r e at tr = Some r' \<Longrightarrow> rd_revision r' = sat_add (rd_revision r) 1"
  by (auto simp: finish_transition_def Let_def dest!: insert_notification_revision
      split: option.splits if_splits)

lemma apply_event_revision:
  "apply_event r e = Some (r', tr) \<Longrightarrow> rd_revision r' = rd_revision r \<and> rd_notifications r' = rd_notifications r
     \<and> rd_presentation r' = rd_presentation r"
  by (auto simp: apply_event_def apply_session_event_def apply_session_started_def
      apply_session_ended_def apply_turn_event_def put_session_def Let_def
      split: if_splits option.splits session_event_kind.splits)

text \<open>
  The outcome of a reduction tells what it changed: \<^verbatim>\<open>Applied\<close> carries the revision of the new
  state, one above the old one (saturating); after \<^verbatim>\<open>Duplicate\<close> nothing changed at all; after
  \<^verbatim>\<open>IgnoredStale\<close> revision, notifications, presentation and the progress of every known turn are
  as before, and the event is remembered as recent.
\<close>

theorem outcome_describes_change:
  assumes "reduce_at sha r e at = Some (r', out)"
  shows "case out of
      Applied n \<Rightarrow> n = rd_revision r' \<and> n = sat_add (rd_revision r) 1
    | Duplicate \<Rightarrow> r' = r
    | IgnoredStale \<Rightarrow> rd_revision r' = rd_revision r \<and> rd_notifications r' = rd_notifications r
        \<and> rd_presentation r' = rd_presentation r
        \<and> (\<forall>k t. turn_of r' k t = turn_of r k t)
        \<and> (\<exists>ids. rd_recent_event_ids r' = ids @ [event_id_key e])"
  using assms
proof (cases rule: reduce_at_cases)
  case duplicate
  then show ?thesis by simp
next
  case (applied r2 tr)
  then show ?thesis
    using apply_event_revision [OF applied(2)] finish_transition_revision [OF applied(4)] by simp
next
  case (stale tr)
  let ?r = "remember_event (event_id_key e) r"
  have "turn_of r' k t = turn_of ?r k t" for k t
    using stale(2,3)
    by (auto simp: apply_event_def apply_session_event_def apply_session_started_def
        apply_session_ended_def apply_turn_event_def put_session_def Let_def no_transition_def
        turn_transition_def turn_of_def new_session_def
        split: if_splits option.splits session_event_kind.splits)
  moreover have "\<exists>ids. rd_recent_event_ids r' = ids @ [event_id_key e]"
    using reduce_at_newest [OF assms] stale(4) by (simp add: newest_event_def)
  ultimately show ?thesis
    using apply_event_revision [OF stale(2)] stale(4) by (simp add: turn_of_def)
qed

theorem outcome_describes_change_witness:
  "\<exists>r'. reduce_at sample_sha initial_reducer (sample_event TurnFailed ''t1'' ''e1'' 5) 6 = Some (r', Applied 1)
     \<and> rd_revision r' = 1"
proof -
  have "\<exists>r'. reduce_at sample_sha initial_reducer (sample_event TurnFailed ''t1'' ''e1'' 5) 6 = Some (r', Applied 1)"
    by (simp add: run_defs)
  then obtain r' where r': "reduce_at sample_sha initial_reducer
      (sample_event TurnFailed ''t1'' ''e1'' 5) 6 = Some (r', Applied 1)" by blast
  from outcome_describes_change [OF r'] r' show ?thesis by auto
qed

end
