(* ===== verification/Reducer_Persistence.thy ===== *)
theory Reducer_Persistence
  imports Reducer_Properties "HOL-Library.Multiset"
begin

text \<open>
  The reducer's memory of recent events, the identity of notification cards over time, and the round
  trip of the persistent state.
\<close>

section \<open>The memory of recent events\<close>

lemma remember_event_order:
  assumes "\<not> k \<in> rd_recent_event_set r"
  shows "rd_recent_event_ids (remember_event k r)
    = drop (Suc (length (rd_recent_event_ids r)) - max_recent_event_ids) (rd_recent_event_ids r @ [k])"
  using assms by (simp add: remember_event_def Let_def del: drop_append)

interpretation recent_events: bounded_history remember_event rd_recent_event_ids
  "\<lambda>r k. k \<in> rd_recent_event_set r" reducer_wf max_recent_event_ids
proof unfold_locales
  show "0 < max_recent_event_ids" by (simp add: max_recent_event_ids_def)
qed (simp_all add: reducer_wf_def recent_wf_def remember_event_order remember_event_wf [unfolded reducer_wf_def recent_wf_def])

lemma recent_set: "reducer_wf r \<Longrightarrow> rd_recent_event_set r = set (rd_recent_event_ids r)"
  by (simp add: reducer_wf_def recent_wf_def)

lemma remember_event_cong:
  assumes "reducer_wf r" "reducer_wf q" "rd_recent_event_ids r = rd_recent_event_ids q"
  shows "rd_recent_event_ids (remember_event k r) = rd_recent_event_ids (remember_event k q)"
  using assms(3) recent_set [OF assms(1)] recent_set [OF assms(2)]
  by (simp add: remember_event_def Let_def)

lemma reduce_fresh:
  assumes "event_id_key e \<notin> rd_recent_event_set r" "reduce sha r e = Some (r', out)"
  shows "rd_recent_event_ids r' = rd_recent_event_ids (remember_event (event_id_key e) r)"
  using assms(2) unfolding reduce_def
proof (cases rule: reduce_at_cases)
  case duplicate
  with assms(1) show ?thesis by (simp add: is_duplicate_in_current_lifecycle_def)
qed (simp_all add: apply_event_recent finish_transition_recent)

lemma recent_remember_subset:
  "set (rd_recent_event_ids (remember_event k r)) \<subseteq> insert k (set (rd_recent_event_ids r))"
proof -
  have "set (drop n (xs @ [k])) \<subseteq> insert k (set xs)" for n and xs :: "event_key list"
    using set_drop_subset [of n "xs @ [k]"] by auto
  then have "set (rd_recent_event_ids (remember_event k r))
      \<subseteq> insert k (set (if k \<in> rd_recent_event_set r
           then filter (\<lambda>x. x \<noteq> k) (rd_recent_event_ids r) else rd_recent_event_ids r))"
    unfolding remember_event_def Let_def by (cases r) (simp only: reducer.simps)
  also have "\<dots> \<subseteq> insert k (set (rd_recent_event_ids r))" by auto
  finally show ?thesis .
qed

lemma disjoint_growth: "S \<subseteq> insert k R \<Longrightarrow> k \<notin> A \<Longrightarrow> A \<inter> R = {} \<Longrightarrow> A \<inter> S = {}"
  by blast

lemma reduce_all_recent:
  assumes "reduce_all sha es r = Some r'" "reducer_wf r" "reducer_wf q"
    and "rd_recent_event_ids r = rd_recent_event_ids q"
    and "distinct (map event_id_key es)"
    and "event_id_key ` set es \<inter> set (rd_recent_event_ids r) = {}"
  shows "reducer_wf r' \<and> rd_recent_event_ids r' = rd_recent_event_ids (fold remember_event (map event_id_key es) q)"
  using assms
proof (induction es arbitrary: r q)
  case (Cons e es)
  let ?k = "event_id_key e"
  obtain r1 out where r1: "reduce sha r e = Some (r1, out)" and rest: "reduce_all sha es r1 = Some r'"
    using Cons.prems(1) by (auto split: option.splits)
  have fresh: "?k \<notin> rd_recent_event_set r"
    using Cons.prems(6) recent_set [OF Cons.prems(2)] by auto
  have ids: "rd_recent_event_ids r1 = rd_recent_event_ids (remember_event ?k q)"
    using reduce_fresh [OF fresh r1] remember_event_cong [OF Cons.prems(2-4)] by simp
  have "event_id_key ` set es \<inter> set (rd_recent_event_ids r1) = {}"
  proof -
    have "set (rd_recent_event_ids r1) \<subseteq> insert ?k (set (rd_recent_event_ids r))"
      using recent_remember_subset [of ?k q] by (simp add: ids Cons.prems(4))
    moreover have "?k \<notin> event_id_key ` set es" using Cons.prems(5) by simp
    moreover have "event_id_key ` set es \<inter> set (rd_recent_event_ids r) = {}"
      using Cons.prems(6) by simp
    ultimately show ?thesis by (rule disjoint_growth)
  qed
  moreover have "reducer_wf r1" using reduce_at_wf [OF Cons.prems(2)] r1 unfolding reduce_def by blast
  ultimately show ?case
    using Cons.IH [OF rest _ remember_event_wf [OF Cons.prems(3)] ids] Cons.prems(5) by simp
qed simp

text \<open>
  A handled event is recognised as a duplicate for as long as the memory promises: after it and
  up to 4095 further distinct new events, delivering a turn event again is answered \<^verbatim>\<open>Duplicate\<close> and
  leaves the state unchanged, whatever those events were.
\<close>

theorem recent_event_remembered:
  assumes "reducer_wf r" "reduce_all sha (e # es) r = Some r'"
    and "distinct (map event_id_key (e # es))"
    and "event_id_key ` set (e # es) \<inter> rd_recent_event_set r = {}"
    and "length es < max_recent_event_ids" "ev_type e \<notin> {SessionStarted, SessionEnded}"
  shows "reduce_at sha r' e at = Some (r', Duplicate)"
proof -
  have fresh: "event_id_key ` set (e # es) \<inter> set (rd_recent_event_ids r) = {}"
    using assms(4) recent_set [OF assms(1)] by simp
  have r': "reducer_wf r'"
    "rd_recent_event_ids r' = rd_recent_event_ids (fold remember_event (map event_id_key (e # es)) r)"
    using reduce_all_recent [OF assms(2,1,1) refl assms(3) fresh] by simp_all
  have "event_id_key e \<in> rd_recent_event_set
      (fold remember_event (map event_id_key es) (remember_event (event_id_key e) r))"
    using assms(1,3-5) fresh by (intro recent_events.remembered) auto
  moreover have "reducer_wf (fold remember_event (map event_id_key (e # es)) r)"
    using assms(1) by (rule recent_events.wf_push_all)
  ultimately have "event_id_key e \<in> rd_recent_event_set r'"
    using recent_set r' by simp
  then have "is_duplicate_in_current_lifecycle r' e"
    using assms(6) by (cases "ev_type e") (auto simp: is_duplicate_in_current_lifecycle_def)
  then show ?thesis by (simp add: reduce_at_def)
qed

theorem recent_event_remembered_witness:
  "\<exists>r'. reduce_all sample_sha [sample_event TurnFailed ''t1'' ''e1'' 5, sample_event TurnStarted ''t2'' ''e2'' 6] initial_reducer = Some r'
     \<and> reduce_at sample_sha r' (sample_event TurnFailed ''t1'' ''e1'' 5) 9 = Some (r', Duplicate)"
proof -
  let ?e = "sample_event TurnFailed ''t1'' ''e1'' 5" and ?f = "sample_event TurnStarted ''t2'' ''e2'' 6"
  have "\<exists>r'. reduce_all sample_sha [?e, ?f] initial_reducer = Some r'"
    by (simp add: run_defs)
  then obtain r' where r': "reduce_all sample_sha [?e, ?f] initial_reducer = Some r'" by blast
  have "reduce_at sample_sha r' ?e 9 = Some (r', Duplicate)"
  proof (rule recent_event_remembered [OF initial_reducer_wf r'])
    show "distinct (map event_id_key [?e, ?f])" "ev_type ?e \<notin> {SessionStarted, SessionEnded}"
      by (simp_all add: event_id_key_def sample_event_def lit_def)
    show "length [?f] < max_recent_event_ids" by (simp add: max_recent_event_ids_def)
  qed (simp add: initial_reducer_def)
  with r' show ?thesis by blast
qed

section \<open>Reading back what was persisted\<close>

definition build :: "('a \<Rightarrow> 'k::linorder) \<Rightarrow> ('a \<Rightarrow> 'v) \<Rightarrow> 'a list \<Rightarrow> ('k, 'v) btree" where
  "build f g xs = fold (\<lambda>(k, v). bt_insert k v) (map (\<lambda>x. (f x, g x)) xs) []"

lemma build_wf [simp]: "bt_wf (build f g xs)"
  unfolding build_def by (rule bt_store.wf_put_all) simp

lemma set_build:
  assumes "distinct (map f xs)"
  shows "set (build f g xs) = (\<lambda>x. (f x, g x)) ` set xs"
proof -
  let ?kvs = "map (\<lambda>x. (f x, g x)) xs"
  have "map_of (build f g xs) = map_of [] ++ map_of (rev ?kvs)"
    unfolding build_def by (rule bt_store.get_put_all) simp
  then have get: "map_of (build f g xs) = map_of (rev ?kvs)" by simp
  have d: "distinct (map fst (rev ?kvs))" using assms by (simp add: comp_def rev_map [symmetric] distinct_rev)
  have "(k, v) \<in> set (build f g xs) \<longleftrightarrow> (k, v) \<in> set ?kvs" for k v
    using map_of_bt_wf [OF build_wf [of f g xs], of k v] map_of_eq_Some_iff [OF d, of k v]
    by (simp add: get)
  then show ?thesis by auto
qed

lemma distinct_build_values:
  assumes "\<And>x. x \<in> set xs \<Longrightarrow> h (g x) = f x" "distinct (map f xs)"
  shows "distinct (bt_values (build f g xs))"
proof -
  have "map h (bt_values (build f g xs)) = map fst (build f g xs)"
    unfolding bt_values_def using assms by (auto simp: set_build)
  then have "distinct (map h (bt_values (build f g xs)))"
    by (simp add: bt_wf_distinct)
  then show ?thesis by (simp add: distinct_map)
qed

lemma sort_key_unique:
  assumes "set xs = set ys" "distinct xs" "distinct ys" "inj_on f (set ys)" "sorted (map f ys)"
  shows "sort_key f xs = ys"
proof (rule sort_key_inj_key_eq)
  show "mset xs = mset ys" using assms(1-3) by (simp add: set_eq_iff_mset_eq_distinct)
qed (simp_all add: assms)

text \<open>The record a persisted session comes back as: only the current turn is kept.\<close>

definition restored :: "session_record \<Rightarrow> session_record" where
  "restored s = s\<lparr>sr_turns := (case sr_current_turn_id s of None \<Rightarrow> []
     | Some c \<Rightarrow> (case map_of (sr_turns s) c of None \<Rightarrow> [] | Some t \<Rightarrow> [(c, t)]))\<rparr>"

definition current_retired :: "session_record \<Rightarrow> bool" where
  "current_retired s \<longleftrightarrow> (\<exists>c. sr_current_turn_id s = Some c \<and> c \<in> set (sr_retired_turn_ids s))"

lemma restore_retired_eq:
  assumes "distinct (acc @ ts)"
  shows "restore_retired c ts acc =
    (if \<exists>t \<in> set ts. c = Some t then Inl RetiredCurrentTurn else Inr (acc @ ts))"
  using assms
proof (induction ts arbitrary: acc)
  case (Cons t ts)
  then show ?case using Cons.IH [of "acc @ [t]"] by auto
qed simp

lemma into_record_persisted:
  assumes "session_wf s"
  shows "into_record (persisted_from_record s) =
    (if current_retired s then Inl RetiredCurrentTurn else Inr (restored s))"
proof (cases "sr_current_turn_id s")
  case None
  with assms show ?thesis
    by (simp add: into_record_def persisted_from_record_def restored_def current_retired_def
        restore_retired_eq session_wf_def rbind.simps)
next
  case (Some c)
  with assms obtain t where "map_of (sr_turns s) c = Some t" by (auto simp: session_wf_def)
  with Some assms show ?thesis
    by (auto simp: into_record_def persisted_from_record_def restored_def current_retired_def
        restore_retired_eq session_wf_def rbind.simps)
qed

lemma restored_frame [simp]:
  "session_key_of (restored s) = session_key_of s"
  "sr_updated_at_ms (restored s) = sr_updated_at_ms s"
  "sr_provider (restored s) = sr_provider s"
  "sr_id (restored s) = sr_id s"
  by (simp_all add: restored_def session_key_of_def)

lemma restored_phase: "session_wf s \<Longrightarrow> session_phase_of (restored s) = session_phase_of s"
  by (auto simp: restored_def session_phase_of_def current_turn_def session_wf_def split: option.splits)

lemma restored_persisted: "session_wf s \<Longrightarrow> persisted_from_record (restored s) = persisted_from_record s"
  by (cases "sr_current_turn_id s")
    (auto simp: restored_def persisted_from_record_def session_wf_def)

lemma restore_sessions_persisted:
  assumes "\<forall>s \<in> set ss. session_wf s" "distinct (map session_key_of ss)"
    and "session_key_of ` set ss \<inter> fst ` set m = {}"
  shows "restore_sessions (map persisted_from_record ss) m =
    (if \<exists>s \<in> set ss. current_retired s then Inl RetiredCurrentTurn
     else Inr (fold (\<lambda>(k, v). bt_insert k v) (map (\<lambda>s. (session_key_of s, restored s)) ss) m))"
  using assms
proof (induction ss arbitrary: m)
  case (Cons s ss)
  have key: "(sr_provider (restored s), sr_id (restored s)) = session_key_of s"
    by (simp add: session_key_of_def)
  let ?m = "bt_insert (session_key_of s) (restored s) m"
  have absent: "map_of m (session_key_of s) = None"
    using Cons.prems(3) by (auto simp: map_of_eq_None_iff)
  have "session_key_of ` set ss \<inter> fst ` set ?m = {}"
    by (rule disjoint_growth [of _ "session_key_of s" "fst ` set m"]) (use Cons.prems(2,3) in simp_all)
  with Cons.prems have ih: "restore_sessions (map persisted_from_record ss) ?m =
    (if \<exists>s \<in> set ss. current_retired s then Inl RetiredCurrentTurn
     else Inr (fold (\<lambda>(k, v). bt_insert k v) (map (\<lambda>s. (session_key_of s, restored s)) ss) ?m))"
    by (intro Cons.IH) simp_all
  have "into_record (persisted_from_record s) =
    (if current_retired s then Inl RetiredCurrentTurn else Inr (restored s))"
    using Cons.prems(1) by (intro into_record_persisted) simp
  with ih absent show ?case by (simp add: Let_def key del: restored_frame)
qed simp

lemma restore_notifications_eq:
  assumes "\<forall>n \<in> set ns. n_state n = Unread \<and> notification_session_key n \<in> fst ` set sessions"
    and "distinct (map notification_session_key ns)" "distinct (map n_id ns)"
    and "notification_session_key ` set ns \<inter> seen = {}" "n_id ` set ns \<inter> fst ` set m = {}"
  shows "restore_notifications sessions ns seen m
    = Inr (fold (\<lambda>(k, v). bt_insert k v) (map (\<lambda>n. (n_id n, n)) ns) m)"
  using assms
proof (induction ns arbitrary: seen m)
  case (Cons n ns)
  let ?k = "notification_session_key n"
  let ?m = "bt_insert (n_id n) n m"
  have here: "n_state n = Unread" "map_of sessions ?k \<noteq> None" "?k \<notin> seen" "map_of m (n_id n) = None"
    using Cons.prems(1,4,5) by (auto simp: map_of_eq_None_iff)
  have "n_id ` set ns \<inter> fst ` set ?m = {}"
    by (rule disjoint_growth [of _ "n_id n" "fst ` set m"]) (use Cons.prems(3,5) in simp_all)
  moreover have "notification_session_key ` set ns \<inter> insert ?k seen = {}"
    using Cons.prems(2,4) by simp
  ultimately have "restore_notifications sessions ns (insert ?k seen) ?m
    = Inr (fold (\<lambda>(k, v). bt_insert k v) (map (\<lambda>n. (n_id n, n)) ns) ?m)"
    using Cons.prems(1-3) by (intro Cons.IH) simp_all
  with here show ?case by (simp add: Let_def)
qed simp

lemma fold_fresh:
  assumes step: "\<And>n m. map_of m (f n) = None \<Longrightarrow> step n m = bt_insert (f n) (g n) m"
    and "distinct (map f ns)" "f ` set ns \<inter> fst ` set m = {}"
  shows "fold step ns m = fold (\<lambda>(k, v). bt_insert k v) (map (\<lambda>n. (f n, g n)) ns) m"
  using assms(2,3)
proof (induction ns arbitrary: m)
  case (Cons n ns)
  let ?m = "bt_insert (f n) (g n) m"
  have "f ` set ns \<inter> fst ` set ?m = {}"
    by (rule disjoint_growth [of _ "f n" "fst ` set m"]) (use Cons.prems in simp_all)
  moreover have "map_of m (f n) = None" using Cons.prems by (simp add: map_of_eq_None_iff)
  ultimately show ?case using Cons.prems Cons.IH [of ?m] by (simp add: step)
qed simp

lemma select_notifications_eq:
  "distinct (map notification_session_key ns)
     \<Longrightarrow> select_notifications ns = build notification_session_key (\<lambda>n. n) ns"
  unfolding select_notifications_def build_def by (rule fold_fresh) (simp_all add: Let_def)

lemma unread_priorities_eq:
  "distinct (map notification_session_key ns) \<Longrightarrow> unread_priorities ns
     = build notification_session_key notification_priority (filter (\<lambda>n. n_state n = Unread) ns)"
  unfolding unread_priorities_def build_def
  by (rule fold_fresh) (simp_all add: Let_def distinct_map_filter)

lemma unread_priorities_get:
  assumes "distinct (map notification_session_key ns)"
  shows "map_of (unread_priorities ns) k = Some p \<longleftrightarrow>
    (\<exists>n \<in> set ns. n_state n = Unread \<and> notification_session_key n = k \<and> notification_priority n = p)"
proof -
  have "bt_wf (unread_priorities ns)" using assms by (simp add: unread_priorities_eq)
  moreover have "distinct (map notification_session_key (filter (\<lambda>n. n_state n = Unread) ns))"
    using assms by (rule distinct_map_filter)
  ultimately show ?thesis
    by (simp add: map_of_bt_wf) (auto simp: unread_priorities_eq [OF assms] set_build)
qed

lemma unread_priorities_cong:
  assumes "distinct (map notification_session_key ns)" "distinct (map notification_session_key ns')"
    and "\<And>n. n \<in> set ns' \<longleftrightarrow> n \<in> set ns \<and> n_state n = Unread \<and> notification_session_key n \<in> K"
    and "k \<in> K"
  shows "map_of (unread_priorities ns') k = map_of (unread_priorities ns) k"
proof -
  have "map_of (unread_priorities ns') k = Some p \<longleftrightarrow> map_of (unread_priorities ns) k = Some p" for p
    using assms(3,4) by (auto simp: unread_priorities_get assms(1,2))
  then show ?thesis by (metis not_Some_eq)
qed

lemma distinct_map_sort_key: "distinct (map g (sort_key f xs)) = distinct (map g xs)"
  by (simp add: distinct_map)

lemma wf_distinct_sessions:
  assumes "reducer_wf r"
  shows "distinct (map session_key_of (bt_values (rd_sessions r)))"
    and "\<forall>s \<in> set (bt_values (rd_sessions r)). session_wf s"
proof -
  have sw: "sessions_wf (rd_sessions r)" using assms by (simp add: reducer_wf_def)
  then have "map session_key_of (bt_values (rd_sessions r)) = map fst (rd_sessions r)"
    by (auto simp: bt_values_def sessions_wf_def)
  then show "distinct (map session_key_of (bt_values (rd_sessions r)))"
    using sw by (simp add: sessions_wf_def bt_wf_distinct)
  show "\<forall>s \<in> set (bt_values (rd_sessions r)). session_wf s"
    using sw by (auto simp: bt_values_def sessions_wf_def)
qed

lemma wf_distinct_notifications:
  assumes "reducer_wf r"
  shows "distinct (map notification_session_key (bt_values (rd_notifications r)))"
    and "distinct (map n_id (bt_values (rd_notifications r)))"
proof -
  let ?m = "rd_notifications r"
  have bt: "bt_wf ?m" and ids: "\<forall>(i, n) \<in> set ?m. i = n_id n"
    and inj: "inj_on (notification_session_key \<circ> snd) (set ?m)"
    using assms by (auto simp: reducer_wf_def notifications_wf_def)
  have d: "distinct (map fst ?m)" using bt by (rule bt_wf_distinct)
  then have "distinct ?m" by (simp add: distinct_map)
  with inj show "distinct (map notification_session_key (bt_values ?m))"
    by (simp add: bt_values_def distinct_map)
  have "map n_id (bt_values ?m) = map fst ?m" using ids by (auto simp: bt_values_def)
  with d show "distinct (map n_id (bt_values ?m))" by simp
qed

definition persisted_records :: "reducer \<Rightarrow> session_record list" where
  "persisted_records r = take max_persisted_sessions
     (sort_key (session_sort_key (unread_priorities (bt_values (rd_notifications r))))
       (bt_values (rd_sessions r)))"

definition kept_notifications :: "reducer \<Rightarrow> notification list" where
  "kept_notifications r = filter (\<lambda>n. n_state n = Unread
       \<and> notification_session_key n \<in> session_key_of ` set (persisted_records r)) (bt_values (rd_notifications r))"

definition kept_sorted :: "reducer \<Rightarrow> notification list" where
  "kept_sorted r = sort_key notification_sort_key
     (bt_values (build notification_session_key (\<lambda>n. n) (kept_notifications r)))"

lemma persisted_sessions_records: "persisted_sessions r = map persisted_from_record (persisted_records r)"
  by (simp add: persisted_sessions_def persisted_records_def)

lemma persisted_key_record [simp]: "persisted_key (persisted_from_record s) = session_key_of s"
  by (simp add: persisted_key_def persisted_from_record_def session_key_of_def Let_def)

lemma persistent_state_eq:
  assumes "distinct (map notification_session_key (bt_values (rd_notifications r)))"
  shows "persistent_state r = \<lparr>rs_revision = rd_revision r,
    rs_sessions = map persisted_from_record (persisted_records r), rs_notifications = kept_sorted r\<rparr>"
proof -
  have keys: "set (map persisted_key (persisted_sessions r)) = session_key_of ` set (persisted_records r)"
    by (simp add: persisted_sessions_records image_image)
  have "distinct (map notification_session_key (kept_notifications r))"
    unfolding kept_notifications_def using assms by (rule distinct_map_filter)
  then show ?thesis
    unfolding persistent_state_def Let_def keys
    by (simp add: persisted_sessions_records select_notifications_eq kept_sorted_def
        flip: kept_notifications_def)
qed

lemma persisted_records_facts:
  assumes "reducer_wf r"
  shows "distinct (map session_key_of (persisted_records r))"
    and "\<forall>s \<in> set (persisted_records r). session_wf s"
    and "length (persisted_records r) \<le> max_persisted_sessions"
    and "sorted (map (session_sort_key (unread_priorities (bt_values (rd_notifications r)))) (persisted_records r))"
proof -
  let ?f = "session_sort_key (unread_priorities (bt_values (rd_notifications r)))"
  let ?all = "sort_key ?f (bt_values (rd_sessions r))"
  have "distinct (map session_key_of ?all)"
    using wf_distinct_sessions(1) [OF assms] by (simp add: distinct_map_sort_key)
  then show "distinct (map session_key_of (persisted_records r))"
    unfolding persisted_records_def take_map [symmetric] by (rule distinct_take)
  show "\<forall>s \<in> set (persisted_records r). session_wf s"
    using wf_distinct_sessions(2) [OF assms] by (auto simp: persisted_records_def dest: in_set_takeD)
  show "length (persisted_records r) \<le> max_persisted_sessions"
    by (simp add: persisted_records_def)
  have "sorted (map ?f ?all)" by simp
  then show "sorted (map ?f (persisted_records r))"
    unfolding persisted_records_def take_map [symmetric] by (rule sorted_wrt_take)
qed

lemma kept_sorted_facts:
  assumes "reducer_wf r"
  shows "set (kept_sorted r) = set (kept_notifications r)"
    and "distinct (map notification_session_key (kept_sorted r))"
    and "distinct (map n_id (kept_sorted r))"
    and "sorted (map notification_sort_key (kept_sorted r))"
proof -
  let ?K = "kept_notifications r"
  have k: "distinct (map notification_session_key ?K)" "distinct (map n_id ?K)"
    using wf_distinct_notifications [OF assms]
    by (simp_all add: kept_notifications_def distinct_map_filter)
  have set: "set (bt_values (build notification_session_key (\<lambda>n. n) ?K)) = set ?K"
    using k by (simp add: bt_values_def set_build image_image)
  have "distinct (bt_values (build notification_session_key (\<lambda>n. n) ?K))"
    using k by (intro distinct_build_values) auto
  then show "distinct (map notification_session_key (kept_sorted r))" "distinct (map n_id (kept_sorted r))"
    using k set by (simp_all add: kept_sorted_def distinct_map)
  show "set (kept_sorted r) = set ?K" by (simp add: kept_sorted_def set)
  show "sorted (map notification_sort_key (kept_sorted r))" by (simp add: kept_sorted_def)
qed

lemma restore_persistent:
  assumes "reducer_wf r"
  shows "if \<exists>s \<in> set (persisted_records r). current_retired s
    then from_persistent_state (persistent_state r) = Inl RetiredCurrentTurn
    else \<exists>r'. from_persistent_state (persistent_state r) = Inr r'
      \<and> rd_revision r' = rd_revision r
      \<and> rd_sessions r' = build session_key_of restored (persisted_records r)
      \<and> rd_notifications r' = build n_id (\<lambda>n. n) (kept_sorted r)"
proof -
  let ?ss = "persisted_records r" and ?m = "build session_key_of restored (persisted_records r)"
  note ss = persisted_records_facts [OF assms] and ns = kept_sorted_facts [OF assms]
  have st: "persistent_state r = \<lparr>rs_revision = rd_revision r,
      rs_sessions = map persisted_from_record ?ss, rs_notifications = kept_sorted r\<rparr>"
    by (rule persistent_state_eq [OF wf_distinct_notifications(1) [OF assms]])
  have s: "restore_sessions (map persisted_from_record ?ss) [] =
      (if \<exists>s \<in> set ?ss. current_retired s then Inl RetiredCurrentTurn else Inr ?m)"
    unfolding build_def by (rule restore_sessions_persisted) (use ss in simp_all)
  have keys: "fst ` set ?m = session_key_of ` set ?ss"
    using ss(1) by (simp add: set_build image_image)
  have n: "restore_notifications ?m (kept_sorted r) {} [] = Inr (build n_id (\<lambda>n. n) (kept_sorted r))"
    unfolding build_def
    by (rule restore_notifications_eq [where sessions = ?m, unfolded build_def])
      (use ns keys in \<open>auto simp: kept_notifications_def build_def\<close>)
  show ?thesis
    using ss(3) by (simp add: st from_persistent_state_def s n initial_reducer_def Let_def not_less)
qed

text \<open>A reducer holding exactly what was persisted persists the same state again.\<close>

lemma session_sort_key_restored:
  assumes "session_wf s" "map_of m' (session_key_of s) = map_of m (session_key_of s)"
  shows "session_sort_key m' (restored s) = session_sort_key m s"
  using assms by (simp add: session_sort_key_def session_persistence_priority_def restored_phase
      session_key_of_def cong: option.case_cong)

lemma session_sort_key_inj:
  "session_sort_key m s = session_sort_key m t \<Longrightarrow> session_key_of s = session_key_of t"
  by (simp add: session_sort_key_def session_key_of_def split: prod.splits)

lemma persisted_again:
  assumes wf: "reducer_wf r"
    and r': "rd_sessions r' = build session_key_of restored (persisted_records r)"
      "rd_notifications r' = build n_id (\<lambda>n. n) (kept_sorted r)"
  shows "persisted_records r' = map restored (persisted_records r)"
    and "kept_sorted r' = kept_sorted r"
    and "distinct (map notification_session_key (bt_values (rd_notifications r')))"
proof -
  let ?ss = "persisted_records r" and ?ns = "kept_sorted r"
  note ss = persisted_records_facts [OF wf] and ns = kept_sorted_facts [OF wf]
  let ?f = "session_sort_key (unread_priorities (bt_values (rd_notifications r)))"
  let ?f' = "session_sort_key (unread_priorities (bt_values (rd_notifications r')))"
  have nset: "set (bt_values (rd_notifications r')) = set ?ns"
    using ns(3) by (simp add: r' bt_values_def set_build image_image)
  have ndist: "distinct (bt_values (rd_notifications r'))"
    unfolding r' using ns(3) by (intro distinct_build_values) auto
  show nkeys: "distinct (map notification_session_key (bt_values (rd_notifications r')))"
    using ns(2) ndist nset by (simp add: distinct_map)
  have f: "?f' (restored s) = ?f s" if "s \<in> set ?ss" for s
  proof (rule session_sort_key_restored)
    show "session_wf s" using ss(2) that by blast
    show "map_of (unread_priorities (bt_values (rd_notifications r'))) (session_key_of s)
        = map_of (unread_priorities (bt_values (rd_notifications r))) (session_key_of s)"
      by (rule unread_priorities_cong [OF wf_distinct_notifications(1) [OF wf] nkeys,
            where K = "session_key_of ` set ?ss"])
        (use that in \<open>auto simp: nset ns(1) kept_notifications_def\<close>)
  qed
  have "sort_key ?f' (bt_values (rd_sessions r')) = map restored ?ss"
  proof (rule sort_key_unique)
    show "set (bt_values (rd_sessions r')) = set (map restored ?ss)"
      using ss(1) by (simp add: r' bt_values_def set_build image_image)
    show "distinct (bt_values (rd_sessions r'))"
      unfolding r' using ss(1) by (intro distinct_build_values [where h = session_key_of]) simp_all
    have keys: "distinct (map session_key_of (map restored ?ss))" using ss(1) by (simp add: comp_def)
    then show "distinct (map restored ?ss)" by (simp only: distinct_map [of session_key_of])
    have "inj_on session_key_of (set (map restored ?ss))"
      using keys by (simp only: distinct_map [of session_key_of])
    then show "inj_on ?f' (set (map restored ?ss))"
      unfolding inj_on_def using session_sort_key_inj by blast
    have same: "map ?f' (map restored ?ss) = map ?f ?ss" using f by simp
    show "sorted (map ?f' (map restored ?ss))" unfolding same by (rule ss(4))
  qed
  then show records: "persisted_records r' = map restored ?ss"
    using ss(3) by (simp add: persisted_records_def)
  have "session_key_of ` set (persisted_records r') = session_key_of ` set ?ss"
    by (simp add: records image_image)
  then have kept: "kept_notifications r' = bt_values (rd_notifications r')"
    unfolding kept_notifications_def by (intro filter_True) (auto simp: nset ns(1) kept_notifications_def)
  show "kept_sorted r' = ?ns"
    unfolding kept_sorted_def [of r'] kept
  proof (rule sort_key_unique)
    show "set (bt_values (build notification_session_key (\<lambda>n. n) (bt_values (rd_notifications r')))) = set ?ns"
      using nkeys by (simp add: bt_values_def set_build image_image flip: nset)
    show "distinct (bt_values (build notification_session_key (\<lambda>n. n) (bt_values (rd_notifications r'))))"
      using nkeys by (intro distinct_build_values) auto
    show "distinct ?ns" using ns(3) by (simp add: distinct_map)
    show "inj_on notification_sort_key (set ?ns)"
      using ns(3) by (auto simp: distinct_map inj_on_def notification_sort_key_def)
  qed (rule ns(4))
qed

text \<open>
  C2. What the reducer persists is read back without loss, unless the current turn of a persisted
  session is also among its retired turns: then, and only then, the state is refused, with
  \<^verbatim>\<open>RetiredCurrentTurn\<close>. When it is accepted, the revision, the current turn of every persisted
  session and its unread notification survive: the restored reducer persists the identical state.
\<close>

theorem persistence_round_trip:
  assumes "reducer_wf r"
  shows "if \<exists>p \<in> set (persisted_sessions r). \<exists>c. ps_current_turn_id p = Some c \<and> c \<in> set (ps_retired_turn_ids p)
    then from_persistent_state (persistent_state r) = Inl RetiredCurrentTurn
    else \<exists>r'. from_persistent_state (persistent_state r) = Inr r' \<and> persistent_state r' = persistent_state r"
proof -
  note ss = persisted_records_facts [OF assms]
  have retired: "(\<exists>c. ps_current_turn_id (persisted_from_record s) = Some c
      \<and> c \<in> set (ps_retired_turn_ids (persisted_from_record s))) \<longleftrightarrow> current_retired s"
    if "session_wf s" for s
    using that by (cases "sr_current_turn_id s")
      (auto simp: persisted_from_record_def current_retired_def session_wf_def Let_def)
  have iff: "(\<exists>p \<in> set (persisted_sessions r). \<exists>c. ps_current_turn_id p = Some c \<and> c \<in> set (ps_retired_turn_ids p))
      \<longleftrightarrow> (\<exists>s \<in> set (persisted_records r). current_retired s)"
    using ss(2) retired by (auto simp: persisted_sessions_records)
  have same: "persistent_state r' = persistent_state r"
    if "rd_revision r' = rd_revision r"
      and r': "rd_sessions r' = build session_key_of restored (persisted_records r)"
      "rd_notifications r' = build n_id (\<lambda>n. n) (kept_sorted r)" for r'
  proof -
    note again = persisted_again [OF assms r']
    have "map persisted_from_record (map restored (persisted_records r))
        = map persisted_from_record (persisted_records r)"
      using ss(2) by (simp add: restored_persisted)
    then show ?thesis
      using that(1) by (simp add: persistent_state_eq [OF again(3)] again(1,2)
          persistent_state_eq [OF wf_distinct_notifications(1) [OF assms]])
  qed
  show ?thesis
    unfolding iff using restore_persistent [OF assms] same by (auto split: if_splits)
qed

lemma reduce_all_wf: "reduce_all sha es r = Some r' \<Longrightarrow> reducer_wf r \<Longrightarrow> reducer_wf r'"
proof (induction es arbitrary: r)
  case (Cons e es)
  then obtain r1 out where "reduce sha r e = Some (r1, out)" "reduce_all sha es r1 = Some r'"
    by (auto split: option.splits)
  with Cons show ?case using reduce_at_wf [of r sha e "ev_occurred_at_ms e" r1 out] by (simp add: reduce_def)
qed simp

theorem persistence_round_trip_witness:
  "\<exists>r q. reduce_all sample_sha [sample_event TurnStarted ''t1'' ''e1'' 5, sample_event TurnFailed ''t1'' ''e2'' 6]
         initial_reducer = Some r
     \<and> from_persistent_state (persistent_state r) = Inr q \<and> persistent_state q = persistent_state r"
proof -
  let ?es = "[sample_event TurnStarted ''t1'' ''e1'' 5, sample_event TurnFailed ''t1'' ''e2'' 6]"
  obtain r where r: "reduce_all sample_sha ?es initial_reducer = Some r"
    and s: "\<forall>s \<in> set (bt_values (rd_sessions r)). sr_retired_turn_ids s = []"
    by (simp add: run_defs)
  have "ps_retired_turn_ids p = []" if "p \<in> set (persisted_sessions r)" for p
    using that s by (auto simp: persisted_sessions_records persisted_records_def
        persisted_from_record_def Let_def dest: in_set_takeD)
  with persistence_round_trip [OF reduce_all_wf [OF r initial_reducer_wf]] r show ?thesis
    by (auto split: if_splits)
qed

text \<open>
  A late event can leave a state the program refuses to read: after turn \<open>t1\<close> starts, \<open>t2\<close>
  starts (which retires \<open>t1\<close>) and a later \<^verbatim>\<open>turn_completed\<close> of \<open>t1\<close> arrives, \<open>t1\<close> is the current turn
  and still listed as retired, so the persisted state is refused. All three events are valid and
  applied in the order of their timestamps.
\<close>

theorem late_completion_breaks_persistence:
  "\<exists>r. reduce_all sample_sha [sample_event TurnStarted ''t1'' ''e1'' 10,
          sample_event TurnStarted ''t2'' ''e2'' 20, sample_event TurnCompleted ''t1'' ''e3'' 30]
        initial_reducer = Some r
     \<and> rd_revision r = 3
     \<and> from_persistent_state (persistent_state r) = Inl RetiredCurrentTurn"
proof -
  let ?es = "[sample_event TurnStarted ''t1'' ''e1'' 10, sample_event TurnStarted ''t2'' ''e2'' 20,
    sample_event TurnCompleted ''t1'' ''e3'' 30]"
  obtain r s where r: "reduce_all sample_sha ?es initial_reducer = Some r" "rd_revision r = 3"
    and s: "bt_values (rd_sessions r) = [s]" "current_retired s"
    by (simp add: run_defs current_retired_def)
  have "s \<in> set (persisted_records r)"
    by (simp add: persisted_records_def s max_persisted_sessions_def)
  with s(2) have "from_persistent_state (persistent_state r) = Inl RetiredCurrentTurn"
    using restore_persistent [OF reduce_all_wf [OF r(1) initial_reducer_wf]] by (auto split: if_splits)
  with r show ?thesis by blast
qed

end
