(* ===== verification/Notification_Cards.thy ===== *)
theory Notification_Cards
  imports Reducer_Persistence
begin

text \<open>
  The identity of notification cards over time: what the address-compared \<^verbatim>\<open>incarnation\<close> of a card
  guarantees to the title service, which computes a title for a card it read earlier, and what an
  acknowledgement changes.
\<close>

section \<open>Card identity\<close>

fun notification_state_rank :: "notification_state \<Rightarrow> nat" where
  "notification_state_rank Unread = 0"
| "notification_state_rank Acknowledged = 1"
| "notification_state_rank Resolved = 2"

lemma notification_state_rank_le [simp]: "notification_state_rank s \<le> 2"
  by (cases s) simp_all

text \<open>Everything but title and state is fixed; the state only moves forward.\<close>

definition same_card :: "notification \<Rightarrow> notification \<Rightarrow> bool" where
  "same_card n n' \<longleftrightarrow> n\<lparr>n_title := None, n_state := Unread\<rparr> = n'\<lparr>n_title := None, n_state := Unread\<rparr>
     \<and> notification_state_rank (n_state n) \<le> notification_state_rank (n_state n')"

definition cards :: "reducer \<Rightarrow> notification set" where
  "cards r = set (bt_values (rd_notifications r))"

definition cards_advance :: "reducer \<Rightarrow> reducer \<Rightarrow> bool" where
  "cards_advance r r' \<longleftrightarrow> rd_alloc r \<le> rd_alloc r'
     \<and> (\<forall>n' \<in> cards r'. n_incarnation n' < rd_alloc r \<longrightarrow> (\<exists>n \<in> cards r. same_card n n'))"

lemma same_card_refl [simp]: "same_card n n"
  by (simp add: same_card_def)

lemma same_card_incarnation: "same_card n n' \<Longrightarrow> n_incarnation n' = n_incarnation n"
  by (cases n; cases n') (simp add: same_card_def)

lemma same_card_trans: "same_card a b \<Longrightarrow> same_card b c \<Longrightarrow> same_card a c"
  by (simp add: same_card_def)

lemma same_card_fields:
  assumes "same_card n n'"
  shows "n_id n' = n_id n" "n_provider n' = n_provider n" "n_event_id n' = n_event_id n"
    "n_session_id n' = n_session_id n" "n_turn_id n' = n_turn_id n" "n_kind n' = n_kind n"
    "n_occurred_at_ms n' = n_occurred_at_ms n" "n_project n' = n_project n" "n_summary n' = n_summary n"
  using assms by (cases n; cases n'; simp add: same_card_def)+

lemma cards_advance_refl [simp]: "cards_advance r r"
  by (auto simp: cards_advance_def intro: same_card_refl)

lemma cards_advance_trans:
  assumes "cards_advance r q" "cards_advance q u"
  shows "cards_advance r u"
proof -
  have "\<exists>n \<in> cards r. same_card n n''" if n'': "n'' \<in> cards u" "n_incarnation n'' < rd_alloc r" for n''
  proof -
    obtain n' where n': "n' \<in> cards q" "same_card n' n''"
      using assms n'' unfolding cards_advance_def by (meson less_le_trans)
    then have "n_incarnation n' < rd_alloc r" using n''(2) by (simp add: same_card_incarnation)
    then obtain n where "n \<in> cards r" "same_card n n'"
      using assms(1) n'(1) unfolding cards_advance_def by blast
    with n'(2) show ?thesis by (blast intro: same_card_trans)
  qed
  moreover have "rd_alloc r \<le> rd_alloc u" using assms by (simp add: cards_advance_def)
  ultimately show ?thesis by (simp add: cards_advance_def)
qed

lemma cards_advance_same:
  "rd_alloc r' = rd_alloc r \<Longrightarrow> rd_notifications r' = rd_notifications r \<Longrightarrow> cards_advance r r'"
  by (auto simp: cards_advance_def cards_def intro: same_card_refl)

lemma cards_advance_map:
  assumes "rd_alloc r' = rd_alloc r" "rd_notifications r' = bt_map_values f (rd_notifications r)"
    and "\<And>n. same_card n (f n)"
  shows "cards_advance r r'"
  using assms by (force simp: cards_advance_def cards_def bt_values_def bt_map_values_def)

lemma cards_advance_update:
  assumes "rd_alloc r' = rd_alloc r" "rd_notifications r' = bt_insert i (f n) (rd_notifications r)"
    and "map_of (rd_notifications r) i = Some n" "same_card n (f n)"
  shows "cards_advance r r'"
proof -
  have n: "n \<in> cards r" using assms(3) by (force simp: cards_def bt_values_def dest: map_of_SomeD)
  have "cards r' \<subseteq> insert (f n) (cards r)"
    using set_bt_insert_subset [of i "f n" "rd_notifications r"]
    by (auto simp: cards_def bt_values_def assms(2))
  with n assms(1,4) show ?thesis
    by (auto simp: cards_advance_def intro: same_card_refl)
qed

lemma alloc_frames [simp]:
  "rd_alloc (extend_activity_reminder e t r) = rd_alloc r"
  "rd_alloc (resolve_attention_notifications k u r) = rd_alloc r"
  "rd_alloc (set_presentation p t r) = rd_alloc r"
  "rd_alloc (fst (refresh_presentation r t)) = rd_alloc r"
  "rd_alloc (show_replacement t (r, b)) = rd_alloc r"
  "rd_alloc (put_session k' s r) = rd_alloc r"
  "rd_alloc (bump_revision r) = rd_alloc r"
  by (simp_all add: extend_activity_reminder_def resolve_attention_notifications_def put_session_def
      bump_revision_def set_presentation_def refresh_presentation_def show_replacement_def Let_def)

lemma apply_event_alloc: "apply_event r e = Some (r', tr) \<Longrightarrow> rd_alloc r' = rd_alloc r"
  by (auto simp: apply_event_def apply_session_event_def apply_session_started_def
      apply_session_ended_def apply_turn_event_def Let_def
      split: if_splits option.splits session_event_kind.splits)

lemma resolve_attention_cards: "cards_advance r (resolve_attention_notifications k t r)"
  by (rule cards_advance_map [OF alloc_frames(2)])
    (auto simp: resolve_attention_notifications_def same_card_def)

lemma insert_notification_cards:
  assumes "insert_notification sha r e kind = Some (r', b)"
  shows "cards_advance r r'"
proof -
  let ?kept = "bt_retain (\<lambda>n. notification_session_key n \<noteq> event_session_key e) (rd_notifications r)"
  have kept: "snd ` set ?kept \<subseteq> cards r" by (auto simp: bt_retain_def cards_def bt_values_def)
  consider "r' = r" | "r' = r\<lparr>rd_notifications := ?kept\<rparr>"
    | i where "r' = r\<lparr>rd_notifications := bt_insert i (new_notification (rd_alloc r) i e kind) ?kept,
                 rd_alloc := Suc (rd_alloc r)\<rparr>"
    using assms by (auto simp: insert_notification_def Let_def split: if_splits option.splits)
  then show ?thesis
  proof cases
    case 2
    with kept show ?thesis by (force simp: cards_advance_def cards_def bt_values_def)
  next
    case (3 i)
    let ?n = "new_notification (rd_alloc r) i e kind"
    have "cards r' = snd ` set (bt_insert i ?n ?kept)" by (simp add: 3 cards_def bt_values_def)
    also have "\<dots> \<subseteq> snd ` insert (i, ?n) (set ?kept)" by (rule image_mono [OF set_bt_insert_subset])
    also have "\<dots> \<subseteq> insert ?n (cards r)" using kept by auto
    finally have "cards r' \<subseteq> insert ?n (cards r)" .
    moreover have "n_incarnation ?n = rd_alloc r" by (simp add: new_notification_def)
    ultimately have "n' \<in> cards r" if "n' \<in> cards r'" "n_incarnation n' < rd_alloc r" for n'
      using that by auto
    moreover have "rd_alloc r \<le> rd_alloc r'" by (simp add: 3)
    ultimately show ?thesis unfolding cards_advance_def by (blast intro: same_card_refl)
  qed simp
qed

lemma finish_transition_cards:
  assumes "finish_transition sha r e at tr = Some r'"
  shows "cards_advance r r'"
proof -
  define r2 where "r2 = (if tn_resolve_attention tr
    then resolve_attention_notifications (event_session_key e) (ev_turn_id e) (extend_activity_reminder e at r)
    else extend_activity_reminder e at r)"
  have "cards_advance r (extend_activity_reminder e at r)" by (simp add: cards_advance_same)
  then have r2: "cards_advance r r2"
    unfolding r2_def by (auto intro: cards_advance_trans resolve_attention_cards)
  from assms obtain r3 where r3: "r' = bump_revision (fst (refresh_presentation r3 at))"
    and src: "(case tn_notification tr of None \<Rightarrow> Some r2
       | Some kind \<Rightarrow> map_option (show_replacement at) (insert_notification sha r2 e kind)) = Some r3"
    unfolding finish_transition_def Let_def r2_def [symmetric] map_option_eq_Some by blast
  have "cards_advance r2 r3"
  proof (cases "tn_notification tr")
    case None
    with src show ?thesis by simp
  next
    case (Some kind)
    with src obtain r4 b where "insert_notification sha r2 e kind = Some (r4, b)"
      "r3 = show_replacement at (r4, b)" by auto
    then show ?thesis
      using cards_advance_trans [OF insert_notification_cards cards_advance_same] by simp
  qed
  moreover have "cards_advance r3 r'" by (simp add: r3 cards_advance_same)
  ultimately show ?thesis using r2 cards_advance_trans by blast
qed

lemma reduce_at_cards:
  assumes "reduce_at sha r e at = Some (r', out)"
  shows "cards_advance r r'"
proof -
  have step: "cards_advance r r2" if "apply_event (remember_event (event_id_key e) r) e = Some (r2, tr)" for r2 tr
    using apply_event_alloc [OF that] apply_event_revision [OF that] by (simp add: cards_advance_same)
  show ?thesis
    using assms
    by (cases rule: reduce_at_cases) (auto intro: step cards_advance_trans finish_transition_cards)
qed

lemma acknowledge_cards: "cards_advance r (fst (acknowledge_notification r i now))"
  by (auto simp: acknowledge_notification_def Let_def same_card_def split: option.splits
      intro!: cards_advance_update [where f = "\<lambda>n. n\<lparr>n_state := Acknowledged\<rparr>"])

lemma advance_cards: "cards_advance r (fst (advance_presentation r now))"
  using alloc_frames(4) [of r now] notifications_frames(4) [of r now]
  by (cases "refresh_presentation r now")
    (simp add: advance_presentation_def Let_def cards_advance_same)

lemma update_title_cards: "cards_advance r (fst (update_notification_title r original title))"
  by (auto simp: update_notification_title_def same_card_def split: option.splits
      intro!: cards_advance_update [where f = "\<lambda>n. n\<lparr>n_title := Some title\<rparr>"])

lemma reducer_step_cards: "reducer_step sha r r' \<Longrightarrow> cards_advance r r'"
proof (induction rule: reducer_step.induct)
  case (step_restart r now)
  show ?case by (rule cards_advance_same) (simp_all add: restart_activity_reminder_def)
qed (auto intro: reduce_at_cards acknowledge_cards advance_cards update_title_cards)

lemma reachable_cards: "(reducer_step sha)\<^sup>*\<^sup>* r r' \<Longrightarrow> cards_advance r r'"
  by (induction rule: rtranclp_induct) (auto intro: cards_advance_trans reducer_step_cards)

lemma card_unique:
  assumes "reducer_wf r" "n \<in> cards r" "m \<in> cards r" "n_incarnation m = n_incarnation n"
  shows "m = n"
proof -
  have inj: "inj_on (n_incarnation \<circ> snd) (set (rd_notifications r))"
    using assms(1) by (simp add: reducer_wf_def notifications_wf_def)
  obtain i j where "(i, n) \<in> set (rd_notifications r)" "(j, m) \<in> set (rd_notifications r)"
    using assms(2,3) by (auto simp: cards_def bt_values_def)
  with inj_onD [OF inj, of "(j, m)" "(i, n)"] assms(4) show ?thesis by simp
qed

lemma card_allocated: "reducer_wf r \<Longrightarrow> n \<in> cards r \<Longrightarrow> n_incarnation n < rd_alloc r"
  by (auto simp: reducer_wf_def notifications_wf_def cards_def bt_values_def)

lemma card_kept:
  assumes "reducer_wf r" "(reducer_step sha)\<^sup>*\<^sup>* r r'" "n \<in> cards r" "n' \<in> cards r'"
    and "n_incarnation n' = n_incarnation n"
  shows "same_card n n'"
proof -
  obtain m where m: "m \<in> cards r" "same_card m n'"
    using reachable_cards [OF assms(2)] card_allocated [OF assms(1,3)] assms(4,5)
    unfolding cards_advance_def by auto
  then have "m = n"
    using card_unique [OF assms(1,3) m(1)] assms(5) by (simp add: same_card_incarnation)
  with m(2) show ?thesis by simp
qed

text \<open>A sample state with one unread card.\<close>

lemma sample_card_state:
  obtains r n where "reduce_at sample_sha initial_reducer (sample_event TurnFailed ''t1'' ''e1'' 5) 6 = Some (r, Applied 1)"
    "reducer_wf r" "rd_notifications r = [(sample_card, n)]" "n_id n = sample_card" "n_state n = Unread" "n_title n = None"
proof -
  have "\<exists>r n. reduce_at sample_sha initial_reducer (sample_event TurnFailed ''t1'' ''e1'' 5) 6 = Some (r, Applied 1)
    \<and> rd_notifications r = [(sample_card, n)] \<and> n_id n = sample_card \<and> n_state n = Unread \<and> n_title n = None"
    by (simp add: run_defs)
  then show ?thesis using that reduce_at_wf [OF initial_reducer_wf] by blast
qed

text \<open>
  A card keeps its identity: two cards with the same address, one held before and one after any
  run of the reducer, agree on id, provider, event, session, turn, kind, time, project and summary,
  and the state has only moved from unread over acknowledged to resolved. Replacing the card of a
  session never reuses the address of a card that was live.
\<close>

theorem incarnation_identifies_card:
  assumes "reducer_wf r" "(reducer_step sha)\<^sup>*\<^sup>* r r'"
    and "n \<in> set (bt_values (rd_notifications r))" "n' \<in> set (bt_values (rd_notifications r'))"
    and "n_incarnation n' = n_incarnation n"
  shows "n'\<lparr>n_title := n_title n, n_state := n_state n\<rparr> = n
    \<and> notification_state_rank (n_state n) \<le> notification_state_rank (n_state n')"
proof -
  have "same_card n n'" using card_kept assms unfolding cards_def by blast
  then show ?thesis by (cases n; cases n') (simp add: same_card_def)
qed

theorem incarnation_identifies_card_witness:
  "\<exists>r n n'. rd_notifications (fst (acknowledge_notification r sample_card 9)) = [(sample_card, n')]
     \<and> n'\<lparr>n_title := n_title n, n_state := n_state n\<rparr> = n
     \<and> notification_state_rank (n_state n) \<le> notification_state_rank (n_state n') \<and> n_state n' = Acknowledged"
proof -
  obtain r n where r: "reducer_wf r" "rd_notifications r = [(sample_card, n)]" "n_state n = Unread"
    by (rule sample_card_state)
  let ?n = "n\<lparr>n_state := Acknowledged\<rparr>" and ?r = "fst (acknowledge_notification r sample_card 9)"
  have ack: "rd_notifications ?r = [(sample_card, ?n)]"
    using r by (simp add: acknowledge_notification_def Let_def)
  have "?n\<lparr>n_title := n_title n, n_state := n_state n\<rparr> = n
     \<and> notification_state_rank (n_state n) \<le> notification_state_rank (n_state ?n)"
    by (rule incarnation_identifies_card [OF r(1), of sample_sha ?r])
      (auto simp: r(2) ack bt_values_def intro: step_acknowledge)
  with ack show ?thesis by (intro exI [of _ r] exI [of _ n] exI [of _ ?n]) simp
qed

text \<open>
  C5. A generated title lands only on the card it was generated for: when the title service hands
  back a title for a card it read earlier, and the update is accepted, the reducer still holds that
  very card (same identity, still unread, never acknowledged or replaced since), the title passes the
  deserialization check, and only that card's title and the revision change.
\<close>

theorem title_lands_on_captured_card:
  assumes "reducer_wf r" "(reducer_step sha)\<^sup>*\<^sup>* r r'" "n \<in> set (bt_values (rd_notifications r))"
    and "update_notification_title r' n title = (r'', True)"
  shows "\<exists>n'. map_of (rd_notifications r') (n_id n) = Some n' \<and> n'\<lparr>n_title := n_title n\<rparr> = n
    \<and> n_state n' = Unread \<and> deserialize_notification_title (Some title) = Inr (Some title)
    \<and> r'' = r'\<lparr>rd_notifications := bt_insert (n_id n) (n'\<lparr>n_title := Some title\<rparr>) (rd_notifications r'),
                rd_revision := sat_add (rd_revision r') 1\<rparr>"
proof -
  obtain n' where n': "map_of (rd_notifications r') (n_id n) = Some n'" "n_state n' = Unread"
      "n_incarnation n' = n_incarnation n" "title_ok title"
    and r'': "r'' = bump_revision (r'\<lparr>rd_notifications :=
        bt_insert (n_id n) (n'\<lparr>n_title := Some title\<rparr>) (rd_notifications r')\<rparr>)"
    using assms(4) by (auto simp: update_notification_title_def split: option.splits if_splits)
  have "n' \<in> cards r'" using n'(1) by (force simp: cards_def bt_values_def dest: map_of_SomeD)
  then have same: "same_card n n'" using card_kept assms(1-3) n'(3) unfolding cards_def by blast
  then have "n_state n = Unread" using n'(2) by (cases "n_state n") (simp_all add: same_card_def)
  then have "n'\<lparr>n_title := n_title n\<rparr> = n"
    using same n'(2) by (cases n; cases n') (simp add: same_card_def)
  with n' r'' show ?thesis by (simp add: bump_revision_def deserialize_notification_title_def)
qed

theorem title_lands_on_captured_card_witness:
  "\<exists>r n n'. rd_notifications r = [(sample_card, n)] \<and> n'\<lparr>n_title := n_title n\<rparr> = n
     \<and> snd (update_notification_title r n (lit ''Tests failed''))
     \<and> deserialize_notification_title (Some (lit ''Tests failed'')) = Inr (Some (lit ''Tests failed''))"
proof -
  obtain r n where r: "reducer_wf r" "rd_notifications r = [(sample_card, n)]" "n_id n = sample_card"
      "n_state n = Unread" "n_title n = None"
    by (rule sample_card_state)
  let ?u = "update_notification_title r n (lit ''Tests failed'')"
  have upd: "snd ?u"
    using r by (simp add: update_notification_title_def title_ok_def has_control_def is_control_def lit_def)
  have n: "n \<in> set (bt_values (rd_notifications r))" by (simp add: r(2) bt_values_def)
  have u: "?u = (fst ?u, True)" using upd by (metis prod.collapse)
  from title_lands_on_captured_card [OF r(1) rtranclp.rtrancl_refl n u] r(2) upd
  show ?thesis by auto
qed

section \<open>Acknowledgement\<close>

text \<open>
  Acknowledging works exactly once and touches nothing else: it is applied precisely when the
  card exists and is unread, it then marks that card and no other, bumps the revision, leaves the
  sessions and the event memory alone, shows what the remaining cards ask for at once, and a second
  acknowledgement of the same card is stale and changes nothing.
\<close>

theorem acknowledge_once:
  assumes "acknowledge_notification r i now = (r', out)"
  shows "(out \<noteq> IgnoredStale \<longleftrightarrow> (\<exists>n. map_of (rd_notifications r) i = Some n \<and> n_state n = Unread))
    \<and> (if out = IgnoredStale then r' = r
       else out = Applied (rd_revision r') \<and> rd_revision r' = sat_add (rd_revision r) 1
         \<and> (\<forall>j. map_of (rd_notifications r') j = (if j = i
               then map_option (\<lambda>n. n\<lparr>n_state := Acknowledged\<rparr>) (map_of (rd_notifications r) i)
               else map_of (rd_notifications r) j))
         \<and> rd_sessions r' = rd_sessions r \<and> rd_recent_event_ids r' = rd_recent_event_ids r
         \<and> pt_state (rd_presentation r') = desired_presentation r' now)
    \<and> acknowledge_notification r' i now' = (r', IgnoredStale)"
proof (cases "map_of (rd_notifications r) i")
  case None
  with assms have "r' = r" "out = IgnoredStale" by (auto simp: acknowledge_notification_def)
  with None show ?thesis by (simp add: acknowledge_notification_def)
next
  case (Some n)
  show ?thesis
  proof (cases "n_state n = Unread")
    case False
    with assms Some have "r' = r" "out = IgnoredStale" by (auto simp: acknowledge_notification_def)
    with Some False show ?thesis by (simp add: acknowledge_notification_def)
  next
    case True
    let ?r1 = "r\<lparr>rd_notifications := bt_insert i (n\<lparr>n_state := Acknowledged\<rparr>) (rd_notifications r)\<rparr>"
    have r': "r' = bump_revision (show_replacement now (?r1, True))" "out = Applied (rd_revision r')"
      using assms Some True by (auto simp: acknowledge_notification_def Let_def)
    have shown: "pt_state (rd_presentation r') = desired_presentation r' now"
      unfolding r'(1) by (simp add: show_replacement_def) (simp add: set_presentation_def bump_revision_def)
    have m: "map_of (rd_notifications r') = (map_of (rd_notifications r))(i \<mapsto> n\<lparr>n_state := Acknowledged\<rparr>)"
      by (simp add: r'(1))
    then have "acknowledge_notification r' i now' = (r', IgnoredStale)"
      by (simp add: acknowledge_notification_def)
    moreover have "rd_revision r' = sat_add (rd_revision r) 1" "rd_sessions r' = rd_sessions r"
      "rd_recent_event_ids r' = rd_recent_event_ids r"
      by (simp_all add: r'(1))
    ultimately show ?thesis using Some True r'(2) shown m by simp
  qed
qed

theorem acknowledge_once_witness:
  "\<exists>r. acknowledge_notification (fst (acknowledge_notification r sample_card 9)) sample_card 11
      = (fst (acknowledge_notification r sample_card 9), IgnoredStale)
    \<and> snd (acknowledge_notification r sample_card 9) \<noteq> IgnoredStale"
proof -
  obtain r n where r: "rd_notifications r = [(sample_card, n)]" "n_state n = Unread" "reducer_wf r"
    by (rule sample_card_state)
  let ?a = "acknowledge_notification r sample_card 9"
  from acknowledge_once [OF prod.collapse [of ?a, symmetric], of 11] r show ?thesis by auto
qed

end
