(* ===== verification/Forwarding.thy ===== *)
theory Forwarding
  imports Session_Types
begin

text \<open>
  \<^verbatim>\<open>lili-session/src/forwarding.rs\<close>: the authenticated frames an adapter sends to the running
  application. HMAC-SHA256 is the argument \<open>hmac\<close> (key, message), the JSON encoder and decoder of
  \<^verbatim>\<open>serde_json\<close> are the arguments \<open>enc\<close> and \<open>dec\<close> of the operations that call them, the random
  nonce of \<^verbatim>\<open>getrandom\<close> is an optional argument (\<open>None\<close>: no randomness).
\<close>

section \<open>Constants and errors\<close>

definition forwarding_protocol_version :: nat where "forwarding_protocol_version = 1"
definition max_forwarding_frame_bytes :: nat where "max_forwarding_frame_bytes = 64 * 1024"
definition default_replay_window_ms :: nat where "default_replay_window_ms = 60000"
definition default_nonce_capacity :: nat where "default_nonce_capacity = 4096"
definition instance_id_bytes :: nat where "instance_id_bytes = 16"
definition nonce_bytes :: nat where "nonce_bytes = 16"
definition secret_bytes :: nat where "secret_bytes = 32"
definition mac_bytes :: nat where "mac_bytes = 32"
definition max_endpoint_text_bytes :: nat where "max_endpoint_text_bytes = 1024"
definition signature_domain :: "byte list" where "signature_domain = utf8_bytes (lit ''lili-forwarding-v1'')"
definition evidence_signature_domain :: "byte list" where
  "evidence_signature_domain = utf8_bytes (lit ''lili-evidence-v1'')"

datatype forwarding_error =
    TooLarge
  | Malformed
  | UnsupportedVersion nat
  | InvalidEndpoint
  | InvalidInstanceId
  | InvalidCredential
  | InvalidNonce
  | InvalidMac
  | WrongInstance
  | Expired
  | ReplayedNonce
  | MismatchedAcknowledgement
  | InvalidEvent
  | Randomness

section \<open>Hexadecimal text\<close>

definition validate_hex :: "rstr \<Rightarrow> nat \<Rightarrow> unit option" where
  "validate_hex v n =
     (if byte_len v = n * 2 \<and> list_all is_ascii_hexdigit (utf8_bytes v) then Some () else None)"

definition hex_value :: "byte \<Rightarrow> nat" where
  "hex_value b = (let c = unat b in if c \<le> 57 then c - 48 else if c \<le> 70 then c - 55 else c - 87)"

fun hex_pairs :: "byte list \<Rightarrow> byte list" where
  "hex_pairs (a # b # s) = of_nat (16 * hex_value a + hex_value b) # hex_pairs s"
| "hex_pairs _ = []"

definition decode_hex_array :: "nat \<Rightarrow> rstr \<Rightarrow> byte list option" where
  "decode_hex_array n v = (case validate_hex v n of None \<Rightarrow> None | Some u \<Rightarrow> Some (hex_pairs (utf8_bytes v)))"

lemma unat_of_nat_byte: "n < 256 \<Longrightarrow> unat (of_nat n :: byte) = n"
  by (simp add: unat_of_nat)

lemma hex_value_digit: "n < 16 \<Longrightarrow> hex_value (of_nat (hex_digit n)) = n"
  by (auto simp: hex_value_def hex_digit_def unat_of_nat_byte Let_def simp del: of_nat_add of_nat_numeral)

lemma utf8_bytes_hex: "utf8_bytes (hex_of_bytes bs) = map of_nat (hex_of_bytes bs)"
proof -
  have "utf8_code c = [c]" if "c \<in> set (hex_of_bytes bs)" for c
    using set_hex_of_bytes [OF that] by (auto simp: utf8_code_def)
  then have "concat (map utf8_code (hex_of_bytes bs)) = concat (map (\<lambda>c. [c]) (hex_of_bytes bs))"
    by (intro arg_cong [of _ _ concat] map_cong) auto
  then show ?thesis by (simp add: utf8_bytes_def)
qed

lemma hex_pairs_encode: "hex_pairs (map of_nat (hex_of_bytes bs)) = bs"
proof (induction bs)
  case (Cons b bs)
  have "unat b div 16 < 16" "unat b mod 16 < 16" using unat_byte_lt [of b] by auto
  moreover have "16 * (unat b div 16) + unat b mod 16 = unat b" by simp
  ultimately show ?case
    using Cons by (simp add: hex_of_bytes_def hex_value_digit del: of_nat_add of_nat_mult)
qed (simp add: hex_of_bytes_def)

lemma hex_of_bytes_digits: "list_all is_ascii_hexdigit (utf8_bytes (hex_of_bytes bs))"
  using set_hex_of_bytes unfolding utf8_bytes_hex
  by (fastforce simp: list_all_iff is_ascii_hexdigit_def unat_of_nat_byte Let_def)

lemma validate_hex_encode: "length bs = n \<Longrightarrow> validate_hex (hex_of_bytes bs) n = Some ()"
  by (simp add: validate_hex_def hex_of_bytes_digits)

lemma decode_hex_encode: "length bs = n \<Longrightarrow> decode_hex_array n (hex_of_bytes bs) = Some bs"
  by (simp add: decode_hex_array_def validate_hex_encode utf8_bytes_hex hex_pairs_encode)

section \<open>Endpoints and credentials\<close>

datatype platform_endpoint = UnixSocket rstr | WindowsNamedPipe rstr

definition pipe_prefix :: rstr where
  "pipe_prefix = [92, 92, 46, 92] @ lit ''pipe'' @ [92] @ lit ''lili-''"

definition validate_endpoint_text :: "rstr \<Rightarrow> forwarding_error + unit" where
  "validate_endpoint_text v =
     (if v = [] \<or> max_endpoint_text_bytes < byte_len v \<or> has_control v then Inl InvalidEndpoint else Inr ())"

definition starts_with :: "rstr \<Rightarrow> rstr \<Rightarrow> bool" where
  "starts_with v p \<longleftrightarrow> take (length p) v = p"

fun endpoint_validate :: "platform_endpoint \<Rightarrow> forwarding_error + unit" where
  "endpoint_validate (UnixSocket path) = validate_endpoint_text path"
| "endpoint_validate (WindowsNamedPipe name) = rbind (validate_endpoint_text name) (\<lambda>_.
     if starts_with name pipe_prefix then Inr () else Inl InvalidEndpoint)"

definition unix_socket :: "rstr \<Rightarrow> forwarding_error + platform_endpoint" where
  "unix_socket path = rbind (endpoint_validate (UnixSocket path)) (\<lambda>_. Inr (UnixSocket path))"

definition windows_named_pipe :: "rstr \<Rightarrow> forwarding_error + platform_endpoint" where
  "windows_named_pipe name =
     rbind (endpoint_validate (WindowsNamedPipe name)) (\<lambda>_. Inr (WindowsNamedPipe name))"

record credential_record =
  cr_version :: nat
  cr_instance_id :: rstr
  cr_secret :: rstr
  cr_endpoint :: platform_endpoint

record credentials =
  cd_instance_id :: rstr
  cd_secret :: "byte list"

definition credential_record_new :: "credentials \<Rightarrow> platform_endpoint \<Rightarrow> credential_record" where
  "credential_record_new c ep = \<lparr>cr_version = forwarding_protocol_version,
     cr_instance_id = cd_instance_id c, cr_secret = hex_of_bytes (cd_secret c), cr_endpoint = ep\<rparr>"

definition record_credentials :: "credential_record \<Rightarrow> forwarding_error + credentials" where
  "record_credentials r =
     (if cr_version r \<noteq> forwarding_protocol_version then Inl (UnsupportedVersion (cr_version r))
      else rbind (ok_or InvalidInstanceId (validate_hex (cr_instance_id r) instance_id_bytes)) (\<lambda>_.
        rbind (ok_or InvalidCredential (decode_hex_array secret_bytes (cr_secret r))) (\<lambda>secret.
          rbind (endpoint_validate (cr_endpoint r)) (\<lambda>_.
            Inr \<lparr>cd_instance_id = cr_instance_id r, cd_secret = secret\<rparr>))))"

text \<open>\<^verbatim>\<open>generate\<close>: two draws of randomness.\<close>

definition generate_credentials :: "byte list option \<Rightarrow> byte list option \<Rightarrow> forwarding_error + credentials" where
  "generate_credentials inst secret = rbind (ok_or Randomness inst) (\<lambda>i.
     rbind (ok_or Randomness secret) (\<lambda>s. Inr \<lparr>cd_instance_id = hex_of_bytes i, cd_secret = s\<rparr>))"

section \<open>Evidence\<close>

definition evidence_signing_bytes :: "rstr \<Rightarrow> byte list \<Rightarrow> byte list" where
  "evidence_signing_bytes domain payload = delimited [evidence_signature_domain, utf8_bytes domain, payload]"

definition evidence_malformed :: "rstr \<Rightarrow> byte list \<Rightarrow> bool" where
  "evidence_malformed domain payload \<longleftrightarrow>
     domain = [] \<or> 128 < byte_len domain \<or> has_control domain \<or> max_forwarding_frame_bytes < length payload"

definition authenticate_evidence :: "(byte list \<Rightarrow> byte list \<Rightarrow> byte list) \<Rightarrow> credentials \<Rightarrow> rstr
    \<Rightarrow> byte list \<Rightarrow> forwarding_error + rstr" where
  "authenticate_evidence hmac c domain payload =
     (if evidence_malformed domain payload then Inl Malformed
      else Inr (hex_of_bytes (hmac (cd_secret c) (evidence_signing_bytes domain payload))))"

definition verify_evidence :: "(byte list \<Rightarrow> byte list \<Rightarrow> byte list) \<Rightarrow> credentials \<Rightarrow> rstr
    \<Rightarrow> byte list \<Rightarrow> rstr \<Rightarrow> forwarding_error + unit" where
  "verify_evidence hmac c domain payload auth =
     (if evidence_malformed domain payload then Inl Malformed
      else rbind (ok_or InvalidMac (decode_hex_array mac_bytes auth)) (\<lambda>supplied.
        if hmac (cd_secret c) (evidence_signing_bytes domain payload) = supplied then Inr ()
        else Inl InvalidMac))"

section \<open>Messages\<close>

datatype forwarding_purpose = PurposeEvent | PurposeVerification

record unsigned_message =
  um_version :: nat
  um_instance_id :: rstr
  um_nonce :: rstr
  um_sent_at_ms :: nat
  um_event :: session_event
  um_purpose :: forwarding_purpose

record forwarding_message =
  fm_version :: nat
  fm_instance_id :: rstr
  fm_nonce :: rstr
  fm_sent_at_ms :: nat
  fm_event :: session_event
  fm_purpose :: forwarding_purpose
  fm_mac :: rstr

definition signing_bytes :: "(unsigned_message \<Rightarrow> byte list option) \<Rightarrow> unsigned_message
    \<Rightarrow> forwarding_error + byte list" where
  "signing_bytes enc m = rbind (ok_or Malformed (enc m)) (\<lambda>payload.
     Inr (delimited [signature_domain, payload]))"

definition compute_mac :: "(byte list \<Rightarrow> byte list \<Rightarrow> byte list) \<Rightarrow> (unsigned_message \<Rightarrow> byte list option)
    \<Rightarrow> byte list \<Rightarrow> unsigned_message \<Rightarrow> forwarding_error + byte list" where
  "compute_mac hmac enc secret m = rbind (signing_bytes enc m) (\<lambda>bytes. Inr (hmac secret bytes))"

definition sign_with_nonce :: "(byte list \<Rightarrow> byte list \<Rightarrow> byte list) \<Rightarrow> (unsigned_message \<Rightarrow> byte list option)
    \<Rightarrow> credentials \<Rightarrow> session_event \<Rightarrow> nat \<Rightarrow> rstr \<Rightarrow> forwarding_purpose
    \<Rightarrow> forwarding_error + forwarding_message" where
  "sign_with_nonce hmac enc c e sent nonce purpose =
     rbind (ok_or InvalidNonce (validate_hex nonce nonce_bytes)) (\<lambda>_.
       let u = \<lparr>um_version = forwarding_protocol_version, um_instance_id = cd_instance_id c,
                um_nonce = nonce, um_sent_at_ms = sent, um_event = e, um_purpose = purpose\<rparr> in
       rbind (compute_mac hmac enc (cd_secret c) u) (\<lambda>mac.
         Inr \<lparr>fm_version = um_version u, fm_instance_id = um_instance_id u, fm_nonce = um_nonce u,
              fm_sent_at_ms = um_sent_at_ms u, fm_event = um_event u, fm_purpose = um_purpose u,
              fm_mac = hex_of_bytes mac\<rparr>))"

definition sign_for_purpose :: "byte list option \<Rightarrow> (byte list \<Rightarrow> byte list \<Rightarrow> byte list)
    \<Rightarrow> (unsigned_message \<Rightarrow> byte list option) \<Rightarrow> credentials \<Rightarrow> session_event \<Rightarrow> nat
    \<Rightarrow> forwarding_purpose \<Rightarrow> forwarding_error + forwarding_message" where
  "sign_for_purpose random hmac enc c e sent purpose = rbind (ok_or Randomness random) (\<lambda>nonce.
     sign_with_nonce hmac enc c e sent (hex_of_bytes nonce) purpose)"

definition sign_event where
  "sign_event random hmac enc c e sent = sign_for_purpose random hmac enc c e sent PurposeEvent"

definition sign_verification where
  "sign_verification random hmac enc c e sent = sign_for_purpose random hmac enc c e sent PurposeVerification"

section \<open>Frames\<close>

definition encode_frame :: "('a \<Rightarrow> byte list option) \<Rightarrow> 'a \<Rightarrow> forwarding_error + byte list" where
  "encode_frame enc v = rbind (ok_or Malformed (enc v)) (\<lambda>payload.
     if max_forwarding_frame_bytes < length payload then Inl TooLarge
     else if 2 ^ 32 \<le> length payload then Inl TooLarge
     else Inr (be_bytes 4 (length payload) @ payload))"

definition decode_payload :: "(byte list \<Rightarrow> 'a option) \<Rightarrow> byte list \<Rightarrow> forwarding_error + 'a" where
  "decode_payload dec payload =
     (if max_forwarding_frame_bytes < length payload then Inl TooLarge
      else ok_or Malformed (dec payload))"

section \<open>Acknowledgements\<close>

datatype ack_disposition = AckAccepted | AckDuplicate

record forwarding_ack =
  fa_version :: nat
  fa_instance_id :: rstr
  fa_nonce :: rstr
  fa_disposition :: ack_disposition

definition ack_from_payload :: "(byte list \<Rightarrow> forwarding_ack option) \<Rightarrow> byte list
    \<Rightarrow> forwarding_error + forwarding_ack" where
  "ack_from_payload dec payload = rbind (decode_payload dec payload) (\<lambda>a.
     if fa_version a \<noteq> forwarding_protocol_version then Inl (UnsupportedVersion (fa_version a))
     else rbind (ok_or InvalidInstanceId (validate_hex (fa_instance_id a) instance_id_bytes)) (\<lambda>_.
       rbind (ok_or InvalidNonce (validate_hex (fa_nonce a) nonce_bytes)) (\<lambda>_. Inr a)))"

definition ack_validate_for :: "forwarding_ack \<Rightarrow> forwarding_message \<Rightarrow> forwarding_error + unit" where
  "ack_validate_for a m =
     (if fa_version a \<noteq> forwarding_protocol_version then Inl (UnsupportedVersion (fa_version a))
      else if fa_instance_id a \<noteq> fm_instance_id m \<or> fa_nonce a \<noteq> fm_nonce m
      then Inl MismatchedAcknowledgement else Inr ())"

record verified_message =
  vm_event :: session_event
  vm_purpose :: forwarding_purpose
  vm_instance_id :: rstr
  vm_nonce :: rstr

definition acknowledgement :: "verified_message \<Rightarrow> ack_disposition \<Rightarrow> forwarding_ack" where
  "acknowledgement v d = \<lparr>fa_version = forwarding_protocol_version, fa_instance_id = vm_instance_id v,
     fa_nonce = vm_nonce v, fa_disposition = d\<rparr>"

section \<open>The verifier\<close>

record verifier =
  fv_credentials :: credentials
  fv_nonces :: "(rstr \<times> nat) list"
  fv_nonce_set :: "(rstr, nat) btree"
  fv_replay_window_ms :: nat
  fv_capacity :: nat

definition verifier_with_limits :: "credentials \<Rightarrow> nat \<Rightarrow> nat \<Rightarrow> verifier" where
  "verifier_with_limits c window capacity = \<lparr>fv_credentials = c, fv_nonces = [], fv_nonce_set = [],
     fv_replay_window_ms = window, fv_capacity = max capacity 1\<rparr>"

definition verifier_new :: "credentials \<Rightarrow> verifier" where
  "verifier_new c = verifier_with_limits c default_replay_window_ms default_nonce_capacity"

definition unsigned_of :: "forwarding_message \<Rightarrow> unsigned_message" where
  "unsigned_of m = \<lparr>um_version = fm_version m, um_instance_id = fm_instance_id m, um_nonce = fm_nonce m,
     um_sent_at_ms = fm_sent_at_ms m, um_event = fm_event m, um_purpose = fm_purpose m\<rparr>"

text \<open>The checks of \<^verbatim>\<open>verify_payload\<close> before the nonce memory is touched.\<close>

definition check_message :: "(byte list \<Rightarrow> forwarding_message option)
    \<Rightarrow> (unsigned_message \<Rightarrow> byte list option) \<Rightarrow> (byte list \<Rightarrow> byte list \<Rightarrow> byte list)
    \<Rightarrow> verifier \<Rightarrow> byte list \<Rightarrow> nat \<Rightarrow> forwarding_error + forwarding_message" where
  "check_message dec enc hmac v payload now = rbind (decode_payload dec payload) (\<lambda>m.
     if fm_version m \<noteq> forwarding_protocol_version then Inl (UnsupportedVersion (fm_version m))
     else if fm_instance_id m \<noteq> cd_instance_id (fv_credentials v) then Inl WrongInstance
     else rbind (ok_or InvalidInstanceId (validate_hex (fm_instance_id m) instance_id_bytes)) (\<lambda>_.
       rbind (ok_or InvalidNonce (validate_hex (fm_nonce m) nonce_bytes)) (\<lambda>_.
         if fv_replay_window_ms v < abs_diff now (fm_sent_at_ms m) then Inl Expired
         else rbind (ok_or InvalidMac (decode_hex_array mac_bytes (fm_mac m))) (\<lambda>supplied.
           rbind (signing_bytes enc (unsigned_of m)) (\<lambda>bytes.
             if hmac (cd_secret (fv_credentials v)) bytes \<noteq> supplied then Inl InvalidMac
             else rbind (map_err (\<lambda>_. InvalidEvent) (event_validate (fm_event m))) (\<lambda>_. Inr m))))))"

text \<open>The two loops that pop the front of the nonce queue.\<close>

fun prune_loop :: "nat \<Rightarrow> nat \<Rightarrow> (rstr \<times> nat) list \<Rightarrow> (rstr, nat) btree \<Rightarrow> (rstr \<times> nat) list \<times> (rstr, nat) btree" where
  "prune_loop window now [] s = ([], s)"
| "prune_loop window now ((n, at) # q) s =
     (if window < now - at then prune_loop window now q (bt_remove n s) else ((n, at) # q, s))"

definition prune_nonces :: "verifier \<Rightarrow> nat \<Rightarrow> verifier" where
  "prune_nonces v now = (let (q, s) = prune_loop (fv_replay_window_ms v) now (fv_nonces v) (fv_nonce_set v)
     in v\<lparr>fv_nonces := q, fv_nonce_set := s\<rparr>)"

fun evict_loop :: "nat \<Rightarrow> (rstr \<times> nat) list \<Rightarrow> (rstr, nat) btree \<Rightarrow> (rstr \<times> nat) list \<times> (rstr, nat) btree" where
  "evict_loop capacity [] s = ([], s)"
| "evict_loop capacity ((n, at) # q) s =
     (if capacity \<le> length ((n, at) # q) then evict_loop capacity q (bt_remove n s) else ((n, at) # q, s))"

definition remember_nonce :: "verifier \<Rightarrow> rstr \<Rightarrow> nat \<Rightarrow> verifier" where
  "remember_nonce v n now = (let (q, s) = evict_loop (fv_capacity v) (fv_nonces v) (fv_nonce_set v)
     in v\<lparr>fv_nonces := q @ [(n, now)], fv_nonce_set := bt_insert n now s\<rparr>)"

definition verify_payload :: "(byte list \<Rightarrow> forwarding_message option)
    \<Rightarrow> (unsigned_message \<Rightarrow> byte list option) \<Rightarrow> (byte list \<Rightarrow> byte list \<Rightarrow> byte list)
    \<Rightarrow> verifier \<Rightarrow> byte list \<Rightarrow> nat \<Rightarrow> verifier \<times> (forwarding_error + verified_message)" where
  "verify_payload dec enc hmac v payload now = (case check_message dec enc hmac v payload now of
     Inl e \<Rightarrow> (v, Inl e)
   | Inr m \<Rightarrow>
       let v1 = prune_nonces v now in
       if map_of (fv_nonce_set v1) (fm_nonce m) \<noteq> None then (v1, Inl ReplayedNonce)
       else (remember_nonce v1 (fm_nonce m) now,
             Inr \<lparr>vm_event = fm_event m, vm_purpose = fm_purpose m, vm_instance_id = fm_instance_id m,
                  vm_nonce = fm_nonce m\<rparr>))"

end
