(* ===== verification/Forwarding_Properties.thy ===== *)
theory Forwarding_Properties
  imports Forwarding
begin

text \<open>
  What the forwarding protocol promises: credentials survive the round trip through their record, a
  signed message is accepted, an accepted message is authentic and fresh, and what the bounded nonce
  memory does and does not rule out.
\<close>

section \<open>Credentials\<close>

definition credentials_ok :: "credentials \<Rightarrow> bool" where
  "credentials_ok c \<longleftrightarrow> validate_hex (cd_instance_id c) instance_id_bytes = Some ()
     \<and> length (cd_secret c) = secret_bytes"

lemma generated_credentials_ok:
  "generate_credentials (Some i) (Some s) = Inr c \<Longrightarrow> length i = instance_id_bytes
     \<Longrightarrow> length s = secret_bytes \<Longrightarrow> credentials_ok c"
  by (auto simp: generate_credentials_def credentials_ok_def validate_hex_encode rbind_Inr_iff)

text \<open>
  Credentials survive the discovery record: for a valid endpoint, reading back the record that
  was written for freshly generated credentials yields the same instance identity and secret, and a
  record of any other protocol version is refused.
\<close>

theorem credential_record_round_trip:
  assumes "generate_credentials (Some i) (Some s) = Inr c" "length i = instance_id_bytes"
    and "length s = secret_bytes" "endpoint_validate ep = Inr ()"
  shows "record_credentials (credential_record_new c ep) = Inr c
    \<and> (n \<noteq> forwarding_protocol_version \<longrightarrow>
        record_credentials ((credential_record_new c ep)\<lparr>cr_version := n\<rparr>) = Inl (UnsupportedVersion n))"
proof -
  have "credentials_ok c" using generated_credentials_ok assms(1-3) .
  with assms(4) show ?thesis
    by (simp add: record_credentials_def credential_record_new_def credentials_ok_def decode_hex_encode
        ok_or_def)
qed

definition sample_credentials :: credentials where
  "sample_credentials = \<lparr>cd_instance_id = hex_of_bytes (replicate 16 7), cd_secret = replicate 32 9\<rparr>"

theorem credential_record_round_trip_witness:
  "record_credentials (credential_record_new sample_credentials (UnixSocket (lit ''/run/lili.sock'')))
     = Inr sample_credentials"
proof -
  have "generate_credentials (Some (replicate 16 7)) (Some (replicate 32 9)) = Inr sample_credentials"
    by (simp add: generate_credentials_def ok_or_def sample_credentials_def)
  moreover have "endpoint_validate (UnixSocket (lit ''/run/lili.sock'')) = Inr ()"
    by (simp add: validate_endpoint_text_def max_endpoint_text_bytes_def has_control_def is_control_def
        byte_len_def utf8_width_def lit_def)
  ultimately show ?thesis
    using credential_record_round_trip [of "replicate 16 7" "replicate 32 9" sample_credentials]
    by (simp add: instance_id_bytes_def secret_bytes_def)
qed

section \<open>The nonce memory\<close>

definition verifier_wf :: "verifier \<Rightarrow> bool" where
  "verifier_wf v \<longleftrightarrow> distinct (map fst (fv_nonces v)) \<and> map_of (fv_nonce_set v) = map_of (fv_nonces v)
     \<and> length (fv_nonces v) \<le> fv_capacity v \<and> 0 < fv_capacity v"

lemma verifier_new_wf: "verifier_wf (verifier_with_limits c w k)"
  by (simp add: verifier_wf_def verifier_with_limits_def)

lemma remove_head:
  "distinct (n # map fst q) \<Longrightarrow> map_of s = map_of ((n, at) # q) \<Longrightarrow> map_of (bt_remove n s) = map_of q"
  using map_of_eq_None_iff [of q n] by (auto simp: fun_eq_iff)

lemma prune_loop_spec:
  assumes "distinct (map fst q)" "map_of s = map_of q"
  shows "fst (prune_loop w now q s) = dropWhile (\<lambda>(n, at). w < now - at) q
    \<and> map_of (snd (prune_loop w now q s)) = map_of (fst (prune_loop w now q s))"
  using assms by (induction w now q s rule: prune_loop.induct) (auto simp del: map_of_bt_remove simp: remove_head)

lemma evict_loop_spec:
  assumes "distinct (map fst q)" "map_of s = map_of q" "0 < k"
  shows "fst (evict_loop k q s) = drop (Suc (length q) - k) q
    \<and> map_of (snd (evict_loop k q s)) = map_of (fst (evict_loop k q s))"
  using assms
proof (induction k q s rule: evict_loop.induct)
  case (2 k n at q s)
  have "map_of (bt_remove n s) = map_of q"
    by (rule remove_head [where at = at]) (use "2.prems" in \<open>simp_all add: fun_upd_def\<close>)
  with 2 show ?case by (cases "k \<le> length ((n, at) # q)") (auto simp: Suc_diff_le simp del: map_of_bt_remove)
qed simp

lemma map_of_snoc: "n \<notin> fst ` set q \<Longrightarrow> map_of (q @ [(n, t)]) = (map_of q)(n \<mapsto> t)"
  by (induction q) (auto simp: fun_eq_iff)

lemma prune_nonces_frame [simp]:
  "fv_credentials (prune_nonces v now) = fv_credentials v"
  "fv_replay_window_ms (prune_nonces v now) = fv_replay_window_ms v"
  "fv_capacity (prune_nonces v now) = fv_capacity v"
  by (simp_all add: prune_nonces_def split: prod.splits)

lemma remember_nonce_frame [simp]:
  "fv_credentials (remember_nonce v n now) = fv_credentials v"
  "fv_replay_window_ms (remember_nonce v n now) = fv_replay_window_ms v"
  "fv_capacity (remember_nonce v n now) = fv_capacity v"
  by (simp_all add: remember_nonce_def split: prod.splits)

lemma prune_nonces_parts:
  "fv_nonces (prune_nonces v now) = fst (prune_loop (fv_replay_window_ms v) now (fv_nonces v) (fv_nonce_set v))"
  "fv_nonce_set (prune_nonces v now) = snd (prune_loop (fv_replay_window_ms v) now (fv_nonces v) (fv_nonce_set v))"
  by (simp_all add: prune_nonces_def case_prod_beta Let_def)

lemma remember_nonce_parts:
  "fv_nonces (remember_nonce v n now)
     = fst (evict_loop (fv_capacity v) (fv_nonces v) (fv_nonce_set v)) @ [(n, now)]"
  "fv_nonce_set (remember_nonce v n now)
     = bt_insert n now (snd (evict_loop (fv_capacity v) (fv_nonces v) (fv_nonce_set v)))"
  by (simp_all add: remember_nonce_def case_prod_beta Let_def)

lemma prune_nonces_nonces:
  assumes "verifier_wf v"
  shows "fv_nonces (prune_nonces v now) = dropWhile (\<lambda>(n, at). fv_replay_window_ms v < now - at) (fv_nonces v)"
    and "verifier_wf (prune_nonces v now)"
proof -
  let ?l = "prune_loop (fv_replay_window_ms v) now (fv_nonces v) (fv_nonce_set v)"
  have p: "fst ?l = dropWhile (\<lambda>(n, at). fv_replay_window_ms v < now - at) (fv_nonces v)"
    "map_of (snd ?l) = map_of (fst ?l)"
    using assms prune_loop_spec by (simp_all add: verifier_wf_def)
  then show n: "fv_nonces (prune_nonces v now) = dropWhile (\<lambda>(n, at). fv_replay_window_ms v < now - at) (fv_nonces v)"
    by (simp add: prune_nonces_parts)
  have "map fst (dropWhile P q) = drop (length (takeWhile P q)) (map fst q)" for P and q :: "(rstr \<times> nat) list"
    by (simp add: dropWhile_eq_drop drop_map)
  then have "distinct (map fst (fst ?l))" unfolding p(1) using assms by (simp add: verifier_wf_def)
  moreover have "length (fst ?l) \<le> fv_capacity v"
    unfolding p(1) using assms length_dropWhile_le le_trans unfolding verifier_wf_def by blast
  ultimately show "verifier_wf (prune_nonces v now)"
    using assms p(2) by (simp add: verifier_wf_def prune_nonces_parts)
qed

lemma remember_nonce_nonces:
  assumes "verifier_wf v" "map_of (fv_nonce_set v) n = None"
  shows "fv_nonces (remember_nonce v n now) =
      drop (Suc (length (fv_nonces v)) - fv_capacity v) (fv_nonces v) @ [(n, now)]"
    and "verifier_wf (remember_nonce v n now)"
proof -
  let ?l = "evict_loop (fv_capacity v) (fv_nonces v) (fv_nonce_set v)"
  let ?d = "drop (Suc (length (fv_nonces v)) - fv_capacity v) (fv_nonces v)"
  have p: "fst ?l = ?d" "map_of (snd ?l) = map_of (fst ?l)"
    using assms evict_loop_spec by (simp_all add: verifier_wf_def)
  then show nn: "fv_nonces (remember_nonce v n now) = ?d @ [(n, now)]"
    by (simp add: remember_nonce_parts)
  have "n \<notin> fst ` set (fv_nonces v)"
    using assms by (simp add: verifier_wf_def map_of_eq_None_iff)
  then have fresh: "n \<notin> fst ` set ?d" by (auto dest: in_set_dropD)
  have "distinct (map fst ?d)" using assms(1) by (simp add: verifier_wf_def flip: drop_map)
  moreover have "map_of (?d @ [(n, now)]) = (map_of ?d)(n \<mapsto> now)"
    using fresh by (rule map_of_snoc)
  moreover have "length (?d @ [(n, now)]) \<le> fv_capacity v"
  proof -
    have "length (fv_nonces v) \<le> fv_capacity v" "0 < fv_capacity v"
      using assms(1) by (simp_all add: verifier_wf_def)
    then show ?thesis unfolding length_append length_drop by simp
  qed
  ultimately show "verifier_wf (remember_nonce v n now)"
    using assms(1) fresh p by (simp add: verifier_wf_def remember_nonce_parts)
qed

section \<open>Acceptance\<close>

lemma if_error_iff: "(if b then Inl e else r) = Inr x \<longleftrightarrow> \<not> b \<and> r = Inr x"
  by simp

lemma check_message_Inr_iff:
  "check_message dec enc hmac v payload now = Inr m \<longleftrightarrow>
     length payload \<le> max_forwarding_frame_bytes \<and> dec payload = Some m
     \<and> fm_version m = forwarding_protocol_version
     \<and> fm_instance_id m = cd_instance_id (fv_credentials v)
     \<and> validate_hex (fm_instance_id m) instance_id_bytes = Some ()
     \<and> validate_hex (fm_nonce m) nonce_bytes = Some ()
     \<and> abs_diff now (fm_sent_at_ms m) \<le> fv_replay_window_ms v
     \<and> (\<exists>p. enc (unsigned_of m) = Some p \<and> decode_hex_array mac_bytes (fm_mac m)
            = Some (hmac (cd_secret (fv_credentials v)) (delimited [signature_domain, p])))
     \<and> event_ok (fm_event m)"
  unfolding check_message_def decode_payload_def rbind_Inr_iff signing_bytes_def if_error_iff
    ok_or_Inr_iff map_err_Inr_iff
  by (auto simp: event_validate_iff not_less simp del: delimited_simps)

text \<open>
  What is signed is accepted: a message signed with the shared credentials and a valid nonce,
  for a valid event, is verified by a receiver that decodes the frame payload back to it, at any
  clock within the replay window, provided the nonce is not among the remembered ones; the receiver
  hands out the signed event and purpose, and its acknowledgement matches the message.
\<close>

theorem signed_message_accepted:
  assumes "credentials_ok c" "fv_credentials v = c"
    and "sign_with_nonce hmac enc c e sent nonce purpose = Inr m" "\<And>k b. length (hmac k b) = mac_bytes"
    and "dec payload = Some m" "length payload \<le> max_forwarding_frame_bytes"
    and "event_validate e = Inr ()" "abs_diff now sent \<le> fv_replay_window_ms v"
    and "map_of (fv_nonce_set (prune_nonces v now)) nonce = None"
  shows "\<exists>v' r. verify_payload dec enc hmac v payload now = (v', Inr r)
    \<and> vm_event r = e \<and> vm_purpose r = purpose
    \<and> ack_validate_for (acknowledgement r d) m = Inr ()"
proof -
  obtain p where m: "m = \<lparr>fm_version = forwarding_protocol_version, fm_instance_id = cd_instance_id c,
      fm_nonce = nonce, fm_sent_at_ms = sent, fm_event = e, fm_purpose = purpose,
      fm_mac = hex_of_bytes (hmac (cd_secret c) (delimited [signature_domain, p]))\<rparr>"
    and p: "enc (unsigned_of m) = Some p" and n: "validate_hex nonce nonce_bytes = Some ()"
    using assms(3) by (auto simp: sign_with_nonce_def compute_mac_def signing_bytes_def rbind_Inr_iff
        Let_def unsigned_of_def)
  have "check_message dec enc hmac v payload now = Inr m"
    unfolding check_message_Inr_iff using assms(1,2,5-8) n p
    by (auto simp: m credentials_ok_def decode_hex_encode assms(4) event_validate_iff simp del: delimited_simps)
  then show ?thesis
    using assms(9) by (simp add: verify_payload_def m ack_validate_for_def acknowledgement_def)
qed

text \<open>
  C14. What is accepted is authentic and fresh: if the verifier accepts a payload, the payload decodes
  to a message for this instance whose authentication code is the keyed hash, under the instance
  secret, of exactly the fields that are handed out; the event is valid, the clock is within the
  replay window of the sending time, the nonce was not remembered before and is remembered now.
\<close>

theorem accepted_message_authentic:
  assumes "verifier_wf v" "verify_payload dec enc hmac v payload now = (v', Inr r)"
  shows "\<exists>m p. dec payload = Some m \<and> enc (unsigned_of m) = Some p
    \<and> decode_hex_array mac_bytes (fm_mac m)
        = Some (hmac (cd_secret (fv_credentials v)) (delimited [signature_domain, p]))
    \<and> fm_instance_id m = cd_instance_id (fv_credentials v)
    \<and> abs_diff now (fm_sent_at_ms m) \<le> fv_replay_window_ms v
    \<and> r = \<lparr>vm_event = fm_event m, vm_purpose = fm_purpose m, vm_instance_id = fm_instance_id m,
           vm_nonce = fm_nonce m\<rparr>
    \<and> event_validate (vm_event r) = Inr ()
    \<and> vm_nonce r \<notin> fst ` set (fv_nonces (prune_nonces v now))
    \<and> (vm_nonce r, now) \<in> set (fv_nonces v') \<and> verifier_wf v'"
proof -
  obtain m where m: "check_message dec enc hmac v payload now = Inr m"
    and fresh: "map_of (fv_nonce_set (prune_nonces v now)) (fm_nonce m) = None"
    and r: "r = \<lparr>vm_event = fm_event m, vm_purpose = fm_purpose m, vm_instance_id = fm_instance_id m,
           vm_nonce = fm_nonce m\<rparr>"
    and v': "v' = remember_nonce (prune_nonces v now) (fm_nonce m) now"
    using assms(2) by (auto simp: verify_payload_def Let_def split: sum.splits if_splits)
  note wf = prune_nonces_nonces(2) [OF assms(1), of now]
  have "fm_nonce m \<notin> fst ` set (fv_nonces (prune_nonces v now))"
    using wf fresh by (simp add: verifier_wf_def map_of_eq_None_iff)
  moreover have "(fm_nonce m, now) \<in> set (fv_nonces v')" "verifier_wf v'"
    using remember_nonce_nonces [OF wf fresh, of now] by (simp_all add: v')
  ultimately show ?thesis
    using m unfolding check_message_Inr_iff by (auto simp: r event_validate_iff)
qed

section \<open>Replay\<close>

text \<open>A run of the verifier over payloads with their clocks, counting the accepted ones.\<close>

fun verify_run where
  "verify_run dec enc hmac v [] = (v, 0 :: nat)"
| "verify_run dec enc hmac v ((payload, now) # xs) =
     (let (v1, res) = verify_payload dec enc hmac v payload now;
          (v2, k) = verify_run dec enc hmac v1 xs
      in (v2, if is_ok res then Suc k else k))"

definition remembers :: "verifier \<Rightarrow> rstr \<Rightarrow> nat \<Rightarrow> nat \<Rightarrow> bool" where
  "remembers v n at k \<longleftrightarrow> (\<exists>pre post. fv_nonces v = pre @ (n, at) # post \<and> length post \<le> k)"

lemma remembers_set: "verifier_wf v \<Longrightarrow> remembers v n at k \<Longrightarrow> map_of (fv_nonce_set v) n = Some at"
  by (auto simp: verifier_wf_def remembers_def)

lemma remembers_prune:
  assumes "verifier_wf v" "remembers v n at k" "now - at \<le> fv_replay_window_ms v"
  shows "remembers (prune_nonces v now) n at k"
proof -
  obtain pre post where q: "fv_nonces v = pre @ (n, at) # post" "length post \<le> k"
    using assms(2) by (auto simp: remembers_def)
  let ?P = "\<lambda>(n, at). fv_replay_window_ms v < now - at"
  have "dropWhile ?P (pre @ (n, at) # post) = dropWhile ?P pre @ (n, at) # post"
    using assms(3) by (cases "\<forall>x \<in> set pre. ?P x") (auto simp: dropWhile_append)
  then show ?thesis using q prune_nonces_nonces(1) [OF assms(1)] by (auto simp: remembers_def)
qed

lemma remembers_remember:
  assumes "verifier_wf v" "remembers v n at k" "Suc k < fv_capacity v" "map_of (fv_nonce_set v) n' = None"
  shows "remembers (remember_nonce v n' now) n at (Suc k)"
proof -
  obtain pre post where q: "fv_nonces v = pre @ (n, at) # post" "length post \<le> k"
    using assms(2) by (auto simp: remembers_def)
  have "Suc (length (fv_nonces v)) - fv_capacity v \<le> length pre"
    using q assms(3) by simp
  then have "drop (Suc (length (fv_nonces v)) - fv_capacity v) (fv_nonces v)
      = drop (Suc (length (fv_nonces v)) - fv_capacity v) pre @ (n, at) # post"
    by (simp add: q(1))
  then show ?thesis
    using remember_nonce_nonces(1) [OF assms(1,4), of now] q(2) unfolding remembers_def
    by (intro exI [of _ "drop (Suc (length (fv_nonces v)) - fv_capacity v) pre"] exI [of _ "post @ [(n', now)]"])
      simp
qed

lemma verify_payload_cases:
  assumes "verify_payload dec enc hmac v payload now = (v', res)"
  obtains (refused) e where "check_message dec enc hmac v payload now = Inl e" "v' = v" "res = Inl e"
  | (replayed) m t where "check_message dec enc hmac v payload now = Inr m"
      "map_of (fv_nonce_set (prune_nonces v now)) (fm_nonce m) = Some t"
      "v' = prune_nonces v now" "res = Inl ReplayedNonce"
  | (accepted) m r where "check_message dec enc hmac v payload now = Inr m"
      "map_of (fv_nonce_set (prune_nonces v now)) (fm_nonce m) = None"
      "v' = remember_nonce (prune_nonces v now) (fm_nonce m) now" "res = Inr r"
proof (cases "check_message dec enc hmac v payload now")
  case (Inl e)
  with assms have "v' = v" "res = Inl e" by (simp_all add: verify_payload_def)
  with Inl refused show ?thesis by blast
next
  case (Inr m)
  show ?thesis
  proof (cases "map_of (fv_nonce_set (prune_nonces v now)) (fm_nonce m)")
    case None
    with assms Inr have "v' = remember_nonce (prune_nonces v now) (fm_nonce m) now"
      and "\<exists>r. res = Inr r" by (auto simp: verify_payload_def)
    with Inr None accepted show ?thesis by blast
  next
    case (Some t)
    with assms Inr have "v' = prune_nonces v now" "res = Inl ReplayedNonce"
      by (auto simp: verify_payload_def)
    with Inr Some replayed show ?thesis by blast
  qed
qed

lemma verify_payload_frame:
  assumes "verify_payload dec enc hmac v payload now = (v', res)"
  shows "fv_replay_window_ms v' = fv_replay_window_ms v \<and> fv_credentials v' = fv_credentials v"
  using assms by (cases rule: verify_payload_cases) simp_all

lemma verify_run_frame:
  "verify_run dec enc hmac v xs = (v', k)
     \<Longrightarrow> fv_replay_window_ms v' = fv_replay_window_ms v \<and> fv_credentials v' = fv_credentials v"
  by (induction xs arbitrary: v k) (fastforce split: prod.splits dest: verify_payload_frame)+

lemma check_message_expired:
  assumes "check_message dec enc hmac v payload at = Inr m" "\<not> abs_diff now (fm_sent_at_ms m) \<le> fv_replay_window_ms v"
    and "fv_replay_window_ms v' = fv_replay_window_ms v" "fv_credentials v' = fv_credentials v"
  shows "check_message dec enc hmac v' payload now = Inl Expired"
  using assms unfolding check_message_Inr_iff
  by (auto simp: check_message_def decode_payload_def ok_or_def not_le)

lemma verify_payload_remembers:
  assumes "verify_payload dec enc hmac v payload now = (v', res)" "verifier_wf v" "remembers v n at k"
    and "now - at \<le> fv_replay_window_ms v" "is_ok res \<longrightarrow> Suc k < fv_capacity v"
  shows "verifier_wf v' \<and> remembers v' n at (if is_ok res then Suc k else k)
    \<and> fv_replay_window_ms v' = fv_replay_window_ms v \<and> fv_capacity v' = fv_capacity v
    \<and> fv_credentials v' = fv_credentials v"
proof -
  note wf = prune_nonces_nonces(2) [OF assms(2), of now]
  note rem = remembers_prune [OF assms(2-4)]
  show ?thesis
    using assms(1)
  proof (cases rule: verify_payload_cases)
    case refused
    with assms show ?thesis by simp
  next
    case replayed
    with wf rem show ?thesis by simp
  next
    case (accepted m r)
    with assms(5) have "Suc k < fv_capacity (prune_nonces v now)" by simp
    with accepted wf rem show ?thesis
      using remembers_remember [OF wf rem _ accepted(2)] remember_nonce_nonces(2) [OF wf accepted(2)]
      by simp
  qed
qed

lemma verify_run_remembers:
  assumes "verify_run dec enc hmac v xs = (v', j)" "verifier_wf v" "remembers v n at k"
    and "\<forall>(p, t) \<in> set xs. t - at \<le> fv_replay_window_ms v" "k + j < fv_capacity v"
  shows "verifier_wf v' \<and> remembers v' n at (k + j)
    \<and> fv_replay_window_ms v' = fv_replay_window_ms v \<and> fv_credentials v' = fv_credentials v"
  using assms
proof (induction xs arbitrary: v k j)
  case (Cons x xs)
  obtain p t where x: "x = (p, t)" by (cases x)
  obtain v1 res where v1: "verify_payload dec enc hmac v p t = (v1, res)"
    by (cases "verify_payload dec enc hmac v p t")
  obtain j1 where rest: "verify_run dec enc hmac v1 xs = (v', j1)"
    and j: "j = (if is_ok res then Suc j1 else j1)"
    using Cons.prems(1) by (auto simp: x v1 split: prod.splits)
  have 1: "verifier_wf v1 \<and> remembers v1 n at (if is_ok res then Suc k else k)
    \<and> fv_replay_window_ms v1 = fv_replay_window_ms v \<and> fv_capacity v1 = fv_capacity v
    \<and> fv_credentials v1 = fv_credentials v"
    by (rule verify_payload_remembers [OF v1]) (use Cons.prems j in \<open>auto simp: x\<close>)
  have "verifier_wf v' \<and> remembers v' n at ((if is_ok res then Suc k else k) + j1)
    \<and> fv_replay_window_ms v' = fv_replay_window_ms v1 \<and> fv_credentials v' = fv_credentials v1"
    by (rule Cons.IH [OF rest]) (use 1 Cons.prems j in auto)
  with 1 j show ?case by (auto split: if_splits)
qed simp

text \<open>
  C13. No replay while the nonce is remembered: once a message that is not dated in the future was
  accepted, presenting the same payload again is refused as expired or replayed, after any number of
  other verifications of which fewer than the capacity were accepted, as long as no clock of the run
  is ahead of the clock of the replay attempt.
\<close>

theorem replay_refused:
  assumes "verifier_wf v" "verify_payload dec enc hmac v payload at = (v1, Inr r)"
    and "dec payload = Some m" "fm_sent_at_ms m \<le> at"
    and "verify_run dec enc hmac v1 xs = (v2, k)" "k < fv_capacity v"
    and "\<forall>(p, t) \<in> set xs. t \<le> now"
  shows "snd (verify_payload dec enc hmac v2 payload now) \<in> {Inl Expired, Inl ReplayedNonce}"
proof -
  have acc: "check_message dec enc hmac v payload at = Inr m"
    and fresh: "map_of (fv_nonce_set (prune_nonces v at)) (fm_nonce m) = None"
    and v1: "v1 = remember_nonce (prune_nonces v at) (fm_nonce m) at"
    using assms(2,3) by (auto elim!: verify_payload_cases simp: check_message_Inr_iff)
  note wf = prune_nonces_nonces(2) [OF assms(1), of at]
  have wf1: "verifier_wf v1" and rem1: "remembers v1 (fm_nonce m) at 0"
    and w1: "fv_replay_window_ms v1 = fv_replay_window_ms v" "fv_capacity v1 = fv_capacity v"
      "fv_credentials v1 = fv_credentials v"
    using remember_nonce_nonces [OF wf fresh, of at] by (auto simp: v1 remembers_def)
  show ?thesis
  proof (cases "abs_diff now (fm_sent_at_ms m) \<le> fv_replay_window_ms v")
    case True
    then have window: "now - at \<le> fv_replay_window_ms v"
      using assms(4) by (auto simp: abs_diff_def split: if_splits)
    have "\<forall>(p, t) \<in> set xs. t - at \<le> fv_replay_window_ms v1"
      using assms(7) window w1 by fastforce
    then have 2: "verifier_wf v2 \<and> remembers v2 (fm_nonce m) at (0 + k)
      \<and> fv_replay_window_ms v2 = fv_replay_window_ms v1 \<and> fv_credentials v2 = fv_credentials v1"
      using assms(5,6) w1 by (intro verify_run_remembers [OF assms(5) wf1 rem1]) auto
    then have "check_message dec enc hmac v2 payload now = Inr m"
      using acc True w1 unfolding check_message_Inr_iff by auto
    moreover have "remembers (prune_nonces v2 now) (fm_nonce m) at k"
      using 2 window w1 by (intro remembers_prune) auto
    then have "map_of (fv_nonce_set (prune_nonces v2 now)) (fm_nonce m) = Some at"
      using prune_nonces_nonces(2) [of v2 now] 2 by (intro remembers_set) auto
    ultimately show ?thesis by (simp add: verify_payload_def)
  next
    case False
    then have "check_message dec enc hmac v2 payload now = Inl Expired"
      using verify_run_frame [OF assms(5)] w1 by (intro check_message_expired [OF acc]) simp_all
    then show ?thesis by (simp add: verify_payload_def)
  qed
qed

text \<open>
  The window leaves one replay open: a message dated ahead of the receiver's clock is accepted a
  second time, with nothing in between, one millisecond after its nonce has left the replay window,
  because the nonce is remembered for one window from the time of acceptance while the timestamp
  stays acceptable for one window from the later sending time.
\<close>

theorem future_dated_message_replayed:
  assumes "verifier_wf v" "verify_payload dec enc hmac v payload at = (v1, Inr r)"
    and "dec payload = Some m" "at < fm_sent_at_ms m" "\<forall>(n, t) \<in> set (fv_nonces v). t \<le> at"
  shows "snd (verify_payload dec enc hmac v1 payload (at + fv_replay_window_ms v + 1)) = Inr r"
proof -
  let ?now = "at + fv_replay_window_ms v + 1"
  have acc: "check_message dec enc hmac v payload at = Inr m"
    and fresh: "map_of (fv_nonce_set (prune_nonces v at)) (fm_nonce m) = None"
    and v1: "v1 = remember_nonce (prune_nonces v at) (fm_nonce m) at"
    using assms(2,3) by (auto elim!: verify_payload_cases simp: check_message_Inr_iff)
  have r: "r = \<lparr>vm_event = fm_event m, vm_purpose = fm_purpose m, vm_instance_id = fm_instance_id m,
      vm_nonce = fm_nonce m\<rparr>"
    using assms(2) acc fresh by (simp add: verify_payload_def)
  note wf = prune_nonces_nonces(2) [OF assms(1), of at]
  have wf1: "verifier_wf v1" and w1: "fv_replay_window_ms v1 = fv_replay_window_ms v"
    "fv_credentials v1 = fv_credentials v"
    using remember_nonce_nonces(2) [OF wf fresh] by (simp_all add: v1)
  have "set (fv_nonces v1) \<subseteq> insert (fm_nonce m, at) (set (fv_nonces v))"
    unfolding v1 remember_nonce_nonces(1) [OF wf fresh] prune_nonces_nonces(1) [OF assms(1)]
    by (auto dest!: in_set_dropD set_dropWhileD)
  then have "\<forall>(n, t) \<in> set (fv_nonces v1). fv_replay_window_ms v1 < ?now - t"
    using assms(5) w1 by fastforce
  then have "fv_nonces (prune_nonces v1 ?now) = []"
    unfolding prune_nonces_nonces(1) [OF wf1] by (auto simp: dropWhile_eq_Nil_conv)
  then have "map_of (fv_nonce_set (prune_nonces v1 ?now)) (fm_nonce m) = None"
    using prune_nonces_nonces(2) [OF wf1, of ?now] by (simp add: verifier_wf_def)
  moreover have "abs_diff at (fm_sent_at_ms m) \<le> fv_replay_window_ms v"
    using acc by (simp add: check_message_Inr_iff)
  then have "abs_diff ?now (fm_sent_at_ms m) \<le> fv_replay_window_ms v"
    using assms(4) by (auto simp: abs_diff_def split: if_splits)
  then have "check_message dec enc hmac v1 payload ?now = Inr m"
    using acc w1 unfolding check_message_Inr_iff by auto
  ultimately show ?thesis by (simp add: verify_payload_def r)
qed

text \<open>A concrete exchange: a fixed keyed hash, an encoder of one message, and its frame.\<close>

definition sample_hmac :: "byte list \<Rightarrow> byte list \<Rightarrow> byte list" where
  "sample_hmac k b = replicate 32 5"

definition sample_signed :: "session_event \<Rightarrow> nat \<Rightarrow> forwarding_message" where
  "sample_signed e sent = \<lparr>fm_version = 1, fm_instance_id = cd_instance_id sample_credentials,
     fm_nonce = hex_of_bytes (replicate 16 1), fm_sent_at_ms = sent, fm_event = e,
     fm_purpose = PurposeEvent, fm_mac = hex_of_bytes (replicate 32 5)\<rparr>"

definition sample_started :: session_event where
  "sample_started = \<lparr>ev_version = 1, ev_event_id = Ident (lit ''e1''), ev_provider = Ident (lit ''codex''),
     ev_type = SessionStarted, ev_session_id = Ident (lit ''s''), ev_turn_id = None, ev_occurred_at_ms = 5,
     ev_project = None, ev_summary = None, ev_capabilities = no_capabilities,
     ev_source_discriminator = lit ''default''\<rparr>"

lemma sample_started_ok [simp]: "event_ok sample_started"
  by (simp add: event_ok_def sample_started_def session_schema_version_def source_discriminator_ok_def
      max_source_discriminator_chars_def lit_def has_control_def is_control_def)

lemma sample_credentials_ok [simp]: "credentials_ok sample_credentials"
  by (simp add: credentials_ok_def sample_credentials_def validate_hex_encode instance_id_bytes_def secret_bytes_def)

lemma sample_check:
  assumes "event_ok e" "abs_diff now sent \<le> w"
  shows "check_message (\<lambda>_. Some (sample_signed e sent)) (\<lambda>_. Some []) sample_hmac
    (verifier_with_limits sample_credentials w k) [] now = Inr (sample_signed e sent)"
  using assms unfolding check_message_Inr_iff
  by (simp add: sample_signed_def verifier_with_limits_def sample_hmac_def sample_credentials_def
      validate_hex_encode decode_hex_encode forwarding_protocol_version_def instance_id_bytes_def
      nonce_bytes_def mac_bytes_def)

lemma sample_verify:
  assumes "abs_diff now sent \<le> w"
  shows "\<exists>v1 r. verify_payload (\<lambda>_. Some (sample_signed sample_started sent)) (\<lambda>_. Some []) sample_hmac
    (verifier_with_limits sample_credentials w k) [] now = (v1, Inr r)"
  using sample_check [OF sample_started_ok assms, of k]
  by (simp add: verify_payload_def) (simp add: verifier_with_limits_def prune_nonces_def)

theorem signed_message_accepted_witness:
  "\<exists>m v' r. sign_with_nonce sample_hmac (\<lambda>_. Some []) sample_credentials sample_started 7
        (hex_of_bytes (replicate 16 1)) PurposeEvent = Inr m
     \<and> verify_payload (\<lambda>_. Some m) (\<lambda>_. Some []) sample_hmac (verifier_new sample_credentials) [] 9 = (v', Inr r)
     \<and> vm_event r = sample_started"
proof -
  let ?v = "verifier_new sample_credentials" and ?n = "hex_of_bytes (replicate 16 1)"
  obtain m where m: "sign_with_nonce sample_hmac (\<lambda>_. Some []) sample_credentials sample_started 7 ?n PurposeEvent = Inr m"
    by (simp add: sign_with_nonce_def compute_mac_def signing_bytes_def ok_or_def validate_hex_encode nonce_bytes_def)
  have "\<exists>v' r. verify_payload (\<lambda>_. Some m) (\<lambda>_. Some []) sample_hmac ?v [] 9 = (v', Inr r)
    \<and> vm_event r = sample_started \<and> vm_purpose r = PurposeEvent
    \<and> ack_validate_for (acknowledgement r AckAccepted) m = Inr ()"
    by (rule signed_message_accepted [OF sample_credentials_ok _ m])
      (simp_all add: verifier_new_def verifier_with_limits_def sample_hmac_def mac_bytes_def
        event_validate_iff abs_diff_def default_replay_window_ms_def prune_nonces_def)
  with m show ?thesis by blast
qed

theorem accepted_message_authentic_witness:
  "\<exists>v' r. verify_payload (\<lambda>_. Some (sample_signed sample_started 7)) (\<lambda>_. Some []) sample_hmac
      (verifier_with_limits sample_credentials 10 4) [] 9 = (v', Inr r) \<and> (vm_nonce r, 9) \<in> set (fv_nonces v')"
proof -
  obtain v' r where v: "verify_payload (\<lambda>_. Some (sample_signed sample_started 7)) (\<lambda>_. Some []) sample_hmac
      (verifier_with_limits sample_credentials 10 4) [] 9 = (v', Inr r)"
    using sample_verify [of 9 7 10 4] by (auto simp: abs_diff_def)
  from accepted_message_authentic [OF verifier_new_wf v] v show ?thesis by blast
qed

definition sample_other :: forwarding_message where
  "sample_other = sample_signed sample_started 7\<lparr>fm_nonce := hex_of_bytes (replicate 16 2)\<rparr>"

definition sample_exchange :: "byte list \<Rightarrow> forwarding_message option" where
  "sample_exchange p = Some (if p = [] then sample_signed sample_started 7 else sample_other)"

lemma sample_other_check:
  assumes "abs_diff now 7 \<le> fv_replay_window_ms v" "fv_credentials v = sample_credentials"
  shows "check_message sample_exchange (\<lambda>_. Some []) sample_hmac v [1] now = Inr sample_other"
  using assms unfolding check_message_Inr_iff
  by (simp add: sample_exchange_def sample_other_def sample_signed_def sample_hmac_def sample_credentials_def
      validate_hex_encode decode_hex_encode forwarding_protocol_version_def instance_id_bytes_def
      nonce_bytes_def mac_bytes_def max_forwarding_frame_bytes_def)

lemma sample_first:
  "verify_payload sample_exchange (\<lambda>_. Some []) sample_hmac (verifier_with_limits sample_credentials 10 4) [] 9
    = (remember_nonce (verifier_with_limits sample_credentials 10 4) (hex_of_bytes (replicate 16 1)) 9,
       Inr \<lparr>vm_event = sample_started, vm_purpose = PurposeEvent, vm_instance_id = cd_instance_id sample_credentials,
         vm_nonce = hex_of_bytes (replicate 16 1)\<rparr>)"
proof -
  let ?v = "verifier_with_limits sample_credentials 10 4"
  have "check_message sample_exchange (\<lambda>_. Some []) sample_hmac ?v [] 9 = Inr (sample_signed sample_started 7)"
    using sample_check [OF sample_started_ok, of 9 7 10 4]
    by (simp add: check_message_def decode_payload_def sample_exchange_def abs_diff_def)
  moreover have "prune_nonces ?v 9 = ?v" "fv_nonce_set ?v = []"
    by (simp_all add: verifier_with_limits_def prune_nonces_def)
  ultimately show ?thesis by (simp add: verify_payload_def sample_signed_def)
qed

lemma sample_second:
  "\<exists>v2. verify_run sample_exchange (\<lambda>_. Some []) sample_hmac
     (remember_nonce (verifier_with_limits sample_credentials 10 4) (hex_of_bytes (replicate 16 1)) 9) [([1], 10)] = (v2, 1)"
proof -
  let ?v1 = "remember_nonce (verifier_with_limits sample_credentials 10 4) (hex_of_bytes (replicate 16 1)) 9"
  have "check_message sample_exchange (\<lambda>_. Some []) sample_hmac ?v1 [1] 10 = Inr sample_other"
    by (rule sample_other_check) (simp_all add: abs_diff_def remember_nonce_def verifier_with_limits_def)
  moreover have "hex_of_bytes (replicate 16 1) \<noteq> hex_of_bytes (replicate 16 2)" by code_simp
  then have "map_of (fv_nonce_set (prune_nonces ?v1 10)) (fm_nonce sample_other) = None"
    by (simp add: remember_nonce_def verifier_with_limits_def prune_nonces_def sample_other_def)
  ultimately show ?thesis by (simp add: verify_payload_def Let_def)
qed

theorem replay_refused_witness:
  "\<exists>v1 r v2. verify_payload sample_exchange (\<lambda>_. Some []) sample_hmac
      (verifier_with_limits sample_credentials 10 4) [] 9 = (v1, Inr r)
    \<and> verify_run sample_exchange (\<lambda>_. Some []) sample_hmac v1 [([1], 10)] = (v2, 1)
    \<and> snd (verify_payload sample_exchange (\<lambda>_. Some []) sample_hmac v2 [] 12) \<in> {Inl Expired, Inl ReplayedNonce}"
proof -
  obtain v2 where run: "verify_run sample_exchange (\<lambda>_. Some []) sample_hmac
      (remember_nonce (verifier_with_limits sample_credentials 10 4) (hex_of_bytes (replicate 16 1)) 9) [([1], 10)] = (v2, 1)"
    using sample_second by blast
  have "snd (verify_payload sample_exchange (\<lambda>_. Some []) sample_hmac v2 [] 12) \<in> {Inl Expired, Inl ReplayedNonce}"
    by (rule replay_refused [OF verifier_new_wf sample_first _ _ run, where m = "sample_signed sample_started 7"])
      (simp_all add: sample_exchange_def sample_signed_def verifier_with_limits_def)
  with run sample_first show ?thesis by blast
qed

theorem future_dated_message_replayed_witness:
  "\<exists>v1 r. verify_payload (\<lambda>_. Some (sample_signed sample_started 60000)) (\<lambda>_. Some []) sample_hmac
      (verifier_new sample_credentials) [] 0 = (v1, Inr r)
    \<and> snd (verify_payload (\<lambda>_. Some (sample_signed sample_started 60000)) (\<lambda>_. Some []) sample_hmac v1 [] 60001) = Inr r"
proof -
  let ?dec = "\<lambda>_. Some (sample_signed sample_started 60000)" and ?enc = "\<lambda>_. Some []"
  let ?v = "verifier_with_limits sample_credentials 60000 4096"
  obtain v1 r where v: "verify_payload ?dec ?enc sample_hmac ?v [] 0 = (v1, Inr r)"
    using sample_verify [of 0 60000 60000 4096] by (auto simp: abs_diff_def)
  have "snd (verify_payload ?dec ?enc sample_hmac v1 [] (0 + fv_replay_window_ms ?v + 1)) = Inr r"
    by (rule future_dated_message_replayed [OF verifier_new_wf v refl])
      (simp_all add: sample_signed_def verifier_with_limits_def)
  with v show ?thesis
    by (auto simp: verifier_new_def verifier_with_limits_def default_replay_window_ms_def default_nonce_capacity_def)
qed

section \<open>What is signed\<close>

lemma delimited_head:
  assumes "delimited (f # fs) = delimited (g # gs)" "length f < 2 ^ 64" "length g < 2 ^ 64"
  shows "f = g"
proof -
  have be: "be_bytes 8 (length f) = be_bytes 8 (length g)"
    and rest: "f @ delimited fs = g @ delimited gs"
    using assms(1) by (simp_all add: append_eq_append_conv)
  have "length f < 256 ^ 8" "length g < 256 ^ 8" using assms(2,3) by simp_all
  with be_bytes_inject [OF be] have "length f = length g" by simp
  with rest show ?thesis by (simp add: append_eq_append_conv)
qed

lemma domains_differ: "signature_domain \<noteq> evidence_signature_domain"
  by (simp add: signature_domain_def evidence_signature_domain_def lit_def utf8_bytes_def utf8_code_def)

text \<open>
  Signatures cannot be moved: the signed bytes of an event message determine its fields, the
  signed bytes of evidence determine its domain and payload, and no event message has the signed
  bytes of any evidence, so an authentication code made for one is never valid for another.
\<close>

theorem signing_inputs_separate:
  assumes "\<And>m m' p. enc m = Some p \<Longrightarrow> enc m' = Some p \<Longrightarrow> m = m'"
    and "\<And>m p. enc m = Some p \<Longrightarrow> length p < 2 ^ 64"
    and "valid_text d" "valid_text d'" "\<not> evidence_malformed d p" "\<not> evidence_malformed d' p'"
  shows "(signing_bytes enc m = Inr b \<and> signing_bytes enc m' = Inr b \<longrightarrow> m = m')
    \<and> (evidence_signing_bytes d p = evidence_signing_bytes d' p' \<longrightarrow> d = d' \<and> p = p')
    \<and> signing_bytes enc m \<noteq> Inr (evidence_signing_bytes d p)"
proof (intro conjI impI)
  have dom: "length signature_domain < 2 ^ 64" "length evidence_signature_domain < 2 ^ 64"
    by (simp_all add: signature_domain_def evidence_signature_domain_def lit_def length_utf8_bytes
        byte_len_def utf8_width_def)
  have ev: "length (utf8_bytes d) < 2 ^ 64" "length (utf8_bytes d') < 2 ^ 64"
    "length p < 2 ^ 64" "length p' < 2 ^ 64"
    using assms(5,6) by (simp_all add: evidence_malformed_def length_utf8_bytes max_forwarding_frame_bytes_def)
  show "m = m'" if both: "signing_bytes enc m = Inr b \<and> signing_bytes enc m' = Inr b"
  proof -
    obtain q q' where q: "enc m = Some q" "enc m' = Some q'"
      "delimited [signature_domain, q] = delimited [signature_domain, q']"
      using both by (auto simp: signing_bytes_def rbind_Inr_iff simp del: delimited_simps)
    have "[signature_domain, q] = [signature_domain, q']"
      using q dom assms(2) by (intro delimited_inject) auto
    with q assms(1) show ?thesis by auto
  qed
  assume e: "evidence_signing_bytes d p = evidence_signing_bytes d' p'"
  have "[evidence_signature_domain, utf8_bytes d, p] = [evidence_signature_domain, utf8_bytes d', p']"
    using e dom ev by (intro delimited_inject) (auto simp: evidence_signing_bytes_def simp del: delimited_simps)
  with assms(3,4) show "d = d'" "p = p'" by (auto intro: utf8_bytes_inject)
next
  show "signing_bytes enc m \<noteq> Inr (evidence_signing_bytes d p)"
  proof
    assume "signing_bytes enc m = Inr (evidence_signing_bytes d p)"
    then obtain q where "delimited [signature_domain, q] = delimited [evidence_signature_domain, utf8_bytes d, p]"
      by (auto simp: signing_bytes_def rbind_Inr_iff evidence_signing_bytes_def simp del: delimited_simps)
    then have "signature_domain = evidence_signature_domain"
      by (rule delimited_head) (simp_all add: signature_domain_def evidence_signature_domain_def lit_def
          length_utf8_bytes byte_len_def utf8_width_def)
    with domains_differ show False by blast
  qed
qed

theorem signing_inputs_separate_witness:
  "\<forall>m. signing_bytes (\<lambda>m. if m = unsigned_of (sample_signed sample_started 7) then Some [1] else None) m
     \<noteq> Inr (evidence_signing_bytes (lit ''plugin'') [2])"
proof
  fix m :: unsigned_message
  let ?enc = "\<lambda>m. if m = unsigned_of (sample_signed sample_started 7) then Some [1 :: byte] else None"
  have tx: "valid_text (lit ''plugin'')" by (simp add: valid_text_def lit_def)
  have ok: "\<not> evidence_malformed (lit ''plugin'') [2]"
    by (simp add: evidence_malformed_def lit_def byte_len_def utf8_width_def has_control_def is_control_def
        max_forwarding_frame_bytes_def)
  show "signing_bytes ?enc m \<noteq> Inr (evidence_signing_bytes (lit ''plugin'') [2])"
    by (rule signing_inputs_separate [THEN conjunct2, THEN conjunct2])
      (use tx ok in \<open>auto split: if_splits\<close>)
qed

end
