(* ===== verification/Storage.thy ===== *)
theory Storage
  imports Session_Types "HOL-Library.Multiset"
begin

text \<open>
  \<^verbatim>\<open>lili-storage\<close>: the rows of \<^verbatim>\<open>models.rs\<close>, the queries of \<^verbatim>\<open>repository.rs\<close> and the three retention
  triggers of the migration they run under. A table is the list of its rows in rowid order. What
  SQLite leaves open is an argument, the record \<open>engine\<close>: the order in which a query meets rows that
  its \<^verbatim>\<open>ORDER BY\<close> does not separate, and the order in which the triggers of one table fire. Busy and
  I/O failures of the database are not modelled.
\<close>

section \<open>JSON documents\<close>

definition max_json_document_bytes :: nat where "max_json_document_bytes = 64 * 1024"

datatype json_document_error = JsonMalformed | JsonTooLarge

text \<open>\<open>json_ok\<close> is \<^verbatim>\<open>serde_json::from_str::<Value>\<close> succeeding.\<close>

definition json_document_parse :: "(rstr \<Rightarrow> bool) \<Rightarrow> rstr \<Rightarrow> json_document_error + rstr" where
  "json_document_parse json_ok v =
     (if max_json_document_bytes < byte_len v then Inl JsonTooLarge
      else if \<not> json_ok v then Inl JsonMalformed else Inr v)"

section \<open>Rows\<close>

datatype row_status = RowPending | RowClaimed

record app_state_row =
  ar_selected_pet_id :: "rstr option"
  ar_window_placement :: "rstr option"
  ar_reducer_revision :: int
  ar_reducer_json :: "rstr option"
  ar_expired_drops :: int
  ar_limit_drops :: int
  ar_malformed_drops :: int

record spool_row =
  sp_provider :: rstr
  sp_event_id :: rstr
  sp_payload :: rstr
  sp_priority :: int
  sp_occurred_at_ms :: int
  sp_inserted_at_ms :: int
  sp_status :: row_status
  sp_claim_token :: "rstr option"
  sp_claimed_at_ms :: "int option"
  sp_lease_expires_at_ms :: "int option"
  sp_attempts :: int

record evidence_row =
  er_evidence :: rstr
  er_updated_at_ms :: int

record database =
  db_app :: app_state_row
  db_spool :: "spool_row list"
  db_evidence :: "evidence_row option"

definition empty_app_state :: app_state_row where
  "empty_app_state = \<lparr>ar_selected_pet_id = None, ar_window_placement = None, ar_reducer_revision = 0,
     ar_reducer_json = None, ar_expired_drops = 0, ar_limit_drops = 0, ar_malformed_drops = 0\<rparr>"

definition empty_database :: database where
  "empty_database = \<lparr>db_app = empty_app_state, db_spool = [], db_evidence = None\<rparr>"

type_synonym row_key = "rstr \<times> rstr"

definition row_key :: "spool_row \<Rightarrow> row_key" where
  "row_key r = (sp_provider r, sp_event_id r)"

definition row_bytes :: "spool_row \<Rightarrow> nat" where
  "row_bytes r = byte_len (sp_payload r)"

definition is_pending :: "spool_row \<Rightarrow> bool" where
  "is_pending r \<longleftrightarrow> sp_status r = RowPending"

datatype query_error = NotFound

section \<open>What SQLite leaves open\<close>

datatype retention_trigger = ExpiredRetention | CountRetention | BytesRetention

record engine =
  en_scan :: "spool_row list \<Rightarrow> spool_row list"
  en_triggers :: "retention_trigger list"

text \<open>The documented part: a scan meets every row once, every trigger fires once.\<close>

definition engine_ok :: "engine \<Rightarrow> bool" where
  "engine_ok en \<longleftrightarrow> (\<forall>rs. mset (en_scan en rs) = mset rs)
     \<and> mset (en_triggers en) = {#ExpiredRetention, CountRetention, BytesRetention#}"

definition order_by :: "engine \<Rightarrow> (spool_row \<Rightarrow> 'k::linorder) \<Rightarrow> spool_row list \<Rightarrow> spool_row list" where
  "order_by en f rs = sort_key f (en_scan en rs)"

text \<open>\<^verbatim>\<open>ORDER BY priority ASC, inserted_at_ms ASC\<close>, and the claim order.\<close>

definition drop_key :: "spool_row \<Rightarrow> int \<times> int" where
  "drop_key r = (sp_priority r, sp_inserted_at_ms r)"

definition claim_key :: "spool_row \<Rightarrow> int \<times> int" where
  "claim_key r = (- sp_priority r, sp_inserted_at_ms r)"

section \<open>Application state\<close>

definition load_app_state :: "database \<Rightarrow> app_state_row" where
  "load_app_state db = db_app db"

definition update_app_state :: "app_state_row \<Rightarrow> database \<Rightarrow> app_state_row \<times> database" where
  "update_app_state v db =
     (let db' = db\<lparr>db_app := (db_app db)\<lparr>ar_selected_pet_id := ar_selected_pet_id v,
            ar_window_placement := ar_window_placement v, ar_reducer_revision := ar_reducer_revision v,
            ar_reducer_json := ar_reducer_json v\<rparr>\<rparr>
      in (load_app_state db', db'))"

text \<open>An SQL comparison with a null operand is not true.\<close>

definition sql_eq :: "'a option \<Rightarrow> 'a option \<Rightarrow> bool" where
  "sql_eq a b \<longleftrightarrow> a \<noteq> None \<and> a = b"

definition update_app_state_if_newer :: "int \<Rightarrow> rstr option \<Rightarrow> database \<Rightarrow> bool \<times> database" where
  "update_app_state_if_newer revision json db =
     (if ar_reducer_revision (db_app db) < revision
         \<or> (ar_reducer_revision (db_app db) = revision
            \<and> (sql_eq (ar_reducer_json (db_app db)) json \<or> ar_reducer_json (db_app db) = None))
      then (True, db\<lparr>db_app := (db_app db)\<lparr>ar_reducer_revision := revision, ar_reducer_json := json\<rparr>\<rparr>)
      else (False, db))"

definition update_selected_pet :: "rstr option \<Rightarrow> database \<Rightarrow> database" where
  "update_selected_pet v db = db\<lparr>db_app := (db_app db)\<lparr>ar_selected_pet_id := v\<rparr>\<rparr>"

definition update_window_placement :: "rstr option \<Rightarrow> database \<Rightarrow> database" where
  "update_window_placement v db = db\<lparr>db_app := (db_app db)\<lparr>ar_window_placement := v\<rparr>\<rparr>"

definition increment_spool_metrics :: "int \<Rightarrow> int \<Rightarrow> int \<Rightarrow> database \<Rightarrow> database" where
  "increment_spool_metrics e l m db = db\<lparr>db_app := (db_app db)\<lparr>
     ar_expired_drops := ar_expired_drops (db_app db) + e,
     ar_limit_drops := ar_limit_drops (db_app db) + l,
     ar_malformed_drops := ar_malformed_drops (db_app db) + m\<rparr>\<rparr>"

section \<open>Retention triggers\<close>

definition delete_rows :: "(spool_row \<Rightarrow> bool) \<Rightarrow> database \<Rightarrow> database \<times> nat" where
  "delete_rows p db = (db\<lparr>db_spool := filter (\<lambda>r. \<not> p r) (db_spool db)\<rparr>, length (filter p (db_spool db)))"

definition hard_max_age_ms :: int where "hard_max_age_ms = 86400000"
definition hard_max_count :: nat where "hard_max_count = 256"
definition hard_max_bytes :: nat where "hard_max_bytes = 4194304"

definition expired_retention :: "spool_row \<Rightarrow> database \<Rightarrow> database" where
  "expired_retention new db =
     (let old = (\<lambda>r. is_pending r \<and> sp_inserted_at_ms r < sp_inserted_at_ms new - hard_max_age_ms) in
      if list_ex old (db_spool db)
      then let (db', n) = delete_rows old db in increment_spool_metrics (int n) 0 0 db'
      else db)"

definition count_retention :: "engine \<Rightarrow> database \<Rightarrow> database" where
  "count_retention en db =
     (if hard_max_count < length (db_spool db)
      then let victims = take (length (db_spool db) - hard_max_count)
                           (order_by en drop_key (filter is_pending (db_spool db)));
               (db', n) = delete_rows (\<lambda>r. row_key r \<in> set (map row_key victims)) db
           in increment_spool_metrics 0 (int n) 0 db'
      else db)"

definition total_bytes :: "spool_row list \<Rightarrow> nat" where
  "total_bytes rs = sum_list (map row_bytes rs)"

text \<open>
  The window query: rows of the ordered pending list whose preceding rows, removed, would still leave
  the total above the limit. \<open>seen\<close> is \<^verbatim>\<open>cumulative_pending_bytes - payload_bytes\<close>.
\<close>

fun window_victims :: "nat \<Rightarrow> nat \<Rightarrow> nat \<Rightarrow> spool_row list \<Rightarrow> spool_row list" where
  "window_victims limit tot seen [] = []"
| "window_victims limit tot seen (r # rs) =
     (if int limit < int tot - int seen then r # window_victims limit tot (seen + row_bytes r) rs
      else window_victims limit tot (seen + row_bytes r) rs)"

definition bytes_retention :: "database \<Rightarrow> database" where
  "bytes_retention db =
     (let total = total_bytes (db_spool db) in
      if hard_max_bytes < total
      then let victims = window_victims hard_max_bytes total 0
                           (sort_key drop_key (filter is_pending (db_spool db)));
               (db', n) = delete_rows (\<lambda>r. row_key r \<in> set (map row_key victims)) db
           in increment_spool_metrics 0 (int n) 0 db'
      else db)"

fun fire_trigger :: "engine \<Rightarrow> spool_row \<Rightarrow> retention_trigger \<Rightarrow> database \<Rightarrow> database" where
  "fire_trigger en new ExpiredRetention db = expired_retention new db"
| "fire_trigger en new CountRetention db = count_retention en db"
| "fire_trigger en new BytesRetention db = bytes_retention db"

section \<open>Spool queries\<close>

definition find_row :: "row_key \<Rightarrow> database \<Rightarrow> spool_row option" where
  "find_row k db = find (\<lambda>r. row_key r = k) (db_spool db)"

text \<open>\<^verbatim>\<open>INSERT ... ON CONFLICT DO NOTHING\<close>: the triggers fire when a row was inserted.\<close>

definition insert_row :: "engine \<Rightarrow> spool_row \<Rightarrow> database \<Rightarrow> database" where
  "insert_row en new db =
     (if find_row (row_key new) db \<noteq> None then db
      else fold (fire_trigger en new) (en_triggers en) (db\<lparr>db_spool := db_spool db @ [new]\<rparr>))"

definition insert_inbound_spool :: "engine \<Rightarrow> spool_row \<Rightarrow> database \<Rightarrow> query_error + (spool_row \<times> database)" where
  "insert_inbound_spool en new db =
     (let db' = insert_row en new db in
      case find_row (row_key new) db' of None \<Rightarrow> Inl NotFound | Some r \<Rightarrow> Inr (r, db'))"

definition delete_expired_pending :: "int \<Rightarrow> database \<Rightarrow> database \<times> nat" where
  "delete_expired_pending cutoff db = delete_rows (\<lambda>r. is_pending r \<and> sp_inserted_at_ms r < cutoff) db"

definition insert_inbound_spool_if_retained ::
  "engine \<Rightarrow> spool_row \<Rightarrow> int \<Rightarrow> database \<Rightarrow> spool_row option \<times> database" where
  "insert_inbound_spool_if_retained en new cutoff db =
     (let (db1, expired) = delete_expired_pending cutoff db;
          db2 = (if 0 < expired then increment_spool_metrics (int expired) 0 0 db1 else db1);
          db3 = insert_row en new db2
      in (find_row (row_key new) db3, db3))"

definition list_inbound_spool :: "engine \<Rightarrow> database \<Rightarrow> spool_row list" where
  "list_inbound_spool en db = order_by en drop_key (db_spool db)"

definition make_pending :: "spool_row \<Rightarrow> spool_row" where
  "make_pending r = r\<lparr>sp_status := RowPending, sp_claim_token := None, sp_claimed_at_ms := None,
     sp_lease_expires_at_ms := None\<rparr>"

definition update_rows :: "(spool_row \<Rightarrow> bool) \<Rightarrow> (spool_row \<Rightarrow> spool_row) \<Rightarrow> database \<Rightarrow> database \<times> nat" where
  "update_rows p f db = (db\<lparr>db_spool := map (\<lambda>r. if p r then f r else r) (db_spool db)\<rparr>,
     length (filter p (db_spool db)))"

definition recover_expired_claims :: "int \<Rightarrow> database \<Rightarrow> database \<times> nat" where
  "recover_expired_claims now db = update_rows (\<lambda>r. sp_status r = RowClaimed
     \<and> (case sp_lease_expires_at_ms r of None \<Rightarrow> False | Some t \<Rightarrow> t \<le> now)) make_pending db"

definition claim_row :: "int \<Rightarrow> int \<Rightarrow> rstr \<Rightarrow> spool_row \<Rightarrow> spool_row" where
  "claim_row now lease token r = r\<lparr>sp_status := RowClaimed, sp_claim_token := Some token,
     sp_claimed_at_ms := Some now, sp_lease_expires_at_ms := Some (sat_add_i64 now lease),
     sp_attempts := sp_attempts r + 1\<rparr>"

definition claim_inbound_spool ::
  "engine \<Rightarrow> int \<Rightarrow> int \<Rightarrow> rstr \<Rightarrow> database \<Rightarrow> spool_row option \<times> database" where
  "claim_inbound_spool en now lease token db =
     (case order_by en claim_key (filter is_pending (db_spool db)) of
        [] \<Rightarrow> (None, db)
      | candidate # rest \<Rightarrow>
          let (db', updated) = update_rows (\<lambda>r. row_key r = row_key candidate \<and> is_pending r)
                (claim_row now lease token) db
          in if updated \<noteq> 1 then (None, db') else (find_row (row_key candidate) db', db'))"

definition claimed_by :: "row_key \<Rightarrow> rstr \<Rightarrow> spool_row \<Rightarrow> bool" where
  "claimed_by k token r \<longleftrightarrow> row_key r = k \<and> sp_status r = RowClaimed \<and> sp_claim_token r = Some token"

definition delete_claimed :: "row_key \<Rightarrow> rstr \<Rightarrow> database \<Rightarrow> bool \<times> database" where
  "delete_claimed k token db = (let (db', n) = delete_rows (claimed_by k token) db in (n = 1, db'))"

definition release_claimed :: "row_key \<Rightarrow> rstr \<Rightarrow> database \<Rightarrow> bool \<times> database" where
  "release_claimed k token db = (let (db', n) = update_rows (claimed_by k token) make_pending db in (n = 1, db'))"

definition delete_inbound_spool :: "row_key \<Rightarrow> database \<Rightarrow> bool \<times> database" where
  "delete_inbound_spool k db = (let (db', n) = delete_rows (\<lambda>r. row_key r = k) db in (n = 1, db'))"

section \<open>Plugin evidence\<close>

definition load_plugin_evidence :: "database \<Rightarrow> evidence_row option" where
  "load_plugin_evidence db = db_evidence db"

definition save_plugin_evidence :: "evidence_row \<Rightarrow> database \<Rightarrow> evidence_row \<times> database" where
  "save_plugin_evidence v db = (v, db\<lparr>db_evidence := Some v\<rparr>)"

end
