(* ===== verification/Spool.thy ===== *)
theory Spool
  imports Storage
begin

text \<open>
  The durable event spool: the limits, priorities and record format of \<^verbatim>\<open>lili-session/src/spool.rs\<close>
  and the store of \<^verbatim>\<open>lili-session/src/sqlite_spool.rs\<close> over the repository. JSON encoding and
  decoding of an event (\<open>enc\<close>, \<open>dec\<close>) and the fresh claim tokens (\<open>tokens\<close>, the UUIDs drawn by one
  call) are arguments.
\<close>

section \<open>Limits and priorities\<close>

record spool_limits =
  sl_max_count :: nat
  sl_max_bytes :: nat
  sl_max_age_ms :: nat

definition spool_hard_max_age_ms :: nat where "spool_hard_max_age_ms = 24 * 60 * 60 * 1000"
definition spool_hard_max_bytes :: nat where "spool_hard_max_bytes = 4 * 1024 * 1024"
definition spool_hard_max_count :: nat where "spool_hard_max_count = 256"
definition max_spool_record_bytes :: nat where "max_spool_record_bytes = 64 * 1024"
definition spool_version :: nat where "spool_version = 1"

definition within_hard_bounds :: "spool_limits \<Rightarrow> bool" where
  "within_hard_bounds l \<longleftrightarrow> 0 < sl_max_count l \<and> sl_max_count l \<le> spool_hard_max_count
     \<and> 0 < sl_max_bytes l \<and> sl_max_bytes l \<le> spool_hard_max_bytes
     \<and> 0 < sl_max_age_ms l \<and> sl_max_age_ms l \<le> spool_hard_max_age_ms"

definition default_limits :: spool_limits where
  "default_limits = \<lparr>sl_max_count = spool_hard_max_count, sl_max_bytes = spool_hard_max_bytes,
     sl_max_age_ms = spool_hard_max_age_ms\<rparr>"

datatype spool_outcome = Stored | DroppedByLimit

datatype spool_error =
    SpoolIo
  | SpoolDatabase query_error
  | SpoolUnsafePath
  | SpoolWrongOwner
  | SpoolBusy
  | SpoolInvalidLimits
  | SpoolRecordTooLarge
  | SpoolMalformedRecord
  | SpoolInvalidEvent
  | SpoolMalformedMetrics
  | SpoolUnsupportedVersion nat
  | SpoolRandomness

record spool_metrics =
  sm_expired_drops :: nat
  sm_limit_drops :: nat
  sm_malformed_drops :: nat

definition validate_limits :: "spool_limits \<Rightarrow> spool_error + unit" where
  "validate_limits l = (if \<not> within_hard_bounds l then Inl SpoolInvalidLimits else Inr ())"

definition event_priority :: "session_event_kind \<Rightarrow> nat" where
  "event_priority k = (case k of
     AttentionRequired \<Rightarrow> 3
   | TurnFailed \<Rightarrow> 2
   | SessionStarted \<Rightarrow> 1 | TurnStarted \<Rightarrow> 1 | AttentionResolved \<Rightarrow> 1
   | TurnCompleted \<Rightarrow> 0 | SessionEnded \<Rightarrow> 0)"

text \<open>The record of the file spool and its decoder.\<close>

record spool_record =
  spr_version :: nat
  spr_enqueued_at_ms :: nat
  spr_event :: session_event

definition decode_spool_record_inner ::
  "(byte list \<Rightarrow> spool_record option) \<Rightarrow> byte list \<Rightarrow> spool_error + spool_record" where
  "decode_spool_record_inner dec payload =
     (if max_spool_record_bytes < length payload then Inl SpoolRecordTooLarge
      else rbind (ok_or SpoolMalformedRecord (dec payload)) (\<lambda>r.
        if spr_version r \<noteq> spool_version then Inl (SpoolUnsupportedVersion (spr_version r))
        else rbind (map_err (\<lambda>_. SpoolInvalidEvent) (event_validate (spr_event r))) (\<lambda>_. Inr r)))"

definition decode_spool_record ::
  "(byte list \<Rightarrow> spool_record option) \<Rightarrow> byte list \<Rightarrow> spool_error + (nat \<times> session_event)" where
  "decode_spool_record dec payload = rbind (decode_spool_record_inner dec payload)
     (\<lambda>r. Inr (spr_enqueued_at_ms r, spr_event r))"

section \<open>Retention by the store\<close>

definition claim_lease_ms :: int where "claim_lease_ms = 30000"

record retention_delta =
  rdl_expired_drops :: int
  rdl_limit_drops :: int
  rdl_malformed_drops :: int

definition no_delta :: retention_delta where
  "no_delta = \<lparr>rdl_expired_drops = 0, rdl_limit_drops = 0, rdl_malformed_drops = 0\<rparr>"

definition record_retention_delta :: "retention_delta \<Rightarrow> database \<Rightarrow> database" where
  "record_retention_delta d db =
     (if d \<noteq> no_delta
      then increment_spool_metrics (rdl_expired_drops d) (rdl_limit_drops d) (rdl_malformed_drops d) db
      else db)"

definition delete_all_rows :: "spool_row list \<Rightarrow> database \<Rightarrow> database" where
  "delete_all_rows rs db = fold (\<lambda>r db. snd (delete_inbound_spool (row_key r) db)) rs db"

text \<open>The loop that drops the first pending row while a limit is exceeded: the rows it drops.\<close>

fun limit_victims :: "spool_limits \<Rightarrow> nat \<Rightarrow> nat \<Rightarrow> spool_row list \<Rightarrow> spool_row list" where
  "limit_victims l n b [] = []"
| "limit_victims l n b (r # rs) =
     (if sl_max_count l < n \<or> sl_max_bytes l < b
      then r # limit_victims l (n - 1) (b - row_bytes r) rs else [])"

definition row_expired :: "spool_limits \<Rightarrow> int \<Rightarrow> spool_row \<Rightarrow> bool" where
  "row_expired l now r \<longleftrightarrow> is_pending r \<and> i64_of_u64 (sl_max_age_ms l) < sat_sub_i64 now (sp_inserted_at_ms r)"

definition enforce_limits :: "engine \<Rightarrow> spool_limits \<Rightarrow> int \<Rightarrow> database \<Rightarrow> database \<times> retention_delta" where
  "enforce_limits en l now db =
     (let records = list_inbound_spool en db;
          expired = filter (row_expired l now) records;
          db1 = delete_all_rows expired db;
          retained = filter (\<lambda>r. \<not> row_expired l now r) records;
          pending = sort_key drop_key (filter is_pending retained);
          victims = limit_victims l (length retained) (total_bytes retained) pending;
          db2 = delete_all_rows victims db1
      in (db2, \<lparr>rdl_expired_drops = int (length expired), rdl_limit_drops = int (length victims),
                rdl_malformed_drops = 0\<rparr>))"

definition enforce_and_record :: "engine \<Rightarrow> spool_limits \<Rightarrow> int \<Rightarrow> database \<Rightarrow> database" where
  "enforce_and_record en l now db =
     (let (db', d) = enforce_limits en l now db in record_retention_delta d db')"

section \<open>The store\<close>

record spool_store =
  ss_limits :: spool_limits
  ss_hook :: bool

definition store_for_application :: spool_store where
  "store_for_application = \<lparr>ss_limits = default_limits, ss_hook = False\<rparr>"

definition store_for_hook :: spool_store where
  "store_for_hook = \<lparr>ss_limits = default_limits, ss_hook = True\<rparr>"

definition new_spool_row :: "session_event \<Rightarrow> rstr \<Rightarrow> int \<Rightarrow> spool_row" where
  "new_spool_row e payload enqueued = \<lparr>sp_provider = ident_str (ev_provider e),
     sp_event_id = ident_str (ev_event_id e), sp_payload = payload,
     sp_priority = int (event_priority (ev_type e)),
     sp_occurred_at_ms = i64_of_u64 (ev_occurred_at_ms e), sp_inserted_at_ms = enqueued,
     sp_status = RowPending, sp_claim_token = None, sp_claimed_at_ms = None,
     sp_lease_expires_at_ms = None, sp_attempts = 0\<rparr>"

text \<open>The two transactions of the desktop store, the one of the Hook store.\<close>

definition store_row :: "engine \<Rightarrow> spool_store \<Rightarrow> spool_row \<Rightarrow> int \<Rightarrow> database \<Rightarrow> query_error + (bool \<times> database)" where
  "store_row en st row enqueued db =
     (if ss_hook st
      then let cutoff = sat_sub_i64 enqueued (i64_of_u64 spool_hard_max_age_ms);
               (found, db') = insert_inbound_spool_if_retained en row cutoff db
           in Inr (found \<noteq> None, db')
      else case insert_inbound_spool en row db of
          Inl e \<Rightarrow> Inl e
        | Inr (r, db1) \<Rightarrow>
            let db2 = enforce_and_record en (ss_limits st) enqueued db1
            in Inr (find_row (row_key row) db2 \<noteq> None, db2))"

definition enqueue :: "engine \<Rightarrow> (session_event \<Rightarrow> rstr option) \<Rightarrow> (rstr \<Rightarrow> bool) \<Rightarrow> spool_store \<Rightarrow> session_event
    \<Rightarrow> nat \<Rightarrow> database \<Rightarrow> spool_error + (spool_outcome \<times> database)" where
  "enqueue en enc json_ok st e at db =
     rbind (validate_limits (ss_limits st)) (\<lambda>_.
     rbind (map_err (\<lambda>_. SpoolInvalidEvent) (event_validate e)) (\<lambda>_.
     rbind (ok_or SpoolMalformedRecord (enc e)) (\<lambda>text.
     rbind (map_err (\<lambda>_. SpoolMalformedRecord) (json_document_parse json_ok text)) (\<lambda>payload.
       if max_spool_record_bytes < byte_len payload then Inl SpoolRecordTooLarge
       else let enqueued = i64_of_u64 at in
         rbind (map_err SpoolDatabase (store_row en st (new_spool_row e payload enqueued) enqueued db))
           (\<lambda>(retained, db'). Inr (if retained then Stored else DroppedByLimit, db'))))))"

definition recover_claims :: "nat \<Rightarrow> database \<Rightarrow> database \<times> nat" where
  "recover_claims now db = recover_expired_claims (i64_of_u64 now) db"

record claimed_record =
  cl_key :: row_key
  cl_token :: rstr
  cl_event :: session_event

definition decode_valid :: "(rstr \<Rightarrow> session_event option) \<Rightarrow> rstr \<Rightarrow> session_event option" where
  "decode_valid dec payload = (case dec payload of None \<Rightarrow> None
     | Some e \<Rightarrow> if event_validate e = Inr () then Some e else None)"

text \<open>The transaction that discards a malformed record.\<close>

definition drop_malformed :: "row_key \<Rightarrow> rstr \<Rightarrow> database \<Rightarrow> database" where
  "drop_malformed k token db = increment_spool_metrics 0 0 1 (snd (delete_claimed k token db))"

definition pending_count :: "database \<Rightarrow> nat" where
  "pending_count db = length (filter is_pending (db_spool db))"

lemma find_row_Some: "find_row k db = Some r \<Longrightarrow> r \<in> set (db_spool db) \<and> row_key r = k"
  by (auto simp: find_row_def find_Some_iff)

lemma pending_update:
  assumes "\<And>r. p r \<Longrightarrow> is_pending r \<and> \<not> is_pending (f r)"
  shows "length (filter is_pending (map (\<lambda>r. if p r then f r else r) rs)) + length (filter p rs)
    = length (filter is_pending rs)"
  using assms by (induction rs) auto

lemma claim_inbound_Some:
  assumes "claim_inbound_spool en now lease token db = (Some r, db')"
  obtains c rest where "order_by en claim_key (filter is_pending (db_spool db)) = c # rest"
    "db' = db\<lparr>db_spool := map (\<lambda>r. if row_key r = row_key c \<and> is_pending r
       then claim_row now lease token r else r) (db_spool db)\<rparr>"
    "length (filter (\<lambda>r. row_key r = row_key c \<and> is_pending r) (db_spool db)) = 1"
    "find_row (row_key c) db' = Some r"
proof (cases "order_by en claim_key (filter is_pending (db_spool db))")
  case Nil
  with assms show ?thesis by (simp add: claim_inbound_spool_def)
next
  case (Cons c rest)
  have "length (filter (\<lambda>r. row_key r = row_key c \<and> is_pending r) (db_spool db)) = 1
    \<and> db' = db\<lparr>db_spool := map (\<lambda>r. if row_key r = row_key c \<and> is_pending r
         then claim_row now lease token r else r) (db_spool db)\<rparr>
    \<and> find_row (row_key c) db' = Some r"
    using assms Cons by (auto simp: claim_inbound_spool_def update_rows_def Let_def split: if_splits)
  with Cons that show ?thesis by blast
qed

lemma claim_pending_count:
  "claim_inbound_spool en now lease token db = (Some r, db') \<Longrightarrow> pending_count db' < pending_count db"
proof (erule claim_inbound_Some)
  fix c
  assume db': "db' = db\<lparr>db_spool := map (\<lambda>r. if row_key r = row_key c \<and> is_pending r
       then claim_row now lease token r else r) (db_spool db)\<rparr>"
    and one: "length (filter (\<lambda>r. row_key r = row_key c \<and> is_pending r) (db_spool db)) = 1"
  have "length (filter is_pending (map (\<lambda>r. if row_key r = row_key c \<and> is_pending r
      then claim_row now lease token r else r) (db_spool db)))
      + length (filter (\<lambda>r. row_key r = row_key c \<and> is_pending r) (db_spool db))
      = length (filter is_pending (db_spool db))"
    by (rule pending_update) (simp add: is_pending_def claim_row_def)
  with one show ?thesis by (simp add: pending_count_def db')
qed

lemma drop_malformed_pending: "pending_count (drop_malformed k token db) \<le> pending_count db"
proof -
  have "length (filter is_pending (filter q rs)) \<le> length (filter is_pending rs)" for q and rs :: "spool_row list"
    by (induction rs) auto
  then show ?thesis
    by (simp add: pending_count_def drop_malformed_def delete_claimed_def delete_rows_def
        increment_spool_metrics_def Let_def)
qed

text \<open>
  The claim loop of \<^verbatim>\<open>claim_next\<close>: it ends because every turn takes one row out of the pending rows;
  turn \<open>i\<close> draws the token \<open>tokens i\<close>.
\<close>

function claim_loop :: "engine \<Rightarrow> (rstr \<Rightarrow> session_event option) \<Rightarrow> (nat \<Rightarrow> rstr) \<Rightarrow> nat \<Rightarrow> int \<Rightarrow> database
    \<Rightarrow> claimed_record option \<times> database" where
  "claim_loop en dec tokens i now db =
     (case claim_inbound_spool en now claim_lease_ms (tokens i) db of
        (None, db1) \<Rightarrow> (None, db1)
      | (Some r, db1) \<Rightarrow>
          (case decode_valid dec (sp_payload r) of
             Some e \<Rightarrow> (Some \<lparr>cl_key = row_key r, cl_token = tokens i, cl_event = e\<rparr>, db1)
           | None \<Rightarrow> claim_loop en dec tokens (Suc i) now (drop_malformed (row_key r) (tokens i) db1)))"
  by pat_completeness auto

termination
  by (relation "measure (\<lambda>(en, dec, tokens, i, now, db). pending_count db)")
    (auto intro!: le_less_trans [OF drop_malformed_pending claim_pending_count] dest: sym)

declare claim_loop.simps [simp del]

definition claim_next :: "engine \<Rightarrow> (rstr \<Rightarrow> session_event option) \<Rightarrow> (nat \<Rightarrow> rstr) \<Rightarrow> spool_store \<Rightarrow> nat
    \<Rightarrow> database \<Rightarrow> spool_error + (claimed_record option \<times> database)" where
  "claim_next en dec tokens st at db = rbind (validate_limits (ss_limits st)) (\<lambda>_.
     let now = i64_of_u64 at;
         (db1, recovered) = recover_expired_claims now db;
         db2 = enforce_and_record en (ss_limits st) now db1
     in Inr (claim_loop en dec tokens 0 now db2))"

definition spool_metrics_of :: "database \<Rightarrow> spool_metrics" where
  "spool_metrics_of db = \<lparr>sm_expired_drops = u64_of_i64 (ar_expired_drops (load_app_state db)),
     sm_limit_drops = u64_of_i64 (ar_limit_drops (load_app_state db)),
     sm_malformed_drops = u64_of_i64 (ar_malformed_drops (load_app_state db))\<rparr>"

definition release_claim :: "claimed_record \<Rightarrow> database \<Rightarrow> database" where
  "release_claim c db = snd (release_claimed (cl_key c) (cl_token c) db)"

text \<open>A claim that was not committed is released when it is dropped.\<close>

definition commit_claim :: "claimed_record \<Rightarrow> database \<Rightarrow> (spool_error + unit) \<times> database" where
  "commit_claim c db = (let (deleted, db') = delete_claimed (cl_key c) (cl_token c) db
     in if deleted then (Inr (), db') else (Inl SpoolMalformedRecord, release_claim c db'))"

end
