(* ===== verification/Spool_Properties.thy ===== *)
theory Spool_Properties
  imports Spool
begin

text \<open>
  What the durable spool guarantees: every row is accounted for, the limits hold after every
  enforcement, the least important rows go first, and a claimed row belongs to its claimant until
  the lease runs out.
\<close>

section \<open>Well-formed tables\<close>

definition row_wf :: "spool_row \<Rightarrow> bool" where
  "row_wf r \<longleftrightarrow> (case sp_status r of
     RowPending \<Rightarrow> sp_claim_token r = None \<and> sp_lease_expires_at_ms r = None
   | RowClaimed \<Rightarrow> sp_claim_token r \<noteq> None \<and> sp_lease_expires_at_ms r \<noteq> None)"

definition spool_wf :: "database \<Rightarrow> bool" where
  "spool_wf db \<longleftrightarrow> distinct (map row_key (db_spool db)) \<and> (\<forall>r \<in> set (db_spool db). row_wf r)"

lemma empty_database_wf [simp]: "spool_wf empty_database"
  by (simp add: spool_wf_def empty_database_def)

lemma engine_scan:
  assumes "engine_ok en"
  shows "set (en_scan en rs) = set rs" "length (en_scan en rs) = length rs"
    "distinct (en_scan en rs) = distinct rs" "mset (en_scan en rs) = mset rs"
proof -
  show m: "mset (en_scan en rs) = mset rs" using assms by (simp add: engine_ok_def)
  then show "set (en_scan en rs) = set rs" "length (en_scan en rs) = length rs"
    "distinct (en_scan en rs) = distinct rs"
    by (auto dest: mset_eq_setD mset_eq_length mset_eq_imp_distinct_iff)
qed

lemma mset_order_by: "engine_ok en \<Longrightarrow> mset (order_by en f rs) = mset rs"
  by (simp add: order_by_def engine_scan)

lemma set_order_by: "engine_ok en \<Longrightarrow> set (order_by en f rs) = set rs"
  by (simp add: order_by_def engine_scan)

lemma spool_frames [simp]:
  "db_spool (increment_spool_metrics e l m db) = db_spool db"
  "db_app (fst (delete_rows p db)) = db_app db"
  "db_spool (fst (delete_rows p db)) = filter (\<lambda>r. \<not> p r) (db_spool db)"
  "db_spool (record_retention_delta d db) = db_spool db"
  by (simp_all add: increment_spool_metrics_def delete_rows_def record_retention_delta_def)

section \<open>The ledger\<close>

definition drops :: "database \<Rightarrow> int" where
  "drops db = ar_expired_drops (db_app db) + ar_limit_drops (db_app db) + ar_malformed_drops (db_app db)"

definition ledger :: "database \<Rightarrow> int" where
  "ledger db = int (length (db_spool db)) + drops db"

lemma length_compl: "length (filter (\<lambda>r. \<not> p r) rs) + length (filter p rs) = length rs"
  by (induction rs) auto

lemma ledger_delete: "ledger (fst (delete_rows p db)) = ledger db - int (snd (delete_rows p db))"
  using length_compl [of p "db_spool db"] by (simp add: ledger_def drops_def delete_rows_def)

lemma ledger_increment [simp]: "ledger (increment_spool_metrics e l m db) = ledger db + e + l + m"
  by (simp add: ledger_def drops_def increment_spool_metrics_def)

lemma ledger_update [simp]: "ledger (fst (update_rows p f db)) = ledger db"
  by (simp add: ledger_def drops_def update_rows_def)

text \<open>Every trigger either leaves the table alone or deletes rows and counts them.\<close>

definition counted_expired :: "(spool_row \<Rightarrow> bool) \<Rightarrow> database \<Rightarrow> database" where
  "counted_expired p db = increment_spool_metrics (int (snd (delete_rows p db))) 0 0 (fst (delete_rows p db))"

definition counted_limit :: "(spool_row \<Rightarrow> bool) \<Rightarrow> database \<Rightarrow> database" where
  "counted_limit p db = increment_spool_metrics 0 (int (snd (delete_rows p db))) 0 (fst (delete_rows p db))"

lemma counted_ledger [simp]: "ledger (counted_expired p db) = ledger db" "ledger (counted_limit p db) = ledger db"
  by (simp_all add: counted_expired_def counted_limit_def ledger_delete)

lemma counted_spool [simp]:
  "db_spool (counted_expired p db) = filter (\<lambda>r. \<not> p r) (db_spool db)"
  "db_spool (counted_limit p db) = filter (\<lambda>r. \<not> p r) (db_spool db)"
  by (simp_all add: counted_expired_def counted_limit_def)

definition victims_of :: "spool_row list \<Rightarrow> spool_row \<Rightarrow> bool" where
  "victims_of vs r \<longleftrightarrow> row_key r \<in> set (map row_key vs)"

definition count_victims :: "engine \<Rightarrow> database \<Rightarrow> spool_row list" where
  "count_victims en db = take (length (db_spool db) - hard_max_count)
     (order_by en drop_key (filter is_pending (db_spool db)))"

definition bytes_victims :: "database \<Rightarrow> spool_row list" where
  "bytes_victims db = window_victims hard_max_bytes (total_bytes (db_spool db)) 0
     (sort_key drop_key (filter is_pending (db_spool db)))"

lemma trigger_eqs:
  "fire_trigger en new ExpiredRetention db =
    (if list_ex (\<lambda>r. is_pending r \<and> sp_inserted_at_ms r < sp_inserted_at_ms new - hard_max_age_ms) (db_spool db)
     then counted_expired (\<lambda>r. is_pending r \<and> sp_inserted_at_ms r < sp_inserted_at_ms new - hard_max_age_ms) db
     else db)"
  "fire_trigger en new CountRetention db =
    (if hard_max_count < length (db_spool db) then counted_limit (victims_of (count_victims en db)) db else db)"
  "fire_trigger en new BytesRetention db =
    (if hard_max_bytes < total_bytes (db_spool db) then counted_limit (victims_of (bytes_victims db)) db else db)"
  unfolding victims_of_def
  by (simp_all add: expired_retention_def count_retention_def bytes_retention_def Let_def case_prod_beta
      counted_expired_def counted_limit_def count_victims_def bytes_victims_def)

lemma ledger_trigger [simp]: "ledger (fire_trigger en new t db) = ledger db"
  by (cases t) (simp_all add: trigger_eqs del: fire_trigger.simps)

lemma trigger_filter: "\<exists>p. db_spool (fire_trigger en new t db) = filter p (db_spool db)"
proof -
  have "db_spool db = filter (\<lambda>_. True) (db_spool db)" by simp
  moreover have "fire_trigger en new t db = db \<or> (\<exists>p. db_spool (fire_trigger en new t db) = filter p (db_spool db))"
    by (cases t) (auto simp: trigger_eqs simp del: fire_trigger.simps)
  ultimately show ?thesis by metis
qed

lemma triggers_ledger [simp]: "ledger (fold (fire_trigger en new) ts db) = ledger db"
  by (induction ts arbitrary: db) simp_all

lemma triggers_filter: "\<exists>p. db_spool (fold (fire_trigger en new) ts db) = filter p (db_spool db)"
proof (induction ts arbitrary: db)
  case Nil
  show ?case by (simp, rule exI [of _ "\<lambda>_. True"]) simp
next
  case (Cons t ts)
  obtain p where "db_spool (fire_trigger en new t db) = filter p (db_spool db)"
    using trigger_filter by blast
  moreover obtain q where "db_spool (fold (fire_trigger en new) ts (fire_trigger en new t db))
      = filter q (db_spool (fire_trigger en new t db))"
    using Cons.IH by blast
  ultimately show ?case by auto
qed

lemma spool_wf_filter: "spool_wf db \<Longrightarrow> db_spool db' = filter p (db_spool db) \<Longrightarrow> spool_wf db'"
  by (auto simp: spool_wf_def distinct_map_filter)

lemma find_row_None: "find_row k db = None \<longleftrightarrow> k \<notin> row_key ` set (db_spool db)"
  by (auto simp: find_row_def find_None_iff)

lemma insert_row_wf:
  assumes "spool_wf db" "row_wf new"
  shows "spool_wf (insert_row en new db)"
proof (cases "find_row (row_key new) db")
  case None
  have "spool_wf (db\<lparr>db_spool := db_spool db @ [new]\<rparr>)"
    using assms None by (auto simp: spool_wf_def find_row_None)
  with None show ?thesis
    using triggers_filter [of en new "en_triggers en" "db\<lparr>db_spool := db_spool db @ [new]\<rparr>"]
    by (auto simp: insert_row_def intro: spool_wf_filter)
qed (simp add: insert_row_def assms)

lemma insert_row_ledger:
  "ledger (insert_row en new db) = ledger db + (if find_row (row_key new) db = None then 1 else 0)"
proof -
  have "ledger (db\<lparr>db_spool := db_spool db @ [new]\<rparr>) = ledger db + 1"
    by (simp add: ledger_def drops_def)
  then show ?thesis by (auto simp: insert_row_def)
qed

section \<open>Enforcing the limits\<close>

lemma delete_inbound_rows:
  "snd (delete_inbound_spool k db) = db\<lparr>db_spool := filter (\<lambda>r. row_key r \<noteq> k) (db_spool db)\<rparr>"
  by (simp add: delete_inbound_spool_def delete_rows_def)

lemma delete_all_rows_eq:
  "delete_all_rows vs db = db\<lparr>db_spool := filter (\<lambda>r. \<not> victims_of vs r) (db_spool db)\<rparr>"
proof (induction vs arbitrary: db)
  case Nil
  show ?case by (simp add: delete_all_rows_def victims_of_def)
next
  case (Cons v vs)
  have "delete_all_rows (v # vs) db = delete_all_rows vs (snd (delete_inbound_spool (row_key v) db))"
    by (simp add: delete_all_rows_def)
  then show ?case
    by (simp add: Cons.IH delete_inbound_rows victims_of_def)
qed

lemma mset_victims:
  assumes "distinct (map row_key rs)" "distinct vs" "set vs \<subseteq> set rs"
  shows "mset (filter (\<lambda>r. \<not> victims_of vs r) rs) + mset vs = mset rs"
proof -
  have inj: "inj_on row_key (set rs)" and d: "distinct rs" using assms(1) by (simp_all add: distinct_map)
  have "victims_of vs r \<longleftrightarrow> r \<in> set vs" if "r \<in> set rs" for r
    unfolding victims_of_def set_map by (rule inj_on_image_mem_iff [OF inj that assms(3)])
  then have "set (filter (victims_of vs) rs) = set vs" using assms(3) unfolding set_filter by blast
  then have "mset (filter (victims_of vs) rs) = mset vs"
    by (rule iffD1 [OF set_eq_iff_mset_eq_distinct [OF distinct_filter [OF d] assms(2)]])
  moreover have "mset rs = mset (filter (victims_of vs) rs) + mset (filter (\<lambda>r. \<not> victims_of vs r) rs)"
    unfolding mset_filter by (rule multiset_partition)
  ultimately show ?thesis by (metis add.commute)
qed

lemma victims_of_Nil [simp]: "\<not> victims_of [] r"
  by (simp add: victims_of_def)

lemma total_bytes_sum_mset: "total_bytes rs = sum_mset (image_mset row_bytes (mset rs))"
  by (simp add: total_bytes_def flip: sum_mset_sum_list)

lemma total_bytes_mset: "mset rs = mset xs + mset ys \<Longrightarrow> total_bytes rs = total_bytes xs + total_bytes ys"
  by (simp add: total_bytes_sum_mset)

lemma length_mset:
  assumes "mset rs = mset xs + mset ys"
  shows "length rs = length xs + length ys"
  using arg_cong [OF assms, of size] by simp

text \<open>The loop drops the shortest prefix that brings count and bytes under the limits.\<close>

lemma limit_victims_prefix:
  assumes "length rs \<le> n" "total_bytes rs \<le> b"
  shows "\<exists>rest. rs = limit_victims l n b rs @ rest
    \<and> (rest = [] \<or> n - length (limit_victims l n b rs) \<le> sl_max_count l
         \<and> b - total_bytes (limit_victims l n b rs) \<le> sl_max_bytes l)"
  using assms
proof (induction l n b rs rule: limit_victims.induct)
  case (2 l n b r rs)
  show ?case
  proof (cases "sl_max_count l < n \<or> sl_max_bytes l < b")
    case True
    have "length rs \<le> n - 1" "total_bytes rs \<le> b - row_bytes r"
      using "2.prems" by (auto simp: total_bytes_def)
    then show ?thesis using "2.IH" [OF True] True by (auto simp: total_bytes_def)
  next
    case False
    then show ?thesis by auto
  qed
qed simp

definition within_limits :: "spool_limits \<Rightarrow> database \<Rightarrow> bool" where
  "within_limits l db \<longleftrightarrow> length (db_spool db) \<le> sl_max_count l \<and> total_bytes (db_spool db) \<le> sl_max_bytes l"

definition enforced_expired :: "engine \<Rightarrow> spool_limits \<Rightarrow> int \<Rightarrow> database \<Rightarrow> spool_row list" where
  "enforced_expired en l now db = filter (row_expired l now) (list_inbound_spool en db)"

definition enforced_retained :: "engine \<Rightarrow> spool_limits \<Rightarrow> int \<Rightarrow> database \<Rightarrow> spool_row list" where
  "enforced_retained en l now db = filter (\<lambda>r. \<not> row_expired l now r) (list_inbound_spool en db)"

definition enforced_victims :: "engine \<Rightarrow> spool_limits \<Rightarrow> int \<Rightarrow> database \<Rightarrow> spool_row list" where
  "enforced_victims en l now db =
     (let retained = enforced_retained en l now db in
      limit_victims l (length retained) (total_bytes retained) (sort_key drop_key (filter is_pending retained)))"

lemma enforce_limits_eq:
  "enforce_limits en l now db =
     (delete_all_rows (enforced_victims en l now db) (delete_all_rows (enforced_expired en l now db) db),
      \<lparr>rdl_expired_drops = int (length (enforced_expired en l now db)),
       rdl_limit_drops = int (length (enforced_victims en l now db)), rdl_malformed_drops = 0\<rparr>)"
  by (simp add: enforce_limits_def enforced_expired_def enforced_retained_def enforced_victims_def Let_def)

lemma total_bytes_filter_le: "total_bytes (filter p rs) \<le> total_bytes rs"
  by (induction rs) (auto simp: total_bytes_def)

lemma total_bytes_sort [simp]: "total_bytes (sort_key f rs) = total_bytes rs"
  by (simp add: total_bytes_sum_mset)

lemma enforced_victims_prefix:
  "\<exists>rest. sort_key drop_key (filter is_pending (enforced_retained en l now db))
       = enforced_victims en l now db @ rest
     \<and> (rest = [] \<or> length (enforced_retained en l now db) - length (enforced_victims en l now db) \<le> sl_max_count l
          \<and> total_bytes (enforced_retained en l now db) - total_bytes (enforced_victims en l now db) \<le> sl_max_bytes l)"
  unfolding enforced_victims_def Let_def
  by (rule limit_victims_prefix) (simp_all add: total_bytes_filter_le)

lemma enforce_parts:
  fixes l :: spool_limits and now :: int
  assumes "engine_ok en" "spool_wf db"
  defines "E \<equiv> enforced_expired en l now db" and "V \<equiv> enforced_victims en l now db"
    and "R \<equiv> enforced_retained en l now db" and "rows \<equiv> db_spool (fst (enforce_limits en l now db))"
  shows "mset rows + mset V = mset R" and "mset R + mset E = mset (db_spool db)"
    and "rows = filter (\<lambda>r. \<not> victims_of V r) (filter (\<lambda>r. \<not> victims_of E r) (db_spool db))"
    and "distinct V" "set V \<subseteq> set R"
proof -
  have d: "distinct (map row_key (db_spool db))" using assms(2) by (simp add: spool_wf_def)
  then have dd: "distinct (db_spool db)" by (simp add: distinct_map)
  have list: "mset (list_inbound_spool en db) = mset (db_spool db)"
    using assms(1) by (simp add: list_inbound_spool_def mset_order_by)
  then have dl: "distinct (list_inbound_spool en db)" and sl: "set (list_inbound_spool en db) = set (db_spool db)"
    using dd mset_eq_imp_distinct_iff mset_eq_setD by blast+
  show R: "mset R + mset E = mset (db_spool db)"
    unfolding R_def E_def enforced_retained_def enforced_expired_def list [symmetric] by simp
  have E: "distinct E" "set E \<subseteq> set (db_spool db)"
    using dl sl by (auto simp: E_def enforced_expired_def)
  obtain rest where pre: "sort_key drop_key (filter is_pending R) = V @ rest"
    using enforced_victims_prefix [of en l now db] by (auto simp: R_def V_def)
  have "distinct (sort_key drop_key (filter is_pending R))"
    using dl by (simp add: R_def enforced_retained_def)
  then show "distinct V" unfolding pre by simp
  have "set (V @ rest) \<subseteq> set R" unfolding pre [symmetric] by auto
  then show "set V \<subseteq> set R" by simp
  show rows: "rows = filter (\<lambda>r. \<not> victims_of V r) (filter (\<lambda>r. \<not> victims_of E r) (db_spool db))"
    by (simp add: rows_def enforce_limits_eq delete_all_rows_eq flip: E_def V_def)
  let ?rows1 = "filter (\<lambda>r. \<not> victims_of E r) (db_spool db)"
  have "mset ?rows1 + mset E = mset (db_spool db)" by (rule mset_victims [OF d E])
  with R have r1: "mset ?rows1 = mset R" by (metis add_right_cancel)
  have "mset rows + mset V = mset ?rows1"
    unfolding rows
  proof (rule mset_victims)
    show "distinct (map row_key ?rows1)" using d by (rule distinct_map_filter)
    show "set V \<subseteq> set ?rows1" using \<open>set V \<subseteq> set R\<close> r1 mset_eq_setD by blast
  qed (rule \<open>distinct V\<close>)
  with r1 show "mset rows + mset V = mset R" by simp
qed

lemma enforce_ledger:
  assumes "engine_ok en" "spool_wf db"
  shows "ledger (enforce_and_record en l now db) = ledger db"
proof -
  note parts = enforce_parts [OF assms, where l = l and now = now]
  have "length (db_spool (fst (enforce_limits en l now db))) + length (enforced_victims en l now db)
      + length (enforced_expired en l now db) = length (db_spool db)"
    using length_mset [OF parts(1) [symmetric]] length_mset [OF parts(2) [symmetric]] by simp
  then show ?thesis
    unfolding enforce_and_record_def
    by (simp add: enforce_limits_eq delete_all_rows_eq record_retention_delta_def no_delta_def
        ledger_def drops_def increment_spool_metrics_def)
qed

lemma enforce_wf: "spool_wf db \<Longrightarrow> spool_wf (enforce_and_record en l now db)"
  unfolding enforce_and_record_def
  by (simp add: enforce_limits_eq delete_all_rows_eq)
    (auto simp: spool_wf_def distinct_map_filter)

lemma enforce_within_limits:
  assumes "engine_ok en" "spool_wf db" "filter is_pending (db_spool (fst (enforce_limits en l now db))) \<noteq> []"
  shows "within_limits l (fst (enforce_limits en l now db))"
proof -
  let ?R = "enforced_retained en l now db" and ?V = "enforced_victims en l now db"
  let ?rows = "db_spool (fst (enforce_limits en l now db))"
  note parts = enforce_parts [OF assms(1,2), where l = l and now = now]
  from enforced_victims_prefix [of en l now db]
  obtain rest where pre: "sort_key drop_key (filter is_pending ?R) = ?V @ rest"
    and lim: "rest = [] \<or> length ?R - length ?V \<le> sl_max_count l \<and> total_bytes ?R - total_bytes ?V \<le> sl_max_bytes l"
    by blast
  have "rest \<noteq> []"
  proof
    assume "rest = []"
    then have "mset (filter is_pending ?R) = mset ?V" using pre by (metis append_Nil2 mset_sort)
    moreover have "mset (filter is_pending ?R) = mset (filter is_pending ?rows) + mset (filter is_pending ?V)"
      using arg_cong [OF parts(1), of "filter_mset is_pending"] by simp
    moreover have "\<forall>v \<in> set ?V. is_pending v" using arg_cong [OF pre, of set] by auto
    then have "filter is_pending ?V = ?V" by (rule filter_True)
    ultimately show False using assms(3) by simp
  qed
  with lim show ?thesis
    using length_mset [OF parts(1) [symmetric]] total_bytes_mset [OF parts(1) [symmetric]]
    by (simp add: within_limits_def)
qed

text \<open>
  Enforcing the limits drops the least important rows first and no more than needed: afterwards
  the table is within the count and byte limits or holds no pending row, no claimed row was dropped,
  every row dropped by a limit comes before every pending row that stayed in the order priority then
  insertion time, every row dropped as expired is past the maximal age, and the reported numbers are
  the numbers of rows that disappeared.
\<close>

theorem enforce_limits_drops_least:
  assumes "engine_ok en" "spool_wf db" "enforce_limits en l now db = (db', delta)"
  shows "\<exists>expired victims. mset (db_spool db') + mset victims + mset expired = mset (db_spool db)
    \<and> (within_limits l db' \<or> filter is_pending (db_spool db') = [])
    \<and> (\<forall>v \<in> set victims. is_pending v \<and> (\<forall>r \<in> set (db_spool db'). is_pending r \<longrightarrow> drop_key v \<le> drop_key r))
    \<and> (\<forall>v \<in> set expired. is_pending v \<and> i64_of_u64 (sl_max_age_ms l) < sat_sub_i64 now (sp_inserted_at_ms v))
    \<and> (within_limits l db \<longrightarrow> victims = [])
    \<and> delta = \<lparr>rdl_expired_drops = int (length expired), rdl_limit_drops = int (length victims),
         rdl_malformed_drops = 0\<rparr>"
proof -
  let ?R = "enforced_retained en l now db" and ?V = "enforced_victims en l now db" and ?E = "enforced_expired en l now db"
  note parts = enforce_parts [OF assms(1,2), where l = l and now = now]
  have db': "db' = fst (enforce_limits en l now db)" and delta: "delta = snd (enforce_limits en l now db)"
    by (simp_all add: assms(3))
  obtain rest where pre: "sort_key drop_key (filter is_pending ?R) = ?V @ rest"
    using enforced_victims_prefix [of en l now db] by blast
  have "sorted (map drop_key (?V @ rest))" unfolding pre [symmetric] by simp
  then have ord: "\<forall>v \<in> set ?V. \<forall>r \<in> set rest. drop_key v \<le> drop_key r" by (simp add: sorted_append)
  have pend: "\<forall>v \<in> set ?V. is_pending v" using arg_cong [OF pre, of set] by auto
  have m: "mset (filter is_pending ?R) = mset ?V + mset rest" using arg_cong [OF pre, of mset] by simp
  have "mset (filter is_pending ?R) = mset (filter is_pending (db_spool db')) + mset ?V"
    using arg_cong [OF parts(1), of "filter_mset is_pending"] filter_True [OF pend] unfolding db'
    by (simp flip: mset_filter)
  with m have "set (filter is_pending (db_spool db')) = set rest"
    by (metis add.commute add_left_cancel set_mset_mset)
  with ord have least: "\<forall>v \<in> set ?V. \<forall>r \<in> set (db_spool db'). is_pending r \<longrightarrow> drop_key v \<le> drop_key r" by auto
  have small: "?V = []" if "within_limits l db"
  proof -
    have "length ?R \<le> sl_max_count l" "total_bytes ?R \<le> sl_max_bytes l"
      using length_mset [OF parts(2) [symmetric]] total_bytes_mset [OF parts(2) [symmetric]] that
      by (simp_all add: within_limits_def)
    then show ?thesis
      unfolding enforced_victims_def Let_def by (cases "sort_key drop_key (filter is_pending ?R)") simp_all
  qed
  have "mset (db_spool db') + mset ?V + mset ?E = mset (db_spool db)"
    using parts(1,2) unfolding db' by simp
  moreover have "within_limits l db' \<or> filter is_pending (db_spool db') = []"
    using enforce_within_limits [OF assms(1,2)] unfolding db' by blast
  moreover have "\<forall>v \<in> set ?E. is_pending v \<and> i64_of_u64 (sl_max_age_ms l) < sat_sub_i64 now (sp_inserted_at_ms v)"
    by (auto simp: enforced_expired_def row_expired_def)
  ultimately show ?thesis
    using pend least small unfolding delta enforce_limits_eq by (intro exI [of _ ?E] exI [of _ ?V]) simp
qed

definition rowid_engine :: engine where
  "rowid_engine = \<lparr>en_scan = (\<lambda>rs. rs), en_triggers = [ExpiredRetention, CountRetention, BytesRetention]\<rparr>"

lemma rowid_engine_ok [simp]: "engine_ok rowid_engine"
  by (simp add: engine_ok_def rowid_engine_def)

definition demo_row :: "nat \<Rightarrow> int \<Rightarrow> int \<Rightarrow> spool_row" where
  "demo_row n prio at = \<lparr>sp_provider = lit ''codex'', sp_event_id = [n], sp_payload = lit ''{}'', sp_priority = prio,
     sp_occurred_at_ms = 0, sp_inserted_at_ms = at, sp_status = RowPending, sp_claim_token = None,
     sp_claimed_at_ms = None, sp_lease_expires_at_ms = None, sp_attempts = 0\<rparr>"

definition demo_database :: database where
  "demo_database = empty_database\<lparr>db_spool := [demo_row 1 3 5, demo_row 2 0 6, demo_row 3 1 7]\<rparr>"

lemma demo_database_wf [simp]: "spool_wf demo_database"
  by (simp add: spool_wf_def demo_database_def demo_row_def row_wf_def row_key_def)

definition demo_limits :: spool_limits where
  "demo_limits = \<lparr>sl_max_count = 2, sl_max_bytes = 9, sl_max_age_ms = 100\<rparr>"

lemma demo_enforce:
  "enforce_limits rowid_engine demo_limits 10 demo_database
     = (demo_database\<lparr>db_spool := [demo_row 1 3 5, demo_row 3 1 7]\<rparr>,
        \<lparr>rdl_expired_drops = 0, rdl_limit_drops = 1, rdl_malformed_drops = 0\<rparr>)"
  by (simp add: enforce_limits_def list_inbound_spool_def order_by_def rowid_engine_def demo_database_def
      demo_limits_def demo_row_def drop_key_def row_expired_def is_pending_def i64_of_u64_def i64_max_def
      i64_min_def sat_sub_i64_def Let_def delete_all_rows_def delete_inbound_spool_def delete_rows_def
      row_key_def total_bytes_def row_bytes_def lit_def sort_key_def utf8_width_def less_eq_prod_simp
      less_prod_simp byte_len_def)

theorem enforce_limits_drops_least_witness:
  "\<exists>expired victims. mset (db_spool (fst (enforce_limits rowid_engine demo_limits 10 demo_database)))
      + mset victims + mset expired = mset (db_spool demo_database) \<and> int (length victims) = 1"
proof -
  let ?db = "demo_database\<lparr>db_spool := [demo_row 1 3 5, demo_row 3 1 7]\<rparr>"
  obtain E V where parts: "mset (db_spool ?db) + mset V + mset E = mset (db_spool demo_database)"
    and delta: "\<lparr>rdl_expired_drops = 0, rdl_limit_drops = 1, rdl_malformed_drops = 0\<rparr>
      = \<lparr>rdl_expired_drops = int (length E), rdl_limit_drops = int (length V), rdl_malformed_drops = 0\<rparr>"
    using enforce_limits_drops_least [OF rowid_engine_ok demo_database_wf demo_enforce] by metis
  from delta have "int (length V) = 1" by simp
  with parts show ?thesis unfolding demo_enforce fst_conv by blast
qed

text \<open>The SQL window, the \<^verbatim>\<open>LIMIT\<close> of the count trigger and the loop of the store.\<close>

lemma limit_victims_stop:
  "\<not> sl_max_count l < n \<Longrightarrow> \<not> sl_max_bytes l < b \<Longrightarrow> limit_victims l n b rs = []"
  by (cases rs) simp_all

lemma window_victims_stop: "tot - seen \<le> limit \<Longrightarrow> window_victims limit tot seen rs = []"
  by (induction rs arbitrary: seen) auto

lemma window_is_loop:
  "n \<le> sl_max_count l \<Longrightarrow> window_victims (sl_max_bytes l) tot seen rs = limit_victims l n (tot - seen) rs"
proof (induction rs arbitrary: n seen)
  case (Cons r rs)
  have "int (sl_max_bytes l) < int tot - int seen \<longleftrightarrow> sl_max_bytes l < tot - seen" by arith
  moreover have "window_victims (sl_max_bytes l) tot (seen + row_bytes r) rs
      = limit_victims l (n - 1) (tot - seen - row_bytes r) rs"
    using Cons.IH [of "n - 1" "seen + row_bytes r"] Cons.prems by simp
  moreover have "window_victims (sl_max_bytes l) tot (seen + row_bytes r) rs = []" if "\<not> sl_max_bytes l < tot - seen"
    using that by (intro window_victims_stop) simp
  ultimately show ?case using Cons.prems by simp
qed simp

lemma take_is_loop: "b \<le> sl_max_bytes l \<Longrightarrow> limit_victims l n b rs = take (n - sl_max_count l) rs"
proof (induction rs arbitrary: n b)
  case (Cons r rs)
  have "limit_victims l (n - 1) (b - row_bytes r) rs = take (n - 1 - sl_max_count l) rs"
    using Cons.prems by (intro Cons.IH) simp
  moreover have "n - sl_max_count l = Suc (n - 1 - sl_max_count l)" if "sl_max_count l < n"
    using that by simp
  ultimately show ?case using Cons.prems by simp
qed simp

lemma order_pending: "sort_key drop_key (filter is_pending (sort_key drop_key rs)) = sort_key drop_key (filter is_pending rs)"
  by (simp add: filter_sort sort_key_id_if_sorted)

lemma victims_count:
  assumes "distinct (map row_key rs)" "distinct vs" "set vs \<subseteq> set rs"
  shows "length (filter (victims_of vs) rs) = length vs"
  using length_mset [OF mset_victims [OF assms, symmetric]] length_compl [of "victims_of vs" rs] by simp

lemma increment_nothing [simp]: "increment_spool_metrics 0 0 0 db = db"
  by (simp add: increment_spool_metrics_def)

lemma counted_limit_deletes:
  assumes "spool_wf db" "distinct vs" "set vs \<subseteq> set (db_spool db)"
  shows "counted_limit (victims_of vs) db = record_retention_delta
     \<lparr>rdl_expired_drops = 0, rdl_limit_drops = int (length vs), rdl_malformed_drops = 0\<rparr> (delete_all_rows vs db)"
proof -
  have "length (filter (victims_of vs) (db_spool db)) = length vs"
    using assms by (intro victims_count) (simp_all add: spool_wf_def)
  then show ?thesis
    by (simp add: counted_limit_def delete_rows_def delete_all_rows_eq record_retention_delta_def no_delta_def)
qed

definition loop_victims :: "spool_limits \<Rightarrow> database \<Rightarrow> spool_row list" where
  "loop_victims l db = limit_victims l (length (db_spool db)) (total_bytes (db_spool db))
     (sort_key drop_key (filter is_pending (db_spool db)))"

lemma enforce_unexpired:
  assumes "en_scan en = (\<lambda>rs. rs)" "\<forall>r \<in> set (db_spool db). \<not> row_expired l now r"
  shows "enforce_and_record en l now db = record_retention_delta
     \<lparr>rdl_expired_drops = 0, rdl_limit_drops = int (length (loop_victims l db)), rdl_malformed_drops = 0\<rparr>
     (delete_all_rows (loop_victims l db) db)"
proof -
  have "enforced_expired en l now db = []" "enforced_retained en l now db = sort_key drop_key (db_spool db)"
    using assms by (simp_all add: enforced_expired_def enforced_retained_def list_inbound_spool_def order_by_def
        filter_empty_conv filter_id_conv)
  moreover from this have "enforced_victims en l now db = loop_victims l db"
    by (simp add: enforced_victims_def loop_victims_def order_pending)
  ultimately show ?thesis
    by (simp add: enforce_and_record_def enforce_limits_eq delete_all_rows_def [of "[]"])
qed

lemma loop_victims_sub:
  assumes "spool_wf db"
  shows "distinct (loop_victims l db)" "set (loop_victims l db) \<subseteq> set (db_spool db)"
proof -
  let ?P = "sort_key drop_key (filter is_pending (db_spool db))"
  obtain rest where split: "?P = loop_victims l db @ rest"
    using limit_victims_prefix [of ?P "length (db_spool db)" "total_bytes (db_spool db)" l]
    by (auto simp: loop_victims_def total_bytes_filter_le)
  have "distinct ?P" using assms by (simp add: spool_wf_def distinct_map)
  then show "distinct (loop_victims l db)" unfolding split by simp
  have "set (loop_victims l db) \<subseteq> set ?P" unfolding split by simp
  then show "set (loop_victims l db) \<subseteq> set (db_spool db)" by auto
qed

text \<open>
  The loop in two stages: as long as one of the limits keeps it running over a prefix of the pending rows,
  what it drops is that prefix and what it drops from the rest.
\<close>

lemma limit_split_count:
  "k \<le> n - sl_max_count l \<Longrightarrow> limit_victims l n b P
    = take k P @ limit_victims l (n - k) (b - total_bytes (take k P)) (drop k P)"
proof (induction P arbitrary: k n b)
  case (Cons r P)
  show ?case
  proof (cases k)
    case (Suc j)
    with Cons.prems have "sl_max_count l < n" "j \<le> n - 1 - sl_max_count l" by simp_all
    with Cons.IH [of j "n - 1" "b - row_bytes r"] Suc show ?thesis by (simp add: total_bytes_def diff_diff_add)
  qed (simp add: total_bytes_def)
qed simp

lemma limit_split_bytes:
  "P = V @ P' \<Longrightarrow> \<forall>i < length V. sl_max_bytes l < b - total_bytes (take i V) \<Longrightarrow> limit_victims l n b P
    = V @ limit_victims l (n - length V) (b - total_bytes V) P'"
proof (induction V arbitrary: n b P)
  case (Cons r V)
  have "sl_max_bytes l < b" using Cons.prems(2) by (auto simp: total_bytes_def dest: spec [of _ 0])
  moreover have "\<forall>i < length V. sl_max_bytes l < b - row_bytes r - total_bytes (take i V)"
  proof (intro allI impI)
    fix i assume "i < length V"
    with Cons.prems(2) have "sl_max_bytes l < b - total_bytes (take (Suc i) (r # V))" by (metis Suc_mono length_Cons)
    then show "sl_max_bytes l < b - row_bytes r - total_bytes (take i V)" by (simp add: total_bytes_def diff_diff_add)
  qed
  with Cons.IH [of "V @ P'" "b - row_bytes r" "n - 1"]
  have "limit_victims l (n - 1) (b - row_bytes r) (V @ P') = V @ limit_victims l (n - 1 - length V) (b - row_bytes r - total_bytes V) P'"
    by simp
  ultimately show ?case using Cons.prems(1) by (simp add: total_bytes_def diff_diff_add)
qed (simp add: total_bytes_def)

lemma window_prefix:
  "\<exists>P'. P = window_victims limit tot seen P @ P'
    \<and> (\<forall>i < length (window_victims limit tot seen P). limit < tot - (seen + total_bytes (take i (window_victims limit tot seen P))))
    \<and> (P' = [] \<or> tot - (seen + total_bytes (window_victims limit tot seen P)) \<le> limit)"
proof (induction P arbitrary: seen)
  case (Cons r P)
  show ?case
  proof (cases "limit < tot - seen")
    case True
    then have gt: "int limit < int tot - int seen" by arith
    let ?W = "window_victims limit tot (seen + row_bytes r) P"
    obtain P' where P': "P = ?W @ P'" "\<forall>i < length ?W. limit < tot - (seen + row_bytes r + total_bytes (take i ?W))"
      "P' = [] \<or> tot - (seen + row_bytes r + total_bytes ?W) \<le> limit"
      using Cons.IH by blast
    have "limit < tot - (seen + total_bytes (take i (r # ?W)))" if "i < length (r # ?W)" for i
      using that P'(2) True by (cases i) (auto simp: total_bytes_def add.assoc)
    with P' gt show ?thesis by (intro exI [of _ P']) (auto simp: total_bytes_def add.assoc)
  next
    case False
    then have "window_victims limit tot seen (r # P) = []" by (intro window_victims_stop) simp
    with False show ?thesis by (auto simp: total_bytes_def)
  qed
qed simp

definition drop_order :: "database \<Rightarrow> spool_row list" where
  "drop_order db = sort_key drop_key (filter is_pending (db_spool db))"

lemma drop_order_keys: "spool_wf db \<Longrightarrow> distinct (map row_key (drop_order db))"
proof -
  assume wf: "spool_wf db"
  have "mset (map row_key (drop_order db)) = mset (map row_key (filter is_pending (db_spool db)))"
    by (simp add: drop_order_def)
  moreover have "distinct (map row_key (filter is_pending (db_spool db)))"
    using wf by (simp add: spool_wf_def distinct_map_filter)
  ultimately show ?thesis by (metis mset_eq_imp_distinct_iff)
qed

text \<open>Dropping a prefix of the pending rows in the order of the policy.\<close>

lemma drop_prefix:
  assumes "spool_wf db" "drop_order db = V @ P'"
  defines "db' \<equiv> counted_limit (victims_of V) db"
  shows "spool_wf db'" "length (db_spool db') = length (db_spool db) - length V"
    "total_bytes (db_spool db') = total_bytes (db_spool db) - total_bytes V" "drop_order db' = P'"
    "distinct V" "set V \<subseteq> set (db_spool db)"
proof -
  have rows: "db_spool db' = filter (\<lambda>r. \<not> victims_of V r) (db_spool db)" by (simp add: db'_def)
  then show "spool_wf db'" using assms(1) by (rule spool_wf_filter [rotated])
  note keys = drop_order_keys [OF assms(1), unfolded assms(2)]
  then show V: "distinct V" by (simp add: distinct_map)
  have "set (drop_order db) \<subseteq> set (db_spool db)" by (auto simp: drop_order_def)
  with assms(2) show sub: "set V \<subseteq> set (db_spool db)" by simp
  have m: "mset (db_spool db') + mset V = mset (db_spool db)"
    unfolding rows using assms(1) V sub by (intro mset_victims) (simp_all add: spool_wf_def)
  from length_mset [OF m [symmetric]] show "length (db_spool db') = length (db_spool db) - length V" by simp
  from total_bytes_mset [OF m [symmetric]] show "total_bytes (db_spool db') = total_bytes (db_spool db) - total_bytes V" by simp
  have "drop_order db' = filter (\<lambda>r. \<not> victims_of V r) (drop_order db)"
    unfolding drop_order_def rows by (simp add: filter_sort conj_commute)
  moreover have "filter (\<lambda>r. \<not> victims_of V r) V = []" by (simp add: filter_empty_conv victims_of_def)
  moreover have "filter (\<lambda>r. \<not> victims_of V r) P' = P'"
    using keys by (auto simp: filter_id_conv victims_of_def)
  ultimately show "drop_order db' = P'" by (simp add: assms(2))
qed

lemma drop_twice:
  assumes "spool_wf db" "drop_order db = V @ W @ P'"
  shows "counted_limit (victims_of W) (counted_limit (victims_of V) db) = counted_limit (victims_of (V @ W)) db"
proof -
  note first = drop_prefix [OF assms]
  note second = drop_prefix [OF first(1) first(4)]
  have "drop_order db = (V @ W) @ P'" using assms(2) by simp
  note both = drop_prefix [OF assms(1) this]
  have count: "length (filter (victims_of vs) (db_spool d)) = length vs"
    if "spool_wf d" "distinct vs" "set vs \<subseteq> set (db_spool d)" for d vs
    using that by (intro victims_count) (simp_all add: spool_wf_def)
  note n = count [OF assms(1) first(5,6)] count [OF first(1) second(5,6)] count [OF assms(1) both(5,6)]
  have "filter (\<lambda>r. \<not> victims_of W r) (filter (\<lambda>r. \<not> victims_of V r) (db_spool db))
      = filter (\<lambda>r. \<not> victims_of (V @ W) r) (db_spool db)"
    by (auto simp: victims_of_def intro!: filter_cong)
  with n(1,3) n(2) [unfolded counted_spool] show ?thesis
    by (simp add: counted_limit_def delete_rows_def increment_spool_metrics_def)
qed

text \<open>Both limits, in either order of the triggers.\<close>

lemma both_limits:
  assumes "spool_wf db" "en_scan en = (\<lambda>rs. rs)"
  shows "fire_trigger en new BytesRetention (fire_trigger en new CountRetention db)
      = counted_limit (victims_of (loop_victims default_limits db)) db"
    "fire_trigger en new CountRetention (fire_trigger en new BytesRetention db)
      = counted_limit (victims_of (loop_victims default_limits db)) db"
proof -
  have lim: "sl_max_count default_limits = hard_max_count" "sl_max_bytes default_limits = hard_max_bytes"
    by (simp_all add: default_limits_def hard_max_count_def hard_max_bytes_def spool_hard_max_count_def
        spool_hard_max_bytes_def)
  have none [simp]: "counted_limit (victims_of []) d = d" for d
    by (simp add: counted_limit_def delete_rows_def victims_of_def)
  have count: "fire_trigger en new CountRetention d
      = counted_limit (victims_of (take (length (db_spool d) - hard_max_count) (drop_order d))) d" for d
    by (simp add: trigger_eqs count_victims_def order_by_def assms(2) drop_order_def del: fire_trigger.simps)
  have bytes: "fire_trigger en new BytesRetention d
      = counted_limit (victims_of (window_victims hard_max_bytes (total_bytes (db_spool d)) 0 (drop_order d))) d" for d
    by (simp add: trigger_eqs bytes_victims_def drop_order_def window_victims_stop del: fire_trigger.simps)
  have loop: "loop_victims default_limits d
      = limit_victims default_limits (length (db_spool d)) (total_bytes (db_spool d)) (drop_order d)" for d
    by (simp add: loop_victims_def drop_order_def)
  show "fire_trigger en new BytesRetention (fire_trigger en new CountRetention db)
      = counted_limit (victims_of (loop_victims default_limits db)) db"
  proof -
    let ?n = "length (db_spool db)" and ?P = "drop_order db"
    define V where "V = take (?n - hard_max_count) ?P"
    define P' where "P' = drop (?n - hard_max_count) ?P"
    have P: "?P = V @ P'" by (simp add: V_def P'_def)
    note first = drop_prefix [OF assms(1) P]
    let ?d = "counted_limit (victims_of V) db"
    define W where "W = window_victims hard_max_bytes (total_bytes (db_spool ?d)) 0 P'"
    have "W = limit_victims default_limits (length (db_spool ?d)) (total_bytes (db_spool ?d)) P'"
    proof (cases "P' = []")
      case False
      then have "length V = ?n - hard_max_count" by (simp add: V_def P'_def)
      then have "length (db_spool ?d) \<le> hard_max_count" using first(2) by simp
      then show ?thesis
        using window_is_loop [of "length (db_spool ?d)" default_limits "total_bytes (db_spool ?d)" 0 P'] by (simp add: W_def lim)
    qed (simp add: W_def)
    moreover have "?n - (?n - hard_max_count) = ?n - length V \<or> P' = []" by (auto simp: V_def P'_def)
    ultimately have "V @ W = loop_victims default_limits db"
      using limit_split_count [of "?n - hard_max_count" ?n default_limits "total_bytes (db_spool db)" ?P] first(2,3)
      by (auto simp: loop lim V_def [symmetric] P'_def [symmetric] simp del: counted_spool)
    moreover obtain R where "P' = W @ R"
      using window_prefix [of P' hard_max_bytes "total_bytes (db_spool ?d)" 0] by (auto simp: W_def)
    moreover have "fire_trigger en new CountRetention db = ?d" by (simp only: count V_def)
    moreover have "fire_trigger en new BytesRetention ?d = counted_limit (victims_of W) ?d" by (simp only: bytes first(4) W_def)
    ultimately show ?thesis using drop_twice [OF assms(1), of V W R] P by simp
  qed
  show "fire_trigger en new CountRetention (fire_trigger en new BytesRetention db)
      = counted_limit (victims_of (loop_victims default_limits db)) db"
  proof -
    let ?P = "drop_order db" and ?b = "total_bytes (db_spool db)"
    define V where "V = window_victims hard_max_bytes ?b 0 ?P"
    obtain P' where P: "?P = V @ P'" and run: "\<forall>i < length V. hard_max_bytes < ?b - total_bytes (take i V)"
      and stop: "P' = [] \<or> ?b - total_bytes V \<le> hard_max_bytes"
      using window_prefix [of ?P hard_max_bytes ?b 0] by (auto simp: V_def)
    note first = drop_prefix [OF assms(1) P]
    let ?d = "counted_limit (victims_of V) db"
    define W where "W = take (length (db_spool ?d) - hard_max_count) P'"
    have "limit_victims default_limits (length (db_spool ?d)) (total_bytes (db_spool ?d)) P' = W"
      using stop first(3) take_is_loop [of "total_bytes (db_spool ?d)" default_limits "length (db_spool ?d)" P']
      by (auto simp: W_def lim simp del: counted_spool)
    then have "loop_victims default_limits db = V @ W"
      using limit_split_bytes [OF P, of default_limits ?b "length (db_spool db)"] run first(2,3)
      by (simp add: loop lim del: counted_spool)
    moreover have "P' = W @ drop (length (db_spool ?d) - hard_max_count) P'" by (simp add: W_def)
    moreover have "fire_trigger en new BytesRetention db = ?d" by (simp only: bytes V_def)
    moreover have "fire_trigger en new CountRetention ?d = counted_limit (victims_of W) ?d" by (simp only: count first(4) W_def)
    ultimately show ?thesis using drop_twice [OF assms(1), of V W "drop (length (db_spool ?d) - hard_max_count) P'"] P
      by (simp del: counted_spool fire_trigger.simps)
  qed
qed

text \<open>The expired rows first: they are those the loop drops as expired at the time of the insertion.\<close>

lemma expired_same:
  assumes "now = sp_inserted_at_ms new"
  shows "is_pending r \<and> sp_inserted_at_ms r < sp_inserted_at_ms new - hard_max_age_ms \<longleftrightarrow> row_expired default_limits now r"
  by (auto simp: assms row_expired_def default_limits_def spool_hard_max_age_ms_def hard_max_age_ms_def i64_of_u64_def
      sat_sub_i64_def i64_max_def i64_min_def)

lemma expired_then_limits:
  assumes "spool_wf db" "en_scan en = (\<lambda>rs. rs)" "now = sp_inserted_at_ms new"
  defines "db1 \<equiv> fire_trigger en new ExpiredRetention db"
  shows "enforce_and_record en default_limits now db = counted_limit (victims_of (loop_victims default_limits db1)) db1"
    "spool_wf db1"
proof -
  let ?old = "row_expired default_limits now"
  have fire: "db1 = counted_expired ?old db"
  proof (cases "list_ex ?old (db_spool db)")
    case False
    then have "filter ?old (db_spool db) = []" "filter (\<lambda>r. \<not> ?old r) (db_spool db) = db_spool db"
      by (auto simp: list_ex_iff filter_empty_conv filter_id_conv)
    with False show ?thesis
      by (simp add: db1_def trigger_eqs expired_same [OF assms(3)] counted_expired_def delete_rows_def del: fire_trigger.simps)
  qed (simp add: db1_def trigger_eqs expired_same [OF assms(3)] del: fire_trigger.simps)
  then have rows: "db_spool db1 = filter (\<lambda>r. \<not> ?old r) (db_spool db)" by simp
  then show wf: "spool_wf db1" using assms(1) by (rule spool_wf_filter [rotated])
  let ?E = "enforced_expired en default_limits now db" and ?V = "enforced_victims en default_limits now db"
  have E: "?E = sort_key drop_key (filter ?old (db_spool db))"
    by (simp add: enforced_expired_def list_inbound_spool_def order_by_def assms(2) filter_sort)
  have retained: "enforced_retained en default_limits now db = sort_key drop_key (db_spool db1)"
    by (simp add: enforced_retained_def list_inbound_spool_def order_by_def assms(2) filter_sort rows)
  then have V: "?V = loop_victims default_limits db1"
    by (simp add: enforced_victims_def loop_victims_def order_pending)
  have gone: "filter (\<lambda>r. \<not> victims_of ?E r) (db_spool db) = db_spool db1"
  proof -
    have "victims_of ?E r \<longleftrightarrow> ?old r" if r: "r \<in> set (db_spool db)" for r
    proof
      assume "victims_of ?E r"
      then obtain q where q: "q \<in> set (db_spool db)" "?old q" "row_key q = row_key r" by (auto simp: victims_of_def E)
      then have "q = r" using assms(1) r by (auto simp: spool_wf_def distinct_map inj_on_def)
      with q(2) show "?old r" by simp
    qed (use r in \<open>auto simp: victims_of_def E\<close>)
    then show ?thesis unfolding rows by (intro filter_cong) auto
  qed
  have count: "length (filter (victims_of ?V) (db_spool db1)) = length ?V"
    using wf loop_victims_sub [OF wf] unfolding V by (intro victims_count) (simp_all add: spool_wf_def)
  have length: "length ?E = length (filter ?old (db_spool db))" by (simp add: E)
  show "enforce_and_record en default_limits now db = counted_limit (victims_of (loop_victims default_limits db1)) db1"
    unfolding V [symmetric]
    using count gone length
    by (simp add: enforce_and_record_def enforce_limits_eq delete_all_rows_eq record_retention_delta_def no_delta_def
        counted_limit_def delete_rows_def increment_spool_metrics_def fire counted_expired_def)
qed

lemma expired_idle:
  assumes "\<forall>r \<in> set (db_spool db). \<not> row_expired default_limits (sp_inserted_at_ms new) r"
  shows "fire_trigger en new ExpiredRetention db = db"
  using assms by (auto simp: trigger_eqs list_ex_iff expired_same [OF refl] simp del: fire_trigger.simps)

lemma trigger_order:
  assumes "engine_ok en"
  shows "en_triggers en \<in> {[ExpiredRetention, CountRetention, BytesRetention], [ExpiredRetention, BytesRetention, CountRetention],
      [CountRetention, ExpiredRetention, BytesRetention], [CountRetention, BytesRetention, ExpiredRetention],
      [BytesRetention, ExpiredRetention, CountRetention], [BytesRetention, CountRetention, ExpiredRetention]}"
proof -
  have m: "mset (en_triggers en) = {#ExpiredRetention, CountRetention, BytesRetention#}" using assms by (simp add: engine_ok_def)
  then have "length (en_triggers en) = 3" by (metis size_mset size_add_mset size_empty numeral_3_eq_3)
  then obtain x y z where "en_triggers en = [x, y, z]" by (auto simp: numeral_3_eq_3 length_Suc_conv)
  moreover have "set (en_triggers en) = {ExpiredRetention, CountRetention, BytesRetention}"
    using arg_cong [OF m, of set_mset] by simp
  ultimately show ?thesis using m by (cases x; cases y; cases z) auto
qed

text \<open>
  C36. The SQL retention triggers and the Rust retention loop are the same policy. When SQLite meets rows in
  insertion order, inserting a new row, with all three triggers it fires, leaves the database exactly as
  storing the row and then running the loop of the store with the default limits at the time of the
  insertion, drop counters included, whichever limits are exceeded: always when the age trigger fires first, and
  in any order of the triggers when no row of the table is past the maximal age.
\<close>

theorem triggers_agree_with_loop:
  assumes "engine_ok en" "en_scan en = (\<lambda>rs. rs)" "spool_wf db" "row_wf new" "find_row (row_key new) db = None"
    and "hd (en_triggers en) = ExpiredRetention
      \<or> (\<forall>r \<in> set (db_spool db). \<not> row_expired default_limits (sp_inserted_at_ms new) r)"
  shows "insert_row en new db
    = enforce_and_record en default_limits (sp_inserted_at_ms new) (db\<lparr>db_spool := db_spool db @ [new]\<rparr>)"
proof -
  let ?db = "db\<lparr>db_spool := db_spool db @ [new]\<rparr>" and ?fire = "fire_trigger en new"
  have wf: "spool_wf ?db" using assms(3-5) by (auto simp: spool_wf_def find_row_None)
  let ?db1 = "?fire ExpiredRetention ?db"
  note loop = expired_then_limits [OF wf assms(2) refl, of new]
  note limits = both_limits [OF loop(2) assms(2), of new]
  note order = trigger_order [OF assms(1)]
  show ?thesis
  proof (cases "hd (en_triggers en) = ExpiredRetention")
    case True
    with order have "fold ?fire (en_triggers en) ?db = ?fire BytesRetention (?fire CountRetention ?db1)
        \<or> fold ?fire (en_triggers en) ?db = ?fire CountRetention (?fire BytesRetention ?db1)" by auto
    with assms(5) loop(1) limits show ?thesis by (auto simp: insert_row_def simp del: fire_trigger.simps)
  next
    case False
    have new: "\<not> row_expired default_limits (sp_inserted_at_ms new) new"
      by (simp add: row_expired_def default_limits_def spool_hard_max_age_ms_def i64_of_u64_def sat_sub_i64_def i64_max_def i64_min_def)
    with False assms(6) have none: "\<forall>r \<in> set (db_spool ?db). \<not> row_expired default_limits (sp_inserted_at_ms new) r" by auto
    then have idle: "?fire ExpiredRetention d = d" if "set (db_spool d) \<subseteq> set (db_spool ?db)" for d
      using that by (intro expired_idle) blast
    have sub: "set (db_spool (?fire t d)) \<subseteq> set (db_spool d)" for t d
      using trigger_filter [of en new t d] by (metis filter_is_subset)
    then have subs: "set (db_spool (?fire t ?db)) \<subseteq> set (db_spool ?db)"
      "set (db_spool (?fire t2 (?fire t ?db))) \<subseteq> set (db_spool ?db)" for t t2 by blast+
    have "fold ?fire (en_triggers en) ?db = ?fire BytesRetention (?fire CountRetention ?db)
        \<or> fold ?fire (en_triggers en) ?db = ?fire CountRetention (?fire BytesRetention ?db)"
      using order idle [OF order_refl] idle [OF subs(1)] idle [OF subs(2)] by (auto simp del: fire_trigger.simps)
    with assms(5) loop(1) limits idle [OF order_refl] show ?thesis by (auto simp: insert_row_def simp del: fire_trigger.simps)
  qed
qed

text \<open>A full table: the insertion drops one of the 256 rows that were there.\<close>

definition crowded_database :: database where
  "crowded_database = empty_database\<lparr>db_spool := map (\<lambda>n. demo_row n 1 5) [0..<256]\<rparr>"

lemma crowded_database_wf: "spool_wf crowded_database" "find_row (row_key (demo_row 300 2 7)) crowded_database = None" "row_wf (demo_row 300 2 7)"
  "\<forall>r \<in> set (db_spool crowded_database). \<not> row_expired default_limits 7 r"
proof -
  have "inj_on (\<lambda>n. row_key (demo_row n 1 5)) A" for A by (auto simp: inj_on_def row_key_def demo_row_def)
  then show "spool_wf crowded_database"
    by (auto simp: spool_wf_def crowded_database_def row_wf_def demo_row_def distinct_map comp_def)
  show "find_row (row_key (demo_row 300 2 7)) crowded_database = None" "row_wf (demo_row 300 2 7)"
    by (auto simp: find_row_None crowded_database_def row_key_def demo_row_def row_wf_def)
  show "\<forall>r \<in> set (db_spool crowded_database). \<not> row_expired default_limits 7 r"
    by (auto simp: crowded_database_def row_expired_def demo_row_def default_limits_def i64_of_u64_def i64_max_def
        i64_min_def sat_sub_i64_def spool_hard_max_age_ms_def)
qed

theorem triggers_agree_with_loop_witness:
  "\<exists>db'. insert_row rowid_engine (demo_row 300 2 7) crowded_database = db'
    \<and> enforce_and_record rowid_engine default_limits 7
        (crowded_database\<lparr>db_spool := db_spool crowded_database @ [demo_row 300 2 7]\<rparr>) = db'
    \<and> length (db_spool db') = 256 \<and> ar_limit_drops (db_app db') = 1"
proof -
  let ?new = "demo_row 300 2 7" and ?db = "crowded_database\<lparr>db_spool := db_spool crowded_database @ [demo_row 300 2 7]\<rparr>"
  have agree: "insert_row rowid_engine ?new crowded_database
      = enforce_and_record rowid_engine default_limits (sp_inserted_at_ms ?new) ?db"
    by (rule triggers_agree_with_loop [OF rowid_engine_ok _ crowded_database_wf(1,3,2)]) (simp_all add: rowid_engine_def)
  have wf: "spool_wf ?db" using crowded_database_wf(1-3) by (auto simp: spool_wf_def find_row_None)
  have none: "\<forall>r \<in> set (db_spool ?db). \<not> row_expired default_limits 7 r"
    using crowded_database_wf(4) by (auto simp: row_expired_def demo_row_def default_limits_def i64_of_u64_def i64_max_def
        i64_min_def sat_sub_i64_def spool_hard_max_age_ms_def)
  have order: "drop_order ?db = db_spool ?db"
  proof -
    have "filter is_pending (db_spool ?db) = db_spool ?db"
      by (auto simp: filter_id_conv crowded_database_def demo_row_def is_pending_def)
    moreover have "map drop_key (db_spool ?db) = replicate 256 (1, 5) @ [(2, 7)]"
      by (simp add: crowded_database_def demo_row_def drop_key_def map_replicate_const comp_def)
    then have "sorted (map drop_key (db_spool ?db))" by (simp add: sorted_append sorted_replicate)
    ultimately show ?thesis by (simp add: drop_order_def sort_key_id_if_sorted)
  qed
  have size: "length (db_spool ?db) = 257" by (simp add: crowded_database_def)
  have bytes: "total_bytes (db_spool ?db) = 514"
    by (simp add: crowded_database_def total_bytes_def row_bytes_def demo_row_def comp_def byte_len_def utf8_width_def lit_def
        sum_list_triv)
  have victims: "loop_victims default_limits ?db = take 1 (db_spool ?db)"
    using take_is_loop [of 514 default_limits 257 "db_spool ?db"] order [unfolded drop_order_def] size bytes
    by (simp add: loop_victims_def default_limits_def spool_hard_max_count_def spool_hard_max_bytes_def)
  have "db_spool ?db = take 1 (db_spool ?db) @ drop 1 (db_spool ?db)" by (rule append_take_drop_id [symmetric])
  note drop = drop_prefix [OF wf order [THEN trans, OF this]]
  have enforce: "enforce_and_record rowid_engine default_limits 7 ?db = counted_limit (victims_of (take 1 (db_spool ?db))) ?db"
  proof -
    have scan: "en_scan rowid_engine = (\<lambda>rs. rs)" by (simp add: rowid_engine_def)
    show ?thesis
      unfolding victims [symmetric] enforce_unexpired [OF scan none]
      by (rule counted_limit_deletes [OF wf loop_victims_sub [OF wf], symmetric])
  qed
  have "length (filter (victims_of (take 1 (db_spool ?db))) (db_spool ?db)) = 1"
    using wf drop(5,6) size by (subst victims_count) (simp_all add: spool_wf_def)
  then have "ar_limit_drops (db_app (counted_limit (victims_of (take 1 (db_spool ?db))) ?db)) = 1"
    by (simp add: counted_limit_def delete_rows_def increment_spool_metrics_def crowded_database_def empty_database_def empty_app_state_def)
  moreover have "length (db_spool (counted_limit (victims_of (take 1 (db_spool ?db))) ?db)) = 256"
    unfolding drop(2) length_take size by simp
  moreover have "sp_inserted_at_ms ?new = 7" by (simp add: demo_row_def)
  ultimately show ?thesis using agree enforce by metis
qed

end
