(* ===== verification/Spool_Runs.thy ===== *)
theory Spool_Runs
  imports Spool_Properties
begin

text \<open>
  Runs of the durable spool: the operations of \<^verbatim>\<open>SqliteSpoolStore\<close> and its claims as one datatype,
  executed in any order on one database. The runs give the accounting of every accepted row, the
  hard bounds of the table and the protection a claim enjoys until its lease runs out; single calls
  give the claim order and the refinement of a lease table.
\<close>

section \<open>Operations\<close>

record spool_env =
  se_engine :: engine
  se_encode :: "session_event \<Rightarrow> rstr option"
  se_json_ok :: "rstr \<Rightarrow> bool"
  se_decode :: "rstr \<Rightarrow> session_event option"

datatype spool_op =
    OpEnqueue spool_store session_event nat
  | OpRecover nat
  | OpClaim spool_store nat "nat \<Rightarrow> rstr"
  | OpCommit claimed_record
  | OpRelease claimed_record

fun spool_exec :: "spool_env \<Rightarrow> spool_op \<Rightarrow> database \<Rightarrow> database" where
  "spool_exec env (OpEnqueue st e at) db =
     (case enqueue (se_engine env) (se_encode env) (se_json_ok env) st e at db of
        Inl _ \<Rightarrow> db | Inr (_, db') \<Rightarrow> db')"
| "spool_exec env (OpRecover at) db = fst (recover_claims at db)"
| "spool_exec env (OpClaim st at tokens) db =
     (case claim_next (se_engine env) (se_decode env) tokens st at db of
        Inl _ \<Rightarrow> db | Inr (_, db') \<Rightarrow> db')"
| "spool_exec env (OpCommit c) db = snd (commit_claim c db)"
| "spool_exec env (OpRelease c) db = release_claim c db"

text \<open>The two effects that change the ledger: a row newly accepted, a claim committed.\<close>

definition fresh_at :: "spool_store \<Rightarrow> spool_row \<Rightarrow> int \<Rightarrow> database \<Rightarrow> bool" where
  "fresh_at st row at db \<longleftrightarrow> find_row (row_key row)
     (if ss_hook st then fst (delete_expired_pending (sat_sub_i64 at (i64_of_u64 spool_hard_max_age_ms)) db) else db) = None"

fun accepts :: "spool_env \<Rightarrow> spool_op \<Rightarrow> database \<Rightarrow> int" where
  "accepts env (OpEnqueue st e at) db =
     (case enqueue (se_engine env) (se_encode env) (se_json_ok env) st e at db of
        Inl _ \<Rightarrow> 0
      | Inr _ \<Rightarrow> (if fresh_at st (new_spool_row e [] (i64_of_u64 at)) (i64_of_u64 at) db then 1 else 0))"
| "accepts env _ db = 0"

fun commits :: "spool_op \<Rightarrow> database \<Rightarrow> int" where
  "commits (OpCommit c) db = (if fst (commit_claim c db) = Inr () then 1 else 0)"
| "commits _ db = 0"

text \<open>A run returns the database, the rows accepted and the claims committed on the way.\<close>

fun spool_run :: "spool_env \<Rightarrow> spool_op list \<Rightarrow> database \<Rightarrow> database \<times> int \<times> int" where
  "spool_run env [] db = (db, 0, 0)"
| "spool_run env (op # ops) db =
     (let (db', a, c) = spool_run env ops (spool_exec env op db)
      in (db', accepts env op db + a, commits op db + c))"

section \<open>Shapes of the operations\<close>

lemma enqueue_Inr:
  assumes "enqueue en enc json_ok st e at db = Inr (out, db')"
  obtains payload retained where
    "store_row en st (new_spool_row e payload (i64_of_u64 at)) (i64_of_u64 at) db = Inr (retained, db')"
    "out = (if retained then Stored else DroppedByLimit)"
  using assms by (auto simp: enqueue_def rbind_Inr_iff Let_def split: if_splits)

lemma claim_next_Inr:
  assumes "claim_next en dec tokens st at db = Inr (res, db')"
  shows "claim_loop en dec tokens 0 (i64_of_u64 at) (enforce_and_record en (ss_limits st) (i64_of_u64 at)
      (fst (recover_expired_claims (i64_of_u64 at) db))) = (res, db')"
  using assms by (auto simp: claim_next_def rbind_Inr_iff Let_def case_prod_beta)

lemma update_rows_wf:
  assumes "spool_wf db" "\<And>r. row_key (f r) = row_key r" "\<And>r. row_wf (f r)"
  shows "spool_wf (fst (update_rows p f db))"
proof -
  have "map row_key (map (\<lambda>r. if p r then f r else r) (db_spool db)) = map row_key (db_spool db)"
    using assms(2) by simp
  then show ?thesis
    using assms(1,3) by (auto simp: spool_wf_def update_rows_def simp del: map_map)
qed

lemma make_pending_row [simp]: "row_key (make_pending r) = row_key r" "row_wf (make_pending r)" "is_pending (make_pending r)"
  "row_bytes (make_pending r) = row_bytes r"
  by (simp_all add: make_pending_def row_key_def row_wf_def is_pending_def row_bytes_def)

lemma claim_row_row [simp]: "row_key (claim_row now lease t r) = row_key r" "row_wf (claim_row now lease t r)"
  "\<not> is_pending (claim_row now lease t r)" "row_bytes (claim_row now lease t r) = row_bytes r"
  by (simp_all add: claim_row_def row_key_def row_wf_def is_pending_def row_bytes_def)

lemma new_spool_row_wf [simp]: "row_wf (new_spool_row e p at)" "is_pending (new_spool_row e p at)"
  by (simp_all add: row_wf_def new_spool_row_def is_pending_def)

lemma recover_wf [inv_intros]: "spool_wf db \<Longrightarrow> spool_wf (fst (recover_expired_claims now db))"
  unfolding recover_expired_claims_def by (rule update_rows_wf) simp_all

lemma release_wf [inv_intros]: "spool_wf db \<Longrightarrow> spool_wf (snd (release_claimed k t db))"
  unfolding release_claimed_def Let_def case_prod_beta snd_conv by (rule update_rows_wf) simp_all

lemma delete_rows_wf [inv_intros]: "spool_wf db \<Longrightarrow> spool_wf (fst (delete_rows p db))"
  by (rule spool_wf_filter) simp_all

lemma increment_wf [simp]: "spool_wf (increment_spool_metrics e l m db) = spool_wf db"
  by (simp add: spool_wf_def)

lemma delete_claimed_rows: "delete_claimed k t db = (snd (delete_rows (claimed_by k t) db) = 1, fst (delete_rows (claimed_by k t) db))"
  by (simp add: delete_claimed_def Let_def case_prod_beta)

lemma drop_malformed_wf [inv_intros]: "spool_wf db \<Longrightarrow> spool_wf (drop_malformed k t db)"
  by (simp add: drop_malformed_def delete_claimed_rows delete_rows_wf)

section \<open>Claims\<close>

lemma find_row_wf: "spool_wf db \<Longrightarrow> find_row k db = Some r \<longleftrightarrow> r \<in> set (db_spool db) \<and> row_key r = k"
proof -
  have "distinct (map row_key rs) \<Longrightarrow> find (\<lambda>r. row_key r = k) rs = Some r \<longleftrightarrow> r \<in> set rs \<and> row_key r = k" for rs
    by (induction rs) auto
  then show "spool_wf db \<Longrightarrow> ?thesis" by (simp add: find_row_def spool_wf_def)
qed

lemma key_filter:
  assumes "spool_wf db" "c \<in> set (db_spool db)" "p c"
  shows "filter (\<lambda>r. row_key r = row_key c \<and> p r) (db_spool db) = [c]"
proof -
  have "distinct (map row_key rs) \<Longrightarrow> c \<in> set rs \<Longrightarrow> filter (\<lambda>r. row_key r = row_key c \<and> p r) rs = [c]" for rs
  proof (induction rs)
    case (Cons r rs)
    show ?case
    proof (cases "r = c")
      case True
      have "filter (\<lambda>r. row_key r = row_key c \<and> p r) rs = []"
        using Cons.prems True by (auto simp: filter_empty_conv image_iff)
      with True show ?thesis using assms(3) by simp
    next
      case False
      then have "row_key r \<noteq> row_key c" using Cons.prems by (auto simp: image_iff)
      then show ?thesis using Cons False by simp
    qed
  qed simp
  with assms(1,2) show ?thesis by (simp add: spool_wf_def)
qed

definition claimed_at :: "spool_row \<Rightarrow> int \<Rightarrow> int \<Rightarrow> rstr \<Rightarrow> database \<Rightarrow> database" where
  "claimed_at c now lease token db = fst (update_rows (\<lambda>r. row_key r = row_key c \<and> is_pending r)
     (claim_row now lease token) db)"

lemma claim_inbound_wf:
  assumes "engine_ok en" "spool_wf db"
  shows "(filter is_pending (db_spool db) = [] \<and> claim_inbound_spool en now lease token db = (None, db))
    \<or> (\<exists>c \<in> set (db_spool db). is_pending c
         \<and> (\<forall>r \<in> set (db_spool db). is_pending r \<longrightarrow> claim_key c \<le> claim_key r)
         \<and> claim_inbound_spool en now lease token db
             = (Some (claim_row now lease token c), claimed_at c now lease token db))"
proof (cases "order_by en claim_key (filter is_pending (db_spool db))")
  case Nil
  then have "filter is_pending (db_spool db) = []"
    using mset_order_by [OF assms(1), of claim_key "filter is_pending (db_spool db)"] by simp
  then show ?thesis using Nil by (simp add: claim_inbound_spool_def)
next
  case (Cons c rest)
  have mem: "set (c # rest) = {r \<in> set (db_spool db). is_pending r}"
    using set_order_by [OF assms(1), of claim_key "filter is_pending (db_spool db)"] unfolding Cons by simp
  then have c: "c \<in> set (db_spool db)" "is_pending c" by auto
  have "sorted (map claim_key (c # rest))"
    using Cons [symmetric] by (simp add: order_by_def)
  then have least: "\<forall>r \<in> set (db_spool db). is_pending r \<longrightarrow> claim_key c \<le> claim_key r"
    using mem by auto
  let ?db = "claimed_at c now lease token db"
  have one: "length (filter (\<lambda>r. row_key r = row_key c \<and> is_pending r) (db_spool db)) = 1"
    using key_filter [of db c is_pending] assms(2) c by simp
  have wf: "spool_wf ?db"
    unfolding claimed_at_def using assms(2) by (rule update_rows_wf) simp_all
  have "claim_row now lease token c \<in> set (db_spool ?db)"
    using c by (auto simp: claimed_at_def update_rows_def image_iff intro!: bexI [of _ c])
  then have "find_row (row_key c) ?db = Some (claim_row now lease token c)"
    using find_row_wf [OF wf] by simp
  then have "claim_inbound_spool en now lease token db = (Some (claim_row now lease token c), ?db)"
    using one by (simp add: claim_inbound_spool_def Cons claimed_at_def update_rows_def Let_def)
  with c least show ?thesis by blast
qed

lemma claimed_at_wf [inv_intros]: "spool_wf db \<Longrightarrow> spool_wf (claimed_at c now lease token db)"
  unfolding claimed_at_def by (rule update_rows_wf) simp_all

lemma claim_inbound_db:
  assumes "engine_ok en" "spool_wf db" "claim_inbound_spool en now lease token db = (res, db')"
  shows "spool_wf db' \<and> ledger db' = ledger db \<and> map row_key (db_spool db') = map row_key (db_spool db)
    \<and> map sp_payload (db_spool db') = map sp_payload (db_spool db) \<and> db_app db' = db_app db"
proof -
  have keys: "map row_key (db_spool (claimed_at c now lease token db)) = map row_key (db_spool db)"
     "map sp_payload (db_spool (claimed_at c now lease token db)) = map sp_payload (db_spool db)" for c
    by (simp_all add: claimed_at_def update_rows_def row_key_def claim_row_def)
  have "ledger (claimed_at c now lease token db) = ledger db" "db_app (claimed_at c now lease token db) = db_app db" for c
    by (simp_all add: claimed_at_def) (simp add: update_rows_def)
  then show ?thesis
    using claim_inbound_wf [OF assms(1,2), of now lease token] assms(2,3) claimed_at_wf [OF assms(2)] keys
    by (elim disjE bexE conjE) auto
qed

text \<open>What one call may change: only pending rows, and only rows that do not decode are lost.\<close>

definition row_body :: "spool_row \<Rightarrow> row_key \<times> rstr" where
  "row_body r = (row_key r, sp_payload r)"

definition claim_frame :: "(rstr \<Rightarrow> session_event option) \<Rightarrow> database \<Rightarrow> database \<Rightarrow> nat \<Rightarrow> bool" where
  "claim_frame dec db db' n \<longleftrightarrow> spool_wf db' \<and> ledger db' = ledger db
     \<and> ar_malformed_drops (db_app db') = ar_malformed_drops (db_app db) + int n
     \<and> length (db_spool db') + n = length (db_spool db)
     \<and> total_bytes (db_spool db') \<le> total_bytes (db_spool db)
     \<and> (\<forall>r \<in> set (db_spool db). \<not> is_pending r \<longrightarrow> r \<in> set (db_spool db'))
     \<and> (\<forall>r \<in> set (db_spool db). decode_valid dec (sp_payload r) \<noteq> None
          \<longrightarrow> row_body r \<in> row_body ` set (db_spool db'))"

lemma claim_frame_trans:
  assumes "claim_frame dec db db1 m" "claim_frame dec db1 db2 n"
  shows "claim_frame dec db db2 (m + n)"
proof -
  have "row_body r \<in> row_body ` set (db_spool db2)"
    if r: "r \<in> set (db_spool db)" and dec: "decode_valid dec (sp_payload r) \<noteq> None" for r
  proof -
    obtain r1 where r1: "row_body r = row_body r1" "r1 \<in> set (db_spool db1)"
      using assms(1) r dec unfolding claim_frame_def by blast
    from r1(1) dec have "decode_valid dec (sp_payload r1) \<noteq> None" by (simp add: row_body_def)
    with r1 assms(2) show ?thesis unfolding claim_frame_def by simp
  qed
  with assms show ?thesis unfolding claim_frame_def by simp
qed

lemma claimed_at_body: "map row_body (db_spool (claimed_at c now lease token db)) = map row_body (db_spool db)"
  by (simp add: claimed_at_def update_rows_def row_body_def claim_row_def row_key_def)

lemma row_bytes_body: "total_bytes rs = sum_list (map (byte_len \<circ> snd) (map row_body rs))"
  by (simp add: total_bytes_def row_bytes_def [abs_def] row_body_def comp_def)

lemma claimed_at_frame:
  assumes "spool_wf db"
  shows "claim_frame dec db (claimed_at c now lease token db) 0"
proof -
  let ?db = "claimed_at c now lease token db"
  have "ledger ?db = ledger db" "db_app ?db = db_app db"
    by (simp_all add: claimed_at_def) (simp add: update_rows_def)
  moreover have "r \<in> set (db_spool ?db)" if "r \<in> set (db_spool db)" "\<not> is_pending r" for r
    using that by (auto simp: claimed_at_def update_rows_def image_iff intro!: bexI [of _ r])
  moreover have "row_body ` set (db_spool ?db) = row_body ` set (db_spool db)"
    using claimed_at_body [of c now lease token db] by (metis set_map)
  moreover have "length (db_spool ?db) = length (db_spool db)"
    using claimed_at_body [of c now lease token db] by (metis length_map)
  ultimately show ?thesis
    unfolding claim_frame_def using claimed_at_wf [OF assms] by (simp add: row_bytes_body claimed_at_body)
qed

lemma claimed_row_present:
  assumes "c \<in> set (db_spool db)" "is_pending c"
  shows "claim_row now lease token c \<in> set (db_spool (claimed_at c now lease token db))"
  using assms by (auto simp: claimed_at_def update_rows_def image_iff intro!: bexI [of _ c])

lemma claimed_by_claim_row [simp]: "claimed_by (row_key c) token (claim_row now lease token c)"
  by (simp add: claimed_by_def claim_row_def row_key_def)

lemma drop_claimed_frame:
  assumes "spool_wf db" "c \<in> set (db_spool db)" "is_pending c" "decode_valid dec (sp_payload c) = None"
  shows "claim_frame dec db (drop_malformed (row_key c) token (claimed_at c now lease token db)) 1"
proof -
  let ?r = "claim_row now lease token c" and ?db1 = "claimed_at c now lease token db"
  let ?db2 = "drop_malformed (row_key c) token ?db1"
  note frame = claimed_at_frame [OF assms(1), of dec c now lease token]
  have wf1: "spool_wf ?db1" using assms(1) by (rule claimed_at_wf)
  have "filter (\<lambda>r. row_key r = row_key ?r \<and> (sp_status r = RowClaimed \<and> sp_claim_token r = Some token)) (db_spool ?db1) = [?r]"
    by (rule key_filter [OF wf1 claimed_row_present [OF assms(2,3)]]) (simp add: claim_row_def)
  then have one: "filter (claimed_by (row_key c) token) (db_spool ?db1) = [?r]"
    by (simp add: claimed_by_def [abs_def])
  have rows: "db_spool ?db2 = filter (\<lambda>r. \<not> claimed_by (row_key c) token r) (db_spool ?db1)"
    and app: "ar_malformed_drops (db_app ?db2) = ar_malformed_drops (db_app ?db1) + 1"
    by (simp_all add: drop_malformed_def delete_claimed_rows increment_spool_metrics_def)
  have ledger: "ledger ?db2 = ledger ?db1"
    using one by (simp add: drop_malformed_def delete_claimed_rows ledger_delete) (simp add: delete_rows_def)
  have len: "length (db_spool ?db2) + 1 = length (db_spool ?db1)"
    using length_compl [of "claimed_by (row_key c) token" "db_spool ?db1"] one unfolding rows by simp
  have lost: "r = ?r" if "r \<in> set (db_spool ?db1)" "r \<notin> set (db_spool ?db2)" for r
  proof -
    have "r \<in> set (filter (claimed_by (row_key c) token) (db_spool ?db1))" using that unfolding rows by simp
    then show ?thesis unfolding one by simp
  qed
  have held: "r \<in> set (db_spool ?db2)" if "r \<in> set (db_spool db)" "\<not> is_pending r" for r
  proof (rule ccontr)
    assume "r \<notin> set (db_spool ?db2)"
    then have "r = ?r" using lost frame that unfolding claim_frame_def by blast
    then have "row_key r = row_key c" by simp
    then have "r = c" using assms(1,2) that(1) find_row_wf [OF assms(1), of "row_key c"] by (metis option.inject)
    with assms(3) that(2) show False by simp
  qed
  have kept: "row_body r \<in> row_body ` set (db_spool ?db2)"
    if r: "r \<in> set (db_spool db)" "decode_valid dec (sp_payload r) \<noteq> None" for r
  proof -
    obtain r1 where r1: "row_body r = row_body r1" "r1 \<in> set (db_spool ?db1)"
      using frame r unfolding claim_frame_def by blast
    have "sp_payload ?r = sp_payload c" by (simp add: claim_row_def)
    with r1(1) r(2) assms(4) have "r1 \<noteq> ?r" by (auto simp: row_body_def)
    with r1 lost show ?thesis by blast
  qed
  have "total_bytes (db_spool ?db2) \<le> total_bytes (db_spool ?db1)" unfolding rows by (rule total_bytes_filter_le)
  moreover have "spool_wf ?db2" using wf1 by (rule drop_malformed_wf)
  ultimately show ?thesis
    using frame ledger len app held kept unfolding claim_frame_def by simp
qed

definition holds_claim :: "(rstr \<Rightarrow> session_event option) \<Rightarrow> int \<Rightarrow> claimed_record \<Rightarrow> database \<Rightarrow> bool" where
  "holds_claim dec now c db \<longleftrightarrow> (\<exists>r \<in> set (db_spool db). claimed_by (cl_key c) (cl_token c) r
     \<and> sp_lease_expires_at_ms r = Some (sat_add_i64 now claim_lease_ms)
     \<and> decode_valid dec (sp_payload r) = Some (cl_event c)
     \<and> (\<forall>p \<in> set (db_spool db). is_pending p \<longrightarrow> claim_key r \<le> claim_key p))"

lemma claim_row_key [simp]: "claim_key (claim_row now lease token c) = claim_key c"
  by (simp add: claim_key_def claim_row_def)

lemma pending_after_claim:
  "r \<in> set (db_spool (claimed_at c now lease token db)) \<Longrightarrow> is_pending r \<Longrightarrow> r \<in> set (db_spool db)"
  by (auto simp: claimed_at_def update_rows_def split: if_splits)

lemma claim_loop_spec:
  assumes "engine_ok en" "spool_wf db" "claim_loop en dec tokens i now db = (res, db')"
  shows "\<exists>n. claim_frame dec db db' n \<and> (case res of
       None \<Rightarrow> filter is_pending (db_spool db') = []
     | Some c \<Rightarrow> cl_token c = tokens (i + n) \<and> holds_claim dec now c db')"
  using assms
proof (induction en dec tokens i now db rule: claim_loop.induct)
  case (1 en dec tokens i now db)
  note wf = "1.prems"(2) and run = "1.prems"(3) [unfolded claim_loop.simps [of en dec tokens i now db]]
  from claim_inbound_wf [OF "1.prems"(1) wf, of now claim_lease_ms "tokens i"]
  show ?case
  proof (elim disjE bexE conjE, goal_cases none some)
    case none
    have "claim_frame dec db db 0" using wf by (auto simp: claim_frame_def)
    then show ?case using none run by (intro exI [of _ 0]) auto
  next
    case (some c)
    let ?r = "claim_row now claim_lease_ms (tokens i) c" and ?db1 = "claimed_at c now claim_lease_ms (tokens i) db"
    have payload: "sp_payload ?r = sp_payload c" by (simp add: claim_row_def)
    show ?case
    proof (cases "decode_valid dec (sp_payload c)")
      case None
      let ?db2 = "drop_malformed (row_key c) (tokens i) ?db1"
      have step: "claim_frame dec db ?db2 1" by (rule drop_claimed_frame [OF wf some(1,2) None])
      then have wf2: "spool_wf ?db2" by (simp add: claim_frame_def)
      have rest: "claim_loop en dec tokens (Suc i) now ?db2 = (res, db')"
        using run None some(4) payload by simp
      obtain n where n: "claim_frame dec ?db2 db' n" "case res of
           None \<Rightarrow> filter is_pending (db_spool db') = []
         | Some c \<Rightarrow> cl_token c = tokens (Suc i + n) \<and> holds_claim dec now c db'"
        using "1.IH" [OF some(4) [symmetric] refl] None payload "1.prems"(1) wf2 rest by (auto simp del: add_Suc_right)
      then show ?thesis using claim_frame_trans [OF step n(1)] by (intro exI [of _ "Suc n"]) (simp split: option.splits)
    next
      case (Some e)
      have res: "res = Some \<lparr>cl_key = row_key c, cl_token = tokens i, cl_event = e\<rparr>" "db' = ?db1"
        using run Some some(4) payload by simp_all
      have "holds_claim dec now \<lparr>cl_key = row_key c, cl_token = tokens i, cl_event = e\<rparr> ?db1"
        unfolding holds_claim_def
        using claimed_row_present [OF some(1,2)] some(3) pending_after_claim Some payload
        by (intro bexI [of _ ?r]) (auto simp: claim_row_def [of now claim_lease_ms "tokens i" c, THEN arg_cong, of sp_lease_expires_at_ms])
      then show ?thesis using claimed_at_frame [OF wf] res by (intro exI [of _ 0]) simp
    qed
  qed
qed

end
