(* ===== verification/Spool_Retention.thy ===== *)
theory Spool_Retention
  imports Spool_Runs
begin

text \<open>
  Retention on a whole table: neither the triggers nor the loop of the store remove a claimed row,
  and an insertion under the triggers keeps the table within the hard bounds.
\<close>

section \<open>Retention never touches a claimed row\<close>

definition keeps_claims :: "database \<Rightarrow> database \<Rightarrow> bool" where
  "keeps_claims db db' \<longleftrightarrow> (\<forall>r \<in> set (db_spool db). \<not> is_pending r \<longrightarrow> r \<in> set (db_spool db'))"

lemma keeps_refl [simp]: "keeps_claims db db"
  by (simp add: keeps_claims_def)

lemma keeps_trans: "keeps_claims a b \<Longrightarrow> keeps_claims b c \<Longrightarrow> keeps_claims a c"
  by (simp add: keeps_claims_def)

lemma keeps_same_rows: "db_spool db' = db_spool db \<Longrightarrow> keeps_claims db db'"
  by (simp add: keeps_claims_def)

lemma victims_claimed:
  assumes "spool_wf db" "r \<in> set (db_spool db)" "\<not> is_pending r" "set vs \<subseteq> set (db_spool db)" "\<forall>v \<in> set vs. is_pending v"
  shows "\<not> victims_of vs r"
proof
  assume "victims_of vs r"
  then obtain v where v: "v \<in> set vs" "row_key v = row_key r" by (auto simp: victims_of_def)
  then have "v = r" using assms(2,4) find_row_wf [OF assms(1), of "row_key r"] by (metis option.inject subsetD)
  with v(1) assms(3,5) show False by blast
qed

lemma count_victims_pending:
  assumes "engine_ok en"
  shows "set (count_victims en db) \<subseteq> {r \<in> set (db_spool db). is_pending r}"
  using set_order_by [OF assms, of drop_key "filter is_pending (db_spool db)"]
  by (auto simp: count_victims_def dest!: in_set_takeD)

lemma window_victims_sub: "set (window_victims limit tot seen rs) \<subseteq> set rs"
  by (induction rs arbitrary: seen) auto

lemma bytes_victims_pending: "set (bytes_victims db) \<subseteq> {r \<in> set (db_spool db). is_pending r}"
  using window_victims_sub by (fastforce simp: bytes_victims_def)

lemma trigger_keeps:
  assumes "engine_ok en" "spool_wf db"
  shows "keeps_claims db (fire_trigger en new t db)"
proof (cases t)
  case ExpiredRetention
  then show ?thesis by (simp add: trigger_eqs keeps_claims_def del: fire_trigger.simps)
next
  case CountRetention
  then show ?thesis
    using victims_claimed [OF assms(2), of _ "count_victims en db"] count_victims_pending [OF assms(1), of db]
    by (auto simp: trigger_eqs keeps_claims_def simp del: fire_trigger.simps)
next
  case BytesRetention
  then show ?thesis
    using victims_claimed [OF assms(2), of _ "bytes_victims db"] bytes_victims_pending [of db]
    by (auto simp: trigger_eqs keeps_claims_def simp del: fire_trigger.simps)
qed

lemma trigger_wf: "spool_wf db \<Longrightarrow> spool_wf (fire_trigger en new t db)"
  using trigger_filter spool_wf_filter by metis

lemma triggers_keep: "engine_ok en \<Longrightarrow> spool_wf db \<Longrightarrow> keeps_claims db (fold (fire_trigger en new) ts db)"
proof (induction ts arbitrary: db)
  case (Cons t ts)
  have "keeps_claims (fire_trigger en new t db) (fold (fire_trigger en new) ts (fire_trigger en new t db))"
    by (rule Cons.IH [OF Cons.prems(1) trigger_wf [OF Cons.prems(2)]])
  with trigger_keeps [OF Cons.prems] show ?case by (simp add: keeps_claims_def del: fire_trigger.simps)
qed simp

lemma insert_row_keeps:
  assumes "engine_ok en" "spool_wf db" "row_wf new"
  shows "keeps_claims db (insert_row en new db)"
proof (cases "find_row (row_key new) db")
  case None
  let ?db = "db\<lparr>db_spool := db_spool db @ [new]\<rparr>"
  have "spool_wf ?db" using assms None by (auto simp: spool_wf_def find_row_None)
  then have "keeps_claims ?db (fold (fire_trigger en new) (en_triggers en) ?db)" by (rule triggers_keep [OF assms(1)])
  with None show ?thesis by (simp add: insert_row_def keeps_claims_def)
qed (simp add: insert_row_def)

lemma expired_pending_keeps: "keeps_claims db (fst (delete_expired_pending cutoff db))"
  by (simp add: delete_expired_pending_def keeps_claims_def)

lemma enforce_keeps:
  assumes "engine_ok en" "spool_wf db"
  shows "keeps_claims db (enforce_and_record en l now db)"
proof -
  let ?E = "enforced_expired en l now db" and ?V = "enforced_victims en l now db"
  note parts = enforce_parts [OF assms, where l = l and now = now]
  have "set ?E \<subseteq> set (db_spool db)" "set ?V \<subseteq> set (db_spool db)"
    using parts(2,5) by (metis mset_subset_eq_add_right set_mset_mono set_mset_mset,
      metis mset_subset_eq_add_left set_mset_mono set_mset_mset subset_trans)
  moreover have "\<forall>v \<in> set ?E. is_pending v" by (simp add: enforced_expired_def row_expired_def)
  moreover have "\<forall>v \<in> set ?V. is_pending v"
  proof -
    obtain rest where "sort_key drop_key (filter is_pending (enforced_retained en l now db)) = ?V @ rest"
      using enforced_victims_prefix [of en l now db] by blast
    from arg_cong [OF this, of set] show ?thesis by auto
  qed
  ultimately have "\<not> victims_of ?E r \<and> \<not> victims_of ?V r" if "r \<in> set (db_spool db)" "\<not> is_pending r" for r
    using victims_claimed [OF assms(2) that] by blast
  then show ?thesis
    by (simp add: keeps_claims_def enforce_and_record_def enforce_limits_eq delete_all_rows_eq)
qed

section \<open>The hard bounds\<close>

definition hard_bounded :: "database \<Rightarrow> bool" where
  "hard_bounded db \<longleftrightarrow> length (db_spool db) \<le> hard_max_count \<and> total_bytes (db_spool db) \<le> hard_max_bytes"

definition claims_bounded :: "database \<Rightarrow> bool" where
  "claims_bounded db \<longleftrightarrow> length (filter (\<lambda>r. \<not> is_pending r) (db_spool db)) \<le> hard_max_count
     \<and> total_bytes (filter (\<lambda>r. \<not> is_pending r) (db_spool db)) \<le> hard_max_bytes"

lemma total_bytes_compl: "total_bytes (filter (\<lambda>r. \<not> p r) rs) + total_bytes (filter p rs) = total_bytes rs"
  by (induction rs) (auto simp: total_bytes_def)

lemma claims_bounded_filter:
  assumes "claims_bounded db" "db_spool db' = filter p (db_spool db)"
  shows "claims_bounded db'"
proof -
  have swap: "filter (\<lambda>r. \<not> is_pending r) (filter p (db_spool db)) = filter p (filter (\<lambda>r. \<not> is_pending r) (db_spool db))"
    by (simp add: conj_commute)
  show ?thesis
    using assms(1) le_trans [OF length_filter_le, of _ _ p] le_trans [OF total_bytes_filter_le, of _ _ p]
    unfolding claims_bounded_def assms(2) swap by blast
qed

lemma count_retention_bound:
  assumes "engine_ok en" "spool_wf db" "claims_bounded db"
  shows "length (db_spool (fire_trigger en new CountRetention db)) \<le> hard_max_count"
proof (cases "hard_max_count < length (db_spool db)")
  case True
  let ?P = "order_by en drop_key (filter is_pending (db_spool db))" and ?vs = "count_victims en db"
  have P: "mset ?P = mset (filter is_pending (db_spool db))" by (rule mset_order_by [OF assms(1)])
  then have "distinct ?P"
    using assms(2) by (metis distinct_filter distinct_map mset_eq_imp_distinct_iff spool_wf_def)
  then have vs: "distinct ?vs" "set ?vs \<subseteq> set (db_spool db)"
    using count_victims_pending [OF assms(1), of db] by (auto simp: count_victims_def)
  have "length ?P = length (filter is_pending (db_spool db))" using P by (rule mset_eq_length)
  moreover have "length (db_spool db) - hard_max_count \<le> length (filter is_pending (db_spool db))"
    using length_compl [of is_pending "db_spool db"] assms(3) unfolding claims_bounded_def by linarith
  ultimately have "length ?vs = length (db_spool db) - hard_max_count" by (simp add: count_victims_def)
  moreover have "length (filter (victims_of ?vs) (db_spool db)) = length ?vs"
    using assms(2) vs by (intro victims_count) (simp_all add: spool_wf_def)
  ultimately show ?thesis
    using True length_compl [of "victims_of ?vs" "db_spool db"] by (simp add: trigger_eqs del: fire_trigger.simps)
qed (simp add: trigger_eqs del: fire_trigger.simps)

lemma bytes_retention_bound:
  assumes "spool_wf db" "claims_bounded db"
  shows "total_bytes (db_spool (fire_trigger en new BytesRetention db)) \<le> hard_max_bytes"
proof (cases "hard_max_bytes < total_bytes (db_spool db)")
  case True
  let ?l = "\<lparr>sl_max_count = length (db_spool db), sl_max_bytes = hard_max_bytes, sl_max_age_ms = 1\<rparr> :: spool_limits"
  let ?vs = "loop_victims ?l db" and ?P = "sort_key drop_key (filter is_pending (db_spool db))"
  have vs: "bytes_victims db = ?vs"
    using window_is_loop [of "length (db_spool db)" ?l "total_bytes (db_spool db)" 0]
    by (simp add: bytes_victims_def loop_victims_def)
  obtain rest where P: "?P = ?vs @ rest"
    and stop: "rest = [] \<or> total_bytes (db_spool db) - total_bytes ?vs \<le> hard_max_bytes"
    using limit_victims_prefix [of ?P "length (db_spool db)" "total_bytes (db_spool db)" ?l]
    by (auto simp: loop_victims_def total_bytes_filter_le)
  let ?rows = "filter (\<lambda>r. \<not> victims_of ?vs r) (db_spool db)"
  have "distinct (map row_key (db_spool db))" using assms(1) by (simp add: spool_wf_def)
  then have "mset ?rows + mset ?vs = mset (db_spool db)" using loop_victims_sub [OF assms(1)] by (rule mset_victims)
  then have total: "total_bytes (db_spool db) = total_bytes ?rows + total_bytes ?vs"
    by (rule total_bytes_mset [OF sym])
  have "total_bytes ?rows \<le> hard_max_bytes"
  proof (cases "rest = []")
    case True
    then have "total_bytes ?vs = total_bytes (filter is_pending (db_spool db))"
      using P by (metis append_Nil2 total_bytes_sort)
    then show ?thesis
      using total total_bytes_compl [of is_pending "db_spool db"] assms(2) unfolding claims_bounded_def by simp
  qed (use stop total in simp)
  then show ?thesis using True by (simp add: trigger_eqs vs del: fire_trigger.simps)
qed (simp add: trigger_eqs del: fire_trigger.simps)

lemma triggers_bounds:
  assumes "engine_ok en" "spool_wf db" "claims_bounded db"
  shows "(CountRetention \<in> set ts \<longrightarrow> length (db_spool (fold (fire_trigger en new) ts db)) \<le> hard_max_count)
    \<and> (BytesRetention \<in> set ts \<longrightarrow> total_bytes (db_spool (fold (fire_trigger en new) ts db)) \<le> hard_max_bytes)"
  using assms(2,3)
proof (induction ts arbitrary: db)
  case (Cons t ts)
  let ?db = "fire_trigger en new t db"
  obtain p where p: "db_spool (fold (fire_trigger en new) ts ?db) = filter p (db_spool ?db)"
    using triggers_filter by blast
  have "claims_bounded ?db" using trigger_filter claims_bounded_filter Cons.prems(2) by metis
  note IH = Cons.IH [OF trigger_wf [OF Cons.prems(1)] this]
  have "length (filter p (db_spool ?db)) \<le> hard_max_count" if "t = CountRetention"
    using le_trans [OF length_filter_le count_retention_bound [OF assms(1) Cons.prems]] that by simp
  moreover have "total_bytes (filter p (db_spool ?db)) \<le> hard_max_bytes" if "t = BytesRetention"
    using le_trans [OF total_bytes_filter_le bytes_retention_bound [OF Cons.prems]] that by simp
  ultimately show ?case using IH p by (auto simp del: fire_trigger.simps)
qed simp

lemma engine_fires: "engine_ok en \<Longrightarrow> CountRetention \<in> set (en_triggers en) \<and> BytesRetention \<in> set (en_triggers en)"
  unfolding engine_ok_def by (metis insert_iff set_mset_add_mset_insert set_mset_mset)

lemma insert_row_bounded:
  assumes "engine_ok en" "spool_wf db" "row_wf new" "is_pending new" "hard_bounded db"
  shows "hard_bounded (insert_row en new db)"
proof (cases "find_row (row_key new) db")
  case None
  let ?db = "db\<lparr>db_spool := db_spool db @ [new]\<rparr>"
  have "spool_wf ?db" using assms None by (auto simp: spool_wf_def find_row_None)
  moreover have "claims_bounded ?db"
    using assms(4,5) le_trans [OF length_filter_le] le_trans [OF total_bytes_filter_le]
    by (auto simp: claims_bounded_def hard_bounded_def)
  ultimately show ?thesis
    using triggers_bounds [OF assms(1), of ?db "en_triggers en" new] engine_fires [OF assms(1)] None
    by (simp add: insert_row_def hard_bounded_def)
qed (simp add: insert_row_def assms)

end
