(* ===== verification/Spool_Steps.thy ===== *)
theory Spool_Steps
  imports Spool_Retention
begin

text \<open>
  Every operation of the spool in one place: what it does to well-formedness, to the ledger, to the
  hard bounds and to a leased row, and the same for runs of operations.
\<close>

section \<open>Operations preserve the table\<close>

definition env_ok :: "spool_env \<Rightarrow> bool" where
  "env_ok env \<longleftrightarrow> engine_ok (se_engine env)"

text \<open>What one operation guarantees: well-formedness, accounting, bounds.\<close>

lemma store_row_Inr:
  assumes "store_row en st row at db = Inr (kept, db')"
  shows "if ss_hook st then (let cutoff = sat_sub_i64 at (i64_of_u64 spool_hard_max_age_ms);
        n = snd (delete_expired_pending cutoff db); db1 = fst (delete_expired_pending cutoff db) in
      db' = insert_row en row (increment_spool_metrics (int n) 0 0 db1))
    else db' = enforce_and_record en (ss_limits st) at (insert_row en row db)"
proof (cases "ss_hook st")
  case True
  then show ?thesis
    using assms by (auto simp: store_row_def insert_inbound_spool_if_retained_def Let_def case_prod_beta)
next
  case False
  then show ?thesis
    using assms by (auto simp: store_row_def insert_inbound_spool_def Let_def case_prod_beta split: sum.splits option.splits)
qed

lemma hard_bounded_sub:
  assumes "hard_bounded db" "db_spool db' = filter p (db_spool db)"
  shows "hard_bounded db'"
  using assms(1) le_trans [OF length_filter_le, of "db_spool db" _ p] le_trans [OF total_bytes_filter_le, of "db_spool db" _ p]
  unfolding hard_bounded_def assms(2) by blast

lemma enforce_rows: "\<exists>p. db_spool (enforce_and_record en l now db) = filter p (db_spool db)"
  by (auto simp: enforce_and_record_def enforce_limits_eq delete_all_rows_eq)

lemma hard_bounded_frames [simp]:
  "hard_bounded (increment_spool_metrics e l m db) = hard_bounded db"
  by (simp add: hard_bounded_def)

lemma expired_pending_frame:
  "spool_wf db \<Longrightarrow> spool_wf (fst (delete_expired_pending cutoff db))"
  "hard_bounded db \<Longrightarrow> hard_bounded (fst (delete_expired_pending cutoff db))"
  "ledger (fst (delete_expired_pending cutoff db)) = ledger db - int (snd (delete_expired_pending cutoff db))"
  by (auto simp: delete_expired_pending_def delete_rows_wf ledger_delete intro: hard_bounded_sub)

lemma find_row_increment [simp]: "find_row k (increment_spool_metrics e l m db) = find_row k db"
  by (simp add: find_row_def)

lemma store_row_spec:
  assumes "engine_ok en" "spool_wf db" "row_wf row" "is_pending row" "store_row en st row at db = Inr (kept, db')"
  shows "spool_wf db' \<and> ledger db' = ledger db + (if fresh_at st row at db then 1 else 0)
    \<and> (hard_bounded db \<longrightarrow> hard_bounded db') \<and> keeps_claims db db'"
proof (cases "ss_hook st")
  case True
  let ?cut = "sat_sub_i64 at (i64_of_u64 spool_hard_max_age_ms)"
  let ?db1 = "increment_spool_metrics (int (snd (delete_expired_pending ?cut db))) 0 0 (fst (delete_expired_pending ?cut db))"
  have db': "db' = insert_row en row ?db1" using store_row_Inr [OF assms(5)] True by (simp add: Let_def)
  have wf1: "spool_wf ?db1" using expired_pending_frame(1) [OF assms(2)] by simp
  have "ledger ?db1 = ledger db" by (simp add: expired_pending_frame(3))
  moreover have "keeps_claims db ?db1"
    using expired_pending_keeps [of db ?cut] by (simp add: keeps_claims_def)
  moreover have "hard_bounded ?db1" if "hard_bounded db" using expired_pending_frame(2) [OF that] by simp
  ultimately show ?thesis
    using insert_row_wf [OF wf1 assms(3)] insert_row_ledger [of en row ?db1] insert_row_bounded [OF assms(1) wf1 assms(3,4)]
      keeps_trans [OF _ insert_row_keeps [OF assms(1) wf1 assms(3)]] True
    unfolding db' by (simp add: fresh_at_def)
next
  case False
  let ?db1 = "insert_row en row db"
  have db': "db' = enforce_and_record en (ss_limits st) at ?db1" using store_row_Inr [OF assms(5)] False by simp
  have wf1: "spool_wf ?db1" by (rule insert_row_wf [OF assms(2,3)])
  obtain p where p: "db_spool db' = filter p (db_spool ?db1)" unfolding db' using enforce_rows by blast
  show ?thesis
    using enforce_wf [OF wf1] enforce_ledger [OF assms(1) wf1] insert_row_ledger [of en row db]
      hard_bounded_sub [OF insert_row_bounded [OF assms(1,2,3,4)] p]
      keeps_trans [OF insert_row_keeps [OF assms(1,2,3)] enforce_keeps [OF assms(1) wf1]] False
    unfolding db' by (simp add: fresh_at_def)
qed

lemma update_bounded:
  assumes "\<And>r. row_bytes (f r) = row_bytes r"
  shows "hard_bounded (fst (update_rows p f db)) = hard_bounded db"
proof -
  have "total_bytes (map (\<lambda>r. if p r then f r else r) rs) = total_bytes rs" for rs
    by (induction rs) (auto simp: total_bytes_def assms)
  then show ?thesis by (simp add: hard_bounded_def update_rows_def)
qed

lemma recover_spec:
  "spool_wf db \<Longrightarrow> spool_wf (fst (recover_expired_claims now db))"
  "ledger (fst (recover_expired_claims now db)) = ledger db"
  "hard_bounded (fst (recover_expired_claims now db)) = hard_bounded db"
  by (rule recover_wf, assumption) (simp_all add: recover_expired_claims_def update_bounded)

lemma release_spec:
  "spool_wf db \<Longrightarrow> spool_wf (release_claim c db)"
  "ledger (release_claim c db) = ledger db"
  "hard_bounded (release_claim c db) = hard_bounded db"
  unfolding release_claim_def by (rule release_wf, assumption)
    (simp_all add: release_claimed_def update_bounded Let_def case_prod_beta)

lemma claim_frame_bounded: "claim_frame dec db db' n \<Longrightarrow> hard_bounded db \<Longrightarrow> hard_bounded db'"
  unfolding claim_frame_def hard_bounded_def by linarith

lemma claim_next_spec:
  assumes "engine_ok en" "spool_wf db" "claim_next en dec tokens st at db = Inr (res, db')"
  shows "spool_wf db' \<and> ledger db' = ledger db \<and> (hard_bounded db \<longrightarrow> hard_bounded db')
    \<and> keeps_claims (fst (recover_expired_claims (i64_of_u64 at) db)) db'"
proof -
  let ?db1 = "fst (recover_expired_claims (i64_of_u64 at) db)"
  let ?db2 = "enforce_and_record en (ss_limits st) (i64_of_u64 at) ?db1"
  have wf1: "spool_wf ?db1" by (rule recover_wf [OF assms(2)])
  have wf2: "spool_wf ?db2" by (rule enforce_wf [OF wf1])
  obtain n where frame: "claim_frame dec ?db2 db' n"
    using claim_loop_spec [OF assms(1) wf2 claim_next_Inr [OF assms(3)]] by blast
  obtain p where p: "db_spool ?db2 = filter p (db_spool ?db1)" using enforce_rows by blast
  have "hard_bounded db'" if "hard_bounded db"
    using claim_frame_bounded [OF frame] hard_bounded_sub [OF _ p] that by (simp add: recover_spec)
  moreover have "ledger db' = ledger db"
    using frame enforce_ledger [OF assms(1) wf1] by (simp add: claim_frame_def recover_spec)
  moreover have "keeps_claims ?db2 db'" using frame by (simp add: claim_frame_def keeps_claims_def)
  ultimately show ?thesis
    using frame keeps_trans [OF enforce_keeps [OF assms(1) wf1]] by (simp add: claim_frame_def)
qed

lemma claim_next_holds:
  assumes "engine_ok en" "spool_wf db" "claim_next en dec tokens st at db = Inr (Some c, db')"
  shows "holds_claim dec (i64_of_u64 at) c db' \<and> cl_token c \<in> range tokens"
proof -
  have "spool_wf (enforce_and_record en (ss_limits st) (i64_of_u64 at) (fst (recover_expired_claims (i64_of_u64 at) db)))"
    by (rule enforce_wf [OF recover_wf [OF assms(2)]])
  from claim_loop_spec [OF assms(1) this claim_next_Inr [OF assms(3)]] show ?thesis by auto
qed

lemma commit_spec:
  "spool_wf db \<Longrightarrow> spool_wf (snd (commit_claim c db))"
  "spool_wf db \<Longrightarrow> ledger (snd (commit_claim c db)) = ledger db - commits (OpCommit c) db"
  "hard_bounded db \<Longrightarrow> hard_bounded (snd (commit_claim c db))"
proof -
  let ?p = "claimed_by (cl_key c) (cl_token c)"
  let ?db = "fst (delete_rows ?p db)"
  show "spool_wf db \<Longrightarrow> spool_wf (snd (commit_claim c db))"
    using delete_rows_wf [of db ?p] release_spec(1) [of ?db c]
    by (simp add: commit_claim_def delete_claimed_rows)
  show "hard_bounded db \<Longrightarrow> hard_bounded (snd (commit_claim c db))"
    using hard_bounded_sub [of db ?db] release_spec(3) [of c ?db]
    by (simp add: commit_claim_def delete_claimed_rows)
  show "ledger (snd (commit_claim c db)) = ledger db - commits (OpCommit c) db" if wf: "spool_wf db"
  proof -
    have "snd (delete_rows ?p db) \<le> 1"
    proof (cases "filter ?p (db_spool db)")
      case (Cons r rs)
      then have "r \<in> set (filter ?p (db_spool db))" by simp
      then have r: "r \<in> set (db_spool db)" "?p r" by simp_all
      have "filter (\<lambda>s. row_key s = row_key r \<and> ?p s) (db_spool db) = [r]"
        using wf r by (intro key_filter) auto
      moreover from r(2) have "row_key r = cl_key c" by (simp add: claimed_by_def)
      then have "(\<lambda>s. row_key s = row_key r \<and> ?p s) = ?p" by (auto simp: claimed_by_def)
      ultimately have "filter ?p (db_spool db) = [r]" by simp
      then show ?thesis by (simp add: delete_rows_def)
    qed (simp add: delete_rows_def)
    then show ?thesis
      by (auto simp: commit_claim_def delete_claimed_rows ledger_delete release_spec(2))
  qed
qed

section \<open>Runs\<close>

lemma fresh_at_payload: "fresh_at st (new_spool_row e p at) at db = fresh_at st (new_spool_row e [] at) at db"
  by (simp add: fresh_at_def new_spool_row_def row_key_def)

lemma exec_spec:
  assumes "env_ok env" "spool_wf db"
  shows "spool_wf (spool_exec env op db)
    \<and> ledger (spool_exec env op db) + commits op db = ledger db + accepts env op db
    \<and> (hard_bounded db \<longrightarrow> hard_bounded (spool_exec env op db))"
proof (cases op)
  case (OpEnqueue st e at)
  show ?thesis
  proof (cases "enqueue (se_engine env) (se_encode env) (se_json_ok env) st e at db")
    case (Inr res)
    obtain out db' where res: "res = (out, db')" by (cases res)
    obtain payload kept where
      "store_row (se_engine env) st (new_spool_row e payload (i64_of_u64 at)) (i64_of_u64 at) db = Inr (kept, db')"
      using Inr unfolding res by (rule enqueue_Inr)
    from store_row_spec [OF assms(1) [unfolded env_ok_def] assms(2) new_spool_row_wf this]
    show ?thesis using Inr by (auto simp: OpEnqueue res fresh_at_payload [of st e payload])
  qed (use assms(2) OpEnqueue in simp)
next
  case (OpRecover at)
  then show ?thesis using assms(2) by (simp add: recover_claims_def recover_spec)
next
  case (OpClaim st at tokens)
  show ?thesis
  proof (cases "claim_next (se_engine env) (se_decode env) tokens st at db")
    case (Inr res)
    obtain r db' where res: "res = (r, db')" by (cases res)
    from claim_next_spec [OF assms(1) [unfolded env_ok_def] assms(2) Inr [unfolded res]] show ?thesis
      by (simp add: OpClaim Inr res)
  qed (use assms(2) OpClaim in simp)
next
  case (OpCommit c)
  then show ?thesis using commit_spec assms(2) by simp
next
  case (OpRelease c)
  then show ?thesis using assms(2) by (simp add: release_spec)
qed

lemma run_spec:
  assumes "env_ok env" "spool_wf db" "spool_run env ops db = (db', a, c)"
  shows "spool_wf db' \<and> ledger db' + c = ledger db + a \<and> (hard_bounded db \<longrightarrow> hard_bounded db')"
  using assms(2,3)
proof (induction ops arbitrary: db a c)
  case (Cons op ops)
  obtain a' c' where rest: "spool_run env ops (spool_exec env op db) = (db', a', c')"
    and sums: "a = accepts env op db + a'" "c = commits op db + c'"
    using Cons.prems(2) by (auto simp: Let_def case_prod_beta prod_eq_iff)
  note step = exec_spec [OF assms(1) Cons.prems(1), of op]
  have "spool_wf db' \<and> ledger db' + c' = ledger (spool_exec env op db) + a'
      \<and> (hard_bounded (spool_exec env op db) \<longrightarrow> hard_bounded db')"
    using step by (intro Cons.IH [OF _ rest]) simp
  with step sums show ?case by auto
qed simp

section \<open>Leases\<close>

fun leaves_claim :: "row_key \<Rightarrow> rstr \<Rightarrow> int \<Rightarrow> spool_op \<Rightarrow> bool" where
  "leaves_claim k token t (OpEnqueue st e at) = True"
| "leaves_claim k token t (OpRecover at) = (i64_of_u64 at < t)"
| "leaves_claim k token t (OpClaim st at tokens) = (i64_of_u64 at < t)"
| "leaves_claim k token t (OpCommit c) = ((cl_key c, cl_token c) \<noteq> (k, token))"
| "leaves_claim k token t (OpRelease c) = ((cl_key c, cl_token c) \<noteq> (k, token))"

definition leased :: "row_key \<Rightarrow> rstr \<Rightarrow> int \<Rightarrow> spool_row \<Rightarrow> database \<Rightarrow> bool" where
  "leased k token t r db \<longleftrightarrow> r \<in> set (db_spool db) \<and> claimed_by k token r \<and> sp_lease_expires_at_ms r = Some t"

lemma claimed_not_pending: "claimed_by k token r \<Longrightarrow> \<not> is_pending r"
  by (simp add: claimed_by_def is_pending_def)

lemma update_keeps: "r \<in> set (db_spool db) \<Longrightarrow> \<not> p r \<Longrightarrow> r \<in> set (db_spool (fst (update_rows p f db)))"
  by (auto simp: update_rows_def image_iff intro!: bexI [of _ r])

lemma leased_recover: "leased k token t r db \<Longrightarrow> now < t \<Longrightarrow> leased k token t r (fst (recover_expired_claims now db))"
  unfolding leased_def recover_expired_claims_def by (simp add: update_keeps)

lemma leased_keeps: "leased k token t r db \<Longrightarrow> keeps_claims db db' \<Longrightarrow> leased k token t r db'"
  unfolding leased_def keeps_claims_def using claimed_not_pending by blast

lemma leased_claim_next:
  assumes "engine_ok en" "spool_wf db" "claim_next en dec tokens st at db = Inr (res, db')"
    and "leased k token t r db" "i64_of_u64 at < t"
  shows "leased k token t r db'"
  using claim_next_spec [OF assms(1,2,3)] leased_keeps [OF leased_recover [OF assms(4,5)]] by blast

lemma leased_exec:
  assumes "env_ok env" "spool_wf db" "leased k token t r db" "leaves_claim k token t op"
  shows "leased k token t r (spool_exec env op db)"
proof (cases op)
  case (OpEnqueue st e at)
  show ?thesis
  proof (cases "enqueue (se_engine env) (se_encode env) (se_json_ok env) st e at db")
    case (Inr res)
    obtain out db' where res: "res = (out, db')" by (cases res)
    obtain payload kept where
      "store_row (se_engine env) st (new_spool_row e payload (i64_of_u64 at)) (i64_of_u64 at) db = Inr (kept, db')"
      using Inr unfolding res by (rule enqueue_Inr)
    from store_row_spec [OF assms(1) [unfolded env_ok_def] assms(2) new_spool_row_wf this] have "keeps_claims db db'" by simp
    then show ?thesis using leased_keeps [OF assms(3)] Inr by (simp add: OpEnqueue res)
  qed (use assms(3) OpEnqueue in simp)
next
  case (OpRecover at)
  then show ?thesis using assms(3,4) by (simp add: recover_claims_def leased_recover)
next
  case (OpClaim st at tokens)
  show ?thesis
  proof (cases "claim_next (se_engine env) (se_decode env) tokens st at db")
    case (Inr res)
    obtain x db' where res: "res = (x, db')" by (cases res)
    from leased_claim_next [OF assms(1) [unfolded env_ok_def] assms(2) Inr [unfolded res] assms(3)] show ?thesis
      using assms(4) by (simp add: OpClaim Inr res)
  qed (use assms(3) OpClaim in simp)
next
  case (OpCommit c)
  have "\<not> claimed_by (cl_key c) (cl_token c) r"
    using assms(3,4) by (auto simp: OpCommit leased_def claimed_by_def)
  with assms(3) show ?thesis
    by (simp add: OpCommit leased_def commit_claim_def delete_claimed_rows release_claim_def release_claimed_def
        Let_def case_prod_beta update_keeps)
next
  case (OpRelease c)
  have "\<not> claimed_by (cl_key c) (cl_token c) r"
    using assms(3,4) by (auto simp: OpRelease leased_def claimed_by_def)
  with assms(3) show ?thesis
    by (simp add: OpRelease leased_def release_claim_def release_claimed_def Let_def case_prod_beta update_keeps)
qed

lemma leased_run:
  assumes "env_ok env" "spool_wf db" "leased k token t r db" "\<forall>op \<in> set ops. leaves_claim k token t op"
  shows "leased k token t r (fst (spool_run env ops db))"
  using assms(2-)
proof (induction ops arbitrary: db)
  case (Cons op ops)
  have "leased k token t r (spool_exec env op db)" "spool_wf (spool_exec env op db)"
    using leased_exec [OF assms(1) Cons.prems(1,2)] exec_spec [OF assms(1) Cons.prems(1)] Cons.prems(3) by auto
  then show ?case using Cons by (simp add: Let_def case_prod_beta)
qed simp

end
