(* ===== verification/Spool_Guarantees.thy ===== *)
theory Spool_Guarantees
  imports Spool_Steps
begin

text \<open>
  The guarantees of the durable spool: bounds, accounting, exclusive leases, the claim loop and its
  order, the refinement of a lease table, and where the desktop store reports a dropped event.
\<close>

section \<open>The spool as a transition system\<close>

definition spool_init :: "spool_env \<times> database \<Rightarrow> bool" where
  "spool_init s \<longleftrightarrow> env_ok (fst s) \<and> snd s = empty_database"

definition spool_step :: "spool_env \<times> database \<Rightarrow> spool_env \<times> database \<Rightarrow> bool" where
  "spool_step s t \<longleftrightarrow> (\<exists>op. t = (fst s, spool_exec (fst s) op (snd s)))"

definition spool_inv :: "spool_env \<times> database \<Rightarrow> bool" where
  "spool_inv s \<longleftrightarrow> env_ok (fst s) \<and> spool_wf (snd s) \<and> hard_bounded (snd s)"

lemma empty_hard_bounded [simp]: "hard_bounded empty_database"
  by (simp add: hard_bounded_def empty_database_def total_bytes_def)

interpretation spool_sys: invariant_system spool_init spool_step spool_inv
proof
  show "spool_inv s" if "spool_init s" for s
    using that by (simp add: spool_init_def spool_inv_def)
  show "spool_inv t" if "spool_inv s" "spool_step s t" for s t
    using that exec_spec [of "fst s" "snd s"] by (auto simp: spool_inv_def spool_step_def)
qed

text \<open>
  C35. The durable table never outgrows its hard bounds: whatever sequence of enqueues by the desktop
  or the Hook, recoveries, claims, commits and releases happens, from the empty database on, it holds
  at most 256 rows and four MiB of payload, every event identity at most once, and a row carries
  a claim token and a lease exactly while it is claimed.
\<close>

theorem spool_stays_bounded:
  assumes "env_ok env" "spool_step\<^sup>*\<^sup>* (env, empty_database) (env', db)"
  shows "length (db_spool db) \<le> spool_hard_max_count \<and> total_bytes (db_spool db) \<le> spool_hard_max_bytes
    \<and> distinct (map row_key (db_spool db)) \<and> (\<forall>r \<in> set (db_spool db). row_wf r)"
proof -
  have "spool_inv (env', db)"
    using spool_sys.inv_reachable [OF _ assms(2)] assms(1) by (simp add: spool_init_def)
  then show ?thesis
    by (simp add: spool_inv_def hard_bounded_def hard_max_count_def hard_max_bytes_def
        spool_hard_max_count_def spool_hard_max_bytes_def spool_wf_def)
qed

text \<open>
  C32. No accepted event disappears silently. After any run from the empty database, the rows that were
  accepted are exactly the rows still stored, the rows counted as expired, as dropped by a limit or as
  malformed, and the claims committed.
\<close>

theorem every_row_accounted:
  assumes "env_ok env" "spool_run env ops empty_database = (db, accepted, committed)"
  shows "accepted = int (length (db_spool db)) + ar_expired_drops (db_app db) + ar_limit_drops (db_app db)
    + ar_malformed_drops (db_app db) + committed"
proof -
  have "ledger db + committed = ledger empty_database + accepted"
    using run_spec [OF assms(1) empty_database_wf assms(2)] by blast
  then show ?thesis by (simp add: ledger_def drops_def empty_database_def empty_app_state_def)
qed

text \<open>
  C33. A claim is exclusive until its lease runs out. A claimed row stays in the table unchanged, with its
  token, through every operation that happens before the lease expires and is not the commit or
  release of that very claim, and a claim made meanwhile with other tokens is a claim of another row.
\<close>

theorem lease_protects_claim:
  assumes "env_ok env" "spool_wf db"
    and "r \<in> set (db_spool db)" "claimed_by k token r" "sp_lease_expires_at_ms r = Some t"
    and "\<forall>op \<in> set ops. leaves_claim k token t op"
    and "spool_run env ops db = (db1, accepted, committed)"
  shows "r \<in> set (db_spool db1)
    \<and> (\<forall>st at tokens c db2. claim_next (se_engine env) (se_decode env) tokens st at db1 = Inr (Some c, db2)
         \<longrightarrow> i64_of_u64 at < t \<longrightarrow> token \<notin> range tokens \<longrightarrow> cl_key c \<noteq> k)"
proof -
  have held: "leased k token t r db1" "spool_wf db1"
    using leased_run [OF assms(1,2) _ assms(6), of r] run_spec [OF assms(1,2,7)] assms(3,4,5,7)
    by (simp_all add: leased_def)
  have "cl_key c \<noteq> k"
    if claim: "claim_next (se_engine env) (se_decode env) tokens st at db1 = Inr (Some c, db2)"
      and time: "i64_of_u64 at < t" and other: "token \<notin> range tokens" for st at tokens c db2
  proof
    assume k: "cl_key c = k"
    have en: "engine_ok (se_engine env)" using assms(1) by (simp add: env_ok_def)
    have wf2: "spool_wf db2" "leased k token t r db2"
      using claim_next_spec [OF en held(2) claim] leased_claim_next [OF en held(2) claim held(1) time] by blast+
    obtain s where s: "s \<in> set (db_spool db2)" "claimed_by (cl_key c) (cl_token c) s" "cl_token c \<in> range tokens"
      using claim_next_holds [OF en held(2) claim] by (auto simp: holds_claim_def)
    have "row_key s = k" "row_key r = k" using s(2) k wf2(2) by (simp_all add: claimed_by_def leased_def)
    then have "s = r" using find_row_wf [OF wf2(1), of k] s(1) wf2(2) by (metis leased_def option.inject)
    then have "cl_token c = token" using s(2) assms(4) by (simp add: claimed_by_def)
    with s(3) other show False by simp
  qed
  with held show ?thesis by (auto simp: leased_def)
qed

section \<open>Claims\<close>

text \<open>
  Claiming always returns, whatever the table holds. With limits within the hard bounds
  \<^verbatim>\<open>claim_next\<close> ends after discarding some number of rows; each discarded row was one that does not
  decode to a valid event, each is counted as malformed, no other row is lost after the limits
  were enforced, and when nothing is claimed no pending row is left.
\<close>

theorem claim_next_returns:
  assumes "engine_ok en" "spool_wf db" "within_hard_bounds (ss_limits st)"
  shows "\<exists>res db' n db1. db1 = enforce_and_record en (ss_limits st) (i64_of_u64 at) (fst (recover_expired_claims (i64_of_u64 at) db))
    \<and> claim_next en dec tokens st at db = Inr (res, db')
    \<and> length (db_spool db') + n = length (db_spool db1)
    \<and> ar_malformed_drops (db_app db') = ar_malformed_drops (db_app db1) + int n
    \<and> (\<forall>r \<in> set (db_spool db1). decode_valid dec (sp_payload r) \<noteq> None \<longrightarrow> row_body r \<in> row_body ` set (db_spool db'))
    \<and> (res = None \<longrightarrow> filter is_pending (db_spool db') = [])"
proof -
  let ?db1 = "enforce_and_record en (ss_limits st) (i64_of_u64 at) (fst (recover_expired_claims (i64_of_u64 at) db))"
  obtain res db' where run: "claim_loop en dec tokens 0 (i64_of_u64 at) ?db1 = (res, db')" by (rule prod.exhaust)
  then have ret: "claim_next en dec tokens st at db = Inr (res, db')"
    using assms(3) by (simp add: claim_next_def validate_limits_def Let_def case_prod_beta)
  have "spool_wf ?db1" by (rule enforce_wf [OF recover_wf [OF assms(2)]])
  from claim_loop_spec [OF assms(1) this run] obtain n where n: "claim_frame dec ?db1 db' n"
    and empty: "res = None \<Longrightarrow> filter is_pending (db_spool db') = []" by (auto split: option.splits)
  show ?thesis
    by (intro exI [of _ res] exI [of _ db'] exI [of _ n] exI [of _ ?db1])
      (use ret n empty in \<open>simp add: claim_frame_def\<close>)
qed

text \<open>
  The claim goes to the most urgent row. What \<^verbatim>\<open>claim_next\<close> returns is a row of the table now marked
  with the returned token, leased for thirty seconds, whose payload decodes to the returned event and
  passes its validation, and every row still pending has a lower priority, or the same and was not
  inserted earlier.
\<close>

theorem claim_next_most_urgent:
  assumes "engine_ok en" "spool_wf db" "claim_next en dec tokens st at db = Inr (Some c, db')"
  shows "\<exists>r \<in> set (db_spool db'). row_key r = cl_key c \<and> sp_status r = RowClaimed
    \<and> sp_claim_token r = Some (cl_token c)
    \<and> sp_lease_expires_at_ms r = Some (sat_add_i64 (i64_of_u64 at) 30000)
    \<and> dec (sp_payload r) = Some (cl_event c) \<and> event_ok (cl_event c)
    \<and> (\<forall>p \<in> set (db_spool db'). is_pending p \<longrightarrow>
         sp_priority p < sp_priority r
         \<or> (sp_priority p = sp_priority r \<and> sp_inserted_at_ms r \<le> sp_inserted_at_ms p))"
proof -
  obtain r where r: "r \<in> set (db_spool db')" "claimed_by (cl_key c) (cl_token c) r"
    "sp_lease_expires_at_ms r = Some (sat_add_i64 (i64_of_u64 at) claim_lease_ms)"
    "decode_valid dec (sp_payload r) = Some (cl_event c)"
    "\<forall>p \<in> set (db_spool db'). is_pending p \<longrightarrow> claim_key r \<le> claim_key p"
    using claim_next_holds [OF assms] unfolding holds_claim_def by blast
  have "dec (sp_payload r) = Some (cl_event c) \<and> event_ok (cl_event c)"
    using r(4) by (auto simp: decode_valid_def event_validate_iff split: option.splits if_splits)
  moreover have "sp_priority p < sp_priority r
      \<or> (sp_priority p = sp_priority r \<and> sp_inserted_at_ms r \<le> sp_inserted_at_ms p)"
    if "p \<in> set (db_spool db')" "is_pending p" for p
    using r(5) that by (auto simp: claim_key_def less_eq_prod_simp)
  ultimately show ?thesis
    using r(1,2,3) by (intro bexI [OF _ r(1)]) (simp add: claimed_by_def claim_lease_ms_def)
qed

section \<open>Refinement of a lease table\<close>

text \<open>
  The abstract contract: a table from event identities to a payload and a lease, with no order,
  priorities, timestamps or counters.
\<close>

datatype lease = Free | Leased rstr int

type_synonym lease_table = "row_key \<Rightarrow> (rstr \<times> lease) option"

definition lease_of :: "spool_row \<Rightarrow> lease" where
  "lease_of r = (case (sp_status r, sp_claim_token r, sp_lease_expires_at_ms r) of
     (RowClaimed, Some token, Some t) \<Rightarrow> Leased token t | _ \<Rightarrow> Free)"

definition lease_abs :: "database \<Rightarrow> lease_table" where
  "lease_abs db k = map_option (\<lambda>r. (sp_payload r, lease_of r)) (find_row k db)"

fun held_with :: "rstr \<Rightarrow> (rstr \<times> lease) option \<Rightarrow> bool" where
  "held_with token (Some (_, Leased token' _)) = (token' = token)"
| "held_with token _ = False"

fun expire :: "int \<Rightarrow> lease \<Rightarrow> lease" where
  "expire now (Leased token t) = (if t \<le> now then Free else Leased token t)"
| "expire now Free = Free"

definition lt_recover :: "int \<Rightarrow> lease_table \<Rightarrow> lease_table" where
  "lt_recover now T = (\<lambda>k. map_option (\<lambda>(p, l). (p, expire now l)) (T k))"

definition lt_commit :: "row_key \<Rightarrow> rstr \<Rightarrow> lease_table \<Rightarrow> lease_table" where
  "lt_commit k token T = (if held_with token (T k) then T(k := None) else T)"

definition lt_release :: "row_key \<Rightarrow> rstr \<Rightarrow> lease_table \<Rightarrow> lease_table" where
  "lt_release k token T = (if held_with token (T k) then T(k := map_option (\<lambda>(p, _). (p, Free)) (T k)) else T)"

lemma find_row_update:
  assumes "\<And>r. row_key (f r) = row_key r"
  shows "find_row k (fst (update_rows p f db)) = map_option (\<lambda>r. if p r then f r else r) (find_row k db)"
proof -
  have "find (\<lambda>r. row_key r = k) (map (\<lambda>r. if p r then f r else r) rs)
      = map_option (\<lambda>r. if p r then f r else r) (find (\<lambda>r. row_key r = k) rs)" for rs
    by (induction rs) (auto simp: assms)
  then show ?thesis by (simp add: find_row_def update_rows_def)
qed

lemma find_row_delete:
  assumes "spool_wf db"
  shows "find_row k (fst (delete_rows p db)) = (case find_row k db of Some r \<Rightarrow> if p r then None else Some r | None \<Rightarrow> None)"
proof -
  have "distinct (map row_key rs) \<Longrightarrow> find (\<lambda>r. row_key r = k) (filter (\<lambda>r. \<not> p r) rs)
      = (case find (\<lambda>r. row_key r = k) rs of Some r \<Rightarrow> if p r then None else Some r | None \<Rightarrow> None)" for rs
  proof (induction rs)
    case (Cons r rs)
    have "find (\<lambda>r. row_key r = k) rs = None" if "row_key r = k"
      using Cons.prems that by (auto simp: find_None_iff image_iff)
    then show ?case using Cons by auto
  qed simp
  then show ?thesis using assms by (simp add: find_row_def spool_wf_def)
qed

lemma held_with_iff:
  assumes "spool_wf db" "find_row k db = Some r"
  shows "held_with token (lease_abs db k) \<longleftrightarrow> claimed_by k token r"
proof -
  have "row_wf r" "row_key r = k" using assms find_row_Some by (auto simp: spool_wf_def)
  then show ?thesis
    by (cases "sp_status r") (auto simp: lease_abs_def assms(2) lease_of_def row_wf_def claimed_by_def)
qed

lemma held_with_None [simp]: "find_row k db = None \<Longrightarrow> \<not> held_with token (lease_abs db k)"
  by (simp add: lease_abs_def)

lemma lease_of_pending [simp]: "lease_of (make_pending r) = Free" "sp_payload (make_pending r) = sp_payload r"
  by (simp_all add: lease_of_def make_pending_def)

lemma refine_recover:
  assumes "spool_wf db"
  shows "lease_abs (fst (recover_expired_claims now db)) = lt_recover now (lease_abs db)"
proof
  fix k
  show "lease_abs (fst (recover_expired_claims now db)) k = lt_recover now (lease_abs db) k"
  proof (cases "find_row k db")
    case (Some r)
    then have wf: "row_wf r" using assms find_row_Some by (auto simp: spool_wf_def)
    show ?thesis
    proof (cases "sp_status r")
      case RowPending
      then show ?thesis
        by (simp add: lease_abs_def recover_expired_claims_def find_row_update Some lt_recover_def lease_of_def)
    next
      case RowClaimed
      then obtain token t where "sp_claim_token r = Some token" "sp_lease_expires_at_ms r = Some t"
        using wf by (auto simp: row_wf_def)
      with RowClaimed show ?thesis
        by (simp add: lease_abs_def recover_expired_claims_def find_row_update Some lt_recover_def)
          (simp add: lease_of_def)
    qed
  qed (simp add: lease_abs_def recover_expired_claims_def find_row_update lt_recover_def)
qed

lemma refine_release:
  assumes "spool_wf db"
  shows "lease_abs (release_claim c db) = lt_release (cl_key c) (cl_token c) (lease_abs db)"
proof
  fix k
  have step: "lease_abs (release_claim c db) k = map_option (\<lambda>r. (sp_payload r,
      lease_of (if claimed_by (cl_key c) (cl_token c) r then make_pending r else r))) (find_row k db)"
    by (cases "find_row k db")
      (simp_all add: lease_abs_def release_claim_def release_claimed_def Let_def case_prod_beta find_row_update)
  show "lease_abs (release_claim c db) k = lt_release (cl_key c) (cl_token c) (lease_abs db) k"
  proof (cases "find_row (cl_key c) db")
    case None
    then show ?thesis using step find_row_Some [of k db]
      by (cases "find_row k db") (auto simp: lt_release_def lease_abs_def claimed_by_def)
  next
    case (Some r)
    note held = held_with_iff [OF assms Some, of "cl_token c"]
    show ?thesis
    proof (cases "k = cl_key c")
      case True
      then show ?thesis using step held Some by (auto simp: lt_release_def lease_abs_def)
    next
      case False
      then show ?thesis using step find_row_Some [of k db]
        by (cases "find_row k db") (auto simp: lt_release_def lease_abs_def claimed_by_def)
    qed
  qed
qed

lemma refine_commit:
  assumes "spool_wf db"
  shows "lease_abs (snd (commit_claim c db)) = lt_commit (cl_key c) (cl_token c) (lease_abs db)
    \<and> (fst (commit_claim c db) = Inr () \<longleftrightarrow> held_with (cl_token c) (lease_abs db (cl_key c)))"
proof -
  let ?p = "claimed_by (cl_key c) (cl_token c)" and ?db = "fst (delete_rows (claimed_by (cl_key c) (cl_token c)) db)"
  have other: "\<not> ?p r" if "find_row k db = Some r" "k \<noteq> cl_key c" for k r
    using find_row_Some [OF that(1)] that(2) by (auto simp: claimed_by_def)
  have gone: "\<not> held_with (cl_token c) (lease_abs ?db (cl_key c))"
    using held_with_iff [OF assms, of "cl_key c"]
    by (auto simp: lease_abs_def find_row_delete [OF assms] split: option.splits)
  have idle: "lease_abs (release_claim c ?db) = lease_abs ?db"
    using gone by (simp add: refine_release delete_rows_wf assms lt_release_def)
  have deleted: "lease_abs ?db k = lt_commit (cl_key c) (cl_token c) (lease_abs db) k" for k
  proof (cases "find_row k db")
    case (Some r)
    then show ?thesis
      using held_with_iff [OF assms Some, of "cl_token c"] other [OF Some]
      by (cases "k = cl_key c") (auto simp: lease_abs_def find_row_delete [OF assms] lt_commit_def)
  qed (auto simp: lease_abs_def find_row_delete [OF assms] lt_commit_def)
  have "snd (delete_rows ?p db) = 1 \<longleftrightarrow> held_with (cl_token c) (lease_abs db (cl_key c))"
  proof (cases "find_row (cl_key c) db")
    case None
    then have "filter ?p (db_spool db) = []" by (force simp: find_row_None filter_empty_conv claimed_by_def)
    then show ?thesis using None by (simp add: delete_rows_def)
  next
    case (Some r)
    note r = find_row_Some [OF Some]
    show ?thesis
    proof (cases "?p r")
      case True
      have "filter (\<lambda>s. row_key s = row_key r \<and> ?p s) (db_spool db) = [r]" using assms r True by (intro key_filter) auto
      moreover have "(\<lambda>s. row_key s = row_key r \<and> ?p s) = ?p" using r by (auto simp: claimed_by_def)
      ultimately show ?thesis using held_with_iff [OF assms Some] True by (simp add: delete_rows_def)
    next
      case False
      have "\<not> ?p s" if "s \<in> set (db_spool db)" for s
      proof
        assume "?p s"
        then have "s = r" using that r find_row_wf [OF assms, of "cl_key c"] by (metis claimed_by_def option.inject)
        with False \<open>?p s\<close> show False by simp
      qed
      then have "filter ?p (db_spool db) = []" by (simp add: filter_empty_conv)
      then show ?thesis using held_with_iff [OF assms Some] False by (simp add: delete_rows_def)
    qed
  qed
  then show ?thesis
    using idle deleted by (auto simp: commit_claim_def delete_claimed_rows)
qed

lemma refine_claim:
  assumes "engine_ok en" "spool_wf db" "claim_inbound_spool en now duration token db = (Some r, db')"
  shows "lease_abs db (row_key r) = Some (sp_payload r, Free)
    \<and> lease_abs db' = (lease_abs db)(row_key r \<mapsto> (sp_payload r, Leased token (sat_add_i64 now duration)))"
proof -
  obtain c where c: "c \<in> set (db_spool db)" "is_pending c" "r = claim_row now duration token c"
    "db' = claimed_at c now duration token db"
    using claim_inbound_wf [OF assms(1,2), of now duration token] assms(3) by auto
  then have find: "find_row (row_key r) db = Some c" using find_row_wf [OF assms(2)] by simp
  have r: "sp_payload r = sp_payload c" "lease_of r = Leased token (sat_add_i64 now duration)" "lease_of c = Free"
    using c by (simp_all add: claim_row_def lease_of_def is_pending_def)
  have upd: "find_row k db' = map_option (\<lambda>s. if row_key s = row_key c \<and> is_pending s
      then claim_row now duration token s else s) (find_row k db)" for k
    unfolding c(4) claimed_at_def by (rule find_row_update) simp
  have key: "row_key r = row_key c" using c(3) by simp
  have "lease_abs db' k = ((lease_abs db)(row_key r \<mapsto> (sp_payload r, Leased token (sat_add_i64 now duration)))) k" for k
  proof (cases "k = row_key c")
    case True
    then show ?thesis using find c(2) r unfolding lease_abs_def upd key by (simp flip: c(3))
  next
    case False
    then have "row_key s \<noteq> row_key c" if "find_row k db = Some s" for s using find_row_Some [OF that] by simp
    with False show ?thesis unfolding lease_abs_def upd key by (cases "find_row k db") simp_all
  qed
  moreover have "lease_abs db (row_key r) = Some (sp_payload r, Free)" using find r by (simp add: lease_abs_def)
  ultimately show ?thesis by blast
qed

text \<open>
  C34. The SQL spool refines a lease table. On well-formed tables recovering, committing and releasing
  commute with the abstraction that forgets order, priorities and timestamps, a commit succeeds
  exactly when the abstract lease is still held with its token, and a claim turns one free entry into
  one leased until the given time, leaving every other entry alone.
\<close>

theorem spool_refines_lease_table:
  assumes "engine_ok en" "spool_wf db"
  shows "lease_abs (fst (recover_claims at db)) = lt_recover (i64_of_u64 at) (lease_abs db)
    \<and> lease_abs (snd (commit_claim c db)) = lt_commit (cl_key c) (cl_token c) (lease_abs db)
    \<and> (fst (commit_claim c db) = Inr () \<longleftrightarrow> held_with (cl_token c) (lease_abs db (cl_key c)))
    \<and> lease_abs (release_claim c db) = lt_release (cl_key c) (cl_token c) (lease_abs db)
    \<and> (case claim_inbound_spool en now duration token db of
          (None, db') \<Rightarrow> lease_abs db' = lease_abs db
        | (Some r, db') \<Rightarrow> lease_abs db (row_key r) = Some (sp_payload r, Free)
            \<and> lease_abs db' = (lease_abs db)(row_key r \<mapsto> (sp_payload r, Leased token (sat_add_i64 now duration))))"
proof -
  obtain res db' where run: "claim_inbound_spool en now duration token db = (res, db')" by (rule prod.exhaust)
  have "db' = db" if "res = None"
    using claim_inbound_wf [OF assms, of now duration token] run that by auto
  moreover have "lease_abs db (row_key r) = Some (sp_payload r, Free)
      \<and> lease_abs db' = (lease_abs db)(row_key r \<mapsto> (sp_payload r, Leased token (sat_add_i64 now duration)))" if "res = Some r" for r
    using refine_claim [OF assms] run that by simp
  ultimately show ?thesis
    using refine_commit [OF assms(2)] refine_release [OF assms(2)] refine_recover [OF assms(2)]
    by (cases res) (simp_all add: run recover_claims_def)
qed

section \<open>A dropped insertion\<close>

text \<open>The insertion of the least important row of a full table.\<close>

lemma least_first:
  assumes "mset xs = add_mset new (mset rs)" "\<forall>r \<in> set rs. drop_key new < drop_key r"
  shows "\<exists>ys. sort_key drop_key xs = new # ys"
proof (cases "sort_key drop_key xs")
  case Nil
  then have "xs = []" by (metis length_0_conv length_sort)
  with assms(1) show ?thesis by simp
next
  case (Cons y ys)
  have "sorted (map drop_key (y # ys))" unfolding Cons [symmetric] by simp
  moreover have s: "set (y # ys) = insert new (set rs)"
    unfolding Cons [symmetric] using assms(1) by (metis set_mset_add_mset_insert set_mset_mset set_sort)
  ultimately have "drop_key y \<le> drop_key new" by (metis insertI1 list.simps(9) order_refl set_ConsD sorted_simps(2) image_eqI list.set_map)
  moreover have "y \<in> insert new (set rs)" using s by (metis list.set_intros(1))
  ultimately have "y = new" using assms(2) by auto
  with Cons show ?thesis by simp
qed

lemma trigger_drops_least:
  assumes "engine_ok en" "is_pending new" "hard_max_count \<le> length rs"
    and "\<forall>r \<in> set rs. row_key r \<noteq> row_key new"
    and "\<forall>r \<in> set rs. is_pending r \<longrightarrow> drop_key new < drop_key r"
    and "\<forall>r \<in> set rs. is_pending r \<longrightarrow> sp_inserted_at_ms new - hard_max_age_ms \<le> sp_inserted_at_ms r"
    and "db_spool db = rs @ [new]"
  shows "(t = CountRetention \<longrightarrow> new \<notin> set (db_spool (fire_trigger en new t db)))
    \<and> (new \<notin> set (db_spool (fire_trigger en new t db)) \<or> fire_trigger en new t db = db)"
proof -
  have new_gone: "new \<notin> set (filter (\<lambda>r. \<not> victims_of (new # vs) r) (db_spool db))" for vs
    by (simp add: victims_of_def)
  have lt: "\<forall>r \<in> set (filter is_pending rs). drop_key new < drop_key r" using assms(5) by simp
  have pend: "filter is_pending (db_spool db) = filter is_pending rs @ [new]" by (simp add: assms(2,7))
  show ?thesis
  proof (cases t)
    case ExpiredRetention
    have "\<not> list_ex (\<lambda>r. is_pending r \<and> sp_inserted_at_ms r < sp_inserted_at_ms new - hard_max_age_ms) (db_spool db)"
      using assms(6) by (auto simp: assms(7) list_ex_iff hard_max_age_ms_def)
    then show ?thesis by (simp add: ExpiredRetention trigger_eqs del: fire_trigger.simps)
  next
    case CountRetention
    have "mset (en_scan en (filter is_pending (db_spool db))) = add_mset new (mset (filter is_pending rs))"
      unfolding engine_scan(4) [OF assms(1)] pend by simp
    then obtain ys where "order_by en drop_key (filter is_pending (db_spool db)) = new # ys"
      using least_first [OF _ lt] unfolding order_by_def by blast
    moreover have "length (db_spool db) - hard_max_count = Suc (length rs - hard_max_count)"
      using assms(3) by (simp add: assms(7))
    ultimately have "count_victims en db = new # take (length rs - hard_max_count) ys"
      by (simp add: count_victims_def)
    then show ?thesis using new_gone assms(3) by (simp add: CountRetention trigger_eqs assms(7) del: fire_trigger.simps)
  next
    case BytesRetention
    have "mset (filter is_pending (db_spool db)) = add_mset new (mset (filter is_pending rs))" unfolding pend by simp
    then obtain ys where ys: "sort_key drop_key (filter is_pending (db_spool db)) = new # ys"
      using least_first [OF _ lt] by blast
    have "\<exists>vs. bytes_victims db = new # vs" if "hard_max_bytes < total_bytes (db_spool db)"
      using that by (simp add: bytes_victims_def ys)
    then show ?thesis using new_gone by (auto simp: BytesRetention trigger_eqs simp del: fire_trigger.simps)
  qed
qed

lemma insertion_dropped:
  assumes "engine_ok en" "is_pending new" "hard_max_count \<le> length (db_spool db)"
    and "\<forall>r \<in> set (db_spool db). row_key r \<noteq> row_key new"
    and "\<forall>r \<in> set (db_spool db). is_pending r \<longrightarrow> drop_key new < drop_key r"
    and "\<forall>r \<in> set (db_spool db). is_pending r \<longrightarrow> sp_inserted_at_ms new - hard_max_age_ms \<le> sp_inserted_at_ms r"
  shows "find_row (row_key new) (insert_row en new db) = None"
proof -
  let ?db = "db\<lparr>db_spool := db_spool db @ [new]\<rparr>"
  have gone: "new \<notin> set (db_spool (fold (fire_trigger en new) ts d))" if "new \<notin> set (db_spool d)" for ts d
    using triggers_filter [of en new ts d] that by auto
  have "CountRetention \<in> set ts \<longrightarrow> new \<notin> set (db_spool (fold (fire_trigger en new) ts ?db))" for ts
  proof (induction ts)
    case (Cons t ts)
    have rows: "db_spool ?db = db_spool db @ [new]" by simp
    note fire = trigger_drops_least [OF assms rows, of t]
    show ?case
    proof (cases "fire_trigger en new t ?db = ?db")
      case True
      have "new \<in> set (db_spool ?db)" by simp
      with fire True have "t \<noteq> CountRetention" by metis
      with Cons True show ?thesis by (simp del: fire_trigger.simps)
    next
      case False
      then show ?thesis using fire gone by (auto simp del: fire_trigger.simps)
    qed
  qed simp
  then have "new \<notin> set (db_spool (fold (fire_trigger en new) (en_triggers en) ?db))"
    using engine_fires [OF assms(1)] by blast
  moreover obtain p where "db_spool (fold (fire_trigger en new) (en_triggers en) ?db) = filter p (db_spool db @ [new])"
    using triggers_filter [of en new "en_triggers en" ?db] by auto
  moreover have "find_row (row_key new) db = None" using assms(4) by (auto simp: find_row_None)
  ultimately show ?thesis
    using assms(4) by (auto simp: insert_row_def find_row_None)
qed

lemma sat_sub_of_u64: "0 \<le> d \<Longrightarrow> d \<le> i64_max \<Longrightarrow> sat_sub_i64 (i64_of_u64 at) d = i64_of_u64 at - d"
  by (simp add: sat_sub_i64_def i64_of_u64_def i64_max_def i64_min_def)

lemma no_expired_pending:
  assumes "\<forall>r \<in> set (db_spool db). is_pending r \<longrightarrow> cutoff \<le> sp_inserted_at_ms r"
  shows "delete_expired_pending cutoff db = (db, 0)"
proof -
  have "filter (\<lambda>r. \<not> (is_pending r \<and> sp_inserted_at_ms r < cutoff)) (db_spool db) = db_spool db"
    using assms by (intro filter_True) auto
  moreover have "filter (\<lambda>r. is_pending r \<and> sp_inserted_at_ms r < cutoff) (db_spool db) = []"
    using assms by (auto simp: filter_empty_conv)
  ultimately show ?thesis by (simp add: delete_expired_pending_def delete_rows_def)
qed

text \<open>
  The desktop store reports a dropped event as a database failure. When the table is full of
  rows that are all more important and not expired, the retention trigger drops the row just inserted;
  the Hook store answers \<^verbatim>\<open>DroppedByLimit\<close>, the desktop store fails with \<^verbatim>\<open>NotFound\<close> from the
  query that reads the row back.
\<close>

theorem desktop_drop_is_database_error:
  assumes "engine_ok en" "within_hard_bounds l" "event_ok e"
    and "enc e = Some payload" "json_ok payload" "byte_len payload \<le> max_spool_record_bytes"
    and "spool_hard_max_count \<le> length (db_spool db)"
    and "\<forall>r \<in> set (db_spool db). row_key r \<noteq> (ident_str (ev_provider e), ident_str (ev_event_id e))
       \<and> (is_pending r \<longrightarrow> int (event_priority (ev_type e)) < sp_priority r
            \<and> i64_of_u64 at - 86400000 \<le> sp_inserted_at_ms r)"
  shows "enqueue en enc json_ok \<lparr>ss_limits = l, ss_hook = False\<rparr> e at db = Inl (SpoolDatabase NotFound)
    \<and> (\<exists>db'. enqueue en enc json_ok \<lparr>ss_limits = l, ss_hook = True\<rparr> e at db = Inr (DroppedByLimit, db'))"
proof -
  let ?row = "new_spool_row e payload (i64_of_u64 at)"
  have gone: "find_row (row_key ?row) (insert_row en ?row db) = None"
  proof (rule insertion_dropped [OF assms(1)])
    show "hard_max_count \<le> length (db_spool db)"
      using assms(7) by (simp add: hard_max_count_def spool_hard_max_count_def)
    have row: "row_key ?row = (ident_str (ev_provider e), ident_str (ev_event_id e))"
      "sp_priority ?row = int (event_priority (ev_type e))" "sp_inserted_at_ms ?row = i64_of_u64 at"
      by (simp_all add: new_spool_row_def row_key_def)
    show "\<forall>r \<in> set (db_spool db). row_key r \<noteq> row_key ?row" using assms(8) unfolding row by blast
    show "\<forall>r \<in> set (db_spool db). is_pending r \<longrightarrow> drop_key ?row < drop_key r"
      using assms(8) by (simp add: drop_key_def less_prod_simp row)
    show "\<forall>r \<in> set (db_spool db). is_pending r \<longrightarrow> sp_inserted_at_ms ?row - hard_max_age_ms \<le> sp_inserted_at_ms r"
      using assms(8) by (simp add: hard_max_age_ms_def row)
  qed simp
  have age: "i64_of_u64 spool_hard_max_age_ms = 86400000"
    by (simp add: i64_of_u64_def spool_hard_max_age_ms_def i64_max_def)
  have "delete_expired_pending (sat_sub_i64 (i64_of_u64 at) (i64_of_u64 spool_hard_max_age_ms)) db = (db, 0)"
    unfolding age using assms(8) by (intro no_expired_pending) (auto simp: sat_sub_of_u64 i64_max_def)
  then have "\<exists>db'. store_row en \<lparr>ss_limits = l, ss_hook = True\<rparr> ?row (i64_of_u64 at) db = Inr (False, db')"
    using gone by (simp add: store_row_def insert_inbound_spool_if_retained_def Let_def)
  moreover have "store_row en \<lparr>ss_limits = l, ss_hook = False\<rparr> ?row (i64_of_u64 at) db = Inl NotFound"
    using gone by (simp add: store_row_def insert_inbound_spool_def Let_def)
  ultimately show ?thesis
    using assms(2-6) by (auto simp: enqueue_def validate_limits_def event_validate_iff [THEN iffD2] ok_or_def
        json_document_parse_def max_spool_record_bytes_def max_json_document_bytes_def)
qed

section \<open>Concrete runs\<close>

definition spooled_event :: "session_event_kind \<Rightarrow> session_event" where
  "spooled_event kind = \<lparr>ev_version = 1, ev_event_id = Ident (lit ''ev''), ev_provider = Ident (lit ''codex''),
     ev_type = kind, ev_session_id = Ident (lit ''s''), ev_turn_id = Some (Ident (lit ''t'')),
     ev_occurred_at_ms = 7, ev_project = None, ev_summary = None, ev_capabilities = no_capabilities,
     ev_source_discriminator = lit ''default''\<rparr>"

lemma spooled_event_fields [simp]:
  "ident_str (ev_provider (spooled_event kind)) = lit ''codex''"
  "ident_str (ev_event_id (spooled_event kind)) = lit ''ev''" "ev_type (spooled_event kind) = kind"
  by (simp_all add: spooled_event_def)

lemma spooled_event_ok [simp]: "event_ok (spooled_event kind)"
  by (simp add: event_ok_def spooled_event_def session_schema_version_def source_discriminator_ok_def lit_def
      max_source_discriminator_chars_def has_control_def is_control_def)

lemma spooled_event_valid [simp]: "event_validate (spooled_event kind) = Inr ()"
  by (simp add: event_validate_iff)

definition full_database :: database where
  "full_database = empty_database\<lparr>db_spool := map (\<lambda>n. demo_row n 3 5) [0..<256]\<rparr>"

theorem desktop_drop_is_database_error_witness:
  "enqueue rowid_engine (\<lambda>_. Some (lit ''{}'')) (\<lambda>_. True) store_for_application (spooled_event TurnCompleted) 10 full_database
    = Inl (SpoolDatabase NotFound)"
proof -
  have "\<forall>r \<in> set (db_spool full_database). row_key r \<noteq> (lit ''codex'', lit ''ev'')
     \<and> (is_pending r \<longrightarrow> int (event_priority TurnCompleted) < sp_priority r
          \<and> i64_of_u64 10 - 86400000 \<le> sp_inserted_at_ms r)"
    by (auto simp: full_database_def demo_row_def row_key_def lit_def event_priority_def i64_of_u64_def i64_max_def)
  moreover have "spool_hard_max_count \<le> length (db_spool full_database)" "within_hard_bounds default_limits"
    by (simp_all add: full_database_def spool_hard_max_count_def within_hard_bounds_def default_limits_def
        spool_hard_max_bytes_def spool_hard_max_age_ms_def)
  moreover have "byte_len (lit ''{}'') \<le> max_spool_record_bytes"
    by (simp add: byte_len_def lit_def utf8_width_def max_spool_record_bytes_def)
  ultimately show ?thesis
    using desktop_drop_is_database_error [of rowid_engine default_limits "spooled_event TurnCompleted"
        "\<lambda>_. Some (lit ''{}'')" "lit ''{}''" "\<lambda>_. True" full_database 10]
    by (simp add: store_for_application_def)
qed

definition sample_env :: spool_env where
  "sample_env = \<lparr>se_engine = rowid_engine, se_encode = (\<lambda>_. Some (lit ''{}'')), se_json_ok = (\<lambda>_. True),
     se_decode = (\<lambda>p. if p = lit ''{}'' then Some (spooled_event AttentionRequired) else None)\<rparr>"

lemma sample_env_ok [simp]: "env_ok sample_env"
  by (simp add: env_ok_def sample_env_def)

lemma sample_env_engine [simp]: "se_engine sample_env = rowid_engine"
  by (simp add: sample_env_def)

lemmas spool_defs = spool_exec.simps accepts.simps commits.simps enqueue_def claim_next_def
  recover_claims_def recover_expired_claims_def update_rows_def
  validate_limits_def within_hard_bounds_def default_limits_def spool_hard_max_count_def
  spool_hard_max_bytes_def spool_hard_max_age_ms_def store_for_hook_def store_for_application_def
  json_document_parse_def max_json_document_bytes_def max_spool_record_bytes_def
  store_row_def insert_inbound_spool_if_retained_def insert_inbound_spool_def delete_expired_pending_def delete_rows_def
  insert_row_def find_row_def count_retention_def expired_retention_def bytes_retention_def
  hard_max_age_ms_def hard_max_bytes_def hard_max_count_def rowid_engine_def total_bytes_def
  row_bytes_def is_pending_def row_key_def new_spool_row_def event_priority_def
  i64_of_u64_def i64_max_def i64_min_def sat_sub_i64_def sat_add_i64_def fresh_at_def
  empty_database_def empty_app_state_def increment_spool_metrics_def Let_def

definition stored_row :: spool_row where
  "stored_row = \<lparr>sp_provider = lit ''codex'', sp_event_id = lit ''ev'', sp_payload = lit ''{}'', sp_priority = 3,
     sp_occurred_at_ms = 7, sp_inserted_at_ms = 10, sp_status = RowPending, sp_claim_token = None,
     sp_claimed_at_ms = None, sp_lease_expires_at_ms = None, sp_attempts = 0\<rparr>"

lemma enqueue_stores:
  "enqueue rowid_engine (se_encode sample_env) (se_json_ok sample_env) store_for_hook (spooled_event AttentionRequired) 10 empty_database
    = Inr (Stored, empty_database\<lparr>db_spool := [stored_row]\<rparr>)"
proof -
  have at: "ev_occurred_at_ms (spooled_event AttentionRequired) = 7" by (simp add: spooled_event_def)
  have [simp]: "byte_len (lit ''{}'') = 2" by (simp add: byte_len_def lit_def utf8_width_def)
  show ?thesis
    by (simp add: spool_defs at sample_env_def stored_row_def ok_or_def)
qed

definition one_row :: database where
  "one_row = empty_database\<lparr>db_spool := [stored_row]\<rparr>"

lemma one_row_wf [simp]: "spool_wf one_row"
  by (simp add: one_row_def spool_wf_def stored_row_def row_wf_def)

lemma run_one_row:
  "spool_run sample_env [OpEnqueue store_for_hook (spooled_event AttentionRequired) 10] empty_database = (one_row, 1, 0)"
proof -
  have "fresh_at store_for_hook row at empty_database" for row at
    by (simp add: fresh_at_def delete_expired_pending_def delete_rows_def empty_database_def find_row_def)
  then show ?thesis using enqueue_stores by (simp add: one_row_def)
qed

theorem every_row_accounted_witness:
  "spool_run sample_env [OpEnqueue store_for_hook (spooled_event AttentionRequired) 10] empty_database = (one_row, 1, 0)
   \<and> (1 :: int) = int (length (db_spool one_row)) + ar_expired_drops (db_app one_row) + ar_limit_drops (db_app one_row)
     + ar_malformed_drops (db_app one_row) + 0"
  using every_row_accounted [OF sample_env_ok run_one_row] run_one_row by simp

theorem spool_stays_bounded_witness:
  "db_spool one_row = [stored_row] \<and> length (db_spool one_row) \<le> spool_hard_max_count \<and> row_wf stored_row"
proof -
  have "spool_step (sample_env, empty_database) (sample_env, one_row)"
    unfolding spool_step_def using enqueue_stores
    by (intro exI [of _ "OpEnqueue store_for_hook (spooled_event AttentionRequired) 10"]) (simp add: one_row_def)
  then have "spool_step\<^sup>*\<^sup>* (sample_env, empty_database) (sample_env, one_row)" by (rule r_into_rtranclp)
  from spool_stays_bounded [OF sample_env_ok this] show ?thesis by (simp add: one_row_def)
qed

definition claimed_row :: spool_row where
  "claimed_row = claim_row 10 claim_lease_ms (lit ''t1'') stored_row"

lemma claims_one_row_with:
  assumes "decode_valid dec (lit ''{}'') = Some e"
  shows "claim_next rowid_engine dec (\<lambda>_. lit ''t1'') store_for_application 10 one_row
    = Inr (Some \<lparr>cl_key = (lit ''codex'', lit ''ev''), cl_token = lit ''t1'', cl_event = e\<rparr>,
           empty_database\<lparr>db_spool := [claimed_row]\<rparr>)"
proof -
  have [simp]: "byte_len (lit ''{}'') = 2" by (simp add: byte_len_def lit_def utf8_width_def)
  have enforced: "enforce_and_record rowid_engine default_limits 10 one_row = one_row"
    by (simp add: enforce_and_record_def enforce_limits_def list_inbound_spool_def order_by_def one_row_def
        stored_row_def row_expired_def delete_all_rows_def record_retention_delta_def no_delta_def sort_key_def spool_defs)
  have recovered: "recover_expired_claims 10 one_row = (one_row, 0)"
    by (simp add: recover_expired_claims_def update_rows_def one_row_def stored_row_def)
  have "claim_loop rowid_engine dec (\<lambda>_. lit ''t1'') 0 10 one_row
      = (Some \<lparr>cl_key = (lit ''codex'', lit ''ev''), cl_token = lit ''t1'', cl_event = e\<rparr>,
         empty_database\<lparr>db_spool := [claimed_row]\<rparr>)"
    by (subst claim_loop.simps) (simp add: claim_inbound_spool_def order_by_def sort_key_def assms
        claimed_row_def claim_row_def one_row_def stored_row_def spool_defs)
  moreover have "i64_of_u64 10 = 10" "within_hard_bounds default_limits" by (simp_all add: spool_defs)
  ultimately show ?thesis
    using enforced recovered by (simp add: claim_next_def validate_limits_def store_for_application_def)
qed

lemma claims_one_row:
  "claim_next rowid_engine (se_decode sample_env) (\<lambda>_. lit ''t1'') store_for_application 10 one_row
    = Inr (Some \<lparr>cl_key = (lit ''codex'', lit ''ev''), cl_token = lit ''t1'', cl_event = spooled_event AttentionRequired\<rparr>,
           empty_database\<lparr>db_spool := [claimed_row]\<rparr>)"
  by (rule claims_one_row_with) (simp add: decode_valid_def sample_env_def)

theorem claim_next_most_urgent_witness:
  "\<exists>r \<in> set [claimed_row]. sp_claim_token r = Some (lit ''t1'')
    \<and> sp_lease_expires_at_ms r = Some (sat_add_i64 (i64_of_u64 10) 30000)"
  using claim_next_most_urgent [OF rowid_engine_ok one_row_wf claims_one_row] by auto

theorem claim_next_returns_witness:
  "\<exists>res db' n. claim_next rowid_engine (\<lambda>_. None) (\<lambda>_. lit ''t1'') store_for_application 10 one_row = Inr (res, db')
     \<and> length (db_spool db') + n = length (db_spool (enforce_and_record rowid_engine default_limits (i64_of_u64 10)
          (fst (recover_expired_claims (i64_of_u64 10) one_row))))"
proof -
  have "within_hard_bounds (ss_limits store_for_application)" by (simp add: spool_defs)
  from claim_next_returns [OF rowid_engine_ok one_row_wf this, of 10 "\<lambda>_. None" "\<lambda>_. lit ''t1''"]
  show ?thesis by (auto simp: store_for_application_def)
qed

theorem spool_refines_lease_table_witness:
  "lease_abs (fst (recover_claims 10 one_row)) = lt_recover (i64_of_u64 10) (lease_abs one_row)"
  using spool_refines_lease_table [OF rowid_engine_ok one_row_wf] by blast

theorem lease_protects_claim_witness:
  "claimed_row \<in> set (db_spool (fst (spool_run sample_env [OpRecover 100] (empty_database\<lparr>db_spool := [claimed_row]\<rparr>))))"
proof -
  let ?db = "empty_database\<lparr>db_spool := [claimed_row]\<rparr>"
  obtain db1 a c where run: "spool_run sample_env [OpRecover 100] ?db = (db1, a, c)" by (metis prod_cases3)
  have wf: "spool_wf ?db" by (simp add: spool_wf_def claimed_row_def)
  have row: "claimed_by (lit ''codex'', lit ''ev'') (lit ''t1'') claimed_row"
    "sp_lease_expires_at_ms claimed_row = Some 30010"
    by (simp_all add: claimed_row_def claim_row_def stored_row_def claimed_by_def row_key_def claim_lease_ms_def
        sat_add_i64_def i64_max_def i64_min_def)
  have ops: "\<forall>op \<in> set [OpRecover 100]. leaves_claim (lit ''codex'', lit ''ev'') (lit ''t1'') 30010 op"
    by (simp add: i64_of_u64_def i64_max_def)
  from lease_protects_claim [OF sample_env_ok wf _ row ops run] run show ?thesis by simp
qed

end
