(* ===== verification/Actions.thy ===== *)
theory Actions
  imports Lili_Core
begin

text \<open>
  \<^verbatim>\<open>lili-actions\<close>: the versioned interaction context and its decoder, the action configuration and
  its loader (\<^verbatim>\<open>loading.rs\<close>), the title response decoder (\<^verbatim>\<open>title.rs\<close>). The TOML and JSON parsers and
  the file system are arguments; what is modelled is every check the sources make on their results.
\<close>

section \<open>Triggers and contexts\<close>

type_synonym uuid = nat

definition actions_schema_version :: int where "actions_schema_version = 1"
definition default_action_timeout_ms :: nat where "default_action_timeout_ms = 10000"
definition max_action_timeout_ms :: nat where "max_action_timeout_ms = 120000"
definition default_action_debounce_ms :: nat where "default_action_debounce_ms = 250"
definition max_action_debounce_ms :: nat where "max_action_debounce_ms = 60000"
definition max_global_concurrency :: nat where "max_global_concurrency = 16"
definition max_action_queue_capacity :: nat where "max_action_queue_capacity = 64"
definition interaction_context_version :: nat where "interaction_context_version = 1"
definition max_interaction_context_bytes :: nat where "max_interaction_context_bytes = 16 * 1024"

datatype interaction_trigger = PetClick | PetDoubleClick | NotificationActivate

datatype action_trigger = OnPetClick | OnPetDoubleClick | OnNotificationActivate | OnSessionTitle

fun trigger_from :: "interaction_trigger \<Rightarrow> action_trigger" where
  "trigger_from PetClick = OnPetClick"
| "trigger_from PetDoubleClick = OnPetDoubleClick"
| "trigger_from NotificationActivate = OnNotificationActivate"

datatype notification_filter_kind = FilterAttention | FilterCompletion | FilterFailure

datatype pet_lifecycle_snapshot = SnapIdle | SnapActivityReminder | SnapReview | SnapFailed | SnapWaiting

record pet_snapshot =
  psn_pet_id :: rstr
  psn_label :: rstr
  psn_lifecycle :: pet_lifecycle_snapshot

record event_summary =
  es_text :: rstr
  es_truncated :: bool
  es_redacted :: bool

record notification_snapshot_record =
  ns_notification_id :: rstr
  ns_event_id :: rstr
  ns_provider :: rstr
  ns_session_id :: rstr
  ns_turn_id :: "rstr option"
  ns_kind :: notification_filter_kind
  ns_occurred_at_ms :: nat
  ns_project_label :: "rstr option"
  ns_summary :: "event_summary option"

record interaction_context =
  ic_version :: nat
  ic_interaction_id :: uuid
  ic_accepted_at_ms :: nat
  ic_trigger :: interaction_trigger
  ic_pet :: pet_snapshot
  ic_notification :: "notification_snapshot_record option"

definition context_for_pet :: "uuid \<Rightarrow> nat \<Rightarrow> interaction_trigger \<Rightarrow> pet_snapshot \<Rightarrow> interaction_context option" where
  "context_for_pet i at trigger pet =
     (if trigger \<in> {PetClick, PetDoubleClick}
      then Some \<lparr>ic_version = interaction_context_version, ic_interaction_id = i, ic_accepted_at_ms = at,
             ic_trigger = trigger, ic_pet = pet, ic_notification = None\<rparr>
      else None)"

definition context_for_notification :: "uuid \<Rightarrow> nat \<Rightarrow> pet_snapshot \<Rightarrow> notification_snapshot_record \<Rightarrow> interaction_context" where
  "context_for_notification i at pet n =
     \<lparr>ic_version = interaction_context_version, ic_interaction_id = i, ic_accepted_at_ms = at,
      ic_trigger = NotificationActivate, ic_pet = pet, ic_notification = Some n\<rparr>"

datatype context_error = ContextTooLarge | ContextMalformed | ContextInvalid

definition context_invalid :: "interaction_context \<Rightarrow> bool" where
  "context_invalid c \<longleftrightarrow> ic_version c \<noteq> interaction_context_version
     \<or> psn_pet_id (ic_pet c) = []
     \<or> 128 < byte_len (psn_pet_id (ic_pet c))
     \<or> 128 < byte_len (psn_label (ic_pet c))
     \<or> list_ex (\<lambda>b. \<not> is_identifier_byte b) (utf8_bytes (psn_pet_id (ic_pet c)))
     \<or> (case ic_trigger c of NotificationActivate \<Rightarrow> ic_notification c = None
          | _ \<Rightarrow> ic_notification c \<noteq> None)"

definition decode_interaction_context ::
  "(byte list \<Rightarrow> interaction_context option) \<Rightarrow> byte list \<Rightarrow> context_error + interaction_context" where
  "decode_interaction_context dec payload =
     (if max_interaction_context_bytes < length payload then Inl ContextTooLarge
      else rbind (ok_or ContextMalformed (dec payload)) (\<lambda>c.
        if context_invalid c then Inl ContextInvalid else Inr c))"

section \<open>Configuration\<close>

record event_filter =
  ef_notification_kinds :: "notification_filter_kind list"
  ef_providers :: "rstr list"
  ef_project_labels :: "rstr list"

datatype working_directory_policy = WdApplication | WdApplicationData | WdExplicit

datatype concurrency_mode = ModeReject | ModeQueue

record concurrency_config =
  cc_mode :: concurrency_mode
  cc_max_parallel :: nat
  cc_queue_capacity :: nat

definition default_concurrency :: concurrency_config where
  "default_concurrency = \<lparr>cc_mode = ModeReject, cc_max_parallel = 1, cc_queue_capacity = 0\<rparr>"

type_synonym path = rstr

record action_config =
  acf_id :: rstr
  acf_trigger :: action_trigger
  acf_filters :: event_filter
  acf_command :: "rstr list"
  acf_timeout_ms :: nat
  acf_debounce_ms :: nat
  acf_concurrency :: concurrency_config
  acf_wd_policy :: working_directory_policy
  acf_wd_path :: "path option"
  acf_environment :: "(rstr \<times> rstr) list"

record loaded_action =
  la_id :: rstr
  la_trigger :: action_trigger
  la_filters :: event_filter
  la_executable :: path
  la_arguments :: "rstr list"
  la_timeout_ms :: nat
  la_debounce_ms :: nat
  la_concurrency_mode :: concurrency_mode
  la_max_parallel :: nat
  la_queue_capacity :: nat
  la_working_directory :: path
  la_wd_policy :: working_directory_policy
  la_environment :: "(rstr \<times> rstr) list"

definition max_action_config_bytes :: nat where "max_action_config_bytes = 256 * 1024"
definition max_action_entries :: nat where "max_action_entries = 128"
definition max_action_id_bytes :: nat where "max_action_id_bytes = 128"
definition max_command_part_bytes :: nat where "max_command_part_bytes = 16 * 1024"
definition max_environment_entries :: nat where "max_environment_entries = 64"
definition max_environment_value_bytes :: nat where "max_environment_value_bytes = 16 * 1024"

text \<open>The part of \<^verbatim>\<open>std::path\<close> and \<^verbatim>\<open>std::fs\<close> the loader consults.\<close>

record file_system =
  fs_is_file :: "path \<Rightarrow> bool"
  fs_is_dir :: "path \<Rightarrow> bool"
  fs_is_absolute :: "path \<Rightarrow> bool"
  fs_components :: "path \<Rightarrow> nat"
  fs_join :: "path \<Rightarrow> path \<Rightarrow> path"

record load_context =
  lc_application_dir :: path
  lc_application_data_dir :: path
  lc_search_path :: "path list"

datatype diagnostic_code =
    DgMissing | DgInvalidFile | DgTooLarge | DgMalformedDocument | DgUnsupportedVersion
  | DgTooManyEntries | DgMalformedEntry | DgInvalidIdentifier | DgDuplicateIdentifier
  | DgEmptyCommand | DgInvalidCommand | DgExecutableNotFound | DgInvalidTimeout
  | DgInvalidDebounce | DgInvalidConcurrency | DgInvalidWorkingDirectory
  | DgInvalidEnvironment | DgInvalidFilter

definition diagnostic_message :: "diagnostic_code \<Rightarrow> rstr" where
  "diagnostic_message c = (case c of
     DgMissing \<Rightarrow> lit ''action configuration is missing''
   | DgInvalidFile \<Rightarrow> lit ''action configuration is not a readable regular file''
   | DgTooLarge \<Rightarrow> lit ''action configuration exceeds its byte limit''
   | DgMalformedDocument \<Rightarrow> lit ''action configuration is malformed''
   | DgUnsupportedVersion \<Rightarrow> lit ''action configuration version is unsupported''
   | DgTooManyEntries \<Rightarrow> lit ''action configuration has too many entries''
   | DgMalformedEntry \<Rightarrow> lit ''action entry does not match the v1 schema''
   | DgInvalidIdentifier \<Rightarrow> lit ''action identifier is invalid''
   | DgDuplicateIdentifier \<Rightarrow> lit ''action identifier is duplicated''
   | DgEmptyCommand \<Rightarrow> lit ''action command is empty''
   | DgInvalidCommand \<Rightarrow> lit ''action argv is invalid''
   | DgExecutableNotFound \<Rightarrow> lit ''action executable could not be resolved''
   | DgInvalidTimeout \<Rightarrow> lit ''action timeout is outside the allowed range''
   | DgInvalidDebounce \<Rightarrow> lit ''action debounce is outside the allowed range''
   | DgInvalidConcurrency \<Rightarrow> lit ''action concurrency policy is invalid''
   | DgInvalidWorkingDirectory \<Rightarrow> lit ''action working directory policy is invalid''
   | DgInvalidEnvironment \<Rightarrow> lit ''action environment allowlist is invalid''
   | DgInvalidFilter \<Rightarrow> lit ''action event filter is invalid'')"

record diagnostic =
  dg_entry_index :: "nat option"
  dg_action_id :: "rstr option"
  dg_code :: diagnostic_code
  dg_message :: rstr

record effective_action =
  ea_entry_index :: nat
  ea_id :: "rstr option"
  ea_trigger :: "action_trigger option"
  ea_enabled :: bool
  ea_executable_resolved :: bool
  ea_argument_count :: nat
  ea_timeout_ms :: "nat option"
  ea_debounce_ms :: "nat option"
  ea_concurrency_mode :: "concurrency_mode option"
  ea_max_parallel :: "nat option"
  ea_queue_capacity :: "nat option"
  ea_wd_policy :: "working_directory_policy option"
  ea_environment_names :: "rstr list"

record effective_actions =
  efa_schema_version :: "int option"
  efa_actions :: "effective_action list"
  efa_diagnostics :: "diagnostic list"

record loaded_actions =
  lds_enabled :: "loaded_action list"
  lds_effective :: effective_actions

record action_summary =
  as_id :: rstr
  as_trigger :: action_trigger
  as_enabled :: bool

definition summaries :: "loaded_actions \<Rightarrow> action_summary list" where
  "summaries l = List.map_filter (\<lambda>a. case ea_id a of None \<Rightarrow> None | Some i \<Rightarrow>
      (case ea_trigger a of None \<Rightarrow> None
       | Some t \<Rightarrow> Some \<lparr>as_id = i, as_trigger = t, as_enabled = ea_enabled a\<rparr>)) (efa_actions (lds_effective l))"

section \<open>Validation\<close>

definition resolve_executable :: "file_system \<Rightarrow> load_context \<Rightarrow> rstr \<Rightarrow> path option" where
  "resolve_executable fs ctx exe =
     (if fs_is_absolute fs exe then (if fs_is_file fs exe then Some exe else None)
      else if 1 < fs_components fs exe
        then let candidate = fs_join fs (lc_application_dir ctx) exe in
             if fs_is_file fs candidate then Some candidate else None
      else find (fs_is_file fs) (map (\<lambda>d. fs_join fs d exe) (lc_search_path ctx)))"

definition valid_environment_name :: "rstr \<Rightarrow> bool" where
  "valid_environment_name name = (case utf8_bytes name of
     [] \<Rightarrow> False
   | b # rest \<Rightarrow> (is_ascii_alphabetic b \<or> b = 95) \<and> list_all (\<lambda>b. is_ascii_alphanumeric b \<or> b = 95) rest)"

definition valid_filters :: "event_filter \<Rightarrow> bool" where
  "valid_filters f \<longleftrightarrow>
     list_all (\<lambda>v. v \<noteq> [] \<and> byte_len v \<le> 256 \<and> \<not> has_control v) (ef_providers f)
   \<and> list_all (\<lambda>v. v \<noteq> [] \<and> length v \<le> 128 \<and> \<not> has_control v) (ef_project_labels f)"

definition safe_identifier :: "rstr \<Rightarrow> rstr option" where
  "safe_identifier v =
     (if v \<noteq> [] \<and> byte_len v \<le> max_action_id_bytes \<and> list_all is_identifier_byte (utf8_bytes v)
      then Some v else None)"

definition bad_command_part :: "rstr \<Rightarrow> bool" where
  "bad_command_part part \<longleftrightarrow> part = [] \<or> max_command_part_bytes < byte_len part
     \<or> 0 \<in> set (utf8_bytes part) \<or> has_control part"

definition bad_concurrency :: "concurrency_config \<Rightarrow> bool" where
  "bad_concurrency c \<longleftrightarrow> \<not> (1 \<le> cc_max_parallel c \<and> cc_max_parallel c \<le> max_global_concurrency)
     \<or> max_action_queue_capacity < cc_queue_capacity c
     \<or> (case cc_mode c of ModeReject \<Rightarrow> cc_queue_capacity c \<noteq> 0 | ModeQueue \<Rightarrow> cc_queue_capacity c = 0)"

definition working_directory_for :: "file_system \<Rightarrow> load_context \<Rightarrow> action_config \<Rightarrow> diagnostic_code + path" where
  "working_directory_for fs ctx c =
     (case (acf_wd_policy c, acf_wd_path c) of
        (WdApplication, None) \<Rightarrow> Inr (lc_application_dir ctx)
      | (WdApplicationData, None) \<Rightarrow> Inr (lc_application_data_dir ctx)
      | (WdExplicit, Some p) \<Rightarrow>
          (if fs_is_absolute fs p \<and> fs_is_dir fs p then Inr p else Inl DgInvalidWorkingDirectory)
      | _ \<Rightarrow> Inl DgInvalidWorkingDirectory)"

definition bad_environment :: "(rstr \<times> rstr) list \<Rightarrow> bool" where
  "bad_environment env \<longleftrightarrow> max_environment_entries < length env
     \<or> list_ex (\<lambda>(name, v). \<not> valid_environment_name name \<or> max_environment_value_bytes < byte_len v
          \<or> 0 \<in> set (utf8_bytes v)) env"

definition validate_action :: "file_system \<Rightarrow> load_context \<Rightarrow> rstr \<Rightarrow> action_config \<Rightarrow> diagnostic_code + loaded_action" where
  "validate_action fs ctx i c =
     (case acf_command c of [] \<Rightarrow> Inl DgEmptyCommand
      | exe # arguments \<Rightarrow>
     if list_ex bad_command_part (acf_command c) then Inl DgInvalidCommand
     else rbind (ok_or DgExecutableNotFound (resolve_executable fs ctx exe)) (\<lambda>executable.
     if \<not> (1 \<le> acf_timeout_ms c \<and> acf_timeout_ms c \<le> max_action_timeout_ms) then Inl DgInvalidTimeout
     else if max_action_debounce_ms < acf_debounce_ms c then Inl DgInvalidDebounce
     else if bad_concurrency (acf_concurrency c) then Inl DgInvalidConcurrency
     else rbind (working_directory_for fs ctx c) (\<lambda>wd.
     if \<not> fs_is_dir fs wd then Inl DgInvalidWorkingDirectory
     else if bad_environment (acf_environment c) then Inl DgInvalidEnvironment
     else if \<not> valid_filters (acf_filters c)
          \<or> (acf_trigger c = OnSessionTitle
             \<and> (ef_notification_kinds (acf_filters c) \<noteq> [] \<or> ef_project_labels (acf_filters c) \<noteq> []))
       then Inl DgInvalidFilter
     else Inr \<lparr>la_id = i, la_trigger = acf_trigger c, la_filters = acf_filters c, la_executable = executable,
       la_arguments = arguments, la_timeout_ms = acf_timeout_ms c, la_debounce_ms = acf_debounce_ms c,
       la_concurrency_mode = cc_mode (acf_concurrency c), la_max_parallel = cc_max_parallel (acf_concurrency c),
       la_queue_capacity = cc_queue_capacity (acf_concurrency c), la_working_directory = wd,
       la_wd_policy = acf_wd_policy c, la_environment = acf_environment c\<rparr>)))"

section \<open>Views\<close>

definition enabled_view :: "nat \<Rightarrow> loaded_action \<Rightarrow> effective_action" where
  "enabled_view i a = \<lparr>ea_entry_index = i, ea_id = Some (la_id a), ea_trigger = Some (la_trigger a),
     ea_enabled = True, ea_executable_resolved = True, ea_argument_count = length (la_arguments a),
     ea_timeout_ms = Some (la_timeout_ms a), ea_debounce_ms = Some (la_debounce_ms a),
     ea_concurrency_mode = Some (la_concurrency_mode a), ea_max_parallel = Some (la_max_parallel a),
     ea_queue_capacity = Some (la_queue_capacity a), ea_wd_policy = Some (la_wd_policy a),
     ea_environment_names = map fst (la_environment a)\<rparr>"

definition disabled_config_view :: "nat \<Rightarrow> rstr \<Rightarrow> action_config \<Rightarrow> effective_action" where
  "disabled_config_view i name c = \<lparr>ea_entry_index = i, ea_id = Some name, ea_trigger = Some (acf_trigger c),
     ea_enabled = False, ea_executable_resolved = False, ea_argument_count = length (acf_command c) - 1,
     ea_timeout_ms = Some (acf_timeout_ms c), ea_debounce_ms = Some (acf_debounce_ms c),
     ea_concurrency_mode = Some (cc_mode (acf_concurrency c)),
     ea_max_parallel = Some (cc_max_parallel (acf_concurrency c)),
     ea_queue_capacity = Some (cc_queue_capacity (acf_concurrency c)), ea_wd_policy = Some (acf_wd_policy c),
     ea_environment_names = map fst (acf_environment c)\<rparr>"

definition disabled_view :: "nat \<Rightarrow> rstr option \<Rightarrow> effective_action" where
  "disabled_view i name = \<lparr>ea_entry_index = i, ea_id = name, ea_trigger = None, ea_enabled = False,
     ea_executable_resolved = False, ea_argument_count = 0, ea_timeout_ms = None, ea_debounce_ms = None,
     ea_concurrency_mode = None, ea_max_parallel = None, ea_queue_capacity = None, ea_wd_policy = None,
     ea_environment_names = []\<rparr>"

definition diagnostic_of :: "nat \<Rightarrow> rstr option \<Rightarrow> diagnostic_code \<Rightarrow> diagnostic" where
  "diagnostic_of i name code = \<lparr>dg_entry_index = Some i, dg_action_id = name, dg_code = code,
     dg_message = diagnostic_message code\<rparr>"

definition global_failure :: "diagnostic_code \<Rightarrow> loaded_actions" where
  "global_failure code = \<lparr>lds_enabled = [], lds_effective = \<lparr>efa_schema_version = None, efa_actions = [],
     efa_diagnostics = [\<lparr>dg_entry_index = None, dg_action_id = None, dg_code = code,
       dg_message = diagnostic_message code\<rparr>]\<rparr>\<rparr>"

section \<open>Loading\<close>

datatype toml_value =
    TomlString rstr
  | TomlInteger int
  | TomlFloat
  | TomlBoolean bool
  | TomlDatetime
  | TomlArray "toml_value list"
  | TomlTable "(rstr \<times> toml_value) list"

fun toml_integer :: "toml_value \<Rightarrow> int option" where
  "toml_integer (TomlInteger i) = Some i"
| "toml_integer _ = None"

fun toml_str :: "toml_value \<Rightarrow> rstr option" where
  "toml_str (TomlString s) = Some s"
| "toml_str _ = None"

fun toml_array :: "toml_value \<Rightarrow> toml_value list option" where
  "toml_array (TomlArray vs) = Some vs"
| "toml_array _ = None"

fun toml_table :: "toml_value \<Rightarrow> (rstr \<times> toml_value) list option" where
  "toml_table (TomlTable t) = Some t"
| "toml_table _ = None"

definition u16_try_from :: "int \<Rightarrow> int option" where
  "u16_try_from i = (if 0 \<le> i \<and> i < 65536 then Some i else None)"

definition safe_hinted_id :: "toml_value \<Rightarrow> rstr option" where
  "safe_hinted_id v = Option.bind (toml_table v) (\<lambda>t. Option.bind (map_of t (lit ''id''))
     (\<lambda>w. Option.bind (toml_str w) safe_identifier))"

text \<open>The loop over the entries; \<open>to_config\<close> is \<^verbatim>\<open>try_into::<ActionConfigV1>\<close>.\<close>

record load_state =
  ls_enabled :: "loaded_action list"
  ls_actions :: "effective_action list"
  ls_diagnostics :: "diagnostic list"
  ls_identifiers :: "rstr set"

definition reject_entry :: "effective_action \<Rightarrow> diagnostic \<Rightarrow> load_state \<Rightarrow> load_state" where
  "reject_entry view d s = s\<lparr>ls_actions := ls_actions s @ [view], ls_diagnostics := ls_diagnostics s @ [d]\<rparr>"

definition load_entry :: "file_system \<Rightarrow> load_context \<Rightarrow> (toml_value \<Rightarrow> action_config option) \<Rightarrow> nat \<Rightarrow> toml_value
    \<Rightarrow> load_state \<Rightarrow> load_state" where
  "load_entry fs ctx to_config i v s =
     (case to_config v of
        None \<Rightarrow> reject_entry (disabled_view i (safe_hinted_id v)) (diagnostic_of i (safe_hinted_id v) DgMalformedEntry) s
      | Some config \<Rightarrow>
     (case safe_identifier (acf_id config) of
        None \<Rightarrow> reject_entry (disabled_view i None) (diagnostic_of i None DgInvalidIdentifier) s
      | Some name \<Rightarrow>
     if name \<in> ls_identifiers s
     then reject_entry (disabled_config_view i name config) (diagnostic_of i (Some name) DgDuplicateIdentifier) s
     else let s' = s\<lparr>ls_identifiers := insert name (ls_identifiers s)\<rparr> in
       (case validate_action fs ctx name config of
          Inr a \<Rightarrow> s'\<lparr>ls_actions := ls_actions s' @ [enabled_view i a], ls_enabled := ls_enabled s' @ [a]\<rparr>
        | Inl code \<Rightarrow> reject_entry (disabled_view i (Some name)) (diagnostic_of i (Some name) code) s')))"

fun load_entries :: "file_system \<Rightarrow> load_context \<Rightarrow> (toml_value \<Rightarrow> action_config option) \<Rightarrow> nat \<Rightarrow> toml_value list
    \<Rightarrow> load_state \<Rightarrow> load_state" where
  "load_entries fs ctx to_config i [] s = s"
| "load_entries fs ctx to_config i (v # vs) s =
     load_entries fs ctx to_config (Suc i) vs (load_entry fs ctx to_config i v s)"

definition with_schema_version :: "int option \<Rightarrow> loaded_actions \<Rightarrow> loaded_actions" where
  "with_schema_version v l = l\<lparr>lds_effective := (lds_effective l)\<lparr>efa_schema_version := v\<rparr>\<rparr>"

definition empty_load :: load_state where
  "empty_load = \<lparr>ls_enabled = [], ls_actions = [], ls_diagnostics = [], ls_identifiers = {}\<rparr>"

definition load_actions_str :: "(rstr \<Rightarrow> (rstr \<times> toml_value) list option) \<Rightarrow> (toml_value \<Rightarrow> action_config option)
    \<Rightarrow> file_system \<Rightarrow> load_context \<Rightarrow> rstr \<Rightarrow> loaded_actions" where
  "load_actions_str parse to_config fs ctx contents =
     (if max_action_config_bytes < byte_len contents then global_failure DgTooLarge
      else case parse contents of
        None \<Rightarrow> global_failure DgMalformedDocument
      | Some table \<Rightarrow>
          let version = Option.bind (map_of table (lit ''version''))
                (\<lambda>v. Option.bind (toml_integer v) u16_try_from);
              entries = (case Option.bind (map_of table (lit ''action'')) toml_array of
                None \<Rightarrow> [] | Some vs \<Rightarrow> vs)
          in if version \<noteq> Some actions_schema_version
             then with_schema_version version (global_failure DgUnsupportedVersion)
             else if max_action_entries < length entries
             then with_schema_version version (global_failure DgTooManyEntries)
             else let s = load_entries fs ctx to_config 0 entries empty_load in
               \<lparr>lds_enabled = ls_enabled s, lds_effective = \<lparr>efa_schema_version = version,
                  efa_actions = ls_actions s, efa_diagnostics = ls_diagnostics s\<rparr>\<rparr>)"

text \<open>What \<^verbatim>\<open>symlink_metadata\<close> says of the configuration path, and what reading it yields.\<close>

datatype file_metadata = FileMissing | FileUnreadable | NotRegular | RegularFile nat

definition load_actions_file :: "file_metadata \<Rightarrow> rstr option \<Rightarrow> (rstr \<Rightarrow> loaded_actions) \<Rightarrow> loaded_actions" where
  "load_actions_file metadata contents load =
     (case metadata of
        NotRegular \<Rightarrow> global_failure DgInvalidFile
      | FileMissing \<Rightarrow> \<lparr>lds_enabled = [], lds_effective = \<lparr>efa_schema_version = None, efa_actions = [],
          efa_diagnostics = []\<rparr>\<rparr>
      | FileUnreadable \<Rightarrow> global_failure DgInvalidFile
      | RegularFile len \<Rightarrow>
          if max_action_config_bytes < len then global_failure DgTooLarge
          else (case contents of
              None \<Rightarrow> global_failure DgInvalidFile
            | Some c \<Rightarrow> if byte_len c \<le> max_action_config_bytes then load c else global_failure DgTooLarge))"

section \<open>Title responses\<close>

datatype title_response_error = TitleTooLarge | TitleInvalidProtocol

datatype title_value = TitleNull | TitleString rstr | TitleOther

record title_response =
  tr_version :: nat
  tr_title :: title_value

definition max_action_output_bytes :: nat where "max_action_output_bytes = 16 * 1024"

definition clean_title :: "rstr \<Rightarrow> rstr" where
  "clean_title t = trim (take 256 (filter (\<lambda>c. \<not> is_control c) (join (lit '' '') (split_whitespace t))))"

definition decode_title_response ::
  "(byte list \<Rightarrow> title_response option) \<Rightarrow> byte list \<Rightarrow> title_response_error + rstr option" where
  "decode_title_response dec bs =
     (if max_action_output_bytes < length bs then Inl TitleTooLarge
      else rbind (ok_or TitleInvalidProtocol (dec bs)) (\<lambda>r.
        if tr_version r \<noteq> 1 then Inl TitleInvalidProtocol
        else case tr_title r of
            TitleNull \<Rightarrow> Inr None
          | TitleOther \<Rightarrow> Inl TitleInvalidProtocol
          | TitleString t \<Rightarrow> let t' = clean_title t in Inr (if t' \<noteq> [] then Some t' else None)))"

section \<open>What loading guarantees\<close>

text \<open>The limits an action that may run satisfies, and those that depend on the file system.\<close>

definition action_ok :: "loaded_action \<Rightarrow> bool" where
  "action_ok a \<longleftrightarrow> safe_identifier (la_id a) \<noteq> None
     \<and> 1 \<le> la_timeout_ms a \<and> la_timeout_ms a \<le> 120000
     \<and> la_debounce_ms a \<le> 60000
     \<and> 1 \<le> la_max_parallel a \<and> la_max_parallel a \<le> 16
     \<and> la_queue_capacity a \<le> 64
     \<and> (la_concurrency_mode a = ModeReject \<longleftrightarrow> la_queue_capacity a = 0)
     \<and> list_all (\<lambda>arg. arg \<noteq> [] \<and> byte_len arg \<le> 16384 \<and> 0 \<notin> set (utf8_bytes arg) \<and> \<not> has_control arg) (la_arguments a)
     \<and> length (la_environment a) \<le> 64
     \<and> list_all (\<lambda>(name, v). valid_environment_name name \<and> byte_len v \<le> 16384 \<and> 0 \<notin> set (utf8_bytes v)) (la_environment a)
     \<and> list_all (\<lambda>p. p \<noteq> [] \<and> byte_len p \<le> 256 \<and> \<not> has_control p) (ef_providers (la_filters a))
     \<and> list_all (\<lambda>l. l \<noteq> [] \<and> length l \<le> 128 \<and> \<not> has_control l) (ef_project_labels (la_filters a))
     \<and> (la_trigger a = OnSessionTitle \<longrightarrow>
          ef_notification_kinds (la_filters a) = [] \<and> ef_project_labels (la_filters a) = [])"

definition action_runnable :: "file_system \<Rightarrow> loaded_action \<Rightarrow> bool" where
  "action_runnable fs a \<longleftrightarrow> action_ok a \<and> fs_is_dir fs (la_working_directory a) \<and> fs_is_file fs (la_executable a)"

lemma validate_action_ok:
  assumes "validate_action fs ctx i c = Inr a" "safe_identifier i \<noteq> None"
  shows "action_runnable fs a \<and> la_id a = i"
proof -
  obtain exe arguments where command: "acf_command c = exe # arguments"
    using assms(1) by (cases "acf_command c") (auto simp: validate_action_def)
  have parts: "\<not> list_ex bad_command_part (exe # arguments)"
    using assms(1) by (auto simp: validate_action_def command split: if_splits)
  obtain p wd where p: "resolve_executable fs ctx exe = Some p" "working_directory_for fs ctx c = Inr wd"
    "la_executable a = p" "la_working_directory a = wd" "fs_is_dir fs wd"
    using assms(1) parts by (auto simp: validate_action_def command rbind_Inr_iff split: if_splits)
  have "fs_is_file fs p"
    using p(1) by (auto simp: resolve_executable_def Let_def find_Some_iff split: if_splits)
  moreover have checks: "1 \<le> acf_timeout_ms c" "acf_timeout_ms c \<le> max_action_timeout_ms" "acf_debounce_ms c \<le> max_action_debounce_ms"
    "\<not> bad_concurrency (acf_concurrency c)" "\<not> bad_environment (acf_environment c)" "valid_filters (acf_filters c)"
    "acf_trigger c = OnSessionTitle \<longrightarrow> ef_notification_kinds (acf_filters c) = [] \<and> ef_project_labels (acf_filters c) = []"
    and a: "a = \<lparr>la_id = i, la_trigger = acf_trigger c, la_filters = acf_filters c, la_executable = p,
       la_arguments = arguments, la_timeout_ms = acf_timeout_ms c, la_debounce_ms = acf_debounce_ms c,
       la_concurrency_mode = cc_mode (acf_concurrency c), la_max_parallel = cc_max_parallel (acf_concurrency c),
       la_queue_capacity = cc_queue_capacity (acf_concurrency c), la_working_directory = wd,
       la_wd_policy = acf_wd_policy c, la_environment = acf_environment c\<rparr>"
    using assms(1) parts p(1,2,5)
    by (auto simp: validate_action_def command rbind_Inr_iff ok_or_Inr_iff not_less split: if_splits)
  moreover have "list_all (\<lambda>arg. arg \<noteq> [] \<and> byte_len arg \<le> 16384 \<and> 0 \<notin> set (utf8_bytes arg) \<and> \<not> has_control arg) arguments"
    using parts by (auto simp: list_all_iff list_ex_iff bad_command_part_def max_command_part_bytes_def not_less)
  moreover have "length (acf_environment c) \<le> 64
    \<and> list_all (\<lambda>(name, v). valid_environment_name name \<and> byte_len v \<le> 16384 \<and> 0 \<notin> set (utf8_bytes v)) (acf_environment c)"
    using checks(5) by (fastforce simp: bad_environment_def max_environment_entries_def max_environment_value_bytes_def
        list_all_iff list_ex_iff not_less)
  moreover have "1 \<le> cc_max_parallel (acf_concurrency c) \<and> cc_max_parallel (acf_concurrency c) \<le> 16
    \<and> cc_queue_capacity (acf_concurrency c) \<le> 64
    \<and> (cc_mode (acf_concurrency c) = ModeReject \<longleftrightarrow> cc_queue_capacity (acf_concurrency c) = 0)"
    using checks(4) by (cases "cc_mode (acf_concurrency c)")
      (simp_all add: bad_concurrency_def max_global_concurrency_def max_action_queue_capacity_def)
  ultimately show ?thesis
    using assms(2) p(3-5) unfolding a
    by (simp add: action_runnable_def action_ok_def valid_filters_def max_action_timeout_ms_def max_action_debounce_ms_def)
qed

text \<open>
  What becomes of the entry \<open>i\<close> of a file, said without the loop: it is malformed, has no safe identifier,
  repeats the identifier of an earlier entry (one that was enabled or not), or is validated.
\<close>

definition entry_identifier :: "(toml_value \<Rightarrow> action_config option) \<Rightarrow> toml_value \<Rightarrow> rstr option" where
  "entry_identifier to_config v = Option.bind (to_config v) (\<lambda>c. safe_identifier (acf_id c))"

definition entry_result :: "file_system \<Rightarrow> load_context \<Rightarrow> (toml_value \<Rightarrow> action_config option) \<Rightarrow> toml_value list
    \<Rightarrow> nat \<Rightarrow> diagnostic_code + loaded_action" where
  "entry_result fs ctx to_config vs i = (case to_config (vs ! i) of
     None \<Rightarrow> Inl DgMalformedEntry
   | Some config \<Rightarrow> (case safe_identifier (acf_id config) of
       None \<Rightarrow> Inl DgInvalidIdentifier
     | Some name \<Rightarrow>
         if list_ex (\<lambda>v. entry_identifier to_config v = Some name) (take i vs) then Inl DgDuplicateIdentifier
         else validate_action fs ctx name config))"

definition view_of_result :: "nat \<Rightarrow> diagnostic_code + loaded_action \<Rightarrow> effective_action \<Rightarrow> bool" where
  "view_of_result i r view \<longleftrightarrow> (case r of
     Inr a \<Rightarrow> view = enabled_view i a | Inl code \<Rightarrow> ea_entry_index view = i \<and> \<not> ea_enabled view)"

fun failure_code :: "'e + 'a \<Rightarrow> 'e option" where
  "failure_code (Inl e) = Some e"
| "failure_code (Inr x) = None"

text \<open>The state of the loop after the entries \<open>us\<close>.\<close>

definition loaded_prefix :: "file_system \<Rightarrow> load_context \<Rightarrow> (toml_value \<Rightarrow> action_config option) \<Rightarrow> toml_value list
    \<Rightarrow> load_state \<Rightarrow> bool" where
  "loaded_prefix fs ctx to_config us s \<longleftrightarrow>
     ls_enabled s = List.map_filter (\<lambda>i. result_ok (entry_result fs ctx to_config us i)) [0..<length us]
   \<and> length (ls_actions s) = length us
   \<and> (\<forall>i < length us. view_of_result i (entry_result fs ctx to_config us i) (ls_actions s ! i))
   \<and> map (\<lambda>d. (dg_entry_index d, dg_code d)) (ls_diagnostics s)
       = List.map_filter (\<lambda>i. map_option (Pair (Some i)) (failure_code (entry_result fs ctx to_config us i))) [0..<length us]
   \<and> (\<forall>name. name \<in> ls_identifiers s \<longleftrightarrow> list_ex (\<lambda>v. entry_identifier to_config v = Some name) us)"

lemma view_fields [simp]:
  "ea_entry_index (disabled_view i name) = i" "\<not> ea_enabled (disabled_view i name)"
  "ea_entry_index (disabled_config_view i n c) = i" "\<not> ea_enabled (disabled_config_view i n c)"
  "dg_entry_index (diagnostic_of i name code) = Some i" "dg_code (diagnostic_of i name code) = code"
  by (simp_all add: disabled_view_def disabled_config_view_def diagnostic_of_def)

lemma entry_result_prefix: "i < length us \<Longrightarrow> entry_result fs ctx to_config (us @ vs) i = entry_result fs ctx to_config us i"
proof -
  assume "i < length us"
  then have "take i (us @ vs) = take i us" "(us @ vs) ! i = us ! i" by (simp_all add: nth_append)
  then show ?thesis by (simp only: entry_result_def)
qed

lemma map_filter_snoc: "List.map_filter f (xs @ [x]) = List.map_filter f xs @ (case f x of None \<Rightarrow> [] | Some y \<Rightarrow> [y])"
  by (simp add: map_filter_def split: option.split)

lemma set_map_filter: "y \<in> set (List.map_filter f xs) \<longleftrightarrow> (\<exists>x \<in> set xs. f x = Some y)"
  by (force simp: map_filter_def)

lemma map_filter_upt_cong:
  "(\<And>i. i < n \<Longrightarrow> f i = g i) \<Longrightarrow> List.map_filter f [0..<n] = List.map_filter g [0..<n]"
  by (auto simp: map_filter_def intro!: map_cong filter_cong)

lemma loaded_prefix_step:
  assumes "loaded_prefix fs ctx to_config us s"
  shows "loaded_prefix fs ctx to_config (us @ [v]) (load_entry fs ctx to_config (length us) v s)"
proof -
  let ?r = "entry_result fs ctx to_config (us @ [v]) (length us)" and ?s' = "load_entry fs ctx to_config (length us) v s"
  have seen: "name \<in> ls_identifiers s \<longleftrightarrow> list_ex (\<lambda>v. entry_identifier to_config v = Some name) us" for name
    using assms by (simp add: loaded_prefix_def)
  have r: "?r = (case to_config v of
     None \<Rightarrow> Inl DgMalformedEntry
   | Some config \<Rightarrow> (case safe_identifier (acf_id config) of
       None \<Rightarrow> Inl DgInvalidIdentifier
     | Some name \<Rightarrow> if name \<in> ls_identifiers s then Inl DgDuplicateIdentifier else validate_action fs ctx name config))"
    by (simp add: entry_result_def seen split: option.split)
  have step: "\<exists>view ds. ls_actions ?s' = ls_actions s @ [view] \<and> view_of_result (length us) ?r view
      \<and> ls_enabled ?s' = ls_enabled s @ (case ?r of Inr a \<Rightarrow> [a] | Inl _ \<Rightarrow> [])
      \<and> ls_diagnostics ?s' = ls_diagnostics s @ ds
      \<and> map (\<lambda>d. (dg_entry_index d, dg_code d)) ds = (case ?r of Inr _ \<Rightarrow> [] | Inl code \<Rightarrow> [(Some (length us), code)])
      \<and> ls_identifiers ?s' = ls_identifiers s \<union> set_option (entry_identifier to_config v)"
    unfolding r
    by (auto simp: load_entry_def reject_entry_def entry_identifier_def view_of_result_def Let_def
        split: option.split sum.split)
  then obtain view ds where new: "ls_actions ?s' = ls_actions s @ [view]" "view_of_result (length us) ?r view"
    "ls_enabled ?s' = ls_enabled s @ (case ?r of Inr a \<Rightarrow> [a] | Inl _ \<Rightarrow> [])" "ls_diagnostics ?s' = ls_diagnostics s @ ds"
    "map (\<lambda>d. (dg_entry_index d, dg_code d)) ds = (case ?r of Inr _ \<Rightarrow> [] | Inl code \<Rightarrow> [(Some (length us), code)])"
    "ls_identifiers ?s' = ls_identifiers s \<union> set_option (entry_identifier to_config v)" by blast
  have enabled: "List.map_filter (\<lambda>i. result_ok (entry_result fs ctx to_config (us @ [v]) i)) [0..<length (us @ [v])]
      = List.map_filter (\<lambda>i. result_ok (entry_result fs ctx to_config us i)) [0..<length us] @ (case ?r of Inr a \<Rightarrow> [a] | Inl _ \<Rightarrow> [])"
    using map_filter_upt_cong [of "length us" "\<lambda>i. result_ok (entry_result fs ctx to_config (us @ [v]) i)"
        "\<lambda>i. result_ok (entry_result fs ctx to_config us i)"]
    by (cases ?r) (simp_all add: entry_result_prefix map_filter_snoc)
  have codes: "List.map_filter (\<lambda>i. map_option (Pair (Some i)) (failure_code (entry_result fs ctx to_config (us @ [v]) i))) [0..<length (us @ [v])]
      = List.map_filter (\<lambda>i. map_option (Pair (Some i)) (failure_code (entry_result fs ctx to_config us i))) [0..<length us]
        @ (case ?r of Inr _ \<Rightarrow> [] | Inl code \<Rightarrow> [(Some (length us), code)])"
    using map_filter_upt_cong [of "length us" "\<lambda>i. map_option (Pair (Some i)) (failure_code (entry_result fs ctx to_config (us @ [v]) i))"
        "\<lambda>i. map_option (Pair (Some i)) (failure_code (entry_result fs ctx to_config us i))"]
    by (cases ?r) (simp_all add: entry_result_prefix map_filter_snoc)
  show ?thesis
    unfolding loaded_prefix_def enabled codes
    using assms new by (auto simp: loaded_prefix_def nth_append entry_result_prefix less_Suc_eq)
qed

lemma load_entries_prefix:
  "loaded_prefix fs ctx to_config us s
    \<Longrightarrow> loaded_prefix fs ctx to_config (us @ vs) (load_entries fs ctx to_config (length us) vs s)"
proof (induction vs arbitrary: us s)
  case (Cons v vs)
  from Cons.IH [OF loaded_prefix_step [OF Cons.prems, of v]] show ?case by simp
qed simp

lemma entry_result_enabled:
  assumes "entry_result fs ctx to_config vs i = Inr a"
  shows "action_runnable fs a" "entry_identifier to_config (vs ! i) = Some (la_id a)"
    "\<not> list_ex (\<lambda>v. entry_identifier to_config v = Some (la_id a)) (take i vs)"
proof -
  obtain config name where c: "to_config (vs ! i) = Some config" "safe_identifier (acf_id config) = Some name"
    "\<not> list_ex (\<lambda>v. entry_identifier to_config v = Some name) (take i vs)" "validate_action fs ctx name config = Inr a"
    using assms by (auto simp: entry_result_def split: option.splits if_splits)
  have "safe_identifier name \<noteq> None" using c(2) by (auto simp: safe_identifier_def split: if_splits)
  from validate_action_ok [OF c(4) this] have ok: "action_runnable fs a" "la_id a = name" by simp_all
  with c show "action_runnable fs a" "entry_identifier to_config (vs ! i) = Some (la_id a)"
    "\<not> list_ex (\<lambda>v. entry_identifier to_config v = Some (la_id a)) (take i vs)"
    by (simp_all add: entry_identifier_def)
qed

lemma enabled_distinct:
  "n \<le> length vs \<Longrightarrow> distinct (map la_id (List.map_filter (\<lambda>i. result_ok (entry_result fs ctx to_config vs i)) [0..<n]))"
proof (induction n)
  case (Suc n)
  have "la_id b \<noteq> la_id a" if "entry_result fs ctx to_config vs n = Inr a" "i < n" "entry_result fs ctx to_config vs i = Inr b" for a b i
  proof
    assume "la_id b = la_id a"
    with entry_result_enabled(2) [OF that(3)] that(2) Suc.prems have "list_ex (\<lambda>v. entry_identifier to_config v = Some (la_id a)) (take n vs)"
      by (auto simp: list_ex_iff in_set_conv_nth intro!: bexI [of _ "vs ! i"] exI [of _ i])
    with entry_result_enabled(3) [OF that(1)] show False by simp
  qed
  with Suc show ?case
    by (cases "entry_result fs ctx to_config vs n") (fastforce simp: map_filter_snoc set_map_filter)+
qed (simp add: map_filter_simps)

text \<open>The entries of a file that is read at all.\<close>

definition file_entries :: "(rstr \<Rightarrow> (rstr \<times> toml_value) list option) \<Rightarrow> rstr \<Rightarrow> toml_value list option" where
  "file_entries parse contents = (case parse contents of
     None \<Rightarrow> None
   | Some table \<Rightarrow>
       let entries = (case Option.bind (map_of table (lit ''action'')) toml_array of None \<Rightarrow> [] | Some vs \<Rightarrow> vs) in
       if byte_len contents \<le> 262144 \<and> Option.bind (map_of table (lit ''version'')) toml_integer = Some 1 \<and> length entries \<le> 128
       then Some entries else None)"

lemma version_supported:
  "Option.bind (map_of table (lit ''version'')) (\<lambda>v. Option.bind (toml_integer v) u16_try_from) = Some actions_schema_version
    \<longleftrightarrow> Option.bind (map_of table (lit ''version'')) toml_integer = Some 1"
proof -
  have "u16_try_from n = Some actions_schema_version \<longleftrightarrow> n = 1" for n
    by (auto simp: u16_try_from_def actions_schema_version_def)
  then show ?thesis by (auto simp: bind_eq_Some_conv)
qed

text \<open>
  C39. Loading a configuration enables exactly the valid entries of the file. A file over its limits, that
  does not parse or has another version, enables nothing and yields one diagnostic for the whole. Otherwise
  every entry is looked at, in order: the enabled actions are those of the entries that are well formed,
  have a safe identifier no earlier entry has, and pass the validation; there is one view per entry,
  that of the action if it is enabled and a disabled one if not; and the diagnostics name exactly the entries that
  are not enabled, each with its reason. Every enabled action is within the limits of the
  configuration, its executable is a file and its working directory a directory, and no two share an identifier.
\<close>

theorem load_actions_sound:
  "let loaded = load_actions_str parse to_config fs ctx contents; view = lds_effective loaded in
    list_all (action_runnable fs) (lds_enabled loaded) \<and> distinct (map la_id (lds_enabled loaded))
    \<and> (case file_entries parse contents of
        None \<Rightarrow> lds_enabled loaded = [] \<and> efa_actions view = []
          \<and> (\<exists>code. map (\<lambda>d. (dg_entry_index d, dg_code d)) (efa_diagnostics view) = [(None, code)])
      | Some entries \<Rightarrow>
          lds_enabled loaded = List.map_filter (\<lambda>i. result_ok (entry_result fs ctx to_config entries i)) [0..<length entries]
        \<and> list_all2 (\<lambda>i. view_of_result i (entry_result fs ctx to_config entries i)) [0..<length entries] (efa_actions view)
        \<and> map (\<lambda>d. (dg_entry_index d, dg_code d)) (efa_diagnostics view) = List.map_filter (\<lambda>i.
            map_option (Pair (Some i)) (failure_code (entry_result fs ctx to_config entries i))) [0..<length entries])"
proof (cases "file_entries parse contents")
  case None
  have "\<exists>code v. load_actions_str parse to_config fs ctx contents \<in> {global_failure code, with_schema_version v (global_failure code)}"
  proof (cases "parse contents")
    case (Some table)
    with None show ?thesis
      by (auto simp: load_actions_str_def file_entries_def max_action_config_bytes_def max_action_entries_def Let_def
          version_supported not_le split: if_splits)
  qed (auto simp: load_actions_str_def)
  then show ?thesis using None by (auto simp: global_failure_def with_schema_version_def)
next
  case (Some entries)
  then obtain version where load: "load_actions_str parse to_config fs ctx contents
      = (let s = load_entries fs ctx to_config 0 entries empty_load in
      \<lparr>lds_enabled = ls_enabled s, lds_effective = \<lparr>efa_schema_version = version,
         efa_actions = ls_actions s, efa_diagnostics = ls_diagnostics s\<rparr>\<rparr>)"
    by (auto simp: load_actions_str_def file_entries_def max_action_config_bytes_def max_action_entries_def Let_def
        version_supported split: option.splits if_splits)
  have "loaded_prefix fs ctx to_config entries (load_entries fs ctx to_config 0 entries empty_load)"
    using load_entries_prefix [of fs ctx to_config "[]" empty_load entries]
    by (simp add: loaded_prefix_def empty_load_def map_filter_simps)
  moreover have "list_all (action_runnable fs) (List.map_filter (\<lambda>i. result_ok (entry_result fs ctx to_config entries i)) [0..<length entries])"
    by (auto simp: list_all_iff map_filter_def intro: entry_result_enabled(1))
  ultimately show ?thesis
    unfolding load using Some enabled_distinct [OF order_refl, of fs ctx to_config entries]
    by (simp add: loaded_prefix_def Let_def list_all2_conv_all_nth)
qed

text \<open>A file with a valid entry, one that is no table and one that repeats the identifier.\<close>

definition sample_config :: "toml_value \<Rightarrow> action_config option" where
  "sample_config v = map_option (\<lambda>name. \<lparr>acf_id = name, acf_trigger = OnPetClick,
     acf_filters = \<lparr>ef_notification_kinds = [], ef_providers = [], ef_project_labels = []\<rparr>,
     acf_command = [lit ''x''], acf_timeout_ms = 1000, acf_debounce_ms = 0, acf_concurrency = default_concurrency,
     acf_wd_policy = WdApplication, acf_wd_path = None, acf_environment = []\<rparr>) (toml_str v)"

definition sample_file_system :: file_system where
  "sample_file_system = \<lparr>fs_is_file = (\<lambda>_. True), fs_is_dir = (\<lambda>_. True), fs_is_absolute = (\<lambda>_. True),
     fs_components = length, fs_join = (@)\<rparr>"

definition sample_entries :: "toml_value list" where
  "sample_entries = [TomlString (lit ''a''), TomlFloat, TomlString (lit ''a'')]"

definition sample_table :: "rstr \<Rightarrow> (rstr \<times> toml_value) list option" where
  "sample_table t = Some [(lit ''version'', TomlInteger 1), (lit ''action'', TomlArray sample_entries)]"

definition sample_load_context :: load_context where
  "sample_load_context = \<lparr>lc_application_dir = [], lc_application_data_dir = [], lc_search_path = []\<rparr>"

lemma sample_results:
  "\<exists>a. entry_result sample_file_system sample_load_context sample_config sample_entries 0 = Inr a \<and> la_id a = lit ''a''"
  "entry_result sample_file_system sample_load_context sample_config sample_entries 1 = Inl DgMalformedEntry"
  "entry_result sample_file_system sample_load_context sample_config sample_entries 2 = Inl DgDuplicateIdentifier"
proof -
  have "safe_identifier (lit ''a'') = Some (lit ''a'')" by code_simp
  moreover have "\<not> bad_command_part (lit ''x'')" by code_simp
  moreover have "\<not> bad_concurrency default_concurrency" by code_simp
  ultimately show "\<exists>a. entry_result sample_file_system sample_load_context sample_config sample_entries 0 = Inr a \<and> la_id a = lit ''a''"
    "entry_result sample_file_system sample_load_context sample_config sample_entries 1 = Inl DgMalformedEntry"
    "entry_result sample_file_system sample_load_context sample_config sample_entries 2 = Inl DgDuplicateIdentifier"
    by (simp_all add: entry_result_def sample_entries_def sample_config_def entry_identifier_def validate_action_def
        resolve_executable_def sample_file_system_def ok_or_def max_action_timeout_ms_def working_directory_for_def
        bad_environment_def valid_filters_def numeral_2_eq_2)
qed

theorem load_actions_sound_witness:
  "let loaded = load_actions_str sample_table sample_config sample_file_system sample_load_context [] in
    map la_id (lds_enabled loaded) = [lit ''a''] \<and> length (efa_actions (lds_effective loaded)) = 3
    \<and> map (\<lambda>d. (dg_entry_index d, dg_code d)) (efa_diagnostics (lds_effective loaded))
        = [(Some 1, DgMalformedEntry), (Some 2, DgDuplicateIdentifier)]"
proof -
  have entries: "file_entries sample_table [] = Some sample_entries"
    by (simp add: file_entries_def sample_table_def sample_entries_def byte_len_def lit_def)
  obtain a where a: "entry_result sample_file_system sample_load_context sample_config sample_entries 0 = Inr a" "la_id a = lit ''a''"
    using sample_results(1) by blast
  have upt: "[0..<length sample_entries] = [0, 1, 2]" by (simp add: sample_entries_def upt_rec)
  from load_actions_sound [where fs = sample_file_system and parse = sample_table and to_config = sample_config
      and ctx = sample_load_context and contents = "[]"] show ?thesis
    unfolding entries option.case upt Let_def
    using a sample_results(2,3) by (auto simp: map_filter_def dest: list_all2_lengthD)
qed

end
