(* ===== verification/Action_Supervisor.thy ===== *)
theory Action_Supervisor
  imports Actions
begin

text \<open>
  \<^verbatim>\<open>lili-actions/src/execution/supervisor.rs\<close> and its \<^verbatim>\<open>title_runtime.rs\<close>: matching, admission,
  debounce, the two levels of semaphores, the audit trail and the title cache. An execution is a task
  that holds its permits; what the child process did is an argument of the step that ends it. Clocks
  are arguments: instants in nanoseconds, wall-clock times in milliseconds.
\<close>

section \<open>Results\<close>

definition max_action_audit_entries :: nat where "max_action_audit_entries = 256"

datatype execution_outcome =
    Succeeded | NonZeroExit | SpawnFailed | IoFailed | TimedOut | OutputOverflow
  | Debounced | Saturated | NotMatched | UnknownAction | InvalidResponse

record captured_output =
  co_bytes :: "byte list"
  co_truncated :: nat

definition no_output :: captured_output where
  "no_output = \<lparr>co_bytes = [], co_truncated = 0\<rparr>"

definition overflowed :: "captured_output \<Rightarrow> bool" where
  "overflowed c \<longleftrightarrow> 0 < co_truncated c"

text \<open>The loop of \<^verbatim>\<open>capture_output\<close> over the chunks the pipe delivers.\<close>

fun capture_chunks :: "byte list \<Rightarrow> nat \<Rightarrow> byte list list \<Rightarrow> captured_output" where
  "capture_chunks captured tot [] = \<lparr>co_bytes = captured, co_truncated = tot - length captured\<rparr>"
| "capture_chunks captured tot (chunk # chunks) =
     capture_chunks (captured @ take (max_action_output_bytes - length captured) chunk)
       (sat_add tot (length chunk)) chunks"

definition capture_output :: "byte list list \<Rightarrow> captured_output" where
  "capture_output chunks = capture_chunks [] 0 chunks"

record execution_result =
  xr_action_id :: rstr
  xr_interaction_id :: uuid
  xr_trigger :: action_trigger
  xr_event_id :: "rstr option"
  xr_started_at_ms :: nat
  xr_finished_at_ms :: nat
  xr_outcome :: execution_outcome
  xr_exit_code :: "int option"
  xr_stdout :: captured_output
  xr_stderr :: captured_output

record audit_entry =
  ae_action_id :: rstr
  ae_trigger :: action_trigger
  ae_event_id :: "rstr option"
  ae_request_id :: "uuid option"
  ae_started_at_ms :: nat
  ae_finished_at_ms :: nat
  ae_outcome :: execution_outcome
  ae_exit_code :: "int option"
  ae_stdout_captured :: nat
  ae_stdout_truncated :: nat
  ae_stderr_captured :: nat
  ae_stderr_truncated :: nat

definition audit_from :: "execution_result \<Rightarrow> audit_entry" where
  "audit_from r = \<lparr>ae_action_id = xr_action_id r, ae_trigger = xr_trigger r, ae_event_id = xr_event_id r,
     ae_request_id = (if xr_trigger r = OnSessionTitle then Some (xr_interaction_id r) else None),
     ae_started_at_ms = xr_started_at_ms r, ae_finished_at_ms = xr_finished_at_ms r,
     ae_outcome = xr_outcome r, ae_exit_code = xr_exit_code r,
     ae_stdout_captured = length (co_bytes (xr_stdout r)), ae_stdout_truncated = co_truncated (xr_stdout r),
     ae_stderr_captured = length (co_bytes (xr_stderr r)), ae_stderr_truncated = co_truncated (xr_stderr r)\<rparr>"

text \<open>The trait \<^verbatim>\<open>ExecutionInput\<close> and its two implementations.\<close>

record execution_input =
  xi_request_id :: uuid
  xi_trigger :: action_trigger
  xi_event_id :: "rstr option"

definition input_of_context :: "interaction_context \<Rightarrow> execution_input" where
  "input_of_context c = \<lparr>xi_request_id = ic_interaction_id c, xi_trigger = trigger_from (ic_trigger c),
     xi_event_id = map_option ns_event_id (ic_notification c)\<rparr>"

record title_request =
  tq_version :: nat
  tq_request_id :: uuid
  tq_trigger :: action_trigger
  tq_provider :: rstr
  tq_session_id :: rstr

definition title_request_new :: "uuid \<Rightarrow> rstr \<Rightarrow> rstr \<Rightarrow> title_request" where
  "title_request_new i provider session = \<lparr>tq_version = 1, tq_request_id = i, tq_trigger = OnSessionTitle,
     tq_provider = provider, tq_session_id = session\<rparr>"

definition input_of_title :: "title_request \<Rightarrow> execution_input" where
  "input_of_title q = \<lparr>xi_request_id = tq_request_id q, xi_trigger = OnSessionTitle, xi_event_id = None\<rparr>"

definition completed_result :: "rstr \<Rightarrow> execution_input \<Rightarrow> nat \<Rightarrow> nat \<Rightarrow> execution_outcome \<Rightarrow> int option
    \<Rightarrow> captured_output \<Rightarrow> captured_output \<Rightarrow> execution_result" where
  "completed_result i input started finished outcome code out err =
     \<lparr>xr_action_id = i, xr_interaction_id = xi_request_id input, xr_trigger = xi_trigger input,
      xr_event_id = xi_event_id input, xr_started_at_ms = started, xr_finished_at_ms = finished,
      xr_outcome = outcome, xr_exit_code = code, xr_stdout = out, xr_stderr = err\<rparr>"

definition immediate_result :: "rstr \<Rightarrow> execution_input \<Rightarrow> nat \<Rightarrow> execution_outcome \<Rightarrow> execution_result" where
  "immediate_result i input now outcome = completed_result i input now now outcome None no_output no_output"

text \<open>What happened to the child: \<open>None\<close> for a capture that failed or did not drain in time.\<close>

datatype wait_status = Cancelled | TimeoutElapsed | WaitFailed | Exited bool "int option"

record process_report =
  pr_spawned :: bool
  pr_status :: wait_status
  pr_stdin_failed :: bool
  pr_stdout :: "captured_output option"
  pr_stderr :: "captured_output option"

definition classify :: "process_report \<Rightarrow> execution_outcome" where
  "classify p =
     (let out = (case pr_stdout p of None \<Rightarrow> no_output | Some c \<Rightarrow> c);
          err = (case pr_stderr p of None \<Rightarrow> no_output | Some c \<Rightarrow> c) in
      if pr_status p = TimeoutElapsed then TimedOut
      else if pr_stdin_failed p \<or> pr_stdout p = None \<or> pr_stderr p = None
           \<or> pr_status p = WaitFailed \<or> pr_status p = Cancelled then IoFailed
      else if overflowed out \<or> overflowed err then OutputOverflow
      else case pr_status p of Exited True _ \<Rightarrow> Succeeded | _ \<Rightarrow> NonZeroExit)"

definition run_action_cancellable :: "loaded_action \<Rightarrow> execution_input \<Rightarrow> bool \<Rightarrow> nat \<Rightarrow> nat \<Rightarrow> process_report
    \<Rightarrow> execution_result option" where
  "run_action_cancellable a input cancelled started finished p =
     (if cancelled then None
      else if \<not> pr_spawned p
      then Some (completed_result (la_id a) input started finished SpawnFailed None no_output no_output)
      else if pr_status p = Cancelled then None
      else Some (completed_result (la_id a) input started finished (classify p)
        (case pr_status p of Exited _ code \<Rightarrow> code | _ \<Rightarrow> None)
        (case pr_stdout p of None \<Rightarrow> no_output | Some c \<Rightarrow> c)
        (case pr_stderr p of None \<Rightarrow> no_output | Some c \<Rightarrow> c)))"

section \<open>Matching\<close>

definition matches_context :: "loaded_action \<Rightarrow> interaction_context \<Rightarrow> bool" where
  "matches_context a c =
     (if la_trigger a \<noteq> trigger_from (ic_trigger c) then False
      else let f = la_filters a in
        if ef_notification_kinds f = [] \<and> ef_providers f = [] \<and> ef_project_labels f = [] then True
        else case ic_notification c of
            None \<Rightarrow> False
          | Some n \<Rightarrow> (ef_notification_kinds f = [] \<or> ns_kind n \<in> set (ef_notification_kinds f))
              \<and> (ef_providers f = [] \<or> ns_provider n \<in> set (ef_providers f))
              \<and> (ef_project_labels f = []
                 \<or> (case ns_project_label n of None \<Rightarrow> False | Some l \<Rightarrow> l \<in> set (ef_project_labels f))))"

section \<open>The title cache\<close>

type_synonym title_key = "rstr \<times> rstr"

definition title_capacity :: nat where "title_capacity = 256"

record title_state =
  ts_cache :: "(title_key \<times> rstr) list"
  ts_debounce :: "(title_key \<times> nat) list"
  ts_pending :: "title_key list"

definition empty_titles :: title_state where
  "empty_titles = \<lparr>ts_cache = [], ts_debounce = [], ts_pending = []\<rparr>"

text \<open>A hit moves the entry to the back.\<close>

definition cached :: "title_key \<Rightarrow> title_state \<Rightarrow> rstr option \<times> title_state" where
  "cached k s = (case map_of (ts_cache s) k of
     None \<Rightarrow> (None, s)
   | Some t \<Rightarrow> (Some t, s\<lparr>ts_cache := remove1 (k, t) (ts_cache s) @ [(k, t)]\<rparr>))"

definition cache_insert :: "title_key \<Rightarrow> rstr \<Rightarrow> title_state \<Rightarrow> title_state" where
  "cache_insert k t s =
     (let kept = filter (\<lambda>e. fst e \<noteq> k) (ts_cache s);
          room = (if length kept = title_capacity then tl kept else kept)
      in s\<lparr>ts_cache := room @ [(k, t)]\<rparr>)"

definition millis :: "nat \<Rightarrow> nat" where "millis ms = ms * 1000000"

definition title_accept :: "nat \<Rightarrow> title_key \<Rightarrow> nat \<Rightarrow> title_state \<Rightarrow> bool \<times> title_state" where
  "title_accept now k delay s =
     (case map_of (ts_debounce s) k of
        Some prev \<Rightarrow>
          if now - prev < millis delay then (False, s)
          else let d = remove1 (k, prev) (ts_debounce s);
                   d' = (if length d = title_capacity then tl d else d)
               in (True, s\<lparr>ts_debounce := d' @ [(k, now)]\<rparr>)
      | None \<Rightarrow>
          let d' = (if length (ts_debounce s) = title_capacity then tl (ts_debounce s) else ts_debounce s)
          in (True, s\<lparr>ts_debounce := d' @ [(k, now)]\<rparr>))"

section \<open>The supervisor\<close>

record action_runtime =
  rt_action :: loaded_action
  rt_admission :: nat
  rt_running :: nat
  rt_last_accepted :: "nat option"

definition admission_capacity :: "loaded_action \<Rightarrow> nat" where
  "admission_capacity a = (case la_concurrency_mode a of
     ModeReject \<Rightarrow> la_max_parallel a
   | ModeQueue \<Rightarrow> la_max_parallel a + la_queue_capacity a)"

definition runtime_new :: "loaded_action \<Rightarrow> action_runtime" where
  "runtime_new a = \<lparr>rt_action = a, rt_admission = admission_capacity a, rt_running = la_max_parallel a,
     rt_last_accepted = None\<rparr>"

definition admit :: "action_runtime \<Rightarrow> action_runtime option" where
  "admit rt = (if 0 < rt_admission rt then Some (rt\<lparr>rt_admission := rt_admission rt - 1\<rparr>) else None)"

definition accept_debounce :: "nat \<Rightarrow> action_runtime \<Rightarrow> bool \<times> action_runtime" where
  "accept_debounce now rt =
     (if (case rt_last_accepted rt of None \<Rightarrow> False
          | Some prev \<Rightarrow> now - prev < millis (la_debounce_ms (rt_action rt)))
      then (False, rt) else (True, rt\<lparr>rt_last_accepted := Some now\<rparr>))"

datatype task_phase = AwaitRunning | AwaitGlobal | Executing

record action_task =
  tk_action :: rstr
  tk_input :: execution_input
  tk_phase :: task_phase
  tk_title :: "title_key option"

record supervisor =
  sv_actions :: "(rstr, action_runtime) btree"
  sv_global :: nat
  sv_title_order :: "rstr list"
  sv_titles :: title_state
  sv_shutdown :: bool
  sv_audit :: "audit_entry list"
  sv_tasks :: "action_task list"

definition supervisor_new :: "loaded_actions \<Rightarrow> nat \<Rightarrow> supervisor option" where
  "supervisor_new l n =
     (if \<not> (1 \<le> n \<and> n \<le> max_global_concurrency) then None
      else Some \<lparr>sv_actions = fold (\<lambda>a. bt_insert (la_id a) (runtime_new a)) (lds_enabled l) [],
        sv_global = n,
        sv_title_order = map la_id (filter (\<lambda>a. la_trigger a = OnSessionTitle) (lds_enabled l)),
        sv_titles = empty_titles, sv_shutdown = False, sv_audit = [], sv_tasks = []\<rparr>)"

definition matching_action_ids :: "supervisor \<Rightarrow> interaction_context \<Rightarrow> rstr list" where
  "matching_action_ids sv c =
     map (\<lambda>rt. la_id (rt_action rt)) (filter (\<lambda>rt. matches_context (rt_action rt) c) (bt_values (sv_actions sv)))"

definition record_audit :: "execution_result \<Rightarrow> supervisor \<Rightarrow> supervisor" where
  "record_audit r sv =
     (let audit = (if length (sv_audit sv) = max_action_audit_entries then tl (sv_audit sv) else sv_audit sv)
      in sv\<lparr>sv_audit := audit @ [audit_from r]\<rparr>)"

text \<open>\<^verbatim>\<open>execute\<close> records every result except the two that did nothing.\<close>

definition record_execution :: "execution_result \<Rightarrow> supervisor \<Rightarrow> supervisor" where
  "record_execution r sv = (if xr_outcome r \<in> {NotMatched, UnknownAction} then sv else record_audit r sv)"

definition put_runtime :: "rstr \<Rightarrow> action_runtime \<Rightarrow> supervisor \<Rightarrow> supervisor" where
  "put_runtime i rt sv = sv\<lparr>sv_actions := bt_insert i rt (sv_actions sv)\<rparr>"

text \<open>
  \<^verbatim>\<open>execute\<close> up to its first wait: a result at once, or a task that holds an admission permit. The
  admission permit of a debounced call is released on return.
\<close>

definition execute_begin :: "nat \<Rightarrow> nat \<Rightarrow> rstr \<Rightarrow> interaction_context \<Rightarrow> supervisor
    \<Rightarrow> execution_result option \<times> supervisor" where
  "execute_begin now now_ms i c sv =
     (let input = input_of_context c;
          stop = (\<lambda>outcome sv. let r = immediate_result i input now_ms outcome in (Some r, record_execution r sv))
      in case map_of (sv_actions sv) i of
        None \<Rightarrow> stop UnknownAction sv
      | Some rt \<Rightarrow>
          if \<not> matches_context (rt_action rt) c then stop NotMatched sv
          else case admit rt of
            None \<Rightarrow> stop Saturated sv
          | Some rt1 \<Rightarrow>
              (case accept_debounce now rt1 of
                 (False, _) \<Rightarrow> stop Debounced sv
               | (True, rt2) \<Rightarrow> (None, (put_runtime i rt2 sv)\<lparr>sv_tasks := sv_tasks sv @
                   [\<lparr>tk_action = i, tk_input = input, tk_phase = AwaitRunning, tk_title = None\<rparr>]\<rparr>)))"

text \<open>A waiting task gets the permit of its action, then the global one.\<close>

definition take_running :: "nat \<Rightarrow> supervisor \<Rightarrow> supervisor option" where
  "take_running j sv =
     (if j < length (sv_tasks sv) \<and> tk_phase (sv_tasks sv ! j) = AwaitRunning
      then (case map_of (sv_actions sv) (tk_action (sv_tasks sv ! j)) of
          None \<Rightarrow> None
        | Some rt \<Rightarrow>
            if 0 < rt_running rt
            then Some ((put_runtime (tk_action (sv_tasks sv ! j)) (rt\<lparr>rt_running := rt_running rt - 1\<rparr>) sv)
              \<lparr>sv_tasks := (sv_tasks sv)[j := (sv_tasks sv ! j)\<lparr>tk_phase := AwaitGlobal\<rparr>]\<rparr>)
            else None)
      else None)"

definition take_global :: "nat \<Rightarrow> supervisor \<Rightarrow> supervisor option" where
  "take_global j sv =
     (if j < length (sv_tasks sv) \<and> tk_phase (sv_tasks sv ! j) = AwaitGlobal \<and> 0 < sv_global sv
      then Some (sv\<lparr>sv_global := sv_global sv - 1,
        sv_tasks := (sv_tasks sv)[j := (sv_tasks sv ! j)\<lparr>tk_phase := Executing\<rparr>]\<rparr>)
      else None)"

text \<open>Dropping a task returns the permits its phase holds.\<close>

definition remove_nth :: "nat \<Rightarrow> 'a list \<Rightarrow> 'a list" where
  "remove_nth j xs = take j xs @ drop (Suc j) xs"

definition drop_task :: "nat \<Rightarrow> supervisor \<Rightarrow> supervisor" where
  "drop_task j sv =
     (let task = sv_tasks sv ! j;
          sv1 = sv\<lparr>sv_tasks := remove_nth j (sv_tasks sv),
            sv_global := sv_global sv + (if tk_phase task = Executing then 1 else 0)\<rparr>
      in case map_of (sv_actions sv) (tk_action task) of
          None \<Rightarrow> sv1
        | Some rt \<Rightarrow> put_runtime (tk_action task) (rt\<lparr>rt_admission := rt_admission rt + 1,
            rt_running := rt_running rt + (if tk_phase task = AwaitRunning then 0 else 1)\<rparr>) sv1)"

text \<open>The end of an interaction: \<^verbatim>\<open>run_action\<close> is never cancelled.\<close>

definition execute_finish :: "nat \<Rightarrow> nat \<Rightarrow> nat \<Rightarrow> process_report \<Rightarrow> supervisor
    \<Rightarrow> (execution_result \<times> supervisor) option" where
  "execute_finish started finished j p sv =
     (if j < length (sv_tasks sv) \<and> tk_phase (sv_tasks sv ! j) = Executing \<and> tk_title (sv_tasks sv ! j) = None
      then (case map_of (sv_actions sv) (tk_action (sv_tasks sv ! j)) of
          None \<Rightarrow> None
        | Some rt \<Rightarrow>
            (case run_action_cancellable (rt_action rt) (tk_input (sv_tasks sv ! j)) False started finished p of
              None \<Rightarrow> None
            | Some r \<Rightarrow> Some (r, record_execution r (drop_task j sv))))
      else None)"

section \<open>Titles\<close>

text \<open>\<^verbatim>\<open>self.actions[id]\<close> is always present: the order is built from the same actions.\<close>

definition serves_provider :: "supervisor \<Rightarrow> rstr \<Rightarrow> rstr \<Rightarrow> bool" where
  "serves_provider sv provider i = (case map_of (sv_actions sv) i of None \<Rightarrow> False
     | Some rt \<Rightarrow> ef_providers (la_filters (rt_action rt)) = []
         \<or> list_ex (\<lambda>v. v = provider) (ef_providers (la_filters (rt_action rt))))"

definition title_action_id :: "supervisor \<Rightarrow> rstr \<Rightarrow> rstr option" where
  "title_action_id sv provider = find (serves_provider sv provider) (sv_title_order sv)"

datatype title_answer = TitleNow "rstr option" | TitleWait title_key

definition resolve_title :: "nat \<Rightarrow> uuid \<Rightarrow> rstr \<Rightarrow> rstr \<Rightarrow> supervisor \<Rightarrow> title_answer \<times> supervisor" where
  "resolve_title now request provider session sv =
     (if sv_shutdown sv then (TitleNow None, sv)
      else case title_action_id sv provider of
        None \<Rightarrow> (TitleNow None, sv)
      | Some i \<Rightarrow>
     (case map_of (sv_actions sv) i of
        None \<Rightarrow> (TitleNow None, sv)
      | Some rt \<Rightarrow>
          let k = (provider, session); (hit, titles) = cached k (sv_titles sv) in
          if hit \<noteq> None then (TitleNow hit, sv\<lparr>sv_titles := titles\<rparr>)
          else if k \<in> set (ts_pending titles) then (TitleWait k, sv)
          else if title_capacity \<le> length (ts_pending titles) then (TitleNow None, sv)
          else case admit rt of
            None \<Rightarrow> (TitleNow None, sv)
          | Some rt1 \<Rightarrow>
              (case title_accept now k (la_debounce_ms (rt_action rt)) titles of
                 (False, _) \<Rightarrow> (TitleNow None, sv)
               | (True, titles') \<Rightarrow>
                   (TitleWait k, (put_runtime i rt1 sv)\<lparr>
                      sv_titles := titles'\<lparr>ts_pending := ts_pending titles' @ [k]\<rparr>,
                      sv_tasks := sv_tasks sv @ [\<lparr>tk_action = i,
                        tk_input = input_of_title (title_request_new request provider session),
                        tk_phase = AwaitRunning, tk_title = Some k\<rparr>]\<rparr>))))"

text \<open>
  The end of a title worker: what it replies and what it leaves behind. \<open>cancelled\<close> says that the
  shutdown signal had already arrived when the worker started its process.
\<close>

definition reply_title :: "title_key \<Rightarrow> rstr option \<Rightarrow> supervisor \<Rightarrow> supervisor" where
  "reply_title k title sv =
     (let titles = (case title of
            Some t \<Rightarrow> (if \<not> sv_shutdown sv then cache_insert k t (sv_titles sv) else sv_titles sv)
          | None \<Rightarrow> sv_titles sv)
      in sv\<lparr>sv_titles := titles\<lparr>ts_pending := filter (\<lambda>x. x \<noteq> k) (ts_pending titles)\<rparr>\<rparr>)"

definition judge_title :: "(byte list \<Rightarrow> title_response option) \<Rightarrow> execution_result \<Rightarrow> rstr option \<times> execution_result" where
  "judge_title dec r =
     (if xr_outcome r = Succeeded
      then (case decode_title_response dec (co_bytes (xr_stdout r)) of
          Inr title \<Rightarrow> (title, r)
        | Inl _ \<Rightarrow> (None, r\<lparr>xr_outcome := InvalidResponse\<rparr>))
      else (None, r))"

definition title_finish :: "(byte list \<Rightarrow> title_response option) \<Rightarrow> bool \<Rightarrow> nat \<Rightarrow> nat \<Rightarrow> nat \<Rightarrow> process_report \<Rightarrow> supervisor
    \<Rightarrow> (rstr option \<times> supervisor) option" where
  "title_finish dec cancelled started finished j p sv =
     (if j < length (sv_tasks sv) \<and> tk_phase (sv_tasks sv ! j) = Executing
      then (case (tk_title (sv_tasks sv ! j), map_of (sv_actions sv) (tk_action (sv_tasks sv ! j))) of
          (Some k, Some rt) \<Rightarrow>
            (case run_action_cancellable (rt_action rt) (tk_input (sv_tasks sv ! j)) cancelled started finished p of
              None \<Rightarrow> Some (None, reply_title k None (drop_task j sv))
            | Some r \<Rightarrow> let (title, r') = judge_title dec r
                in Some (title, reply_title k title (record_audit r' (drop_task j sv))))
        | _ \<Rightarrow> None)
      else None)"

text \<open>A worker still waiting for a permit when the shutdown signal arrives.\<close>

definition title_abandon :: "nat \<Rightarrow> supervisor \<Rightarrow> supervisor option" where
  "title_abandon j sv =
     (if sv_shutdown sv \<and> j < length (sv_tasks sv) \<and> tk_phase (sv_tasks sv ! j) \<noteq> Executing
      then (case tk_title (sv_tasks sv ! j) of
          None \<Rightarrow> None
        | Some k \<Rightarrow> Some (reply_title k None (drop_task j sv)))
      else None)"

definition shutdown_titles :: "supervisor \<Rightarrow> supervisor" where
  "shutdown_titles sv = sv\<lparr>sv_shutdown := True, sv_titles := empty_titles\<rparr>"

end
