(* ===== verification/Supervisor_Properties.thy ===== *)
theory Supervisor_Properties
  imports Action_Supervisor
begin

text \<open>
  The supervisor as a transition system: every permit is either free or held by a task, so the
  per-action and global limits hold at every moment and no permit is ever lost.
\<close>

section \<open>Steps\<close>

inductive sv_step :: "supervisor \<Rightarrow> supervisor \<Rightarrow> bool" where
  step_begin: "execute_begin now now_ms i c sv = (r, sv') \<Longrightarrow> sv_step sv sv'"
| step_resolve: "resolve_title now request provider session sv = (ans, sv') \<Longrightarrow> sv_step sv sv'"
| step_running: "take_running j sv = Some sv' \<Longrightarrow> (tk_title (sv_tasks sv ! j) \<noteq> None \<Longrightarrow> \<not> sv_shutdown sv) \<Longrightarrow> sv_step sv sv'"
| step_global: "take_global j sv = Some sv' \<Longrightarrow> (tk_title (sv_tasks sv ! j) \<noteq> None \<Longrightarrow> \<not> sv_shutdown sv) \<Longrightarrow> sv_step sv sv'"
| step_finish: "execute_finish started finished j p sv = Some (r, sv') \<Longrightarrow> sv_step sv sv'"
| step_title: "title_finish dec cancelled started finished j p sv = Some (title, sv') \<Longrightarrow> sv_step sv sv'"
| step_abandon: "title_abandon j sv = Some sv' \<Longrightarrow> sv_step sv sv'"
| step_shutdown: "sv_step sv (shutdown_titles sv)"

section \<open>Counting tasks\<close>

definition holding :: "(action_task \<Rightarrow> bool) \<Rightarrow> supervisor \<Rightarrow> nat" where
  "holding p sv = length (filter p (sv_tasks sv))"

definition of_action :: "rstr \<Rightarrow> action_task \<Rightarrow> bool" where
  "of_action i t \<longleftrightarrow> tk_action t = i"

definition slotted :: "rstr \<Rightarrow> action_task \<Rightarrow> bool" where
  "slotted i t \<longleftrightarrow> tk_action t = i \<and> tk_phase t \<noteq> AwaitRunning"

definition executing :: "action_task \<Rightarrow> bool" where
  "executing t \<longleftrightarrow> tk_phase t = Executing"

lemma filter_update:
  "j < length xs \<Longrightarrow> length (filter p (xs[j := y])) + of_bool (p (xs ! j)) = length (filter p xs) + of_bool (p y)"
proof (induction xs arbitrary: j)
  case (Cons x xs)
  then show ?case by (cases j) auto
qed simp

lemma filter_remove_nth:
  "j < length xs \<Longrightarrow> length (filter p (remove_nth j xs)) + of_bool (p (xs ! j)) = length (filter p xs)"
proof (induction xs arbitrary: j)
  case (Cons x xs)
  then show ?case by (cases j) (auto simp: remove_nth_def)
qed simp

lemma set_remove_nth: "set (remove_nth j xs) \<subseteq> set xs"
  by (auto simp: remove_nth_def dest: in_set_takeD in_set_dropD)

section \<open>The invariant\<close>

definition runtime_ok :: "supervisor \<Rightarrow> rstr \<Rightarrow> action_runtime \<Rightarrow> bool" where
  "runtime_ok sv i rt \<longleftrightarrow>
     rt_admission rt + holding (of_action i) sv = admission_capacity (rt_action rt)
   \<and> rt_running rt + holding (slotted i) sv = la_max_parallel (rt_action rt)"

definition titles_ok :: "title_state \<Rightarrow> bool" where
  "titles_ok ts \<longleftrightarrow> length (ts_cache ts) \<le> title_capacity \<and> distinct (map fst (ts_cache ts))
     \<and> length (ts_debounce ts) \<le> title_capacity \<and> distinct (map fst (ts_debounce ts))
     \<and> length (ts_pending ts) \<le> title_capacity \<and> distinct (ts_pending ts)"

definition sv_inv :: "(rstr \<rightharpoonup> loaded_action) \<Rightarrow> nat \<Rightarrow> supervisor \<Rightarrow> bool" where
  "sv_inv acts n sv \<longleftrightarrow> bt_wf (sv_actions sv)
     \<and> map_option rt_action \<circ> map_of (sv_actions sv) = acts
     \<and> (\<forall>i rt. map_of (sv_actions sv) i = Some rt \<longrightarrow> runtime_ok sv i rt)
     \<and> sv_global sv + holding executing sv = n
     \<and> (\<forall>t \<in> set (sv_tasks sv). acts (tk_action t) \<noteq> None)
     \<and> length (sv_audit sv) \<le> max_action_audit_entries
     \<and> titles_ok (sv_titles sv)"

lemma holding_frames [simp]:
  "holding p (record_audit r sv) = holding p sv" "holding p (record_execution r sv) = holding p sv"
  "holding p (reply_title k t sv) = holding p sv" "holding p (put_runtime i rt sv) = holding p sv"
  by (simp_all add: holding_def record_audit_def record_execution_def reply_title_def put_runtime_def Let_def)

lemma record_frames [simp]:
  "sv_actions (record_audit r sv) = sv_actions sv" "sv_global (record_audit r sv) = sv_global sv"
  "sv_tasks (record_audit r sv) = sv_tasks sv" "sv_titles (record_audit r sv) = sv_titles sv"
  "sv_actions (record_execution r sv) = sv_actions sv" "sv_global (record_execution r sv) = sv_global sv"
  "sv_tasks (record_execution r sv) = sv_tasks sv" "sv_titles (record_execution r sv) = sv_titles sv"
  "sv_actions (reply_title k t sv) = sv_actions sv" "sv_global (reply_title k t sv) = sv_global sv"
  "sv_tasks (reply_title k t sv) = sv_tasks sv" "sv_audit (reply_title k t sv) = sv_audit sv"
  by (simp_all add: record_audit_def record_execution_def reply_title_def Let_def)

lemma audit_bound:
  "length (sv_audit sv) \<le> max_action_audit_entries \<Longrightarrow> length (sv_audit (record_audit r sv)) \<le> max_action_audit_entries"
  "length (sv_audit sv) \<le> max_action_audit_entries \<Longrightarrow> length (sv_audit (record_execution r sv)) \<le> max_action_audit_entries"
  by (auto simp: record_audit_def record_execution_def Let_def max_action_audit_entries_def)

lemma runtime_ok_frames [simp]:
  "runtime_ok (record_audit r sv) = runtime_ok sv" "runtime_ok (record_execution r sv) = runtime_ok sv"
  "runtime_ok (reply_title k t sv) = runtime_ok sv" "runtime_ok (put_runtime j rt' sv) = runtime_ok sv"
  by (simp_all add: runtime_ok_def fun_eq_iff)

lemma sv_inv_record [inv_intros]:
  "sv_inv acts n sv \<Longrightarrow> sv_inv acts n (record_audit r sv)"
  "sv_inv acts n sv \<Longrightarrow> sv_inv acts n (record_execution r sv)"
  by (simp_all add: sv_inv_def audit_bound)

section \<open>The title cache\<close>

lemma tl_bound: "length xs \<le> m \<Longrightarrow> length ((if length xs = m then tl xs else xs) @ [x]) \<le> max m 1"
  by (cases xs) auto

lemma distinct_tl_append:
  "distinct (map fst xs) \<Longrightarrow> fst x \<notin> fst ` set xs \<Longrightarrow> distinct (map fst ((if b then tl xs else xs) @ [x]))"
  by (cases xs) auto

lemma remove1_map_of:
  assumes "distinct (map fst xs)" "map_of xs k = Some v"
  shows "k \<notin> fst ` set (remove1 (k, v) xs)" "distinct (map fst (remove1 (k, v) xs))"
    "length (remove1 (k, v) xs) = length xs - 1" "xs \<noteq> []"
proof -
  have m: "(k, v) \<in> set xs" using assms(2) by (rule map_of_SomeD)
  then show "length (remove1 (k, v) xs) = length xs - 1" "xs \<noteq> []" by (auto simp: length_remove1)
  have d: "distinct xs" using assms(1) by (simp add: distinct_map)
  show "distinct (map fst (remove1 (k, v) xs))"
    using assms(1) by (simp add: distinct_map d) (auto intro: inj_on_subset dest: notin_set_remove1)
  have "w = v" if "(k, w) \<in> set xs" for w
    using that assms m by (metis Some_eq_map_of_iff option.inject)
  then show "k \<notin> fst ` set (remove1 (k, v) xs)" by (auto simp: set_remove1_eq [OF d])
qed

lemma titles_ok_cached: "titles_ok ts \<Longrightarrow> titles_ok (snd (cached k ts))"
proof (cases "map_of (ts_cache ts) k")
  case (Some t)
  assume ok: "titles_ok ts"
  then have "distinct (map fst (ts_cache ts))" by (simp add: titles_ok_def)
  note rem = remove1_map_of [OF this Some]
  then show ?thesis using ok Some by (cases "ts_cache ts") (auto simp: cached_def titles_ok_def)
qed (simp add: cached_def)

lemma titles_ok_insert: "titles_ok ts \<Longrightarrow> titles_ok (cache_insert k t ts)"
proof -
  assume ok: "titles_ok ts"
  let ?kept = "filter (\<lambda>e. fst e \<noteq> k) (ts_cache ts)"
  have "distinct (map fst ?kept)" using ok by (simp add: titles_ok_def distinct_map_filter)
  moreover have "fst (k, t) \<notin> fst ` set ?kept" by auto
  ultimately have "distinct (map fst ((if length ?kept = title_capacity then tl ?kept else ?kept) @ [(k, t)]))"
    by (rule distinct_tl_append)
  moreover have "length ?kept \<le> title_capacity"
    using ok le_trans [OF length_filter_le] by (auto simp: titles_ok_def)
  then have "length ((if length ?kept = title_capacity then tl ?kept else ?kept) @ [(k, t)]) \<le> max title_capacity 1"
    by (rule tl_bound)
  then have "length ((if length ?kept = title_capacity then tl ?kept else ?kept) @ [(k, t)]) \<le> title_capacity"
    by (simp add: title_capacity_def)
  ultimately show ?thesis using ok by (simp add: cache_insert_def titles_ok_def Let_def)
qed

lemma titles_ok_accept:
  assumes "titles_ok ts"
  shows "titles_ok (snd (title_accept now k delay ts)) \<and> ts_pending (snd (title_accept now k delay ts)) = ts_pending ts"
proof (cases "map_of (ts_debounce ts) k")
  case None
  then have "fst (k, now) \<notin> fst ` set (ts_debounce ts)" by (auto simp: map_of_eq_None_iff)
  moreover have "length ((if length (ts_debounce ts) = title_capacity then tl (ts_debounce ts) else ts_debounce ts) @ [(k, now)]) \<le> title_capacity"
    using assms tl_bound [of "ts_debounce ts" title_capacity "(k, now)"] by (simp add: titles_ok_def title_capacity_def)
  ultimately show ?thesis
    using assms None distinct_tl_append [of "ts_debounce ts" "(k, now)"] by (simp add: title_accept_def titles_ok_def Let_def)
next
  case (Some prev)
  have "distinct (map fst (ts_debounce ts))" using assms by (simp add: titles_ok_def)
  note rem = remove1_map_of [OF this Some]
  let ?d = "remove1 (k, prev) (ts_debounce ts)"
  have "length ?d \<le> title_capacity" using rem(3) assms unfolding titles_ok_def by linarith
  then have "length ((if length ?d = title_capacity then tl ?d else ?d) @ [(k, now)]) \<le> title_capacity"
    using tl_bound [of ?d title_capacity "(k, now)"] by (simp add: title_capacity_def)
  then show ?thesis
    using assms Some rem distinct_tl_append [of ?d "(k, now)"] by (simp add: title_accept_def titles_ok_def Let_def)
qed

lemma titles_ok_pending: "titles_ok ts \<Longrightarrow> titles_ok (ts\<lparr>ts_pending := filter p (ts_pending ts)\<rparr>)"
  using le_trans [OF length_filter_le] by (auto simp: titles_ok_def)

lemma titles_ok_reply: "titles_ok (sv_titles sv) \<Longrightarrow> titles_ok (sv_titles (reply_title k t sv))"
  by (auto simp: reply_title_def Let_def titles_ok_pending titles_ok_insert split: option.split)

lemma sv_inv_reply [inv_intros]: "sv_inv acts n sv \<Longrightarrow> sv_inv acts n (reply_title k t sv)"
  by (simp add: sv_inv_def titles_ok_reply)

section \<open>Preservation\<close>

lemma holding_append: "holding p (sv\<lparr>sv_tasks := sv_tasks sv @ [t]\<rparr>) = holding p sv + of_bool (p t)"
  by (simp add: holding_def)

lemma acts_put_runtime:
  assumes "map_option rt_action \<circ> map_of (sv_actions sv) = acts" "map_of (sv_actions sv) i = Some rt" "rt_action rt' = rt_action rt"
  shows "map_option rt_action \<circ> map_of (bt_insert i rt' (sv_actions sv)) = acts"
proof
  fix x
  have "map_option rt_action (map_of (sv_actions sv) x) = acts x" for x using assms(1) by (simp add: fun_eq_iff)
  from this [of i] this [of x] show "(map_option rt_action \<circ> map_of (bt_insert i rt' (sv_actions sv))) x = acts x"
    using assms(2,3) by simp
qed

lemma sv_inv_acts: "sv_inv acts n sv \<Longrightarrow> acts i = map_option rt_action (map_of (sv_actions sv) i)"
  unfolding sv_inv_def by (metis comp_apply)

lemma accept_debounce_admitted:
  "accept_debounce now (rt\<lparr>rt_admission := a\<rparr>) = (if fst (accept_debounce now rt)
     then (True, rt\<lparr>rt_admission := a, rt_last_accepted := Some now\<rparr>) else (False, rt\<lparr>rt_admission := a\<rparr>))"
  by (cases "rt_last_accepted rt") (simp_all add: accept_debounce_def)

lemma sv_inv_spawn:
  assumes "sv_inv acts n sv" "map_of (sv_actions sv) i = Some rt" "0 < rt_admission rt"
    and "rt' = rt\<lparr>rt_admission := rt_admission rt - 1, rt_last_accepted := stamp\<rparr>"
    and "tk_action t = i" "tk_phase t = AwaitRunning" "titles_ok titles"
  shows "sv_inv acts n ((put_runtime i rt' sv)\<lparr>sv_titles := titles, sv_tasks := sv_tasks sv @ [t]\<rparr>)"
proof -
  let ?sv = "(put_runtime i rt' sv)\<lparr>sv_titles := titles, sv_tasks := sv_tasks sv @ [t]\<rparr>"
  have hold: "holding p ?sv = holding p sv + of_bool (p t)" for p
    by (simp add: holding_def put_runtime_def)
  have acts: "map_option rt_action \<circ> map_of (sv_actions ?sv) = acts"
    using acts_put_runtime [OF _ assms(2), of acts rt'] assms(1,4) by (simp add: sv_inv_def put_runtime_def)
  have "runtime_ok ?sv k r" if "map_of (sv_actions ?sv) k = Some r" for k r
  proof (cases "k = i")
    case True
    then have "r = rt'" using that by (simp add: put_runtime_def)
    moreover have "runtime_ok sv i rt" using assms(1,2) by (simp add: sv_inv_def)
    ultimately show ?thesis using assms(3-6) True
      unfolding runtime_ok_def hold by (simp add: of_action_def slotted_def)
  next
    case False
    then have "map_of (sv_actions sv) k = Some r" using that by (simp add: put_runtime_def)
    then have "runtime_ok sv k r" using assms(1) by (simp add: sv_inv_def)
    then show ?thesis using False assms(5) by (simp add: runtime_ok_def hold of_action_def slotted_def)
  qed
  moreover have "acts i \<noteq> None" using sv_inv_acts [OF assms(1)] assms(2) by simp
  moreover have "holding executing ?sv = holding executing sv" using assms(6) by (simp add: hold executing_def)
  ultimately show ?thesis
    using assms(1,5,7) acts by (auto simp: sv_inv_def put_runtime_def)
qed

lemma sv_inv_begin:
  assumes "sv_inv acts n sv" "execute_begin now now_ms i c sv = (r, sv')"
  shows "sv_inv acts n sv'"
proof -
  have rec: "sv_inv acts n (record_execution x sv)" for x by (rule sv_inv_record(2) [OF assms(1)])
  show ?thesis
  proof (cases "map_of (sv_actions sv) i")
    case None
    then show ?thesis using assms(2) rec by (auto simp: execute_begin_def Let_def)
  next
    case (Some rt)
    show ?thesis
    proof (cases "matches_context (rt_action rt) c \<and> 0 < rt_admission rt \<and> fst (accept_debounce now rt)")
      case False
      then show ?thesis using assms(2) rec Some
        by (auto simp: execute_begin_def Let_def admit_def accept_debounce_admitted split: if_splits)
    next
      case True
      let ?rt = "rt\<lparr>rt_admission := rt_admission rt - 1, rt_last_accepted := Some now\<rparr>"
      let ?t = "\<lparr>tk_action = i, tk_input = input_of_context c, tk_phase = AwaitRunning, tk_title = None\<rparr>"
      have "sv' = (put_runtime i ?rt sv)\<lparr>sv_titles := sv_titles sv, sv_tasks := sv_tasks sv @ [?t]\<rparr>"
        using assms(2) Some True
        by (simp add: execute_begin_def Let_def admit_def accept_debounce_admitted put_runtime_def)
      moreover have "titles_ok (sv_titles sv)" using assms(1) by (simp add: sv_inv_def)
      ultimately show ?thesis
        using sv_inv_spawn [OF assms(1) Some _ refl, where stamp = "Some now" and t = ?t and titles = "sv_titles sv"] True by simp
    qed
  qed
qed

lemma sv_inv_titles [inv_intros]: "sv_inv acts n sv \<Longrightarrow> titles_ok ts \<Longrightarrow> sv_inv acts n (sv\<lparr>sv_titles := ts\<rparr>)"
  by (simp add: sv_inv_def runtime_ok_def holding_def)

lemma sv_inv_resolve:
  assumes "sv_inv acts n sv" "resolve_title now request provider session sv = (ans, sv')"
  shows "sv_inv acts n sv'"
proof -
  let ?k = "(provider, session)"
  obtain hit ts where c: "cached ?k (sv_titles sv) = (hit, ts)" by (rule prod.exhaust)
  have ok: "titles_ok (sv_titles sv)" using assms(1) by (simp add: sv_inv_def)
  then have ts: "titles_ok ts" using titles_ok_cached [of "sv_titles sv" ?k] c by simp
  have same: "ts = sv_titles sv" if "hit = None" using c that by (auto simp: cached_def split: option.splits)
  show ?thesis
  proof (cases "\<exists>i rt rt1 ts'. sv' = (put_runtime i rt1 sv)\<lparr>
      sv_titles := ts'\<lparr>ts_pending := ts_pending ts' @ [?k]\<rparr>,
      sv_tasks := sv_tasks sv @ [\<lparr>tk_action = i, tk_input = input_of_title (title_request_new request provider session),
        tk_phase = AwaitRunning, tk_title = Some ?k\<rparr>]\<rparr>
      \<and> map_of (sv_actions sv) i = Some rt \<and> admit rt = Some rt1 \<and> hit = None
      \<and> ?k \<notin> set (ts_pending ts) \<and> length (ts_pending ts) < title_capacity
      \<and> title_accept now ?k (la_debounce_ms (rt_action rt)) ts = (True, ts')")
    case True
    then obtain i rt rt1 ts' where sv': "sv' = (put_runtime i rt1 sv)\<lparr>
      sv_titles := ts'\<lparr>ts_pending := ts_pending ts' @ [?k]\<rparr>,
      sv_tasks := sv_tasks sv @ [\<lparr>tk_action = i, tk_input = input_of_title (title_request_new request provider session),
        tk_phase = AwaitRunning, tk_title = Some ?k\<rparr>]\<rparr>"
      and rt: "map_of (sv_actions sv) i = Some rt" "admit rt = Some rt1"
      and pend: "?k \<notin> set (ts_pending ts)" "length (ts_pending ts) < title_capacity"
      and acc: "title_accept now ?k (la_debounce_ms (rt_action rt)) ts = (True, ts')"
      by blast
    have "titles_ok ts' \<and> ts_pending ts' = ts_pending ts" using titles_ok_accept [OF ts] acc by (metis snd_conv)
    then have "titles_ok (ts'\<lparr>ts_pending := ts_pending ts' @ [?k]\<rparr>)" using pend by (auto simp: titles_ok_def)
    moreover have "rt1 = rt\<lparr>rt_admission := rt_admission rt - 1, rt_last_accepted := rt_last_accepted rt\<rparr>" "0 < rt_admission rt"
      using rt(2) by (auto simp: admit_def split: if_splits)
    ultimately show ?thesis unfolding sv'
      by (intro sv_inv_spawn [OF assms(1) rt(1), where stamp = "rt_last_accepted rt"]) simp_all
  next
    case False
    then have "sv' = sv \<or> sv' = sv\<lparr>sv_titles := ts\<rparr>"
      using assms(2) c same
      by (auto simp: resolve_title_def Let_def not_le split: if_splits option.splits prod.splits bool.splits)
    then show ?thesis using assms(1) sv_inv_titles [OF assms(1) ts] by blast
  qed
qed

text \<open>A task that moves on, and one that ends: the counts change by what its phase holds.\<close>

lemma task_action_known:
  assumes "sv_inv acts n sv" "j < length (sv_tasks sv)"
  obtains rt where "map_of (sv_actions sv) (tk_action (sv_tasks sv ! j)) = Some rt"
proof -
  have "acts (tk_action (sv_tasks sv ! j)) \<noteq> None" using assms nth_mem unfolding sv_inv_def by blast
  then show ?thesis using that sv_inv_acts [OF assms(1)] by auto
qed

lemma holding_advance:
  assumes "j < length (sv_tasks sv)"
  shows "holding p (sv\<lparr>sv_tasks := (sv_tasks sv)[j := t]\<rparr>) + of_bool (p (sv_tasks sv ! j)) = holding p sv + of_bool (p t)"
  using filter_update [OF assms, of p t] by (simp add: holding_def)

lemma tasks_update_known:
  "j < length xs \<Longrightarrow> \<forall>t \<in> set xs. f (tk_action t) \<noteq> None \<Longrightarrow> tk_action y = tk_action (xs ! j)
    \<Longrightarrow> \<forall>t \<in> set (xs[j := y]). f (tk_action t) \<noteq> None"
  using set_update_subset_insert [of xs j y] nth_mem by fastforce

lemma sv_inv_take_running:
  assumes "sv_inv acts n sv" "take_running j sv = Some sv'"
  shows "sv_inv acts n sv'"
proof -
  let ?t = "sv_tasks sv ! j" and ?i = "tk_action (sv_tasks sv ! j)"
  obtain rt where j: "j < length (sv_tasks sv)" "tk_phase ?t = AwaitRunning"
    and rt: "map_of (sv_actions sv) ?i = Some rt" "0 < rt_running rt"
    and sv': "sv' = (put_runtime ?i (rt\<lparr>rt_running := rt_running rt - 1\<rparr>) sv)
        \<lparr>sv_tasks := (sv_tasks sv)[j := ?t\<lparr>tk_phase := AwaitGlobal\<rparr>]\<rparr>"
    using assms(2) by (auto simp: take_running_def split: if_splits option.splits)
  have hold: "holding p sv' + of_bool (p ?t) = holding p sv + of_bool (p (?t\<lparr>tk_phase := AwaitGlobal\<rparr>))" for p
    using holding_advance [OF j(1), of p "?t\<lparr>tk_phase := AwaitGlobal\<rparr>"] by (simp add: sv' holding_def put_runtime_def)
  have acts: "map_option rt_action \<circ> map_of (sv_actions sv') = acts"
    using acts_put_runtime [OF _ rt(1), of acts "rt\<lparr>rt_running := rt_running rt - 1\<rparr>"] assms(1)
    by (simp add: sv_inv_def put_runtime_def sv')
  have "runtime_ok sv' k r" if "map_of (sv_actions sv') k = Some r" for k r
  proof (cases "k = ?i")
    case True
    then have "r = rt\<lparr>rt_running := rt_running rt - 1\<rparr>" using that by (simp add: put_runtime_def sv')
    moreover have "runtime_ok sv ?i rt" using assms(1) rt(1) by (simp add: sv_inv_def)
    ultimately show ?thesis using rt(2) j(2) hold [of "of_action ?i"] hold [of "slotted ?i"] True
      by (simp add: runtime_ok_def of_action_def slotted_def)
  next
    case False
    then have "runtime_ok sv k r" using that assms(1) by (simp add: sv_inv_def put_runtime_def sv')
    then show ?thesis using False hold [of "of_action k"] hold [of "slotted k"]
      by (simp add: runtime_ok_def of_action_def slotted_def)
  qed
  moreover have "holding executing sv' = holding executing sv"
    using hold [of executing] j(2) by (simp add: executing_def)
  moreover have known: "\<forall>t \<in> set (sv_tasks sv). acts (tk_action t) \<noteq> None"
    using assms(1) by (simp add: sv_inv_def)
  moreover have "sv_tasks sv' = (sv_tasks sv)[j := ?t\<lparr>tk_phase := AwaitGlobal\<rparr>]" by (simp add: sv' put_runtime_def)
  moreover from this have "\<forall>t \<in> set (sv_tasks sv'). acts (tk_action t) \<noteq> None"
    using tasks_update_known [OF j(1) known, of "?t\<lparr>tk_phase := AwaitGlobal\<rparr>"] by auto
  ultimately show ?thesis using assms(1) acts by (auto simp: sv_inv_def put_runtime_def sv')
qed

lemma sv_inv_take_global:
  assumes "sv_inv acts n sv" "take_global j sv = Some sv'"
  shows "sv_inv acts n sv'"
proof -
  let ?t = "sv_tasks sv ! j"
  have j: "j < length (sv_tasks sv)" "tk_phase ?t = AwaitGlobal" "0 < sv_global sv"
    and sv': "sv' = sv\<lparr>sv_global := sv_global sv - 1, sv_tasks := (sv_tasks sv)[j := ?t\<lparr>tk_phase := Executing\<rparr>]\<rparr>"
    using assms(2) by (auto simp: take_global_def split: if_splits)
  have hold: "holding p sv' + of_bool (p ?t) = holding p sv + of_bool (p (?t\<lparr>tk_phase := Executing\<rparr>))" for p
    using holding_advance [OF j(1), of p "?t\<lparr>tk_phase := Executing\<rparr>"] by (simp add: sv' holding_def)
  have "runtime_ok sv' k r" if "map_of (sv_actions sv') k = Some r" for k r
  proof -
    have "runtime_ok sv k r" using that assms(1) by (simp add: sv_inv_def sv')
    then show ?thesis using j(2) hold [of "of_action k"] hold [of "slotted k"]
      by (auto simp: runtime_ok_def of_action_def slotted_def)
  qed
  moreover have "holding executing sv' = Suc (holding executing sv)"
    using hold [of executing] j(2) by (simp add: executing_def)
  moreover have known: "\<forall>t \<in> set (sv_tasks sv). acts (tk_action t) \<noteq> None"
    using assms(1) by (simp add: sv_inv_def)
  moreover have "sv_tasks sv' = (sv_tasks sv)[j := ?t\<lparr>tk_phase := Executing\<rparr>]" by (simp add: sv' put_runtime_def)
  moreover from this have "\<forall>t \<in> set (sv_tasks sv'). acts (tk_action t) \<noteq> None"
    using tasks_update_known [OF j(1) known, of "?t\<lparr>tk_phase := Executing\<rparr>"] by auto
  ultimately show ?thesis using assms(1) j(3) by (auto simp: sv_inv_def sv')
qed

lemma sv_inv_drop:
  assumes "sv_inv acts n sv" "j < length (sv_tasks sv)"
  shows "sv_inv acts n (drop_task j sv)"
proof -
  let ?t = "sv_tasks sv ! j" and ?i = "tk_action (sv_tasks sv ! j)"
  obtain rt where rt: "map_of (sv_actions sv) ?i = Some rt" using task_action_known [OF assms] .
  let ?rt = "rt\<lparr>rt_admission := rt_admission rt + 1, rt_running := rt_running rt + (if tk_phase ?t = AwaitRunning then 0 else 1)\<rparr>"
  let ?sv = "drop_task j sv"
  have drop: "?sv = put_runtime ?i ?rt (sv\<lparr>sv_tasks := remove_nth j (sv_tasks sv),
      sv_global := sv_global sv + (if tk_phase ?t = Executing then 1 else 0)\<rparr>)"
    by (simp add: drop_task_def rt Let_def)
  have hold: "holding p ?sv + of_bool (p ?t) = holding p sv" for p
    using filter_remove_nth [OF assms(2), of p] unfolding drop by (simp add: holding_def put_runtime_def)
  have acts: "map_option rt_action \<circ> map_of (sv_actions ?sv) = acts"
    using acts_put_runtime [OF _ rt, of acts ?rt] assms(1) by (simp add: sv_inv_def put_runtime_def drop)
  have "runtime_ok ?sv k r" if "map_of (sv_actions ?sv) k = Some r" for k r
  proof (cases "k = ?i")
    case True
    then have "r = ?rt" using that by (simp add: put_runtime_def drop)
    moreover have "runtime_ok sv ?i rt" using assms(1) rt by (simp add: sv_inv_def)
    ultimately show ?thesis using hold [of "of_action ?i"] hold [of "slotted ?i"] True
      by (auto simp: runtime_ok_def of_action_def slotted_def)
  next
    case False
    then have "runtime_ok sv k r" using that assms(1) by (simp add: sv_inv_def put_runtime_def drop)
    then show ?thesis using False hold [of "of_action k"] hold [of "slotted k"]
      by (simp add: runtime_ok_def of_action_def slotted_def)
  qed
  moreover have "sv_global ?sv + holding executing ?sv = n"
    using hold [of executing] assms(1) by (auto simp: sv_inv_def executing_def drop put_runtime_def)
  moreover have "\<forall>t \<in> set (sv_tasks ?sv). acts (tk_action t) \<noteq> None"
    using assms(1) set_remove_nth [of j "sv_tasks sv"] by (auto simp: sv_inv_def drop put_runtime_def)
  ultimately show ?thesis using assms(1) acts by (auto simp: sv_inv_def put_runtime_def drop)
qed

lemma sv_inv_step:
  assumes "sv_inv acts n sv" "sv_step sv sv'"
  shows "sv_inv acts n sv'"
  using assms(2)
proof cases
  case (step_finish started finished j p r)
  then obtain x where "j < length (sv_tasks sv)" "sv' = record_execution x (drop_task j sv)"
    by (auto simp: execute_finish_def split: if_splits option.splits)
  then show ?thesis using sv_inv_drop [OF assms(1)] sv_inv_record(2) by blast
next
  case (step_title dec cancelled started finished j p title)
  then have j: "j < length (sv_tasks sv)" by (auto simp: title_finish_def split: if_splits)
  have "\<exists>k t x. sv' = reply_title k t (drop_task j sv) \<or> sv' = reply_title k t (record_audit x (drop_task j sv))"
    using step_title by (auto simp: title_finish_def Let_def split: if_splits option.splits prod.splits)
  then show ?thesis using sv_inv_drop [OF assms(1) j] sv_inv_reply sv_inv_record(1) by blast
next
  case (step_abandon j)
  then obtain k where "j < length (sv_tasks sv)" "sv' = reply_title k None (drop_task j sv)"
    by (auto simp: title_abandon_def split: if_splits option.splits)
  then show ?thesis using sv_inv_drop [OF assms(1)] sv_inv_reply by blast
next
  case step_shutdown
  then show ?thesis using assms(1)
    by (simp add: shutdown_titles_def sv_inv_def titles_ok_def empty_titles_def runtime_ok_def holding_def)
next
  case step_begin
  then show ?thesis by (rule sv_inv_begin [OF assms(1)])
next
  case step_resolve
  then show ?thesis by (rule sv_inv_resolve [OF assms(1)])
next
  case step_running
  then show ?thesis using sv_inv_take_running [OF assms(1)] by simp
next
  case step_global
  then show ?thesis using sv_inv_take_global [OF assms(1)] by simp
qed

end
