(* ===== verification/Supervisor_Runs.thy ===== *)
theory Supervisor_Runs
  imports Supervisor_Properties
begin

text \<open>
  What holds of a supervisor after any interleaving of requests, permit hand-outs, process exits and
  shutdown: the concurrency limits, and that every unfinished task can be run to its end.
\<close>

section \<open>Reachable supervisors\<close>

definition acts_of :: "loaded_actions \<Rightarrow> rstr \<rightharpoonup> loaded_action" where
  "acts_of l = map_of (map (\<lambda>a. (la_id a, a)) (lds_enabled l))"

definition sv_start :: "loaded_actions \<Rightarrow> nat \<Rightarrow> supervisor \<Rightarrow> bool" where
  "sv_start l n sv \<longleftrightarrow> supervisor_new l n = Some sv \<and> distinct (map la_id (lds_enabled l))"

lemma fold_runtimes:
  assumes "distinct (map la_id as)"
  shows "map_of (fold (\<lambda>a. bt_insert (la_id a) (runtime_new a)) as m) k
    = (case map_of (map (\<lambda>a. (la_id a, a)) as) k of Some a \<Rightarrow> Some (runtime_new a) | None \<Rightarrow> map_of m k)"
  using assms
proof (induction as arbitrary: m)
  case (Cons a as)
  have "map_of (map (\<lambda>a. (la_id a, a)) as) (la_id a) = None"
    using Cons.prems by (auto simp: map_of_eq_None_iff image_image)
  then show ?case using Cons by (auto split: option.split)
qed simp

lemma fold_runtimes_wf: "bt_wf m \<Longrightarrow> bt_wf (fold (\<lambda>a. bt_insert (la_id a) (runtime_new a)) as m)"
  by (induction as arbitrary: m) auto

lemma runtime_new_action [simp]: "rt_action (runtime_new a) = a"
  by (simp add: runtime_new_def)

lemma sv_start_inv:
  assumes "sv_start l n sv"
  shows "sv_inv (acts_of l) n sv"
proof -
  have sv: "sv = \<lparr>sv_actions = fold (\<lambda>a. bt_insert (la_id a) (runtime_new a)) (lds_enabled l) [], sv_global = n,
      sv_title_order = map la_id (filter (\<lambda>a. la_trigger a = OnSessionTitle) (lds_enabled l)),
      sv_titles = empty_titles, sv_shutdown = False, sv_audit = [], sv_tasks = []\<rparr>"
    and d: "distinct (map la_id (lds_enabled l))"
    using assms by (auto simp: sv_start_def supervisor_new_def split: if_splits)
  have "map_option rt_action (map_of (sv_actions sv) k) = acts_of l k" for k
    using fold_runtimes [OF d, of "[]"] by (simp add: sv acts_of_def split: option.split)
  moreover have "runtime_ok sv k rt" if "map_of (sv_actions sv) k = Some rt" for k rt
    using that fold_runtimes [OF d, of "[]" k]
    by (auto simp: sv runtime_ok_def holding_def runtime_new_def split: option.splits)
  ultimately show ?thesis
    by (auto simp: sv_inv_def fun_eq_iff sv holding_def titles_ok_def empty_titles_def fold_runtimes_wf)
qed

interpretation supervised: invariant_system "sv_start l n" sv_step "sv_inv (acts_of l) n"
  for l n
  by unfold_locales (auto intro: sv_start_inv sv_inv_step)

lemma holding_le: "(\<And>t. p t \<Longrightarrow> q t) \<Longrightarrow> holding p sv \<le> holding q sv"
proof -
  assume imp: "\<And>t. p t \<Longrightarrow> q t"
  have "length (filter p ts) \<le> length (filter q ts)" for ts
    by (induction ts) (auto simp: imp le_SucI)
  then show ?thesis by (simp add: holding_def)
qed

text \<open>
  C37. The supervisor never runs more than it may. In every state reachable from a new supervisor, by
  any interleaving of clicks, title requests, permit hand-outs, process exits and shutdown, at most
  \<^verbatim>\<open>max_parallel\<close> processes of an action run, at most that many plus the queue capacity are admitted,
  at most the global number of processes run, and the audit trail and the title cache, debounce and
  pending tables stay within 256 entries.
\<close>

theorem concurrency_limits_hold:
  assumes "supervisor_new l n = Some sv0" "distinct (map la_id (lds_enabled l))" "sv_step\<^sup>*\<^sup>* sv0 sv"
  shows "(\<forall>a \<in> set (lds_enabled l).
        holding (\<lambda>t. tk_action t = la_id a \<and> tk_phase t = Executing) sv \<le> la_max_parallel a
      \<and> holding (\<lambda>t. tk_action t = la_id a) sv \<le> admission_capacity a)
    \<and> holding (\<lambda>t. tk_phase t = Executing) sv \<le> n \<and> n \<le> 16
    \<and> length (sv_audit sv) \<le> 256 \<and> length (ts_cache (sv_titles sv)) \<le> 256
    \<and> length (ts_debounce (sv_titles sv)) \<le> 256 \<and> length (ts_pending (sv_titles sv)) \<le> 256"
proof -
  have inv: "sv_inv (acts_of l) n sv"
    using supervised.inv_reachable [OF _ assms(3)] assms(1,2) by (simp add: sv_start_def)
  have "holding (\<lambda>t. tk_action t = la_id a \<and> tk_phase t = Executing) sv \<le> la_max_parallel a
      \<and> holding (\<lambda>t. tk_action t = la_id a) sv \<le> admission_capacity a" if "a \<in> set (lds_enabled l)" for a
  proof -
    have "acts_of l (la_id a) = Some a"
      using that assms(2) by (auto simp: acts_of_def comp_def intro: map_of_is_SomeI)
    then obtain rt where rt: "map_of (sv_actions sv) (la_id a) = Some rt" "rt_action rt = a"
      using sv_inv_acts [OF inv, of "la_id a"] by auto
    then have "runtime_ok sv (la_id a) rt" using inv by (simp add: sv_inv_def)
    moreover have "holding (\<lambda>t. tk_action t = la_id a \<and> tk_phase t = Executing) sv \<le> holding (slotted (la_id a)) sv"
      by (rule holding_le) (simp add: slotted_def)
    moreover have "holding (\<lambda>t. tk_action t = la_id a) sv = holding (of_action (la_id a)) sv"
      by (simp add: of_action_def [abs_def])
    ultimately show ?thesis using rt(2) by (auto simp: runtime_ok_def)
  qed
  moreover have "n \<le> 16" using assms(1) by (simp add: supervisor_new_def max_global_concurrency_def split: if_splits)
  ultimately show ?thesis
    using inv unfolding sv_inv_def titles_ok_def max_action_audit_entries_def title_capacity_def executing_def [abs_def]
    by auto
qed

section \<open>Progress\<close>

definition task_weight :: "action_task \<Rightarrow> nat" where
  "task_weight t = (case tk_phase t of AwaitRunning \<Rightarrow> 3 | AwaitGlobal \<Rightarrow> 2 | Executing \<Rightarrow> 1)"

definition unfinished :: "supervisor \<Rightarrow> nat" where
  "unfinished sv = sum_list (map task_weight (sv_tasks sv))"

lemma weight_update:
  "j < length xs \<Longrightarrow> sum_list (map task_weight (xs[j := t])) + task_weight (xs ! j) = sum_list (map task_weight xs) + task_weight t"
proof (induction xs arbitrary: j)
  case (Cons x xs)
  then show ?case by (cases j) auto
qed simp

lemma weight_remove:
  "j < length xs \<Longrightarrow> sum_list (map task_weight (remove_nth j xs)) + task_weight (xs ! j) = sum_list (map task_weight xs)"
proof (induction xs arbitrary: j)
  case (Cons x xs)
  show ?case
  proof (cases j)
    case (Suc i)
    then show ?thesis using Cons.IH [of i] Cons.prems by (simp add: remove_nth_def)
  qed (simp add: remove_nth_def)
qed simp

lemma task_weight_pos: "0 < task_weight t"
  by (simp add: task_weight_def split: task_phase.split)

lemma drop_task_progress: "j < length (sv_tasks sv) \<Longrightarrow> unfinished (drop_task j sv) < unfinished sv"
  using weight_remove [of j "sv_tasks sv"] task_weight_pos [of "sv_tasks sv ! j"]
  by (simp add: unfinished_def drop_task_def Let_def put_runtime_def split: option.split)

definition failed_spawn :: process_report where
  "failed_spawn = \<lparr>pr_spawned = False, pr_status = WaitFailed, pr_stdin_failed = False, pr_stdout = None, pr_stderr = None\<rparr>"

lemma executing_progress:
  assumes "sv_inv acts n sv" "j < length (sv_tasks sv)" "tk_phase (sv_tasks sv ! j) = Executing"
  shows "\<exists>sv'. sv_step sv sv' \<and> unfinished sv' < unfinished sv"
proof -
  obtain rt where rt: "map_of (sv_actions sv) (tk_action (sv_tasks sv ! j)) = Some rt"
    using task_action_known [OF assms(1,2)] .
  show ?thesis
  proof (cases "tk_title (sv_tasks sv ! j)")
    case None
    have "\<exists>r. execute_finish 0 0 j failed_spawn sv = Some (r, record_execution r (drop_task j sv))"
      using assms(2,3) rt None by (simp add: execute_finish_def run_action_cancellable_def failed_spawn_def)
    then obtain r where "execute_finish 0 0 j failed_spawn sv = Some (r, record_execution r (drop_task j sv))" by blast
    then have "sv_step sv (record_execution r (drop_task j sv))" by (rule step_finish)
    moreover have "unfinished (record_execution r (drop_task j sv)) = unfinished (drop_task j sv)" for r
      by (simp add: unfinished_def)
    ultimately show ?thesis using drop_task_progress [OF assms(2)] by metis
  next
    case (Some k)
    obtain title sv' where fin: "title_finish (\<lambda>_. None) False 0 0 j failed_spawn sv = Some (title, sv')"
      using assms(2,3) rt Some by
        (auto simp: title_finish_def run_action_cancellable_def failed_spawn_def judge_title_def completed_result_def)
    then have "unfinished sv' = unfinished (drop_task j sv)"
      using assms(2,3) rt Some by (auto simp: title_finish_def unfinished_def Let_def split: option.splits prod.splits)
    with step_title [OF fin] drop_task_progress [OF assms(2)] show ?thesis by metis
  qed
qed

lemma holding_pos: "0 < holding p sv \<Longrightarrow> \<exists>j < length (sv_tasks sv). p (sv_tasks sv ! j)"
  by (auto simp: holding_def length_filter_conv_card card_gt_0_iff)

lemma holding_zero: "holding p sv = 0 \<Longrightarrow> t \<in> set (sv_tasks sv) \<Longrightarrow> \<not> p t"
  by (auto simp: holding_def filter_empty_conv)

lemma waiting_title_abandons:
  assumes "sv_shutdown sv" "j < length (sv_tasks sv)" "tk_phase (sv_tasks sv ! j) \<noteq> Executing" "tk_title (sv_tasks sv ! j) = Some k"
  shows "\<exists>sv'. sv_step sv sv' \<and> unfinished sv' < unfinished sv"
proof -
  have "title_abandon j sv = Some (reply_title k None (drop_task j sv))" using assms by (simp add: title_abandon_def)
  then have "sv_step sv (reply_title k None (drop_task j sv))" by (rule step_abandon)
  moreover have "unfinished (reply_title k None (drop_task j sv)) = unfinished (drop_task j sv)" by (simp add: unfinished_def)
  ultimately show ?thesis using drop_task_progress [OF assms(2)] by metis
qed

lemma supervisor_progress:
  assumes inv: "sv_inv acts n sv" and n: "0 < n" and par: "\<And>i a. acts i = Some a \<Longrightarrow> 0 < la_max_parallel a"
    and "sv_tasks sv \<noteq> []"
  shows "\<exists>sv'. sv_step sv sv' \<and> unfinished sv' < unfinished sv"
proof (cases "holding executing sv")
  case (Suc m)
  then obtain j where "j < length (sv_tasks sv)" "tk_phase (sv_tasks sv ! j) = Executing"
    using holding_pos [of executing sv] by (auto simp: executing_def)
  then show ?thesis by (rule executing_progress [OF inv])
next
  case 0
  have idle: "tk_phase t \<noteq> Executing" if "t \<in> set (sv_tasks sv)" for t
    using holding_zero [OF 0 that] by (simp add: executing_def)
  show ?thesis
  proof (cases "\<exists>j < length (sv_tasks sv). tk_phase (sv_tasks sv ! j) = AwaitGlobal")
    case True
    then obtain j where j: "j < length (sv_tasks sv)" "tk_phase (sv_tasks sv ! j) = AwaitGlobal" by blast
    show ?thesis
    proof (cases "tk_title (sv_tasks sv ! j) \<noteq> None \<and> sv_shutdown sv")
      case True
      then show ?thesis using waiting_title_abandons j idle nth_mem by fastforce
    next
      case False
      let ?sv = "sv\<lparr>sv_global := sv_global sv - 1, sv_tasks := (sv_tasks sv)[j := (sv_tasks sv ! j)\<lparr>tk_phase := Executing\<rparr>]\<rparr>"
      have "take_global j sv = Some ?sv" using j inv 0 n by (auto simp: take_global_def sv_inv_def)
      then have "sv_step sv ?sv" using False by (intro step_global) auto
      moreover have "unfinished ?sv < unfinished sv"
        using weight_update [OF j(1), of "(sv_tasks sv ! j)\<lparr>tk_phase := Executing\<rparr>"] j(2) by (simp add: unfinished_def task_weight_def)
      ultimately show ?thesis by blast
    qed
  next
    case False
    then have wait: "tk_phase t = AwaitRunning" if "t \<in> set (sv_tasks sv)" for t
      using that idle by (metis in_set_conv_nth task_phase.exhaust)
    have j: "0 < length (sv_tasks sv)" using assms(4) by simp
    let ?t = "sv_tasks sv ! 0"
    obtain rt where rt: "map_of (sv_actions sv) (tk_action ?t) = Some rt" using task_action_known [OF inv j] .
    have "holding (slotted (tk_action ?t)) sv = 0" using wait by (auto simp: holding_def slotted_def filter_empty_conv)
    moreover have "runtime_ok sv (tk_action ?t) rt" using inv rt by (simp add: sv_inv_def)
    moreover have "0 < la_max_parallel (rt_action rt)" using par sv_inv_acts [OF inv, of "tk_action ?t"] rt by simp
    ultimately have free: "0 < rt_running rt" by (simp add: runtime_ok_def)
    show ?thesis
    proof (cases "tk_title ?t \<noteq> None \<and> sv_shutdown sv")
      case True
      then show ?thesis using waiting_title_abandons [OF _ j] wait [OF nth_mem [OF j]] by auto
    next
      case False
      let ?sv = "(put_runtime (tk_action ?t) (rt\<lparr>rt_running := rt_running rt - 1\<rparr>) sv)
          \<lparr>sv_tasks := (sv_tasks sv)[0 := ?t\<lparr>tk_phase := AwaitGlobal\<rparr>]\<rparr>"
      have "take_running 0 sv = Some ?sv" using j wait [OF nth_mem [OF j]] rt free by (simp add: take_running_def)
      then have "sv_step sv ?sv" using False by (intro step_running) auto
      moreover have "unfinished ?sv < unfinished sv"
        using weight_update [OF j, of "?t\<lparr>tk_phase := AwaitGlobal\<rparr>"] wait [OF nth_mem [OF j]]
        by (simp add: unfinished_def task_weight_def put_runtime_def)
      ultimately show ?thesis by blast
    qed
  qed
qed

text \<open>
  C38. The supervisor never gets stuck and loses no permit. Every state reachable from a supervisor over
  loaded actions can run all its unfinished tasks to their end without new requests, and then every
  action has its full admission and running permits back and all global permits are free.
\<close>

theorem supervisor_drains:
  assumes "supervisor_new l n = Some sv0" "distinct (map la_id (lds_enabled l))" "list_all action_ok (lds_enabled l)"
    and "sv_step\<^sup>*\<^sup>* sv0 sv"
  shows "\<exists>sv'. sv_step\<^sup>*\<^sup>* sv sv' \<and> sv_tasks sv' = [] \<and> sv_global sv' = n
    \<and> (\<forall>a \<in> set (lds_enabled l). \<exists>rt. map_of (sv_actions sv') (la_id a) = Some rt
         \<and> rt_admission rt = admission_capacity a \<and> rt_running rt = la_max_parallel a)"
proof -
  have n: "0 < n" using assms(1) by (simp add: supervisor_new_def split: if_splits)
  have par: "0 < la_max_parallel a" if "acts_of l i = Some a" for i a
  proof -
    have "a \<in> set (lds_enabled l)" using that by (auto simp: acts_of_def dest!: map_of_SomeD)
    then have "action_ok a" using assms(3) by (simp add: list_all_iff)
    then show ?thesis by (simp add: action_ok_def)
  qed
  have inv0: "sv_inv (acts_of l) n sv"
    using supervised.inv_reachable [OF _ assms(4)] assms(1,2) by (simp add: sv_start_def)
  then have "\<exists>sv'. sv_step\<^sup>*\<^sup>* sv sv' \<and> sv_tasks sv' = [] \<and> sv_inv (acts_of l) n sv'"
  proof (induction "unfinished sv" arbitrary: sv rule: less_induct)
    case less
    show ?case
    proof (cases "sv_tasks sv = []")
      case True
      with less.prems show ?thesis by blast
    next
      case False
      obtain sv1 where step: "sv_step sv sv1" "unfinished sv1 < unfinished sv"
        using supervisor_progress [OF less.prems n _ False] par by blast
      obtain sv' where "sv_step\<^sup>*\<^sup>* sv1 sv'" "sv_tasks sv' = []" "sv_inv (acts_of l) n sv'"
        using less.hyps [OF step(2) sv_inv_step [OF less.prems step(1)]] by blast
      then show ?thesis using step(1) by (meson converse_rtranclp_into_rtranclp)
    qed
  qed
  then obtain sv' where sv': "sv_step\<^sup>*\<^sup>* sv sv'" "sv_tasks sv' = []" "sv_inv (acts_of l) n sv'" by blast
  have "\<exists>rt. map_of (sv_actions sv') (la_id a) = Some rt
         \<and> rt_admission rt = admission_capacity a \<and> rt_running rt = la_max_parallel a"
    if "a \<in> set (lds_enabled l)" for a
  proof -
    have "acts_of l (la_id a) = Some a"
      using that assms(2) by (auto simp: acts_of_def comp_def intro: map_of_is_SomeI)
    then obtain rt where "map_of (sv_actions sv') (la_id a) = Some rt" "rt_action rt = a"
      using sv_inv_acts [OF sv'(3), of "la_id a"] by auto
    moreover from this have "runtime_ok sv' (la_id a) rt" using sv'(3) by (simp add: sv_inv_def)
    ultimately show ?thesis using sv'(2) by (auto simp: runtime_ok_def holding_def)
  qed
  moreover have "sv_global sv' = n" using sv' by (simp add: sv_inv_def holding_def)
  ultimately show ?thesis using sv'(1,2) by blast
qed

section \<open>Witnesses\<close>

definition demo_action :: loaded_action where
  "demo_action = \<lparr>la_id = lit ''open'', la_trigger = OnPetClick,
     la_filters = \<lparr>ef_notification_kinds = [], ef_providers = [], ef_project_labels = []\<rparr>,
     la_executable = lit ''/bin/true'', la_arguments = [], la_timeout_ms = 1000, la_debounce_ms = 0,
     la_concurrency_mode = ModeReject, la_max_parallel = 1, la_queue_capacity = 0,
     la_working_directory = lit ''/'', la_wd_policy = WdApplication, la_environment = []\<rparr>"

definition demo_loaded :: loaded_actions where
  "demo_loaded = \<lparr>lds_enabled = [demo_action], lds_effective = \<lparr>efa_schema_version = Some 1, efa_actions = [],
     efa_diagnostics = []\<rparr>\<rparr>"

definition demo_click :: interaction_context where
  "demo_click = \<lparr>ic_version = 1, ic_interaction_id = 7, ic_accepted_at_ms = 5, ic_trigger = PetClick,
     ic_pet = \<lparr>psn_pet_id = lit ''cat'', psn_label = lit ''Cat'', psn_lifecycle = SnapIdle\<rparr>, ic_notification = None\<rparr>"

definition demo_supervisor :: supervisor where
  "demo_supervisor = the (supervisor_new demo_loaded 2)"

lemma demo_supervisor_new: "supervisor_new demo_loaded 2 = Some demo_supervisor"
  by (simp add: demo_supervisor_def supervisor_new_def max_global_concurrency_def)

lemma demo_loaded_ok: "distinct (map la_id (lds_enabled demo_loaded))" "list_all action_ok (lds_enabled demo_loaded)"
  by (simp_all add: demo_loaded_def demo_action_def action_ok_def safe_identifier_def lit_def max_action_id_bytes_def
      utf8_bytes_def utf8_code_def is_identifier_byte_def is_ascii_alphanumeric_def is_ascii_alphabetic_def byte_len_def utf8_width_def)

lemma demo_begin: "sv_tasks (snd (execute_begin 0 0 (lit ''open'') demo_click demo_supervisor)) \<noteq> []"
  by (simp add: demo_supervisor_def supervisor_new_def max_global_concurrency_def demo_loaded_def execute_begin_def
      demo_action_def runtime_new_def matches_context_def demo_click_def admit_def admission_capacity_def
      accept_debounce_def Let_def)

lemma demo_reachable: "sv_step\<^sup>*\<^sup>* demo_supervisor (snd (execute_begin 0 0 (lit ''open'') demo_click demo_supervisor))"
proof (rule r_into_rtranclp)
  show "sv_step demo_supervisor (snd (execute_begin 0 0 (lit ''open'') demo_click demo_supervisor))"
    by (rule step_begin [OF prod.collapse [symmetric]])
qed

theorem concurrency_limits_hold_witness:
  "sv_tasks (snd (execute_begin 0 0 (lit ''open'') demo_click demo_supervisor)) \<noteq> []
   \<and> holding (\<lambda>t. tk_action t = lit ''open'') (snd (execute_begin 0 0 (lit ''open'') demo_click demo_supervisor)) \<le> 1"
  using concurrency_limits_hold [OF demo_supervisor_new demo_loaded_ok(1) demo_reachable] demo_begin
  by (simp add: demo_loaded_def demo_action_def admission_capacity_def)

theorem supervisor_drains_witness:
  "\<exists>sv'. sv_step\<^sup>*\<^sup>* (snd (execute_begin 0 0 (lit ''open'') demo_click demo_supervisor)) sv' \<and> sv_tasks sv' = []"
  using supervisor_drains [OF demo_supervisor_new demo_loaded_ok demo_reachable] by blast

end
