(* ===== verification/Pets_Properties.thy ===== *)
theory Pets_Properties
  imports Pets
begin

text \<open>
  What \<^verbatim>\<open>lili-pet\<close> promises: discovered packages are validated, confined and uniquely identified,
  a validated atlas has exactly the cells the animations use, the animation scheduler always has a
  frame, and a loaded catalog never reaches one of the \<^verbatim>\<open>expect\<close>s.
\<close>

section \<open>Atlas cells\<close>

lemma for_each_Inr_iff: "for_each f xs = Inr u \<longleftrightarrow> (\<forall>x \<in> set xs. f x = Inr ())"
  by (induction xs) (auto simp: rbind_Inr_iff)

lemma scan_pixels_result:
  "fold (scan_pixel img) ps (cells, transparent) =
     (cells \<union> {(y div cell_height, x div cell_width) | x y. (x, y) \<in> set ps \<and> di_alpha img x y \<noteq> 0},
      transparent \<or> (\<exists>(x, y) \<in> set ps. di_alpha img x y = 0))"
proof (induction ps arbitrary: cells transparent)
  case Nil
  then show ?case by simp
next
  case (Cons p ps)
  obtain x y where p: "p = (x, y)" by (cases p)
  show ?case
    by (cases "di_alpha img x y = 0") (auto simp: p Cons.IH)
qed

definition visible_cells :: "decoded_image \<Rightarrow> (nat \<times> nat) set" where
  "visible_cells img = {(y div cell_height, x div cell_width) | x y.
     x < di_width img \<and> y < di_height img \<and> di_alpha img x y \<noteq> 0}"

definition has_transparent_pixel :: "decoded_image \<Rightarrow> bool" where
  "has_transparent_pixel img \<longleftrightarrow> (\<exists>x < di_width img. \<exists>y < di_height img. di_alpha img x y = 0)"

text \<open>The cells the renderer may show: the frames of the nine animations, the neutral and the look cells.\<close>

definition used_cells :: "(nat \<times> nat) set" where
  "used_cells = {(an_row s, column) | s column. s \<in> set standard_animations \<and> column < frame_count s}
     \<union> {(0, 6)} \<union> {9..<11} \<times> {0..<8}"

lemma enumerate_pixels_set: "(x, y) \<in> set (enumerate_pixels img) \<longleftrightarrow> x < di_width img \<and> y < di_height img"
  by (force simp: enumerate_pixels_def)

lemma scan_image:
  "fold (scan_pixel img) (enumerate_pixels img) ({}, False) = (visible_cells img, has_transparent_pixel img)"
proof -
  have "(\<exists>(x, y) \<in> set (enumerate_pixels img). di_alpha img x y = 0) \<longleftrightarrow> has_transparent_pixel img"
    by (fastforce simp: enumerate_pixels_set has_transparent_pixel_def)
  then show ?thesis
    by (simp add: scan_pixels_result visible_cells_def enumerate_pixels_set)
qed

lemma visible_cells_in_atlas:
  assumes "di_width img = atlas_width" "di_height img = atlas_height"
  shows "visible_cells img \<subseteq> {0..<atlas_rows} \<times> {0..<atlas_columns}"
proof -
  have "y div 208 < 11" if "y < 2288" for y :: nat using that by linarith
  moreover have "x div 192 < 8" if "x < 1536" for x :: nat using that by linarith
  ultimately show ?thesis
    using assms
    by (auto simp: visible_cells_def atlas_width_def atlas_height_def atlas_rows_def
        atlas_columns_def cell_width_def cell_height_def)
qed

lemma standard_animation_shape:
  "s \<in> set standard_animations \<Longrightarrow> an_row s < 9 \<and> frame_count s \<le> 8"
  by (auto simp: standard_animations_def frame_count_def idle_durations_def running_right_durations_def
      waving_durations_def jumping_durations_def failed_durations_def waiting_durations_def
      running_durations_def review_durations_def)

lemma standard_rows_distinct:
  "s \<in> set standard_animations \<Longrightarrow> t \<in> set standard_animations \<Longrightarrow> an_row s = an_row t \<Longrightarrow> s = t"
  by (auto simp: standard_animations_def)

lemma standard_row_exists:
  "row < 9 \<Longrightarrow> \<exists>s \<in> set standard_animations. an_row s = row"
proof -
  assume "row < 9"
  then have "row \<in> {0, 1, 2, 3, 4, 5, 6, 7, 8}" by auto
  then show ?thesis by (auto simp: standard_animations_def)
qed

lemma standard_row_zero: "s \<in> set standard_animations \<Longrightarrow> an_row s = 0 \<Longrightarrow> frame_count s = 6"
  by (auto simp: standard_animations_def frame_count_def idle_durations_def)

lemma check_standard_cell_iff:
  "check_standard_cell cells s column = Inr u \<longleftrightarrow>
     ((an_row s, column) \<in> cells \<longleftrightarrow> column < frame_count s \<or> (an_row s, column) = (0, 6))"
  by (auto simp: check_standard_cell_def neutral_look_cell_def Let_def not_le)

lemma used_cells_standard:
  assumes "s \<in> set standard_animations"
  shows "(an_row s, column) \<in> used_cells \<longleftrightarrow> column < frame_count s \<or> (an_row s, column) = (0, 6)"
proof
  assume "(an_row s, column) \<in> used_cells"
  then show "column < frame_count s \<or> (an_row s, column) = (0, 6)"
    using standard_animation_shape [OF assms] standard_rows_distinct [OF assms]
    unfolding used_cells_def by auto
next
  assume "column < frame_count s \<or> (an_row s, column) = (0, 6)"
  then show "(an_row s, column) \<in> used_cells"
    using assms unfolding used_cells_def by auto
qed

lemma look_rows_iff: "(\<forall>r \<in> {9..<11}. P r) \<longleftrightarrow> P 9 \<and> P (10 :: nat)"
proof -
  have "{9..<11} = {9, 10 :: nat}" by auto
  then show ?thesis by simp
qed

lemma validate_cells_iff:
  assumes dim: "di_width img = atlas_width" "di_height img = atlas_height"
  shows "validate_cells img = Inr u \<longleftrightarrow> has_transparent_pixel img \<and> visible_cells img = used_cells"
proof -
  let ?V = "visible_cells img"
  let ?S = "\<forall>s \<in> set standard_animations. \<forall>c < 8. (an_row s, c) \<in> ?V
      \<longleftrightarrow> (an_row s, c) \<in> used_cells"
  let ?L = "\<forall>r \<in> {9..<11}. \<forall>c < 8. (r, c) \<in> ?V"
  have "validate_cells img = Inr u \<longleftrightarrow> has_transparent_pixel img \<and> ?S \<and> ?L"
  proof -
    let ?A = "for_each (\<lambda>s. for_each (check_standard_cell ?V s) [0..<atlas_columns]) standard_animations"
    let ?B = "for_each (\<lambda>row. for_each (check_look_cell ?V row) [0..<atlas_columns]) [9..<atlas_rows]"
    have "?A = Inr () \<longleftrightarrow> ?S"
      by (simp add: for_each_Inr_iff check_standard_cell_iff used_cells_standard atlas_columns_def
          Ball_def)
    moreover have "?B = Inr () \<longleftrightarrow> ?L"
    proof -
      have inner: "for_each (check_look_cell ?V r) [0..<atlas_columns] = Inr () \<longleftrightarrow> (\<forall>c < 8. (r, c) \<in> ?V)" for r
        by (auto simp: for_each_Inr_iff check_look_cell_def atlas_columns_def)
      have "?B = Inr () \<longleftrightarrow> (\<forall>r \<in> set [9..<atlas_rows]. \<forall>c < 8. (r, c) \<in> ?V)"
        by (subst for_each_Inr_iff) (simp only: inner)
      then show ?thesis by (simp only: atlas_rows_def set_upt)
    qed
    moreover have "validate_cells img = Inr u \<longleftrightarrow> has_transparent_pixel img \<and> ?A = Inr () \<and> ?B = Inr ()"
      by (simp add: validate_cells_def scan_image rbind_Inr_iff)
    ultimately show ?thesis by simp
  qed
  moreover have "?S \<and> ?L \<longleftrightarrow> ?V = used_cells"
  proof
    assume sl: "?S \<and> ?L"
    have "(r, c) \<in> ?V \<longleftrightarrow> (r, c) \<in> used_cells" for r c
    proof (cases "r < 9")
      case True
      then obtain s where s: "s \<in> set standard_animations" "an_row s = r"
        using standard_row_exists by blast
      show ?thesis
      proof (cases "c < 8")
        case True
        with s sl show ?thesis by auto
      next
        case False
        have "(r, c) \<notin> ?V"
          using False visible_cells_in_atlas [OF dim] by (auto simp: atlas_columns_def)
        moreover have "(r, c) \<notin> used_cells"
          using False used_cells_standard [OF s(1), of c] standard_animation_shape [OF s(1)] s(2)
          by auto
        ultimately show ?thesis by simp
      qed
    next
      case False
      then have "(r, c) \<in> used_cells \<longleftrightarrow> r < 11 \<and> c < 8"
        using standard_animation_shape by (fastforce simp: used_cells_def)
      moreover have "(r, c) \<in> ?V \<longleftrightarrow> r < 11 \<and> c < 8"
        using False sl visible_cells_in_atlas [OF dim] by (auto simp: atlas_columns_def atlas_rows_def)
      ultimately show ?thesis by simp
    qed
    then show "?V = used_cells" by auto
  next
    assume "?V = used_cells"
    then show "?S \<and> ?L" by (auto simp: used_cells_def)
  qed
  ultimately show ?thesis by simp
qed

lemma validate_readers_cells:
  assumes "validate_readers env bytes n = Inr m"
  obtains img where "pe_decode env bytes = Some img" "di_width img = atlas_width"
    "di_height img = atlas_height" "visible_cells img = used_cells" "has_transparent_pixel img"
    "di_has_alpha img"
  using assms validate_cells_iff
  by (force simp: validate_readers_def rbind_Inr_iff split: if_splits prod.splits)

section \<open>The scheduler\<close>

lemma frame_at_total:
  assumes "frame_end \<le> elapsed" "elapsed < frame_end + sum_list (map fr_duration fs)"
  shows "\<exists>f \<in> set fs. frame_at elapsed frame_end fs = Some f"
  using assms
proof (induction fs arbitrary: frame_end)
  case (Cons f fs)
  then show ?case
    using Cons.IH [of "frame_end + fr_duration f"] by (cases "elapsed < frame_end + fr_duration f") auto
qed simp

lemma spec_frames_cell:
  "f \<in> set (spec_frames s) \<Longrightarrow> fr_row f = an_row s \<and> fr_column f < frame_count s"
  by (auto simp: spec_frames_def frame_count_def in_set_enumerate_eq)

definition loop_length :: "animation_spec \<Rightarrow> nat" where
  "loop_length s = sum_list (map fr_duration (spec_frames s))"

lemma loop_length_eq: "loop_duration s = loop_length (as_spec s)"
  by (simp add: loop_duration_def loop_length_def)

lemma sum_list_enumerate_durations:
  "sum_list (map fr_duration (map (\<lambda>(column, ms).
       \<lparr>fr_row = r, fr_column = column, fr_duration = nanos_of_ms ms\<rparr>) (enumerate n ds)))
     = nanos_of_ms (sum_list ds)"
  by (induction ds arbitrary: n) (auto simp: nanos_of_ms_def)

lemma loop_length_sum: "loop_length s = nanos_of_ms (sum_list (an_frame_durations_ms s))"
  unfolding loop_length_def spec_frames_def by (rule sum_list_enumerate_durations)

lemma loop_length_bounds:
  assumes "s \<in> set standard_animations"
  shows "0 < loop_length s" and "loop_length s \<le> u64_max"
  using assms
  by (auto simp: loop_length_sum standard_animations_def nanos_of_ms_def u64_max_def idle_durations_def
      running_right_durations_def waving_durations_def jumping_durations_def failed_durations_def
      waiting_durations_def running_durations_def review_durations_def)

lemma standard_spec_exists: "\<exists>s \<in> set standard_animations. an_state s = st"
  by (cases st) (auto simp: standard_animations_def)

lemma scheduler_new_total:
  "\<exists>s. scheduler_new st = Some s \<and> as_spec s \<in> set standard_animations \<and> an_state (as_spec s) = st
     \<and> as_elapsed s = 0"
proof -
  have "find (\<lambda>s. an_state s = st) standard_animations \<noteq> None"
    using standard_spec_exists [of st] by (auto simp: find_None_iff)
  then obtain s where s: "find (\<lambda>s. an_state s = st) standard_animations = Some s" by blast
  then have "s \<in> set standard_animations" "an_state s = st"
    by (auto simp: find_Some_iff)
  with s show ?thesis by (simp add: scheduler_new_def)
qed

fun scheduler_run :: "nat list \<Rightarrow> animation_scheduler \<Rightarrow> (frame_descriptor \<times> animation_scheduler) option" where
  "scheduler_run [] s = map_option (\<lambda>f. (f, s)) (current_frame s)"
| "scheduler_run (d # ds) s = Option.bind (scheduler_advance d s) (\<lambda>(f, s'). scheduler_run ds s')"

lemma current_frame_total:
  "as_elapsed s < loop_length (as_spec s) \<Longrightarrow> \<exists>f \<in> set (spec_frames (as_spec s)). current_frame s = Some f"
  using frame_at_total [of 0 "as_elapsed s" "spec_frames (as_spec s)"]
  by (auto simp: current_frame_def loop_length_def)

lemma scheduler_run_total:
  assumes "as_spec s \<in> set standard_animations" "as_elapsed s < loop_length (as_spec s)"
  shows "\<exists>f \<in> set (spec_frames (as_spec s)). \<exists>s'. scheduler_run ds s = Some (f, s')
    \<and> as_spec s' = as_spec s \<and> as_elapsed s' = (as_elapsed s + sum_list ds) mod loop_length (as_spec s)
    \<and> current_frame s' = Some f"
  using assms
proof (induction ds arbitrary: s)
  case Nil
  then show ?case using current_frame_total [of s] by auto
next
  case (Cons d ds)
  let ?L = "loop_length (as_spec s)"
  let ?s = "s\<lparr>as_elapsed := (as_elapsed s + d) mod ?L\<rparr>"
  have pos: "0 < ?L" and small: "(as_elapsed s + d) mod ?L \<le> u64_max"
    using loop_length_bounds [OF Cons.prems(1)] mod_less_divisor [of ?L "as_elapsed s + d"] by linarith+
  have ih: "\<exists>f \<in> set (spec_frames (as_spec ?s)). \<exists>s'. scheduler_run ds ?s = Some (f, s')
      \<and> as_spec s' = as_spec ?s
      \<and> as_elapsed s' = (as_elapsed ?s + sum_list ds) mod loop_length (as_spec ?s)
      \<and> current_frame s' = Some f"
    using Cons.prems(1) pos by (intro Cons.IH) auto
  obtain g where "current_frame ?s = Some g"
    using current_frame_total [of ?s] pos by auto
  then have "scheduler_advance d s = Some (g, ?s)"
    using pos small by (simp add: scheduler_advance_def loop_length_eq Let_def)
  then have "scheduler_run (d # ds) s = scheduler_run ds ?s" by simp
  then show ?case
    using ih by (simp add: mod_add_left_eq add.assoc)
qed


section \<open>Discovery\<close>

definition manifest_ok :: "pet_manifest \<Rightarrow> bool" where
  "manifest_ok m \<longleftrightarrow> pet_id_parse (pm_id m) \<noteq> None
     \<and> trim (pm_display_name m) \<noteq> [] \<and> byte_len (pm_display_name m) \<le> 128
     \<and> \<not> has_control (pm_display_name m) \<and> byte_len (pm_description m) \<le> 512
     \<and> pm_sprite_version_number m = sprite_version_number"

lemma validate_manifest_iff: "validate_manifest m = Inr u \<longleftrightarrow> manifest_ok m"
  by (auto simp: validate_manifest_def manifest_ok_def not_le)

definition package_ok :: "pet_env \<Rightarrow> discovered_package \<Rightarrow> bool" where
  "package_ok env p \<longleftrightarrow> manifest_ok (dp_manifest p)
     \<and> path_starts_with (dp_atlas_path p) (dp_package_dir p) \<and> pe_is_file env (dp_atlas_path p)
     \<and> list_all is_normal (path_of (pm_spritesheet_path (dp_manifest p)))
     \<and> path_of (pm_spritesheet_path (dp_manifest p)) \<noteq> []"

lemma parse_pet_manifest_ok: "parse_pet_manifest env payload = Inr m \<Longrightarrow> manifest_ok m"
  by (auto simp: parse_pet_manifest_def rbind_Inr_iff validate_manifest_iff split: if_splits)

lemma asset_path_ok: "asset_path_of m = Inr p \<Longrightarrow> p = path_of (pm_spritesheet_path m) \<and> p \<noteq> [] \<and> list_all is_normal p"
  by (auto simp: asset_path_of_def Let_def list_ex_iff list_all_iff split: if_splits)

lemma load_package_ok:
  assumes "load_package env origin dir = Inr p"
  shows "package_ok env p"
  using assms parse_pet_manifest_ok asset_path_ok
  by (fastforce simp: load_package_def rbind_Inr_iff Let_def package_ok_def split: if_splits)

lemma discover_loop_sound:
  assumes "distinct (map (\<lambda>p. pm_id (dp_manifest p)) (dr_packages rep))"
    and "set (map (\<lambda>p. pm_id (dp_manifest p)) (dr_packages rep)) = seen"
    and "\<forall>p \<in> set (dr_packages rep). package_ok env p"
    and "out = discover_loop env cs seen rep"
  shows "distinct (map (\<lambda>p. pm_id (dp_manifest p)) (dr_packages out))
    \<and> (\<forall>p \<in> set (dr_packages out). package_ok env p)
    \<and> length (dr_packages out) + length (dr_issues out)
        = length (dr_packages rep) + length (dr_issues rep) + length cs"
  using assms
proof (induction env cs seen rep rule: discover_loop.induct)
  case (2 env origin dir cs seen rep)
  show ?case
  proof (cases "load_package env origin dir")
    case (Inl e)
    with 2(1) [OF Inl] 2(4-) show ?thesis by simp
  next
    case (Inr p)
    show ?thesis
    proof (cases "pm_id (dp_manifest p) \<in> seen")
      case True
      with 2(3) [OF Inr] 2(4-) Inr show ?thesis by simp
    next
      case False
      with 2(2) [OF Inr] 2(4-) Inr load_package_ok [OF Inr] show ?thesis by auto
    qed
  qed
qed simp

lemma discover_sound:
  "distinct (map (\<lambda>p. pm_id (dp_manifest p)) (dr_packages (discover_pet_packages env root)))"
  "p \<in> set (dr_packages (discover_pet_packages env root)) \<Longrightarrow> package_ok env p"
  "length (dr_packages (discover_pet_packages env root)) + length (dr_issues (discover_pet_packages env root))
     = length (discovery_candidates env root)"
  using discover_loop_sound [OF _ _ _ refl, of "\<lparr>dr_packages = [], dr_issues = []\<rparr>" "{}" env
      "discovery_candidates env root"]
  by (simp_all add: discover_pet_packages_def)

section \<open>The catalog\<close>

definition definition_ok :: "pet_definition \<Rightarrow> bool" where
  "definition_ok d \<longleftrightarrow> pet_id_parse (pet_id_str (pd_id d)) = Some (pd_id d)
     \<and> pd_display_name d \<noteq> [] \<and> byte_len (pd_display_name d) \<le> 128
     \<and> \<not> has_control (pd_display_name d)"

definition pets_ok :: "available_pet list \<Rightarrow> bool" where
  "pets_ok ps \<longleftrightarrow> (\<forall>p \<in> set ps. definition_ok (avp_definition p))
     \<and> distinct (map (\<lambda>p. pd_id (avp_definition p)) ps)"

definition catalog_ok :: "pet_catalog \<Rightarrow> bool" where
  "catalog_ok c \<longleftrightarrow> definition_ok (avp_definition (pc_active c)) \<and> pets_ok (pc_packages c)"

definition fallback_ok :: "pet_env \<Rightarrow> bool" where
  "fallback_ok env \<longleftrightarrow> is_ok (validate_atlas_bytes env (pe_fallback_atlas env))"

lemma pet_id_parse_idem: "pet_id_parse s = Some i \<Longrightarrow> pet_id_parse (pet_id_str i) = Some i"
  by (auto simp: pet_id_parse_def split: if_splits)

lemma fallback_manifest_ok: "manifest_ok fallback_manifest"
  by (simp add: manifest_ok_def fallback_manifest_def pet_id_parse_def lit_def sprite_version_number_def
      trim_def is_whitespace_def byte_len_def utf8_width_def has_control_def is_control_def
      utf8_bytes_def utf8_code_def is_identifier_byte_def is_ascii_alphanumeric_def
      is_ascii_alphabetic_def is_ascii_digit_def)

lemma manifest_definition_ok:
  assumes "manifest_ok m" "pet_id_parse (pm_id m) = Some i" "pd_id d = i"
    "pd_display_name d = pm_display_name m"
  shows "definition_ok d"
  using assms pet_id_parse_idem [of "pm_id m" i]
  by (auto simp: manifest_ok_def definition_ok_def trim_def)

lemma fallback_pet_total:
  assumes "fallback_ok env"
  obtains fb where "fallback_pet env = Some fb" "definition_ok (avp_definition fb)"
    "avp_source fb = EmbeddedSource" "pd_id (avp_definition fb) = PetId default_pet_id"
proof -
  obtain a where a: "validate_atlas_bytes env (pe_fallback_atlas env) = Inr a"
    using assms by (auto simp: fallback_ok_def is_ok_iff)
  obtain i where i: "pet_id_parse (pm_id fallback_manifest) = Some i"
    using fallback_manifest_ok by (auto simp: manifest_ok_def)
  have v: "pm_sprite_version_number fallback_manifest = sprite_version_number"
    using fallback_manifest_ok by (simp add: manifest_ok_def)
  let ?d = "\<lparr>pd_id = i, pd_display_name = pm_display_name fallback_manifest,
      pd_description = pm_description fallback_manifest\<rparr>"
  have ok: "definition_ok ?d"
    by (rule manifest_definition_ok [OF fallback_manifest_ok i]) simp_all
  have "i = PetId default_pet_id"
    using i by (auto simp: pet_id_parse_def fallback_manifest_def default_pet_id_def split: if_splits)
  then show thesis
    using that [of "\<lparr>avp_definition = ?d, avp_atlas = a, avp_source = EmbeddedSource\<rparr>"] ok a i v
    by (simp add: fallback_pet_def)
qed

lemma validate_discovered_total:
  assumes "package_ok env p"
  obtains e where "validate_discovered_package env p = Some (Inl e)"
  | v where "validate_discovered_package env p = Some (Inr v)" "definition_ok (vp_definition v)"
      "pet_id_str (pd_id (vp_definition v)) = pm_id (dp_manifest p)"
      "vp_atlas_path v = dp_atlas_path p" "validate_atlas env (dp_atlas_path p) = Inr (vp_atlas v)"
proof (cases "validate_atlas env (dp_atlas_path p)")
  case (Inl e)
  then show thesis using that(1) by (simp add: validate_discovered_package_def)
next
  case (Inr a)
  have m: "manifest_ok (dp_manifest p)" using assms by (simp add: package_ok_def)
  then obtain i where i: "pet_id_parse (pm_id (dp_manifest p)) = Some i"
    by (auto simp: manifest_ok_def)
  let ?v = "\<lparr>vp_definition = \<lparr>pd_id = i, pd_display_name = pm_display_name (dp_manifest p),
             pd_description = pm_description (dp_manifest p)\<rparr>,
           vp_package_dir = dp_package_dir p, vp_atlas_path = dp_atlas_path p, vp_atlas = a\<rparr>"
  have "definition_ok (vp_definition ?v)"
    by (rule manifest_definition_ok [OF m i]) simp_all
  moreover have "pet_id_str i = pm_id (dp_manifest p)" by (rule pet_id_parse_Some [OF i])
  ultimately show thesis
    using that(2) [of ?v] Inr i by (simp add: validate_discovered_package_def)
qed

lemma validate_packages_total:
  assumes "\<forall>p \<in> set ps. package_ok env p" "distinct (map (\<lambda>p. pm_id (dp_manifest p)) ps)"
  shows "\<exists>pets diags. validate_packages env ps = Some (pets, diags) \<and> pets_ok pets
    \<and> (\<lambda>a. pet_id_str (pd_id (avp_definition a))) ` set pets \<subseteq> (\<lambda>p. pm_id (dp_manifest p)) ` set ps
    \<and> length pets + length diags = length ps"
  using assms
proof (induction ps)
  case Nil
  then show ?case by (simp add: pets_ok_def)
next
  case (Cons p ps)
  then obtain pets diags where ih: "validate_packages env ps = Some (pets, diags)" "pets_ok pets"
    "(\<lambda>a. pet_id_str (pd_id (avp_definition a))) ` set pets \<subseteq> (\<lambda>p. pm_id (dp_manifest p)) ` set ps"
    "length pets + length diags = length ps"
    by auto
  have "package_ok env p" using Cons.prems by simp
  then show ?case
  proof (cases rule: validate_discovered_total)
    case (1 e)
    with ih show ?thesis by auto
  next
    case (2 v)
    have "pm_id (dp_manifest p) \<notin> (\<lambda>p. pm_id (dp_manifest p)) ` set ps" using Cons.prems by simp
    then have "pd_id (vp_definition v) \<notin> (\<lambda>a. pd_id (avp_definition a)) ` set pets"
      using ih(3) 2(3) by (metis (no_types, lifting) image_iff subset_iff)
    with ih 2 show ?thesis by (auto simp: pets_ok_def available_of_def)
  qed
qed

lemma load_requested_total:
  assumes "fallback_ok env"
  obtains c where "load_requested env root requested ds = Some c" "catalog_ok c"
    "pc_requested_identifier c = requested"
proof -
  let ?r = "discover_pet_packages env root"
  obtain pets diags where p: "validate_packages env (dr_packages ?r) = Some (pets, diags)" "pets_ok pets"
    using validate_packages_total [of "dr_packages ?r" env] discover_sound [where env = env and root = root]
    by blast
  obtain fb where fb: "fallback_pet env = Some fb" "definition_ok (avp_definition fb)"
    using fallback_pet_total [OF assms] by blast
  have "\<exists>c. load_requested env root requested ds = Some c \<and> catalog_ok c
      \<and> pc_requested_identifier c = requested"
  proof (cases "find (\<lambda>a. pet_id_str (pd_id (avp_definition a)) = requested) pets")
    case None
    with p fb show ?thesis by (simp add: load_requested_def Let_def catalog_ok_def)
  next
    case (Some a)
    then have "a \<in> set pets" by (auto simp: find_Some_iff)
    with p fb Some show ?thesis by (simp add: load_requested_def Let_def catalog_ok_def pets_ok_def)
  qed
  then show thesis using that by blast
qed


section \<open>Frames and cells together\<close>

lemma spec_frame_used: "s \<in> set standard_animations \<Longrightarrow> f \<in> set (spec_frames s) \<Longrightarrow> (fr_row f, fr_column f) \<in> used_cells"
  using spec_frames_cell [of f s] by (auto simp: used_cells_def)

lemma look_cells_used: "l \<in> set look_directions \<Longrightarrow> (lf_row l, lf_column l) \<in> used_cells"
  by (auto simp: look_directions_def look_frame_at_def atlas_columns_def used_cells_def)

text \<open>
  Once an atlas has passed validation, whatever state is animated and however time advances,
  the scheduler has a current frame (the \<^verbatim>\<open>unreachable!\<close>, the remainder and the conversion never
  fail), the frame is the one the total time modulo the loop asks for, and its cell, like the cell
  of every look direction, has a visible pixel in the decoded image; no other cell has one.
\<close>

theorem shown_frame_visible:
  assumes "validate_readers env bytes n = Inr m"
  shows "\<exists>img s0. pe_decode env bytes = Some img \<and> scheduler_new st = Some s0 \<and> an_state (as_spec s0) = st
    \<and> (\<forall>ds. \<exists>f s. scheduler_run ds s0 = Some (f, s)
        \<and> frame_at (sum_list ds mod loop_duration s0) 0 (spec_frames (as_spec s0)) = Some f
        \<and> (fr_row f, fr_column f) \<in> visible_cells img)
    \<and> (\<forall>l \<in> set look_directions. (lf_row l, lf_column l) \<in> visible_cells img)
    \<and> visible_cells img = used_cells"
proof -
  obtain img where img: "pe_decode env bytes = Some img" "visible_cells img = used_cells"
    using validate_readers_cells [OF assms] by metis
  obtain s0 where s0: "scheduler_new st = Some s0" "as_spec s0 \<in> set standard_animations"
    "an_state (as_spec s0) = st" "as_elapsed s0 = 0"
    using scheduler_new_total by blast
  have run: "\<exists>f s. scheduler_run ds s0 = Some (f, s)
      \<and> frame_at (sum_list ds mod loop_duration s0) 0 (spec_frames (as_spec s0)) = Some f
      \<and> (fr_row f, fr_column f) \<in> visible_cells img" for ds
  proof -
    obtain f s where fs: "f \<in> set (spec_frames (as_spec s0))" "scheduler_run ds s0 = Some (f, s)"
      "as_spec s = as_spec s0" "as_elapsed s = sum_list ds mod loop_length (as_spec s0)"
      "current_frame s = Some f"
      using scheduler_run_total [of s0 ds] s0 loop_length_bounds [OF s0(2)] by auto
    then show ?thesis
      using spec_frame_used [OF s0(2) fs(1)] img(2) by (auto simp: current_frame_def loop_length_eq)
  qed
  show ?thesis
    using img s0 run look_cells_used by (intro exI [of _ img] exI [of _ s0] conjI allI ballI) auto
qed

text \<open>An image whose visible pixels are exactly those of the used cells, except its first pixel.\<close>

definition example_image :: decoded_image where
  "example_image = \<lparr>di_width = atlas_width, di_height = atlas_height, di_has_alpha = True,
     di_alpha = (\<lambda>x y. if (x, y) \<noteq> (0, 0) \<and> (y div cell_height, x div cell_width) \<in> used_cells
       then 255 else 0)\<rparr>"

definition example_env :: pet_env where
  "example_env = \<lparr>pe_exists = (\<lambda>_. False), pe_read_dir = (\<lambda>_. None),
     pe_symlink_metadata = (\<lambda>_. None), pe_canonicalize = (\<lambda>_. None), pe_is_file = (\<lambda>_. False),
     pe_metadata_len = (\<lambda>_. None), pe_read = (\<lambda>_. None), pe_parse_manifest = (\<lambda>_. None),
     pe_guess_format = (\<lambda>_. Some ImageWebP),
     pe_dimensions = (\<lambda>_. Some (atlas_width, atlas_height)),
     pe_decode = (\<lambda>_. Some example_image), pe_fallback_atlas = [1]\<rparr>"

lemma example_env_fields:
  "pe_guess_format example_env b = Some ImageWebP"
  "pe_dimensions example_env b = Some (atlas_width, atlas_height)"
  "pe_decode example_env b = Some example_image"
  by (simp_all add: example_env_def)

lemma used_cells_bounds: "(r, c) \<in> used_cells \<Longrightarrow> r < 11 \<and> c < 8"
  using standard_animation_shape by (fastforce simp: used_cells_def)

lemma example_visible: "visible_cells example_image = used_cells"
proof (rule set_eqI, clarify)
  fix r c
  show "(r, c) \<in> visible_cells example_image \<longleftrightarrow> (r, c) \<in> used_cells"
  proof
    assume "(r, c) \<in> used_cells"
    then have b: "r < 11" "c < 8" and u: "(r, c) \<in> used_cells" using used_cells_bounds by auto
    let ?x = "192 * c + 1" and ?y = "208 * r"
    have "?y div cell_height = r" "?x div cell_width = c"
      by (simp_all add: cell_height_def cell_width_def)
    then show "(r, c) \<in> visible_cells example_image"
      using b u unfolding visible_cells_def
      by (intro CollectI exI [of _ ?x] exI [of _ ?y])
         (simp add: example_image_def atlas_width_def atlas_height_def cell_width_def cell_height_def
           atlas_columns_def atlas_rows_def)
  qed (auto simp: visible_cells_def example_image_def split: if_splits)
qed

lemma example_valid: "validate_readers example_env bytes 1 = Inr \<lparr>am_format = AtlasWebP,
    am_width = atlas_width, am_height = atlas_height, am_encoded_bytes = 1\<rparr>"
proof -
  have "has_transparent_pixel example_image"
    by (auto simp: has_transparent_pixel_def example_image_def atlas_width_def atlas_height_def
        cell_width_def cell_height_def atlas_columns_def atlas_rows_def intro!: exI [of _ 0])
  then have "validate_cells example_image = Inr ()"
    by (subst validate_cells_iff) (simp_all add: example_visible, simp_all add: example_image_def)
  moreover have "di_width example_image = atlas_width" "di_height example_image = atlas_height"
    "di_has_alpha example_image"
    by (simp_all add: example_image_def)
  ultimately show ?thesis
    by (simp add: validate_readers_def example_env_fields max_encoded_atlas_bytes_def ok_or_def)
qed

theorem shown_frame_visible_witness:
  "\<exists>s0 f s. scheduler_new AnWaving = Some s0 \<and> scheduler_run [140000000, 700000000] s0 = Some (f, s)
    \<and> (fr_row f, fr_column f) = (3, 1) \<and> (3, 1) \<in> visible_cells example_image"
proof -
  obtain img s0 where w: "pe_decode example_env [] = Some img" "scheduler_new AnWaving = Some s0"
    and run: "\<forall>ds. \<exists>f s. scheduler_run ds s0 = Some (f, s)
        \<and> frame_at (sum_list ds mod loop_duration s0) 0 (spec_frames (as_spec s0)) = Some f
        \<and> (fr_row f, fr_column f) \<in> visible_cells img"
    using shown_frame_visible [OF example_valid, of "[]" AnWaving] by metis
  have "sum_list [140000000, 700000000] = (840000000 :: nat)" by simp
  with run [rule_format, of "[140000000, 700000000]"] obtain f s where f: "scheduler_run [140000000, 700000000] s0 = Some (f, s)"
    "frame_at (840000000 mod loop_duration s0) 0 (spec_frames (as_spec s0)) = Some f"
    "(fr_row f, fr_column f) \<in> visible_cells img"
    by metis
  have s0: "s0 = \<lparr>as_spec = \<lparr>an_state = AnWaving, an_row = 3, an_frame_durations_ms = waving_durations\<rparr>,
      as_elapsed = 0\<rparr>"
    using w(2) by (simp add: scheduler_new_def standard_animations_def)
  have "img = example_image" using w(1) by (simp add: example_env_def)
  moreover have "(fr_row f, fr_column f) = (3, 1)"
    using f(2) by (auto simp: s0 loop_duration_def spec_frames_def waving_durations_def nanos_of_ms_def)
  ultimately show ?thesis using w(2) f by auto
qed

end
