(* ===== verification/App_Pets.thy ===== *)
theory App_Pets
  imports Pets_Properties
begin

text \<open>
  The pet side of \<^verbatim>\<open>lili-app-state/src/lib.rs\<close>: the approved assets behind opaque identifiers, the
  active asset, replacing and selecting a catalog, and the appearance view. A \<^verbatim>\<open>HashMap\<close> is an
  association list with distinct keys; \<open>fresh i\<close> is the UUID drawn for the pet \<open>i\<close>, so the order in
  which the source iterates its map does not matter. \<open>None\<close> is a panic.
\<close>

section \<open>Definitions\<close>

definition hm_insert :: "'k \<Rightarrow> 'v \<Rightarrow> ('k \<times> 'v) list \<Rightarrow> ('k \<times> 'v) list" where
  "hm_insert k v m = (k, v) # filter (\<lambda>e. fst e \<noteq> k) m"

record approved_asset =
  aa_id :: rstr
  aa_content_type :: rstr
  aa_bytes :: "byte list"

record asset_entry =
  aent_id :: rstr
  aent_pet :: available_pet

record asset_catalog =
  acat_by_pet :: "(pet_id \<times> rstr) list"
  acat_assets :: "(rstr \<times> asset_entry) list"

definition entry_load :: "pet_env \<Rightarrow> asset_entry \<Rightarrow> atlas_error + approved_asset" where
  "entry_load env e = rbind (load_asset env (aent_pet e)) (\<lambda>loaded. Inr
     \<lparr>aa_id = aent_id e,
      aa_content_type = (case am_format (lpa_atlas loaded) of
          AtlasPng \<Rightarrow> lit ''image/png'' | AtlasWebP \<Rightarrow> lit ''image/webp''),
      aa_bytes = lpa_bytes loaded\<rparr>)"

definition asset_id_for_pet :: "asset_catalog \<Rightarrow> pet_id \<Rightarrow> rstr option" where
  "asset_id_for_pet c i = map_of (acat_by_pet c) i"

definition catalog_asset :: "asset_catalog \<Rightarrow> rstr \<Rightarrow> asset_entry option" where
  "catalog_asset c a = map_of (acat_assets c) a"

definition asset_candidates :: "available_pet \<Rightarrow> pet_catalog \<Rightarrow> (pet_id \<times> available_pet) list" where
  "asset_candidates fb c =
     fold (\<lambda>p. hm_insert (pd_id (avp_definition p)) p) (fb # pc_packages c @ [pc_active c]) []"

definition assets_from_catalog :: "pet_env \<Rightarrow> (pet_id \<Rightarrow> rstr) \<Rightarrow> pet_catalog \<Rightarrow> asset_catalog option" where
  "assets_from_catalog env fresh c = map_option (\<lambda>fb.
     let candidates = asset_candidates fb c in
     \<lparr>acat_by_pet = map (\<lambda>(i, p). (i, fresh i)) candidates,
      acat_assets = fold (\<lambda>(i, p). hm_insert (fresh i) \<lparr>aent_id = fresh i, aent_pet = p\<rparr>) candidates []\<rparr>)
     (fallback_pet env)"

record pet_runtime =
  pr_catalog :: pet_catalog
  pr_assets :: asset_catalog
  pr_active_asset :: approved_asset

definition load_active :: "pet_env \<Rightarrow> pet_catalog \<Rightarrow> asset_catalog \<Rightarrow> approved_asset option" where
  "load_active env c assets =
     Option.bind (asset_id_for_pet assets (pd_id (avp_definition (pc_active c)))) (\<lambda>a.
     Option.bind (catalog_asset assets a) (\<lambda>e. result_ok (entry_load env e)))"

definition load_active_asset :: "pet_env \<Rightarrow> (pet_id \<Rightarrow> rstr) \<Rightarrow> pet_catalog \<Rightarrow> asset_catalog
    \<Rightarrow> pet_runtime option" where
  "load_active_asset env fresh c assets = (case load_active env c assets of
     Some asset \<Rightarrow> Some \<lparr>pr_catalog = c, pr_assets = assets, pr_active_asset = asset\<rparr>
   | None \<Rightarrow>
       Option.bind (catalog_default env) (\<lambda>fb.
       Option.bind (assets_from_catalog env fresh fb) (\<lambda>assets.
       map_option (\<lambda>asset. \<lparr>pr_catalog = fb, pr_assets = assets, pr_active_asset = asset\<rparr>)
         (load_active env fb assets))))"

text \<open>\<open>fresh2\<close> are the identifiers of the second catalog, drawn when the active asset cannot be loaded.\<close>

definition pet_runtime_from :: "pet_env \<Rightarrow> (pet_id \<Rightarrow> rstr) \<Rightarrow> (pet_id \<Rightarrow> rstr) \<Rightarrow> pet_catalog
    \<Rightarrow> pet_runtime option" where
  "pet_runtime_from env fresh fresh2 c =
     Option.bind (assets_from_catalog env fresh c) (load_active_asset env fresh2 c)"

definition summaries_with_active_metadata :: "pet_summary list \<Rightarrow> pet_summary \<Rightarrow> pet_summary list" where
  "summaries_with_active_metadata summaries selected =
     sort_key psu_display_name (replace_summary selected summaries)"

definition bounded_appearance_summaries :: "pet_summary list \<Rightarrow> pet_summary \<Rightarrow> pet_summary list" where
  "bounded_appearance_summaries summaries selected =
     (let summaries = summaries_with_active_metadata summaries selected in
      if length summaries \<le> max_appearance_pets then summaries
      else let kept = take max_appearance_pets summaries in
        if \<not> list_ex (\<lambda>p. psu_id p = psu_id selected) kept
        then sort_key psu_display_name (butlast kept @ [selected]) else kept)"

definition available_pets :: "pet_env \<Rightarrow> pet_runtime \<Rightarrow> pet_summary list option" where
  "available_pets env rt = map_option
     (\<lambda>s. summaries_with_active_metadata s (summary_of (avp_definition (pc_active (pr_catalog rt)))))
     (available_summaries env (pr_catalog rt))"

definition approved_pet_asset :: "pet_env \<Rightarrow> pet_runtime \<Rightarrow> rstr \<Rightarrow> approved_asset option" where
  "approved_pet_asset env rt asset_id =
     (if aa_id (pr_active_asset rt) = asset_id then Some (pr_active_asset rt)
      else Option.bind (catalog_asset (pr_assets rt) asset_id) (\<lambda>e. result_ok (entry_load env e)))"

definition appearance_view_of :: "pet_env \<Rightarrow> pet_runtime \<Rightarrow> appearance_view option" where
  "appearance_view_of env rt = (let c = pr_catalog rt;
       selected = summary_of (avp_definition (pc_active c)) in
     map_option (\<lambda>summaries.
       \<lparr>av_pets = List.map_filter (\<lambda>p. map_option
           (\<lambda>a. \<lparr>apv_id = psu_id p, apv_display_name = psu_display_name p, apv_asset_id = a\<rparr>)
           (asset_id_for_pet (pr_assets rt) (psu_id p)))
           (bounded_appearance_summaries summaries selected),
        av_selected_pet_id = pet_id_parse (pet_id_str (pd_id (avp_definition (pc_active c))))\<rparr>)
     (available_summaries env c))"

text \<open>
  The blocking part of \<^verbatim>\<open>select_pet\<close>: \<open>SelectUnavailable\<close> keeps the current pet active in the
  reloaded catalog, \<open>SelectFailed\<close> is \<^verbatim>\<open>PetSelectionError::Unavailable\<close> with nothing changed (a
  panicking worker included), \<open>SelectReady\<close> is what remains to be saved and installed.
\<close>

datatype selection_preparation =
    SelectReady pet_runtime
  | SelectUnavailable pet_catalog
  | SelectFailed

definition prepare_selection :: "pet_env \<Rightarrow> (pet_id \<Rightarrow> rstr) \<Rightarrow> pet_path \<Rightarrow> pet_id \<Rightarrow> available_pet
    \<Rightarrow> selection_preparation" where
  "prepare_selection env fresh root i current =
     (case load_with_selection env root (Some i) of
        None \<Rightarrow> SelectFailed
      | Some c \<Rightarrow>
          if pd_id (avp_definition (pc_active c)) \<noteq> i then SelectUnavailable (with_active c current)
          else case assets_from_catalog env fresh c of
            None \<Rightarrow> SelectFailed
          | Some assets \<Rightarrow>
              (case Option.bind (asset_id_for_pet assets i) (\<lambda>a.
                    Option.bind (catalog_asset assets a) (\<lambda>e. result_ok (entry_load env e))) of
                 None \<Rightarrow> SelectFailed
               | Some asset \<Rightarrow> SelectReady
                   \<lparr>pr_catalog = c, pr_assets = assets, pr_active_asset = asset\<rparr>))"

section \<open>Summaries\<close>

definition summary_ok :: "pet_summary \<Rightarrow> bool" where
  "summary_ok s \<longleftrightarrow> pet_id_parse (pet_id_str (psu_id s)) = Some (psu_id s)
     \<and> psu_display_name s \<noteq> [] \<and> byte_len (psu_display_name s) \<le> 128
     \<and> \<not> has_control (psu_display_name s)"

definition summaries_ok :: "pet_summary list \<Rightarrow> bool" where
  "summaries_ok ss \<longleftrightarrow> (\<forall>s \<in> set ss. summary_ok s) \<and> distinct (map psu_id ss)"

lemma summary_of_ok: "definition_ok d \<Longrightarrow> summary_ok (summary_of d)"
  by (simp add: definition_ok_def summary_ok_def summary_of_def)

lemma replace_summary_ids: "psu_id ` set (replace_summary s ss) = insert (psu_id s) (psu_id ` set ss)"
  by (induction ss) auto

lemma replace_summary_subset: "set (replace_summary s ss) \<subseteq> insert s (set ss)"
  by (induction ss) auto

lemma replace_summary_in: "s \<in> set (replace_summary s ss)"
  by (induction ss) auto

lemma replace_summary_ok:
  assumes "summaries_ok ss" "summary_ok s"
  shows "summaries_ok (replace_summary s ss)"
proof -
  have "distinct (map psu_id ss) \<Longrightarrow> distinct (map psu_id (replace_summary s ss))"
  proof (induction ss)
    case (Cons x xs)
    then show ?case using replace_summary_ids [of s xs] by auto
  qed simp
  then show ?thesis
    using assms replace_summary_subset [of s ss] by (auto simp: summaries_ok_def)
qed

lemma sort_summaries_ok: "summaries_ok (sort_key f ss) \<longleftrightarrow> summaries_ok ss"
proof -
  have "distinct (map psu_id (sort_key f ss)) \<longleftrightarrow> distinct (map psu_id ss)"
    by (simp add: distinct_map)
  then show ?thesis by (simp add: summaries_ok_def)
qed

lemma with_metadata_ok:
  "summaries_ok ss \<Longrightarrow> summary_ok s \<Longrightarrow> summaries_ok (summaries_with_active_metadata ss s)"
  by (simp add: summaries_with_active_metadata_def sort_summaries_ok replace_summary_ok)

lemma with_metadata_in: "s \<in> set (summaries_with_active_metadata ss s)"
  by (simp add: summaries_with_active_metadata_def replace_summary_in)

lemma bounded_summaries_ok:
  assumes "summaries_ok ss" "summary_ok s"
  shows "summaries_ok (bounded_appearance_summaries ss s)"
    and "length (bounded_appearance_summaries ss s) \<le> max_appearance_pets"
    and "psu_id s \<in> psu_id ` set (bounded_appearance_summaries ss s)"
proof -
  let ?a = "summaries_with_active_metadata ss s"
  let ?k = "take max_appearance_pets ?a"
  have a: "summaries_ok ?a" by (rule with_metadata_ok [OF assms])
  have k: "summaries_ok ?k"
    using a set_take_subset [of max_appearance_pets ?a] by (auto simp: summaries_ok_def take_map [symmetric])
  show "summaries_ok (bounded_appearance_summaries ss s)"
  proof (cases "length ?a \<le> max_appearance_pets \<or> list_ex (\<lambda>p. psu_id p = psu_id s) ?k")
    case True
    with a k show ?thesis by (auto simp: bounded_appearance_summaries_def Let_def)
  next
    case False
    then have fresh: "psu_id s \<notin> psu_id ` set ?k" by (auto simp: list_ex_iff)
    have "set (butlast ?k) \<subseteq> set ?k" by (auto dest: in_set_butlastD)
    moreover have "distinct (map psu_id (butlast ?k))"
      using k by (simp add: summaries_ok_def map_butlast distinct_butlast)
    ultimately have "summaries_ok (butlast ?k @ [s])"
      using k fresh assms(2) by (auto simp: summaries_ok_def)
    with False show ?thesis
      by (simp add: bounded_appearance_summaries_def Let_def sort_summaries_ok)
  qed
  show "length (bounded_appearance_summaries ss s) \<le> max_appearance_pets"
    by (auto simp: bounded_appearance_summaries_def Let_def max_appearance_pets_def)
  show "psu_id s \<in> psu_id ` set (bounded_appearance_summaries ss s)"
    using with_metadata_in [of s ss]
    by (auto simp: bounded_appearance_summaries_def Let_def list_ex_iff image_iff intro: bexI sym)
qed


section \<open>Approved assets\<close>

lemma hm_insert_keys: "distinct (map fst m) \<Longrightarrow> distinct (map fst (hm_insert k v m))"
  "fst ` set (hm_insert k v m) = insert k (fst ` set m)"
  by (auto simp: hm_insert_def distinct_map inj_on_def intro: distinct_filter)

lemma hm_insert_get [simp]: "map_of (hm_insert k v m) = (map_of m)(k \<mapsto> v)"
proof
  fix x
  have "map_of (filter (\<lambda>e. fst e \<noteq> k) m) x = (if x = k then None else map_of m x)"
    by (induction m) auto
  then show "map_of (hm_insert k v m) x = ((map_of m)(k \<mapsto> v)) x" by (simp add: hm_insert_def)
qed

definition keyed_by_id :: "(pet_id \<times> available_pet) list \<Rightarrow> bool" where
  "keyed_by_id m \<longleftrightarrow> distinct (map fst m) \<and> (\<forall>(i, p) \<in> set m. i = pd_id (avp_definition p))"

lemma keyed_by_id_fold:
  assumes "keyed_by_id m"
  shows "keyed_by_id (fold (\<lambda>p. hm_insert (pd_id (avp_definition p)) p) ps m)
    \<and> fst ` set (fold (\<lambda>p. hm_insert (pd_id (avp_definition p)) p) ps m)
        = (\<lambda>p. pd_id (avp_definition p)) ` set ps \<union> fst ` set m"
  using assms
proof (induction ps arbitrary: m)
  case (Cons p ps)
  let ?m = "hm_insert (pd_id (avp_definition p)) p m"
  have "keyed_by_id ?m"
    using Cons.prems hm_insert_keys(1) [of m] by (auto simp: keyed_by_id_def hm_insert_def)
  then show ?case using Cons.IH [of ?m] hm_insert_keys(2) [of "pd_id (avp_definition p)" p m] by auto
qed simp

lemma asset_candidates_ok: "keyed_by_id (asset_candidates fb c)"
  "pd_id (avp_definition (pc_active c)) \<in> fst ` set (asset_candidates fb c)"
  "fst ` set (asset_candidates fb c)
     = (\<lambda>p. pd_id (avp_definition p)) ` set (fb # pc_packages c @ [pc_active c])"
  using keyed_by_id_fold [of "[]" "fb # pc_packages c @ [pc_active c]"]
  by (simp_all add: asset_candidates_def keyed_by_id_def)

definition assets_ok :: "asset_catalog \<Rightarrow> bool" where
  "assets_ok c \<longleftrightarrow> distinct (map fst (acat_by_pet c)) \<and> distinct (map snd (acat_by_pet c))
     \<and> (\<forall>(i, a) \<in> set (acat_by_pet c). valid_asset_id a
          \<and> (\<exists>e. catalog_asset c a = Some e \<and> aent_id e = a \<and> pd_id (avp_definition (aent_pet e)) = i))"

text \<open>The UUIDs of one catalog are valid identifiers and do not repeat.\<close>

definition fresh_for :: "pet_env \<Rightarrow> (pet_id \<Rightarrow> rstr) \<Rightarrow> pet_catalog \<Rightarrow> bool" where
  "fresh_for env fresh c \<longleftrightarrow> (\<forall>i. valid_asset_id (fresh i))
     \<and> (\<forall>fb. fallback_pet env = Some fb \<longrightarrow> inj_on fresh (fst ` set (asset_candidates fb c)))"

lemma assets_fold_get:
  assumes "inj_on fresh (fst ` set m)" "distinct (map fst m)" "(i, p) \<in> set m"
  shows "map_of (fold (\<lambda>(i, p). hm_insert (fresh i) \<lparr>aent_id = fresh i, aent_pet = p\<rparr>) m acc) (fresh i)
    = Some \<lparr>aent_id = fresh i, aent_pet = p\<rparr>"
  using assms
proof (induction m arbitrary: acc rule: rev_induct)
  case (snoc x m)
  obtain j q where x: "x = (j, q)" by (cases x)
  show ?case
  proof (cases "(i, p) \<in> set m")
    case True
    then have "i \<noteq> j" using snoc.prems(2) by (force simp: x)
    moreover have "i \<in> fst ` set (m @ [x])" "j \<in> fst ` set (m @ [x])" using True by (force simp: x)+
    ultimately have "fresh i \<noteq> fresh j" using inj_onD [OF snoc.prems(1)] by blast
    with snoc.IH [of acc] snoc.prems True show ?thesis by (simp add: x)
  next
    case False
    with snoc.prems(3) have "i = j" "p = q" by (auto simp: x)
    then show ?thesis by (simp add: x)
  qed
qed simp

lemma assets_from_catalog_ok:
  assumes "assets_from_catalog env fresh c = Some assets" "fresh_for env fresh c"
  shows "assets_ok assets" "asset_id_for_pet assets (pd_id (avp_definition (pc_active c))) \<noteq> None"
proof -
  obtain fb where fb: "fallback_pet env = Some fb"
    and as: "acat_by_pet assets = map (\<lambda>(i, p). (i, fresh i)) (asset_candidates fb c)"
      "acat_assets assets = fold (\<lambda>(i, p). hm_insert (fresh i) \<lparr>aent_id = fresh i, aent_pet = p\<rparr>)
          (asset_candidates fb c) []"
    using assms(1) by (auto simp: assets_from_catalog_def Let_def)
  have inj: "inj_on fresh (fst ` set (asset_candidates fb c))" and valid: "valid_asset_id (fresh i)" for i
    using assms(2) fb by (auto simp: fresh_for_def)
  have k: "distinct (map fst (asset_candidates fb c))"
    "\<forall>(i, p) \<in> set (asset_candidates fb c). i = pd_id (avp_definition p)"
    using asset_candidates_ok(1) [of fb c] by (auto simp: keyed_by_id_def)
  have keys: "map fst (acat_by_pet assets) = map fst (asset_candidates fb c)"
    "map snd (acat_by_pet assets) = map fresh (map fst (asset_candidates fb c))"
    by (auto simp: as(1))
  have "distinct (map snd (acat_by_pet assets))"
    unfolding keys(2) using k(1) inj by (simp only: distinct_map [of fresh] list.set_map)
  moreover have "valid_asset_id a \<and> (\<exists>e. catalog_asset assets a = Some e \<and> aent_id e = a
      \<and> pd_id (avp_definition (aent_pet e)) = i)" if "(i, a) \<in> set (acat_by_pet assets)" for i a
  proof -
    obtain p where p: "(i, p) \<in> set (asset_candidates fb c)" "a = fresh i"
      using \<open>(i, a) \<in> set (acat_by_pet assets)\<close> by (auto simp: as(1))
    have "catalog_asset assets a = Some \<lparr>aent_id = fresh i, aent_pet = p\<rparr>"
      unfolding catalog_asset_def as(2) p(2) by (rule assets_fold_get [OF inj k(1) p(1)])
    moreover have "pd_id (avp_definition p) = i" using k(2) p(1) by auto
    ultimately show ?thesis using valid p(2) by simp
  qed
  ultimately show "assets_ok assets" using k(1) by (auto simp: assets_ok_def keys(1))
  have "pd_id (avp_definition (pc_active c)) \<in> fst ` set (acat_by_pet assets)"
    using asset_candidates_ok(2) [of c fb] by (metis keys(1) list.set_map)
  then show "asset_id_for_pet assets (pd_id (avp_definition (pc_active c))) \<noteq> None"
    by (simp add: asset_id_for_pet_def map_of_eq_None_iff)
qed


section \<open>The pet side as a transition system\<close>

definition loaded_catalog :: "pet_env \<Rightarrow> pet_catalog \<Rightarrow> bool" where
  "loaded_catalog env c \<longleftrightarrow> catalog_default env = Some c
     \<or> (\<exists>root selected. load_with_selection env root selected = Some c)"

text \<open>
  The environment (files, images) may differ from step to step; that the embedded atlas is valid is
  what the packaging tests of the repository establish.
\<close>

definition pet_env_ok :: "pet_env \<Rightarrow> (pet_id \<Rightarrow> rstr) \<Rightarrow> (pet_id \<Rightarrow> rstr) \<Rightarrow> pet_catalog \<Rightarrow> bool" where
  "pet_env_ok env fresh fresh2 c \<longleftrightarrow> fallback_ok env \<and> fresh_for env fresh c \<and> (\<forall>i. valid_asset_id (fresh2 i))"

definition pet_init :: "pet_runtime \<Rightarrow> bool" where
  "pet_init rt \<longleftrightarrow> (\<exists>env fresh fresh2 c. loaded_catalog env c \<and> pet_env_ok env fresh fresh2 c
     \<and> pet_runtime_from env fresh fresh2 c = Some rt)"

inductive pet_step :: "pet_runtime \<Rightarrow> pet_runtime \<Rightarrow> bool" where
  replaced: "loaded_catalog env c \<Longrightarrow> pet_env_ok env fresh fresh2 c \<Longrightarrow>
     pet_runtime_from env fresh fresh2 c = Some rt' \<Longrightarrow> pet_step rt rt'"
| selected: "pet_env_ok env fresh fresh2 (pr_catalog rt') \<Longrightarrow>
     prepare_selection env fresh root i (pc_active (pr_catalog rt)) = SelectReady rt' \<Longrightarrow> pet_step rt rt'"
| unavailable: "fallback_ok env \<Longrightarrow>
     prepare_selection env fresh root i (pc_active (pr_catalog rt)) = SelectUnavailable c \<Longrightarrow>
     pet_step rt (rt\<lparr>pr_catalog := c\<rparr>)"

definition pet_runtime_ok :: "pet_runtime \<Rightarrow> bool" where
  "pet_runtime_ok rt \<longleftrightarrow> catalog_ok (pr_catalog rt) \<and> assets_ok (pr_assets rt)
     \<and> asset_id_for_pet (pr_assets rt) (pd_id (avp_definition (pc_active (pr_catalog rt))))
         = Some (aa_id (pr_active_asset rt))"

lemma catalog_default_ok: "catalog_default env = Some c \<Longrightarrow> fallback_ok env \<Longrightarrow> catalog_ok c"
proof -
  assume c: "catalog_default env = Some c" and ok: "fallback_ok env"
  obtain fb where fb: "fallback_pet env = Some fb" "definition_ok (avp_definition fb)"
    by (rule fallback_pet_total [OF ok])
  with c show ?thesis by (auto simp: catalog_default_def catalog_ok_def pets_ok_def)
qed

lemma load_with_selection_ok: "load_with_selection env root s = Some c \<Longrightarrow> fallback_ok env \<Longrightarrow> catalog_ok c"
  unfolding load_with_selection_def by (metis load_requested_total option.inject)

lemma loaded_catalog_ok: "loaded_catalog env c \<Longrightarrow> fallback_ok env \<Longrightarrow> catalog_ok c"
  by (auto simp: loaded_catalog_def intro: catalog_default_ok load_with_selection_ok)

lemma entry_load_id: "entry_load env e = Inr a \<Longrightarrow> aa_id a = aent_id e"
  by (auto simp: entry_load_def rbind_Inr_iff)

lemma load_active_id:
  assumes "assets_ok assets" "load_active env c assets = Some a"
  shows "asset_id_for_pet assets (pd_id (avp_definition (pc_active c))) = Some (aa_id a)"
proof -
  obtain x e where x: "asset_id_for_pet assets (pd_id (avp_definition (pc_active c))) = Some x"
    "catalog_asset assets x = Some e" "entry_load env e = Inr a"
    using assms(2) by (auto simp: load_active_def bind_eq_Some_conv)
  have "(pd_id (avp_definition (pc_active c)), x) \<in> set (acat_by_pet assets)"
    using x(1) by (auto simp: asset_id_for_pet_def dest: map_of_SomeD)
  then have "aent_id e = x" using assms(1) x(2) by (fastforce simp: assets_ok_def)
  then show ?thesis using x(1) entry_load_id [OF x(3)] by simp
qed

lemma default_fresh: "catalog_default env = Some c \<Longrightarrow> \<forall>i. valid_asset_id (fresh i) \<Longrightarrow> fresh_for env fresh c"
  by (auto simp: catalog_default_def fresh_for_def asset_candidates_ok(3))

lemma load_active_asset_ok:
  assumes "load_active_asset env fresh2 c assets = Some rt" "catalog_ok c" "assets_ok assets"
    "fallback_ok env" "\<forall>i. valid_asset_id (fresh2 i)"
  shows "pet_runtime_ok rt"
proof (cases "load_active env c assets")
  case (Some a)
  with assms load_active_id [OF assms(3) Some] show ?thesis
    by (auto simp: load_active_asset_def pet_runtime_ok_def)
next
  case None
  then obtain fb as a where f: "catalog_default env = Some fb" "assets_from_catalog env fresh2 fb = Some as"
    "load_active env fb as = Some a" "rt = \<lparr>pr_catalog = fb, pr_assets = as, pr_active_asset = a\<rparr>"
    using assms(1) by (auto simp: load_active_asset_def bind_eq_Some_conv)
  have as: "assets_ok as" by (rule assets_from_catalog_ok [OF f(2) default_fresh [OF f(1) assms(5)]])
  show ?thesis
    using f(4) as catalog_default_ok [OF f(1) assms(4)] load_active_id [OF as f(3)]
    by (simp add: pet_runtime_ok_def)
qed

lemma pet_runtime_from_ok:
  assumes "pet_runtime_from env fresh fresh2 c = Some rt" "catalog_ok c" "pet_env_ok env fresh fresh2 c"
  shows "pet_runtime_ok rt"
  using assms by (auto simp: pet_runtime_from_def bind_eq_Some_conv pet_env_ok_def
      intro: load_active_asset_ok assets_from_catalog_ok)

lemma prepare_ready_ok:
  assumes "prepare_selection env fresh root i current = SelectReady rt" "pet_env_ok env fresh f2 (pr_catalog rt)"
  shows "pet_runtime_ok rt" "pd_id (avp_definition (pc_active (pr_catalog rt))) = i"
proof -
  obtain c assets x e a where c: "load_with_selection env root (Some i) = Some c"
    "pd_id (avp_definition (pc_active c)) = i" "assets_from_catalog env fresh c = Some assets"
    "asset_id_for_pet assets i = Some x" "catalog_asset assets x = Some e" "entry_load env e = Inr a"
    "rt = \<lparr>pr_catalog = c, pr_assets = assets, pr_active_asset = a\<rparr>"
    using assms(1)
    by (auto simp: prepare_selection_def bind_eq_Some_conv split: option.splits if_splits)
  have e: "fallback_ok env" "fresh_for env fresh c" using assms(2) c(7) by (simp_all add: pet_env_ok_def)
  have as: "assets_ok assets" by (rule assets_from_catalog_ok [OF c(3) e(2)])
  have "load_active env c assets = Some a" using c by (simp add: load_active_def)
  from load_active_id [OF as this] show "pet_runtime_ok rt"
    using load_with_selection_ok [OF c(1) e(1)] as by (simp add: pet_runtime_ok_def c(7))
  show "pd_id (avp_definition (pc_active (pr_catalog rt))) = i" using c(2,7) by simp
qed

lemma with_active_ok:
  assumes "catalog_ok c" "definition_ok (avp_definition a)"
  shows "catalog_ok (with_active c a)" "pc_active (with_active c a) = a"
  using assms
  by (auto simp: catalog_ok_def with_active_def Let_def pets_ok_def list_ex_iff)

lemma prepare_unavailable_ok:
  assumes "prepare_selection env fresh root i (pc_active (pr_catalog rt)) = SelectUnavailable c"
    "pet_runtime_ok rt" "fallback_ok env"
  shows "pet_runtime_ok (rt\<lparr>pr_catalog := c\<rparr>)"
proof -
  obtain c0 where c0: "load_with_selection env root (Some i) = Some c0"
    "c = with_active c0 (pc_active (pr_catalog rt))"
    using assms(1) by (auto simp: prepare_selection_def split: option.splits if_splits)
  have "definition_ok (avp_definition (pc_active (pr_catalog rt)))"
    using assms(2) by (simp add: pet_runtime_ok_def catalog_ok_def)
  with with_active_ok [OF load_with_selection_ok [OF c0(1) assms(3)]] assms(2) show ?thesis
    by (simp add: pet_runtime_ok_def c0(2))
qed

lemma pet_step_ok: "pet_runtime_ok rt \<Longrightarrow> pet_step rt rt' \<Longrightarrow> pet_runtime_ok rt'"
proof (erule pet_step.cases, goal_cases)
  case (1 env c fresh fresh2 rt'' rt0)
  then show ?case
    using pet_runtime_from_ok loaded_catalog_ok by (auto simp: pet_env_ok_def)
qed (auto intro: prepare_ready_ok prepare_unavailable_ok)

lemma pet_init_ok: "pet_init rt \<Longrightarrow> pet_runtime_ok rt"
  by (auto simp: pet_init_def pet_env_ok_def intro!: pet_runtime_from_ok loaded_catalog_ok)

interpretation pet_side: invariant_system pet_init pet_step pet_runtime_ok
  by unfold_locales (auto intro: pet_init_ok pet_step_ok)

section \<open>The appearance view\<close>

lemma fold_replace_ok:
  assumes "summaries_ok ss" "\<forall>p \<in> set ps. definition_ok (avp_definition p)"
  shows "summaries_ok (fold (\<lambda>p. replace_summary (summary_of (avp_definition p))) ps ss)"
  using assms
  by (induction ps arbitrary: ss) (auto intro: replace_summary_ok summary_of_ok)

lemma available_summaries_ok:
  assumes "fallback_ok env" "catalog_ok c"
  obtains ss where "available_summaries env c = Some ss" "summaries_ok ss"
proof -
  obtain fb where fb: "fallback_pet env = Some fb" "definition_ok (avp_definition fb)"
    using fallback_pet_total [OF assms(1)] by blast
  have "summaries_ok [summary_of (avp_definition fb)]"
    using summary_of_ok [OF fb(2)] by (simp add: summaries_ok_def)
  then have "summaries_ok (sort_key psu_display_name
      (fold (\<lambda>p. replace_summary (summary_of (avp_definition p))) (pc_packages c) [summary_of (avp_definition fb)]))"
    using assms(2) by (simp add: sort_summaries_ok fold_replace_ok catalog_ok_def pets_ok_def)
  then show thesis using that fb(1) by (simp add: available_summaries_def)
qed

lemma view_pets_props:
  assumes "summaries_ok ss" "assets_ok as"
  defines "ps \<equiv> List.map_filter (\<lambda>p. map_option
           (\<lambda>a. \<lparr>apv_id = psu_id p, apv_display_name = psu_display_name p, apv_asset_id = a\<rparr>)
           (asset_id_for_pet as (psu_id p))) ss"
  shows "list_all well_formed_pet ps" "distinct (map apv_id ps)" "distinct (map apv_asset_id ps)"
    "length ps \<le> length ss" "\<forall>p \<in> set ps. asset_id_for_pet as (apv_id p) = Some (apv_asset_id p)"
    "\<forall>s \<in> set ss. asset_id_for_pet as (psu_id s) \<noteq> None \<longrightarrow> psu_id s \<in> set (map apv_id ps)"
proof -
  have mem: "p \<in> set ps \<longleftrightarrow> (\<exists>s \<in> set ss. asset_id_for_pet as (psu_id s) = Some (apv_asset_id p)
      \<and> apv_id p = psu_id s \<and> apv_display_name p = psu_display_name s)" for p
    unfolding ps_def by (cases p) (fastforce simp: map_filter_def image_iff)
  show as: "\<forall>p \<in> set ps. asset_id_for_pet as (apv_id p) = Some (apv_asset_id p)"
    using mem by auto
  have in_by: "(i, a) \<in> set (acat_by_pet as)" if "asset_id_for_pet as i = Some a" for i a
    using that by (auto simp: asset_id_for_pet_def dest: map_of_SomeD)
  show "list_all well_formed_pet ps"
    unfolding list_all_iff
  proof
    fix p assume p: "p \<in> set ps"
    then obtain s where s: "s \<in> set ss" "apv_id p = psu_id s" "apv_display_name p = psu_display_name s"
      using mem by blast
    have "valid_asset_id (apv_asset_id p)"
      using in_by [OF as [rule_format, OF p]] assms(2) by (auto simp: assets_ok_def)
    then show "well_formed_pet p"
      using s assms(1) by (auto simp: well_formed_pet_def summaries_ok_def summary_ok_def
          max_appearance_display_name_bytes_def)
  qed
  show len: "length ps \<le> length ss" unfolding ps_def map_filter_def by (simp add: length_filter_le)
  show ids: "distinct (map apv_id ps)"
  proof -
    have "map apv_id ps = map psu_id (filter (\<lambda>s. asset_id_for_pet as (psu_id s) \<noteq> None) ss)"
      unfolding ps_def by (induction ss) (auto simp: map_filter_simps split: option.splits)
    then show ?thesis using assms(1) by (simp add: summaries_ok_def distinct_map_filter)
  qed
  show "distinct (map apv_asset_id ps)"
  proof -
    have inj: "i = j" if "asset_id_for_pet as i = Some a" "asset_id_for_pet as j = Some a" for i j a
      using in_by [OF that(1)] in_by [OF that(2)] assms(2)
      by (metis (no_types, lifting) assets_ok_def eq_key_imp_eq_value distinct_map inj_on_def snd_conv fst_conv)
    have "inj_on apv_asset_id (set ps)"
    proof (rule inj_onI)
      fix p q assume pq: "p \<in> set ps" "q \<in> set ps" "apv_asset_id p = apv_asset_id q"
      then have "apv_id p = apv_id q" using as inj by metis
      then show "p = q" using ids pq by (auto simp: distinct_map dest: inj_onD)
    qed
    then show ?thesis using ids by (simp add: distinct_map)
  qed
  show "\<forall>s \<in> set ss. asset_id_for_pet as (psu_id s) \<noteq> None \<longrightarrow> psu_id s \<in> set (map apv_id ps)"
  proof (intro ballI impI)
    fix s assume s: "s \<in> set ss" "asset_id_for_pet as (psu_id s) \<noteq> None"
    then obtain a where "asset_id_for_pet as (psu_id s) = Some a" by auto
    then have "\<lparr>apv_id = psu_id s, apv_display_name = psu_display_name s, apv_asset_id = a\<rparr> \<in> set ps"
      using s mem by auto
    then show "psu_id s \<in> set (map apv_id ps)" by force
  qed
qed


text \<open>A concrete runtime: no packages, the embedded pet.\<close>

lemma example_runtime:
  obtains c rt where "catalog_default example_env = Some c" "fallback_ok example_env"
    "pet_runtime_from example_env (\<lambda>_. lit ''a'') (\<lambda>_. lit ''b'') c = Some rt" "pet_init rt"
    "pd_id (avp_definition (pc_active (pr_catalog rt))) = PetId default_pet_id"
proof -
  have emb: "validate_atlas_bytes example_env (pe_fallback_atlas example_env)
      = Inr \<lparr>am_format = AtlasWebP, am_width = atlas_width, am_height = atlas_height, am_encoded_bytes = 1\<rparr>"
    using example_valid by (simp add: validate_atlas_bytes_def example_env_def)
  then have ok: "fallback_ok example_env" by (simp add: fallback_ok_def)
  obtain fb where fb: "fallback_pet example_env = Some fb" "avp_source fb = EmbeddedSource"
    "pd_id (avp_definition fb) = PetId default_pet_id"
    by (rule fallback_pet_total [OF ok]) blast
  let ?c = "\<lparr>pc_active = fb, pc_packages = [], pc_requested_identifier = default_pet_id, pc_diagnostics = []\<rparr>"
  have c: "catalog_default example_env = Some ?c" using fb(1) by (simp add: catalog_default_def)
  have valid: "valid_asset_id (lit ''a'')" "valid_asset_id (lit ''b'')"
    by (simp_all add: valid_asset_id_def lit_def max_appearance_asset_id_bytes_def byte_len_def utf8_width_def
        utf8_bytes_def utf8_code_def is_identifier_byte_def is_ascii_alphanumeric_def
        is_ascii_alphabetic_def)
  let ?as = "\<lparr>acat_by_pet = [(PetId default_pet_id, lit ''a'')],
      acat_assets = [(lit ''a'', \<lparr>aent_id = lit ''a'', aent_pet = fb\<rparr>)]\<rparr>"
  have cand: "asset_candidates fb ?c = [(PetId default_pet_id, fb)]"
    by (simp add: asset_candidates_def hm_insert_def fb(3))
  have as: "assets_from_catalog example_env (\<lambda>_. lit ''a'') ?c = Some ?as"
    by (simp add: assets_from_catalog_def fb(1) cand hm_insert_def)
  have "\<exists>a. load_active example_env ?c ?as = Some a"
    by (simp add: load_active_def asset_id_for_pet_def catalog_asset_def fb entry_load_def load_asset_def emb)
  then obtain a where a: "load_active example_env ?c ?as = Some a" by blast
  let ?rt = "\<lparr>pr_catalog = ?c, pr_assets = ?as, pr_active_asset = a\<rparr>"
  have rt: "pet_runtime_from example_env (\<lambda>_. lit ''a'') (\<lambda>_. lit ''b'') ?c = Some ?rt"
    by (simp add: pet_runtime_from_def as load_active_asset_def a)
  have env: "pet_env_ok example_env (\<lambda>_. lit ''a'') (\<lambda>_. lit ''b'') ?c"
    using ok valid c by (simp add: pet_env_ok_def default_fresh)
  have "pet_init ?rt"
    unfolding pet_init_def loaded_catalog_def using c env rt by blast
  from that [OF c ok rt this] show thesis by (simp add: fb(3))
qed

text \<open>
  Whatever catalogs are loaded, replaced and selected, and whatever files change in between,
  the appearance view is produced and accepted by its own validation, the selected pet is the active
  one, and every asset it offers is an approved entry of exactly that pet.
\<close>

theorem appearance_view_valid:
  assumes "pet_init rt0" "pet_step\<^sup>*\<^sup>* rt0 rt" "fallback_ok env"
  shows "\<exists>v. appearance_view_of env rt = Some v \<and> appearance_validate v = Inr ()
    \<and> av_selected_pet_id v = Some (pd_id (avp_definition (pc_active (pr_catalog rt))))
    \<and> (\<forall>p \<in> set (av_pets v). \<exists>e. catalog_asset (pr_assets rt) (apv_asset_id p) = Some e
         \<and> pd_id (avp_definition (aent_pet e)) = apv_id p)"
proof -
  have ok: "pet_runtime_ok rt" by (rule pet_side.inv_reachable [OF assms(1,2)])
  let ?c = "pr_catalog rt" and ?as = "pr_assets rt"
  let ?sel = "summary_of (avp_definition (pc_active ?c))"
  have c: "catalog_ok ?c" and as: "assets_ok ?as" using ok by (simp_all add: pet_runtime_ok_def)
  have d: "definition_ok (avp_definition (pc_active ?c))" using c by (simp add: catalog_ok_def)
  obtain ss where ss: "available_summaries env ?c = Some ss" "summaries_ok ss"
    by (rule available_summaries_ok [OF assms(3) c])
  note b = bounded_summaries_ok [OF ss(2) summary_of_ok [OF d]]
  let ?b = "bounded_appearance_summaries ss ?sel"
  note w = view_pets_props [OF b(1) as]
  let ?v = "\<lparr>av_pets = List.map_filter (\<lambda>p. map_option
           (\<lambda>a. \<lparr>apv_id = psu_id p, apv_display_name = psu_display_name p, apv_asset_id = a\<rparr>)
           (asset_id_for_pet ?as (psu_id p))) ?b,
        av_selected_pet_id = pet_id_parse (pet_id_str (pd_id (avp_definition (pc_active ?c))))\<rparr>"
  have view: "appearance_view_of env rt = Some ?v"
    using ss(1) by (simp add: appearance_view_of_def Let_def)
  have sel: "av_selected_pet_id ?v = Some (pd_id (avp_definition (pc_active ?c)))"
    using d by (simp add: definition_ok_def)
  have "psu_id ?sel \<in> psu_id ` set ?b" by (rule b(3))
  moreover have "asset_id_for_pet ?as (psu_id ?sel) \<noteq> None"
    using ok by (simp add: pet_runtime_ok_def summary_of_def)
  ultimately have "psu_id ?sel \<in> set (map apv_id (av_pets ?v))" using w(6) by auto
  then have "well_formed_appearance ?v"
    using w(1-4) b(2) sel by (simp add: well_formed_appearance_def summary_of_def)
  then have "appearance_validate ?v = Inr ()"
    unfolding appearance_validate_def well_formed_appearance_def
    by (auto simp: rbind_Inr_iff validate_pets_Inr_iff split: option.splits)
  moreover have "\<exists>e. catalog_asset ?as (apv_asset_id p) = Some e \<and> pd_id (avp_definition (aent_pet e)) = apv_id p"
    if "p \<in> set (av_pets ?v)" for p
  proof -
    have "(apv_id p, apv_asset_id p) \<in> set (acat_by_pet ?as)"
      using w(5) that by (auto simp: asset_id_for_pet_def dest: map_of_SomeD)
    then show ?thesis using as by (auto simp: assets_ok_def)
  qed
  ultimately show ?thesis using view sel by blast
qed

theorem appearance_view_valid_witness:
  "\<exists>rt v. pet_runtime_from example_env (\<lambda>_. lit ''a'') (\<lambda>_. lit ''b'')
       (the (catalog_default example_env)) = Some rt
     \<and> appearance_view_of example_env rt = Some v \<and> appearance_validate v = Inr ()
     \<and> av_selected_pet_id v = Some (PetId (lit ''lili''))"
proof -
  obtain c rt where rt: "catalog_default example_env = Some c" "fallback_ok example_env"
    "pet_runtime_from example_env (\<lambda>_. lit ''a'') (\<lambda>_. lit ''b'') c = Some rt" "pet_init rt"
    "pd_id (avp_definition (pc_active (pr_catalog rt))) = PetId default_pet_id"
    by (rule example_runtime)
  from appearance_view_valid [OF rt(4) rtranclp.rtrancl_refl rt(2)] rt(1,3,5) show ?thesis
    by (fastforce simp: default_pet_id_def)
qed

end
