(* ===== verification/Codex.thy ===== *)
theory Codex
  imports Normalization Forwarding
begin

text \<open>
  \<^verbatim>\<open>lili-session/src/codex.rs\<close>: the adapter that turns the hook and notify payloads of Codex into
  provider input, marks the events of the plugin, and keeps the diagnostics of what was delivered.
  \<^verbatim>\<open>serde_json\<close> is the record \<open>codex_json\<close> of decoders, SHA-256 an argument.
\<close>

section \<open>Constants and enumerations\<close>

definition notify_event_type :: rstr where
  "notify_event_type = lit ''agent-turn-complete''"

definition max_authenticated_plugin_events :: nat where
  "max_authenticated_plugin_events = 16"

definition session_start_hook :: rstr where
  "session_start_hook = lit ''SessionStart''"

definition user_prompt_submit_hook :: rstr where
  "user_prompt_submit_hook = lit ''UserPromptSubmit''"

definition permission_request_hook :: rstr where
  "permission_request_hook = lit ''PermissionRequest''"

definition stop_hook :: rstr where
  "stop_hook = lit ''Stop''"

definition session_end_hook :: rstr where
  "session_end_hook = lit ''SessionEnd''"

lemmas hook_names = session_start_hook_def user_prompt_submit_hook_def permission_request_hook_def
  stop_hook_def session_end_hook_def

definition plugin_source_prefix :: rstr where
  "plugin_source_prefix = lit ''plugin:''"

definition tested_codex_version :: rstr where
  "tested_codex_version = lit ''0.147.0''"

text \<open>\<^verbatim>\<open>CARGO_PKG_VERSION\<close> of the workspace.\<close>

definition desktop_version :: rstr where
  "desktop_version = lit ''0.1.0''"

datatype codex_surface =
    SurfNotify | SurfSessionStart | SurfUserPromptSubmit | SurfPermissionRequest | SurfStop
  | SurfSessionEnd

fun surface_rank :: "codex_surface \<Rightarrow> nat" where
  "surface_rank SurfNotify = 0"
| "surface_rank SurfSessionStart = 1"
| "surface_rank SurfUserPromptSubmit = 2"
| "surface_rank SurfPermissionRequest = 3"
| "surface_rank SurfStop = 4"
| "surface_rank SurfSessionEnd = 5"

lemma surface_rank_inject: "surface_rank a = surface_rank b \<longleftrightarrow> a = b"
  by (cases a; cases b) simp_all

text \<open>The derived order of the surfaces is the declaration order.\<close>

instantiation codex_surface :: linorder
begin

definition less_eq_codex_surface :: "codex_surface \<Rightarrow> codex_surface \<Rightarrow> bool" where
  "less_eq_codex_surface a b \<longleftrightarrow> surface_rank a \<le> surface_rank b"

definition less_codex_surface :: "codex_surface \<Rightarrow> codex_surface \<Rightarrow> bool" where
  "less_codex_surface a b \<longleftrightarrow> surface_rank a < surface_rank b"

instance
  by standard (auto simp: less_eq_codex_surface_def less_codex_surface_def surface_rank_inject)

end

datatype missing_coverage =
    MissSessionStart | MissActive | MissAttention | MissCompletion | MissSessionEnd | MissFailure
  | MissAttentionResolution

datatype plugin_support = CodexSupported | CodexUnreviewed | CodexUnknown

datatype plugin_availability =
  AvailInstalled | AvailAvailable | AvailNotAvailable | AvailUnknown

datatype hook_source = SourceNone | SourceLegacy | SourcePlugin | SourceOverlap | SourceUnknown

datatype plugin_trust = TrustNotApplicable | TrustUnknown | TrustedAtLastDelivery

datatype ipc_compatibility = IpcSupported | IpcUnsupported | IpcPackageMismatch | IpcUnknown

record last_accepted =
  la_event_id :: rstr
  la_event_type :: session_event_kind
  la_occurred_at_ms :: nat
  la_surface :: codex_surface
  la_plugin_id :: "rstr option"
  la_codex_home :: "rstr option"
  la_plugin_version :: "rstr option"

record plugin_diagnostics =
  pl_codex_support :: plugin_support
  pl_availability :: plugin_availability
  pl_plugin_id :: "rstr option"
  pl_installed :: "bool option"
  pl_enabled :: "bool option"
  pl_hook_source :: hook_source
  pl_trust_state :: plugin_trust
  pl_plugin_version :: "rstr option"
  pl_desktop_version :: rstr
  pl_ipc :: ipc_compatibility
  pl_last_event :: "last_accepted option"
  pl_remediation :: "rstr list"

record adapter_diagnostics =
  ad_tested_version :: rstr
  ad_codex_version :: "rstr option"
  ad_surfaces :: "codex_surface list"
  ad_missing :: "missing_coverage list"
  ad_last_event :: "last_accepted option"
  ad_plugin_events :: "last_accepted list"
  ad_plugin :: plugin_diagnostics
  ad_remediation :: "rstr list"

section \<open>Strings of sources and versions\<close>

definition str_strip_prefix :: "rstr \<Rightarrow> rstr \<Rightarrow> rstr option" where
  "str_strip_prefix p s = (if starts_with s p then Some (drop (length p) s) else None)"

fun split_once :: "uchar \<Rightarrow> rstr \<Rightarrow> (rstr \<times> rstr) option" where
  "split_once c [] = None"
| "split_once c (x # xs) =
     (if x = c then Some ([], xs) else map_option (\<lambda>(a, b). (x # a, b)) (split_once c xs))"

text \<open>\<^verbatim>\<open>u64::from_str\<close> accepts one leading plus sign.\<close>

definition parse_u64 :: "rstr \<Rightarrow> nat option" where
  "parse_u64 s = (let digits = (if s \<noteq> [] \<and> hd s = 43 then tl s else s);
       value = foldl (\<lambda>a d. 10 * a + (d - 48)) 0 digits in
     if digits \<noteq> [] \<and> (\<forall>d \<in> set digits. 48 \<le> d \<and> d \<le> 57) \<and> value \<le> u64_max
     then Some value else None)"

definition parse_release_component :: "rstr \<Rightarrow> nat option" where
  "parse_release_component v =
     (if v = [] \<or> (1 < byte_len v \<and> starts_with v [48]) then None else parse_u64 v)"

definition release_version :: "rstr \<Rightarrow> bool" where
  "release_version v = (case split_on (\<lambda>c. c = 46) v of
     [a, b, c] \<Rightarrow> parse_release_component a \<noteq> None \<and> parse_release_component b \<noteq> None
       \<and> parse_release_component c \<noteq> None
   | _ \<Rightarrow> False)"

definition supported_release_version :: "rstr \<Rightarrow> bool" where
  "supported_release_version v \<longleftrightarrow> release_version v \<and> starts_with v (lit ''0.1.'')"

definition bounded_version :: "rstr option \<Rightarrow> rstr option" where
  "bounded_version v = Option.bind v (\<lambda>v. let v = trim v in
     if v = [] \<or> 64 < byte_len v \<or> has_control v then None else Some v)"

definition is_plugin_id_byte :: "byte \<Rightarrow> bool" where
  "is_plugin_id_byte b \<longleftrightarrow> is_ascii_alphanumeric b \<or> unat b \<in> {45, 95, 46, 64}"

definition bounded_plugin_id :: "rstr \<Rightarrow> rstr option" where
  "bounded_plugin_id i =
     (if i = [] \<or> 128 < byte_len i \<or> list_ex (\<lambda>b. \<not> is_plugin_id_byte b) (utf8_bytes i)
         \<or> length (filter (\<lambda>c. c = 64) i) \<noteq> 1
      then None else Some i)"

definition valid_codex_home_identity :: "rstr \<Rightarrow> bool" where
  "valid_codex_home_identity i \<longleftrightarrow> byte_len i = 43 \<and> starts_with i (lit ''codex-home-'')
     \<and> list_all is_ascii_hexdigit (utf8_bytes (drop 11 i))"

text \<open>A path is whether it is absolute and its UTF-8 text, if it has one.\<close>

definition codex_home_identity :: "(byte list \<Rightarrow> byte list) \<Rightarrow> bool \<Rightarrow> rstr option \<Rightarrow> rstr option" where
  "codex_home_identity sha absolute to_str = Option.bind to_str (\<lambda>v.
     if absolute \<and> v \<noteq> [] \<and> byte_len v \<le> 4 * 1024 \<and> \<not> has_control v
     then Some (lit ''codex-home-'' @ hex_of_bytes (take 16 (sha (utf8_bytes v)))) else None)"

definition plugin_source_parts :: "rstr \<Rightarrow> (rstr \<times> rstr \<times> rstr option \<times> rstr) option" where
  "plugin_source_parts source =
     Option.bind (str_strip_prefix plugin_source_prefix source) (\<lambda>remainder.
     Option.bind (split_once 58 remainder) (\<lambda>(plugin_id, remainder).
     Option.bind (split_once 58 remainder) (\<lambda>(version, nested).
       let (home, nested) =
         (case Option.bind (str_strip_prefix (lit ''home:'') nested) (split_once 58) of
            None \<Rightarrow> (None, nested)
          | Some (identity, nested) \<Rightarrow> (Some identity, nested)) in
       if bounded_plugin_id plugin_id = None \<or> \<not> release_version version
          \<or> (case home of None \<Rightarrow> False | Some i \<Rightarrow> \<not> valid_codex_home_identity i)
          \<or> \<not> starts_with nested (lit ''hook:'')
       then None else Some (plugin_id, version, home, nested))))"

definition plugin_version_from_source :: "rstr \<Rightarrow> rstr option" where
  "plugin_version_from_source s = map_option (\<lambda>(_, version, _, _). version) (plugin_source_parts s)"

definition plugin_identity_from_source :: "rstr \<Rightarrow> (rstr \<times> rstr) option" where
  "plugin_identity_from_source s = map_option (\<lambda>(i, version, _, _). (i, version)) (plugin_source_parts s)"

definition plugin_home_identity_from_source :: "rstr \<Rightarrow> rstr option" where
  "plugin_home_identity_from_source s =
     Option.bind (plugin_source_parts s) (\<lambda>(_, _, home, _). home)"

definition surface_from_source :: "rstr \<Rightarrow> codex_surface option" where
  "surface_from_source source =
     (if source = lit ''notify'' \<or> starts_with source (lit ''notify:'') then Some SurfNotify
      else let source = (case plugin_source_parts source of
                Some (_, _, _, nested) \<Rightarrow> nested | None \<Rightarrow> source);
             parts = split_on (\<lambda>c. c = 58) source in
        if length parts \<le> 1 then None
        else let name = parts ! 1 in
          if name = session_start_hook then Some SurfSessionStart
          else if name = user_prompt_submit_hook then Some SurfUserPromptSubmit
          else if name = permission_request_hook then Some SurfPermissionRequest
          else if name = stop_hook then Some SurfStop
          else if name = session_end_hook then Some SurfSessionEnd
          else None)"

section \<open>Guidance\<close>

definition missing_coverage_of :: "codex_surface list \<Rightarrow> missing_coverage list" where
  "missing_coverage_of surfaces = (let has = (\<lambda>s. s \<in> set surfaces) in
     (if \<not> has SurfSessionStart then [MissSessionStart] else [])
     @ (if \<not> has SurfUserPromptSubmit then [MissActive] else [])
     @ (if \<not> has SurfPermissionRequest then [MissAttention] else [])
     @ (if \<not> has SurfNotify \<and> \<not> has SurfStop then [MissCompletion] else [])
     @ (if \<not> has SurfSessionEnd then [MissSessionEnd] else [])
     @ [MissFailure, MissAttentionResolution])"

definition remediation :: "rstr option \<Rightarrow> missing_coverage list \<Rightarrow> rstr list" where
  "remediation version missing =
     (if version = None
      then [lit ''Run lili integrate inspect before changing Codex configuration.'']
      else if version \<noteq> Some tested_codex_version
      then [lit ''Review version-keyed fixture compatibility before enabling changes.''] else [])
     @ (if \<exists>c \<in> set missing. c \<notin> {MissFailure, MissAttentionResolution}
        then [lit ''Preview integration changes and enable only documented hook surfaces.''] else [])
     @ (if MissFailure \<in> set missing \<or> MissAttentionResolution \<in> set missing
        then [lit ''Do not infer unsupported lifecycle distinctions from unrelated hooks.''] else [])"

definition plugin_remediation :: "plugin_support \<Rightarrow> plugin_availability \<Rightarrow> bool \<Rightarrow> bool
    \<Rightarrow> ipc_compatibility \<Rightarrow> rstr list" where
  "plugin_remediation support availability installed enabled compatibility =
     (if support \<noteq> CodexSupported
      then [lit ''Keep the current integration until this Codex version is reviewed.''] else [])
     @ (if availability = AvailAvailable \<and> \<not> installed
        then [lit ''Install the Lili plugin with the supported Codex plugin command.'']
        else if availability = AvailNotAvailable
        then [lit ''Keep the current integration because the Lili plugin is not available.'']
        else if installed \<and> \<not> enabled
        then [lit ''Enable the installed Lili plugin, then review its hook trust prompt.'']
        else if installed \<and> enabled
        then [lit (''Review the exact hook definitions and wait for a real plugin event before legacy ''
                @ ''cleanup.'')]
        else [])
     @ (if compatibility = IpcUnsupported
        then [lit ''Use matching supported Lili plugin and desktop versions before migration.'']
        else if compatibility = IpcPackageMismatch
        then [lit ''Disable the plugin and reinstall the matching unmodified package.''] else [])"

section \<open>Plugin diagnostics\<close>

definition codex_support_of :: "rstr option \<Rightarrow> plugin_support" where
  "codex_support_of version = (case bounded_version version of
     Some v \<Rightarrow> if v = tested_codex_version then CodexSupported else CodexUnreviewed
   | None \<Rightarrow> CodexUnknown)"

definition plugin_unavailable :: "rstr option \<Rightarrow> bool \<Rightarrow> plugin_diagnostics" where
  "plugin_unavailable version legacy = \<lparr>
     pl_codex_support = codex_support_of version, pl_availability = AvailUnknown,
     pl_plugin_id = None, pl_installed = None, pl_enabled = None,
     pl_hook_source = (if legacy then SourceLegacy else SourceUnknown),
     pl_trust_state = TrustUnknown, pl_plugin_version = None, pl_desktop_version = desktop_version,
     pl_ipc = IpcUnknown, pl_last_event = None,
     pl_remediation = [lit (''Run `codex plugin list --available --json` before changing the current ''
        @ ''integration.'')]\<rparr>"

definition plugin_discovered :: "rstr option \<Rightarrow> plugin_availability \<Rightarrow> bool \<Rightarrow> bool \<Rightarrow> rstr option \<Rightarrow> bool
    \<Rightarrow> plugin_diagnostics" where
  "plugin_discovered version availability installed enabled plugin_version legacy =
     (let plugin_version = bounded_version plugin_version;
          support = codex_support_of version;
          active = (installed \<and> enabled);
          source = (case (legacy, active) of
              (True, True) \<Rightarrow> SourceOverlap | (True, False) \<Rightarrow> SourceLegacy
            | (False, True) \<Rightarrow> SourcePlugin | (False, False) \<Rightarrow> SourceNone);
          ipc = (if installed then (case plugin_version of
              Some v \<Rightarrow> if supported_release_version v then IpcSupported else IpcUnsupported
            | None \<Rightarrow> IpcUnknown) else IpcUnknown) in
      \<lparr>pl_codex_support = support, pl_availability = availability, pl_plugin_id = None,
       pl_installed = Some installed, pl_enabled = Some enabled, pl_hook_source = source,
       pl_trust_state = (if installed \<and> enabled then TrustUnknown else TrustNotApplicable),
       pl_plugin_version = plugin_version, pl_desktop_version = desktop_version, pl_ipc = ipc,
       pl_last_event = None,
       pl_remediation = plugin_remediation support availability installed enabled ipc\<rparr>)"

definition with_plugin_id :: "plugin_diagnostics \<Rightarrow> rstr option \<Rightarrow> plugin_diagnostics" where
  "with_plugin_id p i = p\<lparr>pl_plugin_id := Option.bind i bounded_plugin_id\<rparr>"

definition record_plugin_event :: "last_accepted \<Rightarrow> plugin_diagnostics \<Rightarrow> plugin_diagnostics" where
  "record_plugin_event e p =
     (if pl_plugin_id p \<noteq> la_plugin_id e then p
      else let
        p = (case (pl_plugin_version p, la_plugin_version e) of
            (Some installed, Some observed) \<Rightarrow>
              if installed \<noteq> observed then p\<lparr>pl_ipc := IpcPackageMismatch\<rparr>
              else if supported_release_version observed then p\<lparr>pl_ipc := IpcSupported\<rparr> else p
          | (None, Some observed) \<Rightarrow>
              if supported_release_version observed then p\<lparr>pl_ipc := IpcSupported\<rparr> else p
          | (_, None) \<Rightarrow> p) in
        p\<lparr>pl_hook_source := (if pl_hook_source p \<in> {SourceLegacy, SourceOverlap} then SourceOverlap
             else SourcePlugin),
          pl_trust_state := TrustedAtLastDelivery, pl_last_event := Some e\<rparr>)"

section \<open>Adapter diagnostics\<close>

definition with_discovery :: "rstr option \<Rightarrow> codex_surface list \<Rightarrow> adapter_diagnostics" where
  "with_discovery version surfaces =
     (let discovered = remdups_adj (sort surfaces);
          version = bounded_version version;
          missing = missing_coverage_of discovered in
      \<lparr>ad_tested_version = tested_codex_version, ad_codex_version = version,
       ad_surfaces = discovered, ad_missing = missing, ad_last_event = None, ad_plugin_events = [],
       ad_plugin = plugin_unavailable version False, ad_remediation = remediation version missing\<rparr>)"

definition adapter_default :: adapter_diagnostics where
  "adapter_default = with_discovery None []"

definition with_plugin :: "adapter_diagnostics \<Rightarrow> plugin_diagnostics \<Rightarrow> adapter_diagnostics" where
  "with_plugin d p = d\<lparr>ad_plugin := p\<rparr>"

text \<open>\<^verbatim>\<open>binary_search\<close> and \<^verbatim>\<open>insert\<close> at the returned index of a sorted vector.\<close>

definition insert_surface :: "codex_surface \<Rightarrow> codex_surface list \<Rightarrow> codex_surface list" where
  "insert_surface s ss = (if s \<in> set ss then ss else insort s ss)"

definition remember_plugin_event :: "last_accepted \<Rightarrow> adapter_diagnostics \<Rightarrow> adapter_diagnostics" where
  "remember_plugin_event e d = (case la_plugin_id e of
     None \<Rightarrow> d
   | Some i \<Rightarrow> let
       others = (case List.extract (\<lambda>x. la_plugin_id x = Some i) (ad_plugin_events d) of
           None \<Rightarrow> ad_plugin_events d | Some (before, _, after) \<Rightarrow> before @ after);
       events = others @ [e] in
     d\<lparr>ad_plugin_events := (if max_authenticated_plugin_events < length events then tl events
        else events)\<rparr>)"

definition record_accepted_inner :: "session_event \<Rightarrow> bool \<Rightarrow> adapter_diagnostics \<Rightarrow> adapter_diagnostics" where
  "record_accepted_inner ev trust d =
     (if ident_str (ev_provider ev) \<noteq> lit ''codex'' then d
      else case surface_from_source (ev_source_discriminator ev) of
        None \<Rightarrow> d
      | Some surface \<Rightarrow>
        let surfaces = insert_surface surface (ad_surfaces d);
            missing = missing_coverage_of surfaces;
            d = d\<lparr>ad_surfaces := surfaces, ad_missing := missing,
                  ad_remediation := remediation (ad_codex_version d) missing\<rparr>;
            src = ev_source_discriminator ev;
            e = \<lparr>la_event_id = ident_str (ev_event_id ev), la_event_type = ev_type ev,
                 la_occurred_at_ms = ev_occurred_at_ms ev, la_surface = surface,
                 la_plugin_id = (if trust then map_option fst (plugin_identity_from_source src) else None),
                 la_codex_home = (if trust then plugin_home_identity_from_source src else None),
                 la_plugin_version = (if trust then plugin_version_from_source src else None)\<rparr>;
            d = (if la_plugin_version e \<noteq> None
                 then (let d = remember_plugin_event e d in
                       d\<lparr>ad_plugin := record_plugin_event e (ad_plugin d)\<rparr>)
                 else d) in
        d\<lparr>ad_last_event := Some e\<rparr>)"

definition record_accepted_event :: "session_event \<Rightarrow> adapter_diagnostics \<Rightarrow> adapter_diagnostics" where
  "record_accepted_event ev d = record_accepted_inner ev True d"

definition record_accepted_spooled_event :: "session_event \<Rightarrow> adapter_diagnostics \<Rightarrow> adapter_diagnostics" where
  "record_accepted_spooled_event ev d = record_accepted_inner ev False d"

definition refresh_discovery :: "adapter_diagnostics \<Rightarrow> adapter_diagnostics \<Rightarrow> adapter_diagnostics" where
  "refresh_discovery discovered self =
     (let surfaces = fold insert_surface (ad_surfaces self) (ad_surfaces discovered);
          missing = missing_coverage_of surfaces;
          d = discovered\<lparr>ad_surfaces := surfaces, ad_missing := missing,
                ad_remediation := remediation (ad_codex_version discovered) missing,
                ad_last_event := ad_last_event self, ad_plugin_events := ad_plugin_events self\<rparr>;
          d = (case pl_last_event (ad_plugin self) of None \<Rightarrow> d | Some e \<Rightarrow> remember_plugin_event e d) in
      case find (\<lambda>e. la_plugin_id e = pl_plugin_id (ad_plugin d)
                   \<and> la_plugin_version e = pl_plugin_version (ad_plugin d)) (rev (ad_plugin_events d)) of
        Some e \<Rightarrow>
          if pl_installed (ad_plugin d) = Some True \<and> pl_enabled (ad_plugin d) = Some True
             \<and> la_plugin_id e \<noteq> None \<and> la_plugin_version e \<noteq> None
          then d\<lparr>ad_plugin := record_plugin_event e (ad_plugin d)\<rparr> else d
      | None \<Rightarrow> d)"

section \<open>Hook payloads\<close>

record notify_input =
  ni_event_type :: "rstr option"
  ni_thread_id :: "rstr option"
  ni_turn_id :: "rstr option"
  ni_cwd :: "rstr option"
  ni_client :: "rstr option"
  ni_last_assistant_message :: "rstr option"

record 'j lifecycle_input =
  li_session_id :: "rstr option"
  li_turn_id :: "rstr option"
  li_cwd :: "rstr option"
  li_hook_event_name :: "rstr option"
  li_source :: "rstr option"
  li_last_assistant_message :: "rstr option"
  li_tool_name :: "rstr option"
  li_tool_input :: "'j option"
  li_tool_use_id :: "rstr option"

record 'j codex_json =
  cj_value :: "byte list \<Rightarrow> 'j option"
  cj_get :: "'j \<Rightarrow> rstr \<Rightarrow> 'j option"
  cj_as_str :: "'j \<Rightarrow> rstr option"
  cj_to_vec :: "'j \<Rightarrow> byte list option"
  cj_notify :: "byte list \<Rightarrow> notify_input option"
  cj_lifecycle :: "byte list \<Rightarrow> 'j lifecycle_input option"
  cj_provider_input :: "byte list \<Rightarrow> provider_input option"

definition notify_event_id :: "(byte list \<Rightarrow> byte list) \<Rightarrow> rstr option \<Rightarrow> rstr option \<Rightarrow> rstr option" where
  "notify_event_id sha thread turn = (case (thread, turn) of
     (Some thread, Some turn) \<Rightarrow> Some (lit ''codex-notify-'' @ hex_of_bytes
        (sha (delimited (map utf8_bytes [notify_event_type, thread, turn]))))
   | _ \<Rightarrow> None)"

definition notify_source :: "rstr option \<Rightarrow> normalization_error + rstr" where
  "notify_source client = (case client of
     None \<Rightarrow> Inr (lit ''notify'')
   | Some c \<Rightarrow> let c = trim c; prefix = lit ''notify:'' in
       if c = [] then Inr (lit ''notify'')
       else if has_control c then Inl (InvalidField (lit ''client identity''))
       else Inr (prefix @ take (max_source_discriminator_chars - length prefix) c))"

definition lifecycle_source :: "rstr \<Rightarrow> rstr option \<Rightarrow> normalization_error + rstr" where
  "lifecycle_source hook start = (let source = lit ''hook:'' @ hook in
     case start of
       Some s \<Rightarrow> if hook = session_start_hook then
           (let s = trim s; source = source @ [58] in
            if s = [] \<or> has_control s then Inl (InvalidField (lit ''session start source''))
            else Inr (source @ take (max_source_discriminator_chars - length source) s))
         else Inr source
     | None \<Rightarrow> Inr source)"

definition lifecycle_capabilities :: provider_capabilities_input where
  "lifecycle_capabilities = \<lparr>cap_reports_active = True, cap_reports_attention = True,
     cap_reports_completion = True, cap_reports_failure = False, cap_reports_resolution = False,
     cap_reports_session_end = True\<rparr>"

definition identity_field :: "byte list \<Rightarrow> byte list" where
  "identity_field f = be_bytes 8 (length f) @ f"

definition optional_identity_field :: "rstr option \<Rightarrow> byte list" where
  "optional_identity_field f = (case f of
     Some f \<Rightarrow> 1 # identity_field (utf8_bytes f) | None \<Rightarrow> [0])"

text \<open>The bytes \<^verbatim>\<open>lifecycle_event_id\<close> feeds to the digest, and the identity itself.\<close>

definition lifecycle_preimage :: "('j \<Rightarrow> byte list option) \<Rightarrow> 'j lifecycle_input \<Rightarrow> rstr \<Rightarrow> byte list option" where
  "lifecycle_preimage to_vec i hook =
     Option.bind (li_session_id i) (\<lambda>session.
       let start = (if hook = permission_request_hook \<and> li_tool_use_id i = None
             then utf8_bytes (lit ''codex-native-permission-v1'') @ [0] else [])
           @ identity_field (utf8_bytes hook) @ identity_field (utf8_bytes session) in
       if hook = user_prompt_submit_hook \<or> hook = stop_hook then
         map_option (\<lambda>turn. start @ identity_field (utf8_bytes turn)) (li_turn_id i)
       else if hook = permission_request_hook then
         Option.bind (li_turn_id i) (\<lambda>turn.
         Option.bind (li_tool_input i) (\<lambda>tool.
         map_option (\<lambda>vec. start @ identity_field (utf8_bytes turn)
             @ (case li_tool_use_id i of Some u \<Rightarrow> identity_field (utf8_bytes u) | None \<Rightarrow> [])
             @ optional_identity_field (li_tool_name i) @ identity_field vec) (to_vec tool)))
       else if hook = session_start_hook then
         Some (start @ optional_identity_field (map_option trim (li_source i)))
       else if hook = session_end_hook then Some start
       else None)"

definition lifecycle_event_id :: "(byte list \<Rightarrow> byte list) \<Rightarrow> ('j \<Rightarrow> byte list option)
    \<Rightarrow> 'j lifecycle_input \<Rightarrow> rstr \<Rightarrow> rstr option" where
  "lifecycle_event_id sha to_vec i hook =
     map_option (\<lambda>bytes. lit ''codex-hook-'' @ hex_of_bytes (sha bytes)) (lifecycle_preimage to_vec i hook)"

text \<open>The outer option is the panic of \<open>normalize_provider_input\<close>.\<close>

definition normalize_notify_json :: "(byte list \<Rightarrow> byte list) \<Rightarrow> 'j codex_json \<Rightarrow> byte list \<Rightarrow> nat
    \<Rightarrow> (normalization_error + session_event) option" where
  "normalize_notify_json sha js payload at =
     (if max_provider_payload_bytes < length payload then Some (Inl PayloadTooLarge)
      else case cj_notify js payload of
        None \<Rightarrow> Some (Inl MalformedJson)
      | Some i \<Rightarrow> (case ni_event_type i of
          None \<Rightarrow> Some (Inl (MissingField (lit ''event type'')))
        | Some t \<Rightarrow> if t \<noteq> notify_event_type then Some (Inl UnsupportedEventType)
          else case notify_source (ni_client i) of
            Inl e \<Rightarrow> Some (Inl e)
          | Inr source \<Rightarrow> normalize_provider_input sha \<lparr>
              pi_version = session_schema_version, pi_provider = Some (lit ''codex''),
              pi_event_type = Some notify_event_type,
              pi_event_id = notify_event_id sha (ni_thread_id i) (ni_turn_id i),
              pi_session_id = ni_thread_id i, pi_turn_id = ni_turn_id i,
              pi_occurred_at_ms = Some at,
              pi_project = map_option (\<lambda>l. \<lparr>ppi_label = Some l\<rparr>) (ni_cwd i),
              pi_summary = ni_last_assistant_message i,
              pi_capabilities = no_capabilities\<lparr>cap_reports_completion := True\<rparr>,
              pi_source_discriminator = Some source\<rparr>))"

definition lifecycle_parts :: "'j lifecycle_input \<Rightarrow> rstr
    \<Rightarrow> normalization_error + rstr \<times> rstr option \<times> rstr option" where
  "lifecycle_parts i hook =
     (if hook = session_start_hook then Inr (lit ''session_started'', None, None)
      else if hook = user_prompt_submit_hook then Inr (lit ''turn_started'', li_turn_id i, None)
      else if hook = permission_request_hook then Inr (lit ''attention_required'', li_turn_id i, None)
      else if hook = stop_hook
      then Inr (lit ''turn_completed'', li_turn_id i, li_last_assistant_message i)
      else if hook = session_end_hook then Inr (lit ''session_ended'', None, None)
      else Inl UnsupportedEventType)"

definition normalize_lifecycle_json :: "(byte list \<Rightarrow> byte list) \<Rightarrow> 'j codex_json \<Rightarrow> byte list \<Rightarrow> nat
    \<Rightarrow> (normalization_error + session_event) option" where
  "normalize_lifecycle_json sha js payload at =
     (if max_provider_payload_bytes < length payload then Some (Inl PayloadTooLarge)
      else case cj_lifecycle js payload of
        None \<Rightarrow> Some (Inl MalformedJson)
      | Some i \<Rightarrow> (case li_hook_event_name i of
          None \<Rightarrow> Some (Inl (MissingField (lit ''hook event name'')))
        | Some hook \<Rightarrow>
          if hook = permission_request_hook \<and> li_tool_use_id i = None \<and> li_tool_name i = None
          then Some (Inl (MissingField (lit ''tool name'')))
          else case rbind (lifecycle_parts i hook) (\<lambda>parts.
                 rbind (lifecycle_source hook (li_source i)) (\<lambda>source. Inr (parts, source))) of
            Inl e \<Rightarrow> Some (Inl e)
          | Inr ((event_type, turn, summary), source) \<Rightarrow> normalize_provider_input sha \<lparr>
              pi_version = session_schema_version, pi_provider = Some (lit ''codex''),
              pi_event_type = Some event_type,
              pi_event_id = lifecycle_event_id sha (cj_to_vec js) i hook,
              pi_session_id = li_session_id i, pi_turn_id = turn, pi_occurred_at_ms = Some at,
              pi_project = map_option (\<lambda>l. \<lparr>ppi_label = Some l\<rparr>) (li_cwd i),
              pi_summary = summary, pi_capabilities = lifecycle_capabilities,
              pi_source_discriminator = Some source\<rparr>))"

definition normalize_hook_json :: "(byte list \<Rightarrow> byte list) \<Rightarrow> 'j codex_json \<Rightarrow> byte list \<Rightarrow> nat
    \<Rightarrow> (normalization_error + session_event) option" where
  "normalize_hook_json sha js payload at =
     (if max_provider_payload_bytes < length payload then Some (Inl PayloadTooLarge)
      else case cj_value js payload of
        None \<Rightarrow> Some (Inl MalformedJson)
      | Some v \<Rightarrow>
        if Option.bind (cj_get js v (lit ''type'')) (cj_as_str js) = Some notify_event_type
        then normalize_notify_json sha js payload at
        else if cj_get js v (lit ''hook_event_name'') \<noteq> None
        then normalize_lifecycle_json sha js payload at
        else normalize_json sha (cj_provider_input js) payload)"

text \<open>The mutated event and the returned flag.\<close>

definition mark_plugin_hook_event_with_home :: "session_event \<Rightarrow> rstr \<Rightarrow> rstr option \<Rightarrow> session_event \<times> bool" where
  "mark_plugin_hook_event_with_home ev plugin_id home =
     (if ident_str (ev_provider ev) \<noteq> lit ''codex''
         \<or> \<not> starts_with (ev_source_discriminator ev) (lit ''hook:'') then (ev, False)
      else if bounded_plugin_id plugin_id = None
         \<or> (case home of None \<Rightarrow> False | Some i \<Rightarrow> \<not> valid_codex_home_identity i) then (ev, False)
      else let source = (case home of
            None \<Rightarrow> plugin_source_prefix @ plugin_id @ [58] @ desktop_version @ [58]
              @ ev_source_discriminator ev
          | Some i \<Rightarrow> plugin_source_prefix @ plugin_id @ [58] @ desktop_version @ lit '':home:'' @ i
              @ [58] @ ev_source_discriminator ev) in
        if max_source_discriminator_chars < length source then (ev, False)
        else (ev\<lparr>ev_source_discriminator := source\<rparr>, True))"

definition mark_plugin_hook_event :: "session_event \<Rightarrow> rstr \<Rightarrow> session_event \<times> bool" where
  "mark_plugin_hook_event ev plugin_id = mark_plugin_hook_event_with_home ev plugin_id None"

end
