(* ===== verification/Codex_Properties.thy ===== *)
theory Codex_Properties
  imports Codex
begin

text \<open>
  What the Codex adapter promises: the plugin mark survives the round trip through the source
  discriminator, the identity of a hook delivery separates deliveries, and only an authenticated
  delivery makes the diagnostics trust a plugin.
\<close>

section \<open>Source discriminators\<close>

lemma starts_with_append [simp]: "starts_with (p @ s) p"
  by (simp add: starts_with_def)

lemma str_strip_prefix_append [simp]: "str_strip_prefix p (p @ s) = Some s"
  by (simp add: str_strip_prefix_def)

lemma split_once_append: "c \<notin> set a \<Longrightarrow> split_once c (a @ c # b) = Some (a, b)"
  by (induction a) auto

lemma split_once_Some: "split_once c s = Some (a, b) \<Longrightarrow> s = a @ c # b \<and> c \<notin> set a"
  by (induction s arbitrary: a) (auto split: if_splits)

lemma plugin_id_no_colon:
  assumes "bounded_plugin_id i \<noteq> None"
  shows "58 \<notin> set i"
proof
  assume "58 \<in> set i"
  then obtain pre post where "i = pre @ 58 # post" by (auto dest: split_list)
  then have "of_nat 58 \<in> set (utf8_bytes i)" by (auto simp: utf8_bytes_def utf8_code_def)
  then have "is_plugin_id_byte (of_nat 58)"
    using assms by (auto simp: bounded_plugin_id_def list_ex_iff split: if_splits)
  then show False
    by (simp add: is_plugin_id_byte_def is_ascii_alphanumeric_def is_ascii_alphabetic_def is_ascii_digit_def)
qed

lemma home_identity_no_colon:
  assumes "valid_codex_home_identity i"
  shows "58 \<notin> set i"
proof
  assume c: "58 \<in> set i"
  have i: "i = lit ''codex-home-'' @ drop 11 i"
  proof -
    have "length (lit ''codex-home-'') = 11" by (simp add: lit_def)
    then have "take 11 i = lit ''codex-home-''"
      using assms by (simp add: valid_codex_home_identity_def starts_with_def)
    then show ?thesis by (metis append_take_drop_id)
  qed
  have "58 \<notin> set (lit ''codex-home-'')" by (simp add: lit_def)
  with c i have "58 \<in> set (drop 11 i)" by (metis Un_iff set_append)
  then obtain pre post where "drop 11 i = pre @ 58 # post" by (auto dest: split_list)
  then have "of_nat 58 \<in> set (utf8_bytes (drop 11 i))" by (auto simp: utf8_bytes_def utf8_code_def)
  then have "is_ascii_hexdigit (of_nat 58)"
    using assms by (auto simp: valid_codex_home_identity_def list_all_iff)
  then show False by (simp add: is_ascii_hexdigit_def is_ascii_digit_def)
qed

lemma desktop_release: "release_version desktop_version" "58 \<notin> set desktop_version"
  "supported_release_version desktop_version"
  by (simp_all add: supported_release_version_def release_version_def desktop_version_def lit_def
      parse_release_component_def parse_u64_def byte_len_def utf8_width_def starts_with_def u64_max_def)

lemma plugin_source_parts_marked:
  assumes "bounded_plugin_id i \<noteq> None" "starts_with nested (lit ''hook:'')"
    "release_version v" "58 \<notin> set v"
  shows "plugin_source_parts (plugin_source_prefix @ i @ [58] @ v @ [58] @ nested) = Some (i, v, None, nested)"
proof -
  have "str_strip_prefix (lit ''home:'') nested = None"
    using assms(2) by (auto simp: str_strip_prefix_def starts_with_def lit_def)
  then show ?thesis
    using assms by (simp add: plugin_source_parts_def split_once_append plugin_id_no_colon)
qed

lemma plugin_source_parts_home_marked:
  assumes "bounded_plugin_id i \<noteq> None" "starts_with nested (lit ''hook:'')"
    "release_version v" "58 \<notin> set v" "valid_codex_home_identity h"
  shows "plugin_source_parts (plugin_source_prefix @ i @ [58] @ v @ lit '':home:'' @ h @ [58] @ nested)
    = Some (i, v, Some h, nested)"
proof -
  have "lit '':home:'' @ h @ [58] @ nested = 58 # lit ''home:'' @ h @ [58] @ nested"
    by (simp add: lit_def)
  then show ?thesis
    using assms
    by (simp add: plugin_source_parts_def split_once_append plugin_id_no_colon home_identity_no_colon)
qed

lemma mark_cases:
  assumes "mark_plugin_hook_event_with_home ev i home = (ev', True)"
  shows "ident_str (ev_provider ev) = lit ''codex''" "starts_with (ev_source_discriminator ev) (lit ''hook:'')"
    "bounded_plugin_id i \<noteq> None" "pred_option valid_codex_home_identity home"
    "ev' = ev\<lparr>ev_source_discriminator := ev_source_discriminator ev'\<rparr>"
    "length (ev_source_discriminator ev') \<le> max_source_discriminator_chars"
    "ev_source_discriminator ev' = (case home of
        None \<Rightarrow> plugin_source_prefix @ i @ [58] @ desktop_version @ [58] @ ev_source_discriminator ev
      | Some h \<Rightarrow> plugin_source_prefix @ i @ [58] @ desktop_version @ lit '':home:'' @ h @ [58]
          @ ev_source_discriminator ev)"
  using assms
  by (auto simp: mark_plugin_hook_event_with_home_def Let_def not_less split: if_splits option.splits)

lemma marked_parts:
  assumes "mark_plugin_hook_event_with_home ev i home = (ev', True)"
  shows "plugin_source_parts (ev_source_discriminator ev')
    = Some (i, desktop_version, home, ev_source_discriminator ev)"
proof (cases home)
  case None
  note m = mark_cases [OF assms, unfolded None option.simps]
  show ?thesis
    unfolding m(7) None using m(3,2) desktop_release(1,2) by (rule plugin_source_parts_marked)
next
  case (Some h)
  note m = mark_cases [OF assms, unfolded Some option.simps option.pred_inject]
  show ?thesis
    unfolding m(7) Some using m(3,2) desktop_release(1,2) m(4) by (rule plugin_source_parts_home_marked)
qed

lemma starts_with_hd: "starts_with s p \<Longrightarrow> p \<noteq> [] \<Longrightarrow> s \<noteq> [] \<and> hd s = hd p"
  by (cases s; cases p) (auto simp: starts_with_def)

lemma starts_with_clash:
  assumes "starts_with s p" "p \<noteq> []" "hd p \<noteq> hd q"
  shows "s \<noteq> q" and "q \<noteq> [] \<Longrightarrow> \<not> starts_with s q"
  using starts_with_hd [OF assms(1,2)] assms(3) starts_with_hd [of s q] by auto

lemma lit_heads: "lit ''hook:'' \<noteq> []" "hd (lit ''hook:'') = 104" "lit ''notify:'' \<noteq> []"
  "hd (lit ''notify:'') = 110" "hd (lit ''notify'') = 110" "plugin_source_prefix \<noteq> []"
  "hd plugin_source_prefix = 112"
  by (simp_all add: lit_def plugin_source_prefix_def)

lemma plugin_source_start: "plugin_source_parts s = Some x \<Longrightarrow> starts_with s plugin_source_prefix"
  by (auto simp: plugin_source_parts_def str_strip_prefix_def split: if_splits)

lemma hook_not_notify: "starts_with s (lit ''hook:'') \<Longrightarrow> s \<noteq> lit ''notify'' \<and> \<not> starts_with s (lit ''notify:'')"
  by (simp add: starts_with_clash lit_heads)

lemma plugin_not_notify:
  "starts_with s plugin_source_prefix \<Longrightarrow> s \<noteq> lit ''notify'' \<and> \<not> starts_with s (lit ''notify:'')"
  by (simp add: starts_with_clash lit_heads)

lemma hook_not_plugin: "starts_with s (lit ''hook:'') \<Longrightarrow> plugin_source_parts s = None"
proof -
  assume h: "starts_with s (lit ''hook:'')"
  then have "\<not> starts_with s plugin_source_prefix" by (simp add: starts_with_clash lit_heads)
  then show ?thesis using plugin_source_start [of s] by (cases "plugin_source_parts s") auto
qed

lemma bytes_no_control:
  assumes "\<forall>b \<in> set (utf8_bytes s). 32 \<le> unat b \<and> unat b < 127"
  shows "\<not> has_control s"
proof -
  have "\<not> is_control c" if c: "c \<in> set s" for c
  proof
    assume "is_control c"
    moreover from c obtain pre post where s: "s = pre @ c # post" by (auto dest: split_list)
    have "set (map of_nat (utf8_code c)) \<subseteq> set (utf8_bytes s)" by (auto simp: s utf8_bytes_def)
    with assms have b: "\<forall>b \<in> set (map (of_nat :: nat \<Rightarrow> byte) (utf8_code c)). 32 \<le> unat b \<and> unat b < 127"
      by blast
    ultimately show False
      by (auto simp: is_control_def utf8_code_def unat_of_nat split: if_splits)
  qed
  then show ?thesis by (auto simp: has_control_iff)
qed


lemma plugin_id_no_control:
  assumes "bounded_plugin_id i \<noteq> None"
  shows "\<not> has_control i"
proof (rule bytes_no_control, rule ballI)
  fix b assume "b \<in> set (utf8_bytes i)"
  then have "is_plugin_id_byte b"
    using assms by (auto simp: bounded_plugin_id_def list_ex_iff split: if_splits)
  then show "32 \<le> unat b \<and> unat b < 127"
    by (auto simp: is_plugin_id_byte_def is_ascii_alphanumeric_def is_ascii_alphabetic_def
        is_ascii_digit_def Let_def)
qed

lemma utf8_bytes_append: "utf8_bytes (s @ t) = utf8_bytes s @ utf8_bytes t"
  by (simp add: utf8_bytes_def)

lemma home_identity_no_control:
  assumes "valid_codex_home_identity i"
  shows "\<not> has_control i"
proof (rule bytes_no_control, rule ballI)
  fix b assume b: "b \<in> set (utf8_bytes i)"
  have "length (lit ''codex-home-'') = 11" by (simp add: lit_def)
  then have "i = lit ''codex-home-'' @ drop 11 i"
    using assms append_take_drop_id [of 11 i]
    by (simp add: valid_codex_home_identity_def starts_with_def)
  then have "b \<in> set (utf8_bytes (lit ''codex-home-'')) \<or> b \<in> set (utf8_bytes (drop 11 i))"
    using b by (metis Un_iff set_append utf8_bytes_append)
  then show "32 \<le> unat b \<and> unat b < 127"
  proof
    assume "b \<in> set (utf8_bytes (lit ''codex-home-''))"
    then show ?thesis by (auto simp: lit_def utf8_bytes_def utf8_code_def)
  next
    assume "b \<in> set (utf8_bytes (drop 11 i))"
    then have "is_ascii_hexdigit b"
      using assms by (auto simp: valid_codex_home_identity_def list_all_iff)
    then show ?thesis by (auto simp: is_ascii_hexdigit_def Let_def)
  qed
qed

lemma literals_no_control:
  "\<not> has_control plugin_source_prefix" "\<not> has_control desktop_version" "\<not> has_control [58]"
  "\<not> has_control (lit '':home:'')"
  by (simp_all add: has_control_def is_control_def plugin_source_prefix_def desktop_version_def lit_def)

lemma has_control_Cons: "has_control (c # s) \<longleftrightarrow> is_control c \<or> has_control s"
  by (simp add: has_control_def)

section \<open>The plugin mark\<close>

lemma parts_let:
  "(case P of (home, n) \<Rightarrow> if B home n then None else Some (i, v, home, n)) = Some (i', v', h', n')
     \<longleftrightarrow> P = (h', n') \<and> \<not> B h' n' \<and> i = i' \<and> v = v'"
  by (cases P) auto

lemma surface_marked:
  assumes "plugin_source_parts s = Some (i, v, h, nested)"
  shows "surface_from_source s = surface_from_source nested"
proof -
  have n: "starts_with nested (lit ''hook:'')"
    using assms by (auto simp: plugin_source_parts_def Let_def bind_eq_Some_conv parts_let)
  have "plugin_source_parts nested = None" by (rule hook_not_plugin [OF n])
  moreover have "s \<noteq> lit ''notify'' \<and> \<not> starts_with s (lit ''notify:'')"
    by (rule plugin_not_notify [OF plugin_source_start [OF assms]])
  ultimately show ?thesis
    using assms hook_not_notify [OF n] by (simp add: surface_from_source_def)
qed

text \<open>
  Marking a hook event for a plugin keeps the event valid and everything but its source; from
  the marked source the plugin, the desktop version, the home identity and the original source are
  read back exactly, the surface is unchanged, and no event can be marked twice.
\<close>

theorem plugin_mark_round_trip:
  assumes "mark_plugin_hook_event_with_home ev i home = (ev', True)" and "event_ok ev"
  shows "event_ok ev' \<and> ev' = ev\<lparr>ev_source_discriminator := ev_source_discriminator ev'\<rparr>
    \<and> plugin_identity_from_source (ev_source_discriminator ev') = Some (i, desktop_version)
    \<and> plugin_home_identity_from_source (ev_source_discriminator ev') = home
    \<and> plugin_source_parts (ev_source_discriminator ev')
        = Some (i, desktop_version, home, ev_source_discriminator ev)
    \<and> surface_from_source (ev_source_discriminator ev') = surface_from_source (ev_source_discriminator ev)
    \<and> (\<forall>j h. mark_plugin_hook_event_with_home ev' j h = (ev', False))"
proof -
  note m = mark_cases [OF assms(1)] and parts = marked_parts [OF assms(1)]
  let ?s = "ev_source_discriminator ev'"
  have start: "starts_with ?s plugin_source_prefix" by (rule plugin_source_start [OF parts])
  have nohook: "\<not> starts_with ?s (lit ''hook:'')"
    using hook_not_plugin [of ?s] parts by auto
  have "\<not> has_control (ev_source_discriminator ev)"
    using assms(2) by (simp add: event_ok_def source_discriminator_ok_def)
  then have "\<not> has_control ?s"
    using m(4) plugin_id_no_control [OF m(3)] unfolding m(7)
    by (cases home) (simp_all add: literals_no_control home_identity_no_control has_control_Cons
        is_control_def)
  moreover have "?s \<noteq> []" using starts_with_hd [OF start lit_heads(6)] by simp
  ultimately have "source_discriminator_ok ?s"
    using m(6) by (simp add: source_discriminator_ok_def)
  moreover have "event_ok (ev\<lparr>ev_source_discriminator := d\<rparr>) \<longleftrightarrow>
      event_ok ev \<and> source_discriminator_ok d" if "event_ok ev" for d
    using that by (auto simp: event_ok_def)
  ultimately have "event_ok ev'" using assms(2) m(5) by metis
  moreover have "mark_plugin_hook_event_with_home ev' j h = (ev', False)" for j h
    using nohook by (simp add: mark_plugin_hook_event_with_home_def)
  ultimately show ?thesis
    using m(5) parts surface_marked [OF parts]
    by (simp add: plugin_identity_from_source_def plugin_home_identity_from_source_def)
qed

definition example_hook_event :: session_event where
  "example_hook_event = \<lparr>ev_version = 1, ev_event_id = Ident [101], ev_provider = Ident (lit ''codex''),
     ev_type = TurnCompleted, ev_session_id = Ident [115], ev_turn_id = Some (Ident [116]),
     ev_occurred_at_ms = 5, ev_project = None, ev_summary = None, ev_capabilities = no_capabilities,
     ev_source_discriminator = lit ''hook:Stop''\<rparr>"

lemma example_hook_ok: "event_ok example_hook_event"
  by (simp add: example_hook_event_def event_ok_def session_schema_version_def
      source_discriminator_ok_def max_source_discriminator_chars_def lit_def has_control_def
      is_control_def)

lemma example_marked:
  "mark_plugin_hook_event_with_home example_hook_event (lit ''l@m'') None =
     (example_hook_event\<lparr>ev_source_discriminator := lit ''plugin:l@m:0.1.0:hook:Stop''\<rparr>, True)"
  by (simp add: mark_plugin_hook_event_with_home_def example_hook_event_def lit_def starts_with_def
      bounded_plugin_id_def byte_len_def utf8_width_def utf8_bytes_def utf8_code_def
      is_plugin_id_byte_def is_ascii_alphanumeric_def is_ascii_alphabetic_def is_ascii_digit_def
      plugin_source_prefix_def desktop_version_def max_source_discriminator_chars_def)

theorem plugin_mark_round_trip_witness:
  "plugin_source_parts (lit ''plugin:l@m:0.1.0:hook:Stop'')
     = Some (lit ''l@m'', desktop_version, None, lit ''hook:Stop'')"
  using plugin_mark_round_trip [OF example_marked example_hook_ok]
  by (simp add: example_hook_event_def)


section \<open>Trust in the plugin\<close>

text \<open>
  What happens to the diagnostics: authenticated deliveries, spooled deliveries and rediscovery.
  A rediscovery starts from freshly discovered diagnostics.
\<close>

datatype codex_step =
    DeliverAuthenticated session_event
  | DeliverSpooled session_event
  | Rediscover adapter_diagnostics

fun codex_step_apply :: "codex_step \<Rightarrow> adapter_diagnostics \<Rightarrow> adapter_diagnostics" where
  "codex_step_apply (DeliverAuthenticated ev) d = record_accepted_event ev d"
| "codex_step_apply (DeliverSpooled ev) d = record_accepted_spooled_event ev d"
| "codex_step_apply (Rediscover found) d = refresh_discovery found d"

definition freshly_discovered :: "adapter_diagnostics \<Rightarrow> bool" where
  "freshly_discovered d \<longleftrightarrow> (\<exists>version surfaces p i.
     d = with_plugin (with_discovery version surfaces) (with_plugin_id p i)
     \<and> ((\<exists>v legacy. p = plugin_unavailable v legacy)
        \<or> (\<exists>v a installed enabled pv legacy. p = plugin_discovered v a installed enabled pv legacy)))"

fun step_fresh :: "codex_step \<Rightarrow> bool" where
  "step_fresh (Rediscover found) = freshly_discovered found"
| "step_fresh _ = True"

text \<open>An entry of the diagnostics that stems from one of the authenticated events \<open>evs\<close>.\<close>

definition attributed :: "session_event set \<Rightarrow> last_accepted \<Rightarrow> bool" where
  "attributed evs e \<longleftrightarrow> (\<exists>ev \<in> evs. \<exists>i v h nested.
     ident_str (ev_provider ev) = lit ''codex''
     \<and> plugin_source_parts (ev_source_discriminator ev) = Some (i, v, h, nested)
     \<and> la_plugin_id e = Some i \<and> la_plugin_version e = Some v \<and> la_codex_home e = h
     \<and> la_event_id e = ident_str (ev_event_id ev) \<and> la_occurred_at_ms e = ev_occurred_at_ms ev)"

lemma attributed_mono: "attributed evs e \<Longrightarrow> evs \<subseteq> evs' \<Longrightarrow> attributed evs' e"
  by (auto simp: attributed_def)

lemma attributed_Some: "attributed evs e \<Longrightarrow> \<exists>i v. la_plugin_id e = Some i \<and> la_plugin_version e = Some v"
  by (auto simp: attributed_def)

definition surfaces_ok :: "adapter_diagnostics \<Rightarrow> bool" where
  "surfaces_ok d \<longleftrightarrow> sorted (ad_surfaces d) \<and> distinct (ad_surfaces d)
     \<and> ad_missing d = missing_coverage_of (ad_surfaces d)
     \<and> ad_remediation d = remediation (ad_codex_version d) (ad_missing d)"

definition plugin_events_ok :: "session_event set \<Rightarrow> adapter_diagnostics \<Rightarrow> bool" where
  "plugin_events_ok evs d \<longleftrightarrow> (\<forall>e \<in> set (ad_plugin_events d). attributed evs e)
     \<and> distinct (map la_plugin_id (ad_plugin_events d))
     \<and> length (ad_plugin_events d) \<le> max_authenticated_plugin_events"

definition plugin_trust_ok :: "session_event set \<Rightarrow> plugin_diagnostics \<Rightarrow> bool" where
  "plugin_trust_ok evs p \<longleftrightarrow> (pl_trust_state p = TrustedAtLastDelivery \<longrightarrow> pl_last_event p \<noteq> None)
     \<and> (\<forall>e. pl_last_event p = Some e \<longrightarrow> attributed evs e \<and> la_plugin_id e = pl_plugin_id p)"

definition codex_inv :: "session_event set \<Rightarrow> adapter_diagnostics \<Rightarrow> bool" where
  "codex_inv evs d \<longleftrightarrow> surfaces_ok d \<and> plugin_events_ok evs d \<and> plugin_trust_ok evs (ad_plugin d)"

lemma codex_inv_mono: "codex_inv evs d \<Longrightarrow> evs \<subseteq> evs' \<Longrightarrow> codex_inv evs' d"
  by (auto simp: codex_inv_def plugin_events_ok_def plugin_trust_ok_def intro: attributed_mono)

lemma insert_surface_ok:
  "sorted ss \<Longrightarrow> distinct ss \<Longrightarrow> sorted (insert_surface s ss) \<and> distinct (insert_surface s ss)
     \<and> set (insert_surface s ss) = insert s (set ss)"
  by (auto simp: insert_surface_def sorted_insort distinct_insort set_insort_key)

lemma insert_surfaces_ok:
  "sorted ss \<Longrightarrow> distinct ss \<Longrightarrow> sorted (fold insert_surface ts ss) \<and> distinct (fold insert_surface ts ss)"
  by (induction ts arbitrary: ss) (auto simp: insert_surface_ok)

lemma distinct_remdups_adj_sorted: "sorted xs \<Longrightarrow> distinct (remdups_adj xs)"
proof (induction xs rule: remdups_adj.induct)
  case (3 x y xs)
  then show ?case by (cases "x = y") auto
qed simp_all

lemma fresh_ok:
  assumes "freshly_discovered d"
  shows "surfaces_ok d" "ad_plugin_events d = []" "ad_last_event d = None"
    "pl_last_event (ad_plugin d) = None" "pl_trust_state (ad_plugin d) \<noteq> TrustedAtLastDelivery"
  using assms
  by (auto simp: freshly_discovered_def surfaces_ok_def with_plugin_def with_discovery_def Let_def
      with_plugin_id_def plugin_unavailable_def plugin_discovered_def distinct_remdups_adj_sorted
      split: if_splits)

lemma fresh_inv: "freshly_discovered d \<Longrightarrow> codex_inv {} d"
  by (simp add: codex_inv_def plugin_events_ok_def plugin_trust_ok_def fresh_ok)

lemma remember_plugin_event_fields [simp]:
  "ad_surfaces (remember_plugin_event e d) = ad_surfaces d"
  "ad_missing (remember_plugin_event e d) = ad_missing d"
  "ad_remediation (remember_plugin_event e d) = ad_remediation d"
  "ad_codex_version (remember_plugin_event e d) = ad_codex_version d"
  "ad_last_event (remember_plugin_event e d) = ad_last_event d"
  "ad_plugin (remember_plugin_event e d) = ad_plugin d"
  by (simp_all add: remember_plugin_event_def Let_def split: option.splits)

lemma remember_plugin_event_ok:
  assumes "plugin_events_ok evs d" "attributed evs e"
  shows "plugin_events_ok evs (remember_plugin_event e d)"
proof -
  obtain i where i: "la_plugin_id e = Some i" using assms(2) by (auto simp: attributed_def)
  define others where "others = (case List.extract (\<lambda>x. la_plugin_id x = Some i) (ad_plugin_events d) of
           None \<Rightarrow> ad_plugin_events d | Some (before, _, after) \<Rightarrow> before @ after)"
  have sub: "set others \<subseteq> set (ad_plugin_events d)" "distinct (map la_plugin_id others)"
    "Some i \<notin> la_plugin_id ` set others" "length others \<le> length (ad_plugin_events d)"
  proof -
    have d: "distinct (map la_plugin_id (ad_plugin_events d))"
      using assms(1) by (simp add: plugin_events_ok_def)
    have "set others \<subseteq> set (ad_plugin_events d) \<and> distinct (map la_plugin_id others)
      \<and> Some i \<notin> la_plugin_id ` set others \<and> length others \<le> length (ad_plugin_events d)"
    proof (cases "List.extract (\<lambda>x. la_plugin_id x = Some i) (ad_plugin_events d)")
      case None
      then have "\<forall>x \<in> set (ad_plugin_events d). la_plugin_id x \<noteq> Some i"
        by (simp add: extract_None_iff)
      with d show ?thesis by (auto simp: others_def None)
    next
      case (Some t)
      obtain before x after where t: "t = (before, x, after)" by (cases t)
      with Some have "ad_plugin_events d = before @ x # after \<and> la_plugin_id x = Some i"
        by (auto dest: extract_SomeE)
      moreover have "others = before @ after" by (simp add: others_def Some t)
      ultimately show ?thesis using d by auto
    qed
    then show "set others \<subseteq> set (ad_plugin_events d)" "distinct (map la_plugin_id others)"
      "Some i \<notin> la_plugin_id ` set others" "length others \<le> length (ad_plugin_events d)" by auto
  qed
  have ev: "ad_plugin_events (remember_plugin_event e d)
      = (if max_authenticated_plugin_events < length (others @ [e]) then tl (others @ [e]) else others @ [e])"
    unfolding remember_plugin_event_def i others_def Let_def by simp
  let ?es = "others @ [e]"
  have all: "\<forall>x \<in> set ?es. attributed evs x"
    using sub(1) assms by (auto simp: plugin_events_ok_def)
  have dist: "distinct (map la_plugin_id ?es)"
    using sub(2,3) i by auto
  have len: "length ?es \<le> Suc max_authenticated_plugin_events"
    using sub(4) assms(1) by (simp add: plugin_events_ok_def)
  have "set (tl ?es) \<subseteq> set ?es" by (cases others) auto
  moreover have "distinct (map la_plugin_id (tl ?es))" using dist by (cases others) auto
  ultimately show ?thesis
    unfolding plugin_events_ok_def ev using all dist len by auto
qed

lemma record_plugin_event_ok:
  assumes "attributed evs e" "plugin_trust_ok evs p"
  shows "plugin_trust_ok evs (record_plugin_event e p)"
  using assms
  by (auto simp: record_plugin_event_def plugin_trust_ok_def Let_def split: option.splits)

lemma record_accepted_inv:
  assumes "codex_inv evs d" "trust \<Longrightarrow> ev \<in> evs"
  shows "codex_inv evs (record_accepted_inner ev trust d)"
proof (cases "ident_str (ev_provider ev) = lit ''codex'' \<and> surface_from_source (ev_source_discriminator ev) \<noteq> None")
  case False
  with assms(1) show ?thesis by (auto simp: record_accepted_inner_def)
next
  case True
  then obtain surface where s: "surface_from_source (ev_source_discriminator ev) = Some surface"
    and cx: "ident_str (ev_provider ev) = lit ''codex''" by auto
  let ?src = "ev_source_discriminator ev"
  let ?e = "\<lparr>la_event_id = ident_str (ev_event_id ev), la_event_type = ev_type ev,
       la_occurred_at_ms = ev_occurred_at_ms ev, la_surface = surface,
       la_plugin_id = (if trust then map_option fst (plugin_identity_from_source ?src) else None),
       la_codex_home = (if trust then plugin_home_identity_from_source ?src else None),
       la_plugin_version = (if trust then plugin_version_from_source ?src else None)\<rparr>"
  let ?m = "missing_coverage_of (insert_surface surface (ad_surfaces d))"
  let ?d = "d\<lparr>ad_surfaces := insert_surface surface (ad_surfaces d), ad_missing := ?m,
       ad_remediation := remediation (ad_codex_version d) ?m\<rparr>"
  have base: "codex_inv evs ?d"
    using assms(1) insert_surface_ok [of "ad_surfaces d" surface]
    by (simp add: codex_inv_def surfaces_ok_def plugin_events_ok_def)
  show ?thesis
  proof (cases "la_plugin_version ?e = None")
    case True
    have "record_accepted_inner ev trust d = ?d\<lparr>ad_last_event := Some ?e\<rparr>"
      using cx s True by (simp add: record_accepted_inner_def Let_def)
    with base show ?thesis by (simp add: codex_inv_def surfaces_ok_def plugin_events_ok_def)
  next
    case False
    then have tr: "trust" and "plugin_version_from_source ?src \<noteq> None" by (auto split: if_splits)
    then obtain i v h nested where parts: "plugin_source_parts ?src = Some (i, v, h, nested)"
      by (auto simp: plugin_version_from_source_def)
    have att: "attributed evs ?e"
      unfolding attributed_def
      by (rule bexI [OF _ assms(2) [OF tr]])
         (simp add: tr cx parts plugin_identity_from_source_def plugin_home_identity_from_source_def
           plugin_version_from_source_def)
    let ?r = "remember_plugin_event ?e ?d"
    have "record_accepted_inner ev trust d
        = ?r\<lparr>ad_plugin := record_plugin_event ?e (ad_plugin ?r), ad_last_event := Some ?e\<rparr>"
      using cx s False by (simp add: record_accepted_inner_def Let_def)
    moreover have "plugin_events_ok evs ?r"
      using base att by (intro remember_plugin_event_ok) (simp_all add: codex_inv_def)
    moreover have "plugin_trust_ok evs (record_plugin_event ?e (ad_plugin ?r))"
      using base att by (intro record_plugin_event_ok) (simp_all add: codex_inv_def)
    ultimately show ?thesis
      using base by (simp add: codex_inv_def surfaces_ok_def plugin_events_ok_def)
  qed
qed

lemma find_in_set: "find P xs = Some x \<Longrightarrow> x \<in> set xs"
  by (auto simp: find_Some_iff)

lemma refresh_discovery_inv:
  assumes "codex_inv evs d" "freshly_discovered found"
  shows "codex_inv evs (refresh_discovery found d)"
proof -
  let ?ss = "fold insert_surface (ad_surfaces d) (ad_surfaces found)"
  let ?m = "missing_coverage_of ?ss"
  let ?a = "found\<lparr>ad_surfaces := ?ss, ad_missing := ?m,
      ad_remediation := remediation (ad_codex_version found) ?m,
      ad_last_event := ad_last_event d, ad_plugin_events := ad_plugin_events d\<rparr>"
  let ?b = "case pl_last_event (ad_plugin d) of None \<Rightarrow> ?a | Some e \<Rightarrow> remember_plugin_event e ?a"
  have "sorted (ad_surfaces found)" "distinct (ad_surfaces found)"
    using fresh_ok(1) [OF assms(2)] by (simp_all add: surfaces_ok_def)
  then have a: "surfaces_ok ?a" by (simp add: surfaces_ok_def insert_surfaces_ok)
  have ea: "plugin_events_ok evs ?a" using assms(1) by (simp add: codex_inv_def plugin_events_ok_def)
  have b: "surfaces_ok ?b" using a by (auto simp: surfaces_ok_def split: option.splits)
  have eb: "plugin_events_ok evs ?b"
  proof (cases "pl_last_event (ad_plugin d)")
    case (Some e)
    then have "attributed evs e" using assms(1) by (simp add: codex_inv_def plugin_trust_ok_def)
    then show ?thesis using ea Some by (simp add: remember_plugin_event_ok)
  qed (use ea in simp)
  have pb: "ad_plugin ?b = ad_plugin found" by (simp split: option.splits)
  have tb: "plugin_trust_ok evs (ad_plugin found)"
    using fresh_ok [OF assms(2)] by (simp add: plugin_trust_ok_def)
  define b where "b = ?b"
  define f where "f = find (\<lambda>e. la_plugin_id e = pl_plugin_id (ad_plugin b)
      \<and> la_plugin_version e = pl_plugin_version (ad_plugin b)) (rev (ad_plugin_events b))"
  have eq: "refresh_discovery found d = (case f of
        Some e \<Rightarrow>
          if pl_installed (ad_plugin b) = Some True \<and> pl_enabled (ad_plugin b) = Some True
             \<and> la_plugin_id e \<noteq> None \<and> la_plugin_version e \<noteq> None
          then b\<lparr>ad_plugin := record_plugin_event e (ad_plugin b)\<rparr> else b
      | None \<Rightarrow> b)"
    unfolding refresh_discovery_def Let_def b_def f_def by (rule refl)
  have inv: "surfaces_ok b" "plugin_events_ok evs b" "plugin_trust_ok evs (ad_plugin b)"
    using b eb tb pb by (simp_all only: b_def)
  show ?thesis
  proof (cases f)
    case None
    with inv show ?thesis by (simp add: eq codex_inv_def)
  next
    case (Some e)
    then have "e \<in> set (ad_plugin_events b)" unfolding f_def using find_in_set by fastforce
    then have "attributed evs e" using inv(2) by (simp add: plugin_events_ok_def)
    then have "plugin_trust_ok evs (record_plugin_event e (ad_plugin b))"
      using inv(3) by (rule record_plugin_event_ok)
    with inv Some show ?thesis
      by (simp add: eq codex_inv_def surfaces_ok_def plugin_events_ok_def)
  qed
qed

lemma codex_step_inv:
  assumes "codex_inv evs d" "step_fresh s"
    and "\<And>ev. s = DeliverAuthenticated ev \<Longrightarrow> ev \<in> evs"
  shows "codex_inv evs (codex_step_apply s d)"
  using assms
  by (cases s) (auto simp: record_accepted_event_def record_accepted_spooled_event_def
      intro: record_accepted_inv refresh_discovery_inv)

lemma codex_run_inv:
  assumes "codex_inv evs d" "list_all step_fresh steps"
    and "\<And>ev. DeliverAuthenticated ev \<in> set steps \<Longrightarrow> ev \<in> evs"
  shows "codex_inv evs (fold codex_step_apply steps d)"
  using assms
proof (induction steps arbitrary: d)
  case (Cons s steps)
  then have "codex_inv evs (codex_step_apply s d)" by (intro codex_step_inv) auto
  with Cons show ?case by simp
qed simp

text \<open>
  C40. However deliveries and rediscoveries interleave, the diagnostics trust a plugin only if an
  authenticated event was delivered whose source names that very plugin, and the event they report
  is that event; a spooled event never creates trust. The remembered deliveries stay at most sixteen
  with distinct plugins, the surfaces stay sorted without repetition, and the reported gaps are
  exactly the missing surfaces.
\<close>

theorem plugin_trust_needs_authentication:
  assumes "freshly_discovered d0" "list_all step_fresh steps"
    and "d = fold codex_step_apply steps d0"
  shows "(pl_trust_state (ad_plugin d) = TrustedAtLastDelivery \<longrightarrow>
      (\<exists>ev i v h nested. DeliverAuthenticated ev \<in> set steps
        \<and> plugin_source_parts (ev_source_discriminator ev) = Some (i, v, h, nested)
        \<and> pl_plugin_id (ad_plugin d) = Some i
        \<and> map_option la_event_id (pl_last_event (ad_plugin d)) = Some (ident_str (ev_event_id ev))))
    \<and> length (ad_plugin_events d) \<le> max_authenticated_plugin_events
    \<and> distinct (map la_plugin_id (ad_plugin_events d))
    \<and> sorted (ad_surfaces d) \<and> distinct (ad_surfaces d)
    \<and> ad_missing d = missing_coverage_of (ad_surfaces d)"
proof -
  let ?evs = "{ev. DeliverAuthenticated ev \<in> set steps}"
  have "codex_inv ?evs d0" using fresh_inv [OF assms(1)] by (rule codex_inv_mono) simp
  then have inv: "codex_inv ?evs d"
    unfolding assms(3) using assms(2) by (rule codex_run_inv) simp
  then have trust: "plugin_trust_ok ?evs (ad_plugin d)" by (simp add: codex_inv_def)
  have "\<exists>ev i v h nested. DeliverAuthenticated ev \<in> set steps
        \<and> plugin_source_parts (ev_source_discriminator ev) = Some (i, v, h, nested)
        \<and> pl_plugin_id (ad_plugin d) = Some i
        \<and> map_option la_event_id (pl_last_event (ad_plugin d)) = Some (ident_str (ev_event_id ev))"
    if "pl_trust_state (ad_plugin d) = TrustedAtLastDelivery"
  proof -
    obtain e where e: "pl_last_event (ad_plugin d) = Some e" "attributed ?evs e"
      "la_plugin_id e = pl_plugin_id (ad_plugin d)"
      using trust \<open>pl_trust_state (ad_plugin d) = TrustedAtLastDelivery\<close>
      by (auto simp: plugin_trust_ok_def)
    then show ?thesis by (fastforce simp: attributed_def)
  qed
  with inv show ?thesis
    by (simp add: codex_inv_def plugin_events_ok_def surfaces_ok_def)
qed

definition example_discovery :: adapter_diagnostics where
  "example_discovery = with_plugin (with_discovery (Some (lit ''0.147.0'')) [SurfStop, SurfNotify])
     (with_plugin_id (plugin_discovered (Some (lit ''0.147.0'')) AvailInstalled True True
        (Some (lit ''0.1.0'')) False) (Some (lit ''l@m'')))"

definition example_plugin_event :: session_event where
  "example_plugin_event =
     example_hook_event\<lparr>ev_source_discriminator := lit ''plugin:l@m:0.1.0:hook:Stop''\<rparr>"

lemma example_discovery_fresh: "freshly_discovered example_discovery"
  unfolding freshly_discovered_def example_discovery_def by blast

theorem plugin_trust_needs_authentication_witness:
  "let steps = [DeliverSpooled example_plugin_event, DeliverAuthenticated example_plugin_event,
        Rediscover example_discovery];
      d = fold codex_step_apply steps example_discovery in
   pl_trust_state (ad_plugin (codex_step_apply (hd steps) example_discovery)) = TrustUnknown
   \<and> pl_trust_state (ad_plugin d) = TrustedAtLastDelivery
   \<and> ad_missing d = missing_coverage_of (ad_surfaces d)"
proof -
  let ?s1 = "DeliverSpooled example_plugin_event" and ?s2 = "DeliverAuthenticated example_plugin_event"
    and ?s3 = "Rediscover example_discovery"
  have src: "plugin_source_parts (ev_source_discriminator example_plugin_event)
      = Some (lit ''l@m'', desktop_version, None, lit ''hook:Stop'')"
    using marked_parts [OF example_marked] by (simp add: example_plugin_event_def example_hook_event_def)
  have surf: "surface_from_source (ev_source_discriminator example_plugin_event) = Some SurfStop"
    unfolding surface_marked [OF src]
    using hook_not_notify [of "lit ''hook:Stop''"] hook_not_plugin [of "lit ''hook:Stop''"]
    by (simp add: surface_from_source_def starts_with_def lit_def hook_names)
  have prov: "ident_str (ev_provider example_plugin_event) = lit ''codex''"
    by (simp add: example_plugin_event_def example_hook_event_def)
  have t: "pl_trust_state (ad_plugin example_discovery) = TrustUnknown"
    "pl_plugin_id (ad_plugin example_discovery) = Some (lit ''l@m'')"
    "pl_plugin_version (ad_plugin example_discovery) = Some desktop_version"
    "pl_installed (ad_plugin example_discovery) = Some True"
    "pl_enabled (ad_plugin example_discovery) = Some True"
    "ad_plugin_events example_discovery = []" "pl_last_event (ad_plugin example_discovery) = None"
    by (simp_all add: example_discovery_def with_plugin_def with_plugin_id_def plugin_discovered_def
        with_discovery_def Let_def bounded_plugin_id_def byte_len_def utf8_width_def utf8_bytes_def
        utf8_code_def is_plugin_id_byte_def is_ascii_alphanumeric_def is_ascii_alphabetic_def
        is_ascii_digit_def lit_def bounded_version_def trim_def is_whitespace_def has_control_def
        is_control_def desktop_version_def)
  define d1 where "d1 = codex_step_apply ?s1 example_discovery"
  define d2 where "d2 = codex_step_apply ?s2 d1"
  define d3 where "d3 = codex_step_apply ?s3 d2"
  have d1: "ad_plugin d1 = ad_plugin example_discovery" "ad_plugin_events d1 = []"
    by (simp_all add: d1_def record_accepted_spooled_event_def record_accepted_inner_def prov surf t Let_def)
  have d2: "\<exists>e. ad_plugin_events d2 = [e] \<and> pl_last_event (ad_plugin d2) = Some e
      \<and> la_plugin_id e = Some (lit ''l@m'') \<and> la_plugin_version e = Some desktop_version"
    by (simp add: d2_def record_accepted_event_def record_accepted_inner_def prov surf t d1 Let_def
        plugin_version_from_source_def plugin_identity_from_source_def src remember_plugin_event_def
        max_authenticated_plugin_events_def record_plugin_event_def desktop_release extract_Nil_code
        extract_Cons_code)
  then obtain e where e: "ad_plugin_events d2 = [e]" "pl_last_event (ad_plugin d2) = Some e"
    "la_plugin_id e = Some (lit ''l@m'')" "la_plugin_version e = Some desktop_version" by blast
  have "pl_trust_state (ad_plugin d3) = TrustedAtLastDelivery"
    by (simp add: d3_def refresh_discovery_def Let_def e t remember_plugin_event_def
        max_authenticated_plugin_events_def record_plugin_event_def desktop_release extract_Nil_code
        extract_Cons_code)
  moreover have "ad_missing d3 = missing_coverage_of (ad_surfaces d3)"
    using plugin_trust_needs_authentication [OF example_discovery_fresh, of "[?s1, ?s2, ?s3]" d3]
    by (simp add: d1_def d2_def d3_def example_discovery_fresh)
  ultimately show ?thesis
    using t d1 by (simp add: d1_def d2_def d3_def)
qed

end
