(* ===== verification/App_State.thy ===== *)
theory App_State
  imports Reducer_Model Storage App_Pets Codex Action_Supervisor
begin

text \<open>
  \<^verbatim>\<open>lili-app-state\<close>: \<^verbatim>\<open>persistence.rs\<close>, \<^verbatim>\<open>title.rs\<close> and the state and methods of \<^verbatim>\<open>lib.rs\<close>. Every
  asynchronous method is one step of the state behind its locks; what it spawns (timers, title
  workers, action tasks) is kept in the state and ends in a step of its own. The clock is an
  argument, and \<open>None\<close> is a panic of the reducer.
\<close>

section \<open>Persistence\<close>

definition persistence_version :: nat where "persistence_version = 1"
definition max_display_id_chars :: nat where "max_display_id_chars = 256"
definition max_reducer_snapshot_bytes :: nat where "max_reducer_snapshot_bytes = 4 * 1024 * 1024"
definition max_logical_coordinate :: int where "max_logical_coordinate = 1000000"
definition min_scale_milli :: nat where "min_scale_milli = 250"
definition max_scale_milli :: nat where "max_scale_milli = 8000"
definition default_visible_window_margin :: nat where "default_visible_window_margin = 48"

datatype persistence_error =
    PeUnsupportedVersion nat | PeInvalidSelectedPet | PeInvalidWindowPlacement
  | PeInvalidDisplayWorkArea | PeReducer reducer_restore_error | PeInvalidReducerSnapshot
  | PeReducerSnapshotRejected | PeInvalidJsonDocument json_document_error
  | PeReducerSnapshotTooLarge nat | PeDatabase | PeJson

record display_work_area =
  dwa_id :: rstr
  dwa_physical_x :: int
  dwa_physical_y :: int
  dwa_physical_width :: nat
  dwa_physical_height :: nat
  dwa_scale_milli :: nat
  dwa_primary :: bool

definition display_work_area_new :: "display_work_area \<Rightarrow> persistence_error + display_work_area" where
  "display_work_area_new d =
     (if dwa_id d = [] \<or> max_display_id_chars < length (dwa_id d) \<or> has_control (dwa_id d)
         \<or> dwa_physical_width d = 0 \<or> dwa_physical_height d = 0
         \<or> \<not> (min_scale_milli \<le> dwa_scale_milli d \<and> dwa_scale_milli d \<le> max_scale_milli)
      then Inl PeInvalidDisplayWorkArea else Inr d)"

record window_placement =
  wp_display_id :: rstr
  wp_logical_x :: int
  wp_logical_y :: int
  wp_scale_milli :: nat

definition placement_validate :: "window_placement \<Rightarrow> persistence_error + unit" where
  "placement_validate p =
     (if wp_display_id p = [] \<or> max_display_id_chars < length (wp_display_id p)
         \<or> has_control (wp_display_id p)
         \<or> max_logical_coordinate < \<bar>wp_logical_x p\<bar> \<or> max_logical_coordinate < \<bar>wp_logical_y p\<bar>
         \<or> \<not> (min_scale_milli \<le> wp_scale_milli p \<and> wp_scale_milli p \<le> max_scale_milli)
      then Inl PeInvalidWindowPlacement else Inr ())"

definition window_placement_new :: "window_placement \<Rightarrow> persistence_error + window_placement" where
  "window_placement_new p = rbind (placement_validate p) (\<lambda>_. Inr p)"

record resolved_placement =
  rp_placement :: window_placement
  rp_physical_x :: int
  rp_physical_y :: int

definition clamp :: "int \<Rightarrow> int \<Rightarrow> int \<Rightarrow> int" where
  "clamp lo hi x = (if x < lo then lo else if hi < x then hi else x)"

text \<open>
  The two floating-point conversions, \<^verbatim>\<open>(logical * scale).round() as i32\<close> and its inverse, are the
  arguments \<open>to_physical\<close> and \<open>to_logical\<close>. The \<^verbatim>\<open>i32\<close> additions and casts wrap in the release build.
\<close>

definition wrap_i32 :: "int \<Rightarrow> int" where
  "wrap_i32 x = (x + 2147483648) mod 4294967296 - 2147483648"

definition choose_display :: "rstr \<Rightarrow> display_work_area list \<Rightarrow> display_work_area option" where
  "choose_display i ds = (case find (\<lambda>d. dwa_id d = i) ds of
     Some d \<Rightarrow> Some d
   | None \<Rightarrow> (case find dwa_primary ds of
       Some d \<Rightarrow> Some d
     | None \<Rightarrow> (case ds of [] \<Rightarrow> None | d # _ \<Rightarrow> Some d)))"

definition resolve_axis :: "int \<Rightarrow> nat \<Rightarrow> nat \<Rightarrow> nat \<Rightarrow> int \<Rightarrow> int" where
  "resolve_axis origin extent window margin requested =
     (let m = min margin (window div 2);
          lo = origin - int window + int m;
          hi = origin + int extent - int m
      in wrap_i32 (clamp lo hi requested))"

definition resolve_window_placement :: "(int \<Rightarrow> nat \<Rightarrow> int) \<Rightarrow> (int \<Rightarrow> nat \<Rightarrow> int) \<Rightarrow> window_placement
    \<Rightarrow> display_work_area list \<Rightarrow> nat \<Rightarrow> nat \<Rightarrow> nat \<Rightarrow> resolved_placement option" where
  "resolve_window_placement to_physical to_logical saved displays w h margin =
     Option.bind (choose_display (wp_display_id saved) displays) (\<lambda>d.
       let scale = dwa_scale_milli d;
           rx = wrap_i32 (dwa_physical_x d + to_physical (wp_logical_x saved) scale);
           ry = wrap_i32 (dwa_physical_y d + to_physical (wp_logical_y saved) scale);
           x = resolve_axis (dwa_physical_x d) (dwa_physical_width d) w margin rx;
           y = resolve_axis (dwa_physical_y d) (dwa_physical_height d) h margin ry
       in map_option (\<lambda>p. \<lparr>rp_placement = p, rp_physical_x = x, rp_physical_y = y\<rparr>)
            (result_ok (window_placement_new
              \<lparr>wp_display_id = dwa_id d,
               wp_logical_x = to_logical (wrap_i32 (x - dwa_physical_x d)) scale,
               wp_logical_y = to_logical (wrap_i32 (y - dwa_physical_y d)) scale,
               wp_scale_milli = scale\<rparr>)))"

record persistent_app_state =
  pas_version :: nat
  pas_selected_pet_id :: "pet_id option"
  pas_window_placement :: "window_placement option"
  pas_reducer :: reducer_state

definition persistent_new :: "pet_id option \<Rightarrow> window_placement option \<Rightarrow> reducer_state
    \<Rightarrow> persistent_app_state" where
  "persistent_new selected placement r = \<lparr>pas_version = persistence_version,
     pas_selected_pet_id = selected, pas_window_placement = placement, pas_reducer = r\<rparr>"

definition with_selected_pet_id :: "pet_id option \<Rightarrow> persistent_app_state \<Rightarrow> persistent_app_state" where
  "with_selected_pet_id i st = st\<lparr>pas_selected_pet_id := i\<rparr>"

definition persistent_validate :: "persistent_app_state \<Rightarrow> persistence_error + unit" where
  "persistent_validate st =
     (if pas_version st \<noteq> persistence_version then Inl (PeUnsupportedVersion (pas_version st))
      else if (case pas_selected_pet_id st of None \<Rightarrow> False
               | Some i \<Rightarrow> pet_id_parse (pet_id_str i) = None) then Inl PeInvalidSelectedPet
      else rbind (case pas_window_placement st of None \<Rightarrow> Inr () | Some p \<Rightarrow> placement_validate p) (\<lambda>_.
        map_err PeReducer (rbind (from_persistent_state (pas_reducer st)) (\<lambda>_. Inr ()))))"

text \<open>The JSON texts of \<^verbatim>\<open>serde_json\<close>: encoders (\<open>None\<close>: a serialisation error) and decoders.\<close>

record app_codec =
  co_reducer_to :: "reducer_state \<Rightarrow> rstr option"
  co_reducer_from :: "rstr \<Rightarrow> reducer_state option"
  co_placement_to :: "window_placement \<Rightarrow> rstr option"
  co_placement_from :: "rstr \<Rightarrow> window_placement option"
  co_json_ok :: "rstr \<Rightarrow> bool"

definition placement_document :: "app_codec \<Rightarrow> window_placement \<Rightarrow> persistence_error + rstr" where
  "placement_document co p = rbind (ok_or PeJson (co_placement_to co p)) (\<lambda>text.
     map_err PeInvalidJsonDocument (json_document_parse (co_json_ok co) text))"

definition reducer_snapshot :: "app_codec \<Rightarrow> reducer_state \<Rightarrow> persistence_error + rstr" where
  "reducer_snapshot co r = rbind (ok_or PeJson (co_reducer_to co r)) (\<lambda>json.
     if max_reducer_snapshot_bytes < byte_len json
     then Inl (PeReducerSnapshotTooLarge (byte_len json)) else Inr json)"

definition app_state_row_of :: "app_codec \<Rightarrow> persistent_app_state \<Rightarrow> rstr option \<Rightarrow> rstr option
    \<Rightarrow> persistence_error + app_state_row" where
  "app_state_row_of co st existing selected =
     rbind (reducer_snapshot co (pas_reducer st)) (\<lambda>json.
     rbind (case pas_window_placement st of None \<Rightarrow> Inr existing
            | Some p \<Rightarrow> rbind (placement_document co p) (\<lambda>d. Inr (Some d))) (\<lambda>placement.
     if i64_max < int (rs_revision (pas_reducer st)) then Inl PeInvalidReducerSnapshot
     else Inr \<lparr>ar_selected_pet_id = selected, ar_window_placement = placement,
            ar_reducer_revision = int (rs_revision (pas_reducer st)), ar_reducer_json = Some json,
            ar_expired_drops = 0, ar_limit_drops = 0, ar_malformed_drops = 0\<rparr>))"

text \<open>\<open>avail\<close> says whether the database could be opened and queried; otherwise nothing changes.\<close>

definition store_save :: "app_codec \<Rightarrow> bool \<Rightarrow> persistent_app_state \<Rightarrow> database
    \<Rightarrow> (persistence_error + unit) \<times> database" where
  "store_save co avail st db = (case persistent_validate st of
     Inl e \<Rightarrow> (Inl e, db)
   | Inr _ \<Rightarrow>
       if \<not> avail then (Inl PeDatabase, db)
       else case app_state_row_of co st None None of
         Inl e \<Rightarrow> (Inl e, db)
       | Inr row \<Rightarrow>
           (case update_app_state_if_newer (ar_reducer_revision row) (ar_reducer_json row) db of
              (updated, db') \<Rightarrow>
                if \<not> updated then (Inl PeReducerSnapshotRejected, db') else (Inr (), db')))"

definition store_load :: "app_codec \<Rightarrow> bool \<Rightarrow> database \<Rightarrow> persistence_error + persistent_app_state option" where
  "store_load co avail db =
     (if \<not> avail then Inl PeDatabase
      else let row = load_app_state db in
        rbind (case ar_reducer_json row of
            Some json \<Rightarrow>
              if max_reducer_snapshot_bytes < byte_len json
              then Inl (PeReducerSnapshotTooLarge (byte_len json))
              else rbind (ok_or PeJson (co_reducer_from co json)) (\<lambda>r. Inr (Some r))
          | None \<Rightarrow>
              if ar_selected_pet_id row \<noteq> None \<or> ar_window_placement row \<noteq> None
              then Inr (Some (persistent_state initial_reducer)) else Inr None) (\<lambda>reducer.
        case reducer of
          None \<Rightarrow> Inr None
        | Some reducer \<Rightarrow>
            rbind (case ar_selected_pet_id row of None \<Rightarrow> Inr None
                   | Some v \<Rightarrow> rbind (ok_or PeInvalidSelectedPet (pet_id_parse v)) (\<lambda>i. Inr (Some i)))
              (\<lambda>selected.
            rbind (case ar_window_placement row of None \<Rightarrow> Inr None
                   | Some v \<Rightarrow> rbind (ok_or PeJson (co_placement_from co v)) (\<lambda>p. Inr (Some p)))
              (\<lambda>placement.
            let st = persistent_new selected placement reducer in
            rbind (persistent_validate st) (\<lambda>_. Inr (Some st))))))"

definition save_selected_pet :: "bool \<Rightarrow> persistent_app_state \<Rightarrow> database
    \<Rightarrow> (persistence_error + unit) \<times> database" where
  "save_selected_pet avail st db = (case persistent_validate st of
     Inl e \<Rightarrow> (Inl e, db)
   | Inr _ \<Rightarrow>
       if \<not> avail then (Inl PeDatabase, db)
       else (Inr (), update_selected_pet (map_option pet_id_str (pas_selected_pet_id st)) db))"

definition save_window_placement :: "app_codec \<Rightarrow> bool \<Rightarrow> window_placement \<Rightarrow> database
    \<Rightarrow> (persistence_error + unit) \<times> database" where
  "save_window_placement co avail p db =
     (case rbind (placement_validate p) (\<lambda>_. placement_document co p) of
        Inl e \<Rightarrow> (Inl e, db)
      | Inr text \<Rightarrow>
          if \<not> avail then (Inl PeDatabase, db) else (Inr (), update_window_placement (Some text) db))"

section \<open>State\<close>

definition dispatch_history_limit :: nat where "dispatch_history_limit = 2048"

record dispatch_history =
  dh_order :: "uuid list"
  dh_identities :: "uuid set"

definition dispatch_accept :: "uuid \<Rightarrow> dispatch_history \<Rightarrow> bool \<times> dispatch_history" where
  "dispatch_accept i h =
     (if i \<in> dh_identities h then (False, h)
      else let order = dh_order h @ [i]; ids = insert i (dh_identities h) in
        (True, if dispatch_history_limit < length order
               then \<lparr>dh_order = tl order, dh_identities = ids - {hd order}\<rparr>
               else \<lparr>dh_order = order, dh_identities = ids\<rparr>))"

record view_snapshot =
  vs_revision :: nat
  vs_selected_pet :: "pet_summary option"
  vs_pet_asset_id :: "rstr option"
  vs_session_state :: session_view_snapshot
  vs_actions :: "action_summary list"

record user_settings =
  us_always_on_top :: bool
  us_reduced_motion :: bool

definition default_settings :: user_settings where
  "default_settings = \<lparr>us_always_on_top = True, us_reduced_motion = False\<rparr>"

record ingestion_diagnostics =
  id_accepted_messages :: nat
  id_duplicate_events :: nat
  id_authentication_rejections :: nat
  id_replay_rejections :: nat
  id_expired_rejections :: nat
  id_malformed_rejections :: nat
  id_transport_rejections :: nat
  id_spool_expired_drops :: nat
  id_spool_limit_drops :: nat
  id_spool_malformed_drops :: nat
  id_codex_adapter :: adapter_diagnostics

definition default_ingestion_diagnostics :: ingestion_diagnostics where
  "default_ingestion_diagnostics = \<lparr>id_accepted_messages = 0, id_duplicate_events = 0,
     id_authentication_rejections = 0, id_replay_rejections = 0, id_expired_rejections = 0,
     id_malformed_rejections = 0, id_transport_rejections = 0, id_spool_expired_drops = 0,
     id_spool_limit_drops = 0, id_spool_malformed_drops = 0, id_codex_adapter = adapter_default\<rparr>"

text \<open>A spawned title worker, a pending timer and a spawned action task.\<close>

record title_worker =
  tw_notification :: notification
  tw_token :: nat
  tw_configuration :: nat
  tw_persist :: bool

datatype app_timer = ReminderExpiry nat | FeedbackExpiry nat

record action_spawn =
  sp_action_id :: rstr
  sp_context :: interaction_context
  sp_persist :: bool

record title_dispatch =
  td_closed :: bool
  td_pending :: "(notification_id \<times> nat) list"

text \<open>
  \<open>ap_feedback\<close> carries the address of its \<^verbatim>\<open>Arc\<close>, \<open>ap_supervisor\<close> the address of the configuration;
  \<open>ap_alloc\<close> numbers them and the title tokens. The last three fields are the spawned tasks.
\<close>

record app_state =
  ap_snapshot :: view_snapshot
  ap_settings :: user_settings
  ap_reducer :: reducer
  ap_pets :: pet_runtime
  ap_ingestion :: ingestion_diagnostics
  ap_feedback :: "(nat \<times> pet_action_feedback) option"
  ap_supervisor :: "(nat \<times> supervisor) option"
  ap_effective :: effective_actions
  ap_dispatched :: dispatch_history
  ap_presentation :: pet_presentation_state
  ap_titles :: title_dispatch
  ap_alloc :: nat
  ap_timers :: "app_timer list"
  ap_workers :: "title_worker list"
  ap_spawned :: "action_spawn list"

section \<open>Presentation\<close>

fun pet_kind_of :: "notification_kind \<Rightarrow> pet_notification_kind" where
  "pet_kind_of Attention = PetAttention"
| "pet_kind_of Completion = PetCompletion"
| "pet_kind_of Failure = PetFailure"

fun default_summary_of :: "notification_kind \<Rightarrow> rstr" where
  "default_summary_of Attention = lit ''Input required''"
| "default_summary_of Completion = lit ''Task completed''"
| "default_summary_of Failure = lit ''Task failed''"

fun pet_lifecycle_of :: "presentation_state \<Rightarrow> pet_lifecycle_state" where
  "pet_lifecycle_of PresIdle = LifeIdle"
| "pet_lifecycle_of PresActivityReminder = LifeActivityReminder"
| "pet_lifecycle_of PresReview = LifeReview"
| "pet_lifecycle_of PresFailed = LifeFailed"
| "pet_lifecycle_of PresWaiting = LifeWaiting"

definition present_notification :: "notification \<Rightarrow> pet_notification_presentation" where
  "present_notification n = \<lparr>pnp_title = n_title n, pnp_activation_id = ident_str (n_id n),
     pnp_kind = pet_kind_of (n_kind n), pnp_project_label = map_option dp_label (n_project n),
     pnp_summary = (case n_summary n of None \<Rightarrow> default_summary_of (n_kind n) | Some d \<Rightarrow> ds_text d),
     pnp_summary_truncated = (case n_summary n of None \<Rightarrow> False | Some d \<Rightarrow> ds_truncated d),
     pnp_summary_redacted = (case n_summary n of None \<Rightarrow> False | Some d \<Rightarrow> ds_redacted d),
     pnp_occurred_at_ms = n_occurred_at_ms n, pnp_unread = True\<rparr>"

definition presentation_from_view :: "view_snapshot \<Rightarrow> bool \<Rightarrow> pet_action_feedback option
    \<Rightarrow> pet_presentation_state" where
  "presentation_from_view v reduced feedback =
     (let ns = map present_notification
            (filter (\<lambda>n. n_state n = Unread) (svs_notifications (vs_session_state v))) in
      \<lparr>pps_revision = vs_revision v,
       pps_lifecycle = pet_lifecycle_of (svs_presentation (vs_session_state v)),
       pps_pet_asset_id = vs_pet_asset_id v,
       pps_pet_label = (case vs_selected_pet v of None \<Rightarrow> lit ''Desktop pet''
          | Some p \<Rightarrow> psu_display_name p),
       pps_unread_notification_count = length ns, pps_notifications = ns,
       pps_action_feedback = feedback, pps_reduced_motion = reduced\<rparr>)"

definition publish_presentation :: "app_state \<Rightarrow> app_state" where
  "publish_presentation s =
     (let v = (ap_snapshot s)\<lparr>vs_session_state := snapshot (ap_reducer s),
            vs_revision := sat_add (vs_revision (ap_snapshot s)) 1\<rparr> in
      s\<lparr>ap_snapshot := v,
        ap_presentation := presentation_from_view v (us_reduced_motion (ap_settings s))
          (map_option snd (ap_feedback s))\<rparr>)"

definition app_snapshot :: "app_state \<Rightarrow> view_snapshot" where
  "app_snapshot s = (ap_snapshot s)\<lparr>vs_session_state := snapshot (ap_reducer s)\<rparr>"

definition pet_presentation :: "app_state \<Rightarrow> pet_presentation_state" where
  "pet_presentation s = presentation_from_view (app_snapshot s) (us_reduced_motion (ap_settings s))
     (map_option snd (ap_feedback s))"

definition no_effective_actions :: effective_actions where
  "no_effective_actions = \<lparr>efa_schema_version = None, efa_actions = [], efa_diagnostics = []\<rparr>"

definition app_with_reducer :: "pet_env \<Rightarrow> (pet_id \<Rightarrow> rstr) \<Rightarrow> (pet_id \<Rightarrow> rstr) \<Rightarrow> pet_catalog \<Rightarrow> reducer
    \<Rightarrow> app_state option" where
  "app_with_reducer env fresh fresh2 c r = map_option (\<lambda>rt.
     let v = \<lparr>vs_revision = rd_revision r,
              vs_selected_pet = Some (summary_of (avp_definition (pc_active (pr_catalog rt)))),
              vs_pet_asset_id = Some (aa_id (pr_active_asset rt)),
              vs_session_state = snapshot r, vs_actions = []\<rparr> in
     \<lparr>ap_snapshot = v, ap_settings = default_settings, ap_reducer = r, ap_pets = rt,
      ap_ingestion = default_ingestion_diagnostics, ap_feedback = None, ap_supervisor = None,
      ap_effective = no_effective_actions, ap_dispatched = \<lparr>dh_order = [], dh_identities = {}\<rparr>,
      ap_presentation = presentation_from_view v False None,
      ap_titles = \<lparr>td_closed = False, td_pending = []\<rparr>, ap_alloc = 0,
      ap_timers = [], ap_workers = [], ap_spawned = []\<rparr>)
     (pet_runtime_from env fresh fresh2 c)"

definition with_pet_catalog :: "pet_env \<Rightarrow> (pet_id \<Rightarrow> rstr) \<Rightarrow> (pet_id \<Rightarrow> rstr) \<Rightarrow> pet_catalog
    \<Rightarrow> app_state option" where
  "with_pet_catalog env fresh fresh2 c = app_with_reducer env fresh fresh2 c initial_reducer"

definition with_persistent_state :: "pet_env \<Rightarrow> (pet_id \<Rightarrow> rstr) \<Rightarrow> (pet_id \<Rightarrow> rstr) \<Rightarrow> pet_catalog
    \<Rightarrow> persistent_app_state \<Rightarrow> (reducer_restore_error + app_state) option" where
  "with_persistent_state env fresh fresh2 c st = (case from_persistent_state (pas_reducer st) of
     Inl e \<Rightarrow> Some (Inl e)
   | Inr r \<Rightarrow> map_option Inr (app_with_reducer env fresh fresh2 c r))"

definition replace_settings :: "user_settings \<Rightarrow> app_state \<Rightarrow> app_state" where
  "replace_settings u s = publish_presentation (s\<lparr>ap_settings := u\<rparr>)"

definition persistent_state_of :: "window_placement option \<Rightarrow> app_state \<Rightarrow> persistent_app_state" where
  "persistent_state_of placement s =
     persistent_new (pet_id_parse (pc_requested_identifier (pr_catalog (ap_pets s)))) placement
       (persistent_state (ap_reducer s))"

section \<open>Pets\<close>

definition install_pets :: "pet_runtime \<Rightarrow> app_state \<Rightarrow> pet_summary \<times> app_state" where
  "install_pets rt s =
     (let selected = summary_of (avp_definition (pc_active (pr_catalog rt))) in
      (selected, publish_presentation (s\<lparr>ap_pets := rt,
         ap_snapshot := (ap_snapshot s)\<lparr>vs_selected_pet := Some selected,
           vs_pet_asset_id := Some (aa_id (pr_active_asset rt))\<rparr>\<rparr>)))"

definition replace_pet_catalog :: "pet_env \<Rightarrow> (pet_id \<Rightarrow> rstr) \<Rightarrow> (pet_id \<Rightarrow> rstr) \<Rightarrow> pet_catalog
    \<Rightarrow> app_state \<Rightarrow> (pet_summary \<times> app_state) option" where
  "replace_pet_catalog env fresh fresh2 c s =
     map_option (\<lambda>rt. install_pets rt s) (pet_runtime_from env fresh fresh2 c)"

datatype pet_selection_error = SelectionUnavailable | SelectionPersistence persistence_error

definition select_pet :: "pet_env \<Rightarrow> (pet_id \<Rightarrow> rstr) \<Rightarrow> bool \<Rightarrow> bool \<Rightarrow> pet_path \<Rightarrow> pet_id \<Rightarrow> app_state \<Rightarrow> database
    \<Rightarrow> (pet_selection_error + pet_summary) \<times> app_state \<times> database" where
  "select_pet env fresh with_store avail root i s db =
     (let persistent = with_selected_pet_id (Some i) (persistent_state_of None s) in
      case prepare_selection env fresh root i (pc_active (pr_catalog (ap_pets s))) of
        SelectUnavailable c \<Rightarrow>
          (Inl SelectionUnavailable, s\<lparr>ap_pets := (ap_pets s)\<lparr>pr_catalog := c\<rparr>\<rparr>, db)
      | SelectFailed \<Rightarrow> (Inl SelectionUnavailable, s, db)
      | SelectReady rt \<Rightarrow>
          (case (if with_store then save_selected_pet avail persistent db else (Inr (), db)) of
             (Inl e, db') \<Rightarrow> (Inl (SelectionPersistence e), s, db')
           | (Inr _, db') \<Rightarrow> let (selected, s') = install_pets rt s in (Inr selected, s', db')))"

section \<open>Titles\<close>

definition max_pending_titles :: nat where "max_pending_titles = 256"

definition title_wanted :: "(provider_id \<times> event_id) option \<Rightarrow> supervisor \<Rightarrow> title_dispatch \<Rightarrow> notification \<Rightarrow> bool" where
  "title_wanted event sv td n \<longleftrightarrow> \<not> (n_state n \<noteq> Unread
     \<or> (case event of None \<Rightarrow> False | Some (p, e) \<Rightarrow> n_provider n \<noteq> p \<or> n_event_id n \<noteq> e)
     \<or> title_action_id sv (ident_str (n_provider n)) = None
     \<or> n_id n \<in> fst ` set (td_pending td)
     \<or> max_pending_titles \<le> length (td_pending td))"

definition start_title_worker :: "nat \<Rightarrow> bool \<Rightarrow> notification \<Rightarrow> app_state \<Rightarrow> app_state" where
  "start_title_worker config persist n s =
     s\<lparr>ap_titles := (ap_titles s)\<lparr>td_pending := hm_insert (n_id n) (ap_alloc s) (td_pending (ap_titles s))\<rparr>,
       ap_workers := ap_workers s @ [\<lparr>tw_notification = n, tw_token = ap_alloc s,
         tw_configuration = config, tw_persist = persist\<rparr>],
       ap_alloc := Suc (ap_alloc s)\<rparr>"

definition abort_workers :: "nat set \<Rightarrow> app_state \<Rightarrow> app_state" where
  "abort_workers tokens s = s\<lparr>ap_workers := filter (\<lambda>w. tw_token w \<notin> tokens) (ap_workers s)\<rparr>"

definition schedule_notification_titles :: "(provider_id \<times> event_id) option \<Rightarrow> bool \<Rightarrow> app_state \<Rightarrow> app_state" where
  "schedule_notification_titles event persist s = (case ap_supervisor s of
     None \<Rightarrow> s
   | Some (config, sv) \<Rightarrow>
       if td_closed (ap_titles s) then s
       else let
         ns = svs_notifications (snapshot (ap_reducer s));
         unread = n_id ` {n \<in> set ns. n_state n = Unread};
         dropped = filter (\<lambda>e. fst e \<notin> unread) (td_pending (ap_titles s));
         s1 = abort_workers (snd ` set dropped) (s\<lparr>ap_titles := (ap_titles s)\<lparr>td_pending :=
                filter (\<lambda>e. fst e \<in> unread) (td_pending (ap_titles s))\<rparr>\<rparr>)
       in fold (\<lambda>n s. if title_wanted event sv (ap_titles s) n
            then start_title_worker config persist n s else s) ns s1)"

definition save_notification_title :: "app_codec \<Rightarrow> bool \<Rightarrow> bool \<Rightarrow> notification \<Rightarrow> rstr \<Rightarrow> app_state \<Rightarrow> database
    \<Rightarrow> (persistence_error + bool) \<times> app_state \<times> database" where
  "save_notification_title co persist avail n title s db =
     (case update_notification_title (ap_reducer s) n title of
        (r, False) \<Rightarrow> (Inr False, s\<lparr>ap_reducer := r\<rparr>, db)
      | (r, True) \<Rightarrow>
          let s' = s\<lparr>ap_reducer := r\<rparr> in
          if persist then
            (case store_save co avail (persistent_state_of None s') db of
               (Inl e, db') \<Rightarrow> (Inl e, s'\<lparr>ap_reducer := ap_reducer s\<rparr>, db')
             | (Inr _, db') \<Rightarrow> (Inr True, s', db'))
          else (Inr True, s', db))"

definition forget_title :: "notification_id \<Rightarrow> nat \<Rightarrow> app_state \<Rightarrow> app_state" where
  "forget_title i token s =
     (if map_of (td_pending (ap_titles s)) i = Some token
      then s\<lparr>ap_titles := (ap_titles s)\<lparr>td_pending := filter (\<lambda>e. fst e \<noteq> i) (td_pending (ap_titles s))\<rparr>\<rparr>
      else s)"

definition complete_title :: "app_codec \<Rightarrow> bool \<Rightarrow> title_worker \<Rightarrow> rstr option \<Rightarrow> app_state \<Rightarrow> database
    \<Rightarrow> app_state \<times> database" where
  "complete_title co avail w title s db =
     (let n = tw_notification w; s = abort_workers {tw_token w} s in
      if map_option fst (ap_supervisor s) \<noteq> Some (tw_configuration w) then (s, db)
      else if map_of (td_pending (ap_titles s)) (n_id n) \<noteq> Some (tw_token w) then (s, db)
      else case title of
        None \<Rightarrow> (forget_title (n_id n) (tw_token w) s, db)
      | Some t \<Rightarrow>
          (case save_notification_title co (tw_persist w) avail n t s db of
             (result, s', db') \<Rightarrow>
               (forget_title (n_id n) (tw_token w)
                  (if result = Inr True then publish_presentation s' else s'), db')))"

text \<open>Awaiting the drained workers lets each of them run to its end without a pending entry.\<close>

definition shutdown_title_actions :: "app_state \<Rightarrow> app_state" where
  "shutdown_title_actions s =
     (let s1 = s\<lparr>ap_titles := \<lparr>td_closed = True, td_pending = []\<rparr>, ap_workers := []\<rparr> in
      case ap_supervisor s1 of
        None \<Rightarrow> s1
      | Some (config, sv) \<Rightarrow> s1\<lparr>ap_supervisor := Some (config, shutdown_titles sv)\<rparr>)"


section \<open>Session events\<close>

definition app_starts_activity_reminder :: "session_event_kind \<Rightarrow> bool" where
  "app_starts_activity_reminder k \<longleftrightarrow> k \<in> {SessionStarted, TurnStarted, AttentionResolved}"

fun is_applied :: "reduction_outcome \<Rightarrow> bool" where
  "is_applied (Applied n) = True"
| "is_applied _ = False"

definition schedule_reminder_expiry :: "nat \<Rightarrow> app_state \<Rightarrow> app_state" where
  "schedule_reminder_expiry at s = s\<lparr>ap_timers := ap_timers s @
     [ReminderExpiry (sat_add at default_activity_reminder_duration_ms)]\<rparr>"

text \<open>What follows an applied event, once the reducer is unlocked.\<close>

definition after_applied :: "session_event \<Rightarrow> bool \<Rightarrow> nat option \<Rightarrow> app_state \<Rightarrow> app_state" where
  "after_applied e persist reminder s =
     (let s1 = schedule_notification_titles (Some (ev_provider e, ev_event_id e)) persist
                 (publish_presentation s) in
      case reminder of None \<Rightarrow> s1 | Some at \<Rightarrow> schedule_reminder_expiry at s1)"

definition app_apply_event :: "(byte list \<Rightarrow> byte list) \<Rightarrow> nat \<Rightarrow> session_event \<Rightarrow> app_state
    \<Rightarrow> (reduction_outcome \<times> app_state) option" where
  "app_apply_event sha now e s = map_option (\<lambda>(r, outcome).
     let s1 = s\<lparr>ap_reducer := r\<rparr> in
     (outcome, if is_applied outcome
        then after_applied e False (if app_starts_activity_reminder (ev_type e) then Some now else None) s1
        else s1)) (reduce_at sha (ap_reducer s) e now)"

text \<open>\<open>now\<close> and \<open>started\<close> are the two readings of the clock, before and after the save.\<close>

definition app_apply_event_persisted :: "(byte list \<Rightarrow> byte list) \<Rightarrow> app_codec \<Rightarrow> bool \<Rightarrow> nat \<Rightarrow> nat
    \<Rightarrow> session_event \<Rightarrow> app_state \<Rightarrow> database
    \<Rightarrow> ((persistence_error + reduction_outcome) \<times> app_state \<times> database) option" where
  "app_apply_event_persisted sha co avail now started e s db =
     map_option (\<lambda>(r, outcome).
       if \<not> is_applied outcome then (Inr outcome, s\<lparr>ap_reducer := r\<rparr>, db)
       else case store_save co avail (persistent_state_of None (s\<lparr>ap_reducer := r\<rparr>)) db of
         (Inl err, db') \<Rightarrow> (Inl err, s\<lparr>ap_reducer := ap_reducer s\<rparr>, db')
       | (Inr _, db') \<Rightarrow>
           let reminder = app_starts_activity_reminder (ev_type e);
               r' = (if reminder then restart_activity_reminder r started else r) in
           (Inr outcome, after_applied e True (if reminder then Some started else None)
              (s\<lparr>ap_reducer := r'\<rparr>), db'))
       (reduce_at sha (ap_reducer s) e now)"

definition app_advance_presentation :: "nat \<Rightarrow> app_state \<Rightarrow> reduction_outcome \<times> app_state" where
  "app_advance_presentation now s = (case advance_presentation (ap_reducer s) now of (r, outcome) \<Rightarrow>
     let s1 = s\<lparr>ap_reducer := r\<rparr> in
     (outcome, if is_applied outcome then publish_presentation s1 else s1))"

definition app_acknowledge :: "nat \<Rightarrow> notification_id \<Rightarrow> app_state \<Rightarrow> reduction_outcome \<times> app_state" where
  "app_acknowledge now i s = (case acknowledge_notification (ap_reducer s) i now of (r, outcome) \<Rightarrow>
     let s1 = s\<lparr>ap_reducer := r\<rparr> in
     (outcome, if is_applied outcome then publish_presentation s1 else s1))"

definition app_acknowledge_persisted :: "app_codec \<Rightarrow> bool \<Rightarrow> nat \<Rightarrow> notification_id \<Rightarrow> app_state \<Rightarrow> database
    \<Rightarrow> (persistence_error + reduction_outcome) \<times> app_state \<times> database" where
  "app_acknowledge_persisted co avail now i s db =
     (case acknowledge_notification (ap_reducer s) i now of (r, outcome) \<Rightarrow>
        let s1 = s\<lparr>ap_reducer := r\<rparr> in
        if \<not> is_applied outcome then (Inr outcome, s1, db)
        else case store_save co avail (persistent_state_of None s1) db of
          (Inl err, db') \<Rightarrow> (Inl err, s1\<lparr>ap_reducer := ap_reducer s\<rparr>, db')
        | (Inr _, db') \<Rightarrow> (Inr outcome, publish_presentation s1, db'))"

text \<open>The timer that fires calls \<^verbatim>\<open>advance_presentation(deadline_ms)\<close> or clears its own feedback.\<close>

definition fire_timer :: "app_timer \<Rightarrow> app_state \<Rightarrow> app_state" where
  "fire_timer t s = (let s = s\<lparr>ap_timers := remove1 t (ap_timers s)\<rparr> in case t of
     ReminderExpiry deadline \<Rightarrow> snd (app_advance_presentation deadline s)
   | FeedbackExpiry i \<Rightarrow>
       if map_option fst (ap_feedback s) = Some i then publish_presentation (s\<lparr>ap_feedback := None\<rparr>)
       else s)"

section \<open>Interactions\<close>

definition notification_context :: "notification_id \<Rightarrow> app_state \<Rightarrow> notification option" where
  "notification_context i s =
     find (\<lambda>n. n_id n = i \<and> n_state n = Unread) (svs_notifications (snapshot (ap_reducer s)))"

fun filter_kind_of :: "notification_kind \<Rightarrow> notification_filter_kind" where
  "filter_kind_of Attention = FilterAttention"
| "filter_kind_of Completion = FilterCompletion"
| "filter_kind_of Failure = FilterFailure"

fun lifecycle_snapshot_of :: "presentation_state \<Rightarrow> pet_lifecycle_snapshot" where
  "lifecycle_snapshot_of PresIdle = SnapIdle"
| "lifecycle_snapshot_of PresActivityReminder = SnapActivityReminder"
| "lifecycle_snapshot_of PresReview = SnapReview"
| "lifecycle_snapshot_of PresFailed = SnapFailed"
| "lifecycle_snapshot_of PresWaiting = SnapWaiting"

definition notification_snapshot_of :: "notification \<Rightarrow> notification_snapshot_record" where
  "notification_snapshot_of n = \<lparr>ns_notification_id = ident_str (n_id n),
     ns_event_id = ident_str (n_event_id n), ns_provider = ident_str (n_provider n),
     ns_session_id = ident_str (n_session_id n), ns_turn_id = map_option ident_str (n_turn_id n),
     ns_kind = filter_kind_of (n_kind n), ns_occurred_at_ms = n_occurred_at_ms n,
     ns_project_label = map_option dp_label (n_project n),
     ns_summary = map_option (\<lambda>d. \<lparr>es_text = ds_text d, es_truncated = ds_truncated d,
        es_redacted = ds_redacted d\<rparr>) (n_summary n)\<rparr>"

definition interaction_pet_snapshot :: "presentation_state \<Rightarrow> app_state \<Rightarrow> pet_snapshot" where
  "interaction_pet_snapshot p s = (case vs_selected_pet (ap_snapshot s) of
     None \<Rightarrow> \<lparr>psn_pet_id = lit ''unknown'', psn_label = lit ''Desktop pet'',
        psn_lifecycle = lifecycle_snapshot_of p\<rparr>
   | Some pet \<Rightarrow> \<lparr>psn_pet_id = pet_id_str (psu_id pet), psn_label = psu_display_name pet,
        psn_lifecycle = lifecycle_snapshot_of p\<rparr>)"

definition bind_interaction :: "uuid \<Rightarrow> nat \<Rightarrow> interaction_trigger \<Rightarrow> notification_id option \<Rightarrow> app_state
    \<Rightarrow> interaction_context option" where
  "bind_interaction i at trigger notification s =
     (let pet = interaction_pet_snapshot (svs_presentation (snapshot (ap_reducer s))) s in
      case trigger of
        NotificationActivate \<Rightarrow> Option.bind notification (\<lambda>nid. map_option
          (\<lambda>n. context_for_notification i at pet (notification_snapshot_of n)) (notification_context nid s))
      | _ \<Rightarrow> context_for_pet i at trigger pet)"

definition set_action_feedback :: "pet_action_feedback \<Rightarrow> app_state \<Rightarrow> app_state" where
  "set_action_feedback f s =
     (let s1 = publish_presentation (s\<lparr>ap_feedback := Some (ap_alloc s, f)\<rparr>) in
      s1\<lparr>ap_timers := ap_timers s1 @ [FeedbackExpiry (ap_alloc s)], ap_alloc := Suc (ap_alloc s)\<rparr>)"

definition action_failure :: "execution_result \<Rightarrow> string \<Rightarrow> pet_action_feedback" where
  "action_failure r msg = \<lparr>paf_action_id = xr_action_id r, paf_kind = FeedbackFailure,
     paf_message = lit msg, paf_occurred_at_ms = xr_finished_at_ms r\<rparr>"

definition feedback_of :: "execution_result \<Rightarrow> pet_action_feedback option" where
  "feedback_of r = (case xr_outcome r of
     Saturated \<Rightarrow> Some \<lparr>paf_action_id = xr_action_id r, paf_kind = FeedbackBusy,
        paf_message = lit ''Action is busy'', paf_occurred_at_ms = xr_finished_at_ms r\<rparr>
   | NonZeroExit \<Rightarrow> Some (action_failure r ''Action exited with an error'')
   | SpawnFailed \<Rightarrow> Some (action_failure r ''Action could not start'')
   | IoFailed \<Rightarrow> Some (action_failure r ''Action I/O failed'')
   | TimedOut \<Rightarrow> Some (action_failure r ''Action timed out'')
   | OutputOverflow \<Rightarrow> Some (action_failure r ''Action output limit exceeded'')
   | Succeeded \<Rightarrow> None | Debounced \<Rightarrow> None | NotMatched \<Rightarrow> None | UnknownAction \<Rightarrow> None
   | InvalidResponse \<Rightarrow> None)"

definition publish_action_result :: "execution_result \<Rightarrow> app_state \<Rightarrow> bool \<times> app_state" where
  "publish_action_result r s = (case feedback_of r of
     None \<Rightarrow> (False, s) | Some f \<Rightarrow> (True, set_action_feedback f s))"

definition complete_notification_action :: "app_codec \<Rightarrow> bool \<Rightarrow> bool \<Rightarrow> nat \<Rightarrow> interaction_context
    \<Rightarrow> execution_result \<Rightarrow> app_state \<Rightarrow> database \<Rightarrow> (persistence_error + unit) \<times> app_state \<times> database" where
  "complete_notification_action co persist avail now c r s db =
     (if xr_outcome r \<noteq> Succeeded \<or> ic_trigger c \<noteq> NotificationActivate then (Inr (), s, db)
      else case ic_notification c of
        None \<Rightarrow> (Inr (), s, db)
      | Some n \<Rightarrow> (case notification_id_parse (ns_notification_id n) of
          Inl _ \<Rightarrow> (Inr (), s, db)
        | Inr i \<Rightarrow>
            if persist then (case app_acknowledge_persisted co avail now i s db of
               (res, s', db') \<Rightarrow> (rbind res (\<lambda>_. Inr ()), s', db'))
            else (Inr (), snd (app_acknowledge now i s), db)))"

definition configure_actions :: "loaded_actions \<Rightarrow> nat \<Rightarrow> bool \<Rightarrow> app_state \<Rightarrow> bool \<times> app_state" where
  "configure_actions l n persist s =
     (let sv = supervisor_new l n;
          s1 = abort_workers (snd ` set (td_pending (ap_titles s))) s;
          s2 = s1\<lparr>ap_titles := \<lparr>td_closed = False, td_pending = []\<rparr>,
                 ap_supervisor := map_option (Pair (ap_alloc s)) sv, ap_alloc := Suc (ap_alloc s),
                 ap_effective := lds_effective l,
                 ap_snapshot := (ap_snapshot s1)\<lparr>vs_actions := summaries l\<rparr>\<rparr> in
      (sv \<noteq> None, schedule_notification_titles None persist (publish_presentation s2)))"

record dispatch_receipt =
  drc_accepted :: bool
  drc_action_count :: nat

definition dispatch_interaction :: "interaction_context \<Rightarrow> bool \<Rightarrow> app_state \<Rightarrow> dispatch_receipt \<times> app_state" where
  "dispatch_interaction c persist s = (case dispatch_accept (ic_interaction_id c) (ap_dispatched s) of
     (False, _) \<Rightarrow> (\<lparr>drc_accepted = False, drc_action_count = 0\<rparr>, s)
   | (True, h) \<Rightarrow> let s1 = s\<lparr>ap_dispatched := h\<rparr> in
       (case ap_supervisor s1 of
          None \<Rightarrow> (\<lparr>drc_accepted = True, drc_action_count = 0\<rparr>, s1)
        | Some (_, sv) \<Rightarrow> let ids = matching_action_ids sv c in
            (\<lparr>drc_accepted = True, drc_action_count = length ids\<rparr>,
             s1\<lparr>ap_spawned := ap_spawned s1 @ map (\<lambda>i. \<lparr>sp_action_id = i, sp_context = c,
               sp_persist = persist\<rparr>) ids\<rparr>)))"

text \<open>The end of a spawned task: \<open>r\<close> is what \<^verbatim>\<open>supervisor.execute\<close> returned.\<close>

definition finish_dispatch :: "app_codec \<Rightarrow> bool \<Rightarrow> nat \<Rightarrow> action_spawn \<Rightarrow> execution_result \<Rightarrow> app_state
    \<Rightarrow> database \<Rightarrow> app_state \<times> database" where
  "finish_dispatch co avail now sp r s db =
     (let s = s\<lparr>ap_spawned := remove1 sp (ap_spawned s)\<rparr> in
      case complete_notification_action co (sp_persist sp) avail now (sp_context sp) r s db of
        (Inl _, s', db') \<Rightarrow> (set_action_feedback
            (action_failure r ''Action completed, but notification could not be dismissed'') s', db')
      | (Inr _, s', db') \<Rightarrow> (snd (publish_action_result r s'), db'))"

definition action_audit :: "app_state \<Rightarrow> audit_entry list" where
  "action_audit s = (case ap_supervisor s of None \<Rightarrow> [] | Some (_, sv) \<Rightarrow> sv_audit sv)"

section \<open>The start of the desktop\<close>

text \<open>
  \<^verbatim>\<open>load_app_state\<close> of \<^verbatim>\<open>lili/src/lib.rs\<close>: \<open>root\<close> is the pets directory. \<open>None\<close> is a panic, be it in the pet
  catalog or in the \<^verbatim>\<open>expect\<close> on the restored state.
\<close>

definition load_application :: "pet_env \<Rightarrow> (pet_id \<Rightarrow> rstr) \<Rightarrow> (pet_id \<Rightarrow> rstr) \<Rightarrow> pet_path \<Rightarrow> app_codec \<Rightarrow> bool
    \<Rightarrow> database \<Rightarrow> (persistence_error + app_state \<times> window_placement option) option" where
  "load_application env fresh fresh2 root co avail db = (case store_load co avail db of
     Inl e \<Rightarrow> Some (Inl e)
   | Inr (Some st) \<Rightarrow>
       Option.bind (load_with_selection env root (pas_selected_pet_id st)) (\<lambda>c.
       Option.bind (with_persistent_state env fresh fresh2 c st) (\<lambda>res.
       map_option (\<lambda>s. Inr (s, pas_window_placement st)) (result_ok res)))
   | Inr None \<Rightarrow>
       Option.bind (load_with_selection env root None) (\<lambda>c.
       map_option (\<lambda>s. Inr (s, None)) (with_pet_catalog env fresh fresh2 c)))"

end
