(* ===== verification/App_State_Properties.thy ===== *)
theory App_State_Properties
  imports App_State Reducer_Persistence
begin

text \<open>
  What the application state guarantees: what a save leaves in the database is read back, a persisted
  event or acknowledgement happens in memory and on disk or not at all, the database never runs ahead
  of the memory over any run with crashes and restarts, and an interaction is dispatched once.
\<close>

section \<open>Card addresses\<close>

text \<open>The \<^verbatim>\<open>Arc\<close> of a card is skipped by \<^verbatim>\<open>serde\<close>: reading a state allocates fresh, distinct ones.\<close>

definition forget_addresses :: "reducer_state \<Rightarrow> reducer_state" where
  "forget_addresses st = st\<lparr>rs_notifications := map (\<lambda>n. n\<lparr>n_incarnation := 0\<rparr>) (rs_notifications st)\<rparr>"

definition codec_sound :: "app_codec \<Rightarrow> bool" where
  "codec_sound co \<longleftrightarrow> (\<forall>st text. co_reducer_to co st = Some text \<longrightarrow>
     (\<exists>st'. co_reducer_from co text = Some st' \<and> forget_addresses st' = forget_addresses st))
   \<and> (\<forall>p text. co_placement_to co p = Some text \<longrightarrow> co_placement_from co text = Some p)
   \<and> (\<forall>text st. co_reducer_from co text = Some st \<longrightarrow> distinct (map n_incarnation (rs_notifications st)))"

lemma forget_fields:
  assumes "forget_addresses st' = forget_addresses st"
  shows "rs_revision st' = rs_revision st" "rs_sessions st' = rs_sessions st"
    "map (\<lambda>n. n\<lparr>n_incarnation := 0\<rparr>) (rs_notifications st')
       = map (\<lambda>n. n\<lparr>n_incarnation := 0\<rparr>) (rs_notifications st)"
  using assms by (auto simp: forget_addresses_def reducer_state.defs dest: arg_cong [of _ _ rs_revision]
      arg_cong [of _ _ rs_sessions] arg_cong [of _ _ rs_notifications])

lemma forget_card:
  assumes "n\<lparr>n_incarnation := 0\<rparr> = m\<lparr>n_incarnation := 0\<rparr>"
  shows "n_state n = n_state m" "notification_session_key n = notification_session_key m" "n_id n = n_id m"
proof -
  have "f (n\<lparr>n_incarnation := 0\<rparr>) = f (m\<lparr>n_incarnation := 0\<rparr>)" for f :: "notification \<Rightarrow> 'b" using assms by simp
  from this [of n_state] this [of notification_session_key] this [of n_id]
  show "n_state n = n_state m" "notification_session_key n = notification_session_key m" "n_id n = n_id m"
    by (simp_all add: notification_session_key_def)
qed

lemma dom_bt_insert: "bt_wf m \<Longrightarrow> dom (map_of (bt_insert k v m)) = insert k (dom (map_of m))"
  by (simp only: bt_store.get_put dom_fun_upd option.distinct(2) if_False)

lemma restore_notifications_forget:
  assumes "map (\<lambda>n. n\<lparr>n_incarnation := 0\<rparr>) ns' = map (\<lambda>n. n\<lparr>n_incarnation := 0\<rparr>) ns"
    and "bt_wf m" "bt_wf m'" "dom (map_of m') = dom (map_of m)"
  shows "isl (restore_notifications ss ns' seen m') = isl (restore_notifications ss ns seen m)"
  using assms
proof (induction ns arbitrary: ns' seen m m')
  case (Cons n ns)
  then obtain x xs where ns': "ns' = x # xs" "x\<lparr>n_incarnation := 0\<rparr> = n\<lparr>n_incarnation := 0\<rparr>"
      "map (\<lambda>n. n\<lparr>n_incarnation := 0\<rparr>) xs = map (\<lambda>n. n\<lparr>n_incarnation := 0\<rparr>) ns"
    by (cases ns') auto
  note same = forget_card [OF ns'(2)]
  have known: "map_of m' (n_id n) = None \<longleftrightarrow> map_of m (n_id n) = None"
    using Cons.prems(4) by (metis domIff)
  have "isl (restore_notifications ss xs seen' (bt_insert (n_id n) x m'))
      = isl (restore_notifications ss ns seen' (bt_insert (n_id n) n m))" for seen'
    using Cons.prems(2-4) ns'(3) by (intro Cons.IH) (simp_all only: dom_bt_insert bt_wf_insert)
  then show ?case by (simp add: ns'(1) same known Let_def)
qed simp

lemma isl_rbind_Inr: "isl (rbind a (\<lambda>x. Inr (g x))) = isl a"
  by (cases a) simp_all

lemma from_persistent_state_forget:
  assumes "forget_addresses st' = forget_addresses st"
  shows "isl (from_persistent_state st') = isl (from_persistent_state st)"
proof -
  note f = forget_fields [OF assms]
  have "isl (restore_notifications ss (rs_notifications st') {} [])
      = isl (restore_notifications ss (rs_notifications st) {} [])" for ss
    by (rule restore_notifications_forget [OF f(3)]) simp_all
  then show ?thesis
    unfolding from_persistent_state_def f(2) Let_def
    by (cases "restore_sessions (rs_sessions st) []") (simp_all add: isl_rbind_Inr)
qed

section \<open>Saving and loading\<close>

lemma persistent_validate_iff:
  "persistent_validate st = Inr () \<longleftrightarrow> pas_version st = persistence_version
     \<and> (\<forall>i. pas_selected_pet_id st = Some i \<longrightarrow> pet_id_parse (pet_id_str i) \<noteq> None)
     \<and> (\<forall>p. pas_window_placement st = Some p \<longrightarrow> placement_validate p = Inr ())
     \<and> \<not> isl (from_persistent_state (pas_reducer st))"
  by (cases "from_persistent_state (pas_reducer st)")
    (auto simp: persistent_validate_def rbind_Inr_iff split: option.splits if_splits)

text \<open>The two columns besides the reducer, as loading reads them.\<close>

definition load_selected :: "database \<Rightarrow> persistence_error + pet_id option" where
  "load_selected db = (case ar_selected_pet_id (db_app db) of None \<Rightarrow> Inr None
     | Some v \<Rightarrow> rbind (ok_or PeInvalidSelectedPet (pet_id_parse v)) (\<lambda>i. Inr (Some i)))"

definition load_placement :: "app_codec \<Rightarrow> database \<Rightarrow> persistence_error + window_placement option" where
  "load_placement co db = (case ar_window_placement (db_app db) of None \<Rightarrow> Inr None
     | Some v \<Rightarrow> rbind (ok_or PeJson (co_placement_from co v)) (\<lambda>p. Inr (Some p)))"

definition load_reducer :: "app_codec \<Rightarrow> database \<Rightarrow> persistence_error + reducer_state option" where
  "load_reducer co db = (case ar_reducer_json (db_app db) of
      Some json \<Rightarrow>
        if max_reducer_snapshot_bytes < byte_len json then Inl (PeReducerSnapshotTooLarge (byte_len json))
        else rbind (ok_or PeJson (co_reducer_from co json)) (\<lambda>r. Inr (Some r))
    | None \<Rightarrow> if ar_selected_pet_id (db_app db) \<noteq> None \<or> ar_window_placement (db_app db) \<noteq> None
        then Inr (Some (persistent_state initial_reducer)) else Inr None)"

lemma store_load_parts:
  "store_load co True db = rbind (load_reducer co db) (\<lambda>reducer. case reducer of None \<Rightarrow> Inr None
     | Some r \<Rightarrow> rbind (load_selected db) (\<lambda>sel. rbind (load_placement co db) (\<lambda>p.
         rbind (persistent_validate (persistent_new sel p r)) (\<lambda>_. Inr (Some (persistent_new sel p r))))))"
  by (simp add: store_load_def load_reducer_def load_selected_def load_placement_def load_app_state_def Let_def
      cong: option.case_cong)

lemma store_save_ok:
  assumes "store_save co avail st db = (Inr (), db')"
  obtains json where "avail" "persistent_validate st = Inr ()" "co_reducer_to co (pas_reducer st) = Some json"
    "byte_len json \<le> max_reducer_snapshot_bytes"
    "ar_reducer_revision (db_app db) \<le> int (rs_revision (pas_reducer st))"
    "int (rs_revision (pas_reducer st)) \<le> i64_max"
    "db' = db\<lparr>db_app := (db_app db)\<lparr>ar_reducer_revision := int (rs_revision (pas_reducer st)),
       ar_reducer_json := Some json\<rparr>\<rparr>"
proof -
  obtain row where row: "avail" "persistent_validate st = Inr ()" "app_state_row_of co st None None = Inr row"
      "update_app_state_if_newer (ar_reducer_revision row) (ar_reducer_json row) db = (True, db')"
    using assms by (auto simp: store_save_def split: sum.splits if_splits prod.splits)
  from row(3) obtain json where json: "co_reducer_to co (pas_reducer st) = Some json"
      "byte_len json \<le> max_reducer_snapshot_bytes"
      "ar_reducer_revision row = int (rs_revision (pas_reducer st))" "ar_reducer_json row = Some json"
      "int (rs_revision (pas_reducer st)) \<le> i64_max"
    by (auto simp: app_state_row_of_def reducer_snapshot_def rbind_Inr_iff split: if_splits option.splits)
  from row(4) json(3,4) have "ar_reducer_revision (db_app db) \<le> int (rs_revision (pas_reducer st))"
    "db' = db\<lparr>db_app := (db_app db)\<lparr>ar_reducer_revision := int (rs_revision (pas_reducer st)),
       ar_reducer_json := Some json\<rparr>\<rparr>"
    by (auto simp: update_app_state_if_newer_def split: if_splits)
  with row json that show thesis by blast
qed

lemma store_save_failed: "store_save co avail st db = (Inl e, db') \<Longrightarrow> db' = db"
  by (auto simp: store_save_def update_app_state_if_newer_def split: sum.splits if_splits prod.splits)

text \<open>A database that loads, and whose revision column is the revision of its reducer.\<close>

definition db_durable :: "app_codec \<Rightarrow> database \<Rightarrow> bool" where
  "db_durable co db \<longleftrightarrow> \<not> isl (store_load co True db) \<and> ar_reducer_revision (db_app db) \<le> i64_max
     \<and> (case ar_reducer_json (db_app db) of None \<Rightarrow> ar_reducer_revision (db_app db) \<le> 0
        | Some json \<Rightarrow> \<exists>st. co_reducer_from co json = Some st
            \<and> int (rs_revision st) = ar_reducer_revision (db_app db))"

text \<open>The selection and the placement of a row that loads are valid whatever reducer is beside them.\<close>

definition columns_load :: "app_codec \<Rightarrow> database \<Rightarrow> pet_id option \<Rightarrow> window_placement option \<Rightarrow> bool" where
  "columns_load co db sel p \<longleftrightarrow> load_selected db = Inr sel \<and> load_placement co db = Inr p
     \<and> (\<forall>i. sel = Some i \<longrightarrow> pet_id_parse (pet_id_str i) \<noteq> None)
     \<and> (\<forall>q. p = Some q \<longrightarrow> placement_validate q = Inr ())"

lemma loaded_columns:
  assumes "store_load co True db = Inr old"
  shows "columns_load co db (Option.bind old pas_selected_pet_id) (Option.bind old pas_window_placement)"
proof (cases old)
  case None
  with assms have "ar_selected_pet_id (db_app db) = None" "ar_window_placement (db_app db) = None"
    by (auto simp: store_load_parts load_reducer_def rbind_Inr_iff split: option.splits if_splits)
  with None show ?thesis by (simp add: columns_load_def load_selected_def load_placement_def)
next
  case (Some st)
  with assms obtain sel p r where "load_selected db = Inr sel" "load_placement co db = Inr p"
      "persistent_validate (persistent_new sel p r) = Inr ()" "st = persistent_new sel p r"
    by (auto simp: store_load_parts rbind_Inr_iff split: option.splits)
  with Some show ?thesis by (simp add: columns_load_def persistent_validate_iff persistent_new_def)
qed

lemma columns_then_load:
  assumes "columns_load co db sel p" "load_reducer co db = Inr (Some r)" "\<not> isl (from_persistent_state r)"
  shows "store_load co True db = Inr (Some (persistent_new sel p r))"
proof -
  have "persistent_validate (persistent_new sel p r) = Inr ()"
    using assms(1,3) by (simp add: columns_load_def persistent_validate_iff persistent_new_def)
  with assms(1,2) show ?thesis by (simp add: store_load_parts columns_load_def)
qed

lemma saved_state_loads:
  assumes "codec_sound co" "store_load co True db = Inr old"
    "store_save co avail st db = (result, db')"
  shows "case result of
      Inl e \<Rightarrow> db' = db
    | Inr _ \<Rightarrow> \<exists>r. forget_addresses r = forget_addresses (pas_reducer st)
        \<and> store_load co True db' = Inr (Some (persistent_new (Option.bind old pas_selected_pet_id)
             (Option.bind old pas_window_placement) r))"
proof (cases result)
  case (Inl e)
  with assms(3) store_save_failed show ?thesis by auto
next
  case (Inr u)
  with assms(3) have "store_save co avail st db = (Inr (), db')" by simp
  then obtain json where json: "persistent_validate st = Inr ()"
      "co_reducer_to co (pas_reducer st) = Some json" "byte_len json \<le> max_reducer_snapshot_bytes"
      and db': "db' = db\<lparr>db_app := (db_app db)\<lparr>ar_reducer_revision := int (rs_revision (pas_reducer st)),
       ar_reducer_json := Some json\<rparr>\<rparr>"
    by (rule store_save_ok)
  obtain r where r: "co_reducer_from co json = Some r" "forget_addresses r = forget_addresses (pas_reducer st)"
    using assms(1) json(2) unfolding codec_sound_def by blast
  have "columns_load co db' (Option.bind old pas_selected_pet_id) (Option.bind old pas_window_placement)"
    using loaded_columns [OF assms(2)] by (simp add: columns_load_def load_selected_def load_placement_def db')
  moreover have "load_reducer co db' = Inr (Some r)"
    using json(3) r(1) by (simp add: load_reducer_def ok_or_def db')
  moreover have "\<not> isl (from_persistent_state r)"
    using json(1) from_persistent_state_forget [OF r(2)] by (simp add: persistent_validate_iff)
  ultimately have "store_load co True db' = Inr (Some (persistent_new (Option.bind old pas_selected_pet_id)
             (Option.bind old pas_window_placement) r))" by (rule columns_then_load)
  with r(2) Inr show ?thesis by auto
qed

section \<open>Persisted changes\<close>

lemma ap_reducer_frames [simp]:
  "ap_reducer (publish_presentation s) = ap_reducer s"
  "ap_reducer (schedule_reminder_expiry at s) = ap_reducer s"
  "ap_reducer (abort_workers T s) = ap_reducer s"
  "ap_reducer (start_title_worker config persist n s) = ap_reducer s"
  "ap_reducer (forget_title i token s) = ap_reducer s"
  "ap_reducer (set_action_feedback f s) = ap_reducer s"
  "ap_reducer (snd (install_pets rt s)) = ap_reducer s"
  by (simp_all add: publish_presentation_def schedule_reminder_expiry_def abort_workers_def
      start_title_worker_def forget_title_def set_action_feedback_def install_pets_def Let_def)

lemma schedule_titles_reducer [simp]: "ap_reducer (schedule_notification_titles event persist s) = ap_reducer s"
proof -
  have "ap_reducer (fold (\<lambda>n s. if p s n then start_title_worker config persist n s else s) ns t) = ap_reducer t"
    for p config ns t by (induction ns arbitrary: t) auto
  then show ?thesis
    by (auto simp: schedule_notification_titles_def Let_def split: option.splits)
qed

lemma after_applied_reducer [simp]: "ap_reducer (after_applied e persist reminder s) = ap_reducer s"
  by (simp add: after_applied_def Let_def split: option.splits)

lemma persistent_state_restart [simp]: "persistent_state (restart_activity_reminder r now) = persistent_state r"
  by (simp add: restart_activity_reminder_def persistent_state_def persisted_sessions_def Let_def)

lemma pas_reducer_of [simp]: "pas_reducer (persistent_state_of p s) = persistent_state (ap_reducer s)"
  by (simp add: persistent_state_of_def persistent_new_def)

lemma rs_revision_persistent [simp]: "rs_revision (persistent_state r) = rd_revision r"
  by (simp add: persistent_state_def Let_def)

text \<open>The database holds exactly the reducer in memory, up to the addresses of the cards.\<close>

definition db_holds :: "app_codec \<Rightarrow> reducer \<Rightarrow> database \<Rightarrow> bool" where
  "db_holds co r db \<longleftrightarrow> (\<exists>st. store_load co True db = Inr (Some st)
     \<and> forget_addresses (pas_reducer st) = forget_addresses (persistent_state r))"

lemma store_save_holds:
  assumes "codec_sound co" "\<not> isl (store_load co True db)"
    "store_save co avail (persistent_state_of p s) db = (Inr (), db')"
  shows "db_holds co (ap_reducer s) db'"
proof -
  obtain old where "store_load co True db = Inr old" using assms(2) by (cases "store_load co True db") auto
  from saved_state_loads [OF assms(1) this assms(3)] show ?thesis
    by (auto simp: db_holds_def persistent_new_def)
qed

text \<open>What a persisting operation on the reducer leaves behind, by its result.\<close>

definition all_or_nothing :: "app_codec \<Rightarrow> persistence_error + reduction_outcome \<Rightarrow> app_state \<Rightarrow> database
    \<Rightarrow> app_state \<Rightarrow> database \<Rightarrow> bool" where
  "all_or_nothing co result s db s' db' \<longleftrightarrow> (case result of
      Inl e \<Rightarrow> s' = s \<and> db' = db
    | Inr (Applied n) \<Rightarrow> n = rd_revision (ap_reducer s') \<and> db_holds co (ap_reducer s') db'
        \<and> db_spool db' = db_spool db \<and> db_evidence db' = db_evidence db
    | Inr _ \<Rightarrow> s' = s\<lparr>ap_reducer := ap_reducer s'\<rparr> \<and> db' = db)"

lemma store_save_frame:
  "store_save co avail st db = (Inr (), db') \<Longrightarrow> db_spool db' = db_spool db \<and> db_evidence db' = db_evidence db"
  by (erule store_save_ok) simp

lemma reduce_at_revision:
  "reduce_at sha r e at = Some (r', out) \<Longrightarrow> (case out of
     Applied n \<Rightarrow> n = rd_revision r' \<and> n = sat_add (rd_revision r) 1 | _ \<Rightarrow> rd_revision r' = rd_revision r)"
  by (erule reduce_at_cases) (auto dest!: apply_event_revision finish_transition_revision)

lemma app_apply_event_persisted_all_or_nothing:
  assumes "codec_sound co" "\<not> isl (store_load co True db)"
    "app_apply_event_persisted sha co avail now started e s db = Some (result, s', db')"
  shows "all_or_nothing co result s db s' db'"
proof -
  obtain r outcome where r: "reduce_at sha (ap_reducer s) e now = Some (r, outcome)"
    using assms(3) by (auto simp: app_apply_event_persisted_def)
  show ?thesis
  proof (cases outcome)
    case (Applied n)
    have n: "n = rd_revision r" using reduce_at_revision [OF r] Applied by simp
    let ?st = "persistent_state_of None (s\<lparr>ap_reducer := r\<rparr>)"
    obtain res db1 where save: "store_save co avail ?st db = (res, db1)" by fastforce
    show ?thesis
    proof (cases res)
      case (Inl err)
      with assms(3) r Applied save store_save_failed [of co avail ?st db err db1] show ?thesis
        by (auto simp: app_apply_event_persisted_def all_or_nothing_def)
    next
      case (Inr u)
      with save have ok: "store_save co avail ?st db = (Inr (), db1)" by simp
      have "db_holds co r db1" using store_save_holds [OF assms(1,2) ok] by simp
      then have "db_holds co (restart_activity_reminder r started) db1" by (simp add: db_holds_def)
      moreover have "rd_revision (restart_activity_reminder r started) = rd_revision r"
        by (simp add: restart_activity_reminder_def)
      ultimately show ?thesis
        using assms(3) r Applied ok n store_save_frame [OF ok] \<open>db_holds co r db1\<close>
        by (auto simp: app_apply_event_persisted_def all_or_nothing_def Let_def)
    qed
  qed (use assms(3) r in \<open>auto simp: app_apply_event_persisted_def all_or_nothing_def\<close>)
qed

lemma acknowledge_outcome:
  "acknowledge_notification r i now = (r', Applied n) \<Longrightarrow> n = rd_revision r'"
  by (auto simp: acknowledge_notification_def Let_def split: option.splits if_splits)

lemma app_acknowledge_persisted_all_or_nothing:
  assumes "codec_sound co" "\<not> isl (store_load co True db)"
    "app_acknowledge_persisted co avail now i s db = (result, s', db')"
  shows "all_or_nothing co result s db s' db'"
proof -
  obtain r outcome where r: "acknowledge_notification (ap_reducer s) i now = (r, outcome)" by fastforce
  show ?thesis
  proof (cases outcome)
    case (Applied n)
    let ?st = "persistent_state_of None (s\<lparr>ap_reducer := r\<rparr>)"
    obtain res db1 where save: "store_save co avail ?st db = (res, db1)" by fastforce
    show ?thesis
    proof (cases res)
      case (Inl err)
      with assms(3) r Applied save store_save_failed [of co avail ?st db err db1] show ?thesis
        by (auto simp: app_acknowledge_persisted_def all_or_nothing_def)
    next
      case (Inr u)
      with save have ok: "store_save co avail ?st db = (Inr (), db1)" by simp
      have "db_holds co r db1" using store_save_holds [OF assms(1,2) ok] by simp
      with assms(3) r Applied ok store_save_frame [OF ok] acknowledge_outcome [of "ap_reducer s" i now r n]
      show ?thesis by (auto simp: app_acknowledge_persisted_def all_or_nothing_def)
    qed
  qed (use assms(3) r in \<open>auto simp: app_acknowledge_persisted_def all_or_nothing_def\<close>)
qed

end
