(* ===== verification/App_Durability.thy ===== *)
theory App_Durability
  imports App_State_Properties
begin

text \<open>
  The invariant of the application state and its database: the database loads and its revision never
  runs ahead of the one in memory. Saving keeps it and is never refused as outdated.
\<close>

section \<open>The invariant\<close>

definition durable :: "app_codec \<Rightarrow> reducer \<Rightarrow> database \<Rightarrow> bool" where
  "durable co r db \<longleftrightarrow> reducer_wf r \<and> rd_revision r \<le> u64_max \<and> db_durable co db
     \<and> ar_reducer_revision (db_app db) \<le> int (rd_revision r)"

named_theorems durable_intros

lemma reducer_step_revision:
  "reducer_step sha r r' \<Longrightarrow> rd_revision r \<le> u64_max \<Longrightarrow> rd_revision r \<le> rd_revision r' \<and> rd_revision r' \<le> u64_max"
proof (induction rule: reducer_step.induct)
  case (step_reduce r e at r' out)
  then show ?case using reduce_at_revision [OF step_reduce(1)]
    by (auto simp: sat_add_def split: reduction_outcome.splits)
next
  case (step_acknowledge r i now)
  then show ?case by (auto simp: acknowledge_notification_def sat_add_def Let_def split: option.splits)
next
  case (step_advance r now)
  then show ?case using revision_frames(4) [of r now]
    by (cases "refresh_presentation r now") (auto simp: advance_presentation_def sat_add_def Let_def)
next
  case (step_restart r now)
  then show ?case by (simp add: restart_activity_reminder_def)
next
  case (step_title r original title)
  then show ?case by (auto simp: update_notification_title_def sat_add_def Let_def split: option.splits)
qed

lemma durable_step_reducer [durable_intros]:
  assumes "reducer_step sha r r'" "durable co r db"
  shows "durable co r' db"
  using reducer_step_revision [OF assms(1)] reducer_step_wf [OF assms(1)] assms(2)
  by (auto simp: durable_def)

lemma persistent_store_durable:
  assumes "codec_sound co" "durable co (ap_reducer s) db"
    "store_save co avail (persistent_state_of p s) db = (res, db')"
  shows "durable co (ap_reducer s) db'"
proof (cases res)
  case (Inl e)
  with assms(3) have "db' = db" by (intro store_save_failed) simp
  with assms(2) show ?thesis by simp
next
  case (Inr u)
  with assms(3) have save: "store_save co avail (persistent_state_of p s) db = (Inr (), db')" by simp
  from save obtain json where json: "co_reducer_to co (persistent_state (ap_reducer s)) = Some json"
      "int (rd_revision (ap_reducer s)) \<le> i64_max"
      and db': "db' = db\<lparr>db_app := (db_app db)\<lparr>ar_reducer_revision := int (rd_revision (ap_reducer s)),
       ar_reducer_json := Some json\<rparr>\<rparr>"
    by (rule store_save_ok) simp
  obtain r where r: "co_reducer_from co json = Some r"
      "forget_addresses r = forget_addresses (persistent_state (ap_reducer s))"
    using assms(1) json(1) unfolding codec_sound_def by blast
  have "db_holds co (ap_reducer s) db'"
    using store_save_holds [OF assms(1) _ save] assms(2) by (simp add: durable_def db_durable_def)
  then have "\<not> isl (store_load co True db')" by (auto simp: db_holds_def)
  then have "db_durable co db'" using r forget_fields(1) [OF r(2)] json(2) by (simp add: db_durable_def db')
  with assms(2) show ?thesis by (simp add: durable_def db')
qed

text \<open>Only the comparison of revisions answers \<^verbatim>\<open>ReducerSnapshotRejected\<close>.\<close>

lemma placement_validate_error: "placement_validate p = Inl e \<Longrightarrow> e = PeInvalidWindowPlacement"
  by (simp add: placement_validate_def split: if_splits)

lemma persistent_validate_not_rejected: "persistent_validate st \<noteq> Inl PeReducerSnapshotRejected"
  by (auto simp: persistent_validate_def rbind_Inl_iff map_err_Inl_iff
      dest!: placement_validate_error split: if_splits option.splits)

lemma app_state_row_not_rejected: "app_state_row_of co st a b \<noteq> Inl PeReducerSnapshotRejected"
  by (auto simp: app_state_row_of_def reducer_snapshot_def placement_document_def rbind_Inl_iff
      map_err_Inl_iff ok_or_def split: if_splits option.splits)

lemma store_not_outdated:
  assumes "durable co r db" "rd_revision (ap_reducer s) = sat_add (rd_revision r) 1"
  shows "store_save co avail (persistent_state_of p s) db \<noteq> (Inl PeReducerSnapshotRejected, db')"
proof
  assume rejected: "store_save co avail (persistent_state_of p s) db = (Inl PeReducerSnapshotRejected, db')"
  then obtain row where "app_state_row_of co (persistent_state_of p s) None None = Inr row"
    "\<not> ar_reducer_revision (db_app db) < ar_reducer_revision row"
    using persistent_validate_not_rejected app_state_row_not_rejected
    by (auto simp: store_save_def update_app_state_if_newer_def split: sum.splits if_splits prod.splits)
  moreover from this(1) have "ar_reducer_revision row = int (rd_revision (ap_reducer s))"
    "int (rd_revision (ap_reducer s)) \<le> i64_max"
    by (auto simp: app_state_row_of_def rbind_Inr_iff split: if_splits)
  ultimately show False using assms
    by (auto simp: durable_def sat_add_def u64_max_def i64_max_def min_def split: if_splits)
qed

end
