(* ===== verification/App_Runs.thy ===== *)
theory App_Runs
  imports App_Durability
begin

text \<open>
  The running desktop over time: every operation of the application state, other writers of the
  database, and restarts, as a step relation on the state and the database.
\<close>

section \<open>Writers of the other columns\<close>

text \<open>What loading reads of the database.\<close>

definition app_columns :: "database \<Rightarrow> rstr option \<times> rstr option \<times> int \<times> rstr option" where
  "app_columns db = (ar_selected_pet_id (db_app db), ar_window_placement (db_app db),
     ar_reducer_revision (db_app db), ar_reducer_json (db_app db))"

lemma store_load_columns: "app_columns db' = app_columns db \<Longrightarrow> store_load co True db' = store_load co True db"
  by (simp add: store_load_parts load_reducer_def load_selected_def load_placement_def app_columns_def
      cong: option.case_cong)

lemma durable_columns [durable_intros]:
  "durable co r db \<Longrightarrow> app_columns db' = app_columns db \<Longrightarrow> durable co r db'"
  using store_load_columns [of db' db co] by (simp add: durable_def db_durable_def app_columns_def cong: option.case_cong)

lemma initial_state_loads: "\<not> isl (from_persistent_state (persistent_state initial_reducer))"
  by (simp add: persistent_state_def persisted_sessions_def initial_reducer_def select_notifications_def
      from_persistent_state_def bt_values_def)

lemma durable_other_columns:
  assumes "durable co r db" "columns_load co db' sel p"
    and "ar_reducer_json (db_app db') = ar_reducer_json (db_app db)"
    and "ar_reducer_revision (db_app db') = ar_reducer_revision (db_app db)"
  shows "durable co r db'"
proof -
  have "\<not> isl (store_load co True db')"
  proof (cases "ar_reducer_json (db_app db)")
    case None
    show ?thesis
    proof (cases "load_reducer co db' = Inr None")
      case True
      then show ?thesis by (simp add: store_load_parts)
    next
      case False
      with None assms(3) have "load_reducer co db' = Inr (Some (persistent_state initial_reducer))"
        by (auto simp: load_reducer_def split: if_splits)
      with columns_then_load [OF assms(2) _ initial_state_loads] show ?thesis by simp
    qed
  next
    case (Some json)
    then have same: "load_reducer co db' = load_reducer co db" using assms(3) by (simp add: load_reducer_def)
    have "\<not> isl (store_load co True db)" using assms(1) by (simp add: durable_def db_durable_def)
    then obtain r' sel' p' where r': "load_reducer co db = Inr (Some r')"
        "persistent_validate (persistent_new sel' p' r') = Inr ()"
      using Some by (cases "store_load co True db")
        (auto simp: store_load_parts load_reducer_def ok_or_def rbind_Inr_iff split: if_splits option.splits)
    then have "\<not> isl (from_persistent_state r')" by (simp add: persistent_validate_iff persistent_new_def)
    with columns_then_load [OF assms(2)] same r'(1) show ?thesis by simp
  qed
  with assms show ?thesis by (simp add: durable_def db_durable_def cong: option.case_cong)
qed

lemma durable_loads:
  assumes "durable co r db"
  obtains sel p where "columns_load co db sel p"
proof -
  obtain old where "store_load co True db = Inr old"
    using assms by (cases "store_load co True db") (auto simp: durable_def db_durable_def)
  from that [OF loaded_columns [OF this]] show thesis .
qed

lemma save_selected_pet_durable [durable_intros]:
  assumes "durable co r db" "save_selected_pet avail st db = (res, db')"
  shows "durable co r db'"
proof (cases "db' = db")
  case False
  with assms(2) have v: "persistent_validate st = Inr ()"
      and db': "db' = update_selected_pet (map_option pet_id_str (pas_selected_pet_id st)) db"
    by (auto simp: save_selected_pet_def split: sum.splits if_splits)
  obtain sel p where cols: "columns_load co db sel p" by (rule durable_loads [OF assms(1)])
  have "columns_load co db' (pas_selected_pet_id st) p"
  proof (cases "pas_selected_pet_id st")
    case None
    with cols show ?thesis by (simp add: columns_load_def load_selected_def load_placement_def db' update_selected_pet_def)
  next
    case (Some i)
    with v obtain j where "pet_id_parse (pet_id_str i) = Some j" by (auto simp: persistent_validate_iff)
    moreover from pet_id_parse_Some [OF this] have "j = i" by (cases i, cases j) simp
    ultimately show ?thesis using cols Some
      by (simp add: columns_load_def load_selected_def load_placement_def db' update_selected_pet_def ok_or_def)
  qed
  from durable_other_columns [OF assms(1) this] show ?thesis by (simp add: db' update_selected_pet_def)
qed (use assms(1) in simp)

lemma save_window_placement_durable [durable_intros]:
  assumes "durable co r db" "codec_sound co" "save_window_placement co avail p db = (res, db')"
  shows "durable co r db'"
proof (cases "db' = db")
  case False
  with assms(3) obtain t where t: "placement_validate p = Inr ()" "placement_document co p = Inr t"
      and db': "db' = update_window_placement (Some t) db"
    by (auto simp: save_window_placement_def rbind_Inr_iff split: sum.splits if_splits)
  from t(2) have "co_placement_to co p = Some t"
    by (auto simp: placement_document_def json_document_parse_def ok_or_def rbind_Inr_iff split: option.splits if_splits)
  with assms(2) have "co_placement_from co t = Some p" by (simp add: codec_sound_def)
  moreover obtain sel q where "columns_load co db sel q" by (rule durable_loads [OF assms(1)])
  ultimately have "columns_load co db' sel (Some p)"
    using t(1) by (simp add: columns_load_def load_selected_def load_placement_def db' update_window_placement_def ok_or_def)
  from durable_other_columns [OF assms(1) this] show ?thesis by (simp add: db' update_window_placement_def)
qed (use assms(1) in simp)

section \<open>Steps of the running desktop\<close>

text \<open>
  \<open>other_writer\<close> is any use of the database that leaves the columns of the application state alone: the
  spool, its metrics, the evidence.
\<close>

inductive running_step :: "(byte list \<Rightarrow> byte list) \<Rightarrow> app_codec \<Rightarrow> app_state \<times> database \<Rightarrow> app_state \<times> database \<Rightarrow> bool"
  for sha :: "byte list \<Rightarrow> byte list" and co :: app_codec where
  event: "app_apply_event sha now e s = Some (out, s') \<Longrightarrow> running_step sha co (s, db) (s', db)"
| event_saved: "app_apply_event_persisted sha co avail now started e s db = Some (res, s', db')
    \<Longrightarrow> running_step sha co (s, db) (s', db')"
| advanced: "running_step sha co (s, db) (snd (app_advance_presentation now s), db)"
| timer: "running_step sha co (s, db) (fire_timer t s, db)"
| acknowledged: "running_step sha co (s, db) (snd (app_acknowledge now i s), db)"
| acknowledged_saved: "app_acknowledge_persisted co avail now i s db = (res2, s', db')
    \<Longrightarrow> running_step sha co (s, db) (s', db')"
| titled: "complete_title co avail w title s db = (s', db') \<Longrightarrow> running_step sha co (s, db) (s', db')"
| action_done: "finish_dispatch co avail now sp r s db = (s', db') \<Longrightarrow> running_step sha co (s, db) (s', db')"
| dispatched: "running_step sha co (s, db) (snd (dispatch_interaction c persist s), db)"
| configured: "running_step sha co (s, db) (snd (configure_actions l n persist s), db)"
| titles_shut: "running_step sha co (s, db) (shutdown_title_actions s, db)"
| settings: "running_step sha co (s, db) (replace_settings u s, db)"
| pets_replaced: "replace_pet_catalog env fresh fresh2 cat s = Some (p, s')
    \<Longrightarrow> running_step sha co (s, db) (s', db)"
| pet_selected: "select_pet env fresh with_store avail root pid s db = (res3, s', db')
    \<Longrightarrow> running_step sha co (s, db) (s', db')"
| diagnosed: "running_step sha co (s, db) (s\<lparr>ap_ingestion := d\<rparr>, db)"
| placed: "save_window_placement co avail q db = (res4, db') \<Longrightarrow> running_step sha co (s, db) (s, db')"
| other_writer: "app_columns db' = app_columns db \<Longrightarrow> running_step sha co (s, db) (s, db')"

text \<open>\<open>restarted\<close> is a crash or an exit followed by a start.\<close>

inductive desktop_step :: "(byte list \<Rightarrow> byte list) \<Rightarrow> app_codec \<Rightarrow> app_state \<times> database \<Rightarrow> app_state \<times> database \<Rightarrow> bool"
  for sha :: "byte list \<Rightarrow> byte list" and co :: app_codec where
  running: "running_step sha co x y \<Longrightarrow> desktop_step sha co x y"
| restarted: "load_application env fresh fresh2 root co avail db = Some (Inr (s', place))
    \<Longrightarrow> desktop_step sha co (s, db) (s', db)"

lemma durable_event:
  assumes "app_apply_event sha now e s = Some (out, s')" "durable co (ap_reducer s) db"
  shows "durable co (ap_reducer s') db"
proof -
  obtain r where r: "reduce_at sha (ap_reducer s) e now = Some (r, out)" "ap_reducer s' = r"
    using assms(1) by (auto simp: app_apply_event_def Let_def split: if_splits)
  from durable_step_reducer [OF step_reduce [OF r(1)] assms(2)] r(2) show ?thesis by simp
qed

lemma durable_event_saved:
  assumes "app_apply_event_persisted sha co avail now started e s db = Some (res, s', db')"
    "durable co (ap_reducer s) db" "codec_sound co"
  shows "durable co (ap_reducer s') db'"
proof -
  obtain r out where r: "reduce_at sha (ap_reducer s) e now = Some (r, out)"
    using assms(1) by (auto simp: app_apply_event_persisted_def)
  let ?s = "s\<lparr>ap_reducer := r\<rparr>"
  have d: "durable co (ap_reducer ?s) db" using durable_step_reducer [OF step_reduce [OF r] assms(2)] by simp
  obtain res1 db1 where save: "store_save co avail (persistent_state_of None ?s) db = (res1, db1)" by fastforce
  have d1: "durable co r db1" using persistent_store_durable [OF assms(3) d save] by simp
  have d2: "durable co (restart_activity_reminder r started) db1"
    by (rule durable_step_reducer [OF step_restart d1])
  show ?thesis
  proof (cases "is_applied out")
    case True
    show ?thesis
    proof (cases res1)
      case (Inl err)
      with save store_save_failed have "db1 = db" by blast
      with assms(1,2) r True save Inl show ?thesis by (auto simp: app_apply_event_persisted_def)
    next
      case (Inr u)
      with assms(1) r True save d1 d2 show ?thesis
        by (auto simp: app_apply_event_persisted_def Let_def split: if_splits)
    qed
  next
    case False
    with assms(1) r d show ?thesis by (auto simp: app_apply_event_persisted_def)
  qed
qed

lemma durable_advanced [durable_intros]:
  "durable co (ap_reducer s) db \<Longrightarrow> durable co (ap_reducer (snd (app_advance_presentation now s))) db"
  using durable_step_reducer [OF step_advance [of undefined "ap_reducer s" now]]
  by (cases "advance_presentation (ap_reducer s) now") (auto simp: app_advance_presentation_def Let_def)

lemma durable_timer [durable_intros]:
  "durable co (ap_reducer s) db \<Longrightarrow> durable co (ap_reducer (fire_timer t s)) db"
  by (cases t) (auto simp: fire_timer_def Let_def intro: durable_intros)

lemma durable_acknowledged [durable_intros]:
  "durable co (ap_reducer s) db \<Longrightarrow> durable co (ap_reducer (snd (app_acknowledge now i s))) db"
  using durable_step_reducer [OF step_acknowledge [of undefined "ap_reducer s" i now]]
  by (cases "acknowledge_notification (ap_reducer s) i now") (auto simp: app_acknowledge_def Let_def)

text \<open>The reducer is changed, saved, and put back when the save fails.\<close>

lemma durable_save_or_rollback:
  assumes "durable co (ap_reducer s) db" "durable co r db" "codec_sound co"
    "store_save co avail (persistent_state_of None (s\<lparr>ap_reducer := r\<rparr>)) db = (res, db')"
  shows "durable co (case res of Inl e \<Rightarrow> ap_reducer s | Inr u \<Rightarrow> r) db'"
proof (cases res)
  case (Inl e)
  with assms(4) store_save_failed have "db' = db" by blast
  with Inl assms(1) show ?thesis by simp
next
  case (Inr u)
  from persistent_store_durable [OF assms(3) _ assms(4)] assms(2) Inr show ?thesis by simp
qed

lemma durable_acknowledged_saved:
  assumes "app_acknowledge_persisted co avail now i s db = (res, s', db')"
    "durable co (ap_reducer s) db" "codec_sound co"
  shows "durable co (ap_reducer s') db'"
proof -
  obtain r out where r: "acknowledge_notification (ap_reducer s) i now = (r, out)" by fastforce
  have d: "durable co r db"
    using durable_step_reducer [OF step_acknowledge [of undefined "ap_reducer s" i now] assms(2)] r by simp
  obtain res1 db1 where save: "store_save co avail (persistent_state_of None (s\<lparr>ap_reducer := r\<rparr>)) db = (res1, db1)"
    by fastforce
  from durable_save_or_rollback [OF assms(2) d assms(3) save] assms(1) r d save show ?thesis
    by (auto simp: app_acknowledge_persisted_def Let_def split: sum.splits if_splits)
qed

lemma durable_titled:
  assumes "complete_title co avail w title s db = (s', db')"
    "durable co (ap_reducer s) db" "codec_sound co"
  shows "durable co (ap_reducer s') db'"
proof -
  define n t where "n = tw_notification w" and "t = abort_workers {tw_token w} s"
  have frame: "ap_reducer t = ap_reducer s" by (simp add: t_def)
  have saved: "durable co (ap_reducer s2) db2"
    if "save_notification_title co p avail n x t db = (res, s2, db2)" for p x res s2 db2
  proof -
    obtain r b where r: "update_notification_title (ap_reducer t) n x = (r, b)" by fastforce
    have d: "durable co r db"
      using durable_step_reducer [OF step_title [of undefined "ap_reducer s" n x] assms(2)] r frame by simp
    obtain res1 db1 where save: "store_save co avail (persistent_state_of None (t\<lparr>ap_reducer := r\<rparr>)) db = (res1, db1)"
      by fastforce
    from durable_save_or_rollback [OF _ d assms(3) save] that r d save assms(2) frame show ?thesis
      by (auto simp: save_notification_title_def Let_def split: sum.splits if_splits bool.splits)
  qed
  have "durable co (ap_reducer t) db" using assms(2) frame by simp
  with assms(1) show ?thesis
    unfolding complete_title_def n_def [symmetric] t_def [symmetric] Let_def
    by (auto dest: saved split: if_splits option.splits prod.splits)
qed

lemma durable_action_done:
  assumes "finish_dispatch co avail now sp r s db = (s', db')" "durable co (ap_reducer s) db" "codec_sound co"
  shows "durable co (ap_reducer s') db'"
proof -
  define t where "t = s\<lparr>ap_spawned := remove1 sp (ap_spawned s)\<rparr>"
  have t: "durable co (ap_reducer t) db" using assms(2) by (simp add: t_def)
  have acked: "durable co (ap_reducer s2) db2"
    if "complete_notification_action co p avail now c r t db = (res, s2, db2)" for p c res s2 db2
    using that t assms(3) durable_acknowledged [OF t, of now]
    by (auto simp: complete_notification_action_def durable_acknowledged_saved
        split: if_splits option.splits sum.splits prod.splits)
  have published: "ap_reducer (snd (publish_action_result r u)) = ap_reducer u" for u
    by (simp add: publish_action_result_def split: option.splits)
  from assms(1) show ?thesis
    unfolding finish_dispatch_def t_def [symmetric] Let_def
    by (auto simp: published dest: acked split: sum.splits prod.splits)
qed

lemma unchanged_reducer [simp]:
  "ap_reducer (snd (dispatch_interaction c persist s)) = ap_reducer s"
  "ap_reducer (snd (configure_actions l n persist s)) = ap_reducer s"
  "ap_reducer (shutdown_title_actions s) = ap_reducer s"
  "ap_reducer (replace_settings u s) = ap_reducer s"
  by (auto simp: dispatch_interaction_def configure_actions_def shutdown_title_actions_def
      replace_settings_def Let_def split: prod.splits bool.splits option.splits)

lemma replaced_reducer: "replace_pet_catalog env fresh fresh2 cat s = Some (p, s') \<Longrightarrow> ap_reducer s' = ap_reducer s"
  by (auto simp: replace_pet_catalog_def install_pets_def Let_def)

lemma durable_pet_selected:
  assumes "select_pet env fresh with_store avail root pid s db = (res, s', db')" "durable co (ap_reducer s) db"
  shows "durable co (ap_reducer s') db'"
  using assms
  by (auto simp: select_pet_def install_pets_def Let_def intro: durable_intros
      split: selection_preparation.splits sum.splits prod.splits if_splits)

lemma durable_loaded:
  assumes "codec_sound co" "durable co r db" "store_load co True db = Inr (Some st)"
    "from_persistent_state (pas_reducer st) = Inr r'"
  shows "durable co r' db"
proof -
  have "rd_revision r' = rs_revision (pas_reducer st)"
    using assms(4) by (auto simp: from_persistent_state_def rbind_Inr_iff Let_def split: if_splits)
  moreover obtain q where q: "load_reducer co db = Inr (Some q)" "pas_reducer st = q"
    using assms(3) by (auto simp: store_load_parts rbind_Inr_iff persistent_new_def split: option.splits)
  have "int (rs_revision q) = ar_reducer_revision (db_app db) \<or> ar_reducer_revision (db_app db) \<le> 0 \<and> q = persistent_state initial_reducer"
    "distinct (map n_incarnation (rs_notifications q))"
    using q(1) assms(1,2)
    by (auto simp: load_reducer_def durable_def db_durable_def codec_sound_def ok_or_def rbind_Inr_iff
        persistent_state_def initial_reducer_def select_notifications_def bt_values_def
        split: option.splits if_splits)
  ultimately show ?thesis
    using assms(2) from_persistent_state_wf [OF assms(4)] q(2)
    by (auto simp: durable_def db_durable_def u64_max_def i64_max_def initial_reducer_def)
qed

lemma app_with_reducer_reducer: "app_with_reducer env fresh fresh2 c r = Some s \<Longrightarrow> ap_reducer s = r"
  by (auto simp: app_with_reducer_def Let_def)

lemma durable_restarted:
  assumes "load_application env fresh fresh2 root co avail db = Some (Inr (s', place))"
    "durable co r db" "codec_sound co"
  shows "durable co (ap_reducer s') db"
proof -
  have avail: "store_load co avail db = store_load co True db"
    using assms(1) by (cases avail) (auto simp: load_application_def store_load_def split: sum.splits)
  have fresh: "durable co initial_reducer db" if "store_load co True db = Inr None"
  proof -
    have "ar_reducer_json (db_app db) = None"
      using that by (auto simp: store_load_parts load_reducer_def rbind_Inr_iff split: option.splits if_splits)
    with assms(2) show ?thesis by (simp add: durable_def db_durable_def) (simp add: initial_reducer_def u64_max_def)
  qed
  show ?thesis
  proof (cases "store_load co True db")
    case (Inr old)
    show ?thesis
    proof (cases old)
      case None
      with Inr assms(1) avail fresh show ?thesis
        by (auto simp: load_application_def with_pet_catalog_def bind_eq_Some_conv dest!: app_with_reducer_reducer)
    next
      case (Some st)
      with Inr assms(1) avail obtain r' where "from_persistent_state (pas_reducer st) = Inr r'" "ap_reducer s' = r'"
        by (cases "from_persistent_state (pas_reducer st)")
          (auto simp: load_application_def with_persistent_state_def bind_eq_Some_conv
            dest!: app_with_reducer_reducer)
      with durable_loaded [OF assms(3,2)] Inr Some show ?thesis by simp
    qed
  qed (use assms(1) avail in \<open>simp add: load_application_def\<close>)
qed

definition desktop_inv :: "app_codec \<Rightarrow> app_state \<times> database \<Rightarrow> bool" where
  "desktop_inv co x \<longleftrightarrow> (codec_sound co \<longrightarrow> durable co (ap_reducer (fst x)) (snd x))"

definition desktop_init :: "app_state \<times> database \<Rightarrow> bool" where
  "desktop_init x \<longleftrightarrow> snd x = empty_database
     \<and> (\<exists>env fresh fresh2 c. with_pet_catalog env fresh fresh2 c = Some (fst x))"

lemma running_step_inv: "running_step sha co x y \<Longrightarrow> desktop_inv co x \<Longrightarrow> desktop_inv co y"
  by (induction rule: running_step.induct)
    (auto simp: desktop_inv_def replaced_reducer intro: durable_intros durable_event durable_event_saved
      durable_acknowledged_saved durable_titled durable_action_done durable_pet_selected)

lemma desktop_step_inv: "desktop_step sha co x y \<Longrightarrow> desktop_inv co x \<Longrightarrow> desktop_inv co y"
  by (induction rule: desktop_step.induct) (blast intro: running_step_inv, auto simp: desktop_inv_def intro: durable_restarted)

lemma desktop_init_inv: "desktop_init x \<Longrightarrow> desktop_inv co x"
  by (auto simp: desktop_init_def desktop_inv_def with_pet_catalog_def durable_def db_durable_def
      store_load_parts load_reducer_def empty_database_def empty_app_state_def dest!: app_with_reducer_reducer)
    (simp_all add: initial_reducer_def i64_max_def)

interpretation desktop: invariant_system desktop_init "desktop_step sha co" "desktop_inv co"
  for sha co
  by unfold_locales (auto intro: desktop_init_inv desktop_step_inv)

end
