(* ===== verification/App_Guarantees.thy ===== *)
theory App_Guarantees
  imports App_Runs Supervisor_Runs
begin

text \<open>
  The guarantees of the application state: persisted changes happen in memory and on disk or not at
  all, the database is never ahead of the memory, and an interaction is dispatched once.
\<close>

section \<open>A concrete codec and state\<close>

definition sample_reduced :: reducer where
  "sample_reduced = (case reduce_at sample_sha initial_reducer (sample_event TurnStarted ''t1'' ''e1'' 5) 6 of
     Some (r, out) \<Rightarrow> r | None \<Rightarrow> initial_reducer)"

text \<open>A codec that serialises exactly one state.\<close>

definition sample_codec :: app_codec where
  "sample_codec = \<lparr>co_reducer_to = (\<lambda>st. if st = persistent_state sample_reduced then Some (lit ''r'') else None),
     co_reducer_from = (\<lambda>text. if text = lit ''r'' then Some (persistent_state sample_reduced) else None),
     co_placement_to = (\<lambda>p. None), co_placement_from = (\<lambda>text. None), co_json_ok = (\<lambda>text. True)\<rparr>"

lemma sample_reduced_run:
  "reduce_at sample_sha initial_reducer (sample_event TurnStarted ''t1'' ''e1'' 5) 6 = Some (sample_reduced, Applied 1)"
  "rd_notifications sample_reduced = []" "rd_revision sample_reduced = 1"
proof -
  obtain r where "reduce_at sample_sha initial_reducer (sample_event TurnStarted ''t1'' ''e1'' 5) 6 = Some (r, Applied 1)"
    "rd_notifications r = []" "rd_revision r = 1"
    by (simp add: run_defs)
  then show "reduce_at sample_sha initial_reducer (sample_event TurnStarted ''t1'' ''e1'' 5) 6 = Some (sample_reduced, Applied 1)"
  "rd_notifications sample_reduced = []" "rd_revision sample_reduced = 1"
    by (simp_all add: sample_reduced_def)
qed

lemma sample_persistent:
  "rs_notifications (persistent_state sample_reduced) = []" "rs_revision (persistent_state sample_reduced) = 1"
  by (simp_all add: persistent_state_def sample_reduced_run bt_values_def select_notifications_def)

lemma sample_codec_sound: "codec_sound sample_codec"
  by (auto simp: codec_sound_def sample_codec_def sample_persistent)

lemma sample_restores: "\<not> isl (from_persistent_state (persistent_state sample_reduced))"
proof -
  have "sr_retired_turn_ids s = []" if "s \<in> set (bt_values (rd_sessions sample_reduced))" for s
    using that by (simp add: sample_reduced_def run_defs)
  moreover have "reducer_wf sample_reduced"
    using reducer_step_wf [OF step_reduce [OF sample_reduced_run(1)] initial_reducer_wf] .
  ultimately show ?thesis
    using restore_persistent [of sample_reduced]
    by (auto simp: current_retired_def persisted_records_def split: if_splits dest: in_set_takeD)
qed

lemma parsed_again: "pet_id_parse v = Some i \<Longrightarrow> pet_id_parse (pet_id_str i) \<noteq> None"
  by (simp add: pet_id_parse_Some)

definition sample_saved :: "database \<Rightarrow> database" where
  "sample_saved db = db\<lparr>db_app := empty_app_state\<lparr>ar_reducer_revision := 1, ar_reducer_json := Some (lit ''r'')\<rparr>\<rparr>"

lemma sample_save:
  assumes "db_app db = empty_app_state"
  shows "store_save sample_codec True (persistent_state_of None (s\<lparr>ap_reducer := sample_reduced\<rparr>)) db
     = (Inr (), sample_saved db)"
proof -
  let ?st = "persistent_state_of None (s\<lparr>ap_reducer := sample_reduced\<rparr>)"
  have "persistent_validate ?st = Inr ()"
    using sample_restores parsed_again
    by (auto simp: persistent_validate_iff) (auto simp: persistent_state_of_def persistent_new_def)
  moreover have "byte_len (lit ''r'') \<le> max_reducer_snapshot_bytes"
    by (simp add: byte_len_def utf8_width_def lit_def max_reducer_snapshot_bytes_def utf8_bytes_def utf8_code_def)
  moreover have "pas_window_placement ?st = None" by (simp add: persistent_state_of_def persistent_new_def)
  moreover have "co_reducer_to sample_codec (persistent_state sample_reduced) = Some (lit ''r'')"
    by (simp add: sample_codec_def)
  ultimately show ?thesis
    using assms by (simp add: store_save_def app_state_row_of_def reducer_snapshot_def ok_or_def sample_reduced_run
        update_app_state_if_newer_def empty_app_state_def i64_max_def sample_saved_def)
qed

lemma sample_load: "db_app db = empty_app_state \<Longrightarrow> store_load sample_codec True db = Inr None"
  by (simp add: store_load_parts load_reducer_def empty_app_state_def)

lemma sample_event_saved:
  assumes "db_app db = empty_app_state"
  shows "\<exists>s'. app_apply_event_persisted sample_sha sample_codec True 6 7 (sample_event TurnStarted ''t1'' ''e1'' 5)
       (s\<lparr>ap_reducer := initial_reducer\<rparr>) db = Some (Inr (Applied 1), s', sample_saved db)"
  using assms by (simp add: app_apply_event_persisted_def sample_reduced_run sample_save Let_def)

lemma empty_database_app [simp]: "db_app empty_database = empty_app_state"
  by (simp add: empty_database_def)

section \<open>All or nothing\<close>

text \<open>
  C6. A change that is to be persisted happens in memory and on disk or not at all. A session event or
  an acknowledgement that fails leaves the state and the database exactly as they were; one that is
  reported \<^verbatim>\<open>Applied\<close> leaves a database from which the next start reads the reducer now in memory, at
  the revision reported, and touches neither the spool nor the evidence; any other answer writes
  nothing and changes at most the reducer's memory of events.
\<close>

theorem persisted_change_all_or_nothing:
  assumes "codec_sound co" "store_load co True db = Inr old"
    and "app_apply_event_persisted sha co avail now started e s db = Some (result, s', db')
      \<or> app_acknowledge_persisted co avail now i s db = (result, s', db')"
  shows "case result of
      Inl err \<Rightarrow> s' = s \<and> db' = db
    | Inr (Applied n) \<Rightarrow> n = rd_revision (ap_reducer s')
        \<and> (\<exists>st. store_load co True db' = Inr (Some st)
             \<and> forget_addresses (pas_reducer st) = forget_addresses (persistent_state (ap_reducer s')))
        \<and> db_spool db' = db_spool db \<and> db_evidence db' = db_evidence db
    | Inr _ \<Rightarrow> s' = s\<lparr>ap_reducer := ap_reducer s'\<rparr> \<and> db' = db"
proof -
  have "all_or_nothing co result s db s' db'"
    using assms app_apply_event_persisted_all_or_nothing [of co db] app_acknowledge_persisted_all_or_nothing [of co db]
    by fastforce
  then show ?thesis by (simp add: all_or_nothing_def db_holds_def cong: sum.case_cong reduction_outcome.case_cong)
qed

theorem persisted_change_all_or_nothing_witness:
  "\<forall>s. \<exists>s' db' st. app_apply_event_persisted sample_sha sample_codec True 6 7 (sample_event TurnStarted ''t1'' ''e1'' 5)
        (s\<lparr>ap_reducer := initial_reducer\<rparr>) empty_database = Some (Inr (Applied 1), s', db')
     \<and> rd_revision (ap_reducer s') = 1 \<and> store_load sample_codec True db' = Inr (Some st)
     \<and> forget_addresses (pas_reducer st) = forget_addresses (persistent_state (ap_reducer s'))"
proof
  fix s
  obtain s' db' where run: "app_apply_event_persisted sample_sha sample_codec True 6 7
      (sample_event TurnStarted ''t1'' ''e1'' 5) (s\<lparr>ap_reducer := initial_reducer\<rparr>) empty_database
      = Some (Inr (Applied 1), s', db')"
    using sample_event_saved [OF empty_database_app] by blast
  from persisted_change_all_or_nothing [OF sample_codec_sound sample_load [OF empty_database_app] disjI1 [OF run]] run
  show "\<exists>s' db' st. app_apply_event_persisted sample_sha sample_codec True 6 7 (sample_event TurnStarted ''t1'' ''e1'' 5)
        (s\<lparr>ap_reducer := initial_reducer\<rparr>) empty_database = Some (Inr (Applied 1), s', db')
     \<and> rd_revision (ap_reducer s') = 1 \<and> store_load sample_codec True db' = Inr (Some st)
     \<and> forget_addresses (pas_reducer st) = forget_addresses (persistent_state (ap_reducer s'))"
    by auto
qed

section \<open>The database is never ahead\<close>

text \<open>
  C7. Whatever the desktop does from its first start on an empty database (events, clock ticks,
  acknowledgements, titles, actions, pets, placements, failing writes, other writers of the spool and
  the evidence, crashes and restarts in between), the database loads and what it loads can be
  restored, so no start panics; its revision is never ahead of the memory, so no event and no
  acknowledgement is ever refused as outdated.
\<close>

theorem database_never_ahead:
  assumes "codec_sound co" "desktop_init x" "(desktop_step sha co)\<^sup>*\<^sup>* x (s, db)"
  shows "(\<exists>old. store_load co True db = Inr old
        \<and> (\<forall>st. old = Some st \<longrightarrow> (\<exists>r. from_persistent_state (pas_reducer st) = Inr r)))
    \<and> ar_reducer_revision (db_app db) \<le> int (rd_revision (ap_reducer s))
    \<and> app_apply_event_persisted sha co avail now started e s db \<noteq> Some (Inl PeReducerSnapshotRejected, y)
    \<and> app_acknowledge_persisted co avail now i s db \<noteq> (Inl PeReducerSnapshotRejected, y)"
proof -
  have d: "durable co (ap_reducer s) db"
    using desktop.inv_reachable [OF assms(2,3)] assms(1) by (simp add: desktop_inv_def)
  then obtain old where old: "store_load co True db = Inr old"
    by (cases "store_load co True db") (auto simp: durable_def db_durable_def)
  have restored: "\<exists>r. from_persistent_state (pas_reducer st) = Inr r" if "old = Some st" for st
    using old that by (cases "from_persistent_state (pas_reducer st)")
      (auto simp: store_load_parts rbind_Inr_iff persistent_validate_iff persistent_new_def split: option.splits)
  have not_rejected: "store_save co avail (persistent_state_of None (s\<lparr>ap_reducer := r\<rparr>)) db \<noteq> (Inl PeReducerSnapshotRejected, db')"
    if "rd_revision r = sat_add (rd_revision (ap_reducer s)) 1" for r db'
    using store_not_outdated [OF d, of "s\<lparr>ap_reducer := r\<rparr>"] that by simp
  have event: "app_apply_event_persisted sha co avail now started e s db \<noteq> Some (Inl PeReducerSnapshotRejected, y)"
  proof
    assume run: "app_apply_event_persisted sha co avail now started e s db = Some (Inl PeReducerSnapshotRejected, y)"
    then obtain r n where r: "reduce_at sha (ap_reducer s) e now = Some (r, Applied n)"
      by (auto simp: app_apply_event_persisted_def split: if_splits elim!: is_applied.elims)
    with run not_rejected [of r] reduce_at_revision [OF r] show False
      by (auto simp: app_apply_event_persisted_def Let_def split: sum.splits prod.splits)
  qed
  have ack: "app_acknowledge_persisted co avail now i s db \<noteq> (Inl PeReducerSnapshotRejected, y)"
  proof
    assume run: "app_acknowledge_persisted co avail now i s db = (Inl PeReducerSnapshotRejected, y)"
    obtain r out where r: "acknowledge_notification (ap_reducer s) i now = (r, out)" by fastforce
    have "out = IgnoredStale \<or> rd_revision r = sat_add (rd_revision (ap_reducer s)) 1"
      using r by (auto simp: acknowledge_notification_def Let_def split: option.splits if_splits)
    with run r not_rejected [of r] show False
      by (auto simp: app_acknowledge_persisted_def Let_def split: sum.splits prod.splits if_splits)
  qed
  show ?thesis using old restored d event ack by (auto simp: durable_def)
qed

lemma example_start:
  obtains s where "desktop_init (s, empty_database)" "ap_reducer s = initial_reducer"
proof -
  obtain c rt where "pet_runtime_from example_env (\<lambda>_. lit ''a'') (\<lambda>_. lit ''b'') c = Some rt"
    by (rule example_runtime)
  then have "with_pet_catalog example_env (\<lambda>_. lit ''a'') (\<lambda>_. lit ''b'') c \<noteq> None"
    by (simp add: with_pet_catalog_def app_with_reducer_def)
  then obtain s where s: "with_pet_catalog example_env (\<lambda>_. lit ''a'') (\<lambda>_. lit ''b'') c = Some s" by blast
  then have "desktop_init (s, empty_database)" by (auto simp: desktop_init_def)
  moreover have "ap_reducer s = initial_reducer"
    using s by (auto simp: with_pet_catalog_def dest: app_with_reducer_reducer)
  ultimately show thesis by (rule that)
qed

theorem database_never_ahead_witness:
  "\<exists>x s db old. desktop_init x \<and> (desktop_step sample_sha sample_codec)\<^sup>*\<^sup>* x (s, db)
     \<and> ar_reducer_revision (db_app db) = 1 \<and> ar_reducer_revision (db_app db) \<le> int (rd_revision (ap_reducer s))
     \<and> store_load sample_codec True db = Inr old"
proof -
  obtain s0 where s0: "desktop_init (s0, empty_database)" "ap_reducer s0 = initial_reducer" by (rule example_start)
  from s0(2) have same: "s0\<lparr>ap_reducer := initial_reducer\<rparr> = s0" by simp
  let ?db = "sample_saved empty_database"
  obtain s' where run: "app_apply_event_persisted sample_sha sample_codec True 6 7
      (sample_event TurnStarted ''t1'' ''e1'' 5) s0 empty_database = Some (Inr (Applied 1), s', ?db)"
    using sample_event_saved [OF empty_database_app, of s0] unfolding same by blast
  have "(desktop_step sample_sha sample_codec)\<^sup>*\<^sup>* (s0, empty_database) (s', ?db)"
    by (rule r_into_rtranclp) (rule running [OF event_saved [OF run]])
  note reached = s0(1) this
  have rev: "ar_reducer_revision (db_app ?db) = 1" by (simp add: sample_saved_def)
  from database_never_ahead [OF sample_codec_sound reached] obtain old
    where "store_load sample_codec True ?db = Inr old"
      "ar_reducer_revision (db_app ?db) \<le> int (rd_revision (ap_reducer s'))" by blast
  with reached rev show ?thesis by blast
qed

section \<open>One dispatch per interaction\<close>

definition history_wf :: "dispatch_history \<Rightarrow> bool" where
  "history_wf h \<longleftrightarrow> dh_identities h = set (dh_order h) \<and> distinct (dh_order h)
     \<and> length (dh_order h) \<le> dispatch_history_limit"

lemma dispatch_accept_fresh:
  assumes "history_wf h" "i \<notin> dh_identities h"
  shows "fst (dispatch_accept i h)"
    and "dh_order (snd (dispatch_accept i h))
      = drop (Suc (length (dh_order h)) - dispatch_history_limit) (dh_order h @ [i])"
    and "history_wf (snd (dispatch_accept i h))"
proof -
  have full: "length (dh_order h) = dispatch_history_limit" if "\<not> length (dh_order h) < dispatch_history_limit"
    using assms(1) that by (simp add: history_wf_def)
  show "fst (dispatch_accept i h)" using assms(2) by (simp add: dispatch_accept_def Let_def)
  show "dh_order (snd (dispatch_accept i h))
      = drop (Suc (length (dh_order h)) - dispatch_history_limit) (dh_order h @ [i])"
    using assms(2) full
    by (cases "dh_order h") (auto simp: dispatch_accept_def Let_def dispatch_history_limit_def)
  show "history_wf (snd (dispatch_accept i h))"
    using assms full
    by (cases "dh_order h") (auto simp: dispatch_accept_def Let_def history_wf_def dispatch_history_limit_def)
qed

lemma dispatch_accept_known: "i \<in> dh_identities h \<Longrightarrow> dispatch_accept i h = (False, h)"
  by (simp add: dispatch_accept_def)

interpretation dispatch_memory: bounded_history "\<lambda>i h. snd (dispatch_accept i h)" dh_order
  "\<lambda>h i. i \<in> dh_identities h" history_wf dispatch_history_limit
proof unfold_locales
  show "history_wf (snd (dispatch_accept x h))" if "history_wf h" for x h
    using that by (cases "x \<in> dh_identities h") (simp_all add: dispatch_accept_known dispatch_accept_fresh)
qed (auto simp: history_wf_def dispatch_history_limit_def dispatch_accept_fresh(2) [unfolded history_wf_def dispatch_history_limit_def])

text \<open>An entry leaves the history only after as many newer ones as the history holds.\<close>

lemma dispatch_kept:
  assumes "history_wf h" "dh_order h = pre @ x # post" "length post + length ys < dispatch_history_limit"
  shows "x \<in> dh_identities (fold (\<lambda>i h. snd (dispatch_accept i h)) ys h)"
  using assms
proof (induction ys arbitrary: h pre post)
  case Nil
  then show ?case by (simp add: history_wf_def)
next
  case (Cons y ys)
  show ?case
  proof (cases "y \<in> dh_identities h")
    case True
    with Cons show ?thesis by (simp add: dispatch_accept_known)
  next
    case False
    let ?h = "snd (dispatch_accept y h)"
    have "dh_order ?h = (if length (dh_order h) < dispatch_history_limit then pre else tl pre) @ x # post @ [y]"
    proof (cases "length (dh_order h) < dispatch_history_limit")
      case True
      then show ?thesis using dispatch_accept_fresh(2) [OF Cons.prems(1) False] Cons.prems(2) by simp
    next
      case full: False
      with Cons.prems(1) have "length (dh_order h) = dispatch_history_limit" by (simp add: history_wf_def)
      moreover from this Cons.prems(2,3) obtain a pre' where "pre = a # pre'" by (cases pre) auto
      ultimately show ?thesis using dispatch_accept_fresh(2) [OF Cons.prems(1) False] Cons.prems(2) by simp
    qed
    from Cons.IH [OF dispatch_accept_fresh(3) [OF Cons.prems(1) False] this] Cons.prems(3) show ?thesis by simp
  qed
qed

lemma dispatch_interaction_history:
  "ap_dispatched (snd (dispatch_interaction c p s)) = snd (dispatch_accept (ic_interaction_id c) (ap_dispatched s))"
  by (cases "ic_interaction_id c \<in> dh_identities (ap_dispatched s)")
    (auto simp: dispatch_interaction_def dispatch_accept_def Let_def split: option.splits)

lemma dispatch_all_history:
  "ap_dispatched (fold (\<lambda>(c, p) s. snd (dispatch_interaction c p s)) cs s)
     = fold (\<lambda>i h. snd (dispatch_accept i h)) (map (ic_interaction_id \<circ> fst) cs) (ap_dispatched s)"
  by (induction cs arbitrary: s) (auto simp: dispatch_interaction_history)

text \<open>
  C8. An interaction is dispatched once. A new interaction is accepted and spawns one task per matching
  action; delivered again after fewer than 2048 further deliveries, whatever they are and however often
  they repeat, it is refused and nothing changes.
\<close>

theorem interaction_dispatched_once:
  assumes "history_wf (ap_dispatched s)" "ic_interaction_id c \<notin> dh_identities (ap_dispatched s)"
    and "length cs < dispatch_history_limit" "ic_interaction_id c' = ic_interaction_id c"
    and "dispatch_interaction c p s = (receipt, s1)"
    and "s2 = fold (\<lambda>(c, p) s. snd (dispatch_interaction c p s)) cs s1"
  shows "drc_accepted receipt
    \<and> drc_action_count receipt = (case ap_supervisor s of None \<Rightarrow> 0 | Some (k, sv) \<Rightarrow> length (matching_action_ids sv c))
    \<and> length (ap_spawned s1) = length (ap_spawned s) + drc_action_count receipt
    \<and> dispatch_interaction c' p' s2 = (\<lparr>drc_accepted = False, drc_action_count = 0\<rparr>, s2)"
proof -
  let ?h = "snd (dispatch_accept (ic_interaction_id c) (ap_dispatched s))"
  obtain h where fresh: "dispatch_accept (ic_interaction_id c) (ap_dispatched s) = (True, h)"
    using dispatch_accept_fresh(1) [OF assms(1,2)] by (metis (full_types) prod.collapse)
  have "drc_accepted receipt
    \<and> drc_action_count receipt = (case ap_supervisor s of None \<Rightarrow> 0 | Some (k, sv) \<Rightarrow> length (matching_action_ids sv c))
    \<and> length (ap_spawned s1) = length (ap_spawned s) + drc_action_count receipt"
    using assms(5) fresh by (auto simp: dispatch_interaction_def Let_def split: option.splits)
  moreover have "ic_interaction_id c \<in> dh_identities (ap_dispatched s2)"
  proof -
    obtain pre where "dh_order ?h = pre @ ic_interaction_id c # []"
    proof (cases "length (dh_order (ap_dispatched s)) < dispatch_history_limit")
      case True
      with dispatch_accept_fresh(2) [OF assms(1,2)] that show thesis by simp
    next
      case False
      with assms(1) have "length (dh_order (ap_dispatched s)) = dispatch_history_limit" by (simp add: history_wf_def)
      with dispatch_accept_fresh(2) [OF assms(1,2)] that show thesis
        by (cases "dh_order (ap_dispatched s)") (auto simp: dispatch_history_limit_def)
    qed
    from dispatch_kept [OF dispatch_accept_fresh(3) [OF assms(1,2)] this] assms(3)
    have "ic_interaction_id c \<in> dh_identities
        (fold (\<lambda>i h. snd (dispatch_accept i h)) (map (ic_interaction_id \<circ> fst) cs) ?h)" by simp
    then show ?thesis using assms(5,6) dispatch_interaction_history [of c p s]
      by (simp add: dispatch_all_history)
  qed
  ultimately show ?thesis using assms(4) by (simp add: dispatch_interaction_def dispatch_accept_known)
qed

theorem interaction_dispatched_once_witness:
  "\<exists>s s1. desktop_init (s, empty_database)
     \<and> dispatch_interaction demo_click False s = (\<lparr>drc_accepted = True, drc_action_count = 0\<rparr>, s1)
     \<and> fst (dispatch_interaction demo_click False s1) = \<lparr>drc_accepted = False, drc_action_count = 0\<rparr>"
proof -
  obtain s where s: "desktop_init (s, empty_database)" by (rule example_start)
  then have init: "ap_dispatched s = \<lparr>dh_order = [], dh_identities = {}\<rparr>" "ap_supervisor s = None"
    by (auto simp: desktop_init_def with_pet_catalog_def app_with_reducer_def Let_def)
  obtain receipt s1 where run: "dispatch_interaction demo_click False s = (receipt, s1)" by fastforce
  have "drc_accepted receipt \<and> drc_action_count receipt = 0
      \<and> dispatch_interaction demo_click False s1 = (\<lparr>drc_accepted = False, drc_action_count = 0\<rparr>, s1)"
    using interaction_dispatched_once [of s demo_click "[]" demo_click False receipt s1 s1 False] run init
    by (simp add: history_wf_def dispatch_history_limit_def)
  with s run show ?thesis by (cases receipt) auto
qed

end
