(* ===== verification/Transport.thy ===== *)
theory Transport
  imports Storage Codex
begin

text \<open>
  \<^verbatim>\<open>lili-session/src/transport.rs\<close>: the frame reader and the delivery of a message over a connected
  stream, the credential file as read and written, and the authenticated evidence record of the Codex
  plugin. Sockets, pipes and file permissions are the operating system's: a stream is the bytes the
  peer sends, a file is what its metadata and content say.
\<close>

section \<open>Errors\<close>

datatype transport_error =
    TrIo
  | TrProtocol forwarding_error
  | UnsafeRuntimeDirectory | UnsafeCredentialFile | CredentialFileTooLarge | MalformedCredentialFile
  | EvidenceFileTooLarge | MalformedEvidenceFile | UnauthenticatedEvidenceFile | EvidenceHomeMismatch
  | EvidenceStorage
  | UnsafeEndpoint | EndpointInUse | EndpointUnavailable | UnsupportedEndpoint
  | WrongOwner | WrongPeerOwner | CredentialMismatch
  | EmptyFrame | FrameTooLarge

section \<open>Frames\<close>

definition u32_of_be :: "byte list \<Rightarrow> nat" where
  "u32_of_be bs = foldl (\<lambda>a b. 256 * a + unat b) 0 bs"

text \<open>\<^verbatim>\<open>read_exact\<close> fails on a stream that ends early; the rest of the stream is returned.\<close>

definition read_exact :: "nat \<Rightarrow> byte list \<Rightarrow> transport_error + byte list \<times> byte list" where
  "read_exact n stream = (if length stream < n then Inl TrIo else Inr (take n stream, drop n stream))"

definition read_payload :: "byte list \<Rightarrow> transport_error + byte list \<times> byte list" where
  "read_payload stream = rbind (read_exact 4 stream) (\<lambda>(header, rest).
     let len = u32_of_be header in
     if len = 0 then Inl EmptyFrame
     else if max_forwarding_frame_bytes < len then Inl FrameTooLarge
     else read_exact len rest)"

text \<open>
  \<open>send\<close> is the connected peer: the bytes it answers to the frame written, \<open>None\<close> when connecting
  or writing fails.
\<close>

definition deliver_forwarding_message :: "(forwarding_message \<Rightarrow> byte list option)
    \<Rightarrow> (byte list \<Rightarrow> forwarding_ack option) \<Rightarrow> (platform_endpoint \<Rightarrow> byte list \<Rightarrow> byte list option)
    \<Rightarrow> credential_record \<Rightarrow> forwarding_message \<Rightarrow> transport_error + forwarding_ack" where
  "deliver_forwarding_message enc dec send rec m =
     rbind (map_err TrProtocol (record_credentials rec)) (\<lambda>c.
     if cd_instance_id c \<noteq> fm_instance_id m then Inl CredentialMismatch
     else rbind (map_err TrProtocol (endpoint_validate (cr_endpoint rec))) (\<lambda>_.
     rbind (map_err TrProtocol (encode_frame enc m)) (\<lambda>frame.
     rbind (ok_or TrIo (send (cr_endpoint rec) frame)) (\<lambda>stream.
     rbind (read_payload stream) (\<lambda>(payload, _).
     rbind (map_err TrProtocol (ack_from_payload dec payload)) (\<lambda>ack.
     rbind (map_err TrProtocol (ack_validate_for ack m)) (\<lambda>_. Inr ack)))))))"

section \<open>The credential file\<close>

definition max_credential_file_bytes :: nat where "max_credential_file_bytes = 16 * 1024"

text \<open>What \<^verbatim>\<open>symlink_metadata\<close> and the owner check say of the file, and its content.\<close>

record credential_file =
  cfl_regular :: bool
  cfl_private :: bool
  cfl_len :: nat
  cfl_content :: "byte list"

definition load_credentials :: "(byte list \<Rightarrow> credential_record option) \<Rightarrow> credential_file option
    \<Rightarrow> transport_error + credential_record" where
  "load_credentials dec file = rbind (ok_or TrIo file) (\<lambda>f.
     if \<not> cfl_regular f then Inl UnsafeCredentialFile
     else if \<not> cfl_private f then Inl WrongOwner
     else if max_credential_file_bytes < cfl_len f then Inl CredentialFileTooLarge
     else let payload = take (max_credential_file_bytes + 1) (cfl_content f) in
       if max_credential_file_bytes < length payload then Inl CredentialFileTooLarge
       else rbind (ok_or MalformedCredentialFile (dec payload)) (\<lambda>rec.
         rbind (map_err TrProtocol (record_credentials rec)) (\<lambda>_. Inr rec)))"

text \<open>The bytes \<^verbatim>\<open>save_inner\<close> writes and renames into place.\<close>

definition credential_file_payload :: "(credential_record \<Rightarrow> byte list option) \<Rightarrow> credential_record
    \<Rightarrow> transport_error + byte list" where
  "credential_file_payload enc rec =
     rbind (map_err TrProtocol (record_credentials rec)) (\<lambda>_.
     rbind (ok_or MalformedCredentialFile (enc rec)) (\<lambda>bytes.
       let payload = bytes @ [10] in
       if max_credential_file_bytes < length payload then Inl CredentialFileTooLarge else Inr payload))"

section \<open>Plugin evidence\<close>

definition max_codex_evidence_bytes :: nat where "max_codex_evidence_bytes = 64 * 1024"

definition codex_evidence_domain :: rstr where
  "codex_evidence_domain = lit ''codex-plugin-diagnostics''"

record evidence_record =
  evd_codex_home :: "rstr option"
  evd_diagnostics :: adapter_diagnostics
  evd_authentication :: rstr

text \<open>\<open>ec_signing\<close> serialises \<^verbatim>\<open>CodexPluginEvidenceSigningPayload\<close>, the other two the record.\<close>

record evidence_codec =
  ec_signing :: "rstr option \<Rightarrow> adapter_diagnostics \<Rightarrow> byte list option"
  ec_to_string :: "evidence_record \<Rightarrow> rstr option"
  ec_from_str :: "rstr \<Rightarrow> evidence_record option"
  ec_json_ok :: "rstr \<Rightarrow> bool"

definition load_evidence_record :: "evidence_codec \<Rightarrow> bool \<Rightarrow> database \<Rightarrow> transport_error + evidence_record" where
  "load_evidence_record ec avail db =
     (if \<not> avail then Inl EvidenceStorage
      else rbind (ok_or EvidenceStorage (load_plugin_evidence db)) (\<lambda>row.
        ok_or MalformedEvidenceFile (ec_from_str ec (er_evidence row))))"

definition verify_evidence_record :: "(byte list \<Rightarrow> byte list \<Rightarrow> byte list) \<Rightarrow> evidence_codec
    \<Rightarrow> evidence_record \<Rightarrow> credentials \<Rightarrow> transport_error + unit" where
  "verify_evidence_record hmac ec e c =
     rbind (ok_or MalformedEvidenceFile (ec_signing ec (evd_codex_home e) (evd_diagnostics e))) (\<lambda>payload.
       map_err (\<lambda>_. UnauthenticatedEvidenceFile)
         (verify_evidence hmac c codex_evidence_domain payload (evd_authentication e)))"

definition evidence_load :: "(byte list \<Rightarrow> byte list \<Rightarrow> byte list) \<Rightarrow> evidence_codec \<Rightarrow> bool \<Rightarrow> credentials
    \<Rightarrow> database \<Rightarrow> transport_error + adapter_diagnostics" where
  "evidence_load hmac ec avail c db = rbind (load_evidence_record ec avail db) (\<lambda>e.
     rbind (verify_evidence_record hmac ec e c) (\<lambda>_. Inr (evd_diagnostics e)))"

text \<open>\<open>home\<close> is \<open>codex_home_identity\<close> of the Codex home.\<close>

definition evidence_load_for_home :: "(byte list \<Rightarrow> byte list \<Rightarrow> byte list) \<Rightarrow> evidence_codec \<Rightarrow> bool
    \<Rightarrow> rstr option \<Rightarrow> credentials \<Rightarrow> database \<Rightarrow> transport_error + adapter_diagnostics" where
  "evidence_load_for_home hmac ec avail home c db =
     rbind (ok_or MalformedEvidenceFile home) (\<lambda>home.
     rbind (load_evidence_record ec avail db) (\<lambda>e.
     rbind (verify_evidence_record hmac ec e c) (\<lambda>_.
       if evd_codex_home e \<noteq> Some home then Inl EvidenceHomeMismatch else Inr (evd_diagnostics e))))"

definition evidence_save_with_home :: "(byte list \<Rightarrow> byte list \<Rightarrow> byte list) \<Rightarrow> evidence_codec \<Rightarrow> bool \<Rightarrow> int
    \<Rightarrow> rstr option \<Rightarrow> adapter_diagnostics \<Rightarrow> credentials \<Rightarrow> database
    \<Rightarrow> (transport_error + unit) \<times> database" where
  "evidence_save_with_home hmac ec avail now home d c db =
     (case rbind (ok_or MalformedEvidenceFile (ec_signing ec home d)) (\<lambda>payload.
           rbind (map_err TrProtocol (authenticate_evidence hmac c codex_evidence_domain payload)) (\<lambda>auth.
           rbind (ok_or MalformedEvidenceFile (ec_to_string ec
             \<lparr>evd_codex_home = home, evd_diagnostics = d, evd_authentication = auth\<rparr>)) (\<lambda>text.
           if max_codex_evidence_bytes < byte_len text then Inl EvidenceFileTooLarge
           else rbind (map_err (\<lambda>_. MalformedEvidenceFile) (json_document_parse (ec_json_ok ec) text))
             (\<lambda>json. if \<not> avail then Inl EvidenceStorage else Inr json)))) of
        Inl e \<Rightarrow> (Inl e, db)
      | Inr json \<Rightarrow> (Inr (), snd (save_plugin_evidence \<lparr>er_evidence = json, er_updated_at_ms = now\<rparr> db)))"

definition evidence_save :: "(byte list \<Rightarrow> byte list \<Rightarrow> byte list) \<Rightarrow> evidence_codec \<Rightarrow> bool \<Rightarrow> int
    \<Rightarrow> adapter_diagnostics \<Rightarrow> credentials \<Rightarrow> database \<Rightarrow> (transport_error + unit) \<times> database" where
  "evidence_save hmac ec avail now d c db =
     (let existing = Option.bind (result_ok (load_evidence_record ec avail db)) evd_codex_home;
          observed = Option.bind (pl_last_event (ad_plugin d)) la_codex_home in
      case (existing, observed) of
        (Some x, Some y) \<Rightarrow>
          if x \<noteq> y then (Inr (), db) else evidence_save_with_home hmac ec avail now (Some x) d c db
      | (Some x, None) \<Rightarrow> evidence_save_with_home hmac ec avail now (Some x) d c db
      | (None, observed) \<Rightarrow> evidence_save_with_home hmac ec avail now observed d c db)"

section \<open>Frames round trip\<close>

lemma u32_of_be_bytes:
  assumes "n < 2 ^ 32"
  shows "u32_of_be (be_bytes 4 n) = n"
proof -
  define a b c where "a = n div 256" and "b = a div 256" and "c = b div 256"
  have parts: "n div 16777216 = c" "n div 65536 = b"
    by (simp_all add: a_def b_def c_def div_mult2_eq [symmetric])
  have "be_bytes 4 n = be_bytes (Suc (Suc (Suc (Suc 0)))) n" by (simp add: numeral_eq_Suc)
  also have "\<dots> = [of_nat c, of_nat b, of_nat a, of_nat n]"
    by (simp add: be_bytes_Suc be_bytes_def [of 0] parts a_def [symmetric])
  finally have "u32_of_be (be_bytes 4 n)
      = 256 * (256 * (256 * (c mod 256) + b mod 256) + a mod 256) + n mod 256"
    by (simp add: u32_of_be_def unat_of_nat)
  moreover have "c < 256" using assms by (simp add: a_def b_def c_def div_mult2_eq [symmetric] less_mult_imp_div_less)
  then have "256 * (c mod 256) + b mod 256 = b" by (simp add: c_def)
  moreover have "256 * b + a mod 256 = a" "256 * a + n mod 256 = n" by (simp_all add: a_def b_def)
  ultimately show ?thesis by simp
qed

lemma be_bytes_length4 [simp]: "length (be_bytes 4 n) = 4"
  by (simp add: be_bytes_def)

lemma read_encoded_frame:
  assumes "encode_frame enc v = Inr frame" "enc v = Some payload" "payload \<noteq> []"
  shows "read_payload (frame @ rest) = Inr (payload, rest)"
proof -
  have f: "frame = be_bytes 4 (length payload) @ payload" "length payload \<le> max_forwarding_frame_bytes"
    using assms by (auto simp: encode_frame_def ok_or_def split: if_splits)
  then have "length payload < 2 ^ 32" by (simp add: max_forwarding_frame_bytes_def)
  then show ?thesis
    using f assms(3) by (simp add: read_payload_def read_exact_def u32_of_be_bytes)
qed

lemma evidence_load_authentic:
  assumes "evidence_load_for_home hmac ec avail home c db = Inr d"
  shows "\<exists>row e payload auth h. db_evidence db = Some row \<and> ec_from_str ec (er_evidence row) = Some e
    \<and> d = evd_diagnostics e \<and> home = Some h \<and> evd_codex_home e = Some h
    \<and> ec_signing ec (Some h) d = Some payload \<and> decode_hex_array mac_bytes (evd_authentication e) = Some auth
    \<and> hmac (cd_secret c) (evidence_signing_bytes codex_evidence_domain payload) = auth"
  using assms
  by (auto simp: evidence_load_for_home_def rbind_Inr_iff load_evidence_record_def load_plugin_evidence_def
      verify_evidence_record_def verify_evidence_def split: if_splits)

end
