(* ===== verification/Ingestion.thy ===== *)
theory Ingestion
  imports App_State Transport Spool
begin

text \<open>
  \<^verbatim>\<open>lili-app-state/src/ingestion.rs\<close>: the actor that verifies forwarded messages, reduces their
  events, attributes Codex plugin evidence and counts rejections. The channel delivers commands one
  at a time; a step answers the command and returns the actor, \<open>None\<close> being a panic of the reducer.
  The desktop opens the same SQLite file for both stores, so one \<open>database\<close> is passed along.
\<close>

section \<open>Diagnostics\<close>

definition default_ingestion_queue_capacity :: nat where "default_ingestion_queue_capacity = 128"

datatype rejection_category =
    RejectAuthentication | RejectReplay | RejectExpired | RejectMalformed | RejectTransport

fun record_rejection :: "rejection_category \<Rightarrow> ingestion_diagnostics \<Rightarrow> ingestion_diagnostics" where
  "record_rejection RejectAuthentication d =
     d\<lparr>id_authentication_rejections := sat_add (id_authentication_rejections d) 1\<rparr>"
| "record_rejection RejectReplay d = d\<lparr>id_replay_rejections := sat_add (id_replay_rejections d) 1\<rparr>"
| "record_rejection RejectExpired d = d\<lparr>id_expired_rejections := sat_add (id_expired_rejections d) 1\<rparr>"
| "record_rejection RejectMalformed d = d\<lparr>id_malformed_rejections := sat_add (id_malformed_rejections d) 1\<rparr>"
| "record_rejection RejectTransport d = d\<lparr>id_transport_rejections := sat_add (id_transport_rejections d) 1\<rparr>"

definition replace_spool_metrics :: "spool_metrics \<Rightarrow> ingestion_diagnostics \<Rightarrow> bool \<times> ingestion_diagnostics" where
  "replace_spool_metrics m d =
     (let changed = id_spool_expired_drops d \<noteq> sm_expired_drops m
          \<or> id_spool_limit_drops d \<noteq> sm_limit_drops m \<or> id_spool_malformed_drops d \<noteq> sm_malformed_drops m in
      (changed, if changed then d\<lparr>id_spool_expired_drops := sm_expired_drops m,
         id_spool_limit_drops := sm_limit_drops m, id_spool_malformed_drops := sm_malformed_drops m\<rparr> else d))"

fun rejection_category_of :: "forwarding_error \<Rightarrow> rejection_category" where
  "rejection_category_of InvalidMac = RejectAuthentication"
| "rejection_category_of WrongInstance = RejectAuthentication"
| "rejection_category_of ReplayedNonce = RejectReplay"
| "rejection_category_of Expired = RejectExpired"
| "rejection_category_of TooLarge = RejectMalformed"
| "rejection_category_of Malformed = RejectMalformed"
| "rejection_category_of (UnsupportedVersion n) = RejectMalformed"
| "rejection_category_of InvalidEndpoint = RejectMalformed"
| "rejection_category_of InvalidInstanceId = RejectMalformed"
| "rejection_category_of InvalidCredential = RejectMalformed"
| "rejection_category_of InvalidNonce = RejectMalformed"
| "rejection_category_of MismatchedAcknowledgement = RejectMalformed"
| "rejection_category_of InvalidEvent = RejectMalformed"
| "rejection_category_of Randomness = RejectMalformed"

datatype ingestion_error = IngestUnavailable | IngestProtocol forwarding_error
  | IngestInvalidEvent | IngestPersistence

section \<open>The actor\<close>

datatype plugin_attribution_trust = AttributedAuthenticated | AttributedUnauthenticated

text \<open>The functions the actor relies on, and the readings of clocks and file system during a step.\<close>

record ingest_env =
  ie_sha :: "byte list \<Rightarrow> byte list"
  ie_hmac :: "byte list \<Rightarrow> byte list \<Rightarrow> byte list"
  ie_decode :: "byte list \<Rightarrow> forwarding_message option"
  ie_encode :: "unsigned_message \<Rightarrow> byte list option"
  ie_codec :: app_codec
  ie_evidence :: evidence_codec

record ingest_tick =
  it_now :: nat
  it_started :: nat
  it_avail :: bool
  it_evidence_avail :: bool
  it_evidence_now :: int

record ingestion_actor =
  na_state :: app_state
  na_verifier :: verifier
  na_verification_reducer :: reducer
  na_credentials :: credentials
  na_capacity :: nat
  na_snapshots :: view_snapshot
  na_diagnostics :: ingestion_diagnostics
  na_evidence_store :: bool
  na_persistence_store :: bool

definition ingestion_channel :: "app_state \<Rightarrow> credentials \<Rightarrow> nat \<Rightarrow> adapter_diagnostics \<Rightarrow> bool
    \<Rightarrow> ingestion_actor" where
  "ingestion_channel s c capacity adapter evidence = \<lparr>na_state = s, na_verifier = verifier_new c,
     na_verification_reducer = initial_reducer, na_credentials = c, na_capacity = max capacity 1,
     na_snapshots = app_snapshot s,
     na_diagnostics = default_ingestion_diagnostics\<lparr>id_codex_adapter := adapter\<rparr>,
     na_evidence_store = evidence, na_persistence_store = False\<rparr>"

definition with_persistence_store :: "ingestion_actor \<Rightarrow> ingestion_actor" where
  "with_persistence_store a = a\<lparr>na_persistence_store := True\<rparr>"

definition with_diagnostics :: "(ingestion_diagnostics \<Rightarrow> ingestion_diagnostics) \<Rightarrow> ingestion_actor
    \<Rightarrow> ingestion_actor" where
  "with_diagnostics f a = a\<lparr>na_diagnostics := f (na_diagnostics a)\<rparr>"

text \<open>The result of saving the evidence is ignored.\<close>

definition publish_diagnostics :: "ingest_env \<Rightarrow> ingest_tick \<Rightarrow> ingestion_actor \<Rightarrow> database
    \<Rightarrow> ingestion_actor \<times> database" where
  "publish_diagnostics env t a db =
     (let db' = (if na_evidence_store a
            then snd (evidence_save (ie_hmac env) (ie_evidence env) (it_evidence_avail t)
                   (it_evidence_now t) (id_codex_adapter (na_diagnostics a)) (na_credentials a) db)
            else db) in
      (a\<lparr>na_state := (na_state a)\<lparr>ap_ingestion := na_diagnostics a\<rparr>\<rparr>, db'))"

definition attribute_event :: "plugin_attribution_trust \<Rightarrow> session_event \<Rightarrow> ingestion_diagnostics \<Rightarrow> ingestion_diagnostics" where
  "attribute_event trust e d = d\<lparr>id_codex_adapter := (case trust of
       AttributedAuthenticated \<Rightarrow> record_accepted_event e (id_codex_adapter d)
     | AttributedUnauthenticated \<Rightarrow> record_accepted_spooled_event e (id_codex_adapter d))\<rparr>"

fun count_outcome :: "reduction_outcome \<Rightarrow> ingestion_diagnostics \<Rightarrow> ingestion_diagnostics" where
  "count_outcome (Applied n) d = d\<lparr>id_accepted_messages := sat_add (id_accepted_messages d) 1\<rparr>"
| "count_outcome Duplicate d = d\<lparr>id_duplicate_events := sat_add (id_duplicate_events d) 1\<rparr>"
| "count_outcome IgnoredStale d = d\<lparr>id_accepted_messages := sat_add (id_accepted_messages d) 1\<rparr>"

definition ingest_reduce_event :: "ingest_env \<Rightarrow> ingest_tick \<Rightarrow> session_event \<Rightarrow> plugin_attribution_trust
    \<Rightarrow> ingestion_actor \<Rightarrow> database
    \<Rightarrow> ((ingestion_error + reduction_outcome) \<times> ingestion_actor \<times> database) option" where
  "ingest_reduce_event env t e trust a db = map_option (\<lambda>(res, s, db).
     case res of
       Inl err \<Rightarrow> (Inl IngestPersistence, a\<lparr>na_state := s\<rparr>, db)
     | Inr outcome \<Rightarrow>
         let a1 = with_diagnostics (\<lambda>d. count_outcome outcome (attribute_event trust e d)) (a\<lparr>na_state := s\<rparr>);
             a2 = (if is_applied outcome then a1\<lparr>na_snapshots := app_snapshot s\<rparr> else a1)
         in (Inr outcome, publish_diagnostics env t a2 db))
     (if na_persistence_store a
      then app_apply_event_persisted (ie_sha env) (ie_codec env) (it_avail t) (it_now t) (it_started t)
             e (na_state a) db
      else map_option (\<lambda>(outcome, s). (Inr outcome, s, db))
             (app_apply_event (ie_sha env) (it_now t) e (na_state a)))"

fun disposition_of :: "reduction_outcome \<Rightarrow> ack_disposition" where
  "disposition_of (Applied n) = AckAccepted"
| "disposition_of IgnoredStale = AckAccepted"
| "disposition_of Duplicate = AckDuplicate"

definition ingest :: "ingest_env \<Rightarrow> ingest_tick \<Rightarrow> byte list \<Rightarrow> nat \<Rightarrow> ingestion_actor \<Rightarrow> database
    \<Rightarrow> ((ingestion_error + forwarding_ack) \<times> ingestion_actor \<times> database) option" where
  "ingest env t payload now a db =
     (case verify_payload (ie_decode env) (ie_encode env) (ie_hmac env) (na_verifier a) payload now of
        (v, Inl err) \<Rightarrow>
          Some (Inl (IngestProtocol err), publish_diagnostics env t
            (with_diagnostics (record_rejection (rejection_category_of err)) (a\<lparr>na_verifier := v\<rparr>)) db)
      | (v, Inr m) \<Rightarrow>
          let a = a\<lparr>na_verifier := v\<rparr> in
          (case vm_purpose m of
             PurposeEvent \<Rightarrow> map_option (\<lambda>(res, a', db').
               (map_sum id (\<lambda>outcome. acknowledgement m (disposition_of outcome)) res, a', db'))
               (ingest_reduce_event env t (vm_event m) AttributedAuthenticated a db)
           | PurposeVerification \<Rightarrow> map_option (\<lambda>(r, outcome).
               (Inr (acknowledgement m (disposition_of outcome)), a\<lparr>na_verification_reducer := r\<rparr>, db))
               (reduce (ie_sha env) (na_verification_reducer a) (vm_event m))))"

section \<open>Commands\<close>

datatype ingestion_command =
    CmdIngest "byte list" nat
  | CmdTransportRejected
  | CmdIngestSpooled session_event
  | CmdSetSpoolMetrics spool_metrics
  | CmdRefreshCodexAdapter adapter_diagnostics

datatype ingestion_response =
    RespAck "ingestion_error + forwarding_ack"
  | RespNone
  | RespOutcome "ingestion_error + reduction_outcome"
  | RespDiagnostics ingestion_diagnostics

definition ingest_spooled :: "ingest_env \<Rightarrow> ingest_tick \<Rightarrow> session_event \<Rightarrow> ingestion_actor \<Rightarrow> database
    \<Rightarrow> ((ingestion_error + reduction_outcome) \<times> ingestion_actor \<times> database) option" where
  "ingest_spooled env t e a db = (case event_validate e of
     Inr _ \<Rightarrow> ingest_reduce_event env t e AttributedUnauthenticated a db
   | Inl _ \<Rightarrow> Some (Inl IngestInvalidEvent,
       publish_diagnostics env t (with_diagnostics (record_rejection RejectMalformed) a) db))"

text \<open>One turn of the loop of \<^verbatim>\<open>run\<close>.\<close>

fun ingestion_step :: "ingest_env \<Rightarrow> ingest_tick \<Rightarrow> ingestion_command \<Rightarrow> ingestion_actor \<Rightarrow> database
    \<Rightarrow> (ingestion_response \<times> ingestion_actor \<times> database) option" where
  "ingestion_step env t (CmdIngest payload now) a db =
     map_option (apfst RespAck) (ingest env t payload now a db)"
| "ingestion_step env t CmdTransportRejected a db =
     Some (RespNone, publish_diagnostics env t (with_diagnostics (record_rejection RejectTransport) a) db)"
| "ingestion_step env t (CmdIngestSpooled e) a db =
     map_option (apfst RespOutcome) (ingest_spooled env t e a db)"
| "ingestion_step env t (CmdSetSpoolMetrics m) a db =
     (case replace_spool_metrics m (na_diagnostics a) of (changed, d) \<Rightarrow>
        let a' = a\<lparr>na_diagnostics := d\<rparr> in
        Some (RespNone, if changed then publish_diagnostics env t a' db else (a', db)))"
| "ingestion_step env t (CmdRefreshCodexAdapter d) a db =
     (case publish_diagnostics env t
            (with_diagnostics (\<lambda>i. i\<lparr>id_codex_adapter := refresh_discovery d (id_codex_adapter i)\<rparr>) a) db of
        (a', db') \<Rightarrow> Some (RespDiagnostics (na_diagnostics a'), a', db'))"

end
