(* ===== verification/Native_Services.thy ===== *)
theory Native_Services
  imports Ingestion
begin

text \<open>
  The background services of \<^verbatim>\<open>lili/src/lib.rs\<close>: the drain of the durable spool into the ingestion actor
  and the handling of one forwarding connection. A turn of the drain claims a row, hands its event to
  the actor and commits or releases the claim; the clock readings and whether the database answers are
  the \<open>drain_tick\<close> of the turn. The loop runs for a given list of ticks; \<open>finished\<close> says whether it ended.
\<close>

section \<open>The drain of the spool\<close>

record drain_tick =
  dt_now :: nat
  dt_tokens :: "nat \<Rightarrow> rstr"
  dt_claim_ok :: bool
  dt_commit_ok :: bool
  dt_release_ok :: bool
  dt_ingest :: ingest_tick

record drain_env =
  de_engine :: engine
  de_decode :: "rstr \<Rightarrow> session_event option"
  de_store :: spool_store
  de_ingest :: ingest_env

definition next_spool_claim :: "drain_env \<Rightarrow> drain_tick \<Rightarrow> database \<Rightarrow> claimed_record option \<times> database" where
  "next_spool_claim de t db =
     (if \<not> dt_claim_ok t then (None, db)
      else case claim_next (de_engine de) (de_decode de) (dt_tokens t) (de_store de) (dt_now t) db of
        Inl e \<Rightarrow> (None, db)
      | Inr r \<Rightarrow> r)"

text \<open>A claim that is dropped without having been committed is released.\<close>

definition drop_claim :: "drain_tick \<Rightarrow> claimed_record \<Rightarrow> database \<Rightarrow> database" where
  "drop_claim t c db = (if dt_release_ok t then release_claim c db else db)"

definition ingest_spool_claim :: "drain_env \<Rightarrow> drain_tick \<Rightarrow> claimed_record \<Rightarrow> ingestion_actor \<Rightarrow> database
    \<Rightarrow> (bool \<times> ingestion_actor \<times> database) option" where
  "ingest_spool_claim de t c a db = map_option (\<lambda>(res, a', db1).
     case res of
       Inr outcome \<Rightarrow>
         if dt_commit_ok t
         then (case commit_claim c db1 of
             (Inr _, db2) \<Rightarrow> (True, a', db2)
           | (Inl _, db2) \<Rightarrow> (False, a', db2))
         else (False, a', drop_claim t c db1)
     | Inl e \<Rightarrow> (False, a', drop_claim t c db1))
     (ingest_spooled (de_ingest de) (dt_ingest t) (cl_event c) a db)"

definition drain_turn :: "drain_env \<Rightarrow> drain_tick \<Rightarrow> ingestion_actor \<Rightarrow> database
    \<Rightarrow> (bool \<times> ingestion_actor \<times> database) option" where
  "drain_turn de t a db = (case next_spool_claim de t db of
     (None, db1) \<Rightarrow> Some (False, a, db1)
   | (Some c, db1) \<Rightarrow> ingest_spool_claim de t c a db1)"

fun drain_loop :: "drain_env \<Rightarrow> drain_tick list \<Rightarrow> ingestion_actor \<Rightarrow> database
    \<Rightarrow> (bool \<times> ingestion_actor \<times> database) option" where
  "drain_loop de [] a db = Some (False, a, db)"
| "drain_loop de (t # ts) a db = (case drain_turn de t a db of
     None \<Rightarrow> None
   | Some (False, a', db') \<Rightarrow> Some (True, a', db')
   | Some (True, a', db') \<Rightarrow> drain_loop de ts a' db')"

text \<open>\<^verbatim>\<open>drain_sqlite_spool\<close>: the loop, then the metrics; \<open>t\<close> is the tick of the latter.\<close>

definition publish_spool_metrics :: "drain_env \<Rightarrow> drain_tick \<Rightarrow> ingestion_actor \<Rightarrow> database
    \<Rightarrow> (ingestion_actor \<times> database) option" where
  "publish_spool_metrics de t a db =
     (if \<not> dt_claim_ok t then Some (a, db)
      else map_option snd
        (ingestion_step (de_ingest de) (dt_ingest t) (CmdSetSpoolMetrics (spool_metrics_of db)) a db))"

definition drain_sqlite_spool :: "drain_env \<Rightarrow> drain_tick list \<Rightarrow> drain_tick \<Rightarrow> ingestion_actor \<Rightarrow> database
    \<Rightarrow> (bool \<times> ingestion_actor \<times> database) option" where
  "drain_sqlite_spool de ts t a db = Option.bind (drain_loop de ts a db) (\<lambda>(finished, a', db').
     if \<not> finished then Some (False, a', db')
     else map_option (Pair True) (publish_spool_metrics de t a' db'))"

text \<open>The first part of \<^verbatim>\<open>run_sqlite_native_services\<close>, before connections are served.\<close>

definition start_native_services :: "drain_env \<Rightarrow> drain_tick list \<Rightarrow> drain_tick \<Rightarrow> ingestion_actor \<Rightarrow> database
    \<Rightarrow> (bool \<times> ingestion_actor \<times> database) option" where
  "start_native_services de ts t a db =
     drain_sqlite_spool de ts t a (if dt_claim_ok t then fst (recover_claims (dt_now t) db) else db)"

section \<open>Connections\<close>

text \<open>
  \<open>stream\<close> is what the peer sent. The acknowledgement to write is returned; the connection is closed
  without one when the frame or the message is refused.
\<close>

definition handle_native_connection :: "ingest_env \<Rightarrow> ingest_tick \<Rightarrow> byte list \<Rightarrow> nat \<Rightarrow> ingestion_actor \<Rightarrow> database
    \<Rightarrow> (forwarding_ack option \<times> ingestion_actor \<times> database) option" where
  "handle_native_connection env t stream now a db = (case read_payload stream of
     Inl e \<Rightarrow> map_option (\<lambda>(resp, a', db'). (None, a', db')) (ingestion_step env t CmdTransportRejected a db)
   | Inr (payload, _) \<Rightarrow> map_option (\<lambda>(res, a', db'). (result_ok res, a', db')) (ingest env t payload now a db))"

end
