(* ===== verification/Ingestion_Properties.thy ===== *)
theory Ingestion_Properties
  imports Native_Services App_Guarantees Forwarding_Properties Spool_Guarantees
begin

text \<open>
  What the ingestion of forwarded and spooled events guarantees: an acknowledged event is on disk, a
  refused one changes nothing, a spooled row is deleted only after its event is on disk, the drain
  ends, and an event the program cannot persist stops it.
\<close>

section \<open>The actor\<close>

lemma evidence_save_frame [simp]:
  "app_columns (snd (evidence_save hmac ec avail now d c db)) = app_columns db"
  "db_spool (snd (evidence_save hmac ec avail now d c db)) = db_spool db"
proof -
  have "app_columns (snd (evidence_save_with_home hmac ec avail now h d c db)) = app_columns db
    \<and> db_spool (snd (evidence_save_with_home hmac ec avail now h d c db)) = db_spool db" for h
    by (simp add: evidence_save_with_home_def save_plugin_evidence_def app_columns_def split: sum.splits)
  then show "app_columns (snd (evidence_save hmac ec avail now d c db)) = app_columns db"
  "db_spool (snd (evidence_save hmac ec avail now d c db)) = db_spool db"
    by (simp_all add: evidence_save_def Let_def split: option.splits)
qed

lemma publish_diagnostics_frame:
  assumes "publish_diagnostics env t a db = (a', db')"
  shows "app_columns db' = app_columns db" "db_spool db' = db_spool db"
    "ap_reducer (na_state a') = ap_reducer (na_state a)" "na_persistence_store a' = na_persistence_store a"
    "na_verifier a' = na_verifier a"
  using assms by (auto simp: publish_diagnostics_def Let_def split: if_splits)

lemma with_diagnostics_frame [simp]:
  "na_state (with_diagnostics f a) = na_state a"
  "na_persistence_store (with_diagnostics f a) = na_persistence_store a"
  "na_verifier (with_diagnostics f a) = na_verifier a"
  by (simp_all add: with_diagnostics_def)

lemma db_holds_columns: "app_columns db' = app_columns db \<Longrightarrow> db_holds co r db' = db_holds co r db"
  using store_load_columns [of db' db co] by (simp add: db_holds_def)

text \<open>What handing an event to the persisting state does, by its answer.\<close>

definition event_effect :: "ingest_env \<Rightarrow> ingest_tick \<Rightarrow> session_event \<Rightarrow> ingestion_error + reduction_outcome
    \<Rightarrow> ingestion_actor \<Rightarrow> database \<Rightarrow> ingestion_actor \<Rightarrow> database \<Rightarrow> bool" where
  "event_effect env t e res a db a' db' \<longleftrightarrow>
     (\<exists>r out. reduce_at (ie_sha env) (ap_reducer (na_state a)) e (it_now t) = Some (r, out)
      \<and> (case res of
           Inl err \<Rightarrow> err = IngestPersistence \<and> is_applied out \<and> na_state a' = na_state a \<and> db' = db
         | Inr o' \<Rightarrow> o' = out \<and> db_spool db' = db_spool db
             \<and> (case out of
                  Applied n \<Rightarrow> n = rd_revision (ap_reducer (na_state a'))
                    \<and> db_holds (ie_codec env) (ap_reducer (na_state a')) db'
                | _ \<Rightarrow> app_columns db' = app_columns db \<and> ap_reducer (na_state a') = r)))"

lemma app_event_cases:
  assumes "app_apply_event_persisted sha co avail now started e s db = Some (result, s', db')"
  obtains r out where "reduce_at sha (ap_reducer s) e now = Some (r, out)"
    "result = Inr out \<and> (\<not> is_applied out \<longrightarrow> ap_reducer s' = r) \<or> (\<exists>err. result = Inl err) \<and> is_applied out"
  using assms
  by (cases "reduce_at sha (ap_reducer s) e now")
    (auto simp: app_apply_event_persisted_def Let_def split: if_splits sum.splits prod.splits)

lemma ingest_reduce_event_effect:
  assumes "codec_sound (ie_codec env)" "\<not> isl (store_load (ie_codec env) True db)" "na_persistence_store a"
    and "ingest_reduce_event env t e trust a db = Some (res, a', db')"
  shows "event_effect env t e res a db a' db'"
proof -
  obtain result s1 db1 where run: "app_apply_event_persisted (ie_sha env) (ie_codec env) (it_avail t)
      (it_now t) (it_started t) e (na_state a) db = Some (result, s1, db1)"
    using assms(3,4) by (auto simp: ingest_reduce_event_def)
  obtain r out where r: "reduce_at (ie_sha env) (ap_reducer (na_state a)) e (it_now t) = Some (r, out)"
    "result = Inr out \<and> (\<not> is_applied out \<longrightarrow> ap_reducer s1 = r) \<or> (\<exists>err. result = Inl err) \<and> is_applied out"
    using run by (rule app_event_cases)
  note effect = app_apply_event_persisted_all_or_nothing [OF assms(1,2) run]
  show ?thesis
  proof (cases result)
    case (Inl err)
    with run assms(3,4) have "res = Inl IngestPersistence" "a' = a\<lparr>na_state := s1\<rparr>" "db' = db1"
      by (simp_all add: ingest_reduce_event_def)
    with Inl r effect show ?thesis by (auto simp: event_effect_def all_or_nothing_def)
  next
    case (Inr o1)
    define a1 where "a1 = with_diagnostics (\<lambda>d. count_outcome o1 (attribute_event trust e d)) (a\<lparr>na_state := s1\<rparr>)"
    define a2 where "a2 = (if is_applied o1 then a1\<lparr>na_snapshots := app_snapshot s1\<rparr> else a1)"
    have "res = Inr o1 \<and> publish_diagnostics env t a2 db1 = (a', db')"
      using Inr run assms(3,4) by (auto simp: ingest_reduce_event_def Let_def a1_def a2_def split: if_splits)
    then have "res = Inr o1" and pub: "publish_diagnostics env t a2 db1 = (a', db')" by simp_all
    moreover have "ap_reducer (na_state a2) = ap_reducer s1" by (simp add: a1_def a2_def)
    ultimately show ?thesis
      using Inr r effect publish_diagnostics_frame [OF pub] db_holds_columns [of db' db1]
      by (cases out) (auto simp: event_effect_def all_or_nothing_def)
  qed
qed

lemma with_verifier_effect:
  "event_effect env t e res (a\<lparr>na_verifier := v\<rparr>) db a' db' = event_effect env t e res a db a' db'"
  by (simp add: event_effect_def cong: sum.case_cong)

text \<open>The verified message repeats the fields of the message that passed the checks.\<close>

lemma verified_fields:
  assumes "verify_payload dec enc hmac v payload now = (v', Inr vm)"
  obtains m where "check_message dec enc hmac v payload now = Inr m"
    "vm = \<lparr>vm_event = fm_event m, vm_purpose = fm_purpose m, vm_instance_id = fm_instance_id m, vm_nonce = fm_nonce m\<rparr>"
  using assms by (auto simp: verify_payload_def Let_def split: sum.splits if_splits)

lemma disposition_of_iff: "disposition_of out = (if out = Duplicate then AckDuplicate else AckAccepted)"
  by (cases out) simp_all

text \<open>What the actor promises with an acknowledgement.\<close>

lemma acknowledged_durable:
  assumes "codec_sound (ie_codec env)" "store_load (ie_codec env) True db = Inr old" "na_persistence_store a"
    and "ingest env t payload now a db = Some (res, a', db')"
  shows "case res of
      Inl err \<Rightarrow> ap_reducer (na_state a') = ap_reducer (na_state a) \<and> app_columns db' = app_columns db
    | Inr ack \<Rightarrow> \<exists>m. check_message (ie_decode env) (ie_encode env) (ie_hmac env) (na_verifier a) payload now = Inr m
        \<and> ack_validate_for ack m = Inr ()
        \<and> (if fm_purpose m = PurposeVerification then na_state a' = na_state a \<and> db' = db
           else \<exists>r out. reduce_at (ie_sha env) (ap_reducer (na_state a)) (fm_event m) (it_now t) = Some (r, out)
             \<and> fa_disposition ack = (if out = Duplicate then AckDuplicate else AckAccepted)
             \<and> (if \<exists>n. out = Applied n then db_holds (ie_codec env) (ap_reducer (na_state a')) db'
                else ap_reducer (na_state a') = r \<and> app_columns db' = app_columns db))"
proof -
  obtain v result where verified: "verify_payload (ie_decode env) (ie_encode env) (ie_hmac env) (na_verifier a) payload now
      = (v, result)" by fastforce
  have loads: "\<not> isl (store_load (ie_codec env) True db)" using assms(2) by simp
  show ?thesis
  proof (cases result)
    case (Inl err)
    then obtain a1 where "res = Inl (IngestProtocol err)" and pub: "publish_diagnostics env t a1 db = (a', db')"
      and "na_state a1 = na_state a"
      using assms(4) verified by (fastforce simp: ingest_def)
    with publish_diagnostics_frame [OF pub] show ?thesis by simp
  next
    case (Inr vm)
    with verified obtain m where m: "check_message (ie_decode env) (ie_encode env) (ie_hmac env) (na_verifier a) payload now = Inr m"
      "vm = \<lparr>vm_event = fm_event m, vm_purpose = fm_purpose m, vm_instance_id = fm_instance_id m, vm_nonce = fm_nonce m\<rparr>"
      using verified_fields by blast
    have ack: "ack_validate_for (acknowledgement vm d) m = Inr ()" for d
      by (simp add: ack_validate_for_def acknowledgement_def m(2))
    show ?thesis
    proof (cases "fm_purpose m")
      case PurposeVerification
      with assms(4) verified Inr m(2) obtain d where "res = Inr (acknowledgement vm d)"
          "na_state a' = na_state a" "db' = db"
        by (auto simp: ingest_def Let_def)
      with m(1) ack PurposeVerification show ?thesis by simp
    next
      case PurposeEvent
      then obtain r1 where step: "ingest_reduce_event env t (fm_event m) AttributedAuthenticated
            (a\<lparr>na_verifier := v\<rparr>) db = Some (r1, a', db')"
        and res: "res = map_sum id (\<lambda>o'. acknowledgement vm (disposition_of o')) r1"
        using assms(4) verified Inr m(2) by (auto simp: ingest_def Let_def)
      have effect: "event_effect env t (fm_event m) r1 a db a' db'"
        using ingest_reduce_event_effect [OF assms(1) loads _ step] assms(3) with_verifier_effect by simp
      show ?thesis
      proof (cases r1)
        case (Inl err)
        with effect res show ?thesis by (auto simp: event_effect_def)
      next
        case (Inr out)
        with effect obtain r where "reduce_at (ie_sha env) (ap_reducer (na_state a)) (fm_event m) (it_now t) = Some (r, out)"
          "if \<exists>n. out = Applied n then db_holds (ie_codec env) (ap_reducer (na_state a')) db'
           else ap_reducer (na_state a') = r \<and> app_columns db' = app_columns db"
          by (cases out) (auto simp: event_effect_def)
        with Inr res m(1) ack PurposeEvent show ?thesis
          by (auto simp: acknowledgement_def disposition_of_iff)
      qed
    qed
  qed
qed

text \<open>
  C9. An acknowledgement promises durability. When the actor acknowledges a message, the message was
  authenticated, the acknowledgement matches it, and its event has been reduced; if that changed the
  state, the next start reads the reducer now in memory from the database, otherwise the answer
  writes no application state. A verification message changes neither the state nor the database. A message that is refused,
  for whatever reason, leaves the reducer and the stored application state as they were.
\<close>

theorem acknowledged_event_durable:
  assumes "codec_sound (ie_codec env)" "store_load (ie_codec env) True db = Inr old" "na_persistence_store a"
    and "ingest env t payload now a db = Some (res, a', db')"
  shows "case res of
      Inl err \<Rightarrow> ap_reducer (na_state a') = ap_reducer (na_state a) \<and> app_columns db' = app_columns db
    | Inr ack \<Rightarrow> \<exists>m. check_message (ie_decode env) (ie_encode env) (ie_hmac env) (na_verifier a) payload now = Inr m
        \<and> ack_validate_for ack m = Inr ()
        \<and> (if fm_purpose m = PurposeVerification then na_state a' = na_state a \<and> db' = db
           else \<exists>r out. reduce_at (ie_sha env) (ap_reducer (na_state a)) (fm_event m) (it_now t) = Some (r, out)
             \<and> fa_disposition ack = (if out = Duplicate then AckDuplicate else AckAccepted)
             \<and> (if \<exists>n. out = Applied n then db_holds (ie_codec env) (ap_reducer (na_state a')) db'
                else ap_reducer (na_state a') = r \<and> app_columns db' = app_columns db))"
  using acknowledged_durable [OF assms] .

section \<open>The drain\<close>

lemma app_columns_frames [simp]:
  "app_columns (fst (delete_rows p db)) = app_columns db"
  "app_columns (fst (update_rows p f db)) = app_columns db"
  "app_columns (increment_spool_metrics e l m db) = app_columns db"
  by (simp_all add: delete_rows_def update_rows_def increment_spool_metrics_def app_columns_def)

lemma app_columns_spool [simp]:
  "app_columns (snd (delete_claimed k token db)) = app_columns db"
  "app_columns (snd (release_claimed k token db)) = app_columns db"
  "app_columns (snd (delete_inbound_spool k db)) = app_columns db"
  "app_columns (fst (recover_expired_claims now db)) = app_columns db"
  "app_columns (release_claim c db) = app_columns db"
  "app_columns (record_retention_delta d db) = app_columns db"
  by (simp_all add: delete_claimed_def release_claimed_def delete_inbound_spool_def recover_expired_claims_def
      release_claim_def record_retention_delta_def case_prod_beta Let_def)

lemma app_columns_enforce [simp]: "app_columns (enforce_and_record en l now db) = app_columns db"
proof -
  have "app_columns (delete_all_rows rs db) = app_columns db" for rs db
    unfolding delete_all_rows_def by (induction rs arbitrary: db) auto
  then show ?thesis by (simp add: enforce_and_record_def enforce_limits_def Let_def)
qed

lemma app_columns_claim_loop:
  "claim_loop en dec tokens i now db = (res, db') \<Longrightarrow> app_columns db' = app_columns db"
proof (induction en dec tokens i now db rule: claim_loop.induct)
  case (1 en dec tokens i now db)
  have claimed: "app_columns db1 = app_columns db"
    if "claim_inbound_spool en now claim_lease_ms (tokens i) db = (r, db1)" for r db1
    using that by (auto simp: claim_inbound_spool_def Let_def case_prod_beta split: list.splits if_splits)
  obtain r db1 where inbound: "claim_inbound_spool en now claim_lease_ms (tokens i) db = (r, db1)" by fastforce
  note run = "1.prems" [unfolded claim_loop.simps [of en dec tokens i now db] inbound]
  show ?case
  proof (cases r)
    case None
    with run claimed [OF inbound] show ?thesis by simp
  next
    case (Some row)
    show ?thesis
    proof (cases "decode_valid dec (sp_payload row)")
      case None
      from "1.IH" [OF inbound [symmetric] Some None] run Some None claimed [OF inbound]
      show ?thesis by (simp add: drop_malformed_def)
    next
      case (Some e)
      with run claimed [OF inbound] \<open>r = Some row\<close> show ?thesis by auto
    qed
  qed
qed

lemma next_claim_cases:
  assumes "engine_ok (de_engine de)" "spool_wf db" "next_spool_claim de t db = (claim, db1)"
  shows "spool_wf db1" "app_columns db1 = app_columns db" "length (db_spool db1) \<le> length (db_spool db)"
    "claim = Some c \<Longrightarrow> holds_claim (de_decode de) (i64_of_u64 (dt_now t)) c db1"
proof -
  have "spool_wf db1 \<and> app_columns db1 = app_columns db \<and> length (db_spool db1) \<le> length (db_spool db)
    \<and> (\<forall>c. claim = Some c \<longrightarrow> holds_claim (de_decode de) (i64_of_u64 (dt_now t)) c db1)"
  proof (cases "claim_next (de_engine de) (de_decode de) (dt_tokens t) (de_store de) (dt_now t) db")
    case (Inr r)
    show ?thesis
    proof (cases "dt_claim_ok t")
      case True
      with Inr assms(3) have run: "claim_next (de_engine de) (de_decode de) (dt_tokens t) (de_store de) (dt_now t) db
          = Inr (claim, db1)" by (simp add: next_spool_claim_def)
      let ?db0 = "fst (recover_expired_claims (i64_of_u64 (dt_now t)) db)"
      let ?db2 = "enforce_and_record (de_engine de) (ss_limits (de_store de)) (i64_of_u64 (dt_now t)) ?db0"
      note loop = claim_next_Inr [OF run]
      have wf2: "spool_wf ?db2" by (rule enforce_wf [OF recover_wf [OF assms(2)]])
      obtain p where "db_spool ?db2 = filter p (db_spool ?db0)" using enforce_rows by blast
      moreover obtain n where "claim_frame (de_decode de) ?db2 db1 n" using claim_loop_spec [OF assms(1) wf2 loop] by blast
      then have "length (db_spool db1) \<le> length (db_spool ?db2)" by (simp add: claim_frame_def)
      ultimately have "length (db_spool db1) \<le> length (db_spool ?db0)"
        by (metis le_trans length_filter_le)
      moreover have "length (db_spool ?db0) = length (db_spool db)"
        by (simp add: recover_expired_claims_def update_rows_def)
      ultimately show ?thesis
        using claim_next_spec [OF assms(1,2) run] app_columns_claim_loop [OF loop]
          claim_next_holds [OF assms(1,2)] run by auto
    qed (use assms(2,3) in \<open>simp add: next_spool_claim_def\<close>)
  qed (use assms(2,3) in \<open>auto simp: next_spool_claim_def split: if_splits\<close>)
  then show "spool_wf db1" "app_columns db1 = app_columns db" "length (db_spool db1) \<le> length (db_spool db)"
    "claim = Some c \<Longrightarrow> holds_claim (de_decode de) (i64_of_u64 (dt_now t)) c db1" by blast+
qed

text \<open>The claimed row is the only one with its key, so committing it deletes exactly it.\<close>

lemma held_row:
  assumes "spool_wf db" "holds_claim dec now c db"
  obtains row where "row \<in> set (db_spool db)" "claimed_by (cl_key c) (cl_token c) row"
    "decode_valid dec (sp_payload row) = Some (cl_event c)"
    "filter (claimed_by (cl_key c) (cl_token c)) (db_spool db) = [row]"
proof -
  obtain row where row: "row \<in> set (db_spool db)" "claimed_by (cl_key c) (cl_token c) row"
    "decode_valid dec (sp_payload row) = Some (cl_event c)"
    using assms(2) by (auto simp: holds_claim_def)
  have "filter (\<lambda>s. row_key s = row_key row \<and> claimed_by (cl_key c) (cl_token c) s) (db_spool db) = [row]"
    using assms(1) row(1,2) by (intro key_filter) auto
  moreover have "(\<lambda>s. row_key s = row_key row \<and> claimed_by (cl_key c) (cl_token c) s) = claimed_by (cl_key c) (cl_token c)"
    using row(2) by (auto simp: claimed_by_def)
  ultimately show thesis using row that by simp
qed

lemma commit_held:
  assumes "filter (claimed_by (cl_key c) (cl_token c)) (db_spool db) = [row]"
  shows "fst (commit_claim c db) = Inr ()" "app_columns (snd (commit_claim c db)) = app_columns db"
    "db_spool (snd (commit_claim c db)) = filter (\<lambda>r. \<not> claimed_by (cl_key c) (cl_token c) r) (db_spool db)"
  using assms by (simp_all add: commit_claim_def delete_claimed_def delete_rows_def app_columns_def Let_def)

lemma decoded_valid: "decode_valid dec payload = Some e \<Longrightarrow> event_validate e = Inr ()"
  by (auto simp: decode_valid_def split: option.splits if_splits)

text \<open>
  C10. A spooled event leaves the spool only when it is on disk. A turn of the drain that goes on has
  claimed a row, reduced its event and deleted exactly that row; if the event changed the state, the next start reads the
  reducer now in memory from the same database. A turn that stops the drain has deleted no claimed row: the row it claimed is
  still there, claimed or pending again.
\<close>

theorem drained_event_durable:
  assumes "codec_sound (ie_codec (de_ingest de))" "store_load (ie_codec (de_ingest de)) True db = Inr old"
    and "na_persistence_store a" "engine_ok (de_engine de)" "spool_wf db"
    and "drain_turn de t a db = Some (continue, a', db')" "next_spool_claim de t db = (claim, db1)"
  shows "case claim of
      None \<Rightarrow> \<not> continue \<and> a' = a \<and> db' = db1
    | Some c \<Rightarrow> \<exists>row \<in> set (db_spool db1). claimed_by (cl_key c) (cl_token c) row \<and>
        (if continue
         then db_spool db' = filter (\<lambda>r. \<not> claimed_by (cl_key c) (cl_token c) r) (db_spool db1)
           \<and> filter (claimed_by (cl_key c) (cl_token c)) (db_spool db1) = [row]
           \<and> (\<exists>r out. reduce_at (ie_sha (de_ingest de)) (ap_reducer (na_state a)) (cl_event c) (it_now (dt_ingest t))
                 = Some (r, out)
               \<and> (if \<exists>n. out = Applied n then db_holds (ie_codec (de_ingest de)) (ap_reducer (na_state a')) db'
                  else ap_reducer (na_state a') = r \<and> app_columns db' = app_columns db))
         else row \<in> set (db_spool db') \<or> make_pending row \<in> set (db_spool db'))"
proof (cases claim)
  case None
  with assms(6,7) show ?thesis by (simp add: drain_turn_def)
next
  case (Some c)
  note claimed = next_claim_cases [OF assms(4,5,7)]
  obtain row where row: "row \<in> set (db_spool db1)" "claimed_by (cl_key c) (cl_token c) row"
    "decode_valid (de_decode de) (sp_payload row) = Some (cl_event c)"
    "filter (claimed_by (cl_key c) (cl_token c)) (db_spool db1) = [row]"
    using claimed(1) claimed(4) [OF Some] by (rule held_row)
  have valid: "event_validate (cl_event c) = Inr ()" by (rule decoded_valid [OF row(3)])
  obtain res a2 db2 where step: "ingest_reduce_event (de_ingest de) (dt_ingest t) (cl_event c)
        AttributedUnauthenticated a db1 = Some (res, a2, db2)"
    and turn: "(continue, a', db') = (case res of
       Inr outcome \<Rightarrow>
         if dt_commit_ok t
         then (case commit_claim c db2 of
             (Inr _, db3) \<Rightarrow> (True, a2, db3)
           | (Inl _, db3) \<Rightarrow> (False, a2, db3))
         else (False, a2, drop_claim t c db2)
     | Inl e \<Rightarrow> (False, a2, drop_claim t c db2))"
    using assms(6,7) Some valid by (auto simp: drain_turn_def ingest_spool_claim_def ingest_spooled_def)
  have loads: "\<not> isl (store_load (ie_codec (de_ingest de)) True db1)"
    using store_load_columns [OF claimed(2)] assms(2) by simp
  have effect: "event_effect (de_ingest de) (dt_ingest t) (cl_event c) res a db1 a2 db2"
    by (rule ingest_reduce_event_effect [OF assms(1) loads assms(3) step])
  then have spool: "db_spool db2 = db_spool db1" by (cases res) (auto simp: event_effect_def)
  have dropped: "row \<in> set (db_spool (drop_claim t c db2)) \<or> make_pending row \<in> set (db_spool (drop_claim t c db2))"
    using row(1,2) by (auto simp: drop_claim_def release_claim_def release_claimed_def update_rows_def spool Let_def)
  note committed = commit_held [of c db2 row, unfolded spool, OF row(4)]
  show ?thesis
  proof (cases "continue")
    case True
    with turn committed(1) obtain out where out: "res = Inr out" "a' = a2" "db' = snd (commit_claim c db2)"
      by (auto split: sum.splits if_splits prod.splits)
    with effect obtain r where "reduce_at (ie_sha (de_ingest de)) (ap_reducer (na_state a)) (cl_event c)
        (it_now (dt_ingest t)) = Some (r, out)"
      "if \<exists>n. out = Applied n then db_holds (ie_codec (de_ingest de)) (ap_reducer (na_state a2)) db2
       else ap_reducer (na_state a2) = r \<and> app_columns db2 = app_columns db1"
      by (cases out) (auto simp: event_effect_def)
    with Some True row out committed(2,3) claimed(2) db_holds_columns [OF committed(2)] show ?thesis
      by (auto split: if_splits)
  next
    case False
    with turn committed(1) have "db' = drop_claim t c db2"
      by (auto split: sum.splits if_splits prod.splits)
    with Some False row(1,2) dropped show ?thesis by auto
  qed
qed

section \<open>The drain ends\<close>

lemma ingest_reduce_event_spool:
  assumes "ingest_reduce_event env t e trust a db = Some (res, a', db')"
  shows "db_spool db' = db_spool db"
proof -
  have persisted: "db_spool db1 = db_spool db"
    if "app_apply_event_persisted sha co avail now started e s db = Some (r, s1, db1)" for sha co avail now started s r s1 db1
    using that by (auto simp: app_apply_event_persisted_def Let_def dest: store_save_failed store_save_frame
        split: if_splits sum.splits prod.splits)
  obtain r s1 db1 where core: "(if na_persistence_store a
      then app_apply_event_persisted (ie_sha env) (ie_codec env) (it_avail t) (it_now t) (it_started t) e (na_state a) db
      else map_option (\<lambda>(outcome, s). (Inr outcome, s, db))
             (app_apply_event (ie_sha env) (it_now t) e (na_state a))) = Some (r, s1, db1)"
    using assms by (auto simp: ingest_reduce_event_def)
  then have spool: "db_spool db1 = db_spool db" by (auto dest: persisted split: if_splits)
  from assms core spool show ?thesis
    unfolding ingest_reduce_event_def
    by (cases r) (auto simp: Let_def dest!: publish_diagnostics_frame(2))
qed

lemma ingest_reduce_event_total:
  assumes "event_validate e = Inr ()" "\<And>bs. length (ie_sha env bs) = 32"
  shows "ingest_reduce_event env t e trust a db \<noteq> None"
proof -
  obtain r out where "reduce_at (ie_sha env) (ap_reducer (na_state a)) e (it_now t) = Some (r, out)"
    using reduce_at_defined [of e "ie_sha env" "ap_reducer (na_state a)" "it_now t"] assms
    by (auto simp: event_validate_iff)
  then show ?thesis
    by (simp add: ingest_reduce_event_def app_apply_event_persisted_def app_apply_event_def del: not_None_eq)
qed

lemma release_claim_wf: "spool_wf db \<Longrightarrow> spool_wf (release_claim c db)"
  by (rule release_spec(1))

text \<open>
  What one turn leaves, whatever it does. A turn that does not continue either found no row to claim
  (then the database did not answer, or no pending row is left), or it claimed a row and that row was
  not committed: the application refused the event of this claim, or the commit was not answered.
\<close>

definition drain_stop :: "drain_env \<Rightarrow> drain_tick \<Rightarrow> ingestion_actor \<Rightarrow> database \<Rightarrow> database \<Rightarrow> bool" where
  "drain_stop de t a db db' = (case next_spool_claim de t db of
     (None, _) \<Rightarrow> \<not> dt_claim_ok t \<or> filter is_pending (db_spool db') = []
   | (Some c, db1) \<Rightarrow> \<not> dt_commit_ok t
       \<or> (case ingest_spooled (de_ingest de) (dt_ingest t) (cl_event c) a db1 of
            Some (Inl err, _, _) \<Rightarrow> True | _ \<Rightarrow> False))"

lemma drain_turn_total:
  assumes "engine_ok (de_engine de)" "spool_wf db" "\<And>bs. length (ie_sha (de_ingest de) bs) = 32"
    and "validate_limits (ss_limits (de_store de)) = Inr ()"
  obtains continue a' db' where "drain_turn de t a db = Some (continue, a', db')" "spool_wf db'"
    "continue \<Longrightarrow> length (db_spool db') < length (db_spool db)"
    "\<not> continue \<Longrightarrow> drain_stop de t a db db'"
proof -
  obtain claim db1 where next_claim: "next_spool_claim de t db = (claim, db1)" by fastforce
  note claimed = next_claim_cases [OF assms(1,2) next_claim]
  show thesis
  proof (cases claim)
    case None
    have "filter is_pending (db_spool db1) = []" if "dt_claim_ok t"
    proof -
      have run: "claim_next (de_engine de) (de_decode de) (dt_tokens t) (de_store de) (dt_now t) db = Inr (None, db1)"
        using next_claim None that assms(4) by (auto simp: next_spool_claim_def claim_next_def Let_def case_prod_beta split: sum.splits)
      from claim_loop_spec [OF assms(1) enforce_wf [OF recover_wf [OF assms(2)]] claim_next_Inr [OF run]]
      show ?thesis by auto
    qed
    with that [of False a db1] None next_claim claimed(1) show thesis by (auto simp: drain_turn_def drain_stop_def)
  next
    case (Some c)
    obtain row where row: "decode_valid (de_decode de) (sp_payload row) = Some (cl_event c)"
      "filter (claimed_by (cl_key c) (cl_token c)) (db_spool db1) = [row]" "row \<in> set (db_spool db1)"
      "claimed_by (cl_key c) (cl_token c) row"
      using claimed(1) claimed(4) [OF Some] by (rule held_row)
    have valid: "event_validate (cl_event c) = Inr ()" by (rule decoded_valid [OF row(1)])
    obtain res a2 db2 where step: "ingest_reduce_event (de_ingest de) (dt_ingest t) (cl_event c)
        AttributedUnauthenticated a db1 = Some (res, a2, db2)"
      using ingest_reduce_event_total [OF valid assms(3)] by fast
    then have spooled: "ingest_spooled (de_ingest de) (dt_ingest t) (cl_event c) a db1 = Some (res, a2, db2)"
      by (simp add: ingest_spooled_def valid)
    have spool: "db_spool db2 = db_spool db1" by (rule ingest_reduce_event_spool [OF step])
    then have wf2: "spool_wf db2" using claimed(1) by (simp add: spool_wf_def)
    note committed = commit_held [of c db2 row, unfolded spool, OF row(2)]
    have fewer: "length (db_spool (snd (commit_claim c db2))) < length (db_spool db)"
    proof -
      have "length (filter (\<lambda>r. \<not> claimed_by (cl_key c) (cl_token c) r) (db_spool db1)) < length (db_spool db1)"
        using row(3,4) by (intro length_filter_less) auto
      with claimed(3) committed(3) show ?thesis by simp
    qed
    show thesis
    proof (cases "res")
      case (Inl e)
      show thesis
      proof (rule that [of False a2 "drop_claim t c db2"])
        show "drain_turn de t a db = Some (False, a2, drop_claim t c db2)"
          using next_claim Some spooled Inl by (simp add: drain_turn_def ingest_spool_claim_def)
        show "spool_wf (drop_claim t c db2)" using release_claim_wf [OF wf2, of c] wf2 by (simp add: drop_claim_def)
        show "drain_stop de t a db (drop_claim t c db2)"
          using next_claim Some spooled Inl by (simp add: drain_stop_def)
      qed simp
    next
      case (Inr out)
      show thesis
      proof (cases "dt_commit_ok t")
        case True
        with that [of True a2 "snd (commit_claim c db2)"] next_claim Some spooled Inr fewer commit_spec(1) [OF wf2, of c]
          committed(1) show thesis
          by (cases "commit_claim c db2") (auto simp: drain_turn_def ingest_spool_claim_def)
      next
        case False
        with that [of False a2 "drop_claim t c db2"] next_claim Some spooled Inr release_claim_wf [OF wf2, of c] wf2
        show thesis by (auto simp: drain_turn_def ingest_spool_claim_def drop_claim_def drain_stop_def)
      qed
    qed
  qed
qed

text \<open>
  C11. The drain ends: with more turns allowed than there are rows, the loop finishes, without a
  panic. Every turn before the last committed its row and went on, and the last one stopped because no
  pending row is left, because the database did not answer its claim or commit, or because the
  application refused the very event it had claimed.
\<close>

theorem drain_ends:
  assumes "engine_ok (de_engine de)" "spool_wf db" "\<And>bs. length (ie_sha (de_ingest de) bs) = 32"
    and "validate_limits (ss_limits (de_store de)) = Inr ()" "length (db_spool db) < length ts"
  shows "\<exists>a' db' ts1 t ts2 a1 db1. drain_loop de ts a db = Some (True, a', db')
    \<and> ts = ts1 @ t # ts2 \<and> drain_loop de ts1 a db = Some (False, a1, db1)
    \<and> drain_turn de t a1 db1 = Some (False, a', db')
    \<and> (case next_spool_claim de t db1 of
         (None, _) \<Rightarrow> \<not> dt_claim_ok t \<or> filter is_pending (db_spool db') = []
       | (Some c, db2) \<Rightarrow> \<not> dt_commit_ok t
           \<or> (case ingest_spooled (de_ingest de) (dt_ingest t) (cl_event c) a1 db2 of
                Some (Inl err, _, _) \<Rightarrow> True | _ \<Rightarrow> False))"
  unfolding drain_stop_def [symmetric] using assms(2,5)
proof (induction ts arbitrary: a db)
  case (Cons t ts)
  obtain continue a1 db1 where turn: "drain_turn de t a db = Some (continue, a1, db1)" "spool_wf db1"
    "continue \<Longrightarrow> length (db_spool db1) < length (db_spool db)"
    "\<not> continue \<Longrightarrow> drain_stop de t a db db1"
    using drain_turn_total [OF assms(1) Cons.prems(1) assms(3,4), of t a] by blast
  show ?case
  proof (cases "continue")
    case True
    with turn(3) Cons.prems(2) have "length (db_spool db1) < length ts" by simp
    from Cons.IH [OF turn(2) this, of a1] obtain a' db' ts1 t' ts2 a2 db2 where
      "drain_loop de ts a1 db1 = Some (True, a', db')" "ts = ts1 @ t' # ts2"
      "drain_loop de ts1 a1 db1 = Some (False, a2, db2)" "drain_turn de t' a2 db2 = Some (False, a', db')"
      "drain_stop de t' a2 db2 db'" by blast
    with turn(1) True show ?thesis
      by - (rule exI [of _ a'], rule exI [of _ db'], rule exI [of _ "t # ts1"], rule exI [of _ t'], rule exI [of _ ts2], auto)
  next
    case False
    with turn(1) have "drain_loop de (t # ts) a db = Some (True, a1, db1)" by simp
    with turn(1) turn(4) [OF False] False show ?thesis
      by - (rule exI [of _ a1], rule exI [of _ db1], rule exI [of _ "[]"], rule exI [of _ t], rule exI [of _ ts], simp)
  qed
qed simp

section \<open>A concrete environment\<close>

definition started_event :: session_event where
  "started_event = sample_event TurnStarted ''t1'' ''e1'' 5"

definition sample_ingest_env :: ingest_env where
  "sample_ingest_env = \<lparr>ie_sha = sample_sha, ie_hmac = sample_hmac, ie_decode = (\<lambda>_. Some (sample_signed started_event 7)),
     ie_encode = (\<lambda>_. Some []), ie_codec = sample_codec,
     ie_evidence = \<lparr>ec_signing = (\<lambda>_ _. None), ec_to_string = (\<lambda>_. None), ec_from_str = (\<lambda>_. None), ec_json_ok = (\<lambda>_. True)\<rparr>\<rparr>"

definition sample_tick :: ingest_tick where
  "sample_tick = \<lparr>it_now = 6, it_started = 7, it_avail = True, it_evidence_avail = True, it_evidence_now = 9\<rparr>"

definition sample_actor :: "app_state \<Rightarrow> ingestion_actor" where
  "sample_actor s = with_persistence_store
     (ingestion_channel (s\<lparr>ap_reducer := initial_reducer\<rparr>) sample_credentials 8 adapter_default False)"

definition sample_drain :: drain_env where
  "sample_drain = \<lparr>de_engine = rowid_engine, de_decode = (\<lambda>_. Some started_event),
     de_store = store_for_application, de_ingest = sample_ingest_env\<rparr>"

definition sample_drain_tick :: drain_tick where
  "sample_drain_tick = \<lparr>dt_now = 10, dt_tokens = (\<lambda>_. lit ''t1''), dt_claim_ok = True, dt_commit_ok = True,
     dt_release_ok = True, dt_ingest = sample_tick\<rparr>"

lemma sample_env_simps [simp]:
  "ie_codec sample_ingest_env = sample_codec" "ie_sha sample_ingest_env = sample_sha"
  "de_ingest sample_drain = sample_ingest_env" "de_engine sample_drain = rowid_engine"
  "dt_ingest sample_drain_tick = sample_tick" "na_persistence_store (sample_actor s)"
  "db_app one_row = empty_app_state"
  by (simp_all add: sample_ingest_env_def sample_drain_def sample_drain_tick_def sample_actor_def
      with_persistence_store_def one_row_def)

lemma started_event_valid: "event_ok started_event" "event_validate started_event = Inr ()"
  by (simp_all add: started_event_def event_validate_iff)

lemma sample_event_ingested:
  assumes "db_app db = empty_app_state" "na_state a = s\<lparr>ap_reducer := initial_reducer\<rparr>" "na_persistence_store a"
    "\<not> na_evidence_store a"
  shows "\<exists>a'. ingest_reduce_event sample_ingest_env sample_tick started_event trust a db = Some (Inr (Applied 1), a', sample_saved db)"
proof -
  obtain s' where "app_apply_event_persisted sample_sha sample_codec True 6 7 started_event
      (s\<lparr>ap_reducer := initial_reducer\<rparr>) db = Some (Inr (Applied 1), s', sample_saved db)"
    using sample_event_saved [OF assms(1), of s] by (auto simp: started_event_def)
  then show ?thesis
    using assms by (simp add: ingest_reduce_event_def sample_ingest_env_def sample_tick_def
        publish_diagnostics_def with_diagnostics_def Let_def)
qed

lemma sample_actor_simps:
  "na_state (sample_actor s) = s\<lparr>ap_reducer := initial_reducer\<rparr>" "\<not> na_evidence_store (sample_actor s)"
  "na_verifier (sample_actor s) = verifier_new sample_credentials"
  by (simp_all add: sample_actor_def with_persistence_store_def ingestion_channel_def)

lemma sample_ingested:
  assumes "length payload \<le> max_forwarding_frame_bytes"
  shows "\<exists>a'. check_message (ie_decode sample_ingest_env) (ie_encode sample_ingest_env) (ie_hmac sample_ingest_env)
      (na_verifier (sample_actor s)) payload 9 = Inr (sample_signed started_event 7)
    \<and> ingest sample_ingest_env sample_tick payload 9 (sample_actor s) empty_database
      = Some (Inr (acknowledgement \<lparr>vm_event = started_event, vm_purpose = PurposeEvent,
          vm_instance_id = cd_instance_id sample_credentials, vm_nonce = hex_of_bytes (replicate 16 1)\<rparr> AckAccepted),
        a', sample_saved empty_database)"
proof -
  have "check_message (ie_decode sample_ingest_env) (ie_encode sample_ingest_env) (ie_hmac sample_ingest_env)
      (verifier_new sample_credentials) [] 9 = Inr (sample_signed started_event 7)"
    using sample_check [OF started_event_valid(1), of 9 7 default_replay_window_ms default_nonce_capacity]
    by (simp add: sample_ingest_env_def verifier_new_def abs_diff_def default_replay_window_ms_def)
  with assms have checked: "check_message (ie_decode sample_ingest_env) (ie_encode sample_ingest_env) (ie_hmac sample_ingest_env)
      (verifier_new sample_credentials) payload 9 = Inr (sample_signed started_event 7)"
    by (simp add: check_message_def decode_payload_def sample_ingest_env_def)
  then obtain v vm where verified: "verify_payload (ie_decode sample_ingest_env) (ie_encode sample_ingest_env)
      (ie_hmac sample_ingest_env) (verifier_new sample_credentials) payload 9 = (v, Inr vm)"
    "vm = \<lparr>vm_event = started_event, vm_purpose = PurposeEvent,
       vm_instance_id = cd_instance_id sample_credentials, vm_nonce = hex_of_bytes (replicate 16 1)\<rparr>"
    by (simp add: verify_payload_def sample_signed_def)
       (simp add: verifier_new_def verifier_with_limits_def prune_nonces_def)
  obtain a' where "ingest_reduce_event sample_ingest_env sample_tick started_event AttributedAuthenticated
    (sample_actor s\<lparr>na_verifier := v\<rparr>) empty_database = Some (Inr (Applied 1), a', sample_saved empty_database)"
    using sample_event_ingested [OF empty_database_app, of "sample_actor s\<lparr>na_verifier := v\<rparr>"]
    by (auto simp: sample_actor_simps)
  with verified checked show ?thesis
    by (simp add: ingest_def sample_actor_simps)
qed

theorem acknowledged_event_durable_witness:
  "\<forall>s. \<exists>a' db' ack. ingest sample_ingest_env sample_tick [] 9 (sample_actor s) empty_database = Some (Inr ack, a', db')
     \<and> fa_disposition ack = AckAccepted \<and> db' = sample_saved empty_database
     \<and> db_holds sample_codec (ap_reducer (na_state a')) db'"
proof
  fix s
  obtain a' ack where checked: "check_message (ie_decode sample_ingest_env) (ie_encode sample_ingest_env) (ie_hmac sample_ingest_env)
      (na_verifier (sample_actor s)) [] 9 = Inr (sample_signed started_event 7)"
    and run: "ingest sample_ingest_env sample_tick [] 9 (sample_actor s) empty_database
      = Some (Inr ack, a', sample_saved empty_database)" "fa_disposition ack = AckAccepted"
    using sample_ingested [of "[]" s] by (auto simp: acknowledgement_def)
  have applied: "reduce_at sample_sha initial_reducer started_event (it_now sample_tick) = Some (sample_reduced, Applied 1)"
    using sample_reduced_run(1) by (simp add: sample_tick_def started_event_def)
  have "db_holds sample_codec (ap_reducer (na_state a')) (sample_saved empty_database)"
    using acknowledged_event_durable [OF _ _ _ run(1)] sample_codec_sound sample_load [OF empty_database_app] checked
    by (simp add: sample_actor_simps applied sample_signed_def)
  with run show "\<exists>a' db' ack. ingest sample_ingest_env sample_tick [] 9 (sample_actor s) empty_database = Some (Inr ack, a', db')
     \<and> fa_disposition ack = AckAccepted \<and> db' = sample_saved empty_database
     \<and> db_holds sample_codec (ap_reducer (na_state a')) db'" by auto
qed

definition sample_claim :: claimed_record where
  "sample_claim = \<lparr>cl_key = (lit ''codex'', lit ''ev''), cl_token = lit ''t1'', cl_event = started_event\<rparr>"

lemma sample_next_claim:
  "next_spool_claim sample_drain sample_drain_tick one_row = (Some sample_claim, empty_database\<lparr>db_spool := [claimed_row]\<rparr>)"
  using claims_one_row_with [of "\<lambda>_. Some started_event" started_event] started_event_valid(2)
  by (simp add: next_spool_claim_def sample_drain_def sample_drain_tick_def sample_claim_def decode_valid_def)

lemma sample_turn:
  "\<exists>a'. drain_turn sample_drain sample_drain_tick (sample_actor s) one_row
    = Some (True, a', sample_saved empty_database)"
proof -
  let ?db = "empty_database\<lparr>db_spool := [claimed_row]\<rparr>"
  obtain a' where "ingest_reduce_event sample_ingest_env sample_tick started_event AttributedUnauthenticated
    (sample_actor s) ?db = Some (Inr (Applied 1), a', sample_saved ?db)"
    using sample_event_ingested [of ?db "sample_actor s"] by (auto simp: sample_actor_simps)
  then have "ingest_spooled sample_ingest_env sample_tick (cl_event sample_claim) (sample_actor s) ?db
      = Some (Inr (Applied 1), a', sample_saved ?db)"
    by (simp add: ingest_spooled_def sample_claim_def started_event_valid)
  moreover have "commit_claim sample_claim (sample_saved ?db) = (Inr (), sample_saved empty_database)"
    by (simp add: commit_claim_def delete_claimed_def delete_rows_def sample_saved_def sample_claim_def claimed_by_def
        claimed_row_def claim_row_def stored_row_def row_key_def empty_database_def)
  ultimately show ?thesis
    by (simp add: drain_turn_def sample_next_claim ingest_spool_claim_def)
       (simp add: sample_drain_tick_def)
qed

theorem drained_event_durable_witness:
  "\<forall>s. \<exists>a' db'. drain_turn sample_drain sample_drain_tick (sample_actor s) one_row = Some (True, a', db')
     \<and> db_spool db' = [] \<and> db_holds sample_codec (ap_reducer (na_state a')) db'"
proof
  fix s
  obtain a' where run: "drain_turn sample_drain sample_drain_tick (sample_actor s) one_row
      = Some (True, a', sample_saved empty_database)" using sample_turn by blast
  have applied: "reduce_at sample_sha (ap_reducer (na_state (sample_actor s))) started_event (it_now sample_tick)
      = Some (sample_reduced, Applied 1)"
    using sample_reduced_run(1)
    by (simp add: sample_tick_def started_event_def sample_actor_simps)
  have "db_holds sample_codec (ap_reducer (na_state a')) (sample_saved empty_database)"
    using drained_event_durable [OF _ _ _ _ one_row_wf run sample_next_claim] sample_codec_sound
      sample_load [of one_row] applied by (simp add: sample_claim_def)
  with run show "\<exists>a' db'. drain_turn sample_drain sample_drain_tick (sample_actor s) one_row = Some (True, a', db')
     \<and> db_spool db' = [] \<and> db_holds sample_codec (ap_reducer (na_state a')) db'"
    by (simp add: sample_saved_def empty_database_def)
qed

lemma one_row_length: "length (db_spool one_row) = 1"
  by (simp add: one_row_def)

lemma sample_empty_turn:
  "\<exists>db'. drain_turn sample_drain sample_drain_tick a (sample_saved empty_database) = Some (False, a, db')
    \<and> db_spool db' = []"
proof -
  obtain claim db' where next_claim: "next_spool_claim sample_drain sample_drain_tick (sample_saved empty_database) = (claim, db')"
    by fastforce
  have wf: "spool_wf (sample_saved empty_database)" by (simp add: spool_wf_def sample_saved_def empty_database_def)
  note claimed = next_claim_cases [OF _ wf next_claim]
  have empty: "db_spool db' = []" using claimed(3) by (simp add: sample_saved_def empty_database_def)
  moreover have "claim = None"
  proof (cases claim)
    case (Some c)
    show ?thesis using held_row [OF claimed(1) claimed(4) [OF _ Some]] empty by auto
  qed simp
  ultimately show ?thesis using next_claim by (simp add: drain_turn_def)
qed

theorem drain_ends_witness:
  "\<forall>s. \<exists>a' db'. drain_loop sample_drain [sample_drain_tick, sample_drain_tick] (sample_actor s) one_row = Some (True, a', db')
     \<and> db_spool one_row \<noteq> [] \<and> db_spool db' = []"
proof
  fix s
  have "validate_limits (ss_limits (de_store sample_drain)) = Inr ()"
    by (simp add: sample_drain_def spool_defs)
  from drain_ends [OF _ one_row_wf _ this, of "[sample_drain_tick, sample_drain_tick]" "sample_actor s"]
  obtain a' db' where "drain_loop sample_drain [sample_drain_tick, sample_drain_tick] (sample_actor s) one_row = Some (True, a', db')"
    by (auto simp: one_row_length simp del: drain_loop.simps)
  moreover obtain a1 db1 where
    "drain_turn sample_drain sample_drain_tick (sample_actor s) one_row = Some (True, a1, sample_saved empty_database)"
    "drain_turn sample_drain sample_drain_tick a1 (sample_saved empty_database) = Some (False, a1, db1)" "db_spool db1 = []"
    using sample_turn sample_empty_turn by blast
  ultimately show "\<exists>a' db'. drain_loop sample_drain [sample_drain_tick, sample_drain_tick] (sample_actor s) one_row
      = Some (True, a', db') \<and> db_spool one_row \<noteq> [] \<and> db_spool db' = []"
    by (auto simp: one_row_def)
qed

end
