(* ===== verification/Ingestion_Guarantees.thy ===== *)
theory Ingestion_Guarantees
  imports Ingestion_Properties
begin

text \<open>
  An event the application state refuses: the late completion of a superseded turn. The state it
  leads to cannot be restored, so it is refused before anything is written, and a spooled row that
  holds it stops every drain that claims it.
\<close>

section \<open>A refused event stops the drain\<close>

text \<open>
  A late completion, as in \<open>late_completion_breaks_persistence\<close>, but before it is handled: \<open>t2\<close> runs and
  \<open>t1\<close> is retired.
\<close>

definition late_event :: session_event where
  "late_event = sample_event TurnCompleted ''t1'' ''e3'' 30"

definition superseded_events :: "session_event list" where
  "superseded_events = [sample_event TurnStarted ''t1'' ''e1'' 10, sample_event TurnStarted ''t2'' ''e2'' 20]"

lemma superseded:
  obtains r s r2 tr where "reduce_all sample_sha superseded_events initial_reducer = Some r"
    "\<not> is_duplicate_in_current_lifecycle r late_event"
    "apply_event (remember_event (event_id_key late_event) r) late_event = Some (r2, tr)" "tn_changed tr"
    "bt_values (rd_sessions r2) = [s]" "current_retired s"
  by (simp add: superseded_events_def late_event_def run_defs current_retired_def)

lemma late_event_valid: "event_ok late_event" "event_validate late_event = Inr ()"
  by (simp_all add: late_event_def event_validate_iff sample_event_ok)

text \<open>Whatever the clock says, the state after the late completion fails its validation.\<close>

lemma late_completion_refused:
  obtains r where "reduce_all sample_sha superseded_events initial_reducer = Some r"
    "\<And>s co avail now started db. ap_reducer s = r \<Longrightarrow>
      app_apply_event_persisted sample_sha co avail now started late_event s db = Some (Inl (PeReducer RetiredCurrentTurn), s, db)"
proof -
  obtain r s2 r2 tr where r: "reduce_all sample_sha superseded_events initial_reducer = Some r"
    and step: "\<not> is_duplicate_in_current_lifecycle r late_event"
      "apply_event (remember_event (event_id_key late_event) r) late_event = Some (r2, tr)" "tn_changed tr"
    and s2: "bt_values (rd_sessions r2) = [s2]" "current_retired s2"
    by (rule superseded)
  have "app_apply_event_persisted sample_sha co avail now started late_event s db = Some (Inl (PeReducer RetiredCurrentTurn), s, db)"
    if s: "ap_reducer s = r" for s co avail now started db
  proof -
    have "reduce_at sample_sha r late_event now \<noteq> None"
      using reduce_at_defined [OF late_event_valid(1) sample_sha_length] by simp
    then obtain r3 where r3: "reduce_at sample_sha r late_event now = Some (r3, Applied (rd_revision r3))"
        "finish_transition sample_sha r2 late_event now tr = Some r3"
      using step by (auto simp: reduce_at_def)
    have wf: "reducer_wf r3" by (rule reduce_at_wf [OF reduce_all_wf [OF r initial_reducer_wf] r3(1)])
    have "s2 \<in> set (persisted_records r3)"
      by (simp add: persisted_records_def finish_transition_sessions [OF r3(2)] s2 max_persisted_sessions_def)
    with s2(2) have bad: "from_persistent_state (persistent_state r3) = Inl RetiredCurrentTurn"
      using restore_persistent [OF wf] by (auto split: if_splits)
    have refused: "persistent_validate (persistent_state_of None (s\<lparr>ap_reducer := r3\<rparr>)) = Inl (PeReducer RetiredCurrentTurn)"
      using parsed_again bad
      by (auto simp: persistent_validate_def persistent_state_of_def persistent_new_def split: option.splits)
    show ?thesis
      unfolding app_apply_event_persisted_def s r3(1) by (simp add: store_save_def refused Let_def) (simp flip: s)
  qed
  with r that show thesis by blast
qed

text \<open>
  C31. A late completion blocks the drain. When a session runs its second turn and the completion of the first one arrives, the
  persisted change is refused for every clock reading, codec and database, with the state unchanged; a
  drain that has claimed a row with this event releases it and stops, so the row is pending again and
  the next drain meets it again. Forwarded directly, the event is answered with a persistence error.
\<close>

theorem late_completion_blocks_drain:
  "\<exists>r. reduce_all sample_sha superseded_events initial_reducer = Some r
     \<and> (\<forall>co avail now started s db.
          app_apply_event_persisted sample_sha co avail now started late_event (s\<lparr>ap_reducer := r\<rparr>) db
            = Some (Inl (PeReducer RetiredCurrentTurn), s\<lparr>ap_reducer := r\<rparr>, db))
     \<and> (\<forall>env t trust s a db.
          ingest_reduce_event (env\<lparr>ie_sha := sample_sha\<rparr>) t late_event trust
              (with_persistence_store a\<lparr>na_state := s\<lparr>ap_reducer := r\<rparr>\<rparr>) db
            = Some (Inl IngestPersistence, with_persistence_store a\<lparr>na_state := s\<lparr>ap_reducer := r\<rparr>\<rparr>, db))
     \<and> (\<forall>de env t c s a db.
          ingest_spool_claim (de\<lparr>de_ingest := env\<lparr>ie_sha := sample_sha\<rparr>\<rparr>) t (c\<lparr>cl_event := late_event\<rparr>)
              (with_persistence_store a\<lparr>na_state := s\<lparr>ap_reducer := r\<rparr>\<rparr>) db
            = Some (False, with_persistence_store a\<lparr>na_state := s\<lparr>ap_reducer := r\<rparr>\<rparr>,
                drop_claim t (c\<lparr>cl_event := late_event\<rparr>) db))"
proof -
  obtain r where r: "reduce_all sample_sha superseded_events initial_reducer = Some r"
    and refused: "\<And>s co avail now started db. ap_reducer s = r \<Longrightarrow>
      app_apply_event_persisted sample_sha co avail now started late_event s db = Some (Inl (PeReducer RetiredCurrentTurn), s, db)"
    using late_completion_refused by blast
  have reduced: "ingest_reduce_event (env\<lparr>ie_sha := sample_sha\<rparr>) t late_event trust
              (with_persistence_store a\<lparr>na_state := s\<lparr>ap_reducer := r\<rparr>\<rparr>) db
            = Some (Inl IngestPersistence, with_persistence_store a\<lparr>na_state := s\<lparr>ap_reducer := r\<rparr>\<rparr>, db)"
    for env t trust s a db
    by (simp add: ingest_reduce_event_def with_persistence_store_def refused)
  show ?thesis
    using r by (intro exI [of _ r])
      (simp add: refused reduced ingest_spool_claim_def ingest_spooled_def late_event_valid)
qed

end
