(* ===== verification/Loopback.thy ===== *)
theory Loopback
  imports Forwarding Codex
begin

text \<open>
  \<^verbatim>\<open>lili/src/loopback.rs\<close>: the loopback server's request signer and the middleware \<^verbatim>\<open>authorize\<close> in front
  of the router. SHA-256, HMAC, the reading of a header value as text and the URI parser are arguments.
  The wall clock counts seconds, \<^verbatim>\<open>Instant\<close> nanoseconds. The replay cache is a map; its mutex is never
  poisoned, since no operation panics while holding it. Sockets and TLS are not modelled.
\<close>

section \<open>Requests and responses\<close>

record http_request =
  rq_method :: rstr
  rq_path :: rstr
  rq_path_and_query :: "rstr option"
  rq_headers :: "(rstr \<times> byte list) list"
  rq_body :: "byte list option"

record http_response =
  rp_status :: nat
  rp_headers :: "(rstr \<times> rstr) list"

definition header_get :: "(rstr \<times> byte list) list \<Rightarrow> rstr \<Rightarrow> byte list option" where
  "header_get hs name = map_of hs name"

definition header_get_all :: "(rstr \<times> byte list) list \<Rightarrow> rstr \<Rightarrow> byte list list" where
  "header_get_all hs name = map snd (filter (\<lambda>(n, v). n = name) hs)"

text \<open>\<^verbatim>\<open>HeaderMap::insert\<close> replaces every value of the name.\<close>

definition header_insert :: "rstr \<Rightarrow> rstr \<Rightarrow> (rstr \<times> rstr) list \<Rightarrow> (rstr \<times> rstr) list" where
  "header_insert name v hs = filter (\<lambda>(n, w). n \<noteq> name) hs @ [(name, v)]"

record loopback_env =
  le_sha :: "byte list \<Rightarrow> byte list"
  le_hmac :: "byte list \<Rightarrow> byte list \<Rightarrow> byte list"
  le_header_str :: "byte list \<Rightarrow> rstr option"
  le_uri_ok :: "rstr \<Rightarrow> bool"

text \<open>The readings of the two clocks during a request; \<open>None\<close> is a wall clock before the epoch.\<close>

record loopback_clock =
  lc_unix :: "nat option"
  lc_instant :: nat

section \<open>The request signer\<close>

definition cookie_prefix :: rstr where "cookie_prefix = lit ''lili_loopback_''"
definition max_signed_body_bytes :: nat where "max_signed_body_bytes = 1024 * 1024"
definition signature_ttl_secs :: nat where "signature_ttl_secs = 30"
definition signature_ttl_nanos :: nat where "signature_ttl_nanos = signature_ttl_secs * 1000000000"
definition signature_version :: "byte list" where "signature_version = utf8_bytes (lit ''lili-request-v1'')"
definition content_sha256_header :: rstr where "content_sha256_header = lit ''x-lili-content-sha256''"
definition issued_at_header :: rstr where "issued_at_header = lit ''x-lili-issued-at''"
definition request_id_header :: rstr where "request_id_header = lit ''x-lili-request-id''"
definition signature_header :: rstr where "signature_header = lit ''x-lili-signature''"
definition content_type_header :: rstr where "content_type_header = lit ''content-type''"
definition cookie_header :: rstr where "cookie_header = lit ''cookie''"
definition host_header :: rstr where "host_header = lit ''host''"
definition origin_header :: rstr where "origin_header = lit ''origin''"

datatype signer_error = SeUnsupportedMethod | SeInvalidApiPath | SeInvalidContentType | SeBodyTooLarge
  | SeClock | SeRandomness | SeMissingSignature | SeInvalidSignature | SeInvalidTimestamp | SeStale
  | SeInvalidRequestId | SeDigestMismatch | SeReplayed

record request_signer =
  sg_authority :: rstr
  sg_instance_id :: rstr
  sg_secret :: "byte list"
  sg_replay_cache :: "rstr \<rightharpoonup> nat"

record signed_request =
  sq_content_sha256 :: rstr
  sq_issued_at :: nat
  sq_request_id :: rstr
  sq_signature :: rstr

definition signer_new :: "rstr \<Rightarrow> rstr \<Rightarrow> byte list \<Rightarrow> request_signer" where
  "signer_new authority instance_id secret = \<lparr>sg_authority = authority, sg_instance_id = instance_id,
     sg_secret = secret, sg_replay_cache = Map.empty\<rparr>"

definition signable_methods :: "rstr list" where
  "signable_methods = [lit ''GET'', lit ''HEAD'', lit ''POST'', lit ''PUT'', lit ''PATCH'', lit ''DELETE'']"

definition validate_signing_input :: "loopback_env \<Rightarrow> rstr \<Rightarrow> rstr \<Rightarrow> rstr \<Rightarrow> byte list \<Rightarrow> signer_error + unit" where
  "validate_signing_input env m path_and_query content_type body =
     (if m \<notin> set signable_methods then Inl SeUnsupportedMethod
      else if \<not> starts_with path_and_query (lit ''/api/'') \<or> 35 \<in> set path_and_query
        \<or> 13 \<in> set path_and_query \<or> 10 \<in> set path_and_query \<or> \<not> le_uri_ok env path_and_query
      then Inl SeInvalidApiPath
      else if byte_len content_type > 256 \<or> \<not> list_all (\<lambda>c. c < 128) content_type then Inl SeInvalidContentType
      else if length body > max_signed_body_bytes then Inl SeBodyTooLarge
      else Inr ())"

definition signature_fields :: "request_signer \<Rightarrow> rstr \<Rightarrow> rstr \<Rightarrow> rstr \<Rightarrow> nat \<Rightarrow> rstr \<Rightarrow> byte list
    \<Rightarrow> byte list list" where
  "signature_fields sg m path_and_query content_type issued request_id digest =
     [signature_version, utf8_bytes (sg_instance_id sg), utf8_bytes m, utf8_bytes (sg_authority sg),
      utf8_bytes path_and_query, utf8_bytes content_type, utf8_bytes (decimal issued),
      utf8_bytes request_id, digest]"

definition compute_signature :: "loopback_env \<Rightarrow> request_signer \<Rightarrow> rstr \<Rightarrow> rstr \<Rightarrow> rstr \<Rightarrow> nat \<Rightarrow> rstr
    \<Rightarrow> byte list \<Rightarrow> byte list" where
  "compute_signature env sg m path_and_query content_type issued request_id digest =
     le_hmac env (sg_secret sg)
       (delimited (signature_fields sg m path_and_query content_type issued request_id digest))"

text \<open>\<open>nonce\<close> is what the random source returned.\<close>

definition signer_sign :: "loopback_env \<Rightarrow> request_signer \<Rightarrow> nat option \<Rightarrow> byte list option \<Rightarrow> rstr \<Rightarrow> rstr
    \<Rightarrow> rstr \<Rightarrow> byte list \<Rightarrow> signer_error + signed_request" where
  "signer_sign env sg clock nonce m path_and_query content_type body =
     rbind (validate_signing_input env m path_and_query content_type body) (\<lambda>_.
     rbind (ok_or SeClock clock) (\<lambda>issued.
     rbind (ok_or SeRandomness nonce) (\<lambda>n.
       let request_id = hex_of_bytes n; digest = le_sha env body in
       Inr \<lparr>sq_content_sha256 = hex_of_bytes digest, sq_issued_at = issued, sq_request_id = request_id,
            sq_signature = hex_of_bytes
              (compute_signature env sg m path_and_query content_type issued request_id digest)\<rparr>)))"

definition constant_time_eq :: "byte list \<Rightarrow> byte list \<Rightarrow> bool" where
  "constant_time_eq l r \<longleftrightarrow> length l = length r
     \<and> fold (\<lambda>(a, b) difference. or difference (xor a b)) (zip l r) 0 = 0"

definition required_header :: "loopback_env \<Rightarrow> (rstr \<times> byte list) list \<Rightarrow> rstr \<Rightarrow> signer_error + rstr" where
  "required_header env hs name = rbind (ok_or SeMissingSignature (header_get hs name)) (\<lambda>v.
     ok_or SeInvalidSignature (le_header_str env v))"

definition validate_fresh_timestamp :: "loopback_clock \<Rightarrow> nat \<Rightarrow> signer_error + unit" where
  "validate_fresh_timestamp clock issued = rbind (ok_or SeClock (lc_unix clock)) (\<lambda>now.
     if abs_diff now issued \<le> signature_ttl_secs then Inr () else Inl SeStale)"

definition decode_hex :: "rstr \<Rightarrow> byte list option" where
  "decode_hex v = (let bs = utf8_bytes v in
     if odd (length bs) then None
     else if list_all is_ascii_hexdigit bs then Some (hex_pairs bs) else None)"

definition request_target :: "http_request \<Rightarrow> rstr" where
  "request_target rq = (case rq_path_and_query rq of None \<Rightarrow> rq_path rq | Some pq \<Rightarrow> pq)"

definition request_content_type :: "loopback_env \<Rightarrow> (rstr \<times> byte list) list \<Rightarrow> signer_error + rstr" where
  "request_content_type env hs = (case header_get hs content_type_header of
     None \<Rightarrow> Inr []
   | Some v \<Rightarrow> ok_or SeInvalidContentType (le_header_str env v))"

text \<open>The checks of \<^verbatim>\<open>verify\<close> before the replay cache is locked: the request identity they accept.\<close>

definition verify_signature :: "loopback_env \<Rightarrow> request_signer \<Rightarrow> loopback_clock \<Rightarrow> http_request
    \<Rightarrow> byte list \<Rightarrow> signer_error + rstr" where
  "verify_signature env sg clock rq body =
     rbind (required_header env (rq_headers rq) request_id_header) (\<lambda>request_id.
     rbind (rbind (required_header env (rq_headers rq) issued_at_header) (\<lambda>v.
       ok_or SeInvalidTimestamp (parse_u64 v))) (\<lambda>issued.
     rbind (validate_fresh_timestamp clock issued) (\<lambda>_.
     if byte_len request_id \<noteq> 32 \<or> \<not> list_all is_ascii_hexdigit (utf8_bytes request_id)
     then Inl SeInvalidRequestId
     else rbind (required_header env (rq_headers rq) content_sha256_header) (\<lambda>supplied_digest.
     if \<not> constant_time_eq (utf8_bytes supplied_digest) (utf8_bytes (hex_of_bytes (le_sha env body)))
     then Inl SeDigestMismatch
     else rbind (request_content_type env (rq_headers rq)) (\<lambda>content_type.
     rbind (required_header env (rq_headers rq) signature_header) (\<lambda>v.
     rbind (ok_or SeInvalidSignature (decode_hex v)) (\<lambda>signature.
     if \<not> constant_time_eq signature (compute_signature env sg (rq_method rq) (request_target rq)
          content_type issued request_id (le_sha env body))
     then Inl SeInvalidSignature
     else Inr request_id)))))))"

text \<open>\<^verbatim>\<open>HashMap::retain\<close> and \<^verbatim>\<open>insert\<close>; \<^verbatim>\<open>duration_since\<close> saturates at zero.\<close>

definition replay_retain :: "nat \<Rightarrow> (rstr \<rightharpoonup> nat) \<Rightarrow> (rstr \<rightharpoonup> nat)" where
  "replay_retain now cache = (\<lambda>i. case cache i of
     None \<Rightarrow> None
   | Some at \<Rightarrow> if now - at \<le> signature_ttl_nanos then Some at else None)"

definition signer_verify :: "loopback_env \<Rightarrow> request_signer \<Rightarrow> loopback_clock \<Rightarrow> http_request \<Rightarrow> byte list
    \<Rightarrow> (signer_error + unit) \<times> request_signer" where
  "signer_verify env sg clock rq body = (case verify_signature env sg clock rq body of
     Inl e \<Rightarrow> (Inl e, sg)
   | Inr request_id \<Rightarrow>
       let cache = replay_retain (lc_instant clock) (sg_replay_cache sg) in
       (if cache request_id \<noteq> None then Inl SeReplayed else Inr (),
        sg\<lparr>sg_replay_cache := cache(request_id \<mapsto> lc_instant clock)\<rparr>))"

section \<open>The middleware\<close>

record loopback_security =
  ls_authority :: rstr
  ls_bootstrap_available :: bool
  ls_bootstrap_path :: rstr
  ls_appearance_bootstrap_available :: bool
  ls_appearance_bootstrap_path :: rstr
  ls_cookie_name :: rstr
  ls_csp :: rstr
  ls_origin :: rstr
  ls_notification_bootstrap_available :: bool
  ls_notification_bootstrap_path :: rstr
  ls_secret :: rstr
  ls_signer :: request_signer

definition content_security_policy :: "rstr \<Rightarrow> rstr" where
  "content_security_policy authority =
     lit ''default-src 'self'; base-uri 'none'; connect-src 'self' wss://'' @ authority
       @ lit ''; font-src 'self'; form-action 'self'; frame-ancestors 'none'; img-src 'self' data:; object-src 'none'; script-src 'self' 'wasm-unsafe-eval'; style-src 'self' 'unsafe-inline'' @ [39]"

definition security_new :: "rstr \<Rightarrow> rstr \<Rightarrow> rstr \<Rightarrow> request_signer \<Rightarrow> loopback_security" where
  "security_new authority origin secret signer = \<lparr>ls_authority = authority, ls_bootstrap_available = True,
     ls_bootstrap_path = lit ''/_lili/bootstrap/'' @ secret,
     ls_appearance_bootstrap_available = True,
     ls_appearance_bootstrap_path = lit ''/_lili/bootstrap/'' @ secret @ lit ''/appearance'',
     ls_cookie_name = cookie_prefix @ take 16 secret, ls_csp = content_security_policy authority,
     ls_origin = origin, ls_notification_bootstrap_available = True,
     ls_notification_bootstrap_path = lit ''/_lili/bootstrap/'' @ secret @ lit ''/notifications'',
     ls_secret = secret, ls_signer = signer\<rparr>"

text \<open>\<^verbatim>\<open>LoopbackServer::bind\<close> on a port, with the three random strings it draws.\<close>

definition loopback_bind :: "nat \<Rightarrow> byte list \<Rightarrow> byte list \<Rightarrow> byte list \<Rightarrow> loopback_security" where
  "loopback_bind port session_secret signing_secret instance =
     (let authority = lit ''127.0.0.1:'' @ decimal port; origin = lit ''https://'' @ authority in
      security_new authority origin (hex_of_bytes session_secret)
        (signer_new authority (hex_of_bytes instance) signing_secret))"

definition permissions_policy :: rstr where
  "permissions_policy = lit ''accelerometer=(), camera=(), geolocation=(), gyroscope=(), magnetometer=(), microphone=(), payment=(), usb=()''"

definition harden :: "loopback_security \<Rightarrow> http_response \<Rightarrow> http_response" where
  "harden sec r = r\<lparr>rp_headers :=
     (header_insert (lit ''permissions-policy'') permissions_policy
      \<circ> header_insert (lit ''x-frame-options'') (lit ''DENY'')
      \<circ> header_insert (lit ''x-content-type-options'') (lit ''nosniff'')
      \<circ> header_insert (lit ''referrer-policy'') (lit ''no-referrer'')
      \<circ> header_insert (lit ''content-security-policy'') (ls_csp sec)
      \<circ> header_insert (lit ''cache-control'') (lit ''no-store'')) (rp_headers r)\<rparr>"

definition header_matches :: "(rstr \<times> byte list) list \<Rightarrow> rstr \<Rightarrow> rstr \<Rightarrow> bool" where
  "header_matches hs name expected = (case header_get hs name of
     None \<Rightarrow> False
   | Some v \<Rightarrow> constant_time_eq v (utf8_bytes expected))"

definition has_session_cookie :: "loopback_env \<Rightarrow> (rstr \<times> byte list) list \<Rightarrow> rstr \<Rightarrow> rstr \<Rightarrow> bool" where
  "has_session_cookie env hs expected_name expected_value =
     list_ex (\<lambda>v. case le_header_str env v of
         None \<Rightarrow> False
       | Some cookies \<Rightarrow> list_ex (\<lambda>cookie. case split_once 61 (trim cookie) of
             None \<Rightarrow> False
           | Some (name, value) \<Rightarrow> name = expected_name
               \<and> constant_time_eq (utf8_bytes value) (utf8_bytes expected_value))
           (split_on (\<lambda>c. c = 59) cookies))
       (header_get_all hs cookie_header)"

definition requires_origin :: "rstr \<Rightarrow> bool" where
  "requires_origin m \<longleftrightarrow> m \<notin> {lit ''GET'', lit ''HEAD'', lit ''OPTIONS''}"

definition status_response :: "nat \<Rightarrow> http_response" where
  "status_response status = \<lparr>rp_status = status, rp_headers = []\<rparr>"

definition session_cookie :: "loopback_security \<Rightarrow> rstr" where
  "session_cookie sec = ls_cookie_name sec @ lit ''='' @ ls_secret sec
     @ lit ''; HttpOnly; Secure; SameSite=Strict; Path=/''"

text \<open>A bootstrap page that is still available answers with the cookie and is gone afterwards.\<close>

definition bootstrap_response :: "loopback_security \<Rightarrow> http_request \<Rightarrow> bool \<Rightarrow> rstr \<Rightarrow> http_response" where
  "bootstrap_response sec rq available destination =
     (if rq_method rq \<noteq> lit ''GET'' then harden sec (status_response 405)
      else if \<not> available then harden sec (status_response 410)
      else harden sec \<lparr>rp_status = 303,
        rp_headers = header_insert (lit ''set-cookie'') (session_cookie sec) [(lit ''location'', destination)]\<rparr>)"

text \<open>
  The response, the new state and the request handed to the router, if it was; \<open>route\<close> is the router
  behind the middleware. \<^verbatim>\<open>to_bytes\<close> fails when the body cannot be read or exceeds the limit.
\<close>

definition authorize :: "loopback_env \<Rightarrow> (http_request \<Rightarrow> http_response) \<Rightarrow> loopback_clock \<Rightarrow> http_request
    \<Rightarrow> loopback_security \<Rightarrow> http_response \<times> loopback_security \<times> http_request option" where
  "authorize env route clock rq sec =
     (let get = rq_method rq = lit ''GET'' in
      if \<not> header_matches (rq_headers rq) host_header (ls_authority sec)
      then (harden sec (status_response 421), sec, None)
      else if rq_path rq = ls_bootstrap_path sec
      then (bootstrap_response sec rq (ls_bootstrap_available sec) (lit ''/''),
            sec\<lparr>ls_bootstrap_available := ls_bootstrap_available sec \<and> \<not> get\<rparr>, None)
      else if rq_path rq = ls_appearance_bootstrap_path sec
      then (bootstrap_response sec rq (ls_appearance_bootstrap_available sec) (lit ''/appearance''),
            sec\<lparr>ls_appearance_bootstrap_available := ls_appearance_bootstrap_available sec \<and> \<not> get\<rparr>, None)
      else if rq_path rq = ls_notification_bootstrap_path sec
      then (bootstrap_response sec rq (ls_notification_bootstrap_available sec) (lit ''/notifications''),
            sec\<lparr>ls_notification_bootstrap_available := ls_notification_bootstrap_available sec \<and> \<not> get\<rparr>, None)
      else if rq_path rq = lit ''/context-menu'' \<and> get
      then (harden sec (route rq), sec, Some rq)
      else if \<not> has_session_cookie env (rq_headers rq) (ls_cookie_name sec) (ls_secret sec)
      then (harden sec (status_response 401), sec, None)
      else if requires_origin (rq_method rq) \<and> \<not> header_matches (rq_headers rq) origin_header (ls_origin sec)
      then (harden sec (status_response 403), sec, None)
      else if starts_with (rq_path rq) (lit ''/api/'')
      then (case rq_body rq of
          None \<Rightarrow> (harden sec (status_response 413), sec, None)
        | Some body \<Rightarrow>
            if length body > max_signed_body_bytes then (harden sec (status_response 413), sec, None)
            else (case signer_verify env (ls_signer sec) clock rq body of
                (Inl e, sg) \<Rightarrow> (harden sec (status_response 401), sec\<lparr>ls_signer := sg\<rparr>, None)
              | (Inr _, sg) \<Rightarrow> (harden sec (route rq), sec\<lparr>ls_signer := sg\<rparr>, Some rq)))
      else (harden sec (route rq), sec, Some rq))"

end
