(* ===== verification/Loopback_Properties.thy ===== *)
theory Loopback_Properties
  imports Loopback Forwarding_Properties Reducer_Properties
begin

text \<open>
  What the middleware of the loopback server guarantees: only authenticated, fresh, unused requests
  reach the API, a signature is used once while it is remembered, each bootstrap page hands out the
  cookie once. And a gap: the replay cache forgets a request before its timestamp is stale.
\<close>

section \<open>Comparing bytes\<close>

lemma or_byte_0_iff: "or (a :: byte) b = 0 \<longleftrightarrow> a = 0 \<and> b = 0"
  by (auto simp: bit_eq_iff bit_simps)

lemma xor_byte_0_iff: "xor (a :: byte) b = 0 \<longleftrightarrow> a = b"
proof
  assume "xor a b = 0"
  then have "bit a n = bit b n" for n using bit_xor_iff [of a b n] by simp
  then show "a = b" by (simp add: bit_eq_iff)
qed simp

lemma fold_difference:
  "fold (\<lambda>(a, b) difference. or difference (xor a b)) ps d = (0 :: byte) \<longleftrightarrow> d = 0 \<and> (\<forall>(a, b) \<in> set ps. a = b)"
  by (induction ps arbitrary: d) (auto simp: or_byte_0_iff xor_byte_0_iff)

lemma constant_time_eq_iff [simp]: "constant_time_eq l r \<longleftrightarrow> l = r"
proof -
  have "(\<forall>(a, b) \<in> set (zip l r). a = b) \<longleftrightarrow> l = r" if "length l = length r"
    using that by (induction l r rule: list_induct2) auto
  then show ?thesis by (auto simp: constant_time_eq_def fold_difference)
qed

lemma header_matches_iff: "header_matches hs name expected \<longleftrightarrow> header_get hs name = Some (utf8_bytes expected)"
  by (simp add: header_matches_def split: option.splits)

section \<open>Signatures\<close>

lemma required_header_Inr:
  "required_header env hs name = Inr v \<longleftrightarrow> (\<exists>bs. header_get hs name = Some bs \<and> le_header_str env bs = Some v)"
  by (auto simp: required_header_def rbind_Inr_iff)

text \<open>What an accepted signature means.\<close>

definition request_signed :: "loopback_env \<Rightarrow> request_signer \<Rightarrow> loopback_clock \<Rightarrow> http_request \<Rightarrow> byte list
    \<Rightarrow> rstr \<Rightarrow> bool" where
  "request_signed env sg clock rq body request_id \<longleftrightarrow>
     required_header env (rq_headers rq) request_id_header = Inr request_id
     \<and> byte_len request_id = 32 \<and> list_all is_ascii_hexdigit (utf8_bytes request_id)
     \<and> (\<exists>now issued issued_text digest content_type signature_text.
          required_header env (rq_headers rq) issued_at_header = Inr issued_text
          \<and> parse_u64 issued_text = Some issued \<and> lc_unix clock = Some now
          \<and> abs_diff now issued \<le> signature_ttl_secs
          \<and> required_header env (rq_headers rq) content_sha256_header = Inr digest
          \<and> utf8_bytes digest = utf8_bytes (hex_of_bytes (le_sha env body))
          \<and> request_content_type env (rq_headers rq) = Inr content_type
          \<and> required_header env (rq_headers rq) signature_header = Inr signature_text
          \<and> decode_hex signature_text = Some (le_hmac env (sg_secret sg)
               (delimited (signature_fields sg (rq_method rq) (request_target rq) content_type issued
                  request_id (le_sha env body)))))"

lemma verify_signature_iff:
  "verify_signature env sg clock rq body = Inr request_id \<longleftrightarrow> request_signed env sg clock rq body request_id"
proof -
  have fresh: "validate_fresh_timestamp clock issued = Inr u
      \<longleftrightarrow> (\<exists>now. lc_unix clock = Some now \<and> abs_diff now issued \<le> signature_ttl_secs)" for issued u
    by (auto simp: validate_fresh_timestamp_def rbind_Inr_iff)
  show ?thesis
    unfolding verify_signature_def request_signed_def rbind_Inr_iff if_error_iff fresh compute_signature_def
      constant_time_eq_iff ok_or_Inr_iff by auto
qed

text \<open>The replay cache, seen through \<open>retained\<close>: when an identity was accepted, if still remembered.\<close>

lemma replay_retain_Some:
  "replay_retain now cache i = Some at \<longleftrightarrow> cache i = Some at \<and> now - at \<le> signature_ttl_nanos"
  by (auto simp: replay_retain_def split: option.splits if_splits)

lemma signer_verify_frame:
  "signer_verify env sg clock rq body = (res, sg') \<Longrightarrow> sg' = sg\<lparr>sg_replay_cache := sg_replay_cache sg'\<rparr>"
  by (auto simp: signer_verify_def Let_def split: sum.splits)

lemma signer_verify_Inr:
  assumes "signer_verify env sg clock rq body = (Inr u, sg')"
  obtains i where "request_signed env sg clock rq body i"
    "replay_retain (lc_instant clock) (sg_replay_cache sg) i = None"
    "sg_replay_cache sg' i = Some (lc_instant clock)"
  using assms by (auto simp: signer_verify_def Let_def verify_signature_iff split: sum.splits if_splits)

section \<open>What the middleware lets through\<close>

lemma authorize_passed:
  assumes "authorize env route clock rq sec = (resp, sec', Some rq')"
  shows "rq' = rq" "resp = harden sec (route rq)"
    "header_get (rq_headers rq) host_header = Some (utf8_bytes (ls_authority sec))"
    "rq_path rq = lit ''/context-menu'' \<and> rq_method rq = lit ''GET'' \<and> sec' = sec
     \<or> has_session_cookie env (rq_headers rq) (ls_cookie_name sec) (ls_secret sec)
       \<and> (requires_origin (rq_method rq) \<longrightarrow>
            header_get (rq_headers rq) origin_header = Some (utf8_bytes (ls_origin sec)))
       \<and> (if starts_with (rq_path rq) (lit ''/api/'')
          then \<exists>body sg u. rq_body rq = Some body \<and> length body \<le> max_signed_body_bytes
            \<and> signer_verify env (ls_signer sec) clock rq body = (Inr u, sg) \<and> sec' = sec\<lparr>ls_signer := sg\<rparr>
          else sec' = sec)"
  using assms
  by (auto simp: authorize_def Let_def header_matches_iff split: if_splits option.splits sum.splits prod.splits)

lemma api_not_context_menu: "starts_with p (lit ''/api/'') \<Longrightarrow> p \<noteq> lit ''/context-menu''"
  by (auto simp: starts_with_def lit_def)

lemma authorized_api:
  assumes "authorize env route clock rq sec = (resp, sec', Some rq')" "starts_with (rq_path rq) (lit ''/api/'')"
  shows "rq' = rq \<and> resp = harden sec (route rq)
    \<and> header_get (rq_headers rq) host_header = Some (utf8_bytes (ls_authority sec))
    \<and> has_session_cookie env (rq_headers rq) (ls_cookie_name sec) (ls_secret sec)
    \<and> (rq_method rq \<in> {lit ''GET'', lit ''HEAD'', lit ''OPTIONS''}
       \<or> header_get (rq_headers rq) origin_header = Some (utf8_bytes (ls_origin sec)))
    \<and> (\<exists>body i. rq_body rq = Some body \<and> length body \<le> max_signed_body_bytes
       \<and> request_signed env (ls_signer sec) clock rq body i
       \<and> replay_retain (lc_instant clock) (sg_replay_cache (ls_signer sec)) i = None
       \<and> sg_replay_cache (ls_signer sec') i = Some (lc_instant clock))"
proof -
  note passed = authorize_passed [OF assms(1)]
  obtain body sg u where verified: "rq_body rq = Some body" "length body \<le> max_signed_body_bytes"
    "signer_verify env (ls_signer sec) clock rq body = (Inr u, sg)" "sec' = sec\<lparr>ls_signer := sg\<rparr>"
    using passed(4) assms(2) api_not_context_menu [OF assms(2)] by auto
  obtain i where "request_signed env (ls_signer sec) clock rq body i"
    "replay_retain (lc_instant clock) (sg_replay_cache (ls_signer sec)) i = None"
    "sg_replay_cache sg i = Some (lc_instant clock)"
    using verified(3) by (rule signer_verify_Inr)
  with passed verified api_not_context_menu [OF assms(2)] show ?thesis
    by (auto simp: requires_origin_def)
qed

text \<open>
  Only authenticated requests reach the API. A request under \<^verbatim>\<open>/api/\<close> that the middleware hands to the
  router is handed over unchanged; it names the server's own authority, carries the session cookie and,
  when its method can change state, the server's origin; its body is at most one MiB and its signature
  is the keyed hash of exactly its method, target, content type, time stamp, identity and body digest,
  the time stamp within thirty seconds of the clock; the identity was not accepted within the retention
  time, and is remembered from now on. The response carries the security headers.
\<close>

theorem api_request_authenticated:
  assumes "authorize env route clock rq sec = (resp, sec', Some rq')" "starts_with (rq_path rq) (lit ''/api/'')"
  shows "rq' = rq \<and> resp = harden sec (route rq)
    \<and> header_get (rq_headers rq) host_header = Some (utf8_bytes (ls_authority sec))
    \<and> has_session_cookie env (rq_headers rq) (ls_cookie_name sec) (ls_secret sec)
    \<and> (rq_method rq \<in> {lit ''GET'', lit ''HEAD'', lit ''OPTIONS''}
       \<or> header_get (rq_headers rq) origin_header = Some (utf8_bytes (ls_origin sec)))
    \<and> (\<exists>body i. rq_body rq = Some body \<and> length body \<le> max_signed_body_bytes
       \<and> request_signed env (ls_signer sec) clock rq body i
       \<and> replay_retain (lc_instant clock) (sg_replay_cache (ls_signer sec)) i = None
       \<and> sg_replay_cache (ls_signer sec') i = Some (lc_instant clock))"
  by (rule authorized_api [OF assms])

section \<open>Runs\<close>

fun authorize_log :: "loopback_env \<Rightarrow> (http_request \<Rightarrow> http_response) \<Rightarrow> (loopback_clock \<times> http_request) list
    \<Rightarrow> loopback_security \<Rightarrow> (http_request \<times> http_response) list \<times> loopback_security" where
  "authorize_log env route [] sec = ([], sec)"
| "authorize_log env route ((clock, rq) # qs) sec =
     (case authorize env route clock rq sec of (resp, sec1, passed) \<Rightarrow>
       case authorize_log env route qs sec1 of (rest, sec2) \<Rightarrow> ((rq, resp) # rest, sec2))"

text \<open>What no request changes.\<close>

lemma authorize_frame:
  assumes "authorize env route clock rq sec = (resp, sec', passed)"
  shows "sec' = sec\<lparr>ls_bootstrap_available := ls_bootstrap_available sec',
    ls_appearance_bootstrap_available := ls_appearance_bootstrap_available sec',
    ls_notification_bootstrap_available := ls_notification_bootstrap_available sec',
    ls_signer := (ls_signer sec)\<lparr>sg_replay_cache := sg_replay_cache (ls_signer sec')\<rparr>\<rparr>"
  using assms signer_verify_frame
  by (auto simp: authorize_def Let_def split: if_splits option.splits sum.splits prod.splits)

text \<open>An identity accepted at \<open>at\<close> stays remembered while the clock stays in the retention time.\<close>

definition remembered :: "rstr \<Rightarrow> nat \<Rightarrow> loopback_security \<Rightarrow> bool" where
  "remembered i at sec \<longleftrightarrow> (\<exists>t \<ge> at. sg_replay_cache (ls_signer sec) i = Some t)"

definition within_retention :: "nat \<Rightarrow> loopback_clock \<Rightarrow> bool" where
  "within_retention at clock \<longleftrightarrow> at \<le> lc_instant clock \<and> lc_instant clock \<le> at + signature_ttl_nanos"

lemma remembered_retained:
  assumes "remembered i at sec" "within_retention at clock"
  shows "\<exists>t \<ge> at. replay_retain (lc_instant clock) (sg_replay_cache (ls_signer sec)) i = Some t"
  using assms by (auto simp: remembered_def within_retention_def replay_retain_Some)

lemma authorize_remembers:
  assumes "authorize env route clock rq sec = (resp, sec', passed)" "remembered i at sec" "within_retention at clock"
  shows "remembered i at sec'"
proof -
  have "remembered i at (sec\<lparr>ls_signer := sg\<rparr>)"
    if "signer_verify env (ls_signer sec) clock rq body = (res, sg)" for body res sg
    using that remembered_retained [OF assms(2,3)] assms(2,3)
    by (auto simp: signer_verify_def Let_def remembered_def within_retention_def split: sum.splits)
  with assms(1,2) show ?thesis
    by (auto simp: authorize_def Let_def remembered_def split: if_splits option.splits sum.splits prod.splits)
qed

lemma authorize_log_remembers:
  assumes "authorize_log env route qs sec = (rs, sec')" "remembered i at sec"
    "\<And>clock rq. (clock, rq) \<in> set qs \<Longrightarrow> within_retention at clock"
  shows "remembered i at sec'"
  using assms
proof (induction qs arbitrary: sec rs)
  case (Cons q qs)
  obtain clock rq where q: "q = (clock, rq)" by fastforce
  obtain resp sec1 passed where step: "authorize env route clock rq sec = (resp, sec1, passed)" by (cases "authorize env route clock rq sec") auto
  obtain rest where "authorize_log env route qs sec1 = (rest, sec')"
    using Cons.prems(1) q step by (auto split: prod.splits)
  moreover have "remembered i at sec1"
    by (rule authorize_remembers [OF step Cons.prems(2)]) (rule Cons.prems(3) [of clock rq], simp add: q)
  ultimately show ?case
    by (rule Cons.IH) (rule Cons.prems(3), rule list.set_intros(2))
qed simp

text \<open>
  C15. A signature is used once while it is remembered. After a request under \<^verbatim>\<open>/api/\<close> has reached the router,
  no request with the same identity header does, whatever else it says and whatever is served in
  between, for thirty seconds of the monotonic clock.
\<close>

theorem signed_request_single_use:
  assumes "authorize env route clock rq sec = (resp, sec1, Some rq1)" "starts_with (rq_path rq) (lit ''/api/'')"
    and "authorize_log env route qs sec1 = (rs, sec2)"
    and "\<And>c q. (c, q) \<in> set (qs @ [(clock', rq')]) \<Longrightarrow> within_retention (lc_instant clock) c"
    and "starts_with (rq_path rq') (lit ''/api/'')"
    and "header_get (rq_headers rq') request_id_header = header_get (rq_headers rq) request_id_header"
  shows "snd (snd (authorize env route clock' rq' sec2)) = None"
proof (rule ccontr)
  assume "snd (snd (authorize env route clock' rq' sec2)) \<noteq> None"
  then obtain resp' sec3 rq3 where again: "authorize env route clock' rq' sec2 = (resp', sec3, Some rq3)"
    by (cases "authorize env route clock' rq' sec2") auto
  have id: "request_signed env (ls_signer s) c q body i \<Longrightarrow>
      \<exists>bs. header_get (rq_headers q) request_id_header = Some bs \<and> le_header_str env bs = Some i" for s c q body i
    by (auto simp: request_signed_def required_header_Inr)
  obtain body sg u where "rq_body rq = Some body" and first: "signer_verify env (ls_signer sec) clock rq body = (Inr u, sg)"
    "sec1 = sec\<lparr>ls_signer := sg\<rparr>"
    using authorize_passed(4) [OF assms(1)] assms(2) api_not_context_menu [OF assms(2)] by auto
  obtain i where i: "request_signed env (ls_signer sec) clock rq body i" "sg_replay_cache sg i = Some (lc_instant clock)"
    using first(1) by (rule signer_verify_Inr)
  have "remembered i (lc_instant clock) sec1" using i(2) first(2) by (auto simp: remembered_def)
  from authorize_log_remembers [OF assms(3) this] assms(4)
  have kept: "remembered i (lc_instant clock) sec2" by auto
  obtain body' sg' u' where "signer_verify env (ls_signer sec2) clock' rq' body' = (Inr u', sg')"
    using authorize_passed(4) [OF again] assms(5) api_not_context_menu [OF assms(5)] by auto
  then obtain i' where i': "request_signed env (ls_signer sec2) clock' rq' body' i'"
    "replay_retain (lc_instant clock') (sg_replay_cache (ls_signer sec2)) i' = None"
    by (rule signer_verify_Inr)
  have "i' = i" using id [OF i(1)] id [OF i'(1)] assms(6) by auto
  moreover have "within_retention (lc_instant clock) clock'" using assms(4) [of clock' rq'] by simp
  ultimately show False using i'(2) remembered_retained [OF kept, of clock'] by auto
qed

section \<open>A signed request is accepted\<close>

text \<open>The header texts the signer produces are visible ASCII, which every header value keeps.\<close>

definition visible :: "rstr \<Rightarrow> bool" where
  "visible s \<longleftrightarrow> (\<forall>c \<in> set s. 32 \<le> c \<and> c < 127)"

definition header_text_ok :: "loopback_env \<Rightarrow> bool" where
  "header_text_ok env \<longleftrightarrow> (\<forall>s. visible s \<longrightarrow> le_header_str env (utf8_bytes s) = Some s)"

lemma visible_hex [simp]: "visible (hex_of_bytes bs)"
  using set_hex_of_bytes by (fastforce simp: visible_def)

lemma visible_decimal [simp]: "visible (decimal n)"
  using decimal_ascii by (fastforce simp: visible_def)

lemma decode_hex_of_bytes [simp]: "decode_hex (hex_of_bytes bs) = Some bs"
  by (simp add: decode_hex_def Let_def length_utf8_bytes hex_of_bytes_digits) (simp add: utf8_bytes_hex hex_pairs_encode)

lemma decimal_nonempty [simp]: "decimal n \<noteq> []"
  by (simp add: decimal.simps)

lemma parse_u64_decimal [simp]: "n \<le> u64_max \<Longrightarrow> parse_u64 (decimal n) = Some n"
proof -
  assume "n \<le> u64_max"
  moreover have "hd (decimal n) \<noteq> 43"
    using decimal_ascii [OF hd_in_set [OF decimal_nonempty], of n] by auto
  moreover have "\<forall>d \<in> set (decimal n). 48 \<le> d \<and> d \<le> 57" using decimal_ascii by blast
  ultimately show ?thesis by (simp add: parse_u64_def decimal_value Let_def)
qed

text \<open>The headers the page's \<^verbatim>\<open>fetch\<close> wrapper sets from what the signer returned.\<close>

definition signed_headers :: "signed_request \<Rightarrow> (rstr \<times> byte list) list" where
  "signed_headers q = [(content_sha256_header, utf8_bytes (sq_content_sha256 q)),
     (issued_at_header, utf8_bytes (decimal (sq_issued_at q))),
     (request_id_header, utf8_bytes (sq_request_id q)), (signature_header, utf8_bytes (sq_signature q))]"

lemma signature_names_differ [simp]:
  "content_sha256_header \<noteq> issued_at_header" "content_sha256_header \<noteq> request_id_header"
  "content_sha256_header \<noteq> signature_header" "issued_at_header \<noteq> request_id_header"
  "issued_at_header \<noteq> signature_header" "request_id_header \<noteq> signature_header"
  by (simp_all add: content_sha256_header_def issued_at_header_def request_id_header_def signature_header_def lit_def)

lemma header_names_differ [simp]:
  "host_header \<notin> {content_sha256_header, issued_at_header, request_id_header, signature_header}"
  "origin_header \<notin> {content_sha256_header, issued_at_header, request_id_header, signature_header}"
  "cookie_header \<notin> {content_sha256_header, issued_at_header, request_id_header, signature_header}"
  "content_type_header \<notin> {content_sha256_header, issued_at_header, request_id_header, signature_header}"
  by (simp_all add: content_sha256_header_def issued_at_header_def request_id_header_def signature_header_def
      host_header_def origin_header_def cookie_header_def content_type_header_def lit_def)

lemma signed_headers_get [simp]:
  "header_get (signed_headers q @ hs) content_sha256_header = Some (utf8_bytes (sq_content_sha256 q))"
  "header_get (signed_headers q @ hs) issued_at_header = Some (utf8_bytes (decimal (sq_issued_at q)))"
  "header_get (signed_headers q @ hs) request_id_header = Some (utf8_bytes (sq_request_id q))"
  "header_get (signed_headers q @ hs) signature_header = Some (utf8_bytes (sq_signature q))"
  by (simp_all add: signed_headers_def header_get_def signature_names_differ [symmetric])

lemma signed_request_verifies:
  assumes "header_text_ok env" "signer_sign env sg (Some issued) (Some nonce) m target content_type body = Inr q"
    and "issued \<le> u64_max" "length nonce = 16" "lc_unix clock = Some now" "abs_diff now issued \<le> signature_ttl_secs"
    and "rq_headers rq = signed_headers q @ hs" "rq_method rq = m" "request_target rq = target"
    and "request_content_type env (rq_headers rq) = Inr content_type"
  shows "request_signed env sg clock rq body (hex_of_bytes nonce)"
proof -
  have q: "q = \<lparr>sq_content_sha256 = hex_of_bytes (le_sha env body), sq_issued_at = issued,
      sq_request_id = hex_of_bytes nonce, sq_signature = hex_of_bytes
        (compute_signature env sg m target content_type issued (hex_of_bytes nonce) (le_sha env body))\<rparr>"
    using assms(2) by (auto simp: signer_sign_def rbind_Inr_iff Let_def)
  have shown: "le_header_str env (utf8_bytes s) = Some s" if "visible s" for s
    using assms(1) that by (simp add: header_text_ok_def)
  have req: "required_header env (rq_headers rq) name = Inr s"
    if "header_get (signed_headers q @ hs) name = Some (utf8_bytes s)" "visible s" for name s
    using that shown assms(7) by (simp add: required_header_Inr)
  show ?thesis
    unfolding request_signed_def
    using assms(3-6,8-10) by (auto simp: q req hex_of_bytes_digits compute_signature_def)
qed

definition at_bootstrap :: "loopback_security \<Rightarrow> http_request \<Rightarrow> bool" where
  "at_bootstrap sec rq \<longleftrightarrow> rq_path rq \<in> {ls_bootstrap_path sec, ls_appearance_bootstrap_path sec,
     ls_notification_bootstrap_path sec}"

definition session_request :: "loopback_env \<Rightarrow> loopback_security \<Rightarrow> http_request \<Rightarrow> bool" where
  "session_request env sec rq \<longleftrightarrow> header_matches (rq_headers rq) host_header (ls_authority sec)
     \<and> \<not> at_bootstrap sec rq \<and> has_session_cookie env (rq_headers rq) (ls_cookie_name sec) (ls_secret sec)
     \<and> (requires_origin (rq_method rq) \<longrightarrow> header_matches (rq_headers rq) origin_header (ls_origin sec))"

lemma authorize_api:
  assumes "session_request env sec rq" "starts_with (rq_path rq) (lit ''/api/'')" "rq_body rq = Some body"
    "length body \<le> max_signed_body_bytes" "request_signed env (ls_signer sec) clock rq body i"
    "replay_retain (lc_instant clock) (sg_replay_cache (ls_signer sec)) i = None"
  shows "\<exists>sec'. authorize env route clock rq sec = (harden sec (route rq), sec', Some rq)
    \<and> sg_replay_cache (ls_signer sec') i = Some (lc_instant clock)"
proof -
  let ?cache = "replay_retain (lc_instant clock) (sg_replay_cache (ls_signer sec))"
  let ?sg = "(ls_signer sec)\<lparr>sg_replay_cache := ?cache(i \<mapsto> lc_instant clock)\<rparr>"
  have "signer_verify env (ls_signer sec) clock rq body = (Inr (), ?sg)"
    using assms(5,6) by (simp add: signer_verify_def Let_def verify_signature_iff [symmetric])
  then have "authorize env route clock rq sec = (harden sec (route rq), sec\<lparr>ls_signer := ?sg\<rparr>, Some rq)"
    using assms(1-4) api_not_context_menu [OF assms(2)]
    unfolding authorize_def session_request_def at_bootstrap_def Let_def by simp
  then show ?thesis by simp
qed

text \<open>
  What the signer signs, the middleware accepts. A request the page sends with the headers of a
  signature it obtained is handed to the router unchanged, whatever other headers it has, if it belongs
  to the session, its target, method, content type and body are those that were signed, at most thirty
  seconds have passed and its random identity is not in use.
\<close>

theorem signed_request_accepted_by_server:
  assumes "header_text_ok env" "session_request env sec rq" "starts_with (rq_path rq) (lit ''/api/'')"
    and "signer_sign env (ls_signer sec) (Some issued) (Some nonce) (rq_method rq) (request_target rq) content_type body = Inr q"
    and "issued \<le> u64_max" "length nonce = 16" "lc_unix clock = Some now" "abs_diff now issued \<le> signature_ttl_secs"
    and "rq_headers rq = signed_headers q @ hs" "rq_body rq = Some body"
    and "request_content_type env (rq_headers rq) = Inr content_type"
    and "sg_replay_cache (ls_signer sec) (hex_of_bytes nonce) = None"
  shows "\<exists>sec'. authorize env route clock rq sec = (harden sec (route rq), sec', Some rq)
    \<and> sg_replay_cache (ls_signer sec') (hex_of_bytes nonce) = Some (lc_instant clock)"
proof (rule authorize_api [OF assms(2,3,10)])
  show "length body \<le> max_signed_body_bytes"
    using assms(4) by (auto simp: signer_sign_def validate_signing_input_def rbind_Inr_iff if_error_iff split: if_splits)
  show "request_signed env (ls_signer sec) clock rq body (hex_of_bytes nonce)"
    by (rule signed_request_verifies [OF assms(1,4-9) refl refl assms(11)])
  show "replay_retain (lc_instant clock) (sg_replay_cache (ls_signer sec)) (hex_of_bytes nonce) = None"
    using assms(12) by (simp add: replay_retain_def)
qed

section \<open>The cache forgets too early\<close>

text \<open>Both clocks read from one time in nanoseconds.\<close>

definition clock_at :: "nat \<Rightarrow> loopback_clock" where
  "clock_at t = \<lparr>lc_unix = Some (t div 1000000000), lc_instant = t\<rparr>"

lemma authorize_session:
  assumes "authorize env route clock rq sec = (resp, sec', passed)"
  shows "session_request env sec' rq' = session_request env sec rq'"
    and "request_signed env (ls_signer sec') c rq' body i = request_signed env (ls_signer sec) c rq' body i"
proof -
  obtain a b c d where "sec' = sec\<lparr>ls_bootstrap_available := a, ls_appearance_bootstrap_available := b,
    ls_notification_bootstrap_available := c, ls_signer := (ls_signer sec)\<lparr>sg_replay_cache := d\<rparr>\<rparr>"
    using authorize_frame [OF assms] by blast
  then show "session_request env sec' rq' = session_request env sec rq'"
    and "request_signed env (ls_signer sec') c rq' body i = request_signed env (ls_signer sec) c rq' body i"
    for c
    by (simp_all add: session_request_def at_bootstrap_def request_signed_def signature_fields_def)
qed

text \<open>
  A captured request is accepted again. The time stamp of a request counts whole seconds, the
  replay cache nanoseconds: a request signed and accepted in one second is accepted a second time, word
  for word, more than thirty seconds later while the thirtieth second after it lasts.
\<close>

theorem signed_request_replayed_later:
  assumes "authorize env route (clock_at t) rq sec = (resp, sec1, Some rq)" "starts_with (rq_path rq) (lit ''/api/'')"
    and "required_header env (rq_headers rq) issued_at_header = Inr (decimal (t div 1000000000))"
    and "t + signature_ttl_nanos < t'" "t' div 1000000000 = t div 1000000000 + 30" "t' \<le> u64_max"
  shows "snd (snd (authorize env route (clock_at t') rq sec1)) = Some rq"
proof -
  obtain body i where "rq_body rq = Some body" and body: "length body \<le> max_signed_body_bytes"
    and signed: "request_signed env (ls_signer sec) (clock_at t) rq body i"
    and cached: "sg_replay_cache (ls_signer sec1) i = Some t"
    using authorize_passed(4) [OF assms(1)] assms(2) api_not_context_menu [OF assms(2)]
    by (auto simp: clock_at_def elim!: signer_verify_Inr)
  have session: "session_request env sec rq"
    using assms(1) api_not_context_menu [OF assms(2)]
    by (auto simp: authorize_def session_request_def at_bootstrap_def Let_def split: if_splits)
  have "t div 1000000000 \<le> u64_max" using assms(4,6) by (meson div_le_dividend le_add1 less_imp_le_nat order_trans)
  then have "request_signed env (ls_signer sec) (clock_at t') rq body i"
    using signed assms(3,5) by (auto simp: request_signed_def clock_at_def abs_diff_def signature_ttl_secs_def)
  moreover have "replay_retain (lc_instant (clock_at t')) (sg_replay_cache (ls_signer sec1)) i = None"
    using cached assms(4) by (simp add: replay_retain_def clock_at_def)
  ultimately obtain sec2 where "authorize env route (clock_at t') rq sec1 = (harden sec1 (route rq), sec2, Some rq)"
    using authorize_api [of env sec1 rq body "clock_at t'" i route] session body \<open>rq_body rq = Some body\<close> assms(2)
      authorize_session [OF assms(1)] by blast
  then show ?thesis by simp
qed


section \<open>Bootstrap pages\<close>

definition bootstrap_flag :: "rstr \<Rightarrow> loopback_security \<Rightarrow> bool option" where
  "bootstrap_flag p sec =
     (if p = ls_bootstrap_path sec then Some (ls_bootstrap_available sec)
      else if p = ls_appearance_bootstrap_path sec then Some (ls_appearance_bootstrap_available sec)
      else if p = ls_notification_bootstrap_path sec then Some (ls_notification_bootstrap_available sec)
      else None)"

text \<open>A response that hands out the session: the redirect of a bootstrap page.\<close>

definition session_given :: "rstr \<Rightarrow> http_request \<times> http_response \<Rightarrow> bool" where
  "session_given p e \<longleftrightarrow> rq_path (fst e) = p \<and> rp_status (snd e) = 303"

lemma harden_status [simp]: "rp_status (harden sec r) = rp_status r"
  by (simp add: harden_def)

lemma bootstrap_response_303:
  "rp_status (bootstrap_response sec rq available destination) = 303 \<longleftrightarrow> rq_method rq = lit ''GET'' \<and> available"
  by (simp add: bootstrap_response_def status_response_def)

lemma authorize_misdirected:
  "\<not> header_matches (rq_headers rq) host_header (ls_authority sec)
   \<Longrightarrow> authorize env route clock rq sec = (harden sec (status_response 421), sec, None)"
  by (simp add: authorize_def)

lemma authorize_elsewhere:
  assumes "authorize env route clock rq sec = (resp, sec', passed)" "\<not> at_bootstrap sec rq"
  shows "sec' = sec\<lparr>ls_signer := ls_signer sec'\<rparr>"
  using assms unfolding authorize_def at_bootstrap_def Let_def
  by (auto split: if_splits option.splits sum.splits prod.splits)

lemma authorize_at_bootstrap:
  assumes "header_matches (rq_headers rq) host_header (ls_authority sec)"
    "bootstrap_flag (rq_path rq) sec = Some available"
  shows "\<exists>destination sec'. authorize env route clock rq sec = (bootstrap_response sec rq available destination, sec', None)
     \<and> bootstrap_flag (rq_path rq) sec' = Some (available \<and> rq_method rq \<noteq> lit ''GET'')
     \<and> (\<forall>p f. p \<noteq> rq_path rq \<longrightarrow> bootstrap_flag p sec = Some f \<longrightarrow> bootstrap_flag p sec' = Some f)"
proof -
  consider "rq_path rq = ls_bootstrap_path sec"
    | "rq_path rq \<noteq> ls_bootstrap_path sec" "rq_path rq = ls_appearance_bootstrap_path sec"
    | "rq_path rq \<noteq> ls_bootstrap_path sec" "rq_path rq \<noteq> ls_appearance_bootstrap_path sec"
      "rq_path rq = ls_notification_bootstrap_path sec"
    using assms(2) by (auto simp: bootstrap_flag_def split: if_splits)
  then show ?thesis
    by cases (use assms in \<open>auto simp: authorize_def bootstrap_flag_def Let_def\<close>)
qed

lemma bootstrap_flag_signer [simp]: "bootstrap_flag p (sec\<lparr>ls_signer := sg\<rparr>) = bootstrap_flag p sec"
  by (simp add: bootstrap_flag_def)

lemma bootstrap_flag_iff: "at_bootstrap sec rq \<longleftrightarrow> bootstrap_flag (rq_path rq) sec \<noteq> None"
  by (simp add: at_bootstrap_def bootstrap_flag_def)

lemma authorize_bootstrap:
  assumes "authorize env route clock rq sec = (resp, sec', passed)" "bootstrap_flag p sec = Some available"
  shows "\<exists>available'. bootstrap_flag p sec' = Some available' \<and> (available' \<longrightarrow> available)
     \<and> (session_given p (rq, resp) \<longrightarrow> available \<and> \<not> available' \<and> rq_method rq = lit ''GET''
       \<and> header_get (rq_headers rq) host_header = Some (utf8_bytes (ls_authority sec)))"
proof (cases "header_matches (rq_headers rq) host_header (ls_authority sec)")
  case False
  with assms authorize_misdirected [OF False, of env route clock] show ?thesis
    by (auto simp: session_given_def status_response_def)
next
  case host: True
  show ?thesis
  proof (cases "bootstrap_flag (rq_path rq) sec")
    case None
    then have "\<not> at_bootstrap sec rq" by (simp add: bootstrap_flag_iff)
    from authorize_elsewhere [OF assms(1) this] obtain sg where "sec' = sec\<lparr>ls_signer := sg\<rparr>" by blast
    moreover have "rq_path rq \<noteq> p" using None assms(2) by auto
    ultimately show ?thesis using assms(2) by (simp add: session_given_def)
  next
    case (Some f)
    obtain destination s1 where step: "authorize env route clock rq sec = (bootstrap_response sec rq f destination, s1, None)"
      "bootstrap_flag (rq_path rq) s1 = Some (f \<and> rq_method rq \<noteq> lit ''GET'')"
      "\<forall>p f. p \<noteq> rq_path rq \<longrightarrow> bootstrap_flag p sec = Some f \<longrightarrow> bootstrap_flag p s1 = Some f"
      using authorize_at_bootstrap [OF host Some] by blast
    show ?thesis
    proof (cases "rq_path rq = p")
      case True
      with step(1,2) assms Some host show ?thesis
        by (auto simp: session_given_def bootstrap_response_303 header_matches_iff)
    next
      case False
      with step(1,3) assms show ?thesis by (auto simp: session_given_def)
    qed
  qed
qed

text \<open>
  Each bootstrap page hands out the session at most once. Whatever requests the server receives, in
  whatever order, a bootstrap path is answered with the session cookie at most once over the whole run,
  and then for a \<^verbatim>\<open>GET\<close> that named the server's own authority.
\<close>

theorem bootstrap_once:
  assumes "authorize_log env route qs sec = (log, sec')"
    and "p \<in> {ls_bootstrap_path sec, ls_appearance_bootstrap_path sec, ls_notification_bootstrap_path sec}"
  shows "length (filter (session_given p) log) \<le> 1
    \<and> (\<forall>(rq, resp) \<in> set (filter (session_given p) log). rq_method rq = lit ''GET''
         \<and> header_get (rq_headers rq) host_header = Some (utf8_bytes (ls_authority sec)))"
proof -
  define good where "good e \<longleftrightarrow> rq_method (fst e) = lit ''GET''
      \<and> header_get (rq_headers (fst e)) host_header = Some (utf8_bytes (ls_authority sec))" for e :: "http_request \<times> http_response"
  have "length (filter (session_given p) log) \<le> (if available then 1 else 0) \<and> list_all good (filter (session_given p) log)"
    if "authorize_log env route qs s = (log, sec')" "bootstrap_flag p s = Some available" "ls_authority s = ls_authority sec"
    for s available
    using that
  proof (induction qs arbitrary: s log available)
    case (Cons q qs)
    obtain clock rq where q: "q = (clock, rq)" by fastforce
    obtain resp s1 passed where step: "authorize env route clock rq s = (resp, s1, passed)"
      by (cases "authorize env route clock rq s") auto
    obtain rest where rest: "authorize_log env route qs s1 = (rest, sec')" "log = (rq, resp) # rest"
      using Cons.prems(1) q step by (auto split: prod.splits)
    have auth: "ls_authority s1 = ls_authority sec"
      using arg_cong [OF authorize_frame [OF step], of ls_authority] Cons.prems(3) by simp
    obtain available' where flag: "bootstrap_flag p s1 = Some available'" "available' \<longrightarrow> available"
      "session_given p (rq, resp) \<longrightarrow> available \<and> \<not> available' \<and> rq_method rq = lit ''GET''
        \<and> header_get (rq_headers rq) host_header = Some (utf8_bytes (ls_authority s))"
      using authorize_bootstrap [OF step Cons.prems(2)] by blast
    from Cons.IH [OF rest(1) flag(1) auth] flag(2,3) Cons.prems(3) show ?case
      by (auto simp: rest(2) good_def split: if_splits)
  qed simp
  moreover have "bootstrap_flag p sec \<noteq> None" using assms(2) by (auto simp: bootstrap_flag_def)
  then obtain available where "bootstrap_flag p sec = Some available" by blast
  ultimately have "length (filter (session_given p) log) \<le> (if available then 1 else 0) \<and> list_all good (filter (session_given p) log)"
    using assms(1) by blast
  then show ?thesis by (auto simp: good_def list_all_iff split: if_splits)
qed

section \<open>A concrete server\<close>

definition loopback_example :: loopback_env where
  "loopback_example = \<lparr>le_sha = sample_sha, le_hmac = sample_hmac, le_header_str = (\<lambda>bs. Some (map unat bs)),
     le_uri_ok = (\<lambda>_. True)\<rparr>"

definition example_server :: loopback_security where
  "example_server = loopback_bind 8080 (replicate 32 7) (replicate 32 9) (replicate 32 1)"

definition example_signature :: signed_request where
  "example_signature = (let sg = ls_signer example_server; body = [];
       digest = le_sha loopback_example body; i = hex_of_bytes (replicate 16 3) in
     \<lparr>sq_content_sha256 = hex_of_bytes digest, sq_issued_at = 100, sq_request_id = i,
      sq_signature = hex_of_bytes (compute_signature loopback_example sg (lit ''PUT'') (lit ''/api/v1/settings'') [] 100 i digest)\<rparr>)"

definition example_request :: http_request where
  "example_request = \<lparr>rq_method = lit ''PUT'', rq_path = lit ''/api/v1/settings'', rq_path_and_query = None,
     rq_headers = signed_headers example_signature @
       [(host_header, utf8_bytes (ls_authority example_server)),
        (cookie_header, utf8_bytes (ls_cookie_name example_server @ [61] @ ls_secret example_server)),
        (origin_header, utf8_bytes (ls_origin example_server))], rq_body = Some []\<rparr>"

lemma utf8_bytes_ascii: "\<forall>c \<in> set s. c < 128 \<Longrightarrow> utf8_bytes s = map of_nat s"
  by (induction s) (auto simp: utf8_bytes_def utf8_code_def)

lemma session_names_differ [simp]:
  "host_header \<noteq> cookie_header" "host_header \<noteq> origin_header" "cookie_header \<noteq> origin_header"
  by (simp_all add: host_header_def origin_header_def cookie_header_def lit_def)

lemma header_get_session [simp]:
  "n \<in> {host_header, cookie_header, origin_header, content_type_header}
   \<Longrightarrow> header_get (signed_headers q @ hs) n = header_get hs n"
  using header_names_differ by (auto simp: header_get_def signed_headers_def)

lemma example_header_text: "header_text_ok loopback_example"
proof -
  have "map unat (utf8_bytes s) = s" if "visible s" for s
  proof -
    have "utf8_bytes s = map of_nat s" using that by (intro utf8_bytes_ascii) (auto simp: visible_def)
    moreover have "map (unat \<circ> (of_nat :: nat \<Rightarrow> byte)) s = map (\<lambda>c. c) s"
      using that by (intro map_cong) (auto simp: visible_def unat_of_nat_byte)
    ultimately show ?thesis by simp
  qed
  then show ?thesis by (simp add: header_text_ok_def loopback_example_def)
qed

lemma example_signed:
  "signer_sign loopback_example (ls_signer example_server) (Some 100) (Some (replicate 16 3)) (rq_method example_request)
     (request_target example_request) [] [] = Inr example_signature"
  by (simp add: signer_sign_def validate_signing_input_def signable_methods_def example_request_def
      request_target_def loopback_example_def starts_with_def lit_def example_signature_def ok_or_def Let_def)

lemma session_cookie_found:
  assumes "le_header_str env v = Some (name @ [61] @ secret)" "v \<in> set (header_get_all hs cookie_header)"
    "\<forall>c \<in> set (name @ secret). c \<noteq> 59 \<and> \<not> is_whitespace c" "61 \<notin> set name"
  shows "has_session_cookie env hs name secret"
proof -
  have "split_on (\<lambda>c. c = 59) (name @ [61] @ secret) = [name @ [61] @ secret]"
    using assms(3) by (intro split_on_no_sep) auto
  moreover have "trim (name @ [61] @ secret) = name @ [61] @ secret"
  proof (rule trim_no_outer)
    show "\<not> is_whitespace (hd (name @ [61] @ secret))" using assms(3) by (cases name) (auto simp: is_whitespace_def)
    show "\<not> is_whitespace (last (name @ [61] @ secret))" using assms(3) by (cases secret rule: rev_cases) (auto simp: is_whitespace_def)
  qed simp
  moreover have "split_once 61 (name @ 61 # secret) = Some (name, secret)"
    using assms(4) by (induction name) auto
  ultimately show ?thesis
    using assms(1,2) by (auto simp: has_session_cookie_def list_ex_iff intro!: bexI [of _ v])
qed

lemma example_session: "session_request loopback_example example_server example_request"
proof -
  have hex: "c \<in> set (hex_of_bytes bs) \<Longrightarrow> 48 \<le> c \<and> c \<le> 57 \<or> 97 \<le> c \<and> c \<le> 102" for c bs
    using set_hex_of_bytes by blast
  have prefix: "\<forall>c \<in> set cookie_prefix. 95 \<le> c \<and> c \<le> 122"
    by (simp add: cookie_prefix_def lit_def)
  have "has_session_cookie loopback_example (rq_headers example_request) (ls_cookie_name example_server) (ls_secret example_server)"
  proof (rule session_cookie_found)
    have "visible (ls_cookie_name example_server @ [61] @ ls_secret example_server)"
      using prefix hex by (fastforce simp: visible_def example_server_def loopback_bind_def security_new_def Let_def dest: in_set_takeD)
    then show "le_header_str loopback_example (utf8_bytes (ls_cookie_name example_server @ [61] @ ls_secret example_server))
        = Some (ls_cookie_name example_server @ [61] @ ls_secret example_server)"
      using example_header_text by (simp only: header_text_ok_def)
    show "utf8_bytes (ls_cookie_name example_server @ [61] @ ls_secret example_server)
        \<in> set (header_get_all (rq_headers example_request) cookie_header)"
      by (simp add: example_request_def header_get_all_def)
    show "\<forall>c \<in> set (ls_cookie_name example_server @ ls_secret example_server). c \<noteq> 59 \<and> \<not> is_whitespace c"
      "61 \<notin> set (ls_cookie_name example_server)"
      using prefix hex
      by (fastforce simp: example_server_def loopback_bind_def security_new_def Let_def is_whitespace_def dest: in_set_takeD)+
  qed
  moreover have "\<not> at_bootstrap example_server example_request"
    by (simp add: at_bootstrap_def example_request_def example_server_def loopback_bind_def security_new_def Let_def lit_def)
  moreover have "header_matches (rq_headers example_request) host_header (ls_authority example_server)"
    by (simp add: header_matches_iff example_request_def) (simp add: header_get_def)
  moreover have "header_matches (rq_headers example_request) origin_header (ls_origin example_server)"
    by (simp add: header_matches_iff example_request_def) (simp add: header_get_def session_names_differ [symmetric])
  ultimately show ?thesis by (simp add: session_request_def)
qed

lemma example_api [simp]:
  "starts_with (rq_path example_request) (lit ''/api/'')" "rq_body example_request = Some []"
  "required_header loopback_example (rq_headers example_request) issued_at_header = Inr (decimal 100)"
  "sg_replay_cache (ls_signer example_server) = Map.empty"
proof -
  show "required_header loopback_example (rq_headers example_request) issued_at_header = Inr (decimal 100)"
    using example_header_text
    by (simp add: required_header_Inr example_request_def header_text_ok_def example_signature_def Let_def)
qed (simp_all add: example_request_def starts_with_def lit_def example_server_def loopback_bind_def
    security_new_def signer_new_def Let_def)

text \<open>The request reaches the router at any time of its second.\<close>

lemma example_verifies:
  assumes "t div 1000000000 = 100"
  shows "request_signed loopback_example (ls_signer example_server) (clock_at t) example_request [] (hex_of_bytes (replicate 16 3))"
proof (rule signed_request_verifies [where now = 100, OF example_header_text example_signed])
  show "rq_headers example_request = signed_headers example_signature @
       [(host_header, utf8_bytes (ls_authority example_server)),
        (cookie_header, utf8_bytes (ls_cookie_name example_server @ [61] @ ls_secret example_server)),
        (origin_header, utf8_bytes (ls_origin example_server))]"
    by (simp add: example_request_def)
  show "request_content_type loopback_example (rq_headers example_request) = Inr []"
    by (simp add: request_content_type_def example_request_def)
       (simp add: header_get_def content_type_header_def host_header_def cookie_header_def origin_header_def lit_def)
qed (use assms in \<open>simp_all add: clock_at_def u64_max_def abs_diff_def signature_ttl_secs_def\<close>)

lemma example_passes:
  assumes "t div 1000000000 = 100"
  shows "\<exists>sec1. authorize loopback_example route (clock_at t) example_request example_server
    = (harden example_server (route example_request), sec1, Some example_request)"
  using authorize_api [OF example_session example_api(1,2) _ example_verifies [OF assms], of route]
  by (auto simp: replay_retain_def)

theorem api_request_authenticated_witness:
  "\<exists>i. request_signed loopback_example (ls_signer example_server) (clock_at 100000000000) example_request [] i
     \<and> (\<exists>resp sec'. authorize loopback_example (\<lambda>_. status_response 200) (clock_at 100000000000) example_request example_server
          = (resp, sec', Some example_request) \<and> sg_replay_cache (ls_signer sec') i = Some 100000000000)"
proof -
  obtain sec1 where run: "authorize loopback_example (\<lambda>_. status_response 200) (clock_at 100000000000) example_request example_server
      = (harden example_server (status_response 200), sec1, Some example_request)"
    using example_passes [of 100000000000 "\<lambda>_. status_response 200"] by auto
  from api_request_authenticated [OF run example_api(1)] run show ?thesis
    by (auto simp: clock_at_def)
qed

theorem signed_request_single_use_witness:
  "\<exists>sec1. snd (authorize loopback_example (\<lambda>_. status_response 200) (clock_at 100000000000) example_request example_server)
       = (sec1, Some example_request)
     \<and> snd (snd (authorize loopback_example (\<lambda>_. status_response 200) (clock_at 101000000000) example_request sec1)) = None"
proof -
  obtain sec1 where run: "authorize loopback_example (\<lambda>_. status_response 200) (clock_at 100000000000) example_request example_server
      = (harden example_server (status_response 200), sec1, Some example_request)"
    using example_passes [of 100000000000 "\<lambda>_. status_response 200"] by auto
  have "within_retention (lc_instant (clock_at 100000000000)) (clock_at 101000000000)"
    by (simp add: within_retention_def clock_at_def signature_ttl_nanos_def signature_ttl_secs_def)
  with run signed_request_single_use [OF run example_api(1), of "[]" "[]" sec1 "clock_at 101000000000" example_request]
  show ?thesis by auto
qed

theorem signed_request_accepted_by_server_witness:
  "\<exists>resp sec'. authorize loopback_example (\<lambda>_. status_response 200) (clock_at 100500000000) example_request example_server
     = (resp, sec', Some example_request)"
proof -
  have "rq_headers example_request = signed_headers example_signature @
       [(host_header, utf8_bytes (ls_authority example_server)),
        (cookie_header, utf8_bytes (ls_cookie_name example_server @ [61] @ ls_secret example_server)),
        (origin_header, utf8_bytes (ls_origin example_server))]"
    by (simp add: example_request_def)
  moreover have "request_content_type loopback_example (rq_headers example_request) = Inr []"
    by (simp add: request_content_type_def example_request_def)
       (simp add: header_get_def content_type_header_def host_header_def cookie_header_def origin_header_def lit_def)
  ultimately show ?thesis
    using signed_request_accepted_by_server [OF example_header_text example_session example_api(1) example_signed, of
        "clock_at 100500000000" 100 _ "\<lambda>_. status_response 200"]
    by (auto simp: clock_at_def u64_max_def abs_diff_def)
qed

theorem signed_request_replayed_later_witness:
  "\<exists>sec1. snd (authorize loopback_example (\<lambda>_. status_response 200) (clock_at 100000000000) example_request example_server)
       = (sec1, Some example_request)
     \<and> snd (snd (authorize loopback_example (\<lambda>_. status_response 200) (clock_at 130500000000) example_request sec1))
       = Some example_request"
proof -
  obtain sec1 where run: "authorize loopback_example (\<lambda>_. status_response 200) (clock_at 100000000000) example_request example_server
      = (harden example_server (status_response 200), sec1, Some example_request)"
    using example_passes [of 100000000000 "\<lambda>_. status_response 200"] by auto
  from signed_request_replayed_later [OF run, of 130500000000] run show ?thesis
    by (simp add: signature_ttl_nanos_def signature_ttl_secs_def u64_max_def)
qed

definition bootstrap_request :: http_request where
  "bootstrap_request = \<lparr>rq_method = lit ''GET'', rq_path = ls_bootstrap_path example_server, rq_path_and_query = None,
     rq_headers = [(host_header, utf8_bytes (ls_authority example_server))], rq_body = None\<rparr>"

theorem bootstrap_once_witness:
  "length (filter (session_given (ls_bootstrap_path example_server)) (fst (authorize_log loopback_example (\<lambda>_. status_response 200)
     [(clock_at 0, bootstrap_request), (clock_at 1, bootstrap_request)] example_server))) = 1"
proof -
  let ?log = "authorize_log loopback_example (\<lambda>_. status_response 200)
     [(clock_at 0, bootstrap_request), (clock_at 1, bootstrap_request)] example_server"
  have host: "header_matches (rq_headers bootstrap_request) host_header (ls_authority example_server)"
    by (simp add: bootstrap_request_def header_matches_iff header_get_def)
  have "bootstrap_flag (rq_path bootstrap_request) example_server = Some True"
    by (simp add: bootstrap_flag_def bootstrap_request_def example_server_def loopback_bind_def security_new_def Let_def)
  from authorize_at_bootstrap [OF host this, of loopback_example "\<lambda>_. status_response 200" "clock_at 0"]
  obtain destination s1 where "authorize loopback_example (\<lambda>_. status_response 200) (clock_at 0) bootstrap_request example_server
      = (bootstrap_response example_server bootstrap_request True destination, s1, None)" by blast
  then obtain rest where log: "fst ?log = (bootstrap_request, bootstrap_response example_server bootstrap_request True destination) # rest"
    by (simp del: authorize_log.simps add: authorize_log.simps(2) case_prod_beta)
  moreover have "session_given (ls_bootstrap_path example_server)
      (bootstrap_request, bootstrap_response example_server bootstrap_request True destination)"
    by (simp add: session_given_def bootstrap_response_303) (simp add: bootstrap_request_def)
  ultimately have "1 \<le> length (filter (session_given (ls_bootstrap_path example_server)) (fst ?log))" by simp
  moreover have "length (filter (session_given (ls_bootstrap_path example_server)) (fst ?log)) \<le> 1"
    using bootstrap_once [of loopback_example "\<lambda>_. status_response 200" _ example_server "fst ?log" "snd ?log"
      "ls_bootstrap_path example_server"] by (simp del: authorize_log.simps)
  ultimately show ?thesis by (simp only: le_antisym)
qed

end
