(* ===== verification/Json.thy ===== *)
theory Json
  imports Pets Codex
begin

text \<open>
  \<^verbatim>\<open>serde_json::Value\<close> as the sources take it apart and build it: an object is a \<^verbatim>\<open>BTreeMap\<close>, so its
  keys are sorted. Numbers are the three representations of \<^verbatim>\<open>serde_json::Number\<close>. Parsing and
  printing are arguments of the definitions that use them. Also \<^verbatim>\<open>str::from_utf8\<close> and the display of
  a path.
\<close>

section \<open>Values\<close>

datatype json =
    JNull
  | JBool bool
  | JPosInt nat
  | JNegInt int
  | JFloat rstr
  | JString rstr
  | JArray "json list"
  | JObject "(rstr \<times> json) list"

fun json_get :: "json \<Rightarrow> rstr \<Rightarrow> json option" where
  "json_get (JObject m) k = map_of m k"
| "json_get _ k = None"

fun json_as_str :: "json \<Rightarrow> rstr option" where
  "json_as_str (JString s) = Some s"
| "json_as_str _ = None"

fun json_as_bool :: "json \<Rightarrow> bool option" where
  "json_as_bool (JBool b) = Some b"
| "json_as_bool _ = None"

fun json_as_u64 :: "json \<Rightarrow> nat option" where
  "json_as_u64 (JPosInt n) = Some n"
| "json_as_u64 _ = None"

fun json_as_array :: "json \<Rightarrow> json list option" where
  "json_as_array (JArray vs) = Some vs"
| "json_as_array _ = None"

fun json_as_object :: "json \<Rightarrow> (rstr \<times> json) list option" where
  "json_as_object (JObject m) = Some m"
| "json_as_object _ = None"

text \<open>\<^verbatim>\<open>json!\<close> of an object: the entries in key order.\<close>

definition json_object :: "(rstr \<times> json) list \<Rightarrow> json" where
  "json_object es = JObject (fold (\<lambda>(k, v). bt_insert k v) es [])"

lemma json_get_object [simp]: "json_get (json_object es) = map_of (rev es)"
proof -
  have "map_of (fold (\<lambda>(k, v). bt_insert k v) es m) = map_of m ++ map_of (rev es)" for m
    by (induction es arbitrary: m) (auto simp: map_add_def fun_eq_iff split: option.splits)
  then show ?thesis by (auto simp: json_object_def fun_eq_iff)
qed

text \<open>\<^verbatim>\<open>values().flatten()\<close> over the arrays among the values, and the handlers inside groups.\<close>

definition json_arrays :: "json list \<Rightarrow> json list" where
  "json_arrays vs = concat (List.map_filter json_as_array vs)"

definition group_handlers :: "json list \<Rightarrow> json list" where
  "group_handlers groups =
     concat (List.map_filter (\<lambda>g. Option.bind (json_get g (lit ''hooks'')) json_as_array) groups)"

section \<open>UTF-8\<close>

definition is_continuation :: "nat \<Rightarrow> bool" where
  "is_continuation b \<longleftrightarrow> 128 \<le> b \<and> b < 192"

fun decode_utf8_nat :: "nat list \<Rightarrow> rstr option" where
  "decode_utf8_nat [] = Some []"
| "decode_utf8_nat (a # s) =
     (if a < 128 then map_option (Cons a) (decode_utf8_nat s)
      else case s of
        [] \<Rightarrow> None
      | b # s1 \<Rightarrow>
          if \<not> is_continuation b then None
          else if 194 \<le> a \<and> a < 224
          then map_option (Cons ((a - 192) * 64 + (b - 128))) (decode_utf8_nat s1)
          else (case s1 of
            [] \<Rightarrow> None
          | c # s2 \<Rightarrow>
              if \<not> is_continuation c then None
              else if 224 \<le> a \<and> a < 240
              then (let ch = (a - 224) * 4096 + (b - 128) * 64 + (c - 128) in
                if ch < 2048 \<or> (55296 \<le> ch \<and> ch < 57344) then None
                else map_option (Cons ch) (decode_utf8_nat s2))
              else (case s2 of
                [] \<Rightarrow> None
              | d # s3 \<Rightarrow>
                  if \<not> is_continuation d \<or> a < 240 \<or> 245 \<le> a then None
                  else (let ch = (a - 240) * 262144 + (b - 128) * 4096 + (c - 128) * 64 + (d - 128) in
                    if ch < 65536 \<or> 1114112 \<le> ch then None
                    else map_option (Cons ch) (decode_utf8_nat s3)))))"

definition from_utf8 :: "byte list \<Rightarrow> rstr option" where
  "from_utf8 bs = decode_utf8_nat (map unat bs)"

text \<open>The strings of the program: sequences of Unicode scalar values.\<close>

definition scalar_text :: "rstr \<Rightarrow> bool" where
  "scalar_text s \<longleftrightarrow> (\<forall>c \<in> set s. c < 55296 \<or> (57344 \<le> c \<and> c < 1114112))"

lemma decode_two_bytes:
  "2 \<le> a \<Longrightarrow> a < 32 \<Longrightarrow> b < 64 \<Longrightarrow>
     decode_utf8_nat ((192 + a) # (128 + b) # s) = map_option (Cons (a * 64 + b)) (decode_utf8_nat s)"
  by (simp add: is_continuation_def)

lemma decode_three_bytes:
  assumes "a < 16" "b < 64" "c < 64" "2048 \<le> a * 4096 + b * 64 + c"
    "a * 4096 + b * 64 + c < 55296 \<or> 57344 \<le> a * 4096 + b * 64 + c"
  shows "decode_utf8_nat ((224 + a) # (128 + b) # (128 + c) # s)
     = map_option (Cons (a * 4096 + b * 64 + c)) (decode_utf8_nat s)"
  using assms by (auto simp: is_continuation_def Let_def)

lemma decode_utf8_code:
  assumes "c < 55296 \<or> (57344 \<le> c \<and> c < 1114112)"
  shows "decode_utf8_nat (utf8_code c @ s) = map_option (Cons c) (decode_utf8_nat s)"
proof -
  have three: "c div 4096 * 4096 + c div 64 mod 64 * 64 + c mod 64 = c"
  proof -
    have "c div 64 mod 64 * 64 + c mod 64 = c mod 4096" using mod_mult2_eq [of c 64 64] by simp
    then show ?thesis using div_mult_mod_eq [of c 4096] by linarith
  qed
  have four: "c div 262144 * 262144 + c div 4096 mod 64 * 4096 + c div 64 mod 64 * 64 + c mod 64 = c"
  proof -
    have "c div 64 mod 64 * 64 + c mod 64 = c mod 4096" using mod_mult2_eq [of c 64 64] by simp
    moreover have "c div 4096 mod 64 * 4096 + c mod 4096 = c mod 262144" using mod_mult2_eq [of c 4096 64] by simp
    ultimately show ?thesis using div_mult_mod_eq [of c 262144] by linarith
  qed
  have m: "c div 64 mod 64 < 64" "c mod 64 < 64" "c div 4096 mod 64 < 64" by simp_all
  consider "c < 128" | "128 \<le> c" "c < 2048" | "2048 \<le> c" "c < 65536" | "65536 \<le> c" "c < 1114112"
    using assms by linarith
  then show ?thesis
  proof cases
    case 2
    then have "2 \<le> c div 64" "c div 64 < 32" by linarith+
    from decode_two_bytes [OF this m(2), of s] 2 show ?thesis by (simp add: utf8_code_def)
  next
    case 3
    then have "c div 4096 < 16" by linarith
    from decode_three_bytes [OF this m(1,2), of s] 3 assms show ?thesis by (simp add: utf8_code_def three)
  next
    case 4
    moreover from this have "c div 262144 < 5" by linarith
    ultimately show ?thesis using assms four m by (simp add: utf8_code_def is_continuation_def Let_def)
  qed (simp add: utf8_code_def)
qed

lemma from_utf8_bytes [simp]:
  assumes "scalar_text s"
  shows "from_utf8 (utf8_bytes s) = Some s"
proof -
  have "decode_utf8_nat (concat (map utf8_code s)) = Some s"
    using assms by (induction s) (simp_all add: scalar_text_def decode_utf8_code del: decode_utf8_nat.simps(2))
  moreover have "map unat (utf8_bytes s) = concat (map utf8_code s)"
  proof -
    have "unat (of_nat b :: byte) = b" if "c \<in> set s" "b \<in> set (utf8_code c)" for b c
    proof -
      have "c < 1114112" using assms that(1) by (auto simp: scalar_text_def)
      then show ?thesis using utf8_code_bytes that(2) by (simp add: unat_of_nat)
    qed
    then have "map (unat \<circ> (of_nat :: nat \<Rightarrow> byte)) (concat (map utf8_code s)) = map (\<lambda>b. b) (concat (map utf8_code s))"
      by (intro map_cong) auto
    then show ?thesis by (simp add: utf8_bytes_def)
  qed
  ultimately show ?thesis by (simp add: from_utf8_def)
qed

section \<open>Paths\<close>

text \<open>\<^verbatim>\<open>Path::join\<close> with one plain name, and the display of a path in normal form.\<close>

definition path_join :: "pet_path \<Rightarrow> rstr \<Rightarrow> pet_path" where
  "path_join p name = p @ [NormalComp name]"

fun component_text :: "path_component \<Rightarrow> rstr" where
  "component_text RootDir = []"
| "component_text CurDir = lit ''.''"
| "component_text ParentDir = lit ''..''"
| "component_text (NormalComp s) = s"

definition path_display :: "pet_path \<Rightarrow> rstr" where
  "path_display p = (if p = [RootDir] then lit ''/'' else join (lit ''/'') (map component_text p))"

definition path_file_name :: "pet_path \<Rightarrow> rstr option" where
  "path_file_name p = (case rev p of NormalComp s # _ \<Rightarrow> Some s | _ \<Rightarrow> None)"

definition path_has_parent :: "pet_path \<Rightarrow> bool" where
  "path_has_parent p \<longleftrightarrow> p \<noteq> [] \<and> last p \<noteq> RootDir"

lemma path_join_simps [simp]:
  "path_join p a = path_join q b \<longleftrightarrow> p = q \<and> a = b" "path_has_parent (path_join p a)"
  "path_file_name (path_join p a) = Some a"
  by (simp_all add: path_join_def path_has_parent_def path_file_name_def)

text \<open>\<^verbatim>\<open>str::replace\<close> of one character.\<close>

definition replace_char :: "uchar \<Rightarrow> rstr \<Rightarrow> rstr \<Rightarrow> rstr" where
  "replace_char c r s = concat (map (\<lambda>d. if d = c then r else [d]) s)"

text \<open>Searching for a marker.\<close>

lemma str_contains_iff: "str_contains s m \<longleftrightarrow> (\<exists>a b. s = a @ m @ b)"
proof (induction s)
  case (Cons c s)
  show ?case
  proof
    assume "str_contains (c # s) m"
    then consider "take (length m) (c # s) = m" | "str_contains s m" by auto
    then show "\<exists>a b. c # s = a @ m @ b"
    proof cases
      case 1
      then have "c # s = [] @ m @ drop (length m) (c # s)" by (metis append.left_neutral append_take_drop_id)
      then show ?thesis by blast
    next
      case 2
      then obtain a b where "s = a @ m @ b" using Cons.IH by blast
      then have "c # s = (c # a) @ m @ b" by simp
      then show ?thesis by blast
    qed
  next
    assume "\<exists>a b. c # s = a @ m @ b"
    then obtain a b where ab: "c # s = a @ m @ b" by blast
    show "str_contains (c # s) m"
    proof (cases a)
      case Nil
      with ab have "take (length m) (c # s) = m" by simp
      then show ?thesis by simp
    next
      case (Cons d a')
      with ab have "s = a' @ m @ b" by simp
      with Cons.IH show ?thesis by auto
    qed
  qed
qed auto

lemma str_contains_append: "str_contains s m \<Longrightarrow> str_contains (a @ s @ b) m"
  by (auto simp: str_contains_iff) (metis append.assoc)

end
