(* ===== verification/Integration.thy ===== *)
theory Integration
  imports Json
begin

text \<open>
  \<^verbatim>\<open>lili-integration\<close>: the inspection of a Codex home (\<^verbatim>\<open>lib.rs\<close>), the install plan (\<^verbatim>\<open>plan.rs\<close>), its
  application with rollback (\<^verbatim>\<open>install.rs\<close>) and the uninstallation (\<^verbatim>\<open>uninstall.rs\<close>). The file system is
  a map from paths to files; every writing operation consumes one outcome: it succeeds, fails without
  an effect, or fails after its effect (the final \<^verbatim>\<open>sync_all\<close>). The TOML document, JSON parsing and printing
  and the serialisation of the provenance are fields of \<open>integration_env\<close>. Directories, permissions and
  temporary files are not modelled; all paths are in normal form.
\<close>

section \<open>The environment\<close>

definition lili_integration_id :: rstr where "lili_integration_id = lit ''lili-session-v1''"
definition integration_schema_version :: nat where "integration_schema_version = 1"
definition config_file_name :: rstr where "config_file_name = lit ''config.toml''"
definition hooks_file_name :: rstr where "hooks_file_name = lit ''hooks.json''"
definition provenance_file_name :: rstr where "provenance_file_name = lit ''integration.json''"
definition max_config_bytes :: nat where "max_config_bytes = 1024 * 1024"
definition max_plan_bytes :: nat where "max_plan_bytes = 256 * 1024"
definition max_provenance_bytes :: nat where "max_provenance_bytes = 256 * 1024"
definition max_codex_version_bytes :: nat where "max_codex_version_bytes = 128"
definition max_plugin_list_bytes :: nat where "max_plugin_list_bytes = 1024 * 1024"

text \<open>The \<^verbatim>\<open>notify\<close> item of a TOML document: absent, not an array, an array with a non-string, or strings.\<close>

datatype toml_notify = NotifyAbsent | NotifyNotArray | NotifyMixed nat | NotifyArgv "rstr list"

record 'd toml_ops =
  tm_parse :: "rstr \<Rightarrow> 'd option"
  tm_new :: 'd
  tm_notify :: "'d \<Rightarrow> toml_notify"
  tm_set_notify :: "rstr list \<Rightarrow> 'd \<Rightarrow> 'd"
  tm_remove_notify :: "'d \<Rightarrow> 'd"
  tm_hook_commands :: "'d \<Rightarrow> rstr \<Rightarrow> rstr list"
  tm_render :: "'d \<Rightarrow> rstr"

datatype install_mode = ModeExclusive | ModeCoexist

record file_provenance =
  fp_path :: pet_path
  fp_created :: bool
  fp_before_sha :: "rstr option"
  fp_after_sha :: rstr
  fp_backup :: "pet_path option"

record provenance =
  pv_schema_version :: nat
  pv_integration_id :: rstr
  pv_installed_at_ms :: nat
  pv_hook_binary :: pet_path
  pv_mode :: install_mode
  pv_notify_argv :: "rstr list"
  pv_previous_notify_argv :: "rstr list option"
  pv_hook_commands :: "rstr list"
  pv_config :: file_provenance
  pv_hooks :: file_provenance

record plugin_record =
  pr_plugin_id :: "rstr option"
  pr_name :: "rstr option"
  pr_version :: "rstr option"
  pr_enabled :: "bool option"

record 'd integration_env =
  ig_sha :: "byte list \<Rightarrow> byte list"
  ig_toml :: "'d toml_ops"
  ig_json :: "byte list \<Rightarrow> json option"
  ig_json_pretty :: "json \<Rightarrow> byte list"
  ig_json_text :: "json \<Rightarrow> rstr"
  ig_provenance_from :: "byte list \<Rightarrow> provenance option"
  ig_provenance_to :: "provenance \<Rightarrow> byte list"
  ig_plugin_list :: "byte list \<Rightarrow> (plugin_record list \<times> plugin_record list) option"
  ig_evidence :: "adapter_diagnostics option"

definition sha256_hex :: "'d integration_env \<Rightarrow> byte list \<Rightarrow> rstr" where
  "sha256_hex env c = hex_of_bytes (ig_sha env c)"

text \<open>\<^verbatim>\<open>Vec<String>\<close> as JSON text.\<close>

definition argv_to_json :: "'d integration_env \<Rightarrow> rstr list \<Rightarrow> rstr" where
  "argv_to_json env argv = ig_json_text env (JArray (map JString argv))"

definition strings_of_json :: "json \<Rightarrow> rstr list option" where
  "strings_of_json v = Option.bind (json_as_array v) (\<lambda>vs. those (map json_as_str vs))"

definition argv_from_json :: "'d integration_env \<Rightarrow> rstr \<Rightarrow> rstr list option" where
  "argv_from_json env s = Option.bind (ig_json env (utf8_bytes s)) strings_of_json"

definition list_get :: "'a list \<Rightarrow> nat \<Rightarrow> 'a option" where
  "list_get xs i = (if i < length xs then Some (xs ! i) else None)"

section \<open>The file system\<close>

text \<open>What reading the path, with links followed, finds.\<close>

datatype file_target = TargetFile "byte list" | TargetMissing | TargetUnreadable

record disk_node =
  dn_symlink :: bool
  dn_target :: file_target

type_synonym disk = "pet_path \<rightharpoonup> disk_node"

datatype io_outcome = IoOk | IoFail | IoFailDone

record io_state =
  io_disk :: disk
  io_outcomes :: "io_outcome list"

definition disk_read :: "disk \<Rightarrow> pet_path \<Rightarrow> file_target" where
  "disk_read d p = (case d p of None \<Rightarrow> TargetMissing | Some n \<Rightarrow> dn_target n)"

definition is_symlink :: "disk \<Rightarrow> pet_path \<Rightarrow> bool" where
  "is_symlink d p = (case d p of None \<Rightarrow> False | Some n \<Rightarrow> dn_symlink n)"

fun read_option :: "'e \<Rightarrow> file_target \<Rightarrow> 'e + byte list option" where
  "read_option e (TargetFile c) = Inr (Some c)"
| "read_option e TargetMissing = Inr None"
| "read_option e TargetUnreadable = Inl e"

text \<open>One writing operation whose effect on the disk is \<open>f\<close>.\<close>

definition io_effect :: "'e \<Rightarrow> (disk \<Rightarrow> disk) \<Rightarrow> io_state \<Rightarrow> ('e + unit) \<times> io_state" where
  "io_effect e f io = (case io_outcomes io of
     [] \<Rightarrow> (Inr (), io\<lparr>io_disk := f (io_disk io)\<rparr>)
   | IoOk # os \<Rightarrow> (Inr (), io\<lparr>io_disk := f (io_disk io), io_outcomes := os\<rparr>)
   | IoFail # os \<Rightarrow> (Inl e, io\<lparr>io_outcomes := os\<rparr>)
   | IoFailDone # os \<Rightarrow> (Inl e, io\<lparr>io_disk := f (io_disk io), io_outcomes := os\<rparr>))"

definition io_then :: "('e + 'a) \<times> 's \<Rightarrow> ('a \<Rightarrow> 's \<Rightarrow> ('e + 'b) \<times> 's) \<Rightarrow> ('e + 'b) \<times> 's" where
  "io_then r f = (case r of (Inl e, s) \<Rightarrow> (Inl e, s) | (Inr x, s) \<Rightarrow> f x s)"

datatype install_error = InstInvalidPlan | InstConfigurationChanged | InstInvalidConfiguration
  | InstVerificationFailed | InstIo | InstJson

definition regular_file :: "byte list \<Rightarrow> disk_node" where
  "regular_file c = \<lparr>dn_symlink = False, dn_target = TargetFile c\<rparr>"

definition atomic_write :: "pet_path \<Rightarrow> byte list \<Rightarrow> io_state \<Rightarrow> (install_error + unit) \<times> io_state" where
  "atomic_write p c io =
     (if \<not> path_has_parent p then (Inl InstInvalidPlan, io)
      else io_effect InstIo (\<lambda>d. d(p \<mapsto> regular_file c)) io)"

definition write_new_private_file :: "pet_path \<Rightarrow> byte list \<Rightarrow> io_state \<Rightarrow> (install_error + unit) \<times> io_state" where
  "write_new_private_file p c io =
     (if \<not> path_has_parent p then (Inl InstInvalidPlan, io)
      else if io_disk io p \<noteq> None then (Inl InstIo, io)
      else io_effect InstIo (\<lambda>d. d(p \<mapsto> regular_file c)) io)"

definition remove_file :: "pet_path \<Rightarrow> io_state \<Rightarrow> (install_error + unit) \<times> io_state" where
  "remove_file p io =
     (if io_disk io p = None then (Inr (), io) else io_effect InstIo (\<lambda>d. d(p := None)) io)"

definition rollback_file :: "pet_path \<Rightarrow> byte list option \<Rightarrow> io_state \<Rightarrow> (install_error + unit) \<times> io_state" where
  "rollback_file p original io = (case original of
     Some c \<Rightarrow> atomic_write p c io
   | None \<Rightarrow> remove_file p io)"

section \<open>Inspection\<close>

datatype integration_file_status = FileMissing | FileParsed | FileMalformed | FileTooLarge | FileUnreadable

datatype integration_kind = KindMissing | KindLili | KindOther | KindInvalid

record file_inspection =
  fi_path :: pet_path
  fi_status :: integration_file_status
  fi_symbolic_link :: bool
  fi_content_sha :: "rstr option"

record notify_inspection =
  ni_kind :: integration_kind
  ni_argument_count :: nat
  ni_argv :: "rstr list option"

record surface_inspection =
  si_surface :: codex_surface
  si_lili_handlers :: nat
  si_other_handlers :: nat

record integration_inspection =
  ii_schema_version :: nat
  ii_codex_home :: pet_path
  ii_codex_version :: "rstr option"
  ii_tested_codex_version :: rstr
  ii_config :: file_inspection
  ii_hooks :: file_inspection
  ii_notify :: notify_inspection
  ii_hook_surfaces :: "surface_inspection list"
  ii_codex_adapter :: adapter_diagnostics
  ii_warnings :: "rstr list"

definition hook_surfaces :: "(rstr \<times> codex_surface) list" where
  "hook_surfaces = [(lit ''SessionStart'', SurfSessionStart), (lit ''UserPromptSubmit'', SurfUserPromptSubmit),
     (lit ''PermissionRequest'', SurfPermissionRequest), (lit ''Stop'', SurfStop), (lit ''SessionEnd'', SurfSessionEnd)]"

definition resolve_codex_home :: "rstr option \<Rightarrow> rstr option \<Rightarrow> rstr option \<Rightarrow> bool + pet_path" where
  "resolve_codex_home codex_home home user_profile =
     (case codex_home of
        Some (c # s) \<Rightarrow> if is_absolute (path_of (c # s)) then Inr (path_of (c # s)) else Inl True
      | _ \<Rightarrow> (case (case home of Some h \<Rightarrow> Some h | None \<Rightarrow> user_profile) of
          Some h \<Rightarrow> if h \<noteq> [] \<and> is_absolute (path_of h) then Inr (path_join (path_of h) (lit ''.codex''))
            else Inl False
        | None \<Rightarrow> Inl False))"

definition read_bounded :: "'d integration_env \<Rightarrow> disk \<Rightarrow> pet_path \<Rightarrow> file_inspection \<times> rstr option" where
  "read_bounded env d p =
     (let i = \<lparr>fi_path = p, fi_status = FileMissing, fi_symbolic_link = is_symlink d p, fi_content_sha = None\<rparr> in
      case disk_read d p of
        TargetMissing \<Rightarrow> (i, None)
      | TargetUnreadable \<Rightarrow> (i\<lparr>fi_status := FileUnreadable\<rparr>, None)
      | TargetFile c \<Rightarrow>
          if length c > max_config_bytes then (i\<lparr>fi_status := FileTooLarge\<rparr>, None)
          else (case from_utf8 c of
              None \<Rightarrow> (i\<lparr>fi_status := FileUnreadable\<rparr>, None)
            | Some contents \<Rightarrow>
                (i\<lparr>fi_status := FileParsed, fi_content_sha := Some (sha256_hex env c)\<rparr>, Some contents)))"

definition read_toml :: "'d integration_env \<Rightarrow> disk \<Rightarrow> pet_path \<Rightarrow> file_inspection \<times> 'd option" where
  "read_toml env d p = (case read_bounded env d p of
     (i, None) \<Rightarrow> (i, None)
   | (i, Some contents) \<Rightarrow> (case tm_parse (ig_toml env) contents of
        Some doc \<Rightarrow> (i, Some doc)
      | None \<Rightarrow> (i\<lparr>fi_status := FileMalformed\<rparr>, None)))"

definition hooks_object_or_absent :: "json \<Rightarrow> bool" where
  "hooks_object_or_absent doc = (case json_get doc (lit ''hooks'') of
     None \<Rightarrow> True | Some v \<Rightarrow> json_as_object v \<noteq> None)"

definition read_json :: "'d integration_env \<Rightarrow> disk \<Rightarrow> pet_path \<Rightarrow> file_inspection \<times> json option" where
  "read_json env d p = (case read_bounded env d p of
     (i, None) \<Rightarrow> (i, None)
   | (i, Some contents) \<Rightarrow> (case ig_json env (utf8_bytes contents) of
        Some doc \<Rightarrow> if hooks_object_or_absent doc then (i, Some doc) else (i\<lparr>fi_status := FileMalformed\<rparr>, None)
      | None \<Rightarrow> (i\<lparr>fi_status := FileMalformed\<rparr>, None)))"

definition has_lili_id :: "rstr \<Rightarrow> bool" where
  "has_lili_id s = str_contains s lili_integration_id"

fun inspect_notify :: "toml_notify \<Rightarrow> notify_inspection" where
  "inspect_notify NotifyAbsent = \<lparr>ni_kind = KindMissing, ni_argument_count = 0, ni_argv = None\<rparr>"
| "inspect_notify NotifyNotArray = \<lparr>ni_kind = KindInvalid, ni_argument_count = 0, ni_argv = None\<rparr>"
| "inspect_notify (NotifyMixed n) = \<lparr>ni_kind = KindInvalid, ni_argument_count = n, ni_argv = None\<rparr>"
| "inspect_notify (NotifyArgv vs) = \<lparr>ni_kind = (if list_ex has_lili_id vs then KindLili else KindOther),
     ni_argument_count = length vs, ni_argv = Some vs\<rparr>"

definition classify_commands :: "rstr list \<Rightarrow> nat \<times> nat" where
  "classify_commands cs = fold (\<lambda>c (lili, other).
     if has_lili_id c then (sat_add lili 1, other) else (lili, sat_add other 1)) cs (0, 0)"

definition json_hook_commands :: "json \<Rightarrow> rstr \<Rightarrow> rstr list" where
  "json_hook_commands doc surface =
     (let groups = Option.bind (Option.bind (json_get doc (lit ''hooks'')) (\<lambda>h. json_get h surface)) json_as_array in
      List.map_filter (\<lambda>h. Option.bind (json_get h (lit ''command'')) json_as_str)
        (group_handlers (case groups of None \<Rightarrow> [] | Some gs \<Rightarrow> gs)))"

definition inspect_json_hooks :: "json \<Rightarrow> rstr \<Rightarrow> nat \<times> nat" where
  "inspect_json_hooks doc surface = classify_commands (json_hook_commands doc surface)"

definition inspect_toml_hooks :: "'d integration_env \<Rightarrow> 'd \<Rightarrow> rstr \<Rightarrow> nat \<times> nat" where
  "inspect_toml_hooks env doc surface = classify_commands (tm_hook_commands (ig_toml env) doc surface)"

definition record_is_lili :: "plugin_record \<Rightarrow> bool" where
  "record_is_lili r \<longleftrightarrow> pr_name r = Some (lit ''lili'')
     \<or> (case pr_plugin_id r of None \<Rightarrow> False
        | Some i \<Rightarrow> hd (split_on (\<lambda>c. c = 64) i) = lit ''lili'')"

definition record_matches :: "rstr option \<Rightarrow> plugin_record \<Rightarrow> bool" where
  "record_matches selector r = (case selector of
     None \<Rightarrow> record_is_lili r
   | Some s \<Rightarrow> pr_plugin_id r = Some s)"

definition parse_plugin_diagnostics :: "'d integration_env \<Rightarrow> byte list \<Rightarrow> rstr option \<Rightarrow> bool \<Rightarrow> rstr option
    \<Rightarrow> plugin_diagnostics option" where
  "parse_plugin_diagnostics env output version legacy selector =
     (if length output > max_plugin_list_bytes then None
      else Option.bind (ig_plugin_list env output) (\<lambda>(installed, available).
        case find (record_matches selector) installed of
          Some r \<Rightarrow> map_option (\<lambda>enabled. with_plugin_id
            (plugin_discovered version AvailInstalled True enabled (pr_version r) legacy) (pr_plugin_id r))
            (pr_enabled r)
        | None \<Rightarrow> (case find (record_matches selector) available of
            Some r \<Rightarrow> Some (with_plugin_id
              (plugin_discovered version AvailAvailable False False (pr_version r) legacy) (pr_plugin_id r))
          | None \<Rightarrow> Some (plugin_discovered version AvailNotAvailable False False None legacy))))"

definition parse_codex_version :: "bool \<Rightarrow> byte list \<Rightarrow> rstr option" where
  "parse_codex_version success out =
     (if \<not> success \<or> length out > max_codex_version_bytes then None
      else Option.bind (from_utf8 out) (\<lambda>text.
        case rev (split_whitespace (trim text)) of
          [] \<Rightarrow> None
        | v # _ \<Rightarrow> if byte_len v > 64 \<or> has_control v then None else Some v))"

definition inspection_warnings :: "rstr option \<Rightarrow> file_inspection \<Rightarrow> file_inspection \<Rightarrow> rstr list" where
  "inspection_warnings version config hooks =
     (case version of
        None \<Rightarrow> [lit ''Codex version could not be detected.'']
      | Some v \<Rightarrow> if v \<noteq> tested_codex_version
          then [lit ''The installed Codex version differs from the tested adapter version.''] else [])
     @ (if fi_symbolic_link config \<or> fi_symbolic_link hooks
        then [lit ''Symbolic-link configuration requires manual review before mutation.''] else [])
     @ (if {fi_status config, fi_status hooks} \<inter> {FileMalformed, FileTooLarge, FileUnreadable} \<noteq> {}
        then [lit ''A configuration file could not be safely parsed.''] else [])"

definition inspect_with_evidence :: "'d integration_env \<Rightarrow> disk \<Rightarrow> pet_path \<Rightarrow> rstr option \<Rightarrow> byte list option
    \<Rightarrow> rstr option \<Rightarrow> integration_inspection" where
  "inspect_with_evidence env d home version plugin_list selector =
     (let (config_file, config) = read_toml env d (path_join home config_file_name);
          (hooks_file, hooks) = read_json env d (path_join home hooks_file_name);
          notify = (case config of None \<Rightarrow> inspect_notify NotifyAbsent
            | Some doc \<Rightarrow> inspect_notify (tm_notify (ig_toml env) doc));
          surfaces = sort_key si_surface (map (\<lambda>(name, surface).
            let (toml_lili, toml_other) = (case config of None \<Rightarrow> (0, 0) | Some doc \<Rightarrow> inspect_toml_hooks env doc name);
                (json_lili, json_other) = (case hooks of None \<Rightarrow> (0, 0) | Some doc \<Rightarrow> inspect_json_hooks doc name)
            in \<lparr>si_surface = surface, si_lili_handlers = sat_add toml_lili json_lili,
                si_other_handlers = sat_add toml_other json_other\<rparr>) hook_surfaces);
          active = filter (\<lambda>s. 0 < si_lili_handlers s) surfaces;
          legacy = (ni_kind notify = KindLili \<or> active \<noteq> []);
          discovered = map si_surface active @ (if ni_kind notify = KindLili then [SurfNotify] else []);
          plugin = (case Option.bind plugin_list (\<lambda>output. parse_plugin_diagnostics env output version legacy selector) of
              None \<Rightarrow> plugin_unavailable version legacy
            | Some p \<Rightarrow> p);
          found = with_plugin (with_discovery version discovered) plugin
      in \<lparr>ii_schema_version = integration_schema_version, ii_codex_home = home, ii_codex_version = version,
          ii_tested_codex_version = tested_codex_version, ii_config = config_file, ii_hooks = hooks_file,
          ii_notify = notify, ii_hook_surfaces = surfaces,
          ii_codex_adapter = (case ig_evidence env of None \<Rightarrow> found | Some r \<Rightarrow> refresh_discovery found r),
          ii_warnings = inspection_warnings version config_file hooks_file\<rparr>)"

definition inspect_with_version :: "'d integration_env \<Rightarrow> disk \<Rightarrow> pet_path \<Rightarrow> rstr option \<Rightarrow> integration_inspection" where
  "inspect_with_version env d home version = inspect_with_evidence env d home version None None"

end
