(* ===== verification/Integration_Install.thy ===== *)
theory Integration_Install
  imports Integration
begin

text \<open>
  \<^verbatim>\<open>lili-integration\<close>: the install plan (\<^verbatim>\<open>plan.rs\<close>) and its application (\<^verbatim>\<open>install.rs\<close>). A failed
  application rolls the three files back; the verification command is an argument.
\<close>

section \<open>The plan\<close>

datatype plan_status = PlanReady | PlanConflict | PlanBlocked

datatype operation_kind = LegacyFallback

datatype planned_action = ActCreate | ActUpdate | ActUnchanged | ActConflict | ActBlocked

record planned_hook =
  ph_surface :: codex_surface
  ph_event_name :: rstr
  ph_handler_type :: rstr
  ph_command :: rstr
  ph_command_windows :: rstr
  ph_timeout_seconds :: nat
  ph_integration_id :: rstr

record planned_change =
  pg_target :: pet_path
  pg_expected_sha :: "rstr option"
  pg_action :: planned_action
  pg_backup :: "pet_path option"

record install_plan =
  ip_schema_version :: nat
  ip_operation_kind :: operation_kind
  ip_mode :: install_mode
  ip_status :: plan_status
  ip_codex_home :: pet_path
  ip_codex_version :: "rstr option"
  ip_hook_binary :: pet_path
  ip_config_change :: planned_change
  ip_hooks_change :: planned_change
  ip_notify_argv :: "rstr list"
  ip_previous_notify_argv :: "rstr list option"
  ip_hook_additions :: "planned_hook list"
  ip_trust_requirements :: "rstr list"
  ip_verification_command :: "rstr list"
  ip_blocking_reasons :: "rstr list"

definition flag_integration_id :: rstr where "flag_integration_id = lit ''--integration-id''"
definition flag_json_argv :: rstr where "flag_json_argv = lit ''--json-argv''"
definition flag_coexist :: rstr where "flag_coexist = lit ''--coexist-notify-json''"

definition notify_argv :: "'d integration_env \<Rightarrow> pet_path \<Rightarrow> rstr list option \<Rightarrow> rstr list" where
  "notify_argv env hook_binary previous =
     [path_display hook_binary, flag_integration_id, lili_integration_id] @
     (case previous of
        Some p \<Rightarrow> [flag_coexist, argv_to_json env p]
      | None \<Rightarrow> [flag_json_argv])"

definition coexistence_original_argv :: "'d integration_env \<Rightarrow> integration_inspection \<Rightarrow> install_mode
    \<Rightarrow> rstr list option" where
  "coexistence_original_argv env i m =
     (if m \<noteq> ModeCoexist then None
      else if ni_kind (ii_notify i) = KindOther then ni_argv (ii_notify i)
      else Option.bind (ni_argv (ii_notify i)) (\<lambda>argv.
        if list_get argv 1 \<noteq> Some flag_integration_id \<or> list_get argv 2 \<noteq> Some lili_integration_id
          \<or> list_get argv 3 \<noteq> Some flag_coexist \<or> length argv \<noteq> 5
        then None else argv_from_json env (argv ! 4)))"

definition quote_posix :: "pet_path \<Rightarrow> rstr" where
  "quote_posix p = [39] @ replace_char 39 [39, 34, 39, 34, 39] (path_display p) @ [39]"

definition quote_windows :: "pet_path \<Rightarrow> rstr" where
  "quote_windows p = [34] @ replace_char 34 [92, 34] (path_display p) @ [34]"

definition hook_suffix :: rstr where
  "hook_suffix = lit '' --integration-id '' @ lili_integration_id @ lit '' --json-stdin''"

definition planned_hook_for :: "codex_surface \<Rightarrow> rstr \<Rightarrow> pet_path \<Rightarrow> planned_hook" where
  "planned_hook_for surface event_name hook_binary =
     \<lparr>ph_surface = surface, ph_event_name = event_name, ph_handler_type = lit ''command'',
      ph_command = quote_posix hook_binary @ hook_suffix,
      ph_command_windows = quote_windows hook_binary @ hook_suffix,
      ph_timeout_seconds = 2, ph_integration_id = lili_integration_id\<rparr>"

definition safe_to_mutate :: "file_inspection \<Rightarrow> bool" where
  "safe_to_mutate f \<longleftrightarrow> \<not> fi_symbolic_link f \<and> fi_status f \<in> {FileMissing, FileParsed}"

definition action_for :: "file_inspection \<Rightarrow> planned_action" where
  "action_for f = (if fi_status f = FileMissing then ActCreate else ActUpdate)"

definition backup_name :: "rstr \<Rightarrow> nat \<Rightarrow> rstr" where
  "backup_name file_name timestamp = file_name @ lit ''.lili-backup-'' @ decimal timestamp"

definition planned_file_change :: "file_inspection \<Rightarrow> planned_action \<Rightarrow> nat \<Rightarrow> planned_change" where
  "planned_file_change f action timestamp =
     \<lparr>pg_target = fi_path f, pg_expected_sha = fi_content_sha f, pg_action = action,
      pg_backup = (if action = ActUpdate
        then Some (path_join (butlast (fi_path f))
          (backup_name (case path_file_name (fi_path f) of None \<Rightarrow> lit ''configuration'' | Some n \<Rightarrow> n) timestamp))
        else None)\<rparr>"

definition verification_payload :: "pet_path \<Rightarrow> nat \<Rightarrow> json" where
  "verification_payload home timestamp = json_object
     [(lit ''type'', JString (lit ''agent-turn-complete'')), (lit ''thread-id'', JString (lit ''lili-verification'')),
      (lit ''turn-id'', JString (decimal timestamp)), (lit ''cwd'', JString (path_display home)),
      (lit ''client'', JString (lit ''lili-integrator'')),
      (lit ''last-assistant-message'', JString (lit ''Lili integration verified.''))]"

definition planned_additions :: "integration_inspection \<Rightarrow> pet_path \<Rightarrow> planned_hook list" where
  "planned_additions i hook_binary =
     map (\<lambda>(name, surface). planned_hook_for surface name hook_binary)
       (filter (\<lambda>(name, surface).
          case find (\<lambda>s. si_surface s = surface) (ii_hook_surfaces i) of
            None \<Rightarrow> True | Some s \<Rightarrow> si_lili_handlers s = 0) hook_surfaces)"

definition plan_blockers :: "integration_inspection \<Rightarrow> pet_path \<Rightarrow> rstr list" where
  "plan_blockers i hook_binary =
     (if \<not> is_absolute hook_binary then [lit ''The packaged hook binary path is not absolute.''] else [])
     @ (if \<not> safe_to_mutate (ii_config i) \<or> \<not> safe_to_mutate (ii_hooks i)
        then [lit ''Configuration is malformed, unreadable, oversized, or symbolic-linked.''] else [])"

definition plan_status_for :: "integration_inspection \<Rightarrow> pet_path \<Rightarrow> install_mode \<Rightarrow> plan_status \<times> rstr list" where
  "plan_status_for i hook_binary m =
     (let blockers = plan_blockers i hook_binary in
      if blockers \<noteq> [] then (PlanBlocked, blockers)
      else if ni_kind (ii_notify i) = KindInvalid
      then (PlanConflict, [lit ''The existing notify value is invalid and cannot be preserved.''])
      else if ni_kind (ii_notify i) = KindOther \<and> m = ModeExclusive
      then (PlanConflict, [lit ''An existing non-Lili notify command requires explicit coexistence.''])
      else (PlanReady, []))"

definition build_plan :: "'d integration_env \<Rightarrow> integration_inspection \<Rightarrow> pet_path \<Rightarrow> nat \<Rightarrow> install_mode
    \<Rightarrow> install_plan" where
  "build_plan env i hook_binary timestamp m =
     (let previous = coexistence_original_argv env i m;
          argv = notify_argv env hook_binary previous;
          additions = planned_additions i hook_binary;
          (status, reasons) = plan_status_for i hook_binary m;
          config_action = (case status of PlanBlocked \<Rightarrow> ActBlocked | PlanConflict \<Rightarrow> ActConflict
            | PlanReady \<Rightarrow> if ni_argv (ii_notify i) = Some argv then ActUnchanged else action_for (ii_config i));
          hooks_action = (if status = PlanBlocked then ActBlocked
            else if additions = [] then ActUnchanged else action_for (ii_hooks i))
      in \<lparr>ip_schema_version = 2, ip_operation_kind = LegacyFallback, ip_mode = m, ip_status = status,
          ip_codex_home = ii_codex_home i, ip_codex_version = ii_codex_version i, ip_hook_binary = hook_binary,
          ip_config_change = planned_file_change (ii_config i) config_action timestamp,
          ip_hooks_change = planned_file_change (ii_hooks i) hooks_action timestamp,
          ip_notify_argv = argv, ip_previous_notify_argv = previous, ip_hook_additions = additions,
          ip_trust_requirements = [
            lit ''Review the absolute lili-hook path before applying this plan.'',
            lit ''Codex may require explicit trust for newly configured user hooks.'',
            lit ''PermissionRequest remains observer-only and returns no decision.''],
          ip_verification_command = [path_display hook_binary, flag_integration_id, lili_integration_id,
            flag_json_argv, ig_json_text env (verification_payload (ii_codex_home i) timestamp)],
          ip_blocking_reasons = reasons\<rparr>)"

section \<open>Checking the plan\<close>

definition validate_plan :: "'d integration_env \<Rightarrow> install_plan \<Rightarrow> install_error + unit" where
  "validate_plan env p =
     (let argv = ip_notify_argv p in
      if ip_schema_version p \<noteq> 2 \<or> ip_operation_kind p \<noteq> LegacyFallback \<or> ip_status p \<noteq> PlanReady
        \<or> \<not> is_absolute (ip_codex_home p) \<or> \<not> is_absolute (ip_hook_binary p)
        \<or> pg_target (ip_config_change p) \<noteq> path_join (ip_codex_home p) config_file_name
        \<or> pg_target (ip_hooks_change p) \<noteq> path_join (ip_codex_home p) hooks_file_name
        \<or> map_option path_of (list_get argv 0) \<noteq> Some (ip_hook_binary p)
        \<or> list_get argv 1 \<noteq> Some flag_integration_id \<or> list_get argv 2 \<noteq> Some lili_integration_id
        \<or> list_get (ip_verification_command p) 0 \<noteq> list_get argv 0
      then Inl InstInvalidPlan
      else (case (ip_mode p, ip_previous_notify_argv p) of
          (ModeExclusive, None) \<Rightarrow>
            check (length argv = 4 \<and> list_get argv 3 = Some flag_json_argv) InstInvalidPlan
        | (ModeCoexist, Some previous) \<Rightarrow>
            check (previous \<noteq> [] \<and> length argv = 5 \<and> list_get argv 3 = Some flag_coexist
              \<and> list_get argv 4 = Some (argv_to_json env previous)) InstInvalidPlan
        | (ModeCoexist, None) \<Rightarrow>
            check (length argv = 4 \<and> list_get argv 3 = Some flag_json_argv) InstInvalidPlan
        | (ModeExclusive, Some previous) \<Rightarrow> Inl InstInvalidPlan))"

definition plan_timestamp :: "'d integration_env \<Rightarrow> install_plan \<Rightarrow> install_error + nat" where
  "plan_timestamp env p = (case ip_verification_command p of
     [] \<Rightarrow> Inl InstInvalidPlan
   | cmd \<Rightarrow> ok_or InstInvalidPlan
       (Option.bind (Option.bind (Option.bind (ig_json env (utf8_bytes (last cmd)))
          (\<lambda>v. json_get v (lit ''turn-id''))) json_as_str) parse_u64))"

definition validate_current_plan :: "'d integration_env \<Rightarrow> disk \<Rightarrow> install_plan \<Rightarrow> install_error + unit" where
  "validate_current_plan env d p =
     (let i = inspect_with_version env d (ip_codex_home p) (ip_codex_version p) in
      rbind (plan_timestamp env p) (\<lambda>timestamp.
        check (build_plan env i (ip_hook_binary p) timestamp (ip_mode p) = p) InstInvalidPlan))"

definition read_expected :: "'d integration_env \<Rightarrow> disk \<Rightarrow> pet_path \<Rightarrow> rstr option \<Rightarrow> install_error + byte list option" where
  "read_expected env d p expected = (case disk_read d p of
     TargetFile c \<Rightarrow> if expected \<noteq> Some (sha256_hex env c) then Inl InstConfigurationChanged else Inr (Some c)
   | TargetMissing \<Rightarrow> if expected \<noteq> None then Inl InstConfigurationChanged else Inr None
   | TargetUnreadable \<Rightarrow> Inl InstIo)"

section \<open>Rendering\<close>

definition writes_file :: "planned_change \<Rightarrow> bool" where
  "writes_file c \<longleftrightarrow> pg_action c \<in> {ActCreate, ActUpdate}"

definition render_config :: "'d integration_env \<Rightarrow> install_plan \<Rightarrow> byte list option
    \<Rightarrow> install_error + byte list option" where
  "render_config env p original =
     (if \<not> writes_file (ip_config_change p) then Inr None
      else rbind (case original of
          Some c \<Rightarrow> ok_or InstInvalidConfiguration (Option.bind (from_utf8 c) (tm_parse (ig_toml env)))
        | None \<Rightarrow> Inr (tm_new (ig_toml env)))
        (\<lambda>doc. Inr (Some (utf8_bytes (tm_render (ig_toml env) (tm_set_notify (ig_toml env) (ip_notify_argv p) doc))))))"

definition hook_group :: "planned_hook \<Rightarrow> json" where
  "hook_group a = json_object [(lit ''hooks'', JArray [json_object
     [(lit ''type'', JString (ph_handler_type a)), (lit ''command'', JString (ph_command a)),
      (lit ''commandWindows'', JString (ph_command_windows a)), (lit ''timeout'', JPosInt (ph_timeout_seconds a)),
      (lit ''statusMessage'', JString (lit ''Notify Lili''))]])]"

definition add_hook_group :: "planned_hook \<Rightarrow> (rstr \<times> json) list \<Rightarrow> install_error + (rstr \<times> json) list" where
  "add_hook_group a hooks =
     rbind (ok_or InstInvalidConfiguration (json_as_array (case map_of hooks (ph_event_name a) of
       None \<Rightarrow> JArray [] | Some v \<Rightarrow> v)))
     (\<lambda>groups. Inr (bt_insert (ph_event_name a) (JArray (groups @ [hook_group a])) hooks))"

fun add_hook_groups :: "planned_hook list \<Rightarrow> (rstr \<times> json) list \<Rightarrow> install_error + (rstr \<times> json) list" where
  "add_hook_groups [] hooks = Inr hooks"
| "add_hook_groups (a # as) hooks = rbind (add_hook_group a hooks) (add_hook_groups as)"

definition add_hooks :: "planned_hook list \<Rightarrow> json \<Rightarrow> install_error + json" where
  "add_hooks additions doc =
     rbind (ok_or InstInvalidConfiguration (json_as_object doc)) (\<lambda>m.
     rbind (ok_or InstInvalidConfiguration (json_as_object
       (case map_of m (lit ''hooks'') of None \<Rightarrow> JObject [] | Some v \<Rightarrow> v))) (\<lambda>hooks.
     rbind (add_hook_groups additions hooks) (\<lambda>hooks'.
       Inr (JObject (bt_insert (lit ''hooks'') (JObject hooks') m)))))"

definition pretty_file :: "'d integration_env \<Rightarrow> json \<Rightarrow> byte list" where
  "pretty_file env doc = ig_json_pretty env doc @ [10]"

definition render_hooks :: "'d integration_env \<Rightarrow> install_plan \<Rightarrow> byte list option
    \<Rightarrow> install_error + byte list option" where
  "render_hooks env p original =
     (if \<not> writes_file (ip_hooks_change p) then Inr None
      else rbind (case original of
          Some c \<Rightarrow> ok_or InstInvalidConfiguration (ig_json env c)
        | None \<Rightarrow> Inr (json_object [(lit ''hooks'', JObject [])]))
        (\<lambda>doc. rbind (add_hooks (ip_hook_additions p) doc) (\<lambda>doc'. Inr (Some (pretty_file env doc')))))"

section \<open>Applying the plan\<close>

definition create_backup_if_needed :: "planned_change \<Rightarrow> byte list option \<Rightarrow> pet_path list \<Rightarrow> io_state
    \<Rightarrow> (install_error + pet_path list) \<times> io_state" where
  "create_backup_if_needed c original backups io = (case pg_backup c of
     None \<Rightarrow> (Inr backups, io)
   | Some b \<Rightarrow> (case original of
       None \<Rightarrow> (Inl InstInvalidPlan, io)
     | Some contents \<Rightarrow> io_then (write_new_private_file b contents io) (\<lambda>_ io. (Inr (backups @ [b]), io))))"

definition verify_installed_markers :: "'d integration_env \<Rightarrow> disk \<Rightarrow> install_plan \<Rightarrow> install_error + unit" where
  "verify_installed_markers env d p =
     (let i = inspect_with_version env d (ip_codex_home p) (ip_codex_version p) in
      check (ni_kind (ii_notify i) = KindLili \<and> list_all (\<lambda>s. si_lili_handlers s \<noteq> 0) (ii_hook_surfaces i))
        InstVerificationFailed)"

definition managed_hook_commands :: "'d integration_env \<Rightarrow> byte list \<Rightarrow> install_error + rstr list" where
  "managed_hook_commands env contents =
     rbind (ok_or InstJson (ig_json env contents)) (\<lambda>doc.
       let hooks = (case Option.bind (json_get doc (lit ''hooks'')) json_as_object of None \<Rightarrow> [] | Some m \<Rightarrow> m);
           commands = List.map_filter (\<lambda>h. Option.bind (json_get h (lit ''command'')) json_as_str)
             (group_handlers (json_arrays (map snd hooks)))
       in Inr (remdups_adj (sort (filter has_lili_id commands))))"

definition file_provenance_for :: "'d integration_env \<Rightarrow> planned_change \<Rightarrow> byte list option \<Rightarrow> byte list
    \<Rightarrow> file_provenance" where
  "file_provenance_for env c original current =
     \<lparr>fp_path = pg_target c, fp_created = (original = None), fp_before_sha = map_option (sha256_hex env) original,
      fp_after_sha = sha256_hex env current, fp_backup = pg_backup c\<rparr>"

definition build_provenance :: "'d integration_env \<Rightarrow> install_plan \<Rightarrow> byte list option \<Rightarrow> byte list option
    \<Rightarrow> byte list option \<Rightarrow> byte list option \<Rightarrow> provenance option \<Rightarrow> install_error + provenance" where
  "build_provenance env p original_config original_hooks rendered_config rendered_hooks previous =
     rbind (ok_or InstInvalidPlan (case rendered_config of Some c \<Rightarrow> Some c | None \<Rightarrow> original_config)) (\<lambda>config.
     rbind (ok_or InstInvalidPlan (case rendered_hooks of Some c \<Rightarrow> Some c | None \<Rightarrow> original_hooks)) (\<lambda>hooks.
     rbind (plan_timestamp env p) (\<lambda>timestamp.
     rbind (managed_hook_commands env hooks) (\<lambda>commands.
       Inr \<lparr>pv_schema_version = 1, pv_integration_id = lili_integration_id, pv_installed_at_ms = timestamp,
            pv_hook_binary = ip_hook_binary p, pv_mode = ip_mode p, pv_notify_argv = ip_notify_argv p,
            pv_previous_notify_argv = ip_previous_notify_argv p, pv_hook_commands = commands,
            pv_config = (case (rendered_config, previous) of
                (None, Some v) \<Rightarrow> pv_config v
              | _ \<Rightarrow> file_provenance_for env (ip_config_change p) original_config config),
            pv_hooks = (case (rendered_hooks, previous) of
                (None, Some v) \<Rightarrow> pv_hooks v
              | _ \<Rightarrow> file_provenance_for env (ip_hooks_change p) original_hooks hooks)\<rparr>))))"

definition provenance_path :: "pet_path \<Rightarrow> pet_path" where
  "provenance_path home = path_join (path_join home (lit ''lili'')) provenance_file_name"

definition write_rendered :: "pet_path \<Rightarrow> byte list option \<Rightarrow> io_state \<Rightarrow> (install_error + unit) \<times> io_state" where
  "write_rendered p contents io = (case contents of
     None \<Rightarrow> (Inr (), io)
   | Some c \<Rightarrow> atomic_write p c io)"

record install_outcome =
  io_changed :: bool
  io_backups :: "pet_path list"
  io_provenance :: pet_path

text \<open>The steps between the backups and the outcome; an error is rolled back by the caller.\<close>

definition apply_install :: "'d integration_env \<Rightarrow> (rstr list \<Rightarrow> install_error + unit) \<Rightarrow> install_plan
    \<Rightarrow> byte list option \<Rightarrow> byte list option \<Rightarrow> byte list option \<Rightarrow> byte list option \<Rightarrow> provenance option
    \<Rightarrow> io_state \<Rightarrow> (install_error + unit) \<times> io_state" where
  "apply_install env verifier p original_config original_hooks rendered_config rendered_hooks previous io =
     io_then (write_rendered (pg_target (ip_config_change p)) rendered_config io) (\<lambda>_ io.
     io_then (write_rendered (pg_target (ip_hooks_change p)) rendered_hooks io) (\<lambda>_ io.
     io_then (verify_installed_markers env (io_disk io) p, io) (\<lambda>_ io.
     io_then (verifier (ip_verification_command p), io) (\<lambda>_ io.
     io_then (build_provenance env p original_config original_hooks rendered_config rendered_hooks previous, io)
       (\<lambda>v io. atomic_write (provenance_path (ip_codex_home p)) (ig_provenance_to env v @ [10]) io)))))"

definition rollback_install :: "install_plan \<Rightarrow> byte list option \<Rightarrow> byte list option \<Rightarrow> byte list option \<Rightarrow> io_state
    \<Rightarrow> (install_error + unit) \<times> io_state" where
  "rollback_install p original_config original_hooks original_provenance io =
     io_then (rollback_file (pg_target (ip_config_change p)) original_config io) (\<lambda>_ io.
     io_then (rollback_file (pg_target (ip_hooks_change p)) original_hooks io) (\<lambda>_ io.
       rollback_file (provenance_path (ip_codex_home p)) original_provenance io))"

definition install_with_verifier :: "'d integration_env \<Rightarrow> (rstr list \<Rightarrow> install_error + unit) \<Rightarrow> install_plan
    \<Rightarrow> io_state \<Rightarrow> (install_error + install_outcome) \<times> io_state" where
  "install_with_verifier env verifier p io =
     (let d = io_disk io; provenance_file = provenance_path (ip_codex_home p) in
      io_then (validate_plan env p, io) (\<lambda>_ io.
      io_then (read_expected env d (pg_target (ip_config_change p)) (pg_expected_sha (ip_config_change p)), io) (\<lambda>original_config io.
      io_then (read_expected env d (pg_target (ip_hooks_change p)) (pg_expected_sha (ip_hooks_change p)), io) (\<lambda>original_hooks io.
      io_then (validate_current_plan env d p, io) (\<lambda>_ io.
      io_then (render_config env p original_config, io) (\<lambda>rendered_config io.
      io_then (render_hooks env p original_hooks, io) (\<lambda>rendered_hooks io.
      io_then (read_option InstIo (disk_read d provenance_file), io) (\<lambda>original_provenance io.
      let previous = Option.bind (Option.bind original_provenance (ig_provenance_from env))
            (\<lambda>v. if pv_integration_id v = lili_integration_id then Some v else None) in
      io_then (create_backup_if_needed (ip_config_change p) original_config [] io) (\<lambda>backups io.
      io_then (create_backup_if_needed (ip_hooks_change p) original_hooks backups io) (\<lambda>backups io.
        case apply_install env verifier p original_config original_hooks rendered_config rendered_hooks previous io of
          (Inr _, io) \<Rightarrow> (Inr \<lparr>io_changed = (rendered_config \<noteq> None \<or> rendered_hooks \<noteq> None),
             io_backups = backups, io_provenance = provenance_file\<rparr>, io)
        | (Inl e, io) \<Rightarrow> io_then (rollback_install p original_config original_hooks original_provenance io)
             (\<lambda>_ io. (Inl e, io))))))))))))"

text \<open>\<^verbatim>\<open>load_plan\<close>: the length from the metadata, the bytes and the decoder.\<close>

definition load_plan :: "(byte list \<Rightarrow> install_plan option) \<Rightarrow> disk \<Rightarrow> pet_path \<Rightarrow> install_error + install_plan" where
  "load_plan decode d p = (case disk_read d p of
     TargetMissing \<Rightarrow> Inl InstIo
   | TargetUnreadable \<Rightarrow> Inl InstInvalidPlan
   | TargetFile c \<Rightarrow> if length c > max_plan_bytes then Inl InstInvalidPlan
       else ok_or InstInvalidPlan (decode c))"

end
