(* ===== verification/Hook_Forwarder.thy ===== *)
theory Hook_Forwarder
  imports Integration_Install Transport Spool
begin

text \<open>
  \<^verbatim>\<open>lili/src/hook_forwarder.rs\<close>: the program \<^verbatim>\<open>lili-hook\<close> that Codex starts for a hook or a notification. It
  reads the payload, normalizes it, hands it to the running desktop or stores it in the spool, and in
  coexistence first starts the command the user had configured. Arguments and environment are
  \<^verbatim>\<open>OsString\<close>s: text, or bytes that are not UTF-8.
\<close>

section \<open>Results\<close>

datatype hook_exit_code = ExitSuccess | ExitUsage | ExitInvalidInput | ExitDeliveryFailed

definition exit_value :: "hook_exit_code \<Rightarrow> nat" where
  "exit_value c = (case c of ExitSuccess \<Rightarrow> 0 | ExitUsage \<Rightarrow> 2 | ExitInvalidInput \<Rightarrow> 3 | ExitDeliveryFailed \<Rightarrow> 4)"

datatype hook_outcome = HookDelivered | HookSpooled

record hook_result =
  hr_exit_code :: hook_exit_code
  hr_outcome :: "hook_outcome option"
  hr_diagnostic :: "rstr option"
  hr_hook_event :: "rstr option"
  hr_suppressed_failure :: "(hook_exit_code \<times> rstr) option"

definition hook_success :: "hook_outcome \<Rightarrow> hook_result" where
  "hook_success out = \<lparr>hr_exit_code = ExitSuccess, hr_outcome = Some out, hr_diagnostic = None,
     hr_hook_event = None, hr_suppressed_failure = None\<rparr>"

definition hook_failure :: "hook_exit_code \<Rightarrow> rstr \<Rightarrow> hook_result" where
  "hook_failure code diagnostic = \<lparr>hr_exit_code = code, hr_outcome = None, hr_diagnostic = Some diagnostic,
     hr_hook_event = None, hr_suppressed_failure = None\<rparr>"

definition with_hook_event :: "rstr option \<Rightarrow> hook_result \<Rightarrow> hook_result" where
  "with_hook_event e r = r\<lparr>hr_hook_event := e\<rparr>"

definition isolated_success :: "hook_result \<Rightarrow> hook_result" where
  "isolated_success failure = \<lparr>hr_exit_code = ExitSuccess, hr_outcome = None, hr_diagnostic = None,
     hr_hook_event = hr_hook_event failure,
     hr_suppressed_failure = Some (hr_exit_code failure,
       case hr_diagnostic failure of Some d \<Rightarrow> d | None \<Rightarrow> lit ''hook failed without a diagnostic'')\<rparr>"

definition isolate_coexistence_result :: "bool \<Rightarrow> hook_result \<Rightarrow> hook_result" where
  "isolate_coexistence_result original_started r =
     (if hr_exit_code r = ExitSuccess then r
      else if original_started then isolated_success r else r)"

section \<open>Reading the invocation\<close>

datatype os_string = OsText rstr | OsRaw "byte list"

fun os_to_str :: "os_string \<Rightarrow> rstr option" where
  "os_to_str (OsText s) = Some s"
| "os_to_str (OsRaw bs) = None"

text \<open>What standard input delivers, and whether reading it ends with an error instead of its end.\<close>

record hook_stdin =
  in_bytes :: "byte list"
  in_fails :: bool

datatype hook_invocation = Direct "byte list" bool | Coexist "rstr list" "byte list"

definition payload_too_large :: hook_result where
  "payload_too_large = hook_failure ExitInvalidInput (lit ''hook payload exceeds 64 KiB'')"

text \<open>\<^verbatim>\<open>take(limit + 1)\<close> stops before an error that comes later.\<close>

definition bounded_stdin_payload :: "hook_stdin \<Rightarrow> hook_result + byte list" where
  "bounded_stdin_payload i =
     (if in_fails i \<and> length (in_bytes i) < max_provider_payload_bytes + 1
      then Inl (hook_failure ExitInvalidInput (lit ''hook stdin could not be read''))
      else let payload = take (max_provider_payload_bytes + 1) (in_bytes i) in
        if max_provider_payload_bytes < length payload then Inl payload_too_large else Inr payload)"

definition bounded_argv_payload :: "os_string \<Rightarrow> hook_result + byte list" where
  "bounded_argv_payload a =
     rbind (ok_or (hook_failure ExitInvalidInput (lit ''hook argv must be valid UTF-8'')) (os_to_str a)) (\<lambda>payload.
       if max_provider_payload_bytes < byte_len payload then Inl payload_too_large else Inr (utf8_bytes payload))"

definition flag_json_stdin :: rstr where "flag_json_stdin = lit ''--json-stdin''"
definition flag_plugin_hook :: rstr where "flag_plugin_hook = lit ''--plugin-hook''"

definition usage_failure :: hook_result where
  "usage_failure = hook_failure ExitUsage
     (lit ''usage: lili-hook [--plugin-hook] --json-stdin | --json-argv <json>'')"

text \<open>\<open>argv_of\<close> is \<^verbatim>\<open>serde_json::from_str::<Vec<String>>\<close>.\<close>

definition read_coexist :: "(rstr \<Rightarrow> rstr list option) \<Rightarrow> os_string \<Rightarrow> os_string \<Rightarrow> hook_result + hook_invocation" where
  "read_coexist argv_of encoded payload =
     rbind (ok_or (hook_failure ExitInvalidInput (lit ''coexistence argv must be valid UTF-8'')) (os_to_str encoded)) (\<lambda>text.
     rbind (ok_or (hook_failure ExitInvalidInput (lit ''coexistence argv must be a JSON string array'')) (argv_of text)) (\<lambda>argv.
       if argv = [] \<or> hd argv = []
       then Inl (hook_failure ExitInvalidInput (lit ''coexistence argv must contain a command''))
       else rbind (bounded_argv_payload payload) (\<lambda>p. Inr (Coexist argv p))))"

definition read_mode :: "(rstr \<Rightarrow> rstr list option) \<Rightarrow> os_string list \<Rightarrow> hook_stdin \<Rightarrow> hook_result + hook_invocation" where
  "read_mode argv_of args i = (case args of
     [mode] \<Rightarrow>
       if mode = OsText flag_json_stdin
       then rbind (bounded_stdin_payload i) (\<lambda>p. Inr (Direct p False)) else Inl usage_failure
   | [mode, a] \<Rightarrow>
       if mode = OsText flag_json_argv then rbind (bounded_argv_payload a) (\<lambda>p. Inr (Direct p False))
       else if mode = OsText flag_plugin_hook \<and> a = OsText flag_json_stdin
       then rbind (bounded_stdin_payload i) (\<lambda>p. Inr (Direct p True)) else Inl usage_failure
   | [mode, a, b] \<Rightarrow>
       if mode = OsText flag_coexist then read_coexist argv_of a b else Inl usage_failure
   | _ \<Rightarrow> Inl usage_failure)"

definition read_hook_invocation :: "(rstr \<Rightarrow> rstr list option) \<Rightarrow> os_string list \<Rightarrow> hook_stdin
    \<Rightarrow> hook_result + hook_invocation" where
  "read_hook_invocation argv_of args i = (case args of
     flag # integration_id # rest \<Rightarrow>
       if flag = OsText flag_integration_id
       then if integration_id \<noteq> OsText lili_integration_id
         then Inl (hook_failure ExitUsage (lit ''unknown integration identity''))
         else read_mode argv_of rest i
       else read_mode argv_of args i
   | _ \<Rightarrow> read_mode argv_of args i)"

section \<open>The plugin\<close>

text \<open>\<^verbatim>\<open>PLUGIN_DATA\<close> as a path: whether it is absolute, and its file name when that is UTF-8.\<close>

record data_root =
  dr_absolute :: bool
  dr_file_name :: "rstr option"

definition plugin_identity_from_data_root :: "data_root \<Rightarrow> rstr option" where
  "plugin_identity_from_data_root d =
     (if \<not> dr_absolute d then None
      else Option.bind (dr_file_name d) (\<lambda>name.
        Option.bind (str_strip_prefix (lit ''lili-'') name) (\<lambda>marketplace.
          if marketplace = [] \<or> 123 < byte_len marketplace
            \<or> list_ex (\<lambda>b. \<not> is_identifier_byte b) (utf8_bytes marketplace)
          then None else Some (lit ''lili@'' @ marketplace))))"

section \<open>Delivery\<close>

text \<open>
  \<open>he_send\<close> is the peer behind an endpoint, \<open>he_in_time\<close> whether it answered within the deadline;
  \<open>he_database_error\<close> is the text of the error with which opening the database or starting its
  transaction failed, if it did.
\<close>

record 'j hook_env =
  he_sha :: "byte list \<Rightarrow> byte list"
  he_hmac :: "byte list \<Rightarrow> byte list \<Rightarrow> byte list"
  he_codex_json :: "'j codex_json"
  he_argv_of :: "rstr \<Rightarrow> rstr list option"
  he_display :: "normalization_error \<Rightarrow> rstr"
  he_query_text :: "query_error \<Rightarrow> rstr"
  he_unsigned :: "unsigned_message \<Rightarrow> byte list option"
  he_message :: "forwarding_message \<Rightarrow> byte list option"
  he_ack :: "byte list \<Rightarrow> forwarding_ack option"
  he_credentials :: "byte list \<Rightarrow> credential_record option"
  he_engine :: engine
  he_event_text :: "session_event \<Rightarrow> rstr option"
  he_json_ok :: "rstr \<Rightarrow> bool"

record hook_tick =
  ht_now :: nat
  ht_credential_file :: "credential_file option"
  ht_nonce :: "byte list option"
  ht_send :: "platform_endpoint \<Rightarrow> byte list \<Rightarrow> byte list option"
  ht_in_time :: bool
  ht_database_error :: "rstr option"

definition recognized_hook_event :: "'j codex_json \<Rightarrow> byte list \<Rightarrow> rstr option" where
  "recognized_hook_event js payload = Option.bind (cj_value js payload) (\<lambda>v.
     if Option.bind (cj_get js v (lit ''type'')) (cj_as_str js) = Some (lit ''agent-turn-complete'')
     then Some (lit ''agent-turn-complete'')
     else Option.bind (Option.bind (cj_get js v (lit ''hook_event_name'')) (cj_as_str js)) (\<lambda>name.
       if name \<in> fst ` set hook_surfaces then Some name else None))"

text \<open>The record and the signed message, when the desktop has left credentials.\<close>

definition online_message :: "'j hook_env \<Rightarrow> hook_tick \<Rightarrow> session_event
    \<Rightarrow> (credential_record \<times> forwarding_message) option" where
  "online_message he t e =
     Option.bind (result_ok (load_credentials (he_credentials he) (ht_credential_file t))) (\<lambda>rec.
     Option.bind (result_ok (record_credentials rec)) (\<lambda>c.
     map_option (Pair rec)
       (result_ok (sign_for_purpose (ht_nonce t) (he_hmac he) (he_unsigned he) c e (ht_now t) PurposeEvent))))"

definition deliver_online :: "'j hook_env \<Rightarrow> hook_tick \<Rightarrow> session_event \<Rightarrow> bool" where
  "deliver_online he t e = (case online_message he t e of
     None \<Rightarrow> False
   | Some (rec, m) \<Rightarrow> ht_in_time t
       \<and> is_ok (deliver_forwarding_message (he_message he) (he_ack he) (ht_send t) rec m))"

definition database_diagnostic :: "rstr \<Rightarrow> rstr" where
  "database_diagnostic message =
     (if str_contains message (lit ''locked'') then lit ''hook SQLite spool was locked''
      else if str_contains message (lit ''migration'') then lit ''hook SQLite migration was unavailable''
      else lit ''hook SQLite spool was unavailable'')"

definition spool_diagnostic :: "'j hook_env \<Rightarrow> spool_error \<Rightarrow> rstr" where
  "spool_diagnostic he e = (case e of
     SpoolDatabase q \<Rightarrow> database_diagnostic (he_query_text he q)
   | SpoolIo \<Rightarrow> lit ''hook local spool I/O failed''
   | _ \<Rightarrow> lit ''hook event could not be delivered or spooled'')"

text \<open>The checks of \<^verbatim>\<open>enqueue\<close> precede the database; \<open>Inl\<close> is the diagnostic of the error.\<close>

definition hook_enqueue :: "'j hook_env \<Rightarrow> hook_tick \<Rightarrow> session_event \<Rightarrow> database
    \<Rightarrow> rstr + (spool_outcome \<times> database)" where
  "hook_enqueue he t e db =
     (case enqueue (he_engine he) (he_event_text he) (he_json_ok he) store_for_hook e (ht_now t) db of
        Inl err \<Rightarrow> (case (err, ht_database_error t) of
            (SpoolDatabase q, Some message) \<Rightarrow> Inl (database_diagnostic message)
          | _ \<Rightarrow> Inl (spool_diagnostic he err))
      | Inr r \<Rightarrow> (case ht_database_error t of
            Some message \<Rightarrow> Inl (database_diagnostic message)
          | None \<Rightarrow> Inr r))"

definition forward_event :: "'j hook_env \<Rightarrow> hook_tick \<Rightarrow> byte list \<Rightarrow> session_event \<Rightarrow> database
    \<Rightarrow> hook_result \<times> database" where
  "forward_event he t payload e db =
     (if deliver_online he t e then (hook_success HookDelivered, db)
      else (case hook_enqueue he t e db of
        Inr (Stored, db') \<Rightarrow> (hook_success HookSpooled, db')
      | Inr (DroppedByLimit, db') \<Rightarrow> (with_hook_event (recognized_hook_event (he_codex_json he) payload)
          (hook_failure ExitDeliveryFailed (lit ''hook event was dropped by the offline spool limit'')), db')
      | Inl diagnostic \<Rightarrow> (with_hook_event (recognized_hook_event (he_codex_json he) payload)
          (hook_failure ExitDeliveryFailed diagnostic), db)))"

definition marked_event :: "session_event \<Rightarrow> rstr option \<Rightarrow> rstr option \<Rightarrow> session_event option" where
  "marked_event e plugin_id plugin_home = (case plugin_id of
     None \<Rightarrow> Some e
   | Some i \<Rightarrow> (case (case plugin_home of
        Some home \<Rightarrow> mark_plugin_hook_event_with_home e i (Some home)
      | None \<Rightarrow> mark_plugin_hook_event e i) of (e', marked) \<Rightarrow> if marked then Some e' else None))"

text \<open>\<open>None\<close> is a panic of the normalization.\<close>

definition process_payload_with_source :: "'j hook_env \<Rightarrow> hook_tick \<Rightarrow> byte list \<Rightarrow> rstr option \<Rightarrow> rstr option
    \<Rightarrow> database \<Rightarrow> (hook_result \<times> database) option" where
  "process_payload_with_source he t payload plugin_id plugin_home db =
     map_option (\<lambda>r. case r of
         Inl err \<Rightarrow> (with_hook_event (recognized_hook_event (he_codex_json he) payload)
            (hook_failure ExitInvalidInput (he_display he err)), db)
       | Inr e \<Rightarrow> (case marked_event e plugin_id plugin_home of
            None \<Rightarrow> (with_hook_event (recognized_hook_event (he_codex_json he) payload)
              (hook_failure ExitInvalidInput (lit ''plugin invocation requires a supported Codex lifecycle event'')), db)
          | Some e' \<Rightarrow> forward_event he t payload e' db))
       (normalize_hook_json (he_sha he) (he_codex_json he) payload (ht_now t))"

definition process_payload :: "'j hook_env \<Rightarrow> hook_tick \<Rightarrow> byte list \<Rightarrow> database \<Rightarrow> (hook_result \<times> database) option" where
  "process_payload he t payload db = process_payload_with_source he t payload None None db"

section \<open>The program\<close>

text \<open>
  Arguments, environment and standard input of the process; \<open>hi_spawn\<close> says whether a command starts,
  \<open>hi_storage\<close> whether the application directories can be resolved.
\<close>

record hook_input =
  hi_arguments :: "os_string list"
  hi_stdin :: hook_stdin
  hi_plugin_data :: "data_root option"
  hi_plugin_home :: "(bool \<times> rstr option) option"
  hi_storage :: bool
  hi_spawn :: "rstr list \<Rightarrow> bool"

definition application_storage_failure :: hook_result where
  "application_storage_failure = hook_failure ExitDeliveryFailed
     (lit ''Lili application storage could not be resolved'')"

text \<open>The command line that is started for the original notification.\<close>

definition original_command :: "rstr list \<Rightarrow> byte list \<Rightarrow> rstr list option" where
  "original_command argv payload =
     (if argv = [] \<or> hd argv = [] then None else map_option (\<lambda>text. argv @ [text]) (from_utf8 payload))"

definition launch_original_notify :: "(rstr list \<Rightarrow> bool) \<Rightarrow> rstr list \<Rightarrow> byte list \<Rightarrow> rstr list option" where
  "launch_original_notify spawn argv payload = (case original_command argv payload of
     None \<Rightarrow> None
   | Some command \<Rightarrow> if spawn command then Some command else None)"

text \<open>The result, the command started and the database.\<close>

definition run_from_environment :: "'j hook_env \<Rightarrow> hook_tick \<Rightarrow> hook_input \<Rightarrow> database
    \<Rightarrow> (hook_result \<times> rstr list option \<times> database) option" where
  "run_from_environment he t i db =
     (case read_hook_invocation (he_argv_of he) (hi_arguments i) (hi_stdin i) of
        Inl r \<Rightarrow> Some (r, None, db)
      | Inr (Direct payload plugin_hook) \<Rightarrow>
          let plugin_id = Option.bind (hi_plugin_data i) plugin_identity_from_data_root;
              plugin_home = Option.bind (hi_plugin_home i) (\<lambda>(absolute, text). codex_home_identity (he_sha he) absolute text) in
          if plugin_hook \<and> plugin_id = None
          then Some (hook_failure ExitInvalidInput (lit ''plugin invocation identity is unavailable''), None, db)
          else if \<not> hi_storage i then Some (application_storage_failure, None, db)
          else map_option (\<lambda>(r, db'). (r, None, db'))
            (process_payload_with_source he t payload (if plugin_hook then plugin_id else None)
               (if plugin_hook then plugin_home else None) db)
      | Inr (Coexist argv payload) \<Rightarrow>
          let started = launch_original_notify (hi_spawn i) argv payload in
          map_option (\<lambda>(r, db'). (isolate_coexistence_result (started \<noteq> None) r, started, db'))
            (if hi_storage i then process_payload he t payload db else Some (application_storage_failure, db)))"

end
