(* ===== verification/Hook_Properties.thy ===== *)
theory Hook_Properties
  imports Hook_Forwarder Ingestion_Properties
begin

text \<open>
  Properties of \<^verbatim>\<open>lili-hook\<close>: it reads back the command lines that the installation writes, coexistence starts
  the user's own command, and a success means that the event is durable. The last one composes the hook
  with the desktop it talks to: \<open>handle_native_connection\<close> of \<open>Native_Services\<close> is the peer behind the endpoint.
\<close>

section \<open>What the installation makes Codex call\<close>

lemma flags_differ [simp]:
  "flag_integration_id \<noteq> flag_json_argv" "flag_coexist \<noteq> flag_json_argv" "flag_json_stdin \<noteq> flag_integration_id"
  "flag_json_stdin \<noteq> flag_json_argv" "flag_json_argv \<noteq> flag_plugin_hook"
  by (simp_all add: flag_integration_id_def flag_json_argv_def flag_coexist_def flag_json_stdin_def flag_plugin_hook_def lit_def)

text \<open>
  The program reads back what the installation wrote. Called with the \<^verbatim>\<open>notify\<close> command of the plan
  and the payload Codex appends, it finds the payload and, in coexistence, exactly the command that was
  configured before; called as the hooks the plan adds, it finds the payload on standard input.
\<close>

theorem installed_invocations_read_back:
  assumes "\<And>p. previous = Some p \<Longrightarrow> argv_of (argv_to_json env p) = Some p \<and> p \<noteq> [] \<and> hd p \<noteq> []"
    and "byte_len payload \<le> max_provider_payload_bytes" "length (in_bytes i) \<le> max_provider_payload_bytes" "\<not> in_fails i"
  shows "read_hook_invocation argv_of (map OsText (tl (notify_argv env hb previous) @ [payload])) i
      = Inr (case previous of None \<Rightarrow> Direct (utf8_bytes payload) False | Some p \<Rightarrow> Coexist p (utf8_bytes payload))
    \<and> hook_suffix = concat (map (\<lambda>a. 32 # a) [flag_integration_id, lili_integration_id, flag_json_stdin])
    \<and> read_hook_invocation argv_of (map OsText [flag_integration_id, lili_integration_id, flag_json_stdin]) i
      = Inr (Direct (in_bytes i) False)"
proof -
  have "read_hook_invocation argv_of (map OsText (tl (notify_argv env hb previous) @ [payload])) i
      = Inr (case previous of None \<Rightarrow> Direct (utf8_bytes payload) False | Some p \<Rightarrow> Coexist p (utf8_bytes payload))"
    using assms(1,2) by (cases previous) (auto simp: notify_argv_def read_hook_invocation_def read_mode_def
        read_coexist_def bounded_argv_payload_def ok_or_def)
  moreover have "hook_suffix = concat (map (\<lambda>a. 32 # a) [flag_integration_id, lili_integration_id, flag_json_stdin])"
    by (simp add: hook_suffix_def flag_integration_id_def flag_json_stdin_def lit_def)
  moreover have "read_hook_invocation argv_of (map OsText [flag_integration_id, lili_integration_id, flag_json_stdin]) i
      = Inr (Direct (in_bytes i) False)"
    using assms(3,4) by (simp add: read_hook_invocation_def read_mode_def bounded_stdin_payload_def)
  ultimately show ?thesis by blast
qed

text \<open>Every failure comes with a diagnostic, and a success with an outcome.\<close>

definition explained :: "hook_result \<Rightarrow> bool" where
  "explained r = (if hr_exit_code r = ExitSuccess then hr_outcome r \<noteq> None \<and> hr_diagnostic r = None
     else hr_outcome r = None \<and> hr_diagnostic r \<noteq> None)"

lemma explained_simps [simp]:
  "explained (hook_success out)" "explained (with_hook_event e r) = explained r"
  "code \<noteq> ExitSuccess \<Longrightarrow> explained (hook_failure code d)"
  by (simp_all add: explained_def hook_success_def hook_failure_def with_hook_event_def)

lemma forward_event_explained: "explained (fst (forward_event he t payload e db))"
  by (auto simp: forward_event_def split: sum.splits spool_outcome.splits)

text \<open>The event a payload stands for, if it is accepted.\<close>

definition hook_event :: "'j hook_env \<Rightarrow> hook_tick \<Rightarrow> byte list \<Rightarrow> rstr option \<Rightarrow> rstr option \<Rightarrow> session_event option" where
  "hook_event he t payload plugin_id plugin_home =
     (case normalize_hook_json (he_sha he) (he_codex_json he) payload (ht_now t) of
        Some (Inr e) \<Rightarrow> marked_event e plugin_id plugin_home | _ \<Rightarrow> None)"

lemma process_payload_cases:
  assumes "process_payload_with_source he t payload i h db = Some (r, db')"
  obtains (Accepted) e where "hook_event he t payload i h = Some e" "forward_event he t payload e db = (r, db')"
    | (Rejected) ev d where "hook_event he t payload i h = None" "r = with_hook_event ev (hook_failure ExitInvalidInput d)" "db' = db"
proof -
  obtain x where x: "normalize_hook_json (he_sha he) (he_codex_json he) payload (ht_now t) = Some x"
    using assms by (auto simp: process_payload_with_source_def)
  show thesis
  proof (cases x)
    case (Inl err)
    with assms x Rejected show thesis by (auto simp: process_payload_with_source_def hook_event_def)
  next
    case (Inr e)
    with assms x Accepted Rejected show thesis
      by (cases "marked_event e i h") (auto simp: process_payload_with_source_def hook_event_def)
  qed
qed

lemma process_payload_explained:
  assumes "process_payload_with_source he t payload i h db = Some (r, db')"
  shows "explained r"
  using assms
proof (cases rule: process_payload_cases)
  case (Accepted e)
  with forward_event_explained [of he t payload e db] show ?thesis by simp
qed simp

lemma failures_explained:
  assumes "process_payload_with_source he t payload i h db = Some (r, db')" "hr_exit_code r \<noteq> ExitSuccess"
  shows "hr_diagnostic r \<noteq> None"
  using process_payload_explained [OF assms(1)] assms(2) by (simp add: explained_def)

text \<open>
  Coexistence keeps the user's command. Called with a notification for which an own command had been
  configured, the program handles the payload as it would without coexistence, and starts that command with
  its own arguments and the payload. If it started, the program succeeds whatever became of the event, a
  failure being kept only as suppressed; if it did not start, the result is that of handling the event.
\<close>

theorem coexistence_runs_both:
  assumes "argv_of = he_argv_of he" "argv_of (argv_to_json env p) = Some p" "p \<noteq> []" "hd p \<noteq> []"
    and "byte_len payload \<le> max_provider_payload_bytes" "scalar_text payload"
    and "hi_arguments i = map OsText (tl (notify_argv env hb (Some p)) @ [payload])" "hi_storage i"
    and "run_from_environment he t i db = Some (r, started, db')"
  shows "\<exists>r0. process_payload he t (utf8_bytes payload) db = Some (r0, db')
    \<and> (if hi_spawn i (p @ [payload])
       then started = Some (p @ [payload]) \<and> hr_exit_code r = ExitSuccess
         \<and> (if hr_exit_code r0 = ExitSuccess then r = r0
            else hr_suppressed_failure r = Some (hr_exit_code r0, the (hr_diagnostic r0)))
       else started = None \<and> r = r0)"
proof -
  have read: "read_hook_invocation (he_argv_of he) (hi_arguments i) (hi_stdin i) = Inr (Coexist p (utf8_bytes payload))"
    using assms(1-5,7) by (simp add: notify_argv_def read_hook_invocation_def read_mode_def
        read_coexist_def bounded_argv_payload_def ok_or_def)
  have command: "launch_original_notify (hi_spawn i) p (utf8_bytes payload)
      = (if hi_spawn i (p @ [payload]) then Some (p @ [payload]) else None)"
    using assms(3,4,6) by (simp add: launch_original_notify_def original_command_def)
  obtain r0 where r0: "process_payload he t (utf8_bytes payload) db = Some (r0, db')"
    "r = isolate_coexistence_result (launch_original_notify (hi_spawn i) p (utf8_bytes payload) \<noteq> None) r0"
    "started = launch_original_notify (hi_spawn i) p (utf8_bytes payload)"
    using assms(8,9) by (auto simp: run_from_environment_def read Let_def)
  have "hr_exit_code r0 \<noteq> ExitSuccess \<longrightarrow> hr_diagnostic r0 \<noteq> None"
    using r0(1) failures_explained by (auto simp: process_payload_def)
  with r0 command show ?thesis
    by (auto simp: isolate_coexistence_result_def isolated_success_def split: option.splits)
qed

section \<open>What success promises\<close>

text \<open>The bytes the desktop sends back over a connection: a framed acknowledgement, or nothing.\<close>

definition desktop_answer :: "(forwarding_ack \<Rightarrow> byte list option) \<Rightarrow> (forwarding_ack option \<times> 'a) option \<Rightarrow> byte list" where
  "desktop_answer ack_text outcome = (case outcome of
     Some (Some ack, _) \<Rightarrow> (case encode_frame ack_text ack of Inr frame \<Rightarrow> frame | Inl _ \<Rightarrow> [])
   | _ \<Rightarrow> [])"

lemma read_payload_Nil [simp]: "\<exists>e. read_payload [] = Inl e"
  by (simp add: read_payload_def read_exact_def)

text \<open>A message that was delivered to the desktop was acknowledged by it.\<close>

lemma delivered_acknowledged:
  assumes "deliver_forwarding_message enc dec send rec m = Inr ack"
    and "\<And>ep frame. send ep frame = Some (desktop_answer ack_text (handle_native_connection env tk frame now a db))"
  obtains payload frame ack' a' db' where "enc m = Some payload" "encode_frame enc m = Inr frame"
    "handle_native_connection env tk frame now a db = Some (Some ack', a', db')"
    "ingest env tk payload now a db = Some (Inr ack', a', db')"
proof -
  obtain frame stream payload' rest where f: "encode_frame enc m = Inr frame" "send (cr_endpoint rec) frame = Some stream"
    "read_payload stream = Inr (payload', rest)"
    using assms(1) unfolding deliver_forwarding_message_def
    by (auto simp: rbind_Inr_iff ok_or_Inr_iff map_err_Inr_iff split: if_splits)
  obtain payload where p: "enc m = Some payload" using f(1) by (auto simp: encode_frame_def rbind_Inr_iff ok_or_Inr_iff)
  have "stream \<noteq> []" using f(3) read_payload_Nil by (metis Inl_Inr_False)
  with f(2) assms(2) obtain ack' rest' where h: "handle_native_connection env tk frame now a db = Some (Some ack', rest')"
    by (auto simp: desktop_answer_def split: option.splits prod.splits)
  have "payload \<noteq> []"
  proof
    assume "payload = []"
    with f(1) p have "frame = be_bytes 4 0" by (simp add: encode_frame_def ok_or_def)
    then have "read_payload frame = Inl EmptyFrame"
      by (simp add: read_payload_def read_exact_def u32_of_be_bytes)
    with h show False by (auto simp: handle_native_connection_def)
  qed
  with read_encoded_frame [OF f(1) p, of "[]"] have "read_payload frame = Inr (payload, [])" by simp
  with h have "\<exists>a' db'. ingest env tk payload now a db = Some (Inr ack', a', db') \<and> rest' = (a', db')"
    by (auto simp: handle_native_connection_def result_ok_Some_iff)
  with p f(1) h that show thesis by blast
qed

text \<open>A stored event has a row; a new row is the event's own.\<close>

lemma stored_row:
  assumes "enqueue en enc json_ok store_for_hook e at db = Inr (Stored, db')"
  obtains payload row where "enc e = Some payload" "row \<in> set (db_spool db')"
    "row_key row = (ident_str (ev_provider e), ident_str (ev_event_id e))"
    "row \<in> set (db_spool db) \<or> row = new_spool_row e payload (i64_of_u64 at)"
proof -
  obtain payload where p: "enc e = Some payload"
    "store_row en store_for_hook (new_spool_row e payload (i64_of_u64 at)) (i64_of_u64 at) db = Inr (True, db')"
    using assms by (auto simp: enqueue_def rbind_Inr_iff ok_or_Inr_iff map_err_Inr_iff json_document_parse_def Let_def split: if_splits)
  define new where "new = new_spool_row e payload (i64_of_u64 at)"
  obtain found where found: "insert_inbound_spool_if_retained en new (sat_sub_i64 (i64_of_u64 at) (i64_of_u64 spool_hard_max_age_ms)) db
      = (Some found, db')"
    using p(2) by (auto simp: store_row_def store_for_hook_def new_def[symmetric] split: prod.splits)
  then have row: "row_key found = row_key new" "found \<in> set (db_spool db')"
    by (auto simp: insert_inbound_spool_if_retained_def find_row_def find_Some_iff Let_def split: prod.splits if_splits)
  have "set (db_spool db') \<subseteq> insert new (set (db_spool db))"
  proof -
    have filtered: "set (db_spool (insert_row en new x)) \<subseteq> insert new (set (db_spool x))" for x
    proof (cases "find_row (row_key new) x")
      case None
      obtain q where "db_spool (fold (fire_trigger en new) (en_triggers en) (x\<lparr>db_spool := db_spool x @ [new]\<rparr>))
          = filter q (db_spool (x\<lparr>db_spool := db_spool x @ [new]\<rparr>))" using triggers_filter by blast
      with None show ?thesis by (auto simp: insert_row_def)
    qed (auto simp: insert_row_def)
    obtain db1 expired where db1: "delete_expired_pending
        (sat_sub_i64 (i64_of_u64 at) (i64_of_u64 spool_hard_max_age_ms)) db = (db1, expired)" by fastforce
    then have "set (db_spool db1) \<subseteq> set (db_spool db)"
      by (auto simp: delete_expired_pending_def delete_rows_def)
    moreover have "db_spool (if b then increment_spool_metrics e 0 0 db1 else db1) = db_spool db1" for b e
      by (simp add: increment_spool_metrics_def)
    ultimately show ?thesis
      using found filtered [of "if 0 < expired then increment_spool_metrics (int expired) 0 0 db1 else db1"]
      by (auto simp: insert_inbound_spool_if_retained_def Let_def db1)
  qed
  with row p(1) show thesis by (intro that [of payload found]) (auto simp: new_def new_spool_row_def row_key_def)
qed
text \<open>What a success of the hook means for the event it was given.\<close>

lemma hook_success_cases:
  assumes "process_payload_with_source he t payload i h db = Some (r, db')" "hr_exit_code r = ExitSuccess"
  obtains (Delivered) e where "hook_event he t payload i h = Some e" "hr_outcome r = Some HookDelivered"
      "deliver_online he t e" "db' = db"
    | (Spooled) e where "hook_event he t payload i h = Some e" "hr_outcome r = Some HookSpooled"
      "enqueue (he_engine he) (he_event_text he) (he_json_ok he) store_for_hook e (ht_now t) db = Inr (Stored, db')"
proof -
  obtain e where e: "hook_event he t payload i h = Some e" "forward_event he t payload e db = (r, db')"
    using assms by (cases rule: process_payload_cases) (auto simp: with_hook_event_def hook_failure_def)
  show thesis
  proof (cases "deliver_online he t e")
    case True
    with e that(1) show thesis by (auto simp: forward_event_def hook_success_def)
  next
    case False
    with e assms(2) obtain "hook_enqueue he t e db = Inr (Stored, db')" "r = hook_success HookSpooled"
      by (auto simp: forward_event_def hook_failure_def with_hook_event_def split: sum.splits spool_outcome.splits)
    with e(1) that(2) show thesis by (auto simp: hook_enqueue_def hook_success_def split: sum.splits option.splits spool_error.splits)
  qed
qed

text \<open>
  A delivery that succeeds is durable, whichever way the event took: the payload was a valid event, and
  either the running desktop reduced exactly this event and, if that changed the state, has it on disk
  (the hook writes nothing), or the spool holds a row with its identity.
\<close>

lemma delivery_success_durable:
  assumes "process_payload_with_source he t payload i h db = Some (r, db')" "hr_exit_code r = ExitSuccess"
    and "\<And>ep frame. ht_send t ep frame = Some (desktop_answer ack_text (handle_native_connection env tk frame now a db))"
    and "\<And>m bytes. he_message he m = Some bytes \<Longrightarrow> ie_decode env bytes = Some m"
    and "codec_sound (ie_codec env)" "store_load (ie_codec env) True db = Inr old" "na_persistence_store a"
  shows "\<exists>e. hook_event he t payload i h = Some e \<and>
    (if hr_outcome r = Some HookDelivered
     then db' = db \<and> (\<exists>m frame ack a2 db2 r2 out. fm_event m = e \<and> encode_frame (he_message he) m = Inr frame
       \<and> handle_native_connection env tk frame now a db = Some (Some ack, a2, db2)
       \<and> reduce_at (ie_sha env) (ap_reducer (na_state a)) e (it_now tk) = Some (r2, out)
       \<and> (if \<exists>n. out = Applied n then db_holds (ie_codec env) (ap_reducer (na_state a2)) db2
          else ap_reducer (na_state a2) = r2))
     else \<exists>text row. he_event_text he e = Some text \<and> row \<in> set (db_spool db')
       \<and> row_key row = (ident_str (ev_provider e), ident_str (ev_event_id e))
       \<and> (row \<in> set (db_spool db) \<or> row = new_spool_row e text (i64_of_u64 (ht_now t))))"
  using assms(1,2)
proof (cases rule: hook_success_cases)
  case (Spooled e)
  from Spooled(3) obtain body row where "he_event_text he e = Some body" "row \<in> set (db_spool db')"
    "row_key row = (ident_str (ev_provider e), ident_str (ev_event_id e))"
    "row \<in> set (db_spool db) \<or> row = new_spool_row e body (i64_of_u64 (ht_now t))" by (rule stored_row)
  with Spooled(1,2) show ?thesis by auto
next
  case (Delivered e)
  then obtain rec m ack where m: "online_message he t e = Some (rec, m)"
    "deliver_forwarding_message (he_message he) (he_ack he) (ht_send t) rec m = Inr ack"
    by (auto simp: deliver_online_def split: option.splits sum.splits elim!: is_ok.elims)
  then have signed: "fm_event m = e" "fm_purpose m = PurposeEvent"
    by (auto simp: online_message_def result_ok_Some_iff sign_for_purpose_def sign_with_nonce_def bind_eq_Some_conv
        rbind_Inr_iff ok_or_Inr_iff Let_def)
  obtain frame bytes ack' a2 db2 where f: "he_message he m = Some bytes"
    "handle_native_connection env tk frame now a db = Some (Some ack', a2, db2)"
    "ingest env tk bytes now a db = Some (Inr ack', a2, db2)" "encode_frame (he_message he) m = Inr frame"
    using delivered_acknowledged [OF m(2) assms(3)] by metis
  have "ie_decode env bytes = Some m" by (rule assms(4) [OF f(1)])
  then have unique: "m' = m" if "check_message (ie_decode env) (ie_encode env) (ie_hmac env) (na_verifier a) bytes now = Inr m'" for m'
    using that by (auto simp: check_message_def decode_payload_def rbind_Inr_iff ok_or_Inr_iff Let_def split: if_splits)
  have "\<exists>r2 out. reduce_at (ie_sha env) (ap_reducer (na_state a)) e (it_now tk) = Some (r2, out)
       \<and> (if \<exists>n. out = Applied n then db_holds (ie_codec env) (ap_reducer (na_state a2)) db2
          else ap_reducer (na_state a2) = r2)"
    using acknowledged_durable [OF assms(5-7) f(3)] signed unique by (auto split: if_splits)
  with f(2,4) signed(1) have "\<exists>m frame ack a2 db2 r2 out. fm_event m = e \<and> encode_frame (he_message he) m = Inr frame
       \<and> handle_native_connection env tk frame now a db = Some (Some ack, a2, db2)
       \<and> reduce_at (ie_sha env) (ap_reducer (na_state a)) e (it_now tk) = Some (r2, out)
       \<and> (if \<exists>n. out = Applied n then db_holds (ie_codec env) (ap_reducer (na_state a2)) db2
          else ap_reducer (na_state a2) = r2)" by blast
  with Delivered show ?thesis by simp
qed

section \<open>The whole program\<close>

text \<open>The payload the program was called with and, for the plugin's hook, the identities it is marked with.\<close>

definition hook_payload :: "'j hook_env \<Rightarrow> hook_input \<Rightarrow> (byte list \<times> rstr option \<times> rstr option) option" where
  "hook_payload he i = (case read_hook_invocation (he_argv_of he) (hi_arguments i) (hi_stdin i) of
     Inl _ \<Rightarrow> None
   | Inr (Direct payload plugin_hook) \<Rightarrow>
       Some (payload, if plugin_hook then Option.bind (hi_plugin_data i) plugin_identity_from_data_root else None,
         if plugin_hook then Option.bind (hi_plugin_home i)
           (\<lambda>(absolute, text). codex_home_identity (he_sha he) absolute text) else None)
   | Inr (Coexist argv payload) \<Rightarrow> Some (payload, None, None))"

lemma read_mode_failure:
  "read_mode argv_of args i = Inl r \<Longrightarrow> hr_exit_code r \<noteq> ExitSuccess \<and> hr_suppressed_failure r = None"
  by (auto simp: read_mode_def read_coexist_def bounded_stdin_payload_def bounded_argv_payload_def usage_failure_def
      payload_too_large_def hook_failure_def rbind_Inl_iff ok_or_def split: list.splits if_splits option.splits sum.splits)

lemma invocation_failure:
  "read_hook_invocation argv_of args i = Inl r \<Longrightarrow> hr_exit_code r \<noteq> ExitSuccess \<and> hr_suppressed_failure r = None"
  by (auto simp: read_hook_invocation_def hook_failure_def split: list.splits if_splits dest: read_mode_failure)

lemma process_payload_suppresses_nothing:
  assumes "process_payload_with_source he t payload i h db = Some (r, db')"
  shows "hr_suppressed_failure r = None"
  using assms
  by (cases rule: process_payload_cases)
    (auto simp: forward_event_def with_hook_event_def hook_failure_def hook_success_def split: if_splits sum.splits spool_outcome.splits)

text \<open>
  A successful run either handled its payload successfully, or, in coexistence, failed to and isolated
  that failure from the user's command, which was started.
\<close>

lemma program_success_cases:
  assumes "run_from_environment he t i db = Some (r, started, db')" "hr_exit_code r = ExitSuccess"
  obtains (Handled) payload plugin home where "hook_payload he i = Some (payload, plugin, home)"
      "process_payload_with_source he t payload plugin home db = Some (r, db')" "hr_suppressed_failure r = None"
    | (Isolated) r0 where "r = isolated_success r0" "hr_exit_code r0 \<noteq> ExitSuccess" "started \<noteq> None"
proof (cases "read_hook_invocation (he_argv_of he) (hi_arguments i) (hi_stdin i)")
  case (Inl e)
  with assms invocation_failure [OF Inl] show thesis by (simp add: run_from_environment_def)
next
  case (Inr call)
  show thesis
  proof (cases call)
    case (Direct payload plugin_hook)
    with Inr assms Handled [of payload] process_payload_suppresses_nothing show thesis
      by (fastforce simp: run_from_environment_def hook_payload_def Let_def application_storage_failure_def hook_failure_def
          split: if_splits)
  next
    case (Coexist argv payload)
    obtain r0 where r0: "(if hi_storage i then process_payload he t payload db else Some (application_storage_failure, db)) = Some (r0, db')"
      "r = isolate_coexistence_result (started \<noteq> None) r0"
      using assms(1) Inr Coexist by (auto simp: run_from_environment_def Let_def)
    show thesis
    proof (cases "hr_exit_code r0 = ExitSuccess")
      case True
      with r0 have "r = r0" "hi_storage i" "process_payload_with_source he t payload None None db = Some (r, db')"
        by (auto simp: isolate_coexistence_result_def application_storage_failure_def hook_failure_def process_payload_def split: if_splits)
      with process_payload_suppresses_nothing [OF this(3)] Handled [of payload None None] Inr Coexist show thesis
        by (simp add: hook_payload_def)
    next
      case False
      with r0(2) assms(2) Isolated [of r0] show thesis by (auto simp: isolate_coexistence_result_def split: if_splits)
    qed
  qed
qed

text \<open>
  C12. A success of the program is durable, or says that it is not. If a run of \<^verbatim>\<open>lili-hook\<close> succeeds
  and reports no suppressed failure, the payload it was called with was a valid event, and either the
  running desktop reduced exactly this event and, if that changed the state, has it on disk (the program
  writes nothing), or the spool holds a row with the identity of the event: one that was there before, or
  the event's own, from which the store decodes the text that was encoded. The only other success is that
  of coexistence, when the user's own command was started and the failed delivery is kept as suppressed.
\<close>

theorem hook_success_is_durable:
  assumes "run_from_environment he t i db = Some (r, started, db')" "hr_exit_code r = ExitSuccess"
    and "\<And>ep frame. ht_send t ep frame = Some (desktop_answer ack_text (handle_native_connection env tk frame now a db))"
    and "\<And>m bytes. he_message he m = Some bytes \<Longrightarrow> ie_decode env bytes = Some m"
    and "codec_sound (ie_codec env)" "store_load (ie_codec env) True db = Inr old" "na_persistence_store a"
  shows "case hr_suppressed_failure r of
      Some (code, diagnostic) \<Rightarrow> code \<noteq> ExitSuccess \<and> hr_outcome r = None \<and> started \<noteq> None
    | None \<Rightarrow> \<exists>payload plugin home e. hook_payload he i = Some (payload, plugin, home)
        \<and> hook_event he t payload plugin home = Some e
        \<and> (if hr_outcome r = Some HookDelivered
           then db' = db \<and> (\<exists>m frame ack a2 db2 r2 out. fm_event m = e \<and> encode_frame (he_message he) m = Inr frame
             \<and> handle_native_connection env tk frame now a db = Some (Some ack, a2, db2)
             \<and> reduce_at (ie_sha env) (ap_reducer (na_state a)) e (it_now tk) = Some (r2, out)
             \<and> (if \<exists>n. out = Applied n then db_holds (ie_codec env) (ap_reducer (na_state a2)) db2
                else ap_reducer (na_state a2) = r2))
           else \<exists>text row. he_event_text he e = Some text \<and> row \<in> set (db_spool db')
             \<and> row_key row = (ident_str (ev_provider e), ident_str (ev_event_id e))
             \<and> (row \<in> set (db_spool db) \<or> row = new_spool_row e text (i64_of_u64 (ht_now t))))"
  using assms(1,2)
proof (cases rule: program_success_cases)
  case (Handled payload plugin home)
  from delivery_success_durable [OF Handled(2) assms(2-7)] Handled(1,3) show ?thesis by (simp only: option.case) blast
next
  case (Isolated r0)
  then show ?thesis by (simp add: isolated_success_def)
qed

end
