(* ===== verification/Integration_Uninstall.thy ===== *)
theory Integration_Uninstall
  imports Integration_Install
begin

text \<open>
  \<^verbatim>\<open>lili-integration/src/uninstall.rs\<close>: removing what an installation added, guided by its provenance.
  What changed since is left in place and reported as a conflict.
\<close>

datatype uninstall_error = UnNotInstalled | UnInvalidProvenance | UnInvalidConfiguration | UnIo | UnJson
  | UnInstall install_error

datatype file_mutation = MutUnchanged | MutWrite "byte list" | MutRemove

record uninstall_outcome =
  uo_changed :: bool
  uo_complete :: bool
  uo_restored_notify :: bool
  uo_removed_hook_handlers :: nat
  uo_conflicts :: "rstr list"
  uo_provenance :: "pet_path option"

record uninstall_preview =
  up_complete :: bool
  up_restored_notify :: bool
  up_removed_hook_handlers :: nat
  up_conflicts :: "rstr list"

section \<open>Provenance\<close>

definition validate_provenance :: "pet_path \<Rightarrow> provenance \<Rightarrow> uninstall_error + unit" where
  "validate_provenance home v =
     (if pv_schema_version v \<noteq> 1 \<or> pv_integration_id v \<noteq> lili_integration_id \<or> \<not> is_absolute home
        \<or> fp_path (pv_config v) \<noteq> path_join home config_file_name
        \<or> fp_path (pv_hooks v) \<noteq> path_join home hooks_file_name
        \<or> pv_notify_argv v = [] \<or> pv_hook_commands v = []
        \<or> \<not> list_ex has_lili_id (pv_notify_argv v)
        \<or> list_ex (\<lambda>c. \<not> has_lili_id c) (pv_hook_commands v)
      then Inl UnInvalidProvenance else Inr ())"

section \<open>The configuration\<close>

definition notify_conflict :: rstr where
  "notify_conflict = lit ''notify changed after Lili installation and was left unchanged''"

text \<open>The mutation, whether the previous command was restored, whether nothing is left, the conflicts.\<close>

definition plan_config_uninstall :: "'d integration_env \<Rightarrow> provenance \<Rightarrow> byte list option
    \<Rightarrow> uninstall_error + file_mutation \<times> bool \<times> bool \<times> rstr list" where
  "plan_config_uninstall env v contents = (case contents of
     None \<Rightarrow> Inr (MutUnchanged, False, True, [])
   | Some c \<Rightarrow>
       rbind (ok_or UnInvalidConfiguration (from_utf8 c)) (\<lambda>text.
       rbind (ok_or UnInvalidConfiguration (tm_parse (ig_toml env) text)) (\<lambda>doc.
         let current = (case tm_notify (ig_toml env) doc of NotifyArgv a \<Rightarrow> Some a | _ \<Rightarrow> None) in
         if current \<noteq> Some (pv_notify_argv v)
         then Inr (MutUnchanged, False,
           \<not> (case current of None \<Rightarrow> False | Some a \<Rightarrow> list_ex has_lili_id a), [notify_conflict])
         else if fp_created (pv_config v) \<and> pv_previous_notify_argv v = None
           \<and> sha256_hex env c = fp_after_sha (pv_config v)
         then Inr (MutRemove, False, True, [])
         else (case pv_previous_notify_argv v of
             Some previous \<Rightarrow> Inr (MutWrite (utf8_bytes (tm_render (ig_toml env)
               (tm_set_notify (ig_toml env) previous doc))), True, True, [])
           | None \<Rightarrow> Inr (MutWrite (utf8_bytes (tm_render (ig_toml env)
               (tm_remove_notify (ig_toml env) doc))), False, True, [])))))"

section \<open>The hooks\<close>

definition is_lili_handler :: "json \<Rightarrow> bool" where
  "is_lili_handler h \<longleftrightarrow> list_ex (\<lambda>k. case Option.bind (json_get h k) json_as_str of
     None \<Rightarrow> False | Some c \<Rightarrow> has_lili_id c) [lit ''command'', lit ''commandWindows'']"

fun value_contains_marker :: "json \<Rightarrow> bool" where
  "value_contains_marker (JString s) = has_lili_id s"
| "value_contains_marker (JArray vs) = (\<exists>v \<in> set vs. value_contains_marker v)"
| "value_contains_marker (JObject m) = (\<exists>e \<in> set m. has_lili_id (fst e) \<or> value_contains_marker (snd e))"
| "value_contains_marker _ = False"

definition group_removable :: "json \<Rightarrow> bool" where
  "group_removable grp \<longleftrightarrow> \<not> value_contains_marker grp
     \<or> (case json_as_object grp of
          None \<Rightarrow> False
        | Some m \<Rightarrow> list_all (\<lambda>(field, value).
            if field = lit ''hooks''
            then (case json_as_array value of
                None \<Rightarrow> False
              | Some handlers \<Rightarrow> list_all (\<lambda>h. \<not> value_contains_marker h \<or> is_lili_handler h) handlers)
            else \<not> has_lili_id field \<and> \<not> value_contains_marker value) m)"

definition marker_layout_is_removable :: "(rstr \<times> json) list \<Rightarrow> bool" where
  "marker_layout_is_removable hooks = list_all (\<lambda>(event, groups).
     \<not> has_lili_id event
     \<and> (\<not> value_contains_marker groups
        \<or> (case json_as_array groups of None \<Rightarrow> False | Some gs \<Rightarrow> list_all group_removable gs))) hooks"

definition expected_windows_command :: "provenance \<Rightarrow> rstr" where
  "expected_windows_command v = [34] @ replace_char 34 [92, 34] (path_display (pv_hook_binary v)) @ [34]
     @ lit '' --integration-id '' @ lili_integration_id @ lit '' --json-stdin''"

definition matches_hook_provenance :: "provenance \<Rightarrow> json \<Rightarrow> bool" where
  "matches_hook_provenance v h = (case json_as_object h of
     None \<Rightarrow> False
   | Some m \<Rightarrow> length m = 5
       \<and> list_all (\<lambda>k. map_of m k \<noteq> None)
           [lit ''type'', lit ''command'', lit ''commandWindows'', lit ''timeout'', lit ''statusMessage'']
       \<and> (case Option.bind (map_of m (lit ''command'')) json_as_str of
            None \<Rightarrow> False | Some c \<Rightarrow> c \<in> set (pv_hook_commands v))
       \<and> Option.bind (map_of m (lit ''type'')) json_as_str = Some (lit ''command'')
       \<and> Option.bind (map_of m (lit ''commandWindows'')) json_as_str = Some (expected_windows_command v)
       \<and> Option.bind (map_of m (lit ''timeout'')) json_as_u64 \<in> {Some 1, Some 2}
       \<and> Option.bind (map_of m (lit ''statusMessage'')) json_as_str = Some (lit ''Notify Lili''))"

definition hooks_handlers :: "(rstr \<times> json) list \<Rightarrow> json list" where
  "hooks_handlers hooks = group_handlers (json_arrays (map snd hooks))"

text \<open>Removing the handlers from a group, then the groups and the events left empty.\<close>

definition group_hooks :: "json \<Rightarrow> json list option" where
  "group_hooks grp = Option.bind (json_get grp (lit ''hooks'')) json_as_array"

fun strip_group :: "json \<Rightarrow> json" where
  "strip_group (JObject m) = (case Option.bind (map_of m (lit ''hooks'')) json_as_array of
     None \<Rightarrow> JObject m
   | Some handlers \<Rightarrow> JObject (bt_insert (lit ''hooks'') (JArray (filter (\<lambda>h. \<not> is_lili_handler h) handlers)) m))"
| "strip_group v = v"

definition group_kept :: "json \<Rightarrow> bool" where
  "group_kept grp \<longleftrightarrow> group_hooks grp \<noteq> Some []"

fun strip_groups :: "json \<Rightarrow> json" where
  "strip_groups (JArray groups) = JArray (filter group_kept (map strip_group groups))"
| "strip_groups v = v"

definition strip_hooks :: "(rstr \<times> json) list \<Rightarrow> (rstr \<times> json) list" where
  "strip_hooks hooks = filter (\<lambda>e. snd e \<noteq> JArray []) (map (apsnd strip_groups) hooks)"

definition marker_conflict :: rstr where
  "marker_conflict = lit ''Lili hook markers could not be structurally removed''"

definition hooks_changed_conflict :: rstr where
  "hooks_changed_conflict = lit ''Lili hooks changed after installation and were left unchanged''"

text \<open>\<open>lossy\<close> is \<^verbatim>\<open>String::from_utf8_lossy\<close>, whose markers are those of the bytes.\<close>

definition bytes_contain_marker :: "byte list \<Rightarrow> bool" where
  "bytes_contain_marker c = (\<exists>i \<le> length c. take (length lili_integration_id) (drop i c) = utf8_bytes lili_integration_id)"

definition plan_hooks_uninstall :: "'d integration_env \<Rightarrow> provenance \<Rightarrow> byte list option
    \<Rightarrow> uninstall_error + file_mutation \<times> nat \<times> bool \<times> rstr list" where
  "plan_hooks_uninstall env v contents = (case contents of
     None \<Rightarrow> Inr (MutUnchanged, 0, True, [])
   | Some c \<Rightarrow> rbind (ok_or UnInvalidConfiguration (ig_json env c)) (\<lambda>doc.
       case Option.bind (json_get doc (lit ''hooks'')) json_as_object of
         None \<Rightarrow> (let complete = \<not> bytes_contain_marker c in
           Inr (MutUnchanged, 0, complete, if complete then [] else [marker_conflict]))
       | Some hooks \<Rightarrow>
           if \<not> marker_layout_is_removable hooks then Inr (MutUnchanged, 0, False, [marker_conflict])
           else if list_ex (\<lambda>h. is_lili_handler h \<and> \<not> matches_hook_provenance v h) (hooks_handlers hooks)
           then Inr (MutUnchanged, 0, False, [hooks_changed_conflict])
           else
             let removed = length (filter is_lili_handler (hooks_handlers hooks));
                 doc' = (case doc of
                   JObject m \<Rightarrow> JObject (bt_insert (lit ''hooks'') (JObject (strip_hooks hooks)) m)
                 | _ \<Rightarrow> doc) in
             if removed = 0 then Inr (MutUnchanged, 0, True, [])
             else if fp_created (pv_hooks v) \<and> sha256_hex env c = fp_after_sha (pv_hooks v)
             then Inr (MutRemove, removed, True, [])
             else Inr (MutWrite (pretty_file env doc'), removed, True, [])))"

section \<open>Applying\<close>

definition read_required_bounded :: "disk \<Rightarrow> pet_path \<Rightarrow> uninstall_error + byte list" where
  "read_required_bounded d p = (case disk_read d p of
     TargetMissing \<Rightarrow> Inl UnNotInstalled
   | TargetUnreadable \<Rightarrow> Inl UnInvalidProvenance
   | TargetFile c \<Rightarrow> if length c > max_provenance_bytes then Inl UnInvalidProvenance else Inr c)"

definition reject_symbolic_link :: "disk \<Rightarrow> pet_path \<Rightarrow> uninstall_error + unit" where
  "reject_symbolic_link d p = check (\<not> is_symlink d p) UnInvalidConfiguration"

text \<open>What \<^verbatim>\<open>uninstall\<close> and \<^verbatim>\<open>preview_uninstall\<close> find before anything is written.\<close>

record uninstall_plan =
  un_provenance :: "byte list"
  un_config :: "byte list option"
  un_hooks :: "byte list option"
  un_config_mutation :: file_mutation
  un_hooks_mutation :: file_mutation
  un_restored :: bool
  un_removed :: nat
  un_complete :: bool
  un_conflicts :: "rstr list"

definition plan_uninstall :: "'d integration_env \<Rightarrow> disk \<Rightarrow> pet_path \<Rightarrow> uninstall_error + uninstall_plan" where
  "plan_uninstall env d home =
     rbind (read_required_bounded d (provenance_path home)) (\<lambda>original.
     rbind (ok_or UnInvalidProvenance (ig_provenance_from env original)) (\<lambda>v.
     rbind (validate_provenance home v) (\<lambda>_.
     rbind (reject_symbolic_link d (path_join home config_file_name)) (\<lambda>_.
     rbind (reject_symbolic_link d (path_join home hooks_file_name)) (\<lambda>_.
     rbind (read_option UnIo (disk_read d (path_join home config_file_name))) (\<lambda>config.
     rbind (read_option UnIo (disk_read d (path_join home hooks_file_name))) (\<lambda>hooks.
     rbind (plan_config_uninstall env v config) (\<lambda>(config_mutation, restored, config_complete, conflicts1).
     rbind (plan_hooks_uninstall env v hooks) (\<lambda>(hooks_mutation, removed, hooks_complete, conflicts2).
       Inr \<lparr>un_provenance = original, un_config = config, un_hooks = hooks,
            un_config_mutation = config_mutation, un_hooks_mutation = hooks_mutation,
            un_restored = restored, un_removed = removed, un_complete = (config_complete \<and> hooks_complete),
            un_conflicts = conflicts1 @ conflicts2\<rparr>)))))))))"

text \<open>
  The preview reads a file only when it comes to it, so a hooks file that cannot be read is reported
  after the errors of the configuration; otherwise it finds what \<open>plan_uninstall\<close> finds.
\<close>

definition preview_uninstall :: "'d integration_env \<Rightarrow> disk \<Rightarrow> pet_path \<Rightarrow> uninstall_error + uninstall_preview" where
  "preview_uninstall env d home =
     rbind (read_required_bounded d (provenance_path home)) (\<lambda>original.
     rbind (ok_or UnInvalidProvenance (ig_provenance_from env original)) (\<lambda>v.
     rbind (validate_provenance home v) (\<lambda>_.
     rbind (reject_symbolic_link d (path_join home config_file_name)) (\<lambda>_.
     rbind (reject_symbolic_link d (path_join home hooks_file_name)) (\<lambda>_.
     rbind (rbind (read_option UnIo (disk_read d (path_join home config_file_name)))
       (plan_config_uninstall env v)) (\<lambda>(config_mutation, restored, config_complete, conflicts1).
     rbind (rbind (read_option UnIo (disk_read d (path_join home hooks_file_name)))
       (plan_hooks_uninstall env v)) (\<lambda>(hooks_mutation, removed, hooks_complete, conflicts2).
       Inr \<lparr>up_complete = (config_complete \<and> hooks_complete), up_restored_notify = restored,
            up_removed_hook_handlers = removed, up_conflicts = conflicts1 @ conflicts2\<rparr>)))))))"

fun apply_mutation :: "pet_path \<Rightarrow> file_mutation \<Rightarrow> io_state \<Rightarrow> (install_error + unit) \<times> io_state" where
  "apply_mutation p MutUnchanged io = (Inr (), io)"
| "apply_mutation p (MutWrite c) io = atomic_write p c io"
| "apply_mutation p MutRemove io = remove_file p io"

definition apply_uninstall :: "pet_path \<Rightarrow> uninstall_plan \<Rightarrow> io_state \<Rightarrow> (install_error + unit) \<times> io_state" where
  "apply_uninstall home u io =
     io_then (apply_mutation (path_join home config_file_name) (un_config_mutation u) io) (\<lambda>_ io.
     io_then (apply_mutation (path_join home hooks_file_name) (un_hooks_mutation u) io) (\<lambda>_ io.
       if un_complete u then remove_file (provenance_path home) io else (Inr (), io)))"

definition rollback_uninstall :: "pet_path \<Rightarrow> uninstall_plan \<Rightarrow> io_state \<Rightarrow> (install_error + unit) \<times> io_state" where
  "rollback_uninstall home u io =
     io_then (rollback_file (path_join home config_file_name) (un_config u) io) (\<lambda>_ io.
     io_then (rollback_file (path_join home hooks_file_name) (un_hooks u) io) (\<lambda>_ io.
       rollback_file (provenance_path home) (Some (un_provenance u)) io))"

definition uninstall :: "'d integration_env \<Rightarrow> pet_path \<Rightarrow> io_state
    \<Rightarrow> (uninstall_error + uninstall_outcome) \<times> io_state" where
  "uninstall env home io = (case plan_uninstall env (io_disk io) home of
     Inl e \<Rightarrow> (Inl e, io)
   | Inr u \<Rightarrow> (case apply_uninstall home u io of
       (Inl e, io1) \<Rightarrow> (case rollback_uninstall home u io1 of (r, io2) \<Rightarrow>
          (Inl (UnInstall (case r of Inl e' \<Rightarrow> e' | Inr _ \<Rightarrow> e)), io2))
     | (Inr _, io1) \<Rightarrow> (Inr \<lparr>
         uo_changed = (un_config_mutation u \<noteq> MutUnchanged \<or> un_hooks_mutation u \<noteq> MutUnchanged \<or> un_complete u),
         uo_complete = un_complete u, uo_restored_notify = un_restored u,
         uo_removed_hook_handlers = un_removed u, uo_conflicts = un_conflicts u,
         uo_provenance = (if un_complete u then None else Some (provenance_path home))\<rparr>, io1)))"

end
