(* ===== verification/Integration_Properties.thy ===== *)
theory Integration_Properties
  imports Integration_Uninstall
begin

text \<open>
  What installing and removing the Codex integration guarantees: a failed installation restores the
  files, and removing an installation restores the configuration it found.
\<close>

section \<open>Writing operations\<close>

lemma io_then_Inr: "io_then r f = (Inr y, s) \<longleftrightarrow> (\<exists>x s1. r = (Inr x, s1) \<and> f x s1 = (Inr y, s))"
  by (cases r; cases "fst r") (auto simp: io_then_def)

lemma io_then_Inl:
  "io_then r f = (Inl e, s) \<longleftrightarrow> r = (Inl e, s) \<or> (\<exists>x s1. r = (Inr x, s1) \<and> f x s1 = (Inl e, s))"
  by (cases r; cases "fst r") (auto simp: io_then_def)

lemma io_then_pure [simp]:
  "io_then (Inr x, s) f = f x s" "io_then (Inl e, s) f = (Inl e, s)"
  by (simp_all add: io_then_def)

lemma io_effect_disk:
  "io_effect e f io = (res, io') \<Longrightarrow> (io_disk io' = f (io_disk io) \<or> res = Inl e \<and> io_disk io' = io_disk io)
     \<and> (res = Inr () \<longrightarrow> io_disk io' = f (io_disk io)) \<and> (io_outcomes io = [] \<longrightarrow> res = Inr () \<and> io_outcomes io' = [])"
  by (auto simp: io_effect_def split: list.splits io_outcome.splits)

text \<open>An operation on \<open>p\<close> leaves every other path alone.\<close>

definition only_at :: "pet_path set \<Rightarrow> io_state \<Rightarrow> io_state \<Rightarrow> bool" where
  "only_at ps io io' \<longleftrightarrow> (\<forall>q. q \<notin> ps \<longrightarrow> io_disk io' q = io_disk io q)"

lemma only_at_refl [simp]: "only_at ps io io"
  by (simp add: only_at_def)

lemma only_at_trans: "only_at ps io io1 \<Longrightarrow> only_at qs io1 io2 \<Longrightarrow> only_at (ps \<union> qs) io io2"
  by (simp add: only_at_def)

lemma only_at_mono: "only_at ps io io' \<Longrightarrow> ps \<subseteq> qs \<Longrightarrow> only_at qs io io'"
  by (auto simp: only_at_def)

lemma write_only_at:
  "atomic_write p c io = (res, io') \<Longrightarrow> only_at {p} io io'"
  "write_new_private_file p c io = (res1, io') \<Longrightarrow> only_at {p} io io'"
  "remove_file p io = (res2, io') \<Longrightarrow> only_at {p} io io'"
  "rollback_file p original io = (res3, io') \<Longrightarrow> only_at {p} io io'"
  by (auto simp: atomic_write_def write_new_private_file_def remove_file_def rollback_file_def only_at_def
      split: if_splits option.splits dest!: io_effect_disk)

text \<open>What a successful operation leaves.\<close>

lemma write_reads:
  "atomic_write p c io = (Inr u, io') \<Longrightarrow> io_disk io' = (io_disk io)(p \<mapsto> regular_file c)"
  "write_new_private_file p c io = (Inr u1, io') \<Longrightarrow> io_disk io' = (io_disk io)(p \<mapsto> regular_file c) \<and> io_disk io p = None"
  "remove_file p io = (Inr u2, io') \<Longrightarrow> io_disk io' = (io_disk io)(p := None)"
  by (auto simp: atomic_write_def write_new_private_file_def remove_file_def
      split: if_splits dest!: io_effect_disk)

lemma rollback_reads:
  "rollback_file p original io = (Inr u, io') \<Longrightarrow> io_disk io' = (io_disk io)(p := map_option regular_file original)"
  by (cases original) (auto simp: rollback_file_def dest: write_reads)

lemma read_regular [simp]:
  "disk_read (d(p \<mapsto> regular_file c)) q = (if q = p then TargetFile c else disk_read d q)"
  "disk_read (d(p := None)) q = (if q = p then TargetMissing else disk_read d q)"
  "is_symlink (d(p \<mapsto> regular_file c)) q = (if q = p then False else is_symlink d q)"
  by (simp_all add: disk_read_def is_symlink_def regular_file_def)

lemma disk_read_cong: "d p = d' p \<Longrightarrow> disk_read d p = disk_read d' p"
  by (simp add: disk_read_def)

lemma read_option_Inr: "read_option e t = Inr o' \<longleftrightarrow> (case o' of Some c \<Rightarrow> t = TargetFile c | None \<Rightarrow> t = TargetMissing)"
  by (cases t) (auto split: option.splits)

lemma read_expected_Inr:
  "read_expected env d p expected = Inr original \<longleftrightarrow>
     expected = map_option (sha256_hex env) original
     \<and> disk_read d p = (case original of Some c \<Rightarrow> TargetFile c | None \<Rightarrow> TargetMissing)"
  by (auto simp: read_expected_def split: file_target.splits option.splits if_splits)

section \<open>A failed installation\<close>

definition managed_paths :: "install_plan \<Rightarrow> pet_path set" where
  "managed_paths p = {pg_target (ip_config_change p), pg_target (ip_hooks_change p), provenance_path (ip_codex_home p)}"

definition backup_paths :: "install_plan \<Rightarrow> pet_path set" where
  "backup_paths p = set_option (pg_backup (ip_config_change p)) \<union> set_option (pg_backup (ip_hooks_change p))"

lemma create_backup_only_at:
  "create_backup_if_needed c original bs io = (res, io') \<Longrightarrow> only_at (set_option (pg_backup c)) io io'"
  by (auto simp: create_backup_if_needed_def io_then_def split: option.splits prod.splits sum.splits
      dest: write_only_at)

lemma write_rendered_only_at: "write_rendered p contents io = (res, io') \<Longrightarrow> only_at {p} io io'"
  by (auto simp: write_rendered_def split: option.splits dest: write_only_at)

lemma apply_install_only_at:
  assumes "apply_install env verifier p oc oh rc rh previous io = (res, io')"
  shows "only_at (managed_paths p) io io'"
proof -
  obtain r1 io1 where w1: "write_rendered (pg_target (ip_config_change p)) rc io = (r1, io1)" by fastforce
  obtain r2 io2 where w2: "write_rendered (pg_target (ip_hooks_change p)) rh io1 = (r2, io2)" by fastforce
  have o1: "only_at (managed_paths p) io io1"
    using write_rendered_only_at [OF w1] by (rule only_at_mono) (simp add: managed_paths_def)
  moreover have "only_at (managed_paths p) io1 io2"
    using write_rendered_only_at [OF w2] by (rule only_at_mono) (simp add: managed_paths_def)
  ultimately have o2: "only_at (managed_paths p) io io2" using only_at_trans by fastforce
  have o3: "only_at (managed_paths p) io io3"
    if "atomic_write (provenance_path (ip_codex_home p)) c io2 = (r3, io3)" for c r3 io3
    using only_at_trans [OF o2 write_only_at(1) [OF that]] by (rule only_at_mono) (simp add: managed_paths_def)
  from assms w1 w2 o1 o2 o3 show ?thesis
    by (cases r1; cases r2) (auto simp: apply_install_def io_then_def split: sum.splits)
qed

lemma rollback_install_only_at:
  assumes "rollback_install p oc oh op io = (res, io')"
  shows "only_at (managed_paths p) io io'"
proof -
  obtain r1 io1 where w1: "rollback_file (pg_target (ip_config_change p)) oc io = (r1, io1)" by fastforce
  obtain r2 io2 where w2: "rollback_file (pg_target (ip_hooks_change p)) oh io1 = (r2, io2)" by fastforce
  obtain r3 io3 where w3: "rollback_file (provenance_path (ip_codex_home p)) op io2 = (r3, io3)" by fastforce
  have o1: "only_at (managed_paths p) io io1"
    using write_only_at(4) [OF w1] by (rule only_at_mono) (simp add: managed_paths_def)
  have "only_at (managed_paths p) io1 io2"
    using write_only_at(4) [OF w2] by (rule only_at_mono) (simp add: managed_paths_def)
  with o1 have o2: "only_at (managed_paths p) io io2" using only_at_trans by fastforce
  have "only_at (managed_paths p) io2 io3"
    using write_only_at(4) [OF w3] by (rule only_at_mono) (simp add: managed_paths_def)
  with o2 have o3: "only_at (managed_paths p) io io3" using only_at_trans by fastforce
  from assms w1 w2 w3 o1 o2 o3 show ?thesis by (cases r1; cases r2) (simp_all add: rollback_install_def)
qed

lemma rollback_install_restores:
  assumes "rollback_install p oc oh op io = (Inr u, io')"
  shows "io_disk io' = (io_disk io)(pg_target (ip_config_change p) := map_option regular_file oc,
    pg_target (ip_hooks_change p) := map_option regular_file oh,
    provenance_path (ip_codex_home p) := map_option regular_file op)"
proof -
  obtain u1 io1 u2 io2 where w: "rollback_file (pg_target (ip_config_change p)) oc io = (Inr u1, io1)"
    "rollback_file (pg_target (ip_hooks_change p)) oh io1 = (Inr u2, io2)"
    "rollback_file (provenance_path (ip_codex_home p)) op io2 = (Inr u, io')"
    using assms by (auto simp: rollback_install_def io_then_Inr)
  show ?thesis
    using rollback_reads [OF w(1)] rollback_reads [OF w(2)] rollback_reads [OF w(3)] by simp
qed

text \<open>Reading a file back after its node was restored from what was read.\<close>

definition same_file :: "disk \<Rightarrow> disk \<Rightarrow> pet_path \<Rightarrow> bool" where
  "same_file d d' p \<longleftrightarrow> disk_read d' p = disk_read d p"

lemma target_paths_differ [simp]:
  "config_file_name \<noteq> hooks_file_name" "hooks_file_name \<noteq> config_file_name"
  "path_join home config_file_name \<noteq> provenance_path home" "path_join home hooks_file_name \<noteq> provenance_path home"
  "provenance_path home \<noteq> path_join home config_file_name" "provenance_path home \<noteq> path_join home hooks_file_name"
  by (simp_all add: config_file_name_def hooks_file_name_def lit_def provenance_path_def path_join_def)

lemma restored_reads:
  "disk_read (d(p := map_option regular_file original)) p
     = (case original of Some c \<Rightarrow> TargetFile c | None \<Rightarrow> TargetMissing)"
  by (cases original) (simp_all add: disk_read_def regular_file_def)

text \<open>The checks that precede every write, and what they establish.\<close>

definition install_checked :: "'d integration_env \<Rightarrow> install_plan \<Rightarrow> disk \<Rightarrow> byte list option \<Rightarrow> byte list option
    \<Rightarrow> byte list option \<Rightarrow> byte list option \<Rightarrow> byte list option \<Rightarrow> bool" where
  "install_checked env p d oc oh rc rh op \<longleftrightarrow> validate_plan env p = Inr ()
     \<and> read_expected env d (pg_target (ip_config_change p)) (pg_expected_sha (ip_config_change p)) = Inr oc
     \<and> read_expected env d (pg_target (ip_hooks_change p)) (pg_expected_sha (ip_hooks_change p)) = Inr oh
     \<and> validate_current_plan env d p = Inr ()
     \<and> render_config env p oc = Inr rc \<and> render_hooks env p oh = Inr rh
     \<and> read_option InstIo (disk_read d (provenance_path (ip_codex_home p))) = Inr op"

definition previous_provenance :: "'d integration_env \<Rightarrow> byte list option \<Rightarrow> provenance option" where
  "previous_provenance env op = Option.bind (Option.bind op (ig_provenance_from env))
     (\<lambda>v. if pv_integration_id v = lili_integration_id then Some v else None)"

definition install_writes :: "'d integration_env \<Rightarrow> (rstr list \<Rightarrow> install_error + unit) \<Rightarrow> install_plan
    \<Rightarrow> byte list option \<Rightarrow> byte list option \<Rightarrow> byte list option \<Rightarrow> byte list option \<Rightarrow> byte list option
    \<Rightarrow> io_state \<Rightarrow> (install_error + install_outcome) \<times> io_state" where
  "install_writes env verifier p oc oh rc rh op io =
     io_then (create_backup_if_needed (ip_config_change p) oc [] io) (\<lambda>backups io.
     io_then (create_backup_if_needed (ip_hooks_change p) oh backups io) (\<lambda>backups io.
        case apply_install env verifier p oc oh rc rh (previous_provenance env op) io of
          (Inr _, io) \<Rightarrow> (Inr \<lparr>io_changed = (rc \<noteq> None \<or> rh \<noteq> None),
             io_backups = backups, io_provenance = provenance_path (ip_codex_home p)\<rparr>, io)
        | (Inl e, io) \<Rightarrow> io_then (rollback_install p oc oh op io) (\<lambda>_ io. (Inl e, io))))"

lemma io_then_pair:
  "io_then (r, io) f = (res, io') \<longleftrightarrow> (\<exists>e. r = Inl e \<and> res = Inl e \<and> io' = io) \<or> (\<exists>x. r = Inr x \<and> f x io = (res, io'))"
  by (cases r) (auto simp: io_then_def)

lemma install_split:
  assumes "install_with_verifier env verifier p io = (res, io')"
  shows "(\<exists>e. res = Inl e \<and> io' = io)
    \<or> (\<exists>oc oh rc rh op. install_checked env p (io_disk io) oc oh rc rh op
        \<and> install_writes env verifier p oc oh rc rh op io = (res, io'))"
  using assms
  unfolding install_with_verifier_def Let_def io_then_pair install_checked_def install_writes_def
    previous_provenance_def
  by (elim disjE exE conjE) auto

text \<open>A plan that matches the inspection names backups of its own.\<close>

lemma current_plan:
  assumes "validate_current_plan env d p = Inr ()"
  obtains timestamp where "p = build_plan env (inspect_with_version env d (ip_codex_home p) (ip_codex_version p))
    (ip_hook_binary p) timestamp (ip_mode p)" "plan_timestamp env p = Inr timestamp"
proof -
  from assms obtain x where x: "plan_timestamp env p = Inr x"
    "build_plan env (inspect_with_version env d (ip_codex_home p) (ip_codex_version p)) (ip_hook_binary p) x (ip_mode p) = p"
    unfolding validate_current_plan_def Let_def rbind_Inr_iff check_Inr_iff by blast
  show thesis by (rule that [OF x(2) [symmetric] x(1)])
qed

lemma inspect_frame [simp]:
  "ii_codex_home (inspect_with_version env d home version) = home"
  "ii_codex_version (inspect_with_version env d home version) = version"
  "ii_config (inspect_with_version env d home version) = fst (read_toml env d (path_join home config_file_name))"
  "ii_hooks (inspect_with_version env d home version) = fst (read_json env d (path_join home hooks_file_name))"
  by (simp_all add: inspect_with_version_def inspect_with_evidence_def Let_def case_prod_beta)

lemma read_frame [simp]:
  "fi_path (fst (read_toml env d q)) = q" "fi_path (fst (read_json env d q)) = q"
proof -
  have b: "fi_path (fst (read_bounded env d q)) = q"
    by (simp add: read_bounded_def Let_def split: file_target.split option.split)
  then show "fi_path (fst (read_toml env d q)) = q" "fi_path (fst (read_json env d q)) = q"
    by (cases "read_bounded env d q"; auto simp: read_toml_def read_json_def split: option.split)+
qed

lemma build_plan_changes:
  "\<exists>a. ip_config_change (build_plan env i hb ts m) = planned_file_change (ii_config i) a ts"
  "\<exists>a. ip_hooks_change (build_plan env i hb ts m) = planned_file_change (ii_hooks i) a ts"
  by (auto simp: build_plan_def Let_def split: prod.split)

lemma backup_name_differs [simp]:
  "backup_name config_file_name ts \<noteq> config_file_name" "backup_name config_file_name ts \<noteq> hooks_file_name"
  "backup_name hooks_file_name ts \<noteq> config_file_name" "backup_name hooks_file_name ts \<noteq> hooks_file_name"
  "backup_name config_file_name ts \<noteq> backup_name hooks_file_name ts"
  by (simp_all add: backup_name_def config_file_name_def hooks_file_name_def lit_def)

lemma not_provenance [simp]: "path_join home name \<noteq> provenance_path home" "provenance_path home \<noteq> path_join home name"
  by (simp_all add: provenance_path_def path_join_def)

lemma change_paths:
  assumes "validate_current_plan env d p = Inr ()"
  shows "pg_target (ip_config_change p) = path_join (ip_codex_home p) config_file_name"
    "pg_target (ip_hooks_change p) = path_join (ip_codex_home p) hooks_file_name"
    "\<exists>ts. set_option (pg_backup (ip_config_change p)) \<subseteq> {path_join (ip_codex_home p) (backup_name config_file_name ts)}
      \<and> set_option (pg_backup (ip_hooks_change p)) \<subseteq> {path_join (ip_codex_home p) (backup_name hooks_file_name ts)}"
proof -
  obtain ts where p: "p = build_plan env (inspect_with_version env d (ip_codex_home p) (ip_codex_version p))
    (ip_hook_binary p) ts (ip_mode p)" using assms by (rule current_plan)
  obtain a b where "ip_config_change p = planned_file_change (fst (read_toml env d (path_join (ip_codex_home p) config_file_name))) a ts"
    "ip_hooks_change p = planned_file_change (fst (read_json env d (path_join (ip_codex_home p) hooks_file_name))) b ts"
    using build_plan_changes [of env "inspect_with_version env d (ip_codex_home p) (ip_codex_version p)" "ip_hook_binary p" ts "ip_mode p"]
    by (subst (asm) (1 2) p [symmetric]) auto
  then show "pg_target (ip_config_change p) = path_join (ip_codex_home p) config_file_name"
    "pg_target (ip_hooks_change p) = path_join (ip_codex_home p) hooks_file_name"
    "\<exists>ts. set_option (pg_backup (ip_config_change p)) \<subseteq> {path_join (ip_codex_home p) (backup_name config_file_name ts)}
      \<and> set_option (pg_backup (ip_hooks_change p)) \<subseteq> {path_join (ip_codex_home p) (backup_name hooks_file_name ts)}"
    by (auto simp: planned_file_change_def) (auto simp: path_join_def)
qed

lemma backups_apart:
  assumes "validate_current_plan env d p = Inr ()"
  shows "managed_paths p \<inter> backup_paths p = {}"
  using change_paths [OF assms] by (auto simp: managed_paths_def backup_paths_def) (metis backup_name_differs path_join_simps(1))+

section \<open>When a roll-back fails\<close>

text \<open>
  Every writing operation takes the next outcome at most, so what a run leaves of the outcomes are outcomes
  of the input, and a roll-back, which writes three files, fails only if one of the next three outcomes does.
\<close>

lemma write_outcomes:
  "atomic_write p c io = (r, io') \<Longrightarrow> set (io_outcomes io') \<subseteq> set (io_outcomes io)"
  "write_new_private_file p c io = (r, io') \<Longrightarrow> set (io_outcomes io') \<subseteq> set (io_outcomes io)"
  by (auto simp: atomic_write_def write_new_private_file_def io_effect_def split: if_splits list.splits io_outcome.splits)

lemma backup_outcomes:
  "create_backup_if_needed c original bs io = (r, io') \<Longrightarrow> set (io_outcomes io') \<subseteq> set (io_outcomes io)"
  by (auto simp: create_backup_if_needed_def io_then_def split: option.splits prod.splits sum.splits
      dest: write_outcomes(2) [THEN subsetD])

lemma then_outcomes:
  assumes "io_then w f = (res, io')" "set (io_outcomes (snd w)) \<subseteq> A" "\<And>x s. set (io_outcomes s) \<subseteq> A \<Longrightarrow> f x s = (res, io')
    \<Longrightarrow> set (io_outcomes io') \<subseteq> A"
  shows "set (io_outcomes io') \<subseteq> A"
  using assms by (cases w; cases "fst w") (auto simp: io_then_def)

lemma apply_outcomes:
  assumes "apply_install env verifier p oc oh rc rh previous io = (r, io')"
  shows "set (io_outcomes io') \<subseteq> set (io_outcomes io)"
proof -
  have w: "set (io_outcomes (snd (write_rendered q c s))) \<subseteq> A" if "set (io_outcomes s) \<subseteq> A" for q c s and A :: "io_outcome set"
    using that write_outcomes(1) by (cases c) (auto simp: write_rendered_def, metis prod.collapse subsetD)
  show ?thesis
    using assms unfolding apply_install_def
    by (elim then_outcomes) (simp_all add: w write_outcomes(1) [THEN subset_trans])
qed

lemma rollback_file_outcomes:
  assumes "rollback_file p c io = (r, io')" "path_has_parent p"
  shows "(isl r \<longrightarrow> (\<exists>o1 os. io_outcomes io = o1 # os \<and> o1 \<noteq> IoOk))
    \<and> (\<exists>n \<le> 1. io_outcomes io' = drop n (io_outcomes io))"
proof (cases "io_outcomes io")
  case Nil
  with assms show ?thesis
    by (auto simp: rollback_file_def atomic_write_def remove_file_def io_effect_def split: option.splits if_splits)
next
  case (Cons o1 os)
  have "(r, io') = (Inr (), io) \<or> io_outcomes io' = os \<and> (isl r \<longrightarrow> o1 \<noteq> IoOk)"
    using assms Cons
    by (auto simp: rollback_file_def atomic_write_def remove_file_def io_effect_def split: option.splits if_splits io_outcome.splits)
  with Cons show ?thesis by (auto intro: exI [of _ 0] exI [of _ 1])
qed

lemma rollback_fails:
  assumes "rollback_install p oc oh op io = (Inl e, io')"
    and "path_has_parent (pg_target (ip_config_change p))" "path_has_parent (pg_target (ip_hooks_change p))"
  shows "\<exists>f \<in> set (take 3 (io_outcomes io)). f \<noteq> IoOk"
proof -
  have parent: "path_has_parent (provenance_path (ip_codex_home p))"
    by (simp add: provenance_path_def path_has_parent_def path_join_def)
  obtain r1 io1 where w1: "rollback_file (pg_target (ip_config_change p)) oc io = (r1, io1)" by fastforce
  obtain r2 io2 where w2: "rollback_file (pg_target (ip_hooks_change p)) oh io1 = (r2, io2)" by fastforce
  obtain r3 io3 where w3: "rollback_file (provenance_path (ip_codex_home p)) op io2 = (r3, io3)" by fastforce
  note o1 = rollback_file_outcomes [OF w1 assms(2)]
    and o2 = rollback_file_outcomes [OF w2 assms(3)] and o3 = rollback_file_outcomes [OF w3 parent]
  have head: ?thesis if d: "drop n (io_outcomes io) = f # os" and "f \<noteq> IoOk" "n < 3" for n f os
  proof -
    have "n < length (io_outcomes io)" using d by (metis drop_eq_Nil leI list.distinct(1))
    moreover have "io_outcomes io ! n = f" using d by (rule nth_via_drop)
    ultimately have "f \<in> set (take 3 (io_outcomes io))" using \<open>n < 3\<close> by (auto simp: in_set_conv_nth)
    with \<open>f \<noteq> IoOk\<close> show ?thesis by blast
  qed
  obtain n1 where n1: "n1 \<le> 1" "io_outcomes io1 = drop n1 (io_outcomes io)" using o1 by blast
  obtain n2 where n2: "n2 \<le> 1" "io_outcomes io2 = drop (n2 + n1) (io_outcomes io)"
    using o2 n1(2) by (auto simp: drop_drop)
  have "isl r1 \<or> isl r2 \<or> isl r3"
    using assms(1) w1 w2 w3 by (cases r1; cases r2) (auto simp: rollback_install_def io_then_def)
  then consider (1) "isl r1" | (2) "isl r2" | (3) "isl r3" by blast
  then show ?thesis
  proof cases
    case 1
    with o1 head [of 0] show ?thesis by auto
  next
    case 2
    with o2 n1 head [of n1] show ?thesis by auto
  next
    case 3
    with o3 n1(1) n2 head [of "n2 + n1"] show ?thesis by auto
  qed
qed

text \<open>
  The installation \<open>p\<close> got past its checks and its backups, applying it failed, and rolling back from there failed
  with \<open>e\<close> because one of the (at most three) file operations of the roll-back did.
\<close>

definition rollback_failed :: "'d integration_env \<Rightarrow> (rstr list \<Rightarrow> install_error + unit) \<Rightarrow> install_plan \<Rightarrow> io_state
    \<Rightarrow> install_error \<Rightarrow> io_state \<Rightarrow> bool" where
  "rollback_failed env verifier p io e io' \<longleftrightarrow> (\<exists>oc oh rc rh op bs1 io1 bs2 io2 cause io3.
     install_checked env p (io_disk io) oc oh rc rh op
   \<and> create_backup_if_needed (ip_config_change p) oc [] io = (Inr bs1, io1)
   \<and> create_backup_if_needed (ip_hooks_change p) oh bs1 io1 = (Inr bs2, io2)
   \<and> apply_install env verifier p oc oh rc rh (previous_provenance env op) io2 = (Inl cause, io3)
   \<and> rollback_install p oc oh op io3 = (Inl e, io')
   \<and> (\<exists>f \<in> set (take 3 (io_outcomes io3)). f \<noteq> IoOk))"

lemma rollback_failed_outcome: "rollback_failed env verifier p io e io' \<Longrightarrow> \<exists>f \<in> set (io_outcomes io). f \<noteq> IoOk"
  unfolding rollback_failed_def
  by (blast dest: in_set_takeD subsetD [OF backup_outcomes] subsetD [OF apply_outcomes])

lemma failed_install_cases:
  assumes "install_with_verifier env verifier p io = (res, io')"
  shows "only_at (managed_paths p \<union> backup_paths p) io io'
    \<and> (case res of
        Inr out \<Rightarrow> set (io_backups out) \<subseteq> backup_paths p
      | Inl e \<Rightarrow> (\<forall>q \<in> managed_paths p. disk_read (io_disk io') q = disk_read (io_disk io) q)
          \<or> rollback_failed env verifier p io e io')"
  using install_split [OF assms]
proof (elim disjE exE conjE)
  fix e
  assume "res = Inl e" "io' = io"
  then show ?thesis by simp
next
  fix oc oh rc rh op
  assume ok: "install_checked env p (io_disk io) oc oh rc rh op"
    and run: "install_writes env verifier p oc oh rc rh op io = (res, io')"
  from ok have current: "validate_current_plan env (io_disk io) p = Inr ()" by (simp add: install_checked_def)
  note paths = change_paths(1,2) [OF current]
  obtain r1 io1 where b1: "create_backup_if_needed (ip_config_change p) oc [] io = (r1, io1)" by fastforce
  note o1 = create_backup_only_at [OF b1]
  have none: "\<forall>q \<in> managed_paths p. disk_read (io_disk s) q = disk_read (io_disk io) q" if "only_at (backup_paths p) io s" for s
    using that backups_apart [OF current] by (auto simp: only_at_def intro!: disk_read_cong)
  have b_o1: "only_at (backup_paths p) io io1" using o1 by (rule only_at_mono) (simp add: backup_paths_def)
  show ?thesis
  proof (cases r1)
    case (Inl e)
    with run b1 have "res = Inl e" "io' = io1" by (simp_all add: install_writes_def)
    with none [OF b_o1] only_at_mono [OF b_o1] show ?thesis by simp
  next
    case (Inr bs1)
    obtain r2 io2 where b2: "create_backup_if_needed (ip_hooks_change p) oh bs1 io1 = (r2, io2)" by fastforce
    have "only_at (backup_paths p) io io2"
      using only_at_trans [OF o1 create_backup_only_at [OF b2]] by (rule only_at_mono) (simp add: backup_paths_def)
    note b_o2 = this
    show ?thesis
    proof (cases r2)
      case (Inl e)
      with run b1 b2 Inr have "res = Inl e" "io' = io2" by (simp_all add: install_writes_def)
      with none [OF b_o2] only_at_mono [OF b_o2] show ?thesis by simp
    next
      case (Inr bs2)
      obtain r3 io3 where a: "apply_install env verifier p oc oh rc rh (previous_provenance env op) io2 = (r3, io3)" by fastforce
      have o3: "only_at (managed_paths p \<union> backup_paths p) io io3"
        using only_at_trans [OF b_o2 apply_install_only_at [OF a]] by (rule only_at_mono) auto
      show ?thesis
      proof (cases r3)
        case finished: (Inr u)
        have "set bs2 \<subseteq> backup_paths p"
          using b1 b2 \<open>r1 = Inr bs1\<close> \<open>r2 = Inr bs2\<close>
          by (auto simp: create_backup_if_needed_def backup_paths_def io_then_Inr split: option.splits)
        with run b1 b2 a finished \<open>r1 = Inr bs1\<close> \<open>r2 = Inr bs2\<close> o3 show ?thesis by (auto simp: install_writes_def)
      next
        case (Inl e)
        obtain r4 io4 where rb: "rollback_install p oc oh op io3 = (r4, io4)" by fastforce
        from run b1 b2 a Inl rb \<open>r1 = Inr bs1\<close> \<open>r2 = Inr bs2\<close>
        have res: "res = Inl (case r4 of Inl e' \<Rightarrow> e' | Inr _ \<Rightarrow> e)" "io' = io4"
          by (cases r4; simp add: install_writes_def)+
        have o4: "only_at (managed_paths p \<union> backup_paths p) io io4"
          using only_at_trans [OF o3 rollback_install_only_at [OF rb]] by (rule only_at_mono) auto
        show ?thesis
        proof (cases r4)
          case (Inl e')
          have "\<exists>f \<in> set (take 3 (io_outcomes io3)). f \<noteq> IoOk"
            by (rule rollback_fails [OF rb [unfolded Inl]]) (simp_all add: paths)
          with ok b1 b2 a rb Inl \<open>r1 = Inr bs1\<close> \<open>r2 = Inr bs2\<close> \<open>r3 = Inl e\<close>
          have "rollback_failed env verifier p io e' io4" unfolding rollback_failed_def by blast
          with res o4 Inl show ?thesis by simp
        next
          case (Inr u)
          have "disk_read (io_disk io4) q = disk_read (io_disk io) q" if "q \<in> managed_paths p" for q
            using rollback_install_restores [OF rb [unfolded Inr]] ok that
            by (auto simp: managed_paths_def paths install_checked_def read_expected_Inr read_option_Inr
                disk_read_def regular_file_def split: option.splits)
          with res o4 Inr show ?thesis by simp
        qed
      qed
    qed
  qed
qed

text \<open>
  C19. A failed installation leaves the configuration as it was. Whatever step fails, the configuration
  file, the hooks file and the provenance read afterwards as before, unless rolling this very
  installation back failed, which takes a failing file operation of the roll-back; so they always do when
  the disk does not fail. And no installation, failed or not, changes any other file, apart from creating
  the backups the plan names.
\<close>

theorem failed_install_rolls_back:
  assumes "install_with_verifier env verifier p io = (res, io')"
  shows "only_at (managed_paths p \<union> backup_paths p) io io'
    \<and> (case res of
        Inr out \<Rightarrow> set (io_backups out) \<subseteq> backup_paths p
      | Inl e \<Rightarrow> ((\<forall>q \<in> managed_paths p. disk_read (io_disk io') q = disk_read (io_disk io) q)
            \<or> rollback_failed env verifier p io e io')
          \<and> (set (io_outcomes io) \<subseteq> {IoOk}
            \<longrightarrow> (\<forall>q \<in> managed_paths p. disk_read (io_disk io') q = disk_read (io_disk io) q)))"
  using failed_install_cases [OF assms] rollback_failed_outcome [of env verifier p io _ io']
  by (auto split: sum.splits)

end
