(* ===== verification/Integration_Hooks.thy ===== *)
theory Integration_Hooks
  imports Integration_Properties
begin

text \<open>
  The hooks file with and without Lili: adding the planned groups marks only what was added, keeps every
  other group, counts one handler per group, and stripping the handlers gives the document back.
\<close>

section \<open>Ordered maps\<close>

lemma bt_ext:
  assumes "bt_wf m" "bt_wf m'" "map_of m = map_of m'"
  shows "m = m'"
proof (rule map_sorted_distinct_set_unique [of fst])
  have "set m = set m'"
  proof -
    have "e \<in> set m \<longleftrightarrow> e \<in> set m'" for e
      using map_of_bt_wf [OF assms(1), of "fst e" "snd e"] map_of_bt_wf [OF assms(2), of "fst e" "snd e"] assms(3) by simp
    then show ?thesis by blast
  qed
  then show "set m = set m'" .
  show "inj_on fst (set m \<union> set m')"
    using \<open>set m = set m'\<close> bt_wf_distinct [OF assms(1)] by (auto simp: distinct_map)
  show "sorted (map fst m)" "distinct (map fst m)" "sorted (map fst m')" "distinct (map fst m')"
    using assms(1,2) by (auto simp: bt_wf_def strict_sorted_iff)
qed

lemma sum_bt_insert:
  fixes f :: "'k::linorder \<times> 'v \<Rightarrow> nat"
  assumes "bt_wf m"
  shows "sum_list (map f (bt_insert k v m)) + (case map_of m k of None \<Rightarrow> 0 | Some w \<Rightarrow> f (k, w))
     = f (k, v) + sum_list (map f m)"
  using assms
proof (induction k v m rule: bt_insert.induct)
  case (2 k v k' v' m)
  then have "k < k' \<Longrightarrow> map_of m k = None"
    by (auto simp: bt_wf_Cons map_of_eq_None_iff)
  with 2 show ?case by (auto simp: bt_wf_Cons)
qed simp

section \<open>Hooks with and without Lili\<close>

lemma strip_hooks_wf [simp]: "bt_wf m \<Longrightarrow> bt_wf (strip_hooks m)"
proof -
  assume "bt_wf m"
  then have "bt_wf (map (apsnd strip_groups) m)" by (simp add: bt_wf_def comp_def)
  then show ?thesis by (simp add: strip_hooks_def)
qed

lemma map_of_strip_hooks:
  assumes "bt_wf m"
  shows "map_of (strip_hooks m) k = (case map_of m k of None \<Rightarrow> None
     | Some v \<Rightarrow> if strip_groups v = JArray [] then None else Some (strip_groups v))"
proof -
  have "(k, v) \<in> set (strip_hooks m) \<longleftrightarrow> (\<exists>w. (k, w) \<in> set m \<and> v = strip_groups w \<and> v \<noteq> JArray [])" for v
    by (force simp: strip_hooks_def image_iff)
  then have iff: "map_of (strip_hooks m) k = Some v \<longleftrightarrow> (\<exists>w. map_of m k = Some w \<and> v = strip_groups w \<and> v \<noteq> JArray [])" for v
    using map_of_bt_wf [OF strip_hooks_wf [OF assms]] map_of_bt_wf [OF assms] by simp
  show ?thesis
  proof (cases "map_of (strip_hooks m) k")
    case None
    then show ?thesis using iff [of "strip_groups (the (map_of m k))"] by (auto split: option.splits)
  next
    case (Some a)
    then show ?thesis using iff [of a] by auto
  qed
qed

lemma hook_group_parts:
  "hook_group a = JObject [(lit ''hooks'', JArray [json_object
     [(lit ''type'', JString (ph_handler_type a)), (lit ''command'', JString (ph_command a)),
      (lit ''commandWindows'', JString (ph_command_windows a)), (lit ''timeout'', JPosInt (ph_timeout_seconds a)),
      (lit ''statusMessage'', JString (lit ''Notify Lili''))]])]"
  by (simp add: hook_group_def json_object_def)

definition hook_handler :: "planned_hook \<Rightarrow> json" where
  "hook_handler a = json_object
     [(lit ''type'', JString (ph_handler_type a)), (lit ''command'', JString (ph_command a)),
      (lit ''commandWindows'', JString (ph_command_windows a)), (lit ''timeout'', JPosInt (ph_timeout_seconds a)),
      (lit ''statusMessage'', JString (lit ''Notify Lili''))]"

lemma hook_group_handler: "hook_group a = JObject [(lit ''hooks'', JArray [hook_handler a])]"
  by (simp add: hook_group_parts hook_handler_def)

lemma hook_handler_get [simp]:
  "json_get (hook_handler a) (lit ''command'') = Some (JString (ph_command a))"
  "json_get (hook_handler a) (lit ''commandWindows'') = Some (JString (ph_command_windows a))"
  "json_get (hook_handler a) (lit ''type'') = Some (JString (ph_handler_type a))"
  "json_get (hook_handler a) (lit ''timeout'') = Some (JPosInt (ph_timeout_seconds a))"
  "json_get (hook_handler a) (lit ''statusMessage'') = Some (JString (lit ''Notify Lili''))"
  by (simp_all add: hook_handler_def lit_def)

text \<open>A hook as the plan makes it for a binary.\<close>

definition plan_hook :: "pet_path \<Rightarrow> planned_hook \<Rightarrow> bool" where
  "plan_hook hb a \<longleftrightarrow> (\<exists>s n. a = planned_hook_for s n hb)"

lemma has_lili_hook [simp]: "has_lili_id (q @ hook_suffix)"
proof -
  have "str_contains (q @ hook_suffix) lili_integration_id"
    unfolding hook_suffix_def str_contains_iff by (metis append.assoc)
  then show ?thesis by (simp add: has_lili_id_def)
qed

lemma plan_hook_lili: "plan_hook hb a \<Longrightarrow> is_lili_handler (hook_handler a)"
  by (auto simp: plan_hook_def is_lili_handler_def planned_hook_for_def)

lemma strip_hook_group: "plan_hook hb a \<Longrightarrow> \<not> group_kept (strip_group (hook_group a))"
  using plan_hook_lili [of hb a] by (simp add: hook_group_handler group_kept_def group_hooks_def)

lemma strip_added:
  assumes "plan_hook hb a"
  shows "strip_groups (JArray (gs @ [hook_group a])) = strip_groups (JArray gs)"
  using strip_hook_group [OF assms] by simp

text \<open>Adding groups and stripping them again.\<close>

lemma add_hook_group_cases:
  assumes "add_hook_group a hooks = Inr hooks'"
  obtains gs where "hooks' = bt_insert (ph_event_name a) (JArray (gs @ [hook_group a])) hooks"
    "map_of hooks (ph_event_name a) = Some (JArray gs) \<or> map_of hooks (ph_event_name a) = None \<and> gs = []"
proof -
  obtain gs where "json_as_array (case map_of hooks (ph_event_name a) of None \<Rightarrow> JArray [] | Some v \<Rightarrow> v) = Some gs"
    "hooks' = bt_insert (ph_event_name a) (JArray (gs @ [hook_group a])) hooks"
    using assms by (auto simp: add_hook_group_def rbind_Inr_iff)
  then show thesis by (auto intro!: that [of gs] elim!: json_as_array.elims split: option.splits)
qed

lemma strip_add_group:
  assumes "add_hook_group a hooks = Inr hooks'" "bt_wf hooks" "plan_hook hb a"
  shows "strip_hooks hooks' = strip_hooks hooks"
proof (rule bt_ext)
  obtain gs where gs: "hooks' = bt_insert (ph_event_name a) (JArray (gs @ [hook_group a])) hooks"
    "map_of hooks (ph_event_name a) = Some (JArray gs) \<or> map_of hooks (ph_event_name a) = None \<and> gs = []"
    using assms(1) by (rule add_hook_group_cases)
  show "bt_wf (strip_hooks hooks')" "bt_wf (strip_hooks hooks)" using gs(1) assms(2) by simp_all
  show "map_of (strip_hooks hooks') = map_of (strip_hooks hooks)"
  proof
    fix k
    show "map_of (strip_hooks hooks') k = map_of (strip_hooks hooks) k"
      using gs assms(2) strip_added [OF assms(3), of gs]
      by (auto simp: map_of_strip_hooks simp del: strip_groups.simps) (simp add: strip_groups.simps)
  qed
qed

text \<open>Markers are only where the installation put them.\<close>

definition added_groups :: "planned_hook list \<Rightarrow> json \<Rightarrow> bool" where
  "added_groups as v \<longleftrightarrow> (\<exists>gs. v = JArray gs
     \<and> (\<forall>g \<in> set gs. \<not> value_contains_marker g \<or> (\<exists>a \<in> set as. g = hook_group a)))"

definition only_added :: "planned_hook list \<Rightarrow> (rstr \<times> json) list \<Rightarrow> bool" where
  "only_added as hooks \<longleftrightarrow> bt_wf hooks
     \<and> (\<forall>e \<in> set hooks. \<not> has_lili_id (fst e) \<and> (\<not> value_contains_marker (snd e) \<or> added_groups as (snd e)))"

lemma only_added_mono: "only_added as hooks \<Longrightarrow> set as \<subseteq> set bs \<Longrightarrow> only_added bs hooks"
  by (fastforce simp: only_added_def added_groups_def)

lemma only_added_add:
  assumes "add_hook_group a hooks = Inr hooks'" "only_added as hooks" "\<not> has_lili_id (ph_event_name a)"
  shows "only_added (a # as) hooks'"
proof -
  obtain gs where gs: "hooks' = bt_insert (ph_event_name a) (JArray (gs @ [hook_group a])) hooks"
    "map_of hooks (ph_event_name a) = Some (JArray gs) \<or> map_of hooks (ph_event_name a) = None \<and> gs = []"
    using assms(1) by (rule add_hook_group_cases)
  have wf: "bt_wf hooks" using assms(2) by (simp add: only_added_def)
  have "\<forall>g \<in> set gs. \<not> value_contains_marker g \<or> (\<exists>a \<in> set as. g = hook_group a)"
    using gs(2) assms(2) map_of_bt_wf [OF wf, of "ph_event_name a" "JArray gs"]
    by (fastforce simp: only_added_def added_groups_def)
  then have "added_groups (a # as) (JArray (gs @ [hook_group a]))" by (auto simp: added_groups_def)
  moreover have "only_added (a # as) hooks" by (rule only_added_mono [OF assms(2)]) auto
  ultimately show ?thesis
    using assms(3) wf by (auto simp: only_added_def gs(1) set_bt_insert)
qed

lemma lili_handler_marker: "is_lili_handler h \<Longrightarrow> value_contains_marker h"
proof -
  assume "is_lili_handler h"
  then obtain k c where "json_get h k = Some (JString c)" "has_lili_id c"
    by (auto simp: is_lili_handler_def bind_eq_Some_conv elim!: json_as_str.elims split: option.splits)
  moreover then obtain m where "h = JObject m" "(k, JString c) \<in> set m"
    by (cases h) (auto dest: map_of_SomeD)
  ultimately show ?thesis by force
qed

lemma hooks_handlers_iff:
  "h \<in> set (hooks_handlers hooks) \<longleftrightarrow> (\<exists>k gs g hs. (k, JArray gs) \<in> set hooks \<and> g \<in> set gs
     \<and> group_hooks g = Some hs \<and> h \<in> set hs)"
proof -
  have arr: "json_as_array v = Some gs \<longleftrightarrow> v = JArray gs" for v gs by (cases v) auto
  show ?thesis
    by (force simp: hooks_handlers_def group_handlers_def json_arrays_def map_filter_def arr group_hooks_def)
qed

lemma group_hooks_hook_group [simp]: "group_hooks (hook_group a) = Some [hook_handler a]"
  by (simp add: group_hooks_def hook_group_handler)

lemma group_hooks_marker: "group_hooks g = Some hs \<Longrightarrow> h \<in> set hs \<Longrightarrow> value_contains_marker h \<Longrightarrow> value_contains_marker g"
  by (cases g) (auto simp: group_hooks_def bind_eq_Some_conv elim!: json_as_array.elims dest!: map_of_SomeD intro!: bexI)

lemma only_added_handlers:
  assumes "only_added as hooks" "h \<in> set (hooks_handlers hooks)" "is_lili_handler h"
  shows "\<exists>a \<in> set as. h = hook_handler a"
proof -
  obtain k gs g hs where g: "(k, JArray gs) \<in> set hooks" "g \<in> set gs" "group_hooks g = Some hs" "h \<in> set hs"
    using assms(2) by (auto simp: hooks_handlers_iff)
  then have marked: "value_contains_marker g" using group_hooks_marker lili_handler_marker [OF assms(3)] by blast
  with g(1,2) assms(1) obtain a where a: "a \<in> set as" "g = hook_group a"
    by (fastforce simp: only_added_def added_groups_def)
  with g(3,4) have "h = hook_handler a" by auto
  with a(1) show ?thesis by blast
qed

lemma only_added_removable:
  assumes "only_added as hooks" "\<forall>a \<in> set as. plan_hook hb a"
  shows "marker_layout_is_removable hooks"
proof -
  have "group_removable (hook_group a)" if "a \<in> set as" for a
    using plan_hook_lili assms(2) that by (auto simp: group_removable_def hook_group_handler)
  moreover have "group_removable g" if "\<not> value_contains_marker g" for g
    using that by (simp add: group_removable_def)
  ultimately have "list_all group_removable gs" if "added_groups as (JArray gs)" for gs
    using that unfolding added_groups_def list_all_iff by auto
  moreover have "added_groups as v \<Longrightarrow> \<exists>gs. v = JArray gs" for v by (auto simp: added_groups_def)
  ultimately show ?thesis
    using assms(1) by (fastforce simp: marker_layout_is_removable_def list_all_iff only_added_def)
qed

text \<open>Counting Lili's handlers.\<close>

definition lili_count :: "rstr \<times> json \<Rightarrow> nat" where
  "lili_count e = length (filter is_lili_handler (case snd e of JArray gs \<Rightarrow> group_handlers gs | _ \<Rightarrow> []))"

lemma group_handlers_append: "group_handlers (gs @ hs) = group_handlers gs @ group_handlers hs"
  by (simp add: group_handlers_def map_filter_def)

lemma lili_handlers_count: "length (filter is_lili_handler (hooks_handlers hooks)) = sum_list (map lili_count hooks)"
proof (induction hooks)
  case (Cons e hooks)
  have "hooks_handlers (e # hooks) = (case snd e of JArray gs \<Rightarrow> group_handlers gs | _ \<Rightarrow> []) @ hooks_handlers hooks"
    by (cases "snd e") (simp_all add: hooks_handlers_def json_arrays_def group_handlers_append map_filter_def)
  with Cons show ?case by (simp add: lili_count_def)
qed (simp add: hooks_handlers_def json_arrays_def group_handlers_def map_filter_def)

lemma lili_count_added:
  assumes "plan_hook hb a"
  shows "lili_count (k, JArray (gs @ [hook_group a])) = Suc (lili_count (k, JArray gs))"
proof -
  have "group_handlers [hook_group a] = [hook_handler a]"
    by (simp add: group_handlers_def map_filter_def hook_group_handler)
  then show ?thesis using plan_hook_lili [OF assms] by (simp add: lili_count_def group_handlers_append)
qed

lemma add_group_count:
  assumes "add_hook_group a hooks = Inr hooks'" "bt_wf hooks" "plan_hook hb a"
  shows "length (filter is_lili_handler (hooks_handlers hooks')) = Suc (length (filter is_lili_handler (hooks_handlers hooks)))"
proof -
  obtain gs where gs: "hooks' = bt_insert (ph_event_name a) (JArray (gs @ [hook_group a])) hooks"
    "map_of hooks (ph_event_name a) = Some (JArray gs) \<or> map_of hooks (ph_event_name a) = None \<and> gs = []"
    using assms(1) by (rule add_hook_group_cases)
  have "lili_count (k, JArray []) = 0" for k by (simp add: lili_count_def group_handlers_def map_filter_def)
  with sum_bt_insert [OF assms(2), of lili_count "ph_event_name a" "JArray (gs @ [hook_group a])"] gs(2)
    lili_count_added [OF assms(3), of "ph_event_name a" gs]
  show ?thesis unfolding lili_handlers_count gs(1) by auto
qed

text \<open>All additions together.\<close>

lemma add_hook_groups_spec:
  assumes "add_hook_groups as hooks = Inr hooks'" "only_added bs hooks" "\<forall>a \<in> set as. plan_hook hb a \<and> \<not> has_lili_id (ph_event_name a)"
  shows "only_added (rev as @ bs) hooks'" "strip_hooks hooks' = strip_hooks hooks"
    "length (filter is_lili_handler (hooks_handlers hooks')) = length as + length (filter is_lili_handler (hooks_handlers hooks))"
    "\<forall>a \<in> set as. hook_handler a \<in> set (hooks_handlers hooks')"
proof -
  have "only_added (rev as @ bs) hooks' \<and> strip_hooks hooks' = strip_hooks hooks
    \<and> length (filter is_lili_handler (hooks_handlers hooks')) = length as + length (filter is_lili_handler (hooks_handlers hooks))
    \<and> set (hooks_handlers hooks) \<union> hook_handler ` set as \<subseteq> set (hooks_handlers hooks')"
    using assms
  proof (induction as arbitrary: bs hooks)
    case (Cons a as)
    obtain hooks1 where 1: "add_hook_group a hooks = Inr hooks1" "add_hook_groups as hooks1 = Inr hooks'"
      using Cons.prems(1) by (auto simp: rbind_Inr_iff)
    have a: "plan_hook hb a" "\<not> has_lili_id (ph_event_name a)" using Cons.prems(3) by simp_all
    have wf: "bt_wf hooks" using Cons.prems(2) by (simp add: only_added_def)
    have o1: "only_added (a # bs) hooks1" by (rule only_added_add [OF 1(1) Cons.prems(2) a(2)])
    have sub: "set (hooks_handlers hooks) \<union> {hook_handler a} \<subseteq> set (hooks_handlers hooks1)"
    proof -
      obtain gs where gs: "hooks1 = bt_insert (ph_event_name a) (JArray (gs @ [hook_group a])) hooks"
        "map_of hooks (ph_event_name a) = Some (JArray gs) \<or> map_of hooks (ph_event_name a) = None \<and> gs = []"
        using 1(1) by (rule add_hook_group_cases)
      have keeps: "\<exists>gs''. (k, JArray gs'') \<in> set hooks1 \<and> g \<in> set gs''" if "(k, JArray gs') \<in> set hooks" "g \<in> set gs'" for k gs' g
      proof (cases "k = ph_event_name a")
        case True
        then have "gs = gs'" using that(1) gs(2) map_of_bt_wf [OF wf, of k "JArray gs'"] by auto
        with True that(2) show ?thesis unfolding gs(1) by (intro exI [of _ "gs @ [hook_group a]"]) (simp add: set_bt_insert wf)
      next
        case False
        with that show ?thesis unfolding gs(1) by (intro exI [of _ gs']) (simp add: set_bt_insert wf)
      qed
      have "h \<in> set (hooks_handlers hooks1)" if h: "h \<in> set (hooks_handlers hooks)" for h
      proof -
        obtain k gs' g hs where "(k, JArray gs') \<in> set hooks" "g \<in> set gs'" "group_hooks g = Some hs" "h \<in> set hs"
          using h unfolding hooks_handlers_iff by blast
        then show ?thesis using keeps [of k gs' g] unfolding hooks_handlers_iff by blast
      qed
      then have "set (hooks_handlers hooks) \<subseteq> set (hooks_handlers hooks1)" by blast
      moreover have "hook_handler a \<in> set (hooks_handlers hooks1)"
        using wf unfolding hooks_handlers_iff gs(1)
        by (intro exI [of _ "ph_event_name a"] exI [of _ "gs @ [hook_group a]"] exI [of _ "hook_group a"]
            exI [of _ "[hook_handler a]"]) (simp add: set_bt_insert)
      ultimately show ?thesis by simp
    qed
    from Cons.IH [OF 1(2) o1] Cons.prems(3) strip_add_group [OF 1(1) wf a(1)] add_group_count [OF 1(1) wf a(1)] sub
    show ?case by auto
  qed simp
  then show "only_added (rev as @ bs) hooks'" "strip_hooks hooks' = strip_hooks hooks"
    "length (filter is_lili_handler (hooks_handlers hooks')) = length as + length (filter is_lili_handler (hooks_handlers hooks))"
    "\<forall>a \<in> set as. hook_handler a \<in> set (hooks_handlers hooks')" by auto
qed

end
