(* ===== verification/Integration_Round_Trip.thy ===== *)
theory Integration_Round_Trip
  imports Integration_Hooks
begin

text \<open>
  Installing and removing: what is assumed of the TOML and JSON libraries, what the plan for a fresh
  Codex home is, what the installation leaves, and that the removal undoes it.
\<close>

section \<open>What is assumed of the libraries\<close>

text \<open>
  \<^verbatim>\<open>toml_edit\<close>: replacing or removing \<^verbatim>\<open>notify\<close> forgets its previous value, and a document in which
  \<^verbatim>\<open>notify\<close> was set to \<open>argv\<close> is read back as it was printed.
\<close>

definition toml_laws :: "'d toml_ops \<Rightarrow> rstr list \<Rightarrow> bool" where
  "toml_laws t argv \<longleftrightarrow> (\<forall>a b doc.
     tm_notify t (tm_set_notify t a doc) = NotifyArgv a
     \<and> tm_notify t (tm_remove_notify t doc) = NotifyAbsent
     \<and> tm_set_notify t b (tm_set_notify t a doc) = tm_set_notify t b doc
     \<and> tm_remove_notify t (tm_set_notify t a doc) = tm_remove_notify t doc
     \<and> scalar_text (tm_render t (tm_set_notify t argv doc))
     \<and> tm_parse t (tm_render t (tm_set_notify t argv doc)) = Some (tm_set_notify t argv doc))"

fun json_wf :: "json \<Rightarrow> bool" where
  "json_wf (JArray vs) = (\<forall>v \<in> set vs. json_wf v)"
| "json_wf (JObject m) = (bt_wf m \<and> (\<forall>e \<in> set m. json_wf (snd e)))"
| "json_wf _ = True"

text \<open>\<^verbatim>\<open>serde_json\<close>: objects are maps, and the hooks file with hooks added is read back as it
  was printed.\<close>

definition empty_hooks :: json where
  "empty_hooks = json_object [(lit ''hooks'', JObject [])]"

definition json_laws :: "'d integration_env \<Rightarrow> file_target \<Rightarrow> planned_hook list \<Rightarrow> bool" where
  "json_laws env before as \<longleftrightarrow> (\<forall>c v. ig_json env c = Some v \<longrightarrow> json_wf v)
     \<and> (\<forall>v w. (v = empty_hooks \<or> (\<exists>c. before = TargetFile c \<and> ig_json env c = Some v)) \<and> add_hooks as v = Inr w
          \<longrightarrow> ig_json env (pretty_file env w) = Some w)"

text \<open>The provenance file that was written is read back as it was printed, and is not too large.\<close>

definition provenance_law :: "'d integration_env \<Rightarrow> file_target \<Rightarrow> bool" where
  "provenance_law env written \<longleftrightarrow> (\<forall>v. written = TargetFile (ig_provenance_to env v @ [10]) \<longrightarrow>
     ig_provenance_from env (ig_provenance_to env v @ [10]) = Some v
     \<and> length (ig_provenance_to env v @ [10]) \<le> max_provenance_bytes)"

section \<open>A fresh Codex home\<close>

text \<open>Inspected, it shows no trace of Lili, and no string of its hooks file names it.\<close>

definition fresh_home :: "'d integration_env \<Rightarrow> disk \<Rightarrow> pet_path \<Rightarrow> rstr option \<Rightarrow> bool" where
  "fresh_home env d home version \<longleftrightarrow>
     (let i = inspect_with_version env d home version in
      ni_kind (ii_notify i) \<noteq> KindLili \<and> (\<forall>s \<in> set (ii_hook_surfaces i). si_lili_handlers s = 0)
      \<and> (\<forall>c v. disk_read d (path_join home hooks_file_name) = TargetFile c \<and> ig_json env c = Some v
           \<longrightarrow> \<not> value_contains_marker v))"

definition all_hooks :: "pet_path \<Rightarrow> planned_hook list" where
  "all_hooks hb = map (\<lambda>(name, surface). planned_hook_for surface name hb) hook_surfaces"

lemma fresh_additions:
  assumes "\<forall>s \<in> set (ii_hook_surfaces i). si_lili_handlers s = 0"
  shows "planned_additions i hb = all_hooks hb"
proof -
  have "(case find (\<lambda>s. si_surface s = surface) (ii_hook_surfaces i) of
      None \<Rightarrow> True | Some s \<Rightarrow> si_lili_handlers s = 0)" for surface
    using assms by (auto simp: find_Some_iff split: option.split)
  then show ?thesis by (simp add: planned_additions_def all_hooks_def case_prod_beta)
qed

lemma all_hooks_plan: "a \<in> set (all_hooks hb) \<Longrightarrow> plan_hook hb a"
  by (auto simp: all_hooks_def plan_hook_def)

lemma all_hooks_names: "a \<in> set (all_hooks hb) \<Longrightarrow> \<not> has_lili_id (ph_event_name a)"
  by (auto simp: all_hooks_def hook_surfaces_def planned_hook_for_def has_lili_id_def
      lili_integration_id_def lit_def)

lemma length_all_hooks [simp]: "length (all_hooks hb) = 5"
  by (simp add: all_hooks_def hook_surfaces_def)

lemma notify_argv_lili: "list_ex has_lili_id (notify_argv env hb previous)"
  by (simp add: notify_argv_def has_lili_id_def str_contains_iff) (metis append.left_neutral append_Nil2)

text \<open>The plan for a fresh home, once it is ready.\<close>

lemma inspect_notify_of:
  "ii_notify (inspect_with_version env d home version)
     = inspect_notify (case snd (read_toml env d (path_join home config_file_name)) of
         None \<Rightarrow> NotifyAbsent | Some doc \<Rightarrow> tm_notify (ig_toml env) doc)"
  by (auto simp: inspect_with_version_def inspect_with_evidence_def Let_def case_prod_beta split: option.split)

lemma inspect_notify_not_lili:
  assumes "ni_kind (inspect_notify n) \<noteq> KindLili"
  shows "n = NotifyArgv a \<Longrightarrow> ni_kind (inspect_notify n) = KindOther"
    "list_ex has_lili_id argv \<Longrightarrow> ni_argv (inspect_notify n) \<noteq> Some argv"
  using assms by (cases n; auto split: if_splits)+

lemma plan_status_ready:
  assumes "plan_status_for i hb m = (PlanReady, rs)"
  shows "safe_to_mutate (ii_config i)" "safe_to_mutate (ii_hooks i)" "ni_kind (ii_notify i) \<noteq> KindInvalid"
    "ni_kind (ii_notify i) = KindOther \<Longrightarrow> m = ModeCoexist"
  using assms by (auto simp: plan_status_for_def plan_blockers_def Let_def split: if_splits intro: install_mode.exhaust)

lemma action_for_writes [simp]: "action_for f = ActCreate \<or> action_for f = ActUpdate"
  by (simp add: action_for_def)

lemma fresh_plan:
  assumes "validate_plan env p = Inr ()" "validate_current_plan env d p = Inr ()"
    and "fresh_home env d (ip_codex_home p) (ip_codex_version p)"
  defines "i \<equiv> inspect_with_version env d (ip_codex_home p) (ip_codex_version p)"
  shows "ip_hook_additions p = all_hooks (ip_hook_binary p)"
    "ip_previous_notify_argv p = coexistence_original_argv env i (ip_mode p)"
    "ip_notify_argv p = notify_argv env (ip_hook_binary p) (ip_previous_notify_argv p)"
    "\<exists>rs. plan_status_for i (ip_hook_binary p) (ip_mode p) = (PlanReady, rs)"
    "writes_file (ip_config_change p)" "writes_file (ip_hooks_change p)"
proof -
  obtain ts where p: "p = build_plan env i (ip_hook_binary p) ts (ip_mode p)"
    using assms(2) unfolding i_def by (rule current_plan)
  obtain status rs where st: "plan_status_for i (ip_hook_binary p) (ip_mode p) = (status, rs)" by fastforce
  define hb m where hm: "hb = ip_hook_binary p" "m = ip_mode p"
  define q where q: "q = build_plan env i hb ts m"
  have pq: "p = q" using p by (simp add: q hm)
  have ready: "ip_status p = PlanReady"
    using assms(1) by (auto simp: validate_plan_def Let_def split: if_splits)
  have status: "ip_status q = status" using st by (simp add: q hm build_plan_def Let_def case_prod_beta)
  with ready pq have sr: "status = PlanReady" by simp
  then show "\<exists>rs. plan_status_for i (ip_hook_binary p) (ip_mode p) = (PlanReady, rs)" using st by simp
  have i: "ni_kind (ii_notify i) \<noteq> KindLili" "\<forall>s \<in> set (ii_hook_surfaces i). si_lili_handlers s = 0"
    using assms(3) by (simp_all add: fresh_home_def i_def Let_def)
  have "ip_hook_additions q = all_hooks hb"
    using fresh_additions [OF i(2)] st by (simp add: q hm build_plan_def Let_def case_prod_beta)
  then show "ip_hook_additions p = all_hooks (ip_hook_binary p)" by (simp add: pq hm)
  have "ip_previous_notify_argv q = coexistence_original_argv env i m"
    "ip_notify_argv q = notify_argv env hb (ip_previous_notify_argv q)"
    by (simp_all add: q build_plan_def Let_def case_prod_beta)
  then show "ip_previous_notify_argv p = coexistence_original_argv env i (ip_mode p)"
    "ip_notify_argv p = notify_argv env (ip_hook_binary p) (ip_previous_notify_argv p)"
    by (simp_all add: pq hm)
  have "ni_argv (ii_notify i) \<noteq> Some (notify_argv env hb previous)" for previous
    using inspect_notify_not_lili(2) [OF i(1) [unfolded i_def inspect_notify_of] notify_argv_lili]
    unfolding i_def inspect_notify_of .
  then have "pg_action (ip_config_change q) = action_for (ii_config i)"
    using st sr by (simp add: q hm build_plan_def Let_def case_prod_beta planned_file_change_def)
  then have "writes_file (ip_config_change q)" by (simp add: writes_file_def action_for_def)
  then show "writes_file (ip_config_change p)" using pq by simp
  have "planned_additions i hb \<noteq> []" using fresh_additions [OF i(2), of hb] length_all_hooks [of hb] by (metis list.size(3) zero_neq_numeral)
  then have "pg_action (ip_hooks_change q) = action_for (ii_hooks i)"
    using st sr by (simp add: q hm build_plan_def Let_def case_prod_beta planned_file_change_def)
  then have "writes_file (ip_hooks_change q)" by (simp add: writes_file_def action_for_def)
  then show "writes_file (ip_hooks_change p)" using pq by simp
qed

text \<open>What the configuration was, and what is written in its place.\<close>

definition config_document :: "'d integration_env \<Rightarrow> byte list option \<Rightarrow> 'd \<Rightarrow> bool" where
  "config_document env original doc \<longleftrightarrow> (case original of
     None \<Rightarrow> doc = tm_new (ig_toml env)
   | Some c \<Rightarrow> \<exists>text. from_utf8 c = Some text \<and> tm_parse (ig_toml env) text = Some doc)"

lemma read_toml_parsed:
  assumes "safe_to_mutate (fst (read_toml env d q))" "disk_read d q = TargetFile c"
    "from_utf8 c = Some t" "tm_parse (ig_toml env) t = Some doc"
  shows "snd (read_toml env d q) = Some doc"
  using assms by (auto simp: read_toml_def read_bounded_def safe_to_mutate_def Let_def split: if_splits)

lemma fresh_config:
  assumes "install_checked env p d oc oh rc rh op" "fresh_home env d (ip_codex_home p) (ip_codex_version p)"
  obtains doc where "config_document env oc doc"
    "rc = Some (utf8_bytes (tm_render (ig_toml env) (tm_set_notify (ig_toml env) (ip_notify_argv p) doc)))"
    "oc = None \<longrightarrow> ip_previous_notify_argv p = None"
    "oc \<noteq> None \<longrightarrow> tm_notify (ig_toml env) doc = NotifyAbsent \<and> ip_previous_notify_argv p = None
       \<or> (\<exists>a. tm_notify (ig_toml env) doc = NotifyArgv a \<and> ip_previous_notify_argv p = Some a)"
proof -
  define i where "i = inspect_with_version env d (ip_codex_home p) (ip_codex_version p)"
  have checked: "validate_plan env p = Inr ()" "validate_current_plan env d p = Inr ()" "render_config env p oc = Inr rc"
    and read: "read_expected env d (pg_target (ip_config_change p)) (pg_expected_sha (ip_config_change p)) = Inr oc"
    using assms(1) by (simp_all add: install_checked_def)
  note plan = fresh_plan [OF checked(1,2) assms(2), folded i_def]
  obtain rs where status: "plan_status_for i (ip_hook_binary p) (ip_mode p) = (PlanReady, rs)" using plan(4) by blast
  note ready = plan_status_ready [OF status]
  obtain doc where doc: "config_document env oc doc"
    "rc = Some (utf8_bytes (tm_render (ig_toml env) (tm_set_notify (ig_toml env) (ip_notify_argv p) doc)))"
    using checked(3) plan(5)
    by (auto simp: render_config_def rbind_Inr_iff ok_or_Inr_iff config_document_def bind_eq_Some_conv split: option.splits)
  have target: "disk_read d (path_join (ip_codex_home p) config_file_name)
      = (case oc of Some c \<Rightarrow> TargetFile c | None \<Rightarrow> TargetMissing)"
    using read change_paths(1) [OF checked(2)] by (simp add: read_expected_Inr)
  have other: "ni_kind (ii_notify i) \<noteq> KindLili" using assms(2) by (simp add: fresh_home_def i_def Let_def)
  have notify: "ii_notify i = inspect_notify (case oc of None \<Rightarrow> NotifyAbsent | Some c \<Rightarrow> tm_notify (ig_toml env) doc)"
  proof (cases oc)
    case None
    with target have "snd (read_toml env d (path_join (ip_codex_home p) config_file_name)) = None"
      by (simp add: read_toml_def read_bounded_def Let_def)
    with None show ?thesis by (simp add: i_def inspect_notify_of)
  next
    case (Some c)
    with doc(1) obtain t where parsed: "from_utf8 c = Some t" "tm_parse (ig_toml env) t = Some doc"
      by (auto simp: config_document_def)
    have "safe_to_mutate (fst (read_toml env d (path_join (ip_codex_home p) config_file_name)))"
      using ready(1) by (simp add: i_def)
    from read_toml_parsed [OF this _ parsed] target Some show ?thesis by (simp add: i_def inspect_notify_of)
  qed
  show thesis
  proof (rule that [OF doc])
    show "oc = None \<longrightarrow> ip_previous_notify_argv p = None"
      using notify by (simp add: plan(2) coexistence_original_argv_def)
    have "tm_notify (ig_toml env) doc = NotifyAbsent \<and> ip_previous_notify_argv p = None
       \<or> (\<exists>a. tm_notify (ig_toml env) doc = NotifyArgv a \<and> ip_previous_notify_argv p = Some a)" if "oc \<noteq> None"
    proof (cases "tm_notify (ig_toml env) doc")
      case (NotifyArgv a)
      with that notify other have kind: "ni_kind (ii_notify i) = KindOther" "ni_argv (ii_notify i) = Some a"
        by (auto split: if_splits)
      with ready(4) NotifyArgv show ?thesis by (simp add: plan(2) coexistence_original_argv_def)
    next
      case NotifyAbsent
      with that notify show ?thesis by (auto simp: plan(2) coexistence_original_argv_def)
    qed (use that notify ready(3) in auto)
    then show "oc \<noteq> None \<longrightarrow> tm_notify (ig_toml env) doc = NotifyAbsent \<and> ip_previous_notify_argv p = None
       \<or> (\<exists>a. tm_notify (ig_toml env) doc = NotifyArgv a \<and> ip_previous_notify_argv p = Some a)" by blast
  qed
qed

text \<open>The same for the hooks.\<close>

definition hooks_document :: "'d integration_env \<Rightarrow> byte list option \<Rightarrow> (rstr \<times> json) list \<Rightarrow> (rstr \<times> json) list \<Rightarrow> bool" where
  "hooks_document env original m hooks \<longleftrightarrow>
     (case original of None \<Rightarrow> JObject m = empty_hooks | Some c \<Rightarrow> ig_json env c = Some (JObject m))
     \<and> JObject hooks = (case map_of m (lit ''hooks'') of None \<Rightarrow> JObject [] | Some v \<Rightarrow> v)"

lemma fresh_hooks:
  assumes "install_checked env p d oc oh rc rh op" "fresh_home env d (ip_codex_home p) (ip_codex_version p)"
    and "json_laws env (disk_read d (path_join (ip_codex_home p) hooks_file_name)) (ip_hook_additions p)"
  obtains m hooks hooks' where "hooks_document env oh m hooks" "bt_wf m" "bt_wf hooks"
    "\<forall>e \<in> set hooks. json_wf (snd e)" "\<not> value_contains_marker (JObject hooks)"
    "add_hook_groups (all_hooks (ip_hook_binary p)) hooks = Inr hooks'"
    "rh = Some (pretty_file env (JObject (bt_insert (lit ''hooks'') (JObject hooks') m)))"
    "ig_json env (the rh) = Some (JObject (bt_insert (lit ''hooks'') (JObject hooks') m))"
proof -
  have checked: "validate_plan env p = Inr ()" "validate_current_plan env d p = Inr ()" "render_hooks env p oh = Inr rh"
    and read: "read_expected env d (pg_target (ip_hooks_change p)) (pg_expected_sha (ip_hooks_change p)) = Inr oh"
    using assms(1) by (simp_all add: install_checked_def)
  note plan = fresh_plan [OF checked(1,2) assms(2)]
  obtain doc doc' where doc: "case oh of None \<Rightarrow> doc = empty_hooks | Some c \<Rightarrow> ig_json env c = Some doc"
    and added: "add_hooks (ip_hook_additions p) doc = Inr doc'" and rh: "rh = Some (pretty_file env doc')"
    using checked(3) plan(6)
    by (auto simp: render_hooks_def rbind_Inr_iff ok_or_Inr_iff empty_hooks_def split: option.splits)
  obtain m hooks hooks' where m: "doc = JObject m" "JObject hooks = (case map_of m (lit ''hooks'') of None \<Rightarrow> JObject [] | Some v \<Rightarrow> v)"
    "add_hook_groups (ip_hook_additions p) hooks = Inr hooks'"
    "doc' = JObject (bt_insert (lit ''hooks'') (JObject hooks') m)"
  proof -
    have obj: "json_as_object v = Some x \<longleftrightarrow> v = JObject x" for v x by (cases v) auto
    obtain m hooks hooks' where "doc = JObject m" "(case map_of m (lit ''hooks'') of None \<Rightarrow> JObject [] | Some v \<Rightarrow> v) = JObject hooks"
      "add_hook_groups (ip_hook_additions p) hooks = Inr hooks'" "doc' = JObject (bt_insert (lit ''hooks'') (JObject hooks') m)"
      using added unfolding add_hooks_def rbind_Inr_iff ok_or_Inr_iff obj by blast
    then show thesis by (intro that) simp_all
  qed
  have "disk_read d (path_join (ip_codex_home p) hooks_file_name) = (case oh of Some c \<Rightarrow> TargetFile c | None \<Rightarrow> TargetMissing)"
    using read change_paths(2) [OF checked(2)] by (simp add: read_expected_Inr)
  then have source: "doc = empty_hooks \<or> (\<exists>c. disk_read d (path_join (ip_codex_home p) hooks_file_name) = TargetFile c
      \<and> ig_json env c = Some doc)" using doc by (auto split: option.splits)
  have parsed: "ig_json env (the rh) = Some doc'"
    using assms(3) source added rh by (auto simp: json_laws_def)
  have wf: "json_wf doc"
    using source assms(3) by (auto simp: json_laws_def empty_hooks_def json_object_def bt_wf_def)
  then have "json_wf (JObject hooks)" using m(1,2) by (fastforce split: option.splits dest: map_of_SomeD simp: bt_wf_def)
  moreover have "\<not> value_contains_marker doc"
  proof (cases oh)
    case None
    with doc show ?thesis
      by (simp add: empty_hooks_def json_object_def has_lili_id_def lili_integration_id_def lit_def)
  next
    case (Some c)
    with doc read change_paths(2) [OF checked(2)] assms(2) show ?thesis
      by (auto simp: fresh_home_def Let_def read_expected_Inr)
  qed
  then have "\<not> value_contains_marker (JObject hooks)"
    using m(1,2) by (fastforce split: option.splits dest: map_of_SomeD)
  moreover have "hooks_document env oh m hooks"
    using doc m(1,2) by (auto simp: hooks_document_def split: option.splits)
  ultimately show thesis
    using wf m(1,3,4) plan(1) rh parsed by (intro that [of m hooks hooks']) auto
qed

section \<open>After the installation\<close>

lemma install_result:
  assumes "install_with_verifier env verifier p io = (Inr out, io1)"
  obtains oc oh rc rh op v where "install_checked env p (io_disk io) oc oh rc rh op"
    "build_provenance env p oc oh rc rh (previous_provenance env op) = Inr v"
    "\<And>c h. rc = Some c \<Longrightarrow> rh = Some h \<Longrightarrow>
       io_disk io1 (path_join (ip_codex_home p) config_file_name) = Some (regular_file c)
       \<and> io_disk io1 (path_join (ip_codex_home p) hooks_file_name) = Some (regular_file h)
       \<and> io_disk io1 (provenance_path (ip_codex_home p)) = Some (regular_file (ig_provenance_to env v @ [10]))"
proof -
  obtain oc oh rc rh op where ok: "install_checked env p (io_disk io) oc oh rc rh op"
    and run: "install_writes env verifier p oc oh rc rh op io = (Inr out, io1)"
    using install_split [OF assms] by auto
  have paths: "pg_target (ip_config_change p) = path_join (ip_codex_home p) config_file_name"
    "pg_target (ip_hooks_change p) = path_join (ip_codex_home p) hooks_file_name"
    using ok by (auto simp: install_checked_def change_paths)
  obtain io2 u where a: "apply_install env verifier p oc oh rc rh (previous_provenance env op) io2 = (Inr u, io1)"
  proof -
    obtain bs io2 where w: "(case apply_install env verifier p oc oh rc rh (previous_provenance env op) io2 of
          (Inr _, io) \<Rightarrow> (Inr \<lparr>io_changed = (rc \<noteq> None \<or> rh \<noteq> None),
             io_backups = bs, io_provenance = provenance_path (ip_codex_home p)\<rparr>, io)
        | (Inl e, io) \<Rightarrow> io_then (rollback_install p oc oh op io) (\<lambda>_ io. (Inl e, io))) = (Inr out, io1)"
      using run unfolding install_writes_def io_then_Inr by blast
    obtain r3 io3 where a: "apply_install env verifier p oc oh rc rh (previous_provenance env op) io2 = (r3, io3)" by fastforce
    from w a show thesis by (cases r3) (auto simp: io_then_Inr intro: that)
  qed
  obtain io3 io4 v where w: "write_rendered (pg_target (ip_config_change p)) rc io2 = (Inr (), io3)"
    "write_rendered (pg_target (ip_hooks_change p)) rh io3 = (Inr (), io4)"
    "build_provenance env p oc oh rc rh (previous_provenance env op) = Inr v"
    "atomic_write (provenance_path (ip_codex_home p)) (ig_provenance_to env v @ [10]) io4 = (Inr u, io1)"
    using a unfolding apply_install_def io_then_Inr by auto
  show thesis
  proof (rule that [OF ok w(3)])
    fix c h
    assume "rc = Some c" "rh = Some h"
    with w(1,2) have "io_disk io3 = (io_disk io2)(path_join (ip_codex_home p) config_file_name \<mapsto> regular_file c)"
      "io_disk io4 = (io_disk io3)(path_join (ip_codex_home p) hooks_file_name \<mapsto> regular_file h)"
      by (auto simp: write_rendered_def paths dest: write_reads)
    with write_reads(1) [OF w(4)]
    show "io_disk io1 (path_join (ip_codex_home p) config_file_name) = Some (regular_file c)
       \<and> io_disk io1 (path_join (ip_codex_home p) hooks_file_name) = Some (regular_file h)
       \<and> io_disk io1 (provenance_path (ip_codex_home p)) = Some (regular_file (ig_provenance_to env v @ [10]))"
      by simp
  qed
qed

text \<open>The commands the provenance records, and that the installed handlers match it.\<close>

lemma managed_commands:
  assumes "ig_json env h = Some (JObject m)" "map_of m (lit ''hooks'') = Some (JObject hooks)"
  obtains commands where "managed_hook_commands env h = Inr commands"
    "set commands = {c. has_lili_id c \<and> (\<exists>g \<in> set (hooks_handlers hooks). json_get g (lit ''command'') = Some (JString c))}"
proof -
  have str: "json_as_str v = Some c \<longleftrightarrow> v = JString c" for v c by (cases v) auto
  show thesis
  proof (rule that)
    show "managed_hook_commands env h = Inr (remdups_adj (sort (filter has_lili_id
        (List.map_filter (\<lambda>h. Option.bind (json_get h (lit ''command'')) json_as_str) (hooks_handlers hooks)))))"
      using assms by (simp add: managed_hook_commands_def hooks_handlers_def ok_or_def)
    show "set (remdups_adj (sort (filter has_lili_id
        (List.map_filter (\<lambda>h. Option.bind (json_get h (lit ''command'')) json_as_str) (hooks_handlers hooks)))))
      = {c. has_lili_id c \<and> (\<exists>g \<in> set (hooks_handlers hooks). json_get g (lit ''command'') = Some (JString c))}"
      by (force simp: map_filter_def bind_eq_Some_conv str image_iff)
  qed
qed

lemma hook_handler_matches:
  assumes "plan_hook hb a" "pv_hook_binary v = hb" "ph_command a \<in> set (pv_hook_commands v)"
  shows "matches_hook_provenance v (hook_handler a)"
  using assms by (auto simp: matches_hook_provenance_def hook_handler_def plan_hook_def planned_hook_for_def
      json_object_def lit_def quote_windows_def hook_suffix_def expected_windows_command_def)

lemma all_hooks_command: "a \<in> set (all_hooks hb) \<Longrightarrow> has_lili_id (ph_command a)"
  by (auto simp: all_hooks_def planned_hook_for_def)

text \<open>What the removal of the hooks finds.\<close>

lemma no_marker_handlers:
  assumes "\<not> value_contains_marker (JObject hooks)" "h \<in> set (hooks_handlers hooks)"
  shows "\<not> is_lili_handler h"
proof
  assume "is_lili_handler h"
  obtain k gs g hs where g: "(k, JArray gs) \<in> set hooks" "g \<in> set gs" "group_hooks g = Some hs" "h \<in> set hs"
    using assms(2) unfolding hooks_handlers_iff by blast
  then have "value_contains_marker g"
    using group_hooks_marker lili_handler_marker [OF \<open>is_lili_handler h\<close>] by blast
  with g(1,2) assms(1) show False by fastforce
qed

lemma hooks_removed:
  assumes "ig_json env h = Some (JObject (bt_insert (lit ''hooks'') (JObject hooks') m))" "bt_wf m" "bt_wf hooks"
    and "\<not> value_contains_marker (JObject hooks)" "add_hook_groups (all_hooks hb) hooks = Inr hooks'"
    and "pv_hook_binary v = hb" "\<forall>a \<in> set (all_hooks hb). ph_command a \<in> set (pv_hook_commands v)"
  shows "plan_hooks_uninstall env v (Some h) = Inr
    (if fp_created (pv_hooks v) \<and> sha256_hex env h = fp_after_sha (pv_hooks v) then MutRemove
     else MutWrite (pretty_file env (JObject (bt_insert (lit ''hooks'') (JObject (strip_hooks hooks)) m))), 5, True, [])"
proof -
  have "only_added [] hooks" using assms(3,4) by (auto simp: only_added_def)
  note spec = add_hook_groups_spec [OF assms(5) this, of hb]
  have planned: "\<forall>a \<in> set (all_hooks hb). plan_hook hb a \<and> \<not> has_lili_id (ph_event_name a)"
    using all_hooks_plan all_hooks_names by blast
  note spec = spec [OF planned]
  have removable: "marker_layout_is_removable hooks'"
    using only_added_removable [OF spec(1), of hb] planned by simp
  have "\<not> (is_lili_handler g \<and> \<not> matches_hook_provenance v g)" if "g \<in> set (hooks_handlers hooks')" for g
  proof (cases "is_lili_handler g")
    case True
    from only_added_handlers [OF spec(1) that True] obtain a where "a \<in> set (all_hooks hb)" "g = hook_handler a" by auto
    with hook_handler_matches [OF _ assms(6)] planned assms(7) show ?thesis by blast
  qed simp
  then have same: "\<not> list_ex (\<lambda>h. is_lili_handler h \<and> \<not> matches_hook_provenance v h) (hooks_handlers hooks')"
    by (auto simp: list_ex_iff)
  have "filter is_lili_handler (hooks_handlers hooks) = []"
    using no_marker_handlers [OF assms(4)] by (simp add: filter_empty_conv)
  with spec(3) have removed: "length (filter is_lili_handler (hooks_handlers hooks')) = 5" by simp
  have insert: "bt_insert (lit ''hooks'') (JObject (strip_hooks hooks')) (bt_insert (lit ''hooks'') (JObject hooks') m)
     = bt_insert (lit ''hooks'') (JObject (strip_hooks hooks)) m"
    using assms(2) by (intro bt_ext) (simp_all add: spec(2))
  show ?thesis
    unfolding plan_hooks_uninstall_def by (simp add: assms(1) removable same removed insert ok_or_def)
qed

text \<open>And of the configuration.\<close>

definition restored_config :: "'d toml_ops \<Rightarrow> 'd \<Rightarrow> 'd" where
  "restored_config t doc = (case tm_notify t doc of NotifyArgv a \<Rightarrow> tm_set_notify t a doc | _ \<Rightarrow> tm_remove_notify t doc)"

lemma config_restored:
  assumes "toml_laws (ig_toml env) argv"
    and c: "c = utf8_bytes (tm_render (ig_toml env) (tm_set_notify (ig_toml env) argv doc))"
    and "pv_notify_argv v = argv"
  shows "plan_config_uninstall env v (Some c) = Inr
    (if fp_created (pv_config v) \<and> pv_previous_notify_argv v = None \<and> sha256_hex env c = fp_after_sha (pv_config v)
     then (MutRemove, False, True, [])
     else (MutWrite (utf8_bytes (tm_render (ig_toml env) (case pv_previous_notify_argv v of
        Some a \<Rightarrow> tm_set_notify (ig_toml env) a doc | None \<Rightarrow> tm_remove_notify (ig_toml env) doc))),
        pv_previous_notify_argv v \<noteq> None, True, []))"
proof -
  let ?t = "ig_toml env"
  have laws: "tm_notify ?t (tm_set_notify ?t argv doc) = NotifyArgv argv"
    "scalar_text (tm_render ?t (tm_set_notify ?t argv doc))"
    "tm_parse ?t (tm_render ?t (tm_set_notify ?t argv doc)) = Some (tm_set_notify ?t argv doc)"
    "tm_remove_notify ?t (tm_set_notify ?t argv doc) = tm_remove_notify ?t doc"
    "tm_set_notify ?t other (tm_set_notify ?t argv doc) = tm_set_notify ?t other doc" for other
    using assms(1) unfolding toml_laws_def by blast+
  show ?thesis
    by (cases "pv_previous_notify_argv v") (simp_all add: plan_config_uninstall_def c laws assms(3) ok_or_def)
qed

section \<open>The removal\<close>

lemma bt_insert_same: "bt_wf m \<Longrightarrow> map_of m k = Some v \<Longrightarrow> bt_insert k v m = m"
  by (rule bt_ext) auto

lemma strip_group_unmarked:
  assumes "json_wf g" "\<not> value_contains_marker g"
  shows "strip_group g = g"
proof (cases g)
  case (JObject m)
  show ?thesis
  proof (cases "Option.bind (map_of m (lit ''hooks'')) json_as_array")
    case (Some hs)
    then have hs: "map_of m (lit ''hooks'') = Some (JArray hs)" by (auto simp: bind_eq_Some_conv elim: json_as_array.elims)
    have "\<not> is_lili_handler h" if "h \<in> set hs" for h
      using group_hooks_marker [of g hs h] lili_handler_marker [of h] that hs assms(2) JObject
      by (auto simp: group_hooks_def)
    then have "filter (\<lambda>h. \<not> is_lili_handler h) hs = hs" by simp
    with Some hs assms(1) JObject show ?thesis by (simp add: bt_insert_same)
  qed (simp add: JObject)
qed simp_all

lemma group_handlers_concat: "group_handlers gs = concat (List.map_filter group_hooks gs)"
  by (induction gs) (auto simp: group_handlers_def group_hooks_def map_filter_def)

lemma group_handlers_kept: "group_handlers (filter group_kept gs) = group_handlers gs"
  by (induction gs) (auto simp: group_handlers_concat group_kept_def map_filter_def)

lemma hooks_handlers_concat:
  "hooks_handlers hooks = concat (map (\<lambda>e. case snd e of JArray gs \<Rightarrow> group_handlers gs | _ \<Rightarrow> []) hooks)"
proof (induction hooks)
  case (Cons e hooks)
  have "hooks_handlers (e # hooks) = (case snd e of JArray gs \<Rightarrow> group_handlers gs | _ \<Rightarrow> []) @ hooks_handlers hooks"
    by (cases "snd e") (simp_all add: hooks_handlers_def json_arrays_def group_handlers_append map_filter_def)
  with Cons show ?case by simp
qed (simp add: hooks_handlers_def json_arrays_def group_handlers_def map_filter_def)

lemma strip_keeps_handlers:
  assumes "\<forall>e \<in> set hooks. json_wf (snd e)" "\<not> value_contains_marker (JObject hooks)"
  shows "hooks_handlers (strip_hooks hooks) = hooks_handlers hooks"
  using assms
proof (induction hooks)
  case (Cons e hooks)
  have "(case strip_groups (snd e) of JArray gs \<Rightarrow> group_handlers gs | _ \<Rightarrow> [])
      = (case snd e of JArray gs \<Rightarrow> group_handlers gs | _ \<Rightarrow> [])"
  proof (cases "snd e")
    case (JArray gs)
    have "map strip_group gs = gs"
      using Cons.prems JArray by (intro map_idI strip_group_unmarked) auto
    then show ?thesis by (simp add: JArray group_handlers_kept)
  qed simp_all
  then have "hooks_handlers (strip_hooks (e # hooks)) = (case snd e of JArray gs \<Rightarrow> group_handlers gs | _ \<Rightarrow> []) @ hooks_handlers (strip_hooks hooks)"
    by (cases "strip_groups (snd e) = JArray []") (auto simp: strip_hooks_def hooks_handlers_concat group_handlers_concat map_filter_def)
  with Cons show ?case by (simp add: hooks_handlers_concat)
qed (simp add: strip_hooks_def)

text \<open>Operations that meet no error.\<close>

lemma writes_ok:
  assumes "io_outcomes io = []"
  shows "path_has_parent p \<Longrightarrow> atomic_write p c io = (Inr (), io\<lparr>io_disk := (io_disk io)(p \<mapsto> regular_file c)\<rparr>)"
    "\<exists>io'. remove_file p io = (Inr (), io') \<and> io_outcomes io' = [] \<and> io_disk io' = (io_disk io)(p := None)"
proof -
  show "path_has_parent p \<Longrightarrow> atomic_write p c io = (Inr (), io\<lparr>io_disk := (io_disk io)(p \<mapsto> regular_file c)\<rparr>)"
    using assms by (simp add: atomic_write_def io_effect_def)
  show "\<exists>io'. remove_file p io = (Inr (), io') \<and> io_outcomes io' = [] \<and> io_disk io' = (io_disk io)(p := None)"
    using assms by (cases "io_disk io p = None") (auto simp: remove_file_def io_effect_def fun_upd_idem)
qed

lemma apply_mutation_ok:
  assumes "io_outcomes io = []" "path_has_parent p"
  obtains io' where "apply_mutation p mut io = (Inr (), io')" "io_outcomes io' = []"
    "io_disk io' = (case mut of MutUnchanged \<Rightarrow> io_disk io | MutWrite c \<Rightarrow> (io_disk io)(p \<mapsto> regular_file c)
       | MutRemove \<Rightarrow> (io_disk io)(p := None))"
proof (cases mut)
  case (MutWrite c)
  then show thesis using assms by (intro that [of "io\<lparr>io_disk := (io_disk io)(p \<mapsto> regular_file c)\<rparr>"]) (simp_all add: writes_ok)
next
  case MutRemove
  then show thesis using writes_ok(2) [OF assms(1), of p] that by auto
qed (use assms that in simp)

lemma uninstall_completes:
  assumes "plan_uninstall env (io_disk io) home = Inr u" "un_complete u" "io_outcomes io = []"
  obtains out io' where "uninstall env home io = (Inr out, io')"
    "uo_complete out" "uo_conflicts out = un_conflicts u" "uo_removed_hook_handlers out = un_removed u"
    "uo_restored_notify out = un_restored u" "only_at {path_join home config_file_name, path_join home hooks_file_name, provenance_path home} io io'"
    "disk_read (io_disk io') (provenance_path home) = TargetMissing"
    "disk_read (io_disk io') (path_join home config_file_name) = (case un_config_mutation u of
       MutUnchanged \<Rightarrow> disk_read (io_disk io) (path_join home config_file_name) | MutWrite c \<Rightarrow> TargetFile c | MutRemove \<Rightarrow> TargetMissing)"
    "disk_read (io_disk io') (path_join home hooks_file_name) = (case un_hooks_mutation u of
       MutUnchanged \<Rightarrow> disk_read (io_disk io) (path_join home hooks_file_name) | MutWrite c \<Rightarrow> TargetFile c | MutRemove \<Rightarrow> TargetMissing)"
proof -
  obtain io1 where 1: "apply_mutation (path_join home config_file_name) (un_config_mutation u) io = (Inr (), io1)"
    "io_outcomes io1 = []" "io_disk io1 = (case un_config_mutation u of MutUnchanged \<Rightarrow> io_disk io
       | MutWrite c \<Rightarrow> (io_disk io)(path_join home config_file_name \<mapsto> regular_file c)
       | MutRemove \<Rightarrow> (io_disk io)(path_join home config_file_name := None))"
    by (rule apply_mutation_ok [OF assms(3) path_join_simps(2)])
  obtain io2 where 2: "apply_mutation (path_join home hooks_file_name) (un_hooks_mutation u) io1 = (Inr (), io2)"
    "io_outcomes io2 = []" "io_disk io2 = (case un_hooks_mutation u of MutUnchanged \<Rightarrow> io_disk io1
       | MutWrite c \<Rightarrow> (io_disk io1)(path_join home hooks_file_name \<mapsto> regular_file c)
       | MutRemove \<Rightarrow> (io_disk io1)(path_join home hooks_file_name := None))"
    by (rule apply_mutation_ok [OF 1(2) path_join_simps(2)])
  obtain io3 where 3: "remove_file (provenance_path home) io2 = (Inr (), io3)"
    "io_disk io3 = (io_disk io2)(provenance_path home := None)"
    using writes_ok(2) [OF 2(2)] by blast
  have run: "uninstall env home io = (Inr \<lparr>
      uo_changed = (un_config_mutation u \<noteq> MutUnchanged \<or> un_hooks_mutation u \<noteq> MutUnchanged \<or> un_complete u),
      uo_complete = un_complete u, uo_restored_notify = un_restored u,
      uo_removed_hook_handlers = un_removed u, uo_conflicts = un_conflicts u,
      uo_provenance = (if un_complete u then None else Some (provenance_path home))\<rparr>, io3)"
    using 1(1) 2(1) 3(1) assms(1,2) by (simp add: uninstall_def apply_uninstall_def)
  show thesis
    by (rule that [OF run]) (use assms(2) in \<open>auto simp: only_at_def 1(3) 2(3) 3(2) split: file_mutation.split\<close>)
qed

lemma installed_provenance:
  assumes "build_provenance env p oc oh (Some c) (Some h) previous = Inr v"
  shows "pv_schema_version v = 1" "pv_integration_id v = lili_integration_id" "pv_hook_binary v = ip_hook_binary p"
    "pv_notify_argv v = ip_notify_argv p" "pv_previous_notify_argv v = ip_previous_notify_argv p"
    "managed_hook_commands env h = Inr (pv_hook_commands v)"
    "pv_config v = file_provenance_for env (ip_config_change p) oc c"
    "pv_hooks v = file_provenance_for env (ip_hooks_change p) oh h"
  using assms by (auto simp: build_provenance_def rbind_Inr_iff ok_or_Inr_iff)

lemma installed_commands:
  assumes "managed_hook_commands env h = Inr commands"
    and "ig_json env h = Some (JObject (bt_insert (lit ''hooks'') (JObject hooks') m))"
    and "\<forall>a \<in> set (all_hooks hb). hook_handler a \<in> set (hooks_handlers hooks')"
  shows "\<forall>a \<in> set (all_hooks hb). ph_command a \<in> set commands" "\<not> list_ex (\<lambda>c. \<not> has_lili_id c) commands" "commands \<noteq> []"
proof -
  have "set commands = {c. has_lili_id c \<and> (\<exists>g \<in> set (hooks_handlers hooks'). json_get g (lit ''command'') = Some (JString c))}"
    by (rule managed_commands [OF assms(2), of hooks']) (use assms(1) in simp_all)
  note set = this
  show "\<not> list_ex (\<lambda>c. \<not> has_lili_id c) commands" by (auto simp: list_ex_iff set)
  show all: "\<forall>a \<in> set (all_hooks hb). ph_command a \<in> set commands"
    using assms(3) all_hooks_command by (auto simp: set intro!: bexI)
  obtain a where "a \<in> set (all_hooks hb)" using length_all_hooks [of hb] by (cases "all_hooks hb") auto
  with all show "commands \<noteq> []" by auto
qed

lemma installed_valid:
  assumes "install_checked env p d oc oh rc rh op" "fresh_home env d (ip_codex_home p) (ip_codex_version p)"
    and "build_provenance env p oc oh (Some c) (Some h) previous = Inr v"
    and "pv_hook_commands v \<noteq> []" "\<not> list_ex (\<lambda>c. \<not> has_lili_id c) (pv_hook_commands v)"
  shows "validate_provenance (ip_codex_home p) v = Inr ()"
proof -
  have checked: "validate_plan env p = Inr ()" "validate_current_plan env d p = Inr ()"
    using assms(1) by (simp_all add: install_checked_def)
  then have "is_absolute (ip_codex_home p)" by (auto simp: validate_plan_def Let_def split: if_splits)
  moreover have "list_ex has_lili_id (ip_notify_argv p)"
    unfolding fresh_plan(3) [OF checked assms(2)] by (rule notify_argv_lili)
  moreover from this have "ip_notify_argv p \<noteq> []" by auto
  ultimately show ?thesis
    using assms(4,5) installed_provenance [OF assms(3)] change_paths(1,2) [OF checked(2)]
    by (simp add: validate_provenance_def file_provenance_for_def)
qed

text \<open>
  The configuration before and after: no file, or the same document with \<^verbatim>\<open>notify\<close> as it was. The hooks:
  no file, or the same document with the same handlers; only groups and events without a handler go.
\<close>

definition config_back :: "'d integration_env \<Rightarrow> file_target \<Rightarrow> file_target \<Rightarrow> bool" where
  "config_back env before after \<longleftrightarrow> (case before of
     TargetFile c \<Rightarrow> (\<exists>t doc. from_utf8 c = Some t \<and> tm_parse (ig_toml env) t = Some doc
       \<and> tm_notify (ig_toml env) (restored_config (ig_toml env) doc) = tm_notify (ig_toml env) doc
       \<and> after = TargetFile (utf8_bytes (tm_render (ig_toml env) (restored_config (ig_toml env) doc))))
   | _ \<Rightarrow> after = before)"

definition hooks_back :: "'d integration_env \<Rightarrow> file_target \<Rightarrow> file_target \<Rightarrow> bool" where
  "hooks_back env before after \<longleftrightarrow> (case before of
     TargetFile c \<Rightarrow> (\<exists>m hooks. hooks_document env (Some c) m hooks
       \<and> hooks_handlers (strip_hooks hooks) = hooks_handlers hooks
       \<and> after = TargetFile (pretty_file env (JObject (bt_insert (lit ''hooks'') (JObject (strip_hooks hooks)) m))))
   | _ \<Rightarrow> after = before)"

text \<open>What the removal of an installation made into a fresh home plans.\<close>

lemma removal_planned:
  assumes "toml_laws (ig_toml env) (ip_notify_argv p)"
    and "provenance_law env (disk_read (io_disk io1) (provenance_path (ip_codex_home p)))"
    and "json_laws env (disk_read (io_disk io) (path_join (ip_codex_home p) hooks_file_name)) (ip_hook_additions p)"
    and "fresh_home env (io_disk io) (ip_codex_home p) (ip_codex_version p)"
    and "install_with_verifier env verifier p io = (Inr out, io1)"
  obtains oc oh rc rh op doc m hooks u where "install_checked env p (io_disk io) oc oh rc rh op"
    "config_document env oc doc" "oc \<noteq> None \<longrightarrow> (\<exists>a. tm_notify (ig_toml env) doc \<in> {NotifyAbsent, NotifyArgv a})"
    "hooks_document env oh m hooks" "\<forall>e \<in> set hooks. json_wf (snd e)" "\<not> value_contains_marker (JObject hooks)"
    "plan_uninstall env (io_disk io1) (ip_codex_home p) = Inr u" "un_complete u" "un_removed u = 5" "un_conflicts u = []"
    "un_config_mutation u = (if oc = None then MutRemove
       else MutWrite (utf8_bytes (tm_render (ig_toml env) (restored_config (ig_toml env) doc))))"
    "un_hooks_mutation u = (if oh = None then MutRemove
       else MutWrite (pretty_file env (JObject (bt_insert (lit ''hooks'') (JObject (strip_hooks hooks)) m))))"
proof -
  let ?home = "ip_codex_home p" and ?t = "ig_toml env"
  obtain oc oh rc rh op v where ok: "install_checked env p (io_disk io) oc oh rc rh op"
    and built: "build_provenance env p oc oh rc rh (previous_provenance env op) = Inr v"
    and disk: "\<And>c h. rc = Some c \<Longrightarrow> rh = Some h \<Longrightarrow> io_disk io1 (path_join ?home config_file_name) = Some (regular_file c)
       \<and> io_disk io1 (path_join ?home hooks_file_name) = Some (regular_file h)
       \<and> io_disk io1 (provenance_path ?home) = Some (regular_file (ig_provenance_to env v @ [10]))"
    using assms(5) by (rule install_result) blast
  obtain doc where doc: "config_document env oc doc" "rc = Some (utf8_bytes (tm_render ?t (tm_set_notify ?t (ip_notify_argv p) doc)))"
    "oc = None \<longrightarrow> ip_previous_notify_argv p = None"
    "oc \<noteq> None \<longrightarrow> tm_notify ?t doc = NotifyAbsent \<and> ip_previous_notify_argv p = None
       \<or> (\<exists>a. tm_notify ?t doc = NotifyArgv a \<and> ip_previous_notify_argv p = Some a)"
    by (rule fresh_config [OF ok assms(4)])
  obtain m hooks hooks' where hooks: "hooks_document env oh m hooks" "bt_wf m" "bt_wf hooks" "\<forall>e \<in> set hooks. json_wf (snd e)"
    "\<not> value_contains_marker (JObject hooks)" "add_hook_groups (all_hooks (ip_hook_binary p)) hooks = Inr hooks'"
    "rh = Some (pretty_file env (JObject (bt_insert (lit ''hooks'') (JObject hooks') m)))"
    "ig_json env (the rh) = Some (JObject (bt_insert (lit ''hooks'') (JObject hooks') m))"
    by (rule fresh_hooks [OF ok assms(4,3)])
  define c h where ch: "c = the rc" "h = the rh"
  have some: "rc = Some c" "rh = Some h" using doc(2) hooks(7) by (simp_all add: ch)
  note v = installed_provenance [OF built [unfolded some]]
  have "only_added [] hooks" using hooks(3,5) by (auto simp: only_added_def)
  then have "\<forall>a \<in> set (all_hooks (ip_hook_binary p)). hook_handler a \<in> set (hooks_handlers hooks')"
    using all_hooks_plan all_hooks_names by (intro add_hook_groups_spec(4) [OF hooks(6), of "[]" "ip_hook_binary p"]) auto
  note commands = installed_commands [OF v(6) hooks(8) [folded ch] this]
  note valid = installed_valid [OF ok assms(4) built [unfolded some] commands(3,2)]
  note config_plan = config_restored [OF assms(1) doc(2) [unfolded some, THEN option.inject [THEN iffD1]] v(4)]
  note hooks_plan = hooks_removed [OF hooks(8) [folded ch] hooks(2,3,5,6) v(3) commands(1)]
  note read = disk [OF some, unfolded disk_read_def [symmetric]]
  define cm where "cm = (if oc = None then MutRemove else MutWrite (utf8_bytes (tm_render ?t (restored_config ?t doc))))"
  define hm where "hm = (if oh = None then MutRemove
    else MutWrite (pretty_file env (JObject (bt_insert (lit ''hooks'') (JObject (strip_hooks hooks)) m))))"
  have cm: "plan_config_uninstall env v (Some c) = Inr (cm, ip_previous_notify_argv p \<noteq> None, True, [])"
    using doc(3,4) by (auto simp: config_plan v cm_def file_provenance_for_def restored_config_def)
  have hm: "plan_hooks_uninstall env v (Some h) = Inr (hm, 5, True, [])"
    by (simp add: hooks_plan v hm_def file_provenance_for_def)
  have "disk_read (io_disk io1) (provenance_path ?home) = TargetFile (ig_provenance_to env v @ [10])"
    using disk [OF some] by (simp add: disk_read_def regular_file_def)
  then have written: "ig_provenance_from env (ig_provenance_to env v @ [10]) = Some v"
    "length (ig_provenance_to env v @ [10]) \<le> max_provenance_bytes"
    using assms(2) unfolding provenance_law_def by blast+
  have planned: "plan_uninstall env (io_disk io1) ?home = Inr \<lparr>un_provenance = ig_provenance_to env v @ [10], un_config = Some c,
      un_hooks = Some h, un_config_mutation = cm, un_hooks_mutation = hm,
      un_restored = (ip_previous_notify_argv p \<noteq> None), un_removed = 5, un_complete = True, un_conflicts = []\<rparr>"
    using disk [OF some] written valid
    by (simp add: plan_uninstall_def read_required_bounded_def disk_read_def regular_file_def
        ok_or_def check_def reject_symbolic_link_def is_symlink_def cm hm)
  show thesis
    by (rule that [OF ok doc(1) _ hooks(1,4,5) planned]) (use doc(4) in \<open>auto simp: cm_def hm_def\<close>)
qed

text \<open>
  C20. Removing an installation undoes it. After an installation into a Codex home that shows no trace of
  Lili, with the files left alone, the removal completes without a conflict: it removes the five
  handlers and the provenance and changes nothing else; a configuration or hooks file that
  was missing is missing again, one that was there is the document it was, with its own \<^verbatim>\<open>notify\<close> value
  and its own handlers. Assumed are the laws of the two libraries, and that no write fails from then on.
\<close>

theorem uninstall_undoes_install:
  assumes "toml_laws (ig_toml env) (ip_notify_argv p)"
    and "provenance_law env (disk_read (io_disk io1) (provenance_path (ip_codex_home p)))"
    and "json_laws env (disk_read (io_disk io) (path_join (ip_codex_home p) hooks_file_name)) (ip_hook_additions p)"
    and "fresh_home env (io_disk io) (ip_codex_home p) (ip_codex_version p)"
    and "install_with_verifier env verifier p io = (Inr out, io1)"
    and "io_outcomes io1 = []"
  shows "\<exists>out' io2. uninstall env (ip_codex_home p) io1 = (Inr out', io2)
    \<and> uo_complete out' \<and> uo_conflicts out' = [] \<and> uo_removed_hook_handlers out' = 5
    \<and> only_at (managed_paths p) io1 io2
    \<and> disk_read (io_disk io2) (provenance_path (ip_codex_home p)) = TargetMissing
    \<and> config_back env (disk_read (io_disk io) (path_join (ip_codex_home p) config_file_name))
        (disk_read (io_disk io2) (path_join (ip_codex_home p) config_file_name))
    \<and> hooks_back env (disk_read (io_disk io) (path_join (ip_codex_home p) hooks_file_name))
        (disk_read (io_disk io2) (path_join (ip_codex_home p) hooks_file_name))"
proof -
  let ?home = "ip_codex_home p"
  obtain oc oh rc rh op doc m hooks u where ok: "install_checked env p (io_disk io) oc oh rc rh op"
    and doc: "config_document env oc doc" "oc \<noteq> None \<longrightarrow> (\<exists>a. tm_notify (ig_toml env) doc \<in> {NotifyAbsent, NotifyArgv a})"
    and hooks: "hooks_document env oh m hooks" "\<forall>e \<in> set hooks. json_wf (snd e)" "\<not> value_contains_marker (JObject hooks)"
    and u: "plan_uninstall env (io_disk io1) ?home = Inr u" "un_complete u" "un_removed u = 5" "un_conflicts u = []"
    "un_config_mutation u = (if oc = None then MutRemove
       else MutWrite (utf8_bytes (tm_render (ig_toml env) (restored_config (ig_toml env) doc))))"
    "un_hooks_mutation u = (if oh = None then MutRemove
       else MutWrite (pretty_file env (JObject (bt_insert (lit ''hooks'') (JObject (strip_hooks hooks)) m))))"
    by (rule removal_planned [OF assms(1-5)])
  have current: "validate_current_plan env (io_disk io) p = Inr ()" using ok by (simp add: install_checked_def)
  have before: "disk_read (io_disk io) (path_join ?home config_file_name) = (case oc of Some c \<Rightarrow> TargetFile c | None \<Rightarrow> TargetMissing)"
    "disk_read (io_disk io) (path_join ?home hooks_file_name) = (case oh of Some c \<Rightarrow> TargetFile c | None \<Rightarrow> TargetMissing)"
    using ok change_paths(1,2) [OF current] by (simp_all add: install_checked_def read_expected_Inr)
  obtain out' io2 where run: "uninstall env ?home io1 = (Inr out', io2)" "uo_complete out'" "uo_conflicts out' = []"
    "uo_removed_hook_handlers out' = 5" "only_at (managed_paths p) io1 io2"
    "disk_read (io_disk io2) (provenance_path ?home) = TargetMissing"
    "disk_read (io_disk io2) (path_join ?home config_file_name) = (case un_config_mutation u of
       MutUnchanged \<Rightarrow> disk_read (io_disk io1) (path_join ?home config_file_name) | MutWrite c \<Rightarrow> TargetFile c | MutRemove \<Rightarrow> TargetMissing)"
    "disk_read (io_disk io2) (path_join ?home hooks_file_name) = (case un_hooks_mutation u of
       MutUnchanged \<Rightarrow> disk_read (io_disk io1) (path_join ?home hooks_file_name) | MutWrite c \<Rightarrow> TargetFile c | MutRemove \<Rightarrow> TargetMissing)"
    by (rule uninstall_completes [OF u(1,2) assms(6)]) (use u change_paths(1,2) [OF current] in \<open>simp add: managed_paths_def\<close>)
  have "config_back env (disk_read (io_disk io) (path_join ?home config_file_name)) (disk_read (io_disk io2) (path_join ?home config_file_name))"
    using run(7) u(5) before(1) doc assms(1)
    by (auto simp: config_back_def config_document_def restored_config_def toml_laws_def split: option.splits)
  moreover have "hooks_back env (disk_read (io_disk io) (path_join ?home hooks_file_name)) (disk_read (io_disk io2) (path_join ?home hooks_file_name))"
    using run(8) u(6) before(2) hooks(1) strip_keeps_handlers [OF hooks(2,3)]
    by (auto simp: hooks_back_def split: option.splits)
  ultimately show ?thesis using run(1-6) by blast
qed

end
