(* ===== verification/Integration_Example.thy ===== *)
theory Integration_Example
  imports Integration_Round_Trip
begin

text \<open>
  A concrete installation, run through: the verification fails and the files are restored; it succeeds
  and the removal restores them. And the plan that forgets the user's command.
\<close>

section \<open>An example\<close>

text \<open>
  A Codex home with a configuration whose \<^verbatim>\<open>notify\<close> runs \<^verbatim>\<open>x\<close>, and no hooks file. The libraries are
  codecs of the few documents involved.
\<close>

definition example_home :: pet_path where "example_home = [RootDir, NormalComp (lit ''c'')]"
definition example_binary :: pet_path where "example_binary = [RootDir, NormalComp (lit ''h'')]"
definition example_previous :: "rstr list" where "example_previous = [lit ''x'']"

definition example_argv :: "rstr list" where
  "example_argv = [lit ''/h'', flag_integration_id, lili_integration_id, flag_coexist, [97]]"

definition example_toml :: "rstr list option toml_ops" where
  "example_toml = \<lparr>tm_parse = (\<lambda>t. if t = [49] then Some (Some example_argv) else if t = [48] then Some (Some example_previous) else None),
     tm_new = None, tm_notify = (\<lambda>d. case d of None \<Rightarrow> NotifyAbsent | Some a \<Rightarrow> NotifyArgv a),
     tm_set_notify = (\<lambda>a d. Some a), tm_remove_notify = (\<lambda>d. None), tm_hook_commands = (\<lambda>d n. []),
     tm_render = (\<lambda>d. if d = Some example_argv then [49] else [48])\<rparr>"

definition example_hook_list :: "planned_hook list" where
  "example_hook_list = map (\<lambda>(name, surface). planned_hook_for surface name example_binary) hook_surfaces"

definition example_hooks :: "(rstr \<times> json) list" where
  "example_hooks = fold (\<lambda>a. bt_insert (ph_event_name a) (JArray [hook_group a])) example_hook_list []"

definition example_document :: json where
  "example_document = JObject [(lit ''hooks'', JObject example_hooks)]"

definition example_command :: rstr where
  "example_command = quote_posix example_binary @ hook_suffix"

definition example_provenance :: provenance where
  "example_provenance = \<lparr>pv_schema_version = 1, pv_integration_id = lili_integration_id, pv_installed_at_ms = 7,
     pv_hook_binary = example_binary, pv_mode = ModeCoexist, pv_notify_argv = example_argv,
     pv_previous_notify_argv = Some example_previous, pv_hook_commands = [example_command],
     pv_config = \<lparr>fp_path = path_join example_home config_file_name, fp_created = False, fp_before_sha = Some [],
       fp_after_sha = [], fp_backup = Some (path_join example_home (backup_name config_file_name 7))\<rparr>,
     pv_hooks = \<lparr>fp_path = path_join example_home hooks_file_name, fp_created = True, fp_before_sha = None,
       fp_after_sha = [], fp_backup = None\<rparr>\<rparr>"

definition example_integration :: "rstr list option integration_env" where
  "example_integration = \<lparr>ig_sha = (\<lambda>c. []), ig_toml = example_toml,
     ig_json = (\<lambda>c. if c = [2, 10] then Some example_document
       else if c = [112] then Some (verification_payload example_home 7) else None),
     ig_json_pretty = (\<lambda>v. [2]), ig_json_text = (\<lambda>v. case v of JObject m \<Rightarrow> [112] | _ \<Rightarrow> [97]),
     ig_provenance_from = (\<lambda>c. if c = [2, 10] then Some example_provenance else None),
     ig_provenance_to = (\<lambda>v. if v = example_provenance then [2] else [3]),
     ig_plugin_list = (\<lambda>c. None), ig_evidence = None\<rparr>"

definition example_disk :: disk where
  "example_disk = [path_join example_home config_file_name \<mapsto> regular_file [48]]"

definition example_plan :: install_plan where
  "example_plan = build_plan example_integration
     (inspect_with_version example_integration example_disk example_home None) example_binary 7 ModeCoexist"

lemma example_integration_simps [simp]:
  "sha256_hex example_integration c = []" "ig_toml example_integration = example_toml"
  "ig_json example_integration [2, 10] = Some example_document"
  "ig_json example_integration [112] = Some (verification_payload example_home 7)"
  "pretty_file example_integration v = [2, 10]" "argv_to_json example_integration argv = [97]"
  "ig_json_text example_integration (JObject m) = [112]"
  "ig_provenance_from example_integration [2, 10] = Some example_provenance"
  "ig_provenance_to example_integration example_provenance = [2]"
  by (simp_all add: example_integration_def sha256_hex_def hex_of_bytes_def pretty_file_def argv_to_json_def)

lemma example_toml_simps [simp]:
  "tm_parse example_toml [49] = Some (Some example_argv)" "tm_parse example_toml [48] = Some (Some example_previous)"
  "tm_notify example_toml (Some a) = NotifyArgv a" "tm_set_notify example_toml a d = Some a"
  "tm_render example_toml (Some example_argv) = [49]" "tm_hook_commands example_toml d n = []"
  by (simp_all add: example_toml_def)

lemma example_reads [simp]:
  "disk_read example_disk (path_join example_home config_file_name) = TargetFile [48]"
  "disk_read example_disk (path_join example_home hooks_file_name) = TargetMissing"
  "disk_read example_disk (provenance_path example_home) = TargetMissing"
  "is_symlink example_disk (path_join example_home name) = False"
  "example_disk (path_join example_home (backup_name config_file_name 7)) = None"
  "example_disk (provenance_path example_home) = None"
  by (simp_all add: example_disk_def disk_read_def is_symlink_def regular_file_def)

lemma example_text [simp]: "from_utf8 [48] = Some [48]" "from_utf8 [49] = Some [49]" "from_utf8 [2, 10] = Some [2, 10]"
  "utf8_bytes [48] = [48]" "utf8_bytes [49] = [49]" "utf8_bytes [2, 10] = [2, 10]" "utf8_bytes [112] = [112]"
  by (simp_all add: from_utf8_def decode_utf8_nat.simps utf8_bytes_def utf8_code_def)

lemma example_inspected:
  assumes "d (path_join example_home config_file_name) = Some (regular_file c)"
    and "c = [48] \<and> a = example_previous \<or> c = [49] \<and> a = example_argv"
  shows "read_toml example_integration d (path_join example_home config_file_name)
    = (\<lparr>fi_path = path_join example_home config_file_name, fi_status = FileParsed, fi_symbolic_link = False, fi_content_sha = Some []\<rparr>, Some (Some a))"
  using assms by (auto simp: read_toml_def read_bounded_def disk_read_def is_symlink_def regular_file_def max_config_bytes_def)

lemma inspect_surfaces:
  "set (ii_hook_surfaces (inspect_with_version env d home version)) = set (map (\<lambda>(name, surface).
     let (toml_lili, toml_other) = (case snd (read_toml env d (path_join home config_file_name)) of
           None \<Rightarrow> (0, 0) | Some doc \<Rightarrow> inspect_toml_hooks env doc name);
         (json_lili, json_other) = (case snd (read_json env d (path_join home hooks_file_name)) of
           None \<Rightarrow> (0, 0) | Some doc \<Rightarrow> inspect_json_hooks doc name)
     in \<lparr>si_surface = surface, si_lili_handlers = sat_add toml_lili json_lili,
         si_other_handlers = sat_add toml_other json_other\<rparr>) hook_surfaces)"
  by (simp add: inspect_with_version_def inspect_with_evidence_def Let_def case_prod_beta)

lemma example_surfaces_before:
  "\<forall>s \<in> set (ii_hook_surfaces (inspect_with_version example_integration example_disk example_home None)). si_lili_handlers s = 0"
proof -
  have "read_toml example_integration example_disk (path_join example_home config_file_name)
    = (\<lparr>fi_path = path_join example_home config_file_name, fi_status = FileParsed, fi_symbolic_link = False, fi_content_sha = Some []\<rparr>, Some (Some example_previous))"
    by (rule example_inspected [where c = "[48]"]) (simp_all add: example_disk_def)
  then show ?thesis
    by (auto simp: inspect_surfaces read_json_def read_bounded_def inspect_toml_hooks_def classify_commands_def sat_add_def)
qed

lemma example_binary_text: "path_display example_binary = lit ''/h''" "path_of (lit ''/h'') = example_binary"
  "is_absolute example_binary" "is_absolute example_home"
  by (simp_all add: path_display_def example_binary_def example_home_def lit_def path_of_def component_of_def is_absolute_def)

lemma example_plan_fields:
  "ip_schema_version example_plan = 2" "ip_operation_kind example_plan = LegacyFallback"
  "ip_mode example_plan = ModeCoexist" "ip_status example_plan = PlanReady"
  "ip_codex_home example_plan = example_home" "ip_codex_version example_plan = None"
  "ip_hook_binary example_plan = example_binary"
  "ip_config_change example_plan = \<lparr>pg_target = path_join example_home config_file_name, pg_expected_sha = Some [],
     pg_action = ActUpdate, pg_backup = Some (path_join example_home (backup_name config_file_name 7))\<rparr>"
  "ip_hooks_change example_plan = \<lparr>pg_target = path_join example_home hooks_file_name, pg_expected_sha = None,
     pg_action = ActCreate, pg_backup = None\<rparr>"
  "ip_notify_argv example_plan = example_argv" "ip_previous_notify_argv example_plan = Some example_previous"
  "ip_hook_additions example_plan = all_hooks example_binary"
  "ip_verification_command example_plan = [lit ''/h'', flag_integration_id, lili_integration_id, flag_json_argv, [112]]"
proof -
  let ?i = "inspect_with_version example_integration example_disk example_home None"
  have config: "read_toml example_integration example_disk (path_join example_home config_file_name)
    = (\<lparr>fi_path = path_join example_home config_file_name, fi_status = FileParsed, fi_symbolic_link = False, fi_content_sha = Some []\<rparr>, Some (Some example_previous))"
    by (rule example_inspected [where c = "[48]"]) (simp_all add: example_disk_def)
  have hooks: "read_json example_integration example_disk (path_join example_home hooks_file_name)
    = (\<lparr>fi_path = path_join example_home hooks_file_name, fi_status = FileMissing, fi_symbolic_link = False, fi_content_sha = None\<rparr>, None)"
    by (simp add: read_json_def read_bounded_def)
  have notify: "ii_notify ?i = \<lparr>ni_kind = KindOther, ni_argument_count = 1, ni_argv = Some example_previous\<rparr>"
    by (simp add: inspect_notify_of config example_previous_def has_lili_id_def lili_integration_id_def lit_def)
  note additions = fresh_additions [OF example_surfaces_before, of example_binary]
  have previous: "coexistence_original_argv example_integration ?i ModeCoexist = Some example_previous"
    by (simp add: coexistence_original_argv_def notify)
  have argv: "notify_argv example_integration example_binary (Some example_previous) = example_argv"
    by (simp add: notify_argv_def example_binary_text example_argv_def)
  have status: "plan_status_for ?i example_binary ModeCoexist = (PlanReady, [])"
    by (simp add: plan_status_for_def plan_blockers_def example_binary_text safe_to_mutate_def config hooks notify)
  have differ: "example_previous \<noteq> example_argv" by (simp add: example_previous_def example_argv_def)
  have "butlast (path_join example_home name) = example_home" for name by (simp add: path_join_def)
  have "all_hooks example_binary \<noteq> []" using length_all_hooks [of example_binary] by (metis list.size(3) zero_neq_numeral)
  note facts = this additions previous argv status differ config hooks notify
  show "ip_schema_version example_plan = 2" "ip_operation_kind example_plan = LegacyFallback"
    "ip_mode example_plan = ModeCoexist" "ip_status example_plan = PlanReady"
    "ip_codex_home example_plan = example_home" "ip_codex_version example_plan = None"
    "ip_hook_binary example_plan = example_binary"
    "ip_notify_argv example_plan = example_argv" "ip_previous_notify_argv example_plan = Some example_previous"
    "ip_hook_additions example_plan = all_hooks example_binary"
    by (simp_all add: example_plan_def build_plan_def Let_def facts)
  show "ip_config_change example_plan = \<lparr>pg_target = path_join example_home config_file_name, pg_expected_sha = Some [],
     pg_action = ActUpdate, pg_backup = Some (path_join example_home (backup_name config_file_name 7))\<rparr>"
    "ip_hooks_change example_plan = \<lparr>pg_target = path_join example_home hooks_file_name, pg_expected_sha = None,
     pg_action = ActCreate, pg_backup = None\<rparr>"
    using \<open>butlast (path_join example_home config_file_name) = example_home\<close>
    by (simp_all add: example_plan_def build_plan_def Let_def facts action_for_def planned_file_change_def)
  show "ip_verification_command example_plan = [lit ''/h'', flag_integration_id, lili_integration_id, flag_json_argv, [112]]"
    by (simp add: example_plan_def build_plan_def Let_def facts verification_payload_def json_object_def example_binary_text)
qed

lemma example_timestamp: "plan_timestamp example_integration example_plan = Inr 7"
proof -
  have "decimal 7 = [55]" by (subst decimal.simps) simp
  then show ?thesis
    by (simp add: plan_timestamp_def example_plan_fields verification_payload_def lit_def parse_u64_def u64_max_def ok_or_def)
qed

lemma example_validated: "validate_plan example_integration example_plan = Inr ()"
  "validate_current_plan example_integration example_disk example_plan = Inr ()"
proof -
  show "validate_plan example_integration example_plan = Inr ()"
    by (simp add: validate_plan_def example_plan_fields example_binary_text example_argv_def list_get_def
        example_previous_def check_def)
  show "validate_current_plan example_integration example_disk example_plan = Inr ()"
    by (simp add: validate_current_plan_def example_plan_fields example_timestamp check_def) (simp add: example_plan_def)
qed

lemma example_added: "add_hooks (all_hooks example_binary) empty_hooks = Inr example_document"
proof -
  have "add_hook_groups (all_hooks example_binary) [] = Inr example_hooks"
    by (simp add: all_hooks_def hook_surfaces_def add_hook_group_def planned_hook_for_def ok_or_def lit_def
        example_hooks_def example_hook_list_def)
  then show ?thesis
    by (simp add: add_hooks_def empty_hooks_def json_object_def ok_or_def example_document_def)
qed

lemma example_written:
  "render_config example_integration example_plan (Some [48]) = Inr (Some [49])"
  "render_hooks example_integration example_plan None = Inr (Some [2, 10])"
  by (simp_all add: render_config_def render_hooks_def example_plan_fields writes_file_def ok_or_def
      example_added empty_hooks_def [symmetric])

definition example_installed :: disk where
  "example_installed = example_disk(path_join example_home (backup_name config_file_name 7) \<mapsto> regular_file [48],
     path_join example_home config_file_name \<mapsto> regular_file [49],
     path_join example_home hooks_file_name \<mapsto> regular_file [2, 10])"

lemma example_hooks_get:
  "map_of example_hooks name = Some v \<Longrightarrow> \<exists>a \<in> set (all_hooks example_binary). v = JArray [hook_group a]"
  "name \<in> fst ` set hook_surfaces \<Longrightarrow> map_of example_hooks name \<noteq> None"
  "bt_wf example_hooks"
proof -
  have get: "map_of (fold (\<lambda>a. bt_insert (ph_event_name a) (JArray [hook_group a])) as m)
      = map_of m ++ map_of (map (\<lambda>a. (ph_event_name a, JArray [hook_group a])) (rev as))" for as and m :: "(rstr \<times> json) list"
    by (induction as arbitrary: m) (auto simp: map_add_def fun_eq_iff split: option.splits)
  have wf: "bt_wf m \<Longrightarrow> bt_wf (fold (\<lambda>a. bt_insert (ph_event_name a) (JArray [hook_group a])) as m)" for as and m :: "(rstr \<times> json) list"
    by (induction as arbitrary: m) auto
  show "bt_wf example_hooks" unfolding example_hooks_def by (rule wf) (simp add: bt_wf_def)
  have list: "example_hook_list = all_hooks example_binary" by (simp add: example_hook_list_def all_hooks_def)
  have hooks: "map_of example_hooks = map_of (map (\<lambda>a. (ph_event_name a, JArray [hook_group a])) (rev (all_hooks example_binary)))"
    by (simp add: example_hooks_def list get)
  show "map_of example_hooks name = Some v \<Longrightarrow> \<exists>a \<in> set (all_hooks example_binary). v = JArray [hook_group a]"
    unfolding hooks by (drule map_of_SomeD) auto
  show "name \<in> fst ` set hook_surfaces \<Longrightarrow> map_of example_hooks name \<noteq> None"
    unfolding hooks map_of_eq_None_iff by (force simp: all_hooks_def planned_hook_for_def image_iff)
qed

lemma example_hooks_command: "a \<in> set (all_hooks example_binary) \<Longrightarrow> ph_command a = example_command"
  by (auto simp: all_hooks_def planned_hook_for_def example_command_def)

lemma group_handlers_hook_group [simp]: "group_handlers [hook_group a] = [hook_handler a]"
  by (simp add: group_handlers_def map_filter_def hook_group_handler)

lemma example_commands:
  "name \<in> fst ` set hook_surfaces \<Longrightarrow> json_hook_commands example_document name = [example_command]"
  "managed_hook_commands example_integration [2, 10] = Inr [example_command]"
proof -
  show "json_hook_commands example_document name = [example_command]" if mem: "name \<in> fst ` set hook_surfaces"
  proof -
    obtain v where v: "map_of example_hooks name = Some v" using example_hooks_get(2) [OF mem] by blast
    with example_hooks_get(1) [OF v] obtain a where a: "a \<in> set (all_hooks example_binary)"
      "map_of example_hooks name = Some (JArray [hook_group a])" by blast
    then show ?thesis
      by (simp add: json_hook_commands_def example_document_def map_filter_def example_hooks_command)
  qed
  let ?f = "\<lambda>h. Option.bind (json_get h (lit ''command'')) json_as_str"
  let ?commands = "List.map_filter ?f (hooks_handlers example_hooks)"
  have only: "c = example_command" if c: "c \<in> set ?commands" for c
  proof -
    obtain h k gs g hs where h: "?f h = Some c" "(k, JArray gs) \<in> set example_hooks" "g \<in> set gs" "group_hooks g = Some hs" "h \<in> set hs"
      using c by (auto simp: map_filter_def hooks_handlers_iff)
    then obtain a where "a \<in> set (all_hooks example_binary)" "gs = [hook_group a]"
      using example_hooks_get(1) [of k "JArray gs"] map_of_bt_wf [OF example_hooks_get(3), of k "JArray gs"] by auto
    with h example_hooks_command [of a] show ?thesis by auto
  qed
  have some: "hooks_handlers example_hooks \<noteq> []"
  proof -
    obtain v where v: "map_of example_hooks (lit ''Stop'') = Some v"
      using example_hooks_get(2) [of "lit ''Stop''"] by (auto simp: hook_surfaces_def)
    with example_hooks_get(1) [OF v] obtain a where "map_of example_hooks (lit ''Stop'') = Some (JArray [hook_group a])"
      by blast
    then have "hook_handler a \<in> set (hooks_handlers example_hooks)"
      unfolding hooks_handlers_iff by (force dest: map_of_SomeD)
    then show ?thesis by auto
  qed
  have "?f h \<noteq> None" if mem: "h \<in> set (hooks_handlers example_hooks)" for h
  proof -
    obtain k gs g hs where h: "(k, JArray gs) \<in> set example_hooks" "g \<in> set gs" "group_hooks g = Some hs" "h \<in> set hs"
      using mem by (auto simp: hooks_handlers_iff)
    then obtain a where "gs = [hook_group a]"
      using example_hooks_get(1) [of k "JArray gs"] map_of_bt_wf [OF example_hooks_get(3), of k "JArray gs"] by auto
    with h show ?thesis by auto
  qed
  then have length: "length ?commands = length (hooks_handlers example_hooks)"
    by (simp add: map_filter_def filter_id_conv)
  define n where "n = length ?commands"
  have "?commands = replicate n example_command"
    using only by (intro replicate_eqI) (simp_all add: n_def)
  moreover have "0 < n" using some length by (simp add: n_def)
  moreover have "has_lili_id example_command" by (simp add: example_command_def)
  moreover have "sort (replicate n example_command) = replicate n example_command"
    by (intro sorted_sort_id) (simp add: sorted_replicate)
  ultimately show "managed_hook_commands example_integration [2, 10] = Inr [example_command]"
    by (simp add: managed_hook_commands_def example_document_def ok_or_def hooks_handlers_def remdups_adj_replicate filter_replicate)
qed

lemma example_markers:
  assumes "d (path_join example_home config_file_name) = Some (regular_file [49])"
    and "d (path_join example_home hooks_file_name) = Some (regular_file [2, 10])"
  shows "verify_installed_markers example_integration d example_plan = Inr ()"
proof -
  let ?i = "inspect_with_version example_integration d example_home None"
  have config: "read_toml example_integration d (path_join example_home config_file_name)
    = (\<lparr>fi_path = path_join example_home config_file_name, fi_status = FileParsed, fi_symbolic_link = False, fi_content_sha = Some []\<rparr>, Some (Some example_argv))"
    by (rule example_inspected [where c = "[49]"]) (simp_all add: assms)
  have hooks: "snd (read_json example_integration d (path_join example_home hooks_file_name)) = Some example_document"
    using assms(2) by (simp add: read_json_def read_bounded_def disk_read_def is_symlink_def regular_file_def
        max_config_bytes_def hooks_object_or_absent_def example_document_def)
  have "has_lili_id example_command" by (simp add: example_command_def)
  then have one: "classify_commands (json_hook_commands example_document name) = (1, 0)" if "(name, surface) \<in> set hook_surfaces" for name surface
    using example_commands(1) [of name] that by (force simp: classify_commands_def sat_add_def u64_max_def)
  then have "\<forall>s \<in> set (ii_hook_surfaces ?i). si_lili_handlers s \<noteq> 0"
    by (auto simp: inspect_surfaces config hooks inspect_toml_hooks_def inspect_json_hooks_def one sat_add_def u64_max_def)
      (simp add: classify_commands_def)
  moreover have "ni_kind (ii_notify ?i) = KindLili"
    by (simp add: inspect_notify_of config example_argv_def has_lili_id_def str_contains_iff) (metis append.left_neutral append_Nil2)
  ultimately show ?thesis by (simp add: verify_installed_markers_def example_plan_fields check_def list_all_iff)
qed

lemma example_checked: "install_checked example_integration example_plan example_disk (Some [48]) None (Some [49]) (Some [2, 10]) None"
  by (simp add: install_checked_def example_validated example_written example_plan_fields read_expected_def)

lemma provenance_has_parent [simp]: "path_has_parent (provenance_path home)"
  by (simp add: provenance_path_def)

text \<open>The installation up to the verification command.\<close>

lemma example_install:
  assumes "io_disk io = example_disk" "io_outcomes io = []"
  obtains io1 where "io_outcomes io1 = []" "io_disk io1 = example_installed"
    "install_with_verifier example_integration verifier example_plan io = (case verifier (ip_verification_command example_plan) of
       Inl e \<Rightarrow> io_then (rollback_install example_plan (Some [48]) None None io1) (\<lambda>_ io. (Inl e, io))
     | Inr _ \<Rightarrow> (Inr \<lparr>io_changed = True, io_backups = [path_join example_home (backup_name config_file_name 7)],
           io_provenance = provenance_path example_home\<rparr>,
         io1\<lparr>io_disk := (io_disk io1)(provenance_path example_home \<mapsto> regular_file [2, 10])\<rparr>))"
proof -
  let ?io1 = "io\<lparr>io_disk := example_installed\<rparr>"
  have marked: "verify_installed_markers example_integration example_installed example_plan = Inr ()"
    by (rule example_markers) (simp_all add: example_installed_def)
  have built: "build_provenance example_integration example_plan (Some [48]) None (Some [49]) (Some [2, 10]) None = Inr example_provenance"
    by (simp add: build_provenance_def ok_or_def example_timestamp example_commands(2) file_provenance_for_def
        example_plan_fields example_provenance_def)
  have "create_backup_if_needed (ip_config_change example_plan) (Some [48]) [] io
      = (Inr [path_join example_home (backup_name config_file_name 7)],
         io\<lparr>io_disk := example_disk(path_join example_home (backup_name config_file_name 7) \<mapsto> regular_file [48])\<rparr>)"
    using assms by (simp add: create_backup_if_needed_def example_plan_fields write_new_private_file_def io_effect_def)
  moreover have "apply_install example_integration verifier example_plan (Some [48]) None (Some [49]) (Some [2, 10]) None
      (io\<lparr>io_disk := example_disk(path_join example_home (backup_name config_file_name 7) \<mapsto> regular_file [48])\<rparr>)
    = io_then (verifier (ip_verification_command example_plan), ?io1)
        (\<lambda>_ io. (Inr (), ?io1\<lparr>io_disk := example_installed(provenance_path example_home \<mapsto> regular_file [2, 10])\<rparr>))"
    using assms(2) marked
    by (simp add: apply_install_def write_rendered_def example_plan_fields atomic_write_def io_effect_def built
        example_installed_def io_then_def split: sum.split)
  ultimately have "install_with_verifier example_integration verifier example_plan io = (case verifier (ip_verification_command example_plan) of
       Inl e \<Rightarrow> io_then (rollback_install example_plan (Some [48]) None None ?io1) (\<lambda>_ io. (Inl e, io))
     | Inr _ \<Rightarrow> (Inr \<lparr>io_changed = True, io_backups = [path_join example_home (backup_name config_file_name 7)],
           io_provenance = provenance_path example_home\<rparr>,
         ?io1\<lparr>io_disk := (io_disk ?io1)(provenance_path example_home \<mapsto> regular_file [2, 10])\<rparr>))"
    using assms example_checked
    by (simp add: install_with_verifier_def install_checked_def create_backup_if_needed_def example_plan_fields io_then_def
        Let_def split: sum.split)
  then show thesis by (rule that [of ?io1, rotated 2]) (use assms in simp_all)
qed

definition example_io :: io_state where
  "example_io = \<lparr>io_disk = example_disk, io_outcomes = []\<rparr>"

theorem failed_install_rolls_back_witness:
  "\<exists>io'. install_with_verifier example_integration (\<lambda>_. Inl InstVerificationFailed) example_plan example_io
       = (Inl InstVerificationFailed, io')
    \<and> only_at (managed_paths example_plan \<union> backup_paths example_plan) example_io io'
    \<and> io_disk io' (path_join example_home (backup_name config_file_name 7)) = Some (regular_file [48])
    \<and> disk_read (io_disk io') (path_join example_home config_file_name) = TargetFile [48]
    \<and> disk_read (io_disk io') (path_join example_home hooks_file_name) = TargetMissing"
proof -
  obtain io1 where io1: "io_outcomes io1 = []" "io_disk io1 = example_installed"
    "install_with_verifier example_integration (\<lambda>_. Inl InstVerificationFailed) example_plan example_io
      = io_then (rollback_install example_plan (Some [48]) None None io1) (\<lambda>_ io. (Inl InstVerificationFailed, io))"
    by (rule example_install [of example_io "\<lambda>_. Inl InstVerificationFailed"]) (simp_all add: example_io_def)
  obtain io2 where io2: "rollback_install example_plan (Some [48]) None None io1 = (Inr (), io2)"
    using io1(1) by (auto simp: rollback_install_def rollback_file_def example_plan_fields atomic_write_def io_effect_def
        remove_file_def io1(2) example_installed_def)
  have run: "install_with_verifier example_integration (\<lambda>_. Inl InstVerificationFailed) example_plan example_io
      = (Inl InstVerificationFailed, io2)" by (simp add: io1(3) io2)
  have managed: "path_join example_home config_file_name \<in> managed_paths example_plan"
    "path_join example_home hooks_file_name \<in> managed_paths example_plan"
    by (simp_all add: managed_paths_def example_plan_fields)
  have "disk_read (io_disk io2) (path_join example_home config_file_name) = TargetFile [48]"
    "disk_read (io_disk io2) (path_join example_home hooks_file_name) = TargetMissing"
    using failed_install_rolls_back [OF run] managed
    by (auto simp: example_io_def)
  moreover have "io_disk io2 (path_join example_home (backup_name config_file_name 7)) = Some (regular_file [48])"
    using rollback_install_restores [OF io2]
    by (simp add: example_plan_fields io1(2) example_installed_def example_disk_def)
  ultimately show ?thesis using run failed_install_rolls_back [OF run] by blast
qed

lemma json_wf_object: "\<forall>e \<in> set es. json_wf (snd e) \<Longrightarrow> json_wf (json_object es)"
proof -
  have "bt_wf m \<and> (\<forall>e \<in> set m. json_wf (snd e)) \<Longrightarrow> \<forall>e \<in> set es. json_wf (snd e) \<Longrightarrow>
      json_wf (JObject (fold (\<lambda>(k, v). bt_insert k v) es m))" for m
  proof (induction es arbitrary: m)
    case (Cons e es)
    obtain k v where e: "e = (k, v)" by fastforce
    have "bt_wf (bt_insert k v m) \<and> (\<forall>e \<in> set (bt_insert k v m). json_wf (snd e))"
      using Cons.prems e set_bt_insert_subset [of k v m] by auto
    with Cons.IH [of "bt_insert k v m"] Cons.prems e show ?case by simp
  qed simp
  from this [of "[]"] show "\<forall>e \<in> set es. json_wf (snd e) \<Longrightarrow> json_wf (json_object es)"
    by (simp add: json_object_def bt_wf_def)
qed

lemma example_json_laws: "json_laws example_integration TargetMissing (all_hooks example_binary)"
proof -
  have "json_wf (verification_payload example_home 7)"
    unfolding verification_payload_def by (rule json_wf_object) simp
  moreover have "json_wf (hook_group a)" for a
    using json_wf_object [of "[(lit ''type'', JString (ph_handler_type a)), (lit ''command'', JString (ph_command a)),
      (lit ''commandWindows'', JString (ph_command_windows a)), (lit ''timeout'', JPosInt (ph_timeout_seconds a)),
      (lit ''statusMessage'', JString (lit ''Notify Lili''))]"]
    by (simp add: hook_group_handler hook_handler_def bt_wf_def)
  then have "json_wf (snd e)" if "e \<in> set example_hooks" for e
    using example_hooks_get(1) [of "fst e" "snd e"] map_of_bt_wf [OF example_hooks_get(3), of "fst e" "snd e"] that by auto
  then have "json_wf example_document"
    using example_hooks_get(3) by (simp add: example_document_def bt_wf_def)
  ultimately show ?thesis
    by (auto simp: json_laws_def example_added example_integration_def pretty_file_def split: if_splits)
qed

lemma example_fresh: "fresh_home example_integration example_disk example_home None"
proof -
  have config: "read_toml example_integration example_disk (path_join example_home config_file_name)
    = (\<lparr>fi_path = path_join example_home config_file_name, fi_status = FileParsed, fi_symbolic_link = False, fi_content_sha = Some []\<rparr>, Some (Some example_previous))"
    by (rule example_inspected [where c = "[48]"]) (simp_all add: example_disk_def)
  have "\<not> list_ex has_lili_id example_previous"
    by (simp add: example_previous_def has_lili_id_def lili_integration_id_def lit_def)
  then show ?thesis
    using example_surfaces_before by (simp add: fresh_home_def inspect_notify_of config)
qed

lemma example_handlers: "list_ex is_lili_handler (hooks_handlers example_hooks)"
proof -
  obtain v where v: "map_of example_hooks (lit ''Stop'') = Some v"
    using example_hooks_get(2) [of "lit ''Stop''"] by (auto simp: hook_surfaces_def)
  with example_hooks_get(1) [OF v] obtain a where a: "a \<in> set (all_hooks example_binary)"
    "map_of example_hooks (lit ''Stop'') = Some (JArray [hook_group a])" by blast
  then have "hook_handler a \<in> set (hooks_handlers example_hooks)"
    unfolding hooks_handlers_iff by (force dest: map_of_SomeD)
  with all_hooks_plan a(1) show ?thesis by (auto simp: list_ex_iff intro: plan_hook_lili)
qed

text \<open>The installed disk, and what the removal plans for it.\<close>

definition example_complete :: disk where
  "example_complete = example_installed(provenance_path example_home \<mapsto> regular_file [2, 10])"

lemma example_removal:
  obtains u where "plan_uninstall example_integration example_complete example_home = Inr u" "un_complete u"
    "un_config_mutation u = MutWrite [48]" "un_hooks_mutation u = MutRemove"
proof -
  obtain io0 where io0: "io_outcomes io0 = []" "io_disk io0 = example_installed"
    "install_with_verifier example_integration (\<lambda>_. Inr ()) example_plan example_io
      = (Inr \<lparr>io_changed = True, io_backups = [path_join example_home (backup_name config_file_name 7)],
           io_provenance = provenance_path example_home\<rparr>,
         io0\<lparr>io_disk := (io_disk io0)(provenance_path example_home \<mapsto> regular_file [2, 10])\<rparr>)"
    by (rule example_install [of example_io "\<lambda>_. Inr ()"]) (simp_all add: example_io_def)
  let ?io1 = "io0\<lparr>io_disk := (io_disk io0)(provenance_path example_home \<mapsto> regular_file [2, 10])\<rparr>"
  have disk: "io_disk ?io1 = example_complete" by (simp add: io0(2) example_complete_def)
  have laws: "toml_laws (ig_toml example_integration) (ip_notify_argv example_plan)"
    by (simp add: toml_laws_def example_plan_fields scalar_text_def) (simp add: example_toml_def)
  have "provenance_law example_integration (disk_read (io_disk ?io1) (provenance_path (ip_codex_home example_plan)))"
    by (auto simp: provenance_law_def example_plan_fields example_integration_def max_provenance_bytes_def split: if_splits)
  moreover have "json_laws example_integration (disk_read (io_disk example_io) (path_join (ip_codex_home example_plan) hooks_file_name))
      (ip_hook_additions example_plan)"
    using example_json_laws by (simp add: example_io_def example_plan_fields)
  moreover have "fresh_home example_integration (io_disk example_io) (ip_codex_home example_plan) (ip_codex_version example_plan)"
    using example_fresh by (simp add: example_io_def example_plan_fields)
  ultimately obtain oc oh rc rh op doc u where u: "install_checked example_integration example_plan (io_disk example_io) oc oh rc rh op"
    "config_document example_integration oc doc"
    "plan_uninstall example_integration example_complete example_home = Inr u" "un_complete u"
    "un_config_mutation u = (if oc = None then MutRemove
       else MutWrite (utf8_bytes (tm_render example_toml (restored_config example_toml doc))))"
    "oh = None \<Longrightarrow> un_hooks_mutation u = MutRemove"
    using removal_planned [OF laws _ _ _ io0(3)] disk by (metis example_integration_simps(2) example_plan_fields(5))
  have "oc = Some [48]" "oh = None"
    using u(1) by (simp_all add: install_checked_def example_plan_fields read_expected_def example_io_def check_def
        rbind_Inr_iff)
  moreover from this have "doc = Some example_previous" using u(2) by (auto simp: config_document_def example_toml_def)
  moreover have "tm_render example_toml (Some example_previous) = [48]" by (simp add: example_toml_def example_previous_def example_argv_def)
  ultimately show thesis using that [OF u(3,4)] u(5,6) by (simp add: restored_config_def)
qed

theorem uninstall_undoes_install_witness:
  "\<exists>out io1 out' io2. install_with_verifier example_integration (\<lambda>_. Inr ()) example_plan example_io = (Inr out, io1)
    \<and> disk_read (io_disk io1) (path_join example_home config_file_name) = TargetFile [49]
    \<and> uninstall example_integration example_home io1 = (Inr out', io2)
    \<and> uo_complete out' \<and> uo_removed_hook_handlers out' = 5
    \<and> disk_read (io_disk io2) (path_join example_home config_file_name) = TargetFile [48]
    \<and> disk_read (io_disk io2) (path_join example_home hooks_file_name) = TargetMissing"
proof -
  obtain io0 where io0: "io_outcomes io0 = []" "io_disk io0 = example_installed"
    "install_with_verifier example_integration (\<lambda>_. Inr ()) example_plan example_io
      = (Inr \<lparr>io_changed = True, io_backups = [path_join example_home (backup_name config_file_name 7)],
           io_provenance = provenance_path example_home\<rparr>,
         io0\<lparr>io_disk := (io_disk io0)(provenance_path example_home \<mapsto> regular_file [2, 10])\<rparr>)"
    by (rule example_install [of example_io "\<lambda>_. Inr ()"]) (simp_all add: example_io_def)
  let ?io1 = "io0\<lparr>io_disk := (io_disk io0)(provenance_path example_home \<mapsto> regular_file [2, 10])\<rparr>"
  have "toml_laws (ig_toml example_integration) (ip_notify_argv example_plan)"
    by (simp add: toml_laws_def example_plan_fields scalar_text_def) (simp add: example_toml_def)
  moreover have "provenance_law example_integration (disk_read (io_disk ?io1) (provenance_path (ip_codex_home example_plan)))"
    by (auto simp: provenance_law_def example_plan_fields example_integration_def max_provenance_bytes_def split: if_splits)
  moreover have "json_laws example_integration (disk_read (io_disk example_io) (path_join (ip_codex_home example_plan) hooks_file_name))
      (ip_hook_additions example_plan)"
    using example_json_laws by (simp add: example_io_def example_plan_fields)
  moreover have "fresh_home example_integration (io_disk example_io) (ip_codex_home example_plan) (ip_codex_version example_plan)"
    using example_fresh by (simp add: example_io_def example_plan_fields)
  moreover have "io_outcomes ?io1 = []" using io0(1) by simp
  ultimately obtain out' io2 where run: "uninstall example_integration example_home ?io1 = (Inr out', io2)" "uo_complete out'"
    "uo_removed_hook_handlers out' = 5"
    "config_back example_integration (TargetFile [48]) (disk_read (io_disk io2) (path_join example_home config_file_name))"
    "hooks_back example_integration TargetMissing (disk_read (io_disk io2) (path_join example_home hooks_file_name))"
    using uninstall_undoes_install [OF _ _ _ _ io0(3)] by (auto simp: example_plan_fields example_io_def)
  have "tm_render example_toml (Some example_previous) = [48]" by (simp add: example_toml_def example_previous_def example_argv_def)
  with run(4) have "disk_read (io_disk io2) (path_join example_home config_file_name) = TargetFile [48]"
    by (simp add: config_back_def restored_config_def)
  with run(1-3,5) io0(2,3) show ?thesis by (auto simp: hooks_back_def example_installed_def)
qed

text \<open>
  An exclusive plan over a coexistence installation is ready, replaces the command that wraps the
  user's own, and keeps no record of it.
\<close>

lemma exclusive_plan_drops_previous:
  assumes "safe_to_mutate (ii_config i)" "safe_to_mutate (ii_hooks i)" "is_absolute hb"
    and "ii_notify i = inspect_notify (NotifyArgv (notify_argv env hb (Some previous)))"
  shows "ip_status (build_plan env i hb timestamp ModeExclusive) = PlanReady"
    "writes_file (ip_config_change (build_plan env i hb timestamp ModeExclusive))"
    "ip_previous_notify_argv (build_plan env i hb timestamp ModeExclusive) = None"
    "ip_notify_argv (build_plan env i hb timestamp ModeExclusive) = notify_argv env hb None"
proof -
  have kind: "ni_kind (ii_notify i) = KindLili" "ni_argv (ii_notify i) = Some (notify_argv env hb (Some previous))"
    using assms(4) notify_argv_lili [of env hb "Some previous"] by simp_all
  have "notify_argv env hb (Some previous) \<noteq> notify_argv env hb None" by (simp add: notify_argv_def)
  moreover have "plan_status_for i hb ModeExclusive = (PlanReady, [])"
    using assms(1-3) kind by (simp add: plan_status_for_def plan_blockers_def)
  moreover have "coexistence_original_argv env i ModeExclusive = None" by (simp add: coexistence_original_argv_def)
  ultimately show "ip_status (build_plan env i hb timestamp ModeExclusive) = PlanReady"
    "writes_file (ip_config_change (build_plan env i hb timestamp ModeExclusive))"
    "ip_previous_notify_argv (build_plan env i hb timestamp ModeExclusive) = None"
    "ip_notify_argv (build_plan env i hb timestamp ModeExclusive) = notify_argv env hb None"
    using kind(2) by (simp_all add: build_plan_def Let_def planned_file_change_def writes_file_def action_for_def)
qed

end
