(* ===== verification/Hook_Example.thy ===== *)
theory Hook_Example
  imports Hook_Properties Integration_Example
begin

text \<open>
  Concrete runs of the hook: an event is delivered to the desktop of \<open>Ingestion_Properties\<close> and is on disk, a
  payload that is no event does not keep the command configured before from running.
\<close>

section \<open>A concrete hook\<close>

definition started_input :: provider_input where
  "started_input = \<lparr>pi_version = 1, pi_provider = Some (lit ''codex''), pi_event_type = Some (lit ''turn_started''),
     pi_event_id = Some (lit ''e1''), pi_session_id = Some (lit ''s''), pi_turn_id = Some (lit ''t1''),
     pi_occurred_at_ms = Some 5, pi_project = None, pi_summary = None, pi_capabilities = no_capabilities,
     pi_source_discriminator = None\<rparr>"

definition sample_codex_json :: "unit codex_json" where
  "sample_codex_json = \<lparr>cj_value = (\<lambda>bs. if bs = [] then None else Some ()), cj_get = (\<lambda>_ _. None), cj_as_str = (\<lambda>_. None),
     cj_to_vec = (\<lambda>_. None), cj_notify = (\<lambda>_. None), cj_lifecycle = (\<lambda>_. None),
     cj_provider_input = (\<lambda>_. Some started_input)\<rparr>"

lemmas text_simps = lit_def trim_def is_whitespace_def to_ascii_lowercase_def ascii_lower_def ident_parse_def
  id_parse_defs has_control_def is_control_def byte_len_def utf8_width_def max_id_bytes_def

lemma sample_parts:
  "trim (lit ''codex'') = lit ''codex''" "trim (lit ''s'') = lit ''s''" "trim (lit ''t1'') = lit ''t1''"
  "trim (lit ''e1'') = lit ''e1''" "trim (lit ''turn_started'') = lit ''turn_started''"
  "lit ''codex'' \<noteq> []" "lit ''s'' \<noteq> []" "lit ''turn_started'' \<noteq> []"
  "parse_provider (lit ''codex'') = Inr (Ident (lit ''codex''))"
  "parse_session (lit ''s'') = Inr (Ident (lit ''s''))" "parse_turn (lit ''t1'') = Inr (Ident (lit ''t1''))"
  "event_id_parse (lit ''e1'') = Inr (Ident (lit ''e1''))"
  "parse_event_type (lit ''turn_started'') = Inr TurnStarted"
  by (simp_all add: parse_provider_def parse_session_def parse_turn_def parse_event_type_def text_simps)

lemma sample_source: "normalize_source_discriminator None = Inr (lit ''default'')"
  by (simp add: normalize_source_discriminator_def collapse_whitespace_def split_whitespace_def
      max_source_discriminator_chars_def text_simps)

lemma sample_normalized: "normalize_hook_json sample_sha sample_codex_json [1] at = Some (Inr started_event)"
  by (simp add: normalize_hook_json_def sample_codex_json_def normalize_json_def max_provider_payload_bytes_def
      normalize_provider_input_def started_input_def session_schema_version_def required_def sample_parts sample_source
      is_turn_scoped_def started_event_def sample_event_def source_capabilities_from_def no_capabilities_def)

lemma sample_malformed: "normalize_hook_json sample_sha sample_codex_json [] at = Some (Inl MalformedJson)"
  by (simp add: normalize_hook_json_def sample_codex_json_def)

definition sample_record :: credential_record where
  "sample_record = credential_record_new sample_credentials (UnixSocket (lit ''/run/lili.sock''))"

definition sample_answer :: forwarding_ack where
  "sample_answer = \<lparr>fa_version = 1, fa_instance_id = cd_instance_id sample_credentials,
     fa_nonce = hex_of_bytes (replicate 16 1), fa_disposition = AckAccepted\<rparr>"

definition sample_hook :: "unit hook_env" where
  "sample_hook = \<lparr>he_sha = sample_sha, he_hmac = sample_hmac, he_codex_json = sample_codex_json,
     he_argv_of = (\<lambda>s. if s = [97] then Some example_previous else None), he_display = (\<lambda>_. lit ''bad''),
     he_query_text = (\<lambda>_. lit ''query''), he_unsigned = (\<lambda>_. Some []),
     he_message = (\<lambda>m. if m = sample_signed started_event 7 then Some [1] else None),
     he_ack = (\<lambda>_. Some sample_answer), he_credentials = (\<lambda>_. Some sample_record), he_engine = rowid_engine,
     he_event_text = (\<lambda>_. None), he_json_ok = (\<lambda>_. True)\<rparr>"

definition sample_hook_tick :: "app_state \<Rightarrow> hook_tick" where
  "sample_hook_tick s = \<lparr>ht_now = 7,
     ht_credential_file = Some \<lparr>cfl_regular = True, cfl_private = True, cfl_len = 1, cfl_content = [1]\<rparr>,
     ht_nonce = Some (replicate 16 1),
     ht_send = (\<lambda>ep frame. Some (desktop_answer (\<lambda>_. Some [2])
       (handle_native_connection sample_ingest_env sample_tick frame 9 (sample_actor s) empty_database))),
     ht_in_time = True, ht_database_error = None\<rparr>"

lemma sample_hook_simps:
  "he_sha sample_hook = sample_sha" "he_codex_json sample_hook = sample_codex_json" "ht_now (sample_hook_tick s) = 7"
  "ht_send (sample_hook_tick s) ep frame = Some (desktop_answer (\<lambda>_. Some [2])
     (handle_native_connection sample_ingest_env sample_tick frame 9 (sample_actor s) empty_database))"
  "he_display sample_hook e = lit ''bad''" "cj_value sample_codex_json [] = None"
  "he_message sample_hook m = Some bytes \<longleftrightarrow> m = sample_signed started_event 7 \<and> bytes = [1]"
  by (auto simp: sample_hook_def sample_hook_tick_def sample_codex_json_def)

lemma sample_record_valid [simp]:
  "record_credentials sample_record = Inr sample_credentials" "endpoint_validate (cr_endpoint sample_record) = Inr ()"
proof -
  show endpoint: "endpoint_validate (cr_endpoint sample_record) = Inr ()"
    by (simp add: sample_record_def credential_record_new_def validate_endpoint_text_def max_endpoint_text_bytes_def text_simps)
  have "generate_credentials (Some (replicate 16 7)) (Some (replicate 32 9)) = Inr sample_credentials"
    by (simp add: generate_credentials_def sample_credentials_def ok_or_def)
  then show "record_credentials sample_record = Inr sample_credentials"
    using credential_record_round_trip [of "replicate 16 7" "replicate 32 9" sample_credentials "cr_endpoint sample_record"]
      endpoint by (simp add: sample_record_def credential_record_new_def instance_id_bytes_def secret_bytes_def)
qed

lemma sample_message: "online_message sample_hook (sample_hook_tick s) started_event
    = Some (sample_record, sample_signed started_event 7)"
  by (simp add: online_message_def load_credentials_def sample_hook_tick_def sample_hook_def
      max_credential_file_bytes_def sign_for_purpose_def ok_or_def sign_with_nonce_def validate_hex_encode nonce_bytes_def
      compute_mac_def signing_bytes_def sample_signed_def sample_hmac_def forwarding_protocol_version_def Let_def)

lemma sample_frame: "encode_frame (he_message sample_hook) (sample_signed started_event 7) = Inr [0, 0, 0, 1, 1]"
  by (simp add: encode_frame_def sample_hook_def ok_or_def max_forwarding_frame_bytes_def be_bytes_def upt_rec)

lemma sample_connection:
  "\<exists>a'. handle_native_connection sample_ingest_env sample_tick [0, 0, 0, 1, 1] 9 (sample_actor s) empty_database
    = Some (Some sample_answer, a', sample_saved empty_database)"
proof -
  have "read_payload ([0, 0, 0, 1, 1] @ []) = Inr ([1], [])"
    by (rule read_encoded_frame [OF sample_frame]) (simp_all add: sample_hook_def)
  with sample_ingested [of "[1]" s] show ?thesis
    by (auto simp: handle_native_connection_def acknowledgement_def sample_answer_def forwarding_protocol_version_def
        max_forwarding_frame_bytes_def)
qed

lemma sample_response: "ht_send (sample_hook_tick s) ep [0, 0, 0, 1, 1] = Some [0, 0, 0, 1, 2]"
proof -
  have "encode_frame (\<lambda>_. Some [2]) sample_answer = Inr [0, 0, 0, 1, 2]"
    by (simp add: encode_frame_def ok_or_def max_forwarding_frame_bytes_def be_bytes_def upt_rec)
  with sample_connection [of s] show ?thesis by (auto simp: sample_hook_tick_def desktop_answer_def)
qed

lemma sample_delivered: "deliver_online sample_hook (sample_hook_tick s) started_event"
proof -
  have "encode_frame (\<lambda>_. Some [2]) sample_answer = Inr [0, 0, 0, 1, 2]"
    by (simp add: encode_frame_def ok_or_def max_forwarding_frame_bytes_def be_bytes_def upt_rec)
  then have stream: "read_payload [0, 0, 0, 1, 2] = Inr ([2], [])"
    using read_encoded_frame [of "\<lambda>_. Some [2]" sample_answer "[0, 0, 0, 1, 2]" "[2]" "[]"] by simp
  have "ack_from_payload (he_ack sample_hook) [2] = Inr sample_answer"
    "ack_validate_for sample_answer (sample_signed started_event 7) = Inr ()"
    by (simp_all add: ack_from_payload_def decode_payload_def sample_hook_def max_forwarding_frame_bytes_def ok_or_def
        sample_answer_def forwarding_protocol_version_def sample_credentials_def validate_hex_encode instance_id_bytes_def
        nonce_bytes_def ack_validate_for_def sample_signed_def)
  with stream sample_response [of s] show ?thesis
    by (simp add: deliver_online_def sample_message deliver_forwarding_message_def sample_frame)
       (simp add: sample_signed_def sample_hook_tick_def ok_or_def)
qed

definition sample_direct_input :: hook_input where
  "sample_direct_input = \<lparr>hi_arguments = [OsText flag_json_argv, OsText [1]],
     hi_stdin = \<lparr>in_bytes = [], in_fails = False\<rparr>, hi_plugin_data = None, hi_plugin_home = None,
     hi_storage = True, hi_spawn = (\<lambda>_. False)\<rparr>"

lemma sample_direct_invocation:
  "read_hook_invocation (he_argv_of sample_hook) (hi_arguments sample_direct_input) (hi_stdin sample_direct_input)
    = Inr (Direct [1] False)"
proof -
  have "flag_json_argv \<noteq> flag_integration_id" by (simp add: flag_integration_id_def flag_json_argv_def lit_def)
  moreover have "bounded_argv_payload (OsText [1]) = Inr [1]"
    by (simp add: bounded_argv_payload_def ok_or_def byte_len_def utf8_bytes_def utf8_code_def utf8_width_def max_provider_payload_bytes_def)
  ultimately show ?thesis by (simp add: sample_direct_input_def read_hook_invocation_def read_mode_def)
qed

lemma sample_direct_run:
  "run_from_environment sample_hook (sample_hook_tick s) sample_direct_input empty_database
    = Some (hook_success HookDelivered, None, empty_database)"
proof -
  have "process_payload_with_source sample_hook (sample_hook_tick s) [1] None None empty_database
      = Some (hook_success HookDelivered, empty_database)"
    using sample_normalized [of 7] sample_delivered [of s]
    by (simp add: process_payload_with_source_def marked_event_def forward_event_def sample_hook_simps)
  then show ?thesis
    by (simp add: run_from_environment_def sample_direct_invocation) (simp add: sample_direct_input_def)
qed

theorem hook_success_is_durable_witness:
  "\<forall>s. \<exists>r frame ack a2 db2. run_from_environment sample_hook (sample_hook_tick s) sample_direct_input empty_database
      = Some (r, None, empty_database) \<and> hr_exit_code r = ExitSuccess \<and> hr_suppressed_failure r = None
    \<and> handle_native_connection sample_ingest_env sample_tick frame 9 (sample_actor s) empty_database = Some (Some ack, a2, db2)
    \<and> db_holds sample_codec (ap_reducer (na_state a2)) db2"
proof
  fix s
  have payload: "hook_payload sample_hook sample_direct_input = Some ([1], None, None)"
    by (simp add: hook_payload_def sample_direct_invocation)
  have event: "hook_event sample_hook (sample_hook_tick s) [1] None None = Some started_event"
    using sample_normalized by (simp add: hook_event_def sample_hook_simps marked_event_def)
  have applied: "reduce_at sample_sha initial_reducer started_event (it_now sample_tick) = Some (sample_reduced, Applied 1)"
    using sample_reduced_run(1) by (simp add: sample_tick_def started_event_def)
  have "\<exists>frame ack a2 db2. handle_native_connection sample_ingest_env sample_tick frame 9 (sample_actor s) empty_database
      = Some (Some ack, a2, db2) \<and> db_holds sample_codec (ap_reducer (na_state a2)) db2"
    using hook_success_is_durable [OF sample_direct_run [of s], where ack_text = "\<lambda>_. Some [2]" and env = sample_ingest_env
        and tk = sample_tick and now = 9 and a = "sample_actor s" and old = None]
      sample_codec_sound sample_load [OF empty_database_app] payload event applied
    by (fastforce simp: hook_success_def sample_hook_simps sample_actor_simps sample_ingest_env_def)
  then show "\<exists>r frame ack a2 db2. run_from_environment sample_hook (sample_hook_tick s) sample_direct_input empty_database
      = Some (r, None, empty_database) \<and> hr_exit_code r = ExitSuccess \<and> hr_suppressed_failure r = None
    \<and> handle_native_connection sample_ingest_env sample_tick frame 9 (sample_actor s) empty_database = Some (Some ack, a2, db2)
    \<and> db_holds sample_codec (ap_reducer (na_state a2)) db2"
    by (auto simp: sample_direct_run hook_success_def)
qed

lemma sample_previous: "he_argv_of sample_hook (argv_to_json example_integration example_previous) = Some example_previous"
  "example_previous \<noteq> []" "hd example_previous \<noteq> []"
  by (simp_all add: sample_hook_def argv_to_json_def example_integration_def example_previous_def lit_def)

theorem installed_invocations_read_back_witness:
  "read_hook_invocation (he_argv_of sample_hook)
      (map OsText (tl (notify_argv example_integration example_binary (Some example_previous)) @ [lit ''x'']))
      \<lparr>in_bytes = [1], in_fails = False\<rparr> = Inr (Coexist example_previous (utf8_bytes (lit ''x'')))"
  using installed_invocations_read_back [of "Some example_previous" "he_argv_of sample_hook" example_integration "lit ''x''"
      "\<lparr>in_bytes = [1], in_fails = False\<rparr>" example_binary] sample_previous
  by (simp add: max_provider_payload_bytes_def byte_len_def utf8_width_def lit_def)

definition sample_hook_input :: hook_input where
  "sample_hook_input = \<lparr>hi_arguments = map OsText (tl (notify_argv example_integration example_binary (Some example_previous)) @ [[]]),
     hi_stdin = \<lparr>in_bytes = [], in_fails = False\<rparr>, hi_plugin_data = None, hi_plugin_home = None,
     hi_storage = True, hi_spawn = (\<lambda>_. True)\<rparr>"

theorem coexistence_runs_both_witness:
  "\<forall>s. \<exists>r. run_from_environment sample_hook (sample_hook_tick s) sample_hook_input empty_database
      = Some (r, Some (example_previous @ [[]]), empty_database)
    \<and> hr_exit_code r = ExitSuccess \<and> hr_suppressed_failure r = Some (ExitInvalidInput, lit ''bad'')"
proof
  fix s
  let ?f = "with_hook_event None (hook_failure ExitInvalidInput (lit ''bad''))"
  have empty: "utf8_bytes [] = []" by (simp add: utf8_bytes_def)
  have failed: "process_payload sample_hook (sample_hook_tick s) [] empty_database = Some (?f, empty_database)"
    using sample_malformed [of 7]
    by (simp add: process_payload_def process_payload_with_source_def sample_hook_simps recognized_hook_event_def)
  have "read_hook_invocation (he_argv_of sample_hook) (hi_arguments sample_hook_input) (hi_stdin sample_hook_input)
      = Inr (Coexist example_previous [])"
    using sample_previous by (simp add: sample_hook_input_def notify_argv_def read_hook_invocation_def read_mode_def
        read_coexist_def bounded_argv_payload_def ok_or_def byte_len_def utf8_bytes_def)
  then obtain r started db' where run: "run_from_environment sample_hook (sample_hook_tick s) sample_hook_input empty_database
      = Some (r, started, db')"
    using failed by (auto simp: run_from_environment_def sample_hook_input_def Let_def)
  have "db' = empty_database \<and> started = Some (example_previous @ [[]]) \<and> hr_exit_code r = ExitSuccess
      \<and> hr_suppressed_failure r = Some (ExitInvalidInput, lit ''bad'')"
    using coexistence_runs_both [OF refl sample_previous _ _ _ _ run, where payload = "[]" and hb = example_binary] failed empty
    by (auto simp: sample_hook_input_def byte_len_def scalar_text_def with_hook_event_def hook_failure_def split: if_splits)
  with run show "\<exists>r. run_from_environment sample_hook (sample_hook_tick s) sample_hook_input empty_database
      = Some (r, Some (example_previous @ [[]]), empty_database)
    \<and> hr_exit_code r = ExitSuccess \<and> hr_suppressed_failure r = Some (ExitInvalidInput, lit ''bad'')" by simp
qed

end
