(* ===== verification/Migration.thy ===== *)
theory Migration
  imports Integration_Uninstall Transport
begin

text \<open>
  \<^verbatim>\<open>lili-integration/src/migration.rs\<close>: moving a Codex home from the hooks Lili installed itself to the Lili
  plugin. An assessment says how far the move is; the plugin is installed with roll-back; the old hooks
  are removed only after a verification that is authenticated for exactly this assessment. The trait
  \<^verbatim>\<open>PluginLifecycleHost\<close> is a record of operations over a host state \<open>'h\<close>; the host Lili uses is
  \<open>codex_lifecycle_host\<close>. JSON encodings are fields of \<open>migration_env\<close>.
\<close>

section \<open>Assessments\<close>

definition plugin_migration_schema_version :: nat where "plugin_migration_schema_version = 4"
definition max_assessment_bytes :: nat where "max_assessment_bytes = 64 * 1024"
definition max_verification_bytes :: nat where "max_verification_bytes = 16 * 1024"
definition verification_schema_version :: nat where "verification_schema_version = 1"

definition assessment_file_name :: rstr where
  "assessment_file_name = lit ''lili-plugin-migration-assessment.json''"

definition verification_file_name :: rstr where
  "verification_file_name = lit ''lili-plugin-migration-verification.json''"

definition migration_evidence_domain :: rstr where
  "migration_evidence_domain = lit ''plugin-migration-verification''"

datatype migration_state = MigBlocked | MigInstallReady | MigAwaitingHookReview | MigAwaitingVerification
  | MigCleanupReady | MigPluginPrimary

record migration_evidence =
  me_hooks_reviewed :: bool
  me_synthetic_delivery :: bool
  me_overlap_deduplication :: bool

record migration_assessment =
  ma_schema_version :: nat
  ma_codex_home :: pet_path
  ma_state :: migration_state
  ma_selector :: rstr
  ma_verified_version :: "rstr option"
  ma_verified_event_id :: "rstr option"
  ma_install_command :: "rstr list"
  ma_rollback_command :: "rstr list"
  ma_cleanup_command :: "rstr list"
  ma_blockers :: "rstr list"
  ma_next_actions :: "rstr list"

record unsigned_verification =
  uv_schema_version :: nat
  uv_instance_id :: rstr
  uv_assessment_sha :: rstr
  uv_synthetic_event_id :: rstr
  uv_hooks_reviewed :: bool
  uv_synthetic_delivery :: bool
  uv_overlap_deduplication :: bool

record migration_verification = unsigned_verification +
  mv_authentication :: rstr

datatype migration_error = MgFailedPrecondition | MgInvalidSelector | MgPluginCommandFailed
  | MgInstallVerificationFailed | MgRollbackFailed | MgLegacyCleanupConflict | MgAssessmentUnreadable
  | MgMalformedAssessment | MgVerificationUnreadable | MgMalformedVerification | MgLegacyCleanup uninstall_error

record 'd migration_env =
  mg_integration :: "'d integration_env"
  mg_display :: "uninstall_error \<Rightarrow> rstr"
  mg_assessment_to :: "migration_assessment \<Rightarrow> byte list option"
  mg_assessment_from :: "byte list \<Rightarrow> migration_assessment option"
  mg_unsigned_to :: "unsigned_verification \<Rightarrow> byte list option"
  mg_verification_to :: "migration_verification \<Rightarrow> byte list option"
  mg_verification_from :: "byte list \<Rightarrow> migration_verification option"
  mg_hmac :: "byte list \<Rightarrow> byte list \<Rightarrow> byte list"

definition cleanup_allowed :: "migration_assessment \<Rightarrow> bool" where
  "cleanup_allowed a \<longleftrightarrow> ma_state a = MigCleanupReady"

definition str_split_at_sign :: "rstr \<Rightarrow> (rstr \<times> rstr) option" where
  "str_split_at_sign s = (case dropWhile (\<lambda>c. c \<noteq> 64) s of
     [] \<Rightarrow> None | _ # rest \<Rightarrow> Some (takeWhile (\<lambda>c. c \<noteq> 64) s, rest))"

definition valid_plugin_selector :: "rstr \<Rightarrow> bool" where
  "valid_plugin_selector selector = (case str_split_at_sign selector of
     None \<Rightarrow> False
   | Some (name, marketplace) \<Rightarrow> name \<noteq> [] \<and> marketplace \<noteq> [] \<and> byte_len selector \<le> 128
       \<and> list_all is_identifier_byte (utf8_bytes name) \<and> list_all is_identifier_byte (utf8_bytes marketplace))"

definition verified_plugin_event :: "adapter_diagnostics \<Rightarrow> last_accepted option" where
  "verified_plugin_event d = (case pl_last_event (ad_plugin d) of
     None \<Rightarrow> None
   | Some e \<Rightarrow>
       if la_plugin_id e = pl_plugin_id (ad_plugin d) \<and> la_plugin_version e \<noteq> None
         \<and> la_plugin_version e = pl_plugin_version (ad_plugin d)
       then Some e else None)"

definition codex_support_blocker :: "plugin_support \<Rightarrow> bool \<Rightarrow> rstr option" where
  "codex_support_blocker support real_delivery = (case support of
     CodexSupported \<Rightarrow> None
   | CodexUnreviewed \<Rightarrow> if real_delivery then None else Some
       (lit ''The unreviewed Codex version requires a verified real plugin delivery before legacy cleanup.'')
   | CodexUnknown \<Rightarrow> Some (lit ''The installed Codex version could not be verified.''))"

text \<open>The state and the blockers, which \<^verbatim>\<open>migration_state\<close> may extend.\<close>

definition migration_state_of :: "adapter_diagnostics \<Rightarrow> migration_evidence \<Rightarrow> bool \<Rightarrow> bool \<Rightarrow> rstr list
    \<Rightarrow> migration_state \<times> rstr list" where
  "migration_state_of d ev real_delivery legacy_active blockers =
     (if blockers \<noteq> [] then (MigBlocked, blockers)
      else if pl_installed (ad_plugin d) \<noteq> Some True
      then if pl_availability (ad_plugin d) = AvailAvailable then (MigInstallReady, blockers)
        else (MigBlocked, blockers @ [lit ''The Lili plugin is not available from a configured Marketplace.''])
      else if pl_enabled (ad_plugin d) \<noteq> Some True \<or> \<not> me_hooks_reviewed ev \<or> \<not> real_delivery
      then (MigAwaitingHookReview, blockers)
      else if \<not> me_synthetic_delivery ev \<or> \<not> me_overlap_deduplication ev
      then (MigAwaitingVerification, blockers)
      else if legacy_active then (MigCleanupReady, blockers) else (MigPluginPrimary, blockers))"

definition next_actions_for :: "migration_state \<Rightarrow> rstr list" where
  "next_actions_for s = (case s of
     MigBlocked \<Rightarrow> [lit ''Preserve the current integration and resolve every reported blocker.'']
   | MigInstallReady \<Rightarrow> [lit ''Save this assessment, then install through the displayed validated helper while keeping legacy hooks active.'']
   | MigAwaitingHookReview \<Rightarrow> [lit ''Review and trust the exact Lili hook definitions in Codex, then produce one real lifecycle event.'']
   | MigAwaitingVerification \<Rightarrow> [lit ''Verify one synthetic event, one real plugin event, empty hook output, and overlap deduplication.'']
   | MigCleanupReady \<Rightarrow> [lit ''Save this assessment as `'' @ assessment_file_name @ lit ''`, then run the displayed cleanup command.'']
   | MigPluginPrimary \<Rightarrow> [lit ''Keep plugin and desktop versions within the supported compatibility range.''])"

definition legacy_active_of :: "adapter_diagnostics \<Rightarrow> bool" where
  "legacy_active_of d \<longleftrightarrow> pl_hook_source (ad_plugin d) = SourceLegacy \<or> pl_hook_source (ad_plugin d) = SourceOverlap"

definition real_delivery_of :: "adapter_diagnostics \<Rightarrow> bool" where
  "real_delivery_of d \<longleftrightarrow> verified_plugin_event d \<noteq> None \<and> pl_trust_state (ad_plugin d) = TrustedAtLastDelivery"

text \<open>The blockers in the order they are pushed; \<open>preview\<close> is what \<^verbatim>\<open>preview_uninstall\<close> said.\<close>

definition assessment_blockers :: "'d migration_env \<Rightarrow> adapter_diagnostics \<Rightarrow> rstr
    \<Rightarrow> (uninstall_error + uninstall_preview) option \<Rightarrow> rstr list" where
  "assessment_blockers env d selector preview =
     (if valid_plugin_selector selector then [] else [lit ''The plugin selector is invalid.''])
     @ (case codex_support_blocker (pl_codex_support (ad_plugin d)) (real_delivery_of d) of None \<Rightarrow> [] | Some b \<Rightarrow> [b])
     @ (if pl_installed (ad_plugin d) = Some True \<and> pl_ipc (ad_plugin d) \<noteq> IpcSupported
        then [lit ''The installed plugin and desktop IPC versions are incompatible.''] else [])
     @ (if (pl_installed (ad_plugin d) = Some True \<or> pl_availability (ad_plugin d) = AvailAvailable)
          \<and> pl_plugin_id (ad_plugin d) \<noteq> Some selector
        then [lit ''The discovered plugin does not match the selected Marketplace identity.''] else [])
     @ (case preview of
          Some (Inl e) \<Rightarrow> [lit ''Legacy provenance cannot be safely cleaned up: '' @ mg_display env e]
        | Some (Inr p) \<Rightarrow> if up_complete p then []
            else [lit ''Legacy provenance has conflicts that require manual resolution.'']
        | None \<Rightarrow> [])"

definition assess_plugin_migration :: "'d migration_env \<Rightarrow> disk \<Rightarrow> integration_inspection \<Rightarrow> adapter_diagnostics
    \<Rightarrow> rstr \<Rightarrow> migration_evidence \<Rightarrow> migration_assessment" where
  "assess_plugin_migration env disk inspection d selector ev =
     (let preview = (if legacy_active_of d
            then Some (preview_uninstall (mg_integration env) disk (ii_codex_home inspection)) else None);
          (state, blockers) = migration_state_of d ev (real_delivery_of d) (legacy_active_of d)
            (assessment_blockers env d selector preview) in
      \<lparr>ma_schema_version = plugin_migration_schema_version, ma_codex_home = ii_codex_home inspection,
       ma_state = state, ma_selector = selector,
       ma_verified_version = Option.bind (verified_plugin_event d) la_plugin_version,
       ma_verified_event_id = map_option la_event_id (verified_plugin_event d),
       ma_install_command = map lit [''lili'', ''integrate'', ''install'', ''--assessment''] @ [assessment_file_name],
       ma_rollback_command = map lit [''codex'', ''plugin'', ''remove''] @ [selector, lit ''--json''],
       ma_cleanup_command = map lit [''lili'', ''integrate'', ''cleanup'', ''--assessment''] @ [assessment_file_name],
       ma_blockers = blockers, ma_next_actions = next_actions_for state\<rparr>)"

section \<open>The host\<close>

text \<open>
  The operations of \<^verbatim>\<open>PluginLifecycleHost\<close>. \<open>lh_inspect\<close> and \<open>lh_evidence\<close> read the disk as well.
\<close>

record 'h lifecycle_host =
  lh_install :: "pet_path \<Rightarrow> rstr \<Rightarrow> 'h \<Rightarrow> (migration_error + unit) \<times> 'h"
  lh_inspect :: "disk \<Rightarrow> pet_path \<Rightarrow> rstr \<Rightarrow> 'h \<Rightarrow> integration_inspection \<times> 'h"
  lh_hooks_trusted :: "pet_path \<Rightarrow> rstr \<Rightarrow> 'h \<Rightarrow> bool \<times> 'h"
  lh_evidence :: "disk \<Rightarrow> pet_path \<Rightarrow> migration_assessment \<Rightarrow> 'h \<Rightarrow> bool \<times> 'h"
  lh_rollback :: "pet_path \<Rightarrow> rstr \<Rightarrow> 'h \<Rightarrow> (migration_error + unit) \<times> 'h"

definition install_precondition :: "plugin_diagnostics \<Rightarrow> rstr \<Rightarrow> bool" where
  "install_precondition p selector \<longleftrightarrow> pl_codex_support p = CodexSupported \<and> pl_availability p = AvailAvailable
     \<and> pl_plugin_id p = Some selector \<and> pl_installed p = Some False"

definition install_postcondition :: "plugin_diagnostics \<Rightarrow> rstr \<Rightarrow> bool" where
  "install_postcondition p selector \<longleftrightarrow> pl_availability p = AvailInstalled \<and> pl_installed p = Some True
     \<and> pl_enabled p = Some True \<and> pl_plugin_id p = Some selector \<and> pl_ipc p = IpcSupported"

definition rollback_then :: "'h lifecycle_host \<Rightarrow> pet_path \<Rightarrow> rstr \<Rightarrow> migration_error \<Rightarrow> 'h
    \<Rightarrow> (migration_error + 'a) \<times> 'h" where
  "rollback_then host home selector e h = (case lh_rollback host home selector h of
     (Inl _, h') \<Rightarrow> (Inl MgRollbackFailed, h')
   | (Inr _, h') \<Rightarrow> (Inl e, h'))"

text \<open>The command of the host changes files: \<open>disk_at h\<close> are the files when the host is in state \<open>h\<close>.\<close>

definition install_plugin_with_rollback :: "'h lifecycle_host \<Rightarrow> ('h \<Rightarrow> disk) \<Rightarrow> pet_path \<Rightarrow> migration_assessment \<Rightarrow> 'h
    \<Rightarrow> (migration_error + integration_inspection) \<times> 'h" where
  "install_plugin_with_rollback host disk_at home a h =
     (if ma_schema_version a \<noteq> plugin_migration_schema_version \<or> ma_state a \<noteq> MigInstallReady
        \<or> ma_codex_home a \<noteq> home \<or> ma_blockers a \<noteq> [] \<or> \<not> valid_plugin_selector (ma_selector a)
      then (Inl MgFailedPrecondition, h)
      else case lh_inspect host (disk_at h) home (ma_selector a) h of (before, h1) \<Rightarrow>
        if \<not> install_precondition (ad_plugin (ii_codex_adapter before)) (ma_selector a)
        then (Inl MgFailedPrecondition, h1)
        else case lh_install host home (ma_selector a) h1 of
          (Inl _, h2) \<Rightarrow> rollback_then host home (ma_selector a) MgPluginCommandFailed h2
        | (Inr _, h2) \<Rightarrow> (case lh_inspect host (disk_at h2) home (ma_selector a) h2 of (after, h3) \<Rightarrow>
            if install_postcondition (ad_plugin (ii_codex_adapter after)) (ma_selector a) then (Inr after, h3)
            else rollback_then host home (ma_selector a) MgInstallVerificationFailed h3))"

record plugin_removal_outcome =
  ro_selector :: rstr
  ro_legacy_changed :: bool
  ro_desktop_changed :: bool
  ro_data_changed :: bool

definition remove_plugin_with_host :: "'h lifecycle_host \<Rightarrow> pet_path \<Rightarrow> rstr \<Rightarrow> 'h
    \<Rightarrow> (migration_error + plugin_removal_outcome) \<times> 'h" where
  "remove_plugin_with_host host home selector h =
     (if \<not> valid_plugin_selector selector then (Inl MgInvalidSelector, h)
      else io_then (lh_rollback host home selector h) (\<lambda>_ h.
        (Inr \<lparr>ro_selector = selector, ro_legacy_changed = False, ro_desktop_changed = False,
           ro_data_changed = False\<rparr>, h)))"

definition rollback_plugin :: "'h lifecycle_host \<Rightarrow> pet_path \<Rightarrow> rstr \<Rightarrow> 'h \<Rightarrow> (migration_error + unit) \<times> 'h" where
  "rollback_plugin host home selector h =
     io_then (remove_plugin_with_host host home selector h) (\<lambda>_ h. (Inr (), h))"

section \<open>Removing the old hooks\<close>

definition cleanup_request_ok :: "pet_path \<Rightarrow> migration_assessment \<Rightarrow> bool" where
  "cleanup_request_ok home a \<longleftrightarrow> ma_schema_version a = plugin_migration_schema_version \<and> cleanup_allowed a
     \<and> ma_codex_home a = home \<and> ma_blockers a = [] \<and> valid_plugin_selector (ma_selector a)
     \<and> ma_verified_version a \<noteq> None \<and> ma_verified_event_id a \<noteq> None"

definition cleanup_current_ok :: "pet_path \<Rightarrow> migration_assessment \<Rightarrow> integration_inspection \<Rightarrow> bool" where
  "cleanup_current_ok home a current \<longleftrightarrow> (let p = ad_plugin (ii_codex_adapter current); accepted = pl_last_event p in
     ii_codex_home current = home
     \<and> pl_codex_support p \<in> {CodexSupported, CodexUnreviewed}
     \<and> pl_availability p = AvailInstalled
     \<and> pl_plugin_id p = Some (ma_selector a)
     \<and> pl_installed p = Some True \<and> pl_enabled p = Some True
     \<and> ma_verified_version a = pl_plugin_version p
     \<and> Option.bind accepted la_plugin_version = ma_verified_version a
     \<and> map_option la_event_id accepted = ma_verified_event_id a
     \<and> pl_trust_state p = TrustedAtLastDelivery
     \<and> pl_ipc p = IpcSupported \<and> pl_hook_source p = SourceOverlap)"

definition cleanup_legacy_after_verification_with_host :: "'d migration_env \<Rightarrow> 'h lifecycle_host \<Rightarrow> pet_path
    \<Rightarrow> migration_assessment \<Rightarrow> 'h \<Rightarrow> io_state \<Rightarrow> (migration_error + uninstall_outcome) \<times> 'h \<times> io_state" where
  "cleanup_legacy_after_verification_with_host env host home a h io =
     (if \<not> cleanup_request_ok home a then (Inl MgFailedPrecondition, h, io)
      else case lh_evidence host (io_disk io) home a h of (evidence, h1) \<Rightarrow>
      if \<not> evidence then (Inl MgFailedPrecondition, h1, io)
      else case lh_hooks_trusted host home (ma_selector a) h1 of (trusted, h2) \<Rightarrow>
      if \<not> trusted then (Inl MgFailedPrecondition, h2, io)
      else case lh_inspect host (io_disk io) home (ma_selector a) h2 of (current, h3) \<Rightarrow>
      if \<not> cleanup_current_ok home a current then (Inl MgFailedPrecondition, h3, io)
      else case preview_uninstall (mg_integration env) (io_disk io) home of
        Inl e \<Rightarrow> (Inl (MgLegacyCleanup e), h3, io)
      | Inr preview \<Rightarrow>
          if \<not> up_complete preview then (Inl MgLegacyCleanupConflict, h3, io)
          else (case uninstall (mg_integration env) home io of
            (Inl e, io') \<Rightarrow> (Inl (MgLegacyCleanup e), h3, io')
          | (Inr out, io') \<Rightarrow> (if uo_complete out then Inr out else Inl MgLegacyCleanupConflict, h3, io')))"

section \<open>The verification file\<close>

definition verification_path :: "pet_path \<Rightarrow> pet_path" where
  "verification_path home = path_join (path_join home (lit ''lili'')) verification_file_name"

definition assessment_sha256 :: "'d migration_env \<Rightarrow> migration_assessment \<Rightarrow> migration_error + rstr" where
  "assessment_sha256 env a = rbind (ok_or MgMalformedAssessment (mg_assessment_to env a)) (\<lambda>payload.
     Inr (sha256_hex (mg_integration env) payload))"

text \<open>A file that is a regular one of at most \<open>limit\<close> bytes.\<close>

definition read_regular :: "disk \<Rightarrow> pet_path \<Rightarrow> nat \<Rightarrow> byte list option" where
  "read_regular d p limit = (case d p of
     None \<Rightarrow> None
   | Some n \<Rightarrow> if dn_symlink n then None
       else (case dn_target n of TargetFile c \<Rightarrow> if limit < length c then None else Some c | _ \<Rightarrow> None))"

definition load_plugin_migration_assessment :: "'d migration_env \<Rightarrow> disk \<Rightarrow> pet_path
    \<Rightarrow> migration_error + migration_assessment" where
  "load_plugin_migration_assessment env d p =
     rbind (ok_or MgAssessmentUnreadable (read_regular d p max_assessment_bytes)) (\<lambda>payload.
       ok_or MgMalformedAssessment (mg_assessment_from env payload))"

text \<open>\<open>private\<close>: no permission for others on the file.\<close>

definition load_plugin_migration_verification :: "'d migration_env \<Rightarrow> bool \<Rightarrow> disk \<Rightarrow> pet_path
    \<Rightarrow> migration_error + migration_verification" where
  "load_plugin_migration_verification env private d p =
     rbind (ok_or MgVerificationUnreadable (read_regular d p max_verification_bytes)) (\<lambda>payload.
       if \<not> private then Inl MgVerificationUnreadable
       else ok_or MgMalformedVerification (mg_verification_from env payload))"

definition unsigned_of_verification :: "migration_verification \<Rightarrow> unsigned_verification" where
  "unsigned_of_verification v = \<lparr>uv_schema_version = uv_schema_version v, uv_instance_id = uv_instance_id v,
     uv_assessment_sha = uv_assessment_sha v, uv_synthetic_event_id = uv_synthetic_event_id v,
     uv_hooks_reviewed = uv_hooks_reviewed v, uv_synthetic_delivery = uv_synthetic_delivery v,
     uv_overlap_deduplication = uv_overlap_deduplication v\<rparr>"

definition write_private_verification :: "pet_path \<Rightarrow> byte list \<Rightarrow> io_state \<Rightarrow> (migration_error + unit) \<times> io_state" where
  "write_private_verification p payload io =
     (if \<not> path_has_parent p then (Inl MgVerificationUnreadable, io)
      else io_effect MgVerificationUnreadable (\<lambda>d. d(p \<mapsto> regular_file payload)) io)"

definition save_plugin_migration_verification :: "'d migration_env \<Rightarrow> pet_path \<Rightarrow> migration_assessment
    \<Rightarrow> credentials \<Rightarrow> rstr \<Rightarrow> io_state \<Rightarrow> (migration_error + pet_path) \<times> io_state" where
  "save_plugin_migration_verification env home a c synthetic_event_id io =
     (if \<not> cleanup_allowed a \<or> ma_codex_home a \<noteq> home \<or> ma_verified_version a = None
        \<or> ma_verified_event_id a = None \<or> synthetic_event_id = [] \<or> 128 < byte_len synthetic_event_id
        \<or> has_control synthetic_event_id
      then (Inl MgFailedPrecondition, io)
      else case rbind (assessment_sha256 env a) (\<lambda>sha.
          let unsigned = \<lparr>uv_schema_version = verification_schema_version, uv_instance_id = cd_instance_id c,
                uv_assessment_sha = sha, uv_synthetic_event_id = synthetic_event_id, uv_hooks_reviewed = True,
                uv_synthetic_delivery = True, uv_overlap_deduplication = True\<rparr> in
          rbind (ok_or MgMalformedVerification (mg_unsigned_to env unsigned)) (\<lambda>payload.
          rbind (map_err (\<lambda>_. MgMalformedVerification)
            (authenticate_evidence (mg_hmac env) c migration_evidence_domain payload)) (\<lambda>authentication.
          rbind (ok_or MgMalformedVerification (mg_verification_to env
            (unsigned_verification.extend unsigned \<lparr>mv_authentication = authentication\<rparr>))) (\<lambda>encoded.
          if max_verification_bytes < length (encoded @ [10]) then Inl MgMalformedVerification
          else Inr (encoded @ [10]))))) of
        Inl e \<Rightarrow> (Inl e, io)
      | Inr encoded \<Rightarrow> io_then (write_private_verification (verification_path home) encoded io)
          (\<lambda>_ io. (Inr (verification_path home), io)))"

text \<open>\<open>cred\<close> is what loading the credentials of the running desktop gave.\<close>

definition verify_saved_plugin_migration_evidence :: "'d migration_env \<Rightarrow> credential_record option \<Rightarrow> bool \<Rightarrow> disk
    \<Rightarrow> pet_path \<Rightarrow> migration_assessment \<Rightarrow> bool" where
  "verify_saved_plugin_migration_evidence env cred private d home a =
     (case Option.bind cred (\<lambda>r. result_ok (record_credentials r)) of
        None \<Rightarrow> False
      | Some c \<Rightarrow> (case load_plugin_migration_verification env private d (verification_path home) of
          Inl _ \<Rightarrow> False
        | Inr v \<Rightarrow> (case assessment_sha256 env a of
            Inl _ \<Rightarrow> False
          | Inr expected \<Rightarrow>
              if uv_schema_version v \<noteq> verification_schema_version \<or> uv_instance_id v \<noteq> cd_instance_id c
                \<or> uv_assessment_sha v \<noteq> expected \<or> uv_synthetic_event_id v = []
                \<or> \<not> uv_hooks_reviewed v \<or> \<not> uv_synthetic_delivery v \<or> \<not> uv_overlap_deduplication v
              then False
              else (case mg_unsigned_to env (unsigned_of_verification v) of
                  None \<Rightarrow> False
                | Some payload \<Rightarrow> is_ok (verify_evidence (mg_hmac env) c migration_evidence_domain payload
                    (mv_authentication v))))))"

section \<open>The host Lili uses\<close>

definition codex_plugin_command :: "pet_path \<Rightarrow> rstr \<Rightarrow> rstr \<Rightarrow> migration_error + rstr list" where
  "codex_plugin_command home action selector =
     (if \<not> valid_plugin_selector selector \<or> action \<notin> {lit ''add'', lit ''remove''} then Inl MgInvalidSelector
      else Inr [lit ''codex'', lit ''plugin'', action, selector, lit ''--json''])"

text \<open>
  What answers: \<open>cw_run\<close> runs a command with \<^verbatim>\<open>CODEX_HOME\<close> set and says whether it succeeded (\<open>None\<close>: it
  did not start), \<open>cw_inspect\<close> is \<^verbatim>\<open>inspect_plugin\<close>, \<open>cw_trusted\<close> is \<^verbatim>\<open>plugin_hooks_are_trusted\<close>,
  \<open>cw_credentials\<close> the credential record that loads, \<open>cw_private\<close> the access rights of the verification file.
\<close>

record 'h codex_world =
  cw_run :: "pet_path \<Rightarrow> rstr list \<Rightarrow> 'h \<Rightarrow> bool option \<times> 'h"
  cw_inspect :: "disk \<Rightarrow> pet_path \<Rightarrow> rstr \<Rightarrow> 'h \<Rightarrow> integration_inspection"
  cw_trusted :: "pet_path \<Rightarrow> rstr \<Rightarrow> 'h \<Rightarrow> bool"
  cw_credentials :: "'h \<Rightarrow> credential_record option"
  cw_private :: "'h \<Rightarrow> bool"

definition run_codex_plugin_command :: "'h codex_world \<Rightarrow> rstr \<Rightarrow> pet_path \<Rightarrow> rstr \<Rightarrow> 'h
    \<Rightarrow> (migration_error + unit) \<times> 'h" where
  "run_codex_plugin_command w action home selector h = (case codex_plugin_command home action selector of
     Inl e \<Rightarrow> (Inl e, h)
   | Inr command \<Rightarrow> (case cw_run w home command h of
       (Some True, h') \<Rightarrow> (Inr (), h')
     | (_, h') \<Rightarrow> (Inl MgPluginCommandFailed, h')))"

definition codex_lifecycle_host :: "'d migration_env \<Rightarrow> 'h codex_world \<Rightarrow> 'h lifecycle_host" where
  "codex_lifecycle_host env w =
     \<lparr>lh_install = run_codex_plugin_command w (lit ''add''),
      lh_inspect = (\<lambda>d home selector h. (cw_inspect w d home selector h, h)),
      lh_hooks_trusted = (\<lambda>home selector h. (cw_trusted w home selector h, h)),
      lh_evidence = (\<lambda>d home a h.
        (verify_saved_plugin_migration_evidence env (cw_credentials w h) (cw_private w h) d home a, h)),
      lh_rollback = run_codex_plugin_command w (lit ''remove'')\<rparr>"

end
