(* ===== verification/Integration_Freed.thy ===== *)
theory Integration_Freed
  imports Integration_Round_Trip
begin

text \<open>
  What a complete removal leaves in the two configuration files, whatever they held: the notification
  command Lili had recorded is gone, exactly Lili's handlers are taken out of the hooks, and no marker of
  Lili is left among them.
\<close>

section \<open>The hooks without Lili's handlers\<close>

lemma group_hooks_strip:
  "group_hooks (strip_group g) = map_option (filter (\<lambda>h. \<not> is_lili_handler h)) (group_hooks g)"
proof (cases g)
  case (JObject m)
  then show ?thesis
    by (cases "Option.bind (map_of m (lit ''hooks'')) json_as_array") (simp_all add: group_hooks_def)
qed (simp_all add: group_hooks_def)

lemma group_handlers_strip:
  "group_handlers (map strip_group gs) = filter (\<lambda>h. \<not> is_lili_handler h) (group_handlers gs)"
  by (induction gs) (auto simp: group_handlers_concat map_filter_def group_hooks_strip)

lemma strip_handlers: "hooks_handlers (strip_hooks hooks) = filter (\<lambda>h. \<not> is_lili_handler h) (hooks_handlers hooks)"
proof (induction hooks)
  case (Cons e hooks)
  have "(case strip_groups (snd e) of JArray gs \<Rightarrow> group_handlers gs | _ \<Rightarrow> [])
      = filter (\<lambda>h. \<not> is_lili_handler h) (case snd e of JArray gs \<Rightarrow> group_handlers gs | _ \<Rightarrow> [])"
    by (cases "snd e") (simp_all add: group_handlers_kept group_handlers_strip)
  then have "hooks_handlers (strip_hooks (e # hooks)) = filter (\<lambda>h. \<not> is_lili_handler h)
      (case snd e of JArray gs \<Rightarrow> group_handlers gs | _ \<Rightarrow> []) @ hooks_handlers (strip_hooks hooks)"
    by (cases "strip_groups (snd e) = JArray []")
      (auto simp: strip_hooks_def hooks_handlers_concat group_handlers_concat map_filter_def)
  with Cons show ?case by (simp add: hooks_handlers_concat)
qed (simp add: strip_hooks_def hooks_handlers_concat)

text \<open>
  The markers: in a layout the removal accepts, every marker sits in one of Lili's handlers, so none is
  left without them.
\<close>

lemma hooks_key_unmarked [simp]: "\<not> has_lili_id (lit ''hooks'')"
  by (simp add: has_lili_id_def lili_integration_id_def lit_def)

lemma strip_group_clean:
  assumes "group_removable g" "json_wf g"
  shows "\<not> value_contains_marker (strip_group g)"
proof (cases g)
  case (JObject m)
  have wf: "bt_wf m" using assms(2) JObject by simp
  show ?thesis
  proof (cases "Option.bind (map_of m (lit ''hooks'')) json_as_array")
    case None
    have "e \<in> set m \<Longrightarrow> fst e = lit ''hooks'' \<Longrightarrow> json_as_array (snd e) = None" for e
      using None map_of_bt_wf [OF wf, of "lit ''hooks''" "snd e"] by (cases e) auto
    with assms(1) have "\<not> value_contains_marker g"
      unfolding group_removable_def JObject by (fastforce simp: list_all_iff split: if_splits)
    with None JObject show ?thesis by simp
  next
    case (Some hs)
    then have mem: "(lit ''hooks'', JArray hs) \<in> set m"
      by (auto simp: bind_eq_Some_conv elim!: json_as_array.elims dest: map_of_SomeD)
    have hs: "\<not> value_contains_marker h \<or> is_lili_handler h" if "h \<in> set hs" for h
      using assms(1) mem that unfolding group_removable_def JObject by (fastforce simp: list_all_iff split: if_splits)
    have rest: "\<not> has_lili_id (fst e) \<and> \<not> value_contains_marker (snd e)" if "e \<in> set m" "fst e \<noteq> lit ''hooks''" for e
      using assms(1) that unfolding group_removable_def JObject by (fastforce simp: list_all_iff split: if_splits)
    show ?thesis using Some JObject hs rest by (auto simp: set_bt_insert [OF wf])
  qed
qed (use assms(1) in \<open>simp_all add: group_removable_def\<close>)

lemma layout_group:
  assumes "marker_layout_is_removable hooks" "json_wf (JObject hooks)" "e \<in> set hooks"
  shows "\<not> has_lili_id (fst e)" "snd e = JArray gs \<Longrightarrow> g \<in> set gs \<Longrightarrow> group_removable g"
    "snd e = JArray gs \<Longrightarrow> g \<in> set gs \<Longrightarrow> json_wf g" "json_as_array (snd e) = None \<Longrightarrow> \<not> value_contains_marker (snd e)"
proof -
  have layout: "\<not> has_lili_id (fst e) \<and> (\<not> value_contains_marker (snd e)
      \<or> (case json_as_array (snd e) of None \<Rightarrow> False | Some gs \<Rightarrow> list_all group_removable gs))"
    using assms(1,3) by (cases e) (auto simp: marker_layout_is_removable_def list_all_iff)
  then show "\<not> has_lili_id (fst e)" "json_as_array (snd e) = None \<Longrightarrow> \<not> value_contains_marker (snd e)" by auto
  show "group_removable g" if "snd e = JArray gs" "g \<in> set gs"
  proof (cases "value_contains_marker g")
    case True
    with layout that have "list_all group_removable gs" by auto
    with that(2) show ?thesis by (simp add: list_all_iff)
  qed (simp add: group_removable_def)
  have "json_wf (snd e)" using assms(2,3) by simp
  then show "json_wf g" if "snd e = JArray gs" "g \<in> set gs" using that by simp
qed

lemma strip_hooks_clean:
  assumes "marker_layout_is_removable hooks" "json_wf (JObject hooks)"
  shows "\<not> value_contains_marker (JObject (strip_hooks hooks))"
proof -
  have "\<not> has_lili_id (fst e) \<and> \<not> value_contains_marker (strip_groups (snd e))" if e: "e \<in> set hooks" for e
    using layout_group [OF assms e] strip_group_clean by (cases "snd e") auto
  then show ?thesis by (auto simp: strip_hooks_def)
qed

lemma no_handler_no_marker:
  assumes "marker_layout_is_removable hooks" "json_wf (JObject hooks)" "\<not> list_ex is_lili_handler (hooks_handlers hooks)"
  shows "\<not> value_contains_marker (JObject hooks)"
proof -
  have "\<not> has_lili_id (fst e) \<and> \<not> value_contains_marker (snd e)" if e: "e \<in> set hooks" for e
  proof (cases "snd e")
    case (JArray gs)
    have "\<not> value_contains_marker g" if g: "g \<in> set gs" for g
    proof -
      have "group_removable g" "json_wf g" using layout_group(2,3) [OF assms(1,2) e JArray g] by simp_all
      then have "\<not> value_contains_marker (strip_group g)" by (rule strip_group_clean)
      moreover have "strip_group g = g"
      proof (cases g)
        case (JObject m)
        show ?thesis
        proof (cases "Option.bind (map_of m (lit ''hooks'')) json_as_array")
          case (Some hs)
          then have "group_hooks g = Some hs" by (simp add: JObject group_hooks_def)
          then have "set hs \<subseteq> set (hooks_handlers hooks)"
            using e g JArray by (cases e) (force simp: hooks_handlers_iff)
          then have "filter (\<lambda>h. \<not> is_lili_handler h) hs = hs" using assms(3) by (auto simp: list_ex_iff filter_id_conv)
          moreover have "map_of m (lit ''hooks'') = Some (JArray hs)"
            using Some by (auto simp: bind_eq_Some_conv elim: json_as_array.elims)
          ultimately show ?thesis using Some \<open>json_wf g\<close> JObject by (simp add: bt_insert_same)
        qed (simp add: JObject)
      qed simp_all
      ultimately show ?thesis by simp
    qed
    with layout_group(1) [OF assms(1,2) e] JArray show ?thesis by simp
  qed (use layout_group(1,4) [OF assms(1,2) e] in auto)
  then show ?thesis by auto
qed

section \<open>The two files after a complete removal\<close>

text \<open>
  The configuration: if its \<^verbatim>\<open>notify\<close> is the recorded command of Lili, the file Lili had created is deleted
  when it is unchanged, and otherwise rewritten with the previous command restored or \<^verbatim>\<open>notify\<close> removed; any
  other \<^verbatim>\<open>notify\<close> is not Lili's and stays.
\<close>

definition config_freed :: "'d integration_env \<Rightarrow> provenance \<Rightarrow> file_target \<Rightarrow> file_target \<Rightarrow> bool" where
  "config_freed env v before after = (case before of
     TargetMissing \<Rightarrow> after = TargetMissing
   | TargetUnreadable \<Rightarrow> False
   | TargetFile c \<Rightarrow> (case Option.bind (from_utf8 c) (tm_parse (ig_toml env)) of
       None \<Rightarrow> False
     | Some doc \<Rightarrow>
         if tm_notify (ig_toml env) doc = NotifyArgv (pv_notify_argv v)
         then after = (if fp_created (pv_config v) \<and> pv_previous_notify_argv v = None
             \<and> sha256_hex env c = fp_after_sha (pv_config v) then TargetMissing
           else TargetFile (utf8_bytes (tm_render (ig_toml env) (case pv_previous_notify_argv v of
             Some previous \<Rightarrow> tm_set_notify (ig_toml env) previous doc | None \<Rightarrow> tm_remove_notify (ig_toml env) doc))))
         else after = before \<and> (\<forall>a. tm_notify (ig_toml env) doc = NotifyArgv a \<longrightarrow> \<not> list_ex has_lili_id a)))"

text \<open>
  The hooks: without a handler of Lili the file stays; otherwise each is one that was installed, and the file
  Lili had created is deleted when it is unchanged, or rewritten with exactly the other handlers. No
  marker of Lili is left in a parsed object of hooks.
\<close>

definition hooks_freed :: "'d integration_env \<Rightarrow> provenance \<Rightarrow> file_target \<Rightarrow> file_target \<Rightarrow> bool" where
  "hooks_freed env v before after = (case before of
     TargetMissing \<Rightarrow> after = TargetMissing
   | TargetUnreadable \<Rightarrow> False
   | TargetFile c \<Rightarrow> (case ig_json env c of
       None \<Rightarrow> False
     | Some doc \<Rightarrow> (case Option.bind (json_get doc (lit ''hooks'')) json_as_object of
         None \<Rightarrow> after = before \<and> \<not> bytes_contain_marker c
       | Some hooks \<Rightarrow>
           if \<not> list_ex is_lili_handler (hooks_handlers hooks)
           then after = before \<and> (json_wf doc \<longrightarrow> \<not> value_contains_marker (JObject hooks))
           else (\<forall>h \<in> set (hooks_handlers hooks). is_lili_handler h \<longrightarrow> matches_hook_provenance v h)
             \<and> (if fp_created (pv_hooks v) \<and> sha256_hex env c = fp_after_sha (pv_hooks v) then after = TargetMissing
                else \<exists>m rest. doc = JObject m
                  \<and> after = TargetFile (pretty_file env (JObject (bt_insert (lit ''hooks'') (JObject rest) m)))
                  \<and> hooks_handlers rest = filter (\<lambda>h. \<not> is_lili_handler h) (hooks_handlers hooks)
                  \<and> (json_wf doc \<longrightarrow> \<not> value_contains_marker (JObject rest))))))"

definition mutated :: "file_mutation \<Rightarrow> file_target \<Rightarrow> file_target" where
  "mutated mut before = (case mut of MutUnchanged \<Rightarrow> before | MutWrite c \<Rightarrow> TargetFile c | MutRemove \<Rightarrow> TargetMissing)"

lemma config_plan_frees:
  assumes "read_option UnIo before = Inr contents" "plan_config_uninstall env v contents = Inr (mut, restored, True, conflicts)"
  shows "config_freed env v before (mutated mut before)"
proof (cases before)
  case (TargetFile c)
  with assms obtain t doc where doc: "from_utf8 c = Some t" "tm_parse (ig_toml env) t = Some doc"
    by (auto simp: plan_config_uninstall_def rbind_Inr_iff ok_or_Inr_iff)
  with assms TargetFile show ?thesis
    by (cases "tm_notify (ig_toml env) doc")
      (auto simp: plan_config_uninstall_def config_freed_def mutated_def ok_or_def split: if_splits option.splits)
qed (use assms in \<open>auto simp: plan_config_uninstall_def config_freed_def mutated_def\<close>)

lemma hooks_plan_frees:
  assumes "read_option UnIo before = Inr contents" "plan_hooks_uninstall env v contents = Inr (mut, removed, True, conflicts)"
  shows "hooks_freed env v before (mutated mut before)"
proof (cases before)
  case (TargetFile c)
  with assms obtain doc where doc: "ig_json env c = Some doc"
    by (auto simp: plan_hooks_uninstall_def rbind_Inr_iff ok_or_Inr_iff)
  show ?thesis
  proof (cases "Option.bind (json_get doc (lit ''hooks'')) json_as_object")
    case None
    with assms TargetFile doc show ?thesis
      by (auto simp: plan_hooks_uninstall_def hooks_freed_def mutated_def ok_or_def Let_def)
  next
    case (Some hooks)
    then obtain m where m: "doc = JObject m" "map_of m (lit ''hooks'') = Some (JObject hooks)"
      by (cases doc) (auto simp: bind_eq_Some_conv elim!: json_as_object.elims)
    have layout: "marker_layout_is_removable hooks"
      and ours: "\<forall>h \<in> set (hooks_handlers hooks). is_lili_handler h \<longrightarrow> matches_hook_provenance v h"
      using assms TargetFile doc Some
      by (auto simp: plan_hooks_uninstall_def ok_or_def list_ex_iff Let_def split: if_splits)
    have "(lit ''hooks'', JObject hooks) \<in> set m" using m(2) by (rule map_of_SomeD)
    with m(1) have wf: "json_wf (JObject hooks)" if "json_wf doc" using that by fastforce
    show ?thesis
    proof (cases "list_ex is_lili_handler (hooks_handlers hooks)")
      case False
      then have "length (filter is_lili_handler (hooks_handlers hooks)) = 0" by (simp add: filter_empty_conv list_ex_iff)
      with assms TargetFile doc Some layout ours False no_handler_no_marker [OF layout wf]
      show ?thesis by (auto simp: plan_hooks_uninstall_def hooks_freed_def mutated_def ok_or_def Let_def split: if_splits)
    next
      case True
      then have some: "length (filter is_lili_handler (hooks_handlers hooks)) \<noteq> 0" by (simp add: filter_empty_conv list_ex_iff)
      have plan: "mut = (if fp_created (pv_hooks v) \<and> sha256_hex env c = fp_after_sha (pv_hooks v) then MutRemove
          else MutWrite (pretty_file env (JObject (bt_insert (lit ''hooks'') (JObject (strip_hooks hooks)) m))))"
        using assms TargetFile doc Some m(1) layout ours some
        by (auto simp: plan_hooks_uninstall_def ok_or_def Let_def split: if_splits)
      show ?thesis
        unfolding hooks_freed_def TargetFile mutated_def plan
        using doc Some m(1) True ours strip_handlers [of hooks] strip_hooks_clean [OF layout wf]
        by (simp del: value_contains_marker.simps bt_insert.simps) blast
    qed
  qed
qed (use assms in \<open>auto simp: plan_hooks_uninstall_def hooks_freed_def mutated_def\<close>)

text \<open>The removal as a whole, when its plan is complete and no file operation fails.\<close>

lemma uninstall_frees:
  assumes "plan_uninstall env (io_disk io) home = Inr u" "un_complete u" "io_outcomes io = []"
  obtains out io' c v where "uninstall env home io = (Inr out, io')" "uo_complete out"
    "only_at {path_join home config_file_name, path_join home hooks_file_name, provenance_path home} io io'"
    "disk_read (io_disk io) (provenance_path home) = TargetFile c" "ig_provenance_from env c = Some v"
    "disk_read (io_disk io') (provenance_path home) = TargetMissing"
    "config_freed env v (disk_read (io_disk io) (path_join home config_file_name))
       (disk_read (io_disk io') (path_join home config_file_name))"
    "hooks_freed env v (disk_read (io_disk io) (path_join home hooks_file_name))
       (disk_read (io_disk io') (path_join home hooks_file_name))"
proof -
  let ?config = "disk_read (io_disk io) (path_join home config_file_name)" and ?hooks = "disk_read (io_disk io) (path_join home hooks_file_name)"
  obtain c v config hooks m1 r1 c1 k1 m2 r2 c2 k2 where plan:
    "disk_read (io_disk io) (provenance_path home) = TargetFile c" "ig_provenance_from env c = Some v"
    "read_option UnIo ?config = Inr config" "read_option UnIo ?hooks = Inr hooks"
    "plan_config_uninstall env v config = Inr (m1, r1, c1, k1)" "plan_hooks_uninstall env v hooks = Inr (m2, r2, c2, k2)"
    "un_config_mutation u = m1" "un_hooks_mutation u = m2" "un_complete u = (c1 \<and> c2)"
    using assms(1) by (auto simp: plan_uninstall_def read_required_bounded_def rbind_Inr_iff ok_or_Inr_iff
        split: file_target.splits if_splits)
  then have c12: "c1" "c2" using assms(2) by simp_all
  obtain out io' where run: "uninstall env home io = (Inr out, io')" "uo_complete out"
    "only_at {path_join home config_file_name, path_join home hooks_file_name, provenance_path home} io io'"
    "disk_read (io_disk io') (provenance_path home) = TargetMissing"
    "disk_read (io_disk io') (path_join home config_file_name) = mutated m1 ?config"
    "disk_read (io_disk io') (path_join home hooks_file_name) = mutated m2 ?hooks"
    by (rule uninstall_completes [OF assms(1-3)]) (simp add: mutated_def plan(7,8))
  show thesis
    by (rule that [OF run(1-3) plan(1,2) run(4)])
      (use run(5,6) c12 plan(3-6) in \<open>auto intro: config_plan_frees hooks_plan_frees\<close>)
qed

end
