(* ===== verification/Migration_Properties.thy ===== *)
theory Migration_Properties
  imports Migration Integration_Freed
begin

text \<open>
  Properties of the move to the Lili plugin: the old hooks are removed only after an authenticated
  verification, a ready assessment can be carried through, and a failed installation of the plugin is
  undone.
\<close>

section \<open>The preview\<close>

text \<open>The preview finds what the removal will find.\<close>

lemma preview_plan:
  "preview_uninstall env d home = Inr p \<longleftrightarrow> (\<exists>u. plan_uninstall env d home = Inr u
     \<and> p = \<lparr>up_complete = un_complete u, up_restored_notify = un_restored u,
            up_removed_hook_handlers = un_removed u, up_conflicts = un_conflicts u\<rparr>)"
  by (auto simp: preview_uninstall_def plan_uninstall_def rbind_Inr_iff split: prod.splits)

lemma plan_uninstall_frame:
  assumes "\<And>p. p \<in> {path_join home config_file_name, path_join home hooks_file_name, provenance_path home} \<Longrightarrow> d' p = d p"
  shows "plan_uninstall env d' home = plan_uninstall env d home"
  using assms by (simp add: plan_uninstall_def read_required_bounded_def reject_symbolic_link_def disk_read_def is_symlink_def)

lemma verification_path_differs [simp]:
  "path_join home config_file_name \<noteq> verification_path home" "path_join home hooks_file_name \<noteq> verification_path home"
  "provenance_path home \<noteq> verification_path home"
  by (simp_all add: config_file_name_def hooks_file_name_def lit_def provenance_path_def path_join_def
      verification_path_def verification_file_name_def provenance_file_name_def)

section \<open>The verification\<close>

text \<open>What an accepted verification file establishes.\<close>

definition verification_authentic :: "'d migration_env \<Rightarrow> credentials \<Rightarrow> disk \<Rightarrow> pet_path \<Rightarrow> migration_assessment \<Rightarrow> bool" where
  "verification_authentic env c d home a \<longleftrightarrow> (\<exists>content v encoded payload.
     d (verification_path home) = Some (regular_file content) \<and> mg_verification_from env content = Some v
     \<and> mg_assessment_to env a = Some encoded
     \<and> uv_assessment_sha v = sha256_hex (mg_integration env) encoded \<and> uv_instance_id v = cd_instance_id c
     \<and> uv_hooks_reviewed v \<and> uv_synthetic_delivery v \<and> uv_overlap_deduplication v
     \<and> mg_unsigned_to env (unsigned_of_verification v) = Some payload
     \<and> decode_hex_array mac_bytes (mv_authentication v)
       = Some (mg_hmac env (cd_secret c) (evidence_signing_bytes migration_evidence_domain payload)))"

lemma read_regular_Some:
  "Migration.read_regular d p limit = Some c \<longleftrightarrow> d p = Some (regular_file c) \<and> length c \<le> limit"
  by (auto simp: Migration.read_regular_def regular_file_def split: option.splits file_target.splits)

lemma verified_authentic:
  assumes "verify_saved_plugin_migration_evidence env cred private d home a"
  obtains c where "Option.bind cred (\<lambda>r. result_ok (record_credentials r)) = Some c"
    "verification_authentic env c d home a"
  using assms
  by (auto simp: verify_saved_plugin_migration_evidence_def load_plugin_migration_verification_def
      assessment_sha256_def rbind_Inr_iff read_regular_Some is_ok_iff verify_evidence_def verification_authentic_def
      split: option.splits sum.splits if_splits)

lemma saved_verifies:
  assumes "save_plugin_migration_verification env home a c event_id io = (Inr path, io1)"
    and "\<And>v b. mg_verification_to env v = Some b \<Longrightarrow> mg_verification_from env (b @ [10]) = Some v"
    and "\<And>k b. length (mg_hmac env k b) = mac_bytes"
    and "cred = Some r" "record_credentials r = Inr c"
  shows "verify_saved_plugin_migration_evidence env cred True (io_disk io1) home a"
    "\<And>p. p \<noteq> verification_path home \<Longrightarrow> io_disk io1 p = io_disk io p"
    "cleanup_allowed a" "ma_codex_home a = home"
proof -
  obtain sha payload auth encoded where s: "assessment_sha256 env a = Inr sha" 
    "mg_unsigned_to env \<lparr>uv_schema_version = verification_schema_version, uv_instance_id = cd_instance_id c,
       uv_assessment_sha = sha, uv_synthetic_event_id = event_id, uv_hooks_reviewed = True,
       uv_synthetic_delivery = True, uv_overlap_deduplication = True\<rparr> = Some payload"
    "authenticate_evidence (mg_hmac env) c migration_evidence_domain payload = Inr auth"
    "mg_verification_to env \<lparr>uv_schema_version = verification_schema_version, uv_instance_id = cd_instance_id c,
       uv_assessment_sha = sha, uv_synthetic_event_id = event_id, uv_hooks_reviewed = True,
       uv_synthetic_delivery = True, uv_overlap_deduplication = True, mv_authentication = auth\<rparr> = Some encoded"
    "length (encoded @ [10]) \<le> max_verification_bytes"
    "write_private_verification (verification_path home) (encoded @ [10]) io = (Inr (), io1)"
    "event_id \<noteq> []" "cleanup_allowed a" "ma_codex_home a = home"
    using assms(1) by (auto simp: save_plugin_migration_verification_def io_then_Inr rbind_Inr_iff Let_def
        unsigned_verification.defs split: sum.splits if_splits)
  have disk: "io_disk io1 = (io_disk io)(verification_path home \<mapsto> regular_file (encoded @ [10]))"
    using s(6) by (auto simp: write_private_verification_def split: if_splits dest!: io_effect_disk)
  then show "io_disk io1 p = io_disk io p" if "p \<noteq> verification_path home" for p using that by simp
  show "cleanup_allowed a" "ma_codex_home a = home" by fact+
  have "verify_evidence (mg_hmac env) c migration_evidence_domain payload auth = Inr ()"
    using s(3) assms(3) by (auto simp: authenticate_evidence_def verify_evidence_def decode_hex_encode ok_or_def split: if_splits)
  then show "verify_saved_plugin_migration_evidence env cred True (io_disk io1) home a"
    using s(1,2,5,7) assms(2) [OF s(4)] assms(4,5) disk
    by (simp add: verify_saved_plugin_migration_evidence_def load_plugin_migration_verification_def
        unsigned_of_verification_def ok_or_def Migration.read_regular_def regular_file_def)
qed

section \<open>The cleanup\<close>

lemma real_delivery_event:
  assumes "real_delivery_of d"
  obtains e version where "pl_last_event (ad_plugin d) = Some e" "verified_plugin_event d = Some e"
    "la_plugin_version e = Some version" "pl_plugin_version (ad_plugin d) = Some version"
    "pl_trust_state (ad_plugin d) = TrustedAtLastDelivery"
proof -
  obtain e where e: "verified_plugin_event d = Some e" "pl_trust_state (ad_plugin d) = TrustedAtLastDelivery"
    using assms by (auto simp: real_delivery_of_def)
  then have "pl_last_event (ad_plugin d) = Some e" "la_plugin_version e \<noteq> None"
    "la_plugin_version e = pl_plugin_version (ad_plugin d)"
    by (auto simp: verified_plugin_event_def simp flip: not_None_eq split: option.splits if_splits)
  with e that show thesis by auto
qed

text \<open>
  C21. The old hooks are removed only after the move has been proved. If the cleanup succeeds or changes any file,
  then the verification file is authenticated by the running desktop for exactly this assessment, the
  user trusts the hooks of the plugin, Codex runs the plugin and the old hooks side by side, the plugin
  is the selected one with the version and the delivered event of the assessment, and nothing stands in the
  way of removing everything. A success means everything was removed, and what was done is the removal.
\<close>

theorem cleanup_needs_verification:
  assumes "cleanup_legacy_after_verification_with_host env (codex_lifecycle_host env w) home a h io = (res, h', io')"
    and "io' \<noteq> io \<or> (\<exists>out. res = Inr out)"
  shows "(\<exists>c. Option.bind (cw_credentials w h) (\<lambda>r. result_ok (record_credentials r)) = Some c
      \<and> verification_authentic env c (io_disk io) home a)
    \<and> cw_trusted w home (ma_selector a) h
    \<and> (let p = ad_plugin (ii_codex_adapter (cw_inspect w (io_disk io) home (ma_selector a) h)) in
        pl_hook_source p = SourceOverlap \<and> pl_plugin_id p = Some (ma_selector a) \<and> pl_enabled p = Some True
        \<and> pl_trust_state p = TrustedAtLastDelivery \<and> pl_plugin_version p = ma_verified_version a
        \<and> map_option la_event_id (pl_last_event p) = ma_verified_event_id a \<and> ma_verified_event_id a \<noteq> None)
    \<and> (\<exists>u r. plan_uninstall (mg_integration env) (io_disk io) home = Inr u \<and> un_complete u
        \<and> uninstall (mg_integration env) home io = (r, io')
        \<and> (case res of Inr out \<Rightarrow> r = Inr out \<and> uo_complete out | Inl e \<Rightarrow> (\<exists>e'. r = Inl e' \<and> e = MgLegacyCleanup e')))"
proof -
  let ?current = "cw_inspect w (io_disk io) home (ma_selector a) h"
  have checks: "cleanup_request_ok home a" "cw_trusted w home (ma_selector a) h" "cleanup_current_ok home a ?current"
    "verify_saved_plugin_migration_evidence env (cw_credentials w h) (cw_private w h) (io_disk io) home a"
    using assms by (auto simp: cleanup_legacy_after_verification_with_host_def codex_lifecycle_host_def split: if_splits)
  then obtain p r where run: "preview_uninstall (mg_integration env) (io_disk io) home = Inr p" "up_complete p"
    "uninstall (mg_integration env) home io = (r, io')"
    "res = (case r of Inl e \<Rightarrow> Inl (MgLegacyCleanup e) | Inr out \<Rightarrow> if uo_complete out then Inr out else Inl MgLegacyCleanupConflict)"
    using assms by (auto simp: cleanup_legacy_after_verification_with_host_def codex_lifecycle_host_def
        split: if_splits sum.splits prod.splits)
  then obtain u where u: "plan_uninstall (mg_integration env) (io_disk io) home = Inr u" "un_complete u"
    by (auto simp: preview_plan)
  then have "r = Inr out \<Longrightarrow> uo_complete out" for out
    using run(3) by (auto simp: uninstall_def split: sum.splits prod.splits)
  with run(4) have "case res of Inr out \<Rightarrow> r = Inr out \<and> uo_complete out | Inl e \<Rightarrow> (\<exists>e'. r = Inl e' \<and> e = MgLegacyCleanup e')"
    by (cases r) auto
  moreover obtain c where "Option.bind (cw_credentials w h) (\<lambda>r. result_ok (record_credentials r)) = Some c"
    "verification_authentic env c (io_disk io) home a"
    using verified_authentic [OF checks(4)] by blast
  ultimately show ?thesis
    using checks(1-3) u run(3) by (auto simp: cleanup_request_ok_def cleanup_current_ok_def Let_def)
qed

text \<open>A ready assessment, its saved verification and an unchanged Codex make the cleanup go through.\<close>

lemma cleanup_completes:
  assumes "a = assess_plugin_migration env (io_disk io) inspection (ii_codex_adapter inspection) selector ev"
    and "ma_state a = MigCleanupReady"
    and "pl_availability (ad_plugin (ii_codex_adapter inspection)) = AvailInstalled"
    and "pl_hook_source (ad_plugin (ii_codex_adapter inspection)) = SourceOverlap"
    and "save_plugin_migration_verification env home a c event_id io = (Inr path, io1)" "io_outcomes io1 = []"
    and "cw_inspect w (io_disk io1) home selector h = inspection" "cw_trusted w home selector h"
    and "cw_credentials w h = Some r" "record_credentials r = Inr c" "cw_private w h"
    and "\<And>v b. mg_verification_to env v = Some b \<Longrightarrow> mg_verification_from env (b @ [10]) = Some v"
    and "\<And>k b. length (mg_hmac env k b) = mac_bytes"
  shows "\<exists>out io2 pc v. cleanup_legacy_after_verification_with_host env (codex_lifecycle_host env w) home a h io1 = (Inr out, h, io2)
    \<and> uo_complete out
    \<and> disk_read (io_disk io1) (provenance_path home) = TargetFile pc \<and> ig_provenance_from (mg_integration env) pc = Some v
    \<and> disk_read (io_disk io2) (provenance_path home) = TargetMissing
    \<and> config_freed (mg_integration env) v (disk_read (io_disk io1) (path_join home config_file_name))
        (disk_read (io_disk io2) (path_join home config_file_name))
    \<and> hooks_freed (mg_integration env) v (disk_read (io_disk io1) (path_join home hooks_file_name))
        (disk_read (io_disk io2) (path_join home hooks_file_name))
    \<and> only_at {path_join home config_file_name, path_join home hooks_file_name, provenance_path home} io1 io2"
proof -
  let ?d = "ii_codex_adapter inspection"
  note saved = saved_verifies [OF assms(5,12,13,9,10)]
  have home: "ii_codex_home inspection = home"
    using saved(4) assms(1) by (auto simp: assess_plugin_migration_def Let_def split: prod.splits)
  define preview where "preview = preview_uninstall (mg_integration env) (io_disk io) home"
  have legacy: "legacy_active_of ?d" using assms(4) by (simp add: legacy_active_of_def)
  have state: "fst (migration_state_of ?d ev (real_delivery_of ?d) True (assessment_blockers env ?d selector (Some preview)))
      = MigCleanupReady" and fields: "ma_schema_version a = plugin_migration_schema_version" "ma_selector a = selector"
    "ma_verified_version a = Option.bind (verified_plugin_event ?d) la_plugin_version"
    "ma_verified_event_id a = map_option la_event_id (verified_plugin_event ?d)"
    "ma_blockers a = snd (migration_state_of ?d ev (real_delivery_of ?d) True (assessment_blockers env ?d selector (Some preview)))"
    using assms(1,2) legacy home by (auto simp: assess_plugin_migration_def Let_def preview_def split: prod.splits)
  have ready: "assessment_blockers env ?d selector (Some preview) = []" "pl_installed (ad_plugin ?d) = Some True"
    "pl_enabled (ad_plugin ?d) = Some True" "real_delivery_of ?d"
    and blockers: "ma_blockers a = []"
    using state fields(5) by (auto simp: migration_state_of_def split: if_splits)
  obtain p where p: "preview = Inr p" "up_complete p" and selector: "valid_plugin_selector selector"
      "pl_ipc (ad_plugin ?d) = IpcSupported" "pl_plugin_id (ad_plugin ?d) = Some selector"
      "pl_codex_support (ad_plugin ?d) \<in> {CodexSupported, CodexUnreviewed}"
    using ready by (cases preview; cases "pl_codex_support (ad_plugin ?d)")
      (auto simp: assessment_blockers_def codex_support_blocker_def split: if_splits)
  obtain e version where e: "pl_last_event (ad_plugin ?d) = Some e" "verified_plugin_event ?d = Some e"
    "la_plugin_version e = Some version" "pl_plugin_version (ad_plugin ?d) = Some version"
    "pl_trust_state (ad_plugin ?d) = TrustedAtLastDelivery"
    using real_delivery_event [OF ready(4)] by metis
  obtain u where u: "plan_uninstall (mg_integration env) (io_disk io) home = Inr u" "un_complete u"
    using p by (auto simp: preview_def preview_plan)
  then have u1: "plan_uninstall (mg_integration env) (io_disk io1) home = Inr u"
    using plan_uninstall_frame [of home "io_disk io1" "io_disk io" "mg_integration env"] saved(2) verification_path_differs
    by (metis insert_iff empty_iff)
  obtain out io2 pc v where run: "uninstall (mg_integration env) home io1 = (Inr out, io2)" "uo_complete out"
    "only_at {path_join home config_file_name, path_join home hooks_file_name, provenance_path home} io1 io2"
    "disk_read (io_disk io1) (provenance_path home) = TargetFile pc" "ig_provenance_from (mg_integration env) pc = Some v"
    "disk_read (io_disk io2) (provenance_path home) = TargetMissing"
    "config_freed (mg_integration env) v (disk_read (io_disk io1) (path_join home config_file_name))
       (disk_read (io_disk io2) (path_join home config_file_name))"
    "hooks_freed (mg_integration env) v (disk_read (io_disk io1) (path_join home hooks_file_name))
       (disk_read (io_disk io2) (path_join home hooks_file_name))"
    by (rule uninstall_frees [OF u1 u(2) assms(6)])
  have "cleanup_request_ok home a" "cleanup_current_ok home a inspection"
    using saved(3,4) fields blockers selector e ready(2,3) assms(3,4) home
    by (auto simp: cleanup_request_ok_def cleanup_current_ok_def Let_def)
  moreover have "\<exists>p. preview_uninstall (mg_integration env) (io_disk io1) home = Inr p \<and> up_complete p"
    using u1 u(2) by (auto simp: preview_plan)
  ultimately have "cleanup_legacy_after_verification_with_host env (codex_lifecycle_host env w) home a h io1 = (Inr out, h, io2)"
    using saved(1) assms(7-11) fields(2) run(1,2)
    by (auto simp: cleanup_legacy_after_verification_with_host_def codex_lifecycle_host_def)
  with run(2-8) show ?thesis by blast
qed

text \<open>
  C22. The move can be completed. If an assessment of a Codex home in which the plugin runs beside the old
  hooks says that the cleanup is ready, and the verification of this assessment has been saved by the desktop that
  still runs, then, as long as Codex says the same and no file operation fails, the cleanup removes the old
  installation: its provenance file is gone; the configuration no longer runs the recorded notification
  command, the previous one is back; exactly Lili's handlers are taken out of the hooks, the others stay,
  and no marker of Lili is left among them; no other file changes.
\<close>

theorem migration_completes:
  assumes "a = assess_plugin_migration env (io_disk io) inspection (ii_codex_adapter inspection) selector ev"
    and "ma_state a = MigCleanupReady"
    and "pl_availability (ad_plugin (ii_codex_adapter inspection)) = AvailInstalled"
    and "pl_hook_source (ad_plugin (ii_codex_adapter inspection)) = SourceOverlap"
    and "save_plugin_migration_verification env home a c event_id io = (Inr path, io1)" "io_outcomes io1 = []"
    and "cw_inspect w (io_disk io1) home selector h = inspection" "cw_trusted w home selector h"
    and "cw_credentials w h = Some r" "record_credentials r = Inr c" "cw_private w h"
    and "\<And>v b. mg_verification_to env v = Some b \<Longrightarrow> mg_verification_from env (b @ [10]) = Some v"
    and "\<And>k b. length (mg_hmac env k b) = mac_bytes"
  shows "\<exists>out io2 pc v. cleanup_legacy_after_verification_with_host env (codex_lifecycle_host env w) home a h io1 = (Inr out, h, io2)
    \<and> uo_complete out
    \<and> disk_read (io_disk io1) (provenance_path home) = TargetFile pc \<and> ig_provenance_from (mg_integration env) pc = Some v
    \<and> disk_read (io_disk io2) (provenance_path home) = TargetMissing
    \<and> config_freed (mg_integration env) v (disk_read (io_disk io1) (path_join home config_file_name))
        (disk_read (io_disk io2) (path_join home config_file_name))
    \<and> hooks_freed (mg_integration env) v (disk_read (io_disk io1) (path_join home hooks_file_name))
        (disk_read (io_disk io2) (path_join home hooks_file_name))
    \<and> only_at {path_join home config_file_name, path_join home hooks_file_name, provenance_path home} io1 io2"
  using cleanup_completes [OF assms] .

section \<open>Installing the plugin\<close>

lemma run_codex_plugin_command_valid:
  assumes "valid_plugin_selector selector" "action \<in> {lit ''add'', lit ''remove''}"
  shows "run_codex_plugin_command w action home selector h
    = (case cw_run w home [lit ''codex'', lit ''plugin'', action, selector, lit ''--json''] h of
        (ok, h') \<Rightarrow> (if ok = Some True then Inr () else Inl MgPluginCommandFailed, h'))"
  using assms by (auto simp: run_codex_plugin_command_def codex_plugin_command_def split: prod.splits option.splits bool.splits)

text \<open>
  C23. Installing the plugin succeeds or is undone. Either the request is refused and no command runs, or the
  assessment and what Codex says allow it and \<^verbatim>\<open>codex plugin add\<close> runs with a valid selector. If it succeeded and Codex then
  reports the selected plugin as installed, enabled and compatible, that report is the result; in every other case
  \<^verbatim>\<open>codex plugin remove\<close> is the last command run, and the error says whether it worked.
\<close>

theorem plugin_install_or_removed:
  "case install_plugin_with_rollback (codex_lifecycle_host env w) disk_at home a h of (res, h') \<Rightarrow>
     (res = Inl MgFailedPrecondition \<and> h' = h)
   \<or> (ma_state a = MigInstallReady \<and> ma_blockers a = [] \<and> ma_codex_home a = home
      \<and> valid_plugin_selector (ma_selector a)
      \<and> install_precondition (ad_plugin (ii_codex_adapter (cw_inspect w (disk_at h) home (ma_selector a) h))) (ma_selector a)
      \<and> (\<exists>added h1. cw_run w home [lit ''codex'', lit ''plugin'', lit ''add'', ma_selector a, lit ''--json''] h = (added, h1)
         \<and> (let report = cw_inspect w (disk_at h1) home (ma_selector a) h1 in
            if added = Some True \<and> install_postcondition (ad_plugin (ii_codex_adapter report)) (ma_selector a)
            then res = Inr report \<and> h' = h1
            else \<exists>removed. cw_run w home [lit ''codex'', lit ''plugin'', lit ''remove'', ma_selector a, lit ''--json''] h1 = (removed, h')
              \<and> res = Inl (if removed \<noteq> Some True then MgRollbackFailed
                  else if added = Some True then MgInstallVerificationFailed else MgPluginCommandFailed))))"
proof -
  let ?report = "\<lambda>h. cw_inspect w (disk_at h) home (ma_selector a) h"
  define ok where "ok \<longleftrightarrow> ma_schema_version a = plugin_migration_schema_version \<and> ma_state a = MigInstallReady
    \<and> ma_codex_home a = home \<and> ma_blockers a = [] \<and> valid_plugin_selector (ma_selector a)
    \<and> install_precondition (ad_plugin (ii_codex_adapter (?report h))) (ma_selector a)"
  show ?thesis
  proof (cases ok)
    case False
    then show ?thesis by (auto simp: ok_def install_plugin_with_rollback_def codex_lifecycle_host_def)
  next
    case True
    then have valid: "valid_plugin_selector (ma_selector a)" by (simp add: ok_def)
    obtain added h1 where add: "cw_run w home [lit ''codex'', lit ''plugin'', lit ''add'', ma_selector a, lit ''--json''] h = (added, h1)"
      by fastforce
    obtain removed h2 where rem: "cw_run w home [lit ''codex'', lit ''plugin'', lit ''remove'', ma_selector a, lit ''--json''] h1 = (removed, h2)"
      by fastforce
    have "install_plugin_with_rollback (codex_lifecycle_host env w) disk_at home a h
      = (if added = Some True \<and> install_postcondition (ad_plugin (ii_codex_adapter (?report h1))) (ma_selector a)
         then (Inr (?report h1), h1)
         else (Inl (if removed \<noteq> Some True then MgRollbackFailed
             else if added = Some True then MgInstallVerificationFailed else MgPluginCommandFailed), h2))"
      using True add rem by (simp add: ok_def install_plugin_with_rollback_def codex_lifecycle_host_def
          run_codex_plugin_command_valid [OF valid] rollback_then_def)
    with True add rem show ?thesis by (simp add: ok_def Let_def)
  qed
qed

end
