(* ===== verification/Migration_Example.thy ===== *)
theory Migration_Example
  imports Migration_Properties Integration_Example Forwarding_Properties
begin

text \<open>
  A concrete move: the plugin runs beside the installation of \<open>Integration_Example\<close>; the assessment is
  ready, its verification is saved, and the cleanup takes the configuration and the hooks back.
\<close>

section \<open>A concrete move\<close>

definition move_selector :: rstr where "move_selector = lit ''lili@m''"
definition move_version :: rstr where "move_version = lit ''1''"

definition move_event :: last_accepted where
  "move_event = \<lparr>la_event_id = lit ''e1'', la_event_type = TurnCompleted, la_occurred_at_ms = 5, la_surface = SurfStop,
     la_plugin_id = Some move_selector, la_codex_home = None, la_plugin_version = Some move_version\<rparr>"

definition move_plugin :: plugin_diagnostics where
  "move_plugin = \<lparr>pl_codex_support = CodexSupported, pl_availability = AvailInstalled, pl_plugin_id = Some move_selector,
     pl_installed = Some True, pl_enabled = Some True, pl_hook_source = SourceOverlap,
     pl_trust_state = TrustedAtLastDelivery, pl_plugin_version = Some move_version, pl_desktop_version = move_version,
     pl_ipc = IpcSupported, pl_last_event = Some move_event, pl_remediation = []\<rparr>"

definition move_diagnostics :: adapter_diagnostics where
  "move_diagnostics = adapter_default\<lparr>ad_plugin := move_plugin\<rparr>"

definition move_inspection :: integration_inspection where
  "move_inspection = (inspect_with_version example_integration (\<lambda>_. None) example_home None)\<lparr>ii_codex_adapter := move_diagnostics\<rparr>"

definition move_verification :: migration_verification where
  "move_verification = \<lparr>uv_schema_version = 1, uv_instance_id = cd_instance_id sample_credentials, uv_assessment_sha = [],
     uv_synthetic_event_id = lit ''s1'', uv_hooks_reviewed = True, uv_synthetic_delivery = True,
     uv_overlap_deduplication = True, mv_authentication = hex_of_bytes (replicate 32 5)\<rparr>"

definition move_env :: "rstr list option migration_env" where
  "move_env = \<lparr>mg_integration = example_integration, mg_display = (\<lambda>_. []), mg_assessment_to = (\<lambda>_. Some []),
     mg_assessment_from = (\<lambda>_. None), mg_unsigned_to = (\<lambda>_. Some [1]),
     mg_verification_to = (\<lambda>v. if v = move_verification then Some [5] else None),
     mg_verification_from = (\<lambda>c. if c = [5, 10] then Some move_verification else None), mg_hmac = sample_hmac\<rparr>"

definition move_world :: "unit codex_world" where
  "move_world = \<lparr>cw_run = (\<lambda>_ _ h. (Some True, h)), cw_inspect = (\<lambda>_ _ _ _. move_inspection), cw_trusted = (\<lambda>_ _ _. True),
     cw_credentials = (\<lambda>_. Some (credential_record_new sample_credentials (UnixSocket (lit ''/s'')))), cw_private = (\<lambda>_. True)\<rparr>"

definition move_io :: io_state where
  "move_io = \<lparr>io_disk = example_complete, io_outcomes = []\<rparr>"

definition move_assessment :: migration_assessment where
  "move_assessment = assess_plugin_migration move_env (io_disk move_io) move_inspection move_diagnostics move_selector
     \<lparr>me_hooks_reviewed = True, me_synthetic_delivery = True, me_overlap_deduplication = True\<rparr>"

lemma move_plan:
  obtains u where "plan_uninstall example_integration (io_disk move_io) example_home = Inr u" "un_complete u"
  using example_removal by (auto simp: move_io_def)

lemma move_selector_valid: "valid_plugin_selector move_selector"
  by (simp add: valid_plugin_selector_def move_selector_def lit_def str_split_at_sign_def byte_len_def utf8_width_def
      utf8_bytes_def utf8_code_def is_identifier_byte_def is_ascii_alphanumeric_def is_ascii_alphabetic_def)

lemma move_ready:
  "ma_state move_assessment = MigCleanupReady" "ma_codex_home move_assessment = example_home"
  "ma_verified_version move_assessment = Some move_version" "ma_verified_event_id move_assessment = Some (lit ''e1'')"
  "ma_selector move_assessment = move_selector"
proof -
  obtain p where "preview_uninstall example_integration (io_disk move_io) example_home = Inr p" "up_complete p"
    by (rule move_plan) (auto simp: preview_plan)
  moreover have "ii_codex_home move_inspection = example_home"
    by (simp add: move_inspection_def inspect_with_version_def inspect_with_evidence_def Let_def split: prod.splits)
  moreover have "verified_plugin_event move_diagnostics = Some move_event"
    by (simp add: verified_plugin_event_def move_diagnostics_def move_plugin_def move_event_def)
  ultimately show "ma_state move_assessment = MigCleanupReady" "ma_codex_home move_assessment = example_home"
    "ma_verified_version move_assessment = Some move_version" "ma_verified_event_id move_assessment = Some (lit ''e1'')"
    "ma_selector move_assessment = move_selector"
    using move_selector_valid
    by (simp_all add: move_assessment_def assess_plugin_migration_def Let_def migration_state_of_def assessment_blockers_def
        legacy_active_of_def real_delivery_of_def codex_support_blocker_def move_diagnostics_def move_plugin_def move_event_def
        move_env_def split: prod.splits)
qed

definition move_saved :: io_state where
  "move_saved = move_io\<lparr>io_disk := (io_disk move_io)(verification_path example_home \<mapsto> regular_file [5, 10])\<rparr>"

lemma move_saved_run:
  "save_plugin_migration_verification move_env example_home move_assessment sample_credentials (lit ''s1'') move_io
    = (Inr (verification_path example_home), move_saved)"
proof -
  have "assessment_sha256 move_env move_assessment = Inr []"
    by (simp add: assessment_sha256_def move_env_def ok_or_def sha256_hex_def example_integration_def hex_of_bytes_def)
  moreover have "authenticate_evidence sample_hmac sample_credentials migration_evidence_domain [1] = Inr (hex_of_bytes (replicate 32 5))"
    by (simp add: authenticate_evidence_def evidence_malformed_def migration_evidence_domain_def sample_hmac_def lit_def
        has_control_def is_control_def byte_len_def utf8_width_def max_forwarding_frame_bytes_def)
  moreover have "path_has_parent (verification_path example_home)" by (simp add: verification_path_def)
  ultimately show ?thesis
    using move_ready
    by (simp add: save_plugin_migration_verification_def cleanup_allowed_def move_env_def ok_or_def move_verification_def
        verification_schema_version_def unsigned_verification.defs max_verification_bytes_def write_private_verification_def
        io_effect_def move_io_def move_saved_def lit_def has_control_def is_control_def byte_len_def utf8_width_def)
qed

lemma move_record: "record_credentials (credential_record_new sample_credentials (UnixSocket (lit ''/s''))) = Inr sample_credentials"
proof -
  have "generate_credentials (Some (replicate 16 7)) (Some (replicate 32 9)) = Inr sample_credentials"
    by (simp add: generate_credentials_def sample_credentials_def ok_or_def)
  moreover have "endpoint_validate (UnixSocket (lit ''/s'')) = Inr ()"
    by (simp add: validate_endpoint_text_def max_endpoint_text_bytes_def lit_def has_control_def is_control_def byte_len_def utf8_width_def)
  ultimately show ?thesis
    using credential_record_round_trip [of "replicate 16 7" "replicate 32 9" sample_credentials "UnixSocket (lit ''/s'')"]
    by (simp add: instance_id_bytes_def secret_bytes_def)
qed

lemma move_facts:
  "move_assessment = assess_plugin_migration move_env (io_disk move_io) move_inspection (ii_codex_adapter move_inspection) move_selector
     \<lparr>me_hooks_reviewed = True, me_synthetic_delivery = True, me_overlap_deduplication = True\<rparr>"
  "pl_availability (ad_plugin (ii_codex_adapter move_inspection)) = AvailInstalled"
  "pl_hook_source (ad_plugin (ii_codex_adapter move_inspection)) = SourceOverlap"
  "io_outcomes move_saved = []" "cw_inspect move_world d home sel h = move_inspection" "cw_trusted move_world home sel h"
  "cw_credentials move_world h = Some (credential_record_new sample_credentials (UnixSocket (lit ''/s'')))"
  "cw_private move_world h" "mg_verification_to move_env v = Some b \<Longrightarrow> mg_verification_from move_env (b @ [10]) = Some v"
  "length (mg_hmac move_env k c) = mac_bytes"
  by (auto simp: move_assessment_def move_inspection_def move_diagnostics_def move_plugin_def move_saved_def move_io_def
      move_world_def move_env_def sample_hmac_def mac_bytes_def split: if_splits)

lemma move_reads:
  "disk_read (io_disk move_saved) (path_join example_home config_file_name) = TargetFile [49]"
  "disk_read (io_disk move_saved) (path_join example_home hooks_file_name) = TargetFile [2, 10]"
  "disk_read (io_disk move_saved) (provenance_path example_home) = TargetFile [2, 10]"
  using verification_path_differs
  by (auto simp: move_saved_def move_io_def example_complete_def example_installed_def disk_read_def regular_file_def)

theorem migration_completes_witness:
  "\<exists>out io2. cleanup_legacy_after_verification_with_host move_env (codex_lifecycle_host move_env move_world) example_home
      move_assessment () move_saved = (Inr out, (), io2)
    \<and> uo_complete out
    \<and> disk_read (io_disk move_saved) (path_join example_home config_file_name) = TargetFile [49]
    \<and> disk_read (io_disk io2) (path_join example_home config_file_name) = TargetFile [48]
    \<and> disk_read (io_disk move_saved) (path_join example_home hooks_file_name) = TargetFile [2, 10]
    \<and> disk_read (io_disk io2) (path_join example_home hooks_file_name) = TargetMissing
    \<and> disk_read (io_disk io2) (provenance_path example_home) = TargetMissing"
proof -
  have env: "mg_integration move_env = example_integration" by (simp add: move_env_def)
  obtain out io2 where run: "cleanup_legacy_after_verification_with_host move_env (codex_lifecycle_host move_env move_world) example_home
      move_assessment () move_saved = (Inr out, (), io2)" "uo_complete out"
    "disk_read (io_disk io2) (provenance_path example_home) = TargetMissing"
    "config_freed example_integration example_provenance (TargetFile [49]) (disk_read (io_disk io2) (path_join example_home config_file_name))"
    "hooks_freed example_integration example_provenance (TargetFile [2, 10]) (disk_read (io_disk io2) (path_join example_home hooks_file_name))"
    using migration_completes [OF move_facts(1) move_ready(1) move_facts(2,3) move_saved_run move_facts(4-7) move_record move_facts(8-10), of "()"]
    by (auto simp: env move_reads)
  have "tm_render example_toml (Some example_previous) = [48]" by (simp add: example_toml_def example_previous_def example_argv_def)
  with run(4) have "disk_read (io_disk io2) (path_join example_home config_file_name) = TargetFile [48]"
    by (simp add: config_freed_def example_provenance_def)
  moreover have "list_ex is_lili_handler (hooks_handlers example_hooks)" by (rule example_handlers)
  with run(5) have "disk_read (io_disk io2) (path_join example_home hooks_file_name) = TargetMissing"
    by (simp add: hooks_freed_def example_document_def example_provenance_def)
  ultimately show ?thesis using run(1-3) move_reads by blast
qed

theorem cleanup_needs_verification_witness:
  "\<exists>out io2. cleanup_legacy_after_verification_with_host move_env (codex_lifecycle_host move_env move_world) example_home
      move_assessment () move_saved = (Inr out, (), io2)
    \<and> verification_authentic move_env sample_credentials (io_disk move_saved) example_home move_assessment"
proof -
  obtain out io2 where run: "cleanup_legacy_after_verification_with_host move_env (codex_lifecycle_host move_env move_world) example_home
      move_assessment () move_saved = (Inr out, (), io2)"
    using cleanup_completes [OF move_facts(1) move_ready(1) move_facts(2,3) move_saved_run move_facts(4-7) move_record move_facts(8-10), of "()"]
    by blast
  then have "verification_authentic move_env sample_credentials (io_disk move_saved) example_home move_assessment"
    using cleanup_needs_verification [OF run] move_record by (simp add: move_facts)
  with run show ?thesis by blast
qed

end
