(* ===== verification/Local_Server.thy ===== *)
theory Local_Server
  imports Loopback App_State Ingestion
begin

text \<open>
  \<^verbatim>\<open>lili-server/src/lib.rs\<close>: the router behind the loopback middleware and its handlers over the application
  state. A request is routed by method and path as the table of \<^verbatim>\<open>build_server_router\<close> says; handlers act on the
  application state, which the server shares with the ingestion actor. Pages are the data they are
  rendered from. The JSON and path extractors of the web framework, the rendering and the files of the assets
  directory are arguments; headers that the framework adds by itself are left out, and so is that it empties the body of a \<^verbatim>\<open>HEAD\<close> answer. A handler that panics drops the
  connection: no response.
\<close>

section \<open>Responses\<close>

definition max_request_body_bytes :: nat where "max_request_body_bytes = 64 * 1024"
definition max_fixture_notifications :: nat where "max_fixture_notifications = 32"
definition max_fixture_text_bytes :: nat where "max_fixture_text_bytes = 4 * 1024"

datatype server_page = PageContextMenu | PageAppearance appearance_view | PageShell pet_presentation_state rstr

datatype appearance_error_code = CodeInvalidPetId | CodePetUnavailable | CodeAssetUnavailable | CodePersistenceUnavailable

record diagnostics_report =
  dg_status :: rstr
  dg_transport :: rstr
  dg_ingestion :: ingestion_diagnostics
  dg_actions :: effective_actions
  dg_action_audit :: "audit_entry list"
  dg_privacy :: diagnostic_privacy_record

record interaction_request =
  ir_trigger :: rstr
  ir_notification_id :: "rstr option"

datatype server_body = BodyEmpty | BodyHealth rstr | BodyPage server_page | BodyAppearance appearance_view
  | BodyAppearanceError appearance_error_code | BodySnapshot view_snapshot | BodySettings user_settings
  | BodyDiagnostics diagnostics_report | BodyInteraction bool uuid | BodyMutation bool | BodyAsset "byte list"
  | BodyPresentation pet_presentation_state | BodyStream pet_presentation_state

record server_response =
  sr_status :: nat
  sr_headers :: "(rstr \<times> rstr) list"
  sr_body :: server_body

definition respond :: "nat \<Rightarrow> server_body \<Rightarrow> server_response" where
  "respond status body = \<lparr>sr_status = status, sr_headers = [], sr_body = body\<rparr>"

section \<open>The fixture presentation\<close>

text \<open>What the store holds and what its watch channel last sent.\<close>

record fixture_store =
  fx_presentation :: pet_presentation_state
  fx_sent :: pet_presentation_state

definition fixture_new :: "pet_presentation_state \<Rightarrow> fixture_store" where
  "fixture_new p = \<lparr>fx_presentation = p, fx_sent = p\<rparr>"

definition fixture_notification_invalid :: "pet_notification_presentation \<Rightarrow> bool" where
  "fixture_notification_invalid n \<longleftrightarrow> pnp_activation_id n = []
     \<or> max_fixture_text_bytes < byte_len (pnp_activation_id n)
     \<or> max_fixture_text_bytes < byte_len (pnp_summary n)
     \<or> (case pnp_title n of None \<Rightarrow> False | Some t \<Rightarrow> 256 < length t \<or> has_control t)
     \<or> (case pnp_project_label n of None \<Rightarrow> False | Some l \<Rightarrow> max_fixture_text_bytes < byte_len l)"

fun fixture_notifications_valid :: "pet_notification_presentation list \<Rightarrow> rstr set \<Rightarrow> bool" where
  "fixture_notifications_valid [] ids = True"
| "fixture_notifications_valid (n # ns) ids =
     (if fixture_notification_invalid n \<or> pnp_activation_id n \<in> ids then False
      else fixture_notifications_valid ns (insert (pnp_activation_id n) ids))"

definition validate_fixture_presentation :: "pet_presentation_state \<Rightarrow> rstr + unit" where
  "validate_fixture_presentation p =
     (if max_fixture_notifications < length (pps_notifications p)
         \<or> pps_unread_notification_count p \<noteq> length (pps_notifications p)
         \<or> max_fixture_text_bytes < byte_len (pps_pet_label p)
         \<or> (case pps_action_feedback p of None \<Rightarrow> False | Some f \<Rightarrow>
              max_fixture_text_bytes < byte_len (paf_action_id f) \<or> max_fixture_text_bytes < byte_len (paf_message f))
      then Inl (lit ''fixture presentation exceeds its bounds'')
      else if \<not> fixture_notifications_valid (pps_notifications p) {} then Inl (lit ''fixture notification is invalid'')
      else Inr ())"

definition fixture_send :: "pet_presentation_state \<Rightarrow> fixture_store \<Rightarrow> fixture_store" where
  "fixture_send p f = f\<lparr>fx_presentation := p, fx_sent := p\<rparr>"

definition fixture_replace :: "pet_presentation_state \<Rightarrow> fixture_store \<Rightarrow> (rstr + unit) \<times> fixture_store" where
  "fixture_replace p f = (case validate_fixture_presentation p of
     Inl e \<Rightarrow> (Inl e, f)
   | Inr _ \<Rightarrow> (Inr (), fixture_send (p\<lparr>pps_revision := sat_add (pps_revision (fx_presentation f)) 1\<rparr>) f))"

definition fixture_replace_reduced_motion :: "bool \<Rightarrow> fixture_store \<Rightarrow> fixture_store" where
  "fixture_replace_reduced_motion b f = (let p = fx_presentation f in
     fixture_send (p\<lparr>pps_revision := sat_add (pps_revision p) 1, pps_reduced_motion := b\<rparr>) f)"

definition fixture_dismiss :: "rstr \<Rightarrow> fixture_store \<Rightarrow> bool \<times> fixture_store" where
  "fixture_dismiss i f =
     (let p = fx_presentation f; kept = filter (\<lambda>n. pnp_activation_id n \<noteq> i) (pps_notifications p) in
      if length kept = length (pps_notifications p) then (False, f)
      else (True, fixture_send (p\<lparr>pps_notifications := kept, pps_unread_notification_count := length kept,
        pps_revision := sat_add (pps_revision p) 1\<rparr>) f))"

definition fixture_accepts_interaction :: "interaction_request \<Rightarrow> fixture_store \<Rightarrow> bool" where
  "fixture_accepts_interaction r f =
     (if ir_trigger r = lit ''pet_click'' \<or> ir_trigger r = lit ''pet_double_click'' then ir_notification_id r = None
      else if ir_trigger r = lit ''notification_click'' \<or> ir_trigger r = lit ''notification_activate''
      then (case ir_notification_id r of
          None \<Rightarrow> False
        | Some i \<Rightarrow> list_ex (\<lambda>n. pnp_activation_id n = i) (pps_notifications (fx_presentation f)))
      else False)"

definition fixture_serves_asset :: "rstr \<Rightarrow> fixture_store \<Rightarrow> bool" where
  "fixture_serves_asset a f \<longleftrightarrow> pps_pet_asset_id (fx_presentation f) = Some a"

section \<open>The server\<close>

text \<open>\<open>sv_refresh\<close>: the server can ask the actor to refresh the adapter; \<open>sv_persist\<close>: it has a persistence store.\<close>

record local_server =
  sv_actor :: ingestion_actor
  sv_fixture :: "fixture_store option"
  sv_refresh :: bool
  sv_persist :: bool
  sv_pets_root :: pet_path
  sv_assets :: bool

abbreviation sv_app :: "local_server \<Rightarrow> app_state" where
  "sv_app v \<equiv> na_state (sv_actor v)"

definition with_app :: "app_state \<Rightarrow> local_server \<Rightarrow> local_server" where
  "with_app s v = v\<lparr>sv_actor := (sv_actor v)\<lparr>na_state := s\<rparr>\<rparr>"

text \<open>\<open>build_native_router_with_diagnostics_and_persistence_at\<close> and \<^verbatim>\<open>build_fixture_router\<close>.\<close>

definition native_server :: "ingestion_actor \<Rightarrow> bool \<Rightarrow> bool \<Rightarrow> pet_path \<Rightarrow> bool \<Rightarrow> local_server" where
  "native_server a refresh persist root assets = \<lparr>sv_actor = a, sv_fixture = None, sv_refresh = refresh,
     sv_persist = persist, sv_pets_root = root, sv_assets = assets\<rparr>"

definition fixture_server :: "ingestion_actor \<Rightarrow> pet_path \<Rightarrow> bool \<Rightarrow> local_server" where
  "fixture_server a root assets = \<lparr>sv_actor = a, sv_fixture = Some (fixture_new (ap_presentation (na_state a))),
     sv_refresh = False, sv_persist = False, sv_pets_root = root, sv_assets = assets\<rparr>"

text \<open>The framework and the libraries: a failed extraction is the status of its rejection.\<close>

record server_env =
  se_pet :: pet_env
  se_codec :: app_codec
  se_ingest :: ingest_env
  se_json_content :: "http_request \<Rightarrow> bool"
  se_path_param :: "rstr \<Rightarrow> rstr option"
  se_selection :: "byte list \<Rightarrow> nat + pet_id"
  se_settings :: "byte list \<Rightarrow> nat + user_settings"
  se_interaction :: "byte list \<Rightarrow> nat + interaction_request"
  se_presentation :: "byte list \<Rightarrow> nat + pet_presentation_state"
  se_static :: "http_request \<Rightarrow> nat"

text \<open>
  What a request reads from outside: the drawn UUIDs, the wall clock (\<open>None\<close> before the epoch), the monotonic clock, whether the
  database answers, what the inspection of Codex found (\<open>None\<close>: the blocking task panicked) and whether the
  actor's channel is open.
\<close>

record server_tick =
  sk_request_id :: uuid
  sk_unix_millis :: "nat option"
  sk_now :: nat
  sk_avail :: bool
  sk_fresh :: "pet_id \<Rightarrow> rstr"
  sk_inspected :: "adapter_diagnostics option"
  sk_actor_open :: bool
  sk_ingest :: ingest_tick

definition unix_time_ms :: "nat option \<Rightarrow> nat" where
  "unix_time_ms t = (case t of None \<Rightarrow> 0 | Some ms \<Rightarrow> min ms u64_max)"

definition server_presentation :: "local_server \<Rightarrow> pet_presentation_state" where
  "server_presentation v = (case sv_fixture v of
     Some f \<Rightarrow> fx_presentation f | None \<Rightarrow> pet_presentation (sv_app v))"

definition subscribed_presentation :: "local_server \<Rightarrow> pet_presentation_state" where
  "subscribed_presentation v = (case sv_fixture v of
     Some f \<Rightarrow> fx_sent f | None \<Rightarrow> ap_presentation (sv_app v))"

definition server_ingestion_diagnostics :: "server_env \<Rightarrow> server_tick \<Rightarrow> local_server \<Rightarrow> database
    \<Rightarrow> ingestion_diagnostics \<times> local_server \<times> database" where
  "server_ingestion_diagnostics env t v db =
     (if \<not> sv_refresh v then (ap_ingestion (sv_app v), v, db)
      else case sk_inspected t of
        None \<Rightarrow> (ap_ingestion (sv_app v), v, db)
      | Some discovered \<Rightarrow>
          if \<not> sk_actor_open t then (ap_ingestion (sv_app v), v, db)
          else (case ingestion_step (se_ingest env) (sk_ingest t) (CmdRefreshCodexAdapter discovered) (sv_actor v) db of
              Some (RespDiagnostics d, a, db') \<Rightarrow> (d, v\<lparr>sv_actor := a\<rparr>, db')
            | _ \<Rightarrow> (ap_ingestion (sv_app v), v, db)))"

section \<open>Handlers\<close>

text \<open>\<^verbatim>\<open>Json<T>\<close>: the content type is checked first, then the body is read up to the limit of the router.\<close>

definition extract_json :: "server_env \<Rightarrow> (byte list \<Rightarrow> nat + 'a) \<Rightarrow> http_request \<Rightarrow> nat + 'a" where
  "extract_json env decode rq =
     (if \<not> se_json_content env rq then Inl 415
      else case rq_body rq of
        None \<Rightarrow> Inl 400
      | Some body \<Rightarrow> if max_request_body_bytes < length body then Inl 413 else decode body)"

definition handle_health :: server_response where
  "handle_health = respond 200 (BodyHealth (lit ''ok''))"

definition handle_context_menu :: server_response where
  "handle_context_menu = respond 200 (BodyPage PageContextMenu)"

definition appearance_shell :: "server_env \<Rightarrow> local_server \<Rightarrow> server_response option" where
  "appearance_shell env v = map_option (\<lambda>view. respond 200 (BodyPage (PageAppearance view)))
     (appearance_view_of (se_pet env) (ap_pets (sv_app v)))"

definition handle_appearance :: "server_env \<Rightarrow> local_server \<Rightarrow> server_response option" where
  "handle_appearance env v = map_option (\<lambda>view. respond 200 (BodyAppearance view))
     (appearance_view_of (se_pet env) (ap_pets (sv_app v)))"

definition select_appearance_pet :: "server_env \<Rightarrow> server_tick \<Rightarrow> pet_id \<Rightarrow> local_server \<Rightarrow> database
    \<Rightarrow> server_response option \<times> local_server \<times> database" where
  "select_appearance_pet env t i v db = (case appearance_selection_validate i of
     Inl _ \<Rightarrow> (Some (respond 400 (BodyAppearanceError CodeInvalidPetId)), v, db)
   | Inr _ \<Rightarrow>
       (case select_pet (se_pet env) (sk_fresh t) (sv_persist v) (sk_avail t) (sv_pets_root v) i (sv_app v) db of
          (res, s, db') \<Rightarrow> let v' = with_app s v in
            (case res of
               Inl SelectionUnavailable \<Rightarrow> Some (respond 422 (BodyAppearanceError CodePetUnavailable))
             | Inl (SelectionPersistence e) \<Rightarrow> Some (respond 500 (BodyAppearanceError CodePersistenceUnavailable))
             | Inr _ \<Rightarrow> handle_appearance env v', v', db')))"

definition handle_snapshot :: "local_server \<Rightarrow> server_response" where
  "handle_snapshot v = respond 200 (BodySnapshot (app_snapshot (sv_app v)))"

definition handle_settings :: "local_server \<Rightarrow> server_response" where
  "handle_settings v = respond 200 (BodySettings (ap_settings (sv_app v)))"

definition update_settings :: "user_settings \<Rightarrow> local_server \<Rightarrow> server_response \<times> local_server" where
  "update_settings u v =
     (let v1 = with_app (replace_settings u (sv_app v)) v;
          updated = ap_settings (sv_app v1) in
      (respond 200 (BodySettings updated),
       v1\<lparr>sv_fixture := map_option (fixture_replace_reduced_motion (us_reduced_motion updated)) (sv_fixture v1)\<rparr>))"

definition handle_diagnostics :: "server_env \<Rightarrow> server_tick \<Rightarrow> local_server \<Rightarrow> database
    \<Rightarrow> server_response \<times> local_server \<times> database" where
  "handle_diagnostics env t v db = (case server_ingestion_diagnostics env t v db of
     (d, v', db') \<Rightarrow>
       (respond 200 (BodyDiagnostics \<lparr>dg_status = lit ''ok'', dg_transport = lit ''fixture'', dg_ingestion = d, dg_actions = ap_effective (sv_app v),
          dg_action_audit = action_audit (sv_app v), dg_privacy = diagnostic_privacy\<rparr>), v', db'))"

text \<open>The context an interaction is bound to, if it is one.\<close>

definition bind_request :: "server_tick \<Rightarrow> interaction_request \<Rightarrow> app_state \<Rightarrow> interaction_context option" where
  "bind_request t r s = (let at = unix_time_ms (sk_unix_millis t) in
     if ir_trigger r = lit ''notification_click'' \<or> ir_trigger r = lit ''notification_activate''
     then bind_interaction (sk_request_id t) at NotificationActivate
       (Option.bind (ir_notification_id r) (\<lambda>i. result_ok (notification_id_parse i))) s
     else if ir_trigger r = lit ''pet_click'' \<and> ir_notification_id r = None
     then bind_interaction (sk_request_id t) at PetClick None s
     else if ir_trigger r = lit ''pet_double_click'' \<and> ir_notification_id r = None
     then bind_interaction (sk_request_id t) at PetDoubleClick None s
     else None)"

definition handle_interaction :: "server_tick \<Rightarrow> interaction_request \<Rightarrow> local_server \<Rightarrow> server_response \<times> local_server" where
  "handle_interaction t r v = (case sv_fixture v of
     Some f \<Rightarrow> (respond 200 (BodyInteraction (fixture_accepts_interaction r f) (sk_request_id t)), v)
   | None \<Rightarrow> (case bind_request t r (sv_app v) of
       None \<Rightarrow> (respond 200 (BodyInteraction False (sk_request_id t)), v)
     | Some c \<Rightarrow> (case dispatch_interaction c (sv_persist v) (sv_app v) of
         (receipt, s) \<Rightarrow> (respond 200 (BodyInteraction (drc_accepted receipt) (sk_request_id t)), with_app s v))))"

definition mutation_response :: "bool \<Rightarrow> server_response" where
  "mutation_response accepted = respond (if accepted then 200 else 404) (BodyMutation accepted)"

definition dismiss_notification :: "server_env \<Rightarrow> server_tick \<Rightarrow> rstr \<Rightarrow> local_server \<Rightarrow> database
    \<Rightarrow> server_response \<times> local_server \<times> database" where
  "dismiss_notification env t i v db = (case sv_fixture v of
     Some f \<Rightarrow> (case fixture_dismiss i f of
       (accepted, f') \<Rightarrow> (mutation_response accepted, v\<lparr>sv_fixture := Some f'\<rparr>, db))
   | None \<Rightarrow> (case notification_id_parse i of
       Inl _ \<Rightarrow> (respond 400 (BodyMutation False), v, db)
     | Inr nid \<Rightarrow>
         if sv_persist v then
           (case app_acknowledge_persisted (se_codec env) (sk_avail t) (sk_now t) nid (sv_app v) db of
              (Inl e, s, db') \<Rightarrow> (respond 500 (BodyMutation False), with_app s v, db')
            | (Inr outcome, s, db') \<Rightarrow> (mutation_response (is_applied outcome), with_app s v, db'))
         else (case app_acknowledge (sk_now t) nid (sv_app v) of
              (outcome, s) \<Rightarrow> (mutation_response (is_applied outcome), with_app s v, db))))"

definition pet_asset :: "server_env \<Rightarrow> rstr \<Rightarrow> local_server \<Rightarrow> server_response" where
  "pet_asset env a v =
     (let approved = (case sv_fixture v of
          Some f \<Rightarrow> if fixture_serves_asset a f
            then (case vs_pet_asset_id (app_snapshot (sv_app v)) of None \<Rightarrow> a | Some b \<Rightarrow> b) else a
        | None \<Rightarrow> a) in
      case approved_pet_asset (se_pet env) (ap_pets (sv_app v)) approved of
        None \<Rightarrow> respond 404 BodyEmpty
      | Some asset \<Rightarrow> (respond 200 (BodyAsset (aa_bytes asset)))\<lparr>sr_headers :=
          [(content_type_header, aa_content_type asset),
           (lit ''cache-control'', lit ''private, max-age=31536000, immutable'')]\<rparr>)"

definition handle_events :: "local_server \<Rightarrow> server_response" where
  "handle_events v = respond 200 (BodyStream (subscribed_presentation v))"

definition ssr_shell :: "rstr \<Rightarrow> local_server \<Rightarrow> server_response" where
  "ssr_shell path v = respond 200 (BodyPage (PageShell (server_presentation v) path))"

definition update_fixture_presentation :: "pet_presentation_state \<Rightarrow> local_server \<Rightarrow> server_response \<times> local_server" where
  "update_fixture_presentation p v = (case sv_fixture v of
     None \<Rightarrow> (respond 404 (BodyPresentation p), v)
   | Some f \<Rightarrow> (case fixture_replace p f of
       (Inr _, f') \<Rightarrow> (respond 200 (BodyPresentation (fx_presentation f')), v\<lparr>sv_fixture := Some f'\<rparr>)
     | (Inl _, f') \<Rightarrow> (respond 422 (BodyPresentation (fx_presentation f')), v\<lparr>sv_fixture := Some f'\<rparr>)))"

section \<open>The router\<close>

datatype endpoint = EpHealth | EpContextMenu | EpAppearanceShell | EpPetAsset rstr | EpEvents | EpSnapshot
  | EpSettings | EpAppearance | EpSelectPet | EpInteraction | EpDismiss rstr | EpDiagnostics | EpShell | EpFixture
  | EpStatic

text \<open>A parameter of a route is one non-empty segment.\<close>

definition path_segment :: "rstr \<Rightarrow> rstr \<Rightarrow> rstr \<Rightarrow> rstr option" where
  "path_segment prefix suffix path =
     (let middle = take (length path - length prefix - length suffix) (drop (length prefix) path) in
      if path = prefix @ middle @ suffix \<and> middle \<noteq> [] \<and> 47 \<notin> set middle then Some middle else None)"

definition fixed_routes :: "(rstr \<times> endpoint) list" where
  "fixed_routes =
     [(lit ''/health'', EpHealth), (lit ''/context-menu'', EpContextMenu), (lit ''/appearance'', EpAppearanceShell),
      (lit ''/presentation-events'', EpEvents), (lit ''/api/v1/snapshot'', EpSnapshot),
      (lit ''/api/v1/events'', EpEvents), (lit ''/api/v1/settings'', EpSettings),
      (lit ''/api/v1/appearance'', EpAppearance), (lit ''/api/v1/appearance/pet'', EpSelectPet),
      (lit ''/api/v1/interactions'', EpInteraction), (lit ''/api/v1/diagnostics'', EpDiagnostics)]"

definition static_path :: "rstr \<Rightarrow> bool" where
  "static_path path \<longleftrightarrow> path = lit ''/lili-ui.js'' \<or> path = lit ''/lili-ui_bg.wasm''
     \<or> path = lit ''/snippets'' \<or> starts_with path (lit ''/snippets/'')
     \<or> path = lit ''/assets'' \<or> starts_with path (lit ''/assets/'')"

definition route_of :: "bool \<Rightarrow> bool \<Rightarrow> rstr \<Rightarrow> endpoint" where
  "route_of fixture assets path = (case map_of fixed_routes path of
     Some ep \<Rightarrow> ep
   | None \<Rightarrow> (case path_segment (lit ''/api/v1/notifications/'') (lit ''/dismiss'') path of
       Some i \<Rightarrow> EpDismiss i
     | None \<Rightarrow> (case path_segment (lit ''/pet-assets/'') [] path of
         Some a \<Rightarrow> EpPetAsset a
       | None \<Rightarrow>
           if fixture \<and> path = lit ''/__fixture/presentation'' then EpFixture
           else if assets \<and> static_path path then EpStatic
           else EpShell)))"

text \<open>A route for \<^verbatim>\<open>GET\<close> answers \<^verbatim>\<open>HEAD\<close> as well; the file service decides by itself.\<close>

fun endpoint_methods :: "endpoint \<Rightarrow> rstr list" where
  "endpoint_methods EpSettings = [lit ''GET'', lit ''HEAD'', lit ''PUT'']"
| "endpoint_methods EpSelectPet = [lit ''PUT'']"
| "endpoint_methods EpInteraction = [lit ''POST'']"
| "endpoint_methods (EpDismiss i) = [lit ''POST'']"
| "endpoint_methods EpFixture = [lit ''PUT'']"
| "endpoint_methods _ = [lit ''GET'', lit ''HEAD'']"

definition server_csp :: rstr where
  "server_csp = lit ''default-src 'self'; base-uri 'none'; connect-src 'self'; font-src 'self'; form-action 'self'; frame-ancestors 'none'; img-src 'self' data:; object-src 'none'; script-src 'self' 'wasm-unsafe-eval'; style-src 'self' 'unsafe-inline'' @ [39]"

definition security_headers :: "server_response \<Rightarrow> server_response" where
  "security_headers r = r\<lparr>sr_headers :=
     (header_insert (lit ''referrer-policy'') (lit ''no-referrer'')
      \<circ> header_insert (lit ''x-frame-options'') (lit ''DENY'')
      \<circ> header_insert (lit ''x-content-type-options'') (lit ''nosniff'')
      \<circ> header_insert (lit ''content-security-policy'') server_csp) (sr_headers r)\<rparr>"

definition with_json :: "server_env \<Rightarrow> (byte list \<Rightarrow> nat + 'a) \<Rightarrow> http_request \<Rightarrow> local_server \<Rightarrow> database
    \<Rightarrow> ('a \<Rightarrow> server_response option \<times> local_server \<times> database)
    \<Rightarrow> server_response option \<times> local_server \<times> database" where
  "with_json env decode rq v db f = (case extract_json env decode rq of
     Inl status \<Rightarrow> (Some (respond status BodyEmpty), v, db)
   | Inr x \<Rightarrow> f x)"

definition with_param :: "server_env \<Rightarrow> rstr \<Rightarrow> local_server \<Rightarrow> database
    \<Rightarrow> (rstr \<Rightarrow> server_response option \<times> local_server \<times> database)
    \<Rightarrow> server_response option \<times> local_server \<times> database" where
  "with_param env raw v db f = (case se_path_param env raw of
     None \<Rightarrow> (Some (respond 400 BodyEmpty), v, db)
   | Some x \<Rightarrow> f x)"

fun run_endpoint :: "server_env \<Rightarrow> server_tick \<Rightarrow> http_request \<Rightarrow> endpoint \<Rightarrow> local_server \<Rightarrow> database
    \<Rightarrow> server_response option \<times> local_server \<times> database" where
  "run_endpoint env t rq EpHealth v db = (Some handle_health, v, db)"
| "run_endpoint env t rq EpContextMenu v db = (Some handle_context_menu, v, db)"
| "run_endpoint env t rq EpAppearanceShell v db = (appearance_shell env v, v, db)"
| "run_endpoint env t rq (EpPetAsset a) v db = with_param env a v db (\<lambda>a. (Some (pet_asset env a v), v, db))"
| "run_endpoint env t rq EpEvents v db = (Some (handle_events v), v, db)"
| "run_endpoint env t rq EpSnapshot v db = (Some (handle_snapshot v), v, db)"
| "run_endpoint env t rq EpSettings v db =
     (if rq_method rq \<noteq> lit ''PUT'' then (Some (handle_settings v), v, db)
      else with_json env (se_settings env) rq v db (\<lambda>u. case update_settings u v of (r, v') \<Rightarrow> (Some r, v', db)))"
| "run_endpoint env t rq EpAppearance v db = (handle_appearance env v, v, db)"
| "run_endpoint env t rq EpSelectPet v db =
     with_json env (se_selection env) rq v db (\<lambda>i. select_appearance_pet env t i v db)"
| "run_endpoint env t rq EpInteraction v db =
     with_json env (se_interaction env) rq v db (\<lambda>r. case handle_interaction t r v of (r, v') \<Rightarrow> (Some r, v', db))"
| "run_endpoint env t rq (EpDismiss i) v db =
     with_param env i v db (\<lambda>i. case dismiss_notification env t i v db of (r, v', db') \<Rightarrow> (Some r, v', db'))"
| "run_endpoint env t rq EpDiagnostics v db = (case handle_diagnostics env t v db of (r, v', db') \<Rightarrow> (Some r, v', db'))"
| "run_endpoint env t rq EpShell v db = (Some (ssr_shell (rq_path rq) v), v, db)"
| "run_endpoint env t rq EpFixture v db =
     with_json env (se_presentation env) rq v db (\<lambda>p. case update_fixture_presentation p v of (r, v') \<Rightarrow> (Some r, v', db))"
| "run_endpoint env t rq EpStatic v db = (Some (respond (se_static env rq) BodyEmpty), v, db)"

text \<open>The assets are added after the layers, so their responses do not pass \<^verbatim>\<open>security_headers\<close>.\<close>

definition serve :: "server_env \<Rightarrow> server_tick \<Rightarrow> http_request \<Rightarrow> local_server \<Rightarrow> database
    \<Rightarrow> server_response option \<times> local_server \<times> database" where
  "serve env t rq v db =
     (let ep = route_of (sv_fixture v \<noteq> None) (sv_assets v) (rq_path rq) in
      if ep = EpStatic then run_endpoint env t rq ep v db
      else if rq_method rq \<notin> set (endpoint_methods ep) then (Some (security_headers (respond 405 BodyEmpty)), v, db)
      else (case run_endpoint env t rq ep v db of (r, v', db') \<Rightarrow> (map_option security_headers r, v', db')))"

text \<open>
  The desktop's server: the middleware of \<open>Loopback\<close> in front of the router. The middleware looks at the
  response only to add its headers; a dropped connection has none.
\<close>

definition serve_loopback :: "loopback_env \<Rightarrow> loopback_clock \<Rightarrow> server_env \<Rightarrow> server_tick \<Rightarrow> http_request
    \<Rightarrow> loopback_security \<times> local_server \<times> database
    \<Rightarrow> http_response option \<times> loopback_security \<times> local_server \<times> database" where
  "serve_loopback lenv clock env t rq = (\<lambda>(sec, v, db).
     let (answer, v', db') = serve env t rq v db;
         route = (\<lambda>_. case answer of None \<Rightarrow> status_response 0
           | Some r \<Rightarrow> \<lparr>rp_status = sr_status r, rp_headers = sr_headers r\<rparr>) in
     case authorize lenv route clock rq sec of
       (resp, sec', None) \<Rightarrow> (Some resp, sec', v, db)
     | (resp, sec', Some _) \<Rightarrow> (if answer = None then None else Some resp, sec', v', db'))"

section \<open>The stream of presentations\<close>

text \<open>What the spawned task sends: first a snapshot, then every newer presentation it sees.\<close>

datatype stream_event = EventSnapshot pet_presentation_state | EventPresentation pet_presentation_state

fun event_presentation :: "stream_event \<Rightarrow> pet_presentation_state" where
  "event_presentation (EventSnapshot p) = p"
| "event_presentation (EventPresentation p) = p"

record event_stream =
  es_last_revision :: nat
  es_sent :: "stream_event list"

definition stream_open :: "pet_presentation_state \<Rightarrow> event_stream" where
  "stream_open p = \<lparr>es_last_revision = pps_revision p, es_sent = [EventSnapshot p]\<rparr>"

text \<open>One turn of the loop; \<open>p\<close> is what the channel holds when the task wakes up.\<close>

definition stream_wake :: "pet_presentation_state \<Rightarrow> event_stream \<Rightarrow> event_stream" where
  "stream_wake p e = (if pps_revision p \<le> es_last_revision e then e
     else e\<lparr>es_last_revision := pps_revision p, es_sent := es_sent e @ [EventPresentation p]\<rparr>)"

section \<open>Publishing in two steps\<close>

text \<open>
  \<^verbatim>\<open>publish_presentation\<close> of \<^verbatim>\<open>lili-app-state\<close> as it interleaves with itself: what it reads under the locks of the
  reducer, the settings and the feedback, and what it then writes under the lock of the snapshot and sends.
\<close>

record publication =
  pb_session :: session_view_snapshot
  pb_reduced_motion :: bool
  pb_feedback :: "pet_action_feedback option"

definition publication_read :: "app_state \<Rightarrow> publication" where
  "publication_read s = \<lparr>pb_session = snapshot (ap_reducer s), pb_reduced_motion = us_reduced_motion (ap_settings s),
     pb_feedback = map_option snd (ap_feedback s)\<rparr>"

definition publication_write :: "publication \<Rightarrow> app_state \<Rightarrow> app_state" where
  "publication_write p s =
     (let v = (ap_snapshot s)\<lparr>vs_session_state := pb_session p,
            vs_revision := sat_add (vs_revision (ap_snapshot s)) 1\<rparr> in
      s\<lparr>ap_snapshot := v, ap_presentation := presentation_from_view v (pb_reduced_motion p) (pb_feedback p)\<rparr>)"

end
