(* ===== verification/Server_Properties.thy ===== *)
theory Server_Properties
  imports Local_Server Loopback_Properties App_Runs
begin

text \<open>
  The local server: only authenticated requests change anything, what a dismissal answers is what happened in memory
  and on disk, and a stream of presentations ends at the current one.
\<close>

section \<open>Which endpoints change state\<close>

lemma starts_with_iff: "starts_with s p \<longleftrightarrow> (\<exists>q. s = p @ q)"
  by (auto simp: starts_with_def) (metis append_take_drop_id)

lemma path_segment_Some: "path_segment prefix suffix path = Some i \<Longrightarrow> starts_with path prefix"
  by (auto simp: path_segment_def Let_def starts_with_iff split: if_splits)

lemma starts_with_trans: "starts_with s p \<Longrightarrow> starts_with p q \<Longrightarrow> starts_with s q"
  by (auto simp: starts_with_iff)

text \<open>The endpoints behind \<^verbatim>\<open>/api/v1\<close> that may change something.\<close>

definition mutating :: "endpoint \<Rightarrow> bool" where
  "mutating ep \<longleftrightarrow> ep \<in> {EpSettings, EpSelectPet, EpInteraction, EpDiagnostics, EpFixture} \<or> (\<exists>i. ep = EpDismiss i)"

lemma run_endpoint_pure: "\<not> mutating ep \<Longrightarrow> snd (run_endpoint env t rq ep v db) = (v, db)"
  by (cases ep) (auto simp: mutating_def with_param_def split: option.splits)

lemma mutating_under_api:
  assumes "mutating (route_of False assets path)"
  shows "starts_with path (lit ''/api/'')"
proof (cases "map_of fixed_routes path")
  case None
  then obtain i where "path_segment (lit ''/api/v1/notifications/'') (lit ''/dismiss'') path = Some i"
    using assms by (auto simp: route_of_def mutating_def split: option.splits if_splits)
  then have "starts_with path (lit ''/api/v1/notifications/'')" by (rule path_segment_Some)
  then show ?thesis by (rule starts_with_trans) (simp add: starts_with_def lit_def)
next
  case (Some ep)
  with assms have "mutating ep" by (simp add: route_of_def)
  moreover have "(path, ep) \<in> set fixed_routes" using Some by (rule map_of_SomeD)
  ultimately show ?thesis by (auto simp: fixed_routes_def mutating_def) (simp_all add: starts_with_def lit_def)
qed

lemma serve_changes:
  assumes "sv_fixture v = None" "serve env t rq v db = (r, v', db')" "v' \<noteq> v \<or> db' \<noteq> db"
  shows "starts_with (rq_path rq) (lit ''/api/'')"
proof -
  have "mutating (route_of False (sv_assets v) (rq_path rq))"
  proof (rule ccontr)
    assume "\<not> mutating (route_of False (sv_assets v) (rq_path rq))"
    from run_endpoint_pure [OF this, of env t rq v db] assms show False
      by (cases "run_endpoint env t rq (route_of False (sv_assets v) (rq_path rq)) v db")
        (auto simp: serve_def Let_def split: if_splits)
  qed
  then show ?thesis by (rule mutating_under_api)
qed

text \<open>A request that only reads can refresh the diagnostics, and nothing else.\<close>

lemma refresh_changes_diagnostics:
  assumes "server_ingestion_diagnostics env t v db = (d, v', db')"
  shows "\<exists>i. sv_app v' = (sv_app v)\<lparr>ap_ingestion := i\<rparr>"
proof -
  have "\<exists>i. s = s\<lparr>ap_ingestion := i\<rparr>" for s :: app_state by (rule exI [of _ "ap_ingestion s"]) simp
  with assms show ?thesis
    by (auto simp: server_ingestion_diagnostics_def publish_diagnostics_def with_diagnostics_def Let_def
        split: if_splits option.splits)
qed

lemma read_only_methods:
  assumes "rq_method rq \<notin> {lit ''PUT'', lit ''POST''}" "serve env t rq v db = (r, v', db')"
  shows "\<exists>i. sv_app v' = (sv_app v)\<lparr>ap_ingestion := i\<rparr>"
proof -
  let ?ep = "route_of (sv_fixture v \<noteq> None) (sv_assets v) (rq_path rq)"
  have same: "\<exists>i. s = s\<lparr>ap_ingestion := i\<rparr>" for s :: app_state by (rule exI [of _ "ap_ingestion s"]) simp
  show ?thesis
  proof (cases "rq_method rq \<in> set (endpoint_methods ?ep) \<and> mutating ?ep")
    case False
    then have "v' = v" using assms(2) run_endpoint_pure [of ?ep env t rq v db]
      by (cases "run_endpoint env t rq ?ep v db") (auto simp: serve_def Let_def mutating_def split: if_splits)
    with same show ?thesis by simp
  next
    case True
    then consider "?ep = EpSettings" | "?ep = EpDiagnostics" using assms(1) by (auto simp: mutating_def)
    then show ?thesis
    proof cases
      case 1
      with assms same show ?thesis by (auto simp: serve_def Let_def split: if_splits)
    next
      case 2
      obtain d v1 db1 where run: "server_ingestion_diagnostics env t v db = (d, v1, db1)" by (cases "server_ingestion_diagnostics env t v db")
      with 2 True assms(2) have "v' = v1" by (simp add: serve_def Let_def handle_diagnostics_def)
      with refresh_changes_diagnostics [OF run] show ?thesis by simp
    qed
  qed
qed

text \<open>
  C16. Only authenticated requests change anything. If a request to the desktop's server changes the state of the server
  (the application state included) or the database, its path lies under \<^verbatim>\<open>/api/\<close>, it names the server's own authority, carries
  the session cookie, the server's origin when its method can change state, and a fresh signature over exactly its
  content whose identity was not accepted before within the retention time; and unless its method is \<^verbatim>\<open>PUT\<close> or \<^verbatim>\<open>POST\<close> nothing but
  the diagnostics changes in the application state.
\<close>

theorem state_change_authenticated:
  assumes "sv_fixture v = None" "serve_loopback lenv clock env t rq (sec, v, db) = (resp, sec', v', db')"
    and "v' \<noteq> v \<or> db' \<noteq> db"
  shows "starts_with (rq_path rq) (lit ''/api/'')
    \<and> header_get (rq_headers rq) host_header = Some (utf8_bytes (ls_authority sec))
    \<and> has_session_cookie lenv (rq_headers rq) (ls_cookie_name sec) (ls_secret sec)
    \<and> (rq_method rq \<in> {lit ''GET'', lit ''HEAD'', lit ''OPTIONS''}
       \<or> header_get (rq_headers rq) origin_header = Some (utf8_bytes (ls_origin sec)))
    \<and> (\<exists>body i. rq_body rq = Some body \<and> request_signed lenv (ls_signer sec) clock rq body i
       \<and> replay_retain (lc_instant clock) (sg_replay_cache (ls_signer sec)) i = None
       \<and> sg_replay_cache (ls_signer sec') i = Some (lc_instant clock))
    \<and> (rq_method rq \<notin> {lit ''PUT'', lit ''POST''} \<longrightarrow> (\<exists>i. sv_app v' = (sv_app v)\<lparr>ap_ingestion := i\<rparr>))"
proof -
  obtain answer v1 db1 where serve: "serve env t rq v db = (answer, v1, db1)" by (cases "serve env t rq v db")
  define route where "route = (\<lambda>_ :: http_request. case answer of None \<Rightarrow> status_response 0
      | Some r \<Rightarrow> \<lparr>rp_status = sr_status r, rp_headers = sr_headers r\<rparr>)"
  obtain resp1 sec1 passed where auth: "authorize lenv route clock rq sec = (resp1, sec1, passed)"
    by (cases "authorize lenv route clock rq sec")
  with assms(2,3) serve have "passed \<noteq> None" "v' = v1" "db' = db1" "sec' = sec1"
    by (auto simp: serve_loopback_def Let_def route_def [symmetric] split: option.splits)
  with auth obtain rq' where passed: "authorize lenv route clock rq sec = (resp1, sec', Some rq')" by auto
  have api: "starts_with (rq_path rq) (lit ''/api/'')"
    using serve_changes [OF assms(1) serve] assms(3) \<open>v' = v1\<close> \<open>db' = db1\<close> by simp
  note authorized = authorized_api [OF passed api]
  moreover have "\<exists>i. sv_app v' = (sv_app v)\<lparr>ap_ingestion := i\<rparr>" if "rq_method rq \<notin> {lit ''PUT'', lit ''POST''}"
    using read_only_methods [OF that serve] \<open>v' = v1\<close> by simp
  ultimately show ?thesis using api by blast
qed

section \<open>Dismissals\<close>

lemma acknowledged_card:
  assumes "acknowledge_notification r i now = (r', Applied n)"
  shows "(\<exists>c. map_of (rd_notifications r) i = Some c \<and> n_state c = Unread)
    \<and> (\<exists>c. map_of (rd_notifications r') i = Some c \<and> n_state c = Acknowledged)"
  using assms by (auto simp: acknowledge_notification_def Let_def split: option.splits if_splits)

lemma refused_acknowledgement:
  "acknowledge_notification r i now = (r', out) \<Longrightarrow> \<not> is_applied out \<Longrightarrow>
    r' = r \<and> \<not> (\<exists>c. map_of (rd_notifications r) i = Some c \<and> n_state c = Unread)"
  by (auto simp: acknowledge_notification_def Let_def split: option.splits if_splits)


lemma with_app_same [simp]: "with_app (sv_app v) v = v" "sv_app (with_app s v) = s"
  "sv_fixture (with_app s v) = sv_fixture v" "sv_persist (with_app s v) = sv_persist v"
  by (simp_all add: with_app_def)

lemma respond_simps [simp]: "sr_status (respond status body) = status" "sr_body (respond status body) = body"
  by (simp_all add: respond_def)

text \<open>A dismissal that is refused changes nothing, and will be refused again.\<close>

lemma dismissal_refused:
  assumes "sv_fixture v = None" "sv_persist v" "notification_id_parse i = Inr nid"
    and "\<not> (\<exists>c. map_of (rd_notifications (ap_reducer (sv_app v))) nid = Some c \<and> n_state c = Unread)"
  shows "dismiss_notification env t i v db = (mutation_response False, v, db)"
proof -
  have "acknowledge_notification (ap_reducer (sv_app v)) nid (sk_now t) = (ap_reducer (sv_app v), IgnoredStale)"
    using assms(4) by (auto simp: acknowledge_notification_def split: option.splits)
  then have "app_acknowledge_persisted (se_codec env) (sk_avail t) (sk_now t) nid (sv_app v) db = (Inr IgnoredStale, sv_app v, db)"
    by (simp add: app_acknowledge_persisted_def)
  with assms(1-3) show ?thesis by (simp add: dismiss_notification_def)
qed

lemma dismissal_of_unread:
  assumes "sv_fixture v = None" "sv_persist v" "notification_id_parse i = Inr nid"
    and "map_of (rd_notifications (ap_reducer (sv_app v))) nid = Some c" "n_state c = Unread"
    and "codec_sound (se_codec env)" "\<not> isl (store_load (se_codec env) True db)"
    and "dismiss_notification env t i v db = (r, v', db')"
  shows "r = respond 500 (BodyMutation False) \<and> v' = v \<and> db' = db
    \<or> r = mutation_response True \<and> sv_fixture v' = None \<and> sv_persist v'
      \<and> (\<exists>c'. map_of (rd_notifications (ap_reducer (sv_app v'))) nid = Some c' \<and> n_state c' = Acknowledged)
      \<and> db_holds (se_codec env) (ap_reducer (sv_app v')) db'"
proof -
  obtain res s db1 where run: "app_acknowledge_persisted (se_codec env) (sk_avail t) (sk_now t) nid (sv_app v) db = (res, s, db1)"
    by (cases "app_acknowledge_persisted (se_codec env) (sk_avail t) (sk_now t) nid (sv_app v) db")
  note all = app_acknowledge_persisted_all_or_nothing [OF assms(6,7) run]
  show ?thesis
  proof (cases res)
    case (Inl e)
    with all run assms(1-3,8) show ?thesis by (auto simp: dismiss_notification_def all_or_nothing_def)
  next
    case (Inr out)
    obtain r1 n where ack: "acknowledge_notification (ap_reducer (sv_app v)) nid (sk_now t) = (r1, Applied n)"
      using assms(4,5) by (simp add: acknowledge_notification_def Let_def)
    with run Inr have "out = Applied n" "ap_reducer s = r1"
      by (auto simp: app_acknowledge_persisted_def Let_def split: prod.splits sum.splits)
    with all Inr run acknowledged_card [OF ack] assms(1-3,8) show ?thesis
      by (auto simp: dismiss_notification_def all_or_nothing_def)
  qed
qed

text \<open>
  C17. A dismissal answers what happened. With a persistence store, a dismissal answered 200 found the notification
  unread and leaves it acknowledged in memory and in the database, from which the next start reads exactly this
  state; any other answer leaves memory and database as they were: 400 for no identity, 404 when there is no such
  unread notification, and 500 when it could not be saved, in which case it stays unread. Repeating a dismissal that was answered 200 or
  404 is answered 404 and changes nothing.
\<close>

theorem dismissal_answers_truthfully:
  assumes "codec_sound (se_codec env)" "store_load (se_codec env) True db = Inr old"
    and "sv_fixture v = None" "sv_persist v" "dismiss_notification env t i v db = (r, v', db')"
    and "unread = (\<lambda>nid. \<exists>c. map_of (rd_notifications (ap_reducer (sv_app v))) nid = Some c \<and> n_state c = Unread)"
  shows "(case notification_id_parse i of
      Inl _ \<Rightarrow> sr_status r = 400 | Inr nid \<Rightarrow> if unread nid then sr_status r \<in> {200, 500} else sr_status r = 404)
    \<and> (sr_status r = 200 \<longrightarrow>
        (\<exists>nid c. notification_id_parse i = Inr nid \<and> map_of (rd_notifications (ap_reducer (sv_app v'))) nid = Some c
           \<and> n_state c = Acknowledged)
        \<and> (\<exists>st. store_load (se_codec env) True db' = Inr (Some st)
             \<and> forget_addresses (pas_reducer st) = forget_addresses (persistent_state (ap_reducer (sv_app v')))))
    \<and> (sr_status r \<noteq> 200 \<longrightarrow> v' = v \<and> db' = db)
    \<and> (sr_status r \<in> {200, 404} \<longrightarrow> dismiss_notification env t' i v' db' = (mutation_response False, v', db'))"
proof (cases "notification_id_parse i")
  case (Inl e)
  with assms(3,5) show ?thesis by (auto simp: dismiss_notification_def)
next
  case (Inr nid)
  show ?thesis
  proof (cases "unread nid")
    case False
    with dismissal_refused [OF assms(3,4) Inr, of env t db] assms(5,6) have "r = mutation_response False" "v' = v" "db' = db"
      by auto
    with False Inr dismissal_refused [OF assms(3,4) Inr] assms(6) show ?thesis by (simp add: mutation_response_def)
  next
    case True
    then obtain c where c: "map_of (rd_notifications (ap_reducer (sv_app v))) nid = Some c" "n_state c = Unread"
      using assms(6) by blast
    have loads: "\<not> isl (store_load (se_codec env) True db)" using assms(2) by simp
    from dismissal_of_unread [OF assms(3,4) Inr c assms(1) loads assms(5)]
    consider "r = respond 500 (BodyMutation False)" "v' = v" "db' = db"
      | c' where "r = mutation_response True" "sv_fixture v' = None" "sv_persist v'"
        "map_of (rd_notifications (ap_reducer (sv_app v'))) nid = Some c'" "n_state c' = Acknowledged"
        "db_holds (se_codec env) (ap_reducer (sv_app v')) db'" by blast
    then show ?thesis
    proof cases
      case 1
      with True Inr show ?thesis by simp
    next
      case 2
      with dismissal_refused [OF 2(2,3) Inr, of env t' db'] True Inr show ?thesis
        by (simp add: mutation_response_def db_holds_def)
    qed
  qed
qed

section \<open>What is published\<close>

text \<open>
  \<open>presentation_current\<close>: the channel carries the revision of the view. \<open>published s s'\<close>: the presentation on
  the channel stays, or is replaced by one with a higher revision, until the revisions saturate.
\<close>

definition presentation_current :: "app_state \<Rightarrow> bool" where
  "presentation_current s \<longleftrightarrow> pps_revision (ap_presentation s) = vs_revision (ap_snapshot s)"

abbreviation revision_of :: "app_state \<Rightarrow> nat" where
  "revision_of s \<equiv> pps_revision (ap_presentation s)"

definition published :: "app_state \<Rightarrow> app_state \<Rightarrow> bool" where
  "published s s' \<longleftrightarrow> (presentation_current s \<longrightarrow> presentation_current s' \<and> (revision_of s \<le> u64_max \<longrightarrow>
     revision_of s' \<le> u64_max \<and>
     (ap_presentation s' = ap_presentation s \<or> revision_of s < revision_of s' \<or> revision_of s' = u64_max)))"

lemma published_refl [simp]: "published s s"
  by (simp add: published_def)

lemma published_trans:
  assumes "published s t" "published t u"
  shows "published s u"
proof (cases "presentation_current s \<and> revision_of s \<le> u64_max")
  case True
  with assms(1) have t: "presentation_current t" "revision_of t \<le> u64_max"
    "ap_presentation t = ap_presentation s \<or> revision_of s < revision_of t \<or> revision_of t = u64_max"
    by (auto simp: published_def)
  with assms(2) have u: "presentation_current u" "revision_of u \<le> u64_max"
    "ap_presentation u = ap_presentation t \<or> revision_of t < revision_of u \<or> revision_of u = u64_max"
    by (auto simp: published_def)
  from t(3) u(2,3) have "ap_presentation u = ap_presentation s \<or> revision_of s < revision_of u \<or> revision_of u = u64_max"
    by (elim disjE) simp_all
  with True u show ?thesis by (simp add: published_def)
next
  case False
  with assms show ?thesis by (auto simp: published_def)
qed

lemma published_frame:
  assumes "ap_presentation s' = ap_presentation s" "vs_revision (ap_snapshot s') = vs_revision (ap_snapshot s)"
  shows "published s s'"
  using assms by (simp add: published_def presentation_current_def)

lemma published_publish:
  assumes "ap_presentation s' = ap_presentation s" "vs_revision (ap_snapshot s') = vs_revision (ap_snapshot s)"
  shows "published s (publish_presentation s')"
  using assms by (auto simp: published_def presentation_current_def publish_presentation_def presentation_from_view_def Let_def sat_add_def)


named_theorems published_intros

lemma schedule_titles_frame:
  "ap_presentation (schedule_notification_titles event persist s) = ap_presentation s
    \<and> ap_snapshot (schedule_notification_titles event persist s) = ap_snapshot s"
proof -
  have "ap_presentation (fold (\<lambda>n s. if p s n then start_title_worker config persist n s else s) ns t) = ap_presentation t
      \<and> ap_snapshot (fold (\<lambda>n s. if p s n then start_title_worker config persist n s else s) ns t) = ap_snapshot t"
    for p config ns t by (induction ns arbitrary: t) (auto simp: start_title_worker_def)
  then show ?thesis
    by (auto simp: schedule_notification_titles_def abort_workers_def Let_def split: option.splits)
qed

lemma published_after:
  assumes "published s t" "ap_presentation u = ap_presentation t" "ap_snapshot u = ap_snapshot t"
  shows "published s u"
  using published_trans [OF assms(1) published_frame] assms(2,3) by simp

lemma published_applied [published_intros]: "published s (after_applied e persist reminder (s\<lparr>ap_reducer := r\<rparr>))"
  by (rule published_after [OF published_publish [of "s\<lparr>ap_reducer := r\<rparr>"]])
    (simp_all add: after_applied_def schedule_reminder_expiry_def schedule_titles_frame Let_def split: option.splits)

lemma published_reduced [published_intros]: "published s (publish_presentation (s\<lparr>ap_reducer := r\<rparr>))"
  "published s (s\<lparr>ap_reducer := r\<rparr>)"
  by (simp_all add: published_publish published_frame)

lemma published_event [published_intros]: "app_apply_event sha now e s = Some (out, s') \<Longrightarrow> published s s'"
  by (auto simp: app_apply_event_def Let_def intro: published_intros)

lemma published_event_saved [published_intros]:
  "app_apply_event_persisted sha co avail now started e s db = Some (res, s', db') \<Longrightarrow> published s s'"
  by (auto simp: app_apply_event_persisted_def Let_def intro: published_intros split: if_splits sum.splits prod.splits)

lemma published_advanced [published_intros]: "published s (snd (app_advance_presentation now s))"
  by (auto simp: app_advance_presentation_def Let_def intro: published_intros split: prod.splits)

lemma published_acknowledged [published_intros]: "published s (snd (app_acknowledge now i s))"
  by (auto simp: app_acknowledge_def Let_def intro: published_intros split: prod.splits)

lemma published_acknowledged_saved [published_intros]:
  "app_acknowledge_persisted co avail now i s db = (res, s', db') \<Longrightarrow> published s s'"
  by (auto simp: app_acknowledge_persisted_def Let_def intro: published_intros split: prod.splits sum.splits if_splits)

lemma published_timer [published_intros]: "published s (fire_timer t s)"
proof -
  let ?s = "s\<lparr>ap_timers := remove1 t (ap_timers s)\<rparr>"
  have "published s ?s" by (simp add: published_frame)
  moreover have "published ?s (fire_timer t s)"
    by (auto simp: fire_timer_def Let_def intro: published_intros published_publish split: app_timer.splits)
  ultimately show ?thesis by (rule published_trans)
qed

lemma published_title_saved:
  "save_notification_title co persist avail n title s db = (res, s', db') \<Longrightarrow>
    ap_presentation s' = ap_presentation s \<and> ap_snapshot s' = ap_snapshot s"
  by (auto simp: save_notification_title_def Let_def split: prod.splits sum.splits if_splits bool.splits)

lemma published_titled [published_intros]:
  assumes "complete_title co avail w title s db = (s', db')"
  shows "published s s'"
proof -
  let ?s = "abort_workers {tw_token w} s"
  have forget: "ap_presentation (forget_title i token u) = ap_presentation u" "ap_snapshot (forget_title i token u) = ap_snapshot u" for i token u
    by (simp_all add: forget_title_def)
  have same: "ap_presentation ?s = ap_presentation s" "ap_snapshot ?s = ap_snapshot s" by (simp_all add: abort_workers_def)
  consider "ap_presentation s' = ap_presentation ?s" "ap_snapshot s' = ap_snapshot ?s"
    | u i token where "s' = forget_title i token (publish_presentation u)" "ap_presentation u = ap_presentation ?s"
      "ap_snapshot u = ap_snapshot ?s"
    using assms by (auto simp: complete_title_def Let_def forget dest: published_title_saved split: if_splits option.splits prod.splits)
  then show ?thesis
  proof cases
    case 1
    then show ?thesis by (simp add: published_frame same)
  next
    case 2
    with same have "published s (publish_presentation u)" by (simp add: published_publish)
    then show ?thesis unfolding 2(1) by (rule published_after) (simp_all add: forget)
  qed
qed

lemma published_feedback [published_intros]: "published s (set_action_feedback f s)"
  by (rule published_after [OF published_publish [of "s\<lparr>ap_feedback := Some (ap_alloc s, f)\<rparr>"]])
    (simp_all add: set_action_feedback_def Let_def)

lemma published_result [published_intros]: "published s (snd (publish_action_result r s))"
  by (auto simp: publish_action_result_def intro: published_intros split: option.splits)

lemma published_completed [published_intros]:
  "complete_notification_action co persist avail now c r s db = (res, s', db') \<Longrightarrow> published s s'"
  by (auto simp: complete_notification_action_def intro: published_intros split: if_splits option.splits sum.splits prod.splits)

lemma published_finished [published_intros]:
  assumes "finish_dispatch co avail now sp r s db = (s', db')"
  shows "published s s'"
proof -
  let ?s = "s\<lparr>ap_spawned := remove1 sp (ap_spawned s)\<rparr>"
  obtain res u db1 where run: "complete_notification_action co (sp_persist sp) avail now (sp_context sp) r ?s db = (res, u, db1)"
    by (cases "complete_notification_action co (sp_persist sp) avail now (sp_context sp) r ?s db")
  have "published s ?s" by (simp add: published_frame)
  also note published_completed [OF run]
  finally (published_trans) have "published s u" .
  moreover have "published u s'" using assms run
    by (auto simp: finish_dispatch_def Let_def intro: published_intros split: sum.splits)
  ultimately show ?thesis by (rule published_trans)
qed

lemma published_dispatched [published_intros]: "published s (snd (dispatch_interaction c persist s))"
  by (rule published_frame) (auto simp: dispatch_interaction_def Let_def split: prod.splits bool.splits option.splits)

lemma published_configured [published_intros]: "published s (snd (configure_actions l n persist s))"
  by (rule published_after [OF published_publish]) (auto simp: configure_actions_def schedule_titles_frame abort_workers_def Let_def)

lemma published_installed [published_intros]: "published s (snd (install_pets rt s))"
  by (auto simp: install_pets_def Let_def intro: published_publish)

lemma published_selected [published_intros]:
  "select_pet env fresh with_store avail root pid s db = (res, s', db') \<Longrightarrow> published s s'"
  using published_installed by (auto simp: select_pet_def Let_def intro: published_frame
      split: selection_preparation.splits sum.splits prod.splits if_splits) (metis snd_conv)+

lemma published_replaced [published_intros]: "replace_pet_catalog env fresh fresh2 cat s = Some (p, s') \<Longrightarrow> published s s'"
  using published_installed by (auto simp: replace_pet_catalog_def) (metis snd_conv)

lemma published_other [published_intros]: "published s (shutdown_title_actions s)" "published s (replace_settings u s)"
  "published s (s\<lparr>ap_ingestion := d\<rparr>)"
  by (auto simp: shutdown_title_actions_def replace_settings_def Let_def intro: published_frame published_publish split: option.splits)

lemma running_step_published: "running_step sha co x y \<Longrightarrow> published (fst x) (fst y)"
  by (induction rule: running_step.induct) (auto intro: published_intros)


section \<open>The stream of presentations\<close>

text \<open>A connected client: the desktop takes a step, or the task of the stream wakes up and reads the channel.\<close>

inductive stream_step :: "(byte list \<Rightarrow> byte list) \<Rightarrow> app_codec \<Rightarrow> (app_state \<times> database) \<times> event_stream
    \<Rightarrow> (app_state \<times> database) \<times> event_stream \<Rightarrow> bool"
  for sha :: "byte list \<Rightarrow> byte list" and co :: app_codec where
  desktop: "running_step sha co x y \<Longrightarrow> stream_step sha co (x, e) (y, e)"
| wake: "stream_step sha co (x, e) (x, stream_wake (ap_presentation (fst x)) e)"

definition stream_init :: "app_state \<Rightarrow> (app_state \<times> database) \<times> event_stream \<Rightarrow> bool" where
  "stream_init s0 = (\<lambda>(x, e). fst x = s0 \<and> presentation_current s0 \<and> revision_of s0 \<le> u64_max
     \<and> e = stream_open (ap_presentation s0))"

text \<open>What the client got, as presentations: a snapshot first, revisions increasing, the last one remembered.\<close>

definition stream_inv :: "app_state \<Rightarrow> (app_state \<times> database) \<times> event_stream \<Rightarrow> bool" where
  "stream_inv s0 = (\<lambda>((s, db), e). presentation_current s \<and> revision_of s \<le> u64_max
     \<and> (\<exists>ps. es_sent e = EventSnapshot (ap_presentation s0) # map EventPresentation ps
          \<and> sorted_wrt (<) (map pps_revision (ap_presentation s0 # ps))
          \<and> es_last_revision e = pps_revision (last (ap_presentation s0 # ps))
          \<and> es_last_revision e \<le> revision_of s
          \<and> (es_last_revision e = revision_of s \<longrightarrow> revision_of s < u64_max
               \<longrightarrow> last (ap_presentation s0 # ps) = ap_presentation s)))"

lemma stream_init_inv: "stream_init s0 x \<Longrightarrow> stream_inv s0 x"
  by (cases x) (auto simp: stream_init_def stream_inv_def stream_open_def intro!: exI [of _ "[]"])

lemma sorted_wrt_last: "sorted_wrt (<) (xs @ [y :: nat]) \<Longrightarrow> z \<in> set xs \<Longrightarrow> z < y"
  by (simp add: sorted_wrt_append)

lemma sorted_le_last:
  assumes "sorted_wrt (<) (xs :: nat list)" "x \<in> set xs"
  shows "x \<le> last xs"
  using assms by (induction xs) (auto split: if_splits intro: less_imp_le)

lemma stream_desktop_inv:
  assumes "stream_inv s0 ((s, db), e)" "running_step sha co (s, db) (s', db')"
  shows "stream_inv s0 ((s', db'), e)"
proof -
  have p: "published s s'" using running_step_published [OF assms(2)] by simp
  from assms(1) have s: "presentation_current s" "revision_of s \<le> u64_max" by (simp_all add: stream_inv_def)
  with p have s': "presentation_current s'" "revision_of s' \<le> u64_max"
    "ap_presentation s' = ap_presentation s \<or> revision_of s < revision_of s' \<or> revision_of s' = u64_max"
    by (simp_all add: published_def)
  from assms(1) obtain ps where ps: "es_sent e = EventSnapshot (ap_presentation s0) # map EventPresentation ps"
    "sorted_wrt (<) (map pps_revision (ap_presentation s0 # ps))"
    "es_last_revision e = pps_revision (last (ap_presentation s0 # ps))" "es_last_revision e \<le> revision_of s"
    "es_last_revision e = revision_of s \<longrightarrow> revision_of s < u64_max \<longrightarrow> last (ap_presentation s0 # ps) = ap_presentation s"
    unfolding stream_inv_def by blast
  have "es_last_revision e \<le> revision_of s'
    \<and> (es_last_revision e = revision_of s' \<longrightarrow> revision_of s' < u64_max \<longrightarrow> last (ap_presentation s0 # ps) = ap_presentation s')"
    using s'(3)
  proof (elim disjE)
    assume "ap_presentation s' = ap_presentation s"
    with ps(4,5) show ?thesis by simp
  qed (use ps(4) s(2) in simp_all)
  with ps(1-3) s'(1,2) show ?thesis unfolding stream_inv_def by blast
qed

lemma stream_wake_inv:
  assumes "stream_inv s0 ((s, db), e)"
  shows "stream_inv s0 ((s, db), stream_wake (ap_presentation s) e)"
proof (cases "revision_of s \<le> es_last_revision e")
  case True
  then have "stream_wake (ap_presentation s) e = e" by (simp add: stream_wake_def)
  with assms show ?thesis by simp
next
  case False
  from assms obtain ps where ps: "es_sent e = EventSnapshot (ap_presentation s0) # map EventPresentation ps"
    "sorted_wrt (<) (map pps_revision (ap_presentation s0 # ps))"
    "es_last_revision e = pps_revision (last (ap_presentation s0 # ps))"
    unfolding stream_inv_def by blast
  have "last (map pps_revision (ap_presentation s0 # ps)) < revision_of s" using False ps(3) by (subst last_map) simp_all
  then have "\<forall>x \<in> set (map pps_revision (ap_presentation s0 # ps)). x < revision_of s"
    using sorted_le_last [OF ps(2)] by fastforce
  then have sorted: "sorted_wrt (<) (map pps_revision (ap_presentation s0 # (ps @ [ap_presentation s])))"
    using ps(2) by (simp add: sorted_wrt_append)
  define qs where "qs = ps @ [ap_presentation s]"
  have parts: "es_sent (stream_wake (ap_presentation s) e) = EventSnapshot (ap_presentation s0) # map EventPresentation qs"
    "es_last_revision (stream_wake (ap_presentation s) e) = revision_of s"
    "last (ap_presentation s0 # qs) = ap_presentation s"
    using False ps(1) by (simp_all add: stream_wake_def qs_def)
  have "\<exists>ps. es_sent (stream_wake (ap_presentation s) e) = EventSnapshot (ap_presentation s0) # map EventPresentation ps
      \<and> sorted_wrt (<) (map pps_revision (ap_presentation s0 # ps))
      \<and> es_last_revision (stream_wake (ap_presentation s) e) = pps_revision (last (ap_presentation s0 # ps))
      \<and> es_last_revision (stream_wake (ap_presentation s) e) \<le> revision_of s
      \<and> (es_last_revision (stream_wake (ap_presentation s) e) = revision_of s \<longrightarrow> revision_of s < u64_max
           \<longrightarrow> last (ap_presentation s0 # ps) = ap_presentation s)"
    by (rule exI [of _ qs]) (use sorted parts in \<open>simp only: qs_def [symmetric] simp_thms order_refl\<close>)
  moreover have "presentation_current s" "revision_of s \<le> u64_max" using assms by (simp_all add: stream_inv_def)
  ultimately show ?thesis unfolding stream_inv_def prod.case by (intro conjI)
qed

interpretation client_stream: invariant_system "stream_init s0" "stream_step sha co" "stream_inv s0"
  for s0 sha co
proof unfold_locales
  fix x y
  assume "stream_inv s0 x" "stream_step sha co x y"
  from this(2,1) show "stream_inv s0 y"
    by (induction rule: stream_step.induct) (auto intro: stream_desktop_inv stream_wake_inv)
qed (rule stream_init_inv)

text \<open>The channel of every reachable desktop carries the revision of its view, restarts included.\<close>

lemma loaded_current: "app_with_reducer env fresh fresh2 c r = Some s \<Longrightarrow> presentation_current s"
  by (auto simp: app_with_reducer_def presentation_current_def presentation_from_view_def Let_def)

lemma restored_current:
  "with_persistent_state env fresh fresh2 c st = Some (Inr s) \<Longrightarrow> presentation_current s"
  by (cases "from_persistent_state (pas_reducer st)") (auto simp: with_persistent_state_def intro: loaded_current)

lemma restarted_current:
  "load_application env fresh fresh2 root co avail db = Some (Inr (s', place)) \<Longrightarrow> presentation_current s'"
  by (cases "store_load co avail db")
    (auto simp: load_application_def with_pet_catalog_def bind_eq_Some_conv
      intro: loaded_current restored_current split: option.splits)

interpretation desktop_view: invariant_system desktop_init "desktop_step sha co" "\<lambda>x. presentation_current (fst x)"
  for sha co
proof unfold_locales
  fix x y
  assume "presentation_current (fst x)" "desktop_step sha co x y"
  from this(2,1) show "presentation_current (fst y)"
    by (induction rule: desktop_step.induct)
      (use running_step_published in \<open>auto simp: published_def dest: restarted_current\<close>)
qed (auto simp: desktop_init_def with_pet_catalog_def dest: loaded_current)

text \<open>
  C18. No update is lost. A client that connects to the stream of presentations of a running desktop gets the
  presentation of that moment as a snapshot, then presentations of strictly increasing revision; and whatever the desktop did, each
  operation publishing as one step, and however seldom the stream was awake in between, once it has woken up after
  the last change the last thing the client got is the current presentation (until the revision saturates).
\<close>

theorem stream_ends_current:
  assumes "desktop_init x0" "(desktop_step sha co)\<^sup>*\<^sup>* x0 (s0, db0)" "revision_of s0 \<le> u64_max"
    and "(stream_step sha co)\<^sup>*\<^sup>* ((s0, db0), stream_open (ap_presentation s0)) ((s, db), e)" "revision_of s < u64_max"
  shows "\<exists>ps. es_sent (stream_wake (ap_presentation s) e) = EventSnapshot (ap_presentation s0) # map EventPresentation ps
    \<and> sorted_wrt (<) (map pps_revision (ap_presentation s0 # ps)) \<and> last (ap_presentation s0 # ps) = ap_presentation s"
proof -
  have "presentation_current s0" using desktop_view.inv_reachable [OF assms(1,2)] by simp
  with assms(3) have "stream_init s0 ((s0, db0), stream_open (ap_presentation s0))" by (simp add: stream_init_def)
  from client_stream.inv_reachable [OF this assms(4)] have inv: "stream_inv s0 ((s, db), e)" .
  from stream_wake_inv [OF inv] obtain ps where ps:
    "es_sent (stream_wake (ap_presentation s) e) = EventSnapshot (ap_presentation s0) # map EventPresentation ps"
    "sorted_wrt (<) (map pps_revision (ap_presentation s0 # ps))"
    "es_last_revision (stream_wake (ap_presentation s) e) \<le> revision_of s"
    "es_last_revision (stream_wake (ap_presentation s) e) = revision_of s \<longrightarrow> last (ap_presentation s0 # ps) = ap_presentation s"
    using assms(5) unfolding stream_inv_def by blast
  moreover have "revision_of s \<le> es_last_revision (stream_wake (ap_presentation s) e)" by (simp add: stream_wake_def)
  ultimately show ?thesis by auto
qed

section \<open>Two publications at once\<close>

text \<open>
  \<^verbatim>\<open>publish_presentation\<close> reads the reducer, the settings and the feedback under their own locks before it takes the lock of the
  snapshot. One that read first and writes last puts the older state back on the channel, under a higher
  revision.
\<close>

lemma publish_in_two_steps: "publish_presentation s = publication_write (publication_read s) s"
  by (simp add: publish_presentation_def publication_write_def publication_read_def)

lemma late_publication_is_stale:
  assumes "s2 = publish_presentation (s\<lparr>ap_reducer := r\<rparr>)" "s3 = publication_write (publication_read s) s2"
  shows "pps_notifications (ap_presentation s3) = map present_notification
      (filter (\<lambda>n. n_state n = Unread) (svs_notifications (snapshot (ap_reducer s))))"
    "ap_reducer s3 = r" "pps_revision (ap_presentation s3) = sat_add (pps_revision (ap_presentation s2)) 1"
  using assms by (simp_all add: publish_presentation_def publication_write_def publication_read_def presentation_from_view_def Let_def)


end
