(* ===== verification/Server_Example.thy ===== *)
theory Server_Example
  imports Server_Properties App_Guarantees Notification_Cards
begin

text \<open>
  Concrete requests: the signed settings change of \<open>Loopback_Properties\<close> goes through the middleware to the
  handler, a notification is dismissed and saved, a client is told of changed settings.
\<close>

section \<open>Concrete requests\<close>

definition sample_server_env :: server_env where
  "sample_server_env = \<lparr>se_pet = example_env, se_codec = sample_codec,
     se_ingest = \<lparr>ie_sha = sample_sha, ie_hmac = (\<lambda>_ _. []), ie_decode = (\<lambda>_. None), ie_encode = (\<lambda>_. None),
       ie_codec = sample_codec, ie_evidence = undefined\<rparr>,
     se_json_content = (\<lambda>_. True), se_path_param = Some, se_selection = (\<lambda>_. Inl 400),
     se_settings = (\<lambda>_. Inr \<lparr>us_always_on_top = False, us_reduced_motion = True\<rparr>), se_interaction = (\<lambda>_. Inl 400),
     se_presentation = (\<lambda>_. Inl 400), se_static = (\<lambda>_. 404)\<rparr>"

text \<open>The desktop's server around the application state \<open>s\<close>, and what a request reads from outside.\<close>

definition sample_local_server :: "app_state \<Rightarrow> local_server" where
  "sample_local_server s = native_server
     (ingestion_channel s \<lparr>cd_instance_id = lit ''i'', cd_secret = []\<rparr> 1 adapter_default False) False True [] False"

definition sample_tick :: server_tick where
  "sample_tick = \<lparr>sk_request_id = 1, sk_unix_millis = Some 7, sk_now = 7, sk_avail = False, sk_fresh = (\<lambda>_. lit ''a''),
     sk_inspected = None, sk_actor_open = True,
     sk_ingest = \<lparr>it_now = 7, it_started = 7, it_avail = False, it_evidence_avail = False, it_evidence_now = 7\<rparr>\<rparr>"

lemma sample_server_fields [simp]:
  "sv_fixture (sample_local_server s) = None" "sv_persist (sample_local_server s)" "\<not> sv_assets (sample_local_server s)"
  "sv_app (sample_local_server s) = s"
  by (simp_all add: sample_local_server_def native_server_def ingestion_channel_def)

lemma settings_changed:
  "serve sample_server_env sample_tick example_request (sample_local_server s) db
    = (Some (security_headers (respond 200 (BodySettings \<lparr>us_always_on_top = False, us_reduced_motion = True\<rparr>))),
       with_app (replace_settings \<lparr>us_always_on_top = False, us_reduced_motion = True\<rparr> s) (sample_local_server s), db)"
proof -
  have "route_of False False (lit ''/api/v1/settings'') = EpSettings"
    by (simp add: route_of_def fixed_routes_def lit_def)
  then show ?thesis
    by (simp add: serve_def Let_def example_request_def with_json_def extract_json_def sample_server_env_def update_settings_def
        max_request_body_bytes_def) (simp add: lit_def replace_settings_def publish_presentation_def with_app_def Let_def)
qed

theorem state_change_authenticated_witness:
  "\<exists>s resp sec' v'. serve_loopback loopback_example (clock_at 100000000000) sample_server_env sample_tick example_request
       (example_server, sample_local_server s, empty_database) = (resp, sec', v', empty_database)
     \<and> us_reduced_motion (ap_settings (sv_app v'))
     \<and> (\<exists>body i. rq_body example_request = Some body
          \<and> request_signed loopback_example (ls_signer example_server) (clock_at 100000000000) example_request body i)"
proof -
  obtain s where "desktop_init (s, empty_database)" by (rule example_start)
  let ?s = "s\<lparr>ap_settings := default_settings\<rparr>" and ?u = "\<lparr>us_always_on_top = False, us_reduced_motion = True\<rparr>"
  let ?v = "with_app (replace_settings ?u ?s) (sample_local_server ?s)"
  let ?answer = "security_headers (respond 200 (BodySettings ?u))"
  obtain sec' where "authorize loopback_example (\<lambda>_. \<lparr>rp_status = sr_status ?answer, rp_headers = sr_headers ?answer\<rparr>)
      (clock_at 100000000000) example_request example_server
    = (harden example_server \<lparr>rp_status = sr_status ?answer, rp_headers = sr_headers ?answer\<rparr>, sec', Some example_request)"
    using example_passes [of 100000000000 "\<lambda>_. \<lparr>rp_status = sr_status ?answer, rp_headers = sr_headers ?answer\<rparr>"] by auto
  then obtain resp where run: "serve_loopback loopback_example (clock_at 100000000000) sample_server_env sample_tick example_request
      (example_server, sample_local_server ?s, empty_database) = (resp, sec', ?v, empty_database)"
    using settings_changed [of ?s empty_database] by (simp add: serve_loopback_def Let_def)
  have new: "us_reduced_motion (ap_settings (sv_app ?v))"
    by (simp add: replace_settings_def publish_presentation_def Let_def)
  then have "?v \<noteq> sample_local_server ?s" by (auto simp: default_settings_def dest: arg_cong [of _ _ sv_app])
  with state_change_authenticated [OF sample_server_fields(1) run] run new show ?thesis by blast
qed

text \<open>The state with one unread card, the state after its dismissal, and a codec of that one state.\<close>

definition sample_unread :: reducer where
  "sample_unread = fst (the (reduce_at sample_sha initial_reducer (sample_event TurnFailed ''t1'' ''e1'' 5) 6))"

definition sample_dismissed :: reducer where
  "sample_dismissed = fst (acknowledge_notification sample_unread sample_card 7)"

definition dismissed_codec :: app_codec where
  "dismissed_codec = \<lparr>co_reducer_to = (\<lambda>st. if st = persistent_state sample_dismissed then Some (lit ''d'') else None),
     co_reducer_from = (\<lambda>text. if text = lit ''d'' then Some (persistent_state sample_dismissed) else None),
     co_placement_to = (\<lambda>p. None), co_placement_from = (\<lambda>text. None), co_json_ok = (\<lambda>text. True)\<rparr>"

lemma sample_unread_card:
  "reducer_wf sample_unread"
  "\<exists>n. rd_notifications sample_unread = [(sample_card, n)] \<and> n_state n = Unread"
  "rd_revision sample_unread = 1" "\<forall>s \<in> set (bt_values (rd_sessions sample_unread)). sr_retired_turn_ids s = []"
proof -
  obtain r n where run: "reduce_at sample_sha initial_reducer (sample_event TurnFailed ''t1'' ''e1'' 5) 6 = Some (r, Applied 1)"
    "reducer_wf r" "rd_notifications r = [(sample_card, n)]" "n_id n = sample_card" "n_state n = Unread" "n_title n = None"
    by (rule sample_card_state)
  then have r: "sample_unread = r" by (simp add: sample_unread_def)
  from run r show "reducer_wf sample_unread" "\<exists>n. rd_notifications sample_unread = [(sample_card, n)] \<and> n_state n = Unread"
    by auto
  show "rd_revision sample_unread = 1" "\<forall>s \<in> set (bt_values (rd_sessions sample_unread)). sr_retired_turn_ids s = []"
    by (simp_all add: sample_unread_def run_defs)
qed

lemma sample_acknowledged:
  "acknowledge_notification sample_unread sample_card 7 = (sample_dismissed, Applied 2)"
  "\<exists>n. rd_notifications sample_dismissed = [(sample_card, n)] \<and> n_state n = Acknowledged"
  "rd_sessions sample_dismissed = rd_sessions sample_unread" "rd_revision sample_dismissed = 2"
  using sample_unread_card(2,3)
  by (auto simp: sample_dismissed_def acknowledge_notification_def Let_def show_replacement_def refresh_presentation_def
      set_presentation_def bump_revision_def sat_add_def u64_max_def split: if_splits)

lemma dismissed_persistent:
  "rs_notifications (persistent_state sample_dismissed) = []" "rs_revision (persistent_state sample_dismissed) = 2"
  using sample_acknowledged(2,4) by (auto simp: persistent_state_def bt_values_def select_notifications_def Let_def)

lemma dismissed_codec_sound: "codec_sound dismissed_codec"
  by (auto simp: codec_sound_def dismissed_codec_def dismissed_persistent)

lemma dismissed_restores: "\<not> isl (from_persistent_state (persistent_state sample_dismissed))"
proof -
  have "reducer_wf sample_dismissed"
    using reducer_step_wf [OF step_acknowledge sample_unread_card(1), of sample_card 7] by (simp add: sample_dismissed_def)
  then show ?thesis
    using restore_persistent [of sample_dismissed] sample_unread_card(4) sample_acknowledged(3)
    by (auto simp: current_retired_def persisted_records_def split: if_splits dest: in_set_takeD)
qed

lemma dismissed_save:
  "\<exists>db'. store_save dismissed_codec True (persistent_state_of None (s\<lparr>ap_reducer := sample_dismissed\<rparr>)) empty_database
     = (Inr (), db')"
proof -
  let ?st = "persistent_state_of None (s\<lparr>ap_reducer := sample_dismissed\<rparr>)"
  have "persistent_validate ?st = Inr ()"
    using dismissed_restores parsed_again
    by (auto simp: persistent_validate_iff) (auto simp: persistent_state_of_def persistent_new_def)
  moreover have "byte_len (lit ''d'') \<le> max_reducer_snapshot_bytes"
    by (simp add: byte_len_def utf8_width_def lit_def max_reducer_snapshot_bytes_def utf8_bytes_def utf8_code_def)
  moreover have "pas_window_placement ?st = None" by (simp add: persistent_state_of_def persistent_new_def)
  moreover have "co_reducer_to dismissed_codec (persistent_state sample_dismissed) = Some (lit ''d'')"
    by (simp add: dismissed_codec_def)
  ultimately show ?thesis
    by (simp add: store_save_def app_state_row_of_def reducer_snapshot_def ok_or_def sample_acknowledged(4)
        update_app_state_if_newer_def empty_app_state_def i64_max_def)
qed

definition saving_env :: server_env where
  "saving_env = sample_server_env\<lparr>se_codec := dismissed_codec\<rparr>"

lemma sample_dismissal:
  "\<exists>v' db'. dismiss_notification saving_env (sample_tick\<lparr>sk_avail := True\<rparr>) (ident_str sample_card)
     (sample_local_server (s\<lparr>ap_reducer := sample_unread\<rparr>)) empty_database = (mutation_response True, v', db')"
proof -
  have "notification_id_parse (ident_str sample_card) = Inr sample_card"
    using sample_notification_id by (simp add: notification_id_def sample_sha_def sample_card_def)
  moreover obtain db' where "store_save dismissed_codec True (persistent_state_of None (s\<lparr>ap_reducer := sample_dismissed\<rparr>)) empty_database
     = (Inr (), db')" using dismissed_save by blast
  ultimately show ?thesis
    by (simp add: dismiss_notification_def saving_env_def app_acknowledge_persisted_def sample_acknowledged(1) Let_def sample_tick_def)
qed

theorem dismissal_answers_truthfully_witness:
  "\<exists>s r v' db'. (\<exists>c. map_of (rd_notifications (ap_reducer s)) sample_card = Some c \<and> n_state c = Unread)
     \<and> dismiss_notification saving_env (sample_tick\<lparr>sk_avail := True\<rparr>) (ident_str sample_card) (sample_local_server s) empty_database
       = (r, v', db')
     \<and> sr_status r = 200
     \<and> (\<exists>st. store_load dismissed_codec True db' = Inr (Some st)
          \<and> forget_addresses (pas_reducer st) = forget_addresses (persistent_state (ap_reducer (sv_app v'))))
     \<and> dismiss_notification saving_env sample_tick (ident_str sample_card) v' db' = (mutation_response False, v', db')"
proof -
  obtain s0 where "desktop_init (s0, empty_database)" by (rule example_start)
  let ?s = "s0\<lparr>ap_reducer := sample_unread\<rparr>"
  obtain v' db' where run: "dismiss_notification saving_env (sample_tick\<lparr>sk_avail := True\<rparr>) (ident_str sample_card)
      (sample_local_server ?s) empty_database = (mutation_response True, v', db')" using sample_dismissal by blast
  have card: "\<exists>c. map_of (rd_notifications (ap_reducer ?s)) sample_card = Some c \<and> n_state c = Unread"
    using sample_unread_card(2) by auto
  have env: "codec_sound (se_codec saving_env)" "store_load (se_codec saving_env) True empty_database = Inr None"
    "se_codec saving_env = dismissed_codec"
    using dismissed_codec_sound by (simp_all add: saving_env_def store_load_parts load_reducer_def empty_app_state_def)
  have "sr_status (mutation_response True) = 200" by (simp add: mutation_response_def)
  with dismissal_answers_truthfully [OF env(1,2) sample_server_fields(1,2) run refl, where t' = sample_tick] run card env(3)
  show ?thesis by (intro exI [of _ ?s]) auto
qed

theorem stream_ends_current_witness:
  "\<exists>s0 s e ps. ap_presentation s \<noteq> ap_presentation s0
     \<and> (stream_step sample_sha sample_codec)\<^sup>*\<^sup>* ((s0, empty_database), stream_open (ap_presentation s0)) ((s, empty_database), e)
     \<and> es_sent (stream_wake (ap_presentation s) e) = EventSnapshot (ap_presentation s0) # map EventPresentation ps
     \<and> last (ap_presentation s0 # ps) = ap_presentation s"
proof -
  obtain s0 where s0: "desktop_init (s0, empty_database)" "ap_reducer s0 = initial_reducer" by (rule example_start)
  then have rev: "revision_of s0 = 0" "vs_revision (ap_snapshot s0) = 0"
    by (auto simp: desktop_init_def with_pet_catalog_def app_with_reducer_def presentation_from_view_def initial_reducer_def Let_def)
  let ?s = "replace_settings default_settings s0"
  have run: "(stream_step sample_sha sample_codec)\<^sup>*\<^sup>* ((s0, empty_database), stream_open (ap_presentation s0))
      ((?s, empty_database), stream_open (ap_presentation s0))"
    by (rule r_into_rtranclp) (rule desktop [OF settings])
  have one: "revision_of ?s = 1"
    using rev by (simp add: replace_settings_def publish_presentation_def presentation_from_view_def Let_def sat_add_def u64_max_def)
  then have "ap_presentation ?s \<noteq> ap_presentation s0" using rev by auto
  moreover have "revision_of s0 \<le> u64_max" "revision_of ?s < u64_max" using rev one by (simp_all add: u64_max_def)
  ultimately show ?thesis using stream_ends_current [OF s0(1) rtranclp.rtrancl_refl _ run] run by blast
qed

end
