(* ===== verification/Carousel.thy ===== *)
theory Carousel
  imports Lili_Core
begin

text \<open>
  \<^verbatim>\<open>lili-ui/src/notification_carousel.rs\<close>: which notification cards the pet window shows. At most two cards
  are visible; the wheel, the keyboard focus and the arrival or removal of notifications move the window over
  the ordered cards, one transition at a time, and a removed card stays while it fades out. The signals of
  the controller are a record, what the browser delivers are \<open>carousel_event\<close>s. Arithmetic on \<^verbatim>\<open>f64\<close> is the record
  \<open>float_ops\<close> of the operations used. Indices of cards stay below the number of cards, so their saturation never shows.
\<close>

section \<open>Visual roles\<close>

datatype card_role = CardHidden | CardTopBehind | CardTop | CardBottom | CardBottomBehind

record card_visual =
  cv_role :: card_role
  cv_current :: bool
  cv_foreground :: bool

definition hidden_visual :: card_visual where
  "hidden_visual = \<lparr>cv_role = CardHidden, cv_current = False, cv_foreground = False\<rparr>"

datatype hit_region_mode = HitEmpty | HitTop | HitBottom | HitBoth | HitReflow | HitScroll

definition hit_region_as_str :: "hit_region_mode \<Rightarrow> rstr" where
  "hit_region_as_str m = (case m of HitEmpty \<Rightarrow> lit ''empty'' | HitTop \<Rightarrow> lit ''top'' | HitBottom \<Rightarrow> lit ''bottom''
     | HitBoth \<Rightarrow> lit ''both'' | HitReflow \<Rightarrow> lit ''reflow'' | HitScroll \<Rightarrow> lit ''scroll'')"

section \<open>The state\<close>

text \<open>The operations on doubles; \<open>fl_quarters n\<close> is the double \<open>n / 4\<close>, \<open>fl_signum\<close> is \<^verbatim>\<open>signum() as i32\<close>.\<close>

record 'f float_ops =
  fl_quarters :: "int \<Rightarrow> 'f"
  fl_add :: "'f \<Rightarrow> 'f \<Rightarrow> 'f"
  fl_mul :: "'f \<Rightarrow> 'f \<Rightarrow> 'f"
  fl_abs :: "'f \<Rightarrow> 'f"
  fl_clamp :: "'f \<Rightarrow> 'f \<Rightarrow> 'f \<Rightarrow> 'f"
  fl_less :: "'f \<Rightarrow> 'f \<Rightarrow> bool"
  fl_le :: "'f \<Rightarrow> 'f \<Rightarrow> bool"
  fl_signum :: "'f \<Rightarrow> int"

record 'f exit_visual =
  xv_top :: 'f
  xv_opacity :: rstr
  xv_transform :: rstr
  xv_below_pet :: bool

record 'f exiting_card =
  xc_notification :: pet_notification_presentation
  xc_role :: card_role
  xc_preserve_slot :: bool
  xc_visual :: "'f exit_visual option"

record 'f carousel =
  ca_ids :: "rstr list"
  ca_start :: nat
  ca_foreground :: "nat option"
  ca_pending_focus :: "nat option"
  ca_pending_moves :: int
  ca_accumulator :: 'f
  ca_last_wheel_at :: "nat option"
  ca_wheel_lock_until :: nat
  ca_last_direction :: int
  ca_transition_until :: nat
  ca_exiting :: "'f exiting_card list"
  ca_exit_visuals :: "(rstr \<times> 'f exit_visual) list"
  ca_reflowing :: bool
  ca_return_focus :: bool

definition xc_id :: "'f exiting_card \<Rightarrow> rstr" where
  "xc_id x = pnp_activation_id (xc_notification x)"

definition wheel_trigger_distance :: "'f float_ops \<Rightarrow> 'f" where "wheel_trigger_distance fl = fl_quarters fl 96"
definition wheel_scale :: "'f float_ops \<Rightarrow> 'f" where "wheel_scale fl = fl_quarters fl 3"
definition wheel_debounce_ms :: nat where "wheel_debounce_ms = 80"
definition transition_duration_ms :: nat where "transition_duration_ms = 460"
definition wheel_line_height :: "'f float_ops \<Rightarrow> 'f" where "wheel_line_height fl = fl_quarters fl 64"
definition wheel_page_height :: "'f float_ops \<Rightarrow> 'f" where "wheel_page_height fl = fl_quarters fl 592"

definition carousel_new :: "'f float_ops \<Rightarrow> rstr list \<Rightarrow> 'f carousel" where
  "carousel_new fl ids = \<lparr>ca_ids = ids, ca_start = length ids - 2,
     ca_foreground = (if ids \<noteq> [] then Some (length ids - 2) else None), ca_pending_focus = None, ca_pending_moves = 0,
     ca_accumulator = fl_quarters fl 0, ca_last_wheel_at = None, ca_wheel_lock_until = 0, ca_last_direction = 0,
     ca_transition_until = 0, ca_exiting = [], ca_exit_visuals = [], ca_reflowing = False, ca_return_focus = False\<rparr>"

text \<open>\<^verbatim>\<open>position\<close> of an iterator.\<close>

fun position :: "('a \<Rightarrow> bool) \<Rightarrow> 'a list \<Rightarrow> nat option" where
  "position p [] = None"
| "position p (x # xs) = (if p x then Some 0 else map_option Suc (position p xs))"

section \<open>What is shown\<close>

definition visible_count :: "'f carousel \<Rightarrow> nat" where
  "visible_count s = min (length (ca_ids s) + length (ca_exiting s)) 2"

definition maximum_window_start :: "'f carousel \<Rightarrow> nat" where
  "maximum_window_start s = length (ca_ids s) - 2"

definition clamp_window_start :: "'f carousel \<Rightarrow> nat \<Rightarrow> nat" where
  "clamp_window_start s start = min start (maximum_window_start s)"

definition role_for_index :: "'f carousel \<Rightarrow> nat \<Rightarrow> card_role" where
  "role_for_index s index = (let start = clamp_window_start s (ca_start s) in
     if length (ca_ids s) = 1 \<and> index = start then CardBottom
     else if index = start then CardTop
     else if index = start + 1 \<and> index < length (ca_ids s) then CardBottom
     else if 0 < start \<and> index = start - 1 then CardTopBehind
     else if index = start + 2 then CardBottomBehind
     else CardHidden)"

definition visual_for :: "'f carousel \<Rightarrow> rstr \<Rightarrow> card_visual" where
  "visual_for s i = (case position (\<lambda>c. c = i) (ca_ids s) of
     None \<Rightarrow> hidden_visual
   | Some index \<Rightarrow>
       let role = (if length (ca_ids s) = 1 \<and> list_ex xc_preserve_slot (ca_exiting s) then CardTop
                   else role_for_index s index) in
       \<lparr>cv_role = role, cv_current = (role \<in> {CardTop, CardBottom}),
        cv_foreground = (ca_foreground s = Some index \<and> role \<noteq> CardHidden)\<rparr>)"

definition has_more_top :: "'f carousel \<Rightarrow> bool" where "has_more_top s \<longleftrightarrow> 0 < ca_start s"

definition has_more_bottom :: "'f carousel \<Rightarrow> bool" where
  "has_more_bottom s \<longleftrightarrow> ca_start s + 2 < length (ca_ids s)"

definition native_hit_region_mode :: "'f carousel \<Rightarrow> hit_region_mode" where
  "native_hit_region_mode s =
     (if ca_reflowing s then HitReflow
      else if has_more_top s \<or> has_more_bottom s then HitScroll
      else let top = list_ex (\<lambda>i. cv_role (visual_for s i) = CardTop) (ca_ids s);
               bottom = list_ex (\<lambda>i. cv_role (visual_for s i) = CardBottom) (ca_ids s) in
        if top then if bottom then HitBoth else HitTop else if bottom then HitBottom else HitEmpty)"

section \<open>Arrival and removal\<close>

text \<open>The loop of \<^verbatim>\<open>single_removal_index\<close>; \<open>None\<close> is its early return.\<close>

fun scan_removal :: "'a list \<Rightarrow> nat \<Rightarrow> 'a list \<Rightarrow> nat \<Rightarrow> nat option \<Rightarrow> (nat \<times> nat option) option" where
  "scan_removal [] index new k removed = Some (k, removed)"
| "scan_removal (x # xs) index new k removed =
     (if k < length new \<and> new ! k = x then scan_removal xs (Suc index) new (Suc k) removed
      else if removed \<noteq> None then None
      else scan_removal xs (Suc index) new k (Some index))"

definition single_removal_index :: "'a list \<Rightarrow> 'a list \<Rightarrow> nat option" where
  "single_removal_index previous new =
     (if length previous \<noteq> length new + 1 then None
      else case scan_removal previous 0 new 0 None of
        None \<Rightarrow> None
      | Some (k, removed) \<Rightarrow> if k \<noteq> length new then None else removed)"

definition reconciled_start :: "rstr list \<Rightarrow> 'f carousel \<Rightarrow> nat" where
  "reconciled_start ids s = (let previous_start = min (ca_start s) (maximum_window_start s) in
     case single_removal_index (ca_ids s) ids of
       None \<Rightarrow> length ids - 2
     | Some removed \<Rightarrow> min (previous_start - (if removed \<le> previous_start then 1 else 0)) (length ids - 2))"

definition reconciled_foreground :: "rstr list \<Rightarrow> nat \<Rightarrow> 'f carousel \<Rightarrow> nat option" where
  "reconciled_foreground ids start s =
     (let previous = Option.bind (ca_foreground s) (\<lambda>i. if i < length (ca_ids s) then Some (ca_ids s ! i) else None);
          fallback = (if ids \<noteq> [] then Some start else None) in
      case Option.bind previous (\<lambda>i. position (\<lambda>c. c = i) ids) of
        Some i \<Rightarrow> if start \<le> i \<and> i < start + 2 \<and> i < length ids then Some i else fallback
      | None \<Rightarrow> fallback)"

definition carousel_reconcile :: "'f float_ops \<Rightarrow> rstr list \<Rightarrow> 'f carousel \<Rightarrow> bool \<times> 'f carousel" where
  "carousel_reconcile fl ids s =
     (if ca_ids s = ids then (False, s)
      else (True, s\<lparr>ca_ids := ids, ca_reflowing := (ca_reflowing s \<and> length ids = 1),
        ca_return_focus := (ca_return_focus s \<and> ids = []), ca_start := reconciled_start ids s,
        ca_foreground := reconciled_foreground ids (reconciled_start ids s) s,
        ca_pending_focus := None, ca_pending_moves := 0, ca_accumulator := fl_quarters fl 0,
        ca_last_wheel_at := None, ca_wheel_lock_until := 0, ca_last_direction := 0, ca_transition_until := 0\<rparr>))"

section \<open>Moving the window\<close>

definition record_wheel :: "'f float_ops \<Rightarrow> 'f \<Rightarrow> nat \<Rightarrow> 'f carousel \<Rightarrow> 'f carousel" where
  "record_wheel fl older_distance now s =
     (let wheel_direction = fl_signum fl older_distance in
      if wheel_direction = 0 \<or> (now < ca_wheel_lock_until s \<and> wheel_direction = ca_last_direction s) then s
      else
        let base = (case ca_last_wheel_at s of
                Some t \<Rightarrow> if now - t > 160 then fl_quarters fl 0 else ca_accumulator s
              | None \<Rightarrow> ca_accumulator s);
            accumulator = fl_add fl base older_distance;
            s1 = s\<lparr>ca_last_wheel_at := Some now, ca_accumulator := accumulator\<rparr> in
        if fl_less fl (fl_abs fl accumulator) (wheel_trigger_distance fl) then s1
        else s1\<lparr>ca_pending_moves := (if fl_less fl (fl_quarters fl 0) accumulator then - 1 else 1),
               ca_wheel_lock_until := sat_add now wheel_debounce_ms, ca_last_direction := wheel_direction,
               ca_accumulator := fl_quarters fl 0\<rparr>)"

definition next_target :: "'f carousel \<Rightarrow> nat option \<times> 'f carousel" where
  "next_target s = (case ca_pending_focus s of
     Some target \<Rightarrow> (Some (clamp_window_start s target), s\<lparr>ca_pending_focus := None, ca_pending_moves := 0\<rparr>)
   | None \<Rightarrow>
       if ca_pending_moves s = 0 then (None, s)
       else (Some (clamp_window_start s (nat (int (ca_start s) + sgn (ca_pending_moves s)))),
             s\<lparr>ca_pending_moves := 0\<rparr>))"

definition move_window_to :: "nat \<Rightarrow> 'f carousel \<Rightarrow> bool \<times> 'f carousel" where
  "move_window_to target s =
     (let target = clamp_window_start s target; previous = ca_start s in
      if target = previous
      then (False, if ca_foreground s = None \<and> ca_ids s \<noteq> [] then s\<lparr>ca_foreground := Some target\<rparr> else s)
      else (True, s\<lparr>ca_foreground := Some (if target < previous then previous
              else if target = previous + 1 then previous + 1 else target),
            ca_start := target\<rparr>))"

text \<open>How many requests are pending, which bounds both loops over \<open>next_target\<close>.\<close>

definition pending_requests :: "'f carousel \<Rightarrow> nat" where
  "pending_requests s = (if ca_pending_focus s = None then 0 else 1) + (if ca_pending_moves s = 0 then 0 else 1)"

lemma next_target_pending: "next_target s = (Some t, s') \<Longrightarrow> pending_requests s' < pending_requests s"
  by (auto simp: next_target_def pending_requests_def split: option.splits if_splits)

lemma move_decreases:
  "(Some t, s1) = next_target s \<Longrightarrow> (b, s2) = move_window_to t s1 \<Longrightarrow> pending_requests s2 < pending_requests s"
  using next_target_pending [of s t s1]
  by (auto simp: move_window_to_def pending_requests_def Let_def split: if_splits)

function move_loop :: "nat \<Rightarrow> 'f carousel \<Rightarrow> bool \<times> 'f carousel" where
  "move_loop now s = (case next_target s of
     (None, s1) \<Rightarrow> (False, s1)
   | (Some target, s1) \<Rightarrow> (case move_window_to target s1 of
       (True, s2) \<Rightarrow> (True, s2\<lparr>ca_transition_until := sat_add now transition_duration_ms\<rparr>)
     | (False, s2) \<Rightarrow> move_loop now s2))"
  by pat_completeness auto
termination
  by (relation "measure (\<lambda>(now, s). pending_requests s)") (auto dest: move_decreases)

definition begin_next_move :: "nat \<Rightarrow> 'f carousel \<Rightarrow> bool \<times> 'f carousel" where
  "begin_next_move now s = (if now < ca_transition_until s then (False, s) else move_loop now s)"

function jump_loop :: "'f carousel \<Rightarrow> 'f carousel" where
  "jump_loop s = (case next_target s of
     (None, s1) \<Rightarrow> s1
   | (Some target, s1) \<Rightarrow> jump_loop (snd (move_window_to target s1)))"
  by pat_completeness auto
termination
  by (relation "measure pending_requests") (auto intro: move_decreases simp: prod_eq_iff)

declare move_loop.simps [simp del] jump_loop.simps [simp del]

definition jump_to_pending :: "'f carousel \<Rightarrow> 'f carousel" where
  "jump_to_pending s = jump_loop (s\<lparr>ca_transition_until := 0\<rparr>)"

definition focus_index :: "rstr \<Rightarrow> 'f carousel \<Rightarrow> bool \<times> 'f carousel" where
  "focus_index i s = (case position (\<lambda>c. c = i) (ca_ids s) of
     None \<Rightarrow> (False, s)
   | Some index \<Rightarrow>
       if ca_start s \<le> index \<and> index \<le> ca_start s + 1 then (False, s)
       else (True, s\<lparr>ca_pending_focus := Some (clamp_window_start s (index - 1))\<rparr>))"

definition carousel_finish_transition :: "nat \<Rightarrow> 'f carousel \<Rightarrow> bool \<times> 'f carousel" where
  "carousel_finish_transition now s =
     (if ca_transition_until s = 0 \<or> now < ca_transition_until s then (False, s)
      else (True, s\<lparr>ca_transition_until := 0\<rparr>))"

section \<open>Cards that leave\<close>

fun queue_exiting :: "'f exiting_card list \<Rightarrow> 'f carousel \<Rightarrow> 'f carousel" where
  "queue_exiting [] s = s"
| "queue_exiting (x # xs) s = queue_exiting xs
     (if list_ex (\<lambda>c. xc_id c = xc_id x) (ca_exiting s) then s else s\<lparr>ca_exiting := ca_exiting s @ [x]\<rparr>)"

definition reconcile_exit_state :: "'f carousel \<Rightarrow> 'f carousel" where
  "reconcile_exit_state s = s\<lparr>ca_exiting := filter (\<lambda>x. xc_id x \<notin> set (ca_ids s)) (ca_exiting s),
     ca_exit_visuals := filter (\<lambda>(i, _). i \<in> set (ca_ids s)) (ca_exit_visuals s)\<rparr>"

definition clear_exiting :: "'f carousel \<Rightarrow> 'f carousel" where
  "clear_exiting s = s\<lparr>ca_exiting := [], ca_reflowing := False\<rparr>"

definition prepare_exit :: "rstr \<Rightarrow> 'f exit_visual option \<Rightarrow> bool \<Rightarrow> 'f carousel \<Rightarrow> 'f carousel" where
  "prepare_exit i visual return_focus s =
     (let s1 = (case visual of
          None \<Rightarrow> s
        | Some v \<Rightarrow> s\<lparr>ca_exit_visuals := filter (\<lambda>(c, _). c \<noteq> i) (ca_exit_visuals s) @ [(i, v)]\<rparr>) in
      s1\<lparr>ca_return_focus := (return_focus \<and> ca_ids s = [i])\<rparr>)"

definition cancel_pending_exit :: "rstr \<Rightarrow> 'f carousel \<Rightarrow> 'f carousel" where
  "cancel_pending_exit i s = s\<lparr>ca_exit_visuals := filter (\<lambda>(c, _). c \<noteq> i) (ca_exit_visuals s),
     ca_return_focus := (ca_return_focus s \<and> ca_ids s \<noteq> [i])\<rparr>"

text \<open>\<^verbatim>\<open>Vec::swap_remove\<close> fills the gap with the last element.\<close>

definition swap_remove :: "nat \<Rightarrow> 'a list \<Rightarrow> 'a list" where
  "swap_remove i xs = butlast (xs[i := last xs])"

definition take_pending_exit_visual :: "rstr \<Rightarrow> 'f carousel \<Rightarrow> 'f exit_visual option \<times> 'f carousel" where
  "take_pending_exit_visual i s = (case position (\<lambda>(c, _). c = i) (ca_exit_visuals s) of
     None \<Rightarrow> (None, s)
   | Some index \<Rightarrow> (Some (snd (ca_exit_visuals s ! index)),
       s\<lparr>ca_exit_visuals := swap_remove index (ca_exit_visuals s)\<rparr>))"

definition take_focus_return_if_settled :: "'f carousel \<Rightarrow> bool \<times> 'f carousel" where
  "take_focus_return_if_settled s =
     (let back = ca_return_focus s \<and> ca_ids s = [] \<and> ca_exiting s = [] in
      (back, if back then s\<lparr>ca_return_focus := False\<rparr> else s))"

definition finish_exit :: "rstr \<Rightarrow> 'f carousel \<Rightarrow> bool \<times> 'f carousel" where
  "finish_exit i s =
     (let starts_reflow = length (ca_ids s) = 1 \<and> list_ex (\<lambda>x. xc_id x = i \<and> xc_preserve_slot x) (ca_exiting s);
          s1 = s\<lparr>ca_exiting := filter (\<lambda>x. xc_id x \<noteq> i) (ca_exiting s)\<rparr>;
          s2 = (if starts_reflow \<and> \<not> list_ex xc_preserve_slot (ca_exiting s1) then s1\<lparr>ca_reflowing := True\<rparr> else s1) in
      take_focus_return_if_settled s2)"

definition finish_survivor_reflow :: "'f carousel \<Rightarrow> 'f carousel" where
  "finish_survivor_reflow s = s\<lparr>ca_reflowing := False\<rparr>"

section \<open>The controller\<close>

definition normalize_wheel_delta :: "'f float_ops \<Rightarrow> 'f \<Rightarrow> nat \<Rightarrow> 'f" where
  "normalize_wheel_delta fl delta mode =
     (if mode = 1 then fl_mul fl delta (wheel_line_height fl)
      else if mode = 2 then fl_mul fl delta (wheel_page_height fl) else delta)"

definition notifications_by_display_order :: "pet_notification_presentation list \<Rightarrow> pet_notification_presentation list" where
  "notifications_by_display_order ns = sort_key (\<lambda>n. (pnp_occurred_at_ms n, pnp_activation_id n)) ns"

definition notifications_by_keyboard_order :: "pet_notification_presentation list \<Rightarrow> pet_notification_presentation list" where
  "notifications_by_keyboard_order ns = rev (notifications_by_display_order ns)"

record 'f carousel_controller =
  cc_state :: "'f carousel"
  cc_reduced_motion :: bool
  cc_snapshot :: "pet_notification_presentation list"

definition controller_new :: "'f float_ops \<Rightarrow> rstr list \<Rightarrow> pet_notification_presentation list \<Rightarrow> bool
    \<Rightarrow> 'f carousel_controller" where
  "controller_new fl ids notifications reduced =
     \<lparr>cc_state = carousel_new fl ids, cc_reduced_motion = reduced, cc_snapshot = notifications\<rparr>"

text \<open>The loop over the previous notifications collects the visible cards that are gone.\<close>

fun collect_exiting :: "bool \<Rightarrow> rstr list \<Rightarrow> pet_notification_presentation list \<Rightarrow> 'f carousel
    \<Rightarrow> 'f exiting_card list \<times> 'f carousel" where
  "collect_exiting two ids [] s = ([], s)"
| "collect_exiting two ids (n # ns) s =
     (if pnp_activation_id n \<in> set ids then collect_exiting two ids ns s
      else let role = cv_role (visual_for s (pnp_activation_id n)) in
        if role \<in> {CardTop, CardBottom}
        then (case take_pending_exit_visual (pnp_activation_id n) s of (visual, s1) \<Rightarrow>
          apfst (Cons \<lparr>xc_notification = n, xc_role = role, xc_preserve_slot = (two \<and> role = CardBottom), xc_visual = visual\<rparr>)
            (collect_exiting two ids ns s1))
        else collect_exiting two ids ns s)"

text \<open>Every operation also says whether the focus goes back to the pet window.\<close>

definition controller_reconcile :: "'f float_ops \<Rightarrow> pet_notification_presentation list \<Rightarrow> 'f carousel_controller
    \<Rightarrow> bool \<times> 'f carousel_controller" where
  "controller_reconcile fl notifications c =
     (let ids = map pnp_activation_id notifications;
          s = cc_state c;
          (exiting, s1) = collect_exiting (visible_count s = 2) ids (cc_snapshot c) s;
          (changed, s2) = carousel_reconcile fl ids s1;
          s3 = reconcile_exit_state s2;
          s4 = (if changed \<and> \<not> cc_reduced_motion c then queue_exiting exiting s3 else s3);
          (back, s5) = take_focus_return_if_settled s4 in
      (back, c\<lparr>cc_state := s5, cc_snapshot := notifications\<rparr>))"

definition settle_motion :: "'f carousel_controller \<Rightarrow> bool \<times> 'f carousel_controller" where
  "settle_motion c = (case take_focus_return_if_settled (clear_exiting (jump_to_pending (cc_state c))) of
     (back, s) \<Rightarrow> (back, c\<lparr>cc_state := s\<rparr>))"

definition process_pending_at :: "nat \<Rightarrow> 'f carousel_controller \<Rightarrow> 'f carousel_controller" where
  "process_pending_at now c = c\<lparr>cc_state :=
     (if cc_reduced_motion c then jump_to_pending (cc_state c) else snd (begin_next_move now (cc_state c)))\<rparr>"

definition handle_wheel :: "'f float_ops \<Rightarrow> 'f \<Rightarrow> 'f \<Rightarrow> nat \<Rightarrow> bool \<Rightarrow> nat \<Rightarrow> 'f carousel_controller
    \<Rightarrow> 'f carousel_controller" where
  "handle_wheel fl dx dy mode below now c =
     (let dx = normalize_wheel_delta fl dx mode; dy = normalize_wheel_delta fl dy mode in
      if fl_le fl (fl_abs fl dy) (fl_abs fl dx) then c
      else
        let factor = (if below then fl_quarters fl 4 else fl_quarters fl (- 4));
            dy = fl_clamp fl dy (fl_quarters fl (- 480)) (fl_quarters fl 480) in
        process_pending_at now (c\<lparr>cc_state := record_wheel fl (fl_mul fl (fl_mul fl dy factor) (wheel_scale fl)) now (cc_state c)\<rparr>))"

definition handle_transition_end :: "rstr \<Rightarrow> nat \<Rightarrow> 'f carousel_controller \<Rightarrow> 'f carousel_controller" where
  "handle_transition_end property_name now c =
     (if property_name \<noteq> lit ''top'' then c
      else case carousel_finish_transition now (finish_survivor_reflow (cc_state c)) of (finished, s) \<Rightarrow>
        if finished then process_pending_at now (c\<lparr>cc_state := s\<rparr>) else c\<lparr>cc_state := s\<rparr>)"

text \<open>\<open>target\<close> is the identity the animated element carries, if it is a card.\<close>

definition handle_animation_end :: "rstr \<Rightarrow> rstr option \<Rightarrow> 'f carousel_controller \<Rightarrow> bool \<times> 'f carousel_controller" where
  "handle_animation_end animation_name target c =
     (if animation_name \<noteq> lit ''notification-card-fadeout'' then (False, c)
      else case target of
        None \<Rightarrow> (False, c)
      | Some i \<Rightarrow> (case finish_exit i (cc_state c) of (back, s) \<Rightarrow> (back, c\<lparr>cc_state := s\<rparr>)))"

definition focus_notification :: "rstr \<Rightarrow> nat \<Rightarrow> 'f carousel_controller \<Rightarrow> 'f carousel_controller" where
  "focus_notification i now c = (case focus_index i (cc_state c) of (found, s) \<Rightarrow>
     if found then process_pending_at now (c\<lparr>cc_state := s\<rparr>) else c\<lparr>cc_state := s\<rparr>)"

datatype 'f carousel_event =
    EvPresentation "pet_notification_presentation list"
  | EvReducedMotion bool
  | EvWheel 'f 'f nat bool nat
  | EvTransitionEnd rstr nat
  | EvAnimationEnd rstr "rstr option"
  | EvFocus rstr nat
  | EvDismiss rstr "'f exit_visual option" bool
  | EvDismissFailed rstr

text \<open>One event, and whether the focus returns to the pet.\<close>

fun carousel_handle :: "'f float_ops \<Rightarrow> 'f carousel_event \<Rightarrow> 'f carousel_controller \<Rightarrow> bool \<times> 'f carousel_controller" where
  "carousel_handle fl (EvPresentation ns) c = controller_reconcile fl (notifications_by_display_order ns) c"
| "carousel_handle fl (EvReducedMotion b) c = (let c = c\<lparr>cc_reduced_motion := b\<rparr> in if b then settle_motion c else (False, c))"
| "carousel_handle fl (EvWheel dx dy mode below now) c = (False, handle_wheel fl dx dy mode below now c)"
| "carousel_handle fl (EvTransitionEnd name now) c = (False, handle_transition_end name now c)"
| "carousel_handle fl (EvAnimationEnd name target) c = handle_animation_end name target c"
| "carousel_handle fl (EvFocus i now) c = (False, focus_notification i now c)"
| "carousel_handle fl (EvDismiss i visual keyboard) c = (False, c\<lparr>cc_state := prepare_exit i visual keyboard (cc_state c)\<rparr>)"
| "carousel_handle fl (EvDismissFailed i) c = (False, c\<lparr>cc_state := cancel_pending_exit i (cc_state c)\<rparr>)"

text \<open>The carousel of a presentation, as the component creates it.\<close>

definition notification_carousel :: "'f float_ops \<Rightarrow> pet_notification_presentation list \<Rightarrow> bool \<Rightarrow> 'f carousel_controller" where
  "notification_carousel fl ns reduced = (let ordered = notifications_by_display_order ns in
     controller_new fl (map pnp_activation_id ordered) ordered reduced)"

end
