(* ===== verification/Hit_Regions.thy ===== *)
theory Hit_Regions
  imports Carousel Pets
begin

text \<open>
  Which parts of the desktop's transparent windows take clicks: \<^verbatim>\<open>notification_hit_region.rs\<close>, the cards of the
  notification window, and \<^verbatim>\<open>pet_hit_region.rs\<close>, the opaque pixels of the pet. All rectangles of the cards have
  whole coordinates, so their arithmetic is exact and stated over any ordered ring; a point of the pet window is given by the
  pixel it lies in. The image decoder is an argument. The locks are never poisoned.
\<close>

section \<open>The notification window\<close>

datatype hit_mode = HmEmpty | HmTop | HmBottom | HmBoth | HmReflow | HmScroll

definition all_hit_modes :: "hit_mode list" where
  "all_hit_modes = [HmEmpty, HmTop, HmBottom, HmBoth, HmReflow, HmScroll]"

fun hit_mode_code :: "hit_mode \<Rightarrow> nat" where
  "hit_mode_code HmEmpty = 0"
| "hit_mode_code HmTop = 1"
| "hit_mode_code HmBottom = 2"
| "hit_mode_code HmBoth = 3"
| "hit_mode_code HmReflow = 4"
| "hit_mode_code HmScroll = 5"

definition hit_mode_from_code :: "nat \<Rightarrow> hit_mode" where
  "hit_mode_from_code c = (if c < length all_hit_modes then all_hit_modes ! c else HmEmpty)"

text \<open>The names the derived decoder accepts.\<close>

definition hit_mode_names :: "(rstr \<times> hit_mode) list" where
  "hit_mode_names = [(lit ''empty'', HmEmpty), (lit ''top'', HmTop), (lit ''bottom'', HmBottom), (lit ''both'', HmBoth),
     (lit ''reflow'', HmReflow), (lit ''scroll'', HmScroll)]"

definition fallback_for_count :: "nat \<Rightarrow> hit_mode \<Rightarrow> hit_mode" where
  "fallback_for_count n m =
     (if n = 0 then HmEmpty
      else if n = 1 then if m \<in> {HmTop, HmBottom, HmBoth, HmReflow} then m else HmBottom
      else if n = 2 then HmBoth else HmScroll)"

record 'a hit_rect =
  hr_x :: 'a
  hr_y :: 'a
  hr_width :: 'a
  hr_height :: 'a

definition hit_rect_contains :: "'a :: linordered_idom hit_rect \<Rightarrow> 'a \<Rightarrow> 'a \<Rightarrow> bool" where
  "hit_rect_contains r x y \<longleftrightarrow> hr_x r \<le> x \<and> x < hr_x r + hr_width r \<and> hr_y r \<le> y \<and> y < hr_y r + hr_height r"

definition stack_top :: "bool \<Rightarrow> 'a :: linordered_idom" where
  "stack_top below = (if below then 4 else 6)"

text \<open>A card at an offset from the top of the stack, and the cards at the two places.\<close>

definition card_at :: "bool \<Rightarrow> 'a \<Rightarrow> 'a :: linordered_idom hit_rect" where
  "card_at below offset = \<lparr>hr_x = 12, hr_y = stack_top below + offset, hr_width = 320 - 12 * 2, hr_height = 58\<rparr>"

definition top_card :: "bool \<Rightarrow> 'a :: linordered_idom hit_rect" where
  "top_card below = card_at below (if below then 78 else 12)"

definition bottom_card :: "bool \<Rightarrow> 'a :: linordered_idom hit_rect" where
  "bottom_card below = card_at below (if below then 12 else 78)"

fun hit_rectangles :: "hit_mode \<Rightarrow> bool \<Rightarrow> 'a :: linordered_idom hit_rect list" where
  "hit_rectangles HmEmpty below = []"
| "hit_rectangles HmTop below = [top_card below]"
| "hit_rectangles HmBottom below = [bottom_card below]"
| "hit_rectangles HmBoth below = [top_card below, bottom_card below]"
| "hit_rectangles HmReflow below = [\<lparr>hr_x = 12, hr_y = stack_top below + 12, hr_width = 320 - 12 * 2,
     hr_height = 78 + 58 - 12\<rparr>]"
| "hit_rectangles HmScroll below = [\<lparr>hr_x = 12, hr_y = stack_top below, hr_width = 320 - 12 * 2, hr_height = 148\<rparr>]"

definition hit_region_contains :: "hit_mode \<Rightarrow> bool \<Rightarrow> 'a :: linordered_idom \<Rightarrow> 'a \<Rightarrow> bool" where
  "hit_region_contains m below x y = list_ex (\<lambda>r. hit_rect_contains r x y) (hit_rectangles m below)"

section \<open>The pet window\<close>

definition pet_window_width :: int where "pet_window_width = 320"
definition pet_window_height :: int where "pet_window_height = 360"
definition sprite_x :: int where "sprite_x = (pet_window_width - int cell_width) div 2"
definition sprite_y :: int where "sprite_y = (pet_window_height - int cell_height) div 2"
definition alpha_threshold :: nat where "alpha_threshold = 16"

record atlas_alpha =
  at_pixels :: "nat list"

text \<open>\<open>decode\<close> is the decoder with its dimensions and the alpha channel, row by row.\<close>

definition atlas_from_bytes :: "(byte list \<Rightarrow> (nat \<times> nat \<times> nat list) option) \<Rightarrow> byte list \<Rightarrow> atlas_alpha option" where
  "atlas_from_bytes decode bytes = (case decode bytes of
     None \<Rightarrow> None
   | Some (w, h, alpha) \<Rightarrow> if (w, h) \<noteq> (atlas_width, atlas_height) then None else Some \<lparr>at_pixels = alpha\<rparr>)"

definition atlas_contains :: "atlas_alpha \<Rightarrow> nat \<Rightarrow> nat \<Rightarrow> nat \<Rightarrow> nat \<Rightarrow> bool" where
  "atlas_contains a row column x y \<longleftrightarrow>
     alpha_threshold \<le> at_pixels a ! ((row * cell_height + y) * atlas_width + (column * cell_width + x))"

record pet_hit_state =
  ph_asset :: "rstr option"
  ph_atlas :: "atlas_alpha option"
  ph_row :: nat
  ph_column :: nat
  ph_dragging :: bool

definition pet_hit_initial :: pet_hit_state where
  "pet_hit_initial = \<lparr>ph_asset = None, ph_atlas = None, ph_row = 0, ph_column = 0, ph_dragging = False\<rparr>"

definition hit_set_frame :: "rstr \<Rightarrow> nat \<Rightarrow> nat \<Rightarrow> pet_hit_state \<Rightarrow> bool \<times> pet_hit_state" where
  "hit_set_frame i row column s =
     (let s1 = (if ph_asset s \<noteq> Some i then s\<lparr>ph_asset := Some i, ph_atlas := None\<rparr> else s);
          s2 = s1\<lparr>ph_row := row, ph_column := column\<rparr> in
      (ph_atlas s2 = None, s2))"

definition hit_install_atlas :: "(byte list \<Rightarrow> (nat \<times> nat \<times> nat list) option) \<Rightarrow> rstr \<Rightarrow> byte list \<Rightarrow> pet_hit_state
    \<Rightarrow> bool option \<times> pet_hit_state" where
  "hit_install_atlas decode i bytes s = (case atlas_from_bytes decode bytes of
     None \<Rightarrow> (None, s)
   | Some a \<Rightarrow> if ph_asset s \<noteq> Some i then (Some False, s) else (Some True, s\<lparr>ph_atlas := Some a\<rparr>))"

text \<open>The pixel of the sprite under a pixel of the window.\<close>

definition sprite_point :: "int \<Rightarrow> int \<Rightarrow> (nat \<times> nat) option" where
  "sprite_point px py = (let x = px - sprite_x; y = py - sprite_y in
     if 0 \<le> x \<and> x < int cell_width \<and> 0 \<le> y \<and> y < int cell_height then Some (nat x, nat y) else None)"

text \<open>The hit test of macOS and Windows.\<close>

definition pet_hit_contains :: "pet_hit_state \<Rightarrow> int \<Rightarrow> int \<Rightarrow> bool" where
  "pet_hit_contains s px py = (case sprite_point px py of
     None \<Rightarrow> False
   | Some (x, y) \<Rightarrow> (case ph_atlas s of None \<Rightarrow> True | Some a \<Rightarrow> atlas_contains a (ph_row s) (ph_column s) x y))"

text \<open>The input region of Linux: one rectangle per run of opaque pixels. The two loops of a row.\<close>

function run_end :: "(nat \<Rightarrow> bool) \<Rightarrow> nat \<Rightarrow> nat \<Rightarrow> nat" where
  "run_end opaque w x = (if x < w \<and> opaque x then run_end opaque w (x + 1) else x)"
  by pat_completeness auto
termination
  by (relation "measure (\<lambda>(opaque, w, x). w - x)") auto

declare run_end.simps [simp del]

lemma run_end_le: "x \<le> run_end opaque w x"
proof (induction opaque w x rule: run_end.induct)
  case (1 opaque w x)
  then show ?case by (cases "x < w \<and> opaque x") (auto simp: run_end.simps [of opaque w x])
qed

function row_runs :: "(nat \<Rightarrow> bool) \<Rightarrow> nat \<Rightarrow> nat \<Rightarrow> (nat \<times> nat) list" where
  "row_runs opaque w x =
     (if \<not> x < w then []
      else if \<not> opaque x then row_runs opaque w (x + 1)
      else (x, run_end opaque w x - x) # row_runs opaque w (run_end opaque w x))"
  by pat_completeness auto
termination
proof (relation "measure (\<lambda>(opaque, w, x). w - x)", goal_cases)
  case (3 opaque w x)
  then have "run_end opaque w x = run_end opaque w (x + 1)" by (simp add: run_end.simps [of opaque w x])
  with run_end_le [of "x + 1" opaque w] 3 show ?case by auto
qed auto

declare row_runs.simps [simp del]

record pixel_rect =
  px_x :: int
  px_y :: int
  px_width :: int
  px_height :: int

definition append_row_rectangles :: "atlas_alpha \<Rightarrow> nat \<Rightarrow> nat \<Rightarrow> nat \<Rightarrow> pixel_rect list" where
  "append_row_rectangles a row column y =
     map (\<lambda>(start, len). \<lparr>px_x = sprite_x + int start, px_y = sprite_y + int y, px_width = int len, px_height = 1\<rparr>)
       (row_runs (\<lambda>x. atlas_contains a row column x y) cell_width 0)"

definition frame_rectangles :: "atlas_alpha \<Rightarrow> nat \<Rightarrow> nat \<Rightarrow> pixel_rect list" where
  "frame_rectangles a row column = concat (map (append_row_rectangles a row column) [0..<cell_height])"

definition sprite_rectangle :: pixel_rect where
  "sprite_rectangle = \<lparr>px_x = sprite_x, px_y = sprite_y, px_width = int cell_width, px_height = int cell_height\<rparr>"

definition pet_rectangles :: "pet_hit_state \<Rightarrow> pixel_rect list" where
  "pet_rectangles s =
     (if ph_dragging s then [\<lparr>px_x = 0, px_y = 0, px_width = pet_window_width, px_height = pet_window_height\<rparr>]
      else case ph_atlas s of
        None \<Rightarrow> [sprite_rectangle]
      | Some a \<Rightarrow> frame_rectangles a (ph_row s) (ph_column s))"

end
