(* ===== verification/Carousel_Properties.thy ===== *)
theory Carousel_Properties
  imports Carousel
begin

text \<open>
  The carousel of notification cards: an invariant of its controller under every event (an
  interpretation of \<open>invariant_system\<close>), which cards are visible, what a removal does to them, and that a card with
  the keyboard focus comes into view.
\<close>

section \<open>Positions and removals\<close>

lemma position_Some: "position p xs = Some i \<Longrightarrow> i < length xs \<and> p (xs ! i) \<and> (\<forall>j < i. \<not> p (xs ! j))"
  by (induction xs arbitrary: i) (auto simp: nth_Cons split: if_splits nat.splits)

lemma position_None: "position p xs = None \<longleftrightarrow> (\<forall>x \<in> set xs. \<not> p x)"
  by (induction xs) auto

lemma position_distinct:
  assumes "distinct xs" "i < length xs"
  shows "position (\<lambda>x. x = xs ! i) xs = Some i"
proof (cases "position (\<lambda>x. x = xs ! i) xs")
  case None
  with assms(2) show ?thesis by (auto simp: position_None)
next
  case (Some j)
  with position_Some [OF Some] assms show ?thesis by (auto simp: nth_eq_iff_index_eq)
qed

lemma scan_rest: "drop k new = xs \<Longrightarrow> k \<le> length new \<Longrightarrow> scan_removal xs i new k (Some r) = Some (length new, Some r)"
proof (induction xs arbitrary: i k)
  case (Cons x xs)
  then have "k < length new" "new ! k = x" "drop (Suc k) new = xs"
    by (metis drop_eq_Nil not_le list.distinct(1), metis Cons.prems(1) nth_via_drop, metis drop_Suc tl_drop list.sel(3) Cons.prems(1))
  with Cons.IH show ?case by simp
qed simp

lemma scan_finds:
  assumes "drop k new = take r xs @ drop (Suc r) xs" "r < length xs" "distinct xs" "k \<le> length new"
  shows "scan_removal xs i new k None = Some (length new, Some (i + r))"
  using assms
proof (induction xs arbitrary: i k r)
  case (Cons x xs)
  show ?case
  proof (cases r)
    case 0
    then have rest: "drop k new = xs" using Cons.prems(1) by simp
    have "\<not> (k < length new \<and> new ! k = x)"
    proof
      assume "k < length new \<and> new ! k = x"
      with rest have "x \<in> set xs" by (metis Cons_nth_drop_Suc list.set_intros(1))
      with Cons.prems(3) show False by simp
    qed
    then have "scan_removal (x # xs) i new k None = scan_removal xs (Suc i) new k (Some i)" by auto
    with scan_rest [OF rest Cons.prems(4)] 0 show ?thesis by simp
  next
    case (Suc r')
    then have d: "drop k new = x # take r' xs @ drop (Suc r') xs" using Cons.prems(1) by simp
    then have k: "k < length new" by (metis drop_eq_Nil not_le list.distinct(1))
    with d have "new ! k = x" "drop (Suc k) new = take r' xs @ drop (Suc r') xs"
      by (metis nth_via_drop, metis drop_Suc tl_drop list.sel(3))
    with Cons.IH [of "Suc k" r' "Suc i"] Cons.prems Suc k show ?thesis by simp
  qed
qed simp

lemma single_removal_found:
  assumes "distinct xs" "r < length xs"
  shows "single_removal_index xs (take r xs @ drop (Suc r) xs) = Some r"
  using scan_finds [of 0 "take r xs @ drop (Suc r) xs" r xs 0] assms
  by (simp add: single_removal_index_def)

section \<open>The invariant\<close>

definition carousel_ok :: "'f carousel \<Rightarrow> bool" where
  "carousel_ok s \<longleftrightarrow> distinct (ca_ids s) \<and> ca_start s \<le> length (ca_ids s) - 2
     \<and> (case ca_foreground s of None \<Rightarrow> ca_ids s = [] | Some i \<Rightarrow> i < length (ca_ids s))
     \<and> distinct (map xc_id (ca_exiting s)) \<and> xc_id ` set (ca_exiting s) \<inter> set (ca_ids s) = {}
     \<and> (\<forall>x \<in> set (ca_exiting s). xc_role x \<in> {CardTop, CardBottom})
     \<and> ca_pending_moves s \<in> {-1, 0, 1}
     \<and> (ca_reflowing s \<longrightarrow> length (ca_ids s) = 1) \<and> (ca_return_focus s \<longrightarrow> length (ca_ids s) \<le> 1)"

definition controller_ok :: "'f carousel_controller \<Rightarrow> bool" where
  "controller_ok c \<longleftrightarrow> carousel_ok (cc_state c) \<and> map pnp_activation_id (cc_snapshot c) = ca_ids (cc_state c)"

text \<open>Fields the invariant does not mention.\<close>

lemma carousel_ok_fields [simp]:
  "carousel_ok (s\<lparr>ca_transition_until := t\<rparr>) = carousel_ok s" "carousel_ok (s\<lparr>ca_pending_focus := f\<rparr>) = carousel_ok s"
  "carousel_ok (s\<lparr>ca_accumulator := a\<rparr>) = carousel_ok s" "carousel_ok (s\<lparr>ca_last_wheel_at := w\<rparr>) = carousel_ok s"
  "carousel_ok (s\<lparr>ca_wheel_lock_until := t\<rparr>) = carousel_ok s" "carousel_ok (s\<lparr>ca_last_direction := d\<rparr>) = carousel_ok s"
  "carousel_ok (s\<lparr>ca_exit_visuals := xs\<rparr>) = carousel_ok s"
  by (simp_all add: carousel_ok_def cong: option.case_cong)

lemma carousel_new_ok: "distinct ids \<Longrightarrow> carousel_ok (carousel_new fl ids)"
  by (auto simp: carousel_ok_def carousel_new_def)

lemma visual_current:
  assumes "carousel_ok s" "j < length (ca_ids s)"
  shows "cv_current (visual_for s (ca_ids s ! j)) \<longleftrightarrow> j = ca_start s \<or> j = ca_start s + 1"
  using assms by (auto simp: carousel_ok_def visual_for_def position_distinct role_for_index_def clamp_window_start_def
      maximum_window_start_def Let_def min_def)

lemma move_window_ok: "carousel_ok s \<Longrightarrow> carousel_ok (snd (move_window_to t s))"
  by (auto simp: carousel_ok_def move_window_to_def Let_def clamp_window_start_def maximum_window_start_def split: option.splits)

lemma next_target_ok: "carousel_ok s \<Longrightarrow> carousel_ok (snd (next_target s))"
  by (auto simp: carousel_ok_def next_target_def split: option.splits)

lemma jump_loop_ok: "carousel_ok s \<Longrightarrow> carousel_ok (jump_loop s)"
proof (induction s rule: jump_loop.induct)
  case (1 s)
  obtain t s1 where n: "next_target s = (t, s1)" by fastforce
  with next_target_ok [OF 1(2)] have s1: "carousel_ok s1" by simp
  show ?case
  proof (cases t)
    case None
    with n s1 show ?thesis by (simp add: jump_loop.simps [of s])
  next
    case (Some target)
    with 1(1) [OF n [symmetric] Some move_window_ok [OF s1]] n show ?thesis
      by (simp add: jump_loop.simps [of s])
  qed
qed

lemma move_loop_ok: "carousel_ok s \<Longrightarrow> carousel_ok (snd (move_loop now s))"
proof (induction now s rule: move_loop.induct)
  case (1 now s)
  obtain t s1 where n: "next_target s = (t, s1)" by fastforce
  with next_target_ok [OF 1(2)] have s1: "carousel_ok s1" by simp
  show ?case
  proof (cases t)
    case None
    with n s1 show ?thesis by (simp add: move_loop.simps [of now s])
  next
    case (Some target)
    obtain b s2 where m: "move_window_to target s1 = (b, s2)" by fastforce
    with move_window_ok [OF s1, of target] have "carousel_ok s2" by simp
    with 1(1) [OF n [symmetric] Some m [symmetric]] Some n m show ?thesis
      by (cases b) (simp_all add: move_loop.simps [of now s])
  qed
qed

lemma pending_moves_ok: "carousel_ok s \<Longrightarrow> m = -1 \<or> m = 0 \<or> m = 1 \<Longrightarrow> carousel_ok (s\<lparr>ca_pending_moves := m\<rparr>)"
  by (auto simp: carousel_ok_def cong: option.case_cong)

lemma record_wheel_ok: "carousel_ok s \<Longrightarrow> carousel_ok (record_wheel fl d now s)"
  by (simp add: record_wheel_def Let_def pending_moves_ok)

lemma focus_index_ok: "carousel_ok s \<Longrightarrow> carousel_ok (snd (focus_index i s))"
  by (simp add: focus_index_def split: option.splits)

lemma carousel_finish_transition_ok: "carousel_ok s \<Longrightarrow> carousel_ok (snd (carousel_finish_transition now s))"
  by (simp add: carousel_finish_transition_def)

lemma exiting_steps_ok:
  assumes "carousel_ok s"
  shows "carousel_ok (clear_exiting s)" "carousel_ok (finish_survivor_reflow s)" "carousel_ok (prepare_exit i visual b s)"
    "carousel_ok (cancel_pending_exit i s)" "carousel_ok (snd (take_focus_return_if_settled s))"
    "carousel_ok (snd (take_pending_exit_visual i s))" "carousel_ok (reconcile_exit_state s)"
  using assms
  by (auto simp: carousel_ok_def clear_exiting_def finish_survivor_reflow_def prepare_exit_def cancel_pending_exit_def
      take_focus_return_if_settled_def take_pending_exit_visual_def reconcile_exit_state_def Let_def distinct_map inj_on_def
      cong: option.case_cong split: option.splits)

lemma finish_exit_ok:
  assumes "carousel_ok s"
  shows "carousel_ok (snd (finish_exit i s))"
proof -
  let ?s1 = "s\<lparr>ca_exiting := filter (\<lambda>x. xc_id x \<noteq> i) (ca_exiting s)\<rparr>"
  have "carousel_ok ?s1" using assms
    by (auto simp: carousel_ok_def distinct_map inj_on_def cong: option.case_cong)
  moreover then have "carousel_ok (?s1\<lparr>ca_reflowing := True\<rparr>)" if "length (ca_ids s) = 1"
    using that by (simp add: carousel_ok_def cong: option.case_cong)
  ultimately show ?thesis by (auto simp: finish_exit_def Let_def intro: exiting_steps_ok)
qed

lemma reconciled_start_le: "reconciled_start ids s \<le> length ids - 2"
  by (simp add: reconciled_start_def Let_def split: option.splits)

lemma reconciled_foreground_in:
  assumes "start \<le> length ids - 2"
  shows "case reconciled_foreground ids start s of None \<Rightarrow> ids = []
    | Some i \<Rightarrow> start \<le> i \<and> i < start + 2 \<and> i < length ids"
  using assms by (cases ids) (auto simp: reconciled_foreground_def Let_def split: option.splits)

lemma carousel_reconcile_ok:
  assumes "carousel_ok s" "distinct ids"
  shows "carousel_ok (reconcile_exit_state (snd (carousel_reconcile fl ids s)))"
    "ca_ids (snd (carousel_reconcile fl ids s)) = ids"
proof -
  show "ca_ids (snd (carousel_reconcile fl ids s)) = ids" by (simp add: carousel_reconcile_def)
  show "carousel_ok (reconcile_exit_state (snd (carousel_reconcile fl ids s)))"
  proof (cases "ca_ids s = ids")
    case True
    with assms(1) show ?thesis by (simp add: carousel_reconcile_def exiting_steps_ok)
  next
    case False
    have "case reconciled_foreground ids (reconciled_start ids s) s of None \<Rightarrow> ids = [] | Some i \<Rightarrow> i < length ids"
      using reconciled_foreground_in [OF reconciled_start_le, of ids s s] by (simp split: option.splits)
    with assms False reconciled_start_le [of ids s] show ?thesis
      by (auto simp: carousel_reconcile_def carousel_ok_def reconcile_exit_state_def distinct_map inj_on_def cong: option.case_cong)
  qed
qed

lemma queue_exiting_ok:
  assumes "carousel_ok s" "\<forall>x \<in> set xs. xc_id x \<notin> set (ca_ids s) \<and> xc_role x \<in> {CardTop, CardBottom}"
  shows "carousel_ok (queue_exiting xs s) \<and> ca_ids (queue_exiting xs s) = ca_ids s"
  using assms
proof (induction xs arbitrary: s)
  case (Cons x xs)
  let ?s = "if list_ex (\<lambda>c. xc_id c = xc_id x) (ca_exiting s) then s else s\<lparr>ca_exiting := ca_exiting s @ [x]\<rparr>"
  have "carousel_ok ?s" "ca_ids ?s = ca_ids s"
    using Cons.prems by (auto simp: carousel_ok_def list_ex_iff image_iff cong: option.case_cong)
  with Cons.IH [of ?s] Cons.prems show ?case by auto
qed simp

lemma collect_exiting_ok:
  assumes "carousel_ok s" "collect_exiting two ids ns s = (xs, s')"
  shows "carousel_ok s' \<and> ca_ids s' = ca_ids s \<and> (\<forall>x \<in> set xs. xc_id x \<notin> set ids \<and> xc_role x \<in> {CardTop, CardBottom})"
  using assms
proof (induction ns arbitrary: s xs)
  case (Cons n ns)
  obtain visual s1 where t: "take_pending_exit_visual (pnp_activation_id n) s = (visual, s1)" by fastforce
  with exiting_steps_ok(6) [OF Cons.prems(1), of "pnp_activation_id n"] have s1: "carousel_ok s1" "ca_ids s1 = ca_ids s"
    by (auto simp: take_pending_exit_visual_def split: option.splits)
  show ?case
  proof (cases "pnp_activation_id n \<in> set ids \<or> cv_role (visual_for s (pnp_activation_id n)) \<notin> {CardTop, CardBottom}")
    case True
    with Cons.IH [OF Cons.prems(1)] Cons.prems(2) show ?thesis by (auto simp: Let_def split: if_splits)
  next
    case False
    obtain ys where ys: "collect_exiting two ids ns s1 = (ys, s')" "xs = \<lparr>xc_notification = n,
        xc_role = cv_role (visual_for s (pnp_activation_id n)),
        xc_preserve_slot = (two \<and> cv_role (visual_for s (pnp_activation_id n)) = CardBottom), xc_visual = visual\<rparr> # ys"
      using Cons.prems(2) False t by (auto simp: Let_def apfst_def map_prod_def split: prod.splits)
    with Cons.IH [OF s1(1) ys(1)] s1(2) False show ?thesis by (auto simp: xc_id_def)
  qed
qed simp

section \<open>Every event keeps the invariant\<close>

lemma jump_loop_ids [simp]: "ca_ids (jump_loop s) = ca_ids s"
proof (induction s rule: jump_loop.induct)
  case (1 s)
  obtain t s1 where n: "next_target s = (t, s1)" by fastforce
  then have ids: "ca_ids s1 = ca_ids s" by (auto simp: next_target_def split: option.splits if_splits)
  show ?case
  proof (cases t)
    case None
    with n ids show ?thesis by (simp add: jump_loop.simps [of s])
  next
    case (Some target)
    have "ca_ids (snd (move_window_to target s1)) = ca_ids s1" by (simp add: move_window_to_def Let_def)
    with 1(1) [OF n [symmetric] Some] n Some ids show ?thesis by (simp add: jump_loop.simps [of s])
  qed
qed

lemma move_loop_ids [simp]: "ca_ids (snd (move_loop now s)) = ca_ids s"
proof (induction now s rule: move_loop.induct)
  case (1 now s)
  obtain t s1 where n: "next_target s = (t, s1)" by fastforce
  then have ids: "ca_ids s1 = ca_ids s" by (auto simp: next_target_def split: option.splits if_splits)
  show ?case
  proof (cases t)
    case None
    with n ids show ?thesis by (simp add: move_loop.simps [of now s])
  next
    case (Some target)
    obtain b s2 where m: "move_window_to target s1 = (b, s2)" by fastforce
    then have "ca_ids s2 = ca_ids s1" by (auto simp: move_window_to_def Let_def split: if_splits)
    with 1(1) [OF n [symmetric] Some m [symmetric]] Some n m ids show ?thesis
      by (cases b) (simp_all add: move_loop.simps [of now s])
  qed
qed

lemma process_pending_ok:
  assumes "controller_ok c"
  shows "controller_ok (process_pending_at now c)"
  using assms by (auto simp: controller_ok_def process_pending_at_def jump_to_pending_def begin_next_move_def
      intro!: jump_loop_ok move_loop_ok)

lemma with_state_ok:
  "controller_ok c \<Longrightarrow> carousel_ok s \<Longrightarrow> ca_ids s = ca_ids (cc_state c) \<Longrightarrow> controller_ok (c\<lparr>cc_state := s\<rparr>)"
  by (simp add: controller_ok_def)

lemma small_steps_ids [simp]:
  "ca_ids (record_wheel fl d now s) = ca_ids s" "ca_ids (snd (focus_index i s)) = ca_ids s"
  "ca_ids (snd (carousel_finish_transition now s)) = ca_ids s" "ca_ids (clear_exiting s) = ca_ids s"
  "ca_ids (finish_survivor_reflow s) = ca_ids s" "ca_ids (prepare_exit i visual b s) = ca_ids s"
  "ca_ids (cancel_pending_exit i s) = ca_ids s" "ca_ids (snd (take_focus_return_if_settled s)) = ca_ids s"
  "ca_ids (snd (finish_exit i s)) = ca_ids s" "ca_ids (reconcile_exit_state s) = ca_ids s"
  by (auto simp: record_wheel_def focus_index_def carousel_finish_transition_def clear_exiting_def finish_survivor_reflow_def
      prepare_exit_def cancel_pending_exit_def take_focus_return_if_settled_def finish_exit_def reconcile_exit_state_def Let_def
      split: option.splits)

definition distinct_cards :: "pet_notification_presentation list \<Rightarrow> bool" where
  "distinct_cards ns \<longleftrightarrow> distinct (map pnp_activation_id ns)"

lemma display_order_distinct: "distinct_cards ns \<Longrightarrow> distinct (map pnp_activation_id (notifications_by_display_order ns))"
  by (simp add: distinct_cards_def notifications_by_display_order_def distinct_map)

lemma controller_reconcile_ok:
  assumes "controller_ok c" "distinct (map pnp_activation_id ns)"
  shows "controller_ok (snd (controller_reconcile fl ns c))"
proof -
  let ?ids = "map pnp_activation_id ns" and ?s = "cc_state c"
  obtain xs s1 where e: "collect_exiting (visible_count ?s = 2) ?ids (cc_snapshot c) ?s = (xs, s1)" by fastforce
  obtain changed s2 where r: "carousel_reconcile fl ?ids s1 = (changed, s2)" by fastforce
  have s1: "carousel_ok s1" and xs: "\<forall>x \<in> set xs. xc_id x \<notin> set ?ids \<and> xc_role x \<in> {CardTop, CardBottom}"
    using collect_exiting_ok [OF _ e] assms(1) by (auto simp: controller_ok_def)
  have s2: "carousel_ok (reconcile_exit_state s2)" "ca_ids s2 = ?ids"
    using carousel_reconcile_ok [OF s1 assms(2), of fl] r by auto
  define s4 where "s4 = (if changed \<and> \<not> cc_reduced_motion c then queue_exiting xs (reconcile_exit_state s2) else reconcile_exit_state s2)"
  have s4: "carousel_ok s4" "ca_ids s4 = ?ids"
    using queue_exiting_ok [OF s2(1)] xs s2 by (auto simp: s4_def)
  have "controller_reconcile fl ns c = (case take_focus_return_if_settled s4 of
      (back, s5) \<Rightarrow> (back, c\<lparr>cc_state := s5, cc_snapshot := ns\<rparr>))"
    using e r by (simp add: controller_reconcile_def Let_def s4_def)
  with exiting_steps_ok(5) [OF s4(1)] small_steps_ids(8) [of s4] s4(2) show ?thesis
    by (cases "take_focus_return_if_settled s4") (simp add: controller_ok_def)
qed

lemma settle_motion_ok: "controller_ok c \<Longrightarrow> controller_ok (snd (settle_motion c))"
proof -
  assume c: "controller_ok c"
  let ?s = "clear_exiting (jump_to_pending (cc_state c))"
  have "carousel_ok ?s" "ca_ids ?s = ca_ids (cc_state c)"
    using c by (simp_all add: controller_ok_def jump_to_pending_def jump_loop_ok exiting_steps_ok)
  with c exiting_steps_ok(5) [of ?s] small_steps_ids(8) [of ?s] show ?thesis
    by (cases "take_focus_return_if_settled ?s") (simp add: settle_motion_def controller_ok_def)
qed

lemma handlers_ok:
  assumes "controller_ok c"
  shows "controller_ok (handle_wheel fl dx dy mode below now c)" "controller_ok (handle_transition_end name now c)"
    "controller_ok (snd (handle_animation_end name target c))" "controller_ok (focus_notification i now c)"
    "controller_ok (c\<lparr>cc_state := prepare_exit i visual keyboard (cc_state c)\<rparr>)"
    "controller_ok (c\<lparr>cc_state := cancel_pending_exit i (cc_state c)\<rparr>)"
proof -
  have s: "carousel_ok (cc_state c)" using assms by (simp add: controller_ok_def)
  show "controller_ok (c\<lparr>cc_state := prepare_exit i visual keyboard (cc_state c)\<rparr>)"
    "controller_ok (c\<lparr>cc_state := cancel_pending_exit i (cc_state c)\<rparr>)"
    by (simp_all add: with_state_ok assms exiting_steps_ok s)
  show "controller_ok (handle_wheel fl dx dy mode below now c)"
    using assms by (simp add: handle_wheel_def Let_def process_pending_ok with_state_ok record_wheel_ok s)
  let ?f = "finish_survivor_reflow (cc_state c)"
  obtain ended s1 where t: "carousel_finish_transition now ?f = (ended, s1)" by fastforce
  with carousel_finish_transition_ok [OF exiting_steps_ok(2) [OF s], of now] small_steps_ids(3) [of now ?f]
  have "controller_ok (c\<lparr>cc_state := s1\<rparr>)" by (intro with_state_ok assms) simp_all
  with t assms show "controller_ok (handle_transition_end name now c)"
    by (simp add: handle_transition_end_def process_pending_ok)
  show "controller_ok (snd (handle_animation_end name target c))"
  proof (cases target)
    case (Some i)
    obtain ret s2 where "finish_exit i (cc_state c) = (ret, s2)" by fastforce
    with finish_exit_ok [OF s, of i] small_steps_ids(9) [of i "cc_state c"] assms Some show ?thesis
      by (simp add: handle_animation_end_def with_state_ok)
  qed (simp add: handle_animation_end_def assms)
  obtain found s3 where "focus_index i (cc_state c) = (found, s3)" by fastforce
  with focus_index_ok [OF s, of i] small_steps_ids(2) [of i "cc_state c"] assms
  show "controller_ok (focus_notification i now c)"
    by (simp add: focus_notification_def process_pending_ok with_state_ok)
qed

lemma handle_ok:
  assumes "controller_ok c" "\<And>ns. ev = EvPresentation ns \<Longrightarrow> distinct_cards ns"
  shows "controller_ok (snd (carousel_handle fl ev c))"
proof (cases ev)
  case (EvPresentation ns)
  with controller_reconcile_ok [OF assms(1) display_order_distinct [OF assms(2)]] show ?thesis by simp
next
  case (EvReducedMotion b)
  have "controller_ok (c\<lparr>cc_reduced_motion := b\<rparr>)" using assms(1) by (simp add: controller_ok_def)
  with EvReducedMotion settle_motion_ok show ?thesis by (auto simp: Let_def)
qed (simp_all add: handlers_ok assms(1))

inductive carousel_step :: "'f float_ops \<Rightarrow> 'f carousel_controller \<Rightarrow> 'f carousel_controller \<Rightarrow> bool" for fl where
  Event: "(\<And>ns. ev = EvPresentation ns \<Longrightarrow> distinct_cards ns) \<Longrightarrow> carousel_step fl c (snd (carousel_handle fl ev c))"

definition carousel_init :: "'f float_ops \<Rightarrow> 'f carousel_controller \<Rightarrow> bool" where
  "carousel_init fl c \<longleftrightarrow> (\<exists>ns reduced. distinct_cards ns \<and> c = notification_carousel fl ns reduced)"

lemma carousel_init_ok: "carousel_init fl c \<Longrightarrow> controller_ok c"
  by (auto simp: carousel_init_def notification_carousel_def controller_new_def controller_ok_def Let_def
      carousel_new_ok display_order_distinct) (simp add: carousel_new_def)

interpretation shown_cards: invariant_system "carousel_init fl" "carousel_step fl" controller_ok
  by unfold_locales (auto simp: carousel_init_ok handle_ok elim: carousel_step.cases)

section \<open>What is visible\<close>

lemma role_at:
  assumes "carousel_ok s" "j < length (ca_ids s)" "2 \<le> length (ca_ids s)"
  shows "cv_role (visual_for s (ca_ids s ! j)) = CardTop \<longleftrightarrow> j = ca_start s"
    "cv_role (visual_for s (ca_ids s ! j)) = CardBottom \<longleftrightarrow> j = ca_start s + 1"
  using assms by (auto simp: carousel_ok_def visual_for_def position_distinct role_for_index_def clamp_window_start_def
      maximum_window_start_def Let_def min_def)

lemma role_single:
  assumes "carousel_ok s" "ca_ids s = [i]"
  shows "cv_role (visual_for s i) = (if list_ex xc_preserve_slot (ca_exiting s) then CardTop else CardBottom)"
  using assms by (auto simp: carousel_ok_def visual_for_def role_for_index_def clamp_window_start_def maximum_window_start_def Let_def)

lemma filter_middle:
  "\<lbrakk>\<And>x. x \<in> set as \<or> x \<in> set cs \<Longrightarrow> \<not> p x; \<And>x. x \<in> set bs \<Longrightarrow> p x\<rbrakk> \<Longrightarrow> filter p (as @ bs @ cs) = bs"
  by (simp add: filter_empty_conv filter_id_conv)

lemma current_cards:
  assumes "carousel_ok s"
  shows "filter (\<lambda>i. cv_current (visual_for s i)) (ca_ids s) = take 2 (drop (ca_start s) (ca_ids s))"
proof -
  let ?a = "ca_start s" and ?ids = "ca_ids s"
  have split: "?ids = take ?a ?ids @ take 2 (drop ?a ?ids) @ drop (?a + 2) ?ids"
    by (metis append_take_drop_id drop_drop add.commute)
  have "\<not> cv_current (visual_for s i)" if "i \<in> set (take ?a ?ids) \<or> i \<in> set (drop (?a + 2) ?ids)" for i
  proof -
    have "\<exists>j. j < length ?ids \<and> i = ?ids ! j \<and> (j < ?a \<or> ?a + 2 \<le> j)"
      using that
    proof
      assume "i \<in> set (take ?a ?ids)"
      then show ?thesis by (auto simp: in_set_conv_nth)
    next
      assume "i \<in> set (drop (?a + 2) ?ids)"
      then obtain k where "k < length ?ids - (?a + 2)" "i = ?ids ! (?a + 2 + k)" by (auto simp: in_set_conv_nth)
      then show ?thesis by (intro exI [of _ "?a + 2 + k"]) auto
    qed
    then obtain j where "j < length ?ids" "i = ?ids ! j" "j < ?a \<or> ?a + 2 \<le> j" by blast
    with visual_current [OF assms] show ?thesis by auto
  qed
  moreover have "cv_current (visual_for s i)" if mem: "i \<in> set (take 2 (drop ?a ?ids))" for i
  proof -
    obtain k where "k < 2" "?a + k < length ?ids" "i = ?ids ! (?a + k)" using mem by (auto simp: in_set_conv_nth)
    with visual_current [OF assms] show ?thesis by (cases k) auto
  qed
  ultimately have "filter (\<lambda>i. cv_current (visual_for s i)) (take ?a ?ids @ take 2 (drop ?a ?ids) @ drop (?a + 2) ?ids)
      = take 2 (drop ?a ?ids)" by (rule filter_middle)
  with split show ?thesis by metis
qed

lemma hit_region:
  assumes "carousel_ok s"
  shows "native_hit_region_mode s = (if ca_reflowing s then HitReflow else if 2 < length (ca_ids s) then HitScroll
    else if length (ca_ids s) = 2 then HitBoth else if ca_ids s = [] then HitEmpty
    else if list_ex xc_preserve_slot (ca_exiting s) then HitTop else HitBottom)"
proof -
  have start: "ca_start s \<le> length (ca_ids s) - 2" using assms by (simp add: carousel_ok_def)
  consider "2 < length (ca_ids s)" | "length (ca_ids s) = 2" | i where "ca_ids s = [i]" | "ca_ids s = []"
    by (metis One_nat_def Suc_1 length_0_conv length_Suc_conv less_2_cases_iff linorder_neqE_nat)
  then show ?thesis
  proof cases
    case 1
    then show ?thesis using start by (auto simp: native_hit_region_mode_def has_more_top_def has_more_bottom_def)
  next
    case 2
    then obtain i j where ids: "ca_ids s = [i, j]" by (metis One_nat_def Suc_1 length_0_conv length_Suc_conv)
    then have zero: "ca_start s = 0" using start by simp
    with ids role_at [OF assms, of 0] role_at [OF assms, of 1]
    have "cv_role (visual_for s i) = CardTop" "cv_role (visual_for s j) = CardBottom" by simp_all
    with ids zero show ?thesis by (simp add: native_hit_region_mode_def has_more_top_def has_more_bottom_def)
  next
    case 3
    with role_single [OF assms 3] start show ?thesis
      by (simp add: native_hit_region_mode_def has_more_top_def has_more_bottom_def)
  next
    case 4
    with start show ?thesis by (simp add: native_hit_region_mode_def has_more_top_def has_more_bottom_def)
  qed
qed

lemma visible_roles_unique:
  assumes "carousel_ok s" "i \<in> set (ca_ids s)" "j \<in> set (ca_ids s)" "cv_current (visual_for s i)"
    and "cv_role (visual_for s i) = cv_role (visual_for s j)"
  shows "i = j"
proof (cases "2 \<le> length (ca_ids s)")
  case True
  obtain a b where ab: "a < length (ca_ids s)" "i = ca_ids s ! a" "b < length (ca_ids s)" "j = ca_ids s ! b"
    using assms(2,3) by (metis in_set_conv_nth)
  then have "cv_role (visual_for s i) \<in> {CardTop, CardBottom}"
    using assms(4) visual_current [OF assms(1)] role_at [OF assms(1) _ True] by auto
  with ab assms(5) role_at [OF assms(1) _ True] show ?thesis by (metis insertE singletonD)
next
  case False
  then have "length (ca_ids s) \<le> 1" by simp
  with assms(2,3) show ?thesis by (cases "ca_ids s") auto
qed

text \<open>
  C24. Two cards are visible. Whatever notifications arrive and leave and whatever the user does, the
  visible cards are two neighbours in the order of the notifications, or all when there are fewer; no two share a
  place; the region the window system reports as clickable matches them; the cards that fade out are not among the cards
  that are there; and the carousel holds exactly the notifications last presented.
\<close>

theorem carousel_shows_two:
  assumes "carousel_init fl c0" "(carousel_step fl)\<^sup>*\<^sup>* c0 c" "s = cc_state c" "ids = ca_ids s"
  shows "filter (\<lambda>i. cv_current (visual_for s i)) ids = take 2 (drop (ca_start s) ids)
    \<and> length (take 2 (drop (ca_start s) ids)) = min 2 (length ids)
    \<and> (\<forall>i \<in> set ids. \<forall>j \<in> set ids. cv_current (visual_for s i) \<longrightarrow> cv_role (visual_for s i) = cv_role (visual_for s j) \<longrightarrow> i = j)
    \<and> native_hit_region_mode s = (if ca_reflowing s then HitReflow else if 2 < length ids then HitScroll
         else if length ids = 2 then HitBoth else if ids = [] then HitEmpty
         else if list_ex xc_preserve_slot (ca_exiting s) then HitTop else HitBottom)
    \<and> xc_id ` set (ca_exiting s) \<inter> set ids = {} \<and> map pnp_activation_id (cc_snapshot c) = ids \<and> distinct ids"
proof -
  have ok: "controller_ok c" by (rule shown_cards.inv_reachable [OF assms(1,2)])
  then have s: "carousel_ok s" "map pnp_activation_id (cc_snapshot c) = ids" using assms(3,4) by (simp_all add: controller_ok_def)
  then have "length (take 2 (drop (ca_start s) ids)) = min 2 (length ids)"
    using assms(4) by (auto simp: carousel_ok_def)
  moreover have apart: "xc_id ` set (ca_exiting s) \<inter> set ids = {}" "distinct ids" using s(1) assms(4) by (simp_all add: carousel_ok_def)
  moreover have "\<forall>i \<in> set ids. \<forall>j \<in> set ids. cv_current (visual_for s i) \<longrightarrow> cv_role (visual_for s i) = cv_role (visual_for s j) \<longrightarrow> i = j"
    using visible_roles_unique [OF s(1)] assms(4) by blast
  moreover note current_cards [OF s(1)] hit_region [OF s(1)]
  ultimately show ?thesis unfolding assms(4) using s(2) assms(4) by (intro conjI) simp_all
qed

section \<open>A card is removed\<close>

lemma current_position:
  assumes "carousel_ok s" "cv_current (visual_for s i)"
  shows "\<exists>j < length (ca_ids s). i = ca_ids s ! j \<and> (j = ca_start s \<or> j = ca_start s + 1)"
proof -
  have "i \<in> set (ca_ids s)"
    using assms(2) by (auto simp: visual_for_def hidden_visual_def split: option.splits dest: position_Some)
  then obtain j where "j < length (ca_ids s)" "i = ca_ids s ! j" by (metis in_set_conv_nth)
  with assms visual_current show ?thesis by metis
qed

lemma current_role: "cv_current (visual_for s i) \<longleftrightarrow> cv_role (visual_for s i) \<in> {CardTop, CardBottom}"
  by (auto simp: visual_for_def hidden_visual_def Let_def split: option.splits)

lemma collected:
  assumes "map xc_notification xs = ns" "map xc_role xs = map f ns" "n \<in> set ns"
  shows "\<exists>x \<in> set xs. xc_notification x = n \<and> xc_role x = f n"
  using assms by (induction xs arbitrary: ns) auto

lemma queue_exiting_frame: "ca_start (queue_exiting xs s) = ca_start s" "ca_ids (queue_exiting xs s) = ca_ids s"
  by (induction xs s rule: queue_exiting.induct) auto

lemma removal_window:
  assumes "carousel_ok s" "r < length (ca_ids s)" "j < length (ca_ids s)" "j \<noteq> r"
    and "j = ca_start s \<or> j = ca_start s + 1" "ids = take r (ca_ids s) @ drop (Suc r) (ca_ids s)"
  shows "\<exists>k < length ids. ids ! k = ca_ids s ! j \<and> (k = reconciled_start ids s \<or> k = reconciled_start ids s + 1)"
proof -
  define k where "k = (if j < r then j else j - 1)"
  have len: "length ids = length (ca_ids s) - 1" using assms(2,6) by simp
  have k: "k < length ids" "ids ! k = ca_ids s ! j"
    using assms(2-4,6) by (auto simp: k_def nth_append)
  have removed: "single_removal_index (ca_ids s) ids = Some r"
    using single_removal_found [OF _ assms(2)] assms(1,6) by (simp add: carousel_ok_def)
  have start: "ca_start s \<le> length (ca_ids s) - 2" using assms(1) by (simp add: carousel_ok_def)
  then have "reconciled_start ids s = min (ca_start s - (if r \<le> ca_start s then 1 else 0)) (length (ca_ids s) - 3)"
    by (simp add: reconciled_start_def removed maximum_window_start_def len numeral_3_eq_3)
  then have "k = reconciled_start ids s \<or> k = reconciled_start ids s + 1"
    using assms(2-5) start by (auto simp: k_def min_def split: if_splits)
  with k show ?thesis by blast
qed

lemma take_visual_frame:
  assumes "take_pending_exit_visual i s = (v, s1)"
  shows "visual_for s1 = visual_for s" "ca_start s1 = ca_start s" "ca_ids s1 = ca_ids s" "ca_exiting s1 = ca_exiting s"
proof -
  have "role_for_index (s\<lparr>ca_exit_visuals := xs\<rparr>) = role_for_index s" for xs
    by (simp add: role_for_index_def clamp_window_start_def maximum_window_start_def fun_eq_iff Let_def)
  then have visual: "visual_for (s\<lparr>ca_exit_visuals := xs\<rparr>) = visual_for s" for xs
    by (simp add: visual_for_def fun_eq_iff Let_def cong: option.case_cong if_cong)
  from assms have "s1 = s \<or> (\<exists>xs. s1 = s\<lparr>ca_exit_visuals := xs\<rparr>)"
    by (auto simp: take_pending_exit_visual_def split: option.splits)
  with visual show "visual_for s1 = visual_for s" "ca_start s1 = ca_start s" "ca_ids s1 = ca_ids s" "ca_exiting s1 = ca_exiting s"
    by auto
qed

definition leaving :: "rstr list \<Rightarrow> 'f carousel \<Rightarrow> pet_notification_presentation \<Rightarrow> bool" where
  "leaving ids s n \<longleftrightarrow> pnp_activation_id n \<notin> set ids \<and> cv_role (visual_for s (pnp_activation_id n)) \<in> {CardTop, CardBottom}"

lemma collect_exiting_parts:
  assumes "collect_exiting two ids ns s = (xs, s')"
  shows "map xc_notification xs = filter (leaving ids s) ns
    \<and> map xc_role xs = map (\<lambda>n. cv_role (visual_for s (pnp_activation_id n))) (filter (leaving ids s) ns)
    \<and> ca_start s' = ca_start s \<and> ca_ids s' = ca_ids s \<and> ca_exiting s' = ca_exiting s"
  using assms
proof (induction ns arbitrary: s xs)
  case (Cons n ns)
  obtain v s1 where t: "take_pending_exit_visual (pnp_activation_id n) s = (v, s1)" by fastforce
  note frame = take_visual_frame [OF t]
  have same: "leaving ids s1 = leaving ids s" using frame(1) by (simp add: leaving_def fun_eq_iff)
  show ?case
  proof (cases "leaving ids s n")
    case False
    with Cons.prems have "collect_exiting two ids ns s = (xs, s')" by (auto simp: leaving_def Let_def split: if_splits)
    from Cons.IH [OF this] False show ?thesis by simp
  next
    case True
    obtain ys where ys: "collect_exiting two ids ns s1 = (ys, s')" "xs = \<lparr>xc_notification = n,
        xc_role = cv_role (visual_for s (pnp_activation_id n)),
        xc_preserve_slot = (two \<and> cv_role (visual_for s (pnp_activation_id n)) = CardBottom), xc_visual = v\<rparr> # ys"
      using Cons.prems True t by (auto simp: leaving_def Let_def apfst_def map_prod_def split: prod.splits)
    from Cons.IH [OF ys(1)] ys(2) True frame same show ?thesis by simp
  qed
qed simp

lemma queue_exiting_all:
  assumes "distinct (map xc_id xs)" "xc_id ` set (ca_exiting s) \<inter> xc_id ` set xs = {}"
  shows "queue_exiting xs s = s\<lparr>ca_exiting := ca_exiting s @ xs\<rparr>"
  using assms
proof (induction xs arbitrary: s)
  case (Cons x xs)
  then have "\<not> list_ex (\<lambda>c. xc_id c = xc_id x) (ca_exiting s)" by (auto simp: list_ex_iff image_iff)
  with Cons.IH [of "s\<lparr>ca_exiting := ca_exiting s @ [x]\<rparr>"] Cons.prems show ?case by (auto simp: image_iff)
qed simp

text \<open>The state after the presentation of other notifications, and the cards it queues.\<close>

lemma changed_reconcile:
  assumes "controller_ok c" "ids = map pnp_activation_id ns" "ca_ids (cc_state c) \<noteq> ids"
    and "s' = cc_state (snd (controller_reconcile fl ns c))"
  obtains xs where "ca_start s' = reconciled_start ids (cc_state c)" "ca_ids s' = ids"
    "map xc_notification xs = filter (leaving ids (cc_state c)) (cc_snapshot c)"
    "map xc_role xs = map (\<lambda>n. cv_role (visual_for (cc_state c) (pnp_activation_id n))) (filter (leaving ids (cc_state c)) (cc_snapshot c))"
    "\<not> cc_reduced_motion c \<Longrightarrow> set xs \<subseteq> set (ca_exiting s')"
proof -
  let ?s = "cc_state c"
  obtain xs s1 where e: "collect_exiting (visible_count ?s = 2) ids (cc_snapshot c) ?s = (xs, s1)" by fastforce
  note parts = collect_exiting_parts [OF e]
  then obtain s2 where r: "carousel_reconcile fl ids s1 = (True, s2)" "ca_start s2 = reconciled_start ids ?s"
    "ca_ids s2 = ids" "ca_exiting s2 = ca_exiting ?s"
    using assms(3) by (simp add: carousel_reconcile_def reconciled_start_def maximum_window_start_def)
  define s4 where "s4 = (if \<not> cc_reduced_motion c then queue_exiting xs (reconcile_exit_state s2) else reconcile_exit_state s2)"
  have s': "s' = snd (take_focus_return_if_settled s4)"
    using e r(1) assms(2,4) by (simp add: controller_reconcile_def Let_def s4_def split: prod.split)
  then have after: "ca_start s' = reconciled_start ids ?s" "ca_ids s' = ids" "ca_exiting s' = ca_exiting s4"
    using r by (simp_all add: s4_def queue_exiting_frame reconcile_exit_state_def take_focus_return_if_settled_def Let_def)
  have s: "carousel_ok ?s" "map pnp_activation_id (cc_snapshot c) = ca_ids ?s" using assms(1) by (simp_all add: controller_ok_def)
  have xs: "map xc_id xs = map pnp_activation_id (filter (leaving ids ?s) (cc_snapshot c))"
    using parts by (metis (no_types, lifting) map_map xc_id_def comp_apply map_eq_conv)
  have "distinct (map xc_id xs)" using s xs by (simp add: distinct_map_filter carousel_ok_def)
  moreover have "xc_id ` set xs \<subseteq> set (ca_ids ?s)"
    using arg_cong [OF xs, of set] unfolding s(2) [symmetric] by auto
  moreover have "xc_id ` set (ca_exiting ?s) \<inter> set (ca_ids ?s) = {}" using s(1) by (simp add: carousel_ok_def)
  ultimately have "queue_exiting xs (reconcile_exit_state s2)
      = (reconcile_exit_state s2)\<lparr>ca_exiting := ca_exiting (reconcile_exit_state s2) @ xs\<rparr>"
    using r(4) by (intro queue_exiting_all) (auto simp: reconcile_exit_state_def)
  then have "set xs \<subseteq> set (ca_exiting s')" if "\<not> cc_reduced_motion c" using that after(3) by (simp add: s4_def)
  with that after(1,2) parts show thesis by blast
qed

text \<open>
  C25. A removal keeps the rest in view. When one notification goes and nothing else changes, every other card that
  was visible stays visible, and if the removed card was visible and motion is not reduced, it fades out at its place.
\<close>

theorem removal_keeps_view:
  assumes "carousel_init fl c0" "(carousel_step fl)\<^sup>*\<^sup>* c0 c" "distinct_cards ns" "r < length (ca_ids (cc_state c))"
    and "map pnp_activation_id (notifications_by_display_order ns)
      = take r (ca_ids (cc_state c)) @ drop (Suc r) (ca_ids (cc_state c))"
    and "s' = cc_state (snd (carousel_handle fl (EvPresentation ns) c))" "gone = ca_ids (cc_state c) ! r"
  shows "(\<forall>i. i \<noteq> gone \<longrightarrow> cv_current (visual_for (cc_state c) i) \<longrightarrow> cv_current (visual_for s' i))
    \<and> (cv_current (visual_for (cc_state c) gone) \<longrightarrow> \<not> cc_reduced_motion c \<longrightarrow>
        (\<exists>x \<in> set (ca_exiting s'). xc_id x = gone \<and> xc_role x = cv_role (visual_for (cc_state c) gone)))"
proof -
  let ?ns = "notifications_by_display_order ns" and ?s = "cc_state c"
  let ?ids = "map pnp_activation_id ?ns"
  have ok: "controller_ok c" by (rule shown_cards.inv_reachable [OF assms(1,2)])
  then have s: "carousel_ok ?s" "map pnp_activation_id (cc_snapshot c) = ca_ids ?s" "distinct (ca_ids ?s)"
    by (simp_all add: controller_ok_def carousel_ok_def)
  have step: "s' = cc_state (snd (controller_reconcile fl ?ns c))" using assms(6) by simp
  have "length (ca_ids ?s) \<noteq> length ?ids" using assms(4) by (simp add: assms(5))
  then have "ca_ids ?s \<noteq> ?ids" by metis
  from changed_reconcile [OF ok refl this step] obtain xs where after: "ca_start s' = reconciled_start ?ids ?s" "ca_ids s' = ?ids"
    "map xc_notification xs = filter (leaving ?ids ?s) (cc_snapshot c)"
    "map xc_role xs = map (\<lambda>n. cv_role (visual_for ?s (pnp_activation_id n))) (filter (leaving ?ids ?s) (cc_snapshot c))"
    "\<not> cc_reduced_motion c \<Longrightarrow> set xs \<subseteq> set (ca_exiting s')" by blast
  have s'_ok: "carousel_ok s'"
    using controller_reconcile_ok [OF ok display_order_distinct [OF assms(3)], of fl] step by (simp add: controller_ok_def)
  have "cv_current (visual_for s' i)" if i: "i \<noteq> gone" "cv_current (visual_for ?s i)" for i
  proof -
    obtain j where j: "j < length (ca_ids ?s)" "i = ca_ids ?s ! j" "j = ca_start ?s \<or> j = ca_start ?s + 1"
      using i(2) current_position [OF s(1)] by blast
    with i(1) assms(7) have "j \<noteq> r" by auto
    from removal_window [OF s(1) assms(4) j(1) this j(3) assms(5)] j(2) after visual_current [OF s'_ok]
    show ?thesis by metis
  qed
  moreover have "\<exists>x \<in> set (ca_exiting s'). xc_id x = gone \<and> xc_role x = cv_role (visual_for ?s gone)"
    if gone: "cv_current (visual_for ?s gone)" "\<not> cc_reduced_motion c"
  proof -
    have absent: "gone \<notin> set ?ids" unfolding assms(5,7)
      using assms(4) s(3) by (auto simp: in_set_conv_nth nth_eq_iff_index_eq)
    obtain n where n: "n \<in> set (cc_snapshot c)" "pnp_activation_id n = gone"
      using assms(4,7) s(2) by (metis (no_types, lifting) image_iff list.set_map nth_mem)
    then have "leaving ?ids ?s n" using absent gone(1) by (simp add: leaving_def current_role)
    with n collected [OF after(3,4)] after(5) [OF gone(2)] show ?thesis by (fastforce simp: xc_id_def)
  qed
  ultimately show ?thesis by blast
qed

section \<open>Keyboard focus\<close>

lemma no_request:
  assumes "ca_pending_focus s = None" "ca_pending_moves s = 0"
  shows "jump_loop s = s" "move_loop now s = (False, s)"
  using assms by (simp_all add: jump_loop.simps [of s] move_loop.simps [of now s] next_target_def)

lemma clamp_fields [simp]:
  "clamp_window_start (s\<lparr>ca_transition_until := t\<rparr>) = clamp_window_start s"
  "clamp_window_start (s\<lparr>ca_pending_focus := f\<rparr>) = clamp_window_start s"
  "clamp_window_start (s\<lparr>ca_reflowing := b\<rparr>) = clamp_window_start s"
  by (simp_all add: fun_eq_iff clamp_window_start_def maximum_window_start_def)

text \<open>A pending focus on a window that is not the current one is where both loops end.\<close>

lemma focus_request:
  assumes "ca_pending_focus s = Some t" "clamp_window_start s t \<noteq> ca_start s"
  shows "ca_start (jump_loop s) = clamp_window_start s t" "ca_start (snd (move_loop now s)) = clamp_window_start s t"
proof -
  let ?t = "clamp_window_start s t"
  let ?s1 = "s\<lparr>ca_pending_focus := None, ca_pending_moves := 0\<rparr>"
  have n: "next_target s = (Some ?t, ?s1)" using assms(1) by (simp add: next_target_def)
  obtain s2 where m: "move_window_to ?t ?s1 = (True, s2)" "ca_start s2 = ?t" "ca_pending_focus s2 = None" "ca_pending_moves s2 = 0"
    using assms(2) by (auto simp: move_window_to_def Let_def clamp_window_start_def maximum_window_start_def)
  show "ca_start (jump_loop s) = ?t"
    using n m by (simp add: jump_loop.simps [of s] no_request)
  show "ca_start (snd (move_loop now s)) = ?t"
    using n m by (simp add: move_loop.simps [of now s])
qed

lemma focus_window:
  assumes "carousel_ok s" "j < length (ca_ids s)" "j < ca_start s \<or> ca_start s + 1 < j"
  shows "clamp_window_start s (clamp_window_start s (j - 1)) \<noteq> ca_start s"
    "j = clamp_window_start s (clamp_window_start s (j - 1)) \<or> j = clamp_window_start s (clamp_window_start s (j - 1)) + 1"
  using assms by (auto simp: carousel_ok_def clamp_window_start_def maximum_window_start_def min_def)

text \<open>A pending focus brings the card at position \<open>j\<close> into the window once the pending moves are processed.\<close>

lemma focus_processed:
  assumes "controller_ok c" "ca_pending_focus (cc_state c) = Some (clamp_window_start (cc_state c) (j - 1))"
    and "j < length (ca_ids (cc_state c))" "j < ca_start (cc_state c) \<or> ca_start (cc_state c) + 1 < j"
    and "cc_reduced_motion c \<or> ca_transition_until (cc_state c) \<le> now"
  shows "cv_current (visual_for (cc_state (process_pending_at now c)) (ca_ids (cc_state c) ! j))"
proof -
  let ?s = "cc_state c" and ?c = "process_pending_at now c"
  have s: "carousel_ok ?s" using assms(1) by (simp add: controller_ok_def)
  note window = focus_window [OF s assms(3,4)]
  have start: "ca_start (cc_state ?c) = clamp_window_start ?s (clamp_window_start ?s (j - 1))"
  proof (cases "cc_reduced_motion c")
    case True
    with focus_request [of "?s\<lparr>ca_transition_until := 0\<rparr>"] assms(2) window(1) show ?thesis
      by (simp add: True process_pending_at_def jump_to_pending_def)
  next
    case False
    with focus_request(2) [OF assms(2) window(1)] assms(5) show ?thesis
      by (simp add: process_pending_at_def begin_next_move_def)
  qed
  have "ca_ids (cc_state ?c) = ca_ids ?s" by (simp add: process_pending_at_def jump_to_pending_def begin_next_move_def)
  moreover have "carousel_ok (cc_state ?c)" using process_pending_ok [OF assms(1)] by (simp add: controller_ok_def)
  ultimately show ?thesis using visual_current [of "cc_state ?c" j] window(2) start assms(3) by simp
qed

text \<open>
  C26. What has the focus is in view. When a control of a card gets the keyboard focus and no transition is running, or
  motion is reduced, the card is visible afterwards; if a transition is running and the card is
  out of view, it is visible once that transition has ended.
\<close>

theorem focused_card_in_view:
  assumes "carousel_init fl c0" "(carousel_step fl)\<^sup>*\<^sup>* c0 c" "i \<in> set (ca_ids (cc_state c))"
  shows "(cc_reduced_motion c \<or> ca_transition_until (cc_state c) \<le> now
      \<longrightarrow> cv_current (visual_for (cc_state (focus_notification i now c)) i))
    \<and> (\<not> cc_reduced_motion c \<and> now < ca_transition_until (cc_state c) \<and> \<not> cv_current (visual_for (cc_state c) i)
        \<and> ca_transition_until (cc_state c) \<le> later
      \<longrightarrow> cv_current (visual_for (cc_state (handle_transition_end (lit ''top'') later (focus_notification i now c))) i))"
proof -
  let ?s = "cc_state c"
  have ok: "controller_ok c" by (rule shown_cards.inv_reachable [OF assms(1,2)])
  then have s: "carousel_ok ?s" by (simp add: controller_ok_def)
  obtain j where j: "j < length (ca_ids ?s)" "i = ca_ids ?s ! j" using assms(3) by (metis in_set_conv_nth)
  have pos: "position (\<lambda>x. x = i) (ca_ids ?s) = Some j"
    using position_distinct [of "ca_ids ?s" j] s j by (simp add: carousel_ok_def)
  have seen: "cv_current (visual_for ?s i) \<longleftrightarrow> ca_start ?s \<le> j \<and> j \<le> ca_start ?s + 1"
    using visual_current [OF s j(1)] j(2) by auto
  show ?thesis
  proof (cases "cv_current (visual_for ?s i)")
    case True
    then have "focus_notification i now c = c" using seen pos by (simp add: focus_notification_def focus_index_def)
    with True show ?thesis by simp
  next
    case False
    let ?s1 = "?s\<lparr>ca_pending_focus := Some (clamp_window_start ?s (j - 1))\<rparr>"
    let ?c1 = "c\<lparr>cc_state := ?s1\<rparr>" and ?c2 = "c\<lparr>cc_state := ?s1\<lparr>ca_reflowing := False, ca_transition_until := 0\<rparr>\<rparr>"
    have away: "j < ca_start ?s \<or> ca_start ?s + 1 < j" using False seen by auto
    have focus: "focus_notification i now c = process_pending_at now ?c1"
      using False seen pos by (auto simp: focus_notification_def focus_index_def)
    have ok1: "controller_ok ?c1" by (intro with_state_ok ok) (simp_all add: s)
    have ok2: "controller_ok ?c2"
      using with_state_ok [OF ok, of "?s1\<lparr>ca_reflowing := False, ca_transition_until := 0\<rparr>"]
        exiting_steps_ok(2) [of ?s1] s by (simp add: finish_survivor_reflow_def)
    have "cv_current (visual_for (cc_state (focus_notification i now c)) i)" if "cc_reduced_motion c \<or> ca_transition_until ?s \<le> now"
      using focus_processed [OF ok1, of j now] that j away unfolding focus by simp
    moreover have "cv_current (visual_for (cc_state (handle_transition_end (lit ''top'') later (focus_notification i now c))) i)"
      if later: "\<not> cc_reduced_motion c" "now < ca_transition_until ?s" "ca_transition_until ?s \<le> later"
    proof -
      have "handle_transition_end (lit ''top'') later (focus_notification i now c) = process_pending_at later ?c2"
        using later by (simp add: focus process_pending_at_def begin_next_move_def handle_transition_end_def
            finish_survivor_reflow_def carousel_finish_transition_def)
      with focus_processed [OF ok2, of j later] j away show ?thesis by simp
    qed
    ultimately show ?thesis by blast
  qed
qed

text \<open>
  After a jump towards older cards no visible card is in the foreground: the card that was first in view keeps the
  foreground although it is hidden now.
\<close>

lemma jump_back_hides_foreground:
  assumes "carousel_ok s" "2 \<le> length (ca_ids s)" "target + 3 \<le> ca_start s" "i \<in> set (ca_ids s)"
  shows "\<not> cv_foreground (visual_for (snd (move_window_to target s)) i)"
proof -
  let ?s = "snd (move_window_to target s)"
  have start: "ca_start s \<le> length (ca_ids s) - 2" using assms(1) by (simp add: carousel_ok_def)
  then have s: "ca_ids ?s = ca_ids s" "ca_start ?s = target" "ca_foreground ?s = Some (ca_start s)"
    using assms(3) by (simp_all add: move_window_to_def clamp_window_start_def maximum_window_start_def)
  have "role_for_index ?s (ca_start s) = CardHidden"
    using assms(3) start s by (auto simp: role_for_index_def clamp_window_start_def maximum_window_start_def Let_def)
  with s assms(2) show ?thesis by (auto simp: visual_for_def hidden_visual_def Let_def split: option.splits)
qed

section \<open>A concrete carousel\<close>

definition shown_card :: "nat \<Rightarrow> string \<Rightarrow> pet_notification_presentation" where
  "shown_card t i = \<lparr>pnp_title = None, pnp_activation_id = lit i, pnp_kind = PetCompletion, pnp_project_label = None,
     pnp_summary = lit ''done'', pnp_summary_truncated = False, pnp_summary_redacted = False, pnp_occurred_at_ms = t,
     pnp_unread = True\<rparr>"

definition sample_cards :: "pet_notification_presentation list" where
  "sample_cards = [shown_card 1 ''a'', shown_card 2 ''b'', shown_card 3 ''c'', shown_card 4 ''d'']"

definition remaining_cards :: "pet_notification_presentation list" where
  "remaining_cards = [shown_card 1 ''a'', shown_card 2 ''b'', shown_card 4 ''d'']"

text \<open>Whole numbers in quarters stand for the doubles.\<close>

definition quarter_ops :: "int float_ops" where
  "quarter_ops = \<lparr>fl_quarters = (\<lambda>n. n), fl_add = (+), fl_mul = (\<lambda>a b. a * b div 4), fl_abs = abs,
     fl_clamp = (\<lambda>x lo hi. max lo (min hi x)), fl_less = (<), fl_le = (\<le>), fl_signum = sgn\<rparr>"

definition sample_carousel :: "int carousel_controller" where
  "sample_carousel = notification_carousel quarter_ops sample_cards False"

lemma sample_order:
  "notifications_by_display_order sample_cards = sample_cards"
  "notifications_by_display_order remaining_cards = remaining_cards"
  by (simp_all add: notifications_by_display_order_def sample_cards_def remaining_cards_def shown_card_def)

lemma sample_distinct: "distinct_cards sample_cards" "distinct_cards remaining_cards"
  by (simp_all add: distinct_cards_def sample_cards_def remaining_cards_def shown_card_def lit_def)

lemma sample_init: "carousel_init quarter_ops sample_carousel"
  unfolding carousel_init_def sample_carousel_def using sample_distinct(1) by blast

lemma sample_state:
  "cc_state sample_carousel = carousel_new quarter_ops [lit ''a'', lit ''b'', lit ''c'', lit ''d'']"
  "\<not> cc_reduced_motion sample_carousel"
  by (simp_all add: sample_carousel_def notification_carousel_def controller_new_def sample_order)
    (simp add: sample_cards_def shown_card_def)

lemma sample_visual:
  "cv_current (visual_for (cc_state sample_carousel) (lit ''c''))" "cv_current (visual_for (cc_state sample_carousel) (lit ''d''))"
  "\<not> cv_current (visual_for (cc_state sample_carousel) (lit ''a''))"
  by (simp_all add: sample_state carousel_new_def visual_for_def role_for_index_def clamp_window_start_def
      maximum_window_start_def Let_def lit_def)

theorem carousel_shows_two_witness:
  "filter (\<lambda>i. cv_current (visual_for (cc_state sample_carousel) i)) (ca_ids (cc_state sample_carousel)) = [lit ''c'', lit ''d'']
    \<and> distinct (ca_ids (cc_state sample_carousel))"
  using carousel_shows_two [OF sample_init rtranclp.rtrancl_refl refl refl] by (simp add: sample_state carousel_new_def)

theorem removal_keeps_view_witness:
  "cv_current (visual_for (cc_state (snd (carousel_handle quarter_ops (EvPresentation remaining_cards) sample_carousel))) (lit ''d''))
    \<and> (\<exists>x \<in> set (ca_exiting (cc_state (snd (carousel_handle quarter_ops (EvPresentation remaining_cards) sample_carousel)))).
        xc_id x = lit ''c'')"
proof -
  have "2 < length (ca_ids (cc_state sample_carousel))" by (simp add: sample_state carousel_new_def)
  moreover have "map pnp_activation_id (notifications_by_display_order remaining_cards)
      = take 2 (ca_ids (cc_state sample_carousel)) @ drop (Suc 2) (ca_ids (cc_state sample_carousel))"
    unfolding sample_order by (simp add: sample_state carousel_new_def remaining_cards_def shown_card_def)
  moreover have "ca_ids (cc_state sample_carousel) ! 2 = lit ''c''" "lit ''d'' \<noteq> lit ''c''"
    by (simp_all add: sample_state carousel_new_def lit_def)
  ultimately show ?thesis
    using removal_keeps_view [OF sample_init rtranclp.rtrancl_refl sample_distinct(2), of 2, OF _ _ refl refl]
      sample_visual sample_state(2) by metis
qed

theorem focused_card_in_view_witness:
  "cv_current (visual_for (cc_state (focus_notification (lit ''a'') 5 sample_carousel)) (lit ''a''))"
proof -
  have "lit ''a'' \<in> set (ca_ids (cc_state sample_carousel))" "ca_transition_until (cc_state sample_carousel) \<le> 5"
    by (simp_all add: sample_state carousel_new_def)
  with focused_card_in_view [OF sample_init rtranclp.rtrancl_refl, of "lit ''a''" 5] show ?thesis by blast
qed

end
