(* ===== verification/Hit_Properties.thy ===== *)
theory Hit_Properties
  imports Hit_Regions Carousel_Properties
begin

text \<open>
  The hit regions: the rectangles of Linux cover exactly the pixels the hit test of the other systems accepts, and every
  card the carousel shows can be clicked.
\<close>

section \<open>Runs of opaque pixels\<close>

definition covers :: "int \<Rightarrow> int \<Rightarrow> pixel_rect \<Rightarrow> bool" where
  "covers px py r \<longleftrightarrow> px_x r \<le> px \<and> px < px_x r + px_width r \<and> px_y r \<le> py \<and> py < px_y r + px_height r"

lemma run_end_opaque: "x \<le> k \<Longrightarrow> k < run_end opaque w x \<Longrightarrow> k < w \<and> opaque k"
proof (induction opaque w x rule: run_end.induct)
  case (1 opaque w x)
  show ?case
  proof (cases "x < w \<and> opaque x")
    case True
    with 1 show ?thesis by (cases "k = x") (auto simp: run_end.simps [of opaque w x])
  next
    case False
    with 1(2,3) have "run_end opaque w x = x" by (simp add: run_end.simps [of opaque w x])
    with 1(2,3) show ?thesis by simp
  qed
qed

text \<open>A pixel of the row lies in exactly one run if it is opaque, in none otherwise.\<close>

lemma row_runs_count:
  "length (filter (\<lambda>(s, l). s \<le> k \<and> k < s + l) (row_runs opaque w x)) = (if x \<le> k \<and> k < w \<and> opaque k then 1 else 0)"
proof (induction opaque w x rule: row_runs.induct)
  case (1 opaque w x)
  consider "\<not> x < w" | "x < w" "\<not> opaque x" | "x < w" "opaque x" by blast
  then show ?case
  proof cases
    case 1
    then show ?thesis by (simp add: row_runs.simps [of opaque w x])
  next
    case 2
    with 1(1) show ?thesis by (cases "k = x") (auto simp: row_runs.simps [of opaque w x])
  next
    case 3
    let ?e = "run_end opaque w x"
    have e: "x \<le> ?e" "row_runs opaque w x = (x, ?e - x) # row_runs opaque w ?e"
      using 3 run_end_le by (simp_all add: row_runs.simps [of opaque w x])
    have rest: "length (filter (\<lambda>(s, l). s \<le> k \<and> k < s + l) (row_runs opaque w ?e)) = (if ?e \<le> k \<and> k < w \<and> opaque k then 1 else 0)"
      using 1(2) 3 by simp
    show ?thesis
    proof (cases "x \<le> k \<and> k < ?e")
      case True
      with run_end_opaque [of x k opaque w] e rest show ?thesis by auto
    next
      case False
      with e rest show ?thesis by auto
    qed
  qed
qed


lemma row_rectangles_count:
  "length (filter (covers px py) (append_row_rectangles a row column y))
    = (if y = nat (py - sprite_y) \<and> (\<exists>x. sprite_point px py = Some (x, y) \<and> atlas_contains a row column x y) \<and> y < cell_height then 1 else 0)"
  if y: "y < cell_height"
proof (cases "py = sprite_y + int y \<and> sprite_x \<le> px")
  case True
  define k where "k = nat (px - sprite_x)"
  have "px = sprite_x + int k" using True by (simp add: k_def)
  with True have "length (filter (covers px py) (append_row_rectangles a row column y))
      = length (filter (\<lambda>(s, l). s \<le> k \<and> k < s + l) (row_runs (\<lambda>x. atlas_contains a row column x y) cell_width 0))"
    by (auto simp: append_row_rectangles_def filter_map o_def covers_def intro!: arg_cong [of _ _ length] filter_cong)
  with True y \<open>px = sprite_x + int k\<close> show ?thesis by (auto simp: row_runs_count sprite_point_def)
next
  case False
  then have "filter (covers px py) (append_row_rectangles a row column y) = []"
    by (auto simp: append_row_rectangles_def filter_empty_conv covers_def)
  with False y show ?thesis by (auto simp: sprite_point_def Let_def split: if_splits)
qed

lemma length_filter_concat: "length (filter p (concat xss)) = sum_list (map (\<lambda>xs. length (filter p xs)) xss)"
  by (induction xss) auto

lemma sum_list_single: "distinct ys \<Longrightarrow> sum_list (map (\<lambda>y. if y = k \<and> q y then 1 else 0) ys) = (if k \<in> set ys \<and> q k then (1 :: nat) else 0)"
  by (induction ys) auto

lemma frame_rectangles_count:
  "length (filter (covers px py) (frame_rectangles a row column))
    = (if \<exists>x y. sprite_point px py = Some (x, y) \<and> atlas_contains a row column x y then 1 else 0)"
proof -
  let ?q = "\<lambda>y. (\<exists>x. sprite_point px py = Some (x, y) \<and> atlas_contains a row column x y) \<and> y < cell_height"
  have "length (filter (covers px py) (frame_rectangles a row column))
      = sum_list (map (\<lambda>y. if y = nat (py - sprite_y) \<and> ?q y then 1 else 0) [0..<cell_height])"
    unfolding frame_rectangles_def length_filter_concat map_map
    by (intro arg_cong [of _ _ sum_list] map_cong) (simp_all add: row_rectangles_count)
  also have "\<dots> = (if ?q (nat (py - sprite_y)) then 1 else 0)" by (subst sum_list_single) auto
  also have "?q (nat (py - sprite_y)) = (\<exists>x y. sprite_point px py = Some (x, y) \<and> atlas_contains a row column x y)"
    by (auto simp: sprite_point_def Let_def split: if_splits)
  finally show ?thesis .
qed

text \<open>
  C30. The input region is the hit test. The rectangles given to the window system of Linux cover each pixel of
  the pet window exactly once if the hit test of macOS and Windows accepts it, and not at all otherwise, whatever frame and atlas are
  installed; while the pet is dragged they cover exactly the window.
\<close>

theorem linux_region_matches_hit_test:
  "length (filter (covers px py) (pet_rectangles s))
    = (if (if ph_dragging s then 0 \<le> px \<and> px < pet_window_width \<and> 0 \<le> py \<and> py < pet_window_height
           else pet_hit_contains s px py) then 1 else 0)"
proof (cases "ph_dragging s")
  case True
  then show ?thesis by (simp add: pet_rectangles_def covers_def)
next
  case False
  show ?thesis
  proof (cases "ph_atlas s")
    case None
    with False show ?thesis
      by (auto simp: pet_rectangles_def pet_hit_contains_def sprite_rectangle_def covers_def sprite_point_def Let_def)
  next
    case (Some a)
    with False show ?thesis
      by (auto simp: pet_rectangles_def pet_hit_contains_def frame_rectangles_count split: option.splits)
  qed
qed

section \<open>The cards\<close>

lemma hit_mode_round_trip: "hit_mode_from_code (hit_mode_code m) = m"
  by (cases m) (simp_all add: hit_mode_from_code_def all_hit_modes_def)

text \<open>What the desktop reads from the name the carousel reports.\<close>

fun desktop_mode :: "hit_region_mode \<Rightarrow> hit_mode" where
  "desktop_mode HitEmpty = HmEmpty"
| "desktop_mode HitTop = HmTop"
| "desktop_mode HitBottom = HmBottom"
| "desktop_mode HitBoth = HmBoth"
| "desktop_mode HitReflow = HmReflow"
| "desktop_mode HitScroll = HmScroll"

lemma reported_mode: "map_of hit_mode_names (hit_region_as_str m) = Some (desktop_mode m)"
  by (cases m) (simp_all add: hit_mode_names_def hit_region_as_str_def lit_def)

definition place_of :: "card_role \<Rightarrow> bool \<Rightarrow> 'a :: linordered_idom hit_rect" where
  "place_of role below = (if role = CardTop then top_card below else bottom_card below)"

lemma place_in_region:
  assumes "m \<in> {HmReflow, HmScroll, HmBoth} \<or> m = (if role = CardTop then HmTop else HmBottom)"
    and "hit_rect_contains (place_of role below) x y"
  shows "hit_region_contains m below x y"
  using assms
  by (cases m; cases "role = CardTop"; cases below)
    (auto simp: hit_region_contains_def hit_rect_contains_def place_of_def top_card_def bottom_card_def card_at_def stack_top_def)

lemma current_mode:
  assumes "carousel_ok s" "i \<in> set (ca_ids s)" "cv_current (visual_for s i)"
  shows "desktop_mode (native_hit_region_mode s) \<in> {HmReflow, HmScroll, HmBoth}
    \<or> desktop_mode (native_hit_region_mode s) = (if cv_role (visual_for s i) = CardTop then HmTop else HmBottom)"
proof (cases "length (ca_ids s) = 1")
  case True
  with assms(2) obtain j where "ca_ids s = [j]" "i = j" by (cases "ca_ids s") auto
  with role_single [OF assms(1), of i] hit_region [OF assms(1)] show ?thesis by auto
next
  case False
  with assms(2) have "2 \<le> length (ca_ids s)" by (cases "ca_ids s" rule: list.exhaust) (auto simp: Suc_le_eq)
  with hit_region [OF assms(1)] show ?thesis by auto
qed

lemma mode_keeps_count:
  assumes "carousel_ok s"
  shows "fallback_for_count (length (ca_ids s)) (desktop_mode (native_hit_region_mode s)) = desktop_mode (native_hit_region_mode s)"
proof -
  have "ca_reflowing s \<longrightarrow> length (ca_ids s) = 1" using assms by (simp add: carousel_ok_def)
  moreover have "ca_ids s = [] \<or> length (ca_ids s) = 1 \<or> length (ca_ids s) = 2 \<or> 2 < length (ca_ids s)"
    by (metis One_nat_def length_0_conv less_2_cases_iff linorder_neqE_nat)
  ultimately show ?thesis using hit_region [OF assms] by (auto simp: fallback_for_count_def)
qed

text \<open>
  C29. Every visible card can be clicked. The name the carousel reports for its clickable region is one the desktop knows; the
  mode it stands for survives its storage as a code and the correction by the number of notifications; and whatever the
  carousel went through, its region contains the place of every visible card, above and below the pet.
\<close>

theorem visible_cards_clickable:
  assumes "carousel_init fl c0" "(carousel_step fl)\<^sup>*\<^sup>* c0 c" "s = cc_state c"
  shows "\<exists>m. map_of hit_mode_names (hit_region_as_str (native_hit_region_mode s)) = Some m
    \<and> hit_mode_from_code (hit_mode_code m) = m \<and> fallback_for_count (length (ca_ids s)) m = m
    \<and> (\<forall>i \<in> set (ca_ids s). cv_current (visual_for s i) \<longrightarrow>
         (\<forall>below x y. hit_rect_contains (place_of (cv_role (visual_for s i)) below) (x :: int) y \<longrightarrow> hit_region_contains m below x y))"
proof -
  have "carousel_ok s" using shown_cards.inv_reachable [OF assms(1,2)] assms(3) by (simp add: controller_ok_def)
  with reported_mode hit_mode_round_trip mode_keeps_count current_mode place_in_region show ?thesis by metis
qed

theorem visible_cards_clickable_witness:
  "hit_rect_contains (place_of (cv_role (visual_for (cc_state sample_carousel) (lit ''d''))) False) (100 :: int) 100
    \<and> (\<exists>m. map_of hit_mode_names (hit_region_as_str (native_hit_region_mode (cc_state sample_carousel))) = Some m
         \<and> hit_region_contains m False (100 :: int) 100)"
proof -
  have role: "cv_role (visual_for (cc_state sample_carousel) (lit ''d'')) = CardBottom" "lit ''d'' \<in> set (ca_ids (cc_state sample_carousel))"
    by (simp_all add: sample_state carousel_new_def visual_for_def role_for_index_def clamp_window_start_def
        maximum_window_start_def Let_def lit_def)
  have inside: "hit_rect_contains (place_of (cv_role (visual_for (cc_state sample_carousel) (lit ''d''))) False) (100 :: int) 100"
    by (simp add: role place_of_def bottom_card_def card_at_def stack_top_def hit_rect_contains_def)
  with visible_cards_clickable [OF sample_init rtranclp.rtrancl_refl refl] role(2) sample_visual(2) show ?thesis by metis
qed

end
