(* ===== verification/Desktop_Windows.thy ===== *)
theory Desktop_Windows
  imports Hit_Regions App_State "HOL-Library.Signed_Division"
begin

text \<open>
  The windows of the desktop shell, \<^verbatim>\<open>lili/src/lib.rs\<close>: the notification window that follows the pet and the number of unread
  notifications, its delayed hiding, the tray and the menu of the pet, and dragging. What Tauri answers to a call is a
  \<open>window_answers\<close> that comes with the event; a product of a whole number with the scale of the display, rounded, is its
  function \<open>wa_scaled\<close> (the code takes the scale 1 where the system's is not a positive number). The handlers of window,
  tray and menu events run on the main thread, one at a time, and are one step each. The task that follows the
  presentation runs beside them: reading the number, deciding and acting are three steps, and so are the sleep and
  the main-thread part of a delayed hide. Where the pet is comes with the answers; a moved pet has been brought back by
  \<open>ensure_window_reachable\<close> before.
\<close>

section \<open>Machine integers\<close>

definition i32_max :: int where "i32_max = 2147483647"
definition u32_max :: int where "u32_max = 4294967295"

definition sat_i32 :: "int \<Rightarrow> int" where
  "sat_i32 x = clamp (- 2147483648) i32_max x"

text \<open>\<^verbatim>\<open>i32::try_from(n).unwrap_or(i32::MAX)\<close>.\<close>

definition i32_of_u32 :: "nat \<Rightarrow> int" where
  "i32_of_u32 n = min (int n) i32_max"

section \<open>The state of the notification window\<close>

datatype notification_placement = PlacedAbove | PlacedBelow

fun placement_as_str :: "notification_placement \<Rightarrow> rstr" where
  "placement_as_str PlacedAbove = lit ''above''"
| "placement_as_str PlacedBelow = lit ''below''"

fun placement_code :: "notification_placement \<Rightarrow> nat" where
  "placement_code PlacedAbove = 0"
| "placement_code PlacedBelow = 1"

definition placement_from_code :: "nat \<Rightarrow> notification_placement" where
  "placement_from_code c = (if c = placement_code PlacedBelow then PlacedBelow else PlacedAbove)"

record notification_window_state =
  nw_placement :: nat
  nw_hit_region :: nat
  nw_hide_generation :: "64 word"
  nw_hide_scheduled :: bool

definition window_state_default :: notification_window_state where
  "window_state_default = \<lparr>nw_placement = 0, nw_hit_region = 0, nw_hide_generation = 0, nw_hide_scheduled = False\<rparr>"

definition placement_get :: "notification_window_state \<Rightarrow> notification_placement" where
  "placement_get w = placement_from_code (nw_placement w)"

definition placement_set :: "notification_placement \<Rightarrow> notification_window_state \<Rightarrow> notification_window_state" where
  "placement_set p w = w\<lparr>nw_placement := placement_code p\<rparr>"

definition hit_region_get :: "notification_window_state \<Rightarrow> hit_mode" where
  "hit_region_get w = hit_mode_from_code (nw_hit_region w)"

definition hit_region_set :: "hit_mode \<Rightarrow> notification_window_state \<Rightarrow> notification_window_state" where
  "hit_region_set m w = w\<lparr>nw_hit_region := hit_mode_code m\<rparr>"

definition reconcile_hit_region :: "nat \<Rightarrow> notification_window_state \<Rightarrow> notification_window_state" where
  "reconcile_hit_region n w = hit_region_set (fallback_for_count n (hit_region_get w)) w"

definition schedule_hide :: "notification_window_state \<Rightarrow> 64 word option \<times> notification_window_state" where
  "schedule_hide w =
     (if nw_hide_scheduled w then (None, w)
      else let g = nw_hide_generation w + 1
           in (Some g, w\<lparr>nw_hide_scheduled := True, nw_hide_generation := g\<rparr>))"

definition cancel_scheduled_hide :: "notification_window_state \<Rightarrow> notification_window_state" where
  "cancel_scheduled_hide w =
     (if nw_hide_scheduled w
      then w\<lparr>nw_hide_scheduled := False, nw_hide_generation := nw_hide_generation w + 1\<rparr> else w)"

definition hide_is_current :: "64 word \<Rightarrow> notification_window_state \<Rightarrow> bool" where
  "hide_is_current g w \<longleftrightarrow> nw_hide_scheduled w \<and> nw_hide_generation w = g"

section \<open>Where the notification window goes\<close>

definition notification_window_width :: nat where "notification_window_width = 320"
definition notification_window_height :: nat where "notification_window_height = 158"
definition notification_shadow_width :: int where "notification_shadow_width = 12"
definition notification_window_gap :: int where "notification_window_gap = 0"
definition pet_sprite_logical_height :: int where "pet_sprite_logical_height = 208"

record layout_input =
  ly_pet_position :: "int \<times> int"
  ly_pet_size :: "nat \<times> nat"
  ly_notification_size :: "nat \<times> nat"
  ly_pet_content_height :: nat
  ly_work_area_position :: "int \<times> int"
  ly_work_area_size :: "nat \<times> nat"
  ly_gap :: int
  ly_scaled :: "int \<Rightarrow> int"

definition logical_dimension_to_physical :: "(int \<Rightarrow> int) \<Rightarrow> nat \<Rightarrow> nat" where
  "logical_dimension_to_physical scaled v = nat (clamp 1 u32_max (scaled (int v)))"

definition notification_shadow_inset :: "(int \<Rightarrow> int) \<Rightarrow> int" where
  "notification_shadow_inset scaled = clamp 0 i32_max (scaled notification_shadow_width)"

definition notification_window_layout :: "layout_input \<Rightarrow> (int \<times> int) \<times> notification_placement" where
  "notification_window_layout i =
     (let pet_width = i32_of_u32 (fst (ly_pet_size i));
          pet_height = i32_of_u32 (snd (ly_pet_size i));
          content_height = min (i32_of_u32 (ly_pet_content_height i)) pet_height;
          width = i32_of_u32 (fst (ly_notification_size i));
          height = i32_of_u32 (snd (ly_notification_size i));
          work_width = i32_of_u32 (fst (ly_work_area_size i));
          work_height = i32_of_u32 (snd (ly_work_area_size i));
          min_x = fst (ly_work_area_position i);
          min_y = snd (ly_work_area_position i);
          max_x = max (sat_i32 (sat_i32 (min_x + work_width) - width)) min_x;
          max_y = max (sat_i32 (sat_i32 (min_y + work_height) - height)) min_y;
          centered_x = sat_i32 (fst (ly_pet_position i) + sat_i32 (pet_width - width) sdiv 2);
          content_y = sat_i32 (snd (ly_pet_position i) + sat_i32 (pet_height - content_height) sdiv 2);
          inset = notification_shadow_inset (ly_scaled i);
          above_y = sat_i32 (sat_i32 (sat_i32 (content_y - height) - ly_gap i) + inset);
          below_y = sat_i32 (sat_i32 (sat_i32 (content_y + content_height) + ly_gap i) - inset);
          x = clamp min_x max_x centered_x
      in if min_y \<le> above_y then ((x, above_y), PlacedAbove)
         else if below_y \<le> max_y then ((x, below_y), PlacedBelow)
         else ((x, clamp min_y max_y above_y), PlacedAbove))"

section \<open>The shell\<close>

text \<open>What the system answers while one event is handled.\<close>

record window_answers =
  wa_pet_position :: "(int \<times> int) option"
  wa_pet_size :: "(nat \<times> nat) option"
  wa_work_area :: "((int \<times> int) \<times> (nat \<times> nat)) option"
  wa_scaled :: "int \<Rightarrow> int"
  wa_visibility_known :: bool
  wa_placed :: bool
  wa_pet_shown :: bool
  wa_pet_hidden :: bool
  wa_notification_shown :: bool
  wa_notification_hidden :: bool
  wa_posted :: bool
  wa_check_known :: bool
  wa_check_set :: bool

datatype sync_action = SyncShow | SyncHide | SyncScheduleHide

text \<open>The task of \<^verbatim>\<open>register_notification_updates\<close>: waiting, with the number it read, with
  what it decided, and about to mark the selected pet in the tray.\<close>

datatype update_task = UpdateWaiting | UpdateRead nat | UpdateActing sync_action | UpdateTray

text \<open>
  \<open>dk_pet\<close> and \<open>dk_notification\<close> are the two windows, if they exist, and whether they are visible; \<open>dk_unread\<close> and \<open>dk_changed\<close>
  the published presentation and whether the task has yet to see it; \<open>dk_sleeping\<close> and \<open>dk_posted\<close> the delayed hides that sleep and
  that wait for the main thread; \<open>dk_settings_tasks\<close> the spawned updates of the settings.
\<close>

record desktop_windows =
  dk_pet :: "bool option"
  dk_notification :: "bool option"
  dk_notification_at :: "(int \<times> int) option"
  dk_applied_region :: "(hit_mode \<times> bool) option"
  dk_window :: notification_window_state
  dk_visibility_checked :: bool
  dk_on_top_checked :: bool
  dk_pet_on_top :: bool
  dk_notification_on_top :: bool
  dk_tray_pets :: "(pet_id \<times> bool) list"
  dk_settings_tasks :: "bool list"
  dk_unread :: nat
  dk_changed :: bool
  dk_update :: update_task
  dk_sleeping :: "64 word list"
  dk_posted :: "64 word list"
  dk_exited :: bool

definition is_visible :: "window_answers \<Rightarrow> bool option \<Rightarrow> bool" where
  "is_visible a w \<longleftrightarrow> wa_visibility_known a \<and> w = Some True"

definition pet_layout_input :: "window_answers \<Rightarrow> layout_input option" where
  "pet_layout_input a =
     Option.bind (wa_pet_position a) (\<lambda>position. Option.bind (wa_pet_size a) (\<lambda>size.
       map_option (\<lambda>(area, area_size).
         \<lparr>ly_pet_position = position, ly_pet_size = size,
          ly_notification_size = (logical_dimension_to_physical (wa_scaled a) notification_window_width,
                                  logical_dimension_to_physical (wa_scaled a) notification_window_height),
          ly_pet_content_height = nat (clamp 1 u32_max (wa_scaled a pet_sprite_logical_height)),
          ly_work_area_position = area, ly_work_area_size = area_size,
          ly_gap = clamp 0 i32_max (wa_scaled a notification_window_gap), ly_scaled = wa_scaled a\<rparr>) (wa_work_area a)))"

definition show_notification :: "window_answers \<Rightarrow> desktop_windows \<Rightarrow> desktop_windows" where
  "show_notification a d =
     (if wa_notification_shown a then d\<lparr>dk_notification := map_option (\<lambda>_. True) (dk_notification d)\<rparr> else d)"

definition hide_notification :: "window_answers \<Rightarrow> desktop_windows \<Rightarrow> desktop_windows" where
  "hide_notification a d =
     (if wa_notification_hidden a then d\<lparr>dk_notification := map_option (\<lambda>_. False) (dk_notification d)\<rparr> else d)"

definition position_notification_window :: "window_answers \<Rightarrow> desktop_windows \<Rightarrow> desktop_windows" where
  "position_notification_window a d =
     (if dk_pet d = None \<or> dk_notification d = None then d
      else (case pet_layout_input a of
        None \<Rightarrow> d
      | Some i \<Rightarrow>
          (let (at, placement) = notification_window_layout i;
               w = placement_set placement (dk_window d);
               d1 = d\<lparr>dk_window := w,
                       dk_notification_at := (if wa_placed a then Some at else dk_notification_at d),
                       dk_applied_region := Some (hit_region_get w, placement = PlacedBelow)\<rparr>
           in if is_visible a (dk_notification d1) then show_notification a d1 else d1)))"

section \<open>Showing and hiding with the notifications\<close>

definition notification_window_sync_action :: "nat \<Rightarrow> bool \<Rightarrow> sync_action" where
  "notification_window_sync_action unread pet_visible =
     (if \<not> pet_visible then SyncHide else if 0 < unread then SyncShow else SyncScheduleHide)"

definition cancel_hide :: "desktop_windows \<Rightarrow> desktop_windows" where
  "cancel_hide d = d\<lparr>dk_window := cancel_scheduled_hide (dk_window d)\<rparr>"

definition schedule_notification_window_hide :: "desktop_windows \<Rightarrow> desktop_windows" where
  "schedule_notification_window_hide d =
     (case schedule_hide (dk_window d) of
        (None, _) \<Rightarrow> d
      | (Some g, w) \<Rightarrow> d\<lparr>dk_window := w, dk_sleeping := dk_sleeping d @ [g]\<rparr>)"

text \<open>The delay is over: the task looks whether it is still wanted and asks for the main thread.\<close>

definition hide_delay_over :: "window_answers \<Rightarrow> 64 word \<Rightarrow> desktop_windows \<Rightarrow> desktop_windows" where
  "hide_delay_over a g d =
     (let d1 = d\<lparr>dk_sleeping := remove1 g (dk_sleeping d)\<rparr>
      in if \<not> hide_is_current g (dk_window d) then d1
         else if wa_posted a then d1\<lparr>dk_posted := dk_posted d @ [g]\<rparr> else cancel_hide d1)"

definition hide_on_main_thread :: "window_answers \<Rightarrow> 64 word \<Rightarrow> desktop_windows \<Rightarrow> desktop_windows" where
  "hide_on_main_thread a g d =
     (let d1 = d\<lparr>dk_posted := remove1 g (dk_posted d)\<rparr>
      in if \<not> hide_is_current g (dk_window d) then d1
         else cancel_hide (if dk_unread d = 0 then hide_notification a d1 else d1))"

text \<open>The two halves of \<^verbatim>\<open>sync_notification_window\<close>: what it does before it knows what to do, and the rest.\<close>

definition sync_decide :: "window_answers \<Rightarrow> nat \<Rightarrow> desktop_windows \<Rightarrow> sync_action option \<times> desktop_windows" where
  "sync_decide a unread d =
     (let d1 = position_notification_window a (d\<lparr>dk_window := reconcile_hit_region unread (dk_window d)\<rparr>)
      in if dk_pet d1 = None \<or> dk_notification d1 = None then (None, d1)
         else (Some (notification_window_sync_action unread (is_visible a (dk_pet d1))), d1))"

fun sync_act :: "window_answers \<Rightarrow> sync_action \<Rightarrow> desktop_windows \<Rightarrow> desktop_windows" where
  "sync_act a SyncShow d = show_notification a (cancel_hide d)"
| "sync_act a SyncHide d = hide_notification a (cancel_hide d)"
| "sync_act a SyncScheduleHide d = schedule_notification_window_hide d"

definition sync_notification_window :: "window_answers \<Rightarrow> nat \<Rightarrow> desktop_windows \<Rightarrow> desktop_windows" where
  "sync_notification_window a unread d =
     (case sync_decide a unread d of (None, d1) \<Rightarrow> d1 | (Some action, d1) \<Rightarrow> sync_act a action d1)"

definition sync_notification_window_from_state :: "window_answers \<Rightarrow> desktop_windows \<Rightarrow> desktop_windows" where
  "sync_notification_window_from_state a d = sync_notification_window a (dk_unread d) d"

section \<open>The pet window and the tray\<close>

definition set_visibility_check :: "window_answers \<Rightarrow> bool \<Rightarrow> desktop_windows \<Rightarrow> desktop_windows" where
  "set_visibility_check a v d = (if wa_check_set a then d\<lparr>dk_visibility_checked := v\<rparr> else d)"

definition show_pet_window :: "window_answers \<Rightarrow> desktop_windows \<Rightarrow> desktop_windows" where
  "show_pet_window a d =
     (if dk_pet d \<noteq> None \<and> wa_pet_shown a
      then sync_notification_window_from_state a (set_visibility_check a True (d\<lparr>dk_pet := Some True\<rparr>)) else d)"

definition hide_pet_window :: "window_answers \<Rightarrow> desktop_windows \<Rightarrow> desktop_windows" where
  "hide_pet_window a d =
     (if dk_pet d \<noteq> None \<and> wa_pet_hidden a
      then hide_notification a (cancel_hide (set_visibility_check a False (d\<lparr>dk_pet := Some False\<rparr>))) else d)"

definition toggle_pet_window :: "window_answers \<Rightarrow> desktop_windows \<Rightarrow> desktop_windows" where
  "toggle_pet_window a d =
     (if dk_pet d = None then d
      else if is_visible a (dk_pet d) then hide_pet_window a d else show_pet_window a d)"

definition set_always_on_top :: "window_answers \<Rightarrow> bool \<Rightarrow> desktop_windows \<Rightarrow> desktop_windows" where
  "set_always_on_top a enabled d =
     d\<lparr>dk_on_top_checked := (if wa_check_set a then enabled else dk_on_top_checked d),
       dk_pet_on_top := (if dk_pet d \<noteq> None \<and> wa_placed a then enabled else dk_pet_on_top d),
       dk_notification_on_top := (if dk_notification d \<noteq> None \<and> wa_placed a then enabled else dk_notification_on_top d),
       dk_settings_tasks := dk_settings_tasks d @ [enabled]\<rparr>"

definition on_top_is_checked :: "window_answers \<Rightarrow> desktop_windows \<Rightarrow> bool" where
  "on_top_is_checked a d \<longleftrightarrow> (wa_check_known a \<longrightarrow> dk_on_top_checked d)"

definition update_always_on_top :: "window_answers \<Rightarrow> desktop_windows \<Rightarrow> desktop_windows" where
  "update_always_on_top a d = set_always_on_top a (on_top_is_checked a d) d"

definition sync_tray_pet_selection :: "window_answers \<Rightarrow> pet_id option \<Rightarrow> desktop_windows \<Rightarrow> desktop_windows" where
  "sync_tray_pet_selection a selected d =
     d\<lparr>dk_tray_pets := map (\<lambda>(i, c). (i, if wa_check_set a then selected = Some i else c)) (dk_tray_pets d)\<rparr>"

text \<open>\<open>selected\<close> is what the application's \<^verbatim>\<open>select_pet\<close> answered.\<close>

definition handle_pet_selection :: "window_answers \<Rightarrow> bool \<Rightarrow> pet_id \<Rightarrow> desktop_windows \<Rightarrow> desktop_windows" where
  "handle_pet_selection a selected i d =
     (if \<not> selected then d
      else let d1 = sync_tray_pet_selection a (Some i) d
           in if dk_pet d1 \<noteq> None \<and> wa_pet_shown a
              then sync_notification_window_from_state a (set_visibility_check a True (d1\<lparr>dk_pet := Some True\<rparr>)) else d1)"

datatype tray_action = TrayShow | TrayAlwaysOnTop | TraySelectPet pet_id | TraySettings | TrayQuit | TrayUnknown

definition tray_action_parse :: "rstr \<Rightarrow> tray_action" where
  "tray_action_parse i =
     (if i = lit ''show'' then TrayShow
      else if i = lit ''always-on-top'' then TrayAlwaysOnTop
      else if i = lit ''settings'' then TraySettings
      else if i = lit ''quit'' then TrayQuit
      else case Option.bind (str_strip_prefix (lit ''pet:'') i) pet_id_parse of
             None \<Rightarrow> TrayUnknown | Some p \<Rightarrow> TraySelectPet p)"

definition desktop_exit :: "desktop_windows \<Rightarrow> desktop_windows" where
  "desktop_exit d = d\<lparr>dk_exited := True\<rparr>"

text \<open>The tray's menu; opening the appearance window does not concern these windows.\<close>

fun handle_tray_menu_event :: "window_answers \<Rightarrow> bool \<Rightarrow> tray_action \<Rightarrow> desktop_windows \<Rightarrow> desktop_windows" where
  "handle_tray_menu_event a selected TrayShow d = show_pet_window a d"
| "handle_tray_menu_event a selected TrayAlwaysOnTop d = update_always_on_top a d"
| "handle_tray_menu_event a selected (TraySelectPet i) d = handle_pet_selection a selected i d"
| "handle_tray_menu_event a selected TraySettings d = d"
| "handle_tray_menu_event a selected TrayQuit d = desktop_exit d"
| "handle_tray_menu_event a selected TrayUnknown d = d"

text \<open>The menu of the pet: no entry of it selects a pet.\<close>

fun dispatch_pet_context_action :: "window_answers \<Rightarrow> tray_action \<Rightarrow> desktop_windows \<Rightarrow> desktop_windows" where
  "dispatch_pet_context_action a TrayShow d = show_pet_window a d"
| "dispatch_pet_context_action a TrayAlwaysOnTop d = set_always_on_top a (\<not> on_top_is_checked a d) d"
| "dispatch_pet_context_action a TraySettings d = d"
| "dispatch_pet_context_action a TrayQuit d = desktop_exit d"
| "dispatch_pet_context_action a _ d = d"

datatype mouse_button = MouseLeft | MouseRight | MouseMiddle
datatype button_state = ButtonUp | ButtonDown

definition should_toggle_pet :: "mouse_button \<Rightarrow> button_state \<Rightarrow> bool" where
  "should_toggle_pet b s \<longleftrightarrow> b = MouseLeft \<and> s = ButtonUp"

text \<open>A reported region for the cards, from the page of the notification window only.\<close>

definition set_notification_hit_region :: "bool \<Rightarrow> hit_mode \<Rightarrow> desktop_windows \<Rightarrow> bool \<times> desktop_windows" where
  "set_notification_hit_region from_notifications m d =
     (if \<not> from_notifications then (False, d)
      else let w = hit_region_set m (dk_window d)
           in (True, d\<lparr>dk_window := w, dk_applied_region := Some (m, placement_get w = PlacedBelow)\<rparr>))"

section \<open>Events\<close>

datatype window_event =
    WePublished nat
  | WeRead | WeDecide | WeAct | WeTraySync "pet_id option"
  | WeDelayOver "64 word" | WeMainThread "64 word"
  | WeTrayClick mouse_button button_state
  | WeTrayMenu rstr bool
  | WeContextAction rstr
  | WePetClose | WePetMoved | WePetFocused
  | WeNotificationClose | WeNotificationScaled
  | WeHitRegion bool hit_mode

fun window_handle :: "window_answers \<Rightarrow> window_event \<Rightarrow> desktop_windows \<Rightarrow> desktop_windows" where
  "window_handle a (WePublished n) d = d\<lparr>dk_unread := n, dk_changed := True\<rparr>"
| "window_handle a WeRead d =
     (if dk_update d = UpdateWaiting \<and> dk_changed d then d\<lparr>dk_changed := False, dk_update := UpdateRead (dk_unread d)\<rparr> else d)"
| "window_handle a WeDecide d =
     (case dk_update d of
        UpdateRead n \<Rightarrow> (case sync_decide a n d of
            (None, d1) \<Rightarrow> d1\<lparr>dk_update := UpdateTray\<rparr>
          | (Some action, d1) \<Rightarrow> d1\<lparr>dk_update := UpdateActing action\<rparr>)
      | _ \<Rightarrow> d)"
| "window_handle a WeAct d =
     (case dk_update d of UpdateActing action \<Rightarrow> sync_act a action (d\<lparr>dk_update := UpdateTray\<rparr>) | _ \<Rightarrow> d)"
| "window_handle a (WeTraySync selected) d =
     (if dk_update d = UpdateTray then sync_tray_pet_selection a selected (d\<lparr>dk_update := UpdateWaiting\<rparr>) else d)"
| "window_handle a (WeDelayOver g) d = (if g \<in> set (dk_sleeping d) then hide_delay_over a g d else d)"
| "window_handle a (WeMainThread g) d = (if g \<in> set (dk_posted d) then hide_on_main_thread a g d else d)"
| "window_handle a (WeTrayClick b s) d = (if should_toggle_pet b s then toggle_pet_window a d else d)"
| "window_handle a (WeTrayMenu i selected) d = handle_tray_menu_event a selected (tray_action_parse i) d"
| "window_handle a (WeContextAction i) d = dispatch_pet_context_action a (tray_action_parse i) d"
| "window_handle a WePetClose d = hide_pet_window a d"
| "window_handle a WePetMoved d = position_notification_window a d"
| "window_handle a WePetFocused d = position_notification_window a d"
| "window_handle a WeNotificationClose d = sync_notification_window_from_state a d"
| "window_handle a WeNotificationScaled d = position_notification_window a d"
| "window_handle a (WeHitRegion from_notifications m) d = snd (set_notification_hit_region from_notifications m d)"

definition window_run :: "(window_answers \<times> window_event) list \<Rightarrow> desktop_windows \<Rightarrow> desktop_windows" where
  "window_run es d = fold (\<lambda>(a, e). window_handle a e) es d"

text \<open>
  \<^verbatim>\<open>run_desktop\<close>: the pet has been shown when \<^verbatim>\<open>register_notification_updates\<close> subscribes, synchronises once with the number it finds, marks the
  selected pet in the tray, and starts the task.
\<close>

definition windows_created :: "bool \<Rightarrow> (pet_id \<times> bool) list \<Rightarrow> nat \<Rightarrow> desktop_windows" where
  "windows_created on_top pets unread =
     \<lparr>dk_pet = Some True, dk_notification = Some False, dk_notification_at = None, dk_applied_region = None,
      dk_window = window_state_default, dk_visibility_checked = True, dk_on_top_checked = on_top,
      dk_pet_on_top = on_top, dk_notification_on_top = on_top, dk_tray_pets = pets, dk_settings_tasks = [],
      dk_unread = unread, dk_changed = False, dk_update = UpdateWaiting, dk_sleeping = [], dk_posted = [],
      dk_exited = False\<rparr>"

definition windows_registered :: "window_answers \<Rightarrow> pet_id option \<Rightarrow> desktop_windows \<Rightarrow> desktop_windows" where
  "windows_registered a selected d = sync_tray_pet_selection a selected (sync_notification_window a (dk_unread d) d)"

section \<open>Where the pet is\<close>

text \<open>
  A monitor of the system. \<open>mo_scale_milli\<close> is its scale in thousandths, rounded, and \<open>mo_to_logical\<close> the division of a
  whole number by the scale, rounded. Differences of \<^verbatim>\<open>i32\<close> wrap in the release build.
\<close>

record display_monitor =
  mo_name :: "rstr option"
  mo_position :: "int \<times> int"
  mo_size :: "nat \<times> nat"
  mo_work_position :: "int \<times> int"
  mo_work_size :: "nat \<times> nat"
  mo_scale_milli :: nat
  mo_to_logical :: "int \<Rightarrow> int"

definition integer_text :: "int \<Rightarrow> rstr" where
  "integer_text v = (if v < 0 then lit ''-'' @ decimal (nat (- v)) else decimal (nat v))"

definition monitor_id :: "display_monitor \<Rightarrow> rstr" where
  "monitor_id m = (case mo_name m of
     Some n \<Rightarrow> n
   | None \<Rightarrow> lit ''display-'' @ integer_text (fst (mo_position m)) @ lit ''-'' @ integer_text (snd (mo_position m))
       @ lit ''-'' @ decimal (fst (mo_size m)) @ lit ''x'' @ decimal (snd (mo_size m)))"

definition current_window_placement :: "(int \<times> int) option \<Rightarrow> display_monitor option \<Rightarrow> display_monitor option
    \<Rightarrow> window_placement option" where
  "current_window_placement where_at current primary =
     Option.bind where_at (\<lambda>(x, y). Option.bind (case current of None \<Rightarrow> primary | Some m \<Rightarrow> Some m) (\<lambda>m.
       result_ok (window_placement_new
         \<lparr>wp_display_id = monitor_id m,
          wp_logical_x = mo_to_logical m (wrap_i32 (x - fst (mo_work_position m))),
          wp_logical_y = mo_to_logical m (wrap_i32 (y - snd (mo_work_position m))),
          wp_scale_milli = mo_scale_milli m\<rparr>)))"

text \<open>The display with its work area; the primary monitor, if there is one, is recognised by its identifier.\<close>

definition display_work_area_of :: "display_monitor option \<Rightarrow> display_monitor \<Rightarrow> persistence_error + display_work_area" where
  "display_work_area_of primary m = display_work_area_new
     \<lparr>dwa_id = monitor_id m, dwa_physical_x = fst (mo_work_position m), dwa_physical_y = snd (mo_work_position m),
      dwa_physical_width = fst (mo_work_size m), dwa_physical_height = snd (mo_work_size m),
      dwa_scale_milli = mo_scale_milli m, dwa_primary = (map_option monitor_id primary = Some (monitor_id m))\<rparr>"

fun work_areas_of :: "display_monitor option \<Rightarrow> display_monitor list \<Rightarrow> persistence_error + display_work_area list" where
  "work_areas_of primary [] = Inr []"
| "work_areas_of primary (m # ms) =
     rbind (display_work_area_of primary m) (\<lambda>d. rbind (work_areas_of primary ms) (\<lambda>ds. Inr (d # ds)))"

text \<open>\<open>None\<close> where the system does not tell the primary monitor, the monitors or the size, or no display is left.\<close>

definition display_work_areas :: "display_monitor option option \<Rightarrow> display_monitor list option \<Rightarrow> display_work_area list option" where
  "display_work_areas primary monitors =
     Option.bind primary (\<lambda>p. Option.bind monitors (\<lambda>ms. result_ok (work_areas_of p ms)))"

definition reachable_window_placement :: "(int \<Rightarrow> nat \<Rightarrow> int) \<Rightarrow> (int \<Rightarrow> nat \<Rightarrow> int) \<Rightarrow> (nat \<times> nat) option
    \<Rightarrow> display_work_area list option \<Rightarrow> window_placement \<Rightarrow> resolved_placement option" where
  "reachable_window_placement to_physical to_logical extent displays saved =
     Option.bind extent (\<lambda>(w, h). Option.bind displays (\<lambda>ds.
       resolve_window_placement to_physical to_logical saved ds w h default_visible_window_margin))"

text \<open>The new position of the window, if the system was to move it.\<close>

definition apply_physical_window_position :: "(int \<times> int) option \<Rightarrow> resolved_placement \<Rightarrow> (int \<times> int) option" where
  "apply_physical_window_position current r =
     Option.bind current (\<lambda>at. let target = (rp_physical_x r, rp_physical_y r) in if at \<noteq> target then Some target else None)"

definition ensure_window_reachable :: "(int \<Rightarrow> nat \<Rightarrow> int) \<Rightarrow> (int \<Rightarrow> nat \<Rightarrow> int) \<Rightarrow> (int \<times> int) option \<Rightarrow> (nat \<times> nat) option
    \<Rightarrow> display_monitor option \<Rightarrow> display_monitor option option \<Rightarrow> display_monitor list option \<Rightarrow> (int \<times> int) option" where
  "ensure_window_reachable to_physical to_logical where_at extent current primary monitors =
     Option.bind (current_window_placement where_at current (case primary of None \<Rightarrow> None | Some p \<Rightarrow> p)) (\<lambda>placement.
       Option.bind (reachable_window_placement to_physical to_logical extent (display_work_areas primary monitors) placement)
         (apply_physical_window_position where_at))"

section \<open>Dragging\<close>

datatype drag_error = DeCoordinate | DeScale | DeSystem

record drag_anchor =
  dr_pointer_x :: int
  dr_pointer_y :: int
  dr_origin :: "int \<times> int"
  dr_scaled :: "int \<Rightarrow> int"

definition validate_screen_coordinate :: "int \<Rightarrow> drag_error + unit" where
  "validate_screen_coordinate v = (if 1000000 < \<bar>v\<bar> then Inl DeCoordinate else Inr ())"

definition validate_screen_position :: "int \<Rightarrow> int \<Rightarrow> drag_error + unit" where
  "validate_screen_position x y = rbind (validate_screen_coordinate x) (\<lambda>_. validate_screen_coordinate y)"

text \<open>\<open>origin\<close> is where the window is and \<open>scaled\<close> its scale, if the system tells and the scale is a positive number.\<close>

definition begin_window_drag_from :: "(int \<times> int) option \<Rightarrow> (int \<Rightarrow> int) option \<Rightarrow> int \<Rightarrow> int \<Rightarrow> drag_anchor option
    \<Rightarrow> (drag_error + bool) \<times> drag_anchor option" where
  "begin_window_drag_from origin scaled x y old =
     (case rbind (validate_screen_position x y) (\<lambda>_.
        rbind (ok_or DeSystem origin) (\<lambda>at. rbind (ok_or DeScale scaled) (\<lambda>f.
          Inr \<lparr>dr_pointer_x = x, dr_pointer_y = y, dr_origin = at, dr_scaled = f\<rparr>))) of
        Inl e \<Rightarrow> (Inl e, old)
      | Inr anchor \<Rightarrow> (Inr True, Some anchor))"

definition absolute_window_drag_target :: "drag_anchor \<Rightarrow> int \<Rightarrow> int \<Rightarrow> drag_error + (int \<times> int)" where
  "absolute_window_drag_target an x y =
     rbind (validate_screen_position x y) (\<lambda>_.
       Inr (sat_i32 (fst (dr_origin an) + sat_i32 (dr_scaled an (sat_i32 (x - dr_pointer_x an)))),
            sat_i32 (snd (dr_origin an) + sat_i32 (dr_scaled an (sat_i32 (y - dr_pointer_y an))))))"

text \<open>Moves the window, whose position is the last argument.\<close>

definition drag_window_to :: "bool \<Rightarrow> drag_anchor option \<Rightarrow> int \<Rightarrow> int \<Rightarrow> int \<times> int \<Rightarrow> (drag_error + bool) \<times> (int \<times> int)" where
  "drag_window_to placed anchor x y at =
     (case anchor of
        None \<Rightarrow> (Inr False, at)
      | Some an \<Rightarrow> (case absolute_window_drag_target an x y of
          Inl e \<Rightarrow> (Inl e, at)
        | Inr target \<Rightarrow> if placed then (Inr True, target) else (Inl DeSystem, at)))"

text \<open>
  The commands of the page. On Linux the whole window takes the pointer while it is dragged; \<open>refreshed\<close> is whether the input region could
  be set.
\<close>

record drag_shell =
  ds_anchor :: "drag_anchor option"
  ds_hit :: pet_hit_state

definition hit_set_dragging :: "bool \<Rightarrow> pet_hit_state \<Rightarrow> pet_hit_state" where
  "hit_set_dragging v h = h\<lparr>ph_dragging := v\<rparr>"

definition begin_window_drag :: "bool \<Rightarrow> bool \<Rightarrow> (int \<times> int) option \<Rightarrow> (int \<Rightarrow> int) option \<Rightarrow> int \<Rightarrow> int \<Rightarrow> drag_shell
    \<Rightarrow> (drag_error + bool) \<times> drag_shell" where
  "begin_window_drag linux refreshed origin scaled x y d =
     (case begin_window_drag_from origin scaled x y (ds_anchor d) of
        (Inl e, _) \<Rightarrow> (Inl e, d)
      | (Inr started, anchor) \<Rightarrow>
          (let d1 = d\<lparr>ds_anchor := anchor\<rparr>
           in if \<not> linux then (Inr started, d1)
              else (if refreshed then Inr started else Inl DeSystem, d1\<lparr>ds_hit := hit_set_dragging True (ds_hit d1)\<rparr>)))"

definition finish_window_drag :: "bool \<Rightarrow> bool \<Rightarrow> drag_shell \<Rightarrow> (drag_error + unit) \<times> drag_shell" where
  "finish_window_drag linux refreshed d =
     (if refreshed then Inr () else Inl DeSystem,
      d\<lparr>ds_anchor := None, ds_hit := (if linux then hit_set_dragging False (ds_hit d) else ds_hit d)\<rparr>)"

text \<open>\<open>save\<close> is the write of the store, if there is one.\<close>

definition persist_window_position :: "(window_placement \<Rightarrow> bool) option \<Rightarrow> window_placement option \<Rightarrow> drag_error + bool" where
  "persist_window_position save placement =
     (case save of
        None \<Rightarrow> Inr False
      | Some write \<Rightarrow> (case placement of
          None \<Rightarrow> Inl DeSystem
        | Some p \<Rightarrow> if write p then Inr True else Inl DeSystem))"

definition commit_window_position :: "bool \<Rightarrow> bool \<Rightarrow> (window_placement \<Rightarrow> bool) option \<Rightarrow> window_placement option \<Rightarrow> bool \<Rightarrow> drag_shell
    \<Rightarrow> (drag_error + bool) \<times> drag_shell" where
  "commit_window_position linux refreshed save placement persist d =
     (case finish_window_drag linux refreshed d of
        (Inl e, d1) \<Rightarrow> (Inl e, d1)
      | (Inr _, d1) \<Rightarrow> (if persist then persist_window_position save placement else Inr True, d1))"

end
