(* ===== verification/Desktop_Properties.thy ===== *)
theory Desktop_Properties
  imports Desktop_Windows
begin

text \<open>
  The windows of the desktop: once the shell is at rest, the notification window is visible exactly when the pet is and
  something is unread, and the place computed for it lies on the display of a pet whose picture does.
\<close>

section \<open>Frames\<close>

lemma visible_again: "is_visible a w \<Longrightarrow> map_option (\<lambda>_. True) w = w"
  by (auto simp: is_visible_def)

lemma position_frame [simp]:
  "dk_pet (position_notification_window a d) = dk_pet d"
  "dk_notification (position_notification_window a d) = dk_notification d"
  "dk_unread (position_notification_window a d) = dk_unread d"
  "dk_changed (position_notification_window a d) = dk_changed d"
  "dk_update (position_notification_window a d) = dk_update d"
  "dk_sleeping (position_notification_window a d) = dk_sleeping d"
  "dk_posted (position_notification_window a d) = dk_posted d"
  "nw_hide_scheduled (dk_window (position_notification_window a d)) = nw_hide_scheduled (dk_window d)"
  "nw_hide_generation (dk_window (position_notification_window a d)) = nw_hide_generation (dk_window d)"
  by (auto simp: position_notification_window_def Let_def show_notification_def placement_set_def visible_again
      split: option.splits prod.splits)

lemma reconcile_frame [simp]:
  "nw_hide_scheduled (reconcile_hit_region n w) = nw_hide_scheduled w"
  "nw_hide_generation (reconcile_hit_region n w) = nw_hide_generation w"
  by (simp_all add: reconcile_hit_region_def hit_region_set_def)

section \<open>A scheduled hide has its timer\<close>

text \<open>Whatever the system answers: the flag that suppresses a second timer is never set without one that clears it.\<close>

definition hide_has_timer :: "desktop_windows \<Rightarrow> bool" where
  "hide_has_timer d \<longleftrightarrow> (nw_hide_scheduled (dk_window d) \<longrightarrow>
     nw_hide_generation (dk_window d) \<in> set (dk_sleeping d) \<union> set (dk_posted d))"

lemmas hide_defs = hide_has_timer_def cancel_hide_def cancel_scheduled_hide_def schedule_notification_window_hide_def
  schedule_hide_def hide_is_current_def show_notification_def hide_notification_def Let_def

lemma sync_act_timer: "hide_has_timer d \<Longrightarrow> hide_has_timer (sync_act a action d)"
  by (cases action) (auto simp: hide_defs)

lemma sync_decide_timer: "hide_has_timer d \<Longrightarrow> hide_has_timer (snd (sync_decide a n d))"
  by (auto simp: sync_decide_def hide_has_timer_def Let_def)

lemma sync_timer: "hide_has_timer d \<Longrightarrow> hide_has_timer (sync_notification_window a n d)"
  using sync_decide_timer [of d a n]
  by (auto simp: sync_notification_window_def sync_act_timer split: prod.splits option.splits)

lemma timer_fields [simp]:
  "hide_has_timer (d\<lparr>dk_pet := v\<rparr>) = hide_has_timer d"
  "hide_has_timer (d\<lparr>dk_visibility_checked := b\<rparr>) = hide_has_timer d"
  "hide_has_timer (sync_tray_pet_selection a selected d) = hide_has_timer d"
  "hide_has_timer (d\<lparr>dk_exited := b\<rparr>) = hide_has_timer d"
  "hide_has_timer (d\<lparr>dk_update := t\<rparr>) = hide_has_timer d"
  "hide_has_timer (d\<lparr>dk_unread := n\<rparr>) = hide_has_timer d"
  "hide_has_timer (d\<lparr>dk_changed := b\<rparr>) = hide_has_timer d"
  "hide_has_timer (set_always_on_top a b d) = hide_has_timer d"
  "hide_has_timer (position_notification_window a d) = hide_has_timer d"
  by (simp_all add: hide_has_timer_def set_always_on_top_def sync_tray_pet_selection_def)

lemma show_pet_timer: "hide_has_timer d \<Longrightarrow> hide_has_timer (show_pet_window a d)"
  by (auto simp: show_pet_window_def sync_notification_window_from_state_def set_visibility_check_def intro!: sync_timer)

lemma hide_pet_timer: "hide_has_timer d \<Longrightarrow> hide_has_timer (hide_pet_window a d)"
  by (auto simp: hide_pet_window_def set_visibility_check_def hide_defs)

lemma selection_timer: "hide_has_timer d \<Longrightarrow> hide_has_timer (handle_pet_selection a selected i d)"
  by (auto simp: handle_pet_selection_def sync_notification_window_from_state_def set_visibility_check_def Let_def
      intro!: sync_timer)

lemma menu_timer: "hide_has_timer d \<Longrightarrow> hide_has_timer (handle_tray_menu_event a selected t d)"
  by (cases t) (simp_all add: show_pet_timer selection_timer update_always_on_top_def desktop_exit_def)

lemma context_timer: "hide_has_timer d \<Longrightarrow> hide_has_timer (dispatch_pet_context_action a t d)"
  by (cases t) (simp_all add: show_pet_timer desktop_exit_def)

lemma delay_timer: "hide_has_timer d \<Longrightarrow> hide_has_timer (hide_delay_over a g d)"
  by (auto simp: hide_delay_over_def hide_defs)

lemma main_timer: "hide_has_timer d \<Longrightarrow> hide_has_timer (hide_on_main_thread a g d)"
  by (auto simp: hide_on_main_thread_def hide_defs)

lemma region_timer [simp]: "hide_has_timer (snd (set_notification_hit_region f m d)) = hide_has_timer d"
  by (simp add: set_notification_hit_region_def hit_region_set_def hide_has_timer_def Let_def)

lemma decide_timer: "hide_has_timer d \<Longrightarrow> hide_has_timer (window_handle a WeDecide d)"
  using sync_decide_timer [of d a] by (auto split: update_task.splits prod.splits option.splits) (metis snd_conv)+

lemma handle_timer: "hide_has_timer d \<Longrightarrow> hide_has_timer (window_handle a e d)"
  by (cases e) (simp_all add: toggle_pet_window_def show_pet_timer hide_pet_timer menu_timer context_timer delay_timer main_timer
      sync_notification_window_from_state_def sync_timer decide_timer sync_act_timer del: window_handle.simps(3) split: update_task.split)

section \<open>At rest\<close>

text \<open>The calls of this run succeed, and no window handler changes the pet's visibility between the task's decision and its act.\<close>

definition calls_succeed :: "window_answers \<Rightarrow> bool" where
  "calls_succeed a \<longleftrightarrow> wa_visibility_known a \<and> wa_pet_shown a \<and> wa_pet_hidden a \<and> wa_notification_shown a
     \<and> wa_notification_hidden a \<and> wa_posted a"

definition concerns_pet :: "window_event \<Rightarrow> bool" where
  "concerns_pet e \<longleftrightarrow> (case e of WeTrayClick _ _ \<Rightarrow> True | WeTrayMenu _ _ \<Rightarrow> True | WeContextAction _ \<Rightarrow> True
     | WePetClose \<Rightarrow> True | _ \<Rightarrow> False)"

definition is_acting :: "update_task \<Rightarrow> bool" where
  "is_acting t \<longleftrightarrow> (case t of UpdateActing _ \<Rightarrow> True | _ \<Rightarrow> False)"

fun undisturbed :: "(window_answers \<times> window_event) list \<Rightarrow> desktop_windows \<Rightarrow> bool" where
  "undisturbed [] d \<longleftrightarrow> True"
| "undisturbed ((a, e) # es) d \<longleftrightarrow>
     calls_succeed a \<and> \<not> (concerns_pet e \<and> is_acting (dk_update d)) \<and> undisturbed es (window_handle a e d)"

definition at_rest :: "desktop_windows \<Rightarrow> bool" where
  "at_rest d \<longleftrightarrow> dk_update d = UpdateWaiting \<and> \<not> dk_changed d \<and> dk_sleeping d = [] \<and> dk_posted d = []"

text \<open>What the windows show, when no update is under way.\<close>

definition shows_unread :: "desktop_windows \<Rightarrow> bool" where
  "shows_unread d \<longleftrightarrow> (dk_pet d = Some True \<and> 0 < dk_unread d \<longrightarrow> dk_notification d = Some True)
     \<and> (dk_pet d = Some True \<and> dk_unread d = 0 \<and> dk_notification d = Some True \<longrightarrow> nw_hide_scheduled (dk_window d))"

text \<open>The two windows exist, and the notifications are not shown without the pet.\<close>

definition windows_shown :: "desktop_windows \<Rightarrow> bool" where
  "windows_shown d \<longleftrightarrow> dk_pet d \<noteq> None \<and> dk_notification d \<noteq> None \<and> (dk_pet d = Some False \<longrightarrow> dk_notification d = Some False)"

definition decided :: "nat \<Rightarrow> desktop_windows \<Rightarrow> sync_action" where
  "decided n d = notification_window_sync_action n (dk_pet d = Some True)"

definition task_ok :: "desktop_windows \<Rightarrow> bool" where
  "task_ok d \<longleftrightarrow> (case dk_update d of
       UpdateWaiting \<Rightarrow> \<not> dk_changed d \<longrightarrow> shows_unread d
     | UpdateTray \<Rightarrow> \<not> dk_changed d \<longrightarrow> shows_unread d
     | UpdateRead n \<Rightarrow> \<not> dk_changed d \<longrightarrow> n = dk_unread d
     | UpdateActing action \<Rightarrow> (\<exists>n. action = decided n d \<and> (\<not> dk_changed d \<longrightarrow> n = dk_unread d)))"

definition windows_inv :: "desktop_windows \<Rightarrow> bool" where
  "windows_inv d \<longleftrightarrow> hide_has_timer d \<and> windows_shown d \<and> task_ok d"

lemma act_frame [simp]:
  "dk_pet (sync_act a action d) = dk_pet d" "dk_unread (sync_act a action d) = dk_unread d"
  "dk_changed (sync_act a action d) = dk_changed d" "dk_update (sync_act a action d) = dk_update d"
  by (cases action; simp add: hide_defs split: option.split)+

lemma sync_act_result:
  assumes "calls_succeed a" "windows_shown d"
  shows "windows_shown (sync_act a (decided n d) d)" "n = dk_unread d \<Longrightarrow> shows_unread (sync_act a (decided n d) d)"
proof -
  consider "dk_pet d = Some True" "0 < n" | "dk_pet d = Some True" "n = 0" | "dk_pet d = Some False"
    using assms(2) by (cases "n = 0"; cases "dk_pet d = Some True") (auto simp: windows_shown_def)
  then have "windows_shown (sync_act a (decided n d) d) \<and> (n = dk_unread d \<longrightarrow> shows_unread (sync_act a (decided n d) d))"
    using assms
    by cases (auto simp: decided_def notification_window_sync_action_def windows_shown_def shows_unread_def calls_succeed_def hide_defs)
  then show "windows_shown (sync_act a (decided n d) d)" "n = dk_unread d \<Longrightarrow> shows_unread (sync_act a (decided n d) d)"
    by simp_all
qed

lemma sync_decided:
  assumes "calls_succeed a" "windows_shown d"
  shows "\<exists>e. sync_decide a n d = (Some (decided n e), e) \<and> dk_pet e = dk_pet d \<and> dk_notification e = dk_notification d
    \<and> dk_unread e = dk_unread d \<and> dk_changed e = dk_changed d \<and> dk_update e = dk_update d
    \<and> nw_hide_scheduled (dk_window e) = nw_hide_scheduled (dk_window d)"
  using assms by (simp add: sync_decide_def Let_def is_visible_def calls_succeed_def windows_shown_def decided_def)

lemma task_okI:
  assumes "task_ok d" "dk_pet e = dk_pet d" "dk_unread e = dk_unread d" "dk_changed e = dk_changed d" "dk_update e = dk_update d"
    and "shows_unread d \<Longrightarrow> shows_unread e"
  shows "task_ok e"
  using assms by (auto simp: task_ok_def decided_def split: update_task.splits)

lemma task_ok_settled:
  assumes "task_ok d" "\<not> is_acting (dk_update d)" "shows_unread e"
    and "dk_unread e = dk_unread d" "dk_changed e = dk_changed d" "dk_update e = dk_update d"
  shows "task_ok e"
  using assms by (auto simp: task_ok_def is_acting_def split: update_task.splits)

text \<open>A synchronisation on the main thread: whatever the windows were, they now agree with the number.\<close>

lemma sync_result:
  assumes "calls_succeed a" "windows_shown d"
  shows "windows_shown (sync_notification_window_from_state a d)" "shows_unread (sync_notification_window_from_state a d)"
    "dk_pet (sync_notification_window_from_state a d) = dk_pet d"
    "dk_unread (sync_notification_window_from_state a d) = dk_unread d"
    "dk_changed (sync_notification_window_from_state a d) = dk_changed d"
    "dk_update (sync_notification_window_from_state a d) = dk_update d"
proof -
  from sync_decided [OF assms] obtain e where e: "sync_decide a (dk_unread d) d = (Some (decided (dk_unread d) e), e)"
    "dk_pet e = dk_pet d" "dk_notification e = dk_notification d" "dk_unread e = dk_unread d" "dk_changed e = dk_changed d"
    "dk_update e = dk_update d"
    by blast
  have "windows_shown e" using assms(2) e by (simp add: windows_shown_def)
  with e sync_act_result [OF assms(1), of e "dk_unread d"]
  show "windows_shown (sync_notification_window_from_state a d)" "shows_unread (sync_notification_window_from_state a d)"
    "dk_pet (sync_notification_window_from_state a d) = dk_pet d"
    "dk_unread (sync_notification_window_from_state a d) = dk_unread d"
    "dk_changed (sync_notification_window_from_state a d) = dk_changed d"
    "dk_update (sync_notification_window_from_state a d) = dk_update d"
    by (simp_all add: sync_notification_window_from_state_def sync_notification_window_def)
qed

lemma inv_fields [simp]:
  "windows_inv (set_always_on_top a v d) = windows_inv d"
  "windows_inv (desktop_exit d) = windows_inv d"
  "windows_inv (position_notification_window a d) = windows_inv d"
  "windows_inv (snd (set_notification_hit_region f m d)) = windows_inv d"
  "windows_inv (sync_tray_pet_selection a selected d) = windows_inv d"
  by (simp_all add: windows_inv_def windows_shown_def task_ok_def shows_unread_def decided_def set_always_on_top_def sync_tray_pet_selection_def
      desktop_exit_def set_notification_hit_region_def hit_region_set_def hide_has_timer_def Let_def split: update_task.split)

lemma sync_inv: "calls_succeed a \<Longrightarrow> windows_inv d \<Longrightarrow> windows_inv (sync_notification_window_from_state a d)"
  using sync_result [of a d] sync_timer [of d a "dk_unread d"] task_okI [of d "sync_notification_window_from_state a d"]
  by (simp add: windows_inv_def sync_notification_window_from_state_def)

lemma shown_pet_inv:
  assumes "calls_succeed a" "windows_inv d" "\<not> is_acting (dk_update d)"
  shows "windows_inv (sync_notification_window_from_state a (set_visibility_check a True (d\<lparr>dk_pet := Some True\<rparr>)))"
proof -
  let ?e = "set_visibility_check a True (d\<lparr>dk_pet := Some True\<rparr>)"
  have e: "windows_shown ?e" "hide_has_timer ?e" "dk_unread ?e = dk_unread d" "dk_changed ?e = dk_changed d" "dk_update ?e = dk_update d"
    using assms(2) by (auto simp: windows_inv_def windows_shown_def set_visibility_check_def)
  with sync_result [OF assms(1) e(1)] sync_timer [OF e(2), of a "dk_unread ?e"] assms(2,3) show ?thesis
    by (simp add: windows_inv_def task_ok_settled [of d] sync_notification_window_from_state_def)
qed

lemma show_pet_inv: "calls_succeed a \<Longrightarrow> windows_inv d \<Longrightarrow> \<not> is_acting (dk_update d) \<Longrightarrow> windows_inv (show_pet_window a d)"
  by (simp add: show_pet_window_def shown_pet_inv)

lemma hide_pet_inv:
  assumes "calls_succeed a" "windows_inv d" "\<not> is_acting (dk_update d)"
  shows "windows_inv (hide_pet_window a d)"
proof -
  let ?e = "hide_pet_window a d"
  have "dk_pet ?e = Some False" "dk_notification ?e = Some False" "dk_unread ?e = dk_unread d" "dk_changed ?e = dk_changed d"
    "dk_update ?e = dk_update d"
    using assms(1,2) by (auto simp: hide_pet_window_def hide_defs set_visibility_check_def calls_succeed_def windows_inv_def windows_shown_def)
  then show ?thesis
    using assms(2,3) hide_pet_timer [of d a] task_ok_settled [of d ?e]
    by (simp add: windows_inv_def windows_shown_def shows_unread_def)
qed

lemma toggle_pet_inv: "calls_succeed a \<Longrightarrow> windows_inv d \<Longrightarrow> \<not> is_acting (dk_update d) \<Longrightarrow> windows_inv (toggle_pet_window a d)"
  by (simp add: toggle_pet_window_def show_pet_inv hide_pet_inv)

lemma selection_inv:
  assumes "calls_succeed a" "windows_inv d" "\<not> is_acting (dk_update d)"
  shows "windows_inv (handle_pet_selection a selected i d)"
proof -
  let ?d = "sync_tray_pet_selection a (Some i) d"
  have "windows_inv ?d" using assms(2) by simp
  moreover have "\<not> is_acting (dk_update ?d)" using assms(3) by (simp add: sync_tray_pet_selection_def)
  ultimately have "windows_inv (sync_notification_window_from_state a (set_visibility_check a True (?d\<lparr>dk_pet := Some True\<rparr>)))"
    by (rule shown_pet_inv [OF assms(1)])
  with assms(2) show ?thesis by (simp add: handle_pet_selection_def Let_def)
qed

lemma menu_inv: "calls_succeed a \<Longrightarrow> windows_inv d \<Longrightarrow> \<not> is_acting (dk_update d) \<Longrightarrow> windows_inv (handle_tray_menu_event a selected t d)"
  by (cases t) (simp_all add: show_pet_inv selection_inv update_always_on_top_def)

lemma context_inv: "calls_succeed a \<Longrightarrow> windows_inv d \<Longrightarrow> \<not> is_acting (dk_update d) \<Longrightarrow> windows_inv (dispatch_pet_context_action a t d)"
  by (cases t) (simp_all add: show_pet_inv)

lemma delay_inv: "calls_succeed a \<Longrightarrow> windows_inv d \<Longrightarrow> windows_inv (hide_delay_over a g d)"
  using delay_timer [of d a g] task_okI [of d "hide_delay_over a g d"]
  by (simp add: windows_inv_def hide_delay_over_def Let_def calls_succeed_def windows_shown_def shows_unread_def split: if_splits)

lemma main_inv:
  assumes "calls_succeed a" "windows_inv d"
  shows "windows_inv (hide_on_main_thread a g d)"
proof -
  let ?e = "hide_on_main_thread a g d"
  have "dk_pet ?e = dk_pet d" "dk_unread ?e = dk_unread d" "dk_changed ?e = dk_changed d" "dk_update ?e = dk_update d"
    by (auto simp: hide_on_main_thread_def hide_defs)
  moreover have "windows_shown ?e" "shows_unread d \<Longrightarrow> shows_unread ?e"
    using assms by (auto simp: windows_inv_def windows_shown_def shows_unread_def calls_succeed_def hide_on_main_thread_def hide_defs)
  ultimately show ?thesis
    using assms(2) main_timer [of d a g] by (simp add: windows_inv_def task_okI [of d ?e])
qed

lemma publish_inv: "windows_inv d \<Longrightarrow> windows_inv (d\<lparr>dk_unread := n, dk_changed := True\<rparr>)"
  by (auto simp: windows_inv_def windows_shown_def task_ok_def decided_def split: update_task.splits)

lemma read_inv: "windows_inv d \<Longrightarrow> windows_inv (d\<lparr>dk_changed := False, dk_update := UpdateRead (dk_unread d)\<rparr>)"
  by (simp add: windows_inv_def windows_shown_def task_ok_def)

lemma decide_inv:
  assumes "calls_succeed a" "windows_inv d"
  shows "windows_inv (window_handle a WeDecide d)"
proof (cases "\<exists>n. dk_update d = UpdateRead n")
  case True
  then obtain n where n: "dk_update d = UpdateRead n" by blast
  from assms(2) have shown: "windows_shown d" by (simp add: windows_inv_def)
  from sync_decided [OF assms(1) this] obtain e where e: "sync_decide a n d = (Some (decided n e), e)" "dk_pet e = dk_pet d"
    "dk_notification e = dk_notification d" "dk_unread e = dk_unread d" "dk_changed e = dk_changed d"
    by blast
  have "hide_has_timer e" using sync_decide_timer [of d a n] assms(2) e(1) by (simp add: windows_inv_def)
  with e n assms(2) show ?thesis by (simp add: windows_inv_def windows_shown_def task_ok_def decided_def) blast
next
  case False
  with assms(2) show ?thesis by (auto split: update_task.split)
qed

lemma act_inv:
  assumes "calls_succeed a" "windows_inv d"
  shows "windows_inv (window_handle a WeAct d)"
proof (cases "dk_update d")
  case (UpdateActing action)
  let ?d = "d\<lparr>dk_update := UpdateTray\<rparr>"
  from UpdateActing assms(2) obtain n where n: "action = decided n ?d" "\<not> dk_changed d \<Longrightarrow> n = dk_unread ?d"
    by (auto simp: windows_inv_def task_ok_def decided_def)
  have "windows_shown ?d" "hide_has_timer ?d" using assms(2) by (simp_all add: windows_inv_def windows_shown_def)
  with sync_act_result [OF assms(1), of ?d n] sync_act_timer [of ?d a action] n UpdateActing show ?thesis
    by (simp add: windows_inv_def task_ok_def)
qed (use assms(2) in simp_all)

lemma tray_inv: "windows_inv d \<Longrightarrow> dk_update d = UpdateTray \<Longrightarrow> windows_inv (d\<lparr>dk_update := UpdateWaiting\<rparr>)"
  by (simp add: windows_inv_def windows_shown_def task_ok_def shows_unread_def)

lemma handle_inv:
  assumes "calls_succeed a" "windows_inv d" "\<not> (concerns_pet e \<and> is_acting (dk_update d))"
  shows "windows_inv (window_handle a e d)"
  using assms
  by (cases e) (simp_all add: concerns_pet_def publish_inv read_inv decide_inv act_inv tray_inv delay_inv main_inv toggle_pet_inv menu_inv
      context_inv hide_pet_inv sync_inv del: window_handle.simps(3,4))

lemma run_inv: "undisturbed es d \<Longrightarrow> windows_inv d \<Longrightarrow> windows_inv (window_run es d)"
proof (induction es arbitrary: d)
  case (Cons ae es)
  then show ?case by (cases ae) (simp add: window_run_def handle_inv)
qed (simp add: window_run_def)

lemma registered_inv:
  assumes "calls_succeed a"
  shows "windows_inv (windows_registered a selected (windows_created on_top pets unread))"
proof -
  let ?c = "windows_created on_top pets unread"
  have "windows_shown ?c" "hide_has_timer ?c" "dk_unread ?c = unread" "dk_update ?c = UpdateWaiting"
    by (simp_all add: windows_shown_def hide_has_timer_def windows_created_def window_state_default_def)
  with sync_result [OF assms, of ?c] sync_timer [of ?c a unread]
  have "windows_inv (sync_notification_window a unread ?c)"
    by (simp add: windows_inv_def task_ok_def sync_notification_window_from_state_def)
  then show ?thesis by (simp add: windows_registered_def \<open>dk_unread ?c = unread\<close>)
qed

text \<open>
  C27. The notification window shows unread notifications and nothing else, as long as the calls to the window system
  succeed and no tray, menu or close event falls between the decision of the update task and its act. In
  every such interleaving of published numbers, the task that follows them, the tray, the menus, the windows and
  the delayed hides after the start, at rest, when the task has seen the last number and no delayed hide is
  left, the notification window is visible exactly if the pet is visible and something is unread.
\<close>

theorem notification_window_settles:
  assumes "calls_succeed a" "d0 = windows_registered a selected (windows_created on_top pets unread)"
    and "undisturbed es d0" "d = window_run es d0" "at_rest d"
  shows "dk_notification d = Some (dk_pet d = Some True \<and> 0 < dk_unread d)"
proof -
  have inv: "windows_inv d" using run_inv [OF assms(3)] registered_inv [OF assms(1)] assms(2,4) by simp
  with assms(5) have "\<not> nw_hide_scheduled (dk_window d)" "shows_unread d"
    by (simp_all add: windows_inv_def hide_has_timer_def at_rest_def task_ok_def)
  with inv show ?thesis by (cases "dk_pet d = Some True") (auto simp: windows_inv_def windows_shown_def shows_unread_def)
qed

text \<open>Two notifications are published and read, then dismissed; the delayed hide runs after the menu of the tray was used.\<close>

definition sample_answers :: window_answers where
  "sample_answers = \<lparr>wa_pet_position = Some (800, 500), wa_pet_size = Some (320, 360), wa_work_area = Some ((0, 0), (1920, 1080)),
     wa_scaled = id, wa_visibility_known = True, wa_placed = True, wa_pet_shown = True, wa_pet_hidden = True,
     wa_notification_shown = True, wa_notification_hidden = True, wa_posted = True, wa_check_known = True, wa_check_set = True\<rparr>"

definition sample_windows :: desktop_windows where
  "sample_windows = windows_registered sample_answers None (windows_created True [] 0)"

definition sample_window_events :: "(window_answers \<times> window_event) list" where
  "sample_window_events = map (\<lambda>e. (sample_answers, e))
     [WePublished 2, WeRead, WeDecide, WeAct, WeTraySync None, WeDelayOver 1, WeHitRegion True HmBoth, WePublished 0, WeRead, WeDecide, WeAct, WeTraySync None,
      WePetClose, WeTrayMenu (lit ''show'') True, WeDelayOver 3, WeDelayOver 5, WeMainThread 5]"

lemma sample_run: "undisturbed sample_window_events sample_windows" "at_rest (window_run sample_window_events sample_windows)"
  "dk_unread (window_run sample_window_events sample_windows) = 0"
  by code_simp+

theorem notification_window_settles_witness:
  "at_rest (window_run sample_window_events sample_windows)
    \<and> dk_notification (window_run sample_window_events sample_windows) = Some False"
proof -
  have "calls_succeed sample_answers" by (simp add: calls_succeed_def sample_answers_def)
  from notification_window_settles [OF this sample_windows_def sample_run(1) refl sample_run(2)] sample_run(2,3)
  show ?thesis by simp
qed

text \<open>
  Without that condition it can fail for good: the task has decided that the notifications be shown, the tray hides both windows, and the
  task then shows the notifications beside a hidden pet.
\<close>

definition race_events :: "(window_answers \<times> window_event) list" where
  "race_events = map (\<lambda>e. (sample_answers, e)) [WePublished 2, WeRead, WeDecide, WeTrayClick MouseLeft ButtonUp, WeAct,
     WeTraySync None, WeDelayOver 1]"

lemma tray_click_races_with_update:
  "at_rest (window_run race_events sample_windows)" "dk_pet (window_run race_events sample_windows) = Some False"
  "dk_unread (window_run race_events sample_windows) = 2" "dk_notification (window_run race_events sample_windows) = Some True"
  by code_simp+

section \<open>The place\<close>

text \<open>Coordinates of every display there is.\<close>

definition moderate :: "int \<Rightarrow> bool" where
  "moderate v \<longleftrightarrow> \<bar>v\<bar> \<le> 100000000"

lemma sat_i32_id: "- 2147483648 \<le> v \<Longrightarrow> v \<le> 2147483647 \<Longrightarrow> sat_i32 v = v"
  by (simp add: sat_i32_def clamp_def i32_max_def)

lemma i32_of_u32_id: "moderate (int n) \<Longrightarrow> i32_of_u32 n = int n"
  by (simp add: i32_of_u32_def i32_max_def moderate_def)

lemma sdiv_two_bounds: "\<bar>(v :: int) sdiv 2\<bar> \<le> \<bar>v\<bar>"
proof -
  have "\<bar>v\<bar> div 2 \<le> \<bar>v\<bar>" using zdiv_mono2 [of "\<bar>v\<bar>" 1 2] by simp
  then show ?thesis by (simp add: signed_divide_int_def abs_mult sgn_mult abs_sgn_eq)
qed

lemma clamp_bounds: "lo \<le> hi \<Longrightarrow> lo \<le> clamp lo hi v \<and> clamp lo hi v \<le> hi"
  by (simp add: clamp_def)

definition layout_moderate :: "layout_input \<Rightarrow> bool" where
  "layout_moderate i \<longleftrightarrow> moderate (fst (ly_pet_position i)) \<and> moderate (snd (ly_pet_position i))
     \<and> moderate (int (fst (ly_pet_size i))) \<and> moderate (int (snd (ly_pet_size i)))
     \<and> moderate (int (fst (ly_notification_size i))) \<and> moderate (int (snd (ly_notification_size i)))
     \<and> moderate (int (ly_pet_content_height i)) \<and> moderate (fst (ly_work_area_position i)) \<and> moderate (snd (ly_work_area_position i))
     \<and> moderate (int (fst (ly_work_area_size i))) \<and> moderate (int (snd (ly_work_area_size i))) \<and> moderate (ly_gap i)
     \<and> moderate (notification_shadow_inset (ly_scaled i))"

text \<open>The top of the pet's picture and its height, as the code computes them.\<close>

definition picture_height :: "layout_input \<Rightarrow> int" where
  "picture_height i = min (int (ly_pet_content_height i)) (int (snd (ly_pet_size i)))"

definition picture_top :: "layout_input \<Rightarrow> int" where
  "picture_top i = snd (ly_pet_position i) + (int (snd (ly_pet_size i)) - picture_height i) sdiv 2"

lemma picture_in_range:
  assumes "layout_moderate i"
  shows "sat_i32 (snd (ly_pet_position i) + sat_i32 (i32_of_u32 (snd (ly_pet_size i)) - min (i32_of_u32 (ly_pet_content_height i)) (i32_of_u32 (snd (ly_pet_size i)))) sdiv 2)
      = picture_top i" "\<bar>picture_top i\<bar> \<le> 300000000"
proof -
  let ?h = "int (snd (ly_pet_size i)) - picture_height i"
  have m: "moderate (snd (ly_pet_position i))" "moderate (int (snd (ly_pet_size i)))" "moderate (int (ly_pet_content_height i))"
    using assms by (simp_all add: layout_moderate_def)
  then have "\<bar>?h\<bar> \<le> 100000000" by (auto simp: moderate_def picture_height_def)
  then have "sat_i32 ?h = ?h" "\<bar>?h sdiv 2\<bar> \<le> 100000000" using sdiv_two_bounds [of ?h] by (auto intro: sat_i32_id)
  with m show "\<bar>picture_top i\<bar> \<le> 300000000"
    "sat_i32 (snd (ly_pet_position i) + sat_i32 (i32_of_u32 (snd (ly_pet_size i)) - min (i32_of_u32 (ly_pet_content_height i)) (i32_of_u32 (snd (ly_pet_size i)))) sdiv 2) = picture_top i"
    by (auto simp: i32_of_u32_id picture_height_def [symmetric] picture_top_def moderate_def intro!: sat_i32_id)
qed

text \<open>Without saturation, the layout is the intended one.\<close>

lemma layout_exact:
  assumes "layout_moderate i" "0 \<le> ly_gap i"
    and "int (fst (ly_notification_size i)) \<le> int (fst (ly_work_area_size i))"
    and "int (snd (ly_notification_size i)) \<le> int (snd (ly_work_area_size i))"
    and "min_x = fst (ly_work_area_position i)" "max_x = min_x + int (fst (ly_work_area_size i)) - int (fst (ly_notification_size i))"
    and "min_y = snd (ly_work_area_position i)" "max_y = min_y + int (snd (ly_work_area_size i)) - int (snd (ly_notification_size i))"
    and "upper = picture_top i - int (snd (ly_notification_size i)) - ly_gap i + notification_shadow_inset (ly_scaled i)"
    and "lower = picture_top i + picture_height i + ly_gap i - notification_shadow_inset (ly_scaled i)"
    and "c = fst (ly_pet_position i) + (int (fst (ly_pet_size i)) - int (fst (ly_notification_size i))) sdiv 2"
  shows "notification_window_layout i = (if min_y \<le> upper then ((clamp min_x max_x c, upper), PlacedAbove)
    else if lower \<le> max_y then ((clamp min_x max_x c, lower), PlacedBelow)
    else ((clamp min_x max_x c, clamp min_y max_y upper), PlacedAbove))"
proof -
  have m: "moderate (int (fst (ly_notification_size i)))" "moderate (int (snd (ly_notification_size i)))"
    "moderate min_x" "moderate min_y" "moderate (int (fst (ly_work_area_size i)))" "moderate (int (snd (ly_work_area_size i)))"
    "moderate (ly_gap i)" "moderate (notification_shadow_inset (ly_scaled i))"
    "moderate (int (snd (ly_pet_size i)))" "moderate (int (ly_pet_content_height i))"
    "moderate (fst (ly_pet_position i))" "moderate (int (fst (ly_pet_size i)))"
    using assms(1,5,7) by (simp_all add: layout_moderate_def)
  let ?w = "int (fst (ly_pet_size i)) - int (fst (ly_notification_size i))"
  have "\<bar>?w\<bar> \<le> 100000000" using m(1,12) by (auto simp: moderate_def)
  then have "sat_i32 ?w = ?w" "\<bar>?w sdiv 2\<bar> \<le> 100000000" using sdiv_two_bounds [of ?w] by (auto intro: sat_i32_id)
  then have centre: "sat_i32 (fst (ly_pet_position i) + sat_i32 (i32_of_u32 (fst (ly_pet_size i)) - i32_of_u32 (fst (ly_notification_size i))) sdiv 2) = c"
    using m(1,11,12) assms(11) by (auto simp: i32_of_u32_id moderate_def intro!: sat_i32_id)
  have top: "\<bar>picture_top i\<bar> \<le> 300000000" by (rule picture_in_range(2) [OF assms(1)])
  have height: "min (i32_of_u32 (ly_pet_content_height i)) (i32_of_u32 (snd (ly_pet_size i))) = picture_height i"
    "\<bar>picture_height i\<bar> \<le> 100000000"
    using m(9,10) by (auto simp: i32_of_u32_id picture_height_def moderate_def)
  have sat: "sat_i32 (sat_i32 (min_x + i32_of_u32 (fst (ly_work_area_size i))) - i32_of_u32 (fst (ly_notification_size i))) = max_x"
    "sat_i32 (sat_i32 (min_y + i32_of_u32 (snd (ly_work_area_size i))) - i32_of_u32 (snd (ly_notification_size i))) = max_y"
    "sat_i32 (sat_i32 (sat_i32 (picture_top i - i32_of_u32 (snd (ly_notification_size i))) - ly_gap i)
       + notification_shadow_inset (ly_scaled i)) = upper"
    "sat_i32 (sat_i32 (sat_i32 (picture_top i + picture_height i) + ly_gap i) - notification_shadow_inset (ly_scaled i)) = lower"
    using m(1-10) top height(2) assms(6,8,9,10) by (simp_all add: i32_of_u32_id moderate_def sat_i32_id)
  have "max max_x min_x = max_x" "max max_y min_y = max_y" using assms(3,4,6,8) by simp_all
  with sat height(1) picture_in_range(1) [OF assms(1)] centre show ?thesis
    unfolding notification_window_layout_def Let_def assms(5) [symmetric] assms(7) [symmetric] by auto
qed

text \<open>
  C28. The notification window stays on the display. If the pet's picture lies vertically in the work area and
  the window fits into it, the computed place keeps the whole window inside the work area. Horizontally it is
  centred on the pet as far as the work area allows. Vertically, the place above the picture (down to the inset
  of its shadow) is taken whenever it has room; only otherwise the place below, when that has room; and when
  neither has, the window starts at the top of the work area. No sum overflows for coordinates of up
  to a hundred million.
\<close>

theorem notification_window_on_display:
  assumes "layout_moderate i" "0 \<le> ly_gap i" "notification_shadow_inset (ly_scaled i) \<le> picture_height i"
    and "width = int (fst (ly_notification_size i))" "height = int (snd (ly_notification_size i))"
    and "width \<le> int (fst (ly_work_area_size i))" "height \<le> int (snd (ly_work_area_size i))"
    and "left = fst (ly_work_area_position i)" "right = left + int (fst (ly_work_area_size i))"
    and "roof = snd (ly_work_area_position i)" "floor_y = roof + int (snd (ly_work_area_size i))"
    and "roof \<le> picture_top i" "picture_top i + picture_height i \<le> floor_y"
    and "notification_window_layout i = ((x, y), placement)"
    and "upper = picture_top i + notification_shadow_inset (ly_scaled i) - ly_gap i"
    and "lower = picture_top i + picture_height i + ly_gap i - notification_shadow_inset (ly_scaled i)"
  shows "left \<le> x \<and> x + width \<le> right \<and> roof \<le> y \<and> y + height \<le> floor_y
    \<and> x = clamp left (right - width) (fst (ly_pet_position i) + (int (fst (ly_pet_size i)) - width) sdiv 2)
    \<and> (if roof \<le> upper - height then placement = PlacedAbove \<and> y + height = upper
       else if lower + height \<le> floor_y then placement = PlacedBelow \<and> y = lower
       else placement = PlacedAbove \<and> y = roof)"
proof -
  let ?c = "fst (ly_pet_position i) + (int (fst (ly_pet_size i)) - width) sdiv 2"
  have l: "notification_window_layout i
    = (if roof \<le> upper - height then ((clamp left (right - width) ?c, upper - height), PlacedAbove)
       else if lower \<le> floor_y - height then ((clamp left (right - width) ?c, lower), PlacedBelow)
       else ((clamp left (right - width) ?c, clamp roof (floor_y - height) (upper - height)), PlacedAbove))"
    using assms(4,5,6,7,9,11,15) by (intro layout_exact [OF assms(1,2)]) (simp_all add: assms(8,10,16))
  have "left \<le> right - width" "roof \<le> floor_y - height" using assms(6,7,9,11) by simp_all
  moreover have "clamp roof (floor_y - height) (upper - height) = roof" if "\<not> roof \<le> upper - height"
    using that \<open>roof \<le> floor_y - height\<close> by (simp add: clamp_def)
  ultimately show ?thesis
    using clamp_bounds [of left "right - width" ?c] l assms(2,3,12-16) by (auto split: if_splits)
qed

definition sample_layout :: layout_input where
  "sample_layout = the (pet_layout_input sample_answers)"

theorem notification_window_on_display_witness:
  "notification_window_layout sample_layout = ((800, 430), PlacedAbove) \<and> layout_moderate sample_layout
    \<and> (430 :: int) + 158 \<le> 1080"
proof -
  have l: "sample_layout = \<lparr>ly_pet_position = (800, 500), ly_pet_size = (320, 360), ly_notification_size = (320, 158),
      ly_pet_content_height = 208, ly_work_area_position = (0, 0), ly_work_area_size = (1920, 1080), ly_gap = 0, ly_scaled = id\<rparr>"
    by (simp add: sample_layout_def pet_layout_input_def sample_answers_def logical_dimension_to_physical_def clamp_def u32_max_def
        i32_max_def notification_window_width_def notification_window_height_def pet_sprite_logical_height_def notification_window_gap_def)
  have at: "notification_window_layout sample_layout = ((800, 430), PlacedAbove)" by (simp only: l) code_simp
  have m: "layout_moderate sample_layout" "notification_shadow_inset (ly_scaled sample_layout) \<le> picture_height sample_layout"
    "picture_top sample_layout = 576" "picture_height sample_layout = 208"
    by (simp_all only: l) code_simp+
  from notification_window_on_display [OF m(1) _ m(2) refl refl _ _ refl refl refl refl _ _ at refl refl] m at
  show ?thesis by (simp add: l)
qed

text \<open>
  A pet whose picture hangs over the bottom edge: the window itself may still be partly visible by the margin the shell keeps, but the
  notifications are placed over the edge too, since the place above is never limited from below.
\<close>

lemma low_pet_pushes_notifications_off:
  "notification_window_layout (sample_layout\<lparr>ly_pet_position := (800, 1080 - int default_visible_window_margin)\<rparr>)
    = ((800, 962), PlacedAbove)"
  "(1080 :: int) < 962 + int notification_window_height"
  by code_simp+

end
