(* ===== verification/Spec2Isabelle.thy ===== *)
theory Spec2Isabelle
  imports Notification_Cards Forwarding_Properties Spool_Guarantees Supervisor_Runs
    Pets_Properties App_Pets Codex_Properties App_Guarantees Ingestion_Guarantees
    Loopback_Properties Hook_Example Migration_Example Server_Example
    Hit_Properties Desktop_Properties
begin

text \<open>
  Lili is a desktop companion: a pet window that shows what a coding agent (Codex) is doing. Hooks of
  the agent start the program \<^verbatim>\<open>lili-hook\<close>, which normalizes what the agent reports, signs it and hands it
  to the running desktop, or stores it in a durable spool when the desktop does not answer. The desktop
  reduces the events to session state, persists it, shows it through a local web server and runs
  configured actions when the user reacts. This development models the parts of that path that decide
  something; each theory reads like the file it models, one definition per function.

  \<^bold>\<open>Parts and theories.\<close>

  \<^item> \<^verbatim>\<open>Lili_Prelude\<close>: strings as lists of scalar values with their UTF-8 bytes, saturating arithmetic,
    Rust results as sums (\<open>rbind\<close>, \<open>ok_or\<close>, \<open>check\<close>), sorted maps (\<open>bt_insert\<close>), and the interfaces:
    \<open>keyed_store\<close> (what a map promises), \<open>bounded_history\<close> (a memory that forgets the oldest entry) and
    \<open>invariant_system\<close> (an invariant of a step relation). Each is interpreted on the model's own
    operations where they are defined.
  \<^item> \<^verbatim>\<open>Lili_Core\<close>: \<^verbatim>\<open>lili-core\<close>, the presentation types, the appearance contract, redaction.
  \<^item> \<^verbatim>\<open>Session_Types\<close>, \<^verbatim>\<open>Normalization\<close>: \<^verbatim>\<open>lili-session/src/types.rs\<close> and \<^verbatim>\<open>normalization.rs\<close>.
  \<^item> \<^verbatim>\<open>Reducer_Model\<close> (\<^verbatim>\<open>reducer.rs\<close>) with \<^verbatim>\<open>Reducer_Invariants\<close>, \<^verbatim>\<open>Reducer_Properties\<close>,
    \<^verbatim>\<open>Reducer_Persistence\<close> and \<^verbatim>\<open>Notification_Cards\<close>: the session state machine, its invariant, duplicates,
    terminal turns, presentation, the identity of cards, the round trip of the persistent state.
  \<^item> \<^verbatim>\<open>Forwarding\<close>, \<^verbatim>\<open>Forwarding_Properties\<close>: \<^verbatim>\<open>forwarding.rs\<close>, the signed messages and the nonce memory.
  \<^item> \<^verbatim>\<open>Codex\<close>, \<^verbatim>\<open>Codex_Properties\<close>: \<^verbatim>\<open>codex.rs\<close>, the adapter from agent payloads to events, and what
    makes the diagnostics trust a plugin. \<^verbatim>\<open>Transport\<close>: the frame reader, credentials and evidence of
    \<^verbatim>\<open>transport.rs\<close>.
  \<^item> \<^verbatim>\<open>Storage\<close>: the tables and queries of \<^verbatim>\<open>lili-storage\<close> with the retention triggers of its migration.
    \<^verbatim>\<open>Spool\<close>, \<^verbatim>\<open>Spool_Properties\<close>, \<^verbatim>\<open>Spool_Runs\<close>, \<^verbatim>\<open>Spool_Retention\<close>, \<^verbatim>\<open>Spool_Steps\<close>,
    \<^verbatim>\<open>Spool_Guarantees\<close>: \<^verbatim>\<open>sqlite_spool.rs\<close> and \<^verbatim>\<open>spool.rs\<close>; accounting of every row, bounds, leases (also as a
    refinement of an abstract table of leases), retention order, the claim loop.
  \<^item> \<^verbatim>\<open>Actions\<close>, \<^verbatim>\<open>Action_Supervisor\<close>, \<^verbatim>\<open>Supervisor_Properties\<close>, \<^verbatim>\<open>Supervisor_Runs\<close>: \<^verbatim>\<open>lili-actions\<close>,
    loading of configurations, matching, admission, permits, title generation; the limits in every
    reachable state and that every task can end.
  \<^item> \<^verbatim>\<open>Pets\<close>, \<^verbatim>\<open>Pets_Properties\<close>: \<^verbatim>\<open>lili-pet\<close>, discovery and validation of pet packages, catalog, animation.
  \<^item> \<^verbatim>\<open>App_Pets\<close>, \<^verbatim>\<open>App_State\<close>, \<^verbatim>\<open>App_State_Properties\<close>, \<^verbatim>\<open>App_Durability\<close>, \<^verbatim>\<open>App_Runs\<close>,
    \<^verbatim>\<open>App_Guarantees\<close>: \<^verbatim>\<open>lili-app-state\<close>, the state behind the locks of \<^verbatim>\<open>AppState\<close>, its persistence, titles
    and interactions, and the running desktop as a step relation with crashes and restarts.
  \<^item> \<^verbatim>\<open>Ingestion\<close>, \<^verbatim>\<open>Native_Services\<close>, \<^verbatim>\<open>Ingestion_Properties\<close>, \<^verbatim>\<open>Ingestion_Guarantees\<close>: the ingestion actor
    (\<^verbatim>\<open>ingestion.rs\<close>) and the background services of \<^verbatim>\<open>lili/src/lib.rs\<close> (spool drain, connections); here
    forwarding, reducer, application state, storage and spool meet.
  \<^item> \<^verbatim>\<open>Loopback\<close>, \<^verbatim>\<open>Loopback_Properties\<close>: \<^verbatim>\<open>lili/src/loopback.rs\<close>, the signer and the middleware in front of
    the local web server.
  \<^item> \<^verbatim>\<open>Json\<close>, \<^verbatim>\<open>Integration\<close>, \<^verbatim>\<open>Integration_Install\<close>, \<^verbatim>\<open>Integration_Uninstall\<close>,
    \<^verbatim>\<open>Integration_Properties\<close>, \<^verbatim>\<open>Integration_Hooks\<close>, \<^verbatim>\<open>Integration_Round_Trip\<close>,
    \<^verbatim>\<open>Integration_Freed\<close>, \<^verbatim>\<open>Integration_Example\<close>: \<^verbatim>\<open>lili-integration\<close>, the inspection of a Codex home, the plan, its
    installation with roll-back, and its removal, which brings back what was there and leaves no handler of Lili.
  \<^item> \<^verbatim>\<open>Hook_Forwarder\<close>, \<^verbatim>\<open>Hook_Properties\<close>, \<^verbatim>\<open>Hook_Example\<close>: \<^verbatim>\<open>lili/src/hook_forwarder.rs\<close>, the program
    \<^verbatim>\<open>lili-hook\<close> from its command line to its exit code, composed with the desktop's connection handler.
  \<^item> \<^verbatim>\<open>Migration\<close>, \<^verbatim>\<open>Migration_Properties\<close>, \<^verbatim>\<open>Migration_Example\<close>: \<^verbatim>\<open>lili-integration/src/migration.rs\<close>, the move
    from the configured hooks to the Codex plugin: assessment, verification file, gated cleanup.
  \<^item> \<^verbatim>\<open>Carousel\<close>, \<^verbatim>\<open>Carousel_Properties\<close>: the state and event handlers of
    \<^verbatim>\<open>lili-ui/src/notification_carousel.rs\<close>, which cards the pet window shows.
  \<^item> \<^verbatim>\<open>Local_Server\<close>, \<^verbatim>\<open>Server_Properties\<close>, \<^verbatim>\<open>Server_Example\<close>: \<^verbatim>\<open>lili-server/src/lib.rs\<close>, the
    router and its handlers behind the middleware of \<^verbatim>\<open>Loopback\<close>, and the stream that tells the windows what to show.

  \<^item> \<^verbatim>\<open>Hit_Regions\<close>, \<^verbatim>\<open>Hit_Properties\<close>: \<^verbatim>\<open>notification_hit_region.rs\<close> and \<^verbatim>\<open>pet_hit_region.rs\<close> of \<^verbatim>\<open>lili/src\<close>, which
    parts of the transparent windows take clicks.
  \<^item> \<^verbatim>\<open>Desktop_Windows\<close>, \<^verbatim>\<open>Desktop_Properties\<close>: the windows of \<^verbatim>\<open>lili/src/lib.rs\<close>: where the notification window goes
    and when it is shown, the tray and the menu of the pet, the position of the pet and its dragging.

  \<^bold>\<open>How the code is modelled.\<close> A struct is a record, an enum a datatype, a method a function from the
  state to its result and the new state. Every \<^verbatim>\<open>Err\<close> and early return is a branch of a sum; a panic
  (\<^verbatim>\<open>expect\<close>, an arithmetic overflow) is \<open>None\<close>. What lies outside the repository is an argument: SHA-256 and
  HMAC, the JSON and TOML libraries, clocks, randomness, the answers of the file system, the rows SQLite
  picks where SQL leaves the order open, what a child process did. A database call that may fail is a
  boolean of the step. The file operations of the installer act on an explicit disk, and each may succeed,
  fail, or fail after its effect. Concurrent parts are step relations over the shared state; the actor
  handles one command at a time, as its channel does.

  \<^bold>\<open>Loops.\<close> The claim loop of the spool is total: the number of pending rows drops with every row it
  discards. The drain is unfolded over a list of turns (clock readings and answers); \<open>drain_ends\<close> shows
  that more turns than rows are always enough, and why the last turn of such a run stopped. Everything else recurses on data.

  \<^bold>\<open>What the properties show.\<close> Sessions: a terminal turn stays terminal, redelivery changes nothing, titles
  land on the card they were made for, the state survives persistence. Application: a change happens in
  memory and on disk or not at all, and the database is never ahead of the memory. Ingestion: an acknowledgement
  or a deletion from the spool means the event is on disk. Forwarding and the local server: only
  authenticated messages are accepted, and not twice while they are remembered. Spool: no row is lost
  without being counted, leases exclude each other, bounds hold, and the triggers of the database drop what the
  loop of the store would. Actions: exactly the valid entries of a configuration are enabled, limits hold, all
  tasks can end. Integration: a failed installation restores the files it touched unless the disk fails while it does, and a
  removal undoes an installation. Hook: a success means the event is on disk somewhere, unless it is the success of
  coexistence, which names the failure it suppressed and has started the user's own command. Migration: the
  old hooks go only after an authenticated verification, and then none of them is left. Carousel: two
  neighbouring cards are visible, removals keep the rest in view, and focus brings a card into view. Server: whatever
  changes anything was signed, a dismissal answers what happened, and no update of the windows is lost. Windows: at rest
  the notifications are shown exactly beside a visible pet with something unread, they stay on the display of a pet that does, and what is
  visible can be clicked. Some theorems record
  where the code falls short: a late completion of a superseded turn blocks the drain, a
  message dated ahead and a request signed late in a second can be replayed, a row
  dropped at insertion is reported as a database error, a jump can leave no card in the foreground, of two
  overlapping publications the older state can win, a click on the tray can cross an update of the windows, and a pet over the bottom
  edge takes its notifications along.

  \<^bold>\<open>Not modelled.\<close> Building the windows and menus (in \<^verbatim>\<open>lili/src\<close>), the popup of the context menu, and rendering (\<^verbatim>\<open>lili-ui\<close> apart from the state of the carousel): platform
  calls and floating-point layout. The connection
  set-up and access rights of \<^verbatim>\<open>lili-storage\<close>, process trees (\<^verbatim>\<open>execution.rs\<close>), sockets and pipes: operating-system
  calls. The file spool of \<^verbatim>\<open>spool.rs\<close>, replaced by the SQLite spool. Test drivers and fuzz
  targets.
\<close>

end
